(* ===== verification/Prelude.thy ===== *)
theory Prelude
  imports Complex_Main "HOL-Library.Word" "HOL-Library.Multiset"
begin

text \<open>
  Shared vocabulary of the development. The gateway's backend is a Go program, so every
  theory speaks about the same few Go notions: signed 64-bit integers, pointers that may
  be nil, maps, and results that carry an error. This theory fixes how they are written:
  \<^item> an \<open>int\<close> or \<open>int64\<close> of the program is a HOL integer, and each addition,
    subtraction, multiplication or conversion that can leave the 64-bit range is wrapped by
    \<open>i64\<close>;
  \<^item> a pointer that may be nil is an \<open>option\<close>;
  \<^item> a map is an association list with distinct keys, because the program iterates over its
    maps and the properties state that the iteration order does not matter;
  \<^item> a function with an error result returns a sum, the error on the left.
  It also declares the collections that the proofs of the component theories use.
\<close>

named_theorems model_simps "equations that unfold the model's small accessors"
named_theorems inv_intros "introduction rules for the invariants of the components"

type_synonym goint = int
type_synonym 'v gomap = "(string \<times> 'v) list"

section \<open>Results with an error\<close>

text \<open>\<open>x, err := f(); if err != nil { return err }\<close>.\<close>

fun and_then :: "'e + 'a \<Rightarrow> ('a \<Rightarrow> 'e + 'b) \<Rightarrow> 'e + 'b" where
  "and_then (Inl e) k = Inl e"
| "and_then (Inr x) k = k x"

lemma and_then_Inr: "and_then r k = Inr y \<longleftrightarrow> (\<exists>x. r = Inr x \<and> k x = Inr y)"
  by (cases r) auto

definition of_option :: "'e \<Rightarrow> 'a option \<Rightarrow> 'e + 'a" where
  "of_option e x = (case x of None \<Rightarrow> Inl e | Some y \<Rightarrow> Inr y)"

lemma of_option_simps [simp]: "of_option e None = Inl e" "of_option e (Some y) = Inr y"
  by (simp_all add: of_option_def)

section \<open>Signed 64-bit integers\<close>

definition i64_min :: int where
  "i64_min = - (2 ^ 63)"

definition i64_max :: int where
  "i64_max = 2 ^ 63 - 1"

definition in_i64 :: "int \<Rightarrow> bool" where
  "in_i64 x \<longleftrightarrow> i64_min \<le> x \<and> x \<le> i64_max"

text \<open>Two's complement wrap-around, the meaning of Go's arithmetic on \<open>int64\<close>.\<close>

definition i64 :: "int \<Rightarrow> int" where
  "i64 x = (x + 2 ^ 63) mod 2 ^ 64 - 2 ^ 63"

lemma i64_in_range [simp, intro]: "in_i64 (i64 x)"
proof -
  have "0 \<le> (x + 2 ^ 63) mod 2 ^ 64" and "(x + 2 ^ 63) mod 2 ^ 64 < (2 :: int) ^ 64"
    by simp_all
  then show ?thesis by (simp add: in_i64_def i64_def i64_min_def i64_max_def)
qed

lemma i64_id: "in_i64 x \<Longrightarrow> i64 x = x"
  by (simp add: in_i64_def i64_def i64_min_def i64_max_def)

lemma i64_small: "\<bar>x\<bar> < 2 ^ 62 \<Longrightarrow> i64 x = x"
  by (rule i64_id) (auto simp: in_i64_def i64_min_def i64_max_def)

text \<open>The wrapped value agrees with the signed reading of a 64-bit word.\<close>

lemma i64_sint: "i64 x = sint (word_of_int x :: 64 word)"
  by (simp add: i64_def int_word_sint)

section \<open>Go's integer division truncates towards zero\<close>

definition go_div :: "int \<Rightarrow> int \<Rightarrow> int" where
  "go_div a b = sgn a * sgn b * (\<bar>a\<bar> div \<bar>b\<bar>)"

definition go_mod :: "int \<Rightarrow> int \<Rightarrow> int" where
  "go_mod a b = a - b * go_div a b"

lemma go_div_nonneg: "0 \<le> a \<Longrightarrow> 0 < b \<Longrightarrow> go_div a b = a div b"
  by (cases "a = 0") (auto simp: go_div_def)

lemma go_mod_nonneg: "0 \<le> a \<Longrightarrow> 0 < b \<Longrightarrow> go_mod a b = a mod b"
  by (simp add: go_mod_def go_div_nonneg minus_mult_div_eq_mod)

section \<open>sort.Slice\<close>

text \<open>
  Sorting with a \<open>less\<close> function. The library sorts in an order that the documentation
  leaves open among equal elements; this is the stable result, and where a component relies
  on the outcome it is shown that the order among equals does not matter.
\<close>

fun insert_by :: "('a \<Rightarrow> 'a \<Rightarrow> bool) \<Rightarrow> 'a \<Rightarrow> 'a list \<Rightarrow> 'a list" where
  "insert_by lt x [] = [x]"
| "insert_by lt x (y # ys) = (if lt y x then y # insert_by lt x ys else x # y # ys)"

fun sort_by :: "('a \<Rightarrow> 'a \<Rightarrow> bool) \<Rightarrow> 'a list \<Rightarrow> 'a list" where
  "sort_by lt [] = []"
| "sort_by lt (x # xs) = insert_by lt x (sort_by lt xs)"

lemma mset_insert_by [simp]: "mset (insert_by lt x xs) = add_mset x (mset xs)"
  by (induction xs) auto

lemma mset_sort_by [simp]: "mset (sort_by lt xs) = mset xs"
  by (induction xs) auto

lemma set_sort_by [simp]: "set (sort_by lt xs) = set xs"
  by (metis mset_sort_by set_mset_mset)

lemma length_sort_by [simp]: "length (sort_by lt xs) = length xs"
  by (metis mset_sort_by size_mset)

lemma sort_by_Nil_iff [simp]: "sort_by lt xs = [] \<longleftrightarrow> xs = []"
  by (metis length_0_conv length_sort_by)

text \<open>A strict weak order, which is what the library asks of \<open>less\<close>.\<close>

lemma sorted_wrt_mset_unique:
  assumes "sorted_wrt P xs" and "sorted_wrt P ys" and "mset xs = mset ys"
    and "\<And>x y. x \<in> set xs \<Longrightarrow> y \<in> set xs \<Longrightarrow> P x y \<Longrightarrow> P y x \<Longrightarrow> x = y"
  shows "xs = ys"
  using assms
proof (induction xs arbitrary: ys)
  case (Cons x xs)
  then obtain y ys' where ys: "ys = y # ys'" by (cases ys) auto
  have "set (x # xs) = set (y # ys')" using Cons.prems(3) ys by (metis set_mset_mset)
  then have "x = y \<or> (x \<in> set ys' \<and> y \<in> set xs)" by auto
  then have "x = y" using Cons.prems(1,2,4) ys by auto
  with Cons show ?case by (auto simp: ys)
qed simp

locale strict_weak =
  fixes lt :: "'a \<Rightarrow> 'a \<Rightarrow> bool"
  assumes asym: "lt x y \<Longrightarrow> \<not> lt y x"
    and neg_trans: "\<not> lt y x \<Longrightarrow> \<not> lt z y \<Longrightarrow> \<not> lt z x"
begin

lemma set_insert_by: "set (insert_by lt x xs) = insert x (set xs)"
  by (metis mset_insert_by set_mset_add_mset_insert set_mset_mset)

lemma sorted_insert_by:
  "sorted_wrt (\<lambda>a b. \<not> lt b a) xs \<Longrightarrow> sorted_wrt (\<lambda>a b. \<not> lt b a) (insert_by lt x xs)"
proof (induction xs)
  case (Cons a xs)
  then show ?case
    using neg_trans [of a x] by (auto simp: set_insert_by dest: asym)
qed simp

lemma sorted_sort_by: "sorted_wrt (\<lambda>a b. \<not> lt b a) (sort_by lt xs)"
  by (induction xs) (auto intro: sorted_insert_by)

text \<open>The head of the sorted list is a least element.\<close>

lemma hd_sort_by_least: "xs \<noteq> [] \<Longrightarrow> y \<in> set xs \<Longrightarrow> \<not> lt y (hd (sort_by lt xs))"
proof -
  assume "xs \<noteq> []" and y: "y \<in> set xs"
  then obtain h t where s: "sort_by lt xs = h # t" by (cases "sort_by lt xs") auto
  have "y \<in> set (h # t)" using y by (simp flip: s)
  moreover have "\<not> lt h h" using asym by blast
  ultimately show ?thesis using sorted_sort_by [of xs] by (auto simp: s)
qed

lemma hd_sort_by_mem: "xs \<noteq> [] \<Longrightarrow> hd (sort_by lt xs) \<in> set xs"
  by (metis hd_in_set set_sort_by sort_by_Nil_iff)

lemma sort_by_unique:
  assumes "mset xs = mset ys"
    and "\<And>x y. x \<in> set xs \<Longrightarrow> y \<in> set xs \<Longrightarrow> \<not> lt x y \<Longrightarrow> \<not> lt y x \<Longrightarrow> x = y"
  shows "sort_by lt xs = sort_by lt ys"
  using assms by (intro sorted_wrt_mset_unique [OF sorted_sort_by sorted_sort_by]) auto

text \<open>With a unique least element the result does not depend on the order of the input.\<close>

lemma hd_sort_by_unique:
  assumes "set xs = set ys" and "xs \<noteq> []"
    and "\<And>x y. x \<in> set xs \<Longrightarrow> y \<in> set xs \<Longrightarrow> \<not> lt x y \<Longrightarrow> \<not> lt y x \<Longrightarrow> x = y"
  shows "hd (sort_by lt xs) = hd (sort_by lt ys)"
proof -
  have "ys \<noteq> []" using assms(1,2) by auto
  then show ?thesis
    using assms hd_sort_by_mem [of xs] hd_sort_by_mem [of ys]
      hd_sort_by_least [of xs "hd (sort_by lt ys)"] hd_sort_by_least [of ys "hd (sort_by lt xs)"]
    by metis
qed

end

end
