(* ===== verification/GoFloat.thy ===== *)
theory GoFloat
  imports Prelude
begin

text \<open>
  Go's \<open>float64\<close>. Prices, costs, quotas and usage counters of the program are
  \<open>float64\<close> values, so every sum and product is rounded. A value is a finite rational, one
  of the two infinities or not-a-number; an operation computes the exact rational result
  and rounds it to the nearest value of the IEEE-754 binary64 format, ties to even, with
  gradual underflow below \<open>2 ^ -1022\<close> and overflow to an infinity above the largest
  finite value. The one thing left out is the sign of zero, which no comparison, sum or
  product of the modelled code can observe.
\<close>

section \<open>Powers of two and binary exponents\<close>

definition pow2 :: "int \<Rightarrow> rat" where
  "pow2 e = (if 0 \<le> e then 2 ^ nat e else 1 / 2 ^ nat (- e))"

lemma pow2_pos [simp]: "0 < pow2 e"
  by (simp add: pow2_def)

lemma pow2_nonneg [simp]: "0 \<le> pow2 e"
  using pow2_pos [of e] by (rule less_imp_le)

lemma pow2_nonzero [simp]: "pow2 e \<noteq> 0"
  using pow2_pos [of e] by linarith

lemma pow2_powi: "pow2 e = 2 powi e"
  by (auto simp: pow2_def power_int_def field_simps)

lemma pow2_add: "pow2 (a + b) = pow2 a * pow2 b"
  by (simp add: pow2_powi power_int_add)

lemma pow2_mono: "a \<le> b \<Longrightarrow> pow2 a \<le> pow2 b"
  by (simp add: pow2_powi power_int_increasing)

lemma pow2_0 [simp]: "pow2 0 = 1" and pow2_1 [simp]: "pow2 1 = 2"
  by (simp_all add: pow2_def)

lemma pow2_nat: "pow2 (int n) = 2 ^ n"
  by (simp add: pow2_def)

lemma pow2_minus: "pow2 (- e) = 1 / pow2 e"
  by (simp add: pow2_powi power_int_minus_divide)

text \<open>The floor of the binary logarithm, on integers and on positive rationals.\<close>

function ilog2n :: "int \<Rightarrow> nat" where
  "ilog2n n = (if n < 2 then 0 else Suc (ilog2n (n div 2)))"
  by pat_completeness auto
termination
  by (relation "measure nat") auto

declare ilog2n.simps [simp del]

lemma ilog2n_bounds: "0 < n \<Longrightarrow> 2 ^ ilog2n n \<le> n \<and> n < 2 ^ Suc (ilog2n n)"
proof (induction n rule: ilog2n.induct)
  case (1 n)
  show ?case
  proof (cases "n < 2")
    case True
    with "1.prems" show ?thesis by (subst (1 2) ilog2n.simps) simp
  next
    case False
    with "1.IH" have "2 ^ ilog2n (n div 2) \<le> n div 2" "n div 2 < 2 ^ Suc (ilog2n (n div 2))"
      by simp_all
    then have "2 * 2 ^ ilog2n (n div 2) \<le> n" "n < 2 * 2 ^ Suc (ilog2n (n div 2))"
      by linarith+
    with False show ?thesis by (subst (1 2) ilog2n.simps) simp
  qed
qed

lemma ilog2n_bounds_rat:
  assumes "0 < n"
  shows "(2 :: rat) ^ ilog2n n \<le> of_int n" and "of_int n + 1 \<le> (2 :: rat) ^ Suc (ilog2n n)"
proof -
  note b = ilog2n_bounds [OF assms]
  show "(2 :: rat) ^ ilog2n n \<le> of_int n"
    using b of_int_le_iff [of "2 ^ ilog2n n" n, where ?'a = rat] by simp
  have "n + 1 \<le> 2 ^ Suc (ilog2n n)" using b by simp
  then have "(of_int (n + 1) :: rat) \<le> of_int (2 ^ Suc (ilog2n n))" by (simp only: of_int_le_iff)
  then show "of_int n + 1 \<le> (2 :: rat) ^ Suc (ilog2n n)" by simp
qed

definition ilog2 :: "rat \<Rightarrow> int" where
  "ilog2 x =
     (if 1 \<le> x then int (ilog2n \<lfloor>x\<rfloor>)
      else (let n = \<lceil>1 / x\<rceil> in - int (if n \<le> 1 then 0 else Suc (ilog2n (n - 1)))))"

lemma ilog2_bounds_ge1:
  assumes "1 \<le> x"
  shows "pow2 (ilog2 x) \<le> x \<and> x < pow2 (ilog2 x + 1)"
proof -
  have "0 < \<lfloor>x\<rfloor>" using assms by (simp add: less_floor_iff)
  note b = ilog2n_bounds_rat [OF this]
  have "2 ^ ilog2n \<lfloor>x\<rfloor> \<le> x" and "x < 2 ^ Suc (ilog2n \<lfloor>x\<rfloor>)"
    using b by linarith+
  then show ?thesis
    using assms by (simp add: ilog2_def pow2_add pow2_nat)
qed

lemma ilog2_bounds_lt1:
  assumes "0 < x" and "x < 1"
  shows "pow2 (ilog2 x) \<le> x \<and> x < pow2 (ilog2 x + 1)"
proof -
  define n where "n = \<lceil>1 / x\<rceil>"
  have gt: "1 < 1 / x" using assms by simp
  then have n: "1 < n" "1 / x \<le> of_int n" "of_int n - 1 < 1 / x"
    by (auto simp: n_def less_ceiling_iff) linarith
  define k where "k = ilog2n (n - 1)"
  have "0 < n - 1" using n(1) by simp
  note b = ilog2n_bounds_rat [OF this, folded k_def]
  have e: "ilog2 x = - int (Suc k)"
    using n(1) assms by (simp add: ilog2_def k_def flip: n_def)
  have "1 / x \<le> 2 ^ Suc k" and "2 ^ k < 1 / x"
    using b n by (simp_all only: of_int_diff of_int_1)
  then have "1 / 2 ^ Suc k \<le> x" and "x < 1 / 2 ^ k"
    using assms(1) by (simp_all add: field_simps)
  moreover have "ilog2 x + 1 = - int k" by (simp add: e)
  ultimately show ?thesis
    by (simp only: e pow2_minus pow2_nat)
qed

lemma ilog2_bounds: "0 < x \<Longrightarrow> pow2 (ilog2 x) \<le> x \<and> x < pow2 (ilog2 x + 1)"
  by (cases "1 \<le> x") (auto simp: ilog2_bounds_ge1 ilog2_bounds_lt1)

lemma pow2_strict_mono_iff: "pow2 a < pow2 b \<longleftrightarrow> a < b"
proof
  show "pow2 a < pow2 b \<Longrightarrow> a < b"
    using pow2_mono [of b a] by linarith
next
  assume "a < b"
  then have "pow2 (a + 1) \<le> pow2 b" by (simp add: pow2_mono)
  moreover have "pow2 a < pow2 (a + 1)" by (simp add: pow2_add)
  ultimately show "pow2 a < pow2 b" by linarith
qed

lemma ilog2_unique:
  assumes "0 < x" and "pow2 e \<le> x" and "x < pow2 (e + 1)"
  shows "ilog2 x = e"
proof -
  note b = ilog2_bounds [OF assms(1)]
  have "pow2 (ilog2 x) < pow2 (e + 1)" "pow2 e < pow2 (ilog2 x + 1)"
    using b assms(2,3) by linarith+
  then show ?thesis by (simp add: pow2_strict_mono_iff)
qed

lemma ilog2_mono: "0 < x \<Longrightarrow> x \<le> y \<Longrightarrow> ilog2 x \<le> ilog2 y"
proof -
  assume "0 < x" and "x \<le> y"
  with ilog2_bounds [of x] ilog2_bounds [of y]
  have "pow2 (ilog2 x) < pow2 (ilog2 y + 1)" by linarith
  then show ?thesis by (simp add: pow2_strict_mono_iff)
qed

section \<open>Rounding to the nearest binary64 value\<close>

definition round_even :: "rat \<Rightarrow> int" where
  "round_even q =
     (let f = \<lfloor>q\<rfloor>; r = q - of_int f in
      if r < 1 / 2 then f else if 1 / 2 < r then f + 1 else if even f then f else f + 1)"

lemma round_even_of_int [simp]: "round_even (of_int n) = n"
  by (simp add: round_even_def)

lemma round_even_mono: "p \<le> q \<Longrightarrow> round_even p \<le> round_even q"
proof -
  assume le: "p \<le> q"
  then have "\<lfloor>p\<rfloor> \<le> \<lfloor>q\<rfloor>" by (rule floor_mono)
  then consider "\<lfloor>p\<rfloor> = \<lfloor>q\<rfloor>" | "\<lfloor>p\<rfloor> + 1 \<le> \<lfloor>q\<rfloor>" by linarith
  then show ?thesis
    using le by cases (auto simp: round_even_def Let_def)
qed

text \<open>The spacing of the format at the magnitude of \<open>x\<close>, and the rounding of \<open>x > 0\<close>.\<close>

definition ulp_exp :: "rat \<Rightarrow> int" where
  "ulp_exp x = max (ilog2 x - 52) (- 1074)"

definition rnd_pos :: "rat \<Rightarrow> rat" where
  "rnd_pos x = of_int (round_even (x / pow2 (ulp_exp x))) * pow2 (ulp_exp x)"

definition rnd :: "rat \<Rightarrow> rat" where
  "rnd x = (if x = 0 then 0 else if 0 < x then rnd_pos x else - rnd_pos (- x))"

lemma ulp_exp_mono: "0 < x \<Longrightarrow> x \<le> y \<Longrightarrow> ulp_exp x \<le> ulp_exp y"
  using ilog2_mono [of x y] by (simp add: ulp_exp_def)

lemma rnd_pos_ge_pow2:
  assumes "0 < x" and "ulp_exp x \<le> k" and "pow2 k \<le> x"
  shows "pow2 k \<le> rnd_pos x"
proof -
  define u where "u = ulp_exp x"
  obtain n where n: "k = u + int n"
    using assms(2) by (auto simp: u_def dest: zle_iff_zadd [THEN iffD1])
  have "of_int (2 ^ n) \<le> x / pow2 u"
    using assms(3) by (simp add: n pow2_add pow2_nat field_simps)
  then have "2 ^ n \<le> round_even (x / pow2 u)"
    using round_even_mono [of "of_int (2 ^ n)" "x / pow2 u"] by (simp only: round_even_of_int)
  then have "(2 :: rat) ^ n \<le> of_int (round_even (x / pow2 u))"
    using of_int_le_iff [of "2 ^ n" "round_even (x / pow2 u)", where ?'a = rat] by simp
  then show ?thesis
    by (simp add: rnd_pos_def n pow2_add pow2_nat mult_right_mono mult.commute flip: u_def)
qed

lemma rnd_pos_le_pow2:
  assumes "0 < x" and "ulp_exp x \<le> k" and "x \<le> pow2 k"
  shows "rnd_pos x \<le> pow2 k"
proof -
  define u where "u = ulp_exp x"
  obtain n where n: "k = u + int n"
    using assms(2) by (auto simp: u_def dest: zle_iff_zadd [THEN iffD1])
  have "x / pow2 u \<le> of_int (2 ^ n)"
    using assms(3) by (simp add: n pow2_add pow2_nat field_simps)
  then have "round_even (x / pow2 u) \<le> 2 ^ n"
    using round_even_mono [of "x / pow2 u" "of_int (2 ^ n)"] by (simp only: round_even_of_int)
  then have "of_int (round_even (x / pow2 u)) \<le> (2 :: rat) ^ n"
    using of_int_le_iff [of "round_even (x / pow2 u)" "2 ^ n", where ?'a = rat] by simp
  then show ?thesis
    by (simp add: rnd_pos_def n pow2_add pow2_nat mult_right_mono mult.commute flip: u_def)
qed

lemma rnd_pos_nonneg: "0 < x \<Longrightarrow> 0 \<le> rnd_pos x"
proof -
  assume "0 < x"
  then have "round_even (of_int 0) \<le> round_even (x / pow2 (ulp_exp x))"
    by (intro round_even_mono) (simp add: divide_nonneg_pos)
  then have "0 \<le> round_even (x / pow2 (ulp_exp x))"
    by (simp only: round_even_of_int)
  then show ?thesis by (simp add: rnd_pos_def)
qed

text \<open>Rounding is monotone: within one spacing because rounding to an integer is, and across
  spacings because the power of two between the arguments separates the results.\<close>

lemma rnd_pos_mono:
  assumes x: "0 < x" and le: "x \<le> y"
  shows "rnd_pos x \<le> rnd_pos y"
proof (cases "ulp_exp x = ulp_exp y")
  case True
  have "round_even (x / pow2 (ulp_exp y)) \<le> round_even (y / pow2 (ulp_exp y))"
    using le by (intro round_even_mono) (simp add: divide_right_mono less_imp_le)
  then show ?thesis by (simp add: rnd_pos_def True mult_right_mono)
next
  case False
  then have lt: "ulp_exp x < ulp_exp y" using ulp_exp_mono [OF x le] by simp
  then have u: "ulp_exp y = ilog2 y - 52" "ilog2 x < ilog2 y"
    by (auto simp: ulp_exp_def split: if_splits)
  have y: "0 < y" using x le by linarith
  have "pow2 (ilog2 x + 1) \<le> pow2 (ilog2 y)" using u(2) by (simp add: pow2_mono)
  then have "x \<le> pow2 (ilog2 y)" using ilog2_bounds [OF x] by linarith
  then have "rnd_pos x \<le> pow2 (ilog2 y)"
    using lt u by (intro rnd_pos_le_pow2 x) linarith
  moreover have "pow2 (ilog2 y) \<le> rnd_pos y"
    using ilog2_bounds [OF y] u(1) by (intro rnd_pos_ge_pow2 y) auto
  ultimately show ?thesis by linarith
qed

lemma rnd_0 [simp]: "rnd 0 = 0"
  by (simp add: rnd_def)

lemma rnd_minus: "rnd (- x) = - rnd x"
  by (simp add: rnd_def)

lemma rnd_nonneg: "0 \<le> x \<Longrightarrow> 0 \<le> rnd x"
  by (auto simp: rnd_def rnd_pos_nonneg)

lemma rnd_nonpos: "x \<le> 0 \<Longrightarrow> rnd x \<le> 0"
  by (auto simp: rnd_def rnd_pos_nonneg)

theorem rnd_mono: "x \<le> y \<Longrightarrow> rnd x \<le> rnd y"
proof -
  assume le: "x \<le> y"
  consider "0 < x" | "x \<le> 0" "0 \<le> y" | "y < 0" by linarith
  then show ?thesis
  proof cases
    case 1
    then show ?thesis using le rnd_pos_mono [of x y] by (simp add: rnd_def)
  next
    case 2
    then show ?thesis using rnd_nonneg [of y] rnd_nonpos [of x] by linarith
  next
    case 3
    then show ?thesis using le rnd_pos_mono [of "- y" "- x"] by (simp add: rnd_def)
  qed
qed

text \<open>The values of the format: at most 53 significant bits and no bit below \<open>2 ^ -1074\<close>.
  Rounding yields one and leaves one unchanged.\<close>

definition representable :: "rat \<Rightarrow> bool" where
  "representable x \<longleftrightarrow> (\<exists>n e. x = of_int n * pow2 e \<and> \<bar>n\<bar> \<le> 2 ^ 53 \<and> - 1074 \<le> e)"

lemma representable_of_int: "\<bar>n\<bar> \<le> 2 ^ 53 \<Longrightarrow> representable (of_int n)"
  unfolding representable_def by (rule exI [of _ n], rule exI [of _ 0]) simp

lemma rnd_pos_exact:
  assumes "0 < n" and "n < 2 ^ 53" and "- 1074 \<le> e"
  shows "rnd_pos (of_int n * pow2 e) = of_int n * pow2 e"
proof -
  define x where "x = of_int n * pow2 e"
  have x: "0 < x" using assms(1) by (simp add: x_def)
  have "of_int n < (2 :: rat) ^ 53"
    using assms(2) of_int_less_iff [of n "2 ^ 53", where ?'a = rat] by simp
  then have "x < pow2 (int 53) * pow2 e"
    unfolding x_def pow2_nat by (rule mult_strict_right_mono) simp
  then have "x < pow2 (53 + e)" by (simp add: pow2_add)
  then have "pow2 (ilog2 x) < pow2 (53 + e)" using ilog2_bounds [OF x] by linarith
  then have "ulp_exp x \<le> e" using assms(3) by (simp add: pow2_strict_mono_iff ulp_exp_def)
  then obtain k where k: "e = ulp_exp x + int k"
    by (auto dest: zle_iff_zadd [THEN iffD1])
  have "x / pow2 (ulp_exp x) = of_int n * (pow2 e / pow2 (ulp_exp x))"
    by (simp add: x_def)
  also have "pow2 e / pow2 (ulp_exp x) = 2 ^ k"
    using k by (simp add: pow2_add pow2_nat)
  also have "of_int n * 2 ^ k = (of_int (n * 2 ^ k) :: rat)" by simp
  finally have q: "x / pow2 (ulp_exp x) = of_int (n * 2 ^ k)" .
  have "rnd_pos x = of_int (n * 2 ^ k) * pow2 (ulp_exp x)"
    unfolding rnd_pos_def q by (simp only: round_even_of_int)
  also have "\<dots> = x / pow2 (ulp_exp x) * pow2 (ulp_exp x)" by (simp only: q)
  also have "\<dots> = x" by simp
  finally show ?thesis by (simp only: x_def)
qed

lemma rnd_pos_exact53:
  assumes "0 < n" and "n \<le> 2 ^ 53" and "- 1074 \<le> e"
  shows "rnd_pos (of_int n * pow2 e) = of_int n * pow2 e"
proof (cases "n = 2 ^ 53")
  case True
  have "of_int n * pow2 e = of_int (2 ^ 52) * pow2 (e + 1)"
    by (simp add: True pow2_add)
  then show ?thesis
    using rnd_pos_exact [of "2 ^ 52" "e + 1"] assms(3) by simp
next
  case False
  then show ?thesis using assms by (intro rnd_pos_exact) auto
qed

lemma rnd_representable: "representable x \<Longrightarrow> rnd x = x"
proof -
  assume "representable x"
  then obtain n e where x: "x = of_int n * pow2 e" "\<bar>n\<bar> \<le> 2 ^ 53" "- 1074 \<le> e"
    by (auto simp: representable_def)
  have neg: "- x = of_int (- n) * pow2 e" by (simp add: x(1))
  consider "n = 0" | "0 < n" | "n < 0" by linarith
  then show ?thesis
  proof cases
    case 2
    then show ?thesis
      using rnd_pos_exact53 [of n e] x by (simp add: rnd_def)
  next
    case 3
    then have "rnd_pos (- x) = - x"
      using rnd_pos_exact53 [of "- n" e] x(2,3) by (simp add: neg)
    moreover have "x < 0" using 3 by (simp add: x(1) mult_neg_pos)
    ultimately show ?thesis by (simp add: rnd_def)
  qed (simp add: x(1))
qed

lemma representable_rnd_pos:
  assumes "0 < x"
  shows "representable (rnd_pos x)"
proof -
  define u where "u = ulp_exp x"
  have "x < pow2 (ilog2 x + 1)" using ilog2_bounds [OF assms] by simp
  also have "\<dots> \<le> pow2 (u + int 53)" by (rule pow2_mono) (simp add: u_def ulp_exp_def)
  finally have "x \<le> 2 ^ 53 * pow2 u"
    unfolding pow2_add pow2_nat by (simp add: mult.commute)
  then have "x / pow2 u \<le> of_int (2 ^ 53)"
    by (simp add: divide_le_eq)
  then have "round_even (x / pow2 u) \<le> 2 ^ 53"
    using round_even_mono [of "x / pow2 u" "of_int (2 ^ 53)"] by (simp only: round_even_of_int)
  moreover have "round_even (of_int 0) \<le> round_even (x / pow2 u)"
    using assms by (intro round_even_mono) (simp add: divide_nonneg_pos)
  then have "0 \<le> round_even (x / pow2 u)" by (simp only: round_even_of_int)
  ultimately show ?thesis
    unfolding representable_def rnd_pos_def u_def [symmetric]
    by (intro exI [of _ "round_even (x / pow2 u)"] exI [of _ u])
      (simp add: u_def ulp_exp_def)
qed

lemma representable_minus: "representable x \<Longrightarrow> representable (- x)"
  unfolding representable_def
proof (elim exE conjE)
  fix n e
  assume "x = of_int n * pow2 e" "\<bar>n\<bar> \<le> 2 ^ 53" "- 1074 \<le> e"
  then show "\<exists>n e. - x = of_int n * pow2 e \<and> \<bar>n\<bar> \<le> 2 ^ 53 \<and> - 1074 \<le> e"
    by (intro exI [of _ "- n"] exI [of _ e]) simp
qed

theorem representable_rnd: "representable (rnd x)"
  using representable_rnd_pos [of x] representable_minus [OF representable_rnd_pos, of "- x"]
    representable_of_int [of 0]
  by (simp add: rnd_def)

lemma rnd_idem [simp]: "rnd (rnd x) = rnd x"
  by (rule rnd_representable) (rule representable_rnd)

section \<open>The type and its operations\<close>

datatype float64 = Fin rat | PInf | NInf | NaN

definition f_max :: rat where
  "f_max = 2 ^ 1024"

definition f_of_rat :: "rat \<Rightarrow> float64" where
  "f_of_rat x =
     (let r = rnd x in
      if r \<noteq> 0 \<and> 1024 \<le> ilog2 \<bar>r\<bar> then (if 0 < r then PInf else NInf) else Fin r)"

lemma ilog2_ge_iff: "0 < x \<Longrightarrow> e \<le> ilog2 x \<longleftrightarrow> pow2 e \<le> x"
  using ilog2_bounds [of x] pow2_mono [of e "ilog2 x"] pow2_mono [of "ilog2 x + 1" e]
  by linarith

lemma f_of_rat_alt:
  "f_of_rat x =
     (let r = rnd x in if f_max \<le> r then PInf else if r \<le> - f_max then NInf else Fin r)"
proof -
  have m: "pow2 1024 = f_max" by (simp add: f_max_def pow2_def)
  have p: "0 < f_max" by (simp add: f_max_def)
  have "rnd x \<noteq> 0 \<and> 1024 \<le> ilog2 \<bar>rnd x\<bar> \<longleftrightarrow> f_max \<le> \<bar>rnd x\<bar>"
    using p by (auto simp: ilog2_ge_iff m)
  then show ?thesis
    using p unfolding f_of_rat_def Let_def by (cases "0 < rnd x") (simp_all add: abs_if)
qed

definition f_of_int :: "int \<Rightarrow> float64" where
  "f_of_int n = f_of_rat (of_int n)"

abbreviation f_zero :: float64 where "f_zero \<equiv> Fin 0"
abbreviation f_one :: float64 where "f_one \<equiv> Fin 1"

fun f_neg :: "float64 \<Rightarrow> float64" where
  "f_neg (Fin x) = Fin (- x)"
| "f_neg PInf = NInf"
| "f_neg NInf = PInf"
| "f_neg NaN = NaN"

fun f_add :: "float64 \<Rightarrow> float64 \<Rightarrow> float64" where
  "f_add NaN _ = NaN"
| "f_add _ NaN = NaN"
| "f_add (Fin x) (Fin y) = f_of_rat (x + y)"
| "f_add PInf NInf = NaN"
| "f_add NInf PInf = NaN"
| "f_add PInf _ = PInf"
| "f_add _ PInf = PInf"
| "f_add NInf _ = NInf"
| "f_add _ NInf = NInf"

definition f_sub :: "float64 \<Rightarrow> float64 \<Rightarrow> float64" where
  "f_sub x y = f_add x (f_neg y)"

fun f_sgn :: "float64 \<Rightarrow> rat" where
  "f_sgn (Fin x) = sgn x"
| "f_sgn PInf = 1"
| "f_sgn NInf = - 1"
| "f_sgn NaN = 0"

definition f_inf :: "rat \<Rightarrow> float64" where
  "f_inf s = (if s = 0 then NaN else if 0 < s then PInf else NInf)"

fun f_mul :: "float64 \<Rightarrow> float64 \<Rightarrow> float64" where
  "f_mul NaN _ = NaN"
| "f_mul _ NaN = NaN"
| "f_mul (Fin x) (Fin y) = f_of_rat (x * y)"
| "f_mul x y = f_inf (f_sgn x * f_sgn y)"

fun f_div :: "float64 \<Rightarrow> float64 \<Rightarrow> float64" where
  "f_div NaN _ = NaN"
| "f_div _ NaN = NaN"
| "f_div (Fin x) (Fin y) = (if y = 0 then f_inf (sgn x) else f_of_rat (x / y))"
| "f_div (Fin x) _ = Fin 0"
| "f_div x (Fin y) = (if y = 0 then x else f_inf (f_sgn x * sgn y))"
| "f_div _ _ = NaN"

text \<open>IEEE comparisons: every one with a NaN is false, except \<open>!=\<close>.\<close>

fun f_lt :: "float64 \<Rightarrow> float64 \<Rightarrow> bool" where
  "f_lt (Fin x) (Fin y) = (x < y)"
| "f_lt NInf PInf = True"
| "f_lt NInf (Fin _) = True"
| "f_lt (Fin _) PInf = True"
| "f_lt _ _ = False"

fun f_eq :: "float64 \<Rightarrow> float64 \<Rightarrow> bool" where
  "f_eq (Fin x) (Fin y) = (x = y)"
| "f_eq PInf PInf = True"
| "f_eq NInf NInf = True"
| "f_eq _ _ = False"

definition f_le :: "float64 \<Rightarrow> float64 \<Rightarrow> bool" where
  "f_le x y \<longleftrightarrow> f_lt x y \<or> f_eq x y"

text \<open>\<open>int(x)\<close>: truncation towards zero. Out of range, and for the special values, the
  language leaves the result to the implementation; this is the one of the amd64 port.\<close>

definition rat_trunc :: "rat \<Rightarrow> int" where
  "rat_trunc x = (if 0 \<le> x then \<lfloor>x\<rfloor> else - \<lfloor>- x\<rfloor>)"

fun f_to_int :: "float64 \<Rightarrow> int" where
  "f_to_int (Fin x) = (if in_i64 (rat_trunc x) then rat_trunc x else i64_min)"
| "f_to_int _ = i64_min"

section \<open>What the components use of it\<close>

text \<open>\<open>f_nn x\<close>: the value is not below zero.\<close>

definition f_nn :: "float64 \<Rightarrow> bool" where
  "f_nn x \<longleftrightarrow> \<not> f_lt x f_zero"

lemma f_nn_simps [simp]:
  "f_nn (Fin q) \<longleftrightarrow> 0 \<le> q" "f_nn PInf" "\<not> f_nn NInf" "f_nn NaN"
  by (auto simp: f_nn_def)

lemma f_max_pos [simp]: "0 < f_max"
  by (simp add: f_max_def)

lemma f_of_rat_nn: "0 \<le> x \<Longrightarrow> f_nn (f_of_rat x)"
  using rnd_nonneg [of x] f_max_pos by (auto simp: f_of_rat_alt Let_def)

lemma f_of_rat_0 [simp]: "f_of_rat 0 = Fin 0"
  by (simp add: f_of_rat_alt not_le)

lemma f_of_int_nn: "0 \<le> n \<Longrightarrow> f_nn (f_of_int n)"
  by (simp add: f_of_int_def f_of_rat_nn)

lemma f_of_int_0 [simp]: "f_of_int 0 = Fin 0"
  by (simp add: f_of_int_def)

lemma f_nn_add: "f_nn x \<Longrightarrow> f_nn y \<Longrightarrow> f_nn (f_add x y)"
  by (cases x; cases y) (auto simp: f_of_rat_nn)

lemma f_nn_mul: "f_nn x \<Longrightarrow> f_nn y \<Longrightarrow> f_nn (f_mul x y)"
  by (cases x; cases y) (auto simp: f_of_rat_nn f_inf_def sgn_if)

lemma f_lt_irrefl [simp]: "\<not> f_lt x x"
  by (cases x) auto

lemma f_lt_trans: "f_lt x y \<Longrightarrow> f_lt y z \<Longrightarrow> f_lt x z"
  by (cases x; cases y; cases z) auto

lemma f_le_trans: "f_le x y \<Longrightarrow> f_le y z \<Longrightarrow> f_le x z"
  by (cases x; cases y; cases z) (auto simp: f_le_def)

lemma f_lt_le_trans: "f_lt x y \<Longrightarrow> f_le y z \<Longrightarrow> f_lt x z"
  by (cases x; cases y; cases z) (auto simp: f_le_def)

lemma f_le_lt_trans: "f_le x y \<Longrightarrow> f_lt y z \<Longrightarrow> f_lt x z"
  by (cases x; cases y; cases z) (auto simp: f_le_def)

lemma f_le_Fin [simp]: "f_le (Fin x) (Fin y) \<longleftrightarrow> x \<le> y"
  by (auto simp: f_le_def)

text \<open>\<open>f_wf x\<close>: a finite value is one of the format. Every operation yields such a value.\<close>

fun f_wf :: "float64 \<Rightarrow> bool" where
  "f_wf (Fin x) \<longleftrightarrow> representable x \<and> \<bar>x\<bar> < f_max"
| "f_wf _ \<longleftrightarrow> True"

lemma f_wf_of_rat [simp, intro]: "f_wf (f_of_rat x)"
  using representable_rnd [of x] by (auto simp: f_of_rat_alt Let_def abs_less_iff)

lemma f_of_rat_wf: "f_wf (Fin x) \<Longrightarrow> f_of_rat x = Fin x"
  using rnd_representable [of x] by (auto simp: f_of_rat_alt Let_def abs_less_iff)

text \<open>Integers up to \<open>2 ^ 53\<close> are exact, which evaluates closed instances.\<close>

lemma f_wf_small_int: "\<bar>n\<bar> \<le> 2 ^ 53 \<Longrightarrow> f_wf (Fin (of_int n))"
proof -
  assume n: "\<bar>n\<bar> \<le> 2 ^ 53"
  have "\<bar>of_int n\<bar> = (of_int \<bar>n\<bar> :: rat)" by simp
  also have "\<dots> \<le> of_int (2 ^ 53)" using n by (simp only: of_int_le_iff)
  also have "\<dots> = (2 :: rat) ^ 53" by simp
  also have "\<dots> < 2 ^ 1024" by (rule power_strict_increasing) simp_all
  finally show ?thesis using n by (simp add: representable_of_int f_max_def)
qed

lemma f_of_rat_of_int: "\<bar>n\<bar> \<le> 2 ^ 53 \<Longrightarrow> f_of_rat (of_int n) = Fin (of_int n)"
  by (rule f_of_rat_wf) (rule f_wf_small_int)

lemma f_of_int_small: "\<bar>n\<bar> \<le> 2 ^ 53 \<Longrightarrow> f_of_int n = Fin (of_int n)"
  by (simp only: f_of_int_def f_of_rat_of_int)

lemma f_of_rat_numeral [simp]:
  "(numeral k :: int) \<le> 2 ^ 53 \<Longrightarrow> f_of_rat (numeral k) = Fin (numeral k)"
  "(numeral k :: int) \<le> 2 ^ 53 \<Longrightarrow> f_of_rat (- numeral k) = Fin (- numeral k)"
  "f_of_rat 1 = Fin 1"
  using f_of_rat_of_int [of "numeral k"] f_of_rat_of_int [of "- numeral k"]
    f_of_rat_of_int [of 1]
  by simp_all

lemma f_of_int_numeral [simp]:
  "(numeral k :: int) \<le> 2 ^ 53 \<Longrightarrow> f_of_int (numeral k) = Fin (numeral k)"
  "f_of_int 1 = Fin 1"
  by (simp_all add: f_of_int_def)

lemma f_mul_one_right: "f_wf x \<Longrightarrow> f_mul x f_one = x"
  by (cases x) (auto simp: f_of_rat_wf f_inf_def)

lemma f_add_zero_left: "f_wf x \<Longrightarrow> f_add f_zero x = x"
  by (cases x) (auto simp: f_of_rat_wf)

lemma f_wf_add [intro]: "f_wf x \<Longrightarrow> f_wf y \<Longrightarrow> f_wf (f_add x y)"
  by (cases x; cases y) auto

lemma f_wf_mul [intro]: "f_wf x \<Longrightarrow> f_wf y \<Longrightarrow> f_wf (f_mul x y)"
  by (cases x; cases y) (auto simp: f_inf_def)

text \<open>\<open>f_up x y\<close>: two finite non-negative values in order. Sums and products keep the
  order as long as the larger result does not overflow.\<close>

definition f_up :: "float64 \<Rightarrow> float64 \<Rightarrow> bool" where
  "f_up x y \<longleftrightarrow> (\<exists>p q. x = Fin p \<and> y = Fin q \<and> 0 \<le> p \<and> p \<le> q)"

lemma f_of_rat_up:
  assumes "0 \<le> x" and "x \<le> y" and "f_of_rat y = Fin q"
  shows "f_up (f_of_rat x) (f_of_rat y)"
proof -
  have "q = rnd y" and "rnd y < f_max"
    using assms(3) by (auto simp: f_of_rat_alt Let_def split: if_splits)
  moreover have "0 \<le> rnd x" and "rnd x \<le> rnd y"
    using assms(1,2) by (auto intro: rnd_nonneg rnd_mono)
  ultimately show ?thesis
    using f_max_pos by (auto simp: f_up_def f_of_rat_alt Let_def)
qed

lemma f_up_add:
  assumes "f_up a a'" and "f_up b b'" and "f_add a' b' = Fin q"
  shows "f_up (f_add a b) (f_add a' b')"
proof -
  obtain x x' y y' where e: "a = Fin x" "a' = Fin x'" "b = Fin y" "b' = Fin y'"
    and o: "0 \<le> x" "x \<le> x'" "0 \<le> y" "y \<le> y'"
    using assms(1,2) by (auto simp: f_up_def)
  have "0 \<le> x + y" and "x + y \<le> x' + y'" using o by linarith+
  then show ?thesis using assms(3) f_of_rat_up by (simp add: e)
qed

lemma f_up_mul:
  assumes "f_up a a'" and "f_up b b'" and "f_mul a' b' = Fin q"
  shows "f_up (f_mul a b) (f_mul a' b')"
proof -
  obtain x x' y y' where e: "a = Fin x" "a' = Fin x'" "b = Fin y" "b' = Fin y'"
    and o: "0 \<le> x" "x \<le> x'" "0 \<le> y" "y \<le> y'"
    using assms(1,2) by (auto simp: f_up_def)
  have "0 \<le> x * y" and "x * y \<le> x' * y'" using o by (auto intro: mult_mono)
  then show ?thesis using assms(3) f_of_rat_up by (simp add: e)
qed

lemma f_up_le: "f_up x y \<Longrightarrow> f_le x y"
  by (auto simp: f_up_def)

lemma f_up_refl: "f_nn (Fin q) \<Longrightarrow> f_up (Fin q) (Fin q)"
  by (simp add: f_up_def)

section \<open>The package math\<close>

fun f_abs :: "float64 \<Rightarrow> float64" where
  "f_abs (Fin x) = Fin \<bar>x\<bar>"
| "f_abs NInf = PInf"
| "f_abs x = x"

definition f_is_nan :: "float64 \<Rightarrow> bool" where
  "f_is_nan x \<longleftrightarrow> x = NaN"

definition f_is_inf :: "float64 \<Rightarrow> bool" where
  "f_is_inf x \<longleftrightarrow> x = PInf \<or> x = NInf"

text \<open>\<open>math.Round\<close>: half away from zero. The result of a finite number is representable.\<close>

definition round_away :: "rat \<Rightarrow> int" where
  "round_away x = (if x < 0 then - \<lfloor>1 / 2 - x\<rfloor> else \<lfloor>x + 1 / 2\<rfloor>)"

fun f_round :: "float64 \<Rightarrow> float64" where
  "f_round (Fin x) = Fin (of_int (round_away x))"
| "f_round x = x"

definition f_min :: "float64 \<Rightarrow> float64 \<Rightarrow> float64" where
  "f_min x y =
     (if x = NInf \<or> y = NInf then NInf
      else if f_is_nan x \<or> f_is_nan y then NaN
      else if f_lt x y then x else y)"

definition f_maximum :: "float64 \<Rightarrow> float64 \<Rightarrow> float64" where
  "f_maximum x y =
     (if x = PInf \<or> y = PInf then PInf
      else if f_is_nan x \<or> f_is_nan y then NaN
      else if f_lt y x then x else y)"

text \<open>A decimal literal with \<open>n\<close> digits after the point, and \<open>math.Pow10(-n)\<close>.\<close>

definition f_dec :: "int \<Rightarrow> nat \<Rightarrow> float64" where
  "f_dec m n = f_of_rat (of_int m / 10 ^ n)"

end
