(* ===== verification/GoText.thy ===== *)
theory GoText
  imports GoFloat "HOL-Library.Sublist"
begin

text \<open>
  Go strings are byte sequences; here they are lists of \<open>char\<close>, one per byte. This theory
  models the functions of the packages \<open>strings\<close> and \<open>strconv\<close> that the program applies to
  configuration values: trimming, lower-casing, prefix and suffix tests, and the parsing of
  integers and floating-point numbers.
\<close>

section \<open>Prefixes, suffixes and substrings\<close>

definition has_prefix :: "string \<Rightarrow> string \<Rightarrow> bool" where
  "has_prefix s p \<longleftrightarrow> take (length p) s = p"

definition has_suffix :: "string \<Rightarrow> string \<Rightarrow> bool" where
  "has_suffix s p \<longleftrightarrow> length p \<le> length s \<and> drop (length s - length p) s = p"

definition trim_prefix :: "string \<Rightarrow> string \<Rightarrow> string" where
  "trim_prefix s p = (if has_prefix s p then drop (length p) s else s)"

definition trim_suffix :: "string \<Rightarrow> string \<Rightarrow> string" where
  "trim_suffix s p = (if has_suffix s p then take (length s - length p) s else s)"

fun str_contains :: "string \<Rightarrow> string \<Rightarrow> bool" where
  "str_contains [] p = (p = [])"
| "str_contains (c # s) p = (has_prefix (c # s) p \<or> str_contains s p)"

definition trim_right_char :: "char \<Rightarrow> string \<Rightarrow> string" where
  "trim_right_char c s = rev (dropWhile (\<lambda>x. x = c) (rev s))"

lemma has_prefix_append [simp]: "has_prefix (p @ s) p"
  by (simp add: has_prefix_def)

lemma has_prefix_iff: "has_prefix s p \<longleftrightarrow> (\<exists>r. s = p @ r)"
  by (metis append_take_drop_id has_prefix_append has_prefix_def)

lemma has_suffix_append [simp]: "has_suffix (s @ p) p"
  by (simp add: has_suffix_def)

lemma has_suffix_iff: "has_suffix s p \<longleftrightarrow> (\<exists>r. s = r @ p)"
  by (metis append_take_drop_id has_suffix_append has_suffix_def)

lemma has_prefix_refl [simp]: "has_prefix s s"
  by (simp add: has_prefix_def)

lemma has_prefix_Nil [simp]: "has_prefix s []"
  by (simp add: has_prefix_def)

lemma has_prefix_length: "has_prefix s p \<Longrightarrow> length p \<le> length s"
  by (auto simp: has_prefix_iff)

text \<open>Two prefixes of one string that have the same length are equal.\<close>

lemma has_prefix_unique: "has_prefix s p \<Longrightarrow> has_prefix s q \<Longrightarrow> length p = length q \<Longrightarrow> p = q"
  by (metis has_prefix_def)

text \<open>\<open>s < t\<close> on strings compares bytes.\<close>

fun str_lt :: "string \<Rightarrow> string \<Rightarrow> bool" where
  "str_lt s [] = False"
| "str_lt [] (d # t) = True"
| "str_lt (c # s) (d # t) =
     ((of_char c :: nat) < of_char d \<or> c = d \<and> str_lt s t)"

lemma str_lt_irrefl [simp]: "\<not> str_lt s s"
  by (induction s) auto

lemma str_lt_asym: "str_lt s t \<Longrightarrow> \<not> str_lt t s"
  by (induction s t rule: str_lt.induct) auto

lemma str_lt_total: "\<not> str_lt s t \<Longrightarrow> \<not> str_lt t s \<Longrightarrow> s = t"
proof (induction s t rule: str_lt.induct)
  case (3 c s d t)
  then have "(of_char c :: nat) = of_char d" by auto
  then have "c = d" by simp
  with 3 show ?case by auto
qed (auto elim: str_lt.elims)

lemma str_lt_trans: "str_lt s t \<Longrightarrow> str_lt t u \<Longrightarrow> str_lt s u"
proof (induction s t arbitrary: u rule: str_lt.induct)
  case (2 d t)
  then show ?case by (cases u) auto
next
  case (3 c s d t)
  then show ?case by (cases u) auto
qed simp

lemma str_lt_neg_trans: "\<not> str_lt t s \<Longrightarrow> \<not> str_lt u t \<Longrightarrow> \<not> str_lt u s"
  by (metis str_lt_total str_lt_trans)

interpretation str_order: strict_weak str_lt
  by unfold_locales (metis str_lt_asym, metis str_lt_neg_trans)

section \<open>strings.TrimSpace and strings.ToLower\<close>

text \<open>
  White space is the Unicode property: the six ASCII characters and the UTF-8 encodings of
  U+0085, U+00A0, U+1680, U+2000 to U+200A, U+2028, U+2029, U+202F, U+205F and U+3000.
  \<open>ws_seqs\<close> lists them as byte sequences; none is a prefix or a suffix of another, and a
  sequence stands at an end of a string exactly when decoding the string there yields that
  code point.
\<close>

definition ws_seqs :: "string list" where
  "ws_seqs =
     [[CHR 0x20], [CHR 0x09], [CHR 0x0A], [CHR 0x0B], [CHR 0x0C], [CHR 0x0D],
      [CHR 0xC2, CHR 0x85], [CHR 0xC2, CHR 0xA0],
      [CHR 0xE1, CHR 0x9A, CHR 0x80],
      [CHR 0xE2, CHR 0x80, CHR 0x80], [CHR 0xE2, CHR 0x80, CHR 0x81],
      [CHR 0xE2, CHR 0x80, CHR 0x82], [CHR 0xE2, CHR 0x80, CHR 0x83],
      [CHR 0xE2, CHR 0x80, CHR 0x84], [CHR 0xE2, CHR 0x80, CHR 0x85],
      [CHR 0xE2, CHR 0x80, CHR 0x86], [CHR 0xE2, CHR 0x80, CHR 0x87],
      [CHR 0xE2, CHR 0x80, CHR 0x88], [CHR 0xE2, CHR 0x80, CHR 0x89],
      [CHR 0xE2, CHR 0x80, CHR 0x8A], [CHR 0xE2, CHR 0x80, CHR 0xA8],
      [CHR 0xE2, CHR 0x80, CHR 0xA9], [CHR 0xE2, CHR 0x80, CHR 0xAF],
      [CHR 0xE2, CHR 0x81, CHR 0x9F], [CHR 0xE3, CHR 0x80, CHR 0x80]]"

text \<open>Drops leading sequences of a list, each a whole element of \<open>ws\<close>; the fuel is the
  length of the string, and each step drops at least one byte.\<close>

fun drop_seqs :: "nat \<Rightarrow> string list \<Rightarrow> string \<Rightarrow> string" where
  "drop_seqs 0 ws s = s"
| "drop_seqs (Suc n) ws s =
     (case find (\<lambda>w. has_prefix s w) ws of
        None \<Rightarrow> s
      | Some w \<Rightarrow> drop_seqs n ws (drop (length w) s))"

definition trim_left_space :: "string \<Rightarrow> string" where
  "trim_left_space s = drop_seqs (length s) ws_seqs s"

definition trim_right_space :: "string \<Rightarrow> string" where
  "trim_right_space s = rev (drop_seqs (length s) (map rev ws_seqs) (rev s))"

definition trim_space :: "string \<Rightarrow> string" where
  "trim_space s = trim_right_space (trim_left_space s)"

lemma ws_seqs_nonempty: "[] \<notin> set ws_seqs"
  by (simp add: ws_seqs_def)

lemma drop_seqs_no_prefix:
  assumes "[] \<notin> set ws" and "length s \<le> n" and "w \<in> set ws"
  shows "\<not> has_prefix (drop_seqs n ws s) w"
  using assms
proof (induction n arbitrary: s)
  case 0
  then have "s = []" and "w \<noteq> []" by auto
  then show ?case by (simp add: has_prefix_def)
next
  case (Suc n)
  show ?case
  proof (cases "find (\<lambda>w. has_prefix s w) ws")
    case None
    then have "\<forall>v \<in> set ws. \<not> has_prefix s v" by (simp add: find_None_iff)
    with None Suc.prems show ?thesis by simp
  next
    case (Some v)
    then have v: "v \<in> set ws" "has_prefix s v" by (auto simp: find_Some_iff)
    then have "0 < length v" using Suc.prems(1) by (cases v) auto
    then have "length (drop (length v) s) \<le> n"
      using Suc.prems(2) unfolding length_drop by linarith
    then show ?thesis using Some Suc by simp
  qed
qed

lemma drop_seqs_id: "(\<And>w. w \<in> set ws \<Longrightarrow> \<not> has_prefix s w) \<Longrightarrow> drop_seqs n ws s = s"
  by (cases n) (auto simp: find_None_iff split: option.splits dest!: find_Some_iff [THEN iffD1])

lemma drop_seqs_idem:
  assumes "[] \<notin> set ws" and "length s \<le> n"
  shows "drop_seqs m ws (drop_seqs n ws s) = drop_seqs n ws s"
  by (rule drop_seqs_id) (rule drop_seqs_no_prefix [OF assms])

lemma length_drop_seqs: "length (drop_seqs n ws s) \<le> length s"
  by (induction n ws s rule: drop_seqs.induct)
     (auto split: option.splits intro: order.trans)

lemma drop_seqs_suffix: "\<exists>t. s = t @ drop_seqs n ws s"
proof (induction n ws s rule: drop_seqs.induct)
  case (2 n ws s)
  show ?case
  proof (cases "find (\<lambda>w. has_prefix s w) ws")
    case (Some w)
    with 2 obtain t where t: "drop (length w) s = t @ drop_seqs n ws (drop (length w) s)" by blast
    have "s = take (length w) s @ drop (length w) s" by simp
    also have "\<dots> = (take (length w) s @ t) @ drop_seqs n ws (drop (length w) s)"
      by (subst t) simp
    finally have "\<exists>t'. s = t' @ drop_seqs n ws (drop (length w) s)" by (rule exI)
    then show ?thesis using Some by simp
  qed simp
qed simp

text \<open>Trimming keeps every byte that occurs in no white space.\<close>

lemma drop_seqs_keeps:
  assumes "c \<in> set s" and "\<forall>w \<in> set ws. c \<notin> set w"
  shows "c \<in> set (drop_seqs n ws s)"
  using assms(1)
proof (induction n arbitrary: s)
  case (Suc n)
  show ?case
  proof (cases "find (\<lambda>w. has_prefix s w) ws")
    case (Some w)
    then have "has_prefix s w" "c \<notin> set w" using assms(2) by (auto simp: find_Some_iff)
    then have "c \<in> set (drop (length w) s)"
      using Suc.prems by (auto simp: has_prefix_iff)
    then show ?thesis using Some Suc.IH by simp
  qed (use Suc.prems in simp)
qed simp

lemma trim_space_keeps: "c \<in> set s \<Longrightarrow> \<forall>w \<in> set ws_seqs. c \<notin> set w \<Longrightarrow> c \<in> set (trim_space s)"
  unfolding trim_space_def trim_right_space_def trim_left_space_def
  by (auto intro!: drop_seqs_keeps)

lemma trim_right_space_prefix: "\<exists>t. s = trim_right_space s @ t"
proof -
  obtain t where "rev s = t @ drop_seqs (length s) (map rev ws_seqs) (rev s)"
    using drop_seqs_suffix by blast
  then have "s = rev (t @ drop_seqs (length s) (map rev ws_seqs) (rev s))"
    by (metis rev_rev_ident)
  then show ?thesis by (auto simp: trim_right_space_def)
qed

lemma trim_left_no_prefix: "w \<in> set ws_seqs \<Longrightarrow> \<not> has_prefix (trim_left_space s) w"
  unfolding trim_left_space_def using ws_seqs_nonempty by (rule drop_seqs_no_prefix) simp_all

lemma trim_space_no_prefix: "w \<in> set ws_seqs \<Longrightarrow> \<not> has_prefix (trim_space s) w"
  using trim_right_space_prefix [of "trim_left_space s"] trim_left_no_prefix [of w s]
  unfolding trim_space_def by (metis append.assoc has_prefix_iff)

lemma trim_right_idem: "trim_right_space (trim_right_space s) = trim_right_space s"
  using drop_seqs_idem [of "map rev ws_seqs" "rev s" "length s"] ws_seqs_nonempty
  by (simp add: trim_right_space_def image_iff)

text \<open>Trimming a trimmed string changes nothing.\<close>

theorem trim_space_idem [simp]: "trim_space (trim_space s) = trim_space s"
proof -
  have "trim_left_space (trim_space s) = trim_space s"
    unfolding trim_left_space_def by (rule drop_seqs_id) (rule trim_space_no_prefix)
  then show ?thesis
    by (subst trim_space_def) (simp add: trim_space_def trim_right_idem)
qed

lemma trim_space_Nil [simp]: "trim_space [] = []"
  by (simp add: trim_space_def trim_left_space_def trim_right_space_def)

text \<open>
  Lower-casing maps the ASCII letters. Of all other code points only U+0130 and U+212A
  have an ASCII lower-case form (\<open>i\<close> and \<open>k\<close>); the remaining non-ASCII letters map to
  non-ASCII letters and are left alone here, so the model is exact on ASCII strings and
  wherever the result is compared with, or searched for, an ASCII literal.
\<close>

definition lower_char :: "char \<Rightarrow> char" where
  "lower_char c = (let n = of_char c :: nat in if 65 \<le> n \<and> n \<le> 90 then char_of (n + 32) else c)"

definition upper_char :: "char \<Rightarrow> char" where
  "upper_char c = (let n = of_char c :: nat in if 97 \<le> n \<and> n \<le> 122 then char_of (n - 32) else c)"

function to_lower :: "string \<Rightarrow> string" where
  "to_lower s =
     (case s of
        [] \<Rightarrow> []
      | c # r \<Rightarrow>
          if take 2 s = [CHR 0xC4, CHR 0xB0] then CHR ''i'' # to_lower (drop 2 s)
          else if take 3 s = [CHR 0xE2, CHR 0x84, CHR 0xAA] then CHR ''k'' # to_lower (drop 3 s)
          else lower_char c # to_lower r)"
  by pat_completeness auto
termination
  by (relation "measure length") auto

declare to_lower.simps [simp del]

lemma to_lower_Nil [simp]: "to_lower [] = []"
  by (simp add: to_lower.simps)

lemma to_lower_Cons:
  "to_lower (c # r) =
     (if take 2 (c # r) = [CHR 0xC4, CHR 0xB0] then CHR ''i'' # to_lower (drop 2 (c # r))
      else if take 3 (c # r) = [CHR 0xE2, CHR 0x84, CHR 0xAA] then CHR ''k'' # to_lower (drop 3 (c # r))
      else lower_char c # to_lower r)"
  by (subst to_lower.simps) simp

definition is_ascii :: "char \<Rightarrow> bool" where
  "is_ascii c \<longleftrightarrow> of_char c < (128 :: nat)"

lemma lower_char_ascii: "is_ascii c \<Longrightarrow> is_ascii (lower_char c)"
  by (auto simp: is_ascii_def lower_char_def Let_def)

lemma lower_char_idem [simp]: "lower_char (lower_char c) = lower_char c"
  by (auto simp: lower_char_def Let_def)

lemma to_lower_ascii: "list_all is_ascii s \<Longrightarrow> to_lower s = map lower_char s"
proof (induction s)
  case (Cons c s)
  then have "c \<noteq> CHR 0xC4" and "c \<noteq> CHR 0xE2" by (auto simp: is_ascii_def)
  with Cons show ?case by (simp add: to_lower_Cons)
qed simp

lemma to_lower_idem_ascii: "list_all is_ascii s \<Longrightarrow> to_lower (to_lower s) = to_lower s"
proof -
  assume a: "list_all is_ascii s"
  then have "list_all is_ascii (map lower_char s)"
    by (auto simp: list_all_iff lower_char_ascii)
  then show ?thesis by (simp add: to_lower_ascii a)
qed

text \<open>Upper-casing likewise: only U+0131 and U+017F have an ASCII upper-case form. \<open>EqualFold\<close> uses
  simple case folding, under which U+017F and U+212A are equal to \<open>s\<close> and \<open>k\<close>; the model is exact
  when one of the two strings is ASCII.\<close>

function to_upper :: "string \<Rightarrow> string" where
  "to_upper s =
     (case s of
        [] \<Rightarrow> []
      | c # r \<Rightarrow>
          if take 2 s = [CHR 0xC4, CHR 0xB1] then CHR ''I'' # to_upper (drop 2 s)
          else if take 2 s = [CHR 0xC5, CHR 0xBF] then CHR ''S'' # to_upper (drop 2 s)
          else upper_char c # to_upper r)"
  by pat_completeness auto
termination
  by (relation "measure length") auto

function fold_str :: "string \<Rightarrow> string" where
  "fold_str s =
     (case s of
        [] \<Rightarrow> []
      | c # r \<Rightarrow>
          if take 2 s = [CHR 0xC5, CHR 0xBF] then CHR ''s'' # fold_str (drop 2 s)
          else if take 3 s = [CHR 0xE2, CHR 0x84, CHR 0xAA] then CHR ''k'' # fold_str (drop 3 s)
          else lower_char c # fold_str r)"
  by pat_completeness auto
termination
  by (relation "measure length") auto

declare to_upper.simps [simp del] and fold_str.simps [simp del]

definition equal_fold :: "string \<Rightarrow> string \<Rightarrow> bool" where
  "equal_fold s t \<longleftrightarrow> fold_str s = fold_str t"

section \<open>Decimal integers: strconv.ParseInt, Atoi and FormatInt\<close>

definition is_digit :: "char \<Rightarrow> bool" where
  "is_digit c \<longleftrightarrow> 48 \<le> (of_char c :: nat) \<and> (of_char c :: nat) \<le> 57"

definition digit_val :: "char \<Rightarrow> int" where
  "digit_val c = of_char c - 48"

fun digits_val :: "int \<Rightarrow> string \<Rightarrow> int" where
  "digits_val acc [] = acc"
| "digits_val acc (c # s) = digits_val (10 * acc + digit_val c) s"

text \<open>An optional sign; the rest must be one or more digits, and the value must fit.\<close>

definition split_sign :: "string \<Rightarrow> bool \<times> string" where
  "split_sign s =
     (case s of
        [] \<Rightarrow> (False, [])
      | c # r \<Rightarrow> if c = CHR ''-'' then (True, r) else if c = CHR ''+'' then (False, r) else (False, s))"

definition parse_int64 :: "string \<Rightarrow> int option" where
  "parse_int64 s =
     (let (neg, d) = split_sign s; v = digits_val 0 d; n = (if neg then - v else v)
      in if d \<noteq> [] \<and> list_all is_digit d \<and> in_i64 n then Some n else None)"

function nat_digits :: "int \<Rightarrow> string" where
  "nat_digits n =
     (if n < 10 then [char_of (48 + nat n)] else nat_digits (n div 10) @ [char_of (48 + nat (n mod 10))])"
  by pat_completeness auto
termination
  by (relation "measure nat") auto

declare nat_digits.simps [simp del]

definition itoa :: "int \<Rightarrow> string" where
  "itoa n = (if n < 0 then CHR ''-'' # nat_digits (- n) else nat_digits n)"

lemma digits_val_append: "digits_val acc (s @ t) = digits_val (digits_val acc s) t"
  by (induction acc s rule: digits_val.induct) simp_all

lemma digit_char:
  assumes "0 \<le> d" and "d < 10"
  shows "is_digit (char_of (48 + nat d))" and "digit_val (char_of (48 + nat d)) = d"
proof -
  have "48 + nat d < 256" using assms by simp
  then have "of_char (char_of (48 + nat d) :: char) = 48 + nat d" by simp
  moreover have "of_char (char_of (48 + nat d) :: char) = (48 + d)"
    using calculation assms by (metis int_nat_eq of_nat_add of_nat_numeral of_nat_of_char)
  ultimately show "is_digit (char_of (48 + nat d))" "digit_val (char_of (48 + nat d)) = d"
    using assms by (auto simp: is_digit_def digit_val_def)
qed

lemma nat_digits_spec:
  "0 \<le> n \<Longrightarrow> nat_digits n \<noteq> [] \<and> list_all is_digit (nat_digits n) \<and> digits_val 0 (nat_digits n) = n"
proof (induction n rule: nat_digits.induct)
  case (1 n)
  show ?case
  proof (cases "n < 10")
    case True
    with "1.prems" show ?thesis by (subst (1 2 3) nat_digits.simps) (simp add: digit_char)
  next
    case False
    then have "digits_val 0 (nat_digits (n div 10)) = n div 10"
      and "list_all is_digit (nat_digits (n div 10))" using "1.IH" "1.prems" by auto
    with False show ?thesis
      by (subst (1 2 3) nat_digits.simps) (simp add: digit_char digits_val_append)
  qed
qed

lemma split_sign_digit: "is_digit c \<Longrightarrow> split_sign (c # s) = (False, c # s)"
  by (auto simp: split_sign_def is_digit_def)

theorem parse_int64_itoa: "in_i64 n \<Longrightarrow> parse_int64 (itoa n) = Some n"
proof (cases "n < 0")
  case True
  assume "in_i64 n"
  with True show ?thesis
    using nat_digits_spec [of "- n"] by (simp add: parse_int64_def itoa_def split_sign_def)
next
  case False
  assume n: "in_i64 n"
  obtain c s where d: "nat_digits n = c # s" "is_digit c"
    using False nat_digits_spec [of n] by (cases "nat_digits n") auto
  show ?thesis
    using False n nat_digits_spec [of n] d
    by (simp add: parse_int64_def itoa_def split_sign_digit)
qed

section \<open>strconv.ParseFloat\<close>

text \<open>
  Decimal and hexadecimal literals, with an optional sign, underscores between digits, and
  the special names. \<open>None\<close> is a syntax error or a range error (a finite literal that
  rounds to an infinity); both leave the callers of the program with their default.
\<close>

definition to_lower_ascii_str :: "string \<Rightarrow> string" where
  "to_lower_ascii_str s = map lower_char s"

definition hex_val :: "char \<Rightarrow> int option" where
  "hex_val c =
     (if is_digit c then Some (digit_val c)
      else let n = of_char (lower_char c) :: int in
        if 97 \<le> n \<and> n \<le> 102 then Some (n - 87) else None)"

definition base_digit :: "bool \<Rightarrow> char \<Rightarrow> int option" where
  "base_digit hex c =
     (if hex then hex_val c else if is_digit c then Some (digit_val c) else None)"

text \<open>Digits and at most one point: the number of digits, the value without the point, the
  digits after the point and the unread rest.\<close>

fun scan_mantissa :: "bool \<Rightarrow> bool \<Rightarrow> nat \<Rightarrow> int \<Rightarrow> nat \<Rightarrow> string \<Rightarrow> nat \<times> int \<times> nat \<times> string" where
  "scan_mantissa hex dot nd v fr [] = (nd, v, fr, [])"
| "scan_mantissa hex dot nd v fr (c # s) =
     (if c = CHR ''_'' then scan_mantissa hex dot nd v fr s
      else if c = CHR ''.'' then
        (if dot then (nd, v, fr, c # s) else scan_mantissa hex True nd v fr s)
      else (case base_digit hex c of
              None \<Rightarrow> (nd, v, fr, c # s)
            | Some d \<Rightarrow>
                scan_mantissa hex dot (Suc nd) ((if hex then 16 else 10) * v + d)
                  (if dot then Suc fr else fr) s))"

definition scan_exponent :: "string \<Rightarrow> int option" where
  "scan_exponent s =
     (let (neg, d) = split_sign s; v = digits_val 0 (filter is_digit d) in
      case d of
        [] \<Rightarrow> None
      | c # _ \<Rightarrow>
          if is_digit c \<and> list_all (\<lambda>x. is_digit x \<or> x = CHR ''_'') d
          then Some (if neg then - v else v) else None)"

text \<open>An underscore stands between digits, or between a base prefix and a digit. The state is
  the kind of the last character: a digit, an underscore, or neither.\<close>

datatype seen = SeenStart | SeenDigit | SeenUnderscore | SeenOther

fun underscore_scan :: "bool \<Rightarrow> seen \<Rightarrow> string \<Rightarrow> bool" where
  "underscore_scan hex st [] = (st \<noteq> SeenUnderscore)"
| "underscore_scan hex st (c # s) =
     (if base_digit hex c \<noteq> None then underscore_scan hex SeenDigit s
      else if c = CHR ''_'' then st = SeenDigit \<and> underscore_scan hex SeenUnderscore s
      else st \<noteq> SeenUnderscore \<and> underscore_scan hex SeenOther s)"

definition base_prefix :: "string \<Rightarrow> char option" where
  "base_prefix s =
     (case s of
        a # b # _ \<Rightarrow>
          if a = CHR ''0'' \<and> lower_char b \<in> {CHR ''b'', CHR ''o'', CHR ''x''}
          then Some (lower_char b) else None
      | _ \<Rightarrow> None)"

definition underscore_ok :: "string \<Rightarrow> bool" where
  "underscore_ok s =
     (let (_, d) = split_sign s in
      case base_prefix d of
        None \<Rightarrow> underscore_scan False SeenStart d
      | Some b \<Rightarrow> underscore_scan (b = CHR ''x'') SeenDigit (drop 2 d))"

definition float_literal :: "string \<Rightarrow> rat option" where
  "float_literal s =
     (let (neg, d) = split_sign s;
          hex = (base_prefix d = Some (CHR ''x''));
          (nd, v, fr, rest) = scan_mantissa hex False 0 0 0 (if hex then drop 2 d else d);
          expo = (case rest of
                    [] \<Rightarrow> (if hex then None else Some 0)
                  | c # r \<Rightarrow>
                      if lower_char c = (if hex then CHR ''p'' else CHR ''e'')
                      then scan_exponent r else None)
      in case expo of
           None \<Rightarrow> None
         | Some e \<Rightarrow>
             if nd = 0 \<or> CHR ''_'' \<in> set s \<and> \<not> underscore_ok s then None
             else let m = (if hex then of_int v * pow2 (e - 4 * int fr)
                           else let k = e - int fr in
                             if 0 \<le> k then of_int v * 10 ^ nat k else of_int v / 10 ^ nat (- k))
                  in Some (if neg then - m else m))"

definition parse_float :: "string \<Rightarrow> float64 option" where
  "parse_float s =
     (let l = to_lower_ascii_str s in
      if l \<in> {''inf'', ''infinity'', ''+inf'', ''+infinity''} then Some PInf
      else if l \<in> {''-inf'', ''-infinity''} then Some NInf
      else if l = ''nan'' then Some NaN
      else (case float_literal s of
              None \<Rightarrow> None
            | Some q \<Rightarrow> (case f_of_rat q of Fin r \<Rightarrow> Some (Fin r) | _ \<Rightarrow> None)))"

lemma parse_float_wf: "parse_float s = Some x \<Longrightarrow> f_wf x"
  using f_wf_of_rat by (auto simp: parse_float_def Let_def split: if_splits option.splits float64.splits)

end
