(* ===== verification/GoTime.thy ===== *)
theory GoTime
  imports GoText "HOL-Library.Monad_Syntax"
begin

text \<open>
  The package \<open>time\<close>. An instant is its number of nanoseconds since the Unix epoch, a
  duration a number of nanoseconds. A location is the function that gives the offset from
  UTC, in seconds, at each second of Unix time: this is all that the program's dates depend
  on. The IANA database is data outside the repository and is a parameter \<open>tz\<close>, a partial
  function from zone names to locations. Civil dates are kept as day numbers (day 0 is
  1 January 1970), on which adding days and weekdays are plain arithmetic.
\<close>

type_synonym gtime = int
type_synonym duration = int
type_synonym location = "int \<Rightarrow> int"
type_synonym tzdb = "string \<Rightarrow> location option"

abbreviation nanos :: int where "nanos \<equiv> 1000000000"

definition second :: duration where "second = nanos"
definition minute :: duration where "minute = 60 * nanos"
definition hour :: duration where "hour = 3600 * nanos"

lemmas duration_defs = second_def minute_def hour_def

text \<open>\<open>time.Time{}\<close>: 1 January of year 1, 00:00 UTC.\<close>

definition zero_time :: gtime where
  "zero_time = - 62135596800 * nanos"

definition is_zero_time :: "gtime \<Rightarrow> bool" where
  "is_zero_time t \<longleftrightarrow> t = zero_time"

text \<open>\<open>t.Sub(u)\<close>, \<open>time.Since\<close> and \<open>time.Until\<close> saturate at the ends of \<open>int64\<close>.\<close>

definition time_sub :: "gtime \<Rightarrow> gtime \<Rightarrow> duration" where
  "time_sub t u = max i64_min (min i64_max (t - u))"

lemma time_sub_ge_iff: "i64_min < d \<Longrightarrow> d \<le> i64_max \<Longrightarrow> d \<le> time_sub t u \<longleftrightarrow> d \<le> t - u"
  by (auto simp: time_sub_def i64_min_def i64_max_def)

lemma time_sub_pos_iff: "0 < time_sub t u \<longleftrightarrow> u < t"
  by (auto simp: time_sub_def i64_min_def i64_max_def)

lemma time_sub_neg_iff: "time_sub t u < 0 \<longleftrightarrow> t < u"
  by (auto simp: time_sub_def i64_min_def i64_max_def)

text \<open>\<open>d.Seconds()\<close>.\<close>

definition dur_seconds :: "duration \<Rightarrow> float64" where
  "dur_seconds d = f_add (f_of_int (go_div d second)) (f_div (f_of_int (go_mod d second)) (f_of_int nanos))"

section \<open>Locations and civil days\<close>

definition utc :: location where
  "utc = (\<lambda>_. 0)"

definition load_location :: "tzdb \<Rightarrow> string \<Rightarrow> location option" where
  "load_location tz name = (if name = [] \<or> name = ''UTC'' then Some utc else tz name)"

definition local_secs :: "location \<Rightarrow> gtime \<Rightarrow> int" where
  "local_secs loc t = t div nanos + loc (t div nanos)"

definition local_day :: "location \<Rightarrow> gtime \<Rightarrow> int" where
  "local_day loc t = local_secs loc t div 86400"

definition clock_secs :: "location \<Rightarrow> gtime \<Rightarrow> int" where
  "clock_secs loc t = local_secs loc t mod 86400"

text \<open>\<open>time.Date\<close> of a day number and a second of the day: the offset is looked up at the
  local reading taken as UTC, and once more at the instant that this first guess gives.\<close>

definition date_at :: "location \<Rightarrow> int \<Rightarrow> int \<Rightarrow> gtime" where
  "date_at loc day sec =
     (let u = day * 86400 + sec; off = loc u
      in (if off = 0 then u else u - loc (u - off)) * nanos)"

text \<open>\<open>t.AddDate(0, 0, n)\<close> for a \<open>t\<close> shown in \<open>loc\<close>.\<close>

definition add_days :: "location \<Rightarrow> gtime \<Rightarrow> int \<Rightarrow> gtime" where
  "add_days loc t n = date_at loc (local_day loc t + n) (clock_secs loc t) + t mod nanos"

definition weekday :: "int \<Rightarrow> int" where
  "weekday day = (day + 4) mod 7"

lemma weekday_range: "0 \<le> weekday d \<and> weekday d < 7"
  by (simp add: weekday_def)

text \<open>Zones of constant offset; UTC is one of them.\<close>

definition fixed_zone :: "int \<Rightarrow> location" where
  "fixed_zone off = (\<lambda>_. off)"

lemma utc_fixed: "utc = fixed_zone 0"
  by (simp add: utc_def fixed_zone_def)

lemma date_at_fixed: "date_at (fixed_zone off) day sec = (day * 86400 + sec - off) * nanos"
  by (simp add: date_at_def fixed_zone_def Let_def)

lemma local_secs_fixed: "local_secs (fixed_zone off) t = t div nanos + off"
  by (simp add: local_secs_def fixed_zone_def)

lemma add_days_fixed: "add_days (fixed_zone off) t n = t + n * 86400 * nanos"
proof -
  have "local_secs (fixed_zone off) t div 86400 * 86400 + local_secs (fixed_zone off) t mod 86400
      = t div nanos + off"
    by (simp add: local_secs_fixed)
  then have "add_days (fixed_zone off) t n = (t div nanos + n * 86400) * nanos + t mod nanos"
    by (simp add: add_days_def date_at_fixed local_day_def clock_secs_def algebra_simps)
  also have "\<dots> = t div nanos * nanos + t mod nanos + n * 86400 * nanos"
    by (simp only: algebra_simps)
  also have "\<dots> = t + n * 86400 * nanos" by (simp only: div_mult_mod_eq)
  finally show ?thesis .
qed

section \<open>The proleptic Gregorian calendar\<close>

definition is_leap :: "int \<Rightarrow> bool" where
  "is_leap y \<longleftrightarrow> y mod 4 = 0 \<and> (y mod 100 \<noteq> 0 \<or> y mod 400 = 0)"

definition days_in :: "int \<Rightarrow> int \<Rightarrow> int" where
  "days_in m y =
     (if m = 2 then (if is_leap y then 29 else 28) else if m \<in> {4, 6, 9, 11} then 30 else 31)"

definition days_from_civil :: "int \<Rightarrow> int \<Rightarrow> int \<Rightarrow> int" where
  "days_from_civil y m d =
     (let y' = (if m \<le> 2 then y - 1 else y);
          era = y' div 400;
          yoe = y' - era * 400;
          doy = (153 * (m + (if 2 < m then - 3 else 9)) + 2) div 5 + d - 1;
          doe = yoe * 365 + yoe div 4 - yoe div 100 + doy
      in era * 146097 + doe - 719468)"

definition civil_from_days :: "int \<Rightarrow> int \<times> int \<times> int" where
  "civil_from_days z =
     (let z' = z + 719468;
          era = z' div 146097;
          doe = z' - era * 146097;
          yoe = (doe - doe div 1460 + doe div 36524 - doe div 146096) div 365;
          doy = doe - (365 * yoe + yoe div 4 - yoe div 100);
          mp = (5 * doy + 2) div 153;
          d = doy - (153 * mp + 2) div 5 + 1;
          m = (if mp < 10 then mp + 3 else mp - 9);
          y = yoe + era * 400
      in (if m \<le> 2 then y + 1 else y, m, d))"

section \<open>time.Parse for the layouts RFC3339 and RFC3339Nano\<close>

text \<open>
  Both layouts accept the same strings: a four-digit year, two-digit month, day, minute and
  second, an hour of one or two digits, an optional fraction of a second after a point or a
  comma (nine digits count), and \<open>Z\<close> or a numeric offset.
\<close>

definition expect :: "char \<Rightarrow> string \<Rightarrow> string option" where
  "expect c s = (case s of [] \<Rightarrow> None | x # r \<Rightarrow> if x = c then Some r else None)"

definition take_num :: "nat \<Rightarrow> string \<Rightarrow> (int \<times> string) option" where
  "take_num n s =
     (let d = take n s in
      if length d = n \<and> list_all is_digit d then Some (digits_val 0 d, drop n s) else None)"

definition take_hour :: "string \<Rightarrow> (int \<times> string) option" where
  "take_hour s = (case take_num 2 s of None \<Rightarrow> take_num 1 s | Some r \<Rightarrow> Some r)"

definition take_fraction :: "string \<Rightarrow> int \<times> string" where
  "take_fraction s =
     (case s of
        c # d # _ \<Rightarrow>
          if c \<in> {CHR ''.'', CHR '',''} \<and> is_digit d
          then (let ds = takeWhile is_digit (tl s); ns = take 9 ds
                in (digits_val 0 ns * 10 ^ (9 - length ns), dropWhile is_digit (tl s)))
          else (0, s)
      | _ \<Rightarrow> (0, s))"

definition take_zone :: "string \<Rightarrow> (int \<times> string) option" where
  "take_zone s =
     (case s of
        [] \<Rightarrow> None
      | c # r \<Rightarrow>
          if c = CHR ''Z'' then Some (0, r)
          else do {
            (h, r1) \<leftarrow> take_num 2 r;
            r2 \<leftarrow> expect CHR '':'' r1;
            (m, r3) \<leftarrow> take_num 2 r2;
            (if 24 < h \<or> 60 < m then None
             else if c = CHR ''+'' then Some ((h * 60 + m) * 60, r3)
             else if c = CHR ''-'' then Some (- ((h * 60 + m) * 60), r3)
             else None)
          })"

definition parse_rfc3339 :: "string \<Rightarrow> gtime option" where
  "parse_rfc3339 s = do {
     (y, s1) \<leftarrow> take_num 4 s;
     s2 \<leftarrow> expect CHR ''-'' s1;
     (mo, s3) \<leftarrow> take_num 2 s2;
     s4 \<leftarrow> expect CHR ''-'' s3;
     (d, s5) \<leftarrow> take_num 2 s4;
     s6 \<leftarrow> expect CHR ''T'' s5;
     (h, s7) \<leftarrow> take_hour s6;
     s8 \<leftarrow> expect CHR '':'' s7;
     (mi, s9) \<leftarrow> take_num 2 s8;
     s10 \<leftarrow> expect CHR '':'' s9;
     (se, s11) \<leftarrow> take_num 2 s10;
     (off, s13) \<leftarrow> take_zone (snd (take_fraction s11));
     (if s13 = [] \<and> 1 \<le> mo \<and> mo \<le> 12 \<and> 1 \<le> d \<and> d \<le> days_in mo y \<and> h < 24 \<and> mi < 60 \<and> se < 60
      then Some ((days_from_civil y mo d * 86400 + h * 3600 + mi * 60 + se - off) * nanos
                 + fst (take_fraction s11))
      else None)
   }"

text \<open>\<open>t.UTC().Format(time.RFC3339)\<close>, for years 0 to 9999.\<close>

definition pad2 :: "int \<Rightarrow> string" where
  "pad2 n = (if n < 10 then CHR ''0'' # nat_digits n else nat_digits n)"

definition pad4 :: "int \<Rightarrow> string" where
  "pad4 n = (let d = nat_digits n in replicate (4 - length d) CHR ''0'' @ d)"

definition format_rfc3339_utc :: "gtime \<Rightarrow> string" where
  "format_rfc3339_utc t =
     (let secs = t div nanos; (y, m, d) = civil_from_days (secs div 86400); c = secs mod 86400
      in pad4 y @ ''-'' @ pad2 m @ ''-'' @ pad2 d @ ''T'' @ pad2 (c div 3600) @ '':''
         @ pad2 (c mod 3600 div 60) @ '':'' @ pad2 (c mod 60) @ ''Z'')"

end
