(* ===== verification/GoValue.thy ===== *)
theory GoValue
  imports GoTime
begin

text \<open>
  Values of Go's type \<open>any\<close>, as they occur in the JSON columns \<open>credentials\<close> and \<open>extra\<close> of
  an account, and the maps that hold them. The constructors are the dynamic types on which
  the program's type switches branch; \<open>GOther\<close> is every other type. A map value may be
  nil. \<open>GNum\<close> is a \<open>json.Number\<close>, the source text of a number.
\<close>

datatype goval =
    GNil
  | GBool bool
  | GStr string
  | GF64 float64
  | GF32 float64
  | GInt int
  | GInt64 int
  | GNum string
  | GList "goval list"
  | GStrs "string list"
  | GObj "(string \<times> goval) list option"
  | GStrMap "(string \<times> string) list option"
  | GOther

type_synonym gobj = "(string \<times> goval) list option"

section \<open>Maps\<close>

text \<open>\<open>v, ok := m[k]\<close>; a nil map has no key.\<close>

definition mlookup :: "'v gomap option \<Rightarrow> string \<Rightarrow> 'v option" where
  "mlookup m k = (case m of None \<Rightarrow> None | Some kv \<Rightarrow> map_of kv k)"

text \<open>\<open>m[k]\<close> of a \<open>map[string]any\<close>: nil for a missing key.\<close>

definition mget :: "gobj \<Rightarrow> string \<Rightarrow> goval" where
  "mget m k = (case mlookup m k of None \<Rightarrow> GNil | Some v \<Rightarrow> v)"

definition mlen :: "'v gomap option \<Rightarrow> nat" where
  "mlen m = (case m of None \<Rightarrow> 0 | Some kv \<Rightarrow> length kv)"

definition mentries :: "'v gomap option \<Rightarrow> 'v gomap" where
  "mentries m = (case m of None \<Rightarrow> [] | Some kv \<Rightarrow> kv)"

definition map_delete :: "string \<Rightarrow> 'v gomap \<Rightarrow> 'v gomap" where
  "map_delete k kv = filter (\<lambda>p. fst p \<noteq> k) kv"

definition map_put :: "string \<Rightarrow> 'v \<Rightarrow> 'v gomap \<Rightarrow> 'v gomap" where
  "map_put k v kv = (k, v) # map_delete k kv"

text \<open>The keys of a Go map are distinct.\<close>

definition map_wf :: "'v gomap \<Rightarrow> bool" where
  "map_wf kv \<longleftrightarrow> distinct (map fst kv)"

text \<open>Two association lists stand for the same Go map, iterated in different orders.\<close>

definition same_map :: "'v gomap \<Rightarrow> 'v gomap \<Rightarrow> bool" where
  "same_map m m' \<longleftrightarrow> map_wf m \<and> map_wf m' \<and> mset m = mset m'"

lemma map_delete_lookup: "map_of (map_delete k kv) = (map_of kv)(k := None)"
  by (induction kv) (auto simp: map_delete_def fun_eq_iff)

lemma map_put_lookup: "map_of (map_put k v kv) = (map_of kv)(k \<mapsto> v)"
  by (simp add: map_put_def map_delete_lookup)

lemma map_delete_wf: "map_wf kv \<Longrightarrow> map_wf (map_delete k kv)"
  by (induction kv) (auto simp: map_wf_def map_delete_def)

lemma map_put_wf: "map_wf kv \<Longrightarrow> map_wf (map_put k v kv)"
  using map_delete_wf [of kv k] by (auto simp: map_put_def map_wf_def map_delete_def)

lemma same_map_set: "same_map m m' \<Longrightarrow> set m = set m'"
  by (auto simp: same_map_def dest: mset_eq_setD)

lemma same_map_lookup: "same_map m m' \<Longrightarrow> map_of m = map_of m'"
proof
  fix k
  assume s: "same_map m m'"
  then have "map_of m k = Some v \<longleftrightarrow> map_of m' k = Some v" for v
    using same_map_set [OF s] by (simp add: same_map_def map_wf_def)
  then show "map_of m k = map_of m' k" by (metis not_None_eq)
qed

lemma same_map_length: "same_map m m' \<Longrightarrow> length m = length m'"
  by (auto simp: same_map_def dest: mset_eq_length)

lemma same_map_sym: "same_map m m' \<Longrightarrow> same_map m' m"
  by (simp add: same_map_def)

text \<open>The interface of the program's string-keyed maps: what the components rely on when they
  read, write and delete entries of a map without looking at its iteration order.\<close>

locale go_map =
  fixes look :: "'m \<Rightarrow> string \<Rightarrow> 'v option"
    and put :: "string \<Rightarrow> 'v \<Rightarrow> 'm \<Rightarrow> 'm"
    and del :: "string \<Rightarrow> 'm \<Rightarrow> 'm"
    and wf :: "'m \<Rightarrow> bool"
  assumes look_put: "look (put k v m) = (look m)(k \<mapsto> v)"
    and look_del: "look (del k m) = (look m)(k := None)"
    and wf_put: "wf m \<Longrightarrow> wf (put k v m)"
    and wf_del: "wf m \<Longrightarrow> wf (del k m)"
begin

text \<open>Setting an entry when a condition holds and deleting it otherwise: the derived fields
  that a handler recomputes each time it saves a configuration.\<close>

definition sync :: "string \<Rightarrow> 'v option \<Rightarrow> 'm \<Rightarrow> 'm" where
  "sync k ov m = (case ov of None \<Rightarrow> del k m | Some v \<Rightarrow> put k v m)"

lemma look_sync: "look (sync k ov m) = (look m)(k := ov)"
  by (cases ov) (simp_all add: sync_def look_put look_del)

lemma wf_sync: "wf m \<Longrightarrow> wf (sync k ov m)"
  by (cases ov) (simp_all add: sync_def wf_put wf_del)

lemma look_sync_same: "look (sync k ov (sync k ov' m)) = look (sync k ov m)"
  by (simp add: look_sync)

lemma look_sync_commute:
  "k \<noteq> l \<Longrightarrow> look (sync k ov (sync l ow m)) = look (sync l ow (sync k ov m))"
  by (simp add: look_sync fun_upd_twist)

end

interpretation gm: go_map map_of map_put map_delete map_wf
  by unfold_locales (simp_all add: map_put_lookup map_delete_lookup map_put_wf map_delete_wf)

section \<open>Typed reads\<close>

text \<open>\<open>v.(string)\<close>, \<open>v.(bool)\<close> and \<open>v.(map[string]any)\<close> with the comma-ok form.\<close>

fun as_str :: "goval \<Rightarrow> string option" where
  "as_str (GStr s) = Some s"
| "as_str _ = None"

fun as_bool :: "goval \<Rightarrow> bool option" where
  "as_bool (GBool b) = Some b"
| "as_bool _ = None"

fun as_obj :: "goval \<Rightarrow> gobj option" where
  "as_obj (GObj m) = Some m"
| "as_obj _ = None"

lemma as_str_GNil [simp]: "as_str GNil = None" and as_bool_GNil [simp]: "as_bool GNil = None"
  by simp_all

lemma mget_nil [simp]: "mget None k = GNil"
  by (simp add: mget_def mlookup_def)

lemma mlookup_nil [simp]: "mlookup None k = None"
  by (simp add: mlookup_def)

lemma mlookup_Some [simp]: "mlookup (Some kv) k = map_of kv k"
  by (simp add: mlookup_def)

lemma mget_Some: "mget (Some kv) k = (case map_of kv k of None \<Rightarrow> GNil | Some v \<Rightarrow> v)"
  by (simp add: mget_def)

definition opt_default :: "'a \<Rightarrow> 'a option \<Rightarrow> 'a" where
  "opt_default d x = (case x of None \<Rightarrow> d | Some v \<Rightarrow> v)"

lemma opt_default_simps [simp]: "opt_default d None = d" "opt_default d (Some v) = v"
  by (simp_all add: opt_default_def)

end
