(* ===== verification/AccountModel.thy ===== *)
theory AccountModel
  imports GoValue
begin

text \<open>
  Upstream accounts, first part of \<open>service/account.go\<close>: the entity, the constants it is
  compared with, and the readers of its JSON columns. A method whose receiver is checked for
  nil takes an \<open>account option\<close>; the others take the account. Every method that reads the
  clock takes the instant \<open>now\<close>; the calls that one invocation makes see the same instant.
\<close>

section \<open>Constants\<close>

abbreviation StatusActive :: string where "StatusActive \<equiv> ''active''"
abbreviation PlatformAnthropic :: string where "PlatformAnthropic \<equiv> ''anthropic''"
abbreviation PlatformOpenAI :: string where "PlatformOpenAI \<equiv> ''openai''"
abbreviation PlatformGemini :: string where "PlatformGemini \<equiv> ''gemini''"
abbreviation PlatformAntigravity :: string where "PlatformAntigravity \<equiv> ''antigravity''"
abbreviation AccountTypeOAuth :: string where "AccountTypeOAuth \<equiv> ''oauth''"
abbreviation AccountTypeSetupToken :: string where "AccountTypeSetupToken \<equiv> ''setup-token''"
abbreviation AccountTypeAPIKey :: string where "AccountTypeAPIKey \<equiv> ''apikey''"
abbreviation AccountTypeServiceAccount :: string where "AccountTypeServiceAccount \<equiv> ''service_account''"
abbreviation AccountTypeBedrock :: string where "AccountTypeBedrock \<equiv> ''bedrock''"

section \<open>The entity\<close>

text \<open>The fields that the modelled methods read. The last six are the in-memory cache of the
  resolved model mapping; pointers kept there are addresses.\<close>

record account_group =
  ag_AccountID :: int
  ag_GroupID :: int
  ag_Priority :: int

record account =
  acc_ID :: int
  acc_Platform :: string
  acc_Type :: string
  acc_Credentials :: gobj
  acc_Extra :: gobj
  acc_Concurrency :: int
  acc_Priority :: int
  acc_RateMultiplier :: "float64 option"
  acc_LoadFactor :: "int option"
  acc_Status :: string
  acc_LastUsedAt :: "gtime option"
  acc_ExpiresAt :: "gtime option"
  acc_AutoPauseOnExpired :: bool
  acc_Schedulable :: bool
  acc_RateLimitResetAt :: "gtime option"
  acc_OverloadUntil :: "gtime option"
  acc_TempUnschedulableUntil :: "gtime option"
  acc_SessionWindowStart :: "gtime option"
  acc_SessionWindowEnd :: "gtime option"
  acc_AccountGroups :: "account_group list"
  acc_modelMappingCache :: "string gomap option"
  acc_modelMappingCacheReady :: bool
  acc_modelMappingCacheCredentialsPtr :: nat
  acc_modelMappingCacheRawPtr :: nat
  acc_modelMappingCacheRawLen :: nat
  acc_modelMappingCacheRawSig :: "64 word"

record temp_unsched_rule =
  tur_ErrorCode :: int
  tur_Keywords :: "string list"
  tur_DurationMinutes :: int
  tur_Description :: string

text \<open>A blank account, used to build closed instances.\<close>

definition blank_account :: account where
  "blank_account =
     \<lparr>acc_ID = 1, acc_Platform = PlatformAnthropic, acc_Type = AccountTypeAPIKey,
      acc_Credentials = None, acc_Extra = None, acc_Concurrency = 0, acc_Priority = 0,
      acc_RateMultiplier = None, acc_LoadFactor = None, acc_Status = StatusActive, acc_LastUsedAt = None,
      acc_ExpiresAt = None, acc_AutoPauseOnExpired = False, acc_Schedulable = True,
      acc_RateLimitResetAt = None, acc_OverloadUntil = None, acc_TempUnschedulableUntil = None,
      acc_SessionWindowStart = None, acc_SessionWindowEnd = None, acc_AccountGroups = [],
      acc_modelMappingCache = None, acc_modelMappingCacheReady = False,
      acc_modelMappingCacheCredentialsPtr = 0, acc_modelMappingCacheRawPtr = 0,
      acc_modelMappingCacheRawLen = 0, acc_modelMappingCacheRawSig = 0\<rparr>"

section \<open>Basic predicates and factors\<close>

definition Account_IsActive :: "account \<Rightarrow> bool" where
  "Account_IsActive a \<longleftrightarrow> acc_Status a = StatusActive"

definition BillingRateMultiplier :: "account option \<Rightarrow> float64" where
  "BillingRateMultiplier oa =
     (case oa of
        None \<Rightarrow> f_one
      | Some a \<Rightarrow>
          (case acc_RateMultiplier a of
             None \<Rightarrow> f_one
           | Some r \<Rightarrow> if f_lt r f_zero then f_one else r))"

definition EffectiveLoadFactor :: "account option \<Rightarrow> int" where
  "EffectiveLoadFactor oa =
     (case oa of
        None \<Rightarrow> 1
      | Some a \<Rightarrow>
          (case acc_LoadFactor a of
             Some l \<Rightarrow>
               if 0 < l then l else if 0 < acc_Concurrency a then acc_Concurrency a else 1
           | None \<Rightarrow> if 0 < acc_Concurrency a then acc_Concurrency a else 1))"

text \<open>\<open>now.Before(*p)\<close> behind a nil check.\<close>

definition before_opt :: "gtime \<Rightarrow> gtime option \<Rightarrow> bool" where
  "before_opt now p = (case p of None \<Rightarrow> False | Some t \<Rightarrow> now < t)"

lemma before_opt_simps [simp]: "\<not> before_opt now None" "before_opt now (Some t) \<longleftrightarrow> now < t"
  by (simp_all add: before_opt_def)

definition IsRateLimited :: "gtime \<Rightarrow> account \<Rightarrow> bool" where
  "IsRateLimited now a \<longleftrightarrow> before_opt now (acc_RateLimitResetAt a)"

definition IsOverloaded :: "gtime \<Rightarrow> account \<Rightarrow> bool" where
  "IsOverloaded now a \<longleftrightarrow> before_opt now (acc_OverloadUntil a)"

definition IsOAuth :: "account \<Rightarrow> bool" where
  "IsOAuth a \<longleftrightarrow> acc_Type a = AccountTypeOAuth \<or> acc_Type a = AccountTypeSetupToken"

definition IsGemini :: "account \<Rightarrow> bool" where
  "IsGemini a \<longleftrightarrow> acc_Platform a = PlatformGemini"

definition CanGetUsage :: "account \<Rightarrow> bool" where
  "CanGetUsage a \<longleftrightarrow> acc_Type a = AccountTypeOAuth"

definition IsBedrock :: "account \<Rightarrow> bool" where
  "IsBedrock a \<longleftrightarrow> acc_Platform a = PlatformAnthropic \<and> acc_Type a = AccountTypeBedrock"

definition IsAPIKeyOrBedrock :: "account \<Rightarrow> bool" where
  "IsAPIKeyOrBedrock a \<longleftrightarrow> acc_Type a = AccountTypeAPIKey \<or> acc_Type a = AccountTypeBedrock"

definition IsOpenAI :: "account \<Rightarrow> bool" where
  "IsOpenAI a \<longleftrightarrow> acc_Platform a = PlatformOpenAI"

definition IsAnthropic :: "account \<Rightarrow> bool" where
  "IsAnthropic a \<longleftrightarrow> acc_Platform a = PlatformAnthropic"

definition IsOpenAIOAuth :: "account \<Rightarrow> bool" where
  "IsOpenAIOAuth a \<longleftrightarrow> IsOpenAI a \<and> acc_Type a = AccountTypeOAuth"

definition IsOpenAIApiKey :: "account \<Rightarrow> bool" where
  "IsOpenAIApiKey a \<longleftrightarrow> IsOpenAI a \<and> acc_Type a = AccountTypeAPIKey"

definition IsAnthropicOAuthOrSetupToken :: "account \<Rightarrow> bool" where
  "IsAnthropicOAuthOrSetupToken a \<longleftrightarrow>
     acc_Platform a = PlatformAnthropic
     \<and> (acc_Type a = AccountTypeOAuth \<or> acc_Type a = AccountTypeSetupToken)"

lemmas account_kind_defs [model_simps] =
  Account_IsActive_def IsOAuth_def IsGemini_def CanGetUsage_def IsBedrock_def
  IsAPIKeyOrBedrock_def IsOpenAI_def IsAnthropic_def IsOpenAIOAuth_def IsOpenAIApiKey_def
  IsAnthropicOAuthOrSetupToken_def

lemma EffectiveLoadFactor_pos: "0 < EffectiveLoadFactor oa"
  by (auto simp: EffectiveLoadFactor_def split: option.splits)

lemma BillingRateMultiplier_nn: "f_nn (BillingRateMultiplier oa)"
  by (auto simp: BillingRateMultiplier_def f_nn_def split: option.splits)

section \<open>Parsing values of the JSON columns\<close>

definition num_int64 :: "string \<Rightarrow> int option" where
  "num_int64 s = parse_int64 s"

fun parseExtraFloat64 :: "goval \<Rightarrow> float64" where
  "parseExtraFloat64 (GF64 x) = x"
| "parseExtraFloat64 (GF32 x) = x"
| "parseExtraFloat64 (GInt n) = f_of_int n"
| "parseExtraFloat64 (GInt64 n) = f_of_int n"
| "parseExtraFloat64 (GNum s) = opt_default f_zero (parse_float s)"
| "parseExtraFloat64 (GStr s) = opt_default f_zero (parse_float (trim_space s))"
| "parseExtraFloat64 _ = f_zero"

text \<open>Three functions share the switch over the dynamic type and differ in their default.\<close>

fun any_to_int :: "int \<Rightarrow> goval \<Rightarrow> int" where
  "any_to_int d (GInt n) = n"
| "any_to_int d (GInt64 n) = n"
| "any_to_int d (GF64 x) = f_to_int x"
| "any_to_int d (GNum s) = opt_default d (num_int64 s)"
| "any_to_int d (GStr s) = opt_default d (parse_int64 (trim_space s))"
| "any_to_int d _ = d"

definition parseExtraInt :: "goval \<Rightarrow> int" where
  "parseExtraInt v = any_to_int 0 v"

definition ParseExtraInt :: "goval \<Rightarrow> int" where
  "ParseExtraInt v = parseExtraInt v"

definition parseTempUnschedInt :: "goval \<Rightarrow> int" where
  "parseTempUnschedInt v = any_to_int 0 v"

definition defaultPoolModeRetryCount :: int where "defaultPoolModeRetryCount = 3"
definition maxPoolModeRetryCount :: int where "maxPoolModeRetryCount = 10"

definition parsePoolModeRetryCount :: "goval \<Rightarrow> int" where
  "parsePoolModeRetryCount v = any_to_int defaultPoolModeRetryCount v"

definition parseTempUnschedString :: "goval \<Rightarrow> string" where
  "parseTempUnschedString v = (case as_str v of None \<Rightarrow> [] | Some s \<Rightarrow> trim_space s)"

definition parseTempUnschedStrings :: "goval \<Rightarrow> string list" where
  "parseTempUnschedStrings v =
     (let raw = (case v of
                   GStrs ss \<Rightarrow> ss
                 | GList items \<Rightarrow> List.map_filter as_str items
                 | _ \<Rightarrow> [])
      in filter (\<lambda>s. s \<noteq> []) (map trim_space raw))"

definition normalizeAccountNotes :: "string option \<Rightarrow> string option" where
  "normalizeAccountNotes v =
     (case v of
        None \<Rightarrow> None
      | Some s \<Rightarrow> let t = trim_space s in if t = [] then None else Some t)"

lemma normalizeAccountNotes_idem:
  "normalizeAccountNotes (normalizeAccountNotes v) = normalizeAccountNotes v"
  by (auto simp: normalizeAccountNotes_def Let_def split: option.splits if_splits)

section \<open>Credentials\<close>

fun cred_text :: "goval \<Rightarrow> string" where
  "cred_text (GStr s) = s"
| "cred_text (GNum s) = s"
| "cred_text (GF64 x) = itoa (f_to_int x)"
| "cred_text (GInt64 n) = itoa n"
| "cred_text (GInt n) = itoa n"
| "cred_text _ = []"

definition GetCredential :: "account \<Rightarrow> string \<Rightarrow> string" where
  "GetCredential a key = cred_text (mget (acc_Credentials a) key)"

definition GetCredentialAsTime :: "account \<Rightarrow> string \<Rightarrow> gtime option" where
  "GetCredentialAsTime a key =
     (let s = GetCredential a key in
      if s = [] then None
      else (case parse_rfc3339 s of
              Some t \<Rightarrow> Some t
            | None \<Rightarrow> (case parse_int64 s of Some ts \<Rightarrow> Some (ts * nanos) | None \<Rightarrow> None)))"

definition GetCredentialAsInt64 :: "account option \<Rightarrow> string \<Rightarrow> int" where
  "GetCredentialAsInt64 oa key =
     (case oa of None \<Rightarrow> 0 | Some a \<Rightarrow> any_to_int 0 (mget (acc_Credentials a) key))"

text \<open>A boolean switch of a column: false unless the entry is the boolean true.\<close>

definition flag :: "gobj \<Rightarrow> string \<Rightarrow> bool" where
  "flag m key = (case as_bool (mget m key) of None \<Rightarrow> False | Some b \<Rightarrow> b)"

lemma flag_nil [simp]: "flag None key = False"
  by (simp add: flag_def)

lemma flag_iff: "flag m key \<longleftrightarrow> mget m key = GBool True"
  by (cases "mget m key") (auto simp: flag_def)

definition IsTempUnschedulableEnabled :: "account \<Rightarrow> bool" where
  "IsTempUnschedulableEnabled a = flag (acc_Credentials a) ''temp_unschedulable_enabled''"

definition temp_rule_of :: "goval \<Rightarrow> temp_unsched_rule option" where
  "temp_rule_of item =
     (case item of
        GObj (Some kv) \<Rightarrow>
          let entry = Some kv;
              rule = \<lparr>tur_ErrorCode = parseTempUnschedInt (mget entry ''error_code''),
                      tur_Keywords = parseTempUnschedStrings (mget entry ''keywords''),
                      tur_DurationMinutes = parseTempUnschedInt (mget entry ''duration_minutes''),
                      tur_Description = parseTempUnschedString (mget entry ''description'')\<rparr>
          in if tur_ErrorCode rule \<le> 0 \<or> tur_DurationMinutes rule \<le> 0 \<or> tur_Keywords rule = []
             then None else Some rule
      | _ \<Rightarrow> None)"

definition GetTempUnschedulableRules :: "account \<Rightarrow> temp_unsched_rule list" where
  "GetTempUnschedulableRules a =
     (case mget (acc_Credentials a) ''temp_unschedulable_rules'' of
        GList items \<Rightarrow> List.map_filter temp_rule_of items
      | _ \<Rightarrow> [])"

text \<open>Every rule that the scheduler will apply is complete: a positive status code, a positive
  duration, and keywords that are trimmed and not empty.\<close>

definition temp_rule_ok :: "temp_unsched_rule \<Rightarrow> bool" where
  "temp_rule_ok r \<longleftrightarrow>
     0 < tur_ErrorCode r \<and> 0 < tur_DurationMinutes r \<and> tur_Keywords r \<noteq> []
     \<and> (\<forall>k \<in> set (tur_Keywords r). k \<noteq> [] \<and> trim_space k = k)"

lemma parseTempUnschedStrings_clean:
  "k \<in> set (parseTempUnschedStrings v) \<Longrightarrow> k \<noteq> [] \<and> trim_space k = k"
  by (auto simp: parseTempUnschedStrings_def Let_def)

lemma temp_rule_of_ok: "temp_rule_of item = Some r \<Longrightarrow> temp_rule_ok r"
  by (auto simp: temp_rule_of_def temp_rule_ok_def Let_def dest: parseTempUnschedStrings_clean
      split: goval.splits option.splits if_splits)

lemma GetTempUnschedulableRules_ok: "r \<in> set (GetTempUnschedulableRules a) \<Longrightarrow> temp_rule_ok r"
  by (auto simp: GetTempUnschedulableRules_def List.map_filter_def intro: temp_rule_of_ok
      split: goval.splits)

end
