(* ===== verification/ModelMapping.thy ===== *)
theory ModelMapping
  imports AccountModel
begin

unbundle bit_operations_syntax

text \<open>
  The model mapping of an account (\<open>service/account.go\<close>, and the default mapping of
  \<open>domain/constants.go\<close>): which requested models an account serves and under which name it
  forwards them. A mapping is a Go map, so its association list may come in any order; the
  lemmas show that no result depends on it.
\<close>

section \<open>Wildcards\<close>

definition matchAntigravityWildcard :: "string \<Rightarrow> string \<Rightarrow> bool" where
  "matchAntigravityWildcard pattern str =
     (if has_suffix pattern ''*'' then has_prefix str (take (length pattern - 1) pattern)
      else pattern = str)"

definition matchWildcard :: "string \<Rightarrow> string \<Rightarrow> bool" where
  "matchWildcard pattern str = matchAntigravityWildcard pattern str"

text \<open>The order of \<open>sort.Slice\<close>: longer patterns first, equal lengths by bytes.\<close>

definition pattern_less :: "string \<times> string \<Rightarrow> string \<times> string \<Rightarrow> bool" where
  "pattern_less p q =
     (if length (fst p) \<noteq> length (fst q) then length (fst q) < length (fst p)
      else str_lt (fst p) (fst q))"

definition matchWildcardMappingResult :: "string gomap \<Rightarrow> string \<Rightarrow> string \<times> bool" where
  "matchWildcardMappingResult mapping requestedModel =
     (let matches = filter (\<lambda>p. matchWildcard (fst p) requestedModel) mapping in
      if matches = [] then (requestedModel, False)
      else (snd (hd (sort_by pattern_less matches)), True))"

lemma pattern_less_asym: "pattern_less p q \<Longrightarrow> \<not> pattern_less q p"
  by (auto simp: pattern_less_def str_lt_asym split: if_splits)

lemma pattern_less_neg_trans:
  "\<not> pattern_less q p \<Longrightarrow> \<not> pattern_less r q \<Longrightarrow> \<not> pattern_less r p"
  by (auto simp: pattern_less_def split: if_splits dest: str_lt_neg_trans)

interpretation pattern_order: strict_weak pattern_less
  by unfold_locales (metis pattern_less_asym, metis pattern_less_neg_trans)

lemma pattern_less_total: "\<not> pattern_less p q \<Longrightarrow> \<not> pattern_less q p \<Longrightarrow> fst p = fst q"
  by (auto simp: pattern_less_def str_lt_total split: if_splits)

section \<open>Lookup in a mapping\<close>

definition mappingSupportsRequestedModel :: "string gomap \<Rightarrow> string \<Rightarrow> bool" where
  "mappingSupportsRequestedModel mapping requestedModel =
     (if requestedModel = [] then False
      else if map_of mapping requestedModel \<noteq> None then True
      else list_ex (\<lambda>p. matchWildcard (fst p) requestedModel) mapping)"

definition resolveRequestedModelInMapping :: "string gomap \<Rightarrow> string \<Rightarrow> string \<times> bool" where
  "resolveRequestedModelInMapping mapping requestedModel =
     (if requestedModel = [] then ([], False)
      else (case map_of mapping requestedModel of
              Some mapped \<Rightarrow> (mapped, True)
            | None \<Rightarrow> matchWildcardMappingResult mapping requestedModel))"

definition normalizeRequestedModelForLookup :: "string \<Rightarrow> string \<Rightarrow> string" where
  "normalizeRequestedModelForLookup platform requestedModel =
     (let trimmed = trim_space requestedModel in
      if trimmed = [] then []
      else if platform \<noteq> PlatformGemini \<and> platform \<noteq> PlatformAntigravity then trimmed
      else if trimmed = ''gemini-3.1-pro-preview-customtools'' then ''gemini-3.1-pro-preview''
      else trimmed)"

text \<open>The same map in another order gives the same answers.\<close>

lemma distinct_fst_eq:
  "map_wf m \<Longrightarrow> p \<in> set m \<Longrightarrow> q \<in> set m \<Longrightarrow> fst p = fst q \<Longrightarrow> p = q"
  by (cases p; cases q) (auto simp: map_wf_def dest: eq_key_imp_eq_value)

lemma matchWildcardMappingResult_same_map:
  assumes "same_map m m'"
  shows "matchWildcardMappingResult m r = matchWildcardMappingResult m' r"
proof -
  let ?f = "filter (\<lambda>p. matchWildcard (fst p) r)"
  have s: "set (?f m) = set (?f m')" using same_map_set [OF assms] by simp
  have "?f m = [] \<longleftrightarrow> ?f m' = []" using s by (metis set_empty)
  moreover have "hd (sort_by pattern_less (?f m)) = hd (sort_by pattern_less (?f m'))"
    if "?f m \<noteq> []"
  proof (rule pattern_order.hd_sort_by_unique [OF s that])
    fix p q
    assume pq: "p \<in> set (?f m)" "q \<in> set (?f m)" "\<not> pattern_less p q" "\<not> pattern_less q p"
    have "map_wf m" using assms by (simp add: same_map_def)
    then show "p = q" using pq pattern_less_total [OF pq(3,4)] distinct_fst_eq [of m p q] by simp
  qed
  ultimately show ?thesis by (auto simp: matchWildcardMappingResult_def Let_def)
qed

lemma resolveRequestedModel_same_map:
  "same_map m m' \<Longrightarrow> resolveRequestedModelInMapping m r = resolveRequestedModelInMapping m' r"
  by (simp add: resolveRequestedModelInMapping_def same_map_lookup
      matchWildcardMappingResult_same_map [of m m'] cong: option.case_cong)

lemma mappingSupports_same_map:
  "same_map m m' \<Longrightarrow> mappingSupportsRequestedModel m r = mappingSupportsRequestedModel m' r"
  by (simp add: mappingSupportsRequestedModel_def same_map_lookup list_ex_iff same_map_set)

text \<open>A request is supported exactly when resolving it finds a rule.\<close>

lemma mappingSupports_iff_resolves:
  "mappingSupportsRequestedModel m r \<longleftrightarrow> snd (resolveRequestedModelInMapping m r)"
  by (auto simp: mappingSupportsRequestedModel_def resolveRequestedModelInMapping_def
      matchWildcardMappingResult_def Let_def list_ex_iff filter_empty_conv split: option.splits)

text \<open>The rule that wins among the wildcards: it matches, and no matching pattern is longer.\<close>

lemma matchWildcardMappingResult_longest:
  assumes "matchWildcardMappingResult m r = (t, True)"
  shows "\<exists>p. (p, t) \<in> set m \<and> matchWildcard p r
    \<and> (\<forall>q u. (q, u) \<in> set m \<longrightarrow> matchWildcard q r \<longrightarrow> length q \<le> length p)"
proof -
  define ms where "ms = filter (\<lambda>p. matchWildcard (fst p) r) m"
  define h where "h = hd (sort_by pattern_less ms)"
  have ne: "ms \<noteq> []" and t: "snd h = t"
    using assms by (auto simp: matchWildcardMappingResult_def Let_def ms_def h_def split: if_splits)
  have "h \<in> set ms" unfolding h_def using ne by (rule pattern_order.hd_sort_by_mem)
  moreover have "\<not> pattern_less y h" if "y \<in> set ms" for y
    unfolding h_def using ne that by (rule pattern_order.hd_sort_by_least)
  then have "length q \<le> length (fst h)" if "(q, u) \<in> set m" "matchWildcard q r" for q u
    using that by (fastforce simp: pattern_less_def ms_def split: if_splits)
  ultimately show ?thesis
    using t by (intro exI [of _ "fst h"]) (auto simp: ms_def)
qed

section \<open>The default mapping of the Antigravity platform\<close>

definition DefaultAntigravityModelMapping :: "string gomap" where
  "DefaultAntigravityModelMapping =
     [(''claude-opus-4.7'', ''claude-opus-4-7''),
      (''claude-opus-4-7'', ''claude-opus-4-7''),
      (''claude-opus-4.6-thinking'', ''claude-opus-4-6-thinking''),
      (''claude-opus-4-6-thinking'', ''claude-opus-4-6-thinking''),
      (''claude-opus-4.6'', ''claude-opus-4-6-thinking''),
      (''claude-opus-4-6'', ''claude-opus-4-6-thinking''),
      (''claude-opus-4.5-thinking'', ''claude-opus-4-6-thinking''),
      (''claude-opus-4-5-thinking'', ''claude-opus-4-6-thinking''),
      (''claude-sonnet-4.6'', ''claude-sonnet-4-6''),
      (''claude-sonnet-4-6'', ''claude-sonnet-4-6''),
      (''claude-sonnet-4.5'', ''claude-sonnet-4-5''),
      (''claude-sonnet-4-5'', ''claude-sonnet-4-5''),
      (''claude-sonnet-4.5-thinking'', ''claude-sonnet-4-5-thinking''),
      (''claude-sonnet-4-5-thinking'', ''claude-sonnet-4-5-thinking''),
      (''claude-opus-4-5-20251101'', ''claude-opus-4-6-thinking''),
      (''claude-sonnet-4-5-20250929'', ''claude-sonnet-4-5''),
      (''claude-haiku-4.5'', ''claude-sonnet-4-6''),
      (''claude-haiku-4-5'', ''claude-sonnet-4-6''),
      (''claude-haiku-4-5-20251001'', ''claude-sonnet-4-6''),
      (''gemini-2.5-flash'', ''gemini-2.5-flash''),
      (''gemini-2.5-flash-image'', ''gemini-2.5-flash-image''),
      (''gemini-2.5-flash-image-preview'', ''gemini-2.5-flash-image''),
      (''gemini-2.5-flash-lite'', ''gemini-2.5-flash-lite''),
      (''gemini-2.5-flash-thinking'', ''gemini-2.5-flash-thinking''),
      (''gemini-2.5-pro'', ''gemini-2.5-pro''),
      (''gemini-3-flash'', ''gemini-3-flash''),
      (''gemini-3-pro-high'', ''gemini-3-pro-high''),
      (''gemini-3-pro-low'', ''gemini-3-pro-low''),
      (''gemini-3-flash-preview'', ''gemini-3-flash''),
      (''gemini-3-pro-preview'', ''gemini-3-pro-high''),
      (''gemini-3.1-pro-high'', ''gemini-3.1-pro-high''),
      (''gemini-3.1-pro-low'', ''gemini-3.1-pro-low''),
      (''gemini-3.1-pro-preview'', ''gemini-3.1-pro-high''),
      (''gemini-3.1-flash-image'', ''gemini-3.1-flash-image''),
      (''gemini-3.1-flash-image-preview'', ''gemini-3.1-flash-image''),
      (''gemini-3-pro-image'', ''gemini-3.1-flash-image''),
      (''gemini-3-pro-image-preview'', ''gemini-3.1-flash-image''),
      (''gpt-oss-120b-medium'', ''gpt-oss-120b-medium''),
      (''tab_flash_lite_preview'', ''tab_flash_lite_preview'')]"

lemma DefaultAntigravityModelMapping_nonempty [simp]: "DefaultAntigravityModelMapping \<noteq> []"
  by (simp add: DefaultAntigravityModelMapping_def)

section \<open>Resolving the configured mapping\<close>

definition ensureAntigravityDefaultPassthrough :: "string gomap \<Rightarrow> string \<Rightarrow> string gomap" where
  "ensureAntigravityDefaultPassthrough mapping model =
     (if model = [] then mapping
      else if map_of mapping model \<noteq> None then mapping
      else if list_ex (\<lambda>p. matchWildcard (fst p) model) mapping then mapping
      else map_put model model mapping)"

fun ensureAntigravityDefaultPassthroughs :: "string gomap \<Rightarrow> string list \<Rightarrow> string gomap" where
  "ensureAntigravityDefaultPassthroughs mapping [] = mapping"
| "ensureAntigravityDefaultPassthroughs mapping (m # ms) =
     ensureAntigravityDefaultPassthroughs (ensureAntigravityDefaultPassthrough mapping m) ms"

text \<open>The entries of a \<open>map[string]any\<close> whose value is a string.\<close>

definition string_entries :: "goval gomap \<Rightarrow> string gomap" where
  "string_entries kv =
     List.map_filter (\<lambda>p. case as_str (snd p) of None \<Rightarrow> None | Some s \<Rightarrow> Some (fst p, s)) kv"

definition rawModelMapping :: "account \<Rightarrow> gobj" where
  "rawModelMapping a =
     (case as_obj (mget (acc_Credentials a) ''model_mapping'') of None \<Rightarrow> None | Some m \<Rightarrow> m)"

definition resolveModelMapping :: "account \<Rightarrow> gobj \<Rightarrow> string gomap option" where
  "resolveModelMapping a rawMapping =
     (let dflt = (if acc_Platform a = PlatformAntigravity
                  then Some DefaultAntigravityModelMapping else None) in
      if acc_Credentials a = None then dflt
      else if mlen rawMapping = 0 then dflt
      else (let result = string_entries (mentries rawMapping) in
            if result \<noteq> [] then
              Some (if acc_Platform a = PlatformAntigravity
                    then ensureAntigravityDefaultPassthroughs result
                           [''gemini-3-flash'', ''gemini-3.1-pro-high'', ''gemini-3.1-pro-low'']
                    else result)
            else dflt))"

section \<open>The cache of the resolved mapping\<close>

text \<open>FNV-1a over the sorted entries: the key, a zero byte, the value (a byte 1 when it is not
  a string) and a byte 255.\<close>

definition fnv_offset :: "64 word" where "fnv_offset = 14695981039346656037"
definition fnv_prime :: "64 word" where "fnv_prime = 1099511628211"

definition fnv_step :: "64 word \<Rightarrow> char \<Rightarrow> 64 word" where
  "fnv_step h c = (h XOR of_char c) * fnv_prime"

definition signature_bytes :: "goval gomap \<Rightarrow> string" where
  "signature_bytes kv =
     concat (map (\<lambda>k. k @ [CHR 0x00]
                      @ (case map_of kv k of Some (GStr v) \<Rightarrow> v | _ \<Rightarrow> [CHR 0x01])
                      @ [CHR 0xFF])
               (sort_by str_lt (map fst kv)))"

definition modelMappingSignature :: "goval gomap \<Rightarrow> 64 word" where
  "modelMappingSignature kv =
     (if kv = [] then 0 else foldl fnv_step fnv_offset (signature_bytes kv))"

definition mapPtr :: "gobj \<Rightarrow> nat \<Rightarrow> nat" where
  "mapPtr m addr = (case m of None \<Rightarrow> 0 | Some _ \<Rightarrow> addr)"

text \<open>\<open>GetModelMapping\<close> reads and refreshes the cache: the mapping and the account after the
  call. The two addresses are those of the credentials map and of the raw mapping in it.\<close>

definition GetModelMapping :: "nat \<Rightarrow> nat \<Rightarrow> account \<Rightarrow> string gomap option \<times> account" where
  "GetModelMapping credAddr rawAddr a =
     (let credentialsPtr = mapPtr (acc_Credentials a) credAddr;
          rawMapping = rawModelMapping a;
          rawPtr = mapPtr rawMapping rawAddr;
          rawLen = mlen rawMapping;
          rawSig = modelMappingSignature (mentries rawMapping) in
      if acc_modelMappingCacheReady a
         \<and> acc_modelMappingCacheCredentialsPtr a = credentialsPtr
         \<and> acc_modelMappingCacheRawPtr a = rawPtr
         \<and> acc_modelMappingCacheRawLen a = rawLen
         \<and> acc_modelMappingCacheRawSig a = rawSig
      then (acc_modelMappingCache a, a)
      else (let mapping = resolveModelMapping a rawMapping in
            (mapping,
             a\<lparr>acc_modelMappingCache := mapping,
               acc_modelMappingCacheReady := True,
               acc_modelMappingCacheCredentialsPtr := credentialsPtr,
               acc_modelMappingCacheRawPtr := rawPtr,
               acc_modelMappingCacheRawLen := rawLen,
               acc_modelMappingCacheRawSig := rawSig\<rparr>)))"

text \<open>The mapping that a call sees, without the cache refresh.\<close>

definition modelMappingOf :: "nat \<times> nat \<Rightarrow> account \<Rightarrow> string gomap" where
  "modelMappingOf ad a = mentries (fst (GetModelMapping (fst ad) (snd ad) a))"

section \<open>Requests against the mapping\<close>

definition IsModelSupported :: "nat \<times> nat \<Rightarrow> account \<Rightarrow> string \<Rightarrow> bool" where
  "IsModelSupported ad a requestedModel =
     (let mapping = modelMappingOf ad a in
      if mapping = [] then True
      else if mappingSupportsRequestedModel mapping requestedModel then True
      else (let normalized = normalizeRequestedModelForLookup (acc_Platform a) requestedModel in
            normalized \<noteq> requestedModel \<and> mappingSupportsRequestedModel mapping normalized))"

definition ResolveMappedModel :: "nat \<times> nat \<Rightarrow> account \<Rightarrow> string \<Rightarrow> string \<times> bool" where
  "ResolveMappedModel ad a requestedModel =
     (let mapping = modelMappingOf ad a in
      if mapping = [] then (requestedModel, False)
      else (let (m1, ok1) = resolveRequestedModelInMapping mapping requestedModel in
            if ok1 then (m1, True)
            else (let normalized = normalizeRequestedModelForLookup (acc_Platform a) requestedModel in
                  if normalized \<noteq> requestedModel then
                    (let (m2, ok2) = resolveRequestedModelInMapping mapping normalized in
                     if ok2 then (m2, True) else (requestedModel, False))
                  else (requestedModel, False))))"

definition GetMappedModel :: "nat \<times> nat \<Rightarrow> account \<Rightarrow> string \<Rightarrow> string" where
  "GetMappedModel ad a requestedModel = fst (ResolveMappedModel ad a requestedModel)"

definition mapAntigravityModel :: "nat \<times> nat \<Rightarrow> account option \<Rightarrow> string \<Rightarrow> string" where
  "mapAntigravityModel ad oa requestedModel =
     (case oa of
        None \<Rightarrow> []
      | Some a \<Rightarrow>
          if modelMappingOf ad a = [] then []
          else (let mapped = GetMappedModel ad a requestedModel in
                if mapped \<noteq> requestedModel then mapped
                else if IsModelSupported ad a requestedModel then requestedModel
                else []))"

definition applyThinkingModelSuffix :: "string \<Rightarrow> bool \<Rightarrow> string" where
  "applyThinkingModelSuffix mappedModel thinkingEnabled =
     (if \<not> thinkingEnabled then mappedModel
      else if mappedModel = ''claude-sonnet-4-5'' then ''claude-sonnet-4-5-thinking''
      else mappedModel)"

section \<open>Facts about the configured mapping\<close>

lemma in_string_entries: "(k, s) \<in> set (string_entries kv) \<longleftrightarrow> (k, GStr s) \<in> set kv"
proof
  assume "(k, s) \<in> set (string_entries kv)"
  then obtain v where "(k, v) \<in> set kv" "as_str v = Some s"
    by (auto simp: string_entries_def List.map_filter_def split: option.splits)
  then show "(k, GStr s) \<in> set kv" by (cases v) auto
next
  assume "(k, GStr s) \<in> set kv"
  then show "(k, s) \<in> set (string_entries kv)"
    by (force simp: string_entries_def List.map_filter_def)
qed

lemma string_entries_keys: "k \<in> fst ` set (string_entries kv) \<Longrightarrow> k \<in> fst ` set kv"
  by (force simp: in_string_entries)

lemma string_entries_Cons:
  "string_entries (p # kv) =
     (case as_str (snd p) of None \<Rightarrow> string_entries kv | Some s \<Rightarrow> (fst p, s) # string_entries kv)"
  by (simp add: string_entries_def List.map_filter_def split: option.splits)

lemma string_entries_wf: "map_wf kv \<Longrightarrow> map_wf (string_entries kv)"
proof (induction kv)
  case (Cons p kv)
  then show ?case
    using string_entries_keys [of "fst p" kv]
    by (auto simp: string_entries_Cons map_wf_def split: option.splits)
qed (simp add: string_entries_def map_wf_def List.map_filter_def)

lemma ensure_supports: "model \<noteq> [] \<Longrightarrow>
    mappingSupportsRequestedModel (ensureAntigravityDefaultPassthrough m model) model"
  by (auto simp: ensureAntigravityDefaultPassthrough_def mappingSupportsRequestedModel_def
      map_put_lookup)

lemma ensure_keeps:
  assumes "mappingSupportsRequestedModel m x"
  shows "mappingSupportsRequestedModel (ensureAntigravityDefaultPassthrough m model) x"
proof (cases "map_of m model = None \<and> model \<noteq> []")
  case True
  have "p \<in> set (map_put model model m)" if "p \<in> set m" for p
    using True that by (cases p) (force simp: map_put_def map_delete_def map_of_eq_None_iff)
  then show ?thesis
    using assms True
    by (auto simp: ensureAntigravityDefaultPassthrough_def mappingSupportsRequestedModel_def
        map_put_lookup list_ex_iff split: if_splits)
qed (use assms in \<open>auto simp: ensureAntigravityDefaultPassthrough_def\<close>)

lemma ensures_keep: "mappingSupportsRequestedModel m x \<Longrightarrow>
    mappingSupportsRequestedModel (ensureAntigravityDefaultPassthroughs m ms) x"
  by (induction ms arbitrary: m) (auto intro: ensure_keeps)

lemma ensures_support: "model \<in> set ms \<Longrightarrow> model \<noteq> [] \<Longrightarrow>
    mappingSupportsRequestedModel (ensureAntigravityDefaultPassthroughs m ms) model"
  by (induction ms arbitrary: m) (auto intro: ensures_keep ensure_supports)

lemma ensure_wf: "map_wf m \<Longrightarrow> map_wf (ensureAntigravityDefaultPassthrough m model)"
  by (simp add: ensureAntigravityDefaultPassthrough_def map_put_wf)

lemma ensures_wf: "map_wf m \<Longrightarrow> map_wf (ensureAntigravityDefaultPassthroughs m ms)"
  by (induction ms arbitrary: m) (auto intro: ensure_wf)

text \<open>An entry that the administrator configured keeps its target.\<close>

lemma ensure_conservative: "map_of m k = Some v \<Longrightarrow>
    map_of (ensureAntigravityDefaultPassthrough m model) k = Some v"
  by (auto simp: ensureAntigravityDefaultPassthrough_def map_put_lookup)

lemma ensures_conservative: "map_of m k = Some v \<Longrightarrow>
    map_of (ensureAntigravityDefaultPassthroughs m ms) k = Some v"
  by (induction ms arbitrary: m) (auto intro: ensure_conservative)

lemma ensures_nonempty: "m \<noteq> [] \<Longrightarrow> ensureAntigravityDefaultPassthroughs m ms \<noteq> []"
proof -
  have "ensureAntigravityDefaultPassthrough m model \<noteq> []" if "m \<noteq> []" for m model
    using that by (simp add: ensureAntigravityDefaultPassthrough_def map_put_def)
  then show "m \<noteq> [] \<Longrightarrow> ?thesis" by (induction ms arbitrary: m) auto
qed

lemma DefaultAntigravityModelMapping_wf: "map_wf DefaultAntigravityModelMapping"
  by (simp add: map_wf_def DefaultAntigravityModelMapping_def)

lemma resolveModelMapping_wf:
  "(\<And>kv. raw = Some kv \<Longrightarrow> map_wf kv) \<Longrightarrow> map_wf (mentries (resolveModelMapping a raw))"
  by (auto simp: resolveModelMapping_def mentries_def mlen_def Let_def map_wf_def [of "[]"]
      DefaultAntigravityModelMapping_wf intro!: ensure_wf string_entries_wf
      split: option.splits)

section \<open>Facts about requests\<close>

lemma IsModelSupported_iff:
  "IsModelSupported ad a r \<longleftrightarrow> modelMappingOf ad a = [] \<or> snd (ResolveMappedModel ad a r)"
  by (auto simp: IsModelSupported_def ResolveMappedModel_def Let_def mappingSupports_iff_resolves
      split: prod.splits)

lemma ResolveMappedModel_unmatched: "\<not> snd (ResolveMappedModel ad a r) \<Longrightarrow> fst (ResolveMappedModel ad a r) = r"
  by (auto simp: ResolveMappedModel_def Let_def split: prod.splits if_splits)

lemma mapAntigravityModel_eq:
  "mapAntigravityModel ad (Some a) r =
     (if modelMappingOf ad a = [] \<or> \<not> snd (ResolveMappedModel ad a r) then []
      else fst (ResolveMappedModel ad a r))"
  using ResolveMappedModel_unmatched [of ad a r]
  by (auto simp: mapAntigravityModel_def GetMappedModel_def IsModelSupported_iff Let_def)

section \<open>Coherence of the cache\<close>

text \<open>\<open>cache_for a raw\<close>: a filled cache holds what resolving \<open>raw\<close> gives, with the length and
  signature of \<open>raw\<close>.\<close>

definition resolved_for :: "string \<Rightarrow> gobj \<Rightarrow> string gomap option" where
  "resolved_for platform raw =
     resolveModelMapping (blank_account\<lparr>acc_Platform := platform, acc_Credentials := Some []\<rparr>) raw"

definition cache_for :: "account \<Rightarrow> gobj \<Rightarrow> bool" where
  "cache_for a raw \<longleftrightarrow>
     (acc_modelMappingCacheReady a \<longrightarrow>
        acc_modelMappingCacheRawLen a = mlen raw
        \<and> acc_modelMappingCacheRawSig a = modelMappingSignature (mentries raw)
        \<and> acc_modelMappingCache a = resolved_for (acc_Platform a) raw)"

lemma resolve_rawModelMapping:
  "resolveModelMapping a (rawModelMapping a) = resolved_for (acc_Platform a) (rawModelMapping a)"
  by (simp add: resolveModelMapping_def resolved_for_def rawModelMapping_def mlen_def Let_def)

lemma resolved_for_cong:
  assumes "mlen r = mlen r'" and "string_entries (mentries r) = string_entries (mentries r')"
  shows "resolved_for p r = resolved_for p r'"
  using assms by (simp add: resolved_for_def resolveModelMapping_def blank_account_def Let_def)

lemma cache_for_refresh:
  "cache_for a raw0 \<Longrightarrow>
     cache_for (snd (GetModelMapping c r a)) raw0
     \<or> cache_for (snd (GetModelMapping c r a)) (rawModelMapping a)"
  using resolve_rawModelMapping [of a]
  by (auto simp: GetModelMapping_def cache_for_def Let_def)

lemma GetModelMapping_cached:
  assumes "cache_for a raw0"
    and "mlen raw0 = mlen (rawModelMapping a) \<Longrightarrow>
         modelMappingSignature (mentries raw0) = modelMappingSignature (mentries (rawModelMapping a)) \<Longrightarrow>
         string_entries (mentries raw0) = string_entries (mentries (rawModelMapping a))"
  shows "fst (GetModelMapping c r a) = resolveModelMapping a (rawModelMapping a)"
  using assms resolved_for_cong [of raw0 "rawModelMapping a" "acc_Platform a"]
  by (auto simp: GetModelMapping_def cache_for_def Let_def resolve_rawModelMapping)

text \<open>The signature looks at the entries in sorted order, so it is one of the map and not of an
  iteration.\<close>

lemma modelMappingSignature_same_map:
  assumes "same_map kv kv'"
  shows "modelMappingSignature kv = modelMappingSignature kv'"
proof -
  have "mset (map fst kv) = mset (map fst kv')"
    using assms by (simp add: same_map_def)
  then have "sort_by str_lt (map fst kv) = sort_by str_lt (map fst kv')"
    by (rule str_order.sort_by_unique) (rule str_lt_total)
  moreover have "kv = [] \<longleftrightarrow> kv' = []" using assms by (auto simp: same_map_def)
  ultimately show ?thesis
    by (simp add: modelMappingSignature_def signature_bytes_def same_map_lookup [OF assms])
qed

end
