(* ===== verification/AccountFeatures.thy ===== *)
theory AccountFeatures
  imports ModelMapping
begin

text \<open>
  Feature switches and endpoints of an account (\<open>service/account.go\<close>): the OpenAI compact
  and WebSocket modes, passthrough and masking switches, base URLs, tokens, custom error codes
  and the pool mode. Each is a reader of the JSON columns with its fallbacks.
\<close>

section \<open>Typed readers of the extra column\<close>

definition GetExtraString :: "account \<Rightarrow> string \<Rightarrow> string" where
  "GetExtraString a key = opt_default [] (as_str (mget (acc_Extra a) key))"

definition getExtraString :: "account \<Rightarrow> string \<Rightarrow> string" where
  "getExtraString a key = opt_default [] (as_str (mget (acc_Extra a) key))"

definition getExtraStringDefault :: "account \<Rightarrow> string \<Rightarrow> string \<Rightarrow> string" where
  "getExtraStringDefault a key defaultVal =
     (let v = getExtraString a key in if v \<noteq> [] then v else defaultVal)"

definition getExtraBool :: "account \<Rightarrow> string \<Rightarrow> bool" where
  "getExtraBool a key = flag (acc_Extra a) key"

definition getExtraFloat64 :: "account \<Rightarrow> string \<Rightarrow> float64" where
  "getExtraFloat64 a key =
     (case mlookup (acc_Extra a) key of None \<Rightarrow> f_zero | Some v \<Rightarrow> parseExtraFloat64 v)"

definition getExtraInt :: "account \<Rightarrow> string \<Rightarrow> int" where
  "getExtraInt a key =
     (case mlookup (acc_Extra a) key of None \<Rightarrow> 0 | Some v \<Rightarrow> f_to_int (parseExtraFloat64 v))"

definition getExtraTime :: "account \<Rightarrow> string \<Rightarrow> gtime" where
  "getExtraTime a key =
     (case as_str (mget (acc_Extra a) key) of
        None \<Rightarrow> zero_time
      | Some s \<Rightarrow> (case parse_rfc3339 s of Some t \<Rightarrow> t | None \<Rightarrow> zero_time))"

section \<open>Privacy and Gemini\<close>

abbreviation PrivacyModeTrainingOff :: string where "PrivacyModeTrainingOff \<equiv> ''training_off''"
abbreviation AntigravityPrivacySet :: string where "AntigravityPrivacySet \<equiv> ''privacy_set''"

definition IsPrivacySet :: "account \<Rightarrow> bool" where
  "IsPrivacySet a =
     (if acc_Platform a = PlatformOpenAI then getExtraString a ''privacy_mode'' = PrivacyModeTrainingOff
      else if acc_Platform a = PlatformAntigravity
      then getExtraString a ''privacy_mode'' = AntigravityPrivacySet
      else True)"

definition GeminiOAuthType :: "account \<Rightarrow> string" where
  "GeminiOAuthType a =
     (if acc_Platform a \<noteq> PlatformGemini \<or> acc_Type a \<noteq> AccountTypeOAuth then []
      else (let oauthType = trim_space (GetCredential a ''oauth_type'') in
            if oauthType = [] \<and> trim_space (GetCredential a ''project_id'') \<noteq> []
            then ''code_assist'' else oauthType))"

definition GeminiTierID :: "account \<Rightarrow> string" where
  "GeminiTierID a = trim_space (GetCredential a ''tier_id'')"

definition IsGeminiCodeAssist :: "account \<Rightarrow> bool" where
  "IsGeminiCodeAssist a =
     (if acc_Platform a \<noteq> PlatformGemini \<or> acc_Type a \<noteq> AccountTypeOAuth then False
      else (let oauthType = GeminiOAuthType a in
            if oauthType = [] then trim_space (GetCredential a ''project_id'') \<noteq> []
            else oauthType = ''code_assist''))"

text \<open>The second test of the project id is never reached: an empty type with a project id has
  already been read as \<open>code_assist\<close>.\<close>

lemma IsGeminiCodeAssist_iff: "IsGeminiCodeAssist a \<longleftrightarrow> GeminiOAuthType a = ''code_assist''"
  by (auto simp: IsGeminiCodeAssist_def GeminiOAuthType_def Let_def)

section \<open>OpenAI compact mode\<close>

definition normalizeOpenAICompactMode :: "string \<Rightarrow> string" where
  "normalizeOpenAICompactMode mode =
     (let m = to_lower (trim_space mode) in
      if m = ''force_on'' then ''force_on'' else if m = ''force_off'' then ''force_off'' else ''auto'')"

definition GetOpenAICompactMode :: "account option \<Rightarrow> string" where
  "GetOpenAICompactMode oa =
     (case oa of
        None \<Rightarrow> ''auto''
      | Some a \<Rightarrow>
          if \<not> IsOpenAI a \<or> acc_Extra a = None then ''auto''
          else normalizeOpenAICompactMode
                 (opt_default [] (as_str (mget (acc_Extra a) ''openai_compact_mode''))))"

text \<open>The two results \<open>(supported, known)\<close>.\<close>

definition OpenAICompactSupportKnown :: "account option \<Rightarrow> bool \<times> bool" where
  "OpenAICompactSupportKnown oa =
     (case oa of
        None \<Rightarrow> (False, False)
      | Some a \<Rightarrow>
          if \<not> IsOpenAI a then (False, False)
          else if GetOpenAICompactMode oa = ''force_on'' then (True, True)
          else if GetOpenAICompactMode oa = ''force_off'' then (False, True)
          else if acc_Extra a = None then (False, False)
          else (case as_bool (mget (acc_Extra a) ''openai_compact_supported'') of
                  None \<Rightarrow> (False, False) | Some b \<Rightarrow> (b, True)))"

definition AllowsOpenAICompact :: "account option \<Rightarrow> bool" where
  "AllowsOpenAICompact oa =
     (case oa of
        None \<Rightarrow> False
      | Some a \<Rightarrow>
          if \<not> IsOpenAI a then False
          else (let (supported, known) = OpenAICompactSupportKnown oa in
                if \<not> known then True else supported))"

definition stringMappingFromRaw :: "goval \<Rightarrow> string gomap option" where
  "stringMappingFromRaw raw =
     (case raw of
        GObj m \<Rightarrow>
          if mlen m = 0 then None
          else (let result = string_entries (mentries m) in
                if result = [] then None else Some result)
      | GStrMap m \<Rightarrow> if mlen m = 0 then None else Some (mentries m)
      | _ \<Rightarrow> None)"

definition GetCompactModelMapping :: "account option \<Rightarrow> string gomap option" where
  "GetCompactModelMapping oa =
     (case oa of
        None \<Rightarrow> None
      | Some a \<Rightarrow>
          if acc_Credentials a = None then None
          else stringMappingFromRaw (mget (acc_Credentials a) ''compact_model_mapping''))"

definition ResolveCompactMappedModel :: "account option \<Rightarrow> string \<Rightarrow> string \<times> bool" where
  "ResolveCompactMappedModel oa requestedModel =
     (let mapping = mentries (GetCompactModelMapping oa) in
      if mapping = [] then (requestedModel, False)
      else (let (m, ok) = resolveRequestedModelInMapping mapping requestedModel in
            if ok then (m, True) else (requestedModel, False)))"

lemma normalizeOpenAICompactMode_range:
  "normalizeOpenAICompactMode m \<in> {''auto'', ''force_on'', ''force_off''}"
  by (simp add: normalizeOpenAICompactMode_def Let_def)

text \<open>An account is excluded from compact requests only when it is known not to support them.\<close>

lemma AllowsOpenAICompact_iff:
  "AllowsOpenAICompact (Some a) \<longleftrightarrow> IsOpenAI a \<and> OpenAICompactSupportKnown (Some a) \<noteq> (False, True)"
  by (auto simp: AllowsOpenAICompact_def split: prod.splits)

section \<open>Base URLs and user ids\<close>

definition GetBaseURL :: "account \<Rightarrow> string" where
  "GetBaseURL a =
     (if acc_Type a \<noteq> AccountTypeAPIKey then []
      else (let baseURL = GetCredential a ''base_url'' in
            if baseURL = [] then ''https://api.anthropic.com''
            else if acc_Platform a = PlatformAntigravity
            then trim_right_char (CHR ''/'') baseURL @ ''/antigravity''
            else baseURL))"

definition GetGeminiBaseURL :: "account \<Rightarrow> string \<Rightarrow> string" where
  "GetGeminiBaseURL a defaultBaseURL =
     (let baseURL = trim_space (GetCredential a ''base_url'') in
      if baseURL = [] then defaultBaseURL
      else if acc_Platform a = PlatformAntigravity \<and> acc_Type a = AccountTypeAPIKey
      then trim_right_char (CHR ''/'') baseURL @ ''/antigravity''
      else baseURL)"

definition first_nonempty :: "string list \<Rightarrow> string" where
  "first_nonempty xs = (case find (\<lambda>s. s \<noteq> []) xs of None \<Rightarrow> [] | Some s \<Rightarrow> s)"

definition GetClaudeUserID :: "account \<Rightarrow> string" where
  "GetClaudeUserID a =
     first_nonempty
       [trim_space (GetExtraString a ''claude_user_id''),
        trim_space (GetExtraString a ''anthropic_user_id''),
        trim_space (GetCredential a ''claude_user_id''),
        trim_space (GetCredential a ''anthropic_user_id'')]"

section \<open>Error codes and the pool mode\<close>

definition IsCustomErrorCodesEnabled :: "account \<Rightarrow> bool" where
  "IsCustomErrorCodesEnabled a =
     (if acc_Type a \<noteq> AccountTypeAPIKey \<or> acc_Credentials a = None then False
      else flag (acc_Credentials a) ''custom_error_codes_enabled'')"

definition IsPoolMode :: "account \<Rightarrow> bool" where
  "IsPoolMode a =
     (if \<not> IsAPIKeyOrBedrock a \<or> acc_Credentials a = None then False
      else flag (acc_Credentials a) ''pool_mode'')"

definition GetPoolModeRetryCount :: "account option \<Rightarrow> int" where
  "GetPoolModeRetryCount oa =
     (case oa of
        None \<Rightarrow> defaultPoolModeRetryCount
      | Some a \<Rightarrow>
          if \<not> IsPoolMode a \<or> acc_Credentials a = None then defaultPoolModeRetryCount
          else (let raw = mget (acc_Credentials a) ''pool_mode_retry_count'' in
                if raw = GNil then defaultPoolModeRetryCount
                else (let count = parsePoolModeRetryCount raw in
                      if count < 0 then 0
                      else if maxPoolModeRetryCount < count then maxPoolModeRetryCount
                      else count)))"

definition isPoolModeRetryableStatus :: "int \<Rightarrow> bool" where
  "isPoolModeRetryableStatus statusCode \<longleftrightarrow> statusCode = 401 \<or> statusCode = 403 \<or> statusCode = 429"

definition GetCustomErrorCodes :: "account \<Rightarrow> int list" where
  "GetCustomErrorCodes a =
     (case mget (acc_Credentials a) ''custom_error_codes'' of
        GList arr \<Rightarrow>
          List.map_filter (\<lambda>v. case v of GF64 f \<Rightarrow> Some (f_to_int f) | _ \<Rightarrow> None) arr
      | _ \<Rightarrow> [])"

definition ShouldHandleErrorCode :: "account \<Rightarrow> int \<Rightarrow> bool" where
  "ShouldHandleErrorCode a statusCode =
     (if \<not> IsCustomErrorCodesEnabled a then True
      else (let codes = GetCustomErrorCodes a in
            if codes = [] then True else list_ex (\<lambda>c. c = statusCode) codes))"

lemma GetPoolModeRetryCount_bounds:
  "0 \<le> GetPoolModeRetryCount oa \<and> GetPoolModeRetryCount oa \<le> 10"
  by (auto simp: GetPoolModeRetryCount_def defaultPoolModeRetryCount_def maxPoolModeRetryCount_def
      Let_def split: option.splits)

section \<open>OpenAI credentials\<close>

definition IsInterceptWarmupEnabled :: "account \<Rightarrow> bool" where
  "IsInterceptWarmupEnabled a = flag (acc_Credentials a) ''intercept_warmup_requests''"

definition IsBedrockAPIKey :: "account \<Rightarrow> bool" where
  "IsBedrockAPIKey a \<longleftrightarrow> IsBedrock a \<and> GetCredential a ''auth_mode'' = ''apikey''"

definition GetOpenAIBaseURL :: "account \<Rightarrow> string" where
  "GetOpenAIBaseURL a =
     (if \<not> IsOpenAI a then []
      else if acc_Type a = AccountTypeAPIKey \<and> GetCredential a ''base_url'' \<noteq> []
      then GetCredential a ''base_url''
      else ''https://api.openai.com'')"

definition GetOpenAIAccessToken :: "account \<Rightarrow> string" where
  "GetOpenAIAccessToken a = (if \<not> IsOpenAI a then [] else GetCredential a ''access_token'')"

definition GetOpenAIRefreshToken :: "account \<Rightarrow> string" where
  "GetOpenAIRefreshToken a = (if \<not> IsOpenAIOAuth a then [] else GetCredential a ''refresh_token'')"

definition GetOpenAIIDToken :: "account \<Rightarrow> string" where
  "GetOpenAIIDToken a = (if \<not> IsOpenAIOAuth a then [] else GetCredential a ''id_token'')"

definition GetOpenAIApiKey :: "account \<Rightarrow> string" where
  "GetOpenAIApiKey a = (if \<not> IsOpenAIApiKey a then [] else GetCredential a ''api_key'')"

definition GetOpenAIUserAgent :: "account \<Rightarrow> string" where
  "GetOpenAIUserAgent a = (if \<not> IsOpenAI a then [] else GetCredential a ''user_agent'')"

definition GetChatGPTAccountID :: "account \<Rightarrow> string" where
  "GetChatGPTAccountID a = (if \<not> IsOpenAIOAuth a then [] else GetCredential a ''chatgpt_account_id'')"

definition GetOpenAIDeviceID :: "account \<Rightarrow> string" where
  "GetOpenAIDeviceID a =
     (if \<not> IsOpenAIOAuth a then [] else trim_space (GetExtraString a ''openai_device_id''))"

definition GetOpenAISessionID :: "account \<Rightarrow> string" where
  "GetOpenAISessionID a =
     (if \<not> IsOpenAIOAuth a then [] else trim_space (GetExtraString a ''openai_session_id''))"

definition SupportsOpenAIImageCapability :: "account \<Rightarrow> string \<Rightarrow> bool" where
  "SupportsOpenAIImageCapability a capability =
     (if \<not> IsOpenAI a then False
      else if capability = ''images-basic'' \<or> capability = ''images-native''
      then acc_Type a = AccountTypeOAuth \<or> acc_Type a = AccountTypeAPIKey
      else True)"

definition GetChatGPTUserID :: "account \<Rightarrow> string" where
  "GetChatGPTUserID a = (if \<not> IsOpenAIOAuth a then [] else GetCredential a ''chatgpt_user_id'')"

definition GetOpenAIOrganizationID :: "account \<Rightarrow> string" where
  "GetOpenAIOrganizationID a = (if \<not> IsOpenAIOAuth a then [] else GetCredential a ''organization_id'')"

definition GetOpenAITokenExpiresAt :: "account \<Rightarrow> gtime option" where
  "GetOpenAITokenExpiresAt a =
     (if \<not> IsOpenAIOAuth a then None else GetCredentialAsTime a ''expires_at'')"

definition IsOpenAITokenExpired :: "gtime \<Rightarrow> account \<Rightarrow> bool" where
  "IsOpenAITokenExpired now a =
     (case GetOpenAITokenExpiresAt a of None \<Rightarrow> False | Some t \<Rightarrow> t < now + 60 * second)"

end
