(* ===== verification/AccountSwitches.thy ===== *)
theory AccountSwitches
  imports AccountFeatures
begin

text \<open>
  The switches that decide how a request of an account is sent (\<open>service/account.go\<close>):
  mixed scheduling, passthrough, the Responses WebSocket mode with its chain of old and new
  settings, web-search emulation, the message queue and the Claude-specific overrides.
\<close>

section \<open>Antigravity and passthrough\<close>

definition IsMixedSchedulingEnabled :: "account \<Rightarrow> bool" where
  "IsMixedSchedulingEnabled a =
     (if acc_Platform a \<noteq> PlatformAntigravity then False
      else flag (acc_Extra a) ''mixed_scheduling'')"

definition IsOveragesEnabled :: "account \<Rightarrow> bool" where
  "IsOveragesEnabled a =
     (if acc_Platform a \<noteq> PlatformAntigravity then False
      else flag (acc_Extra a) ''allow_overages'')"

text \<open>The first of several keys that holds a boolean decides.\<close>

fun first_bool :: "gobj \<Rightarrow> string list \<Rightarrow> bool option" where
  "first_bool m [] = None"
| "first_bool m (k # ks) =
     (case as_bool (mget m k) of Some b \<Rightarrow> Some b | None \<Rightarrow> first_bool m ks)"

definition IsOpenAIPassthroughEnabled :: "account option \<Rightarrow> bool" where
  "IsOpenAIPassthroughEnabled oa =
     (case oa of
        None \<Rightarrow> False
      | Some a \<Rightarrow>
          if \<not> IsOpenAI a \<or> acc_Extra a = None then False
          else opt_default False
                 (first_bool (acc_Extra a) [''openai_passthrough'', ''openai_oauth_passthrough'']))"

definition IsOpenAIOAuthPassthroughEnabled :: "account option \<Rightarrow> bool" where
  "IsOpenAIOAuthPassthroughEnabled oa =
     (case oa of None \<Rightarrow> False | Some a \<Rightarrow> IsOpenAIOAuth a \<and> IsOpenAIPassthroughEnabled oa)"

definition IsAnthropicAPIKeyPassthroughEnabled :: "account option \<Rightarrow> bool" where
  "IsAnthropicAPIKeyPassthroughEnabled oa =
     (case oa of
        None \<Rightarrow> False
      | Some a \<Rightarrow>
          if acc_Platform a \<noteq> PlatformAnthropic \<or> acc_Type a \<noteq> AccountTypeAPIKey \<or> acc_Extra a = None
          then False else flag (acc_Extra a) ''anthropic_passthrough'')"

section \<open>Responses over WebSocket\<close>

definition IsOpenAIResponsesWebSocketV2Enabled :: "account option \<Rightarrow> bool" where
  "IsOpenAIResponsesWebSocketV2Enabled oa =
     (case oa of
        None \<Rightarrow> False
      | Some a \<Rightarrow>
          if \<not> IsOpenAI a \<or> acc_Extra a = None then False
          else opt_default False
                 (first_bool (acc_Extra a)
                    ((if IsOpenAIOAuth a then [''openai_oauth_responses_websockets_v2_enabled''] else [])
                     @ (if IsOpenAIApiKey a then [''openai_apikey_responses_websockets_v2_enabled''] else [])
                     @ [''responses_websockets_v2_enabled'', ''openai_ws_enabled''])))"

definition normalizeOpenAIWSIngressMode :: "string \<Rightarrow> string" where
  "normalizeOpenAIWSIngressMode mode =
     (let m = to_lower (trim_space mode) in
      if m \<in> {''off'', ''ctx_pool'', ''passthrough'', ''shared'', ''dedicated''} then m else [])"

definition normalizeOpenAIWSIngressDefaultMode :: "string \<Rightarrow> string" where
  "normalizeOpenAIWSIngressDefaultMode mode =
     (let normalized = normalizeOpenAIWSIngressMode mode in
      if normalized \<noteq> [] then
        (if normalized = ''shared'' \<or> normalized = ''dedicated'' then ''ctx_pool'' else normalized)
      else ''ctx_pool'')"

definition resolveModeString :: "gobj \<Rightarrow> string \<Rightarrow> string option" where
  "resolveModeString m key =
     (case as_str (mget m key) of
        None \<Rightarrow> None
      | Some mode \<Rightarrow>
          (let normalized = normalizeOpenAIWSIngressMode mode in
           if normalized = [] then None else Some normalized))"

definition resolveBoolMode :: "gobj \<Rightarrow> string \<Rightarrow> string option" where
  "resolveBoolMode m key =
     (case as_bool (mget m key) of
        None \<Rightarrow> None | Some enabled \<Rightarrow> Some (if enabled then ''ctx_pool'' else ''off''))"

text \<open>The chain of attempts; the first that yields a mode returns.\<close>

definition first_some :: "'a option list \<Rightarrow> 'a option" where
  "first_some xs = fold (\<lambda>x acc. case acc of Some y \<Rightarrow> Some y | None \<Rightarrow> x) xs None"

definition ResolveOpenAIResponsesWebSocketV2Mode :: "account option \<Rightarrow> string \<Rightarrow> string" where
  "ResolveOpenAIResponsesWebSocketV2Mode oa defaultMode =
     (let resolvedDefault = normalizeOpenAIWSIngressDefaultMode defaultMode in
      case oa of
        None \<Rightarrow> ''off''
      | Some a \<Rightarrow>
          if \<not> IsOpenAI a then ''off''
          else if acc_Extra a = None then resolvedDefault
          else (let m = acc_Extra a;
                    attempts =
                      (if IsOpenAIOAuth a
                       then [resolveModeString m ''openai_oauth_responses_websockets_v2_mode'',
                             resolveBoolMode m ''openai_oauth_responses_websockets_v2_enabled''] else [])
                      @ (if IsOpenAIApiKey a
                         then [resolveModeString m ''openai_apikey_responses_websockets_v2_mode'',
                               resolveBoolMode m ''openai_apikey_responses_websockets_v2_enabled''] else [])
                      @ [resolveBoolMode m ''responses_websockets_v2_enabled'',
                         resolveBoolMode m ''openai_ws_enabled'']
                in case first_some attempts of
                     Some mode \<Rightarrow> mode
                   | None \<Rightarrow>
                       if resolvedDefault = ''shared'' \<or> resolvedDefault = ''dedicated''
                       then ''ctx_pool'' else resolvedDefault))"

definition IsOpenAIWSForceHTTPEnabled :: "account option \<Rightarrow> bool" where
  "IsOpenAIWSForceHTTPEnabled oa =
     (case oa of
        None \<Rightarrow> False
      | Some a \<Rightarrow>
          if \<not> IsOpenAI a \<or> acc_Extra a = None then False
          else flag (acc_Extra a) ''openai_ws_force_http'')"

definition IsOpenAIWSAllowStoreRecoveryEnabled :: "account option \<Rightarrow> bool" where
  "IsOpenAIWSAllowStoreRecoveryEnabled oa =
     (case oa of
        None \<Rightarrow> False
      | Some a \<Rightarrow>
          if \<not> IsOpenAI a \<or> acc_Extra a = None then False
          else flag (acc_Extra a) ''openai_ws_allow_store_recovery'')"

lemma first_some_Cons: "first_some (x # xs) = (case x of Some y \<Rightarrow> Some y | None \<Rightarrow> first_some xs)"
proof -
  have "fold (\<lambda>x acc. case acc of Some y \<Rightarrow> Some y | None \<Rightarrow> x) xs (Some y) = Some y" for xs y
    by (induction xs) auto
  then show ?thesis by (cases x) (simp_all add: first_some_def)
qed

lemma first_some_Nil [simp]: "first_some [] = None"
  by (simp add: first_some_def)

lemma first_some_mem: "first_some xs = Some y \<Longrightarrow> Some y \<in> set xs"
  by (induction xs) (auto simp: first_some_Cons split: option.splits)

text \<open>What the resolution can return. A stored mode string may still be one of the two legacy
  names: only the default is folded into \<open>ctx_pool\<close>.\<close>

lemma ingress_default_range:
  "normalizeOpenAIWSIngressDefaultMode d \<in> {''off'', ''ctx_pool'', ''passthrough''}"
  by (auto simp: normalizeOpenAIWSIngressDefaultMode_def normalizeOpenAIWSIngressMode_def Let_def)

lemma resolveBoolMode_range: "resolveBoolMode m k = Some x \<Longrightarrow> x \<in> {''off'', ''ctx_pool''}"
  by (auto simp: resolveBoolMode_def split: option.splits)

lemma resolveModeString_range:
  "resolveModeString m k = Some x \<Longrightarrow>
     x \<in> {''off'', ''ctx_pool'', ''passthrough'', ''shared'', ''dedicated''}"
  by (auto simp: resolveModeString_def normalizeOpenAIWSIngressMode_def Let_def
      split: option.splits if_splits)

section \<open>Web search, message queue and Claude overrides\<close>

abbreviation featureKeyWebSearchEmulation :: string where
  "featureKeyWebSearchEmulation \<equiv> ''web_search_emulation''"

definition GetWebSearchEmulationMode :: "account option \<Rightarrow> string" where
  "GetWebSearchEmulationMode oa =
     (case oa of
        None \<Rightarrow> ''default''
      | Some a \<Rightarrow>
          if acc_Platform a \<noteq> PlatformAnthropic \<or> acc_Type a \<noteq> AccountTypeAPIKey \<or> acc_Extra a = None
          then ''default''
          else (case mget (acc_Extra a) featureKeyWebSearchEmulation of
                  GBool b \<Rightarrow> if b then ''enabled'' else ''default''
                | GStr mode \<Rightarrow>
                    if mode = ''enabled'' \<or> mode = ''disabled'' then mode else ''default''
                | _ \<Rightarrow> ''default''))"

definition IsCodexCLIOnlyEnabled :: "account option \<Rightarrow> bool" where
  "IsCodexCLIOnlyEnabled oa =
     (case oa of
        None \<Rightarrow> False
      | Some a \<Rightarrow>
          if \<not> IsOpenAIOAuth a \<or> acc_Extra a = None then False
          else flag (acc_Extra a) ''codex_cli_only'')"

text \<open>Four switches that only Anthropic OAuth and setup-token accounts have.\<close>

definition IsTLSFingerprintEnabled :: "account \<Rightarrow> bool" where
  "IsTLSFingerprintEnabled a =
     (if \<not> IsAnthropicOAuthOrSetupToken a then False
      else flag (acc_Extra a) ''enable_tls_fingerprint'')"

definition IsSessionIDMaskingEnabled :: "account \<Rightarrow> bool" where
  "IsSessionIDMaskingEnabled a =
     (if \<not> IsAnthropicOAuthOrSetupToken a then False
      else flag (acc_Extra a) ''session_id_masking_enabled'')"

definition IsCustomBaseURLEnabled :: "account \<Rightarrow> bool" where
  "IsCustomBaseURLEnabled a =
     (if \<not> IsAnthropicOAuthOrSetupToken a then False
      else flag (acc_Extra a) ''custom_base_url_enabled'')"

definition IsCacheTTLOverrideEnabled :: "account \<Rightarrow> bool" where
  "IsCacheTTLOverrideEnabled a =
     (if \<not> IsAnthropicOAuthOrSetupToken a then False
      else flag (acc_Extra a) ''cache_ttl_override_enabled'')"

definition GetTLSFingerprintProfileID :: "account \<Rightarrow> int" where
  "GetTLSFingerprintProfileID a =
     (case mget (acc_Extra a) ''tls_fingerprint_profile_id'' of
        GF64 x \<Rightarrow> f_to_int x
      | GInt64 n \<Rightarrow> n
      | GInt n \<Rightarrow> n
      | GNum s \<Rightarrow> opt_default 0 (num_int64 s)
      | _ \<Rightarrow> 0)"

definition GetUserMsgQueueMode :: "account \<Rightarrow> string" where
  "GetUserMsgQueueMode a =
     (let legacy = (if flag (acc_Extra a) ''user_msg_queue_enabled'' then ''serialize'' else []) in
      if acc_Extra a = None then []
      else (case as_str (mget (acc_Extra a) ''user_msg_queue_mode'') of
              Some mode \<Rightarrow>
                if mode \<noteq> [] then
                  (if mode = ''serialize'' \<or> mode = ''throttle'' then mode else [])
                else legacy
            | None \<Rightarrow> legacy))"

definition GetCustomBaseURL :: "account \<Rightarrow> string" where
  "GetCustomBaseURL a = GetExtraString a ''custom_base_url''"

definition GetCacheTTLOverrideTarget :: "account \<Rightarrow> string" where
  "GetCacheTTLOverrideTarget a =
     (case as_str (mget (acc_Extra a) ''cache_ttl_override_target'') of
        Some target \<Rightarrow> if target = ''5m'' \<or> target = ''1h'' then target else ''5m''
      | None \<Rightarrow> ''5m'')"

lemmas claude_switch_defs [model_simps] =
  IsTLSFingerprintEnabled_def IsSessionIDMaskingEnabled_def IsCustomBaseURLEnabled_def
  IsCacheTTLOverrideEnabled_def

end
