(* ===== verification/AccountQuota.thy ===== *)
theory AccountQuota
  imports AccountSwitches
begin

text \<open>
  Quotas of an account (\<open>service/account.go\<close>): the readers of the configuration kept in the
  column \<open>extra\<close>, the fixed daily and weekly reset points, the derived fields that are stored
  when a configuration is saved, its validation, and the test whether a quota is exhausted.
  \<open>time.Date\<close> and \<open>AddDate\<close> are computed without a bound on the years they reach.
\<close>

section \<open>Readers\<close>

definition GetQuotaLimit :: "account \<Rightarrow> float64" where
  "GetQuotaLimit a = getExtraFloat64 a ''quota_limit''"

definition GetQuotaUsed :: "account \<Rightarrow> float64" where
  "GetQuotaUsed a = getExtraFloat64 a ''quota_used''"

definition GetQuotaDailyLimit :: "account \<Rightarrow> float64" where
  "GetQuotaDailyLimit a = getExtraFloat64 a ''quota_daily_limit''"

definition GetQuotaDailyUsed :: "account \<Rightarrow> float64" where
  "GetQuotaDailyUsed a = getExtraFloat64 a ''quota_daily_used''"

definition GetQuotaWeeklyLimit :: "account \<Rightarrow> float64" where
  "GetQuotaWeeklyLimit a = getExtraFloat64 a ''quota_weekly_limit''"

definition GetQuotaWeeklyUsed :: "account \<Rightarrow> float64" where
  "GetQuotaWeeklyUsed a = getExtraFloat64 a ''quota_weekly_used''"

definition GetQuotaDailyResetMode :: "account \<Rightarrow> string" where
  "GetQuotaDailyResetMode a =
     (if getExtraString a ''quota_daily_reset_mode'' = ''fixed'' then ''fixed'' else ''rolling'')"

definition GetQuotaDailyResetHour :: "account \<Rightarrow> int" where
  "GetQuotaDailyResetHour a = getExtraInt a ''quota_daily_reset_hour''"

definition GetQuotaWeeklyResetMode :: "account \<Rightarrow> string" where
  "GetQuotaWeeklyResetMode a =
     (if getExtraString a ''quota_weekly_reset_mode'' = ''fixed'' then ''fixed'' else ''rolling'')"

definition GetQuotaWeeklyResetDay :: "account \<Rightarrow> int" where
  "GetQuotaWeeklyResetDay a =
     (case mlookup (acc_Extra a) ''quota_weekly_reset_day'' of
        None \<Rightarrow> 1
      | Some _ \<Rightarrow> getExtraInt a ''quota_weekly_reset_day'')"

definition GetQuotaWeeklyResetHour :: "account \<Rightarrow> int" where
  "GetQuotaWeeklyResetHour a = getExtraInt a ''quota_weekly_reset_hour''"

definition GetQuotaResetTimezone :: "account \<Rightarrow> string" where
  "GetQuotaResetTimezone a =
     (let tz = getExtraString a ''quota_reset_timezone'' in if tz \<noteq> [] then tz else ''UTC'')"

text \<open>The notification settings of one quota dimension: enabled, threshold and its type. The
  nine getters of the code are the projections at \<open>daily\<close>, \<open>weekly\<close> and \<open>total\<close>.\<close>

abbreviation quotaDimDaily :: string where "quotaDimDaily \<equiv> ''daily''"
abbreviation quotaDimWeekly :: string where "quotaDimWeekly \<equiv> ''weekly''"
abbreviation quotaDimTotal :: string where "quotaDimTotal \<equiv> ''total''"

definition QuotaNotifyConfig :: "account \<Rightarrow> string \<Rightarrow> bool \<times> float64 \<times> string" where
  "QuotaNotifyConfig a qd =
     (getExtraBool a (''quota_notify_'' @ qd @ ''_enabled''),
      getExtraFloat64 a (''quota_notify_'' @ qd @ ''_threshold''),
      getExtraStringDefault a (''quota_notify_'' @ qd @ ''_threshold_type'') ''fixed'')"

definition GetQuotaNotifyEnabled :: "account \<Rightarrow> string \<Rightarrow> bool" where
  "GetQuotaNotifyEnabled a qd = fst (QuotaNotifyConfig a qd)"

definition GetQuotaNotifyThreshold :: "account \<Rightarrow> string \<Rightarrow> float64" where
  "GetQuotaNotifyThreshold a qd = fst (snd (QuotaNotifyConfig a qd))"

definition GetQuotaNotifyThresholdType :: "account \<Rightarrow> string \<Rightarrow> string" where
  "GetQuotaNotifyThresholdType a qd = snd (snd (QuotaNotifyConfig a qd))"

section \<open>Fixed reset points\<close>

text \<open>\<open>time.Date(y, m, d, hour, 0, 0, 0, tz)\<close> on the local day of an instant.\<close>

definition reset_on_day :: "int \<Rightarrow> location \<Rightarrow> gtime \<Rightarrow> gtime" where
  "reset_on_day hr loc t = date_at loc (local_day loc t) (hr * 3600)"

definition nextFixedDailyReset :: "int \<Rightarrow> location \<Rightarrow> gtime \<Rightarrow> gtime" where
  "nextFixedDailyReset hr loc after =
     (let today = reset_on_day hr loc after in
      if \<not> after < today then add_days loc today 1 else today)"

definition lastFixedDailyReset :: "int \<Rightarrow> location \<Rightarrow> gtime \<Rightarrow> gtime" where
  "lastFixedDailyReset hr loc now =
     (let today = reset_on_day hr loc now in
      if now < today then add_days loc today (- 1) else today)"

definition nextFixedWeeklyReset :: "int \<Rightarrow> int \<Rightarrow> location \<Rightarrow> gtime \<Rightarrow> gtime" where
  "nextFixedWeeklyReset day hr loc after =
     (let todayReset = reset_on_day hr loc after;
          currentDay = weekday (local_day loc todayReset);
          daysForward = go_mod (i64 (i64 (day - currentDay) + 7)) 7
      in add_days loc todayReset
           (if daysForward = 0 \<and> \<not> after < todayReset then 7 else daysForward))"

definition lastFixedWeeklyReset :: "int \<Rightarrow> int \<Rightarrow> location \<Rightarrow> gtime \<Rightarrow> gtime" where
  "lastFixedWeeklyReset day hr loc now =
     (let todayReset = reset_on_day hr loc now;
          currentDay = weekday (local_day loc todayReset);
          daysBack = go_mod (i64 (i64 (currentDay - day) + 7)) 7
      in add_days loc todayReset
           (- (if daysBack = 0 \<and> now < todayReset then 7 else daysBack)))"

section \<open>Expiry of a period\<close>

definition reset_location :: "tzdb \<Rightarrow> string \<Rightarrow> location" where
  "reset_location tz name = opt_default utc (load_location tz name)"

definition isFixedDailyPeriodExpired :: "tzdb \<Rightarrow> gtime \<Rightarrow> account \<Rightarrow> gtime \<Rightarrow> bool" where
  "isFixedDailyPeriodExpired tz now a periodStart \<longleftrightarrow>
     is_zero_time periodStart \<or>
     periodStart < lastFixedDailyReset (GetQuotaDailyResetHour a)
                     (reset_location tz (GetQuotaResetTimezone a)) now"

definition isFixedWeeklyPeriodExpired :: "tzdb \<Rightarrow> gtime \<Rightarrow> account \<Rightarrow> gtime \<Rightarrow> bool" where
  "isFixedWeeklyPeriodExpired tz now a periodStart \<longleftrightarrow>
     is_zero_time periodStart \<or>
     periodStart < lastFixedWeeklyReset (GetQuotaWeeklyResetDay a) (GetQuotaWeeklyResetHour a)
                     (reset_location tz (GetQuotaResetTimezone a)) now"

definition isPeriodExpired :: "gtime \<Rightarrow> gtime \<Rightarrow> duration \<Rightarrow> bool" where
  "isPeriodExpired now periodStart dur \<longleftrightarrow>
     is_zero_time periodStart \<or> dur \<le> time_sub now periodStart"

definition IsDailyQuotaPeriodExpired :: "tzdb \<Rightarrow> gtime \<Rightarrow> account \<Rightarrow> bool" where
  "IsDailyQuotaPeriodExpired tz now a =
     (let start = getExtraTime a ''quota_daily_start'' in
      if GetQuotaDailyResetMode a = ''fixed'' then isFixedDailyPeriodExpired tz now a start
      else isPeriodExpired now start (24 * hour))"

definition IsWeeklyQuotaPeriodExpired :: "tzdb \<Rightarrow> gtime \<Rightarrow> account \<Rightarrow> bool" where
  "IsWeeklyQuotaPeriodExpired tz now a =
     (let start = getExtraTime a ''quota_weekly_start'' in
      if GetQuotaWeeklyResetMode a = ''fixed'' then isFixedWeeklyPeriodExpired tz now a start
      else isPeriodExpired now start (7 * 24 * hour))"

definition HasAnyQuotaLimit :: "account \<Rightarrow> bool" where
  "HasAnyQuotaLimit a \<longleftrightarrow>
     f_lt f_zero (GetQuotaLimit a) \<or> f_lt f_zero (GetQuotaDailyLimit a)
       \<or> f_lt f_zero (GetQuotaWeeklyLimit a)"

definition IsQuotaExceeded :: "tzdb \<Rightarrow> gtime \<Rightarrow> account \<Rightarrow> bool" where
  "IsQuotaExceeded tz now a =
     (if f_lt f_zero (GetQuotaLimit a) \<and> f_le (GetQuotaLimit a) (GetQuotaUsed a) then True
      else if f_lt f_zero (GetQuotaDailyLimit a) \<and>
        (let start = getExtraTime a ''quota_daily_start'';
             expired = (if GetQuotaDailyResetMode a = ''fixed''
                        then isFixedDailyPeriodExpired tz now a start
                        else isPeriodExpired now start (24 * hour))
         in \<not> expired \<and> f_le (GetQuotaDailyLimit a) (GetQuotaDailyUsed a)) then True
      else if f_lt f_zero (GetQuotaWeeklyLimit a) \<and>
        (let start = getExtraTime a ''quota_weekly_start'';
             expired = (if GetQuotaWeeklyResetMode a = ''fixed''
                        then isFixedWeeklyPeriodExpired tz now a start
                        else isPeriodExpired now start (7 * 24 * hour))
         in \<not> expired \<and> f_le (GetQuotaWeeklyLimit a) (GetQuotaWeeklyUsed a)) then True
      else False)"

section \<open>Saving a configuration\<close>

text \<open>The two derived fields. \<open>gm.sync\<close> sets an entry to a value or deletes it.\<close>

definition extra_timezone :: "gobj \<Rightarrow> string" where
  "extra_timezone extra =
     (let tzName = opt_default [] (as_str (mget extra ''quota_reset_timezone'')) in
      if tzName = [] then ''UTC'' else tzName)"

definition extra_mode_fixed :: "gobj \<Rightarrow> string \<Rightarrow> bool" where
  "extra_mode_fixed extra key \<longleftrightarrow> opt_default [] (as_str (mget extra key)) = ''fixed''"

definition extra_hour :: "gobj \<Rightarrow> string \<Rightarrow> int" where
  "extra_hour extra key =
     (let h = f_to_int (parseExtraFloat64 (mget extra key)) in if h < 0 \<or> 23 < h then 0 else h)"

definition extra_day :: "gobj \<Rightarrow> int" where
  "extra_day extra =
     (let d = (case mlookup extra ''quota_weekly_reset_day'' of
                 None \<Rightarrow> 1 | Some v \<Rightarrow> f_to_int (parseExtraFloat64 v))
      in if d < 0 \<or> 6 < d then 1 else d)"

definition daily_reset_entry :: "tzdb \<Rightarrow> gtime \<Rightarrow> gobj \<Rightarrow> goval option" where
  "daily_reset_entry tz now extra =
     (if extra_mode_fixed extra ''quota_daily_reset_mode''
      then Some (GStr (format_rfc3339_utc
             (nextFixedDailyReset (extra_hour extra ''quota_daily_reset_hour'')
               (reset_location tz (extra_timezone extra)) now)))
      else None)"

definition weekly_reset_entry :: "tzdb \<Rightarrow> gtime \<Rightarrow> gobj \<Rightarrow> goval option" where
  "weekly_reset_entry tz now extra =
     (if extra_mode_fixed extra ''quota_weekly_reset_mode''
      then Some (GStr (format_rfc3339_utc
             (nextFixedWeeklyReset (extra_day extra) (extra_hour extra ''quota_weekly_reset_hour'')
               (reset_location tz (extra_timezone extra)) now)))
      else None)"

text \<open>A nil map has no mode, so nothing is ever written to it.\<close>

definition ComputeQuotaResetAt :: "tzdb \<Rightarrow> gtime \<Rightarrow> gobj \<Rightarrow> gobj" where
  "ComputeQuotaResetAt tz now extra =
     (case extra of
        None \<Rightarrow> None
      | Some m \<Rightarrow>
          (let m1 = gm.sync ''quota_daily_reset_at'' (daily_reset_entry tz now (Some m)) m
           in Some (gm.sync ''quota_weekly_reset_at'' (weekly_reset_entry tz now (Some m1)) m1)))"

definition bad_mode :: "gobj \<Rightarrow> string \<Rightarrow> bool" where
  "bad_mode extra key =
     (case as_str (mget extra key) of
        None \<Rightarrow> False | Some mode \<Rightarrow> mode \<noteq> ''rolling'' \<and> mode \<noteq> ''fixed'')"

definition bad_range :: "gobj \<Rightarrow> string \<Rightarrow> int \<Rightarrow> bool" where
  "bad_range extra key hi =
     (case mlookup extra key of
        None \<Rightarrow> False
      | Some v \<Rightarrow> (let n = f_to_int (parseExtraFloat64 v) in n < 0 \<or> hi < n))"

text \<open>The error message, or nothing when the configuration is valid.\<close>

definition ValidateQuotaResetConfig :: "tzdb \<Rightarrow> gobj \<Rightarrow> string option" where
  "ValidateQuotaResetConfig tz extra =
     (if extra = None then None
      else if (case as_str (mget extra ''quota_reset_timezone'') of
                 None \<Rightarrow> False | Some name \<Rightarrow> name \<noteq> [] \<and> load_location tz name = None)
      then Some ''invalid quota_reset_timezone: must be a valid IANA timezone name''
      else if bad_mode extra ''quota_daily_reset_mode''
      then Some (''quota_daily_reset_mode must be 'rolling' or 'fixed'' @ [CHR 0x27])
      else if bad_range extra ''quota_daily_reset_hour'' 23
      then Some ''quota_daily_reset_hour must be between 0 and 23''
      else if bad_mode extra ''quota_weekly_reset_mode''
      then Some (''quota_weekly_reset_mode must be 'rolling' or 'fixed'' @ [CHR 0x27])
      else if bad_range extra ''quota_weekly_reset_day'' 6
      then Some ''quota_weekly_reset_day must be between 0 (Sunday) and 6 (Saturday)''
      else if bad_range extra ''quota_weekly_reset_hour'' 23
      then Some ''quota_weekly_reset_hour must be between 0 and 23''
      else None)"

section \<open>The reset points in zones of constant offset\<close>

definition reset_point :: "int \<Rightarrow> int \<Rightarrow> int \<Rightarrow> gtime" where
  "reset_point off hr d = (d * 86400 + hr * 3600 - off) * nanos"

lemma reset_point_add: "reset_point off hr (d + n) = reset_point off hr d + n * (86400 * nanos)"
  by (simp add: reset_point_def algebra_simps)

lemma reset_point_hour: "reset_point off hr d = reset_point off 0 d + hr * (3600 * nanos)"
  by (simp add: reset_point_def algebra_simps)

lemma int_div_bounds: "0 < (k::int) \<Longrightarrow> x div k * k \<le> x \<and> x < x div k * k + k"
  using pos_mod_bound [of k x] pos_mod_sign [of k x] div_mult_mod_eq [of x k] by linarith

lemma local_day_bounds:
  "reset_point off 0 (local_day (fixed_zone off) t) \<le> t"
  "t < reset_point off 24 (local_day (fixed_zone off) t)"
proof -
  obtain q where q: "q = t div nanos" by simp
  obtain d where d: "d = (q + off) div 86400" by simp
  have ld: "local_day (fixed_zone off) t = d" by (simp add: local_day_def local_secs_fixed q d)
  have "d * 86400 \<le> q + off" "q + off < d * 86400 + 86400"
    using int_div_bounds [of 86400 "q + off"] by (simp_all add: d)
  moreover have "q * nanos \<le> t" "t < q * nanos + nanos"
    using int_div_bounds [of nanos t] by (simp_all add: q)
  ultimately show "reset_point off 0 (local_day (fixed_zone off) t) \<le> t"
    "t < reset_point off 24 (local_day (fixed_zone off) t)"
    by (simp_all add: ld reset_point_def)
qed

lemma reset_on_day_point:
  "reset_on_day hr (fixed_zone off) t = reset_point off hr (local_day (fixed_zone off) t)"
  by (simp only: reset_on_day_def date_at_fixed reset_point_def)

lemma add_days_reset_point:
  "add_days (fixed_zone off) (reset_point off hr d) n = reset_point off hr (d + n)"
  by (simp only: add_days_fixed reset_point_add mult.assoc)

lemmas reset_points = reset_on_day_point add_days_reset_point

lemma point_day:
  assumes "0 \<le> hr" "hr < 24"
  shows "local_day (fixed_zone off) (reset_point off hr d) = d"
    and "clock_secs (fixed_zone off) (reset_point off hr d) = hr * 3600"
proof -
  have "local_secs (fixed_zone off) (reset_point off hr d) = d * 86400 + hr * 3600"
    by (simp only: local_secs_fixed reset_point_def) simp
  then show "local_day (fixed_zone off) (reset_point off hr d) = d"
    "clock_secs (fixed_zone off) (reset_point off hr d) = hr * 3600"
    using assms by (simp_all add: local_day_def clock_secs_def)
qed

text \<open>Reset points of days before and after the day of an instant lie on that side of it.\<close>

lemma reset_point_after:
  assumes "0 \<le> hr" "1 \<le> n"
  shows "t < reset_point off hr (local_day (fixed_zone off) t + n)"
proof -
  have "reset_point off 24 (local_day (fixed_zone off) t)
      \<le> reset_point off hr (local_day (fixed_zone off) t + n)"
    using assms by (simp add: reset_point_def)
  then show ?thesis using local_day_bounds(2) [of t off] by linarith
qed

lemma reset_point_before:
  assumes "hr < 24" "1 \<le> n"
  shows "reset_point off hr (local_day (fixed_zone off) t - n) \<le> t"
proof -
  have "reset_point off hr (local_day (fixed_zone off) t - n)
      \<le> reset_point off 0 (local_day (fixed_zone off) t)"
    using assms by (simp add: reset_point_def)
  then show ?thesis using local_day_bounds(1) [of off t] by linarith
qed

text \<open>The daily points: the instant lies in the half-open day between them.\<close>

lemma nextDaily_eq:
  "nextFixedDailyReset hr (fixed_zone off) t = reset_point off hr (local_day (fixed_zone off) t
     + (if reset_point off hr (local_day (fixed_zone off) t) \<le> t then 1 else 0))"
  by (simp only: nextFixedDailyReset_def reset_points Let_def not_less) simp

lemma lastDaily_eq:
  "lastFixedDailyReset hr (fixed_zone off) t = reset_point off hr (local_day (fixed_zone off) t
     - (if t < reset_point off hr (local_day (fixed_zone off) t) then 1 else 0))"
  by (simp only: lastFixedDailyReset_def reset_points Let_def) simp

lemma nextDaily_gt: "0 \<le> hr \<Longrightarrow> t < nextFixedDailyReset hr (fixed_zone off) t"
  using reset_point_after [of hr 1 t off] by (simp only: nextDaily_eq) (simp split: if_split)

lemma lastDaily_le: "hr < 24 \<Longrightarrow> lastFixedDailyReset hr (fixed_zone off) t \<le> t"
  using reset_point_before [of hr 1 off t] by (simp only: lastDaily_eq) (simp split: if_split)

lemma nextDaily_last:
  "nextFixedDailyReset hr (fixed_zone off) t
     = lastFixedDailyReset hr (fixed_zone off) t + 86400 * nanos"
proof -
  obtain d where d: "d = local_day (fixed_zone off) t" by simp
  show ?thesis
    using reset_point_add [of off hr "d - 1" 1] reset_point_add [of off hr d 1]
    unfolding nextDaily_eq lastDaily_eq d [symmetric] by auto
qed

text \<open>The weekly points, first as a number of days from the day of the instant.\<close>

lemma weekday_add: "weekday (d + n) = (weekday d + n) mod 7"
  by (simp add: weekday_def mod_simps ac_simps)

lemma weekday_distance:
  assumes "0 \<le> day" "day < 7"
  shows "go_mod (i64 (i64 (day - weekday d) + 7)) 7 = (day - weekday d) mod 7"
    and "go_mod (i64 (i64 (weekday d - day) + 7)) 7 = (weekday d - day) mod 7"
  using assms weekday_range [of d] by (auto simp: i64_small go_mod_nonneg)

definition days_to :: "int \<Rightarrow> int \<Rightarrow> int" where
  "days_to d day = (day - weekday d) mod 7"

lemma days_to_range: "0 \<le> days_to d day" "days_to d day < 7"
  by (simp_all add: days_to_def)

lemma days_back: "(weekday d - day) mod 7 = (if days_to d day = 0 then 0 else 7 - days_to d day)"
  using zmod_zminus1_eq_if [of "day - weekday d" 7] by (simp add: days_to_def)

lemma nextWeekly_eq:
  assumes "0 \<le> hr" "hr < 24" "0 \<le> day" "day < 7" and d: "d = local_day (fixed_zone off) t"
  shows "nextFixedWeeklyReset day hr (fixed_zone off) t = reset_point off hr
    (d + (if days_to d day = 0 \<and> \<not> t < reset_point off hr d then 7 else days_to d day))"
  by (simp only: nextFixedWeeklyReset_def reset_points point_day [OF assms(1,2)] Let_def days_to_def
        weekday_distance [OF assms(3,4)] flip: d)

lemma lastWeekly_eq:
  assumes "0 \<le> hr" "hr < 24" "0 \<le> day" "day < 7" and d: "d = local_day (fixed_zone off) t"
  shows "lastFixedWeeklyReset day hr (fixed_zone off) t = reset_point off hr
    (d - (if days_to d day = 0 then if t < reset_point off hr d then 7 else 0 else 7 - days_to d day))"
proof -
  have "lastFixedWeeklyReset day hr (fixed_zone off) t = reset_point off hr
    (d + - (if (weekday d - day) mod 7 = 0 \<and> t < reset_point off hr d then 7
            else (weekday d - day) mod 7))"
    by (simp only: lastFixedWeeklyReset_def reset_points point_day [OF assms(1,2)] Let_def
          weekday_distance [OF assms(3,4)] flip: d)
  then show ?thesis using days_to_range [of d day] by (simp only: days_back) (auto split: if_splits)
qed

lemma nextWeekly_last:
  assumes "0 \<le> hr" "hr < 24" "0 \<le> day" "day < 7"
  shows "nextFixedWeeklyReset day hr (fixed_zone off) t
     = lastFixedWeeklyReset day hr (fixed_zone off) t + 7 * (86400 * nanos)"
proof -
  obtain d where d: "d = local_day (fixed_zone off) t" by simp
  show ?thesis
    by (simp only: nextWeekly_eq [OF assms d] lastWeekly_eq [OF assms d] flip: reset_point_add)
       (simp split: if_split)
qed

lemma nextWeekly_gt:
  assumes "0 \<le> hr" "hr < 24" "0 \<le> day" "day < 7"
  shows "t < nextFixedWeeklyReset day hr (fixed_zone off) t"
proof -
  obtain d where d: "d = local_day (fixed_zone off) t" by simp
  have after: "1 \<le> n \<Longrightarrow> t < reset_point off hr (d + n)" for n
    using reset_point_after [of hr n t off] assms d by simp
  have "days_to d day = 0 \<or> 1 \<le> days_to d day" using days_to_range [of d day] by linarith
  then show ?thesis
    unfolding nextWeekly_eq [OF assms d] using after [of 7] after [of "days_to d day"] by auto
qed

lemma lastWeekly_le:
  assumes "0 \<le> hr" "hr < 24" "0 \<le> day" "day < 7"
  shows "lastFixedWeeklyReset day hr (fixed_zone off) t \<le> t"
proof -
  obtain d where d: "d = local_day (fixed_zone off) t" by simp
  have before: "1 \<le> n \<Longrightarrow> reset_point off hr (d - n) \<le> t" for n
    using reset_point_before [of hr n off t] assms d by simp
  have "1 \<le> 7 - days_to d day" using days_to_range [of d day] by linarith
  then show ?thesis
    unfolding lastWeekly_eq [OF assms d] using before [of 7] before [of "7 - days_to d day"] by auto
qed

lemma nextWeekly_local:
  assumes "0 \<le> hr" "hr < 24" "0 \<le> day" "day < 7"
  shows "weekday (local_day (fixed_zone off) (nextFixedWeeklyReset day hr (fixed_zone off) t)) = day"
    and "clock_secs (fixed_zone off) (nextFixedWeeklyReset day hr (fixed_zone off) t) = hr * 3600"
proof -
  obtain d where d: "d = local_day (fixed_zone off) t" by simp
  have "(weekday d + days_to d day) mod 7 = day"
    using assms(3,4) by (simp add: days_to_def mod_simps)
  moreover from this have "(weekday d + 7) mod 7 = day" if "days_to d day = 0" using that by simp
  ultimately show
    "weekday (local_day (fixed_zone off) (nextFixedWeeklyReset day hr (fixed_zone off) t)) = day"
    by (simp only: nextWeekly_eq [OF assms d] point_day [OF assms(1,2)] weekday_add) auto
  show "clock_secs (fixed_zone off) (nextFixedWeeklyReset day hr (fixed_zone off) t) = hr * 3600"
    by (simp only: nextWeekly_eq [OF assms d] point_day [OF assms(1,2)])
qed

section \<open>Derived fields and their readers\<close>

text \<open>The two derived keys do not feed back into any setting that is read, and every other
  entry is kept.\<close>

lemma entries_sync:
  assumes "k \<in> {''quota_daily_reset_at'', ''quota_weekly_reset_at''}"
  shows "daily_reset_entry tz now (Some (gm.sync k ov m)) = daily_reset_entry tz now (Some m)"
    and "weekly_reset_entry tz now (Some (gm.sync k ov m)) = weekly_reset_entry tz now (Some m)"
  using assms
  by (auto simp: daily_reset_entry_def weekly_reset_entry_def extra_mode_fixed_def extra_hour_def
      extra_day_def extra_timezone_def mget_def gm.look_sync)

lemma ComputeQuotaResetAt_lookup:
  "mlookup (ComputeQuotaResetAt tz now (Some m)) k =
     (if k = ''quota_weekly_reset_at'' then weekly_reset_entry tz now (Some m)
      else if k = ''quota_daily_reset_at'' then daily_reset_entry tz now (Some m)
      else map_of m k)"
  by (simp add: ComputeQuotaResetAt_def Let_def gm.look_sync entries_sync)

text \<open>A validated configuration is used as it stands: the clamps of the saving path agree with
  the readers of the checking path, which have none.\<close>

lemma f_to_int_zero [simp]: "rat_trunc 0 = 0" "in_i64 0"
  by (simp_all add: rat_trunc_def in_i64_def i64_min_def i64_max_def)

lemma bad_range_getExtraInt:
  "0 \<le> hi \<Longrightarrow> acc_Extra a = Some m \<Longrightarrow>
     bad_range (Some m) key hi \<longleftrightarrow> getExtraInt a key < 0 \<or> hi < getExtraInt a key"
  by (auto simp: bad_range_def getExtraInt_def Let_def split: option.split)

lemma extra_hour_getExtraInt:
  "acc_Extra a = Some m \<Longrightarrow> extra_hour (Some m) key =
     (if getExtraInt a key < 0 \<or> 23 < getExtraInt a key then 0 else getExtraInt a key)"
  by (auto simp: extra_hour_def getExtraInt_def mget_def Let_def split: option.split)

lemma extra_day_GetQuotaWeeklyResetDay:
  "acc_Extra a = Some m \<Longrightarrow> extra_day (Some m) =
     (if GetQuotaWeeklyResetDay a < 0 \<or> 6 < GetQuotaWeeklyResetDay a then 1
      else GetQuotaWeeklyResetDay a)"
  by (auto simp: extra_day_def GetQuotaWeeklyResetDay_def getExtraInt_def Let_def split: option.split)

lemma validated_ranges:
  assumes "ValidateQuotaResetConfig tz (acc_Extra a) = None" and "acc_Extra a = Some m"
  shows "0 \<le> GetQuotaDailyResetHour a \<and> GetQuotaDailyResetHour a < 24"
    and "0 \<le> GetQuotaWeeklyResetHour a \<and> GetQuotaWeeklyResetHour a < 24"
    and "0 \<le> GetQuotaWeeklyResetDay a \<and> GetQuotaWeeklyResetDay a < 7"
proof -
  have "\<not> bad_range (Some m) ''quota_daily_reset_hour'' 23"
    "\<not> bad_range (Some m) ''quota_weekly_reset_hour'' 23"
    "\<not> bad_range (Some m) ''quota_weekly_reset_day'' 6"
    using assms by (auto simp: ValidateQuotaResetConfig_def split: if_splits)
  then show "0 \<le> GetQuotaDailyResetHour a \<and> GetQuotaDailyResetHour a < 24"
    "0 \<le> GetQuotaWeeklyResetHour a \<and> GetQuotaWeeklyResetHour a < 24"
    "0 \<le> GetQuotaWeeklyResetDay a \<and> GetQuotaWeeklyResetDay a < 7"
    using assms(2) by (auto simp: bad_range_getExtraInt GetQuotaDailyResetHour_def
        GetQuotaWeeklyResetHour_def GetQuotaWeeklyResetDay_def split: option.split)
qed

lemma validated_fields:
  assumes "ValidateQuotaResetConfig tz (acc_Extra a) = None" and "acc_Extra a = Some m"
  shows "extra_hour (Some m) ''quota_daily_reset_hour'' = GetQuotaDailyResetHour a"
    and "extra_hour (Some m) ''quota_weekly_reset_hour'' = GetQuotaWeeklyResetHour a"
    and "extra_day (Some m) = GetQuotaWeeklyResetDay a"
  using validated_ranges [OF assms] assms(2)
  by (auto simp: extra_hour_getExtraInt extra_day_GetQuotaWeeklyResetDay GetQuotaDailyResetHour_def
      GetQuotaWeeklyResetHour_def)

lemma timezone_agrees: "extra_timezone (acc_Extra a) = GetQuotaResetTimezone a"
  by (simp add: extra_timezone_def GetQuotaResetTimezone_def getExtraString_def Let_def)

lemma mode_agrees:
  "extra_mode_fixed (acc_Extra a) ''quota_daily_reset_mode'' \<longleftrightarrow> GetQuotaDailyResetMode a = ''fixed''"
  "extra_mode_fixed (acc_Extra a) ''quota_weekly_reset_mode'' \<longleftrightarrow> GetQuotaWeeklyResetMode a = ''fixed''"
  by (simp_all add: extra_mode_fixed_def GetQuotaDailyResetMode_def GetQuotaWeeklyResetMode_def
      getExtraString_def)

text \<open>The instants that the two derived fields denote.\<close>

definition daily_reset_text :: "tzdb \<Rightarrow> gtime \<Rightarrow> account \<Rightarrow> string" where
  "daily_reset_text tz now a = format_rfc3339_utc (nextFixedDailyReset (GetQuotaDailyResetHour a)
     (reset_location tz (GetQuotaResetTimezone a)) now)"

definition weekly_reset_text :: "tzdb \<Rightarrow> gtime \<Rightarrow> account \<Rightarrow> string" where
  "weekly_reset_text tz now a = format_rfc3339_utc (nextFixedWeeklyReset (GetQuotaWeeklyResetDay a)
     (GetQuotaWeeklyResetHour a) (reset_location tz (GetQuotaResetTimezone a)) now)"

lemma validated_entries:
  assumes "ValidateQuotaResetConfig tz (acc_Extra a) = None" and "acc_Extra a = Some m"
  shows "daily_reset_entry tz now (Some m) =
      (if GetQuotaDailyResetMode a = ''fixed'' then Some (GStr (daily_reset_text tz now a)) else None)"
    and "weekly_reset_entry tz now (Some m) =
      (if GetQuotaWeeklyResetMode a = ''fixed'' then Some (GStr (weekly_reset_text tz now a)) else None)"
  using mode_agrees [of a] timezone_agrees [of a]
  by (simp_all add: daily_reset_entry_def weekly_reset_entry_def daily_reset_text_def
      weekly_reset_text_def validated_fields [OF assms, folded assms(2)] flip: assms(2))

section \<open>Properties\<close>

text \<open>In a time zone of constant offset the daily reset points around an instant enclose it,
  are exactly 24 hours apart, and the next one falls on the configured hour of the local clock.\<close>

theorem daily_reset_window:
  assumes "0 \<le> hr" "hr < 24"
  shows "lastFixedDailyReset hr (fixed_zone off) t \<le> t
    \<and> t < nextFixedDailyReset hr (fixed_zone off) t
    \<and> nextFixedDailyReset hr (fixed_zone off) t = lastFixedDailyReset hr (fixed_zone off) t + 24 * hour
    \<and> clock_secs (fixed_zone off) (nextFixedDailyReset hr (fixed_zone off) t) = hr * 3600"
proof (intro conjI)
  show "nextFixedDailyReset hr (fixed_zone off) t = lastFixedDailyReset hr (fixed_zone off) t + 24 * hour"
    by (simp add: nextDaily_last hour_def)
  show "clock_secs (fixed_zone off) (nextFixedDailyReset hr (fixed_zone off) t) = hr * 3600"
    by (simp only: nextDaily_eq point_day [OF assms])
qed (rule lastDaily_le nextDaily_gt; rule assms)+

lemma daily_reset_window_witness:
  "lastFixedDailyReset 8 (fixed_zone 28800) 0 \<le> 0 \<and> 0 < nextFixedDailyReset 8 (fixed_zone 28800) 0"
  using daily_reset_window [of 8 28800 0] by simp

text \<open>In a time zone of constant offset the weekly reset points around an instant enclose it,
  are exactly seven days apart, and the next one falls on the configured weekday and hour.\<close>

theorem weekly_reset_window:
  assumes "0 \<le> hr" "hr < 24" "0 \<le> day" "day < 7"
  shows "lastFixedWeeklyReset day hr (fixed_zone off) t \<le> t
    \<and> t < nextFixedWeeklyReset day hr (fixed_zone off) t
    \<and> nextFixedWeeklyReset day hr (fixed_zone off) t
        = lastFixedWeeklyReset day hr (fixed_zone off) t + 7 * 24 * hour
    \<and> weekday (local_day (fixed_zone off) (nextFixedWeeklyReset day hr (fixed_zone off) t)) = day
    \<and> clock_secs (fixed_zone off) (nextFixedWeeklyReset day hr (fixed_zone off) t) = hr * 3600"
proof (intro conjI)
  show "nextFixedWeeklyReset day hr (fixed_zone off) t
        = lastFixedWeeklyReset day hr (fixed_zone off) t + 7 * 24 * hour"
    by (simp add: nextWeekly_last [OF assms] hour_def)
qed (rule lastWeekly_le nextWeekly_gt nextWeekly_local; rule assms)+

lemma weekly_reset_window_witness:
  "lastFixedWeeklyReset 1 9 (fixed_zone 0) 0 \<le> 0 \<and> 0 < nextFixedWeeklyReset 1 9 (fixed_zone 0) 0"
  using weekly_reset_window [of 9 1 0 0] by simp

text \<open>C39: Saving a validated configuration stores exactly the next reset points that the readers
  of the account would compute, one for each dimension in fixed mode and none otherwise, and
  leaves every other entry of the column as it was.\<close>

theorem ComputeQuotaResetAt_validated:
  assumes "ValidateQuotaResetConfig tz (acc_Extra a) = None" and "acc_Extra a = Some m"
  shows "mlookup (ComputeQuotaResetAt tz now (acc_Extra a)) =
    (map_of m)
      (''quota_daily_reset_at'' :=
         (if GetQuotaDailyResetMode a = ''fixed''
          then Some (GStr (format_rfc3339_utc (nextFixedDailyReset (GetQuotaDailyResetHour a)
                 (reset_location tz (GetQuotaResetTimezone a)) now))) else None),
       ''quota_weekly_reset_at'' :=
         (if GetQuotaWeeklyResetMode a = ''fixed''
          then Some (GStr (format_rfc3339_utc (nextFixedWeeklyReset (GetQuotaWeeklyResetDay a)
                 (GetQuotaWeeklyResetHour a) (reset_location tz (GetQuotaResetTimezone a)) now)))
          else None))"
  using validated_entries [OF assms, of now]
  by (auto simp: fun_eq_iff assms(2) ComputeQuotaResetAt_lookup daily_reset_text_def weekly_reset_text_def)

lemma ComputeQuotaResetAt_validated_witness:
  "mlookup (ComputeQuotaResetAt (\<lambda>_. None) 0 (Some [(''quota_daily_reset_mode'', GStr ''fixed'')]))
     ''quota_daily_reset_at'' = Some (GStr (format_rfc3339_utc (nextFixedDailyReset 0 utc 0)))"
proof -
  let ?a = "blank_account\<lparr>acc_Extra := Some [(''quota_daily_reset_mode'', GStr ''fixed'')]\<rparr>"
  have "ValidateQuotaResetConfig (\<lambda>_. None) (acc_Extra ?a) = None"
    by (simp add: ValidateQuotaResetConfig_def bad_mode_def bad_range_def mget_def)
  from ComputeQuotaResetAt_validated [OF this, of _ 0] show ?thesis
    by (simp add: GetQuotaDailyResetMode_def GetQuotaDailyResetHour_def GetQuotaResetTimezone_def
        getExtraString_def getExtraInt_def mget_def reset_location_def load_location_def)
qed

text \<open>The exhaustion test agrees with the two period tests that the display uses: an account
  is over its quota when the total, or the daily or weekly amount of a period that has not
  expired, has reached a positive limit.\<close>

theorem IsQuotaExceeded_iff:
  "IsQuotaExceeded tz now a \<longleftrightarrow>
     f_lt f_zero (GetQuotaLimit a) \<and> f_le (GetQuotaLimit a) (GetQuotaUsed a)
   \<or> f_lt f_zero (GetQuotaDailyLimit a) \<and> \<not> IsDailyQuotaPeriodExpired tz now a
       \<and> f_le (GetQuotaDailyLimit a) (GetQuotaDailyUsed a)
   \<or> f_lt f_zero (GetQuotaWeeklyLimit a) \<and> \<not> IsWeeklyQuotaPeriodExpired tz now a
       \<and> f_le (GetQuotaWeeklyLimit a) (GetQuotaWeeklyUsed a)"
  unfolding IsQuotaExceeded_def IsDailyQuotaPeriodExpired_def IsWeeklyQuotaPeriodExpired_def Let_def
  by (simp only: if_bool_eq_disj) blast

end
