(* ===== verification/AccountSched.thy ===== *)
theory AccountSched
  imports AccountQuota
begin

text \<open>
  Whether an account may be given a request (\<open>service/account.go\<close>): the status test, the cost
  of the current five-hour window and the requests per minute, each with a zone in which only
  sticky sessions are served. Counts are 64-bit integers, costs are floating-point numbers.
\<close>

section \<open>Status\<close>

definition IsSchedulable :: "tzdb \<Rightarrow> gtime \<Rightarrow> account \<Rightarrow> bool" where
  "IsSchedulable tz now a =
     (if \<not> Account_IsActive a \<or> \<not> acc_Schedulable a then False
      else if acc_AutoPauseOnExpired a \<and> acc_ExpiresAt a \<noteq> None \<and> \<not> before_opt now (acc_ExpiresAt a)
      then False
      else if before_opt now (acc_OverloadUntil a) then False
      else if before_opt now (acc_RateLimitResetAt a) then False
      else if before_opt now (acc_TempUnschedulableUntil a) then False
      else if IsAPIKeyOrBedrock a \<and> IsQuotaExceeded tz now a then False
      else True)"

section \<open>The scheduling zones\<close>

datatype WindowCostSchedulability =
    WindowCostSchedulable
  | WindowCostStickyOnly
  | WindowCostNotSchedulable

text \<open>Each zone serves less than the one before it.\<close>

fun restriction :: "WindowCostSchedulability \<Rightarrow> nat" where
  "restriction WindowCostSchedulable = 0"
| "restriction WindowCostStickyOnly = 1"
| "restriction WindowCostNotSchedulable = 2"

lemma restriction_inj: "restriction x = restriction y \<longleftrightarrow> x = y"
  by (cases x; cases y) simp_all

instantiation WindowCostSchedulability :: linorder
begin

definition less_eq_WindowCostSchedulability ::
    "WindowCostSchedulability \<Rightarrow> WindowCostSchedulability \<Rightarrow> bool" where
  "less_eq_WindowCostSchedulability x y \<longleftrightarrow> restriction x \<le> restriction y"

definition less_WindowCostSchedulability ::
    "WindowCostSchedulability \<Rightarrow> WindowCostSchedulability \<Rightarrow> bool" where
  "less_WindowCostSchedulability x y \<longleftrightarrow> restriction x < restriction y"

instance
  by standard
    (auto simp: less_eq_WindowCostSchedulability_def less_WindowCostSchedulability_def restriction_inj)

end

lemmas zone_order = less_eq_WindowCostSchedulability_def less_WindowCostSchedulability_def

section \<open>Window cost and sessions\<close>

definition GetWindowCostLimit :: "account \<Rightarrow> float64" where
  "GetWindowCostLimit a =
     (case mlookup (acc_Extra a) ''window_cost_limit'' of
        None \<Rightarrow> f_zero | Some v \<Rightarrow> parseExtraFloat64 v)"

definition GetWindowCostStickyReserve :: "account \<Rightarrow> float64" where
  "GetWindowCostStickyReserve a =
     (case mlookup (acc_Extra a) ''window_cost_sticky_reserve'' of
        None \<Rightarrow> f_of_int 10
      | Some v \<Rightarrow> (let val = parseExtraFloat64 v in if f_lt f_zero val then val else f_of_int 10))"

definition GetMaxSessions :: "account \<Rightarrow> int" where
  "GetMaxSessions a =
     (case mlookup (acc_Extra a) ''max_sessions'' of None \<Rightarrow> 0 | Some v \<Rightarrow> parseExtraInt v)"

definition GetSessionIdleTimeoutMinutes :: "account \<Rightarrow> int" where
  "GetSessionIdleTimeoutMinutes a =
     (case mlookup (acc_Extra a) ''session_idle_timeout_minutes'' of
        None \<Rightarrow> 5
      | Some v \<Rightarrow> (let val = parseExtraInt v in if 0 < val then val else 5))"

definition CheckWindowCostSchedulability :: "account \<Rightarrow> float64 \<Rightarrow> WindowCostSchedulability" where
  "CheckWindowCostSchedulability a currentWindowCost =
     (let limit = GetWindowCostLimit a in
      if f_le limit f_zero then WindowCostSchedulable
      else if f_lt currentWindowCost limit then WindowCostSchedulable
      else if f_lt currentWindowCost (f_add limit (GetWindowCostStickyReserve a))
      then WindowCostStickyOnly
      else WindowCostNotSchedulable)"

text \<open>The start of the window in use: the recorded one until its end, then the full hour of the
  server's clock.\<close>

definition GetCurrentWindowStartTime :: "location \<Rightarrow> gtime \<Rightarrow> account \<Rightarrow> gtime" where
  "GetCurrentWindowStartTime local now a =
     (case (acc_SessionWindowStart a, acc_SessionWindowEnd a) of
        (Some s, Some e) \<Rightarrow>
          if now < e then s
          else date_at local (local_day local now) (clock_secs local now div 3600 * 3600)
      | _ \<Rightarrow> date_at local (local_day local now) (clock_secs local now div 3600 * 3600))"

section \<open>Requests per minute\<close>

definition GetBaseRPM :: "account \<Rightarrow> int" where
  "GetBaseRPM a =
     (case mlookup (acc_Extra a) ''base_rpm'' of
        None \<Rightarrow> 0
      | Some v \<Rightarrow> (let val = parseExtraInt v in if 0 < val then val else 0))"

definition GetRPMStrategy :: "account \<Rightarrow> string" where
  "GetRPMStrategy a =
     (if mlookup (acc_Extra a) ''rpm_strategy'' = Some (GStr ''sticky_exempt'')
      then ''sticky_exempt'' else ''tiered'')"

definition GetRPMStickyBuffer :: "account \<Rightarrow> int" where
  "GetRPMStickyBuffer a =
     (if acc_Extra a = None then 0
      else (let override = (case mlookup (acc_Extra a) ''rpm_sticky_buffer'' of
                              None \<Rightarrow> 0 | Some v \<Rightarrow> parseExtraInt v)
            in if 0 < override then override
               else (let base = GetBaseRPM a in
                     if base \<le> 0 then 0
                     else (let conc = (if acc_Concurrency a < 0 then 0 else acc_Concurrency a);
                               sess = (if GetMaxSessions a < 0 then 0 else GetMaxSessions a);
                               buffer = i64 (conc + sess);
                               floor5 = go_div base 5;
                               floor1 = (if floor5 < 1 then 1 else floor5)
                           in if buffer < floor1 then floor1 else buffer))))"

definition CheckRPMSchedulability :: "account \<Rightarrow> int \<Rightarrow> WindowCostSchedulability" where
  "CheckRPMSchedulability a currentRPM =
     (let baseRPM = GetBaseRPM a in
      if baseRPM \<le> 0 then WindowCostSchedulable
      else if currentRPM < baseRPM then WindowCostSchedulable
      else if GetRPMStrategy a = ''sticky_exempt'' then WindowCostStickyOnly
      else if currentRPM < i64 (baseRPM + GetRPMStickyBuffer a) then WindowCostStickyOnly
      else WindowCostNotSchedulable)"

section \<open>Facts\<close>

lemma GetBaseRPM_nonneg: "0 \<le> GetBaseRPM a"
  by (simp add: GetBaseRPM_def Let_def split: option.split)

lemma GetBaseRPM_extra: "0 < GetBaseRPM a \<Longrightarrow> acc_Extra a \<noteq> None"
  by (cases "acc_Extra a") (auto simp: GetBaseRPM_def mlookup_def)

lemma GetSessionIdleTimeoutMinutes_pos: "0 < GetSessionIdleTimeoutMinutes a"
  by (simp add: GetSessionIdleTimeoutMinutes_def Let_def split: option.split)

lemma GetRPMStickyBuffer_pos: "0 < GetBaseRPM a \<Longrightarrow> 0 < GetRPMStickyBuffer a"
  by (auto simp: GetRPMStickyBuffer_def Let_def dest: GetBaseRPM_extra)

lemma sticky_reserve_pos: "f_lt f_zero (GetWindowCostStickyReserve a)"
  by (simp add: GetWindowCostStickyReserve_def Let_def f_of_int_small split: option.split)

text \<open>Both zone tests are of one shape: a lower and an upper bound on a growing quantity.\<close>

definition zone :: "bool \<Rightarrow> bool \<Rightarrow> WindowCostSchedulability" where
  "zone below_limit below_reserve =
     (if below_limit then WindowCostSchedulable
      else if below_reserve then WindowCostStickyOnly else WindowCostNotSchedulable)"

lemma zone_mono: "(l' \<Longrightarrow> l) \<Longrightarrow> (r' \<Longrightarrow> r) \<Longrightarrow> zone l r \<le> zone l' r'"
  by (auto simp: zone_def zone_order)

lemma CheckRPM_zone:
  "CheckRPMSchedulability a n =
     zone (GetBaseRPM a \<le> 0 \<or> n < GetBaseRPM a)
       (GetRPMStrategy a = ''sticky_exempt'' \<or> n < i64 (GetBaseRPM a + GetRPMStickyBuffer a))"
  by (simp add: CheckRPMSchedulability_def zone_def Let_def)

lemma CheckWindowCost_zone:
  "CheckWindowCostSchedulability a c =
     zone (f_le (GetWindowCostLimit a) f_zero \<or> f_lt c (GetWindowCostLimit a))
       (f_lt c (f_add (GetWindowCostLimit a) (GetWindowCostStickyReserve a)))"
  by (simp add: CheckWindowCostSchedulability_def zone_def Let_def)

text \<open>The instant after which no temporary condition holds the account back.\<close>

definition last_block :: "account \<Rightarrow> gtime" where
  "last_block a = Max (insert 0 (\<Union>p\<in>{acc_OverloadUntil a, acc_RateLimitResetAt a,
     acc_TempUnschedulableUntil a}. set_option p))"

lemma last_block_ge:
  "acc_OverloadUntil a = Some t \<Longrightarrow> t \<le> last_block a"
  "acc_RateLimitResetAt a = Some t \<Longrightarrow> t \<le> last_block a"
  "acc_TempUnschedulableUntil a = Some t \<Longrightarrow> t \<le> last_block a"
  unfolding last_block_def by (rule Max_ge; auto)+

lemma not_blocked:
  assumes "last_block a \<le> now"
  shows "\<not> before_opt now (acc_OverloadUntil a)" "\<not> before_opt now (acc_RateLimitResetAt a)"
    "\<not> before_opt now (acc_TempUnschedulableUntil a)"
  using assms last_block_ge [of a] by (force simp: before_opt_def split: option.splits)+

section \<open>Properties\<close>

text \<open>The admission zones are monotone: more requests in the current minute, or a higher
  cost of the current window, never make an account more available.\<close>

theorem admission_zones_monotone:
  assumes "m \<le> n" and "f_le c d"
  shows "CheckRPMSchedulability a m \<le> CheckRPMSchedulability a n
    \<and> CheckWindowCostSchedulability a c \<le> CheckWindowCostSchedulability a d"
  using assms unfolding CheckRPM_zone CheckWindowCost_zone
  by (auto intro!: zone_mono dest: f_le_lt_trans)

lemma admission_zones_monotone_witness:
  "CheckRPMSchedulability (blank_account\<lparr>acc_Extra := Some [(''base_rpm'', GInt 10)]\<rparr>) 9
     \<le> CheckRPMSchedulability (blank_account\<lparr>acc_Extra := Some [(''base_rpm'', GInt 10)]\<rparr>) 30"
  using admission_zones_monotone [of 9 30 "Fin 0" "Fin 1"
      "blank_account\<lparr>acc_Extra := Some [(''base_rpm'', GInt 10)]\<rparr>"] by simp

text \<open>With a tiered limit whose sum with the buffer fits into 64 bits the three zones follow
  each other at the base rate and at the base rate plus the buffer, and the sticky zone is never
  empty.\<close>

theorem rpm_tiers:
  assumes "0 < GetBaseRPM a" and "GetRPMStrategy a = ''tiered''"
    and "in_i64 (GetBaseRPM a + GetRPMStickyBuffer a)"
  shows "CheckRPMSchedulability a n =
      (if n < GetBaseRPM a then WindowCostSchedulable
       else if n < GetBaseRPM a + GetRPMStickyBuffer a then WindowCostStickyOnly
       else WindowCostNotSchedulable)
    \<and> CheckRPMSchedulability a (GetBaseRPM a) = WindowCostStickyOnly"
  using assms GetRPMStickyBuffer_pos [OF assms(1)] by (auto simp: CheckRPM_zone zone_def i64_id)

lemma rpm_tiers_witness:
  "CheckRPMSchedulability (blank_account\<lparr>acc_Extra := Some [(''base_rpm'', GInt 10)]\<rparr>) 12
     = WindowCostNotSchedulable"
proof -
  let ?a = "blank_account\<lparr>acc_Extra := Some [(''base_rpm'', GInt 10)]\<rparr>"
  have b: "GetBaseRPM ?a = 10" "GetRPMStickyBuffer ?a = 2" "GetRPMStrategy ?a = ''tiered''"
    by (simp_all add: GetBaseRPM_def GetRPMStickyBuffer_def GetRPMStrategy_def GetMaxSessions_def
        parseExtraInt_def go_div_nonneg i64_small blank_account_def)
  show ?thesis using rpm_tiers [of ?a 12] by (simp add: b in_i64_def i64_min_def i64_max_def)
qed



end
