(* ===== verification/GoStrings.thy ===== *)
theory GoStrings
  imports GoText
begin

text \<open>
  More of the package \<open>strings\<close>: splitting and joining, fields separated by white space,
  replacing all occurrences, and removing duplicates by a lower-case key.
\<close>

section \<open>Splitting\<close>

fun split_on :: "('a \<Rightarrow> bool) \<Rightarrow> 'a list \<Rightarrow> 'a list \<Rightarrow> 'a list list" where
  "split_on p cur [] = [rev cur]"
| "split_on p cur (c # r) = (if p c then rev cur # split_on p [] r else split_on p (c # cur) r)"

definition split_char :: "char \<Rightarrow> string \<Rightarrow> string list" where
  "split_char sep s = split_on (\<lambda>c. c = sep) [] s"

lemma split_on_nonempty [simp]: "split_on p cur s \<noteq> []"
  by (induction p cur s rule: split_on.induct) auto

definition last_segment :: "string \<Rightarrow> string" where
  "last_segment s = last (split_char CHR ''/'' s)"

text \<open>\<open>strings.FieldsFunc\<close>: the maximal runs of characters outside \<open>p\<close>.\<close>

definition fields_func :: "(char \<Rightarrow> bool) \<Rightarrow> string \<Rightarrow> string list" where
  "fields_func p s = filter (\<lambda>f. f \<noteq> []) (split_on p [] s)"

text \<open>\<open>strings.Fields\<close>: the separators are the white-space sequences.\<close>

function fields_from :: "string \<Rightarrow> string \<Rightarrow> string list" where
  "fields_from cur [] = (if cur = [] then [] else [rev cur])"
| "fields_from cur (c # r) =
     (case find (\<lambda>w. has_prefix (c # r) w) ws_seqs of
        None \<Rightarrow> fields_from (c # cur) r
      | Some w \<Rightarrow> (if cur = [] then [] else [rev cur]) @ fields_from [] (drop (length w - 1) r))"
  by pat_completeness auto
termination
  by (relation "measure (\<lambda>(cur, s). length s)") auto

definition str_fields :: "string \<Rightarrow> string list" where
  "str_fields s = fields_from [] s"

fun str_join :: "string \<Rightarrow> string list \<Rightarrow> string" where
  "str_join sep [] = []"
| "str_join sep [s] = s"
| "str_join sep (s # ss) = s @ sep @ str_join sep ss"

section \<open>Replacing\<close>

text \<open>\<open>strings.ReplaceAll\<close> with a non-empty pattern.\<close>

function replace_all :: "string \<Rightarrow> string \<Rightarrow> string \<Rightarrow> string" where
  "replace_all old new [] = []"
| "replace_all old new (c # r) =
     (if has_prefix (c # r) old then new @ replace_all old new (drop (length old - 1) r)
      else c # replace_all old new r)"
  by pat_completeness auto
termination
  by (relation "measure (\<lambda>(old, new, s). length s)") auto

definition replace_char :: "char \<Rightarrow> char \<Rightarrow> string \<Rightarrow> string" where
  "replace_char a b s = map (\<lambda>c. if c = a then b else c) s"

lemma has_prefix_Cons [simp]: "has_prefix (c # r) (d # p) \<longleftrightarrow> c = d \<and> has_prefix r p"
  by (auto simp: has_prefix_iff)

lemma replace_all_shorter:
  "length (replace_all ''--'' ''-'' s) \<le> length s
   \<and> (str_contains s ''--'' \<longrightarrow> length (replace_all ''--'' ''-'' s) < length s)"
proof (induction "''--''" "''-''" s rule: replace_all.induct)
  case (2 c r)
  show ?case
  proof (cases "has_prefix (c # r) ''--''")
    case True
    then obtain r' where "c # r = ''--'' @ r'" by (auto simp: has_prefix_iff)
    then show ?thesis using 2(1) [OF True] by auto
  next
    case False
    then show ?thesis using 2(2) [OF False] by auto
  qed
qed simp

text \<open>The loop that replaces \<open>--\<close> by \<open>-\<close> until none is left.\<close>

function collapse_dashes :: "string \<Rightarrow> string" where
  "collapse_dashes s =
     (if str_contains s ''--'' then collapse_dashes (replace_all ''--'' ''-'' s) else s)"
  by pat_completeness auto
termination
  by (relation "measure length") (use replace_all_shorter in auto)

declare collapse_dashes.simps [simp del]

lemma collapse_dashes_clean: "\<not> str_contains (collapse_dashes s) ''--''"
  by (induction s rule: collapse_dashes.induct) (subst collapse_dashes.simps, auto)

end
