(* ===== verification/OpenAIModels.thy ===== *)
theory OpenAIModels
  imports GoStrings
begin

text \<open>
  Names of OpenAI models: the canonical spelling of an alias and the table of known Codex
  models (\<open>service/openai_model_alias.go\<close>, \<open>service/openai_codex_transform.go\<close>), the reasoning
  suffix of a requested model (\<open>service/openai_compat_model.go\<close>), and the list of names under
  which the usage of a request is looked up for billing. All comparisons are with ASCII
  literals, for which the model's lower-casing is exact.
\<close>

section \<open>The table of known models\<close>

definition codexModelMap :: "(string \<times> string) list" where
  "codexModelMap =
     [(''gpt-5.5'', ''gpt-5.5''),
      (''codex-auto-review'', ''codex-auto-review''),
      (''gpt-5.4'', ''gpt-5.4''),
      (''gpt-5.4-mini'', ''gpt-5.4-mini''),
      (''gpt-5.4-none'', ''gpt-5.4''),
      (''gpt-5.4-low'', ''gpt-5.4''),
      (''gpt-5.4-medium'', ''gpt-5.4''),
      (''gpt-5.4-high'', ''gpt-5.4''),
      (''gpt-5.4-xhigh'', ''gpt-5.4''),
      (''gpt-5.4-chat-latest'', ''gpt-5.4''),
      (''gpt-5.3'', ''gpt-5.3-codex''),
      (''gpt-5.3-none'', ''gpt-5.3-codex''),
      (''gpt-5.3-low'', ''gpt-5.3-codex''),
      (''gpt-5.3-medium'', ''gpt-5.3-codex''),
      (''gpt-5.3-high'', ''gpt-5.3-codex''),
      (''gpt-5.3-xhigh'', ''gpt-5.3-codex''),
      (''gpt-5.3-codex'', ''gpt-5.3-codex''),
      (''gpt-5.3-codex-spark'', ''gpt-5.3-codex-spark''),
      (''gpt-5.3-codex-spark-low'', ''gpt-5.3-codex-spark''),
      (''gpt-5.3-codex-spark-medium'', ''gpt-5.3-codex-spark''),
      (''gpt-5.3-codex-spark-high'', ''gpt-5.3-codex-spark''),
      (''gpt-5.3-codex-spark-xhigh'', ''gpt-5.3-codex-spark''),
      (''gpt-5.3-codex-low'', ''gpt-5.3-codex''),
      (''gpt-5.3-codex-medium'', ''gpt-5.3-codex''),
      (''gpt-5.3-codex-high'', ''gpt-5.3-codex''),
      (''gpt-5.3-codex-xhigh'', ''gpt-5.3-codex''),
      (''gpt-5.2'', ''gpt-5.2''),
      (''gpt-5.2-none'', ''gpt-5.2''),
      (''gpt-5.2-low'', ''gpt-5.2''),
      (''gpt-5.2-medium'', ''gpt-5.2''),
      (''gpt-5.2-high'', ''gpt-5.2''),
      (''gpt-5.2-xhigh'', ''gpt-5.2''),
      (''gpt-5'', ''gpt-5.4''),
      (''gpt-5-mini'', ''gpt-5.4''),
      (''gpt-5-nano'', ''gpt-5.4''),
      (''gpt-5.1'', ''gpt-5.4''),
      (''gpt-5.1-codex'', ''gpt-5.3-codex''),
      (''gpt-5.1-codex-max'', ''gpt-5.3-codex''),
      (''gpt-5.1-codex-mini'', ''gpt-5.3-codex''),
      (''gpt-5.2-codex'', ''gpt-5.2''),
      (''codex-mini-latest'', ''gpt-5.3-codex''),
      (''gpt-5-codex'', ''gpt-5.3-codex'')]"

definition codexVersionModelPrefixes :: "(string \<times> string) list" where
  "codexVersionModelPrefixes =
     [(''gpt-5.3-codex-spark'', ''gpt-5.3-codex-spark''),
      (''gpt-5.3-codex'', ''gpt-5.3-codex''),
      (''gpt-5.4-mini'', ''gpt-5.4-mini''),
      (''gpt-5.4-nano'', ''gpt-5.4-nano''),
      (''gpt-5.5'', ''gpt-5.5''),
      (''gpt-5.4'', ''gpt-5.4''),
      (''gpt-5.2'', ''gpt-5.2'')]"

section \<open>Aliases\<close>

definition lastOpenAIModelSegment :: "string \<Rightarrow> string" where
  "lastOpenAIModelSegment model =
     (let m = trim_space model in
      if m = [] then []
      else trim_space (if CHR ''/'' \<in> set m then last_segment m else m))"

definition alias_replacements :: "(string \<times> string) list" where
  "alias_replacements =
     [(''gpt-5.4mini'', ''gpt-5.4-mini''),
      (''gpt-5.4nano'', ''gpt-5.4-nano''),
      (''gpt-5.3-codexspark'', ''gpt-5.3-codex-spark''),
      (''gpt-5.3codexspark'', ''gpt-5.3-codex-spark''),
      (''gpt-5.3codex'', ''gpt-5.3-codex'')]"

definition canonicalizeOpenAIModelAliasSpelling :: "string \<Rightarrow> string" where
  "canonicalizeOpenAIModelAliasSpelling model0 =
     (let model = to_lower (lastOpenAIModelSegment model0) in
      if model = [] then []
      else (let n1 = replace_char CHR ''_'' CHR ''-'' model;
                n2 = collapse_dashes (str_join ''-'' (str_fields n1));
                n3 = (if has_prefix n2 ''gpt5'' then ''gpt-5'' @ trim_prefix n2 ''gpt5'' else n2)
            in if \<not> has_prefix n3 ''gpt-'' \<and> \<not> str_contains n3 ''codex'' then []
               else foldl (\<lambda>s (old, new). replace_all old new s) n3 alias_replacements))"

definition codexModelLookupKey :: "string \<Rightarrow> string" where
  "codexModelLookupKey modelID0 =
     (let modelID = trim_space modelID0 in
      if modelID = [] then []
      else (let m = (if CHR ''/'' \<in> set modelID then last_segment modelID else modelID) in
            to_lower (str_join ''-'' (str_fields m))))"

definition getNormalizedCodexModel :: "string \<Rightarrow> string" where
  "getNormalizedCodexModel modelID =
     (let key = codexModelLookupKey modelID in
      if key = [] then []
      else (case map_of codexModelMap key of Some mapped \<Rightarrow> mapped | None \<Rightarrow> []))"

text \<open>The first known family that the spelling contains; the order of the cases matters.\<close>

definition codex_families :: "(string \<times> string) list" where
  "codex_families =
     [(''gpt-5.5'', ''gpt-5.5''),
      (''gpt-5.4-mini'', ''gpt-5.4-mini''),
      (''gpt-5.4-nano'', ''gpt-5.4-nano''),
      (''gpt-5.4'', ''gpt-5.4''),
      (''gpt-5.2'', ''gpt-5.2''),
      (''gpt-5.3-codex-spark'', ''gpt-5.3-codex-spark''),
      (''gpt-5.3-codex'', ''gpt-5.3-codex''),
      (''gpt-5.3'', ''gpt-5.3-codex''),
      (''codex'', ''gpt-5.3-codex''),
      (''gpt-5'', ''gpt-5.4'')]"

definition family_of :: "string \<Rightarrow> string" where
  "family_of s = (case find (\<lambda>(f, t). str_contains s f) codex_families of Some (f, t) \<Rightarrow> t | None \<Rightarrow> [])"

definition normalizeKnownOpenAICodexModel :: "string \<Rightarrow> string" where
  "normalizeKnownOpenAICodexModel model =
     (let normalized = canonicalizeOpenAIModelAliasSpelling model in
      if normalized = [] then []
      else if getNormalizedCodexModel normalized \<noteq> [] then getNormalizedCodexModel normalized
      else if has_suffix normalized ''-openai-compact''
              \<and> getNormalizedCodexModel (trim_suffix normalized ''-openai-compact'') \<noteq> []
      then getNormalizedCodexModel (trim_suffix normalized ''-openai-compact'')
      else family_of normalized)"

definition isCodexDateSuffix :: "string \<Rightarrow> bool" where
  "isCodexDateSuffix sfx =
     (let parts = split_char CHR ''-'' sfx in
      map length parts = [4, 2, 2] \<and> list_all (list_all is_digit) parts)"

definition isKnownCodexModelSuffix :: "string \<Rightarrow> bool" where
  "isKnownCodexModelSuffix sfx \<longleftrightarrow>
     sfx \<in> {''none'', ''minimal'', ''low'', ''medium'', ''high'', ''xhigh''}
     \<or> isCodexDateSuffix sfx"

definition isOpenAIImageGenerationModel :: "string \<Rightarrow> bool" where
  "isOpenAIImageGenerationModel model \<longleftrightarrow> has_prefix (to_lower (trim_space model)) ''gpt-image-''"

definition version_prefix_target :: "string \<Rightarrow> string option" where
  "version_prefix_target key =
     map_option snd (find (\<lambda>(p, t). key = p
         \<or> has_prefix key (p @ ''-'') \<and> isKnownCodexModelSuffix (trim_prefix key (p @ ''-'')))
       codexVersionModelPrefixes)"

definition normalizeKnownCodexModel :: "string \<Rightarrow> string option" where
  "normalizeKnownCodexModel model0 =
     (let model = trim_space model0 in
      if model = [] then None
      else if isOpenAIImageGenerationModel model then Some model
      else (let segment = lastOpenAIModelSegment model;
                canonical = canonicalizeOpenAIModelAliasSpelling segment;
                modelID = (if canonical \<noteq> [] then canonical else segment)
            in if normalizeKnownOpenAICodexModel modelID \<noteq> []
               then Some (normalizeKnownOpenAICodexModel modelID)
               else (let key = codexModelLookupKey modelID in
                     if key = [] then None
                     else if getNormalizedCodexModel key \<noteq> [] then Some (getNormalizedCodexModel key)
                     else version_prefix_target key)))"

definition normalizeCodexModel :: "string \<Rightarrow> string" where
  "normalizeCodexModel model0 =
     (let model = trim_space model0 in
      if model = [] then ''gpt-5.4''
      else (case normalizeKnownCodexModel model of Some mapped \<Rightarrow> mapped | None \<Rightarrow> model))"

definition isCodexSparkModel :: "string \<Rightarrow> bool" where
  "isCodexSparkModel model \<longleftrightarrow> normalizeCodexModel model = ''gpt-5.3-codex-spark''"

section \<open>Reasoning suffixes\<close>

text \<open>The model without its suffix, the reasoning effort and whether a suffix was found.\<close>

definition splitOpenAICompatReasoningModel :: "string \<Rightarrow> string \<times> string \<times> bool" where
  "splitOpenAICompatReasoningModel model =
     (let trimmed = trim_space model in
      if trimmed = [] then ([], [], False)
      else (let modelID = trim_space (if CHR ''/'' \<in> set trimmed then last_segment trimmed else trimmed) in
            if \<not> has_prefix (to_lower modelID) ''gpt-'' then (trimmed, [], False)
            else (let parts = fields_func (\<lambda>c. c \<in> {CHR ''-'', CHR ''_'', CHR '' ''}) (to_lower modelID) in
                  if parts = [] then (trimmed, [], False)
                  else (let lst = filter (\<lambda>c. c \<notin> {CHR ''-'', CHR ''_'', CHR '' ''}) (last parts) in
                        if lst \<in> {''none'', ''minimal''} then (normalizeCodexModel modelID, [], True)
                        else if lst \<in> {''low'', ''medium'', ''high''}
                        then (normalizeCodexModel modelID, lst, True)
                        else if lst \<in> {''xhigh'', ''extrahigh''}
                        then (normalizeCodexModel modelID, ''xhigh'', True)
                        else (trimmed, [], False)))))"

definition NormalizeOpenAICompatRequestedModel :: "string \<Rightarrow> string" where
  "NormalizeOpenAICompatRequestedModel model =
     (let trimmed = trim_space model in
      if trimmed = [] then []
      else (case splitOpenAICompatReasoningModel trimmed of (normalized, _, ok) \<Rightarrow>
              if \<not> ok \<or> normalized = [] then trimmed else normalized))"

definition openAIReasoningEffortToClaudeOutputEffort :: "string \<Rightarrow> string" where
  "openAIReasoningEffortToClaudeOutputEffort effort =
     (let e = trim_space effort in
      if e \<in> {''low'', ''medium'', ''high''} then effort
      else if e = ''xhigh'' then ''max'' else [])"

text \<open>The two fields of the request that are rewritten: its model and the effort of its output
  configuration, which may be absent.\<close>

definition applyOpenAICompatModelNormalization :: "string \<times> string option \<Rightarrow> string \<times> string option" where
  "applyOpenAICompatModelNormalization req =
     (let originalModel = trim_space (fst req) in
      if originalModel = [] then req
      else (case splitOpenAICompatReasoningModel originalModel of (normalized, derived, has) \<Rightarrow>
              (let model' = (if has \<and> normalized \<noteq> [] then normalized else fst req) in
               if (case snd req of Some e \<Rightarrow> trim_space e \<noteq> [] | None \<Rightarrow> False) then (model', snd req)
               else (let eff = openAIReasoningEffortToClaudeOutputEffort derived in
                     if eff = [] then (model', snd req) else (model', Some eff)))))"

section \<open>Names for billing\<close>

text \<open>\<open>add\<close>: a candidate is kept when its lower-case form is new. The set \<open>seen\<close> holds the
  lower-case forms of the candidates.\<close>

definition add_candidate :: "string list \<times> string set \<Rightarrow> string \<Rightarrow> string list \<times> string set" where
  "add_candidate st candidate0 =
     (let candidate = trim_space candidate0 in
      if candidate = [] then st
      else (let key = to_lower candidate in
            if key \<in> snd st then st else (fst st @ [candidate], insert key (snd st))))"

definition appendUsageBillingModelCandidate ::
    "string list \<times> string set \<Rightarrow> string \<Rightarrow> string list \<times> string set" where
  "appendUsageBillingModelCandidate st model =
     (let trimmed = trim_space model in
      if trimmed = [] then st
      else (let st1 = add_candidate st trimmed;
                canonical = canonicalizeOpenAIModelAliasSpelling trimmed;
                st2 = (if canonical \<noteq> [] then add_candidate st1 canonical else st1);
                normalized = normalizeKnownOpenAICodexModel trimmed
            in if normalized \<noteq> [] then add_candidate st2 normalized else st2))"

definition usageBillingModelCandidates :: "string \<Rightarrow> string list \<Rightarrow> string list" where
  "usageBillingModelCandidates primary alternates =
     fst (foldl appendUsageBillingModelCandidate ([], {}) (primary # alternates))"

definition firstUsageBillingModel :: "string list \<Rightarrow> string" where
  "firstUsageBillingModel candidates =
     (case find (\<lambda>c. trim_space c \<noteq> []) candidates of Some c \<Rightarrow> trim_space c | None \<Rightarrow> [])"

section \<open>Facts\<close>

definition codex_targets :: "string list" where
  "codex_targets =
     [''gpt-5.5'', ''codex-auto-review'', ''gpt-5.4'', ''gpt-5.4-mini'', ''gpt-5.4-nano'',
      ''gpt-5.3-codex'', ''gpt-5.3-codex-spark'', ''gpt-5.2'']"

lemma getNormalizedCodexModel_range: "getNormalizedCodexModel m \<in> set ([] # codex_targets)"
proof -
  have "set (map snd codexModelMap) \<subseteq> set codex_targets" by code_simp
  then have "v \<in> set codex_targets" if "map_of codexModelMap k = Some v" for k v
    using map_of_SomeD [OF that] by force
  then show ?thesis by (auto simp: getNormalizedCodexModel_def Let_def split: option.split)
qed

lemma family_of_range: "family_of s \<in> set ([] # codex_targets)"
proof -
  have "set (map snd codex_families) \<subseteq> set codex_targets" by code_simp
  moreover have "(f, t) \<in> set codex_families" if "find P codex_families = Some (f, t)" for P f t
    using that by (metis find_Some_iff nth_mem)
  ultimately have "t \<in> set codex_targets" if "find P codex_families = Some (f, t)" for P f t
    using that by (metis image_eqI list.set_map snd_conv subsetD)
  then show ?thesis by (auto simp: family_of_def split: option.split)
qed

lemma normalizeKnown_range: "normalizeKnownOpenAICodexModel m \<in> set ([] # codex_targets)"
proof -
  obtain T where T: "set ([] # codex_targets) = T" by simp
  have "[] \<in> T" "\<And>m. getNormalizedCodexModel m \<in> T" "\<And>s. family_of s \<in> T"
    using getNormalizedCodexModel_range family_of_range unfolding T [symmetric] by simp_all
  then show ?thesis unfolding T normalizeKnownOpenAICodexModel_def Let_def by simp
qed

lemma normalizeKnown_fixed:
  "normalizeKnownOpenAICodexModel [] = []"
  "normalizeKnownOpenAICodexModel ''gpt-5.5'' = ''gpt-5.5''"
  "normalizeKnownOpenAICodexModel ''codex-auto-review'' = ''codex-auto-review''"
  "normalizeKnownOpenAICodexModel ''gpt-5.4'' = ''gpt-5.4''"
  "normalizeKnownOpenAICodexModel ''gpt-5.4-mini'' = ''gpt-5.4-mini''"
  "normalizeKnownOpenAICodexModel ''gpt-5.4-nano'' = ''gpt-5.4-nano''"
  "normalizeKnownOpenAICodexModel ''gpt-5.3-codex'' = ''gpt-5.3-codex''"
  "normalizeKnownOpenAICodexModel ''gpt-5.3-codex-spark'' = ''gpt-5.3-codex-spark''"
  "normalizeKnownOpenAICodexModel ''gpt-5.2'' = ''gpt-5.2''"
  by code_simp+

text \<open>The invariant of the candidate list: no two candidates agree up to case, the set holds
  exactly their lower-case forms, and each is trimmed and non-empty.\<close>

definition candidates_ok :: "string list \<times> string set \<Rightarrow> bool" where
  "candidates_ok st \<longleftrightarrow>
     distinct (map to_lower (fst st)) \<and> snd st = to_lower ` set (fst st)
     \<and> (\<forall>c\<in>set (fst st). c \<noteq> [] \<and> trim_space c = c)"

lemma add_candidate_ok [inv_intros]: "candidates_ok st \<Longrightarrow> candidates_ok (add_candidate st c)"
  by (auto simp: candidates_ok_def add_candidate_def Let_def)

lemma add_candidate_prefix: "\<exists>r. fst (add_candidate st c) = fst st @ r"
  by (simp add: add_candidate_def Let_def)

lemma append_candidate_ok [inv_intros]:
  "candidates_ok st \<Longrightarrow> candidates_ok (appendUsageBillingModelCandidate st m)"
  by (auto simp: appendUsageBillingModelCandidate_def Let_def intro!: inv_intros)

lemma append_candidate_prefix: "\<exists>r. fst (appendUsageBillingModelCandidate st m) = fst st @ r"
proof -
  obtain r1 where r1: "fst (add_candidate st (trim_space m)) = fst st @ r1"
    using add_candidate_prefix by blast
  have step: "\<exists>r. fst (add_candidate st' c) = fst st @ r" if "\<exists>r. fst st' = fst st @ r" for st' c
    using that add_candidate_prefix [of st' c] by auto
  show ?thesis using r1 by (simp add: appendUsageBillingModelCandidate_def Let_def step)
qed

lemma fold_candidates_ok: "candidates_ok st \<Longrightarrow> candidates_ok (foldl appendUsageBillingModelCandidate st ms)"
  by (induction ms arbitrary: st) (simp_all add: inv_intros)

lemma fold_candidates_prefix: "\<exists>r. fst (foldl appendUsageBillingModelCandidate st ms) = fst st @ r"
proof (induction ms arbitrary: st)
  case (Cons m ms)
  obtain r where "fst (appendUsageBillingModelCandidate st m) = fst st @ r"
    using append_candidate_prefix by blast
  then show ?case using Cons [of "appendUsageBillingModelCandidate st m"] by auto
qed simp

lemma first_candidate:
  "trim_space p \<noteq> [] \<Longrightarrow> \<exists>r. fst (appendUsageBillingModelCandidate ([], {}) p) = trim_space p # r"
proof -
  assume p: "trim_space p \<noteq> []"
  have a: "add_candidate ([], {}) (trim_space p) = ([trim_space p], {to_lower (trim_space p)})"
    using p by (simp add: add_candidate_def Let_def)
  have step: "\<exists>r. fst (add_candidate st c) = trim_space p # r" if "\<exists>r. fst st = trim_space p # r" for st c
    using that add_candidate_prefix [of st c] by auto
  show ?thesis using p by (simp add: appendUsageBillingModelCandidate_def Let_def a step)
qed

section \<open>Properties\<close>

text \<open>Normalising the name of a Codex model yields a name from a fixed list of eight or nothing,
  and a second normalisation changes nothing.\<close>

theorem normalizeKnownOpenAICodexModel_stable:
  "normalizeKnownOpenAICodexModel m \<in> set ([] # codex_targets)
   \<and> normalizeKnownOpenAICodexModel (normalizeKnownOpenAICodexModel m) = normalizeKnownOpenAICodexModel m"
  using normalizeKnown_range [of m] by (auto simp: normalizeKnown_fixed codex_targets_def)

text \<open>The names under which a request is billed start with the requested model, are trimmed and
  non-empty, and no two of them agree up to letter case.\<close>

theorem usageBillingModelCandidates_ok:
  assumes "trim_space primary \<noteq> []"
  shows "hd (usageBillingModelCandidates primary alternates) = trim_space primary
    \<and> firstUsageBillingModel (usageBillingModelCandidates primary alternates) = trim_space primary
    \<and> distinct (map to_lower (usageBillingModelCandidates primary alternates))
    \<and> [] \<notin> set (usageBillingModelCandidates primary alternates)"
proof -
  obtain r where r: "fst (appendUsageBillingModelCandidate ([], {}) primary) = trim_space primary # r"
    using first_candidate [OF assms] by blast
  obtain r' where r': "usageBillingModelCandidates primary alternates = trim_space primary # r @ r'"
    using fold_candidates_prefix [of "appendUsageBillingModelCandidate ([], {}) primary" alternates] r
    by (auto simp: usageBillingModelCandidates_def)
  have "candidates_ok ([], {})" by (simp add: candidates_ok_def)
  from fold_candidates_ok [OF this, of "primary # alternates"] have
    "distinct (map to_lower (usageBillingModelCandidates primary alternates))"
    "\<forall>c\<in>set (usageBillingModelCandidates primary alternates). c \<noteq> []"
    by (simp_all add: candidates_ok_def usageBillingModelCandidates_def del: foldl_Cons)
  then show ?thesis using assms by (auto simp: r' firstUsageBillingModel_def)
qed

lemma usageBillingModelCandidates_ok_witness:
  "hd (usageBillingModelCandidates ''gpt-5'' [''o3'']) = ''gpt-5''"
proof -
  have "trim_space ''gpt-5'' = ''gpt-5''" by code_simp
  then show ?thesis using usageBillingModelCandidates_ok [of "''gpt-5''" "[''o3'']"] by simp
qed

end
