(* ===== verification/ModelLimit.thy ===== *)
theory ModelLimit
  imports AccountSched OpenAIModels
begin

text \<open>
  Rate limits per model (\<open>service/model_rate_limit.go\<close>, \<open>service/antigravity_quota_scope.go\<close>,
  \<open>isCreditsExhausted\<close> of \<open>service/antigravity_credits_overages.go\<close>) and the model that a request
  is forwarded with (\<open>service/openai_model_mapping.go\<close>). A limit is the RFC 3339 text under
  \<open>model_rate_limits\<close> in the column \<open>extra\<close>. The flag for extended thinking comes from the request
  context and is a parameter that may be absent.
\<close>

section \<open>Model rate limits\<close>

abbreviation modelRateLimitsKey :: string where "modelRateLimitsKey \<equiv> ''model_rate_limits''"
abbreviation creditsExhaustedKey :: string where "creditsExhaustedKey \<equiv> ''AICredits''"

definition modelRateLimitResetAt :: "account option \<Rightarrow> string \<Rightarrow> gtime option" where
  "modelRateLimitResetAt oa scope =
     (case oa of
        None \<Rightarrow> None
      | Some a \<Rightarrow>
          if acc_Extra a = None \<or> scope = [] then None
          else (case as_obj (mget (acc_Extra a) modelRateLimitsKey) of
                  None \<Rightarrow> None
                | Some rawLimits \<Rightarrow>
                    (case as_obj (mget rawLimits scope) of
                       None \<Rightarrow> None
                     | Some rawLimit \<Rightarrow>
                         (case as_str (mget rawLimit ''rate_limit_reset_at'') of
                            None \<Rightarrow> None
                          | Some raw \<Rightarrow> if trim_space raw = [] then None else parse_rfc3339 raw))))"

definition isRateLimitActiveForKey :: "gtime \<Rightarrow> account option \<Rightarrow> string \<Rightarrow> bool" where
  "isRateLimitActiveForKey now oa key \<longleftrightarrow> before_opt now (modelRateLimitResetAt oa key)"

definition getRateLimitRemainingForKey :: "gtime \<Rightarrow> account option \<Rightarrow> string \<Rightarrow> duration" where
  "getRateLimitRemainingForKey now oa key =
     (case modelRateLimitResetAt oa key of
        None \<Rightarrow> 0
      | Some resetAt \<Rightarrow> (let remaining = time_sub resetAt now in if 0 < remaining then remaining else 0))"

definition resolveFinalAntigravityModelKey ::
    "nat \<times> nat \<Rightarrow> bool option \<Rightarrow> account option \<Rightarrow> string \<Rightarrow> string" where
  "resolveFinalAntigravityModelKey ad thinking oa requestedModel =
     (let modelKey = mapAntigravityModel ad oa requestedModel in
      if modelKey = [] then []
      else (case thinking of
              None \<Rightarrow> modelKey
            | Some enabled \<Rightarrow> applyThinkingModelSuffix modelKey enabled))"

text \<open>The key that both readers below compute in the same way.\<close>

definition limit_key :: "nat \<times> nat \<Rightarrow> bool option \<Rightarrow> account \<Rightarrow> string \<Rightarrow> string" where
  "limit_key ad thinking a requestedModel =
     trim_space (if acc_Platform a = PlatformAntigravity
                 then resolveFinalAntigravityModelKey ad thinking (Some a) requestedModel
                 else GetMappedModel ad a requestedModel)"

definition isModelRateLimitedWithContext ::
    "nat \<times> nat \<Rightarrow> gtime \<Rightarrow> bool option \<Rightarrow> account option \<Rightarrow> string \<Rightarrow> bool" where
  "isModelRateLimitedWithContext ad now thinking oa requestedModel =
     (case oa of
        None \<Rightarrow> False
      | Some a \<Rightarrow>
          (let modelKey = limit_key ad thinking a requestedModel in
           if modelKey = [] then False else isRateLimitActiveForKey now oa modelKey))"

definition GetModelRateLimitRemainingTimeWithContext ::
    "nat \<times> nat \<Rightarrow> gtime \<Rightarrow> bool option \<Rightarrow> account option \<Rightarrow> string \<Rightarrow> duration" where
  "GetModelRateLimitRemainingTimeWithContext ad now thinking oa requestedModel =
     (case oa of
        None \<Rightarrow> 0
      | Some a \<Rightarrow>
          (let modelKey = limit_key ad thinking a requestedModel in
           if modelKey = [] then 0 else getRateLimitRemainingForKey now oa modelKey))"

definition GetModelRateLimitRemainingTime ::
    "nat \<times> nat \<Rightarrow> gtime \<Rightarrow> account option \<Rightarrow> string \<Rightarrow> duration" where
  "GetModelRateLimitRemainingTime ad now oa requestedModel =
     GetModelRateLimitRemainingTimeWithContext ad now None oa requestedModel"

section \<open>Scheduling for a model\<close>

definition normalizeAntigravityModelName :: "string \<Rightarrow> string" where
  "normalizeAntigravityModelName model = trim_prefix (to_lower (trim_space model)) ''models/''"

definition resolveAntigravityModelKey :: "string \<Rightarrow> string" where
  "resolveAntigravityModelKey requestedModel = normalizeAntigravityModelName requestedModel"

definition isCreditsExhausted :: "gtime \<Rightarrow> account option \<Rightarrow> bool" where
  "isCreditsExhausted now oa = (oa \<noteq> None \<and> isRateLimitActiveForKey now oa creditsExhaustedKey)"

definition IsSchedulableForModelWithContext ::
    "tzdb \<Rightarrow> nat \<times> nat \<Rightarrow> gtime \<Rightarrow> bool option \<Rightarrow> account option \<Rightarrow> string \<Rightarrow> bool" where
  "IsSchedulableForModelWithContext tz ad now thinking oa requestedModel =
     (case oa of
        None \<Rightarrow> False
      | Some a \<Rightarrow>
          if \<not> IsSchedulable tz now a then False
          else if isModelRateLimitedWithContext ad now thinking oa requestedModel
          then acc_Platform a = PlatformAntigravity \<and> IsOveragesEnabled a \<and> \<not> isCreditsExhausted now oa
          else True)"

definition IsSchedulableForModel ::
    "tzdb \<Rightarrow> nat \<times> nat \<Rightarrow> gtime \<Rightarrow> account option \<Rightarrow> string \<Rightarrow> bool" where
  "IsSchedulableForModel tz ad now oa requestedModel =
     IsSchedulableForModelWithContext tz ad now None oa requestedModel"

definition GetRateLimitRemainingTimeWithContext ::
    "nat \<times> nat \<Rightarrow> gtime \<Rightarrow> bool option \<Rightarrow> account option \<Rightarrow> string \<Rightarrow> duration" where
  "GetRateLimitRemainingTimeWithContext ad now thinking oa requestedModel =
     (case oa of
        None \<Rightarrow> 0
      | Some _ \<Rightarrow> GetModelRateLimitRemainingTimeWithContext ad now thinking oa requestedModel)"

section \<open>The forwarded model\<close>

definition claudeMessagesDispatchFamily :: "string \<Rightarrow> string" where
  "claudeMessagesDispatchFamily model =
     (let normalized = to_lower (trim_space model) in
      if \<not> has_prefix normalized ''claude'' then []
      else if str_contains normalized ''opus'' then ''opus''
      else if str_contains normalized ''sonnet'' then ''sonnet''
      else if str_contains normalized ''haiku'' then ''haiku''
      else [])"

definition resolveOpenAIForwardModel :: "nat \<times> nat \<Rightarrow> account option \<Rightarrow> string \<Rightarrow> string \<Rightarrow> string" where
  "resolveOpenAIForwardModel ad oa requestedModel defaultMappedModel =
     (case oa of
        None \<Rightarrow>
          if defaultMappedModel \<noteq> [] \<and> claudeMessagesDispatchFamily requestedModel \<noteq> []
          then defaultMappedModel else requestedModel
      | Some a \<Rightarrow>
          (case ResolveMappedModel ad a requestedModel of (mappedModel, matched) \<Rightarrow>
             if \<not> matched \<and> defaultMappedModel \<noteq> [] \<and> claudeMessagesDispatchFamily requestedModel \<noteq> []
             then defaultMappedModel else mappedModel))"

definition resolveOpenAICompactForwardModel :: "account option \<Rightarrow> string \<Rightarrow> string" where
  "resolveOpenAICompactForwardModel oa model =
     (let trimmedModel = trim_space model in
      if trimmedModel = [] \<or> oa = None then trimmedModel
      else (case ResolveCompactMappedModel oa trimmedModel of (mappedModel, matched) \<Rightarrow>
              if \<not> matched then trimmedModel
              else if trim_space mappedModel \<noteq> [] then trim_space mappedModel
              else trimmedModel))"

section \<open>Facts\<close>

lemma remaining_pos_iff: "0 < getRateLimitRemainingForKey now oa key \<longleftrightarrow> isRateLimitActiveForKey now oa key"
  by (auto simp: getRateLimitRemainingForKey_def isRateLimitActiveForKey_def time_sub_pos_iff Let_def
      split: option.splits)

lemma remaining_nonneg: "0 \<le> getRateLimitRemainingForKey now oa key"
  by (auto simp: getRateLimitRemainingForKey_def Let_def split: option.splits)

lemma remaining_enough:
  assumes "getRateLimitRemainingForKey now oa key < i64_max"
  shows "isRateLimitActiveForKey later oa key \<Longrightarrow> later < now + getRateLimitRemainingForKey now oa key"
  using assms
  by (auto simp: getRateLimitRemainingForKey_def isRateLimitActiveForKey_def time_sub_def i64_min_def
      i64_max_def Let_def split: option.splits if_splits)

lemma resolveOpenAICompactForwardModel_unmapped:
  "\<not> snd (ResolveCompactMappedModel oa (trim_space m)) \<Longrightarrow> resolveOpenAICompactForwardModel oa m = trim_space m"
  by (auto simp: resolveOpenAICompactForwardModel_def Let_def split: prod.splits)

section \<open>Properties\<close>

text \<open>The remaining time of a model limit and the limit itself agree: the time is positive
  exactly while the model is limited, and waiting for it (unless it is the largest representable
  duration) ends the limit.\<close>

theorem model_limit_remaining:
  "(0 < GetModelRateLimitRemainingTimeWithContext ad now th oa r
      \<longleftrightarrow> isModelRateLimitedWithContext ad now th oa r)
   \<and> (let w = GetModelRateLimitRemainingTimeWithContext ad now th oa r in
        \<not> (w < i64_max \<and> now + w \<le> later \<and> isModelRateLimitedWithContext ad later th oa r))"
  using remaining_enough [of now oa _ later] remaining_pos_iff
  by (auto simp: GetModelRateLimitRemainingTimeWithContext_def isModelRateLimitedWithContext_def Let_def
      not_le split: option.splits)

text \<open>An account that is schedulable for a model is schedulable, and the model is not limited
  unless the account is an Antigravity account that pays for overages and has credits left.\<close>

theorem IsSchedulableForModel_safe:
  assumes "IsSchedulableForModelWithContext tz ad now th (Some a) r"
  shows "Account_IsActive a \<and> acc_Schedulable a
    \<and> \<not> IsRateLimited now a \<and> \<not> IsOverloaded now a
    \<and> (IsAPIKeyOrBedrock a \<longrightarrow> \<not> IsQuotaExceeded tz now a)
    \<and> (0 < GetRateLimitRemainingTimeWithContext ad now th (Some a) r \<longrightarrow>
         acc_Platform a = PlatformAntigravity \<and> IsOveragesEnabled a
         \<and> getRateLimitRemainingForKey now (Some a) creditsExhaustedKey = 0)"
proof -
  have lim: "isModelRateLimitedWithContext ad now th (Some a) r \<longleftrightarrow>
      0 < GetRateLimitRemainingTimeWithContext ad now th (Some a) r"
    by (simp add: isModelRateLimitedWithContext_def GetRateLimitRemainingTimeWithContext_def
        GetModelRateLimitRemainingTimeWithContext_def Let_def remaining_pos_iff)
  have cred: "\<not> isCreditsExhausted now (Some a) \<longleftrightarrow>
      getRateLimitRemainingForKey now (Some a) creditsExhaustedKey = 0"
    using remaining_pos_iff [of now "Some a" creditsExhaustedKey]
      remaining_nonneg [of now "Some a" creditsExhaustedKey]
    unfolding isCreditsExhausted_def by auto
  have "IsSchedulable tz now a" using assms by (simp add: IsSchedulableForModelWithContext_def split: if_splits)
  then show ?thesis
    using assms
    by (auto simp: IsSchedulableForModelWithContext_def lim cred IsSchedulable_def IsRateLimited_def
        IsOverloaded_def split: if_splits)
qed

lemma IsSchedulableForModel_safe_witness: "\<not> IsRateLimited 0 blank_account"
proof -
  have q: "\<not> IsQuotaExceeded (\<lambda>_. None) 0 blank_account"
    by (simp add: IsQuotaExceeded_iff GetQuotaLimit_def GetQuotaDailyLimit_def GetQuotaWeeklyLimit_def
        getExtraFloat64_def blank_account_def mlookup_def)
  have "IsSchedulable (\<lambda>_. None) 0 blank_account"
    using q by (simp add: IsSchedulable_def) (simp add: blank_account_def Account_IsActive_def)
  then have "IsSchedulableForModelWithContext (\<lambda>_. None) (0, 0) 0 None (Some blank_account) ''m''"
    by (simp add: IsSchedulableForModelWithContext_def isModelRateLimitedWithContext_def
        isRateLimitActiveForKey_def modelRateLimitResetAt_def blank_account_def Let_def)
  then show ?thesis using IsSchedulableForModel_safe by blast
qed

text \<open>The fallback model of a group takes effect only for Claude family names that the account
  does not map: every other request is forwarded with the account's mapping or unchanged.\<close>

theorem resolveOpenAIForwardModel_cases:
  "resolveOpenAIForwardModel ad (Some a) r d =
     (if snd (ResolveMappedModel ad a r) then fst (ResolveMappedModel ad a r)
      else if d \<noteq> [] \<and> claudeMessagesDispatchFamily r \<in> {''opus'', ''sonnet'', ''haiku''} then d
      else r)"
proof -
  have "claudeMessagesDispatchFamily r \<noteq> [] \<longleftrightarrow> claudeMessagesDispatchFamily r \<in> {''opus'', ''sonnet'', ''haiku''}"
    by (simp add: claudeMessagesDispatchFamily_def Let_def)
  then show ?thesis
    using ResolveMappedModel_unmatched [of ad a r]
    by (cases "ResolveMappedModel ad a r") (auto simp: resolveOpenAIForwardModel_def)
qed

end
