(* ===== verification/GatewayGroup.thy ===== *)
theory GatewayGroup
  imports ModelLimit
begin

text \<open>
  Groups of accounts (\<open>service/group.go\<close>) and the dispatch of Claude requests to OpenAI models
  that a group configures (\<open>service/openai_messages_dispatch.go\<close>,
  \<open>domain/openai_messages_dispatch.go\<close>). Maps of a group are iterated by the code, so they are
  association lists whose order is the order of that iteration.
\<close>

section \<open>The entity\<close>

record dispatch_config =
  OpusMappedModel :: string
  SonnetMappedModel :: string
  HaikuMappedModel :: string
  ExactModelMappings :: "string gomap option"

record group =
  grp_ID :: int
  grp_Platform :: string
  grp_Status :: string
  grp_Hydrated :: bool
  grp_SubscriptionType :: string
  grp_DailyLimitUSD :: "float64 option"
  grp_WeeklyLimitUSD :: "float64 option"
  grp_MonthlyLimitUSD :: "float64 option"
  grp_ImagePrice1K :: "float64 option"
  grp_ImagePrice2K :: "float64 option"
  grp_ImagePrice4K :: "float64 option"
  grp_ClaudeCodeOnly :: bool
  grp_FallbackGroupID :: "int option"
  grp_RequirePrivacySet :: bool
  grp_ModelRouting :: "int list gomap"
  grp_ModelRoutingEnabled :: bool
  grp_AllowMessagesDispatch :: bool
  grp_DefaultMappedModel :: string
  grp_MessagesDispatchModelConfig :: dispatch_config

definition no_dispatch :: dispatch_config where
  "no_dispatch = \<lparr>OpusMappedModel = [], SonnetMappedModel = [], HaikuMappedModel = [],
     ExactModelMappings = None\<rparr>"

definition blank_group :: group where
  "blank_group =
     \<lparr>grp_ID = 1, grp_Platform = PlatformAnthropic, grp_Status = StatusActive, grp_Hydrated = True,
      grp_SubscriptionType = ''subscription'', grp_DailyLimitUSD = None, grp_WeeklyLimitUSD = None,
      grp_MonthlyLimitUSD = None, grp_ImagePrice1K = None, grp_ImagePrice2K = None,
      grp_ImagePrice4K = None, grp_ClaudeCodeOnly = False, grp_FallbackGroupID = None,
      grp_RequirePrivacySet = False, grp_ModelRouting = [], grp_ModelRoutingEnabled = False,
      grp_AllowMessagesDispatch = False, grp_DefaultMappedModel = [],
      grp_MessagesDispatchModelConfig = no_dispatch\<rparr>"

section \<open>Simple predicates\<close>

abbreviation SubscriptionTypeSubscription :: string where
  "SubscriptionTypeSubscription \<equiv> ''subscription''"

definition Group_IsActive :: "group \<Rightarrow> bool" where
  "Group_IsActive g \<longleftrightarrow> grp_Status g = StatusActive"

definition IsSubscriptionType :: "group \<Rightarrow> bool" where
  "IsSubscriptionType g \<longleftrightarrow> grp_SubscriptionType g = SubscriptionTypeSubscription"

definition positive_limit :: "float64 option \<Rightarrow> bool" where
  "positive_limit l = (case l of None \<Rightarrow> False | Some x \<Rightarrow> f_lt f_zero x)"

definition HasDailyLimit :: "group \<Rightarrow> bool" where
  "HasDailyLimit g = positive_limit (grp_DailyLimitUSD g)"

definition HasWeeklyLimit :: "group \<Rightarrow> bool" where
  "HasWeeklyLimit g = positive_limit (grp_WeeklyLimitUSD g)"

definition HasMonthlyLimit :: "group \<Rightarrow> bool" where
  "HasMonthlyLimit g = positive_limit (grp_MonthlyLimitUSD g)"

definition GetImagePrice :: "group \<Rightarrow> string \<Rightarrow> float64 option" where
  "GetImagePrice g imageSize =
     (if imageSize = ''1K'' then grp_ImagePrice1K g
      else if imageSize = ''2K'' then grp_ImagePrice2K g
      else if imageSize = ''4K'' then grp_ImagePrice4K g
      else grp_ImagePrice2K g)"

definition IsGroupContextValid :: "group option \<Rightarrow> bool" where
  "IsGroupContextValid og =
     (case og of
        None \<Rightarrow> False
      | Some g \<Rightarrow>
          if grp_ID g \<le> 0 then False
          else if \<not> grp_Hydrated g then False
          else if grp_Platform g = [] \<or> grp_Status g = [] then False
          else True)"

section \<open>Model routing\<close>

definition matchModelPattern :: "string \<Rightarrow> string \<Rightarrow> bool" where
  "matchModelPattern pattern model =
     (if pattern = model then True
      else if has_suffix pattern ''*'' then has_prefix model (trim_suffix pattern ''*'')
      else False)"

text \<open>The preferred accounts of a model; no entry and an empty list are both the empty list.\<close>

definition GetRoutingAccountIDs :: "group \<Rightarrow> string \<Rightarrow> int list" where
  "GetRoutingAccountIDs g requestedModel =
     (if \<not> grp_ModelRoutingEnabled g \<or> grp_ModelRouting g = [] \<or> requestedModel = [] then []
      else (case map_of (grp_ModelRouting g) requestedModel of
              Some (i # ids) \<Rightarrow> i # ids
            | _ \<Rightarrow>
                (case find (\<lambda>(pattern, ids). matchModelPattern pattern requestedModel \<and> ids \<noteq> [])
                        (grp_ModelRouting g) of
                   Some (pattern, ids) \<Rightarrow> ids
                 | None \<Rightarrow> [])))"

section \<open>Dispatch of Claude requests\<close>

definition normalizeOpenAIMessagesDispatchMappedModel :: "string \<Rightarrow> string" where
  "normalizeOpenAIMessagesDispatchMappedModel model =
     trim_space (NormalizeOpenAICompatRequestedModel (trim_space model))"

text \<open>The entries are written in the order of the iteration, a later one over an earlier one
  with the same trimmed key.\<close>

definition normalize_exact :: "string gomap \<Rightarrow> string gomap" where
  "normalize_exact kv =
     foldl (\<lambda>out (k, v).
       (let requestedModel = trim_space k;
            mappedModel = normalizeOpenAIMessagesDispatchMappedModel v
        in if requestedModel = [] \<or> mappedModel = [] then out
           else map_put requestedModel mappedModel out)) [] kv"

definition normalizeOpenAIMessagesDispatchModelConfig :: "dispatch_config \<Rightarrow> dispatch_config" where
  "normalizeOpenAIMessagesDispatchModelConfig cfg =
     \<lparr>OpusMappedModel = normalizeOpenAIMessagesDispatchMappedModel (OpusMappedModel cfg),
      SonnetMappedModel = normalizeOpenAIMessagesDispatchMappedModel (SonnetMappedModel cfg),
      HaikuMappedModel = normalizeOpenAIMessagesDispatchMappedModel (HaikuMappedModel cfg),
      ExactModelMappings =
        (let m = normalize_exact (mentries (ExactModelMappings cfg)) in
         if m = [] then None else Some m)\<rparr>"

abbreviation defaultOpusModel :: string where "defaultOpusModel \<equiv> ''gpt-5.4''"
abbreviation defaultSonnetModel :: string where "defaultSonnetModel \<equiv> ''gpt-5.3-codex''"
abbreviation defaultHaikuModel :: string where "defaultHaikuModel \<equiv> ''gpt-5.4-mini''"

definition or_default :: "string \<Rightarrow> string \<Rightarrow> string" where
  "or_default configured dflt = (if trim_space configured \<noteq> [] then trim_space configured else dflt)"

definition ResolveMessagesDispatchModel :: "group option \<Rightarrow> string \<Rightarrow> string" where
  "ResolveMessagesDispatchModel og requestedModel0 =
     (case og of
        None \<Rightarrow> []
      | Some g \<Rightarrow>
          (let requestedModel = trim_space requestedModel0 in
           if requestedModel = [] then []
           else (let cfg = normalizeOpenAIMessagesDispatchModelConfig (grp_MessagesDispatchModelConfig g);
                     exact = trim_space (opt_default [] (mlookup (ExactModelMappings cfg) requestedModel));
                     family = claudeMessagesDispatchFamily requestedModel
                 in if exact \<noteq> [] then exact
                    else if family = ''opus'' then or_default (OpusMappedModel cfg) defaultOpusModel
                    else if family = ''sonnet'' then or_default (SonnetMappedModel cfg) defaultSonnetModel
                    else if family = ''haiku'' then or_default (HaikuMappedModel cfg) defaultHaikuModel
                    else [])))"

definition sanitizeGroupMessagesDispatchFields :: "group \<Rightarrow> group" where
  "sanitizeGroupMessagesDispatchFields g =
     (if grp_Platform g = PlatformOpenAI then g
      else g\<lparr>grp_AllowMessagesDispatch := False, grp_DefaultMappedModel := [],
             grp_MessagesDispatchModelConfig := no_dispatch\<rparr>)"

section \<open>Facts\<close>

lemma find_Some_set: "find P xs = Some x \<Longrightarrow> x \<in> set xs \<and> P x"
  by (auto simp: find_Some_iff)

text \<open>An entry whose pattern matches and whose list is not empty.\<close>

definition routes_to :: "group \<Rightarrow> string \<Rightarrow> int list \<Rightarrow> bool" where
  "routes_to g model ids \<longleftrightarrow>
     ids \<noteq> [] \<and> (\<exists>p. (p, ids) \<in> set (grp_ModelRouting g) \<and> matchModelPattern p model)"

lemma routing_sound: "GetRoutingAccountIDs g m \<noteq> [] \<Longrightarrow> routes_to g m (GetRoutingAccountIDs g m)"
proof -
  have exact: "routes_to g m (i # ids)" if "map_of (grp_ModelRouting g) m = Some (i # ids)" for i ids
    using map_of_SomeD [OF that] by (auto simp: routes_to_def matchModelPattern_def)
  show "GetRoutingAccountIDs g m \<noteq> [] \<Longrightarrow> ?thesis"
    using exact
    by (auto simp: GetRoutingAccountIDs_def routes_to_def dest!: find_Some_set
        split: if_splits option.splits list.splits)
qed

lemma routing_complete:
  assumes "grp_ModelRoutingEnabled g" "m \<noteq> []" "GetRoutingAccountIDs g m = []"
  shows "\<not> routes_to g m ids"
proof
  assume "routes_to g m ids"
  then obtain p where "(p, ids) \<in> set (grp_ModelRouting g)" "matchModelPattern p m" "ids \<noteq> []"
    by (auto simp: routes_to_def)
  then have "find (\<lambda>(pattern, ids). matchModelPattern pattern m \<and> ids \<noteq> []) (grp_ModelRouting g) \<noteq> None"
    by (auto simp: find_None_iff)
  with assms show False
    by (auto simp: GetRoutingAccountIDs_def dest!: find_Some_set split: if_splits option.splits list.splits)
qed

section \<open>Properties\<close>

text \<open>Routing of an enabled group is sound and complete whatever the order in which the routing
  table is iterated: the accounts come from an entry with a matching pattern and a non-empty
  list, and the result is empty only when there is no such entry. If all matching entries agree
  the result is theirs.\<close>

theorem GetRoutingAccountIDs_sound_complete:
  assumes "grp_ModelRoutingEnabled g" and "m \<noteq> []"
  shows "(GetRoutingAccountIDs g m = [] \<longleftrightarrow> \<not> (\<exists>ids. routes_to g m ids))
    \<and> (\<forall>ids. (\<forall>ids'. routes_to g m ids' \<longleftrightarrow> ids' = ids) \<longrightarrow> GetRoutingAccountIDs g m = ids)"
  using routing_sound [of g m] routing_complete [OF assms] by metis

lemma GetRoutingAccountIDs_sound_complete_witness:
  "GetRoutingAccountIDs (blank_group\<lparr>grp_ModelRoutingEnabled := True, grp_ModelRouting := []\<rparr>) ''m'' = []"
  using GetRoutingAccountIDs_sound_complete
    [of "blank_group\<lparr>grp_ModelRoutingEnabled := True, grp_ModelRouting := []\<rparr>" "''m''"]
  by (simp add: routes_to_def)

text \<open>When two wildcard entries match, the accounts that a request is routed to depend on the
  iteration order of the routing map, which Go leaves open: the same group, with its map iterated
  in two orders, routes the same model to different accounts.\<close>

theorem GetRoutingAccountIDs_order_dependent:
  "\<exists>g g' m. same_map (grp_ModelRouting g) (grp_ModelRouting g')
     \<and> g' = g\<lparr>grp_ModelRouting := grp_ModelRouting g'\<rparr>
     \<and> GetRoutingAccountIDs g m \<noteq> GetRoutingAccountIDs g' m"
proof -
  let ?g = "\<lambda>r. blank_group\<lparr>grp_ModelRoutingEnabled := True, grp_ModelRouting := r\<rparr>"
  let ?a = "(''cl*'', [1::int])" and ?b = "(''c*'', [2::int])"
  have match: "matchModelPattern ''cl*'' ''clx''" "matchModelPattern ''c*'' ''clx''" by code_simp+
  have a: "GetRoutingAccountIDs (?g [?a, ?b]) ''clx'' = [1]" "GetRoutingAccountIDs (?g [?b, ?a]) ''clx'' = [2]"
    by (simp_all add: GetRoutingAccountIDs_def match)
  have b: "same_map [?a, ?b] [?b, ?a]" by (simp add: same_map_def map_wf_def add_mset_commute)
  show ?thesis
    by (rule exI [of _ "?g [?a, ?b]"], rule exI [of _ "?g [?b, ?a]"], rule exI [of _ "''clx''"])
      (use a b in simp)
qed

text \<open>A Claude family name is always dispatched to a model, configured or default, and every
  other name is dispatched only by an exact entry of the group.\<close>

theorem ResolveMessagesDispatchModel_total:
  assumes "trim_space r \<noteq> []"
  shows "ResolveMessagesDispatchModel (Some g) r = [] \<longleftrightarrow>
     claudeMessagesDispatchFamily (trim_space r) = []
     \<and> trim_space (opt_default [] (mlookup (ExactModelMappings
          (normalizeOpenAIMessagesDispatchModelConfig (grp_MessagesDispatchModelConfig g))) (trim_space r))) = []"
proof -
  let ?f = "claudeMessagesDispatchFamily (trim_space r)"
  have f: "?f = [] \<or> ?f = ''opus'' \<or> ?f = ''sonnet'' \<or> ?f = ''haiku''"
    by (simp add: claudeMessagesDispatchFamily_def Let_def)
  have d: "or_default c d = [] \<longleftrightarrow> d = [] \<and> trim_space c = []" for c d
    by (simp add: or_default_def)
  show ?thesis
    using assms f unfolding ResolveMessagesDispatchModel_def Let_def
    by (elim disjE) (simp_all add: d)
qed

lemma ResolveMessagesDispatchModel_total_witness:
  "ResolveMessagesDispatchModel (Some blank_group) ''claude-opus-4'' \<noteq> []"
proof -
  have t: "trim_space ''claude-opus-4'' = ''claude-opus-4''" by code_simp
  have f: "claudeMessagesDispatchFamily ''claude-opus-4'' = ''opus''" by code_simp
  show ?thesis
    using ResolveMessagesDispatchModel_total [of "''claude-opus-4''" blank_group] by (simp add: t f)
qed

end
