(* ===== verification/Entitlements.thy ===== *)
theory Entitlements
  imports GatewayGroup
begin

text \<open>
  What a caller may use: users (\<open>service/user.go\<close>), API keys with their quota and rate windows
  (\<open>service/api_key.go\<close>), subscriptions (\<open>service/user_subscription.go\<close>), promotion and redeem
  codes (\<open>service/promo_code.go\<close>, \<open>service/redeem_code.go\<close>), and the policies for refreshing
  tokens (\<open>service/refresh_policy.go\<close>). Every reader of the clock takes the instant \<open>now\<close>.
\<close>

section \<open>Users\<close>

record user =
  usr_ID :: int
  usr_Role :: string
  usr_Status :: string
  usr_AllowedGroups :: "int list"

definition IsAdmin :: "user \<Rightarrow> bool" where
  "IsAdmin u \<longleftrightarrow> usr_Role u = ''admin''"

definition User_IsActive :: "user \<Rightarrow> bool" where
  "User_IsActive u \<longleftrightarrow> usr_Status u = StatusActive"

definition CanBindGroup :: "user \<Rightarrow> int \<Rightarrow> bool \<Rightarrow> bool" where
  "CanBindGroup u groupID isExclusive =
     (if \<not> isExclusive then True else list_ex (\<lambda>i. i = groupID) (usr_AllowedGroups u))"

section \<open>API keys\<close>

record api_key =
  key_Status :: string
  key_Quota :: float64
  key_QuotaUsed :: float64
  key_ExpiresAt :: "gtime option"
  key_RateLimit5h :: float64
  key_RateLimit1d :: float64
  key_RateLimit7d :: float64
  key_Usage5h :: float64
  key_Usage1d :: float64
  key_Usage7d :: float64
  key_Window5hStart :: "gtime option"
  key_Window1dStart :: "gtime option"
  key_Window7dStart :: "gtime option"

definition RateLimitWindow5h :: duration where "RateLimitWindow5h = 5 * hour"
definition RateLimitWindow1d :: duration where "RateLimitWindow1d = 24 * hour"
definition RateLimitWindow7d :: duration where "RateLimitWindow7d = 7 * 24 * hour"

definition IsWindowExpired :: "gtime \<Rightarrow> gtime option \<Rightarrow> duration \<Rightarrow> bool" where
  "IsWindowExpired now windowStart dur =
     (case windowStart of None \<Rightarrow> True | Some s \<Rightarrow> dur \<le> time_sub now s)"

definition APIKey_IsActive :: "api_key \<Rightarrow> bool" where
  "APIKey_IsActive k \<longleftrightarrow> key_Status k = StatusActive"

definition HasRateLimits :: "api_key \<Rightarrow> bool" where
  "HasRateLimits k \<longleftrightarrow>
     f_lt f_zero (key_RateLimit5h k) \<or> f_lt f_zero (key_RateLimit1d k) \<or> f_lt f_zero (key_RateLimit7d k)"

definition APIKey_IsExpired :: "gtime \<Rightarrow> api_key \<Rightarrow> bool" where
  "APIKey_IsExpired now k = (case key_ExpiresAt k of None \<Rightarrow> False | Some e \<Rightarrow> e < now)"

definition IsQuotaExhausted :: "api_key \<Rightarrow> bool" where
  "IsQuotaExhausted k = (if f_le (key_Quota k) f_zero then False else f_le (key_Quota k) (key_QuotaUsed k))"

definition GetQuotaRemaining :: "api_key \<Rightarrow> float64" where
  "GetQuotaRemaining k =
     (if f_le (key_Quota k) f_zero then f_of_int (- 1)
      else (let remaining = f_sub (key_Quota k) (key_QuotaUsed k) in
            if f_lt remaining f_zero then f_zero else remaining))"

text \<open>\<open>d.Hours()\<close>: the whole hours and the rest are converted separately.\<close>

definition dur_hours :: "duration \<Rightarrow> float64" where
  "dur_hours d = f_add (f_of_int (go_div d hour)) (f_div (f_of_int (go_mod d hour)) (f_of_int hour))"

definition GetDaysUntilExpiry :: "gtime \<Rightarrow> api_key \<Rightarrow> int" where
  "GetDaysUntilExpiry now k =
     (case key_ExpiresAt k of
        None \<Rightarrow> - 1
      | Some e \<Rightarrow>
          (let d = time_sub e now in
           if d < 0 then 0 else f_to_int (f_div (dur_hours d) (f_of_int 24))))"

definition EffectiveUsage5h :: "gtime \<Rightarrow> api_key \<Rightarrow> float64" where
  "EffectiveUsage5h now k =
     (if IsWindowExpired now (key_Window5hStart k) RateLimitWindow5h then f_zero else key_Usage5h k)"

definition EffectiveUsage1d :: "gtime \<Rightarrow> api_key \<Rightarrow> float64" where
  "EffectiveUsage1d now k =
     (if IsWindowExpired now (key_Window1dStart k) RateLimitWindow1d then f_zero else key_Usage1d k)"

definition EffectiveUsage7d :: "gtime \<Rightarrow> api_key \<Rightarrow> float64" where
  "EffectiveUsage7d now k =
     (if IsWindowExpired now (key_Window7dStart k) RateLimitWindow7d then f_zero else key_Usage7d k)"

section \<open>Subscriptions\<close>

record user_subscription =
  sub_ID :: int
  sub_UserID :: int
  sub_GroupID :: int
  sub_StartsAt :: gtime
  sub_ExpiresAt :: gtime
  sub_Status :: string
  sub_DailyWindowStart :: "gtime option"
  sub_WeeklyWindowStart :: "gtime option"
  sub_MonthlyWindowStart :: "gtime option"
  sub_DailyUsageUSD :: float64
  sub_WeeklyUsageUSD :: float64
  sub_MonthlyUsageUSD :: float64
  sub_AssignedBy :: "int option"
  sub_AssignedAt :: gtime
  sub_Notes :: string

abbreviation SubscriptionStatusActive :: string where "SubscriptionStatusActive \<equiv> ''active''"
abbreviation SubscriptionStatusExpired :: string where "SubscriptionStatusExpired \<equiv> ''expired''"
abbreviation SubscriptionStatusSuspended :: string where "SubscriptionStatusSuspended \<equiv> ''suspended''"

definition Sub_IsActive :: "gtime \<Rightarrow> user_subscription \<Rightarrow> bool" where
  "Sub_IsActive now s \<longleftrightarrow> sub_Status s = SubscriptionStatusActive \<and> now < sub_ExpiresAt s"

definition Sub_IsExpired :: "gtime \<Rightarrow> user_subscription \<Rightarrow> bool" where
  "Sub_IsExpired now s \<longleftrightarrow> sub_ExpiresAt s < now"

definition DaysRemaining :: "gtime \<Rightarrow> user_subscription \<Rightarrow> int" where
  "DaysRemaining now s =
     (if Sub_IsExpired now s then 0
      else f_to_int (f_div (dur_hours (time_sub (sub_ExpiresAt s) now)) (f_of_int 24)))"

definition IsWindowActivated :: "user_subscription \<Rightarrow> bool" where
  "IsWindowActivated s \<longleftrightarrow>
     sub_DailyWindowStart s \<noteq> None \<or> sub_WeeklyWindowStart s \<noteq> None \<or> sub_MonthlyWindowStart s \<noteq> None"

text \<open>\<open>loc\<close> is the location in which the start is shown.\<close>

definition HasOneTimeDailyQuota :: "location \<Rightarrow> user_subscription option \<Rightarrow> bool" where
  "HasOneTimeDailyQuota loc os =
     (case os of
        None \<Rightarrow> False
      | Some s \<Rightarrow>
          if is_zero_time (sub_StartsAt s) \<or> is_zero_time (sub_ExpiresAt s) then False
          else \<not> add_days loc (sub_StartsAt s) 1 < sub_ExpiresAt s)"

definition NeedsDailyResetAt :: "location \<Rightarrow> gtime \<Rightarrow> user_subscription \<Rightarrow> bool" where
  "NeedsDailyResetAt loc now s =
     (case sub_DailyWindowStart s of
        None \<Rightarrow> False
      | Some w \<Rightarrow> if HasOneTimeDailyQuota loc (Some s) then False else \<not> now < w + 24 * hour)"

definition NeedsDailyReset :: "location \<Rightarrow> gtime \<Rightarrow> user_subscription \<Rightarrow> bool" where
  "NeedsDailyReset loc now s = NeedsDailyResetAt loc now s"

definition NeedsWeeklyReset :: "gtime \<Rightarrow> user_subscription \<Rightarrow> bool" where
  "NeedsWeeklyReset now s =
     (case sub_WeeklyWindowStart s of None \<Rightarrow> False | Some w \<Rightarrow> 7 * 24 * hour \<le> time_sub now w)"

definition NeedsMonthlyReset :: "gtime \<Rightarrow> user_subscription \<Rightarrow> bool" where
  "NeedsMonthlyReset now s =
     (case sub_MonthlyWindowStart s of None \<Rightarrow> False | Some w \<Rightarrow> 30 * 24 * hour \<le> time_sub now w)"

definition DailyResetTime :: "location \<Rightarrow> user_subscription \<Rightarrow> gtime option" where
  "DailyResetTime loc s =
     (case sub_DailyWindowStart s of
        None \<Rightarrow> None
      | Some w \<Rightarrow>
          if HasOneTimeDailyQuota loc (Some s) then Some (sub_ExpiresAt s) else Some (w + 24 * hour))"

definition WeeklyResetTime :: "user_subscription \<Rightarrow> gtime option" where
  "WeeklyResetTime s = map_option (\<lambda>w. w + 7 * 24 * hour) (sub_WeeklyWindowStart s)"

definition MonthlyResetTime :: "user_subscription \<Rightarrow> gtime option" where
  "MonthlyResetTime s = map_option (\<lambda>w. w + 30 * 24 * hour) (sub_MonthlyWindowStart s)"

definition stays_below :: "float64 option \<Rightarrow> float64 \<Rightarrow> float64 \<Rightarrow> bool" where
  "stays_below limit usage additionalCost =
     (case limit of
        None \<Rightarrow> True
      | Some l \<Rightarrow> if \<not> f_lt f_zero l then True else f_le (f_add usage additionalCost) l)"

definition CheckDailyLimit :: "user_subscription \<Rightarrow> group \<Rightarrow> float64 \<Rightarrow> bool" where
  "CheckDailyLimit s g additionalCost = stays_below (grp_DailyLimitUSD g) (sub_DailyUsageUSD s) additionalCost"

definition CheckWeeklyLimit :: "user_subscription \<Rightarrow> group \<Rightarrow> float64 \<Rightarrow> bool" where
  "CheckWeeklyLimit s g additionalCost = stays_below (grp_WeeklyLimitUSD g) (sub_WeeklyUsageUSD s) additionalCost"

definition CheckMonthlyLimit :: "user_subscription \<Rightarrow> group \<Rightarrow> float64 \<Rightarrow> bool" where
  "CheckMonthlyLimit s g additionalCost = stays_below (grp_MonthlyLimitUSD g) (sub_MonthlyUsageUSD s) additionalCost"

definition CheckAllLimits :: "user_subscription \<Rightarrow> group \<Rightarrow> float64 \<Rightarrow> bool \<times> bool \<times> bool" where
  "CheckAllLimits s g additionalCost =
     (CheckDailyLimit s g additionalCost, CheckWeeklyLimit s g additionalCost,
      CheckMonthlyLimit s g additionalCost)"

section \<open>Promotion and redeem codes\<close>

record promo_code =
  pc_Status :: string
  pc_ExpiresAt :: "gtime option"
  pc_MaxUses :: int
  pc_UsedCount :: int

definition after_opt :: "gtime \<Rightarrow> gtime option \<Rightarrow> bool" where
  "after_opt now p = (case p of None \<Rightarrow> False | Some t \<Rightarrow> t < now)"

definition Promo_CanUse :: "gtime \<Rightarrow> promo_code \<Rightarrow> bool" where
  "Promo_CanUse now p =
     (if pc_Status p \<noteq> ''active'' then False
      else if after_opt now (pc_ExpiresAt p) then False
      else if 0 < pc_MaxUses p \<and> pc_MaxUses p \<le> pc_UsedCount p then False
      else True)"

definition Promo_IsExpired :: "gtime \<Rightarrow> promo_code \<Rightarrow> bool" where
  "Promo_IsExpired now p = after_opt now (pc_ExpiresAt p)"

record redeem_code =
  rc_Status :: string
  rc_ExpiresAt :: "gtime option"

abbreviation StatusUnused :: string where "StatusUnused \<equiv> ''unused''"
abbreviation StatusUsed :: string where "StatusUsed \<equiv> ''used''"
abbreviation StatusExpired :: string where "StatusExpired \<equiv> ''expired''"

definition Redeem_IsUsed :: "'a redeem_code_scheme \<Rightarrow> bool" where
  "Redeem_IsUsed r \<longleftrightarrow> rc_Status r = StatusUsed"

definition Redeem_IsExpiredAt :: "gtime \<Rightarrow> 'a redeem_code_scheme option \<Rightarrow> bool" where
  "Redeem_IsExpiredAt now orc =
     (case orc of
        None \<Rightarrow> False
      | Some r \<Rightarrow>
          if rc_Status r = StatusExpired then True
          else rc_Status r = StatusUnused
               \<and> (case rc_ExpiresAt r of None \<Rightarrow> False | Some e \<Rightarrow> \<not> now < e))"

definition Redeem_CanUse :: "gtime \<Rightarrow> 'a redeem_code_scheme \<Rightarrow> bool" where
  "Redeem_CanUse now r \<longleftrightarrow> rc_Status r = StatusUnused \<and> \<not> Redeem_IsExpiredAt now (Some r)"

section \<open>Token refresh policies\<close>

datatype ProviderRefreshErrorAction =
    ProviderRefreshErrorReturn
  | ProviderRefreshErrorUseExistingToken

datatype ProviderLockHeldAction =
    ProviderLockHeldUseExistingToken
  | ProviderLockHeldWaitForCache

record provider_refresh_policy =
  OnRefreshError :: ProviderRefreshErrorAction
  OnLockHeld :: ProviderLockHeldAction
  FailureTTL :: duration

definition ClaudeProviderRefreshPolicy :: provider_refresh_policy where
  "ClaudeProviderRefreshPolicy =
     \<lparr>OnRefreshError = ProviderRefreshErrorUseExistingToken, OnLockHeld = ProviderLockHeldWaitForCache,
      FailureTTL = minute\<rparr>"

definition OpenAIProviderRefreshPolicy :: provider_refresh_policy where
  "OpenAIProviderRefreshPolicy =
     \<lparr>OnRefreshError = ProviderRefreshErrorUseExistingToken, OnLockHeld = ProviderLockHeldWaitForCache,
      FailureTTL = minute\<rparr>"

definition GeminiProviderRefreshPolicy :: provider_refresh_policy where
  "GeminiProviderRefreshPolicy =
     \<lparr>OnRefreshError = ProviderRefreshErrorReturn, OnLockHeld = ProviderLockHeldUseExistingToken,
      FailureTTL = 0\<rparr>"

definition AntigravityProviderRefreshPolicy :: provider_refresh_policy where
  "AntigravityProviderRefreshPolicy =
     \<lparr>OnRefreshError = ProviderRefreshErrorReturn, OnLockHeld = ProviderLockHeldUseExistingToken,
      FailureTTL = 0\<rparr>"

datatype BackgroundSkipAction = BackgroundSkipAsSkipped | BackgroundSkipAsSuccess

record background_refresh_policy =
  bg_OnLockHeld :: BackgroundSkipAction
  bg_OnAlreadyRefresh :: BackgroundSkipAction

definition DefaultBackgroundRefreshPolicy :: background_refresh_policy where
  "DefaultBackgroundRefreshPolicy =
     \<lparr>bg_OnLockHeld = BackgroundSkipAsSkipped, bg_OnAlreadyRefresh = BackgroundSkipAsSkipped\<rparr>"

text \<open>\<open>True\<close> for the error that marks a skipped refresh, \<open>False\<close> for nil.\<close>

definition handleLockHeld :: "background_refresh_policy \<Rightarrow> bool" where
  "handleLockHeld p \<longleftrightarrow> bg_OnLockHeld p \<noteq> BackgroundSkipAsSuccess"

definition handleAlreadyRefreshed :: "background_refresh_policy \<Rightarrow> bool" where
  "handleAlreadyRefreshed p \<longleftrightarrow> bg_OnAlreadyRefresh p \<noteq> BackgroundSkipAsSuccess"

section \<open>Facts\<close>

lemma week_month_sub:
  "168 * hour \<le> time_sub t u \<longleftrightarrow> 168 * hour \<le> t - u"
  "720 * hour \<le> time_sub t u \<longleftrightarrow> 720 * hour \<le> t - u"
  by (rule time_sub_ge_iff; simp add: hour_def i64_min_def i64_max_def)+


end
