(* ===== verification/SubscriptionRepo.thy ===== *)
theory SubscriptionRepo
  imports Entitlements
begin

text \<open>
  The store of subscriptions (\<open>service/user_subscription_port.go\<close> is its interface,
  \<open>repository/user_subscription_repo.go\<close> the implementation). A table is the list of its rows
  that are not soft-deleted, with the next value of the ID sequence; a unique index keeps one
  row per user and group. The usage columns are PostgreSQL decimals: how they add is the
  parameter \<open>num_add\<close>, the value read back after adding. Failures of the database itself
  are not modelled.
\<close>

section \<open>Errors of the subscription component\<close>

datatype sub_error =
    ErrSubscriptionNotFound
  | ErrSubscriptionExpired
  | ErrSubscriptionSuspended
  | ErrSubscriptionAlreadyExists
  | ErrSubscriptionAssignConflict string
  | ErrGroupNotSubscriptionType
  | ErrGroupNotFound
  | ErrInvalidInput
  | ErrDailyLimitExceeded
  | ErrWeeklyLimitExceeded
  | ErrMonthlyLimitExceeded
  | ErrAdjustWouldExpire
  | ErrCannotShortenExpired

section \<open>The table\<close>

record sub_db =
  db_rows :: "user_subscription list"
  db_next :: int

definition same_owner :: "int \<Rightarrow> int \<Rightarrow> user_subscription \<Rightarrow> bool" where
  "same_owner userID groupID s \<longleftrightarrow> sub_UserID s = userID \<and> sub_GroupID s = groupID"

definition repo_GetByID :: "sub_db \<Rightarrow> int \<Rightarrow> user_subscription option" where
  "repo_GetByID db i = find (\<lambda>s. sub_ID s = i) (db_rows db)"

definition repo_GetByUserIDAndGroupID :: "sub_db \<Rightarrow> int \<Rightarrow> int \<Rightarrow> user_subscription option" where
  "repo_GetByUserIDAndGroupID db userID groupID = find (same_owner userID groupID) (db_rows db)"

definition repo_GetActiveByUserIDAndGroupID ::
    "gtime \<Rightarrow> sub_db \<Rightarrow> int \<Rightarrow> int \<Rightarrow> user_subscription option" where
  "repo_GetActiveByUserIDAndGroupID now db userID groupID =
     find (\<lambda>s. same_owner userID groupID s \<and> sub_Status s = SubscriptionStatusActive
               \<and> now < sub_ExpiresAt s) (db_rows db)"

definition repo_ExistsByUserIDAndGroupID :: "sub_db \<Rightarrow> int \<Rightarrow> int \<Rightarrow> bool" where
  "repo_ExistsByUserIDAndGroupID db userID groupID = list_ex (same_owner userID groupID) (db_rows db)"

text \<open>An insert sets the start, status and assignment time that the caller left empty and takes
  its ID from the sequence; the unique index refuses a second row of the same owner.\<close>

definition repo_Create :: "gtime \<Rightarrow> user_subscription \<Rightarrow> sub_db \<Rightarrow> sub_error + sub_db \<times> user_subscription" where
  "repo_Create now s db =
     (if repo_ExistsByUserIDAndGroupID db (sub_UserID s) (sub_GroupID s)
      then Inl ErrSubscriptionAlreadyExists
      else (let row = s\<lparr>sub_ID := db_next db,
                        sub_StartsAt := (if is_zero_time (sub_StartsAt s) then now else sub_StartsAt s),
                        sub_Status := (if sub_Status s = [] then SubscriptionStatusActive else sub_Status s),
                        sub_AssignedAt := (if is_zero_time (sub_AssignedAt s) then now else sub_AssignedAt s)\<rparr>
            in Inr (db\<lparr>db_rows := row # db_rows db, db_next := db_next db + 1\<rparr>, row)))"

text \<open>\<open>UpdateOneID(id)\<close> with the columns that \<open>f\<close> sets.\<close>

definition update_one :: "int \<Rightarrow> (user_subscription \<Rightarrow> user_subscription) \<Rightarrow> sub_db \<Rightarrow> sub_error + sub_db" where
  "update_one i f db =
     (if list_ex (\<lambda>s. sub_ID s = i) (db_rows db)
      then Inr (db\<lparr>db_rows := map (\<lambda>s. if sub_ID s = i then f s else s) (db_rows db)\<rparr>)
      else Inl ErrSubscriptionNotFound)"

text \<open>\<open>Update\<close> sets every column but leaves a window or an assigner alone when the given
  pointer is nil.\<close>

definition or_else :: "'a option \<Rightarrow> 'a option \<Rightarrow> 'a option" where
  "or_else x y = (case x of None \<Rightarrow> y | Some _ \<Rightarrow> x)"

definition overwrite :: "user_subscription \<Rightarrow> user_subscription \<Rightarrow> user_subscription" where
  "overwrite s old =
     s\<lparr>sub_DailyWindowStart := or_else (sub_DailyWindowStart s) (sub_DailyWindowStart old),
       sub_WeeklyWindowStart := or_else (sub_WeeklyWindowStart s) (sub_WeeklyWindowStart old),
       sub_MonthlyWindowStart := or_else (sub_MonthlyWindowStart s) (sub_MonthlyWindowStart old),
       sub_AssignedBy := or_else (sub_AssignedBy s) (sub_AssignedBy old)\<rparr>"

definition repo_Update :: "user_subscription \<Rightarrow> sub_db \<Rightarrow> sub_error + sub_db" where
  "repo_Update s = update_one (sub_ID s) (overwrite s)"

definition repo_ExtendExpiry :: "int \<Rightarrow> gtime \<Rightarrow> sub_db \<Rightarrow> sub_error + sub_db" where
  "repo_ExtendExpiry i newExpiresAt = update_one i (\<lambda>s. s\<lparr>sub_ExpiresAt := newExpiresAt\<rparr>)"

definition repo_UpdateStatus :: "int \<Rightarrow> string \<Rightarrow> sub_db \<Rightarrow> sub_error + sub_db" where
  "repo_UpdateStatus i status = update_one i (\<lambda>s. s\<lparr>sub_Status := status\<rparr>)"

definition repo_UpdateNotes :: "int \<Rightarrow> string \<Rightarrow> sub_db \<Rightarrow> sub_error + sub_db" where
  "repo_UpdateNotes i notes = update_one i (\<lambda>s. s\<lparr>sub_Notes := notes\<rparr>)"

definition activate_row :: "gtime \<Rightarrow> user_subscription \<Rightarrow> user_subscription" where
  "activate_row start s =
     s\<lparr>sub_DailyWindowStart := Some start, sub_WeeklyWindowStart := Some start,
       sub_MonthlyWindowStart := Some start\<rparr>"

definition reset_daily_row :: "gtime \<Rightarrow> user_subscription \<Rightarrow> user_subscription" where
  "reset_daily_row start s = s\<lparr>sub_DailyUsageUSD := f_zero, sub_DailyWindowStart := Some start\<rparr>"

definition reset_weekly_row :: "gtime \<Rightarrow> user_subscription \<Rightarrow> user_subscription" where
  "reset_weekly_row start s = s\<lparr>sub_WeeklyUsageUSD := f_zero, sub_WeeklyWindowStart := Some start\<rparr>"

definition reset_monthly_row :: "gtime \<Rightarrow> user_subscription \<Rightarrow> user_subscription" where
  "reset_monthly_row start s = s\<lparr>sub_MonthlyUsageUSD := f_zero, sub_MonthlyWindowStart := Some start\<rparr>"

definition repo_ActivateWindows :: "int \<Rightarrow> gtime \<Rightarrow> sub_db \<Rightarrow> sub_error + sub_db" where
  "repo_ActivateWindows i start = update_one i (activate_row start)"

definition repo_ResetDailyUsage :: "int \<Rightarrow> gtime \<Rightarrow> sub_db \<Rightarrow> sub_error + sub_db" where
  "repo_ResetDailyUsage i start = update_one i (reset_daily_row start)"

definition repo_ResetWeeklyUsage :: "int \<Rightarrow> gtime \<Rightarrow> sub_db \<Rightarrow> sub_error + sub_db" where
  "repo_ResetWeeklyUsage i start = update_one i (reset_weekly_row start)"

definition repo_ResetMonthlyUsage :: "int \<Rightarrow> gtime \<Rightarrow> sub_db \<Rightarrow> sub_error + sub_db" where
  "repo_ResetMonthlyUsage i start = update_one i (reset_monthly_row start)"

text \<open>The atomic increment joins the group, which must not be deleted (\<open>live\<close>).\<close>

definition add_usage :: "(float64 \<Rightarrow> float64 \<Rightarrow> float64) \<Rightarrow> float64 \<Rightarrow> user_subscription \<Rightarrow> user_subscription" where
  "add_usage num_add cost s =
     s\<lparr>sub_DailyUsageUSD := num_add (sub_DailyUsageUSD s) cost,
       sub_WeeklyUsageUSD := num_add (sub_WeeklyUsageUSD s) cost,
       sub_MonthlyUsageUSD := num_add (sub_MonthlyUsageUSD s) cost\<rparr>"

definition repo_IncrementUsage ::
    "(float64 \<Rightarrow> float64 \<Rightarrow> float64) \<Rightarrow> (int \<Rightarrow> bool) \<Rightarrow> int \<Rightarrow> float64 \<Rightarrow> sub_db \<Rightarrow> sub_error + sub_db" where
  "repo_IncrementUsage num_add live i cost db =
     (case repo_GetByID db i of
        None \<Rightarrow> Inl ErrSubscriptionNotFound
      | Some s \<Rightarrow>
          if live (sub_GroupID s) then update_one i (add_usage num_add cost) db
          else Inl ErrSubscriptionNotFound)"

text \<open>Deleting a missing row is not an error.\<close>

definition repo_Delete :: "int \<Rightarrow> sub_db \<Rightarrow> sub_db" where
  "repo_Delete i db = db\<lparr>db_rows := filter (\<lambda>s. sub_ID s \<noteq> i) (db_rows db)\<rparr>"

definition repo_BatchUpdateExpiredStatus :: "gtime \<Rightarrow> sub_db \<Rightarrow> sub_db \<times> nat" where
  "repo_BatchUpdateExpiredStatus now db =
     (let due = (\<lambda>s. sub_Status s = SubscriptionStatusActive \<and> sub_ExpiresAt s \<le> now) in
      (db\<lparr>db_rows := map (\<lambda>s. if due s then s\<lparr>sub_Status := SubscriptionStatusExpired\<rparr> else s)
                       (db_rows db)\<rparr>,
       length (filter due (db_rows db))))"

section \<open>The contract of the repository\<close>

text \<open>The keys that identify a row are not changed by an update.\<close>

definition keeps_keys :: "(user_subscription \<Rightarrow> user_subscription) \<Rightarrow> bool" where
  "keeps_keys f \<longleftrightarrow> (\<forall>s. sub_ID (f s) = sub_ID s \<and> sub_UserID (f s) = sub_UserID s
     \<and> sub_GroupID (f s) = sub_GroupID s)"

text \<open>What the service relies on: rows are found by ID and by owner, an owner has at most one
  row, an update changes the row it names and no other.\<close>

lemma option_eqI: "(\<And>r. x = Some r \<longleftrightarrow> y = Some r) \<Longrightarrow> x = y"
  by (cases x; cases y) auto

locale subscription_repository =
  fixes get_id :: "'db \<Rightarrow> int \<Rightarrow> user_subscription option"
    and get_owner :: "'db \<Rightarrow> int \<Rightarrow> int \<Rightarrow> user_subscription option"
    and create :: "gtime \<Rightarrow> user_subscription \<Rightarrow> 'db \<Rightarrow> sub_error + 'db \<times> user_subscription"
    and upd :: "int \<Rightarrow> (user_subscription \<Rightarrow> user_subscription) \<Rightarrow> 'db \<Rightarrow> sub_error + 'db"
    and del :: "int \<Rightarrow> 'db \<Rightarrow> 'db"
    and wf :: "'db \<Rightarrow> bool"
  assumes get_id_ID: "wf db \<Longrightarrow> get_id db i = Some s \<Longrightarrow> sub_ID s = i"
    and get_owner_iff: "wf db \<Longrightarrow> get_owner db u g = Some s \<longleftrightarrow>
          get_id db (sub_ID s) = Some s \<and> sub_UserID s = u \<and> sub_GroupID s = g"
    and upd_ok: "wf db \<Longrightarrow> keeps_keys f \<Longrightarrow> get_id db i = Some s \<Longrightarrow>
          \<exists>db'. upd i f db = Inr db' \<and> wf db' \<and> get_id db' = (get_id db)(i \<mapsto> f s)"
    and upd_missing: "wf db \<Longrightarrow> get_id db i = None \<Longrightarrow> upd i f db = Inl ErrSubscriptionNotFound"
    and create_ok: "wf db \<Longrightarrow> get_owner db (sub_UserID s) (sub_GroupID s) = None \<Longrightarrow>
          sub_Status s \<noteq> [] \<Longrightarrow> \<not> is_zero_time (sub_StartsAt s) \<Longrightarrow> \<not> is_zero_time (sub_AssignedAt s) \<Longrightarrow>
          \<exists>db' i. create now s db = Inr (db', s\<lparr>sub_ID := i\<rparr>) \<and> wf db' \<and> get_id db i = None
            \<and> get_id db' = (get_id db)(i \<mapsto> s\<lparr>sub_ID := i\<rparr>)"
    and del_get: "wf db \<Longrightarrow> wf (del i db) \<and> get_id (del i db) = (get_id db)(i := None)"
begin

lemma get_owner_ID: "wf db \<Longrightarrow> get_owner db u g = Some s \<Longrightarrow> get_id db (sub_ID s) = Some s"
  by (simp add: get_owner_iff)

text \<open>An update of the row of an owner is seen by that owner and by nobody else.\<close>

lemma get_owner_upd:
  assumes "wf db" "keeps_keys f" "get_id db i = Some s" "upd i f db = Inr db'"
  shows "get_owner db' u g = map_option (\<lambda>r. if sub_ID r = i then f r else r) (get_owner db u g)"
proof -
  obtain db'' where d: "upd i f db = Inr db''" "wf db''" "get_id db'' = (get_id db)(i \<mapsto> f s)"
    using upd_ok [OF assms(1-3)] by blast
  then have db': "wf db'" "get_id db' = (get_id db)(i \<mapsto> f s)" using assms(4) by simp_all
  have k: "sub_ID (f r) = sub_ID r" "sub_UserID (f r) = sub_UserID r" "sub_GroupID (f r) = sub_GroupID r" for r
    using assms(2) by (simp_all add: keeps_keys_def)
  have si: "sub_ID s = i" by (rule get_id_ID [OF assms(1,3)])
  have "get_owner db' u g = Some r' \<longleftrightarrow> (\<exists>r. get_owner db u g = Some r \<and> (if sub_ID r = i then f r else r) = r')"
    (is "?L \<longleftrightarrow> ?R") for r'
  proof
    assume ?L
    then have r': "get_id db' (sub_ID r') = Some r'" "sub_UserID r' = u" "sub_GroupID r' = g"
      by (simp_all add: get_owner_iff [OF db'(1)])
    show ?R
    proof (cases "sub_ID r' = i")
      case True
      then have "r' = f s" using r'(1) by (simp add: db'(2))
      then have "get_owner db u g = Some s" using r'(2,3) k assms(3) si by (simp add: get_owner_iff [OF assms(1)])
      then show ?thesis using \<open>r' = f s\<close> si by auto
    next
      case False
      then have "get_owner db u g = Some r'" using r' by (simp add: get_owner_iff [OF assms(1)] db'(2))
      then show ?thesis using False by auto
    qed
  next
    assume ?R
    then obtain r where r: "get_owner db u g = Some r" "(if sub_ID r = i then f r else r) = r'" by blast
    then have o: "get_id db (sub_ID r) = Some r" "sub_UserID r = u" "sub_GroupID r = g"
      by (simp_all add: get_owner_iff [OF assms(1)])
    have "sub_ID r = i \<Longrightarrow> r = s" using o(1) assms(3) by simp
    then show ?L using o r(2) k si by (auto simp: get_owner_iff [OF db'(1)] db'(2))
  qed
  then have "get_owner db' u g = Some r' \<longleftrightarrow>
      map_option (\<lambda>r. if sub_ID r = i then f r else r) (get_owner db u g) = Some r'" for r'
    by (simp only: map_option_eq_Some)
  then show ?thesis by (rule option_eqI)
qed

lemma get_owner_create:
  assumes "wf db" "get_owner db (sub_UserID s) (sub_GroupID s) = None"
    "sub_Status s \<noteq> []" "\<not> is_zero_time (sub_StartsAt s)" "\<not> is_zero_time (sub_AssignedAt s)"
    "create now s db = Inr (db', s')"
  shows "get_owner db' u g =
     (if sub_UserID s = u \<and> sub_GroupID s = g then Some s' else get_owner db u g)"
proof -
  obtain i where d: "s' = s\<lparr>sub_ID := i\<rparr>" "wf db'" "get_id db i = None"
    "get_id db' = (get_id db)(i \<mapsto> s')"
    using create_ok [OF assms(1-5), of now] assms(6) by auto
  have own: "sub_ID s' = i" "sub_UserID s' = sub_UserID s" "sub_GroupID s' = sub_GroupID s"
    by (simp_all add: d(1))
  have "get_owner db' u g = Some r \<longleftrightarrow>
      (if sub_UserID s = u \<and> sub_GroupID s = g then Some s' else get_owner db u g) = Some r" for r
  proof -
    have "get_owner db' u g = Some r \<longleftrightarrow>
        (if sub_ID r = i then r = s' else get_id db (sub_ID r) = Some r)
        \<and> sub_UserID r = u \<and> sub_GroupID r = g"
      by (auto simp: get_owner_iff [OF d(2)] d(4))
    also have "\<dots> \<longleftrightarrow> r = s' \<and> sub_UserID s = u \<and> sub_GroupID s = g
        \<or> get_owner db u g = Some r"
      using own d(3) by (auto simp: get_owner_iff [OF assms(1)] split: if_splits)
    finally show ?thesis using assms(2) by auto
  qed
  then show ?thesis by (rule option_eqI)
qed

end

section \<open>The table provides the contract\<close>

definition sub_db_wf :: "sub_db \<Rightarrow> bool" where
  "sub_db_wf db \<longleftrightarrow>
     distinct (map sub_ID (db_rows db))
     \<and> distinct (map (\<lambda>s. (sub_UserID s, sub_GroupID s)) (db_rows db))
     \<and> (\<forall>s\<in>set (db_rows db). sub_ID s < db_next db)"

lemma find_iff_unique:
  assumes "distinct (map k xs)" "\<And>x. P x \<longleftrightarrow> k x = v"
  shows "find P xs = Some x \<longleftrightarrow> x \<in> set xs \<and> P x"
  using assms(1) by (induction xs) (auto simp: assms(2))

lemma GetByID_iff: "sub_db_wf db \<Longrightarrow> repo_GetByID db i = Some s \<longleftrightarrow> s \<in> set (db_rows db) \<and> sub_ID s = i"
  unfolding repo_GetByID_def sub_db_wf_def by (subst find_iff_unique [where k = sub_ID and v = i]) auto

lemma GetByOwner_iff:
  "sub_db_wf db \<Longrightarrow> repo_GetByUserIDAndGroupID db u g = Some s \<longleftrightarrow> s \<in> set (db_rows db) \<and> same_owner u g s"
  unfolding repo_GetByUserIDAndGroupID_def sub_db_wf_def
  by (subst find_iff_unique [where k = "\<lambda>s. (sub_UserID s, sub_GroupID s)" and v = "(u, g)"])
    (auto simp: same_owner_def)

lemma find_map_keep: "(\<And>x. P (h x) = P x) \<Longrightarrow> find P (map h xs) = map_option h (find P xs)"
  by (induction xs) auto

lemma update_one_Inr:
  "update_one i f db = Inr db' \<longleftrightarrow> list_ex (\<lambda>s. sub_ID s = i) (db_rows db)
     \<and> db' = db\<lparr>db_rows := map (\<lambda>s. if sub_ID s = i then f s else s) (db_rows db)\<rparr>"
  by (auto simp: update_one_def)

lemma update_one_wf: "sub_db_wf db \<Longrightarrow> keeps_keys f \<Longrightarrow> update_one i f db = Inr db' \<Longrightarrow> sub_db_wf db'"
proof -
  assume a: "sub_db_wf db" "keeps_keys f" "update_one i f db = Inr db'"
  let ?h = "\<lambda>s. if sub_ID s = i then f s else s"
  have k: "sub_ID \<circ> ?h = sub_ID"
    "(\<lambda>s. (sub_UserID s, sub_GroupID s)) \<circ> ?h = (\<lambda>s. (sub_UserID s, sub_GroupID s))"
    using a(2) by (auto simp: keeps_keys_def)
  have r: "db_rows db' = map ?h (db_rows db)" "db_next db' = db_next db"
    using a(3) by (simp_all add: update_one_Inr)
  have "sub_ID s < db_next db" if "s \<in> ?h ` set (db_rows db)" for s
    using that a(1,2) by (auto simp: keeps_keys_def sub_db_wf_def)
  then show ?thesis using a(1) unfolding sub_db_wf_def r map_map k set_map by blast
qed

lemma GetByID_update_one:
  assumes "sub_db_wf db" "keeps_keys f" "repo_GetByID db i = Some s"
  shows "\<exists>db'. update_one i f db = Inr db' \<and> repo_GetByID db' = (repo_GetByID db)(i \<mapsto> f s)"
proof -
  let ?h = "\<lambda>s. if sub_ID s = i then f s else s"
  have s: "s \<in> set (db_rows db)" "sub_ID s = i" using assms(3) GetByID_iff [OF assms(1)] by auto
  then have "list_ex (\<lambda>s. sub_ID s = i) (db_rows db)" by (auto simp: list_ex_iff)
  then obtain db' where u: "update_one i f db = Inr db'" and r: "db_rows db' = map ?h (db_rows db)"
    by (simp add: update_one_def)
  have h: "sub_ID (?h x) = sub_ID x" for x using assms(2) by (simp add: keeps_keys_def)
  have g: "repo_GetByID db' j = map_option ?h (repo_GetByID db j)" for j
    unfolding repo_GetByID_def r by (rule find_map_keep) (simp only: h)
  have "repo_GetByID db' = (repo_GetByID db)(i \<mapsto> f s)"
  proof
    fix j
    have "sub_ID x = j" if "repo_GetByID db j = Some x" for x
      using that GetByID_iff [OF assms(1)] by blast
    then show "repo_GetByID db' j = ((repo_GetByID db)(i \<mapsto> f s)) j"
      using assms(3) s(2) by (cases "repo_GetByID db j"; cases "j = i") (simp_all add: g)
  qed
  with u show ?thesis by blast
qed

lemma GetByID_Delete: "repo_GetByID (repo_Delete i db) = (repo_GetByID db)(i := None)"
proof
  fix j
  have "find (\<lambda>s. sub_ID s = j) (filter (\<lambda>s. sub_ID s \<noteq> i) xs)
      = (if j = i then None else find (\<lambda>s. sub_ID s = j) xs)" for xs
    by (induction xs) auto
  from this [of "db_rows db"] show "repo_GetByID (repo_Delete i db) j = ((repo_GetByID db)(i := None)) j"
    by (simp add: repo_GetByID_def repo_Delete_def)
qed

interpretation sr: subscription_repository repo_GetByID repo_GetByUserIDAndGroupID repo_Create
  update_one repo_Delete sub_db_wf
proof
  fix db i s u g f now
  assume wf: "sub_db_wf db"
  show "repo_GetByID db i = Some s \<Longrightarrow> sub_ID s = i" by (simp add: GetByID_iff [OF wf])
  show "repo_GetByUserIDAndGroupID db u g = Some s \<longleftrightarrow>
      repo_GetByID db (sub_ID s) = Some s \<and> sub_UserID s = u \<and> sub_GroupID s = g"
    by (simp add: GetByID_iff [OF wf] GetByOwner_iff [OF wf] same_owner_def)
  show "keeps_keys f \<Longrightarrow> repo_GetByID db i = Some s \<Longrightarrow>
      \<exists>db'. update_one i f db = Inr db' \<and> sub_db_wf db' \<and> repo_GetByID db' = (repo_GetByID db)(i \<mapsto> f s)"
    using GetByID_update_one [OF wf] update_one_wf [OF wf] by blast
  show "repo_GetByID db i = None \<Longrightarrow> update_one i f db = Inl ErrSubscriptionNotFound"
    by (auto simp: update_one_def repo_GetByID_def find_None_iff list_ex_iff)
  show "sub_db_wf (repo_Delete i db) \<and> repo_GetByID (repo_Delete i db) = (repo_GetByID db)(i := None)"
    using wf by (intro conjI GetByID_Delete) (auto simp: sub_db_wf_def repo_Delete_def distinct_map_filter)
  assume new: "repo_GetByUserIDAndGroupID db (sub_UserID s) (sub_GroupID s) = None"
    and s: "sub_Status s \<noteq> []" "\<not> is_zero_time (sub_StartsAt s)" "\<not> is_zero_time (sub_AssignedAt s)"
  have no: "\<forall>r\<in>set (db_rows db). \<not> same_owner (sub_UserID s) (sub_GroupID s) r"
    using new by (auto simp: repo_GetByUserIDAndGroupID_def find_None_iff)
  let ?i = "db_next db"
  let ?r = "s\<lparr>sub_ID := ?i\<rparr>"
  let ?db' = "db\<lparr>db_rows := ?r # db_rows db, db_next := ?i + 1\<rparr>"
  have c: "repo_Create now s db = Inr (?db', ?r)"
    using no s by (auto simp: repo_Create_def repo_ExistsByUserIDAndGroupID_def list_ex_iff Let_def)
  have wf': "sub_db_wf ?db'"
    using wf no by (force simp: sub_db_wf_def same_owner_def)
  have none: "repo_GetByID db ?i = None"
    using wf by (auto simp: repo_GetByID_def find_None_iff sub_db_wf_def)
  have "repo_GetByID ?db' = (repo_GetByID db)(?i \<mapsto> ?r)"
    by (auto simp: repo_GetByID_def fun_eq_iff)
  with c wf' none show "\<exists>db' i. repo_Create now s db = Inr (db', s\<lparr>sub_ID := i\<rparr>) \<and> sub_db_wf db'
      \<and> repo_GetByID db i = None \<and> repo_GetByID db' = (repo_GetByID db)(i \<mapsto> s\<lparr>sub_ID := i\<rparr>)"
    by blast
qed

end
