(* ===== verification/SubscriptionService.thy ===== *)
theory SubscriptionService
  imports SubscriptionRepo
begin

text \<open>
  The subscription service (\<open>service/subscription_service.go\<close>) over the table of
  \<open>SubscriptionRepo\<close>: assigning, renewing, extending and revoking a subscription, its usage
  windows and their maintenance, and the limit check on the request path. The groups are a
  parameter, a lookup by ID; \<open>loc\<close> is the location of the clock. The caches of the service
  hold copies of rows and are not modelled, nor are failures of the database.
\<close>

section \<open>Inputs and terms\<close>

record assign_input =
  in_UserID :: int
  in_GroupID :: int
  in_ValidityDays :: int
  in_AssignedBy :: int
  in_Notes :: string

definition MaxExpiresAt :: gtime where
  "MaxExpiresAt = 4102444799 * nanos"

lemma MaxExpiresAt_civil: "MaxExpiresAt = (days_from_civil 2099 12 31 * 86400 + 86399) * nanos"
  by (simp add: MaxExpiresAt_def days_from_civil_def Let_def)

definition MaxValidityDays :: int where
  "MaxValidityDays = 36500"

definition normalizeAssignValidityDays :: "int \<Rightarrow> int" where
  "normalizeAssignValidityDays days =
     (let d = (if days \<le> 0 then 30 else days) in if MaxValidityDays < d then MaxValidityDays else d)"

definition capped :: "gtime \<Rightarrow> gtime" where
  "capped t = (if MaxExpiresAt < t then MaxExpiresAt else t)"

definition startOfDay :: "location \<Rightarrow> gtime \<Rightarrow> gtime" where
  "startOfDay loc t = date_at loc (local_day loc t) 0"

definition appendSubscriptionNotes :: "string \<Rightarrow> string \<Rightarrow> string" where
  "appendSubscriptionNotes existingNotes newNotes =
     (if newNotes = [] then existingNotes
      else if existingNotes = [] then newNotes
      else existingNotes @ [CHR 0x0A] @ newNotes)"

section \<open>Creating and renewing\<close>

definition new_subscription :: "location \<Rightarrow> gtime \<Rightarrow> assign_input \<Rightarrow> user_subscription" where
  "new_subscription loc now input =
     \<lparr>sub_ID = 0, sub_UserID = in_UserID input, sub_GroupID = in_GroupID input, sub_StartsAt = now,
      sub_ExpiresAt = capped (add_days loc now (normalizeAssignValidityDays (in_ValidityDays input))),
      sub_Status = SubscriptionStatusActive, sub_DailyWindowStart = None,
      sub_WeeklyWindowStart = None, sub_MonthlyWindowStart = None, sub_DailyUsageUSD = f_zero,
      sub_WeeklyUsageUSD = f_zero, sub_MonthlyUsageUSD = f_zero,
      sub_AssignedBy = (if 0 < in_AssignedBy input then Some (in_AssignedBy input) else None),
      sub_AssignedAt = now, sub_Notes = in_Notes input\<rparr>"

definition createSubscription ::
    "location \<Rightarrow> gtime \<Rightarrow> assign_input \<Rightarrow> sub_db \<Rightarrow> sub_error + sub_db \<times> user_subscription" where
  "createSubscription loc now input db =
     and_then (repo_Create now (new_subscription loc now input) db) (\<lambda>(db', s).
       and_then (of_option ErrSubscriptionNotFound (repo_GetByID db' (sub_ID s))) (\<lambda>row.
         Inr (db', row)))"

definition renewedSubscriptionTerm ::
    "location \<Rightarrow> user_subscription \<Rightarrow> string \<Rightarrow> gtime \<Rightarrow> gtime \<Rightarrow> user_subscription" where
  "renewedSubscriptionTerm loc existing notes startsAt expiresAt =
     (let windowStart = startOfDay loc startsAt in
      existing\<lparr>sub_StartsAt := startsAt, sub_ExpiresAt := expiresAt,
               sub_Status := SubscriptionStatusActive,
               sub_DailyWindowStart := Some windowStart, sub_WeeklyWindowStart := Some windowStart,
               sub_MonthlyWindowStart := Some windowStart,
               sub_DailyUsageUSD := f_zero, sub_WeeklyUsageUSD := f_zero, sub_MonthlyUsageUSD := f_zero,
               sub_Notes := appendSubscriptionNotes (sub_Notes existing) notes\<rparr>)"

text \<open>The body runs in a transaction: an error leaves the table as it was.\<close>

definition updateExistingSubscriptionTerm ::
    "location \<Rightarrow> user_subscription \<Rightarrow> string \<Rightarrow> gtime \<Rightarrow> gtime \<Rightarrow> bool \<Rightarrow> sub_db \<Rightarrow> sub_error + sub_db" where
  "updateExistingSubscriptionTerm loc existing notes startsAt newExpiresAt isExpired db =
     (if isExpired
      then repo_Update (renewedSubscriptionTerm loc existing notes startsAt newExpiresAt) db
      else and_then (repo_ExtendExpiry (sub_ID existing) newExpiresAt db) (\<lambda>db1.
           and_then (if sub_Status existing \<noteq> SubscriptionStatusActive
                     then repo_UpdateStatus (sub_ID existing) SubscriptionStatusActive db1
                     else Inr db1) (\<lambda>db2.
             if notes \<noteq> []
             then repo_UpdateNotes (sub_ID existing) (appendSubscriptionNotes (sub_Notes existing) notes) db2
             else Inr db2)))"

definition AssignOrExtendSubscription ::
    "(int \<Rightarrow> group option) \<Rightarrow> location \<Rightarrow> gtime \<Rightarrow> assign_input \<Rightarrow> sub_db
     \<Rightarrow> sub_error + sub_db \<times> user_subscription \<times> bool" where
  "AssignOrExtendSubscription grps loc now input db =
     (case grps (in_GroupID input) of
        None \<Rightarrow> Inl ErrGroupNotFound
      | Some g \<Rightarrow>
          if \<not> IsSubscriptionType g then Inl ErrGroupNotSubscriptionType
          else (let validityDays = normalizeAssignValidityDays (in_ValidityDays input) in
                case repo_GetByUserIDAndGroupID db (in_UserID input) (in_GroupID input) of
                  Some existing \<Rightarrow>
                    (let isExpired = (\<not> now < sub_ExpiresAt existing);
                         newExpiresAt = capped (if \<not> isExpired
                                                then add_days loc (sub_ExpiresAt existing) validityDays
                                                else add_days loc now validityDays)
                     in and_then (updateExistingSubscriptionTerm loc existing (in_Notes input) now
                                    newExpiresAt isExpired db) (\<lambda>db'.
                        and_then (of_option ErrSubscriptionNotFound (repo_GetByID db' (sub_ID existing)))
                          (\<lambda>s. Inr (db', s, True))))
                | None \<Rightarrow>
                    and_then (createSubscription loc now input db) (\<lambda>(db', s). Inr (db', s, False))))"

section \<open>Assigning once\<close>

definition detectAssignSemanticConflict ::
    "location \<Rightarrow> user_subscription option \<Rightarrow> assign_input option \<Rightarrow> string option" where
  "detectAssignSemanticConflict loc oexisting oinput =
     (case (oexisting, oinput) of
        (Some existing, Some input) \<Rightarrow>
          if \<not> is_zero_time (sub_StartsAt existing)
             \<and> sub_ExpiresAt existing \<noteq>
                 capped (add_days loc (sub_StartsAt existing)
                          (normalizeAssignValidityDays (in_ValidityDays input)))
          then Some ''validity_days_mismatch''
          else if trim_space (sub_Notes existing) \<noteq> trim_space (in_Notes input)
          then Some ''notes_mismatch''
          else None
      | _ \<Rightarrow> None)"

definition assignSubscriptionWithReuse ::
    "(int \<Rightarrow> group option) \<Rightarrow> location \<Rightarrow> gtime \<Rightarrow> assign_input \<Rightarrow> sub_db
     \<Rightarrow> sub_error + sub_db \<times> user_subscription \<times> bool" where
  "assignSubscriptionWithReuse grps loc now input db =
     (case grps (in_GroupID input) of
        None \<Rightarrow> Inl ErrGroupNotFound
      | Some g \<Rightarrow>
          if \<not> IsSubscriptionType g then Inl ErrGroupNotSubscriptionType
          else if repo_ExistsByUserIDAndGroupID db (in_UserID input) (in_GroupID input)
          then and_then (of_option ErrSubscriptionNotFound
                   (repo_GetByUserIDAndGroupID db (in_UserID input) (in_GroupID input))) (\<lambda>s.
               case detectAssignSemanticConflict loc (Some s) (Some input) of
                 Some reason \<Rightarrow> Inl (ErrSubscriptionAssignConflict reason)
               | None \<Rightarrow> Inr (db, s, True))
          else and_then (createSubscription loc now input db) (\<lambda>(db', s). Inr (db', s, False)))"

definition AssignSubscription ::
    "(int \<Rightarrow> group option) \<Rightarrow> location \<Rightarrow> gtime \<Rightarrow> assign_input \<Rightarrow> sub_db
     \<Rightarrow> sub_error + sub_db \<times> user_subscription" where
  "AssignSubscription grps loc now input db =
     and_then (assignSubscriptionWithReuse grps loc now input db) (\<lambda>(db', s, reused). Inr (db', s))"

text \<open>The bulk operation goes through the users in order; a failure does not stop it. The
  statuses are recorded per user, a later entry over an earlier one.\<close>

record bulk_result =
  SuccessCount :: int
  CreatedCount :: int
  ReusedCount :: int
  FailedCount :: int
  bulk_Subscriptions :: "user_subscription list"
  bulk_Errors :: "(int \<times> sub_error) list"
  bulk_Statuses :: "(int \<times> string) list"

definition empty_bulk :: bulk_result where
  "empty_bulk = \<lparr>SuccessCount = 0, CreatedCount = 0, ReusedCount = 0, FailedCount = 0,
     bulk_Subscriptions = [], bulk_Errors = [], bulk_Statuses = []\<rparr>"

definition bulk_step ::
    "(int \<Rightarrow> group option) \<Rightarrow> location \<Rightarrow> gtime \<Rightarrow> assign_input \<Rightarrow> sub_db \<times> bulk_result \<Rightarrow> int
     \<Rightarrow> sub_db \<times> bulk_result" where
  "bulk_step grps loc now input st userID =
     (case assignSubscriptionWithReuse grps loc now (input\<lparr>in_UserID := userID\<rparr>) (fst st) of
        Inl e \<Rightarrow>
          (fst st, (snd st)\<lparr>FailedCount := FailedCount (snd st) + 1,
                     bulk_Errors := bulk_Errors (snd st) @ [(userID, e)],
                     bulk_Statuses := (userID, ''failed'') # bulk_Statuses (snd st)\<rparr>)
      | Inr (db', s, reused) \<Rightarrow>
          (db', (snd st)\<lparr>SuccessCount := SuccessCount (snd st) + 1,
                  bulk_Subscriptions := bulk_Subscriptions (snd st) @ [s],
                  ReusedCount := (if reused then ReusedCount (snd st) + 1 else ReusedCount (snd st)),
                  CreatedCount := (if reused then CreatedCount (snd st) else CreatedCount (snd st) + 1),
                  bulk_Statuses := (userID, if reused then ''reused'' else ''created'')
                                     # bulk_Statuses (snd st)\<rparr>))"

definition BulkAssignSubscription ::
    "(int \<Rightarrow> group option) \<Rightarrow> location \<Rightarrow> gtime \<Rightarrow> int list \<Rightarrow> assign_input \<Rightarrow> sub_db
     \<Rightarrow> sub_db \<times> bulk_result" where
  "BulkAssignSubscription grps loc now userIDs input db =
     foldl (bulk_step grps loc now input) (db, empty_bulk) userIDs"

section \<open>Revoking and extending\<close>

definition RevokeSubscription :: "int \<Rightarrow> sub_db \<Rightarrow> sub_error + sub_db" where
  "RevokeSubscription subscriptionID db =
     (case repo_GetByID db subscriptionID of
        None \<Rightarrow> Inl ErrSubscriptionNotFound
      | Some _ \<Rightarrow> Inr (repo_Delete subscriptionID db))"

definition ExtendSubscription ::
    "location \<Rightarrow> gtime \<Rightarrow> int \<Rightarrow> int \<Rightarrow> sub_db \<Rightarrow> sub_error + sub_db \<times> user_subscription" where
  "ExtendSubscription loc now subscriptionID days0 db =
     (case repo_GetByID db subscriptionID of
        None \<Rightarrow> Inl ErrSubscriptionNotFound
      | Some s \<Rightarrow>
          (let d1 = (if MaxValidityDays < days0 then MaxValidityDays else days0);
               days = (if d1 < - MaxValidityDays then - MaxValidityDays else d1);
               isExpired = (\<not> now < sub_ExpiresAt s)
           in if isExpired \<and> days < 0 then Inl ErrCannotShortenExpired
              else (let newExpiresAt = capped (if isExpired then add_days loc now days
                                               else add_days loc (sub_ExpiresAt s) days)
                    in if \<not> now < newExpiresAt then Inl ErrAdjustWouldExpire
                       else and_then (repo_ExtendExpiry subscriptionID newExpiresAt db) (\<lambda>db1.
                            and_then (if sub_Status s = SubscriptionStatusExpired
                                      then repo_UpdateStatus subscriptionID SubscriptionStatusActive db1
                                      else Inr db1) (\<lambda>db2.
                            and_then (of_option ErrSubscriptionNotFound (repo_GetByID db2 subscriptionID))
                              (\<lambda>row. Inr (db2, row)))))))"

section \<open>Usage windows\<close>

definition CheckAndActivateWindow ::
    "location \<Rightarrow> gtime \<Rightarrow> user_subscription \<Rightarrow> sub_db \<Rightarrow> sub_error + sub_db" where
  "CheckAndActivateWindow loc now s db =
     (if IsWindowActivated s then Inr db
      else repo_ActivateWindows (sub_ID s) (startOfDay loc now) db)"

definition AdminResetQuota ::
    "location \<Rightarrow> gtime \<Rightarrow> int \<Rightarrow> bool \<Rightarrow> bool \<Rightarrow> bool \<Rightarrow> sub_db \<Rightarrow> sub_error + sub_db \<times> user_subscription" where
  "AdminResetQuota loc now subscriptionID resetDaily resetWeekly resetMonthly db =
     (if \<not> resetDaily \<and> \<not> resetWeekly \<and> \<not> resetMonthly then Inl ErrInvalidInput
      else and_then (of_option ErrSubscriptionNotFound (repo_GetByID db subscriptionID)) (\<lambda>s.
        (let windowStart = startOfDay loc now in
         and_then (if resetDaily then repo_ResetDailyUsage (sub_ID s) windowStart db else Inr db) (\<lambda>db1.
         and_then (if resetWeekly then repo_ResetWeeklyUsage (sub_ID s) windowStart db1 else Inr db1) (\<lambda>db2.
         and_then (if resetMonthly then repo_ResetMonthlyUsage (sub_ID s) windowStart db2 else Inr db2) (\<lambda>db3.
         and_then (of_option ErrSubscriptionNotFound (repo_GetByID db3 subscriptionID)) (\<lambda>row.
           Inr (db3, row))))))))"

text \<open>One window of \<open>CheckAndResetWindows\<close>: the row in the table and the copy in memory are
  reset together; after an error nothing more is done. The state is the table, the copy and
  the error.\<close>

type_synonym maintenance = "sub_db \<times> user_subscription \<times> sub_error option"

definition reset_window ::
    "(user_subscription \<Rightarrow> bool) \<Rightarrow> (user_subscription \<Rightarrow> user_subscription) \<Rightarrow> maintenance \<Rightarrow> maintenance" where
  "reset_window needed f st =
     (case st of (db, s, err) \<Rightarrow>
        if err \<noteq> None \<or> \<not> needed s then st
        else (case update_one (sub_ID s) f db of
                Inl e \<Rightarrow> (db, s, Some e)
              | Inr db' \<Rightarrow> (db', f s, None)))"

definition CheckAndResetWindows :: "location \<Rightarrow> gtime \<Rightarrow> user_subscription \<Rightarrow> sub_db \<Rightarrow> maintenance" where
  "CheckAndResetWindows loc now s db =
     (let windowStart = startOfDay loc now in
      reset_window (NeedsMonthlyReset now) (reset_monthly_row windowStart)
        (reset_window (NeedsWeeklyReset now) (reset_weekly_row windowStart)
          (reset_window (NeedsDailyReset loc now) (reset_daily_row windowStart) (db, s, None))))"

definition doWindowMaintenance :: "location \<Rightarrow> gtime \<Rightarrow> user_subscription \<Rightarrow> sub_db \<Rightarrow> sub_db" where
  "doWindowMaintenance loc now s db =
     (let db1 = (if \<not> IsWindowActivated s
                 then (case CheckAndActivateWindow loc now s db of Inl _ \<Rightarrow> db | Inr db' \<Rightarrow> db')
                 else db)
      in fst (CheckAndResetWindows loc now s db1))"

definition RecordUsage ::
    "(float64 \<Rightarrow> float64 \<Rightarrow> float64) \<Rightarrow> (int \<Rightarrow> bool) \<Rightarrow> int \<Rightarrow> float64 \<Rightarrow> sub_db \<Rightarrow> sub_error + sub_db" where
  "RecordUsage num_add live subscriptionID costUSD db =
     repo_IncrementUsage num_add live subscriptionID costUSD db"

section \<open>Checks\<close>

definition CheckUsageLimits :: "user_subscription \<Rightarrow> group \<Rightarrow> float64 \<Rightarrow> sub_error option" where
  "CheckUsageLimits s g additionalCost =
     (if \<not> CheckDailyLimit s g additionalCost then Some ErrDailyLimitExceeded
      else if \<not> CheckWeeklyLimit s g additionalCost then Some ErrWeeklyLimitExceeded
      else if \<not> CheckMonthlyLimit s g additionalCost then Some ErrMonthlyLimitExceeded
      else None)"

text \<open>The usage of expired windows is corrected in memory; the result is the corrected copy,
  whether maintenance is needed, and the error.\<close>

definition corrected :: "location \<Rightarrow> gtime \<Rightarrow> user_subscription \<Rightarrow> user_subscription" where
  "corrected loc now s =
     s\<lparr>sub_DailyUsageUSD := (if NeedsDailyReset loc now s then f_zero else sub_DailyUsageUSD s),
       sub_WeeklyUsageUSD := (if NeedsWeeklyReset now s then f_zero else sub_WeeklyUsageUSD s),
       sub_MonthlyUsageUSD := (if NeedsMonthlyReset now s then f_zero else sub_MonthlyUsageUSD s)\<rparr>"

definition ValidateAndCheckLimits ::
    "location \<Rightarrow> gtime \<Rightarrow> user_subscription \<Rightarrow> group \<Rightarrow> user_subscription \<times> bool \<times> sub_error option" where
  "ValidateAndCheckLimits loc now s g =
     (if sub_Status s = SubscriptionStatusExpired then (s, False, Some ErrSubscriptionExpired)
      else if sub_Status s = SubscriptionStatusSuspended then (s, False, Some ErrSubscriptionSuspended)
      else if Sub_IsExpired now s then (s, False, Some ErrSubscriptionExpired)
      else (let s' = corrected loc now s;
                needsMaintenance = (NeedsDailyReset loc now s \<or> NeedsWeeklyReset now s
                                    \<or> NeedsMonthlyReset now s \<or> \<not> IsWindowActivated s)
            in (s', needsMaintenance, CheckUsageLimits s' g f_zero)))"

definition ValidateSubscription ::
    "gtime \<Rightarrow> user_subscription \<Rightarrow> sub_db \<Rightarrow> sub_db \<times> sub_error option" where
  "ValidateSubscription now s db =
     (if sub_Status s = SubscriptionStatusExpired then (db, Some ErrSubscriptionExpired)
      else if sub_Status s = SubscriptionStatusSuspended then (db, Some ErrSubscriptionSuspended)
      else if Sub_IsExpired now s
      then ((case repo_UpdateStatus (sub_ID s) SubscriptionStatusExpired db of Inl _ \<Rightarrow> db | Inr db' \<Rightarrow> db'),
            Some ErrSubscriptionExpired)
      else (db, None))"

section \<open>Views\<close>

definition normalizeExpiredWindow :: "location \<Rightarrow> gtime \<Rightarrow> user_subscription \<Rightarrow> user_subscription" where
  "normalizeExpiredWindow loc now s =
     (let s1 = (if NeedsDailyReset loc now s
                then s\<lparr>sub_DailyWindowStart := None, sub_DailyUsageUSD := f_zero\<rparr> else s);
          s2 = (if NeedsWeeklyReset now s1
                then s1\<lparr>sub_WeeklyWindowStart := None, sub_WeeklyUsageUSD := f_zero\<rparr> else s1)
      in if NeedsMonthlyReset now s2
         then s2\<lparr>sub_MonthlyWindowStart := None, sub_MonthlyUsageUSD := f_zero\<rparr> else s2)"

definition normalizeExpiredWindows ::
    "location \<Rightarrow> gtime \<Rightarrow> user_subscription list \<Rightarrow> user_subscription list" where
  "normalizeExpiredWindows loc now subs = map (normalizeExpiredWindow loc now) subs"

definition normalizeSubscriptionStatus :: "gtime \<Rightarrow> user_subscription list \<Rightarrow> user_subscription list" where
  "normalizeSubscriptionStatus now subs =
     map (\<lambda>s. if sub_Status s = SubscriptionStatusActive \<and> \<not> now < sub_ExpiresAt s
              then s\<lparr>sub_Status := SubscriptionStatusExpired\<rparr> else s) subs"

record window_progress =
  LimitUSD :: float64
  UsedUSD :: float64
  RemainingUSD :: float64
  Percentage :: float64
  WindowStart :: gtime
  ResetsAt :: gtime
  ResetsInSeconds :: int

definition usage_progress :: "gtime \<Rightarrow> float64 \<Rightarrow> float64 \<Rightarrow> gtime \<Rightarrow> gtime \<Rightarrow> window_progress" where
  "usage_progress now limit used start resetsAt =
     (let remaining = f_sub limit used;
          percentage = f_mul (f_div used limit) (f_of_int 100);
          secs = f_to_int (dur_seconds (time_sub resetsAt now))
      in \<lparr>LimitUSD = limit, UsedUSD = used,
          RemainingUSD = (if f_lt remaining f_zero then f_zero else remaining),
          Percentage = (if f_lt (f_of_int 100) percentage then f_of_int 100 else percentage),
          WindowStart = start, ResetsAt = resetsAt,
          ResetsInSeconds = (if secs < 0 then 0 else secs)\<rparr>)"

text \<open>The three windows of \<open>calculateProgress\<close>: a window is shown when the group limits it and it
  has a start.\<close>

definition daily_progress :: "location \<Rightarrow> gtime \<Rightarrow> user_subscription \<Rightarrow> group \<Rightarrow> window_progress option" where
  "daily_progress loc now s g =
     (case (HasDailyLimit g, grp_DailyLimitUSD g, sub_DailyWindowStart s) of
        (True, Some limit, Some w) \<Rightarrow>
          Some (usage_progress now limit (sub_DailyUsageUSD s) w
                 (case DailyResetTime loc s of Some t \<Rightarrow> t | None \<Rightarrow> w + 24 * hour))
      | _ \<Rightarrow> None)"

definition weekly_progress :: "gtime \<Rightarrow> user_subscription \<Rightarrow> group \<Rightarrow> window_progress option" where
  "weekly_progress now s g =
     (case (HasWeeklyLimit g, grp_WeeklyLimitUSD g, sub_WeeklyWindowStart s) of
        (True, Some limit, Some w) \<Rightarrow>
          Some (usage_progress now limit (sub_WeeklyUsageUSD s) w (w + 7 * 24 * hour))
      | _ \<Rightarrow> None)"

definition monthly_progress :: "gtime \<Rightarrow> user_subscription \<Rightarrow> group \<Rightarrow> window_progress option" where
  "monthly_progress now s g =
     (case (HasMonthlyLimit g, grp_MonthlyLimitUSD g, sub_MonthlyWindowStart s) of
        (True, Some limit, Some w) \<Rightarrow>
          Some (usage_progress now limit (sub_MonthlyUsageUSD s) w (w + 30 * 24 * hour))
      | _ \<Rightarrow> None)"

definition calculateProgress ::
    "location \<Rightarrow> gtime \<Rightarrow> user_subscription \<Rightarrow> group
     \<Rightarrow> int \<times> window_progress option \<times> window_progress option \<times> window_progress option" where
  "calculateProgress loc now s g =
     (DaysRemaining now s, daily_progress loc now s g, weekly_progress now s g, monthly_progress now s g)"

end
