(* ===== verification/SubscriptionProps.thy ===== *)
theory SubscriptionProps
  imports SubscriptionService
begin

text \<open>
  What the subscription service guarantees. The facts about the table come from the contract of
  the repository (interpretation \<open>sr\<close>); time arithmetic is done in zones of constant offset
  where the length of a day matters.
\<close>

section \<open>Updates of one row\<close>

lemma keeps_keys_updates [simp, inv_intros]:
  "keeps_keys (\<lambda>s. s\<lparr>sub_ExpiresAt := e\<rparr>)"
  "keeps_keys (\<lambda>s. s\<lparr>sub_Status := st\<rparr>)"
  "keeps_keys (\<lambda>s. s\<lparr>sub_Notes := n\<rparr>)"
  "keeps_keys (activate_row w)" "keeps_keys (reset_daily_row w)"
  "keeps_keys (reset_weekly_row w)" "keeps_keys (reset_monthly_row w)"
  "keeps_keys (add_usage num_add c)"
  by (simp_all add: keeps_keys_def activate_row_def reset_daily_row_def reset_weekly_row_def
      reset_monthly_row_def add_usage_def)

lemmas update_ops = repo_ExtendExpiry_def repo_UpdateStatus_def repo_UpdateNotes_def
  repo_ActivateWindows_def repo_ResetDailyUsage_def repo_ResetWeeklyUsage_def
  repo_ResetMonthlyUsage_def

text \<open>\<open>holds db db' i r\<close>: the table is well formed, its row \<open>i\<close> is \<open>r\<close>, and the other rows are
  those of \<open>db\<close>.\<close>

definition holds :: "sub_db \<Rightarrow> sub_db \<Rightarrow> int \<Rightarrow> user_subscription \<Rightarrow> bool" where
  "holds db db' i r \<longleftrightarrow> sub_db_wf db' \<and> repo_GetByID db' = (repo_GetByID db)(i \<mapsto> r)"

lemma holds_refl: "sub_db_wf db \<Longrightarrow> repo_GetByID db i = Some r \<Longrightarrow> holds db db i r"
  by (auto simp: holds_def)

lemma holds_get: "holds db db' i r \<Longrightarrow> repo_GetByID db' i = Some r"
  by (simp add: holds_def)

lemma holds_update:
  assumes "holds db db1 i r" "keeps_keys f"
  shows "\<exists>db2. update_one i f db1 = Inr db2 \<and> holds db db2 i (f r)"
proof -
  have "sub_db_wf db1" "repo_GetByID db1 i = Some r" using assms(1) by (simp_all add: holds_def)
  from sr.upd_ok [OF this(1) assms(2) this(2)] show ?thesis
    using assms(1) by (auto simp: holds_def)
qed

lemma holds_owner:
  assumes "sub_db_wf db" "repo_GetByID db i = Some s" "holds db db' i r"
    "sub_ID r = i" "sub_UserID r = sub_UserID s" "sub_GroupID r = sub_GroupID s"
  shows "repo_GetByUserIDAndGroupID db' u g =
     (if sub_UserID s = u \<and> sub_GroupID s = g then Some r else repo_GetByUserIDAndGroupID db u g)"
proof (rule option_eqI)
  fix x
  have wf': "sub_db_wf db'" and get': "repo_GetByID db' = (repo_GetByID db)(i \<mapsto> r)"
    using assms(3) by (simp_all add: holds_def)
  have i: "sub_ID s = i" by (rule sr.get_id_ID [OF assms(1,2)])
  have own: "repo_GetByUserIDAndGroupID db (sub_UserID s) (sub_GroupID s) = Some s"
    using assms(2) i by (simp add: sr.get_owner_iff [OF assms(1)])
  have "x = s" if "repo_GetByID db (sub_ID x) = Some x" "sub_UserID x = sub_UserID s"
    "sub_GroupID x = sub_GroupID s"
  proof -
    have "repo_GetByUserIDAndGroupID db (sub_UserID s) (sub_GroupID s) = Some x"
      unfolding sr.get_owner_iff [OF assms(1)] using that by blast
    with own show "x = s" by simp
  qed
  note uniq = this
  have "repo_GetByUserIDAndGroupID db' u g = Some x \<longleftrightarrow>
      (if sub_ID x = i then r = x else repo_GetByID db (sub_ID x) = Some x)
      \<and> sub_UserID x = u \<and> sub_GroupID x = g"
    by (simp add: sr.get_owner_iff [OF wf'] get')
  also have "\<dots> \<longleftrightarrow> (if sub_UserID s = u \<and> sub_GroupID s = g then r = x
      else repo_GetByUserIDAndGroupID db u g = Some x)"
  proof (cases "sub_UserID s = u \<and> sub_GroupID s = g")
    case True
    then show ?thesis using assms(4-6) uniq i by metis
  next
    case False
    then show ?thesis
      using assms(2,4-6) sr.get_owner_iff [OF assms(1), of u g x] option.inject by metis
  qed
  finally show "repo_GetByUserIDAndGroupID db' u g = Some x \<longleftrightarrow>
      (if sub_UserID s = u \<and> sub_GroupID s = g then Some r else repo_GetByUserIDAndGroupID db u g) = Some x"
    by simp
qed

lemma Exists_iff:
  "repo_ExistsByUserIDAndGroupID db u g \<longleftrightarrow> repo_GetByUserIDAndGroupID db u g \<noteq> None"
  by (auto simp: repo_ExistsByUserIDAndGroupID_def repo_GetByUserIDAndGroupID_def find_None_iff list_ex_iff)

section \<open>Creating\<close>

lemma createSubscription_ok:
  assumes "sub_db_wf db" "repo_GetByUserIDAndGroupID db (in_UserID input) (in_GroupID input) = None"
    "zero_time < now"
  obtains db' i where
    "createSubscription loc now input db = Inr (db', (new_subscription loc now input)\<lparr>sub_ID := i\<rparr>)"
    "sub_db_wf db'" "repo_GetByID db i = None"
    "repo_GetByID db' = (repo_GetByID db)(i \<mapsto> (new_subscription loc now input)\<lparr>sub_ID := i\<rparr>)"
    "\<And>u g. repo_GetByUserIDAndGroupID db' u g =
      (if in_UserID input = u \<and> in_GroupID input = g
       then Some ((new_subscription loc now input)\<lparr>sub_ID := i\<rparr>)
       else repo_GetByUserIDAndGroupID db u g)"
proof -
  let ?s = "new_subscription loc now input"
  have s: "sub_Status ?s \<noteq> []" "\<not> is_zero_time (sub_StartsAt ?s)" "\<not> is_zero_time (sub_AssignedAt ?s)"
    using assms(3) by (simp_all add: new_subscription_def is_zero_time_def)
  have o: "sub_UserID ?s = in_UserID input" "sub_GroupID ?s = in_GroupID input"
    by (simp_all add: new_subscription_def)
  have none: "repo_GetByUserIDAndGroupID db (sub_UserID ?s) (sub_GroupID ?s) = None"
    using assms(2) by (simp add: o)
  obtain db' i where c: "repo_Create now ?s db = Inr (db', ?s\<lparr>sub_ID := i\<rparr>)" "sub_db_wf db'"
    "repo_GetByID db i = None" "repo_GetByID db' = (repo_GetByID db)(i \<mapsto> ?s\<lparr>sub_ID := i\<rparr>)"
    using sr.create_ok [OF assms(1) none s, of now] by auto
  show thesis
  proof (rule that [OF _ c(2-4)])
    show "createSubscription loc now input db = Inr (db', ?s\<lparr>sub_ID := i\<rparr>)"
      by (simp add: createSubscription_def c(1,4))
    show "repo_GetByUserIDAndGroupID db' u g = (if in_UserID input = u \<and> in_GroupID input = g
       then Some (?s\<lparr>sub_ID := i\<rparr>) else repo_GetByUserIDAndGroupID db u g)" for u g
      using sr.get_owner_create [OF assms(1) none s c(1), of u g] by (simp add: o)
  qed
qed

lemma normalizeAssignValidityDays_range: "1 \<le> normalizeAssignValidityDays d \<and> normalizeAssignValidityDays d \<le> 36500"
  by (simp add: normalizeAssignValidityDays_def MaxValidityDays_def Let_def)

lemma add_days_later: "1 \<le> n \<Longrightarrow> t < add_days (fixed_zone off) t n"
  by (simp add: add_days_fixed)

lemma capped_later: "now < MaxExpiresAt \<Longrightarrow> now < t \<Longrightarrow> now < capped t"
  by (simp add: capped_def)

lemma capped_le: "capped t \<le> MaxExpiresAt"
  by (simp add: capped_def)

section \<open>Windows\<close>

lemma startOfDay_fixed: "startOfDay (fixed_zone off) t = reset_point off 0 (local_day (fixed_zone off) t)"
  by (simp add: startOfDay_def date_at_fixed reset_point_def)

lemma startOfDay_bounds:
  "startOfDay (fixed_zone off) t \<le> t" "t < startOfDay (fixed_zone off) t + 24 * hour"
proof -
  have "reset_point off 24 d = reset_point off 0 d + 24 * hour" for d
    by (simp add: reset_point_hour [of off 24] hour_def)
  then show "startOfDay (fixed_zone off) t \<le> t" "t < startOfDay (fixed_zone off) t + 24 * hour"
    using local_day_bounds(1) [of off t] local_day_bounds(2) [of t off] by (simp_all add: startOfDay_fixed)
qed

text \<open>A window that starts at the beginning of the current day is not due.\<close>

lemma fresh_windows:
  assumes "startOfDay (fixed_zone off) now = w"
  shows "sub_DailyWindowStart s = Some w \<Longrightarrow> \<not> NeedsDailyReset (fixed_zone off) now s"
    and "sub_WeeklyWindowStart s = Some w \<Longrightarrow> \<not> NeedsWeeklyReset now s"
    and "sub_MonthlyWindowStart s = Some w \<Longrightarrow> \<not> NeedsMonthlyReset now s"
proof -
  have b: "now < w + 24 * hour" using startOfDay_bounds [where t = now and off = off] assms by simp
  have h: "0 < hour" by (simp add: hour_def)
  show "sub_DailyWindowStart s = Some w \<Longrightarrow> \<not> NeedsDailyReset (fixed_zone off) now s"
    using b by (simp add: NeedsDailyReset_def NeedsDailyResetAt_def)
  show "sub_WeeklyWindowStart s = Some w \<Longrightarrow> \<not> NeedsWeeklyReset now s"
    "sub_MonthlyWindowStart s = Some w \<Longrightarrow> \<not> NeedsMonthlyReset now s"
    using b h by (simp_all add: NeedsWeeklyReset_def NeedsMonthlyReset_def week_month_sub)
qed

text \<open>What one reset of a window does to the row and to the copy, which agree before and after.\<close>

lemma reset_window_step:
  assumes "holds db0 db i s" "keeps_keys f" "sub_ID s = i"
  shows "\<exists>db'. reset_window needed f (db, s, None) = (db', (if needed s then f s else s), None)
    \<and> holds db0 db' i (if needed s then f s else s)"
proof -
  obtain db' where "update_one i f db = Inr db'" "holds db0 db' i (f s)"
    using holds_update [OF assms(1,2)] by blast
  then show ?thesis using assms by (auto simp: reset_window_def)
qed

text \<open>The row after all three.\<close>

definition maintained :: "location \<Rightarrow> gtime \<Rightarrow> user_subscription \<Rightarrow> user_subscription" where
  "maintained loc now s =
     (let w = startOfDay loc now;
          s1 = (if NeedsDailyReset loc now s then reset_daily_row w s else s);
          s2 = (if NeedsWeeklyReset now s1 then reset_weekly_row w s1 else s1)
      in if NeedsMonthlyReset now s2 then reset_monthly_row w s2 else s2)"

lemma CheckAndResetWindows_holds:
  assumes "holds db0 db i s" "sub_ID s = i"
  shows "\<exists>db'. CheckAndResetWindows loc now s db = (db', maintained loc now s, None)
    \<and> holds db0 db' i (maintained loc now s)"
proof -
  let ?w = "startOfDay loc now"
  let ?s1 = "if NeedsDailyReset loc now s then reset_daily_row ?w s else s"
  let ?s2 = "if NeedsWeeklyReset now ?s1 then reset_weekly_row ?w ?s1 else ?s1"
  have k: "sub_ID (reset_daily_row ?w x) = sub_ID x" "sub_ID (reset_weekly_row ?w x) = sub_ID x" for x
    by (simp_all add: reset_daily_row_def reset_weekly_row_def)
  obtain db1 where d1: "reset_window (NeedsDailyReset loc now) (reset_daily_row ?w) (db, s, None) = (db1, ?s1, None)"
    "holds db0 db1 i ?s1"
    using reset_window_step [OF assms(1) _ assms(2), of "reset_daily_row ?w" "NeedsDailyReset loc now"] by auto
  have i1: "sub_ID ?s1 = i" using assms(2) k by simp
  obtain db2 where d2: "reset_window (NeedsWeeklyReset now) (reset_weekly_row ?w) (db1, ?s1, None) = (db2, ?s2, None)"
    "holds db0 db2 i ?s2"
    using reset_window_step [OF d1(2) _ i1, of "reset_weekly_row ?w" "NeedsWeeklyReset now"] by auto
  have i2: "sub_ID ?s2 = i" using i1 k by simp
  show ?thesis
    using reset_window_step [OF d2(2) _ i2, of "reset_monthly_row ?w" "NeedsMonthlyReset now"]
    by (simp only: CheckAndResetWindows_def Let_def d1(1) d2(1) maintained_def keeps_keys_updates simp_thms)
qed

section \<open>Renewing\<close>

lemma update_one_cong:
  "(\<And>s. s \<in> set (db_rows db) \<Longrightarrow> sub_ID s = i \<Longrightarrow> f s = h s) \<Longrightarrow> update_one i f db = update_one i h db"
  unfolding update_one_def by (auto cong: if_cong intro!: arg_cong [where f = "\<lambda>x. db\<lparr>db_rows := x\<rparr>"])

text \<open>The row of an existing subscription after a renewal or an extension.\<close>

definition renewed_row ::
    "location \<Rightarrow> user_subscription \<Rightarrow> string \<Rightarrow> gtime \<Rightarrow> gtime \<Rightarrow> bool \<Rightarrow> user_subscription" where
  "renewed_row loc ex notes now e isExpired =
     (if isExpired then renewedSubscriptionTerm loc ex notes now e
      else ex\<lparr>sub_ExpiresAt := e, sub_Status := SubscriptionStatusActive,
              sub_Notes := appendSubscriptionNotes (sub_Notes ex) notes\<rparr>)"

lemma renewed_row_fields [simp]:
  "sub_ID (renewed_row loc ex notes now e x) = sub_ID ex"
  "sub_UserID (renewed_row loc ex notes now e x) = sub_UserID ex"
  "sub_GroupID (renewed_row loc ex notes now e x) = sub_GroupID ex"
  "sub_ExpiresAt (renewed_row loc ex notes now e x) = e"
  "sub_Status (renewed_row loc ex notes now e x) = SubscriptionStatusActive"
  by (simp_all add: renewed_row_def renewedSubscriptionTerm_def Let_def)

lemma Update_renewed:
  assumes wf: "sub_db_wf db" and ex: "repo_GetByID db (sub_ID ex) = Some ex"
  shows "\<exists>db'. repo_Update (renewedSubscriptionTerm loc ex notes now e) db = Inr db'
    \<and> holds db db' (sub_ID ex) (renewedSubscriptionTerm loc ex notes now e)"
proof -
  let ?r = "renewedSubscriptionTerm loc ex notes now e"
  let ?f = "\<lambda>x. if x = ex then ?r else x"
  have r: "overwrite ?r ex = ?r"
    by (simp add: overwrite_def renewedSubscriptionTerm_def or_else_def Let_def split: option.split)
  have rid: "sub_ID ?r = sub_ID ex" by (simp add: renewedSubscriptionTerm_def Let_def)
  have "repo_Update ?r db = update_one (sub_ID ex) ?f db"
    unfolding repo_Update_def rid
  proof (rule update_one_cong)
    fix s
    assume s: "s \<in> set (db_rows db)" "sub_ID s = sub_ID ex"
    then have "repo_GetByID db (sub_ID ex) = Some s" by (simp add: GetByID_iff [OF wf])
    with ex have "s = ex" by simp
    then show "overwrite ?r s = ?f s" by (simp add: r)
  qed
  moreover have "keeps_keys ?f" by (simp add: keeps_keys_def renewedSubscriptionTerm_def Let_def)
  ultimately show ?thesis using holds_update [OF holds_refl [OF wf ex], of ?f] by auto
qed

lemma updateExisting_holds:
  assumes wf: "sub_db_wf db" and ex: "repo_GetByID db (sub_ID ex) = Some ex"
  shows "\<exists>db'. updateExistingSubscriptionTerm loc ex notes now e x db = Inr db'
    \<and> holds db db' (sub_ID ex) (renewed_row loc ex notes now e x)"
proof (cases x)
  case True
  then show ?thesis
    using Update_renewed [OF assms] by (simp add: updateExistingSubscriptionTerm_def renewed_row_def)
next
  case False
  let ?r1 = "ex\<lparr>sub_ExpiresAt := e\<rparr>"
  let ?r2 = "?r1\<lparr>sub_Status := SubscriptionStatusActive\<rparr>"
  obtain db1 where d1: "repo_ExtendExpiry (sub_ID ex) e db = Inr db1" "holds db db1 (sub_ID ex) ?r1"
    using holds_update [OF holds_refl [OF assms] keeps_keys_updates(1)] by (auto simp: update_ops)
  obtain db2 where d2: "(if sub_Status ex \<noteq> SubscriptionStatusActive
      then repo_UpdateStatus (sub_ID ex) SubscriptionStatusActive db1 else Inr db1) = Inr db2"
    "holds db db2 (sub_ID ex) ?r2"
  proof (cases "sub_Status ex = SubscriptionStatusActive")
    case True
    then have "?r2 = ?r1" by simp
    with d1(2) have "holds db db1 (sub_ID ex) ?r2" by (simp only:)
    then show ?thesis using True by (intro that [of db1]) simp_all
  next
    case False
    then show ?thesis
      using holds_update [OF d1(2) keeps_keys_updates(2) [of SubscriptionStatusActive]]
      by (auto simp: update_ops intro: that)
  qed
  let ?n = "appendSubscriptionNotes (sub_Notes ex) notes"
  have r: "renewed_row loc ex notes now e False = ?r2\<lparr>sub_Notes := ?n\<rparr>"
    by (simp add: renewed_row_def)
  show ?thesis
  proof (cases "notes = []")
    case True
    then have "?r2\<lparr>sub_Notes := ?n\<rparr> = ?r2" by (simp add: appendSubscriptionNotes_def)
    with d2(2) r have "holds db db2 (sub_ID ex) (renewed_row loc ex notes now e False)" by (simp only:)
    with True False d1 d2 show ?thesis by (simp add: updateExistingSubscriptionTerm_def)
  next
    case nn: False
    obtain db3 where "repo_UpdateNotes (sub_ID ex) ?n db2 = Inr db3" "holds db db3 (sub_ID ex) (?r2\<lparr>sub_Notes := ?n\<rparr>)"
      using holds_update [OF d2(2) keeps_keys_updates(3) [of ?n]] by (auto simp: update_ops)
    then show ?thesis using False nn d1 d2 by (simp add: updateExistingSubscriptionTerm_def r)
  qed
qed

text \<open>The expiry that a renewal computes is later than the present and never before the old one.\<close>

lemma renewed_expiry:
  assumes "now < MaxExpiresAt" "1 \<le> d"
  shows "now < capped (if \<not> x then add_days (fixed_zone off) e d else add_days (fixed_zone off) now d)
    \<or> \<not> x \<and> \<not> now < e"
    and "e \<le> MaxExpiresAt \<Longrightarrow> x \<longleftrightarrow> \<not> now < e \<Longrightarrow>
      e \<le> capped (if \<not> x then add_days (fixed_zone off) e d else add_days (fixed_zone off) now d)"
  using assms add_days_later [OF assms(2), of now off] add_days_later [OF assms(2), of e off]
  by (auto simp: capped_def)

section \<open>Properties\<close>

text \<open>C31: Assigning is idempotent: after an assignment that created a subscription, the same request
  at any later time returns that subscription as reused and changes nothing.\<close>

theorem assign_idempotent:
  assumes "sub_db_wf db" "zero_time < now"
    and "assignSubscriptionWithReuse grps loc now input db = Inr (db', s, False)"
  shows "assignSubscriptionWithReuse grps loc later input db' = Inr (db', s, True) \<and> sub_db_wf db'"
proof -
  obtain g where g: "grps (in_GroupID input) = Some g" "IsSubscriptionType g"
    and c: "createSubscription loc now input db = Inr (db', s)"
    and none: "repo_GetByUserIDAndGroupID db (in_UserID input) (in_GroupID input) = None"
    using assms(3)
    by (auto simp: assignSubscriptionWithReuse_def Exists_iff and_then_Inr split: option.splits if_splits)
  obtain i where s: "s = (new_subscription loc now input)\<lparr>sub_ID := i\<rparr>" and wf': "sub_db_wf db'"
    and o: "repo_GetByUserIDAndGroupID db' (in_UserID input) (in_GroupID input) = Some s"
    using createSubscription_ok [OF assms(1) none assms(2), of loc thesis] c by auto
  have "detectAssignSemanticConflict loc (Some s) (Some input) = None"
    by (simp add: detectAssignSemanticConflict_def s new_subscription_def)
  then show ?thesis using g wf' o by (simp add: assignSubscriptionWithReuse_def Exists_iff)
qed

definition empty_db :: sub_db where "empty_db = \<lparr>db_rows = [], db_next = 1\<rparr>"

definition sample_input :: assign_input where
  "sample_input = \<lparr>in_UserID = 7, in_GroupID = 1, in_ValidityDays = 30, in_AssignedBy = 0, in_Notes = []\<rparr>"

lemma empty_db_wf: "sub_db_wf empty_db"
  by (simp add: sub_db_wf_def empty_db_def)

lemma assign_idempotent_witness:
  "\<exists>db' s. assignSubscriptionWithReuse (\<lambda>_. Some blank_group) utc 5 sample_input db' = Inr (db', s, True)"
proof -
  have n: "repo_GetByUserIDAndGroupID empty_db 7 1 = None"
    by (simp add: empty_db_def repo_GetByUserIDAndGroupID_def)
  have z: "zero_time < 0" by (simp add: zero_time_def)
  obtain db' s where "createSubscription utc 0 sample_input empty_db = Inr (db', s)"
    using createSubscription_ok [OF empty_db_wf, of sample_input 0 utc thesis] n z
    by (auto simp: sample_input_def)
  then have "assignSubscriptionWithReuse (\<lambda>_. Some blank_group) utc 0 sample_input empty_db = Inr (db', s, False)"
    using n by (simp add: assignSubscriptionWithReuse_def Exists_iff sample_input_def blank_group_def
        IsSubscriptionType_def)
  from assign_idempotent [OF empty_db_wf z this, of 5] show ?thesis by blast
qed



section \<open>Maintenance\<close>

lemma maintained_fields:
  "sub_ID (maintained loc now s) = sub_ID s" "sub_Status (maintained loc now s) = sub_Status s"
  "sub_ExpiresAt (maintained loc now s) = sub_ExpiresAt s" "sub_StartsAt (maintained loc now s) = sub_StartsAt s"
  by (simp_all add: maintained_def reset_daily_row_def reset_weekly_row_def reset_monthly_row_def Let_def)

lemma daily_reset_cong:
  "sub_DailyWindowStart s = sub_DailyWindowStart s' \<Longrightarrow> sub_StartsAt s = sub_StartsAt s' \<Longrightarrow>
     sub_ExpiresAt s = sub_ExpiresAt s' \<Longrightarrow> NeedsDailyReset loc now s = NeedsDailyReset loc now s'"
  by (cases "sub_DailyWindowStart s'")
    (simp_all add: NeedsDailyReset_def NeedsDailyResetAt_def HasOneTimeDailyQuota_def)

lemma weekly_reset_cong:
  "sub_WeeklyWindowStart s = sub_WeeklyWindowStart s' \<Longrightarrow> NeedsWeeklyReset now s = NeedsWeeklyReset now s'"
  by (simp add: NeedsWeeklyReset_def)

lemma monthly_reset_cong:
  "sub_MonthlyWindowStart s = sub_MonthlyWindowStart s' \<Longrightarrow> NeedsMonthlyReset now s = NeedsMonthlyReset now s'"
  by (simp add: NeedsMonthlyReset_def)

text \<open>The three resets do not interfere, so each field of the result is decided by its own window.\<close>

lemma maintained_windows:
  "sub_DailyWindowStart (maintained loc now s) =
     (if NeedsDailyReset loc now s then Some (startOfDay loc now) else sub_DailyWindowStart s)"
  "sub_WeeklyWindowStart (maintained loc now s) =
     (if NeedsWeeklyReset now s then Some (startOfDay loc now) else sub_WeeklyWindowStart s)"
  "sub_MonthlyWindowStart (maintained loc now s) =
     (if NeedsMonthlyReset now s then Some (startOfDay loc now) else sub_MonthlyWindowStart s)"
  "sub_DailyUsageUSD (maintained loc now s) =
     (if NeedsDailyReset loc now s then f_zero else sub_DailyUsageUSD s)"
  "sub_WeeklyUsageUSD (maintained loc now s) =
     (if NeedsWeeklyReset now s then f_zero else sub_WeeklyUsageUSD s)"
  "sub_MonthlyUsageUSD (maintained loc now s) =
     (if NeedsMonthlyReset now s then f_zero else sub_MonthlyUsageUSD s)"
proof -
  let ?w = "startOfDay loc now"
  have w: "NeedsWeeklyReset now (reset_daily_row ?w s) = NeedsWeeklyReset now s"
    by (rule weekly_reset_cong) (simp add: reset_daily_row_def)
  have m: "NeedsMonthlyReset now (reset_daily_row ?w x) = NeedsMonthlyReset now x"
    "NeedsMonthlyReset now (reset_weekly_row ?w x) = NeedsMonthlyReset now x" for x
    by (rule monthly_reset_cong; simp add: reset_daily_row_def reset_weekly_row_def)+
  show "sub_DailyWindowStart (maintained loc now s) =
     (if NeedsDailyReset loc now s then Some (startOfDay loc now) else sub_DailyWindowStart s)"
  "sub_WeeklyWindowStart (maintained loc now s) =
     (if NeedsWeeklyReset now s then Some (startOfDay loc now) else sub_WeeklyWindowStart s)"
  "sub_MonthlyWindowStart (maintained loc now s) =
     (if NeedsMonthlyReset now s then Some (startOfDay loc now) else sub_MonthlyWindowStart s)"
  "sub_DailyUsageUSD (maintained loc now s) =
     (if NeedsDailyReset loc now s then f_zero else sub_DailyUsageUSD s)"
  "sub_WeeklyUsageUSD (maintained loc now s) =
     (if NeedsWeeklyReset now s then f_zero else sub_WeeklyUsageUSD s)"
  "sub_MonthlyUsageUSD (maintained loc now s) =
     (if NeedsMonthlyReset now s then f_zero else sub_MonthlyUsageUSD s)"
    by (simp_all add: maintained_def Let_def w m)
      (simp_all add: reset_daily_row_def reset_weekly_row_def reset_monthly_row_def)
qed

lemma maintained_fresh:
  "\<not> NeedsDailyReset (fixed_zone off) now (maintained (fixed_zone off) now s)"
  "\<not> NeedsWeeklyReset now (maintained (fixed_zone off) now s)"
  "\<not> NeedsMonthlyReset now (maintained (fixed_zone off) now s)"
proof -
  let ?m = "maintained (fixed_zone off) now s"
  note fresh = fresh_windows [OF refl, where off = off and now = now and s = ?m]
  show "\<not> NeedsDailyReset (fixed_zone off) now ?m"
  proof (cases "NeedsDailyReset (fixed_zone off) now s")
    case True
    then show ?thesis using fresh(1) by (simp add: maintained_windows)
  next
    case False
    then show ?thesis
      using daily_reset_cong [of ?m s] by (simp add: maintained_windows maintained_fields)
  qed
  show "\<not> NeedsWeeklyReset now ?m"
    using fresh(2) weekly_reset_cong [of ?m s] by (cases "NeedsWeeklyReset now s") (simp_all add: maintained_windows)
  show "\<not> NeedsMonthlyReset now ?m"
    using fresh(3) monthly_reset_cong [of ?m s] by (cases "NeedsMonthlyReset now s") (simp_all add: maintained_windows)
qed

lemma not_activated: "\<not> IsWindowActivated s \<Longrightarrow>
    \<not> NeedsDailyReset loc now s \<and> \<not> NeedsWeeklyReset now s \<and> \<not> NeedsMonthlyReset now s"
  by (simp add: IsWindowActivated_def NeedsDailyReset_def NeedsDailyResetAt_def NeedsWeeklyReset_def
      NeedsMonthlyReset_def)

lemma maintained_idle:
  "\<not> NeedsDailyReset loc now s \<Longrightarrow> \<not> NeedsWeeklyReset now s \<Longrightarrow> \<not> NeedsMonthlyReset now s \<Longrightarrow>
     maintained loc now s = s"
  by (simp add: maintained_def Let_def)

text \<open>The row after maintenance by a caller whose copy is the row.\<close>

lemma doWindowMaintenance_holds:
  assumes "sub_db_wf db" "repo_GetByID db (sub_ID s) = Some s"
  shows "holds db (doWindowMaintenance loc now s db) (sub_ID s)
     (if IsWindowActivated s then maintained loc now s else activate_row (startOfDay loc now) s)"
proof (cases "IsWindowActivated s")
  case True
  then show ?thesis
    using CheckAndResetWindows_holds [OF holds_refl [OF assms] refl, of loc now]
    by (auto simp: doWindowMaintenance_def)
next
  case False
  obtain db1 where d1: "update_one (sub_ID s) (activate_row (startOfDay loc now)) db = Inr db1"
    "holds db db1 (sub_ID s) (activate_row (startOfDay loc now) s)"
    using holds_update [OF holds_refl [OF assms] keeps_keys_updates(4)] by blast
  have "CheckAndResetWindows loc now s db1 = (db1, s, None)"
    using not_activated [OF False] by (simp add: CheckAndResetWindows_def reset_window_def Let_def)
  then show ?thesis
    using False d1 by (simp add: doWindowMaintenance_def CheckAndActivateWindow_def update_ops)
qed

text \<open>C33: Maintenance settles what the request path anticipates: after it (in a zone of constant
  offset) the stored subscription is activated, none of its windows is due, and checking it
  again at the same instant needs no maintenance, sees the same usage and gives the same
  verdict as the check that asked for it.\<close>

theorem maintenance_agrees_with_check:
  assumes "sub_db_wf db" "repo_GetByID db (sub_ID s) = Some s"
    and "ValidateAndCheckLimits (fixed_zone off) now s g = (s1, True, verdict)"
  shows "\<exists>s2. repo_GetByID (doWindowMaintenance (fixed_zone off) now s db) (sub_ID s) = Some s2
    \<and> ValidateAndCheckLimits (fixed_zone off) now s2 g = (s2, False, verdict)
    \<and> sub_DailyUsageUSD s2 = sub_DailyUsageUSD s1 \<and> sub_WeeklyUsageUSD s2 = sub_WeeklyUsageUSD s1
    \<and> sub_MonthlyUsageUSD s2 = sub_MonthlyUsageUSD s1"
proof -
  let ?w = "startOfDay (fixed_zone off) now"
  let ?s2 = "if IsWindowActivated s then maintained (fixed_zone off) now s else activate_row ?w s"
  have ok: "sub_Status s \<noteq> SubscriptionStatusExpired" "sub_Status s \<noteq> SubscriptionStatusSuspended"
    "\<not> Sub_IsExpired now s"
    and s1: "s1 = corrected (fixed_zone off) now s" and v: "verdict = CheckUsageLimits s1 g f_zero"
    using assms(3) by (auto simp: ValidateAndCheckLimits_def Let_def split: if_splits)
  have fields: "sub_Status ?s2 = sub_Status s" "sub_ExpiresAt ?s2 = sub_ExpiresAt s"
    by (simp_all add: maintained_fields activate_row_def)
  have act: "IsWindowActivated ?s2"
    by (auto simp: IsWindowActivated_def maintained_windows activate_row_def)
  have fresh: "\<not> NeedsDailyReset (fixed_zone off) now ?s2" "\<not> NeedsWeeklyReset now ?s2"
    "\<not> NeedsMonthlyReset now ?s2"
    using maintained_fresh(1) [of off now s] maintained_fresh(2,3) [of now off s] fresh_windows [OF refl, where off = off and now = now and s = ?s2]
    by (auto simp: activate_row_def)
  have usage: "sub_DailyUsageUSD ?s2 = sub_DailyUsageUSD s1" "sub_WeeklyUsageUSD ?s2 = sub_WeeklyUsageUSD s1"
    "sub_MonthlyUsageUSD ?s2 = sub_MonthlyUsageUSD s1"
    using not_activated [of s "fixed_zone off" now]
    by (auto simp: s1 corrected_def maintained_windows activate_row_def)
  have "CheckUsageLimits ?s2 g f_zero = verdict"
    unfolding v CheckUsageLimits_def CheckDailyLimit_def CheckWeeklyLimit_def CheckMonthlyLimit_def usage ..
  moreover have "corrected (fixed_zone off) now ?s2 = ?s2"
    unfolding corrected_def using fresh by simp
  ultimately have "ValidateAndCheckLimits (fixed_zone off) now ?s2 g = (?s2, False, verdict)"
    using ok fresh act unfolding ValidateAndCheckLimits_def Let_def fields Sub_IsExpired_def by simp
  then show ?thesis
    using usage holds_get [OF doWindowMaintenance_holds [OF assms(1,2), of "fixed_zone off" now]] by blast
qed

definition sample_sub :: user_subscription where
  "sample_sub = \<lparr>sub_ID = 3, sub_UserID = 7, sub_GroupID = 1, sub_StartsAt = 0,
     sub_ExpiresAt = 1000 * 24 * hour, sub_Status = SubscriptionStatusActive,
     sub_DailyWindowStart = Some 0, sub_WeeklyWindowStart = Some 0, sub_MonthlyWindowStart = Some 0,
     sub_DailyUsageUSD = Fin 5, sub_WeeklyUsageUSD = Fin 5, sub_MonthlyUsageUSD = Fin 5,
     sub_AssignedBy = None, sub_AssignedAt = 0, sub_Notes = []\<rparr>"

definition sample_db :: sub_db where
  "sample_db = \<lparr>db_rows = [sample_sub], db_next = 4\<rparr>"

lemma sample_db_ok: "sub_db_wf sample_db" "repo_GetByID sample_db (sub_ID sample_sub) = Some sample_sub"
  by (simp_all add: sub_db_wf_def sample_db_def repo_GetByID_def sample_sub_def)

lemma sample_daily: "NeedsDailyReset utc (24 * hour) sample_sub"
  by (simp add: NeedsDailyReset_def NeedsDailyResetAt_def sample_sub_def HasOneTimeDailyQuota_def
      utc_fixed add_days_fixed is_zero_time_def zero_time_def hour_def)

lemma maintenance_agrees_with_check_witness:
  "\<exists>s2. repo_GetByID (doWindowMaintenance (fixed_zone 0) (24 * hour) sample_sub sample_db) 3 = Some s2
     \<and> sub_DailyUsageUSD s2 = f_zero"
proof -
  let ?c = "corrected (fixed_zone 0) (24 * hour) sample_sub"
  have d: "NeedsDailyReset (fixed_zone 0) (24 * hour) sample_sub" using sample_daily by (simp add: utc_fixed)
  have "ValidateAndCheckLimits (fixed_zone 0) (24 * hour) sample_sub blank_group
      = (?c, True, CheckUsageLimits ?c blank_group f_zero)"
    using d by (simp add: ValidateAndCheckLimits_def Let_def Sub_IsExpired_def)
      (simp add: sample_sub_def hour_def)
  from maintenance_agrees_with_check [OF sample_db_ok this] show ?thesis
    using d by (auto simp: corrected_def sample_sub_def)
qed

text \<open>C34: Maintenance is not safe to run twice from copies read before the first run: usage that was
  recorded between the two runs is erased by the second, although the window it was recorded in
  had already been reset.\<close>

theorem double_maintenance_loses_usage:
  assumes "sub_db_wf db" "repo_GetByID db (sub_ID s) = Some s"
    and "NeedsDailyReset loc now s" "live (sub_GroupID s)"
    and "doWindowMaintenance loc now s db = db1"
  shows "\<exists>db2 s2 s3. RecordUsage num_add live (sub_ID s) cost db1 = Inr db2
    \<and> repo_GetByID db2 (sub_ID s) = Some s2 \<and> sub_DailyUsageUSD s2 = num_add f_zero cost
    \<and> repo_GetByID (doWindowMaintenance loc now s db2) (sub_ID s) = Some s3
    \<and> sub_DailyUsageUSD s3 = f_zero"
proof -
  let ?i = "sub_ID s" and ?m = "maintained loc now s"
  have act: "IsWindowActivated s" using assms(3) not_activated by blast
  then have h1: "holds db db1 ?i ?m"
    using doWindowMaintenance_holds [OF assms(1,2), of loc now] assms(5) by simp
  obtain db2 where u: "update_one ?i (add_usage num_add cost) db1 = Inr db2"
    and h2: "holds db db2 ?i (add_usage num_add cost ?m)"
    using holds_update [OF h1 keeps_keys_updates(8)] by blast
  have g: "sub_GroupID ?m = sub_GroupID s"
    by (simp add: maintained_def reset_daily_row_def reset_weekly_row_def reset_monthly_row_def Let_def)
  have r: "RecordUsage num_add live ?i cost db1 = Inr db2"
    using holds_get [OF h1] assms(4) u by (simp add: RecordUsage_def repo_IncrementUsage_def g)
  let ?w = "startOfDay loc now"
  let ?r0 = "add_usage num_add cost ?m"
  obtain d1 where d1: "update_one ?i (reset_daily_row ?w) db2 = Inr d1" "holds db d1 ?i (reset_daily_row ?w ?r0)"
    using holds_update [OF h2 keeps_keys_updates(5)] by blast
  let ?c1 = "reset_daily_row ?w s"
  have id: "sub_ID ?c1 = ?i" by (simp add: reset_daily_row_def)
  have step: "\<exists>db' c' r'. reset_window needed f (d, c, None) = (db', c', None) \<and> holds db db' ?i r'
      \<and> sub_ID c' = ?i \<and> sub_DailyUsageUSD r' = f_zero"
    if "holds db d ?i r" "keeps_keys f" "sub_ID c = ?i" "sub_DailyUsageUSD r = f_zero"
      "\<And>x. sub_DailyUsageUSD (f x) = sub_DailyUsageUSD x" for needed f d c r
  proof (cases "needed c")
    case True
    note hyps = that
    obtain d' where "update_one ?i f d = Inr d'" "holds db d' ?i (f r)"
      using holds_update [OF hyps(1,2)] by blast
    then show ?thesis using True hyps by (auto simp: reset_window_def keeps_keys_def)
  next
    case False
    then show ?thesis using that by (auto simp: reset_window_def)
  qed
  have z: "sub_DailyUsageUSD (reset_daily_row ?w ?r0) = f_zero" by (simp add: reset_daily_row_def)
  obtain d2 c2 r2 where d2: "reset_window (NeedsWeeklyReset now) (reset_weekly_row ?w) (d1, ?c1, None) = (d2, c2, None)"
    "holds db d2 ?i r2" "sub_ID c2 = ?i" "sub_DailyUsageUSD r2 = f_zero"
    using step [OF d1(2) keeps_keys_updates(6) id z, of ?w "NeedsWeeklyReset now"]
    by (auto simp: reset_weekly_row_def)
  obtain d3 c3 r3 where d3: "reset_window (NeedsMonthlyReset now) (reset_monthly_row ?w) (d2, c2, None) = (d3, c3, None)"
    "holds db d3 ?i r3" "sub_DailyUsageUSD r3 = f_zero"
    using step [OF d2(2) keeps_keys_updates(7) d2(3,4), of ?w "NeedsMonthlyReset now"]
    by (auto simp: reset_monthly_row_def)
  have "reset_window (NeedsDailyReset loc now) (reset_daily_row ?w) (db2, s, None) = (d1, ?c1, None)"
    using assms(3) d1(1) by (simp add: reset_window_def)
  then have "doWindowMaintenance loc now s db2 = d3"
    using act d2(1) d3(1) by (simp add: doWindowMaintenance_def CheckAndResetWindows_def Let_def)
  moreover have "sub_DailyUsageUSD ?r0 = num_add f_zero cost"
    using assms(3) by (simp add: add_usage_def maintained_windows)
  ultimately show ?thesis using r holds_get [OF h2] holds_get [OF d3(2)] d3(3) by blast
qed

lemma double_maintenance_loses_usage_witness:
  "\<exists>db1 db2 s3. doWindowMaintenance utc (24 * hour) sample_sub sample_db = db1
     \<and> RecordUsage f_add (\<lambda>_. True) 3 f_one db1 = Inr db2
     \<and> repo_GetByID (doWindowMaintenance utc (24 * hour) sample_sub db2) 3 = Some s3
     \<and> sub_DailyUsageUSD s3 = f_zero"
proof -
  have i: "sub_ID sample_sub = 3" by (simp add: sample_sub_def)
  show ?thesis
    using double_maintenance_loses_usage [OF sample_db_ok sample_daily, of "\<lambda>_. True" _ f_add f_one]
    by (auto simp: i)
qed

definition autumn :: location where
  "autumn = (\<lambda>s. if s < 10000 then 3600 else 0)"

text \<open>On a day of 25 hours (a zone that leaves daylight saving time) a window that has just been
  reset to the start of the day is due again in the last hour: every maintenance of that hour
  erases the daily usage.\<close>
theorem long_day_resets_again:
  "\<exists>loc now db s s'. sub_db_wf db \<and> repo_GetByID db (sub_ID s) = Some s \<and> NeedsDailyReset loc now s
     \<and> repo_GetByID (doWindowMaintenance loc now s db) (sub_ID s) = Some s'
     \<and> sub_DailyWindowStart s' = Some (startOfDay loc now) \<and> NeedsDailyReset loc now s'"
proof -
  let ?now = "86399 * nanos"
  let ?s = "sample_sub\<lparr>sub_DailyWindowStart := Some (- 2 * 24 * hour)\<rparr>"
  let ?db = "\<lparr>db_rows = [?s], db_next = 4\<rparr>"
  have ok: "sub_db_wf ?db" "repo_GetByID ?db (sub_ID ?s) = Some ?s"
    by (simp_all add: sub_db_wf_def repo_GetByID_def sample_sub_def)
  have w: "startOfDay autumn ?now = - 3600 * nanos"
    by (simp add: startOfDay_def local_day_def local_secs_def date_at_def autumn_def Let_def)
  have n: "NeedsDailyReset autumn ?now ?s"
    by (simp add: NeedsDailyReset_def NeedsDailyResetAt_def HasOneTimeDailyQuota_def sample_sub_def
        add_days_def date_at_def local_day_def clock_secs_def local_secs_def autumn_def
        is_zero_time_def zero_time_def hour_def Let_def)
  have "IsWindowActivated ?s" by (simp add: IsWindowActivated_def)
  then have "repo_GetByID (doWindowMaintenance autumn ?now ?s ?db) (sub_ID ?s) = Some (maintained autumn ?now ?s)"
    using holds_get [OF doWindowMaintenance_holds [OF ok, of autumn ?now]] by simp
  moreover have dw: "sub_DailyWindowStart (maintained autumn ?now ?s) = Some (startOfDay autumn ?now)"
    using n by (simp only: maintained_windows) simp
  moreover have "NeedsDailyReset autumn ?now (maintained autumn ?now ?s)"
  proof -
    have "HasOneTimeDailyQuota autumn (Some (maintained autumn ?now ?s)) = HasOneTimeDailyQuota autumn (Some ?s)"
      by (simp only: HasOneTimeDailyQuota_def option.case maintained_fields)
    moreover have "\<not> HasOneTimeDailyQuota autumn (Some ?s)"
      using n by (auto simp: NeedsDailyReset_def NeedsDailyResetAt_def split: if_splits)
    ultimately show ?thesis
      by (simp only: NeedsDailyReset_def NeedsDailyResetAt_def dw w option.case) (simp add: hour_def)
  qed
  ultimately show ?thesis using ok n by blast
qed

text \<open>For an active subscription the reset times that the progress view announces are the instants
  from which the windows are due, for all three windows and for one-time daily quotas as well.\<close>

theorem reset_times_agree:
  assumes "Sub_IsActive now s"
  shows "(NeedsDailyReset loc now s \<longleftrightarrow> (case DailyResetTime loc s of None \<Rightarrow> False | Some t \<Rightarrow> t \<le> now))
    \<and> (NeedsWeeklyReset now s \<longleftrightarrow> (case WeeklyResetTime s of None \<Rightarrow> False | Some t \<Rightarrow> t \<le> now))
    \<and> (NeedsMonthlyReset now s \<longleftrightarrow> (case MonthlyResetTime s of None \<Rightarrow> False | Some t \<Rightarrow> t \<le> now))"
  using assms
  by (auto simp: NeedsDailyReset_def NeedsDailyResetAt_def DailyResetTime_def NeedsWeeklyReset_def
      WeeklyResetTime_def NeedsMonthlyReset_def MonthlyResetTime_def Sub_IsActive_def week_month_sub
      split: option.splits if_splits)

lemma reset_times_agree_witness:
  "DailyResetTime utc sample_sub = Some (24 * hour) \<and> NeedsWeeklyReset 0 sample_sub = False"
proof -
  have "Sub_IsActive 0 sample_sub" by (simp add: Sub_IsActive_def sample_sub_def hour_def)
  then show ?thesis
    using reset_times_agree [of 0 sample_sub utc]
    by (simp add: DailyResetTime_def WeeklyResetTime_def HasOneTimeDailyQuota_def sample_sub_def utc_fixed
        add_days_fixed is_zero_time_def zero_time_def hour_def)
qed

text \<open>A successful extension leaves the subscription valid beyond the present and not beyond the
  last allowed day, moves an unexpired one by exactly the requested days (up to that day), touches
  no other subscription and revives the status \<open>expired\<close>.\<close>

theorem ExtendSubscription_ok:
  assumes wf: "sub_db_wf db" and s: "repo_GetByID db i = Some s"
    and ext: "ExtendSubscription (fixed_zone off) now i days db = Inr (db', s')"
  shows "repo_GetByID db' = (repo_GetByID db)(i \<mapsto> s') \<and> sub_db_wf db'
    \<and> now < sub_ExpiresAt s' \<and> sub_ExpiresAt s' \<le> MaxExpiresAt
    \<and> sub_Status s' = (if sub_Status s = SubscriptionStatusExpired then SubscriptionStatusActive else sub_Status s)
    \<and> (now < sub_ExpiresAt s \<longrightarrow>
         sub_ExpiresAt s' = min MaxExpiresAt (sub_ExpiresAt s + max (- 36500) (min 36500 days) * (24 * hour)))"
proof -
  define d where "d = max (- 36500) (min 36500 days)"
  define e where "e = capped (if \<not> now < sub_ExpiresAt s then add_days (fixed_zone off) now d
                              else add_days (fixed_zone off) (sub_ExpiresAt s) d)"
  have days: "(if (if MaxValidityDays < days then MaxValidityDays else days) < - MaxValidityDays
      then - MaxValidityDays else if MaxValidityDays < days then MaxValidityDays else days) = d"
    by (simp add: MaxValidityDays_def d_def)
  let ?s1 = "s\<lparr>sub_ExpiresAt := e\<rparr>"
  let ?st = "if sub_Status s = SubscriptionStatusExpired then SubscriptionStatusActive else sub_Status s"
  let ?s2 = "?s1\<lparr>sub_Status := ?st\<rparr>"
  obtain db1 where d1: "repo_ExtendExpiry i e db = Inr db1" "holds db db1 i ?s1"
    using holds_update [OF holds_refl [OF wf s] keeps_keys_updates(1)] by (auto simp: update_ops)
  obtain db2 where d2: "(if sub_Status s = SubscriptionStatusExpired
      then repo_UpdateStatus i SubscriptionStatusActive db1 else Inr db1) = Inr db2" "holds db db2 i ?s2"
  proof (cases "sub_Status s = SubscriptionStatusExpired")
    case True
    then show ?thesis
      using holds_update [OF d1(2) keeps_keys_updates(2) [of SubscriptionStatusActive]]
      by (auto simp: update_ops intro: that)
  next
    case False
    then have "?s2 = ?s1" by simp
    with d1(2) have "holds db db1 i ?s2" by (simp only:)
    with False show ?thesis by (intro that [of db1]) simp_all
  qed
  have "now < e \<and> db' = db2 \<and> s' = ?s2"
    using ext d1(1) d2(1) holds_get [OF d2(2)]
    unfolding ExtendSubscription_def s option.case Let_def days e_def [symmetric]
    by (auto split: if_splits)
  moreover have "e = min MaxExpiresAt (sub_ExpiresAt s + d * (24 * hour))" if "now < sub_ExpiresAt s"
    using that by (simp add: e_def capped_def add_days_fixed hour_def min_def)
  ultimately show ?thesis using d2(2) capped_le by (auto simp: holds_def e_def d_def)
qed

lemma ExtendSubscription_ok_witness:
  "\<exists>db' s'. ExtendSubscription (fixed_zone 0) 0 3 10 sample_db = Inr (db', s')
     \<and> sub_ExpiresAt s' = 1010 * 24 * hour"
proof -
  have g: "repo_GetByID sample_db 3 = Some sample_sub" using sample_db_ok(2) by (simp add: sample_sub_def)
  obtain db' s' where e: "ExtendSubscription (fixed_zone 0) 0 3 10 sample_db = Inr (db', s')"
    by (simp add: ExtendSubscription_def g MaxValidityDays_def add_days_fixed capped_def MaxExpiresAt_def
        update_ops update_one_def sample_db_def sample_sub_def repo_GetByID_def hour_def)
  then show ?thesis
    using ExtendSubscription_ok [OF sample_db_ok(1) g e]
    by (auto simp: sample_sub_def MaxExpiresAt_def hour_def)
qed

end
