(* ===== verification/PricingLookup.thy ===== *)
theory PricingLookup
  imports OpenAIModels GoValue
begin

text \<open>
  Finding the price of a model in the downloaded catalogue (\<open>service/pricing_service.go\<close>). The
  catalogue is a map that the code also iterates over; it is an association list in the order
  of that iteration. Downloading, parsing and refreshing the catalogue are not modelled.
\<close>

section \<open>Prices of the catalogue\<close>

record litellm_pricing =
  InputCostPerToken :: float64
  InputCostPerTokenPriority :: float64
  OutputCostPerToken :: float64
  OutputCostPerTokenPriority :: float64
  CacheCreationInputTokenCost :: float64
  CacheCreationInputTokenCostAbove1hr :: float64
  CacheReadInputTokenCost :: float64
  CacheReadInputTokenCostPriority :: float64
  LongContextInputTokenThreshold :: int
  LongContextInputCostMultiplier :: float64
  LongContextOutputCostMultiplier :: float64
  LiteLLMProvider :: string
  OutputCostPerImage :: float64
  OutputCostPerImageToken :: float64

definition zero_litellm :: litellm_pricing where
  "zero_litellm =
     \<lparr>InputCostPerToken = f_zero, InputCostPerTokenPriority = f_zero, OutputCostPerToken = f_zero,
      OutputCostPerTokenPriority = f_zero, CacheCreationInputTokenCost = f_zero,
      CacheCreationInputTokenCostAbove1hr = f_zero, CacheReadInputTokenCost = f_zero,
      CacheReadInputTokenCostPriority = f_zero, LongContextInputTokenThreshold = 0,
      LongContextInputCostMultiplier = f_zero, LongContextOutputCostMultiplier = f_zero,
      LiteLLMProvider = [], OutputCostPerImage = f_zero, OutputCostPerImageToken = f_zero\<rparr>"

text \<open>A decimal literal \<open>m * 10 ^ (- e)\<close> of the program.\<close>

definition f_dec :: "int \<Rightarrow> nat \<Rightarrow> float64" where
  "f_dec m e = f_of_rat (of_int m / 10 ^ e)"

definition openAIGPT54FallbackPricing :: litellm_pricing where
  "openAIGPT54FallbackPricing =
     zero_litellm\<lparr>InputCostPerToken := f_dec 25 7, OutputCostPerToken := f_dec 15 6,
       CacheReadInputTokenCost := f_dec 25 8, LongContextInputTokenThreshold := 272000,
       LongContextInputCostMultiplier := f_of_int 2, LongContextOutputCostMultiplier := f_dec 15 1,
       LiteLLMProvider := ''openai''\<rparr>"

definition openAIGPT54MiniFallbackPricing :: litellm_pricing where
  "openAIGPT54MiniFallbackPricing =
     zero_litellm\<lparr>InputCostPerToken := f_dec 75 8, OutputCostPerToken := f_dec 45 7,
       CacheReadInputTokenCost := f_dec 75 9, LiteLLMProvider := ''openai''\<rparr>"

definition openAIGPT54NanoFallbackPricing :: litellm_pricing where
  "openAIGPT54NanoFallbackPricing =
     zero_litellm\<lparr>InputCostPerToken := f_dec 2 7, OutputCostPerToken := f_dec 125 8,
       CacheReadInputTokenCost := f_dec 2 8, LiteLLMProvider := ''openai''\<rparr>"

section \<open>Names to look up\<close>

text \<open>\<open>s[strings.LastIndex(s, sub)+len(sub):]\<close>, if \<open>sub\<close> occurs.\<close>

fun after_last :: "string \<Rightarrow> string \<Rightarrow> string option" where
  "after_last sub [] = None"
| "after_last sub (c # r) =
     (case after_last sub r of
        Some t \<Rightarrow> Some t
      | None \<Rightarrow> if has_prefix (c # r) sub then Some (drop (length sub) (c # r)) else None)"

definition lastSegment :: "string \<Rightarrow> string" where
  "lastSegment model = opt_default model (after_last ''/'' model)"

definition trim_left_slash :: "string \<Rightarrow> string" where
  "trim_left_slash s = dropWhile (\<lambda>c. c = CHR ''/'') s"

definition normalizeModelNameForPricing :: "string \<Rightarrow> string" where
  "normalizeModelNameForPricing model =
     (let m1 = trim_left_slash (trim_space model);
          m2 = trim_prefix (trim_prefix m1 ''models/'') ''publishers/google/models/'';
          m3 = opt_default m2 (after_last ''/publishers/google/models/'' m2);
          m4 = opt_default m3 (after_last ''/models/'' m3);
          m5 = trim_left_slash m4;
          canonical = canonicalizeOpenAIModelAliasSpelling m5
      in if canonical \<noteq> [] then canonical else m5)"

text \<open>Trimmed candidates, without empty ones and repetitions.\<close>

fun dedup_from :: "string list \<Rightarrow> string list \<Rightarrow> string list" where
  "dedup_from seen [] = []"
| "dedup_from seen (c # cs) =
     (let t = trim_space c in
      if t = [] \<or> t \<in> set seen then dedup_from seen cs else t # dedup_from (t # seen) cs)"

definition buildModelLookupCandidates :: "string \<Rightarrow> string list" where
  "buildModelLookupCandidates modelLower =
     (let out = dedup_from []
        [normalizeModelNameForPricing modelLower, modelLower, trim_prefix modelLower ''models/'',
         lastSegment modelLower, lastSegment (trim_prefix modelLower ''models/'')]
      in if out = [] then [modelLower] else out)"

definition isNumeric :: "string \<Rightarrow> bool" where
  "isNumeric s = list_all is_digit s"

definition extractBaseName :: "string \<Rightarrow> string" where
  "extractBaseName model =
     str_join ''-'' (filter (\<lambda>part. \<not> (length part = 8 \<and> isNumeric part) \<and> CHR '':'' \<notin> set part)
       (split_char CHR ''-'' model))"

section \<open>Claude families\<close>

text \<open>Name, patterns that classify a model, patterns to look a price up (empty: the former).\<close>

definition model_families :: "(string \<times> string list \<times> string list) list" where
  "model_families =
     [(''opus-4.7'', [''claude-opus-4-7'', ''claude-opus-4.7''], [''claude-opus-4-7'', ''claude-opus-4.7'', ''claude-opus-4-6'']),
      (''opus-4.6'', [''claude-opus-4-6'', ''claude-opus-4.6''], []),
      (''opus-4.5'', [''claude-opus-4-5'', ''claude-opus-4.5''], []),
      (''opus-4'', [''claude-opus-4'', ''claude-3-opus''], []),
      (''sonnet-4.5'', [''claude-sonnet-4-5'', ''claude-sonnet-4.5''], []),
      (''sonnet-4'', [''claude-sonnet-4'', ''claude-3-5-sonnet''], []),
      (''sonnet-3.5'', [''claude-3-5-sonnet'', ''claude-3.5-sonnet''], []),
      (''sonnet-3'', [''claude-3-sonnet''], []),
      (''haiku-3.5'', [''claude-3-5-haiku'', ''claude-3.5-haiku''], []),
      (''haiku-3'', [''claude-3-haiku''], [])]"

definition family_matches :: "string \<Rightarrow> string \<Rightarrow> bool" where
  "family_matches model pattern \<longleftrightarrow>
     str_contains model pattern \<or> str_contains model (filter (\<lambda>c. c \<noteq> CHR ''-'') pattern)"

definition has_either :: "string \<Rightarrow> string \<Rightarrow> string \<Rightarrow> bool" where
  "has_either model a b \<longleftrightarrow> str_contains model a \<or> str_contains model b"

definition fallback_family :: "string \<Rightarrow> string" where
  "fallback_family model =
     (if str_contains model ''opus'' then
        (if has_either model ''4.7'' ''4-7'' then ''opus-4.7''
         else if has_either model ''4.6'' ''4-6'' then ''opus-4.6''
         else if has_either model ''4.5'' ''4-5'' then ''opus-4.5''
         else ''opus-4'')
      else if str_contains model ''sonnet'' then
        (if has_either model ''4.5'' ''4-5'' then ''sonnet-4.5''
         else if has_either model ''3-5'' ''3.5'' then ''sonnet-3.5''
         else ''sonnet-4'')
      else if str_contains model ''haiku'' then
        (if has_either model ''3-5'' ''3.5'' then ''haiku-3.5'' else ''haiku-3'')
      else [])"

definition model_family :: "string \<Rightarrow> (string \<times> string list \<times> string list) option" where
  "model_family model =
     (case find (\<lambda>(n, ms, ps). list_ex (family_matches model) ms) model_families of
        Some f \<Rightarrow> Some f
      | None \<Rightarrow> find (\<lambda>(n, ms, ps). n = fallback_family model) model_families)"

text \<open>The first entry of the iteration whose lower-case name contains the pattern.\<close>

definition find_containing :: "'v gomap \<Rightarrow> string \<Rightarrow> 'v option" where
  "find_containing data pattern =
     map_option snd (find (\<lambda>(key, p). str_contains (to_lower key) pattern) data)"

fun find_first_containing :: "'v gomap \<Rightarrow> string list \<Rightarrow> 'v option" where
  "find_first_containing data [] = None"
| "find_first_containing data (pattern # rest) =
     (case find_containing data pattern of Some v \<Rightarrow> Some v | None \<Rightarrow> find_first_containing data rest)"

definition matchByModelFamily :: "litellm_pricing gomap \<Rightarrow> string \<Rightarrow> litellm_pricing option" where
  "matchByModelFamily data model =
     (case model_family model of
        None \<Rightarrow> None
      | Some (n, ms, ps) \<Rightarrow> find_first_containing data (if ps = [] then ms else ps))"

section \<open>OpenAI fallbacks\<close>

text \<open>\<open>-\d{8}$\<close> removed.\<close>

definition strip_date :: "string \<Rightarrow> string" where
  "strip_date s =
     (let n = length s - 9; tl9 = drop n s in
      if 9 \<le> length s \<and> hd tl9 = CHR ''-'' \<and> isNumeric (tl tl9) then take n s else s)"

text \<open>The first group of \<open>^(gpt-\d+(?:\.\d+)?)(?:-|$)\<close>.\<close>

definition base_version :: "string \<Rightarrow> string option" where
  "base_version s =
     (if \<not> has_prefix s ''gpt-'' then None
      else (let r = trim_prefix s ''gpt-'';
                d = takeWhile is_digit r; r1 = dropWhile is_digit r;
                e = takeWhile is_digit (tl r1); r2 = dropWhile is_digit (tl r1);
                ends = (\<lambda>x. x = [] \<or> hd x = CHR ''-'')
            in if d = [] then None
               else if r1 \<noteq> [] \<and> hd r1 = CHR ''.'' \<and> e \<noteq> [] \<and> ends r2
               then Some (''gpt-'' @ d @ ''.'' @ e)
               else if ends r1 then Some (''gpt-'' @ d) else None))"

definition add_variant :: "string \<Rightarrow> string list \<Rightarrow> string option \<Rightarrow> string list" where
  "add_variant model variants ov =
     (case ov of
        None \<Rightarrow> variants
      | Some v \<Rightarrow> if v \<noteq> model \<and> v \<notin> set variants then variants @ [v] else variants)"

definition generateOpenAIModelVariants :: "string \<Rightarrow> string list" where
  "generateOpenAIModelVariants model =
     (let withoutDate = strip_date model;
          v1 = (if withoutDate \<noteq> model then add_variant model [] (Some withoutDate) else []);
          v2 = add_variant model v1 (base_version model)
      in if withoutDate \<noteq> model then add_variant model v2 (base_version withoutDate) else v2)"

abbreviation DefaultTestModel :: string where "DefaultTestModel \<equiv> ''gpt-5.4''"

fun first_lookup :: "'v gomap \<Rightarrow> string list \<Rightarrow> 'v option" where
  "first_lookup data [] = None"
| "first_lookup data (k # ks) = (case map_of data k of Some v \<Rightarrow> Some v | None \<Rightarrow> first_lookup data ks)"

definition matchOpenAIModel :: "litellm_pricing gomap \<Rightarrow> string \<Rightarrow> litellm_pricing option" where
  "matchOpenAIModel data model =
     (let spark = (if has_prefix model ''gpt-5.3-codex-spark'' then map_of data ''gpt-5.1-codex'' else None);
          variant = first_lookup data (generateOpenAIModelVariants model);
          codex = (if has_prefix model ''gpt-5.3-codex'' then map_of data ''gpt-5.2-codex'' else None)
      in if spark \<noteq> None then spark
         else if variant \<noteq> None then variant
         else if codex \<noteq> None then codex
         else if has_prefix model ''gpt-5.5'' then Some openAIGPT54FallbackPricing
         else if has_prefix model ''gpt-5.4-mini'' then Some openAIGPT54MiniFallbackPricing
         else if has_prefix model ''gpt-5.4-nano'' then Some openAIGPT54NanoFallbackPricing
         else if has_prefix model ''gpt-5.4'' then Some openAIGPT54FallbackPricing
         else if isOpenAIImageGenerationModel model
         then first_lookup data [''gpt-image-2'', ''gpt-image-1.5'', ''gpt-image-1'']
         else map_of data (to_lower DefaultTestModel))"

section \<open>The lookup\<close>

definition find_base :: "'v gomap \<Rightarrow> string \<Rightarrow> 'v option" where
  "find_base data baseName =
     map_option snd (find (\<lambda>(key, p). extractBaseName (to_lower key) = baseName) data)"

definition litellm_GetModelPricing :: "litellm_pricing gomap \<Rightarrow> string \<Rightarrow> litellm_pricing option" where
  "litellm_GetModelPricing data modelName =
     (if modelName = [] then None
      else (let cands = buildModelLookupCandidates (to_lower (trim_space modelName));
                exact = first_lookup data (filter (\<lambda>c. c \<noteq> []) cands);
                variant = first_lookup data (map (replace_all ''-4-5-'' ''-4.5-'') cands);
                base = find_base data (extractBaseName (hd cands));
                fam = matchByModelFamily data (hd cands)
            in if exact \<noteq> None then exact
               else if variant \<noteq> None then variant
               else if base \<noteq> None then base
               else if fam \<noteq> None then fam
               else if has_prefix (hd cands) ''gpt-'' then matchOpenAIModel data (hd cands)
               else None))"

definition ListModelNamesByProvider :: "litellm_pricing gomap \<Rightarrow> string \<Rightarrow> string list" where
  "ListModelNamesByProvider data provider =
     (let p = to_lower (trim_space provider) in
      sort_by str_lt (map fst (filter (\<lambda>(name, v). to_lower (LiteLLMProvider v) = p) data)))"

section \<open>Facts\<close>

lemma first_lookup_same_map: "same_map d d' \<Longrightarrow> first_lookup d ks = first_lookup d' ks"
  by (induction ks) (simp_all add: same_map_lookup split: option.split)

section \<open>Properties\<close>

text \<open>A price that is found under one of the candidate names themselves does not depend on the
  order in which the catalogue is iterated, nor does the list of a provider's models.\<close>

theorem exact_price_order_independent:
  assumes "same_map d d'"
    and "first_lookup d (filter (\<lambda>c. c \<noteq> []) (buildModelLookupCandidates (to_lower (trim_space m)))) \<noteq> None"
  shows "litellm_GetModelPricing d m = litellm_GetModelPricing d' m
    \<and> ListModelNamesByProvider d p = ListModelNamesByProvider d' p"
proof
  show "litellm_GetModelPricing d m = litellm_GetModelPricing d' m"
    using assms(2) first_lookup_same_map [OF assms(1)]
    by (simp add: litellm_GetModelPricing_def Let_def)
  have "mset (map fst (filter P d)) = mset (map fst (filter P d'))" for P
    using assms(1) by (simp add: same_map_def mset_filter)
  then show "ListModelNamesByProvider d p = ListModelNamesByProvider d' p"
    unfolding ListModelNamesByProvider_def Let_def
    by (intro str_order.sort_by_unique) (auto intro: str_lt_total)
qed

lemma exact_price_order_independent_witness:
  "litellm_GetModelPricing [(''a'', zero_litellm), (''b'', openAIGPT54FallbackPricing)] ''a''
     = litellm_GetModelPricing [(''b'', openAIGPT54FallbackPricing), (''a'', zero_litellm)] ''a''"
proof -
  have c: "filter (\<lambda>c. c \<noteq> []) (buildModelLookupCandidates (to_lower (trim_space ''a''))) = [''a'']"
    by code_simp
  have "same_map [(''a'', zero_litellm), (''b'', openAIGPT54FallbackPricing)]
      [(''b'', openAIGPT54FallbackPricing), (''a'', zero_litellm)]"
    by (simp add: same_map_def map_wf_def add_mset_commute)
  from exact_price_order_independent [OF this, of "''a''"] show ?thesis unfolding c by simp
qed

text \<open>A price that is found by family still depends on the order in which the catalogue is
  iterated: for the same catalogue, \<open>claude-opus-4-20250514\<close> is priced as \<open>claude-opus-4-1\<close> or as
  \<open>claude-opus-4-5\<close>.\<close>

theorem family_price_order_dependent:
  "\<exists>d d'. same_map d d' \<and>
     litellm_GetModelPricing d ''claude-opus-4-20250514'' \<noteq> litellm_GetModelPricing d' ''claude-opus-4-20250514''"
proof -
  let ?a = "(''claude-opus-4-1'', zero_litellm)"
  let ?b = "(''claude-opus-4-5'', zero_litellm\<lparr>LongContextInputTokenThreshold := 1\<rparr>)"
  let ?m = "''claude-opus-4-20250514''"
  have c: "buildModelLookupCandidates (to_lower (trim_space ?m)) = [?m]" by code_simp
  have f: "model_family ?m = Some (''opus-4'', [''claude-opus-4'', ''claude-3-opus''], [])" by code_simp
  have v: "replace_all ''-4-5-'' ''-4.5-'' ?m = ?m" by code_simp
  have e: "extractBaseName (to_lower ''claude-opus-4-1'') = ''claude-opus-4-1''"
    "extractBaseName (to_lower ''claude-opus-4-5'') = ''claude-opus-4-5''" "extractBaseName ?m = ''claude-opus-4''"
    by code_simp+
  have s: "str_contains (to_lower ''claude-opus-4-1'') ''claude-opus-4''"
    "str_contains (to_lower ''claude-opus-4-5'') ''claude-opus-4''" by code_simp+
  have r: "litellm_GetModelPricing [?a, ?b] ?m = Some (snd ?a)"
    "litellm_GetModelPricing [?b, ?a] ?m = Some (snd ?b)"
    by (simp_all add: litellm_GetModelPricing_def Let_def c v f e s find_base_def matchByModelFamily_def
        find_containing_def)
  have "same_map [?a, ?b] [?b, ?a]" by (simp add: same_map_def map_wf_def add_mset_commute)
  moreover have "Some (snd ?a) \<noteq> Some (snd ?b)" by (simp add: zero_litellm_def)
  ultimately show ?thesis using r by metis
qed

end
