(* ===== verification/ChannelPricing.thy ===== *)
theory ChannelPricing
  imports GoValue
begin

text \<open>
  Channels and their price tables (\<open>service/channel.go\<close>): the records, the intervals of a
  price table with their validation and lookup, the exact price lookup, the feature switches
  and the list of supported models that is shown to users. Copies (\<open>Clone\<close>) do not appear:
  the model's values are not shared. A nil slice or map reads as an empty one.
\<close>

section \<open>Data\<close>

definition BillingModeToken :: string where "BillingModeToken = ''token''"
definition BillingModePerRequest :: string where "BillingModePerRequest = ''per_request''"
definition BillingModeImage :: string where "BillingModeImage = ''image''"

definition BillingMode_IsValid :: "string \<Rightarrow> bool" where
  "BillingMode_IsValid m \<longleftrightarrow>
     m = BillingModeToken \<or> m = BillingModePerRequest \<or> m = BillingModeImage \<or> m = []"

definition BillingModelSourceRequested :: string where "BillingModelSourceRequested = ''requested''"
definition BillingModelSourceUpstream :: string where "BillingModelSourceUpstream = ''upstream''"
definition BillingModelSourceChannelMapped :: string where
  "BillingModelSourceChannelMapped = ''channel_mapped''"

record PricingInterval =
  iv_ID :: int
  iv_PricingID :: int
  iv_MinTokens :: int
  iv_MaxTokens :: "int option"
  iv_TierLabel :: string
  iv_InputPrice :: "float64 option"
  iv_OutputPrice :: "float64 option"
  iv_CacheWritePrice :: "float64 option"
  iv_CacheReadPrice :: "float64 option"
  iv_PerRequestPrice :: "float64 option"
  iv_SortOrder :: int
  iv_CreatedAt :: gtime
  iv_UpdatedAt :: gtime

record ChannelModelPricing =
  cmp_ID :: int
  cmp_ChannelID :: int
  cmp_Platform :: string
  cmp_Models :: "string list"
  cmp_BillingMode :: string
  cmp_InputPrice :: "float64 option"
  cmp_OutputPrice :: "float64 option"
  cmp_CacheWritePrice :: "float64 option"
  cmp_CacheReadPrice :: "float64 option"
  cmp_ImageOutputPrice :: "float64 option"
  cmp_PerRequestPrice :: "float64 option"
  cmp_Intervals :: "PricingInterval list"
  cmp_CreatedAt :: gtime
  cmp_UpdatedAt :: gtime

record AccountStatsPricingRule =
  asr_ID :: int
  asr_ChannelID :: int
  asr_Name :: string
  asr_GroupIDs :: "int list"
  asr_AccountIDs :: "int list"
  asr_SortOrder :: int
  asr_Pricing :: "ChannelModelPricing list"
  asr_CreatedAt :: gtime
  asr_UpdatedAt :: gtime

record Channel =
  ch_ID :: int
  ch_Name :: string
  ch_Description :: string
  ch_Status :: string
  ch_BillingModelSource :: string
  ch_RestrictModels :: bool
  ch_Features :: string
  ch_FeaturesConfig :: gobj
  ch_CreatedAt :: gtime
  ch_UpdatedAt :: gtime
  ch_GroupIDs :: "int list"
  ch_ModelPricing :: "ChannelModelPricing list"
  ch_ModelMapping :: "string gomap gomap"
  ch_ApplyPricingToAccountStats :: bool
  ch_AccountStatsPricingRules :: "AccountStatsPricingRule list"

definition Channel_IsActive :: "Channel \<Rightarrow> bool" where
  "Channel_IsActive c \<longleftrightarrow> ch_Status c = ''active''"

definition normalizeBillingModelSource :: "Channel \<Rightarrow> Channel" where
  "normalizeBillingModelSource c =
     (if ch_BillingModelSource c = [] then c\<lparr>ch_BillingModelSource := BillingModelSourceChannelMapped\<rparr>
      else c)"

section \<open>Lookups\<close>

definition lists_model :: "string \<Rightarrow> ChannelModelPricing \<Rightarrow> bool" where
  "lists_model model p \<longleftrightarrow> list_ex (\<lambda>m. to_lower m = to_lower model) (cmp_Models p)"

definition Channel_GetModelPricing :: "Channel \<Rightarrow> string \<Rightarrow> ChannelModelPricing option" where
  "Channel_GetModelPricing c model = find (lists_model model) (ch_ModelPricing c)"

definition GetModelPricingByPlatform :: "Channel option \<Rightarrow> string \<Rightarrow> string \<Rightarrow> ChannelModelPricing option" where
  "GetModelPricingByPlatform co platform model =
     (case co of None \<Rightarrow> None
      | Some c \<Rightarrow> find (\<lambda>p. cmp_Platform p = platform \<and> lists_model model p) (ch_ModelPricing c))"

definition iv_matches :: "int \<Rightarrow> PricingInterval \<Rightarrow> bool" where
  "iv_matches totalTokens iv \<longleftrightarrow>
     totalTokens > iv_MinTokens iv
     \<and> (case iv_MaxTokens iv of None \<Rightarrow> True | Some m \<Rightarrow> totalTokens \<le> m)"

definition FindMatchingInterval :: "PricingInterval list \<Rightarrow> int \<Rightarrow> PricingInterval option" where
  "FindMatchingInterval intervals totalTokens = find (iv_matches totalTokens) intervals"

definition GetIntervalForContext :: "ChannelModelPricing \<Rightarrow> int \<Rightarrow> PricingInterval option" where
  "GetIntervalForContext p totalTokens = FindMatchingInterval (cmp_Intervals p) totalTokens"

definition GetTierByLabel :: "ChannelModelPricing \<Rightarrow> string \<Rightarrow> PricingInterval option" where
  "GetTierByLabel p label = find (\<lambda>iv. to_lower (iv_TierLabel iv) = to_lower label) (cmp_Intervals p)"

section \<open>Feature switches\<close>

definition Channel_IsWebSearchEmulationEnabled :: "Channel option \<Rightarrow> string \<Rightarrow> bool" where
  "Channel_IsWebSearchEmulationEnabled co platform =
     (case co of None \<Rightarrow> False
      | Some c \<Rightarrow>
          (case as_obj (mget (ch_FeaturesConfig c) ''web_search_emulation'') of
             None \<Rightarrow> False
           | Some wse \<Rightarrow> opt_default False (as_bool (mget wse platform))))"

definition IsBedrockCCCompatEnabled :: "Channel option \<Rightarrow> string \<Rightarrow> bool" where
  "IsBedrockCCCompatEnabled co platform =
     (case co of None \<Rightarrow> False
      | Some c \<Rightarrow> opt_default False (as_bool (mget (ch_FeaturesConfig c) ''bedrock_cc_compat'')))"

section \<open>Validation of intervals\<close>

text \<open>The error messages of the validation with their arguments; the index counts from one.\<close>

datatype interval_error =
    MinTokensNegative nat int
  | MaxTokensNotPositive nat int
  | MaxTokensNotAboveMin nat int int
  | PriceNegative nat string
  | UnboundedNotLast nat
  | IntervalsOverlap nat nat "int option" int

definition negative_price :: "float64 option \<Rightarrow> bool" where
  "negative_price p = (case p of None \<Rightarrow> False | Some x \<Rightarrow> f_lt x f_zero)"

definition validateIntervalPrices :: "PricingInterval \<Rightarrow> nat \<Rightarrow> interval_error option" where
  "validateIntervalPrices iv idx =
     (let prices = [(''input_price'', iv_InputPrice iv), (''output_price'', iv_OutputPrice iv),
                    (''cache_write_price'', iv_CacheWritePrice iv), (''cache_read_price'', iv_CacheReadPrice iv),
                    (''per_request_price'', iv_PerRequestPrice iv)]
      in map_option (\<lambda>(name, v). PriceNegative (idx + 1) name)
           (find (\<lambda>(name, v). negative_price v) prices))"

definition validateSingleInterval :: "PricingInterval \<Rightarrow> nat \<Rightarrow> interval_error option" where
  "validateSingleInterval iv idx =
     (if iv_MinTokens iv < 0 then Some (MinTokensNegative (idx + 1) (iv_MinTokens iv))
      else case iv_MaxTokens iv of
        None \<Rightarrow> validateIntervalPrices iv idx
      | Some m \<Rightarrow>
          if m \<le> 0 then Some (MaxTokensNotPositive (idx + 1) m)
          else if m \<le> iv_MinTokens iv then Some (MaxTokensNotAboveMin (idx + 1) m (iv_MinTokens iv))
          else validateIntervalPrices iv idx)"

fun validate_each :: "nat \<Rightarrow> PricingInterval list \<Rightarrow> interval_error option" where
  "validate_each i [] = None"
| "validate_each i (iv # ivs) =
     (case validateSingleInterval iv i of Some e \<Rightarrow> Some e | None \<Rightarrow> validate_each (Suc i) ivs)"

text \<open>The loop of \<open>validateIntervalOverlap\<close>, with the previous interval.\<close>

fun overlap_from :: "nat \<Rightarrow> PricingInterval option \<Rightarrow> PricingInterval list \<Rightarrow> interval_error option" where
  "overlap_from i prev [] = None"
| "overlap_from i prev (iv # rest) =
     (if iv_MaxTokens iv = None \<and> rest \<noteq> [] then Some (UnboundedNotLast (i + 1))
      else case prev of
        None \<Rightarrow> overlap_from (Suc i) (Some iv) rest
      | Some p \<Rightarrow>
          if (case iv_MaxTokens p of None \<Rightarrow> True | Some m \<Rightarrow> m > iv_MinTokens iv)
          then Some (IntervalsOverlap i (i + 1) (iv_MaxTokens p) (iv_MinTokens iv))
          else overlap_from (Suc i) (Some iv) rest)"

definition validateIntervalOverlap :: "PricingInterval list \<Rightarrow> interval_error option" where
  "validateIntervalOverlap ordered = overlap_from 0 None ordered"

definition min_less :: "PricingInterval \<Rightarrow> PricingInterval \<Rightarrow> bool" where
  "min_less x y \<longleftrightarrow> iv_MinTokens x < iv_MinTokens y"

definition ValidateIntervals :: "PricingInterval list \<Rightarrow> string \<Rightarrow> interval_error option" where
  "ValidateIntervals intervals mode =
     (if intervals = [] then None
      else let ordered = sort_by min_less intervals in
        case validate_each 0 ordered of
          Some e \<Rightarrow> Some e
        | None \<Rightarrow> if mode = BillingModePerRequest \<or> mode = BillingModeImage then None
                 else validateIntervalOverlap ordered)"

interpretation iv_order: strict_weak min_less
  by unfold_locales (auto simp: min_less_def)

subsection \<open>What a validated table guarantees\<close>

definition iv_ok :: "PricingInterval \<Rightarrow> bool" where
  "iv_ok iv \<longleftrightarrow> 0 \<le> iv_MinTokens iv
     \<and> (case iv_MaxTokens iv of None \<Rightarrow> True | Some m \<Rightarrow> iv_MinTokens iv < m)
     \<and> \<not> negative_price (iv_InputPrice iv) \<and> \<not> negative_price (iv_OutputPrice iv)
     \<and> \<not> negative_price (iv_CacheWritePrice iv) \<and> \<not> negative_price (iv_CacheReadPrice iv)
     \<and> \<not> negative_price (iv_PerRequestPrice iv)"

definition iv_before :: "PricingInterval \<Rightarrow> PricingInterval \<Rightarrow> bool" where
  "iv_before a b = (case iv_MaxTokens a of None \<Rightarrow> False | Some m \<Rightarrow> m \<le> iv_MinTokens b)"

lemma validateSingleInterval_ok: "validateSingleInterval iv i = None \<longleftrightarrow> iv_ok iv"
  by (auto simp: validateSingleInterval_def validateIntervalPrices_def iv_ok_def split: option.splits)

lemma validate_each_ok: "validate_each i ivs = None \<longleftrightarrow> list_all iv_ok ivs"
proof (induction ivs arbitrary: i)
  case (Cons iv ivs)
  then show ?case
    using validateSingleInterval_ok [of iv i]
    by (cases "validateSingleInterval iv i") auto
qed simp

lemma iv_before_trans: "iv_before a b \<Longrightarrow> iv_ok b \<Longrightarrow> iv_before b c \<Longrightarrow> iv_before a c"
  by (auto simp: iv_before_def iv_ok_def split: option.splits)

lemma sorted_before_Cons:
  assumes "list_all iv_ok (a # ivs)"
  shows "sorted_wrt iv_before (p # a # ivs) \<longleftrightarrow> iv_before p a \<and> sorted_wrt iv_before (a # ivs)"
proof -
  have "iv_before p x" if "iv_before p a" "iv_before a x" for x
    using iv_before_trans [OF that(1) _ that(2)] assms by simp
  then show ?thesis by auto
qed

lemma overlap_from_Some:
  "list_all iv_ok ivs \<Longrightarrow> overlap_from i (Some p) ivs = None \<longleftrightarrow> sorted_wrt iv_before (p # ivs)"
proof (induction ivs arbitrary: i p)
  case (Cons iv rest)
  show ?case
  proof (cases "iv_MaxTokens iv = None \<and> rest \<noteq> []")
    case True
    then have "\<not> sorted_wrt iv_before (iv # rest)" by (cases rest) (auto simp: iv_before_def)
    then show ?thesis using True by simp
  next
    case False
    have "overlap_from i (Some p) (iv # rest) = None
        \<longleftrightarrow> iv_before p iv \<and> overlap_from (Suc i) (Some iv) rest = None"
      using False by (cases "iv_MaxTokens p") (auto simp: iv_before_def not_less)
    then show ?thesis
      using Cons by (simp only: sorted_before_Cons [OF Cons.prems]) simp
  qed
qed simp

lemma validateIntervalOverlap_ok:
  assumes "list_all iv_ok ivs"
  shows "validateIntervalOverlap ivs = None \<longleftrightarrow> sorted_wrt iv_before ivs"
proof (cases ivs)
  case (Cons iv rest)
  then have "iv_ok iv" "list_all iv_ok rest" using assms by auto
  then show ?thesis
    using overlap_from_Some [of rest 1 iv]
    by (cases rest) (auto simp: Cons validateIntervalOverlap_def iv_before_def)
qed (simp add: validateIntervalOverlap_def)

lemma ValidateIntervals_iff:
  "ValidateIntervals ivs mode = None \<longleftrightarrow> list_all iv_ok ivs \<and>
     (mode = BillingModePerRequest \<or> mode = BillingModeImage \<or> sorted_wrt iv_before (sort_by min_less ivs))"
proof -
  have l: "list_all iv_ok (sort_by min_less ivs) \<longleftrightarrow> list_all iv_ok ivs" by (simp add: list_all_iff)
  show ?thesis
    using validate_each_ok [of 0 "sort_by min_less ivs"] validateIntervalOverlap_ok [of "sort_by min_less ivs"]
    by (cases "validate_each 0 (sort_by min_less ivs)") (auto simp: ValidateIntervals_def Let_def l)
qed

lemma iv_before_less: "iv_ok a \<Longrightarrow> iv_before a b \<Longrightarrow> min_less a b"
  by (auto simp: iv_before_def iv_ok_def min_less_def split: option.splits)

lemma iv_before_disjoint: "iv_before a b \<Longrightarrow> \<not> (iv_matches n a \<and> iv_matches n b)"
  by (auto simp: iv_before_def iv_matches_def split: option.splits)

lemma separated_unique:
  "sorted_wrt iv_before ivs \<Longrightarrow> x \<in> set ivs \<Longrightarrow> y \<in> set ivs \<Longrightarrow>
   iv_matches n x \<Longrightarrow> iv_matches n y \<Longrightarrow> x = y"
  by (induction ivs) (auto dest: iv_before_disjoint)

lemma separated_mins:
  "sorted_wrt iv_before ivs \<Longrightarrow> list_all iv_ok ivs \<Longrightarrow> x \<in> set ivs \<Longrightarrow> y \<in> set ivs \<Longrightarrow>
   \<not> min_less x y \<Longrightarrow> \<not> min_less y x \<Longrightarrow> x = y"
  by (induction ivs) (auto dest: iv_before_less)

text \<open>The order in which the library leaves equal lower bounds cannot matter.\<close>

lemma ValidateIntervals_perm:
  assumes v: "ValidateIntervals ivs mode = None" and m: "mset ivs' = mset ivs"
  shows "ValidateIntervals ivs' mode = None"
proof -
  have s: "set ivs' = set ivs" using m by (metis set_mset_mset)
  have ok: "list_all iv_ok ivs" using v by (simp add: ValidateIntervals_iff)
  have "sort_by min_less ivs' = sort_by min_less ivs" if "sorted_wrt iv_before (sort_by min_less ivs)"
    using m separated_mins [OF that] ok s
    by (intro iv_order.sort_by_unique) (auto simp: list_all_iff)
  then show ?thesis using v ok by (auto simp: ValidateIntervals_iff list_all_iff s)
qed

lemma find_unique_perm:
  assumes "set xs = set ys" and "\<And>x y. x \<in> set xs \<Longrightarrow> y \<in> set xs \<Longrightarrow> P x \<Longrightarrow> P y \<Longrightarrow> x = y"
  shows "find P xs = find P ys"
proof (cases "find P xs")
  case None
  then show ?thesis using assms(1) find_None_iff [of P xs] find_None_iff [of P ys] by auto
next
  case (Some x)
  then have x: "x \<in> set xs" "P x" by (auto simp: find_Some_iff)
  then obtain y where y: "find P ys = Some y" using assms(1) find_None_iff [of P ys] by (cases "find P ys") auto
  then have "y \<in> set xs" "P y" using assms(1) by (auto simp: find_Some_iff)
  then show ?thesis using Some x y assms(2) by auto
qed

section \<open>Supported models\<close>

definition splitWildcardSuffix :: "string \<Rightarrow> string \<times> bool" where
  "splitWildcardSuffix pattern =
     (if has_suffix pattern ''*'' then (trim_suffix pattern ''*'', True) else (pattern, False))"

abbreviation is_wild :: "string \<Rightarrow> bool" where
  "is_wild m \<equiv> snd (splitWildcardSuffix m)"

record SupportedModel =
  sm_Name :: string
  sm_Platform :: string
  sm_Pricing :: "ChannelModelPricing option"

record platformPricingIndex =
  pi_byLower :: "ChannelModelPricing gomap"
  pi_originalCase :: "string gomap"
  pi_names :: "string list"

definition empty_index :: platformPricingIndex where
  "empty_index = \<lparr>pi_byLower = [], pi_originalCase = [], pi_names = []\<rparr>"

definition index_model :: "ChannelModelPricing \<Rightarrow> string \<Rightarrow> platformPricingIndex \<Rightarrow> platformPricingIndex" where
  "index_model p m pidx =
     (if is_wild m then pidx
      else let lower = to_lower m in
        if map_of (pi_byLower pidx) lower \<noteq> None then pidx
        else \<lparr>pi_byLower = map_put lower p (pi_byLower pidx),
              pi_originalCase = map_put lower m (pi_originalCase pidx),
              pi_names = pi_names pidx @ [m]\<rparr>)"

definition index_pricing :: "ChannelModelPricing \<Rightarrow> platformPricingIndex gomap \<Rightarrow> platformPricingIndex gomap" where
  "index_pricing p idx =
     map_put (cmp_Platform p)
       (fold (index_model p) (cmp_Models p) (opt_default empty_index (map_of idx (cmp_Platform p)))) idx"

definition buildPricingIndex :: "ChannelModelPricing list \<Rightarrow> platformPricingIndex gomap" where
  "buildPricingIndex pricings = fold index_pricing pricings []"

text \<open>The closures of \<open>SupportedModels\<close>: the set \<open>seen\<close> holds the keys of the result so far.\<close>

definition index_lookup :: "platformPricingIndex option \<Rightarrow> string \<Rightarrow> string \<times> ChannelModelPricing option" where
  "index_lookup pidx name =
     (case pidx of None \<Rightarrow> (name, None)
      | Some ix \<Rightarrow>
          if name = [] then (name, None)
          else case map_of (pi_byLower ix) (to_lower name) of
            Some p \<Rightarrow> (opt_default [] (map_of (pi_originalCase ix) (to_lower name)), Some p)
          | None \<Rightarrow> (name, None))"

definition model_key :: "SupportedModel \<Rightarrow> string \<times> string" where
  "model_key s = (sm_Platform s, to_lower (sm_Name s))"

definition add_supported ::
    "string \<Rightarrow> string \<times> ChannelModelPricing option \<Rightarrow> SupportedModel list \<Rightarrow> SupportedModel list" where
  "add_supported platform dp res =
     (if (platform, to_lower (fst dp)) \<in> set (map model_key res) then res
      else res @ [\<lparr>sm_Name = fst dp, sm_Platform = platform, sm_Pricing = snd dp\<rparr>])"

definition add_mapping ::
    "string \<Rightarrow> platformPricingIndex option \<Rightarrow> string \<times> string \<Rightarrow> SupportedModel list \<Rightarrow> SupportedModel list" where
  "add_mapping platform pidx entry res =
     (let (src, target) = entry; (prefix, isWild) = splitWildcardSuffix src in
      if isWild then
        (case pidx of None \<Rightarrow> res
         | Some ix \<Rightarrow>
             fold (\<lambda>candidate res.
                 if has_prefix (to_lower candidate) (to_lower prefix)
                 then add_supported platform (index_lookup pidx candidate) res else res)
               (pi_names ix) res)
      else
        (let k = (if target = [] then src else target);
             pricingKey = (if is_wild k then src else k)
         in add_supported platform
              (fst (index_lookup pidx src), snd (index_lookup pidx pricingKey)) res))"

definition pass_mapping :: "platformPricingIndex gomap \<Rightarrow> string \<times> string gomap \<Rightarrow> SupportedModel list \<Rightarrow> SupportedModel list" where
  "pass_mapping idx pm res = fold (add_mapping (fst pm) (map_of idx (fst pm))) (snd pm) res"

definition pass_pricing :: "string \<times> platformPricingIndex \<Rightarrow> SupportedModel list \<Rightarrow> SupportedModel list" where
  "pass_pricing entry res =
     fold (\<lambda>name. add_supported (fst entry) (index_lookup (Some (snd entry)) name)) (pi_names (snd entry)) res"

definition model_before :: "SupportedModel \<Rightarrow> SupportedModel \<Rightarrow> bool" where
  "model_before x y \<longleftrightarrow>
     (if sm_Platform x \<noteq> sm_Platform y then str_lt (sm_Platform x) (sm_Platform y)
      else str_lt (sm_Name x) (sm_Name y))"

definition SupportedModels :: "Channel option \<Rightarrow> SupportedModel list" where
  "SupportedModels co =
     (case co of None \<Rightarrow> []
      | Some c \<Rightarrow>
          if ch_ModelMapping c = [] \<and> ch_ModelPricing c = [] then []
          else let idx = buildPricingIndex (ch_ModelPricing c) in
            sort_by model_before
              (fold pass_pricing idx (fold (pass_mapping idx) (ch_ModelMapping c) [])))"

interpretation model_order: strict_weak model_before
proof
  show "\<not> model_before y x" if "model_before x y" for x y
    using that by (auto simp: model_before_def dest: str_lt_asym split: if_splits)
  show "\<not> model_before z x" if "\<not> model_before y x" "\<not> model_before z y" for x y z
    using that
    by (auto simp: model_before_def split: if_splits dest: str_lt_neg_trans str_lt_total)
qed

subsection \<open>The index\<close>

definition concrete :: "string list \<Rightarrow> string set" where
  "concrete ms = {to_lower m | m. m \<in> set ms \<and> \<not> is_wild m}"

definition index_ok :: "string set \<Rightarrow> platformPricingIndex \<Rightarrow> bool" where
  "index_ok S ix \<longleftrightarrow> dom (map_of (pi_byLower ix)) = S \<and> dom (map_of (pi_originalCase ix)) = S
     \<and> to_lower ` set (pi_names ix) = S \<and> list_all (\<lambda>n. \<not> is_wild n) (pi_names ix)
     \<and> list_all (\<lambda>(k, v). to_lower v = k \<and> \<not> is_wild v) (pi_originalCase ix)"

lemma concrete_simps [simp]:
  "concrete [] = {}"
  "concrete (m # ms) = (if is_wild m then {} else {to_lower m}) \<union> concrete ms"
  by (auto simp: concrete_def)

lemma set_map_put: "set (map_put k v kv) \<subseteq> insert (k, v) (set kv)"
  by (auto simp: map_put_def map_delete_def)

lemma index_model_ok:
  assumes "index_ok S ix"
  shows "index_ok (S \<union> (if is_wild m then {} else {to_lower m})) (index_model p m ix)"
proof (cases "is_wild m \<or> to_lower m \<in> S")
  case True
  then have "index_model p m ix = ix"
    using assms by (auto simp: index_model_def index_ok_def Let_def)
  then show ?thesis using assms True by (auto simp: insert_absorb)
next
  case False
  then have "map_of (pi_byLower ix) (to_lower m) = None" using assms by (auto simp: index_ok_def)
  then show ?thesis
    using assms False set_map_put [of "to_lower m" m "pi_originalCase ix"]
    by (auto simp: index_model_def index_ok_def Let_def map_put_lookup list_all_iff)
qed

lemma index_models_ok: "index_ok S ix \<Longrightarrow> index_ok (S \<union> concrete ms) (fold (index_model p) ms ix)"
proof (induction ms arbitrary: ix S)
  case (Cons m ms)
  show ?case using Cons.IH [OF index_model_ok [OF Cons.prems]] by (simp add: Un_assoc)
qed simp

definition priced :: "ChannelModelPricing list \<Rightarrow> string \<Rightarrow> string set" where
  "priced ps platform = \<Union> {concrete (cmp_Models p) | p. p \<in> set ps \<and> cmp_Platform p = platform}"

definition idx_ok :: "(string \<Rightarrow> string set) \<Rightarrow> platformPricingIndex gomap \<Rightarrow> bool" where
  "idx_ok S idx \<longleftrightarrow> map_wf idx
     \<and> (\<forall>P. case map_of idx P of None \<Rightarrow> S P = {} | Some ix \<Rightarrow> index_ok (S P) ix)"

lemma empty_index_ok: "index_ok {} empty_index"
  by (simp add: index_ok_def empty_index_def)

lemma index_pricing_ok:
  assumes "idx_ok S idx"
  shows "idx_ok (S (cmp_Platform p := S (cmp_Platform p) \<union> concrete (cmp_Models p))) (index_pricing p idx)"
proof -
  have "index_ok (S (cmp_Platform p)) (opt_default empty_index (map_of idx (cmp_Platform p)))"
    using assms empty_index_ok
    by (cases "map_of idx (cmp_Platform p)") (auto simp: idx_ok_def dest: spec [of _ "cmp_Platform p"])
  note new = index_models_ok [OF this, of "cmp_Models p" p]
  have "case map_of (index_pricing p idx) P of
      None \<Rightarrow> (S (cmp_Platform p := S (cmp_Platform p) \<union> concrete (cmp_Models p))) P = {}
    | Some ix \<Rightarrow> index_ok ((S (cmp_Platform p := S (cmp_Platform p) \<union> concrete (cmp_Models p))) P) ix" for P
  proof (cases "P = cmp_Platform p")
    case True
    then show ?thesis using new by (simp add: index_pricing_def map_put_lookup)
  next
    case False
    then have "(S (cmp_Platform p := S (cmp_Platform p) \<union> concrete (cmp_Models p))) P = S P" by simp
    then show ?thesis
      using assms False by (simp only: idx_ok_def) (simp add: index_pricing_def map_put_lookup)
  qed
  then show ?thesis using assms by (simp add: idx_ok_def index_pricing_def map_put_wf)
qed

lemma priced_Cons:
  "priced (p # ps) = (\<lambda>P. (if cmp_Platform p = P then concrete (cmp_Models p) else {}) \<union> priced ps P)"
  unfolding priced_def by (rule ext) auto

lemma fold_index_ok: "idx_ok S idx \<Longrightarrow> idx_ok (\<lambda>P. S P \<union> priced ps P) (fold index_pricing ps idx)"
proof (induction ps arbitrary: S idx)
  case (Cons p ps)
  have "(\<lambda>P. S P \<union> priced (p # ps) P)
      = (\<lambda>P. (S(cmp_Platform p := S (cmp_Platform p) \<union> concrete (cmp_Models p))) P \<union> priced ps P)"
    by (rule ext) (auto simp: priced_Cons)
  then show ?case using Cons.IH [OF index_pricing_ok [OF Cons.prems, of p]] by simp
qed (simp add: priced_def)

lemma buildPricingIndex_ok: "idx_ok (priced ps) (buildPricingIndex ps)"
  using fold_index_ok [of "\<lambda>_. {}" "[]" ps]
  by (simp add: buildPricingIndex_def idx_ok_def map_wf_def)

subsection \<open>What the list of supported models guarantees\<close>

text \<open>The keys that adding an entry contributes: its own, with a concrete name.\<close>

definition lists_keys :: "(string \<times> string) set \<Rightarrow> SupportedModel list \<Rightarrow> bool" where
  "lists_keys K res \<longleftrightarrow> set (map model_key res) = K \<and> distinct (map model_key res)
     \<and> list_all (\<lambda>s. \<not> is_wild (sm_Name s)) res"

lemma not_wild_Nil [simp]: "\<not> is_wild []"
  by (simp add: splitWildcardSuffix_def has_suffix_def)

lemma add_supported_lists:
  "lists_keys K res \<Longrightarrow> \<not> is_wild (fst dp) \<Longrightarrow> to_lower (fst dp) = n \<Longrightarrow>
   lists_keys (insert (platform, n) K) (add_supported platform dp res)"
  by (auto simp: lists_keys_def add_supported_def model_key_def insert_absorb)

lemma index_lookup_name:
  assumes "\<forall>ix. pidx = Some ix \<longrightarrow> index_ok S ix" and "\<not> is_wild name"
  shows "to_lower (fst (index_lookup pidx name)) = to_lower name
    \<and> \<not> is_wild (fst (index_lookup pidx name))"
proof (cases pidx)
  case (Some ix)
  then have ok: "index_ok S ix" using assms by simp
  show ?thesis
  proof (cases "map_of (pi_byLower ix) (to_lower name)")
    case (Some p)
    then have "to_lower name \<in> dom (map_of (pi_originalCase ix))" using ok by (auto simp: index_ok_def)
    then obtain v where v: "map_of (pi_originalCase ix) (to_lower name) = Some v" by auto
    then have "to_lower v = to_lower name \<and> \<not> is_wild v"
      using ok by (auto simp: index_ok_def list_all_iff dest!: map_of_SomeD)
    then show ?thesis using Some v assms \<open>pidx = Some ix\<close>
      by (cases "name = []") (simp_all add: index_lookup_def)
  qed (use assms Some in \<open>simp add: index_lookup_def\<close>)
qed (use assms in \<open>simp add: index_lookup_def\<close>)

lemma add_names_lists:
  assumes "index_ok S ix"
  shows "lists_keys K res \<Longrightarrow> list_all (\<lambda>n. \<not> is_wild n) ns \<Longrightarrow>
    lists_keys (K \<union> {(P, to_lower n) | n. n \<in> set ns \<and> sel n})
      (fold (\<lambda>n res. if sel n then add_supported P (index_lookup (Some ix) n) res else res) ns res)"
proof (induction ns arbitrary: K res)
  case (Cons n ns)
  let ?r = "if sel n then add_supported P (index_lookup (Some ix) n) res else res"
  have "lists_keys (K \<union> (if sel n then {(P, to_lower n)} else {})) ?r"
    using add_supported_lists [of K res "index_lookup (Some ix) n" "to_lower n" P]
      index_lookup_name [of "Some ix" S n] Cons.prems assms by auto
  from Cons.IH [OF this] Cons.prems show ?case
    by (auto elim!: back_subst [of "\<lambda>K. lists_keys K _"])
qed simp

text \<open>The models of a channel: the concrete sources of its mappings and its priced models.\<close>

definition mapped_keys :: "string gomap gomap \<Rightarrow> (string \<times> string) set" where
  "mapped_keys mm = {(P, to_lower src) | P src kv t. (P, kv) \<in> set mm \<and> (src, t) \<in> set kv \<and> \<not> is_wild src}"

definition priced_keys :: "ChannelModelPricing list \<Rightarrow> (string \<times> string) set" where
  "priced_keys ps = {(P, m) | P m. m \<in> priced ps P}"

definition lists_between :: "(string \<times> string) set \<Rightarrow> (string \<times> string) set \<Rightarrow> SupportedModel list \<Rightarrow> bool" where
  "lists_between K U res \<longleftrightarrow> (\<exists>L. lists_keys L res \<and> K \<subseteq> L \<and> L \<subseteq> U)"

lemma betweenI: "lists_keys L res \<Longrightarrow> K \<subseteq> L \<Longrightarrow> L \<subseteq> U \<Longrightarrow> lists_between K U res"
  by (auto simp: lists_between_def)

lemma between_fold:
  assumes "\<And>K x res. x \<in> set xs \<Longrightarrow> lists_between K U res \<Longrightarrow> lists_between (K \<union> need x) U (f x res)"
    and "lists_between K U res"
  shows "lists_between (K \<union> \<Union> (need ` set xs)) U (fold f xs res)"
  using assms
proof (induction xs arbitrary: K res)
  case (Cons x xs)
  have "lists_between (K \<union> need x) U (f x res)" using Cons.prems by simp
  then have "lists_between ((K \<union> need x) \<union> \<Union> (need ` set xs)) U (fold f xs (f x res))"
    using Cons.prems(1) by (intro Cons.IH) auto
  then show ?case by (simp add: Un_assoc)
qed simp

lemma add_mapping_between:
  assumes ix: "\<forall>ix. pidx = Some ix \<longrightarrow> index_ok (priced ps P) ix"
    and U: "priced_keys ps \<subseteq> U" "\<not> is_wild src \<Longrightarrow> (P, to_lower src) \<in> U"
    and b: "lists_between K U res"
  shows "lists_between (K \<union> (if is_wild src then {} else {(P, to_lower src)})) U
    (add_mapping P pidx (src, tgt) res)"
proof -
  obtain L where L: "lists_keys L res" "K \<subseteq> L" "L \<subseteq> U" using b by (auto simp: lists_between_def)
  show ?thesis
  proof (cases "is_wild src")
    case True
    show ?thesis
    proof (cases pidx)
      case (Some i)
      let ?sel = "\<lambda>n. has_prefix (to_lower n) (to_lower (fst (splitWildcardSuffix src)))"
      let ?A = "{(P, to_lower n) | n. n \<in> set (pi_names i) \<and> ?sel n}"
      have i: "index_ok (priced ps P) i" using ix Some by simp
      then have "?A \<subseteq> priced_keys ps" by (auto simp: index_ok_def priced_keys_def)
      then show ?thesis
        using True L U add_names_lists [OF i L(1), of "pi_names i" P ?sel] i
        by (auto simp: add_mapping_def Some Let_def split_beta index_ok_def intro!: betweenI [where L = "L \<union> ?A"])
    qed (use True b in \<open>simp add: add_mapping_def Let_def split_beta\<close>)
  next
    case False
    then show ?thesis
      using L U index_lookup_name [OF ix False]
      by (auto simp: add_mapping_def Let_def split_beta
          intro!: betweenI [where L = "insert (P, to_lower src) L"] add_supported_lists)
  qed
qed

lemma idx_ok_lookup: "idx_ok S idx \<Longrightarrow> \<forall>ix. map_of idx P = Some ix \<longrightarrow> index_ok (S P) ix"
  by (auto simp: idx_ok_def dest!: spec [of _ P])

lemma pass_mapping_between:
  assumes "idx_ok (priced ps) idx" "priced_keys ps \<subseteq> U" "mapped_keys [(P, kv)] \<subseteq> U" "lists_between K U res"
  shows "lists_between (K \<union> mapped_keys [(P, kv)]) U (pass_mapping idx (P, kv) res)"
proof -
  let ?need = "\<lambda>st. if is_wild (fst st) then {} else {(P, to_lower (fst st))}"
  have m: "mapped_keys [(P, kv)] = \<Union> (?need ` set kv)" by (force simp: mapped_keys_def)
  show ?thesis
    unfolding m pass_mapping_def fst_conv snd_conv
  proof (rule between_fold [OF _ assms(4)])
    fix K x res
    assume x: "x \<in> set kv" and b: "lists_between K U res"
    have "\<not> is_wild (fst x) \<Longrightarrow> (P, to_lower (fst x)) \<in> U" using x assms(3) unfolding m by force
    from add_mapping_between [OF idx_ok_lookup [OF assms(1)] assms(2) this b, of "snd x"]
    show "lists_between (K \<union> ?need x) U (add_mapping P (map_of idx P) x res)" by simp
  qed
qed

lemma pass_pricing_between:
  assumes "idx_ok (priced ps) idx" "priced_keys ps \<subseteq> U" "(P, ix) \<in> set idx" "lists_between K U res"
  shows "lists_between (K \<union> {(P, m) | m. m \<in> priced ps P}) U (pass_pricing (P, ix) res)"
proof -
  have i: "index_ok (priced ps P) ix"
    using assms(1,3) idx_ok_lookup [OF assms(1), of P] by (simp add: idx_ok_def map_wf_def)
  obtain L where L: "lists_keys L res" "K \<subseteq> L" "L \<subseteq> U" using assms(4) by (auto simp: lists_between_def)
  have e: "{(P, to_lower n) | n. n \<in> set (pi_names ix) \<and> True} = {(P, m) | m. m \<in> priced ps P}"
    using i by (auto simp: index_ok_def)
  have "{(P, m) | m. m \<in> priced ps P} \<subseteq> U" using assms(2) by (auto simp: priced_keys_def)
  then show ?thesis
    using add_names_lists [OF i L(1), of "pi_names ix" P "\<lambda>_. True"] L i
    unfolding e by (auto simp: pass_pricing_def index_ok_def intro!: betweenI [where L = "L \<union> {(P, m) | m. m \<in> priced ps P}"])
qed

lemma mapped_keys_Union: "mapped_keys mm = \<Union> ((\<lambda>pm. mapped_keys [pm]) ` set mm)"
  unfolding mapped_keys_def by (rule set_eqI) fastforce

lemma idx_ok_None: "idx_ok S idx \<Longrightarrow> map_of idx P = None \<Longrightarrow> S P = {}"
  by (auto simp: idx_ok_def dest!: spec [of _ P])

lemma pass_mappings_between:
  assumes "idx_ok (priced ps) idx" "priced_keys ps \<subseteq> U" "mapped_keys mm \<subseteq> U" "lists_between {} U res"
  shows "lists_between (mapped_keys mm) U (fold (pass_mapping idx) mm res)"
proof -
  have "lists_between ({} \<union> \<Union> ((\<lambda>pm. mapped_keys [pm]) ` set mm)) U (fold (pass_mapping idx) mm res)"
  proof (rule between_fold [OF _ assms(4)])
    fix K pm res
    assume pm: "pm \<in> set mm" and b: "lists_between K U res"
    have "mapped_keys [pm] \<subseteq> U" using pm assms(3) mapped_keys_Union [of mm] by fast
    then show "lists_between (K \<union> mapped_keys [pm]) U (pass_mapping idx pm res)"
      using pass_mapping_between [OF assms(1,2) _ b, of "fst pm" "snd pm"] by (simp only: prod.collapse)
  qed
  then show ?thesis by (simp only: mapped_keys_Union [symmetric] Un_empty_left)
qed

definition keys_at :: "ChannelModelPricing list \<Rightarrow> string \<Rightarrow> (string \<times> string) set" where
  "keys_at ps P = {(P, m) | m. m \<in> priced ps P}"

lemma pass_pricings_between:
  assumes "idx_ok (priced ps) idx" "priced_keys ps \<subseteq> U" "lists_between K U res"
  shows "lists_between (K \<union> \<Union> ((\<lambda>x. keys_at ps (fst x)) ` set idx)) U (fold pass_pricing idx res)"
proof (rule between_fold [OF _ assms(3)])
  fix K x res
  assume x: "x \<in> set idx" and b: "lists_between K U res"
  have "(fst x, snd x) \<in> set idx" using x by simp
  from pass_pricing_between [OF assms(1,2) this b]
  show "lists_between (K \<union> keys_at ps (fst x)) U (pass_pricing x res)" by (simp only: keys_at_def prod.collapse)
qed

lemma priced_keys_at:
  assumes "idx_ok (priced ps) idx"
  shows "priced_keys ps \<subseteq> \<Union> ((\<lambda>x. keys_at ps (fst x)) ` set idx)"
proof
  fix x assume "x \<in> priced_keys ps"
  then obtain P m where x: "x = (P, m)" and m: "m \<in> priced ps P" by (auto simp: priced_keys_def)
  obtain ix where "map_of idx P = Some ix"
    using idx_ok_None [OF assms, of P] m by (cases "map_of idx P") auto
  then have "(P, ix) \<in> set idx" by (rule map_of_SomeD)
  moreover have "x \<in> keys_at ps (fst (P, ix))" using x m by (simp add: keys_at_def)
  ultimately show "x \<in> \<Union> ((\<lambda>x. keys_at ps (fst x)) ` set idx)" by blast
qed

lemma SupportedModels_lists:
  assumes "idx_ok (priced ps) idx"
  shows "lists_keys (mapped_keys mm \<union> priced_keys ps) (fold pass_pricing idx (fold (pass_mapping idx) mm []))"
proof -
  let ?U = "mapped_keys mm \<union> priced_keys ps"
  have 0: "lists_between {} ?U []" by (rule betweenI [where L = "{}"]) (auto simp: lists_keys_def)
  have 1: "lists_between (mapped_keys mm) ?U (fold (pass_mapping idx) mm [])"
    by (rule pass_mappings_between [OF assms _ _ 0]) auto
  obtain L where L: "lists_keys L (fold pass_pricing idx (fold (pass_mapping idx) mm []))" "L \<subseteq> ?U"
      "mapped_keys mm \<union> \<Union> ((\<lambda>x. keys_at ps (fst x)) ` set idx) \<subseteq> L"
    using pass_pricings_between [OF assms _ 1] unfolding lists_between_def by auto
  then have "L = ?U" using priced_keys_at [OF assms] by auto
  then show ?thesis using L by simp
qed

section \<open>Properties\<close>

text \<open>A table of token intervals that passes the validation is unambiguous: stored in any order it
  passes again, and for every token count the same interval is found; an interval is only found
  for a positive count, and none of its prices is negative.\<close>
theorem FindMatchingInterval_validated:
  assumes "ValidateIntervals ivs mode = None"
    and "mode \<noteq> BillingModePerRequest" "mode \<noteq> BillingModeImage"
    and "mset ivs' = mset ivs"
  shows "ValidateIntervals ivs' mode = None
    \<and> FindMatchingInterval ivs' n = FindMatchingInterval ivs n
    \<and> (\<forall>iv. FindMatchingInterval ivs n = Some iv \<longrightarrow> 0 < n \<and> iv \<in> set ivs \<and> iv_ok iv)"
proof -
  have ok: "list_all iv_ok ivs" and s: "sorted_wrt iv_before (sort_by min_less ivs)"
    using assms(1-3) by (simp_all add: ValidateIntervals_iff)
  have e: "set ivs' = set ivs" using assms(4) by (metis set_mset_mset)
  have u: "x = y" if "x \<in> set ivs" "y \<in> set ivs" "iv_matches n x" "iv_matches n y" for x y
    using separated_unique [OF s _ _ that(3,4)] that by simp
  have "FindMatchingInterval ivs' n = FindMatchingInterval ivs n"
    unfolding FindMatchingInterval_def by (rule find_unique_perm) (use e u in simp_all)
  moreover have "0 < n \<and> iv \<in> set ivs \<and> iv_ok iv" if f: "FindMatchingInterval ivs n = Some iv" for iv
  proof -
    have iv: "iv \<in> set ivs" "iv_matches n iv" using f by (auto simp: FindMatchingInterval_def find_Some_iff)
    then show ?thesis using ok by (auto simp: list_all_iff iv_ok_def iv_matches_def)
  qed
  ultimately show ?thesis using ValidateIntervals_perm [OF assms(1,4)] by simp
qed

definition sample_interval :: "int \<Rightarrow> int option \<Rightarrow> PricingInterval" where
  "sample_interval lo hi = \<lparr>iv_ID = 0, iv_PricingID = 0, iv_MinTokens = lo, iv_MaxTokens = hi,
     iv_TierLabel = [], iv_InputPrice = Some f_one, iv_OutputPrice = None, iv_CacheWritePrice = None,
     iv_CacheReadPrice = None, iv_PerRequestPrice = None, iv_SortOrder = 0, iv_CreatedAt = 0, iv_UpdatedAt = 0\<rparr>"

lemma sample_intervals_valid:
  "ValidateIntervals [sample_interval 1000 None, sample_interval 0 (Some 1000)] BillingModeToken = None"
  by (simp add: ValidateIntervals_iff iv_ok_def negative_price_def sample_interval_def min_less_def iv_before_def)

lemma FindMatchingInterval_validated_witness:
  "FindMatchingInterval [sample_interval 0 (Some 1000), sample_interval 1000 None] 1000
     = FindMatchingInterval [sample_interval 1000 None, sample_interval 0 (Some 1000)] 1000"
  using FindMatchingInterval_validated [OF sample_intervals_valid, of
      "[sample_interval 0 (Some 1000), sample_interval 1000 None]" 1000]
  by (simp add: BillingModeToken_def BillingModePerRequest_def BillingModeImage_def add_mset_commute)

text \<open>The list of supported models that is shown to users is exact whatever the order in which
  the program iterates its maps: up to letter case it has the concrete sources of the mappings
  and the concrete priced models of each platform, each once, no pattern among them, ordered by
  platform and name.\<close>
theorem SupportedModels_exact:
  "set (map model_key (SupportedModels (Some c)))
      = mapped_keys (ch_ModelMapping c) \<union> priced_keys (ch_ModelPricing c)
   \<and> distinct (map model_key (SupportedModels (Some c)))
   \<and> list_all (\<lambda>s. \<not> is_wild (sm_Name s)) (SupportedModels (Some c))
   \<and> sorted_wrt (\<lambda>a b. \<not> model_before b a) (SupportedModels (Some c))"
proof (cases "ch_ModelMapping c = [] \<and> ch_ModelPricing c = []")
  case True
  then show ?thesis by (simp add: SupportedModels_def mapped_keys_def priced_keys_def priced_def)
next
  case False
  let ?idx = "buildPricingIndex (ch_ModelPricing c)"
  let ?res = "fold pass_pricing ?idx (fold (pass_mapping ?idx) (ch_ModelMapping c) [])"
  have s: "SupportedModels (Some c) = sort_by model_before ?res"
    by (simp only: SupportedModels_def option.case Let_def False if_False)
  have "distinct (map model_key (sort_by model_before ?res)) \<longleftrightarrow> distinct (map model_key ?res)"
    by (rule mset_eq_imp_distinct_iff) simp
  then show ?thesis
    using SupportedModels_lists [OF buildPricingIndex_ok, of "ch_ModelMapping c" "ch_ModelPricing c"]
      model_order.sorted_sort_by [of ?res]
    by (simp add: s lists_keys_def list_all_iff)
qed

text \<open>The prices shown with the models are not as stable: where an exact and a wildcard source of a
  mapping meet in one model, the first one iterated decides.\<close>

definition sample_pricing :: "int \<Rightarrow> string \<Rightarrow> ChannelModelPricing" where
  "sample_pricing i m = \<lparr>cmp_ID = i, cmp_ChannelID = 0, cmp_Platform = ''p'', cmp_Models = [m],
     cmp_BillingMode = [], cmp_InputPrice = None, cmp_OutputPrice = None, cmp_CacheWritePrice = None,
     cmp_CacheReadPrice = None, cmp_ImageOutputPrice = None, cmp_PerRequestPrice = None,
     cmp_Intervals = [], cmp_CreatedAt = 0, cmp_UpdatedAt = 0\<rparr>"

definition sample_channel :: "string gomap \<Rightarrow> Channel" where
  "sample_channel kv = \<lparr>ch_ID = 1, ch_Name = [], ch_Description = [], ch_Status = ''active'',
     ch_BillingModelSource = [], ch_RestrictModels = False, ch_Features = [], ch_FeaturesConfig = None,
     ch_CreatedAt = 0, ch_UpdatedAt = 0, ch_GroupIDs = [], ch_ModelPricing = [sample_pricing 1 ''a1'', sample_pricing 2 ''b1''],
     ch_ModelMapping = [(''p'', kv)], ch_ApplyPricingToAccountStats = False, ch_AccountStatsPricingRules = []\<rparr>"

lemma displayed_price_order_dependent:
  "SupportedModels (Some (sample_channel [(''a1'', ''b1''), (''a*'', ''a*'')]))
     \<noteq> SupportedModels (Some (sample_channel [(''a*'', ''a*''), (''a1'', ''b1'')]))"
  by code_simp

end
