(* ===== verification/Billing.thy ===== *)
theory Billing
  imports PricingLookup ChannelPricing GatewayGroup
begin

text \<open>
  Prices and costs (\<open>service/billing_service.go\<close>). Prices are records behind pointers, and the
  fallback prices are shared: several names point to one record, and a caller that is handed
  such a pointer may write through it. So prices live in a store, a list of records, and a
  pointer is an index of it. The catalogue of the pricing service is an argument that is absent
  when the service is nil.
\<close>

section \<open>Data\<close>

record ModelPricing =
  mp_InputPricePerToken :: float64
  mp_InputPricePerTokenPriority :: float64
  mp_OutputPricePerToken :: float64
  mp_OutputPricePerTokenPriority :: float64
  mp_CacheCreationPricePerToken :: float64
  mp_CacheReadPricePerToken :: float64
  mp_CacheReadPricePerTokenPriority :: float64
  mp_CacheCreation5mPrice :: float64
  mp_CacheCreation1hPrice :: float64
  mp_SupportsCacheBreakdown :: bool
  mp_LongContextInputThreshold :: int
  mp_LongContextInputMultiplier :: float64
  mp_LongContextOutputMultiplier :: float64
  mp_ImageOutputPricePerToken :: float64

definition zero_pricing :: ModelPricing where
  "zero_pricing = \<lparr>mp_InputPricePerToken = f_zero, mp_InputPricePerTokenPriority = f_zero,
     mp_OutputPricePerToken = f_zero, mp_OutputPricePerTokenPriority = f_zero,
     mp_CacheCreationPricePerToken = f_zero, mp_CacheReadPricePerToken = f_zero,
     mp_CacheReadPricePerTokenPriority = f_zero, mp_CacheCreation5mPrice = f_zero,
     mp_CacheCreation1hPrice = f_zero, mp_SupportsCacheBreakdown = False, mp_LongContextInputThreshold = 0,
     mp_LongContextInputMultiplier = f_zero, mp_LongContextOutputMultiplier = f_zero,
     mp_ImageOutputPricePerToken = f_zero\<rparr>"

record UsageTokens =
  ut_InputTokens :: int
  ut_OutputTokens :: int
  ut_CacheCreationTokens :: int
  ut_CacheReadTokens :: int
  ut_CacheCreation5mTokens :: int
  ut_CacheCreation1hTokens :: int
  ut_ImageOutputTokens :: int

record CostBreakdown =
  cb_InputCost :: float64
  cb_OutputCost :: float64
  cb_ImageOutputCost :: float64
  cb_CacheCreationCost :: float64
  cb_CacheReadCost :: float64
  cb_TotalCost :: float64
  cb_ActualCost :: float64
  cb_BillingMode :: string

definition zero_cost :: CostBreakdown where
  "zero_cost = \<lparr>cb_InputCost = f_zero, cb_OutputCost = f_zero, cb_ImageOutputCost = f_zero,
     cb_CacheCreationCost = f_zero, cb_CacheReadCost = f_zero, cb_TotalCost = f_zero,
     cb_ActualCost = f_zero, cb_BillingMode = []\<rparr>"

datatype billing_error =
    ErrModelPricingUnavailable string
  | NilChannelService

section \<open>The store of prices\<close>

type_synonym price_store = "ModelPricing list"

definition alloc :: "ModelPricing \<Rightarrow> price_store \<Rightarrow> price_store \<times> nat" where
  "alloc p h = (h @ [p], length h)"

definition write_price :: "nat \<Rightarrow> (ModelPricing \<Rightarrow> ModelPricing) \<Rightarrow> price_store \<Rightarrow> price_store" where
  "write_price a f h = h[a := f (h ! a)]"

definition base_price :: "float64 \<Rightarrow> float64 \<Rightarrow> float64 \<Rightarrow> float64 \<Rightarrow> ModelPricing" where
  "base_price i out cw cr = zero_pricing\<lparr>mp_InputPricePerToken := i, mp_OutputPricePerToken := out,
     mp_CacheCreationPricePerToken := cw, mp_CacheReadPricePerToken := cr\<rparr>"

definition with_priority :: "float64 \<Rightarrow> float64 \<Rightarrow> float64 \<Rightarrow> ModelPricing \<Rightarrow> ModelPricing" where
  "with_priority i out cr p = p\<lparr>mp_InputPricePerTokenPriority := i, mp_OutputPricePerTokenPriority := out,
     mp_CacheReadPricePerTokenPriority := cr\<rparr>"

definition openAIGPT54LongContextInputThreshold :: int where
  "openAIGPT54LongContextInputThreshold = 272000"
definition openAIGPT54LongContextInputMultiplier :: float64 where
  "openAIGPT54LongContextInputMultiplier = f_of_int 2"
definition openAIGPT54LongContextOutputMultiplier :: float64 where
  "openAIGPT54LongContextOutputMultiplier = f_dec 15 1"

text \<open>The records that \<open>initFallbackPricing\<close> allocates, in its order, and the table of names.\<close>

definition initFallbackPricing :: price_store where
  "initFallbackPricing =
    [base_price (f_dec 5 6) (f_dec 25 6) (f_dec 625 8) (f_dec 5 7),
     base_price (f_dec 3 6) (f_dec 15 6) (f_dec 375 8) (f_dec 3 7),
     base_price (f_dec 3 6) (f_dec 15 6) (f_dec 375 8) (f_dec 3 7),
     base_price (f_dec 1 6) (f_dec 5 6) (f_dec 125 8) (f_dec 1 7),
     base_price (f_dec 15 6) (f_dec 75 6) (f_dec 1875 8) (f_dec 15 7),
     base_price (f_dec 25 8) (f_dec 125 8) (f_dec 3 7) (f_dec 3 8),
     base_price (f_dec 2 6) (f_dec 12 6) (f_dec 2 6) (f_dec 2 7),
     (with_priority (f_dec 5 6) (f_dec 30 6) (f_dec 5 7)
       (base_price (f_dec 25 7) (f_dec 15 6) (f_dec 25 7) (f_dec 25 8)))
       \<lparr>mp_LongContextInputThreshold := openAIGPT54LongContextInputThreshold,
        mp_LongContextInputMultiplier := openAIGPT54LongContextInputMultiplier,
        mp_LongContextOutputMultiplier := openAIGPT54LongContextOutputMultiplier\<rparr>,
     base_price (f_dec 75 8) (f_dec 45 7) f_zero (f_dec 75 9),
     base_price (f_dec 2 7) (f_dec 125 8) f_zero (f_dec 2 8),
     with_priority (f_dec 35 7) (f_dec 28 6) (f_dec 35 8)
       (base_price (f_dec 175 8) (f_dec 14 6) (f_dec 175 8) (f_dec 175 9)),
     with_priority (f_dec 3 6) (f_dec 24 6) (f_dec 3 7)
       (base_price (f_dec 15 7) (f_dec 12 6) (f_dec 15 7) (f_dec 15 8))]"

definition fallbackPrices :: "(string \<times> nat) list" where
  "fallbackPrices =
    [(''claude-opus-4.5'', 0), (''claude-sonnet-4'', 1), (''claude-3-5-sonnet'', 2), (''claude-3-5-haiku'', 3),
     (''claude-3-opus'', 4), (''claude-3-haiku'', 5), (''claude-opus-4.6'', 0), (''claude-opus-4.7'', 0),
     (''gemini-3.1-pro'', 6), (''gpt-5.4'', 7), (''gpt-5.5'', 7), (''gpt-5.4-mini'', 8), (''gpt-5.4-nano'', 9),
     (''gpt-5.2'', 10), (''gpt-5.3-codex'', 11)]"

definition has_any :: "string \<Rightarrow> string list \<Rightarrow> bool" where
  "has_any s parts \<longleftrightarrow> list_ex (str_contains s) parts"

definition fallback_name :: "string \<Rightarrow> string option" where
  "fallback_name modelLower =
     (if str_contains modelLower ''opus'' then
        (if has_any modelLower [''4.7'', ''4-7''] then Some ''claude-opus-4.7''
         else if has_any modelLower [''4.6'', ''4-6''] then Some ''claude-opus-4.6''
         else if has_any modelLower [''4.5'', ''4-5''] then Some ''claude-opus-4.5''
         else Some ''claude-3-opus'')
      else if str_contains modelLower ''sonnet'' then
        (if str_contains modelLower ''4'' \<and> \<not> str_contains modelLower ''3'' then Some ''claude-sonnet-4''
         else Some ''claude-3-5-sonnet'')
      else if str_contains modelLower ''haiku'' then
        (if has_any modelLower [''3-5'', ''3.5''] then Some ''claude-3-5-haiku'' else Some ''claude-3-haiku'')
      else if str_contains modelLower ''claude'' then Some ''claude-sonnet-4''
      else if has_any modelLower [''gemini-3.1-pro'', ''gemini-3-1-pro''] then Some ''gemini-3.1-pro''
      else let normalized = normalizeKnownOpenAICodexModel modelLower in
        if normalized \<in> {''gpt-5.5'', ''gpt-5.4-mini'', ''gpt-5.4-nano'', ''gpt-5.4'', ''gpt-5.2''} then Some normalized
        else if normalized \<in> {''gpt-5.3-codex'', ''gpt-5.3-codex-spark''} then Some ''gpt-5.3-codex''
        else None)"

definition getFallbackPricing :: "string \<Rightarrow> nat option" where
  "getFallbackPricing model =
     (case fallback_name (to_lower model) of None \<Rightarrow> None | Some n \<Rightarrow> map_of fallbackPrices n)"

section \<open>The price of a model\<close>

definition isOpenAIGPT54Model :: "string \<Rightarrow> bool" where
  "isOpenAIGPT54Model model \<longleftrightarrow>
     normalizeKnownOpenAICodexModel model = ''gpt-5.4'' \<or> normalizeKnownOpenAICodexModel model = ''gpt-5.5''"

definition long_context_complete :: "ModelPricing \<Rightarrow> bool" where
  "long_context_complete p \<longleftrightarrow> mp_LongContextInputThreshold p > 0
     \<and> f_lt f_zero (mp_LongContextInputMultiplier p) \<and> f_lt f_zero (mp_LongContextOutputMultiplier p)"

definition complete_long_context :: "ModelPricing \<Rightarrow> ModelPricing" where
  "complete_long_context p = p
     \<lparr>mp_LongContextInputThreshold :=
        (if mp_LongContextInputThreshold p \<le> 0 then openAIGPT54LongContextInputThreshold
         else mp_LongContextInputThreshold p),
      mp_LongContextInputMultiplier :=
        (if f_le (mp_LongContextInputMultiplier p) f_zero then openAIGPT54LongContextInputMultiplier
         else mp_LongContextInputMultiplier p),
      mp_LongContextOutputMultiplier :=
        (if f_le (mp_LongContextOutputMultiplier p) f_zero then openAIGPT54LongContextOutputMultiplier
         else mp_LongContextOutputMultiplier p)\<rparr>"

definition applyModelSpecificPricingPolicy :: "string \<Rightarrow> nat \<Rightarrow> price_store \<Rightarrow> price_store \<times> nat" where
  "applyModelSpecificPricingPolicy model a h =
     (if \<not> isOpenAIGPT54Model model then (h, a)
      else if long_context_complete (h ! a) then (h, a)
      else alloc (complete_long_context (h ! a)) h)"

definition from_litellm :: "litellm_pricing \<Rightarrow> ModelPricing" where
  "from_litellm l =
     (let price5m = CacheCreationInputTokenCost l; price1h = CacheCreationInputTokenCostAbove1hr l in
      \<lparr>mp_InputPricePerToken = InputCostPerToken l,
       mp_InputPricePerTokenPriority = InputCostPerTokenPriority l,
       mp_OutputPricePerToken = OutputCostPerToken l,
       mp_OutputPricePerTokenPriority = OutputCostPerTokenPriority l,
       mp_CacheCreationPricePerToken = CacheCreationInputTokenCost l,
       mp_CacheReadPricePerToken = CacheReadInputTokenCost l,
       mp_CacheReadPricePerTokenPriority = CacheReadInputTokenCostPriority l,
       mp_CacheCreation5mPrice = price5m,
       mp_CacheCreation1hPrice = price1h,
       mp_SupportsCacheBreakdown = (f_lt f_zero price1h \<and> f_lt price5m price1h),
       mp_LongContextInputThreshold = LongContextInputTokenThreshold l,
       mp_LongContextInputMultiplier = LongContextInputCostMultiplier l,
       mp_LongContextOutputMultiplier = LongContextOutputCostMultiplier l,
       mp_ImageOutputPricePerToken = OutputCostPerImageToken l\<rparr>)"

type_synonym catalogue = "litellm_pricing gomap option"

definition catalogue_price :: "catalogue \<Rightarrow> string \<Rightarrow> litellm_pricing option" where
  "catalogue_price cat model = (case cat of None \<Rightarrow> None | Some d \<Rightarrow> litellm_GetModelPricing d model)"

definition Billing_GetModelPricing ::
    "catalogue \<Rightarrow> string \<Rightarrow> price_store \<Rightarrow> billing_error + price_store \<times> nat" where
  "Billing_GetModelPricing cat model0 h =
     (let model = to_lower model0 in
      case catalogue_price cat model of
        Some l \<Rightarrow> (case alloc (from_litellm l) h of (h', a) \<Rightarrow> Inr (applyModelSpecificPricingPolicy model a h'))
      | None \<Rightarrow>
          (case getFallbackPricing model of
             Some a \<Rightarrow> Inr (applyModelSpecificPricingPolicy model a h)
           | None \<Rightarrow> Inl (ErrModelPricingUnavailable model)))"

definition set_if :: "'a option \<Rightarrow> ('a \<Rightarrow> 'b \<Rightarrow> 'b) \<Rightarrow> 'b \<Rightarrow> 'b" where
  "set_if x f b = (case x of None \<Rightarrow> b | Some v \<Rightarrow> f v b)"

definition override_prices :: "ChannelModelPricing \<Rightarrow> ModelPricing \<Rightarrow> ModelPricing" where
  "override_prices ch =
     set_if (cmp_ImageOutputPrice ch) (\<lambda>v p. p\<lparr>mp_ImageOutputPricePerToken := v\<rparr>)
   \<circ> set_if (cmp_CacheReadPrice ch) (\<lambda>v p. p\<lparr>mp_CacheReadPricePerToken := v, mp_CacheReadPricePerTokenPriority := v\<rparr>)
   \<circ> set_if (cmp_CacheWritePrice ch) (\<lambda>v p. p\<lparr>mp_CacheCreationPricePerToken := v,
         mp_CacheCreation5mPrice := v, mp_CacheCreation1hPrice := v\<rparr>)
   \<circ> set_if (cmp_OutputPrice ch) (\<lambda>v p. p\<lparr>mp_OutputPricePerToken := v, mp_OutputPricePerTokenPriority := v\<rparr>)
   \<circ> set_if (cmp_InputPrice ch) (\<lambda>v p. p\<lparr>mp_InputPricePerToken := v, mp_InputPricePerTokenPriority := v\<rparr>)"

definition GetModelPricingWithChannel ::
    "catalogue \<Rightarrow> string \<Rightarrow> ChannelModelPricing option \<Rightarrow> price_store \<Rightarrow> billing_error + price_store \<times> nat" where
  "GetModelPricingWithChannel cat model ch h =
     and_then (Billing_GetModelPricing cat model h) (\<lambda>(h', a).
       case ch of None \<Rightarrow> Inr (h', a)
       | Some c \<Rightarrow> Inr (write_price a (override_prices c) h', a))"

section \<open>The cost of a request\<close>

definition normalizeBillingServiceTier :: "string \<Rightarrow> string" where
  "normalizeBillingServiceTier serviceTier = to_lower (trim_space serviceTier)"

definition usePriorityServiceTierPricing :: "string \<Rightarrow> ModelPricing \<Rightarrow> bool" where
  "usePriorityServiceTierPricing serviceTier p \<longleftrightarrow>
     normalizeBillingServiceTier serviceTier = ''priority''
     \<and> (f_lt f_zero (mp_InputPricePerTokenPriority p) \<or> f_lt f_zero (mp_OutputPricePerTokenPriority p)
        \<or> f_lt f_zero (mp_CacheReadPricePerTokenPriority p))"

definition serviceTierCostMultiplier :: "string \<Rightarrow> float64" where
  "serviceTierCostMultiplier serviceTier =
     (let t = normalizeBillingServiceTier serviceTier in
      if t = ''priority'' then f_of_int 2 else if t = ''flex'' then f_dec 5 1 else f_one)"

definition shouldApplySessionLongContextPricing :: "UsageTokens \<Rightarrow> ModelPricing \<Rightarrow> bool" where
  "shouldApplySessionLongContextPricing tokens p \<longleftrightarrow>
     (if mp_LongContextInputThreshold p \<le> 0 then False
      else if f_le (mp_LongContextInputMultiplier p) f_one \<and> f_le (mp_LongContextOutputMultiplier p) f_one then False
      else i64 (ut_InputTokens tokens + ut_CacheReadTokens tokens) > mp_LongContextInputThreshold p)"

definition computeCacheCreationCost :: "ModelPricing \<Rightarrow> UsageTokens \<Rightarrow> float64" where
  "computeCacheCreationCost p tokens =
     (if mp_SupportsCacheBreakdown p
         \<and> (f_lt f_zero (mp_CacheCreation5mPrice p) \<or> f_lt f_zero (mp_CacheCreation1hPrice p)) then
        (if ut_CacheCreation5mTokens tokens = 0 \<and> ut_CacheCreation1hTokens tokens = 0
            \<and> ut_CacheCreationTokens tokens > 0
         then f_mul (f_of_int (ut_CacheCreationTokens tokens)) (mp_CacheCreation5mPrice p)
         else f_add (f_mul (f_of_int (ut_CacheCreation5mTokens tokens)) (mp_CacheCreation5mPrice p))
                (f_mul (f_of_int (ut_CacheCreation1hTokens tokens)) (mp_CacheCreation1hPrice p)))
      else f_mul (f_of_int (ut_CacheCreationTokens tokens)) (mp_CacheCreationPricePerToken p))"

definition clamp_multiplier :: "float64 \<Rightarrow> float64" where
  "clamp_multiplier m = (if f_lt m f_zero then f_zero else m)"

definition prefer_positive :: "float64 \<Rightarrow> float64 \<Rightarrow> float64" where
  "prefer_positive prio std = (if f_lt f_zero prio then prio else std)"

definition computeTokenBreakdown ::
    "ModelPricing \<Rightarrow> UsageTokens \<Rightarrow> float64 \<Rightarrow> string \<Rightarrow> bool \<Rightarrow> CostBreakdown" where
  "computeTokenBreakdown p tokens rateMultiplier0 serviceTier applyLongCtx =
     (let rateMultiplier = clamp_multiplier rateMultiplier0;
          prio = usePriorityServiceTierPricing serviceTier p;
          inputPrice = (if prio then prefer_positive (mp_InputPricePerTokenPriority p) (mp_InputPricePerToken p)
                        else mp_InputPricePerToken p);
          outputPrice = (if prio then prefer_positive (mp_OutputPricePerTokenPriority p) (mp_OutputPricePerToken p)
                         else mp_OutputPricePerToken p);
          cacheReadPrice = (if prio then prefer_positive (mp_CacheReadPricePerTokenPriority p) (mp_CacheReadPricePerToken p)
                            else mp_CacheReadPricePerToken p);
          tierMultiplier = (if prio then f_one else serviceTierCostMultiplier serviceTier);
          long = applyLongCtx \<and> shouldApplySessionLongContextPricing tokens p;
          inputPrice = (if long then f_mul inputPrice (mp_LongContextInputMultiplier p) else inputPrice);
          outputPrice = (if long then f_mul outputPrice (mp_LongContextOutputMultiplier p) else outputPrice);
          textOut = i64 (ut_OutputTokens tokens - ut_ImageOutputTokens tokens);
          textOutputTokens = (if textOut < 0 then 0 else textOut);
          imgPrice = (if f_eq (mp_ImageOutputPricePerToken p) f_zero then outputPrice
                      else mp_ImageOutputPricePerToken p);
          tiered = (\<lambda>x. if f_eq tierMultiplier f_one then x else f_mul x tierMultiplier);
          inputCost = tiered (f_mul (f_of_int (ut_InputTokens tokens)) inputPrice);
          outputCost = tiered (f_mul (f_of_int textOutputTokens) outputPrice);
          imageCost = tiered (if ut_ImageOutputTokens tokens > 0
             then f_mul (f_of_int (ut_ImageOutputTokens tokens)) imgPrice else f_zero);
          creationCost = tiered (computeCacheCreationCost p tokens);
          readCost = tiered (f_mul (f_of_int (ut_CacheReadTokens tokens)) cacheReadPrice);
          total = f_add (f_add (f_add (f_add inputCost outputCost) imageCost) creationCost) readCost
      in \<lparr>cb_InputCost = inputCost, cb_OutputCost = outputCost, cb_ImageOutputCost = imageCost,
          cb_CacheCreationCost = creationCost, cb_CacheReadCost = readCost,
          cb_TotalCost = total, cb_ActualCost = f_mul total rateMultiplier, cb_BillingMode = []\<rparr>)"

definition calculateCostInternal ::
    "catalogue \<Rightarrow> string \<Rightarrow> UsageTokens \<Rightarrow> float64 \<Rightarrow> string \<Rightarrow> ChannelModelPricing option \<Rightarrow> price_store
      \<Rightarrow> billing_error + price_store \<times> CostBreakdown" where
  "calculateCostInternal cat model tokens rateMultiplier serviceTier ch h =
     and_then (if ch \<noteq> None then GetModelPricingWithChannel cat model ch h else Billing_GetModelPricing cat model h)
       (\<lambda>(h', a). Inr (h', computeTokenBreakdown (h' ! a) tokens rateMultiplier serviceTier True))"

definition CalculateCost ::
    "catalogue \<Rightarrow> string \<Rightarrow> UsageTokens \<Rightarrow> float64 \<Rightarrow> price_store \<Rightarrow> billing_error + price_store \<times> CostBreakdown" where
  "CalculateCost cat model tokens rateMultiplier h = calculateCostInternal cat model tokens rateMultiplier [] None h"

definition CalculateCostWithServiceTier ::
    "catalogue \<Rightarrow> string \<Rightarrow> UsageTokens \<Rightarrow> float64 \<Rightarrow> string \<Rightarrow> price_store
      \<Rightarrow> billing_error + price_store \<times> CostBreakdown" where
  "CalculateCostWithServiceTier cat model tokens rateMultiplier serviceTier h =
     calculateCostInternal cat model tokens rateMultiplier serviceTier None h"

definition CalculateCostWithConfig ::
    "catalogue \<Rightarrow> float64 \<Rightarrow> string \<Rightarrow> UsageTokens \<Rightarrow> price_store \<Rightarrow> billing_error + price_store \<times> CostBreakdown" where
  "CalculateCostWithConfig cat cfgMultiplier model tokens h =
     CalculateCost cat model tokens (if f_le cfgMultiplier f_zero then f_one else cfgMultiplier) h"

definition no_tokens :: UsageTokens where
  "no_tokens = \<lparr>ut_InputTokens = 0, ut_OutputTokens = 0, ut_CacheCreationTokens = 0, ut_CacheReadTokens = 0,
     ut_CacheCreation5mTokens = 0, ut_CacheCreation1hTokens = 0, ut_ImageOutputTokens = 0\<rparr>"

definition GetEstimatedCost ::
    "catalogue \<Rightarrow> float64 \<Rightarrow> string \<Rightarrow> int \<Rightarrow> int \<Rightarrow> price_store \<Rightarrow> billing_error + price_store \<times> float64" where
  "GetEstimatedCost cat cfgMultiplier model inputTokens outputTokens h =
     and_then (CalculateCostWithConfig cat cfgMultiplier model
         (no_tokens\<lparr>ut_InputTokens := inputTokens, ut_OutputTokens := outputTokens\<rparr>) h)
       (\<lambda>(h', bd). Inr (h', cb_ActualCost bd))"

text \<open>The two parts into which a request above the threshold is split.\<close>

definition in_range_tokens :: "int \<Rightarrow> UsageTokens \<Rightarrow> UsageTokens" where
  "in_range_tokens threshold t =
     (if ut_CacheReadTokens t \<ge> threshold
      then t\<lparr>ut_CacheReadTokens := threshold, ut_InputTokens := 0\<rparr>
      else t\<lparr>ut_InputTokens := i64 (threshold - ut_CacheReadTokens t)\<rparr>)"

definition out_range_tokens :: "int \<Rightarrow> UsageTokens \<Rightarrow> UsageTokens" where
  "out_range_tokens threshold t =
     (if ut_CacheReadTokens t \<ge> threshold
      then no_tokens\<lparr>ut_InputTokens := ut_InputTokens t,
             ut_CacheReadTokens := i64 (ut_CacheReadTokens t - threshold)\<rparr>
      else no_tokens\<lparr>ut_InputTokens := i64 (ut_InputTokens t - i64 (threshold - ut_CacheReadTokens t))\<rparr>)"

definition merge_costs :: "CostBreakdown \<Rightarrow> CostBreakdown \<Rightarrow> CostBreakdown" where
  "merge_costs a b =
     \<lparr>cb_InputCost = f_add (cb_InputCost a) (cb_InputCost b), cb_OutputCost = cb_OutputCost a,
      cb_ImageOutputCost = cb_ImageOutputCost a, cb_CacheCreationCost = cb_CacheCreationCost a,
      cb_CacheReadCost = f_add (cb_CacheReadCost a) (cb_CacheReadCost b),
      cb_TotalCost = f_add (cb_TotalCost a) (cb_TotalCost b),
      cb_ActualCost = f_add (cb_ActualCost a) (cb_ActualCost b), cb_BillingMode = []\<rparr>"

definition CalculateCostWithLongContext ::
    "catalogue \<Rightarrow> string \<Rightarrow> UsageTokens \<Rightarrow> float64 \<Rightarrow> int \<Rightarrow> float64 \<Rightarrow> price_store
      \<Rightarrow> billing_error + price_store \<times> CostBreakdown" where
  "CalculateCostWithLongContext cat model tokens rateMultiplier threshold extraMultiplier h =
     (if threshold \<le> 0 \<or> f_le extraMultiplier f_one then CalculateCost cat model tokens rateMultiplier h
      else if i64 (ut_CacheReadTokens tokens + ut_InputTokens tokens) \<le> threshold
        then CalculateCost cat model tokens rateMultiplier h
      else
        and_then (CalculateCost cat model (in_range_tokens threshold tokens) rateMultiplier h) (\<lambda>(h1, a).
        and_then (CalculateCost cat model (out_range_tokens threshold tokens) (f_mul rateMultiplier extraMultiplier) h1)
          (\<lambda>(h2, b). Inr (h2, merge_costs a b))))"

definition ListSupportedModels :: "string list" where
  "ListSupportedModels = map fst fallbackPrices"

definition Billing_IsModelSupported :: "string \<Rightarrow> bool" where
  "Billing_IsModelSupported model \<longleftrightarrow> has_any (to_lower model) [''claude'', ''opus'', ''sonnet'', ''haiku'']"

end
