(* ===== verification/ImageSize.thy ===== *)
theory ImageSize
  imports GoStrings GoValue
begin

text \<open>
  The size of a generated image for billing (\<open>service/image_billing_size.go\<close>): classification into
  the tiers 1K, 2K and 4K, and the resolution from the sizes that the upstream returned or the
  client asked for.
\<close>

definition ImageBillingSize1K :: string where "ImageBillingSize1K = ''1K''"
definition ImageBillingSize2K :: string where "ImageBillingSize2K = ''2K''"
definition ImageBillingSize4K :: string where "ImageBillingSize4K = ''4K''"

record ImageBillingSizeResolution =
  ir_BillingSize :: string
  ir_InputSize :: string
  ir_OutputSize :: string
  ir_Source :: string
  ir_Breakdown :: "int gomap option"

definition parseImageBillingDimensions :: "string \<Rightarrow> (int \<times> int) option" where
  "parseImageBillingDimensions sz =
     (case split_char (CHR ''x'') (to_lower (trim_space sz)) of
        [a, b] \<Rightarrow>
          (case (parse_int64 (trim_space a), parse_int64 (trim_space b)) of
             (Some width, Some height) \<Rightarrow> if width \<le> 0 \<or> height \<le> 0 then None else Some (width, height)
           | _ \<Rightarrow> None)
      | _ \<Rightarrow> None)"

definition ClassifyImageBillingTier :: "string \<Rightarrow> string option" where
  "ClassifyImageBillingTier sz =
     (let trimmed = trim_space sz; normalized = to_lower trimmed in
      if normalized = [] \<or> normalized = ''auto'' then None
      else if normalized = ''1k'' then Some ImageBillingSize1K
      else if normalized = ''2k'' then Some ImageBillingSize2K
      else if normalized = ''4k'' then Some ImageBillingSize4K
      else if normalized = ''2048x2048'' \<or> normalized = ''2048x1152'' then Some ImageBillingSize2K
      else if normalized = ''3840x2160'' \<or> normalized = ''2160x3840'' then Some ImageBillingSize4K
      else case parseImageBillingDimensions trimmed of
        None \<Rightarrow> None
      | Some (width, height) \<Rightarrow>
          let maxEdge = (if height > width then height else width) in
          if maxEdge \<le> 1024 then Some ImageBillingSize1K
          else if maxEdge \<le> 2048 then Some ImageBillingSize2K
          else Some ImageBillingSize4K)"

definition NormalizeImageBillingTierOrDefault :: "string \<Rightarrow> string" where
  "NormalizeImageBillingTierOrDefault sz = opt_default ImageBillingSize2K (ClassifyImageBillingTier sz)"

definition imageTierRank :: "string \<Rightarrow> int" where
  "imageTierRank tier =
     (let t = map upper_char (trim_space tier) in
      if t = ImageBillingSize1K then 1 else if t = ImageBillingSize2K then 2
      else if t = ImageBillingSize4K then 3 else 0)"

definition compactTrimmedStrings :: "string list \<Rightarrow> string list" where
  "compactTrimmedStrings values = filter (\<lambda>v. v \<noteq> []) (map trim_space values)"

definition firstDisplayImageOutputSize :: "string list \<Rightarrow> string" where
  "firstDisplayImageOutputSize outputSizes =
     opt_default [] (find (\<lambda>t. t \<noteq> []) (map trim_space outputSizes))"

definition bump :: "string \<Rightarrow> int gomap \<Rightarrow> int gomap" where
  "bump tier b = map_put tier (opt_default 0 (map_of b tier) + 1) b"

definition count_output :: "string \<Rightarrow> int gomap \<times> string \<Rightarrow> int gomap \<times> string" where
  "count_output output st =
     (case ClassifyImageBillingTier output of
        None \<Rightarrow> st
      | Some tier \<Rightarrow>
          (bump tier (fst st), if imageTierRank tier > imageTierRank (snd st) then tier else snd st))"

definition normalizeImageSizeBreakdown :: "int gomap \<Rightarrow> int gomap option" where
  "normalizeImageSizeBreakdown inp =
     (let out = concat (map (\<lambda>tier. case map_of inp tier of
            Some n \<Rightarrow> if n > 0 then [(tier, n)] else [] | None \<Rightarrow> [])
          [ImageBillingSize1K, ImageBillingSize2K, ImageBillingSize4K])
      in if out = [] then None else Some out)"

definition ResolveImageBillingSize :: "string \<Rightarrow> string list \<Rightarrow> ImageBillingSizeResolution" where
  "ResolveImageBillingSize inputSize0 outputSizes0 =
     (let inputSize = trim_space inputSize0; outputSizes = compactTrimmedStrings outputSizes0;
          outputSize = firstDisplayImageOutputSize outputSizes;
          (breakdown, outputTier) = fold count_output outputSizes ([], [])
      in if outputTier \<noteq> [] then
           \<lparr>ir_BillingSize = outputTier, ir_InputSize = inputSize, ir_OutputSize = outputSize,
            ir_Source = ''output'', ir_Breakdown = normalizeImageSizeBreakdown breakdown\<rparr>
         else case ClassifyImageBillingTier inputSize of
           Some tier \<Rightarrow> \<lparr>ir_BillingSize = tier, ir_InputSize = inputSize, ir_OutputSize = outputSize,
              ir_Source = ''input'', ir_Breakdown = None\<rparr>
         | None \<Rightarrow> \<lparr>ir_BillingSize = ImageBillingSize2K, ir_InputSize = inputSize, ir_OutputSize = outputSize,
              ir_Source = ''default'', ir_Breakdown = None\<rparr>)"

definition key_before :: "string \<Rightarrow> string \<Rightarrow> bool" where
  "key_before a b \<longleftrightarrow>
     (if imageTierRank a = imageTierRank b then str_lt a b else imageTierRank a < imageTierRank b)"

definition SortedImageBillingBreakdownKeys :: "int gomap \<Rightarrow> string list" where
  "SortedImageBillingBreakdownKeys breakdown = sort_by key_before (map fst breakdown)"

interpretation key_order: strict_weak key_before
proof
  show "\<not> key_before y x" if "key_before x y" for x y
    using that by (auto simp: key_before_def dest: str_lt_asym split: if_splits)
  show "\<not> key_before z x" if "\<not> key_before y x" "\<not> key_before z y" for x y z
    using that by (auto simp: key_before_def split: if_splits dest: str_lt_neg_trans)
qed

section \<open>Properties\<close>

lemma Classify_range:
  "ClassifyImageBillingTier s = Some t \<Longrightarrow> t \<in> {ImageBillingSize1K, ImageBillingSize2K, ImageBillingSize4K}"
  by (auto simp: ClassifyImageBillingTier_def Let_def split: if_splits option.splits prod.splits)

lemma tier_rank [simp]:
  "imageTierRank ImageBillingSize1K = 1" "imageTierRank ImageBillingSize2K = 2"
  "imageTierRank ImageBillingSize4K = 3" "imageTierRank [] = 0"
  by code_simp+

definition rank_of :: "string \<Rightarrow> int" where
  "rank_of s = (case ClassifyImageBillingTier s of None \<Rightarrow> 0 | Some t \<Rightarrow> imageTierRank t)"

lemma rank_of_range: "0 \<le> rank_of s \<and> rank_of s \<le> 3"
  using Classify_range [of s] by (auto simp: rank_of_def split: option.splits)

lemma count_output_rank: "imageTierRank (snd (count_output s st)) = max (rank_of s) (imageTierRank (snd st))"
  if "0 \<le> imageTierRank (snd st)"
  using that by (auto simp: count_output_def rank_of_def split: option.splits)

lemma imageTierRank_nonneg: "0 \<le> imageTierRank t"
  by (simp add: imageTierRank_def Let_def)

lemma fold_count_rank:
  "imageTierRank (snd (fold count_output ss st)) = fold max (map rank_of ss) (imageTierRank (snd st))"
  by (induction ss arbitrary: st) (simp_all add: count_output_rank imageTierRank_nonneg)

lemma fold_count_tier:
  "snd st \<in> {[], ImageBillingSize1K, ImageBillingSize2K, ImageBillingSize4K} \<Longrightarrow>
   snd (fold count_output ss st) \<in> {[], ImageBillingSize1K, ImageBillingSize2K, ImageBillingSize4K}"
proof (induction ss arbitrary: st)
  case (Cons s ss)
  have "snd (count_output s st) \<in> {[], ImageBillingSize1K, ImageBillingSize2K, ImageBillingSize4K}"
    using Cons.prems Classify_range [of s] by (auto simp: count_output_def split: option.splits)
  from Cons.IH [OF this] show ?case by simp
qed simp

lemma fold_max_Max: "fold max xs (m :: int) = Max (set (m # xs))"
  using Max.set_eq_fold [of m xs] by simp

text \<open>The size that is billed is always one of the three tiers; when the upstream returned at least
  one size that can be classified it is the largest tier among those, whatever their order, and
  otherwise the tier of the requested size, or 2K when that cannot be classified either.\<close>
theorem ResolveImageBillingSize_largest:
  "ir_BillingSize (ResolveImageBillingSize i os) \<in> {ImageBillingSize1K, ImageBillingSize2K, ImageBillingSize4K}
   \<and> imageTierRank (ir_BillingSize (ResolveImageBillingSize i os)) =
      (let r = Max (insert 0 (rank_of ` set (compactTrimmedStrings os))) in
       if r \<noteq> 0 then r
       else imageTierRank (NormalizeImageBillingTierOrDefault (trim_space i)))
   \<and> (ir_Source (ResolveImageBillingSize i os) = ''output'' \<longleftrightarrow> list_ex (\<lambda>s. rank_of s \<noteq> 0) (compactTrimmedStrings os))"
proof -
  let ?os = "compactTrimmedStrings os"
  obtain b t where f: "fold count_output ?os ([], []) = (b, t)" by fastforce
  have r: "imageTierRank t = Max (insert 0 (rank_of ` set ?os))"
    using fold_count_rank [of ?os "([], [])"] by (simp add: f fold_max_Max)
  have t: "t \<in> {[], ImageBillingSize1K, ImageBillingSize2K, ImageBillingSize4K}"
    using fold_count_tier [of "([], [])" ?os] by (simp add: f)
  have z: "t = [] \<longleftrightarrow> imageTierRank t = 0"
    using t by (auto simp: ImageBillingSize1K_def ImageBillingSize2K_def ImageBillingSize4K_def
        tier_rank [unfolded ImageBillingSize1K_def ImageBillingSize2K_def ImageBillingSize4K_def])
  have "Max (insert 0 (rank_of ` set ?os)) = 0 \<longleftrightarrow> (\<forall>s \<in> set ?os. rank_of s = 0)"
    using rank_of_range by (subst Max_eq_iff) (auto simp: order_antisym)
  then have e: "list_ex (\<lambda>s. rank_of s \<noteq> 0) ?os \<longleftrightarrow> t \<noteq> []" using z r by (auto simp: list_ex_iff)
  show ?thesis
    using t Classify_range [of "trim_space i"]
    by (cases "ClassifyImageBillingTier (trim_space i)")
      (auto simp: ResolveImageBillingSize_def Let_def f e z NormalizeImageBillingTierOrDefault_def simp flip: r)
qed

end
