(* ===== verification/ChannelService.thy ===== *)
theory ChannelService
  imports ChannelPricing
begin

text \<open>
  The hot path of channels (\<open>service/channel_service.go\<close>): the validation of a channel's
  configuration, the flat cache that is built from the channels of the database, and the
  lookups of prices and mappings in it. The cache's maps are HOL maps; the database is an
  argument, the result of the two queries of \<open>fetchChannelData\<close>.
\<close>

section \<open>Validation of a configuration\<close>

datatype channel_error =
    ErrChannelNotFound
  | ErrChannelExists
  | ErrGroupAlreadyInChannel
  | ModelPatternConflict string string string
  | MappingPatternConflict string string string
  | InvalidPricingIntervals string "string list" interval_error
  | BillingModeMissingPrice
  | NegativePrice string
  | IntervalMissingPrice int "int option" "string list"
  | StatsRuleError nat channel_error
  | ChannelStoreError string

record modelEntry =
  me_pattern :: string
  me_prefix :: string
  me_wildcard :: bool

definition toModelEntry :: "string \<Rightarrow> modelEntry" where
  "toModelEntry pattern =
     (let (prefix, isWild) = splitWildcardSuffix (to_lower pattern)
      in \<lparr>me_pattern = pattern, me_prefix = prefix, me_wildcard = isWild\<rparr>)"

definition conflictsBetween :: "modelEntry \<Rightarrow> modelEntry \<Rightarrow> bool" where
  "conflictsBetween a b \<longleftrightarrow>
     (if \<not> me_wildcard a \<and> \<not> me_wildcard b then me_prefix a = me_prefix b
      else if me_wildcard a \<and> \<not> me_wildcard b then has_prefix (me_prefix b) (me_prefix a)
      else if \<not> me_wildcard a \<and> me_wildcard b then has_prefix (me_prefix a) (me_prefix b)
      else has_prefix (me_prefix a) (me_prefix b) \<or> has_prefix (me_prefix b) (me_prefix a))"

fun detectConflicts ::
    "modelEntry list \<Rightarrow> string \<Rightarrow> (string \<Rightarrow> string \<Rightarrow> string \<Rightarrow> channel_error) \<Rightarrow> channel_error option" where
  "detectConflicts [] platform err = None"
| "detectConflicts (a # rest) platform err =
     (case find (conflictsBetween a) rest of
        Some b \<Rightarrow> Some (err (me_pattern a) (me_pattern b) platform)
      | None \<Rightarrow> detectConflicts rest platform err)"

fun first_error :: "('a \<Rightarrow> 'e option) \<Rightarrow> 'a list \<Rightarrow> 'e option" where
  "first_error f [] = None"
| "first_error f (x # xs) = (case f x of Some e \<Rightarrow> Some e | None \<Rightarrow> first_error f xs)"

lemma first_error_None: "first_error f xs = None \<longleftrightarrow> list_all (\<lambda>x. f x = None) xs"
  by (induction xs) (auto split: option.splits)

definition platform_patterns :: "ChannelModelPricing list \<Rightarrow> string \<Rightarrow> (ChannelModelPricing \<times> string) list" where
  "platform_patterns ps platform =
     concat (map (\<lambda>p. if cmp_Platform p = platform then map (Pair p) (cmp_Models p) else []) ps)"

definition validateNoConflictingModels :: "ChannelModelPricing list \<Rightarrow> channel_error option" where
  "validateNoConflictingModels pricingList =
     first_error (\<lambda>platform. detectConflicts
         (map (toModelEntry \<circ> snd) (platform_patterns pricingList platform)) platform ModelPatternConflict)
       (remdups (map cmp_Platform pricingList))"

definition validateNoConflictingMappings :: "string gomap gomap \<Rightarrow> channel_error option" where
  "validateNoConflictingMappings mapping =
     first_error (\<lambda>(platform, kv). detectConflicts (map (toModelEntry \<circ> fst) kv) platform MappingPatternConflict)
       mapping"

definition validatePricingIntervals :: "ChannelModelPricing list \<Rightarrow> channel_error option" where
  "validatePricingIntervals pricingList =
     first_error (\<lambda>p. map_option (InvalidPricingIntervals (cmp_Platform p) (cmp_Models p))
         (ValidateIntervals (cmp_Intervals p) (cmp_BillingMode p))) pricingList"

definition checkBillingModeRequirements :: "ChannelModelPricing \<Rightarrow> channel_error option" where
  "checkBillingModeRequirements p =
     (if (cmp_BillingMode p = BillingModePerRequest \<or> cmp_BillingMode p = BillingModeImage)
         \<and> cmp_PerRequestPrice p = None \<and> cmp_Intervals p = []
      then Some BillingModeMissingPrice else None)"

definition checkPricesNotNegative :: "ChannelModelPricing \<Rightarrow> channel_error option" where
  "checkPricesNotNegative p =
     map_option (\<lambda>(name, v). NegativePrice name)
       (find (\<lambda>(name, v). negative_price v)
         [(''input_price'', cmp_InputPrice p), (''output_price'', cmp_OutputPrice p),
          (''cache_write_price'', cmp_CacheWritePrice p), (''cache_read_price'', cmp_CacheReadPrice p),
          (''image_output_price'', cmp_ImageOutputPrice p), (''per_request_price'', cmp_PerRequestPrice p)])"

definition checkIntervalsHavePrices :: "ChannelModelPricing \<Rightarrow> channel_error option" where
  "checkIntervalsHavePrices p =
     map_option (\<lambda>iv. IntervalMissingPrice (iv_MinTokens iv) (iv_MaxTokens iv) (cmp_Models p))
       (find (\<lambda>iv. iv_InputPrice iv = None \<and> iv_OutputPrice iv = None \<and> iv_CacheWritePrice iv = None
          \<and> iv_CacheReadPrice iv = None \<and> iv_PerRequestPrice iv = None) (cmp_Intervals p))"

definition or_error :: "'e option \<Rightarrow> 'e option \<Rightarrow> 'e option" where
  "or_error a b = (case a of Some e \<Rightarrow> Some e | None \<Rightarrow> b)"

lemma or_error_None [simp]: "or_error a b = None \<longleftrightarrow> a = None \<and> b = None"
  by (cases a) (auto simp: or_error_def)

definition validatePricingBillingMode :: "ChannelModelPricing list \<Rightarrow> channel_error option" where
  "validatePricingBillingMode pricing =
     first_error (\<lambda>p. or_error (checkBillingModeRequirements p)
       (or_error (checkPricesNotNegative p) (checkIntervalsHavePrices p))) pricing"

definition validatePricingEntries :: "ChannelModelPricing list \<Rightarrow> channel_error option" where
  "validatePricingEntries pricing =
     or_error (validateNoConflictingModels pricing)
       (or_error (validatePricingIntervals pricing) (validatePricingBillingMode pricing))"

definition validateChannelConfig :: "ChannelModelPricing list \<Rightarrow> string gomap gomap \<Rightarrow> channel_error option" where
  "validateChannelConfig pricing mapping =
     or_error (validatePricingEntries pricing) (validateNoConflictingMappings mapping)"

section \<open>The cache\<close>

record channelCache =
  cc_pricing :: "int \<times> string \<times> string \<Rightarrow> ChannelModelPricing option"
  cc_wildcards :: "int \<times> string \<Rightarrow> (string \<times> ChannelModelPricing) list"
  cc_mapping :: "int \<times> string \<times> string \<Rightarrow> string option"
  cc_wildcardMapping :: "int \<times> string \<Rightarrow> (string \<times> string) list"
  cc_channelByGroup :: "int \<Rightarrow> Channel option"
  cc_groupPlatform :: "int \<Rightarrow> string option"
  cc_byID :: "int \<Rightarrow> Channel option"
  cc_loadedAt :: gtime

definition newEmptyChannelCache :: channelCache where
  "newEmptyChannelCache = \<lparr>cc_pricing = (\<lambda>_. None), cc_wildcards = (\<lambda>_. []), cc_mapping = (\<lambda>_. None),
     cc_wildcardMapping = (\<lambda>_. []), cc_channelByGroup = (\<lambda>_. None), cc_groupPlatform = (\<lambda>_. None),
     cc_byID = (\<lambda>_. None), cc_loadedAt = zero_time\<rparr>"

definition isPlatformPricingMatch :: "string \<Rightarrow> string \<Rightarrow> bool" where
  "isPlatformPricingMatch groupPlatform pricingPlatform \<longleftrightarrow> groupPlatform = pricingPlatform"

definition matchingPlatforms :: "string \<Rightarrow> string list" where
  "matchingPlatforms groupPlatform = [groupPlatform]"

definition add_price :: "int \<Rightarrow> ChannelModelPricing \<Rightarrow> string \<Rightarrow> channelCache \<Rightarrow> channelCache" where
  "add_price gid pricing model cache =
     (if has_suffix model ''*'' then
        let prefix = to_lower (trim_suffix model ''*''); k = (gid, cmp_Platform pricing)
        in cache\<lparr>cc_wildcards := (cc_wildcards cache)(k := cc_wildcards cache k @ [(prefix, pricing)])\<rparr>
      else cache\<lparr>cc_pricing := (cc_pricing cache)((gid, cmp_Platform pricing, to_lower model) \<mapsto> pricing)\<rparr>)"

definition expandPricingToCache :: "channelCache \<Rightarrow> Channel \<Rightarrow> int \<Rightarrow> string \<Rightarrow> channelCache" where
  "expandPricingToCache cache ch gid platform =
     fold (\<lambda>pricing cache.
         if \<not> isPlatformPricingMatch platform (cmp_Platform pricing) then cache
         else fold (add_price gid pricing) (cmp_Models pricing) cache)
       (ch_ModelPricing ch) cache"

definition add_target :: "int \<Rightarrow> string \<Rightarrow> string \<times> string \<Rightarrow> channelCache \<Rightarrow> channelCache" where
  "add_target gid platform sd cache =
     (let (src, dst) = sd in
      if has_suffix src ''*'' then
        let prefix = to_lower (trim_suffix src ''*''); k = (gid, platform)
        in cache\<lparr>cc_wildcardMapping := (cc_wildcardMapping cache)(k := cc_wildcardMapping cache k @ [(prefix, dst)])\<rparr>
      else cache\<lparr>cc_mapping := (cc_mapping cache)((gid, platform, to_lower src) \<mapsto> dst)\<rparr>)"

definition expandMappingToCache :: "channelCache \<Rightarrow> Channel \<Rightarrow> int \<Rightarrow> string \<Rightarrow> channelCache" where
  "expandMappingToCache cache ch gid platform =
     fold (\<lambda>mappingPlatform cache.
         case map_of (ch_ModelMapping ch) mappingPlatform of
           None \<Rightarrow> cache
         | Some kv \<Rightarrow> fold (add_target gid mappingPlatform) kv cache)
       (matchingPlatforms platform) cache"

definition cache_group :: "(int \<Rightarrow> string option) \<Rightarrow> Channel \<Rightarrow> int \<Rightarrow> channelCache \<Rightarrow> channelCache" where
  "cache_group groupPlatforms ch gid cache =
     (let platform = opt_default [] (groupPlatforms gid);
          cache = cache\<lparr>cc_channelByGroup := (cc_channelByGroup cache)(gid \<mapsto> ch)\<rparr>
      in expandMappingToCache (expandPricingToCache cache ch gid platform) ch gid platform)"

definition cache_channel :: "(int \<Rightarrow> string option) \<Rightarrow> Channel \<Rightarrow> channelCache \<Rightarrow> channelCache" where
  "cache_channel groupPlatforms c cache =
     (let ch = normalizeBillingModelSource c
      in fold (cache_group groupPlatforms ch) (ch_GroupIDs ch)
           (cache\<lparr>cc_byID := (cc_byID cache)(ch_ID ch \<mapsto> ch)\<rparr>))"

definition populateChannelCache :: "gtime \<Rightarrow> Channel list \<Rightarrow> (int \<Rightarrow> string option) \<Rightarrow> channelCache" where
  "populateChannelCache now channels groupPlatforms =
     fold (cache_channel groupPlatforms) channels
       (newEmptyChannelCache\<lparr>cc_groupPlatform := groupPlatforms, cc_loadedAt := now\<rparr>)"

subsection \<open>Lookups\<close>

definition matchWildcard :: "channelCache \<Rightarrow> int \<Rightarrow> string \<Rightarrow> string \<Rightarrow> ChannelModelPricing option" where
  "matchWildcard c groupID platform modelLower =
     map_option snd (find (\<lambda>(prefix, p). has_prefix modelLower prefix) (cc_wildcards c (groupID, platform)))"

definition matchWildcardMapping :: "channelCache \<Rightarrow> int \<Rightarrow> string \<Rightarrow> string \<Rightarrow> string" where
  "matchWildcardMapping c groupID platform modelLower =
     opt_default [] (map_option snd
       (find (\<lambda>(prefix, t). has_prefix modelLower prefix) (cc_wildcardMapping c (groupID, platform))))"

fun first_hit :: "('a \<Rightarrow> 'b option) \<Rightarrow> 'a list \<Rightarrow> 'b option" where
  "first_hit f [] = None"
| "first_hit f (x # xs) = (case f x of Some y \<Rightarrow> Some y | None \<Rightarrow> first_hit f xs)"

definition lookupPricingAcrossPlatforms :: "channelCache \<Rightarrow> int \<Rightarrow> string \<Rightarrow> string \<Rightarrow> ChannelModelPricing option" where
  "lookupPricingAcrossPlatforms cache groupID groupPlatform modelLower =
     (case first_hit (\<lambda>p. cc_pricing cache (groupID, p, modelLower)) (matchingPlatforms groupPlatform) of
        Some pricing \<Rightarrow> Some pricing
      | None \<Rightarrow> first_hit (\<lambda>p. matchWildcard cache groupID p modelLower) (matchingPlatforms groupPlatform))"

definition lookupMappingAcrossPlatforms :: "channelCache \<Rightarrow> int \<Rightarrow> string \<Rightarrow> string \<Rightarrow> string" where
  "lookupMappingAcrossPlatforms cache groupID groupPlatform modelLower =
     (case first_hit (\<lambda>p. cc_mapping cache (groupID, p, modelLower)) (matchingPlatforms groupPlatform) of
        Some mapped \<Rightarrow> mapped
      | None \<Rightarrow> opt_default [] (first_hit (\<lambda>p. let t = matchWildcardMapping cache groupID p modelLower
          in if t \<noteq> [] then Some t else None) (matchingPlatforms groupPlatform)))"

definition lookup_group_channel :: "channelCache \<Rightarrow> int \<Rightarrow> (Channel \<times> string) option" where
  "lookup_group_channel cache groupID =
     (case cc_channelByGroup cache groupID of
        None \<Rightarrow> None
      | Some ch \<Rightarrow> if \<not> Channel_IsActive ch then None
          else Some (ch, opt_default [] (cc_groupPlatform cache groupID)))"

record ChannelMappingResult =
  cmr_MappedModel :: string
  cmr_ChannelID :: int
  cmr_Mapped :: bool
  cmr_BillingModelSource :: string

definition unmapped :: "string \<Rightarrow> ChannelMappingResult" where
  "unmapped model = \<lparr>cmr_MappedModel = model, cmr_ChannelID = 0, cmr_Mapped = False, cmr_BillingModelSource = []\<rparr>"

definition resolveMapping :: "channelCache \<Rightarrow> Channel \<Rightarrow> string \<Rightarrow> int \<Rightarrow> string \<Rightarrow> ChannelMappingResult" where
  "resolveMapping cache ch platform groupID model =
     (let result = \<lparr>cmr_MappedModel = model, cmr_ChannelID = ch_ID ch, cmr_Mapped = False,
                    cmr_BillingModelSource = ch_BillingModelSource ch\<rparr>;
          mapped = lookupMappingAcrossPlatforms cache groupID platform (to_lower model)
      in if mapped \<noteq> [] then result\<lparr>cmr_MappedModel := mapped, cmr_Mapped := True\<rparr> else result)"

definition checkRestricted :: "channelCache \<Rightarrow> Channel \<Rightarrow> string \<Rightarrow> int \<Rightarrow> string \<Rightarrow> bool" where
  "checkRestricted cache ch platform groupID model \<longleftrightarrow>
     (if \<not> ch_RestrictModels ch then False
      else lookupPricingAcrossPlatforms cache groupID platform (to_lower model) = None)"

section \<open>The service's state\<close>

text \<open>The cached snapshot, and the outcome of the two database queries at the time of a call: the
  channels with the platforms of their groups, or an error.\<close>

type_synonym channel_data = "channel_error + Channel list \<times> (int \<Rightarrow> string option)"

definition channelCacheTTL :: duration where "channelCacheTTL = 10 * minute"
definition channelErrorTTL :: duration where "channelErrorTTL = 5 * nanos"

definition storeErrorCache :: "gtime \<Rightarrow> channelCache option" where
  "storeErrorCache now =
     Some (newEmptyChannelCache\<lparr>cc_loadedAt := now - (channelCacheTTL - channelErrorTTL)\<rparr>)"

definition buildCache :: "gtime \<Rightarrow> channel_data \<Rightarrow> channelCache option \<times> (channel_error + channelCache)" where
  "buildCache now data =
     (case data of
        Inl e \<Rightarrow> (storeErrorCache now, Inl e)
      | Inr (channels, platforms) \<Rightarrow>
          let cache = populateChannelCache now channels platforms in (Some cache, Inr cache))"

definition loadCache ::
    "gtime \<Rightarrow> channel_data \<Rightarrow> channelCache option \<Rightarrow> channelCache option \<times> (channel_error + channelCache)" where
  "loadCache now data cached =
     (case cached of
        Some c \<Rightarrow> if time_sub now (cc_loadedAt c) < channelCacheTTL then (cached, Inr c) else buildCache now data
      | None \<Rightarrow> buildCache now data)"

definition invalidateCache :: "gtime \<Rightarrow> channel_data \<Rightarrow> channelCache option" where
  "invalidateCache now data = fst (buildCache now data)"

definition lookupGroupChannel ::
    "gtime \<Rightarrow> channel_data \<Rightarrow> channelCache option \<Rightarrow> int
      \<Rightarrow> channelCache option \<times> (channel_error + (channelCache \<times> Channel \<times> string) option)" where
  "lookupGroupChannel now data cached groupID =
     (case loadCache now data cached of
        (st, Inl e) \<Rightarrow> (st, Inl e)
      | (st, Inr cache) \<Rightarrow>
          (st, Inr (map_option (\<lambda>(ch, platform). (cache, ch, platform)) (lookup_group_channel cache groupID))))"

definition GetChannelForGroup ::
    "gtime \<Rightarrow> channel_data \<Rightarrow> channelCache option \<Rightarrow> int \<Rightarrow> channelCache option \<times> (channel_error + Channel option)" where
  "GetChannelForGroup now data cached groupID =
     (case loadCache now data cached of
        (st, Inl e) \<Rightarrow> (st, Inl e)
      | (st, Inr cache) \<Rightarrow> (st, Inr (map_option fst (lookup_group_channel cache groupID))))"

definition GetGroupPlatform ::
    "gtime \<Rightarrow> channel_data \<Rightarrow> channelCache option \<Rightarrow> int \<Rightarrow> channelCache option \<times> string" where
  "GetGroupPlatform now data cached groupID =
     (case loadCache now data cached of
        (st, Inl e) \<Rightarrow> (st, [])
      | (st, Inr cache) \<Rightarrow> (st, opt_default [] (cc_groupPlatform cache groupID)))"

definition GetChannelModelPricing ::
    "gtime \<Rightarrow> channel_data \<Rightarrow> channelCache option \<Rightarrow> int \<Rightarrow> string \<Rightarrow> channelCache option \<times> ChannelModelPricing option" where
  "GetChannelModelPricing now data cached groupID model =
     (case lookupGroupChannel now data cached groupID of
        (st, Inr (Some (cache, ch, platform))) \<Rightarrow>
          (st, lookupPricingAcrossPlatforms cache groupID platform (to_lower model))
      | (st, _) \<Rightarrow> (st, None))"

definition ResolveChannelMapping ::
    "gtime \<Rightarrow> channel_data \<Rightarrow> channelCache option \<Rightarrow> int \<Rightarrow> string \<Rightarrow> channelCache option \<times> ChannelMappingResult" where
  "ResolveChannelMapping now data cached groupID model =
     (case lookupGroupChannel now data cached groupID of
        (st, Inr (Some (cache, ch, platform))) \<Rightarrow> (st, resolveMapping cache ch platform groupID model)
      | (st, _) \<Rightarrow> (st, unmapped model))"

definition IsModelRestricted ::
    "gtime \<Rightarrow> channel_data \<Rightarrow> channelCache option \<Rightarrow> int \<Rightarrow> string \<Rightarrow> channelCache option \<times> bool" where
  "IsModelRestricted now data cached groupID model =
     (case lookupGroupChannel now data cached groupID of
        (st, Inr (Some (cache, ch, platform))) \<Rightarrow> (st, checkRestricted cache ch platform groupID model)
      | (st, _) \<Rightarrow> (st, False))"

definition ResolveChannelMappingAndRestrict ::
    "gtime \<Rightarrow> channel_data \<Rightarrow> channelCache option \<Rightarrow> int option \<Rightarrow> string
      \<Rightarrow> channelCache option \<times> ChannelMappingResult \<times> bool" where
  "ResolveChannelMappingAndRestrict now data cached gid model =
     (case gid of
        None \<Rightarrow> (cached, unmapped model, False)
      | Some groupID \<Rightarrow>
          (case ResolveChannelMapping now data cached groupID model of (st, r) \<Rightarrow> (st, r, False)))"

section \<open>Usage fields\<close>

text \<open>The arrow \<open>U+2192\<close> in UTF-8.\<close>

definition arrow :: string where "arrow = [CHR 0xE2, CHR 0x86, CHR 0x92]"

definition BuildModelMappingChain :: "ChannelMappingResult \<Rightarrow> string \<Rightarrow> string \<Rightarrow> string" where
  "BuildModelMappingChain r reqModel upstreamModel =
     (if \<not> cmr_Mapped r then
        (if upstreamModel \<noteq> [] \<and> upstreamModel \<noteq> reqModel then reqModel @ arrow @ upstreamModel else [])
      else if upstreamModel \<noteq> [] \<and> upstreamModel \<noteq> cmr_MappedModel r
        then reqModel @ arrow @ cmr_MappedModel r @ arrow @ upstreamModel
      else reqModel @ arrow @ cmr_MappedModel r)"

record ChannelUsageFields =
  cuf_ChannelID :: int
  cuf_OriginalModel :: string
  cuf_ChannelMappedModel :: string
  cuf_BillingModelSource :: string
  cuf_ModelMappingChain :: string

definition ToUsageFields :: "ChannelMappingResult \<Rightarrow> string \<Rightarrow> string \<Rightarrow> ChannelUsageFields" where
  "ToUsageFields r reqModel upstreamModel =
     \<lparr>cuf_ChannelID = cmr_ChannelID r, cuf_OriginalModel = reqModel,
      cuf_ChannelMappedModel = (if cmr_Mapped r then cmr_MappedModel r else reqModel),
      cuf_BillingModelSource = cmr_BillingModelSource r,
      cuf_ModelMappingChain = BuildModelMappingChain r reqModel upstreamModel\<rparr>"

end
