(* ===== verification/ChannelProps.thy ===== *)
theory ChannelProps
  imports ChannelService
begin

text \<open>
  The cache of channels against what it promises: in a validated configuration at most one
  pattern of a platform matches a model, and the flat cache finds the entry with that pattern,
  whatever the order in which entries and mappings are stored or iterated.
\<close>

section \<open>Patterns\<close>

definition pattern_matches :: "string \<Rightarrow> string \<Rightarrow> bool" where
  "pattern_matches m modelLower \<longleftrightarrow>
     (if has_suffix m ''*'' then has_prefix modelLower (to_lower (trim_suffix m ''*''))
      else to_lower m = modelLower)"

lemma take_snoc:
  assumes "x \<notin> set q" and "length q = n"
  shows "take n (s @ [x]) = q \<longleftrightarrow> take n s = q"
proof (cases "n \<le> length s")
  case False
  then have "x \<in> set (take n (s @ [x]))" "length (take n s) \<noteq> n" by auto
  then show ?thesis using assms by metis
qed simp

lemma to_lower_snoc_star: "to_lower (s @ ''*'') = to_lower s @ ''*''"
proof (induction "length s" arbitrary: s rule: less_induct)
  case less
  show ?case
  proof (cases s)
    case Nil
    then show ?thesis by (simp add: to_lower_Cons lower_char_def)
  next
    case (Cons c r)
    have two: "take 2 (s @ ''*'') = [CHR 0xC4, CHR 0xB0] \<longleftrightarrow> take 2 s = [CHR 0xC4, CHR 0xB0]"
      and three: "take 3 (s @ ''*'') = [CHR 0xE2, CHR 0x84, CHR 0xAA] \<longleftrightarrow> take 3 s = [CHR 0xE2, CHR 0x84, CHR 0xAA]"
      by (rule take_snoc; simp)+
    have d: "drop 2 (s @ ''*'') = drop 2 s @ ''*''" if "take 2 s = [CHR 0xC4, CHR 0xB0]"
      using arg_cong [OF that, of length] by simp
    have d': "drop 3 (s @ ''*'') = drop 3 s @ ''*''" if "take 3 s = [CHR 0xE2, CHR 0x84, CHR 0xAA]"
      using arg_cong [OF that, of length] by simp
    show ?thesis
      using less [of "drop 2 s"] less [of "drop 3 s"] less [of r] Cons two three d d'
        to_lower_Cons [of c r] to_lower_Cons [of c "r @ ''*''"]
      by (simp split: if_splits)
  qed
qed

lemma lower_char_star: "lower_char c = CHR ''*'' \<Longrightarrow> c = CHR ''*''"
proof -
  assume a: "lower_char c = CHR ''*''"
  have "\<not> (65 \<le> (of_char c :: nat) \<and> of_char c \<le> (90 :: nat))"
  proof
    assume b: "65 \<le> (of_char c :: nat) \<and> of_char c \<le> (90 :: nat)"
    then have "(of_char (lower_char c) :: nat) = of_char c + 32" by (simp add: lower_char_def)
    then show False using a b by simp
  qed
  then have "lower_char c = c" by (auto simp: lower_char_def Let_def)
  then show ?thesis using a by simp
qed

lemma to_lower_star_last:
  "to_lower m \<noteq> [] \<Longrightarrow> last (to_lower m) = CHR ''*'' \<Longrightarrow> m \<noteq> [] \<and> last m = CHR ''*''"
proof (induction "length m" arbitrary: m rule: less_induct)
  case less
  then obtain c r where m: "m = c # r" by (cases m) auto
  have tail: "last m = CHR ''*''" if "0 < n" "to_lower (drop n m) \<noteq> []"
      "last (to_lower (drop n m)) = CHR ''*''" for n
  proof -
    have ne: "drop n m \<noteq> []" using that(2) by auto
    moreover have "length (drop n m) < length m" using \<open>0 < n\<close> m by simp
    ultimately have "last (drop n m) = CHR ''*''" using less.hyps that by blast
    then show ?thesis using ne by (simp add: last_drop)
  qed
  have step: "last m = CHR ''*''"
    if "to_lower m = x # to_lower (drop n m)" "0 < n" "x = CHR ''*'' \<Longrightarrow> n = 1 \<and> c = CHR ''*''" for x n
  proof (cases "to_lower (drop n m) = []")
    case True
    then have "n = 1 \<and> c = CHR ''*''" using that less.prems by simp
    moreover have "r = []"
      using True calculation by (cases r) (auto simp: m to_lower_Cons split: if_splits)
    ultimately show ?thesis by (simp add: m)
  next
    case False
    then show ?thesis using tail [of n] that less.prems by simp
  qed
  consider "to_lower m = CHR ''i'' # to_lower (drop 2 m)" | "to_lower m = CHR ''k'' # to_lower (drop 3 m)"
    | "to_lower m = lower_char c # to_lower (drop 1 m)"
    using to_lower_Cons [of c r] m by (metis One_nat_def drop0 drop_Suc_Cons)
  then show ?case
    using step [of "CHR ''i''" 2] step [of "CHR ''k''" 3] step [of "lower_char c" 1] lower_char_star [of c] m
    by cases auto
qed

lemma to_lower_star: "has_suffix (to_lower m) ''*'' \<longleftrightarrow> has_suffix m ''*''"
proof
  assume "has_suffix (to_lower m) ''*''"
  then have "m \<noteq> [] \<and> last m = CHR ''*''"
    by (intro to_lower_star_last) (auto simp: has_suffix_iff)
  then show "has_suffix m ''*''" by (metis append_butlast_last_id has_suffix_append)
next
  assume "has_suffix m ''*''"
  then show "has_suffix (to_lower m) ''*''" by (auto simp: has_suffix_iff to_lower_snoc_star)
qed

lemma toModelEntry_eq:
  "toModelEntry m = \<lparr>me_pattern = m,
     me_prefix = (if has_suffix m ''*'' then to_lower (trim_suffix m ''*'') else to_lower m),
     me_wildcard = has_suffix m ''*''\<rparr>"
proof (cases "has_suffix m ''*''")
  case True
  then obtain r where "m = r @ ''*''" by (auto simp: has_suffix_iff)
  then show ?thesis
    by (simp add: toModelEntry_def splitWildcardSuffix_def trim_suffix_def to_lower_snoc_star)
next
  case False
  then show ?thesis by (simp add: toModelEntry_def splitWildcardSuffix_def to_lower_star)
qed

lemma common_prefix: "has_prefix l p \<Longrightarrow> has_prefix l q \<Longrightarrow> has_prefix p q \<or> has_prefix q p"
  by (auto simp: has_prefix_iff append_eq_append_conv2)

text \<open>Two patterns that match the same name conflict.\<close>

lemma both_match_conflict:
  "pattern_matches a l \<Longrightarrow> pattern_matches b l \<Longrightarrow> conflictsBetween (toModelEntry a) (toModelEntry b)"
  using common_prefix [of l "to_lower (trim_suffix a ''*'')" "to_lower (trim_suffix b ''*'')"]
  by (auto simp: pattern_matches_def conflictsBetween_def toModelEntry_eq split: if_splits)

lemma detectConflicts_None:
  "detectConflicts es P err = None \<longleftrightarrow> sorted_wrt (\<lambda>a b. \<not> conflictsBetween a b) es"
proof (induction es)
  case (Cons a es)
  have "find (conflictsBetween a) es = None \<longleftrightarrow> (\<forall>x\<in>set es. \<not> conflictsBetween a x)"
    by (auto simp: find_None_iff)
  then show ?case using Cons by (cases "find (conflictsBetween a) es") simp_all
qed simp

lemma no_conflict_unique:
  assumes "detectConflicts (map (toModelEntry \<circ> f) xs) P err = None"
  shows "sorted_wrt (\<lambda>x y. \<not> (pattern_matches (f x) l \<and> pattern_matches (f y) l)) xs"
  using assms both_match_conflict
  by (auto simp: detectConflicts_None sorted_wrt_map elim!: sorted_wrt_mono_rel [rotated])

lemma find_rev_unique:
  "sorted_wrt (\<lambda>x y. \<not> (p x \<and> p y)) xs \<Longrightarrow> find p (rev xs) = find p xs"
proof (induction xs)
  case (Cons x xs)
  have a: "find p (ys @ [x]) = (case find p ys of Some y \<Rightarrow> Some y | None \<Rightarrow> if p x then Some x else None)" for ys
    by (induction ys) auto
  have r: "find p (rev xs) = find p xs" using Cons by simp
  have "find p xs = None" if "p x"
    using Cons.prems that by (auto simp: find_None_iff)
  then show ?case by (auto simp: a r split: option.splits)
qed simp

section \<open>One group of the cache\<close>

text \<open>Everything that the cache holds for a group.\<close>

definition at_group :: "int \<Rightarrow> channelCache \<Rightarrow>
    (string \<times> string \<Rightarrow> ChannelModelPricing option) \<times> (string \<Rightarrow> (string \<times> ChannelModelPricing) list)
    \<times> (string \<times> string \<Rightarrow> string option) \<times> (string \<Rightarrow> (string \<times> string) list) \<times> Channel option" where
  "at_group g c = (\<lambda>k. cc_pricing c (g, k), \<lambda>P. cc_wildcards c (g, P), \<lambda>k. cc_mapping c (g, k),
     \<lambda>P. cc_wildcardMapping c (g, P), cc_channelByGroup c g)"

definition fresh_group :: "int \<Rightarrow> channelCache \<Rightarrow> bool" where
  "fresh_group g c \<longleftrightarrow> at_group g c = (\<lambda>_. None, \<lambda>_. [], \<lambda>_. None, \<lambda>_. [], None)"

lemma add_price_other: "g \<noteq> gid \<Longrightarrow> at_group g (add_price gid p m c) = at_group g c"
  by (simp add: at_group_def add_price_def Let_def)

lemma add_target_other: "g \<noteq> gid \<Longrightarrow> at_group g (add_target gid P sd c) = at_group g c"
  by (simp add: at_group_def add_target_def Let_def split_beta)

lemma fold_keeps: "(\<And>x s. x \<in> set xs \<Longrightarrow> v (f x s) = v s) \<Longrightarrow> v (fold f xs s) = v s"
  by (induction xs arbitrary: s) auto

lemma add_price_frame [simp]:
  "cc_mapping (add_price gid p m c) = cc_mapping c"
  "cc_wildcardMapping (add_price gid p m c) = cc_wildcardMapping c"
  "cc_channelByGroup (add_price gid p m c) = cc_channelByGroup c"
  "cc_groupPlatform (add_price gid p m c) = cc_groupPlatform c"
  by (simp_all add: add_price_def Let_def)

lemma add_target_frame [simp]:
  "cc_pricing (add_target gid P sd c) = cc_pricing c"
  "cc_wildcards (add_target gid P sd c) = cc_wildcards c"
  "cc_channelByGroup (add_target gid P sd c) = cc_channelByGroup c"
  "cc_groupPlatform (add_target gid P sd c) = cc_groupPlatform c"
  by (simp_all add: add_target_def Let_def split_beta)

lemma expandPricing_flat:
  "expandPricingToCache cache ch gid P
     = fold (\<lambda>(p, m). add_price gid p m) (platform_patterns (ch_ModelPricing ch) P) cache"
proof -
  have m: "fold (\<lambda>(p, m). add_price gid p m) (map (Pair p) ms) c = fold (add_price gid p) ms c" for p ms c
    by (induction ms arbitrary: c) auto
  have "fold (\<lambda>pricing cache. if \<not> isPlatformPricingMatch P (cmp_Platform pricing) then cache
            else fold (add_price gid pricing) (cmp_Models pricing) cache) ps cache
      = fold (\<lambda>(p, m). add_price gid p m) (platform_patterns ps P) cache" for ps
    by (induction ps arbitrary: cache) (auto simp: platform_patterns_def isPlatformPricingMatch_def m)
  then show ?thesis by (simp add: expandPricingToCache_def)
qed

definition exact_for :: "string \<Rightarrow> string \<Rightarrow> bool" where
  "exact_for l m \<longleftrightarrow> \<not> has_suffix m ''*'' \<and> to_lower m = l"

definition stem :: "string \<Rightarrow> string" where
  "stem m = to_lower (trim_suffix m ''*'')"

lemma pattern_matches_alt: "pattern_matches m l \<longleftrightarrow> exact_for l m \<or> has_suffix m ''*'' \<and> has_prefix l (stem m)"
  by (auto simp: pattern_matches_def exact_for_def stem_def)

lemma find_Cons_rev: "find P (rev (x # xs)) = (case find P (rev xs) of Some y \<Rightarrow> Some y | None \<Rightarrow> if P x then Some x else None)"
proof -
  have "find P (ys @ [x]) = (case find P ys of Some y \<Rightarrow> Some y | None \<Rightarrow> if P x then Some x else None)" for ys
    by (induction ys) auto
  then show ?thesis by simp
qed

lemma prices_exact:
  "\<forall>(p, m) \<in> set xs. cmp_Platform p = P \<Longrightarrow>
   cc_pricing (fold (\<lambda>(p, m). add_price gid p m) xs c) (gid, P, l)
     = (case find (exact_for l \<circ> snd) (rev xs) of Some x \<Rightarrow> Some (fst x) | None \<Rightarrow> cc_pricing c (gid, P, l))"
proof (induction xs arbitrary: c)
  case (Cons x xs)
  then show ?case
    by (cases x) (auto simp: find_Cons_rev add_price_def exact_for_def Let_def simp del: rev.simps split: option.splits)
qed simp

lemma prices_wild:
  "\<forall>(p, m) \<in> set xs. cmp_Platform p = P \<Longrightarrow>
   cc_wildcards (fold (\<lambda>(p, m). add_price gid p m) xs c) (gid, P)
     = cc_wildcards c (gid, P) @ map (\<lambda>(p, m). (stem m, p)) (filter (\<lambda>(p, m). has_suffix m ''*'') xs)"
  by (induction xs arbitrary: c) (auto simp: add_price_def stem_def Let_def)

lemma targets_exact:
  "cc_mapping (fold (add_target gid P) kv c) (gid, P, l)
     = (case find (exact_for l \<circ> fst) (rev kv) of Some x \<Rightarrow> Some (snd x) | None \<Rightarrow> cc_mapping c (gid, P, l))"
proof (induction kv arbitrary: c)
  case (Cons x xs)
  then show ?case
    by (cases x) (auto simp: find_Cons_rev add_target_def exact_for_def Let_def simp del: rev.simps split: option.splits)
qed simp

lemma targets_wild:
  "cc_wildcardMapping (fold (add_target gid P) kv c) (gid, P)
     = cc_wildcardMapping c (gid, P) @ map (\<lambda>(s, t). (stem s, t)) (filter (\<lambda>(s, t). has_suffix s ''*'') kv)"
  by (induction kv arbitrary: c) (auto simp: add_target_def stem_def Let_def)

lemma find_disjoint:
  "sorted_wrt (\<lambda>x y. \<not> ((e x \<or> w x) \<and> (e y \<or> w y))) xs \<Longrightarrow>
   (case find e xs of Some x \<Rightarrow> Some x | None \<Rightarrow> find w xs) = find (\<lambda>x. e x \<or> w x) xs"
proof (induction xs)
  case (Cons x xs)
  have "find e xs = None" if "w x" using Cons.prems that by (auto simp: find_None_iff)
  then show ?case using Cons by (cases "e x"; cases "w x") (simp_all cong: option.case_cong)
qed simp

lemma find_filter: "find w (filter s xs) = find (\<lambda>x. s x \<and> w x) xs"
  by (induction xs) auto

text \<open>First the exact patterns, from the last one, then the wildcards, from the first one: for patterns
  of which at most one matches this is the matching one.\<close>

lemma exact_then_wild:
  assumes "sorted_wrt (\<lambda>x y. \<not> (pattern_matches (f x) l \<and> pattern_matches (f y) l)) xs"
  shows "(case find (exact_for l \<circ> f) (rev xs) of Some x \<Rightarrow> Some x
          | None \<Rightarrow> find (\<lambda>x. has_prefix l (stem (f x))) (filter (\<lambda>x. has_suffix (f x) ''*'') xs))
       = find (\<lambda>x. pattern_matches (f x) l) xs"
proof -
  have "sorted_wrt (\<lambda>x y. \<not> ((exact_for l \<circ> f) x \<and> (exact_for l \<circ> f) y)) xs"
    using assms by (rule sorted_wrt_mono_rel [rotated]) (auto simp: pattern_matches_alt)
  then have "find (exact_for l \<circ> f) (rev xs) = find (exact_for l \<circ> f) xs" by (rule find_rev_unique)
  then show ?thesis
    using find_disjoint [of "exact_for l \<circ> f" "\<lambda>x. has_suffix (f x) ''*'' \<and> has_prefix l (stem (f x))" xs] assms
    by (simp add: find_filter pattern_matches_alt cong: option.case_cong)
qed

section \<open>What a group is served\<close>

definition channel_price :: "Channel \<Rightarrow> string \<Rightarrow> string \<Rightarrow> ChannelModelPricing option" where
  "channel_price ch platform model =
     find (\<lambda>p. cmp_Platform p = platform \<and> list_ex (\<lambda>m. pattern_matches m (to_lower model)) (cmp_Models p))
       (ch_ModelPricing ch)"

definition channel_target :: "Channel \<Rightarrow> string \<Rightarrow> string \<Rightarrow> string" where
  "channel_target ch platform model =
     (case map_of (ch_ModelMapping ch) platform of
        None \<Rightarrow> []
      | Some kv \<Rightarrow> opt_default [] (map_option snd (find (\<lambda>(src, _). pattern_matches src (to_lower model)) kv)))"

lemma find_patterns:
  "map_option fst (find (\<lambda>x. pattern_matches (snd x) l) (platform_patterns ps P))
     = find (\<lambda>p. cmp_Platform p = P \<and> list_ex (\<lambda>m. pattern_matches m l) (cmp_Models p)) ps"
proof (induction ps)
  case (Cons p ps)
  have "map_option fst (find (\<lambda>x. pattern_matches (snd x) l) (map (Pair p) ms @ ys))
      = (if list_ex (\<lambda>m. pattern_matches m l) ms then Some p
         else map_option fst (find (\<lambda>x. pattern_matches (snd x) l) ys))" for ms ys
    by (induction ms) auto
  then show ?case using Cons by (simp add: platform_patterns_def)
qed (simp add: platform_patterns_def)

lemma valid_models:
  assumes "validatePricingEntries ps = None"
  shows "detectConflicts (map (toModelEntry \<circ> snd) (platform_patterns ps P)) P ModelPatternConflict = None"
proof (cases "P \<in> set (map cmp_Platform ps)")
  case True
  then show ?thesis
    using assms by (auto simp: validatePricingEntries_def validateNoConflictingModels_def first_error_None list_all_iff)
next
  case False
  then have "platform_patterns ps P = []" by (auto simp: platform_patterns_def)
  then show ?thesis by simp
qed

lemma map_find:
  "map_option snd (find (\<lambda>x. Q (fst x)) (map (\<lambda>x. (g x, h x)) xs)) = map_option h (find (\<lambda>x. Q (g x)) xs)"
  by (induction xs) auto

text \<open>The lookup in a cache into which the prices of one channel were expanded for a fresh group.\<close>

lemma lookup_expanded:
  assumes v: "validatePricingEntries (ch_ModelPricing ch) = None"
    and c: "\<And>l. cc_pricing c (gid, P, l) = None" "cc_wildcards c (gid, P) = []"
  shows "lookupPricingAcrossPlatforms (expandPricingToCache c ch gid P) gid P (to_lower model)
    = channel_price ch P model"
proof -
  let ?xs = "platform_patterns (ch_ModelPricing ch) P" and ?l = "to_lower model"
  have pl: "\<forall>(p, m) \<in> set ?xs. cmp_Platform p = P" by (auto simp: platform_patterns_def split: if_splits)
  have u: "sorted_wrt (\<lambda>x y. \<not> (pattern_matches (snd x) ?l \<and> pattern_matches (snd y) ?l)) ?xs"
    by (rule no_conflict_unique [OF valid_models [OF v]])
  have w: "map_option snd (find (\<lambda>(prefix, p). has_prefix ?l prefix)
        (map (\<lambda>(p, m). (stem m, p)) (filter (\<lambda>(p, m). has_suffix m ''*'') ?xs)))
      = map_option fst (find (\<lambda>x. has_prefix ?l (stem (snd x))) (filter (\<lambda>x. has_suffix (snd x) ''*'') ?xs))"
    unfolding case_prod_unfold by (rule map_find)
  have "lookupPricingAcrossPlatforms (expandPricingToCache c ch gid P) gid P ?l
      = map_option fst (case find (exact_for ?l \<circ> snd) (rev ?xs) of Some x \<Rightarrow> Some x
          | None \<Rightarrow> find (\<lambda>x. has_prefix ?l (stem (snd x))) (filter (\<lambda>x. has_suffix (snd x) ''*'') ?xs))"
    by (cases "find (exact_for ?l \<circ> snd) (rev ?xs)")
      (simp_all add: lookupPricingAcrossPlatforms_def matchingPlatforms_def matchWildcard_def expandPricing_flat
        prices_exact [OF pl] prices_wild [OF pl] c w option.case_eq_if)
  then show ?thesis
    by (simp add: exact_then_wild [OF u] find_patterns channel_price_def)
qed

lemma valid_mapping:
  assumes "validateNoConflictingMappings mm = None" "map_of mm P = Some kv"
  shows "detectConflicts (map (toModelEntry \<circ> fst) kv) P MappingPatternConflict = None"
  using assms by (fastforce simp: validateNoConflictingMappings_def first_error_None list_all_iff dest!: map_of_SomeD)

lemma target_expanded:
  assumes v: "validateNoConflictingMappings (ch_ModelMapping ch) = None"
    and c: "\<And>l. cc_mapping c (gid, P, l) = None" "cc_wildcardMapping c (gid, P) = []"
  shows "lookupMappingAcrossPlatforms (expandMappingToCache c ch gid P) gid P (to_lower model)
    = channel_target ch P model"
proof (cases "map_of (ch_ModelMapping ch) P")
  case None
  then show ?thesis
    by (simp add: lookupMappingAcrossPlatforms_def matchingPlatforms_def expandMappingToCache_def c
        matchWildcardMapping_def channel_target_def)
next
  case (Some kv)
  let ?l = "to_lower model"
  have u: "sorted_wrt (\<lambda>x y. \<not> (pattern_matches (fst x) ?l \<and> pattern_matches (fst y) ?l)) kv"
    by (rule no_conflict_unique [OF valid_mapping [OF v Some]])
  have w: "map_option snd (find (\<lambda>(prefix, t). has_prefix ?l prefix)
        (map (\<lambda>(s, t). (stem s, t)) (filter (\<lambda>(s, t). has_suffix s ''*'') kv)))
      = map_option snd (find (\<lambda>x. has_prefix ?l (stem (fst x))) (filter (\<lambda>x. has_suffix (fst x) ''*'') kv))"
    unfolding case_prod_unfold by (rule map_find)
  have "lookupMappingAcrossPlatforms (expandMappingToCache c ch gid P) gid P ?l
      = opt_default [] (map_option snd (case find (exact_for ?l \<circ> fst) (rev kv) of Some x \<Rightarrow> Some x
          | None \<Rightarrow> find (\<lambda>x. has_prefix ?l (stem (fst x))) (filter (\<lambda>x. has_suffix (fst x) ''*'') kv)))"
    by (cases "find (exact_for ?l \<circ> fst) (rev kv)")
      (simp_all add: lookupMappingAcrossPlatforms_def matchingPlatforms_def matchWildcardMapping_def
        expandMappingToCache_def Some targets_exact targets_wild c w Let_def)
  then show ?thesis
    by (simp add: exact_then_wild [OF u] Some channel_target_def case_prod_unfold)
qed

section \<open>The whole cache\<close>

lemma expandPricing_other: "g \<noteq> gid \<Longrightarrow> at_group g (expandPricingToCache c ch gid P) = at_group g c"
  unfolding expandPricing_flat by (rule fold_keeps) (auto simp: add_price_other)

lemma expandMapping_other: "g \<noteq> gid \<Longrightarrow> at_group g (expandMappingToCache c ch gid P) = at_group g c"
  by (auto simp: expandMappingToCache_def matchingPlatforms_def add_target_other split: option.splits intro!: fold_keeps)

lemma expandPricing_frame [simp]:
  "cc_mapping (expandPricingToCache c ch gid P) = cc_mapping c"
  "cc_wildcardMapping (expandPricingToCache c ch gid P) = cc_wildcardMapping c"
  "cc_channelByGroup (expandPricingToCache c ch gid P) = cc_channelByGroup c"
  "cc_groupPlatform (expandPricingToCache c ch gid P) = cc_groupPlatform c"
  by (auto simp: expandPricing_flat intro: fold_keeps)

lemma expandMapping_frame [simp]:
  "cc_pricing (expandMappingToCache c ch gid P) = cc_pricing c"
  "cc_wildcards (expandMappingToCache c ch gid P) = cc_wildcards c"
  "cc_channelByGroup (expandMappingToCache c ch gid P) = cc_channelByGroup c"
  "cc_groupPlatform (expandMappingToCache c ch gid P) = cc_groupPlatform c"
  by (auto simp: expandMappingToCache_def matchingPlatforms_def split: option.splits intro!: fold_keeps)

lemma at_group_channel [simp]:
  "at_group g (c\<lparr>cc_byID := b\<rparr>) = at_group g c"
  "g \<noteq> gid \<Longrightarrow> at_group g (c\<lparr>cc_channelByGroup := (cc_channelByGroup c)(gid \<mapsto> ch)\<rparr>) = at_group g c"
  by (simp_all add: at_group_def)

lemma lookupPricing_eq:
  "lookupPricingAcrossPlatforms c g P l = (case cc_pricing c (g, P, l) of Some p \<Rightarrow> Some p
     | None \<Rightarrow> map_option snd (find (\<lambda>(prefix, p). has_prefix l prefix) (cc_wildcards c (g, P))))"
  by (cases "cc_pricing c (g, P, l)"; cases "matchWildcard c g P l")
    (simp_all add: lookupPricingAcrossPlatforms_def matchingPlatforms_def flip: matchWildcard_def)

lemma lookupMapping_eq:
  "lookupMappingAcrossPlatforms c g P l = (case cc_mapping c (g, P, l) of Some t \<Rightarrow> t
     | None \<Rightarrow> opt_default [] (map_option snd
         (find (\<lambda>(prefix, t). has_prefix l prefix) (cc_wildcardMapping c (g, P)))))"
  by (cases "cc_mapping c (g, P, l)"; cases "matchWildcardMapping c g P l")
    (simp_all add: lookupMappingAcrossPlatforms_def matchingPlatforms_def flip: matchWildcardMapping_def)

text \<open>What the lookups of a group see.\<close>

lemma lookups_at_group:
  assumes "at_group g c = at_group g c'"
  shows "lookupPricingAcrossPlatforms c g P l = lookupPricingAcrossPlatforms c' g P l"
    and "lookupMappingAcrossPlatforms c g P l = lookupMappingAcrossPlatforms c' g P l"
    and "cc_channelByGroup c g = cc_channelByGroup c' g"
  using assms by (simp_all add: at_group_def fun_eq_iff lookupPricing_eq lookupMapping_eq cong: option.case_cong)

lemma lookupPricing_frame:
  "cc_pricing c = cc_pricing c' \<Longrightarrow> cc_wildcards c = cc_wildcards c' \<Longrightarrow>
   lookupPricingAcrossPlatforms c g P l = lookupPricingAcrossPlatforms c' g P l"
  by (simp add: lookupPricing_eq cong: option.case_cong)

definition serves :: "string \<Rightarrow> Channel \<Rightarrow> int \<Rightarrow> channelCache \<Rightarrow> bool" where
  "serves P ch gid c \<longleftrightarrow> cc_channelByGroup c gid = Some ch
     \<and> (\<forall>m. lookupPricingAcrossPlatforms c gid P (to_lower m) = channel_price ch P m)
     \<and> (\<forall>m. lookupMappingAcrossPlatforms c gid P (to_lower m) = channel_target ch P m)"

lemma serves_cong: "at_group g c = at_group g c' \<Longrightarrow> serves P ch g c \<longleftrightarrow> serves P ch g c'"
  using lookups_at_group [of g c c'] by (simp add: serves_def)

lemma fresh_cong: "at_group g c = at_group g c' \<Longrightarrow> fresh_group g c \<longleftrightarrow> fresh_group g c'"
  by (simp add: fresh_group_def)

lemma cache_group_other: "g \<noteq> gid \<Longrightarrow> at_group g (cache_group pl ch gid c) = at_group g c"
  by (simp add: cache_group_def Let_def expandPricing_other expandMapping_other)

lemma cache_group_serves:
  assumes "validateChannelConfig (ch_ModelPricing ch) (ch_ModelMapping ch) = None" "fresh_group gid c"
  shows "serves (opt_default [] (pl gid)) ch gid (cache_group pl ch gid c)"
proof -
  let ?P = "opt_default [] (pl gid)"
  let ?c = "c\<lparr>cc_channelByGroup := (cc_channelByGroup c)(gid \<mapsto> ch)\<rparr>"
  have f: "cc_pricing c (gid, k) = None" "cc_wildcards c (gid, P) = []" "cc_mapping c (gid, k) = None"
      "cc_wildcardMapping c (gid, P) = []" for k P
    using assms(2) by (cases k; simp add: fresh_group_def at_group_def fun_eq_iff)+
  have v: "validatePricingEntries (ch_ModelPricing ch) = None" "validateNoConflictingMappings (ch_ModelMapping ch) = None"
    using assms(1) by (auto simp: validateChannelConfig_def)
  have "lookupPricingAcrossPlatforms (cache_group pl ch gid c) gid ?P (to_lower m) = channel_price ch ?P m" for m
    using lookup_expanded [OF v(1), of ?c gid ?P m]
      lookupPricing_frame [of "cache_group pl ch gid c" "expandPricingToCache ?c ch gid ?P"]
    by (simp add: cache_group_def Let_def f)
  moreover have "lookupMappingAcrossPlatforms (cache_group pl ch gid c) gid ?P (to_lower m) = channel_target ch ?P m" for m
    using target_expanded [OF v(2), of "expandPricingToCache ?c ch gid ?P" gid ?P m]
    by (simp add: cache_group_def Let_def f)
  ultimately show ?thesis by (simp add: serves_def cache_group_def Let_def)
qed

lemma cache_groups_other:
  "g \<notin> set gids \<Longrightarrow> at_group g (fold (cache_group pl ch) gids c) = at_group g c"
  by (induction gids arbitrary: c) (auto simp: cache_group_other)

lemma cache_groups_serve:
  assumes "validateChannelConfig (ch_ModelPricing ch) (ch_ModelMapping ch) = None"
  shows "distinct gids \<Longrightarrow> list_all (\<lambda>g. fresh_group g c) gids \<Longrightarrow> gid \<in> set gids \<Longrightarrow>
    serves (opt_default [] (pl gid)) ch gid (fold (cache_group pl ch) gids c)"
proof (induction gids arbitrary: c)
  case (Cons g gs)
  have o: "at_group h (cache_group pl ch g c) = at_group h c" if "h \<in> set gs" for h
    using Cons.prems(1) that by (intro cache_group_other) auto
  show ?case
  proof (cases "gid = g")
    case True
    then have "at_group gid (fold (cache_group pl ch) gs (cache_group pl ch g c)) = at_group gid (cache_group pl ch g c)"
      using Cons.prems(1) by (intro cache_groups_other) auto
    from serves_cong [OF this] show ?thesis
      using cache_group_serves [OF assms, of g c pl] Cons.prems True by simp
  next
    case False
    have "list_all (\<lambda>h. fresh_group h (cache_group pl ch g c)) gs"
      using Cons.prems(2) fresh_cong [OF o] by (auto simp: list_all_iff)
    then show ?thesis using Cons.IH [of "cache_group pl ch g c"] Cons.prems(1,3) False by simp
  qed
qed simp

lemma normalized_fields [simp]:
  "ch_ModelPricing (normalizeBillingModelSource ch) = ch_ModelPricing ch"
  "ch_ModelMapping (normalizeBillingModelSource ch) = ch_ModelMapping ch"
  "ch_GroupIDs (normalizeBillingModelSource ch) = ch_GroupIDs ch"
  "ch_RestrictModels (normalizeBillingModelSource ch) = ch_RestrictModels ch"
  "ch_ID (normalizeBillingModelSource ch) = ch_ID ch"
  "Channel_IsActive (normalizeBillingModelSource ch) = Channel_IsActive ch"
  "channel_price (normalizeBillingModelSource ch) = channel_price ch"
  "channel_target (normalizeBillingModelSource ch) = channel_target ch"
  by (simp_all add: normalizeBillingModelSource_def Channel_IsActive_def channel_price_def channel_target_def fun_eq_iff)

lemma cache_channel_other:
  "g \<notin> set (ch_GroupIDs ch) \<Longrightarrow> at_group g (cache_channel pl ch c) = at_group g c"
  by (simp add: cache_channel_def Let_def cache_groups_other)

lemma cache_channels_other:
  "g \<notin> set (concat (map ch_GroupIDs chs)) \<Longrightarrow> at_group g (fold (cache_channel pl) chs c) = at_group g c"
  by (induction chs arbitrary: c) (auto simp: cache_channel_other)

definition config_ok :: "Channel \<Rightarrow> bool" where
  "config_ok ch \<longleftrightarrow> validateChannelConfig (ch_ModelPricing ch) (ch_ModelMapping ch) = None"

lemma cache_channels_serve:
  "distinct (concat (map ch_GroupIDs chs)) \<Longrightarrow> list_all (\<lambda>g. fresh_group g c) (concat (map ch_GroupIDs chs)) \<Longrightarrow>
   ch \<in> set chs \<Longrightarrow> gid \<in> set (ch_GroupIDs ch) \<Longrightarrow> config_ok ch \<Longrightarrow>
   serves (opt_default [] (pl gid)) (normalizeBillingModelSource ch) gid (fold (cache_channel pl) chs c)"
proof (induction chs arbitrary: c)
  case (Cons d ds)
  show ?case
  proof (cases "gid \<in> set (ch_GroupIDs d)")
    case True
    then have "ch = d" using Cons.prems(1,3,4) by auto
    moreover have "serves (opt_default [] (pl gid)) (normalizeBillingModelSource d) gid (cache_channel pl d c)"
      unfolding cache_channel_def Let_def
      using Cons.prems True \<open>ch = d\<close>
      by (intro cache_groups_serve) (auto simp: config_ok_def fresh_group_def)
    moreover have "at_group gid (fold (cache_channel pl) ds (cache_channel pl d c)) = at_group gid (cache_channel pl d c)"
      using Cons.prems(1) True by (intro cache_channels_other) auto
    from serves_cong [OF this] calculation show ?thesis using \<open>ch = d\<close> by simp
  next
    case False
    have "fresh_group g (cache_channel pl d c)" if "g \<in> set (concat (map ch_GroupIDs ds))" for g
      using that Cons.prems(1,2) fresh_cong [OF cache_channel_other [of g d pl c]] by (auto simp: list_all_iff)
    then show ?thesis
      using Cons.prems False by (simp, intro Cons.IH) (auto simp: list_all_iff)
  qed
qed simp

lemma populate_platform [simp]: "cc_groupPlatform (populateChannelCache t chs pl) = pl"
proof -
  have "cc_groupPlatform (cache_group pl ch g c) = cc_groupPlatform c" for ch g c
    by (simp add: cache_group_def Let_def)
  then have "cc_groupPlatform (fold (cache_group pl ch) gs c) = cc_groupPlatform c" for ch gs c
    by (intro fold_keeps) simp
  then have "cc_groupPlatform (cache_channel pl ch c) = cc_groupPlatform c" for ch c
    by (simp add: cache_channel_def Let_def)
  then show ?thesis by (simp add: populateChannelCache_def fold_keeps [where v = cc_groupPlatform])
qed

lemma populate_serves:
  assumes "distinct (concat (map ch_GroupIDs chs))" "ch \<in> set chs" "gid \<in> set (ch_GroupIDs ch)" "config_ok ch"
  shows "serves (opt_default [] (pl gid)) (normalizeBillingModelSource ch) gid (populateChannelCache t chs pl)"
  unfolding populateChannelCache_def
  by (rule cache_channels_serve [OF assms(1) _ assms(2-4)])
    (simp add: list_all_iff fresh_group_def at_group_def newEmptyChannelCache_def)

lemma populate_other:
  "gid \<notin> set (concat (map ch_GroupIDs chs)) \<Longrightarrow> fresh_group gid (populateChannelCache t chs pl)"
  unfolding populateChannelCache_def fresh_group_def
  by (simp add: cache_channels_other) (simp add: at_group_def newEmptyChannelCache_def)

section \<open>Properties\<close>

text \<open>A snapshot that has not expired is used as it is.\<close>

lemma lookupGroupChannel_populated:
  assumes "time_sub now t < channelCacheTTL"
  shows "lookupGroupChannel now data (Some (populateChannelCache t chs pl)) gid
    = (Some (populateChannelCache t chs pl),
       Inr (map_option (\<lambda>(ch, P). (populateChannelCache t chs pl, ch, P))
         (lookup_group_channel (populateChannelCache t chs pl) gid)))"
proof -
  have "cc_loadedAt (add_price g p m c) = cc_loadedAt c" "cc_loadedAt (add_target g P sd c) = cc_loadedAt c"
    for g p m P sd c by (simp_all add: add_price_def add_target_def Let_def split_beta)
  then have "cc_loadedAt (expandPricingToCache c ch g P) = cc_loadedAt c"
      "cc_loadedAt (expandMappingToCache c ch g P) = cc_loadedAt c" for c ch g P
    by (auto simp: expandPricing_flat expandMappingToCache_def matchingPlatforms_def split: option.splits intro!: fold_keeps)
  then have "cc_loadedAt (fold (cache_group pl ch) gs c) = cc_loadedAt c" for ch gs c
    by (intro fold_keeps) (simp add: cache_group_def Let_def)
  then have "cc_loadedAt (populateChannelCache t chs pl) = t"
    by (simp add: populateChannelCache_def cache_channel_def Let_def fold_keeps [where v = cc_loadedAt])
  then show ?thesis using assms by (simp add: lookupGroupChannel_def loadCache_def)
qed

lemma lookup_group_channel_populated:
  assumes "serves P ch gid (populateChannelCache t chs pl)"
  shows "lookup_group_channel (populateChannelCache t chs pl) gid
    = (if Channel_IsActive ch then Some (ch, opt_default [] (pl gid)) else None)"
  using assms by (simp add: lookup_group_channel_def serves_def)

text \<open>C35: The flat cache implements the channel: when every group belongs to at most one channel and
  the channel's configuration passes the validation, the price that the hot path finds for a
  model of a group is that of the channel's entry for the group's platform with a pattern that
  matches the model up to letter case (exactly, or by a trailing star), and a model is restricted
  exactly when an active, restricting channel has no such entry.\<close>
theorem channel_price_refines:
  assumes "distinct (concat (map ch_GroupIDs chs))" "ch \<in> set chs" "gid \<in> set (ch_GroupIDs ch)"
    and "config_ok ch" and "time_sub now t < channelCacheTTL"
  shows "snd (GetChannelModelPricing now data (Some (populateChannelCache t chs pl)) gid m)
      = (if Channel_IsActive ch then channel_price ch (opt_default [] (pl gid)) m else None)
    \<and> (snd (IsModelRestricted now data (Some (populateChannelCache t chs pl)) gid m)
       \<longleftrightarrow> Channel_IsActive ch \<and> ch_RestrictModels ch \<and> channel_price ch (opt_default [] (pl gid)) m = None)"
proof -
  note s = populate_serves [OF assms(1-4), of pl t]
  show ?thesis
    using s
    by (simp add: GetChannelModelPricing_def IsModelRestricted_def lookupGroupChannel_populated [OF assms(5)]
        lookup_group_channel_populated [OF s] checkRestricted_def serves_def)
qed

text \<open>Mappings are resolved the same way, and independently of the order in which the program
  iterates them: a request of a group with an active channel is mapped to the target of the one
  source pattern that matches, the result does not change when the mapping is stored in another
  order, and otherwise the model is passed on unmapped.\<close>
theorem channel_mapping_refines:
  assumes "distinct (concat (map ch_GroupIDs chs))" "ch \<in> set chs" "gid \<in> set (ch_GroupIDs ch)"
    and "config_ok ch" and "time_sub now t < channelCacheTTL" and "Channel_IsActive ch"
    and "map_of (ch_ModelMapping ch) (opt_default [] (pl gid)) = Some kv" "same_map kv kv'"
  shows "snd (ResolveChannelMapping now data (Some (populateChannelCache t chs pl)) gid m)
      = (let target = opt_default [] (map_option snd (find (\<lambda>(src, _). pattern_matches src (to_lower m)) kv'))
         in \<lparr>cmr_MappedModel = (if target = [] then m else target), cmr_ChannelID = ch_ID ch,
             cmr_Mapped = (target \<noteq> []), cmr_BillingModelSource =
               (if ch_BillingModelSource ch = [] then BillingModelSourceChannelMapped else ch_BillingModelSource ch)\<rparr>)"
proof -
  note s = populate_serves [OF assms(1-4), of pl t]
  have src: "ch_BillingModelSource (normalizeBillingModelSource ch)
      = (if ch_BillingModelSource ch = [] then BillingModelSourceChannelMapped else ch_BillingModelSource ch)"
    by (simp add: normalizeBillingModelSource_def)
  let ?p = "\<lambda>x. pattern_matches (fst x) (to_lower m)"
  have v: "validateNoConflictingMappings (ch_ModelMapping ch) = None"
    using assms(4) by (simp add: config_ok_def validateChannelConfig_def)
  have w: "sorted_wrt (\<lambda>x y. \<not> (?p x \<and> ?p y)) kv"
    by (rule no_conflict_unique [OF valid_mapping [OF v assms(7)]])
  have "x = y" if "x \<in> set kv" "y \<in> set kv" "?p x" "?p y" for x y
    using w that by (induction kv) auto
  then have "find ?p kv = find ?p kv'" using same_map_set [OF assms(8)] by (intro find_unique_perm) auto
  then show ?thesis
    using s assms(6,7)
    by (auto simp: ResolveChannelMapping_def lookupGroupChannel_populated [OF assms(5)] src
        lookup_group_channel_populated [OF s] resolveMapping_def serves_def channel_target_def
        case_prod_unfold Let_def)
qed

definition priced_channel :: Channel where
  "priced_channel = (sample_channel [(''a*'', ''b1''), (''C1'', ''b1'')])
     \<lparr>ch_GroupIDs := [7, 8], ch_RestrictModels := True\<rparr>"

lemma priced_channel_ok: "config_ok priced_channel"
  by code_simp

lemma channel_price_refines_witness:
  "snd (IsModelRestricted 0 (Inl ErrChannelNotFound)
     (Some (populateChannelCache 0 [priced_channel] [8 \<mapsto> ''p''])) 8 ''b2'')"
proof -
  have "channel_price priced_channel ''p'' ''b2'' = None" by code_simp
  then show ?thesis
    using channel_price_refines [of "[priced_channel]" priced_channel 8 0 0 "Inl ErrChannelNotFound" "[8 \<mapsto> ''p'']" "''b2''"]
      priced_channel_ok
    by (simp add: priced_channel_def sample_channel_def Channel_IsActive_def time_sub_def i64_max_def
        i64_min_def channelCacheTTL_def minute_def)
qed

lemma channel_mapping_refines_witness:
  "cmr_MappedModel (snd (ResolveChannelMapping 0 (Inl ErrChannelNotFound)
     (Some (populateChannelCache 0 [priced_channel] [8 \<mapsto> ''p''])) 8 ''c1'')) = ''b1''"
proof -
  have "find (\<lambda>(src, _). pattern_matches src (to_lower ''c1'')) [(''C1'', ''b1''), (''a*'', ''b1'')] = Some (''C1'', ''b1'')"
    by code_simp
  then show ?thesis
    using channel_mapping_refines [of "[priced_channel]" priced_channel 8 0 0 "[8 \<mapsto> ''p'']"
        "[(''a*'', ''b1''), (''C1'', ''b1'')]" "[(''C1'', ''b1''), (''a*'', ''b1'')]" "Inl ErrChannelNotFound" "''c1''"]
      priced_channel_ok
    by (simp add: priced_channel_def sample_channel_def Channel_IsActive_def time_sub_def i64_max_def
        i64_min_def channelCacheTTL_def minute_def same_map_def map_wf_def add_mset_commute)
qed



end
