(* ===== verification/PricingResolver.thy ===== *)
theory PricingResolver
  imports Billing ImageSize ChannelProps
begin

text \<open>
  Resolving the price of a request and the unified cost (\<open>service/model_pricing_resolver.go\<close> and the
  second half of \<open>service/billing_service.go\<close>). The resolver asks the channel service up to twice
  for the price of a channel; the two answers are arguments, because another request can rebuild
  the service's cache between the calls.
\<close>

section \<open>Resolution\<close>

definition PricingSourceChannel :: string where "PricingSourceChannel = ''channel''"
definition PricingSourceLiteLLM :: string where "PricingSourceLiteLLM = ''litellm''"
definition PricingSourceFallback :: string where "PricingSourceFallback = ''fallback''"

record ResolvedPricing =
  rp_Mode :: string
  rp_BasePricing :: "nat option"
  rp_Intervals :: "PricingInterval list"
  rp_RequestTiers :: "PricingInterval list"
  rp_DefaultPerRequestPrice :: float64
  rp_Source :: string
  rp_SupportsCacheBreakdown :: bool

type_synonym price_lookup = "int \<Rightarrow> string \<Rightarrow> ChannelModelPricing option"

text \<open>The channel service: absent when the pointer is nil, else its two answers.\<close>

type_synonym channel_lookups = "(price_lookup \<times> price_lookup) option"

definition filterValidIntervals :: "PricingInterval list \<Rightarrow> PricingInterval list" where
  "filterValidIntervals = filter (\<lambda>iv. iv_InputPrice iv \<noteq> None \<or> iv_OutputPrice iv \<noteq> None
     \<or> iv_CacheWritePrice iv \<noteq> None \<or> iv_CacheReadPrice iv \<noteq> None \<or> iv_PerRequestPrice iv \<noteq> None)"

definition resolveBasePricing :: "catalogue \<Rightarrow> string \<Rightarrow> price_store \<Rightarrow> price_store \<times> nat option \<times> string" where
  "resolveBasePricing cat model h =
     (case Billing_GetModelPricing cat model h of
        Inl e \<Rightarrow> (h, None, PricingSourceFallback)
      | Inr (h', a) \<Rightarrow> (h', Some a, PricingSourceLiteLLM))"

definition applyTokenOverrides ::
    "ChannelModelPricing \<Rightarrow> ResolvedPricing \<Rightarrow> price_store \<Rightarrow> price_store \<times> ResolvedPricing" where
  "applyTokenOverrides ch resolved h =
     (let validIntervals = filterValidIntervals (cmp_Intervals ch) in
      if validIntervals \<noteq> [] then (h, resolved\<lparr>rp_Intervals := validIntervals\<rparr>)
      else
        let (h1, a) = (case rp_BasePricing resolved of None \<Rightarrow> alloc zero_pricing h | Some a \<Rightarrow> (h, a))
        in (write_price a (override_prices ch) h1, resolved\<lparr>rp_BasePricing := Some a\<rparr>))"

definition applyRequestTierOverrides :: "ChannelModelPricing \<Rightarrow> ResolvedPricing \<Rightarrow> ResolvedPricing" where
  "applyRequestTierOverrides ch resolved =
     resolved\<lparr>rp_RequestTiers := filterValidIntervals (cmp_Intervals ch),
       rp_DefaultPerRequestPrice := opt_default (rp_DefaultPerRequestPrice resolved) (cmp_PerRequestPrice ch)\<rparr>"

definition mode_or_token :: "string \<Rightarrow> string" where
  "mode_or_token m = (if m = [] then BillingModeToken else m)"

definition per_request_mode :: "string \<Rightarrow> bool" where
  "per_request_mode m \<longleftrightarrow> m = BillingModePerRequest \<or> m = BillingModeImage"

definition applyChannelOverrides ::
    "ChannelModelPricing option \<Rightarrow> ResolvedPricing \<Rightarrow> price_store \<Rightarrow> price_store \<times> ResolvedPricing" where
  "applyChannelOverrides chPricing resolved h =
     (case chPricing of
        None \<Rightarrow> (h, resolved)
      | Some ch \<Rightarrow>
          let resolved = resolved\<lparr>rp_Source := PricingSourceChannel, rp_Mode := mode_or_token (cmp_BillingMode ch)\<rparr> in
          if rp_Mode resolved = BillingModeToken then applyTokenOverrides ch resolved h
          else if per_request_mode (rp_Mode resolved) then (h, applyRequestTierOverrides ch resolved)
          else (h, resolved))"

definition empty_resolved :: ResolvedPricing where
  "empty_resolved = \<lparr>rp_Mode = [], rp_BasePricing = None, rp_Intervals = [], rp_RequestTiers = [],
     rp_DefaultPerRequestPrice = f_zero, rp_Source = [], rp_SupportsCacheBreakdown = False\<rparr>"

definition Resolve ::
    "catalogue \<Rightarrow> channel_lookups \<Rightarrow> string \<Rightarrow> int option \<Rightarrow> price_store
      \<Rightarrow> billing_error + price_store \<times> ResolvedPricing" where
  "Resolve cat chans model gid h =
     (let chPricing = (case (gid, chans) of (Some g, Some (ask1, _)) \<Rightarrow> ask1 g model | _ \<Rightarrow> None);
          base_of = (case resolveBasePricing cat model h of (h1, base, source) \<Rightarrow>
            (h1, empty_resolved\<lparr>rp_Mode := BillingModeToken, rp_BasePricing := base, rp_Source := source,
              rp_SupportsCacheBreakdown := (case base of None \<Rightarrow> False | Some a \<Rightarrow> mp_SupportsCacheBreakdown (h1 ! a))\<rparr>))
      in case chPricing of
        Some ch \<Rightarrow>
          if per_request_mode (mode_or_token (cmp_BillingMode ch)) then
            Inr (h, applyRequestTierOverrides ch
              (empty_resolved\<lparr>rp_Mode := mode_or_token (cmp_BillingMode ch), rp_Source := PricingSourceChannel\<rparr>))
          else (case base_of of (h1, resolved) \<Rightarrow>
            Inr (applyTokenOverrides ch (resolved\<lparr>rp_Source := PricingSourceChannel\<rparr>) h1))
      | None \<Rightarrow>
          (case gid of
             None \<Rightarrow> Inr base_of
           | Some g \<Rightarrow>
               (case chans of
                  None \<Rightarrow> Inl NilChannelService
                | Some (_, ask2) \<Rightarrow>
                    (case base_of of (h1, resolved) \<Rightarrow> Inr (applyChannelOverrides (ask2 g model) resolved h1)))))"

definition intervalToModelPricing :: "PricingInterval \<Rightarrow> bool \<Rightarrow> ModelPricing" where
  "intervalToModelPricing iv supportsCacheBreakdown =
     (set_if (iv_CacheReadPrice iv) (\<lambda>v p. p\<lparr>mp_CacheReadPricePerToken := v, mp_CacheReadPricePerTokenPriority := v\<rparr>)
    \<circ> set_if (iv_CacheWritePrice iv) (\<lambda>v p. p\<lparr>mp_CacheCreationPricePerToken := v,
         mp_CacheCreation5mPrice := v, mp_CacheCreation1hPrice := v\<rparr>)
    \<circ> set_if (iv_OutputPrice iv) (\<lambda>v p. p\<lparr>mp_OutputPricePerToken := v, mp_OutputPricePerTokenPriority := v\<rparr>)
    \<circ> set_if (iv_InputPrice iv) (\<lambda>v p. p\<lparr>mp_InputPricePerToken := v, mp_InputPricePerTokenPriority := v\<rparr>))
      (zero_pricing\<lparr>mp_SupportsCacheBreakdown := supportsCacheBreakdown\<rparr>)"

definition GetIntervalPricing ::
    "ResolvedPricing \<Rightarrow> int \<Rightarrow> price_store \<Rightarrow> price_store \<times> nat option" where
  "GetIntervalPricing resolved totalContextTokens h =
     (if rp_Intervals resolved = [] then (h, rp_BasePricing resolved)
      else case FindMatchingInterval (rp_Intervals resolved) totalContextTokens of
        None \<Rightarrow> (h, rp_BasePricing resolved)
      | Some iv \<Rightarrow> (case alloc (intervalToModelPricing iv (rp_SupportsCacheBreakdown resolved)) h of
          (h', a) \<Rightarrow> (h', Some a)))"

definition GetRequestTierPrice :: "ResolvedPricing \<Rightarrow> string \<Rightarrow> float64" where
  "GetRequestTierPrice resolved tierLabel =
     (case find (\<lambda>tier. iv_TierLabel tier = tierLabel \<and> iv_PerRequestPrice tier \<noteq> None) (rp_RequestTiers resolved) of
        None \<Rightarrow> f_zero | Some tier \<Rightarrow> opt_default f_zero (iv_PerRequestPrice tier))"

definition GetRequestTierPriceByContext :: "ResolvedPricing \<Rightarrow> int \<Rightarrow> float64" where
  "GetRequestTierPriceByContext resolved totalContextTokens =
     (case FindMatchingInterval (rp_RequestTiers resolved) totalContextTokens of
        None \<Rightarrow> f_zero | Some iv \<Rightarrow> opt_default f_zero (iv_PerRequestPrice iv))"

section \<open>The unified cost\<close>

record CostInput =
  ci_Model :: string
  ci_GroupID :: "int option"
  ci_Tokens :: UsageTokens
  ci_RequestCount :: int
  ci_SizeTier :: string
  ci_RateMultiplier :: float64
  ci_ServiceTier :: string
  ci_Resolver :: "channel_lookups option"
  ci_Resolved :: "ResolvedPricing option"

definition total_context :: "UsageTokens \<Rightarrow> int" where
  "total_context t = i64 (ut_InputTokens t + ut_CacheReadTokens t)"

definition calculateTokenCost ::
    "ResolvedPricing \<Rightarrow> CostInput \<Rightarrow> price_store \<Rightarrow> billing_error + price_store \<times> CostBreakdown" where
  "calculateTokenCost resolved input h =
     (case GetIntervalPricing resolved (total_context (ci_Tokens input)) h of
        (h1, None) \<Rightarrow> Inl (ErrModelPricingUnavailable (ci_Model input))
      | (h1, Some a) \<Rightarrow>
          (case applyModelSpecificPricingPolicy (ci_Model input) a h1 of (h2, b) \<Rightarrow>
             Inr (h2, computeTokenBreakdown (h2 ! b) (ci_Tokens input) (ci_RateMultiplier input)
               (ci_ServiceTier input) (rp_Intervals resolved = []))))"

definition request_unit_price :: "ResolvedPricing \<Rightarrow> CostInput \<Rightarrow> float64" where
  "request_unit_price resolved input =
     (let p1 = (if ci_SizeTier input \<noteq> [] then GetRequestTierPrice resolved (ci_SizeTier input) else f_zero);
          p2 = (if f_eq p1 f_zero then GetRequestTierPriceByContext resolved (total_context (ci_Tokens input)) else p1)
      in if f_eq p2 f_zero then rp_DefaultPerRequestPrice resolved else p2)"

definition calculatePerRequestCost :: "ResolvedPricing \<Rightarrow> CostInput \<Rightarrow> CostBreakdown" where
  "calculatePerRequestCost resolved input =
     (let count = (if ci_RequestCount input \<le> 0 then 1 else ci_RequestCount input);
          totalCost = f_mul (request_unit_price resolved input) (f_of_int count)
      in zero_cost\<lparr>cb_TotalCost := totalCost, cb_ActualCost := f_mul totalCost (ci_RateMultiplier input)\<rparr>)"

definition CalculateCostUnified ::
    "catalogue \<Rightarrow> CostInput \<Rightarrow> price_store \<Rightarrow> billing_error + price_store \<times> CostBreakdown" where
  "CalculateCostUnified cat input0 h =
     (case ci_Resolver input0 of
        None \<Rightarrow> calculateCostInternal cat (ci_Model input0) (ci_Tokens input0) (ci_RateMultiplier input0)
                  (ci_ServiceTier input0) None h
      | Some chans \<Rightarrow>
          and_then (case ci_Resolved input0 of
              Some r \<Rightarrow> Inr (h, r)
            | None \<Rightarrow> Resolve cat chans (ci_Model input0) (ci_GroupID input0) h)
           (\<lambda>(h1, resolved).
             let input = input0\<lparr>ci_RateMultiplier := clamp_multiplier (ci_RateMultiplier input0)\<rparr> in
             and_then (if per_request_mode (rp_Mode resolved)
                       then Inr (h1, calculatePerRequestCost resolved input)
                       else calculateTokenCost resolved input h1)
               (\<lambda>(h2, bd). Inr (h2, bd\<lparr>cb_BillingMode := mode_or_token (rp_Mode resolved)\<rparr>))))"

section \<open>Images\<close>

record ImagePriceConfig =
  ip_Price1K :: "float64 option"
  ip_Price2K :: "float64 option"
  ip_Price4K :: "float64 option"

definition getDefaultImagePrice :: "catalogue \<Rightarrow> string \<Rightarrow> string \<Rightarrow> float64" where
  "getDefaultImagePrice cat model imageSize =
     (let listed = (case catalogue_price cat model of
            Some p \<Rightarrow> if f_lt f_zero (OutputCostPerImage p) then OutputCostPerImage p else f_zero
          | None \<Rightarrow> f_zero);
          basePrice = (if f_le listed f_zero then f_dec 134 3 else listed)
      in if imageSize = ''2K'' then f_mul basePrice (f_dec 15 1)
         else if imageSize = ''4K'' then f_mul basePrice (f_of_int 2)
         else basePrice)"

definition group_image_price :: "ImagePriceConfig \<Rightarrow> string \<Rightarrow> float64 option" where
  "group_image_price cfg imageSize =
     (if imageSize = ''1K'' then ip_Price1K cfg else if imageSize = ''2K'' then ip_Price2K cfg
      else if imageSize = ''4K'' then ip_Price4K cfg else None)"

definition getImageUnitPrice :: "catalogue \<Rightarrow> string \<Rightarrow> string \<Rightarrow> ImagePriceConfig option \<Rightarrow> float64" where
  "getImageUnitPrice cat model imageSize groupConfig =
     (case (case groupConfig of None \<Rightarrow> None | Some cfg \<Rightarrow> group_image_price cfg imageSize) of
        Some p \<Rightarrow> p
      | None \<Rightarrow> getDefaultImagePrice cat model imageSize)"

definition CalculateImageCost ::
    "catalogue \<Rightarrow> string \<Rightarrow> string \<Rightarrow> int \<Rightarrow> ImagePriceConfig option \<Rightarrow> float64 \<Rightarrow> CostBreakdown" where
  "CalculateImageCost cat model imageSize0 imageCount groupConfig rateMultiplier =
     (if imageCount \<le> 0 then zero_cost
      else
        let imageSize = NormalizeImageBillingTierOrDefault imageSize0;
            totalCost = f_mul (getImageUnitPrice cat model imageSize groupConfig) (f_of_int imageCount)
        in zero_cost\<lparr>cb_TotalCost := totalCost,
             cb_ActualCost := f_mul totalCost (clamp_multiplier rateMultiplier),
             cb_BillingMode := BillingModeImage\<rparr>)"

end
