(* ===== verification/BillingProps.thy ===== *)
theory BillingProps
  imports PricingResolver
begin

text \<open>
  What the billing of the gateway guarantees, and where sharing defeats it: costs are not
  negative, the split of long contexts loses no token, every Claude name has a price, a
  catalogue price is private to the request, but a fallback price is shared and written to.
\<close>

section \<open>Prices in the store\<close>

lemma policy_store:
  "applyModelSpecificPricingPolicy m a h = (h', b) \<Longrightarrow> a < length h \<Longrightarrow>
   b < length h' \<and> take (length h) h' = h \<and> length h \<le> length h' \<and> (b = a \<or> length h \<le> b)
   \<and> mp_InputPricePerToken (h' ! b) = mp_InputPricePerToken (h ! a)"
  by (auto simp: applyModelSpecificPricingPolicy_def alloc_def complete_long_context_def nth_append split: if_splits)

lemma policy_id [simp]: "\<not> isOpenAIGPT54Model m \<Longrightarrow> applyModelSpecificPricingPolicy m a h = (h, a)"
  by (simp add: applyModelSpecificPricingPolicy_def)

lemma fallback_in_table: "fallback_name m = Some n \<Longrightarrow> \<exists>a. map_of fallbackPrices n = Some a \<and> a < 12"
  by (auto simp: fallback_name_def fallbackPrices_def Let_def split: if_splits)

lemma getFallbackPricing_lt: "getFallbackPricing m = Some a \<Longrightarrow> a < 12"
  using fallback_in_table by (fastforce simp: getFallbackPricing_def split: option.splits)

lemma length_initFallbackPricing [simp]: "length initFallbackPricing = 12"
  by (simp add: initFallbackPricing_def)

text \<open>Reading a price only ever appends to the store.\<close>

lemma Billing_GetModelPricing_store:
  assumes "Billing_GetModelPricing cat m h = Inr (h', a)" "12 \<le> length h"
  shows "take (length h) h' = h \<and> length h \<le> length h' \<and> a < length h'
    \<and> (catalogue_price cat (to_lower m) \<noteq> None \<longrightarrow> length h \<le> a)"
proof (cases "catalogue_price cat (to_lower m)")
  case None
  then obtain b where "getFallbackPricing (to_lower m) = Some b"
      "applyModelSpecificPricingPolicy (to_lower m) b h = (h', a)"
    using assms(1) by (auto simp: Billing_GetModelPricing_def Let_def split: option.splits)
  then show ?thesis
    using policy_store [of "to_lower m" b h h' a] getFallbackPricing_lt [of "to_lower m" b] assms(2) None by auto
next
  case (Some l)
  then have p: "applyModelSpecificPricingPolicy (to_lower m) (length h) (h @ [from_litellm l]) = (h', a)"
    using assms(1) by (simp add: Billing_GetModelPricing_def Let_def alloc_def)
  have "take (length h) h' = take (length h) (take (Suc (length h)) h')" by (simp add: min_def)
  also have "\<dots> = h" using policy_store [OF p] by simp
  finally show ?thesis using policy_store [OF p] by auto
qed

lemma write_price_length [simp]: "length (write_price a f h) = length h"
  by (simp add: write_price_def)

lemma write_price_take: "n \<le> a \<Longrightarrow> take n (write_price a f h) = take n h"
  by (simp add: write_price_def)

lemma write_price_nth [simp]: "a < length h \<Longrightarrow> write_price a f h ! a = f (h ! a)"
  by (simp add: write_price_def)

lemma override_input:
  "mp_InputPricePerToken (override_prices ch p) = opt_default (mp_InputPricePerToken p) (cmp_InputPrice ch)"
  by (simp add: override_prices_def set_if_def split: option.split)

lemma has_any_iff: "has_any s ps \<longleftrightarrow> (\<exists>p \<in> set ps. str_contains s p)"
  by (auto simp: has_any_def list_ex_iff)

text \<open>Every name that counts as supported has a price, whatever the catalogue holds and even without
  one; reading it never changes a price that is already in the store.\<close>
theorem supported_models_priced:
  assumes "Billing_IsModelSupported (to_lower m)" "12 \<le> length h"
  shows "\<exists>h' a. Billing_GetModelPricing cat m h = Inr (h', a) \<and> a < length h' \<and> take (length h) h' = h"
proof -
  have "fallback_name (to_lower (to_lower m)) \<noteq> None"
    using assms(1) by (auto simp: Billing_IsModelSupported_def fallback_name_def has_any_def)
  then obtain n where "fallback_name (to_lower (to_lower m)) = Some n" by auto
  then have "getFallbackPricing (to_lower m) \<noteq> None"
    using fallback_in_table by (fastforce simp: getFallbackPricing_def)
  then obtain r where "Billing_GetModelPricing cat m h = Inr r"
    by (cases "catalogue_price cat (to_lower m)"; cases "getFallbackPricing (to_lower m)")
      (simp_all add: Billing_GetModelPricing_def Let_def alloc_def)
  then show ?thesis
    using Billing_GetModelPricing_store [of cat m h "fst r" "snd r"] assms(2) by (cases r) auto
qed

lemma supported_models_priced_witness:
  "\<exists>h' a. Billing_GetModelPricing None ''Claude-Next'' initFallbackPricing = Inr (h', a) \<and> a < length h'"
proof -
  have "Billing_IsModelSupported (to_lower ''Claude-Next'')" by code_simp
  from supported_models_priced [OF this, of initFallbackPricing None] show ?thesis by auto
qed

text \<open>A price that comes from the catalogue is private to the request: resolving it, with whatever the
  channel overrides, leaves every price that was in the store before as it was.\<close>
theorem catalogue_price_isolated:
  assumes "catalogue_price cat (to_lower m) \<noteq> None" "12 \<le> length h"
    and "Resolve cat chans m gid h = Inr (h', r)"
  shows "take (length h) h' = h"
proof -
  obtain h1 a where g: "Billing_GetModelPricing cat m h = Inr (h1, a)"
    using assms(1) by (cases "Billing_GetModelPricing cat m h")
      (auto simp: Billing_GetModelPricing_def Let_def alloc_def split: option.splits)
  have s: "take (length h) h1 = h" "length h \<le> a" "a < length h1" "length h \<le> length h1"
    using Billing_GetModelPricing_store [OF g assms(2)] assms(1) by auto
  have t: "take (length h) (fst (applyTokenOverrides ch r0 h1)) = h" if "rp_BasePricing r0 = Some a" for ch r0
    using s write_price_take [of "length h" a] that by (auto simp: applyTokenOverrides_def Let_def)
  have o: "take (length h) (fst (applyChannelOverrides cp r0 h1)) = h" if "rp_BasePricing r0 = Some a" for cp r0
    using s t that by (auto simp: applyChannelOverrides_def Let_def split: option.split)
  have b: "resolveBasePricing cat m h = (h1, Some a, PricingSourceLiteLLM)"
    by (simp add: resolveBasePricing_def g)
  show ?thesis
  proof (cases "case (gid, chans) of (Some g, Some (ask1, _)) \<Rightarrow> ask1 g m | _ \<Rightarrow> None")
    case (Some ch)
    then show ?thesis
      using assms(3) t [of "_\<lparr>rp_Source := PricingSourceChannel\<rparr>" ch]
      by (cases "per_request_mode (mode_or_token (cmp_BillingMode ch))")
        (auto simp: Resolve_def b Let_def dest!: arg_cong [of _ _ fst])
  next
    case None
    then show ?thesis
      using assms(3) s(1) o
      by (cases gid; cases chans) (auto simp: Resolve_def b Let_def dest!: arg_cong [of _ _ fst])
  qed
qed

lemma catalogue_price_isolated_witness:
  "\<exists>h' r. Resolve (Some [(''claude-x'', zero_litellm)]) None ''claude-x'' None initFallbackPricing = Inr (h', r)
     \<and> take 12 h' = initFallbackPricing"
proof -
  have c: "catalogue_price (Some [(''claude-x'', zero_litellm)]) (to_lower ''claude-x'') \<noteq> None" by code_simp
  obtain h' r where "Resolve (Some [(''claude-x'', zero_litellm)]) None ''claude-x'' None initFallbackPricing = Inr (h', r)"
    by (cases "resolveBasePricing (Some [(''claude-x'', zero_litellm)]) ''claude-x'' initFallbackPricing")
      (auto simp: Resolve_def Let_def)
  then show ?thesis using catalogue_price_isolated [OF c, of initFallbackPricing None None h' r] by auto
qed


definition promo_pricing :: ChannelModelPricing where
  "promo_pricing = (sample_pricing 1 ''claude-opus-4-5'')\<lparr>cmp_InputPrice := Some f_zero\<rparr>"


section \<open>Costs\<close>

definition pricing_nn :: "ModelPricing \<Rightarrow> bool" where
  "pricing_nn p \<longleftrightarrow> list_all f_nn
     [mp_InputPricePerToken p, mp_InputPricePerTokenPriority p, mp_OutputPricePerToken p,
      mp_OutputPricePerTokenPriority p, mp_CacheCreationPricePerToken p, mp_CacheReadPricePerToken p,
      mp_CacheReadPricePerTokenPriority p, mp_CacheCreation5mPrice p, mp_CacheCreation1hPrice p,
      mp_LongContextInputMultiplier p, mp_LongContextOutputMultiplier p, mp_ImageOutputPricePerToken p]"

definition tokens_nn :: "UsageTokens \<Rightarrow> bool" where
  "tokens_nn t \<longleftrightarrow> list_all (\<lambda>n. 0 \<le> n)
     [ut_InputTokens t, ut_OutputTokens t, ut_CacheCreationTokens t, ut_CacheReadTokens t,
      ut_CacheCreation5mTokens t, ut_CacheCreation1hTokens t, ut_ImageOutputTokens t]"

lemma f_nn_dec [simp]: "0 \<le> m \<Longrightarrow> f_nn (f_dec m e)"
  by (simp add: f_dec_def f_of_rat_nn)

lemma f_nn_tier: "f_nn (serviceTierCostMultiplier t)"
  by (simp add: serviceTierCostMultiplier_def Let_def)

lemma f_nn_clamp: "f_nn (clamp_multiplier m)"
  by (simp add: clamp_multiplier_def f_nn_def)

lemma f_nn_prefer: "f_nn a \<Longrightarrow> f_nn b \<Longrightarrow> f_nn (prefer_positive a b)"
  by (simp add: prefer_positive_def)

lemma f_nn_if: "(c \<Longrightarrow> f_nn x) \<Longrightarrow> (\<not> c \<Longrightarrow> f_nn y) \<Longrightarrow> f_nn (if c then x else y)"
  by simp

lemmas cost_nn = f_nn_if f_nn_add f_nn_mul f_of_int_nn f_nn_tier f_nn_clamp f_nn_prefer

lemma creation_nn: "pricing_nn p \<Longrightarrow> tokens_nn t \<Longrightarrow> f_nn (computeCacheCreationCost p t)"
  unfolding computeCacheCreationCost_def
  by (intro cost_nn) (auto simp: pricing_nn_def tokens_nn_def)

text \<open>C38: With prices, multipliers and token counts that are not negative no part of the cost is
  negative, whatever the service tier, the rate multiplier and the length of the context; the
  total is the sum of the parts, and the amount charged is the total times the multiplier, a
  negative multiplier counting as zero.\<close>
theorem token_costs_nonnegative:
  assumes "pricing_nn p" "tokens_nn t"
  shows "(let bd = computeTokenBreakdown p t m tier long in
     list_all f_nn [cb_InputCost bd, cb_OutputCost bd, cb_ImageOutputCost bd, cb_CacheCreationCost bd,
        cb_CacheReadCost bd, cb_TotalCost bd, cb_ActualCost bd]
     \<and> cb_TotalCost bd = f_add (f_add (f_add (f_add (cb_InputCost bd) (cb_OutputCost bd))
          (cb_ImageOutputCost bd)) (cb_CacheCreationCost bd)) (cb_CacheReadCost bd)
     \<and> cb_ActualCost bd = f_mul (cb_TotalCost bd) (if f_lt m f_zero then f_zero else m))"
proof -
  let ?bd = "computeTokenBreakdown p t m tier long"
  have parts: "f_nn (cb_InputCost ?bd)" "f_nn (cb_OutputCost ?bd)" "f_nn (cb_ImageOutputCost ?bd)"
      "f_nn (cb_CacheCreationCost ?bd)" "f_nn (cb_CacheReadCost ?bd)"
    using assms creation_nn [OF assms]
    by (simp_all only: computeTokenBreakdown_def Let_def CostBreakdown.simps)
      (intro cost_nn; auto simp: pricing_nn_def tokens_nn_def)+
  have total: "cb_TotalCost ?bd = f_add (f_add (f_add (f_add (cb_InputCost ?bd) (cb_OutputCost ?bd))
          (cb_ImageOutputCost ?bd)) (cb_CacheCreationCost ?bd)) (cb_CacheReadCost ?bd)"
    and actual: "cb_ActualCost ?bd = f_mul (cb_TotalCost ?bd) (clamp_multiplier m)"
    by (simp_all only: computeTokenBreakdown_def Let_def CostBreakdown.simps)
  have "f_nn (cb_TotalCost ?bd)" unfolding total by (intro f_nn_add parts)
  moreover from this have "f_nn (cb_ActualCost ?bd)" unfolding actual by (intro f_nn_mul f_nn_clamp)
  ultimately show ?thesis using parts total actual by (simp add: Let_def clamp_multiplier_def)
qed

lemma token_costs_nonnegative_witness:
  "f_nn (cb_ActualCost (computeTokenBreakdown (initFallbackPricing ! 7)
     (no_tokens\<lparr>ut_InputTokens := 300000, ut_OutputTokens := 5\<rparr>) (Fin (- 1)) ''priority'' True))"
proof -
  have p: "pricing_nn (initFallbackPricing ! 7)"
    by (simp add: pricing_nn_def initFallbackPricing_def with_priority_def base_price_def zero_pricing_def
        openAIGPT54LongContextInputMultiplier_def openAIGPT54LongContextOutputMultiplier_def)
  have t: "tokens_nn (no_tokens\<lparr>ut_InputTokens := 300000, ut_OutputTokens := 5\<rparr>)"
    by (simp add: tokens_nn_def no_tokens_def)
  show ?thesis
    using token_costs_nonnegative [OF p t, of "Fin (- 1)" "''priority''" True]
    unfolding Let_def list.pred_inject by (elim conjE)
qed

text \<open>Splitting a request at a context threshold neither loses nor repeats a token: the part within
  the threshold fills it exactly, the two parts add up to the request, output and cache creation
  are billed once, and the charge is the sum of the two charges, the second one at the extra
  multiplier.\<close>
theorem long_context_split:
  assumes "tokens_nn t" "0 < threshold" "f_lt f_one extra"
    and "threshold < ut_CacheReadTokens t + ut_InputTokens t" "in_i64 (ut_CacheReadTokens t + ut_InputTokens t)"
    and "CalculateCostWithLongContext cat model t m threshold extra h = Inr (h2, bd)"
  shows "(let i = in_range_tokens threshold t; out = out_range_tokens threshold t in
      ut_InputTokens i + ut_CacheReadTokens i = threshold
      \<and> ut_InputTokens i + ut_InputTokens out = ut_InputTokens t
      \<and> ut_CacheReadTokens i + ut_CacheReadTokens out = ut_CacheReadTokens t
      \<and> tokens_nn i \<and> tokens_nn out
      \<and> ut_OutputTokens i = ut_OutputTokens t \<and> ut_OutputTokens out = 0
      \<and> ut_CacheCreationTokens i = ut_CacheCreationTokens t \<and> ut_CacheCreationTokens out = 0
      \<and> (\<exists>h1 a b. CalculateCost cat model i m h = Inr (h1, a)
           \<and> CalculateCost cat model out (f_mul m extra) h1 = Inr (h2, b)
           \<and> cb_ActualCost bd = f_add (cb_ActualCost a) (cb_ActualCost b)))"
proof -
  have r: "in_i64 (threshold - ut_CacheReadTokens t)" "in_i64 (ut_CacheReadTokens t - threshold)"
      "in_i64 (ut_InputTokens t - (threshold - ut_CacheReadTokens t))"
    using assms(1,2,4,5) by (auto simp: tokens_nn_def in_i64_def i64_min_def i64_max_def)
  have "\<not> f_le extra f_one" using assms(3) by (cases extra) (auto simp: f_le_def)
  then obtain h1 a b where "CalculateCost cat model (in_range_tokens threshold t) m h = Inr (h1, a)"
      "CalculateCost cat model (out_range_tokens threshold t) (f_mul m extra) h1 = Inr (h2, b)"
      "bd = merge_costs a b"
    using assms(2,4,5,6)
    by (auto simp: CalculateCostWithLongContext_def i64_id and_then_Inr)
  then show ?thesis
    using assms(1,2,4) r
    by (auto simp: Let_def merge_costs_def in_range_tokens_def out_range_tokens_def no_tokens_def tokens_nn_def i64_id)
qed

lemma calculateCostInternal_claude:
  assumes "catalogue_price cat (to_lower m) = None" "getFallbackPricing (to_lower m) = Some a"
    "\<not> isOpenAIGPT54Model (to_lower m)"
  shows "CalculateCost cat m t r h = Inr (h, computeTokenBreakdown (h ! a) t r [] True)"
  using assms by (simp add: CalculateCost_def calculateCostInternal_def Billing_GetModelPricing_def Let_def)

lemma long_context_split_witness:
  "ut_CacheReadTokens (out_range_tokens 200000 (no_tokens\<lparr>ut_InputTokens := 10000, ut_CacheReadTokens := 210000\<rparr>)) = 10000"
proof -
  let ?t = "no_tokens\<lparr>ut_InputTokens := 10000, ut_CacheReadTokens := 210000\<rparr>"
  have c: "CalculateCost None ''claude-x'' t r h = Inr (h, computeTokenBreakdown (h ! 1) t r [] True)" for t r h
  proof (rule calculateCostInternal_claude)
    show "getFallbackPricing (to_lower ''claude-x'') = Some 1" by code_simp
    show "\<not> isOpenAIGPT54Model (to_lower ''claude-x'')" by code_simp
  qed (simp add: catalogue_price_def)
  obtain bd where "CalculateCostWithLongContext None ''claude-x'' ?t f_one 200000 (f_of_int 2) initFallbackPricing
      = Inr (initFallbackPricing, bd)"
    by (simp add: CalculateCostWithLongContext_def c no_tokens_def i64_id in_i64_def i64_min_def i64_max_def f_le_def)
  from long_context_split [OF _ _ _ _ _ this] show ?thesis
    by (simp add: Let_def tokens_nn_def no_tokens_def in_i64_def i64_min_def i64_max_def in_range_tokens_def i64_id)
qed

section \<open>Prices per request and per image\<close>

text \<open>A tier that is configured as free is not free: when the price of the tier that the request
  names is zero the search goes on, and unless a tier matches the context with another price the
  request is charged the default price of the channel.\<close>
theorem free_tier_charges_default:
  assumes "rp_Mode r = BillingModeImage" "ci_SizeTier input = label" "label \<noteq> []"
    and "find (\<lambda>iv. iv_TierLabel iv = label \<and> iv_PerRequestPrice iv \<noteq> None) (rp_RequestTiers r) = Some tier"
    and "iv_PerRequestPrice tier = Some f_zero"
    and "list_all (\<lambda>iv. iv_PerRequestPrice iv = Some f_zero) (rp_RequestTiers r)"
    and "ci_Resolver input = Some chans" "ci_Resolved input = Some r" "ci_RequestCount input = 1"
  shows "\<exists>bd. CalculateCostUnified cat input h = Inr (h, bd)
    \<and> cb_TotalCost bd = f_mul (rp_DefaultPerRequestPrice r) f_one"
proof -
  have "GetRequestTierPriceByContext r n = f_zero" for n
    using assms(6) by (auto simp: GetRequestTierPriceByContext_def FindMatchingInterval_def list_all_iff find_Some_iff
        split: option.split)
  then have "request_unit_price r (input\<lparr>ci_RateMultiplier := x\<rparr>) = rp_DefaultPerRequestPrice r" for x
    using assms(2-5) by (simp add: request_unit_price_def GetRequestTierPrice_def Let_def)
  then show ?thesis
    using assms by (simp add: CalculateCostUnified_def per_request_mode_def calculatePerRequestCost_def Let_def)
qed

definition free_tier :: PricingInterval where
  "free_tier = (sample_interval 0 None)\<lparr>iv_TierLabel := ''1K'', iv_PerRequestPrice := Some f_zero\<rparr>"

lemma free_tier_charges_default_witness:
  "\<exists>bd. CalculateCostUnified None
      \<lparr>ci_Model = ''m'', ci_GroupID = None, ci_Tokens = no_tokens, ci_RequestCount = 1, ci_SizeTier = ''1K'',
       ci_RateMultiplier = f_one, ci_ServiceTier = [], ci_Resolver = Some None,
       ci_Resolved = Some (empty_resolved\<lparr>rp_Mode := BillingModeImage, rp_RequestTiers := [free_tier],
         rp_DefaultPerRequestPrice := f_one\<rparr>)\<rparr> initFallbackPricing = Inr (initFallbackPricing, bd)
    \<and> cb_TotalCost bd = f_mul f_one f_one"
  using free_tier_charges_default [of "empty_resolved\<lparr>rp_Mode := BillingModeImage, rp_RequestTiers := [free_tier],
      rp_DefaultPerRequestPrice := f_one\<rparr>" "\<lparr>ci_Model = ''m'', ci_GroupID = None, ci_Tokens = no_tokens,
      ci_RequestCount = 1, ci_SizeTier = ''1K'', ci_RateMultiplier = f_one, ci_ServiceTier = [], ci_Resolver = Some None,
      ci_Resolved = Some (empty_resolved\<lparr>rp_Mode := BillingModeImage, rp_RequestTiers := [free_tier],
        rp_DefaultPerRequestPrice := f_one\<rparr>)\<rparr>" "''1K''" free_tier None None initFallbackPricing]
  by (simp add: free_tier_def)

lemma f_up_scale: "f_wf x \<Longrightarrow> f_up f_one c \<Longrightarrow> f_nn x \<Longrightarrow> f_mul x c = Fin q \<Longrightarrow> f_up x (f_mul x c)"
  using f_up_mul [of x x f_one c q] f_mul_one_right [of x]
  by (cases x) (auto simp: f_up_def f_inf_def split: if_splits)

text \<open>A group that sets no price of its own never pays more for a smaller image: the default price of
  a 1K image is at most that of a 2K image and that of a 4K image, as long as those are finite;
  a price of the group replaces the default of that size, and unknown sizes are billed as 2K.\<close>
theorem image_price_tiers:
  assumes "getDefaultImagePrice cat m ''2K'' = Fin b" "getDefaultImagePrice cat m ''4K'' = Fin c"
    and "\<And>l. catalogue_price cat m = Some l \<Longrightarrow> f_wf (OutputCostPerImage l)"
  shows "f_le (getImageUnitPrice cat m ''1K'' None) (getImageUnitPrice cat m ''2K'' None)
    \<and> f_le (getImageUnitPrice cat m ''1K'' None) (getImageUnitPrice cat m ''4K'' None)
    \<and> (\<forall>cfg p. group_image_price cfg s = Some p \<longrightarrow> getImageUnitPrice cat m s (Some cfg) = p)
    \<and> (ClassifyImageBillingTier sz = None \<longrightarrow>
         CalculateImageCost cat m sz n cfg' r = CalculateImageCost cat m ''2K'' n cfg' r)"
proof -
  let ?b = "getDefaultImagePrice cat m ''1K''"
  have two: "getDefaultImagePrice cat m ''2K'' = f_mul ?b (f_dec 15 1)"
    and four: "getDefaultImagePrice cat m ''4K'' = f_mul ?b (f_of_int 2)"
    by (simp_all add: getDefaultImagePrice_def Let_def)
  have nn: "f_lt f_zero x \<Longrightarrow> f_nn x" for x :: float64
    by (cases x) auto
  have d: "f_nn ?b" using nn by (auto simp: getDefaultImagePrice_def Let_def split: option.split)
  have w: "f_wf ?b" using assms(3) by (auto simp: getDefaultImagePrice_def Let_def f_dec_def split: option.splits)
  have "f_dec 15 1 = Fin (3 / 2)" by code_simp
  moreover have "f_up f_one (Fin (3 / 2))" by (auto simp: f_up_def intro!: exI [of _ "3 / 2"])
  ultimately have "f_up f_one (f_dec 15 1)" by (simp only:)
  moreover have "f_up f_one (f_of_int 2)" by (simp add: f_up_def)
  ultimately have le: "f_le ?b (f_mul ?b (f_dec 15 1))" "f_le ?b (f_mul ?b (f_of_int 2))"
    using assms(1,2) d w f_up_scale [of ?b] unfolding two four by (blast intro: f_up_le)+
  have k: "ClassifyImageBillingTier ''2K'' = Some ''2K''" by code_simp
  show ?thesis
    using le by (auto simp: getImageUnitPrice_def two four CalculateImageCost_def k
        NormalizeImageBillingTierOrDefault_def ImageBillingSize2K_def Let_def)
qed

lemma image_price_tiers_witness:
  "f_le (getImageUnitPrice None ''m'' ''1K'' None) (getImageUnitPrice None ''m'' ''4K'' None)"
proof -
  have "getDefaultImagePrice None ''m'' ''2K'' = Fin (3620894100405879 / 18014398509481984)"
    and "getDefaultImagePrice None ''m'' ''4K'' = Fin (1206964700135293 / 4503599627370496)"
    by code_simp+
  from image_price_tiers [OF this] show ?thesis by (simp add: catalogue_price_def)
qed

end
