(* ===== verification/UpstreamModels.thy ===== *)
theory UpstreamModels
  imports GatewayGroup
begin

text \<open>
  The names under which a Claude model is known upstream: the dated names of Claude OAuth
  requests (\<open>pkg/claude/constants.go\<close>), Vertex (\<open>normalizeVertexAnthropicModelID\<close> of
  \<open>service/vertex_service_account.go\<close>) and Bedrock with its regional prefixes
  (\<open>service/bedrock_request.go\<close>); and the two functions of \<open>service/gateway_service.go\<close> that
  decide by them whether an account supports a requested model. Dots in the patterns exclude
  the line feed.
\<close>

section \<open>Dated Claude names\<close>

definition ModelIDOverrides :: "string gomap" where
  "ModelIDOverrides =
    [(''claude-sonnet-4-5'', ''claude-sonnet-4-5-20250929''), (''claude-sonnet-4.5'', ''claude-sonnet-4-5-20250929''),
     (''claude-opus-4-5'', ''claude-opus-4-5-20251101''), (''claude-opus-4.5'', ''claude-opus-4-5-20251101''),
     (''claude-haiku-4-5'', ''claude-haiku-4-5-20251001''), (''claude-haiku-4.5'', ''claude-haiku-4-5-20251001'')]"

definition ModelIDReverseOverrides :: "string gomap" where
  "ModelIDReverseOverrides =
    [(''claude-sonnet-4-5-20250929'', ''claude-sonnet-4-5''), (''claude-opus-4-5-20251101'', ''claude-opus-4-5''),
     (''claude-haiku-4-5-20251001'', ''claude-haiku-4-5'')]"

definition NormalizeModelID :: "string \<Rightarrow> string" where
  "NormalizeModelID mid =
     (if mid = [] then mid else opt_default mid (map_of ModelIDOverrides mid))"

definition DenormalizeModelID :: "string \<Rightarrow> string" where
  "DenormalizeModelID mid =
     (if mid = [] then mid else opt_default mid (map_of ModelIDReverseOverrides mid))"

section \<open>Vertex\<close>

definition line_feed :: char where "line_feed = CHR 0x0A"

text \<open>\<open>^(.+)-([0-9]{8})$\<close> and \<open>^.+@[0-9]{8}$\<close>: the text before the separator and the date.\<close>

definition dated_suffix :: "char \<Rightarrow> string \<Rightarrow> (string \<times> string) option" where
  "dated_suffix sep model =
     (let n = length model - 9; p = take n model; d = drop (Suc n) model in
      if 9 < length model \<and> model ! n = sep \<and> list_all is_digit d \<and> line_feed \<notin> set p
      then Some (p, d) else None)"

definition normalizeVertexAnthropicModelID :: "string \<Rightarrow> string" where
  "normalizeVertexAnthropicModelID model0 =
     (let model = trim_space model0 in
      if model = [] \<or> dated_suffix CHR ''@'' model \<noteq> None then model
      else (case dated_suffix CHR ''-'' model of
              Some (p, d) \<Rightarrow> p @ ''@'' @ d
            | None \<Rightarrow> model))"

section \<open>Bedrock\<close>

abbreviation defaultBedrockRegion :: string where "defaultBedrockRegion \<equiv> ''us-east-1''"

definition bedrockCrossRegionPrefixes :: "string list" where
  "bedrockCrossRegionPrefixes = [''us.'', ''eu.'', ''apac.'', ''jp.'', ''au.'', ''us-gov.'', ''global.'']"

definition BedrockCrossRegionPrefix :: "string \<Rightarrow> string" where
  "BedrockCrossRegionPrefix region =
     (if has_prefix region ''us-gov'' then ''us-gov''
      else if has_prefix region ''us-'' then ''us''
      else if has_prefix region ''eu-'' then ''eu''
      else if region = ''ap-northeast-1'' then ''jp''
      else if region = ''ap-southeast-2'' then ''au''
      else if has_prefix region ''ap-'' then ''apac''
      else if has_prefix region ''ca-'' then ''us''
      else if has_prefix region ''sa-'' then ''us''
      else ''us'')"

definition AdjustBedrockModelRegionPrefix :: "string \<Rightarrow> string \<Rightarrow> string" where
  "AdjustBedrockModelRegionPrefix modelID region =
     (let targetPrefix = (if region = ''global'' then ''global'' else BedrockCrossRegionPrefix region) in
      case find (has_prefix modelID) bedrockCrossRegionPrefixes of
        Some p \<Rightarrow> if p = targetPrefix @ ''.'' then modelID
                  else targetPrefix @ ''.'' @ drop (length p) modelID
      | None \<Rightarrow> modelID)"

definition bedrockRuntimeRegion :: "account option \<Rightarrow> string" where
  "bedrockRuntimeRegion oa =
     (case oa of None \<Rightarrow> defaultBedrockRegion
      | Some a \<Rightarrow> let region = GetCredential a ''aws_region'' in
                  if region \<noteq> [] then region else defaultBedrockRegion)"

definition shouldForceBedrockGlobal :: "account option \<Rightarrow> bool" where
  "shouldForceBedrockGlobal oa \<longleftrightarrow>
     (case oa of None \<Rightarrow> False | Some a \<Rightarrow> GetCredential a ''aws_force_global'' = ''true'')"

definition isRegionalBedrockModelID :: "string \<Rightarrow> bool" where
  "isRegionalBedrockModelID modelID \<longleftrightarrow> list_ex (has_prefix modelID) bedrockCrossRegionPrefixes"

definition isLikelyBedrockModelID :: "string \<Rightarrow> bool" where
  "isLikelyBedrockModelID modelID =
     (let lower = to_lower (trim_space modelID) in
      if lower = [] then False
      else if has_prefix lower ''arn:'' then True
      else if list_ex (has_prefix lower)
                [''anthropic.'', ''amazon.'', ''meta.'', ''mistral.'', ''cohere.'', ''ai21.'', ''deepseek.'',
                 ''stability.'', ''writer.'', ''nova.''] then True
      else isRegionalBedrockModelID lower)"

definition DefaultBedrockModelMapping :: "string gomap" where
  "DefaultBedrockModelMapping =
    [(''claude-opus-4.7'', ''us.anthropic.claude-opus-4-7-v1''),
     (''claude-opus-4-7'', ''us.anthropic.claude-opus-4-7-v1''),
     (''claude-opus-4.6-thinking'', ''us.anthropic.claude-opus-4-6-v1''),
     (''claude-opus-4-6-thinking'', ''us.anthropic.claude-opus-4-6-v1''),
     (''claude-opus-4.6'', ''us.anthropic.claude-opus-4-6-v1''),
     (''claude-opus-4-6'', ''us.anthropic.claude-opus-4-6-v1''),
     (''claude-opus-4.5-thinking'', ''us.anthropic.claude-opus-4-5-20251101-v1:0''),
     (''claude-opus-4-5-thinking'', ''us.anthropic.claude-opus-4-5-20251101-v1:0''),
     (''claude-opus-4-5-20251101'', ''us.anthropic.claude-opus-4-5-20251101-v1:0''),
     (''claude-opus-4-1'', ''us.anthropic.claude-opus-4-1-20250805-v1:0''),
     (''claude-opus-4-20250514'', ''us.anthropic.claude-opus-4-20250514-v1:0''),
     (''claude-sonnet-4.6-thinking'', ''us.anthropic.claude-sonnet-4-6''),
     (''claude-sonnet-4-6-thinking'', ''us.anthropic.claude-sonnet-4-6''),
     (''claude-sonnet-4.6'', ''us.anthropic.claude-sonnet-4-6''),
     (''claude-sonnet-4-6'', ''us.anthropic.claude-sonnet-4-6''),
     (''claude-sonnet-4.5'', ''us.anthropic.claude-sonnet-4-5-20250929-v1:0''),
     (''claude-sonnet-4-5'', ''us.anthropic.claude-sonnet-4-5-20250929-v1:0''),
     (''claude-sonnet-4.5-thinking'', ''us.anthropic.claude-sonnet-4-5-20250929-v1:0''),
     (''claude-sonnet-4-5-thinking'', ''us.anthropic.claude-sonnet-4-5-20250929-v1:0''),
     (''claude-sonnet-4-5-20250929'', ''us.anthropic.claude-sonnet-4-5-20250929-v1:0''),
     (''claude-sonnet-4-20250514'', ''us.anthropic.claude-sonnet-4-20250514-v1:0''),
     (''claude-haiku-4.5'', ''us.anthropic.claude-haiku-4-5-20251001-v1:0''),
     (''claude-haiku-4-5'', ''us.anthropic.claude-haiku-4-5-20251001-v1:0''),
     (''claude-haiku-4-5-20251001'', ''us.anthropic.claude-haiku-4-5-20251001-v1:0'')]"

text \<open>The normalized name and whether its region may be adjusted; absent when it is not valid.\<close>

definition normalizeBedrockModelID :: "string \<Rightarrow> (string \<times> bool) option" where
  "normalizeBedrockModelID modelID0 =
     (let modelID = trim_space modelID0 in
      if modelID = [] then None
      else case map_of DefaultBedrockModelMapping modelID of
        Some mapped \<Rightarrow> Some (mapped, True)
      | None \<Rightarrow>
          if isRegionalBedrockModelID modelID then Some (modelID, True)
          else if isLikelyBedrockModelID modelID then Some (modelID, False)
          else None)"

definition ResolveBedrockModelID :: "nat \<times> nat \<Rightarrow> account option \<Rightarrow> string \<Rightarrow> string option" where
  "ResolveBedrockModelID ad oa requestedModel =
     (case oa of None \<Rightarrow> None
      | Some a \<Rightarrow>
          (case normalizeBedrockModelID (GetMappedModel ad a requestedModel) of
             None \<Rightarrow> None
           | Some (modelID, shouldAdjustRegion) \<Rightarrow>
               if shouldAdjustRegion then
                 (let targetRegion = (if shouldForceBedrockGlobal (Some a) then ''global''
                                      else bedrockRuntimeRegion (Some a))
                  in Some (AdjustBedrockModelRegionPrefix modelID targetRegion))
               else Some modelID))"

section \<open>Which models an account supports\<close>

definition isModelSupportedByAccount :: "nat \<times> nat \<Rightarrow> account \<Rightarrow> string \<Rightarrow> bool" where
  "isModelSupportedByAccount ad a requestedModel =
     (if acc_Platform a = PlatformAntigravity then
        (trim_space requestedModel = [] \<or> mapAntigravityModel ad (Some a) requestedModel \<noteq> [])
      else if IsBedrock a then ResolveBedrockModelID ad (Some a) requestedModel \<noteq> None
      else if acc_Platform a = PlatformOpenAI \<and> IsOpenAIPassthroughEnabled (Some a) then True
      else
        (let model =
           (if acc_Platform a = PlatformAnthropic \<and> acc_Type a \<noteq> AccountTypeAPIKey then
              (if acc_Type a = AccountTypeServiceAccount
               then normalizeVertexAnthropicModelID (NormalizeModelID requestedModel)
               else NormalizeModelID requestedModel)
            else requestedModel)
         in IsModelSupported ad a model))"

definition isModelSupportedByAccountWithContext ::
    "nat \<times> nat \<Rightarrow> bool option \<Rightarrow> account \<Rightarrow> string \<Rightarrow> bool" where
  "isModelSupportedByAccountWithContext ad thinking a requestedModel =
     (if acc_Platform a = PlatformAntigravity then
        (if trim_space requestedModel = [] then True
         else (let mapped = mapAntigravityModel ad (Some a) requestedModel in
               if mapped = [] then False
               else (case thinking of
                       Some enabled \<Rightarrow>
                         (let finalModel = applyThinkingModelSuffix mapped enabled in
                          if finalModel = mapped then True else IsModelSupported ad a finalModel)
                     | None \<Rightarrow> True)))
      else isModelSupportedByAccount ad a requestedModel)"

definition resolveAccountUpstreamModel :: "nat \<times> nat \<Rightarrow> account \<Rightarrow> string \<Rightarrow> string" where
  "resolveAccountUpstreamModel ad a requestedModel =
     (if acc_Platform a = PlatformAntigravity then mapAntigravityModel ad (Some a) requestedModel
      else GetMappedModel ad a requestedModel)"


section \<open>Facts about the names\<close>

lemma NormalizeModelID_cases:
  "NormalizeModelID m = m \<or> (m, NormalizeModelID m) \<in> set ModelIDOverrides"
  by (cases "map_of ModelIDOverrides m") (auto simp: NormalizeModelID_def dest: map_of_SomeD)

lemma DenormalizeModelID_cases:
  "DenormalizeModelID m = m \<or> (m, DenormalizeModelID m) \<in> set ModelIDReverseOverrides"
  by (cases "map_of ModelIDReverseOverrides m") (auto simp: DenormalizeModelID_def dest: map_of_SomeD)

lemma override_pairs:
  "\<forall>(a, b) \<in> set ModelIDOverrides. NormalizeModelID b = b \<and> NormalizeModelID (DenormalizeModelID b) = b
     \<and> (DenormalizeModelID b = a \<or> CHR ''.'' \<in> set a)"
  "\<forall>(b, a) \<in> set ModelIDReverseOverrides. NormalizeModelID a = b"
  by code_simp+

text \<open>Shortening a dated Claude name and dating it again gives the dated name back, whatever alias it
  was requested under; dating is idempotent, and a name that is not itself a dated one is restored
  from its dated form unless it is a dotted alias.\<close>
theorem model_id_roundtrip:
  "NormalizeModelID (DenormalizeModelID (NormalizeModelID m)) = NormalizeModelID m
   \<and> NormalizeModelID (NormalizeModelID m) = NormalizeModelID m
   \<and> (DenormalizeModelID (NormalizeModelID m) = m \<or> CHR ''.'' \<in> set m \<or> m \<in> fst ` set ModelIDReverseOverrides)"
proof (cases "NormalizeModelID m = m")
  case True
  then show ?thesis using DenormalizeModelID_cases [of m] override_pairs(2) by force
next
  case False
  then show ?thesis using NormalizeModelID_cases [of m] override_pairs(1) by auto
qed

definition bedrock_regions :: "string list" where
  "bedrock_regions = [''us'', ''eu'', ''apac'', ''jp'', ''au'', ''us-gov'', ''global'']"

lemma prefixes_regions: "bedrockCrossRegionPrefixes = map (\<lambda>t. t @ ''.'') bedrock_regions"
  by (simp add: bedrockCrossRegionPrefixes_def bedrock_regions_def)

lemma region_target:
  assumes "t \<in> set bedrock_regions"
  shows "find (has_prefix (t @ ''.'' @ r)) bedrockCrossRegionPrefixes = Some (t @ ''.'')"
  using assms unfolding bedrockCrossRegionPrefixes_def bedrock_regions_def list.set insert_iff empty_iff
  by (elim disjE FalseE; simp only: find.simps append.simps has_prefix_Cons; simp)

definition bedrock_target :: "string \<Rightarrow> string" where
  "bedrock_target region = (if region = ''global'' then ''global'' else BedrockCrossRegionPrefix region)"

lemma bedrock_target_mem: "bedrock_target region \<in> set bedrock_regions"
  by (simp add: bedrock_target_def BedrockCrossRegionPrefix_def bedrock_regions_def)

text \<open>A regional Bedrock name is moved to the region of the account: the result carries exactly the
  prefix of that region and keeps the rest of the name, and adjusting any name a second time changes
  nothing; a name without a known region is left alone.\<close>
theorem region_adjusted:
  "(\<not> isRegionalBedrockModelID m \<longrightarrow> AdjustBedrockModelRegionPrefix m region = m)
   \<and> (p \<in> set bedrockCrossRegionPrefixes \<longrightarrow>
        AdjustBedrockModelRegionPrefix (p @ r) region = bedrock_target region @ ''.'' @ r)
   \<and> AdjustBedrockModelRegionPrefix (AdjustBedrockModelRegionPrefix m region) region
       = AdjustBedrockModelRegionPrefix m region"
proof -
  let ?A = "\<lambda>m. AdjustBedrockModelRegionPrefix m region" and ?t = "bedrock_target region"
  have move: "?A (p @ r) = ?t @ ''.'' @ r" if p: "p \<in> set bedrockCrossRegionPrefixes" for p r
  proof -
    obtain t where t: "t \<in> set bedrock_regions" "p = t @ ''.''" using p by (auto simp: prefixes_regions)
    from region_target [OF t(1), of r] show ?thesis
      by (simp add: AdjustBedrockModelRegionPrefix_def t(2) bedrock_target_def Let_def)
  qed
  have stay: "?A m = m" if n: "\<not> isRegionalBedrockModelID m" for m
  proof -
    have "find (has_prefix m) bedrockCrossRegionPrefixes = None"
      using n by (auto simp: isRegionalBedrockModelID_def list_ex_iff find_None_iff)
    then show ?thesis by (simp add: AdjustBedrockModelRegionPrefix_def)
  qed
  have "?A (?A m) = ?A m"
  proof (cases "isRegionalBedrockModelID m")
    case True
    then obtain p r where p: "p \<in> set bedrockCrossRegionPrefixes" "m = p @ r"
      by (auto simp: isRegionalBedrockModelID_def list_ex_iff has_prefix_iff)
    have "?t @ ''.'' \<in> set bedrockCrossRegionPrefixes"
      using bedrock_target_mem by (auto simp: prefixes_regions)
    from move [OF this, of r] show ?thesis by (simp only: p(2) move [OF p(1)] append_assoc)
  qed (simp add: stay)
  then show ?thesis using move stay by blast
qed

lemma region_adjusted_witness:
  "AdjustBedrockModelRegionPrefix (''us.'' @ ''x'') ''global'' = ''global'' @ ''.'' @ ''x''"
proof -
  have p: "''us.'' \<in> set bedrockCrossRegionPrefixes" by (simp only: bedrockCrossRegionPrefixes_def list.set insertI1)
  have t: "bedrock_target ''global'' = ''global''" by (simp only: bedrock_target_def if_True simp_thms)
  show ?thesis using region_adjusted [of "''x''" "''global''" "''us.''" "''x''"] p t by (simp only: simp_thms)
qed

end
