(* ===== verification/RedisSets.thy ===== *)
theory RedisSets
  imports GoValue
begin

text \<open>
  The sorted sets of the Redis server, which the caches of the gateway keep their slots and
  sessions in. The server is not part of the repository: its commands are a parameter, a record
  of functions, and the locale \<open>sorted_set\<close> states the documented behaviour of the commands
  that the scripts use, in terms of the score of each member. \<open>list_zset\<close> is one concrete
  server, used by the closed instances. Scores are times in whole seconds, so they are
  integers here. An absent key is the empty set. The expiry of a whole key only frees memory:
  every script that reads a set first removes the members whose score is old, and the
  expiry of the key is never earlier than that of its youngest member.
\<close>

section \<open>The commands\<close>

record 'r zset_ops =
  zempty :: 'r
  zadd :: "string \<Rightarrow> int \<Rightarrow> 'r \<Rightarrow> 'r"
  zrem :: "string \<Rightarrow> 'r \<Rightarrow> 'r"
  zscore :: "'r \<Rightarrow> string \<Rightarrow> int option"
  zcard :: "'r \<Rightarrow> int"
  zremrangebyscore :: "int \<Rightarrow> 'r \<Rightarrow> 'r"
  zrange :: "'r \<Rightarrow> string list"

locale sorted_set =
  fixes Z :: "'r zset_ops"
  assumes score_empty: "zscore Z (zempty Z) m = None"
    and score_add: "zscore Z (zadd Z n s z) m = (if m = n then Some s else zscore Z z m)"
    and score_rem: "zscore Z (zrem Z n z) m = (if m = n then None else zscore Z z m)"
    and score_trim: "zscore Z (zremrangebyscore Z b z) m =
          (case zscore Z z m of None \<Rightarrow> None | Some s \<Rightarrow> if s \<le> b then None else Some s)"
    and finite_members: "finite {m. zscore Z z m \<noteq> None}"
    and card_members: "zcard Z z = int (card {m. zscore Z z m \<noteq> None})"
    and range_members: "set (zrange Z z) = {m. zscore Z z m \<noteq> None}"
begin

definition members :: "'r \<Rightarrow> string set" where
  "members z = {m. zscore Z z m \<noteq> None}"

lemma finite_mem [simp]: "finite (members z)"
  unfolding members_def by (rule finite_members)

lemma card_mem: "zcard Z z = int (card (members z))"
  by (simp add: members_def card_members)

lemma range_mem: "set (zrange Z z) = members z"
  by (simp add: members_def range_members)

lemma members_empty [simp]: "members (zempty Z) = {}"
  by (simp add: members_def score_empty)

lemma members_add [simp]: "members (zadd Z n s z) = insert n (members z)"
  by (auto simp: members_def score_add)

lemma members_rem [simp]: "members (zrem Z n z) = members z - {n}"
  by (auto simp: members_def score_rem)

lemma members_trim: "members (zremrangebyscore Z b z) \<subseteq> members z"
  by (auto simp: members_def score_trim split: option.splits)

lemma in_members_iff: "m \<in> members z \<longleftrightarrow> (\<exists>s. zscore Z z m = Some s)"
  by (simp add: members_def)

lemma in_trim_iff: "m \<in> members (zremrangebyscore Z b z) \<longleftrightarrow> (\<exists>s. zscore Z z m = Some s \<and> b < s)"
  by (auto simp: members_def score_trim split: option.split)

lemma trim_trim:
  "b \<le> c \<Longrightarrow> zscore Z (zremrangebyscore Z c (zremrangebyscore Z b z)) = zscore Z (zremrangebyscore Z c z)"
  by (auto simp: score_trim fun_eq_iff split: option.split)

lemma zcard_nonneg: "0 \<le> zcard Z z"
  by (simp add: card_members)

end

section \<open>A concrete server\<close>

text \<open>A sorted set as the list of its members with their scores, each member once.\<close>

typedef zlist = "{kv :: int gomap. map_wf kv}"
  by (rule exI [of _ "[]"]) (simp add: map_wf_def)

setup_lifting type_definition_zlist

lift_definition zl_empty :: zlist is "[]" by (simp add: map_wf_def)
lift_definition zl_add :: "string \<Rightarrow> int \<Rightarrow> zlist \<Rightarrow> zlist" is map_put by (rule map_put_wf)
lift_definition zl_rem :: "string \<Rightarrow> zlist \<Rightarrow> zlist" is map_delete by (rule map_delete_wf)
lift_definition zl_score :: "zlist \<Rightarrow> string \<Rightarrow> int option" is map_of .
lift_definition zl_card :: "zlist \<Rightarrow> int" is "\<lambda>kv. int (length kv)" .
lift_definition zl_trim :: "int \<Rightarrow> zlist \<Rightarrow> zlist" is "\<lambda>b. filter (\<lambda>p. b < snd p)"
  by (auto simp: map_wf_def distinct_map_filter)
lift_definition zl_range :: "zlist \<Rightarrow> string list" is "map fst" .

definition list_zset :: "zlist zset_ops" where
  "list_zset = \<lparr>zempty = zl_empty, zadd = zl_add, zrem = zl_rem, zscore = zl_score, zcard = zl_card,
     zremrangebyscore = zl_trim, zrange = zl_range\<rparr>"

lemma list_zset_simps [simp]:
  "zempty list_zset = zl_empty" "zadd list_zset = zl_add" "zrem list_zset = zl_rem"
  "zscore list_zset = zl_score" "zcard list_zset = zl_card" "zremrangebyscore list_zset = zl_trim"
  "zrange list_zset = zl_range"
  by (simp_all add: list_zset_def)

lemma zl_members: "{m. zl_score z m \<noteq> None} = set (zl_range z)"
  by transfer (auto simp: map_of_eq_None_iff)

lemma map_of_filter_score:
  "map_wf kv \<Longrightarrow> map_of (filter (\<lambda>p. b < snd p) kv) m =
     (case map_of kv m of None \<Rightarrow> None | Some s \<Rightarrow> if s \<le> b then None else Some (s :: int))"
  by (induction kv) (auto simp: map_wf_def map_of_eq_None_iff split: option.splits)

interpretation zl: sorted_set list_zset
proof
  show "zscore list_zset (zadd list_zset n s z) m = (if m = n then Some s else zscore list_zset z m)" for n s z m
    by (simp, transfer) (simp add: map_put_lookup)
  show "zscore list_zset (zrem list_zset n z) m = (if m = n then None else zscore list_zset z m)" for n z m
    by (simp, transfer) (simp add: map_delete_lookup)
  show "zscore list_zset (zremrangebyscore list_zset b z) m =
      (case zscore list_zset z m of None \<Rightarrow> None | Some s \<Rightarrow> if s \<le> b then None else Some s)" for b z m
    by (simp, transfer) (rule map_of_filter_score)
  show "zcard list_zset z = int (card {m. zscore list_zset z m \<noteq> None})" for z
    by (simp only: list_zset_simps zl_members) (transfer, metis distinct_card length_map map_wf_def)
qed (simp_all only: list_zset_simps zl_members finite_set, transfer, simp)

end
