(* ===== verification/Concurrency.thy ===== *)
theory Concurrency
  imports RedisSets
begin

text \<open>
  Concurrency slots and wait queues: the scripts and commands of the cache
  (\<open>repository/concurrency_cache.go\<close>) and the service in front of it
  (\<open>service/concurrency_service.go\<close>). A slot is a member of a sorted set, its score the second
  in which it was taken; a slot that is older than the time to live is dropped by the next
  script that reads the set. The keys of accounts and users are distinct, so the store has one
  set for each id. A release function is the value \<open>release\<close> that says what it removes. The
  operations that contact the server take whether this call succeeds; a failed call has no
  effect on the store.
\<close>

section \<open>The scripts\<close>

definition acquireScript :: "'r zset_ops \<Rightarrow> int \<Rightarrow> int \<Rightarrow> int \<Rightarrow> string \<Rightarrow> 'r \<Rightarrow> bool \<times> 'r" where
  "acquireScript Z now maxConcurrency ttl requestID z =
     (let z1 = zremrangebyscore Z (now - ttl) z in
      if zscore Z z1 requestID \<noteq> None then (True, zadd Z requestID now z1)
      else if zcard Z z1 < maxConcurrency then (True, zadd Z requestID now z1)
      else (False, z1))"

definition getCountScript :: "'r zset_ops \<Rightarrow> int \<Rightarrow> int \<Rightarrow> 'r \<Rightarrow> int \<times> 'r" where
  "getCountScript Z now ttl z = (let z1 = zremrangebyscore Z (now - ttl) z in (zcard Z z1, z1))"

text \<open>The two scripts for wait queues are the same code; a missing counter counts as zero.\<close>

definition incrementWaitScript :: "int \<Rightarrow> int option \<Rightarrow> bool \<times> int option" where
  "incrementWaitScript maxWait c =
     (let current = opt_default 0 c in
      if maxWait \<le> current then (False, c) else (True, Some (current + 1)))"

definition decrementWaitScript :: "int option \<Rightarrow> int option" where
  "decrementWaitScript c =
     (case c of None \<Rightarrow> None | Some n \<Rightarrow> if 0 < n then Some (n - 1) else Some n)"

definition drop_empty :: "'r zset_ops \<Rightarrow> 'r \<Rightarrow> 'r" where
  "drop_empty Z z = (if zcard Z z = 0 then zempty Z else z)"

definition cleanupExpiredSlotsScript :: "'r zset_ops \<Rightarrow> int \<Rightarrow> int \<Rightarrow> 'r \<Rightarrow> 'r" where
  "cleanupExpiredSlotsScript Z now ttl z = drop_empty Z (zremrangebyscore Z (now - ttl) z)"

definition startupCleanupScript :: "'r zset_ops \<Rightarrow> string \<Rightarrow> 'r \<Rightarrow> 'r" where
  "startupCleanupScript Z activePrefix z =
     drop_empty Z (fold (\<lambda>m z. if has_prefix m activePrefix then z else zrem Z m z) (zrange Z z) z)"

section \<open>The store\<close>

record 'r slot_store =
  ss_Account :: "int \<Rightarrow> 'r"
  ss_User :: "int \<Rightarrow> 'r"
  ss_AccountWait :: "int \<Rightarrow> int option"
  ss_UserWait :: "int \<Rightarrow> int option"

definition empty_store :: "'r zset_ops \<Rightarrow> 'r slot_store" where
  "empty_store Z = \<lparr>ss_Account = (\<lambda>_. zempty Z), ss_User = (\<lambda>_. zempty Z),
     ss_AccountWait = (\<lambda>_. None), ss_UserWait = (\<lambda>_. None)\<rparr>"

text \<open>What a call knows: the commands, the second of the server's clock, the time to live of a
  slot and whether the call reaches the server.\<close>

record 'r redis_call =
  rc_Ops :: "'r zset_ops"
  rc_Now :: int
  rc_SlotTTL :: int
  rc_Up :: bool

datatype slot_error = RedisError | NilCache

definition defaultSlotTTLMinutes :: int where "defaultSlotTTLMinutes = 15"

text \<open>The times to live, in seconds, of slots and of wait counters.\<close>

definition NewConcurrencyCache :: "int \<Rightarrow> int \<Rightarrow> int \<times> int" where
  "NewConcurrencyCache slotTTLMinutes0 waitQueueTTLSeconds =
     (let slotTTLMinutes = (if slotTTLMinutes0 \<le> 0 then defaultSlotTTLMinutes else slotTTLMinutes0) in
      (i64 (slotTTLMinutes * 60),
       if waitQueueTTLSeconds \<le> 0 then i64 (slotTTLMinutes * 60) else waitQueueTTLSeconds))"

definition cache_AcquireAccountSlot ::
    "'r redis_call \<Rightarrow> int \<Rightarrow> int \<Rightarrow> string \<Rightarrow> 'r slot_store \<Rightarrow> (slot_error + bool) \<times> 'r slot_store" where
  "cache_AcquireAccountSlot c accountID maxConcurrency requestID st =
     (if \<not> rc_Up c then (Inl RedisError, st)
      else (let (ok, z) = acquireScript (rc_Ops c) (rc_Now c) maxConcurrency (rc_SlotTTL c) requestID
                            (ss_Account st accountID)
            in (Inr ok, st\<lparr>ss_Account := (ss_Account st)(accountID := z)\<rparr>)))"

definition cache_ReleaseAccountSlot ::
    "'r redis_call \<Rightarrow> int \<Rightarrow> string \<Rightarrow> 'r slot_store \<Rightarrow> (slot_error + unit) \<times> 'r slot_store" where
  "cache_ReleaseAccountSlot c accountID requestID st =
     (if \<not> rc_Up c then (Inl RedisError, st)
      else (Inr (), st\<lparr>ss_Account := (ss_Account st)(accountID := zrem (rc_Ops c) requestID (ss_Account st accountID))\<rparr>))"

definition cache_GetAccountConcurrency ::
    "'r redis_call \<Rightarrow> int \<Rightarrow> 'r slot_store \<Rightarrow> (slot_error + int) \<times> 'r slot_store" where
  "cache_GetAccountConcurrency c accountID st =
     (if \<not> rc_Up c then (Inl RedisError, st)
      else (let (n, z) = getCountScript (rc_Ops c) (rc_Now c) (rc_SlotTTL c) (ss_Account st accountID)
            in (Inr n, st\<lparr>ss_Account := (ss_Account st)(accountID := z)\<rparr>)))"

definition cache_AcquireUserSlot ::
    "'r redis_call \<Rightarrow> int \<Rightarrow> int \<Rightarrow> string \<Rightarrow> 'r slot_store \<Rightarrow> (slot_error + bool) \<times> 'r slot_store" where
  "cache_AcquireUserSlot c userID maxConcurrency requestID st =
     (if \<not> rc_Up c then (Inl RedisError, st)
      else (let (ok, z) = acquireScript (rc_Ops c) (rc_Now c) maxConcurrency (rc_SlotTTL c) requestID
                            (ss_User st userID)
            in (Inr ok, st\<lparr>ss_User := (ss_User st)(userID := z)\<rparr>)))"

definition cache_ReleaseUserSlot ::
    "'r redis_call \<Rightarrow> int \<Rightarrow> string \<Rightarrow> 'r slot_store \<Rightarrow> (slot_error + unit) \<times> 'r slot_store" where
  "cache_ReleaseUserSlot c userID requestID st =
     (if \<not> rc_Up c then (Inl RedisError, st)
      else (Inr (), st\<lparr>ss_User := (ss_User st)(userID := zrem (rc_Ops c) requestID (ss_User st userID))\<rparr>))"

definition cache_GetUserConcurrency ::
    "'r redis_call \<Rightarrow> int \<Rightarrow> 'r slot_store \<Rightarrow> (slot_error + int) \<times> 'r slot_store" where
  "cache_GetUserConcurrency c userID st =
     (if \<not> rc_Up c then (Inl RedisError, st)
      else (let (n, z) = getCountScript (rc_Ops c) (rc_Now c) (rc_SlotTTL c) (ss_User st userID)
            in (Inr n, st\<lparr>ss_User := (ss_User st)(userID := z)\<rparr>)))"

definition cache_IncrementWaitCount ::
    "'r redis_call \<Rightarrow> int \<Rightarrow> int \<Rightarrow> 'r slot_store \<Rightarrow> (slot_error + bool) \<times> 'r slot_store" where
  "cache_IncrementWaitCount c userID maxWait st =
     (if \<not> rc_Up c then (Inl RedisError, st)
      else (let (ok, n) = incrementWaitScript maxWait (ss_UserWait st userID)
            in (Inr ok, st\<lparr>ss_UserWait := (ss_UserWait st)(userID := n)\<rparr>)))"

definition cache_DecrementWaitCount ::
    "'r redis_call \<Rightarrow> int \<Rightarrow> 'r slot_store \<Rightarrow> (slot_error + unit) \<times> 'r slot_store" where
  "cache_DecrementWaitCount c userID st =
     (if \<not> rc_Up c then (Inl RedisError, st)
      else (Inr (), st\<lparr>ss_UserWait := (ss_UserWait st)(userID := decrementWaitScript (ss_UserWait st userID))\<rparr>))"

definition cache_IncrementAccountWaitCount ::
    "'r redis_call \<Rightarrow> int \<Rightarrow> int \<Rightarrow> 'r slot_store \<Rightarrow> (slot_error + bool) \<times> 'r slot_store" where
  "cache_IncrementAccountWaitCount c accountID maxWait st =
     (if \<not> rc_Up c then (Inl RedisError, st)
      else (let (ok, n) = incrementWaitScript maxWait (ss_AccountWait st accountID)
            in (Inr ok, st\<lparr>ss_AccountWait := (ss_AccountWait st)(accountID := n)\<rparr>)))"

definition cache_DecrementAccountWaitCount ::
    "'r redis_call \<Rightarrow> int \<Rightarrow> 'r slot_store \<Rightarrow> (slot_error + unit) \<times> 'r slot_store" where
  "cache_DecrementAccountWaitCount c accountID st =
     (if \<not> rc_Up c then (Inl RedisError, st)
      else (Inr (), st\<lparr>ss_AccountWait :=
              (ss_AccountWait st)(accountID := decrementWaitScript (ss_AccountWait st accountID))\<rparr>))"

definition cache_GetAccountWaitingCount :: "'r redis_call \<Rightarrow> int \<Rightarrow> 'r slot_store \<Rightarrow> slot_error + int" where
  "cache_GetAccountWaitingCount c accountID st =
     (if \<not> rc_Up c then Inl RedisError else Inr (opt_default 0 (ss_AccountWait st accountID)))"

section \<open>Load of many accounts\<close>

record AccountLoadInfo =
  li_AccountID :: int
  li_CurrentConcurrency :: int
  li_WaitingCount :: int
  li_LoadRate :: int

definition load_rate :: "int \<Rightarrow> int \<Rightarrow> int \<Rightarrow> int" where
  "load_rate current waiting maxConcurrency =
     (if 0 < maxConcurrency then go_div (i64 (i64 (current + waiting) * 100)) maxConcurrency else 0)"

text \<open>One account of the pipeline: expired slots are removed, then counted.\<close>

definition load_one ::
    "'r redis_call \<Rightarrow> int \<times> int \<Rightarrow> (int \<Rightarrow> 'r) \<Rightarrow> (int \<Rightarrow> int option) \<Rightarrow> AccountLoadInfo \<times> (int \<Rightarrow> 'r)" where
  "load_one c acc slots wait =
     (let (n, z) = getCountScript (rc_Ops c) (rc_Now c) (rc_SlotTTL c) (slots (fst acc));
          w = opt_default 0 (wait (fst acc))
      in (\<lparr>li_AccountID = fst acc, li_CurrentConcurrency = n, li_WaitingCount = w,
           li_LoadRate = load_rate n w (snd acc)\<rparr>, slots(fst acc := z)))"

text \<open>Results are collected in a map, so for an id that is listed twice the last read counts.\<close>

definition put_new :: "int \<Rightarrow> 'v \<Rightarrow> (int \<times> 'v) list \<Rightarrow> (int \<times> 'v) list" where
  "put_new i v later = (if map_of later i = None then (i, v) # later else later)"

fun load_all ::
    "'r redis_call \<Rightarrow> (int \<times> int) list \<Rightarrow> (int \<Rightarrow> 'r) \<Rightarrow> (int \<Rightarrow> int option)
       \<Rightarrow> (int \<times> AccountLoadInfo) list \<times> (int \<Rightarrow> 'r)" where
  "load_all c [] slots wait = ([], slots)"
| "load_all c (acc # accs) slots wait =
     (let (l, slots1) = load_one c acc slots wait; (ls, slots2) = load_all c accs slots1 wait
      in (put_new (fst acc) l ls, slots2))"

definition cache_GetAccountsLoadBatch ::
    "'r redis_call \<Rightarrow> (int \<times> int) list \<Rightarrow> 'r slot_store
       \<Rightarrow> (slot_error + (int \<times> AccountLoadInfo) list) \<times> 'r slot_store" where
  "cache_GetAccountsLoadBatch c accounts st =
     (if accounts = [] then (Inr [], st)
      else if \<not> rc_Up c then (Inl RedisError, st)
      else (let (m, slots) = load_all c accounts (ss_Account st) (ss_AccountWait st)
            in (Inr m, st\<lparr>ss_Account := slots\<rparr>)))"

definition cache_GetUsersLoadBatch ::
    "'r redis_call \<Rightarrow> (int \<times> int) list \<Rightarrow> 'r slot_store
       \<Rightarrow> (slot_error + (int \<times> AccountLoadInfo) list) \<times> 'r slot_store" where
  "cache_GetUsersLoadBatch c users st =
     (if users = [] then (Inr [], st)
      else if \<not> rc_Up c then (Inl RedisError, st)
      else (let (m, slots) = load_all c users (ss_User st) (ss_UserWait st)
            in (Inr m, st\<lparr>ss_User := slots\<rparr>)))"

fun count_all :: "'r redis_call \<Rightarrow> int list \<Rightarrow> (int \<Rightarrow> 'r) \<Rightarrow> (int \<times> int) list \<times> (int \<Rightarrow> 'r)" where
  "count_all c [] slots = ([], slots)"
| "count_all c (i # is) slots =
     (let (n, z) = getCountScript (rc_Ops c) (rc_Now c) (rc_SlotTTL c) (slots i);
          (ns, slots') = count_all c is (slots(i := z))
      in (put_new i n ns, slots'))"

definition cache_GetAccountConcurrencyBatch ::
    "'r redis_call \<Rightarrow> int list \<Rightarrow> 'r slot_store \<Rightarrow> (slot_error + (int \<times> int) list) \<times> 'r slot_store" where
  "cache_GetAccountConcurrencyBatch c accountIDs st =
     (if accountIDs = [] then (Inr [], st)
      else if \<not> rc_Up c then (Inl RedisError, st)
      else (let (m, slots) = count_all c accountIDs (ss_Account st)
            in (Inr m, st\<lparr>ss_Account := slots\<rparr>)))"

section \<open>Cleaning up\<close>

definition cache_CleanupExpiredAccountSlots ::
    "'r redis_call \<Rightarrow> int \<Rightarrow> 'r slot_store \<Rightarrow> (slot_error + unit) \<times> 'r slot_store" where
  "cache_CleanupExpiredAccountSlots c accountID st =
     (if \<not> rc_Up c then (Inl RedisError, st)
      else (Inr (), st\<lparr>ss_Account := (ss_Account st)(accountID :=
              cleanupExpiredSlotsScript (rc_Ops c) (rc_Now c) (rc_SlotTTL c) (ss_Account st accountID))\<rparr>))"

text \<open>The scan visits every key of the pattern, so each set is cleaned and each counter deleted.\<close>

definition cache_CleanupStaleProcessSlots ::
    "'r redis_call \<Rightarrow> string \<Rightarrow> 'r slot_store \<Rightarrow> (slot_error + unit) \<times> 'r slot_store" where
  "cache_CleanupStaleProcessSlots c activeRequestPrefix st =
     (if activeRequestPrefix = [] then (Inr (), st)
      else if \<not> rc_Up c then (Inl RedisError, st)
      else (Inr (), \<lparr>ss_Account = (\<lambda>i. startupCleanupScript (rc_Ops c) activeRequestPrefix (ss_Account st i)),
                     ss_User = (\<lambda>i. startupCleanupScript (rc_Ops c) activeRequestPrefix (ss_User st i)),
                     ss_AccountWait = (\<lambda>_. None), ss_UserWait = (\<lambda>_. None)\<rparr>))"

end
