(* ===== verification/ConcurrencyService.thy ===== *)
theory ConcurrencyService
  imports Concurrency
begin

text \<open>
  The service in front of the slot store (\<open>service/concurrency_service.go\<close>): request ids,
  slots with their release functions, wait queues that let a request pass when the server
  fails, and the short cache of account loads. The hash of the key of that cache is a
  parameter, and so is the order in which a full cache is emptied: it is that of the list.
\<close>

section \<open>Request ids\<close>

definition digit36 :: "nat \<Rightarrow> char" where
  "digit36 d = (if d < 10 then char_of (48 + d) else char_of (87 + d))"

fun format_uint36 :: "nat \<Rightarrow> string" where
  "format_uint36 n = (if n < 36 then [digit36 n] else format_uint36 (n div 36) @ [digit36 (n mod 36)])"

declare format_uint36.simps [simp del]

definition generateRequestID :: "string \<Rightarrow> 64 word \<Rightarrow> string \<times> 64 word" where
  "generateRequestID requestIDPrefix counter =
     (let seq = counter + 1 in (requestIDPrefix @ ''-'' @ format_uint36 (unat seq), seq))"

section \<open>The service\<close>

record load_entry =
  le_LoadMap :: "(int \<times> AccountLoadInfo) list"
  le_ExpiresAt :: gtime

record 'r concurrency =
  cs_HasCache :: bool
  cs_Store :: "'r slot_store"
  cs_Prefix :: string
  cs_Counter :: "64 word"
  cs_LoadCacheTTL :: duration
  cs_LoadCache :: "load_entry gomap"

datatype release =
    NoRelease
  | ReleaseAccount int string
  | ReleaseUser int string

text \<open>\<open>AcquireResult\<close>: absent when the slot was not acquired, else the release function.\<close>

type_synonym acquire_result = "release option"

definition on_store ::
    "('r slot_store \<Rightarrow> 'a \<times> 'r slot_store) \<Rightarrow> 'r concurrency \<Rightarrow> 'a \<times> 'r concurrency" where
  "on_store f s = (case f (cs_Store s) of (x, st) \<Rightarrow> (x, s\<lparr>cs_Store := st\<rparr>))"

definition AcquireAccountSlot ::
    "'r redis_call \<Rightarrow> int \<Rightarrow> int \<Rightarrow> 'r concurrency \<Rightarrow> (slot_error + acquire_result) \<times> 'r concurrency" where
  "AcquireAccountSlot c accountID maxConcurrency s =
     (if maxConcurrency \<le> 0 then (Inr (Some NoRelease), s)
      else (let (requestID, seq) = generateRequestID (cs_Prefix s) (cs_Counter s);
                s1 = s\<lparr>cs_Counter := seq\<rparr>
            in if \<not> cs_HasCache s then (Inl NilCache, s1)
               else (case on_store (cache_AcquireAccountSlot c accountID maxConcurrency requestID) s1 of
                       (Inl e, s2) \<Rightarrow> (Inl e, s2)
                     | (Inr acquired, s2) \<Rightarrow>
                         (Inr (if acquired then Some (ReleaseAccount accountID requestID) else None), s2))))"

definition AcquireUserSlot ::
    "'r redis_call \<Rightarrow> int \<Rightarrow> int \<Rightarrow> 'r concurrency \<Rightarrow> (slot_error + acquire_result) \<times> 'r concurrency" where
  "AcquireUserSlot c userID maxConcurrency s =
     (if maxConcurrency \<le> 0 then (Inr (Some NoRelease), s)
      else (let (requestID, seq) = generateRequestID (cs_Prefix s) (cs_Counter s);
                s1 = s\<lparr>cs_Counter := seq\<rparr>
            in if \<not> cs_HasCache s then (Inl NilCache, s1)
               else (case on_store (cache_AcquireUserSlot c userID maxConcurrency requestID) s1 of
                       (Inl e, s2) \<Rightarrow> (Inl e, s2)
                     | (Inr acquired, s2) \<Rightarrow>
                         (Inr (if acquired then Some (ReleaseUser userID requestID) else None), s2))))"

text \<open>Calling a release function; a failure is logged only.\<close>

definition ReleaseFunc :: "'r redis_call \<Rightarrow> release \<Rightarrow> 'r concurrency \<Rightarrow> 'r concurrency" where
  "ReleaseFunc c r s =
     (case r of NoRelease \<Rightarrow> s
      | ReleaseAccount i q \<Rightarrow> snd (on_store (cache_ReleaseAccountSlot c i q) s)
      | ReleaseUser i q \<Rightarrow> snd (on_store (cache_ReleaseUserSlot c i q) s))"

section \<open>Wait queues\<close>

definition fail_open :: "(slot_error + bool) \<times> 's \<Rightarrow> bool \<times> 's" where
  "fail_open r = (case r of (Inl _, s) \<Rightarrow> (True, s) | (Inr b, s) \<Rightarrow> (b, s))"

definition IncrementWaitCount :: "'r redis_call \<Rightarrow> int \<Rightarrow> int \<Rightarrow> 'r concurrency \<Rightarrow> bool \<times> 'r concurrency" where
  "IncrementWaitCount c userID maxWait s =
     (if \<not> cs_HasCache s then (True, s) else fail_open (on_store (cache_IncrementWaitCount c userID maxWait) s))"

definition DecrementWaitCount :: "'r redis_call \<Rightarrow> int \<Rightarrow> 'r concurrency \<Rightarrow> 'r concurrency" where
  "DecrementWaitCount c userID s =
     (if \<not> cs_HasCache s then s else snd (on_store (cache_DecrementWaitCount c userID) s))"

definition IncrementAccountWaitCount ::
    "'r redis_call \<Rightarrow> int \<Rightarrow> int \<Rightarrow> 'r concurrency \<Rightarrow> bool \<times> 'r concurrency" where
  "IncrementAccountWaitCount c accountID maxWait s =
     (if \<not> cs_HasCache s then (True, s)
      else fail_open (on_store (cache_IncrementAccountWaitCount c accountID maxWait) s))"

definition DecrementAccountWaitCount :: "'r redis_call \<Rightarrow> int \<Rightarrow> 'r concurrency \<Rightarrow> 'r concurrency" where
  "DecrementAccountWaitCount c accountID s =
     (if \<not> cs_HasCache s then s else snd (on_store (cache_DecrementAccountWaitCount c accountID) s))"

definition GetAccountWaitingCount :: "'r redis_call \<Rightarrow> int \<Rightarrow> 'r concurrency \<Rightarrow> slot_error + int" where
  "GetAccountWaitingCount c accountID s =
     (if \<not> cs_HasCache s then Inr 0 else cache_GetAccountWaitingCount c accountID (cs_Store s))"

definition defaultExtraWaitSlots :: int where "defaultExtraWaitSlots = 20"

definition CalculateMaxWait :: "int \<Rightarrow> int" where
  "CalculateMaxWait userConcurrency =
     i64 ((if userConcurrency \<le> 0 then 1 else userConcurrency) + defaultExtraWaitSlots)"

section \<open>Loads\<close>

definition maxAccountLoadBatchCacheEntries :: nat where "maxAccountLoadBatchCacheEntries = 256"
definition defaultAccountLoadBatchCacheTTL :: duration where
  "defaultAccountLoadBatchCacheTTL = 200 * 1000000"

definition SetAccountLoadBatchCacheTTL :: "duration \<Rightarrow> 'r concurrency \<Rightarrow> 'r concurrency" where
  "SetAccountLoadBatchCacheTTL ttl s =
     (let s1 = s\<lparr>cs_LoadCacheTTL := ttl\<rparr> in if ttl \<le> 0 then s1\<lparr>cs_LoadCache := []\<rparr> else s1)"

definition NewConcurrencyService :: "bool \<Rightarrow> string \<Rightarrow> 'r slot_store \<Rightarrow> 'r concurrency" where
  "NewConcurrencyService hasCache requestPrefix st =
     SetAccountLoadBatchCacheTTL defaultAccountLoadBatchCacheTTL
       \<lparr>cs_HasCache = hasCache, cs_Store = st, cs_Prefix = requestPrefix, cs_Counter = 0, cs_LoadCacheTTL = 0,
        cs_LoadCache = []\<rparr>"

text \<open>The 16 bytes of one account in the key, little endian, and the key.\<close>

definition le_bytes :: "int \<Rightarrow> string" where
  "le_bytes n = map (\<lambda>i. char_of (nat ((n mod 2 ^ 64) div 256 ^ i mod 256))) [0..<8]"

definition accountLoadBatchCacheKey :: "(string \<Rightarrow> string) \<Rightarrow> (int \<times> int) list \<Rightarrow> string" where
  "accountLoadBatchCacheKey sha256_hex accounts =
     itoa (int (length accounts)) @ '':'' @ sha256_hex (concat (map (\<lambda>a. le_bytes (fst a) @ le_bytes (snd a)) accounts))"

definition getCachedAccountLoadBatch ::
    "string \<Rightarrow> gtime \<Rightarrow> 'r concurrency \<Rightarrow> (int \<times> AccountLoadInfo) list option \<times> 'r concurrency" where
  "getCachedAccountLoadBatch key now s =
     (case map_of (cs_LoadCache s) key of
        None \<Rightarrow> (None, s)
      | Some e \<Rightarrow>
          if \<not> now < le_ExpiresAt e then (None, s\<lparr>cs_LoadCache := map_delete key (cs_LoadCache s)\<rparr>)
          else (Some (le_LoadMap e), s))"

definition storeCachedAccountLoadBatch ::
    "string \<Rightarrow> (int \<times> AccountLoadInfo) list \<Rightarrow> gtime \<Rightarrow> gtime \<Rightarrow> 'r concurrency \<Rightarrow> 'r concurrency" where
  "storeCachedAccountLoadBatch key loadMap now expiresAt s =
     (let cache = cs_LoadCache s;
          live = (if maxAccountLoadBatchCacheEntries \<le> length cache
                  then (let fresh = filter (\<lambda>p. now < le_ExpiresAt (snd p)) cache
                        in drop (Suc (length fresh) - maxAccountLoadBatchCacheEntries) fresh)
                  else cache)
      in s\<lparr>cs_LoadCache := map_put key \<lparr>le_LoadMap = loadMap, le_ExpiresAt = expiresAt\<rparr> live\<rparr>)"

definition getAccountsLoadBatch ::
    "(string \<Rightarrow> string) \<Rightarrow> 'r redis_call \<Rightarrow> gtime \<Rightarrow> bool \<Rightarrow> (int \<times> int) list \<Rightarrow> 'r concurrency
       \<Rightarrow> (slot_error + (int \<times> AccountLoadInfo) list) \<times> 'r concurrency" where
  "getAccountsLoadBatch sha c now allowCache accounts s =
     (if accounts = [] \<or> \<not> cs_HasCache s then (Inr [], s)
      else if \<not> allowCache \<or> cs_LoadCacheTTL s \<le> 0 then on_store (cache_GetAccountsLoadBatch c accounts) s
      else (let key = accountLoadBatchCacheKey sha accounts in
            case getCachedAccountLoadBatch key now s of
              (Some m, s1) \<Rightarrow> (Inr m, s1)
            | (None, s1) \<Rightarrow>
                (case on_store (cache_GetAccountsLoadBatch c accounts) s1 of
                   (Inl e, s2) \<Rightarrow> (Inl e, s2)
                 | (Inr m, s2) \<Rightarrow>
                     (Inr m, storeCachedAccountLoadBatch key m now (i64 (now + cs_LoadCacheTTL s)) s2))))"

definition GetAccountsLoadBatch ::
    "(string \<Rightarrow> string) \<Rightarrow> 'r redis_call \<Rightarrow> gtime \<Rightarrow> (int \<times> int) list \<Rightarrow> 'r concurrency
       \<Rightarrow> (slot_error + (int \<times> AccountLoadInfo) list) \<times> 'r concurrency" where
  "GetAccountsLoadBatch sha c now accounts s = getAccountsLoadBatch sha c now True accounts s"

definition GetAccountsLoadBatchFresh ::
    "(string \<Rightarrow> string) \<Rightarrow> 'r redis_call \<Rightarrow> gtime \<Rightarrow> (int \<times> int) list \<Rightarrow> 'r concurrency
       \<Rightarrow> (slot_error + (int \<times> AccountLoadInfo) list) \<times> 'r concurrency" where
  "GetAccountsLoadBatchFresh sha c now accounts s = getAccountsLoadBatch sha c now False accounts s"

definition GetUsersLoadBatch ::
    "'r redis_call \<Rightarrow> (int \<times> int) list \<Rightarrow> 'r concurrency
       \<Rightarrow> (slot_error + (int \<times> AccountLoadInfo) list) \<times> 'r concurrency" where
  "GetUsersLoadBatch c users s =
     (if \<not> cs_HasCache s then (Inr [], s) else on_store (cache_GetUsersLoadBatch c users) s)"

definition GetAccountConcurrencyBatch ::
    "'r redis_call \<Rightarrow> int list \<Rightarrow> 'r concurrency \<Rightarrow> (slot_error + (int \<times> int) list) \<times> 'r concurrency" where
  "GetAccountConcurrencyBatch c accountIDs s =
     (if accountIDs = [] then (Inr [], s)
      else if \<not> cs_HasCache s then (Inr (map (\<lambda>i. (i, 0)) (remdups accountIDs)), s)
      else on_store (cache_GetAccountConcurrencyBatch c accountIDs) s)"

section \<open>Cleaning up\<close>

definition CleanupStaleProcessSlots :: "'r redis_call \<Rightarrow> 'r concurrency \<Rightarrow> (slot_error + unit) \<times> 'r concurrency" where
  "CleanupStaleProcessSlots c s =
     (if \<not> cs_HasCache s then (Inr (), s) else on_store (cache_CleanupStaleProcessSlots c (cs_Prefix s)) s)"

definition CleanupExpiredAccountSlots ::
    "'r redis_call \<Rightarrow> int \<Rightarrow> 'r concurrency \<Rightarrow> (slot_error + unit) \<times> 'r concurrency" where
  "CleanupExpiredAccountSlots c accountID s =
     (if \<not> cs_HasCache s then (Inr (), s) else on_store (cache_CleanupExpiredAccountSlots c accountID) s)"

text \<open>One run of the background worker over the schedulable accounts.\<close>

definition runCleanup :: "'r redis_call \<Rightarrow> int list \<Rightarrow> 'r concurrency \<Rightarrow> 'r concurrency" where
  "runCleanup c accountIDs s = fold (\<lambda>i s. snd (on_store (cache_CleanupExpiredAccountSlots c i) s)) accountIDs s"

end
