(* ===== verification/GatewayPick.thy ===== *)
theory GatewayPick
  imports UpstreamModels ConcurrencyService
begin

text \<open>
  Choosing among accounts that may serve a request (\<open>service/gateway_service.go\<close>): the filters by
  priority and load, the least recently used account, the stable sorts and the shuffles within
  groups of equals, and the scan that keeps the best account. Random numbers are a parameter, the
  sequence of all draws; the functions take the number of draws made so far and return it updated.
\<close>

section \<open>Random numbers\<close>

type_synonym draws = "nat \<Rightarrow> nat"

text \<open>\<open>Intn(n)\<close>, and \<open>Shuffle\<close>, which goes down from the last index.\<close>

definition intn :: "draws \<Rightarrow> nat \<Rightarrow> nat \<Rightarrow> nat \<times> nat" where
  "intn dr n k = (dr k mod n, Suc k)"

definition swap_at :: "nat \<Rightarrow> nat \<Rightarrow> 'a list \<Rightarrow> 'a list" where
  "swap_at i j xs = xs[j := xs ! i, i := xs ! j]"

fun shuffle_from :: "draws \<Rightarrow> nat \<Rightarrow> 'a list \<Rightarrow> nat \<Rightarrow> 'a list \<times> nat" where
  "shuffle_from dr 0 xs k = (xs, k)"
| "shuffle_from dr (Suc i) xs k =
     (case intn dr (Suc (Suc i)) k of (j, k1) \<Rightarrow> shuffle_from dr i (swap_at (Suc i) j xs) k1)"

definition shuffle :: "draws \<Rightarrow> 'a list \<Rightarrow> nat \<Rightarrow> 'a list \<times> nat" where
  "shuffle dr xs k = (if length xs \<le> 1 then (xs, k) else shuffle_from dr (length xs - 1) xs k)"

lemma mset_shuffle_from: "i < length xs \<Longrightarrow> mset (fst (shuffle_from dr i xs k)) = mset xs"
proof (induction i arbitrary: xs k)
  case (Suc i)
  then have "mset (swap_at (Suc i) (dr k mod Suc (Suc i)) xs) = mset xs"
    by (simp add: swap_at_def mset_swap less_trans_Suc order_less_le_trans [of _ "Suc (Suc i)"])
  with Suc show ?case by (simp add: intn_def swap_at_def)
qed simp

lemma mset_shuffle [simp]: "mset (fst (shuffle dr xs k)) = mset xs"
  by (simp add: shuffle_def mset_shuffle_from)

section \<open>Filters\<close>

record accountWithLoad =
  awl_Account :: account
  awl_LoadInfo :: AccountLoadInfo

definition min_of :: "('a \<Rightarrow> int) \<Rightarrow> 'a \<Rightarrow> 'a list \<Rightarrow> int" where
  "min_of f x xs = foldl (\<lambda>m y. if f y < m then f y else m) (f x) xs"

definition keep_min :: "('a \<Rightarrow> int) \<Rightarrow> 'a list \<Rightarrow> 'a list" where
  "keep_min f xs = (case xs of [] \<Rightarrow> [] | x # r \<Rightarrow> let m = min_of f x r in filter (\<lambda>y. f y = m) xs)"

definition filterByMinPriority :: "accountWithLoad list \<Rightarrow> accountWithLoad list" where
  "filterByMinPriority accounts = keep_min (\<lambda>a. acc_Priority (awl_Account a)) accounts"

definition filterByMinLoadRate :: "accountWithLoad list \<Rightarrow> accountWithLoad list" where
  "filterByMinLoadRate accounts = keep_min (\<lambda>a. li_LoadRate (awl_LoadInfo a)) accounts"

text \<open>The earliest time of last use, as the loop of \<open>selectByLRU\<close> finds it; no time is the earliest.\<close>

fun min_time :: "gtime option \<Rightarrow> accountWithLoad list \<Rightarrow> gtime option" where
  "min_time m [] = m"
| "min_time m (a # as) =
     (case acc_LastUsedAt (awl_Account a) of
        None \<Rightarrow> None
      | Some t \<Rightarrow> min_time (case m of None \<Rightarrow> Some t | Some u \<Rightarrow> if t < u then Some t else m) as)"

definition selectByLRU ::
    "draws \<Rightarrow> accountWithLoad list \<Rightarrow> bool \<Rightarrow> nat \<Rightarrow> accountWithLoad option \<times> nat" where
  "selectByLRU dr accounts preferOAuth k =
     (case accounts of
        [] \<Rightarrow> (None, k)
      | [a] \<Rightarrow> (Some a, k)
      | _ \<Rightarrow>
          (let m = min_time None accounts;
               candidates = filter (\<lambda>a. acc_LastUsedAt (awl_Account a) = m) accounts;
               oauth = filter (\<lambda>a. acc_Type (awl_Account a) = AccountTypeOAuth) candidates
           in case candidates of
                [c] \<Rightarrow> (Some c, k)
              | _ \<Rightarrow>
                  (let cs = (if preferOAuth \<and> oauth \<noteq> [] then oauth else candidates);
                       (i, k1) = intn dr (length cs) k
                   in (Some (cs ! i), k1))))"

section \<open>Sorting and shuffling within groups\<close>

text \<open>The switch over two times of last use: the one that was never used comes first; \<open>d\<close> decides when
  neither was used.\<close>

definition used_before :: "bool \<Rightarrow> gtime option \<Rightarrow> gtime option \<Rightarrow> bool" where
  "used_before d s t =
     (case (s, t) of
        (None, Some _) \<Rightarrow> True
      | (Some _, None) \<Rightarrow> False
      | (None, None) \<Rightarrow> d
      | (Some x, Some y) \<Rightarrow> x < y)"

definition less_last_used :: "bool \<Rightarrow> account \<Rightarrow> account \<Rightarrow> bool" where
  "less_last_used preferOAuth a b =
     (if acc_Priority a \<noteq> acc_Priority b then acc_Priority a < acc_Priority b
      else used_before (preferOAuth \<and> acc_Type a \<noteq> acc_Type b \<and> acc_Type a = AccountTypeOAuth)
             (acc_LastUsedAt a) (acc_LastUsedAt b))"

definition less_priority :: "bool \<Rightarrow> account \<Rightarrow> account \<Rightarrow> bool" where
  "less_priority preferOAuth a b =
     (if acc_Priority a \<noteq> acc_Priority b then acc_Priority a < acc_Priority b
      else preferOAuth \<and> acc_Type a \<noteq> acc_Type b \<and> acc_Type a = AccountTypeOAuth)"

definition less_load :: "accountWithLoad \<Rightarrow> accountWithLoad \<Rightarrow> bool" where
  "less_load a b =
     (if acc_Priority (awl_Account a) \<noteq> acc_Priority (awl_Account b)
      then acc_Priority (awl_Account a) < acc_Priority (awl_Account b)
      else if li_LoadRate (awl_LoadInfo a) \<noteq> li_LoadRate (awl_LoadInfo b)
      then li_LoadRate (awl_LoadInfo a) < li_LoadRate (awl_LoadInfo b)
      else used_before False (acc_LastUsedAt (awl_Account a)) (acc_LastUsedAt (awl_Account b)))"

definition unix_seconds :: "gtime \<Rightarrow> int" where
  "unix_seconds t = t div nanos"

definition sameLastUsedAt :: "gtime option \<Rightarrow> gtime option \<Rightarrow> bool" where
  "sameLastUsedAt a b =
     (case (a, b) of
        (None, None) \<Rightarrow> True
      | (Some x, Some y) \<Rightarrow> unix_seconds x = unix_seconds y
      | _ \<Rightarrow> False)"

definition sameAccountGroup :: "account \<Rightarrow> account \<Rightarrow> bool" where
  "sameAccountGroup a b \<longleftrightarrow>
     acc_Priority a = acc_Priority b \<and> sameLastUsedAt (acc_LastUsedAt a) (acc_LastUsedAt b)"

definition sameAccountWithLoadGroup :: "accountWithLoad \<Rightarrow> accountWithLoad \<Rightarrow> bool" where
  "sameAccountWithLoadGroup a b \<longleftrightarrow>
     acc_Priority (awl_Account a) = acc_Priority (awl_Account b)
     \<and> li_LoadRate (awl_LoadInfo a) = li_LoadRate (awl_LoadInfo b)
     \<and> sameLastUsedAt (acc_LastUsedAt (awl_Account a)) (acc_LastUsedAt (awl_Account b))"

text \<open>Each run of elements in the group of its first one is permuted by \<open>perm\<close>.\<close>

function shuffle_groups ::
    "('a \<Rightarrow> 'a \<Rightarrow> bool) \<Rightarrow> ('a list \<Rightarrow> nat \<Rightarrow> 'a list \<times> nat) \<Rightarrow> 'a list \<Rightarrow> nat \<Rightarrow> 'a list \<times> nat" where
  "shuffle_groups same perm [] k = ([], k)"
| "shuffle_groups same perm (x # xs) k =
     (case perm (x # takeWhile (same x) xs) k of (g, k1) \<Rightarrow>
        case shuffle_groups same perm (dropWhile (same x) xs) k1 of (r, k2) \<Rightarrow> (g @ r, k2))"
  by pat_completeness auto

termination by (relation "measure (\<lambda>(_, _, xs, _). length xs)") (auto simp: le_imp_less_Suc length_dropWhile_le)

definition oauth_first :: "draws \<Rightarrow> account list \<Rightarrow> nat \<Rightarrow> account list \<times> nat" where
  "oauth_first dr g k =
     (let oauth = filter (\<lambda>a. acc_Type a = AccountTypeOAuth) g;
          others = filter (\<lambda>a. acc_Type a \<noteq> AccountTypeOAuth) g;
          (o1, k1) = shuffle dr oauth k;
          (o2, k2) = shuffle dr others k1
      in (o1 @ o2, k2))"

definition shuffleWithinSortGroups :: "draws \<Rightarrow> accountWithLoad list \<Rightarrow> nat \<Rightarrow> accountWithLoad list \<times> nat" where
  "shuffleWithinSortGroups dr accounts k = shuffle_groups sameAccountWithLoadGroup (shuffle dr) accounts k"

definition shuffleWithinPriorityAndLastUsed :: "draws \<Rightarrow> account list \<Rightarrow> bool \<Rightarrow> nat \<Rightarrow> account list \<times> nat" where
  "shuffleWithinPriorityAndLastUsed dr accounts preferOAuth k =
     shuffle_groups sameAccountGroup (if preferOAuth then oauth_first dr else shuffle dr) accounts k"

definition sortAccountsByPriorityAndLastUsed :: "draws \<Rightarrow> account list \<Rightarrow> bool \<Rightarrow> nat \<Rightarrow> account list \<times> nat" where
  "sortAccountsByPriorityAndLastUsed dr accounts preferOAuth k =
     shuffleWithinPriorityAndLastUsed dr (sort_by (less_last_used preferOAuth) accounts) preferOAuth k"

definition sortAccountsByPriorityOnly :: "account list \<Rightarrow> bool \<Rightarrow> account list" where
  "sortAccountsByPriorityOnly accounts preferOAuth = sort_by (less_priority preferOAuth) accounts"

text \<open>This shuffle draws from a generator of its own; its draws are taken from the same sequence.\<close>

definition shuffleWithinPriority :: "draws \<Rightarrow> account list \<Rightarrow> nat \<Rightarrow> account list \<times> nat" where
  "shuffleWithinPriority dr accounts k =
     shuffle_groups (\<lambda>a b. acc_Priority b = acc_Priority a) (shuffle dr) accounts k"

definition sortCandidatesForFallback :: "draws \<Rightarrow> account list \<Rightarrow> bool \<Rightarrow> string \<Rightarrow> nat \<Rightarrow> account list \<times> nat" where
  "sortCandidatesForFallback dr accounts preferOAuth mode k =
     (if mode = ''random'' then shuffleWithinPriority dr (sortAccountsByPriorityOnly accounts preferOAuth) k
      else sortAccountsByPriorityAndLastUsed dr accounts preferOAuth k)"

section \<open>The scan for the best account\<close>

text \<open>The loops that keep \<open>selected\<close>: the account replaces the selected one when it is better.\<close>

definition better_single :: "bool \<Rightarrow> account \<Rightarrow> account \<Rightarrow> bool" where
  "better_single preferOAuth a s =
     (if acc_Priority a < acc_Priority s then True
      else if acc_Priority a = acc_Priority s then
        used_before (preferOAuth \<and> acc_Type a \<noteq> acc_Type s \<and> acc_Type a = AccountTypeOAuth)
          (acc_LastUsedAt a) (acc_LastUsedAt s)
      else False)"

definition better_mixed :: "bool \<Rightarrow> account \<Rightarrow> account \<Rightarrow> bool" where
  "better_mixed preferOAuth a s =
     (if acc_Priority a < acc_Priority s then True
      else if acc_Priority a = acc_Priority s then
        used_before (preferOAuth \<and> acc_Platform a = PlatformGemini \<and> acc_Platform s = PlatformGemini
                     \<and> acc_Type a \<noteq> acc_Type s \<and> acc_Type a = AccountTypeOAuth)
          (acc_LastUsedAt a) (acc_LastUsedAt s)
      else False)"

definition pick_best :: "(account \<Rightarrow> account \<Rightarrow> bool) \<Rightarrow> account list \<Rightarrow> account option" where
  "pick_best better accounts =
     foldl (\<lambda>sel a. case sel of None \<Rightarrow> Some a | Some s \<Rightarrow> if better a s then Some a else Some s) None accounts"

section \<open>What the choices return\<close>

lemma keep_min_subset: "set (keep_min f xs) \<subseteq> set xs"
  by (auto simp: keep_min_def Let_def split: list.splits)

lemma min_of_attained: "\<exists>y \<in> set (x # xs). f y = min_of f x xs"
proof (induction xs rule: rev_induct)
  case (snoc z zs)
  then show ?case by (auto simp: min_of_def)
qed (simp add: min_of_def)

lemma min_of_least: "y \<in> set (x # xs) \<Longrightarrow> min_of f x xs \<le> f y"
proof (induction xs rule: rev_induct)
  case (snoc z zs)
  then show ?case by (auto simp: min_of_def intro: order_trans)
qed (simp add: min_of_def)

lemma keep_min_empty [simp]: "keep_min f xs = [] \<longleftrightarrow> xs = []"
  using min_of_attained [of "hd xs" "tl xs" f]
  by (cases xs) (auto simp: keep_min_def Let_def filter_empty_conv)

lemma keep_min_least: "a \<in> set (keep_min f xs) \<Longrightarrow> y \<in> set xs \<Longrightarrow> f a \<le> f y"
  using min_of_least [of y "hd xs" "tl xs" f] by (cases xs) (auto simp: keep_min_def Let_def split: if_splits)

lemma min_time_None:
  "min_time m xs = None \<Longrightarrow> xs \<noteq> [] \<Longrightarrow> \<exists>a \<in> set xs. acc_LastUsedAt (awl_Account a) = None"
proof (induction xs arbitrary: m)
  case (Cons x xs)
  show ?case
  proof (cases "acc_LastUsedAt (awl_Account x)")
    case (Some t)
    have "xs \<noteq> []" using Cons.prems Some by (cases xs) (auto split: option.splits if_splits)
    moreover have "\<exists>m'. min_time m' xs = None" using Cons.prems Some by auto
    ultimately show ?thesis using Cons.IH by auto
  qed simp
qed simp

lemma min_time_Some:
  "min_time m xs = Some t \<Longrightarrow> m = Some t \<or> (\<exists>a \<in> set xs. acc_LastUsedAt (awl_Account a) = Some t)"
proof (induction xs arbitrary: m)
  case (Cons x xs)
  then obtain u where u: "acc_LastUsedAt (awl_Account x) = Some u" by (cases "acc_LastUsedAt (awl_Account x)") auto
  let ?m = "case m of None \<Rightarrow> Some u | Some v \<Rightarrow> if u < v then Some u else m"
  have "?m = Some t \<or> (\<exists>a \<in> set xs. acc_LastUsedAt (awl_Account a) = Some t)"
    using Cons.IH [of ?m] Cons.prems u by simp
  moreover have "?m = m \<or> ?m = Some u" by (simp split: option.split)
  ultimately show ?case using u by auto
qed simp

definition lru_candidates :: "accountWithLoad list \<Rightarrow> accountWithLoad list" where
  "lru_candidates xs = filter (\<lambda>a. acc_LastUsedAt (awl_Account a) = min_time None xs) xs"

lemma lru_candidates_nonempty:
  assumes "xs \<noteq> []"
  shows "lru_candidates xs \<noteq> []"
proof (cases "min_time None xs")
  case None
  then show ?thesis using min_time_None [OF None assms] by (auto simp: lru_candidates_def filter_empty_conv)
next
  case (Some t)
  then show ?thesis using min_time_Some [OF Some] by (auto simp: lru_candidates_def filter_empty_conv)
qed

lemma nth_draw_mem: "cs \<noteq> [] \<Longrightarrow> cs ! (n mod length cs) \<in> set cs"
  by (intro nth_mem) simp

lemma selectByLRU_long:
  "selectByLRU dr (x # y # zs) p k =
     (let c = lru_candidates (x # y # zs);
          oa = filter (\<lambda>a. acc_Type (awl_Account a) = AccountTypeOAuth) c;
          cs = (if p \<and> oa \<noteq> [] then oa else c)
      in if length c = 1 then (Some (hd c), k) else (Some (cs ! (dr k mod length cs)), Suc k))"
  unfolding selectByLRU_def lru_candidates_def list.case Let_def intn_def prod.case
  by (cases "filter (\<lambda>a. acc_LastUsedAt (awl_Account a) = min_time None (x # y # zs)) (x # y # zs)" rule: remdups_adj.cases)
     (simp_all only: list.case list.size list.sel, simp_all)

lemma selectByLRU_oldest:
  assumes "selectByLRU dr xs p k = (Some a, k')" "2 \<le> length xs"
  shows "a \<in> set (lru_candidates xs)"
proof -
  obtain x y zs where xs: "xs = x # y # zs" using assms(2) by (cases xs rule: remdups_adj.cases) auto
  define c where "c = lru_candidates xs"
  define cs where "cs = (if p \<and> filter (\<lambda>a. acc_Type (awl_Account a) = AccountTypeOAuth) c \<noteq> []
    then filter (\<lambda>a. acc_Type (awl_Account a) = AccountTypeOAuth) c else c)"
  have c: "c \<noteq> []" unfolding c_def using xs by (intro lru_candidates_nonempty) simp
  have cs: "cs \<noteq> []" "set cs \<subseteq> set c" using c by (auto simp: cs_def)
  have "(if length c = 1 then (Some (hd c), k) else (Some (cs ! (dr k mod length cs)), Suc k)) = (Some a, k')"
    using assms(1) unfolding xs selectByLRU_long Let_def c_def cs_def .
  then have "a = hd c \<or> a = cs ! (dr k mod length cs)" by (auto split: if_splits)
  then have "a \<in> set c" using hd_in_set [OF c] nth_draw_mem [OF cs(1)] cs(2) by blast
  then show ?thesis by (simp add: c_def)
qed

lemma selectByLRU_mem:
  assumes "selectByLRU dr xs p k = (Some a, k')"
  shows "a \<in> set xs"
proof (cases "2 \<le> length xs")
  case True
  then show ?thesis using selectByLRU_oldest [OF assms] by (simp add: lru_candidates_def)
next
  case False
  then show ?thesis using assms by (cases xs rule: remdups_adj.cases) (auto simp: selectByLRU_def)
qed

lemma selectByLRU_some: "xs \<noteq> [] \<Longrightarrow> \<exists>a k'. selectByLRU dr xs p k = (Some a, k')"
  by (cases xs rule: remdups_adj.cases) (auto simp: selectByLRU_long Let_def simp: selectByLRU_def [of dr "[_]"])

end
