(* ===== verification/SessionCaches.thy ===== *)
theory SessionCaches
  imports Concurrency
begin

text \<open>
  The other caches that the selection of an account reads and writes: the sessions of an
  account and the cost of its 5-hour window (\<open>repository/session_limit_cache.go\<close>), its requests
  of the current minute (\<open>repository/rpm_cache.go\<close>) and the sticky sessions
  (\<open>repository/gateway_cache.go\<close>). Keys that carry an id are functions of the id. A value with an
  expiry is kept with the second in which it expires. The counter of a minute has a key of its own, so
  the expiry of that key, two minutes later, is never observed. As in the slot store, a call that
  does not reach the server has no effect.
\<close>

section \<open>The state\<close>

record 'r session_caches =
  sc_Sessions :: "int \<Rightarrow> 'r"
  sc_WindowCost :: "int \<Rightarrow> (float64 \<times> int) option"
  sc_RPM :: "int \<Rightarrow> int \<Rightarrow> int option"
  sc_Sticky :: "int \<Rightarrow> string \<Rightarrow> (int \<times> int) option"

definition empty_caches :: "'r zset_ops \<Rightarrow> 'r session_caches" where
  "empty_caches Z = \<lparr>sc_Sessions = (\<lambda>_. zempty Z), sc_WindowCost = (\<lambda>_. None), sc_RPM = (\<lambda>_ _. None),
     sc_Sticky = (\<lambda>_ _. None)\<rparr>"

definition unexpired :: "int \<Rightarrow> ('v \<times> int) option \<Rightarrow> 'v option" where
  "unexpired now e = (case e of None \<Rightarrow> None | Some (v, deadline) \<Rightarrow> if now < deadline then Some v else None)"

section \<open>Sessions of an account\<close>

text \<open>The script that registers a session is that of the slots, with the idle time as time to live.\<close>

definition registerSessionScript :: "'r zset_ops \<Rightarrow> int \<Rightarrow> int \<Rightarrow> int \<Rightarrow> string \<Rightarrow> 'r \<Rightarrow> bool \<times> 'r" where
  "registerSessionScript Z now maxSessions idleTimeout sessionUUID z =
     acquireScript Z now maxSessions idleTimeout sessionUUID z"

definition refreshSessionScript :: "'r zset_ops \<Rightarrow> int \<Rightarrow> string \<Rightarrow> 'r \<Rightarrow> 'r" where
  "refreshSessionScript Z now sessionUUID z =
     (if zscore Z z sessionUUID \<noteq> None then zadd Z sessionUUID now z else z)"

definition isSessionActiveScript :: "'r zset_ops \<Rightarrow> int \<Rightarrow> int \<Rightarrow> string \<Rightarrow> 'r \<Rightarrow> bool" where
  "isSessionActiveScript Z now idleTimeout sessionUUID z =
     (case zscore Z z sessionUUID of None \<Rightarrow> False | Some s \<Rightarrow> \<not> s \<le> now - idleTimeout)"

text \<open>The idle time in whole seconds, the default one when it is not positive.\<close>

definition idle_seconds :: "duration \<Rightarrow> duration \<Rightarrow> int" where
  "idle_seconds defaultIdleTimeout idleTimeout =
     (let s = go_div idleTimeout nanos in if s \<le> 0 then go_div defaultIdleTimeout nanos else s)"

definition NewSessionLimitCache :: "int \<Rightarrow> duration" where
  "NewSessionLimitCache defaultIdleTimeoutMinutes =
     i64 ((if defaultIdleTimeoutMinutes \<le> 0 then 5 else defaultIdleTimeoutMinutes) * (60 * nanos))"

definition RegisterSession ::
    "'r redis_call \<Rightarrow> duration \<Rightarrow> int \<Rightarrow> string \<Rightarrow> int \<Rightarrow> duration \<Rightarrow> 'r session_caches
       \<Rightarrow> (slot_error + bool) \<times> 'r session_caches" where
  "RegisterSession c defaultIdle accountID sessionUUID maxSessions idleTimeout st =
     (if sessionUUID = [] \<or> maxSessions \<le> 0 then (Inr True, st)
      else if \<not> rc_Up c then (Inl RedisError, st)
      else (let (ok, z) = registerSessionScript (rc_Ops c) (rc_Now c) maxSessions
                            (idle_seconds defaultIdle idleTimeout) sessionUUID (sc_Sessions st accountID)
            in (Inr ok, st\<lparr>sc_Sessions := (sc_Sessions st)(accountID := z)\<rparr>)))"

definition RefreshSession ::
    "'r redis_call \<Rightarrow> int \<Rightarrow> string \<Rightarrow> 'r session_caches \<Rightarrow> (slot_error + unit) \<times> 'r session_caches" where
  "RefreshSession c accountID sessionUUID st =
     (if sessionUUID = [] then (Inr (), st)
      else if \<not> rc_Up c then (Inl RedisError, st)
      else (Inr (), st\<lparr>sc_Sessions := (sc_Sessions st)(accountID :=
              refreshSessionScript (rc_Ops c) (rc_Now c) sessionUUID (sc_Sessions st accountID))\<rparr>))"

definition GetActiveSessionCount ::
    "'r redis_call \<Rightarrow> duration \<Rightarrow> int \<Rightarrow> 'r session_caches \<Rightarrow> (slot_error + int) \<times> 'r session_caches" where
  "GetActiveSessionCount c defaultIdle accountID st =
     (if \<not> rc_Up c then (Inl RedisError, st)
      else (let (n, z) = getCountScript (rc_Ops c) (rc_Now c) (go_div defaultIdle nanos) (sc_Sessions st accountID)
            in (Inr n, st\<lparr>sc_Sessions := (sc_Sessions st)(accountID := z)\<rparr>)))"

definition IsSessionActive ::
    "'r redis_call \<Rightarrow> duration \<Rightarrow> int \<Rightarrow> string \<Rightarrow> 'r session_caches \<Rightarrow> slot_error + bool" where
  "IsSessionActive c defaultIdle accountID sessionUUID st =
     (if sessionUUID = [] then Inr False
      else if \<not> rc_Up c then Inl RedisError
      else Inr (isSessionActiveScript (rc_Ops c) (rc_Now c) (go_div defaultIdle nanos) sessionUUID
                  (sc_Sessions st accountID)))"

section \<open>Cost of the window\<close>

definition windowCostCacheTTL :: int where "windowCostCacheTTL = 30"

definition GetWindowCost :: "'r redis_call \<Rightarrow> int \<Rightarrow> 'r session_caches \<Rightarrow> slot_error + float64 option" where
  "GetWindowCost c accountID st =
     (if \<not> rc_Up c then Inl RedisError else Inr (unexpired (rc_Now c) (sc_WindowCost st accountID)))"

definition SetWindowCost ::
    "'r redis_call \<Rightarrow> int \<Rightarrow> float64 \<Rightarrow> 'r session_caches \<Rightarrow> (slot_error + unit) \<times> 'r session_caches" where
  "SetWindowCost c accountID cost st =
     (if \<not> rc_Up c then (Inl RedisError, st)
      else (Inr (), st\<lparr>sc_WindowCost := (sc_WindowCost st)(accountID := Some (cost, rc_Now c + windowCostCacheTTL))\<rparr>))"

definition GetWindowCostBatch ::
    "'r redis_call \<Rightarrow> int list \<Rightarrow> 'r session_caches \<Rightarrow> slot_error + (int \<times> float64) list" where
  "GetWindowCostBatch c accountIDs st =
     (if accountIDs = [] then Inr []
      else if \<not> rc_Up c then Inl RedisError
      else Inr (List.map_filter (\<lambda>i. map_option (Pair i) (unexpired (rc_Now c) (sc_WindowCost st i))) accountIDs))"

section \<open>Requests per minute\<close>

definition currentMinute :: "'r redis_call \<Rightarrow> int" where
  "currentMinute c = go_div (rc_Now c) 60"

definition IncrementRPM :: "'r redis_call \<Rightarrow> int \<Rightarrow> 'r session_caches \<Rightarrow> (slot_error + int) \<times> 'r session_caches" where
  "IncrementRPM c accountID st =
     (if \<not> rc_Up c then (Inl RedisError, st)
      else (let m = currentMinute c; n = opt_default 0 (sc_RPM st accountID m) + 1
            in (Inr n, st\<lparr>sc_RPM := (sc_RPM st)(accountID := (sc_RPM st accountID)(m := Some n))\<rparr>)))"

definition GetRPM :: "'r redis_call \<Rightarrow> int \<Rightarrow> 'r session_caches \<Rightarrow> slot_error + int" where
  "GetRPM c accountID st =
     (if \<not> rc_Up c then Inl RedisError else Inr (opt_default 0 (sc_RPM st accountID (currentMinute c))))"

definition GetRPMBatch :: "'r redis_call \<Rightarrow> int list \<Rightarrow> 'r session_caches \<Rightarrow> slot_error + (int \<times> int) list" where
  "GetRPMBatch c accountIDs st =
     (if accountIDs = [] then Inr []
      else if \<not> rc_Up c then Inl RedisError
      else Inr (map (\<lambda>i. (i, opt_default 0 (sc_RPM st i (currentMinute c)))) accountIDs))"

section \<open>Sticky sessions\<close>

definition GetSessionAccountID :: "'r redis_call \<Rightarrow> int \<Rightarrow> string \<Rightarrow> 'r session_caches \<Rightarrow> slot_error + int" where
  "GetSessionAccountID c groupID sessionHash st =
     (if \<not> rc_Up c then Inl RedisError
      else of_option RedisError (unexpired (rc_Now c) (sc_Sticky st groupID sessionHash)))"

definition SetSessionAccountID ::
    "'r redis_call \<Rightarrow> int \<Rightarrow> string \<Rightarrow> int \<Rightarrow> int \<Rightarrow> 'r session_caches \<Rightarrow> 'r session_caches" where
  "SetSessionAccountID c groupID sessionHash accountID ttl st =
     (if \<not> rc_Up c then st
      else st\<lparr>sc_Sticky := (sc_Sticky st)(groupID :=
              (sc_Sticky st groupID)(sessionHash := Some (accountID, rc_Now c + ttl)))\<rparr>)"

definition RefreshSessionTTL :: "'r redis_call \<Rightarrow> int \<Rightarrow> string \<Rightarrow> int \<Rightarrow> 'r session_caches \<Rightarrow> 'r session_caches" where
  "RefreshSessionTTL c groupID sessionHash ttl st =
     (if \<not> rc_Up c then st
      else case unexpired (rc_Now c) (sc_Sticky st groupID sessionHash) of
        None \<Rightarrow> st
      | Some i \<Rightarrow> st\<lparr>sc_Sticky := (sc_Sticky st)(groupID :=
                   (sc_Sticky st groupID)(sessionHash := Some (i, rc_Now c + ttl)))\<rparr>)"

definition DeleteSessionAccountID :: "'r redis_call \<Rightarrow> int \<Rightarrow> string \<Rightarrow> 'r session_caches \<Rightarrow> 'r session_caches" where
  "DeleteSessionAccountID c groupID sessionHash st =
     (if \<not> rc_Up c then st
      else st\<lparr>sc_Sticky := (sc_Sticky st)(groupID := (sc_Sticky st groupID)(sessionHash := None))\<rparr>)"

end
