(* ===== verification/GatewayEnv.thy ===== *)
theory GatewayEnv
  imports GatewayPick SessionCaches ChannelService
begin

text \<open>
  What the selection of an account reads and changes (\<open>service/gateway_service.go\<close>, with the
  account queries of \<open>repository/account_repo.go\<close>). A call has an environment: the clock, the
  configuration, the services that may be absent, the tables that it only reads, and the random
  draws; a context: the values that the request carries; and a state: the accounts table, the slots,
  the caches and the number of draws made. The group repository is always present. The answers of
  the channel service, of the usage log and of the scheduler snapshot are functions.
\<close>

section \<open>Environment, context and state\<close>

record scheduling_config =
  cfg_StickySessionMaxWaiting :: int
  cfg_StickySessionWaitTimeout :: duration
  cfg_FallbackWaitTimeout :: duration
  cfg_FallbackMaxWaiting :: int
  cfg_FallbackSelectionMode :: string
  cfg_LoadBatchEnabled :: bool

definition schedulingConfig :: "scheduling_config option \<Rightarrow> scheduling_config" where
  "schedulingConfig cfg =
     (case cfg of Some c \<Rightarrow> c
      | None \<Rightarrow> \<lparr>cfg_StickySessionMaxWaiting = 3, cfg_StickySessionWaitTimeout = 45 * nanos,
                 cfg_FallbackWaitTimeout = 30 * nanos, cfg_FallbackMaxWaiting = 100,
                 cfg_FallbackSelectionMode = [], cfg_LoadBatchEnabled = True\<rparr>)"

record channel_view =
  cv_ResolveChannelMapping :: "int \<Rightarrow> string \<Rightarrow> ChannelMappingResult"
  cv_IsModelRestricted :: "int \<Rightarrow> string \<Rightarrow> bool"
  cv_GetChannelForGroup :: "int \<Rightarrow> Channel option option"

record snapshot_view =
  sn_ListSchedulableAccounts :: "int option \<Rightarrow> string \<Rightarrow> bool \<Rightarrow> (account list \<times> bool) option"
  sn_GetAccount :: "int \<Rightarrow> account option option"

record 'r gw_env =
  ge_TZ :: tzdb
  ge_Local :: location
  ge_Addr :: "nat \<times> nat"
  ge_Now :: gtime
  ge_Call :: "'r redis_call"
  ge_Sha :: "string \<Rightarrow> string"
  ge_DefaultIdle :: duration
  ge_Config :: "scheduling_config option"
  ge_SimpleMode :: bool
  ge_Groups :: "(int \<times> group) list"
  ge_Channels :: "channel_view option"
  ge_Snapshot :: "snapshot_view option"
  ge_HasConcurrency :: bool
  ge_HasStickyCache :: bool
  ge_HasSessionLimit :: bool
  ge_HasRPM :: bool
  ge_WindowStats :: "int \<Rightarrow> gtime \<Rightarrow> float64 option"
  ge_WindowStatsBatch :: "(int list \<Rightarrow> gtime \<Rightarrow> (int \<times> float64) list option) option"
  ge_Draws :: draws

record gw_ctx =
  cx_ForcePlatform :: "string option"
  cx_ClaudeCode :: bool
  cx_Group :: "group option"
  cx_Thinking :: "bool option"
  cx_WindowCosts :: "(int \<times> float64) list option"
  cx_RPMCounts :: "(int \<times> int) list option"
  cx_StickyGroupID :: "int option"
  cx_StickyAccountID :: "int option"

record 'r gw_state =
  gs_Accounts :: "account list"
  gs_Concurrency :: "'r concurrency"
  gs_Caches :: "'r session_caches"
  gs_Drawn :: nat

datatype select_error =
    ErrNoAvailableAccounts
  | NoAccountForModel string
  | ChannelPricingRestriction string
  | ErrClaudeCodeOnly
  | FallbackGroupCycle
  | GetGroupFailed
  | QueryAccountsFailed
  | HydrationFailed
  | AccountNotFound int
  | NilStickyCache

definition config_of :: "'r gw_env \<Rightarrow> scheduling_config" where
  "config_of e = schedulingConfig (ge_Config e)"

definition with_caches ::
    "('r session_caches \<Rightarrow> 'a \<times> 'r session_caches) \<Rightarrow> 'r gw_state \<Rightarrow> 'a \<times> 'r gw_state" where
  "with_caches f st = (case f (gs_Caches st) of (x, c) \<Rightarrow> (x, st\<lparr>gs_Caches := c\<rparr>))"

definition with_slots ::
    "('r concurrency \<Rightarrow> 'a \<times> 'r concurrency) \<Rightarrow> 'r gw_state \<Rightarrow> 'a \<times> 'r gw_state" where
  "with_slots f st = (case f (gs_Concurrency st) of (x, c) \<Rightarrow> (x, st\<lparr>gs_Concurrency := c\<rparr>))"

definition with_draws :: "(nat \<Rightarrow> 'a \<times> nat) \<Rightarrow> 'r gw_state \<Rightarrow> 'a \<times> 'r gw_state" where
  "with_draws f st = (case f (gs_Drawn st) of (x, k) \<Rightarrow> (x, st\<lparr>gs_Drawn := k\<rparr>))"

section \<open>Groups and platforms\<close>

definition derefGroupID :: "int option \<Rightarrow> int" where
  "derefGroupID groupID = opt_default 0 groupID"

definition withGroupContext :: "gw_ctx \<Rightarrow> group option \<Rightarrow> gw_ctx" where
  "withGroupContext cx og =
     (if \<not> IsGroupContextValid og then cx
      else case (cx_Group cx, og) of
        (Some existing, Some g) \<Rightarrow>
          if grp_ID existing = grp_ID g \<and> IsGroupContextValid (Some existing) then cx
          else cx\<lparr>cx_Group := og\<rparr>
      | _ \<Rightarrow> cx\<lparr>cx_Group := og\<rparr>)"

definition groupFromContext :: "gw_ctx \<Rightarrow> int \<Rightarrow> group option" where
  "groupFromContext cx groupID =
     (case cx_Group cx of None \<Rightarrow> None
      | Some g \<Rightarrow> if IsGroupContextValid (Some g) \<and> grp_ID g = groupID then Some g else None)"

definition resolveGroupByID :: "gw_ctx \<Rightarrow> (int \<times> group) list \<Rightarrow> int \<Rightarrow> group option" where
  "resolveGroupByID cx groups groupID =
     (case groupFromContext cx groupID of Some g \<Rightarrow> Some g | None \<Rightarrow> map_of groups groupID)"

definition known_groups :: "gw_ctx \<Rightarrow> (int \<times> group) list \<Rightarrow> int set" where
  "known_groups cx groups =
     fst ` set groups \<union> (case cx_Group cx of None \<Rightarrow> {} | Some g \<Rightarrow> {grp_ID g})"

lemma resolveGroupByID_known: "resolveGroupByID cx groups i = Some g \<Longrightarrow> i \<in> known_groups cx groups"
  by (auto simp: resolveGroupByID_def groupFromContext_def known_groups_def
      dest!: map_of_SomeD split: option.splits if_splits) (force simp: image_iff)+

lemma finite_known [simp]: "finite (known_groups cx groups)"
  by (simp add: known_groups_def split: option.split)

text \<open>The loop of \<open>resolveGatewayGroup\<close> over the chain of fallback groups.\<close>

function fallback_chain ::
    "gw_ctx \<Rightarrow> (int \<times> group) list \<Rightarrow> int \<Rightarrow> int list \<Rightarrow> select_error + group \<times> int" where
  "fallback_chain cx groups currentID visited =
     (if currentID \<in> set visited then Inl FallbackGroupCycle
      else case resolveGroupByID cx groups currentID of
        None \<Rightarrow> Inl GetGroupFailed
      | Some g \<Rightarrow>
          if \<not> grp_ClaudeCodeOnly g \<or> cx_ClaudeCode cx then Inr (g, currentID)
          else (case grp_FallbackGroupID g of
                  None \<Rightarrow> Inl ErrClaudeCodeOnly
                | Some f \<Rightarrow> fallback_chain cx groups f (currentID # visited)))"
  by pat_completeness auto

termination
proof (relation "measure (\<lambda>(cx, groups, _, visited). card (known_groups cx groups - set visited))")
  fix cx groups currentID visited g f
  assume a: "currentID \<notin> set visited" "resolveGroupByID cx groups currentID = Some g"
  then have "known_groups cx groups - set (currentID # visited) \<subset> known_groups cx groups - set visited"
    using resolveGroupByID_known [OF a(2)] by auto
  then have "card (known_groups cx groups - set (currentID # visited)) < card (known_groups cx groups - set visited)"
    by (intro psubset_card_mono) simp_all
  then show "((cx, groups, f, currentID # visited), cx, groups, currentID, visited)
      \<in> measure (\<lambda>(cx, groups, _, visited). card (known_groups cx groups - set visited))" by simp
qed simp

declare fallback_chain.simps [simp del]

definition resolveGatewayGroup :: "gw_ctx \<Rightarrow> (int \<times> group) list \<Rightarrow> int option \<Rightarrow> select_error + (group \<times> int) option" where
  "resolveGatewayGroup cx groups groupID =
     (case groupID of None \<Rightarrow> Inr None
      | Some i \<Rightarrow> and_then (fallback_chain cx groups i []) (\<lambda>r. Inr (Some r)))"

definition forced :: "gw_ctx \<Rightarrow> string option" where
  "forced cx = (case cx_ForcePlatform cx of Some p \<Rightarrow> if p \<noteq> [] then Some p else None | None \<Rightarrow> None)"

definition checkClaudeCodeRestriction ::
    "gw_ctx \<Rightarrow> (int \<times> group) list \<Rightarrow> int option \<Rightarrow> select_error + group option \<times> int option" where
  "checkClaudeCodeRestriction cx groups groupID =
     (if groupID = None \<or> forced cx \<noteq> None then Inr (None, groupID)
      else and_then (resolveGatewayGroup cx groups groupID) (\<lambda>r.
        Inr (case r of None \<Rightarrow> (None, None) | Some (g, i) \<Rightarrow> (Some g, Some i))))"

definition resolvePlatform ::
    "gw_ctx \<Rightarrow> (int \<times> group) list \<Rightarrow> int option \<Rightarrow> group option \<Rightarrow> select_error + string \<times> bool" where
  "resolvePlatform cx groups groupID og =
     (case forced cx of Some p \<Rightarrow> Inr (p, True)
      | None \<Rightarrow>
          (case og of Some g \<Rightarrow> Inr (grp_Platform g, False)
           | None \<Rightarrow>
               (case groupID of None \<Rightarrow> Inr (PlatformAnthropic, False)
                | Some i \<Rightarrow> (case resolveGroupByID cx groups i of
                              None \<Rightarrow> Inl GetGroupFailed | Some g \<Rightarrow> Inr (grp_Platform g, False)))))"

definition routingAccountIDsForRequest ::
    "gw_ctx \<Rightarrow> (int \<times> group) list \<Rightarrow> int option \<Rightarrow> string \<Rightarrow> string \<Rightarrow> int list" where
  "routingAccountIDsForRequest cx groups groupID requestedModel platform =
     (case groupID of None \<Rightarrow> []
      | Some i \<Rightarrow>
          if requestedModel = [] \<or> platform \<noteq> PlatformAnthropic then []
          else (case resolveGroupByID cx groups i of None \<Rightarrow> []
                | Some g \<Rightarrow> if grp_Platform g \<noteq> PlatformAnthropic then []
                            else GetRoutingAccountIDs g requestedModel))"

section \<open>The accounts table\<close>

text \<open>The conditions of the queries for schedulable accounts. Rows with equal keys come in the order
  of the table.\<close>

definition row_schedulable :: "gtime \<Rightarrow> account \<Rightarrow> bool" where
  "row_schedulable now a \<longleftrightarrow>
     acc_Status a = StatusActive \<and> acc_Schedulable a
     \<and> (case acc_TempUnschedulableUntil a of None \<Rightarrow> True | Some t \<Rightarrow> t \<le> now)
     \<and> ((case acc_ExpiresAt a of None \<Rightarrow> True | Some t \<Rightarrow> now < t) \<or> \<not> acc_AutoPauseOnExpired a)
     \<and> (case acc_OverloadUntil a of None \<Rightarrow> True | Some t \<Rightarrow> t \<le> now)
     \<and> (case acc_RateLimitResetAt a of None \<Rightarrow> True | Some t \<Rightarrow> t \<le> now)"

definition by_priority :: "account \<Rightarrow> account \<Rightarrow> bool" where
  "by_priority a b \<longleftrightarrow> acc_Priority a < acc_Priority b"

definition ListSchedulableByPlatforms :: "gtime \<Rightarrow> string list \<Rightarrow> account list \<Rightarrow> account list" where
  "ListSchedulableByPlatforms now platforms tbl =
     (if platforms = [] then []
      else sort_by by_priority (filter (\<lambda>a. acc_Platform a \<in> set platforms \<and> row_schedulable now a) tbl))"

definition ListSchedulableByPlatform :: "gtime \<Rightarrow> string \<Rightarrow> account list \<Rightarrow> account list" where
  "ListSchedulableByPlatform now platform tbl =
     sort_by by_priority (filter (\<lambda>a. acc_Platform a = platform \<and> row_schedulable now a) tbl)"

definition ListSchedulableUngroupedByPlatforms :: "gtime \<Rightarrow> string list \<Rightarrow> account list \<Rightarrow> account list" where
  "ListSchedulableUngroupedByPlatforms now platforms tbl =
     (if platforms = [] then []
      else sort_by by_priority
        (filter (\<lambda>a. acc_Platform a \<in> set platforms \<and> row_schedulable now a \<and> acc_AccountGroups a = []) tbl))"

definition ListSchedulableUngroupedByPlatform :: "gtime \<Rightarrow> string \<Rightarrow> account list \<Rightarrow> account list" where
  "ListSchedulableUngroupedByPlatform now platform tbl =
     sort_by by_priority
       (filter (\<lambda>a. acc_Platform a = platform \<and> row_schedulable now a \<and> acc_AccountGroups a = []) tbl)"

definition by_group_priority :: "account_group \<times> account \<Rightarrow> account_group \<times> account \<Rightarrow> bool" where
  "by_group_priority p q \<longleftrightarrow>
     (if ag_Priority (fst p) \<noteq> ag_Priority (fst q) then ag_Priority (fst p) < ag_Priority (fst q)
      else acc_Priority (snd p) < acc_Priority (snd q))"

fun first_of_each_id :: "account list \<Rightarrow> account list" where
  "first_of_each_id [] = []"
| "first_of_each_id (a # as) = a # filter (\<lambda>b. acc_ID b \<noteq> acc_ID a) (first_of_each_id as)"

definition queryAccountsByGroup :: "gtime \<Rightarrow> int \<Rightarrow> string list \<Rightarrow> account list \<Rightarrow> account list" where
  "queryAccountsByGroup now groupID platforms tbl =
     first_of_each_id (map snd (sort_by by_group_priority
       [(ag, a). a \<leftarrow> tbl, (platforms = [] \<or> acc_Platform a \<in> set platforms) \<and> row_schedulable now a,
                 ag \<leftarrow> acc_AccountGroups a, ag_GroupID ag = groupID]))"

definition ListSchedulableByGroupIDAndPlatforms :: "gtime \<Rightarrow> int \<Rightarrow> string list \<Rightarrow> account list \<Rightarrow> account list" where
  "ListSchedulableByGroupIDAndPlatforms now groupID platforms tbl =
     (if platforms = [] then [] else queryAccountsByGroup now groupID platforms tbl)"

definition ListSchedulableByGroupIDAndPlatform :: "gtime \<Rightarrow> int \<Rightarrow> string \<Rightarrow> account list \<Rightarrow> account list" where
  "ListSchedulableByGroupIDAndPlatform now groupID platform tbl = queryAccountsByGroup now groupID [platform] tbl"

definition account_SetError :: "int \<Rightarrow> account list \<Rightarrow> account list" where
  "account_SetError i tbl =
     map (\<lambda>a. if acc_ID a = i then a\<lparr>acc_Status := ''error'', acc_Schedulable := False\<rparr> else a) tbl"

definition account_GetByID :: "int \<Rightarrow> account list \<Rightarrow> account option" where
  "account_GetByID i tbl = find (\<lambda>a. acc_ID a = i) tbl"

definition listSchedulableAccounts ::
    "'r gw_env \<Rightarrow> int option \<Rightarrow> string \<Rightarrow> bool \<Rightarrow> 'r gw_state \<Rightarrow> select_error + account list \<times> bool" where
  "listSchedulableAccounts e groupID platform hasForcePlatform st =
     (case ge_Snapshot e of
        Some sn \<Rightarrow> of_option QueryAccountsFailed (sn_ListSchedulableAccounts sn groupID platform hasForcePlatform)
      | None \<Rightarrow>
          (let useMixed = (platform = PlatformAnthropic \<or> platform = PlatformGemini) \<and> \<not> hasForcePlatform;
               now = ge_Now e; tbl = gs_Accounts st
           in if useMixed then
                (let platforms = [platform, PlatformAntigravity];
                     accounts = (case groupID of
                        Some i \<Rightarrow> ListSchedulableByGroupIDAndPlatforms now i platforms tbl
                      | None \<Rightarrow> if ge_SimpleMode e then ListSchedulableByPlatforms now platforms tbl
                                else ListSchedulableUngroupedByPlatforms now platforms tbl)
                 in Inr (filter (\<lambda>a. \<not> (acc_Platform a = PlatformAntigravity \<and> \<not> IsMixedSchedulingEnabled a))
                           accounts, useMixed))
              else
                Inr (if ge_SimpleMode e then ListSchedulableByPlatform now platform tbl
                     else case groupID of
                       Some i \<Rightarrow> ListSchedulableByGroupIDAndPlatform now i platform tbl
                     | None \<Rightarrow> ListSchedulableUngroupedByPlatform now platform tbl, useMixed)))"

definition IsSingleAntigravityAccountGroup :: "'r gw_env \<Rightarrow> int option \<Rightarrow> 'r gw_state \<Rightarrow> bool" where
  "IsSingleAntigravityAccountGroup e groupID st =
     (case listSchedulableAccounts e groupID PlatformAntigravity True st of
        Inl _ \<Rightarrow> False | Inr (accounts, _) \<Rightarrow> length accounts = 1)"

definition getSchedulableAccount :: "'r gw_env \<Rightarrow> int \<Rightarrow> 'r gw_state \<Rightarrow> account option option" where
  "getSchedulableAccount e accountID st =
     (case ge_Snapshot e of
        Some sn \<Rightarrow> sn_GetAccount sn accountID
      | None \<Rightarrow> map_option Some (account_GetByID accountID (gs_Accounts st)))"

definition hydrateSelectedAccount :: "'r gw_env \<Rightarrow> account \<Rightarrow> select_error + account" where
  "hydrateSelectedAccount e a =
     (case ge_Snapshot e of None \<Rightarrow> Inr a
      | Some sn \<Rightarrow>
          (case sn_GetAccount sn (acc_ID a) of
             None \<Rightarrow> Inl HydrationFailed
           | Some None \<Rightarrow> Inl (AccountNotFound (acc_ID a))
           | Some (Some h) \<Rightarrow> Inr h))"

end
