(* ===== verification/GatewaySelect.thy ===== *)
theory GatewaySelect
  imports GatewayEnv
begin

text \<open>
  The selection of an account without load information (\<open>service/gateway_service.go\<close>): the checks
  that an account passes, sticky sessions, model routing, and the scan for the best account, on one
  platform or mixed with Antigravity. A check takes the state and may change it, because a check
  of the window cost fills a cache; a chain of checks stops at the first that fails.
\<close>

section \<open>Channel restrictions\<close>

definition billingModelForRestriction :: "string \<Rightarrow> string \<Rightarrow> string \<Rightarrow> string" where
  "billingModelForRestriction source requestedModel channelMappedModel =
     (if source = BillingModelSourceRequested then requestedModel
      else if source = BillingModelSourceUpstream then []
      else channelMappedModel)"

definition checkChannelPricingRestriction :: "'r gw_env \<Rightarrow> int option \<Rightarrow> string \<Rightarrow> bool" where
  "checkChannelPricingRestriction e groupID requestedModel =
     (case (groupID, ge_Channels e) of
        (Some i, Some ch) \<Rightarrow>
          if requestedModel = [] then False
          else (let mapping = cv_ResolveChannelMapping ch i requestedModel;
                    billingModel = billingModelForRestriction (cmr_BillingModelSource mapping) requestedModel
                                     (cmr_MappedModel mapping)
                in if billingModel = [] then False else cv_IsModelRestricted ch i billingModel)
      | _ \<Rightarrow> False)"

definition isUpstreamModelRestrictedByChannel :: "'r gw_env \<Rightarrow> int \<Rightarrow> account \<Rightarrow> string \<Rightarrow> bool" where
  "isUpstreamModelRestrictedByChannel e groupID a requestedModel =
     (case ge_Channels e of None \<Rightarrow> False
      | Some ch \<Rightarrow>
          (let upstreamModel = resolveAccountUpstreamModel (ge_Addr e) a requestedModel
           in if upstreamModel = [] then False else cv_IsModelRestricted ch groupID upstreamModel))"

definition needsUpstreamChannelRestrictionCheck :: "'r gw_env \<Rightarrow> int option \<Rightarrow> bool" where
  "needsUpstreamChannelRestrictionCheck e groupID =
     (case (groupID, ge_Channels e) of
        (Some i, Some ch) \<Rightarrow>
          (case cv_GetChannelForGroup ch i of
             Some (Some c) \<Rightarrow> ch_RestrictModels c \<and> ch_BillingModelSource c = BillingModelSourceUpstream
           | _ \<Rightarrow> False)
      | _ \<Rightarrow> False)"

definition isStickyAccountUpstreamRestricted :: "'r gw_env \<Rightarrow> int option \<Rightarrow> account \<Rightarrow> string \<Rightarrow> bool" where
  "isStickyAccountUpstreamRestricted e groupID a requestedModel =
     (case groupID of None \<Rightarrow> False
      | Some i \<Rightarrow> needsUpstreamChannelRestrictionCheck e groupID
                  \<and> isUpstreamModelRestrictedByChannel e i a requestedModel)"

section \<open>Checks of one account\<close>

definition isAccountAllowedForPlatform :: "account \<Rightarrow> string \<Rightarrow> bool \<Rightarrow> bool" where
  "isAccountAllowedForPlatform a platform useMixed =
     (if useMixed then acc_Platform a = platform
                       \<or> acc_Platform a = PlatformAntigravity \<and> IsMixedSchedulingEnabled a
      else acc_Platform a = platform)"

definition isAccountSchedulableForSelection :: "'r gw_env \<Rightarrow> account \<Rightarrow> bool" where
  "isAccountSchedulableForSelection e a = IsSchedulable (ge_TZ e) (ge_Now e) a"

definition isAccountSchedulableForModelSelection :: "'r gw_env \<Rightarrow> gw_ctx \<Rightarrow> account \<Rightarrow> string \<Rightarrow> bool" where
  "isAccountSchedulableForModelSelection e cx a requestedModel =
     IsSchedulableForModelWithContext (ge_TZ e) (ge_Addr e) (ge_Now e) (cx_Thinking cx) (Some a) requestedModel"

definition isAccountInGroup :: "account option \<Rightarrow> int option \<Rightarrow> bool" where
  "isAccountInGroup oa groupID =
     (case oa of None \<Rightarrow> False
      | Some a \<Rightarrow>
          (case groupID of None \<Rightarrow> acc_AccountGroups a = []
           | Some i \<Rightarrow> list_ex (\<lambda>ag. ag_GroupID ag = i) (acc_AccountGroups a)))"

definition isAccountSchedulableForQuota :: "'r gw_env \<Rightarrow> account \<Rightarrow> bool" where
  "isAccountSchedulableForQuota e a =
     (\<not> IsAPIKeyOrBedrock a \<or> \<not> IsQuotaExceeded (ge_TZ e) (ge_Now e) a)"

definition shouldClearStickySession :: "'r gw_env \<Rightarrow> account option \<Rightarrow> string \<Rightarrow> bool" where
  "shouldClearStickySession e oa requestedModel =
     (case oa of None \<Rightarrow> False
      | Some a \<Rightarrow>
          \<not> IsSchedulable (ge_TZ e) (ge_Now e) a
          \<or> 0 < GetRateLimitRemainingTimeWithContext (ge_Addr e) (ge_Now e) None oa requestedModel)"

definition zone_admits :: "WindowCostSchedulability \<Rightarrow> bool \<Rightarrow> bool" where
  "zone_admits z isSticky =
     (case z of WindowCostSchedulable \<Rightarrow> True | WindowCostStickyOnly \<Rightarrow> isSticky
      | WindowCostNotSchedulable \<Rightarrow> False)"

definition windowCostFromPrefetchContext :: "gw_ctx \<Rightarrow> int \<Rightarrow> float64 option" where
  "windowCostFromPrefetchContext cx accountID =
     (if accountID \<le> 0 then None
      else case cx_WindowCosts cx of None \<Rightarrow> None | Some m \<Rightarrow> map_of m accountID)"

text \<open>The cost of the window: prefetched, cached, or read from the usage log and then cached; absent
  when reading fails.\<close>

definition window_cost :: "'r gw_env \<Rightarrow> gw_ctx \<Rightarrow> account \<Rightarrow> 'r gw_state \<Rightarrow> float64 option \<times> 'r gw_state" where
  "window_cost e cx a st =
     (case windowCostFromPrefetchContext cx (acc_ID a) of
        Some cost \<Rightarrow> (Some cost, st)
      | None \<Rightarrow>
          (case (if ge_HasSessionLimit e then GetWindowCost (ge_Call e) (acc_ID a) (gs_Caches st)
                 else Inr None) of
             Inr (Some cost) \<Rightarrow> (Some cost, st)
           | _ \<Rightarrow>
               (case ge_WindowStats e (acc_ID a) (GetCurrentWindowStartTime (ge_Local e) (ge_Now e) a) of
                  None \<Rightarrow> (None, st)
                | Some cost \<Rightarrow>
                    (Some cost,
                     if ge_HasSessionLimit e
                     then snd (with_caches (SetWindowCost (ge_Call e) (acc_ID a) cost) st) else st))))"

type_synonym 'r check = "'r gw_state \<Rightarrow> bool \<times> 'r gw_state"

definition isAccountSchedulableForWindowCost :: "'r gw_env \<Rightarrow> gw_ctx \<Rightarrow> account \<Rightarrow> bool \<Rightarrow> 'r check" where
  "isAccountSchedulableForWindowCost e cx a isSticky st =
     (if \<not> IsAnthropicOAuthOrSetupToken a then (True, st)
      else if f_le (GetWindowCostLimit a) f_zero then (True, st)
      else case window_cost e cx a st of
        (None, st1) \<Rightarrow> (True, st1)
      | (Some cost, st1) \<Rightarrow> (zone_admits (CheckWindowCostSchedulability a cost) isSticky, st1))"

definition rpmFromPrefetchContext :: "gw_ctx \<Rightarrow> int \<Rightarrow> int option" where
  "rpmFromPrefetchContext cx accountID =
     (case cx_RPMCounts cx of None \<Rightarrow> None | Some m \<Rightarrow> map_of m accountID)"

definition isAccountSchedulableForRPM :: "'r gw_env \<Rightarrow> gw_ctx \<Rightarrow> account \<Rightarrow> bool \<Rightarrow> 'r gw_state \<Rightarrow> bool" where
  "isAccountSchedulableForRPM e cx a isSticky st =
     (if \<not> IsAnthropicOAuthOrSetupToken a then True
      else if GetBaseRPM a \<le> 0 then True
      else (let currentRPM = (case rpmFromPrefetchContext cx (acc_ID a) of Some n \<Rightarrow> n
              | None \<Rightarrow> if ge_HasRPM e then
                         (case GetRPM (ge_Call e) (acc_ID a) (gs_Caches st) of Inr n \<Rightarrow> n | Inl _ \<Rightarrow> 0)
                       else 0)
            in zone_admits (CheckRPMSchedulability a currentRPM) isSticky))"

definition IncrementAccountRPM :: "'r gw_env \<Rightarrow> int \<Rightarrow> 'r gw_state \<Rightarrow> (slot_error + unit) \<times> 'r gw_state" where
  "IncrementAccountRPM e accountID st =
     (if \<not> ge_HasRPM e then (Inr (), st)
      else case with_caches (IncrementRPM (ge_Call e) accountID) st of
        (Inl er, st1) \<Rightarrow> (Inl er, st1) | (Inr _, st1) \<Rightarrow> (Inr (), st1))"

definition checkAndRegisterSession :: "'r gw_env \<Rightarrow> account \<Rightarrow> string \<Rightarrow> 'r check" where
  "checkAndRegisterSession e a sessionID st =
     (if \<not> IsAnthropicOAuthOrSetupToken a then (True, st)
      else (let maxSessions = GetMaxSessions a in
            if maxSessions \<le> 0 \<or> sessionID = [] then (True, st)
            else if \<not> ge_HasSessionLimit e then (True, st)
            else (let idleTimeout = i64 (GetSessionIdleTimeoutMinutes a * (60 * nanos)) in
                  case with_caches (RegisterSession (ge_Call e) (ge_DefaultIdle e) (acc_ID a) sessionID
                                      maxSessions idleTimeout) st of
                    (Inl _, st1) \<Rightarrow> (True, st1)
                  | (Inr allowed, st1) \<Rightarrow> (allowed, st1))))"

section \<open>Prefetching\<close>

definition cost_limited :: "account list \<Rightarrow> account list" where
  "cost_limited accounts =
     filter (\<lambda>a. IsAnthropicOAuthOrSetupToken a \<and> \<not> f_le (GetWindowCostLimit a) f_zero) accounts"

text \<open>The costs that the cache lacks are read for the accounts of one window start together, and one by
  one when there is no batch query or it fails.\<close>

definition read_single ::
    "'r gw_env \<Rightarrow> gtime \<Rightarrow> int \<Rightarrow> (int \<times> float64) list \<times> 'r gw_state \<Rightarrow> (int \<times> float64) list \<times> 'r gw_state" where
  "read_single e startTime i acc =
     (case ge_WindowStats e i startTime of None \<Rightarrow> acc
      | Some cost \<Rightarrow> ((i, cost) # fst acc,
                      snd (with_caches (SetWindowCost (ge_Call e) i cost) (snd acc))))"

definition read_group ::
    "'r gw_env \<Rightarrow> gtime \<times> int list \<Rightarrow> (int \<times> float64) list \<times> 'r gw_state \<Rightarrow> (int \<times> float64) list \<times> 'r gw_state" where
  "read_group e grp acc =
     (case (case ge_WindowStatsBatch e of None \<Rightarrow> None | Some f \<Rightarrow> f (snd grp) (fst grp)) of
        Some stats \<Rightarrow>
          fold (\<lambda>i acc. let cost = opt_default f_zero (map_of stats i) in
                  ((i, cost) # fst acc, snd (with_caches (SetWindowCost (ge_Call e) i cost) (snd acc))))
            (snd grp) acc
      | None \<Rightarrow> fold (read_single e (fst grp)) (snd grp) acc)"

text \<open>The accounts that share the second in which their window starts, with the start of the last.\<close>

fun add_missing :: "gtime \<Rightarrow> int \<Rightarrow> (int \<times> gtime \<times> int list) list \<Rightarrow> (int \<times> gtime \<times> int list) list" where
  "add_missing t i [] = [(unix_seconds t, t, [i])]"
| "add_missing t i ((key, t0, is) # gs) =
     (if key = unix_seconds t then (key, t, is @ [i]) # gs else (key, t0, is) # add_missing t i gs)"

definition withWindowCostPrefetch :: "'r gw_env \<Rightarrow> account list \<Rightarrow> gw_ctx \<Rightarrow> 'r gw_state \<Rightarrow> gw_ctx \<times> 'r gw_state" where
  "withWindowCostPrefetch e accounts cx st =
     (if accounts = [] \<or> \<not> ge_HasSessionLimit e then (cx, st)
      else (let limited = cost_limited accounts; ids = map acc_ID limited in
            if ids = [] then (cx, st)
            else (let costs = (case GetWindowCostBatch (ge_Call e) ids (gs_Caches st) of Inr m \<Rightarrow> m | Inl _ \<Rightarrow> []);
                      missing = fold (\<lambda>i gs. if map_of costs i \<noteq> None then gs
                                  else case find (\<lambda>a. acc_ID a = i) (rev limited) of
                                    None \<Rightarrow> gs
                                  | Some a \<Rightarrow> add_missing (GetCurrentWindowStartTime (ge_Local e) (ge_Now e) a) i gs)
                                  ids [];
                      (costs', st') = fold (\<lambda>g. read_group e (snd g)) missing (costs, st)
                  in (cx\<lparr>cx_WindowCosts := Some costs'\<rparr>, st'))))"

definition withRPMPrefetch :: "'r gw_env \<Rightarrow> account list \<Rightarrow> gw_ctx \<Rightarrow> 'r gw_state \<Rightarrow> gw_ctx" where
  "withRPMPrefetch e accounts cx st =
     (if \<not> ge_HasRPM e then cx
      else (let ids = map acc_ID (filter (\<lambda>a. IsAnthropicOAuthOrSetupToken a \<and> 0 < GetBaseRPM a) accounts) in
            if ids = [] then cx
            else case GetRPMBatch (ge_Call e) ids (gs_Caches st) of
              Inl _ \<Rightarrow> cx | Inr m \<Rightarrow> cx\<lparr>cx_RPMCounts := Some m\<rparr>))"

definition prefetch :: "'r gw_env \<Rightarrow> account list \<Rightarrow> gw_ctx \<Rightarrow> 'r gw_state \<Rightarrow> gw_ctx \<times> 'r gw_state" where
  "prefetch e accounts cx st =
     (case withWindowCostPrefetch e accounts cx st of (cx1, st1) \<Rightarrow> (withRPMPrefetch e accounts cx1 st1, st1))"

section \<open>Chains of checks\<close>

fun checks :: "'r check list \<Rightarrow> 'r check" where
  "checks [] st = (True, st)"
| "checks (c # cs) st = (case c st of (True, st1) \<Rightarrow> checks cs st1 | (False, st1) \<Rightarrow> (False, st1))"

definition cond :: "bool \<Rightarrow> 'r check" where
  "cond b st = (b, st)"

fun collect :: "(account \<Rightarrow> 'r check) \<Rightarrow> account list \<Rightarrow> 'r gw_state \<Rightarrow> account list \<times> 'r gw_state" where
  "collect p [] st = ([], st)"
| "collect p (a # as) st =
     (case p a st of (ok, st1) \<Rightarrow>
        case collect p as st1 of (r, st2) \<Rightarrow> (if ok then a # r else r, st2))"

definition supports_model :: "'r gw_env \<Rightarrow> gw_ctx \<Rightarrow> account \<Rightarrow> string \<Rightarrow> bool" where
  "supports_model e cx a requestedModel \<longleftrightarrow>
     requestedModel = [] \<or> isModelSupportedByAccountWithContext (ge_Addr e) (cx_Thinking cx) a requestedModel"

text \<open>\<open>require_privacy_set\<close>: an account without the setting is marked as failed and skipped.\<close>

definition privacy_check :: "group option \<Rightarrow> account \<Rightarrow> 'r check" where
  "privacy_check schedGroup a st =
     (case schedGroup of None \<Rightarrow> (True, st)
      | Some g \<Rightarrow> if grp_RequirePrivacySet g \<and> \<not> IsPrivacySet a
                  then (False, st\<lparr>gs_Accounts := account_SetError (acc_ID a) (gs_Accounts st)\<rparr>)
                  else (True, st))"

text \<open>The last four checks of every loop.\<close>

definition capacity_checks :: "'r gw_env \<Rightarrow> gw_ctx \<Rightarrow> account \<Rightarrow> string \<Rightarrow> bool \<Rightarrow> 'r check list" where
  "capacity_checks e cx a requestedModel isSticky =
     [cond (isAccountSchedulableForModelSelection e cx a requestedModel),
      cond (isAccountSchedulableForQuota e a),
      isAccountSchedulableForWindowCost e cx a isSticky,
      (\<lambda>st. (isAccountSchedulableForRPM e cx a isSticky st, st))]"

text \<open>The body of the loops of the two functions below; \<open>mixed\<close> is the filter on Antigravity accounts, and
  \<open>upstream\<close> the group whose channel restricts the upstream model, when that is to be checked.\<close>

definition loop_check ::
    "'r gw_env \<Rightarrow> gw_ctx \<Rightarrow> group option \<Rightarrow> int set \<Rightarrow> string \<Rightarrow> bool \<Rightarrow> int option \<Rightarrow> account \<Rightarrow> 'r check" where
  "loop_check e cx schedGroup excluded requestedModel mixed upstream a =
     checks ([cond (acc_ID a \<notin> excluded),
              cond (isAccountSchedulableForSelection e a),
              privacy_check schedGroup a,
              cond (\<not> (mixed \<and> acc_Platform a = PlatformAntigravity \<and> \<not> IsMixedSchedulingEnabled a)),
              cond (supports_model e cx a requestedModel),
              cond (case upstream of None \<Rightarrow> True
                    | Some i \<Rightarrow> \<not> isUpstreamModelRestrictedByChannel e i a requestedModel)]
             @ capacity_checks e cx a requestedModel False)"

section \<open>Sticky sessions and the two selections\<close>

definition stickySessionTTL :: int where "stickySessionTTL = 3600"

definition bind_sticky :: "'r gw_env \<Rightarrow> int option \<Rightarrow> string \<Rightarrow> int \<Rightarrow> 'r gw_state \<Rightarrow> 'r gw_state" where
  "bind_sticky e groupID sessionHash accountID st =
     (if sessionHash \<noteq> [] \<and> ge_HasStickyCache e
      then st\<lparr>gs_Caches := SetSessionAccountID (ge_Call e) (derefGroupID groupID) sessionHash accountID
                stickySessionTTL (gs_Caches st)\<rparr>
      else st)"

definition unbind_sticky :: "'r gw_env \<Rightarrow> int option \<Rightarrow> string \<Rightarrow> 'r gw_state \<Rightarrow> 'r gw_state" where
  "unbind_sticky e groupID sessionHash st =
     st\<lparr>gs_Caches := DeleteSessionAccountID (ge_Call e) (derefGroupID groupID) sessionHash (gs_Caches st)\<rparr>"

definition cached_sticky :: "'r gw_env \<Rightarrow> int option \<Rightarrow> string \<Rightarrow> 'r gw_state \<Rightarrow> int option" where
  "cached_sticky e groupID sessionHash st =
     (if sessionHash \<noteq> [] \<and> ge_HasStickyCache e then
        (case GetSessionAccountID (ge_Call e) (derefGroupID groupID) sessionHash (gs_Caches st) of
           Inr i \<Rightarrow> if 0 < i then Some i else None
         | Inl _ \<Rightarrow> None)
      else None)"

text \<open>One of the sticky blocks: the account bound to the session, if it is in \<open>allowed\<close>, not excluded, still
  schedulable, in the group, and passes the checks. The blocks differ in what they ask of the account
  before (\<open>pre\<close>) and after (\<open>post\<close>) the common checks; an unschedulable account is unbound.\<close>

definition sticky_block ::
    "'r gw_env \<Rightarrow> gw_ctx \<Rightarrow> int option \<Rightarrow> string \<Rightarrow> string \<Rightarrow> int set \<Rightarrow> (int \<Rightarrow> bool) \<Rightarrow> (account \<Rightarrow> bool)
       \<Rightarrow> (account \<Rightarrow> bool) \<Rightarrow> 'r gw_state \<Rightarrow> account option \<times> 'r gw_state" where
  "sticky_block e cx groupID sessionHash requestedModel excluded allowed pre post st =
     (case cached_sticky e groupID sessionHash st of
        None \<Rightarrow> (None, st)
      | Some i \<Rightarrow>
          if \<not> allowed i \<or> i \<in> excluded then (None, st)
          else (case getSchedulableAccount e i st of
                  None \<Rightarrow> (None, st)
                | Some oa \<Rightarrow>
                    (let clear = shouldClearStickySession e oa requestedModel;
                         st1 = (if clear then unbind_sticky e groupID sessionHash st else st)
                     in if clear \<or> \<not> isAccountInGroup oa groupID then (None, st1)
                        else (case oa of None \<Rightarrow> (None, st1)
                              | Some a \<Rightarrow>
                                  (case checks ([cond (pre a), cond (supports_model e cx a requestedModel)]
                                          @ capacity_checks e cx a requestedModel True @ [cond (post a)]) st1 of
                                     (ok, st2) \<Rightarrow> (if ok then Some a else None, st2))))))"

definition group_of :: "'r gw_env \<Rightarrow> int option \<Rightarrow> group option" where
  "group_of e groupID = (case groupID of None \<Rightarrow> None | Some i \<Rightarrow> map_of (ge_Groups e) i)"

definition no_account :: "string \<Rightarrow> select_error" where
  "no_account requestedModel =
     (if requestedModel \<noteq> [] then NoAccountForModel requestedModel else ErrNoAvailableAccounts)"

text \<open>Listing, prefetching and the main scan, with the sticky binding of the result.\<close>

definition scan ::
    "'r gw_env \<Rightarrow> gw_ctx \<Rightarrow> int option \<Rightarrow> string \<Rightarrow> (account \<Rightarrow> account \<Rightarrow> bool) \<Rightarrow> (gw_ctx \<Rightarrow> account \<Rightarrow> 'r check)
       \<Rightarrow> account list \<Rightarrow> 'r gw_state \<Rightarrow> account option \<times> gw_ctx \<times> 'r gw_state" where
  "scan e cx groupID sessionHash better p accounts st =
     (case prefetch e accounts cx st of (cx1, st1) \<Rightarrow>
        case collect (p cx1) accounts st1 of (cands, st2) \<Rightarrow>
          case pick_best better cands of
            None \<Rightarrow> (None, cx1, st2)
          | Some a \<Rightarrow> (Some a, cx1, bind_sticky e groupID sessionHash (acc_ID a) st2))"

text \<open>The two selections have one shape: without routing, or when no routed account was found, the
  sticky account and then the scan of all accounts (\<open>select_normal\<close>); with routing, first the sticky
  account among the routed ones and the scan of these (\<open>select_with\<close>), whose list and prefetched
  values are used again. They differ in the order of accounts, in the filter of the scan and in what
  they ask of a sticky account.\<close>

record selection =
  sel_platform :: string
  sel_force :: bool
  sel_better :: "account \<Rightarrow> account \<Rightarrow> bool"
  sel_mixed :: bool
  sel_pre :: "account \<Rightarrow> bool"
  sel_post_routed :: "account \<Rightarrow> bool"
  sel_post :: "account \<Rightarrow> bool"

definition select_normal ::
    "'r gw_env \<Rightarrow> int option \<Rightarrow> string \<Rightarrow> string \<Rightarrow> int set \<Rightarrow> selection \<Rightarrow> gw_ctx \<Rightarrow> account list option
       \<Rightarrow> 'r gw_state \<Rightarrow> (select_error + account) \<times> 'r gw_state" where
  "select_normal e groupID sessionHash requestedModel excluded sel cx loaded st =
     (case sticky_block e cx groupID sessionHash requestedModel excluded (\<lambda>_. True) (sel_pre sel) (sel_post sel) st of
        (Some a, st1) \<Rightarrow> (Inr a, st1)
      | (None, st1) \<Rightarrow>
          (case (case loaded of Some as \<Rightarrow> Inr as
                 | None \<Rightarrow> and_then (listSchedulableAccounts e groupID (sel_platform sel) (sel_force sel) st1)
                             (\<lambda>r. Inr (fst r))) of
             Inl er \<Rightarrow> (Inl er, st1)
           | Inr accounts \<Rightarrow>
               (case scan e cx groupID sessionHash (sel_better sel)
                       (\<lambda>cx. loop_check e cx (group_of e groupID) excluded requestedModel (sel_mixed sel)
                          (if needsUpstreamChannelRestrictionCheck e groupID then groupID else None))
                       accounts st1 of
                  (None, _, st2) \<Rightarrow> (Inl (no_account requestedModel), st2)
                | (Some a, _, st2) \<Rightarrow> (Inr a, st2))))"

definition routed_loop_check ::
    "'r gw_env \<Rightarrow> int option \<Rightarrow> int list \<Rightarrow> int set \<Rightarrow> string \<Rightarrow> bool \<Rightarrow> gw_ctx \<Rightarrow> account \<Rightarrow> 'r check" where
  "routed_loop_check e groupID routing excluded requestedModel mixed cx a st =
     (if acc_ID a \<in> set routing \<and> 0 < acc_ID a
      then loop_check e cx (group_of e groupID) excluded requestedModel mixed None a st else (False, st))"

definition select_with ::
    "'r gw_env \<Rightarrow> gw_ctx \<Rightarrow> int option \<Rightarrow> string \<Rightarrow> string \<Rightarrow> int set \<Rightarrow> selection \<Rightarrow> 'r gw_state
       \<Rightarrow> (select_error + account) \<times> 'r gw_state" where
  "select_with e cx groupID sessionHash requestedModel excluded sel st =
     (let routing = routingAccountIDsForRequest cx (ge_Groups e) groupID requestedModel (sel_platform sel);
          normal = select_normal e groupID sessionHash requestedModel excluded sel
      in if routing = [] then normal cx None st
         else (case sticky_block e cx groupID sessionHash requestedModel excluded (\<lambda>i. i \<in> set routing)
                      (sel_pre sel) (sel_post_routed sel) st of
                 (Some a, st1) \<Rightarrow> (Inr a, st1)
               | (None, st1) \<Rightarrow>
                   (case listSchedulableAccounts e groupID (sel_platform sel) (sel_force sel) st1 of
                      Inl er \<Rightarrow> (Inl er, st1)
                    | Inr (accounts, _) \<Rightarrow>
                        (case scan e cx groupID sessionHash (sel_better sel)
                                (routed_loop_check e groupID routing excluded requestedModel (sel_mixed sel))
                                accounts st1 of
                           (Some a, _, st2) \<Rightarrow> (Inr a, st2)
                         | (None, cx2, st2) \<Rightarrow> normal cx2 (Some accounts) st2))))"

definition selectAccountForModelWithPlatform ::
    "'r gw_env \<Rightarrow> gw_ctx \<Rightarrow> int option \<Rightarrow> string \<Rightarrow> string \<Rightarrow> int set \<Rightarrow> string \<Rightarrow> 'r gw_state
       \<Rightarrow> (select_error + account) \<times> 'r gw_state" where
  "selectAccountForModelWithPlatform e cx groupID sessionHash requestedModel excluded platform st =
     select_with e cx groupID sessionHash requestedModel excluded
       \<lparr>sel_platform = platform, sel_force = forced cx \<noteq> None,
        sel_better = better_single (platform = PlatformGemini), sel_mixed = False,
        sel_pre = (\<lambda>a. acc_Platform a = platform),
        sel_post_routed = (\<lambda>a. \<not> isStickyAccountUpstreamRestricted e groupID a requestedModel),
        sel_post = (\<lambda>_. True)\<rparr> st"

definition selectAccountWithMixedScheduling ::
    "'r gw_env \<Rightarrow> gw_ctx \<Rightarrow> int option \<Rightarrow> string \<Rightarrow> string \<Rightarrow> int set \<Rightarrow> string \<Rightarrow> 'r gw_state
       \<Rightarrow> (select_error + account) \<times> 'r gw_state" where
  "selectAccountWithMixedScheduling e cx groupID sessionHash requestedModel excluded nativePlatform st =
     select_with e cx groupID sessionHash requestedModel excluded
       \<lparr>sel_platform = nativePlatform, sel_force = False,
        sel_better = better_mixed (nativePlatform = PlatformGemini), sel_mixed = True,
        sel_pre = (\<lambda>_. True),
        sel_post_routed = (\<lambda>a. isAccountAllowedForPlatform a nativePlatform True),
        sel_post = (\<lambda>a. \<not> isStickyAccountUpstreamRestricted e groupID a requestedModel
                        \<and> isAccountAllowedForPlatform a nativePlatform True)\<rparr> st"

text \<open>The platform, group and context that the call works with.\<close>

definition requested_start ::
    "'r gw_env \<Rightarrow> gw_ctx \<Rightarrow> int option \<Rightarrow> select_error + string \<times> int option \<times> gw_ctx" where
  "requested_start e cx groupID =
     (case (forced cx, groupID) of
        (Some p, _) \<Rightarrow> Inr (p, groupID, cx)
      | (None, Some i) \<Rightarrow>
          and_then (fallback_chain cx (ge_Groups e) i []) (\<lambda>(g, j).
            Inr (grp_Platform g, Some j, withGroupContext cx (Some g)))
      | (None, None) \<Rightarrow> Inr (PlatformAnthropic, None, cx))"

definition SelectAccountForModelWithExclusions ::
    "'r gw_env \<Rightarrow> gw_ctx \<Rightarrow> int option \<Rightarrow> string \<Rightarrow> string \<Rightarrow> int set \<Rightarrow> 'r gw_state
       \<Rightarrow> (select_error + account) \<times> 'r gw_state" where
  "SelectAccountForModelWithExclusions e cx0 groupID0 sessionHash requestedModel excluded st =
     (case requested_start e cx0 groupID0 of
        Inl er \<Rightarrow> (Inl er, st)
      | Inr (platform, groupID, cx) \<Rightarrow>
          if checkChannelPricingRestriction e groupID requestedModel
          then (Inl (ChannelPricingRestriction requestedModel), st)
          else (case (if (platform = PlatformAnthropic \<or> platform = PlatformGemini) \<and> cx_ForcePlatform cx = None
                      then selectAccountWithMixedScheduling e cx groupID sessionHash requestedModel excluded platform st
                      else selectAccountForModelWithPlatform e cx groupID sessionHash requestedModel excluded platform st) of
                  (Inl er, st1) \<Rightarrow> (Inl er, st1)
                | (Inr a, st1) \<Rightarrow> (hydrateSelectedAccount e a, st1)))"

definition SelectAccountForModel ::
    "'r gw_env \<Rightarrow> gw_ctx \<Rightarrow> int option \<Rightarrow> string \<Rightarrow> string \<Rightarrow> 'r gw_state \<Rightarrow> (select_error + account) \<times> 'r gw_state" where
  "SelectAccountForModel e cx groupID sessionHash requestedModel st =
     SelectAccountForModelWithExclusions e cx groupID sessionHash requestedModel {} st"

definition SelectAccount ::
    "'r gw_env \<Rightarrow> gw_ctx \<Rightarrow> int option \<Rightarrow> string \<Rightarrow> 'r gw_state \<Rightarrow> (select_error + account) \<times> 'r gw_state" where
  "SelectAccount e cx groupID sessionHash st = SelectAccountForModel e cx groupID sessionHash [] st"

end
