(* ===== verification/GatewayLoad.thy ===== *)
theory GatewayLoad
  imports GatewaySelect
begin

text \<open>
  The selection of an account with load information (\<open>SelectAccountWithLoadAwareness\<close> and
  \<open>tryAcquireByLegacyOrder\<close> of \<open>service/gateway_service.go\<close>): slots are taken, sessions are
  registered, and a request that gets no slot is given a plan for waiting. Layer 1 serves a
  routed model, layer 1.5 a sticky session, layer 2 the least loaded accounts in the order of
  priority, load and last use, layer 3 hands out a place in a queue.
\<close>

section \<open>Results\<close>

record AccountWaitPlan =
  wp_AccountID :: int
  wp_MaxConcurrency :: int
  wp_Timeout :: duration
  wp_MaxWaiting :: int

record AccountSelectionResult =
  sr_Account :: account
  sr_Acquired :: bool
  sr_ReleaseFunc :: "release option"
  sr_WaitPlan :: "AccountWaitPlan option"

definition newSelectionResult ::
    "'r gw_env \<Rightarrow> account \<Rightarrow> bool \<Rightarrow> release option \<Rightarrow> AccountWaitPlan option \<Rightarrow> select_error + AccountSelectionResult" where
  "newSelectionResult e a acquired rel waitPlan =
     and_then (hydrateSelectedAccount e a) (\<lambda>h.
       Inr \<lparr>sr_Account = h, sr_Acquired = acquired, sr_ReleaseFunc = rel, sr_WaitPlan = waitPlan\<rparr>)"

definition sticky_plan :: "'r gw_env \<Rightarrow> account \<Rightarrow> AccountWaitPlan" where
  "sticky_plan e a = \<lparr>wp_AccountID = acc_ID a, wp_MaxConcurrency = acc_Concurrency a,
     wp_Timeout = cfg_StickySessionWaitTimeout (config_of e),
     wp_MaxWaiting = cfg_StickySessionMaxWaiting (config_of e)\<rparr>"

definition fallback_plan :: "'r gw_env \<Rightarrow> account \<Rightarrow> AccountWaitPlan" where
  "fallback_plan e a = \<lparr>wp_AccountID = acc_ID a, wp_MaxConcurrency = acc_Concurrency a,
     wp_Timeout = cfg_FallbackWaitTimeout (config_of e), wp_MaxWaiting = cfg_FallbackMaxWaiting (config_of e)\<rparr>"

section \<open>Slots\<close>

definition tryAcquireAccountSlot ::
    "'r gw_env \<Rightarrow> int \<Rightarrow> int \<Rightarrow> 'r gw_state \<Rightarrow> (slot_error + acquire_result) \<times> 'r gw_state" where
  "tryAcquireAccountSlot e accountID maxConcurrency st =
     (if \<not> ge_HasConcurrency e then (Inr (Some NoRelease), st)
      else with_slots (AcquireAccountSlot (ge_Call e) accountID maxConcurrency) st)"

definition release_slot :: "'r gw_env \<Rightarrow> release \<Rightarrow> 'r gw_state \<Rightarrow> 'r gw_state" where
  "release_slot e r st = st\<lparr>gs_Concurrency := ReleaseFunc (ge_Call e) r (gs_Concurrency st)\<rparr>"

datatype slot_result = SlotBusy | SessionLimited | SlotTaken release

text \<open>Take a slot, then register the session; a slot whose session is refused is released.\<close>

definition take_slot :: "'r gw_env \<Rightarrow> account \<Rightarrow> string \<Rightarrow> 'r gw_state \<Rightarrow> slot_result \<times> 'r gw_state" where
  "take_slot e a sessionHash st =
     (case tryAcquireAccountSlot e (acc_ID a) (acc_Concurrency a) st of
        (Inr (Some r), st1) \<Rightarrow>
          (case checkAndRegisterSession e a sessionHash st1 of
             (True, st2) \<Rightarrow> (SlotTaken r, st2)
           | (False, st2) \<Rightarrow> (SessionLimited, release_slot e r st2))
      | (_, st1) \<Rightarrow> (SlotBusy, st1))"

definition waiting_count :: "'r gw_env \<Rightarrow> int \<Rightarrow> 'r gw_state \<Rightarrow> int" where
  "waiting_count e accountID st =
     (case GetAccountWaitingCount (ge_Call e) accountID (gs_Concurrency st) of Inr n \<Rightarrow> n | Inl _ \<Rightarrow> 0)"

text \<open>Go through accounts in order until one gives a slot, and bind the session to it.\<close>

fun try_in_order ::
    "'r gw_env \<Rightarrow> int option \<Rightarrow> string \<Rightarrow> account list \<Rightarrow> 'r gw_state \<Rightarrow> (account \<times> release) option \<times> 'r gw_state" where
  "try_in_order e groupID sessionHash [] st = (None, st)"
| "try_in_order e groupID sessionHash (a # as) st =
     (case take_slot e a sessionHash st of
        (SlotTaken r, st1) \<Rightarrow> (Some (a, r), bind_sticky e groupID sessionHash (acc_ID a) st1)
      | (_, st1) \<Rightarrow> try_in_order e groupID sessionHash as st1)"

text \<open>Go through accounts in order until one admits the session.\<close>

fun first_with_session :: "'r gw_env \<Rightarrow> string \<Rightarrow> account list \<Rightarrow> 'r gw_state \<Rightarrow> account option \<times> 'r gw_state" where
  "first_with_session e sessionHash [] st = (None, st)"
| "first_with_session e sessionHash (a # as) st =
     (case checkAndRegisterSession e a sessionHash st of
        (True, st1) \<Rightarrow> (Some a, st1)
      | (False, st1) \<Rightarrow> first_with_session e sessionHash as st1)"

definition tryAcquireByLegacyOrder ::
    "'r gw_env \<Rightarrow> account list \<Rightarrow> int option \<Rightarrow> string \<Rightarrow> bool \<Rightarrow> 'r gw_state
       \<Rightarrow> (select_error + AccountSelectionResult option) \<times> 'r gw_state" where
  "tryAcquireByLegacyOrder e candidates groupID sessionHash preferOAuth st =
     (case with_draws (sortAccountsByPriorityAndLastUsed (ge_Draws e) candidates preferOAuth) st of (ordered, st1) \<Rightarrow>
        case try_in_order e groupID sessionHash ordered st1 of
          (None, st2) \<Rightarrow> (Inr None, st2)
        | (Some (a, r), st2) \<Rightarrow>
            (and_then (newSelectionResult e a True (Some r) None) (\<lambda>s. Inr (Some s)), st2))"

section \<open>Loads\<close>

definition load_of :: "(int \<times> AccountLoadInfo) list \<Rightarrow> account \<Rightarrow> AccountLoadInfo" where
  "load_of loads a = opt_default \<lparr>li_AccountID = acc_ID a, li_CurrentConcurrency = 0, li_WaitingCount = 0, li_LoadRate = 0\<rparr>
     (map_of loads (acc_ID a))"

definition available_accounts :: "(int \<times> AccountLoadInfo) list \<Rightarrow> account list \<Rightarrow> accountWithLoad list" where
  "available_accounts loads as =
     filter (\<lambda>x. li_LoadRate (awl_LoadInfo x) < 100)
       (map (\<lambda>a. \<lparr>awl_Account = a, awl_LoadInfo = load_of loads a\<rparr>) as)"

definition batch_loads ::
    "'r gw_env \<Rightarrow> account list \<Rightarrow> 'r gw_state \<Rightarrow> (slot_error + (int \<times> AccountLoadInfo) list) \<times> 'r gw_state" where
  "batch_loads e as st =
     with_slots (GetAccountsLoadBatch (ge_Sha e) (ge_Call e) (ge_Now e)
       (map (\<lambda>a. (acc_ID a, EffectiveLoadFactor (Some a))) as)) st"

text \<open>One choice of layer 2, and the loop that removes an account that gave no slot.\<close>

definition layered_choice ::
    "draws \<Rightarrow> accountWithLoad list \<Rightarrow> bool \<Rightarrow> nat \<Rightarrow> accountWithLoad option \<times> nat" where
  "layered_choice dr available preferOAuth k =
     selectByLRU dr (filterByMinLoadRate (filterByMinPriority available)) preferOAuth k"

lemma layered_choice_mem:
  assumes "layered_choice dr xs p k = (Some a, k')"
  shows "a \<in> set xs"
proof -
  have "a \<in> set (filterByMinLoadRate (filterByMinPriority xs))"
    using assms unfolding layered_choice_def by (rule selectByLRU_mem)
  then show ?thesis
    unfolding filterByMinLoadRate_def filterByMinPriority_def by (metis keep_min_subset subsetD)
qed

lemma layer2_shrinks:
  assumes "with_draws (layered_choice dr available p) st = (Some x, st1)"
  shows "length (filter (\<lambda>y. acc_ID (awl_Account y) \<noteq> acc_ID (awl_Account x)) available) < length available"
proof -
  have "x \<in> set available"
    using assms layered_choice_mem by (auto simp: with_draws_def split: prod.splits)
  then show ?thesis by (intro length_filter_less) auto
qed

function layer2 ::
    "'r gw_env \<Rightarrow> int option \<Rightarrow> string \<Rightarrow> bool \<Rightarrow> accountWithLoad list \<Rightarrow> 'r gw_state
       \<Rightarrow> (account \<times> release) option \<times> 'r gw_state" where
  "layer2 e groupID sessionHash preferOAuth available st =
     (case with_draws (layered_choice (ge_Draws e) available preferOAuth) st of
        (None, st1) \<Rightarrow> (None, st1)
      | (Some x, st1) \<Rightarrow>
          (case take_slot e (awl_Account x) sessionHash st1 of
             (SlotTaken r, st2) \<Rightarrow>
               (Some (awl_Account x, r), bind_sticky e groupID sessionHash (acc_ID (awl_Account x)) st2)
           | (_, st2) \<Rightarrow>
               layer2 e groupID sessionHash preferOAuth
                 (filter (\<lambda>y. acc_ID (awl_Account y) \<noteq> acc_ID (awl_Account x)) available) st2))"
  by pat_completeness auto

termination
  by (relation "measure (\<lambda>(_, _, _, _, available, _). length available)") (auto dest!: layer2_shrinks [OF sym])

declare layer2.simps [simp del]

section \<open>The sticky account of the call\<close>

definition prefetchedStickyAccountIDFromContext :: "gw_ctx \<Rightarrow> int option \<Rightarrow> int" where
  "prefetchedStickyAccountIDFromContext cx groupID =
     (case cx_StickyGroupID cx of None \<Rightarrow> 0
      | Some g \<Rightarrow>
          if g \<noteq> derefGroupID groupID then 0
          else (case cx_StickyAccountID cx of None \<Rightarrow> 0 | Some i \<Rightarrow> if 0 < i then i else 0))"

definition sticky_account :: "'r gw_env \<Rightarrow> gw_ctx \<Rightarrow> int option \<Rightarrow> string \<Rightarrow> 'r gw_state \<Rightarrow> int" where
  "sticky_account e cx groupID sessionHash st =
     (let prefetch = prefetchedStickyAccountIDFromContext cx groupID in
      if 0 < prefetch then prefetch
      else if sessionHash \<noteq> [] \<and> ge_HasStickyCache e then
        (case GetSessionAccountID (ge_Call e) (derefGroupID groupID) sessionHash (gs_Caches st) of
           Inr i \<Rightarrow> i | Inl _ \<Rightarrow> 0)
      else 0)"

section \<open>Selection without load information\<close>

text \<open>The loop of the call when loads are not to be read: it selects an account and takes a slot, and
  selects again without the account when the account refuses the session. It runs on fuel and is
  absent when the fuel runs out.\<close>

fun legacy_loop ::
    "nat \<Rightarrow> 'r gw_env \<Rightarrow> gw_ctx \<Rightarrow> int option \<Rightarrow> string \<Rightarrow> string \<Rightarrow> int \<Rightarrow> int set \<Rightarrow> 'r gw_state
       \<Rightarrow> ((select_error + AccountSelectionResult) \<times> 'r gw_state) option" where
  "legacy_loop 0 e cx groupID sessionHash requestedModel sticky excluded st = None"
| "legacy_loop (Suc n) e cx groupID sessionHash requestedModel sticky excluded st =
     (case SelectAccountForModelWithExclusions e cx groupID sessionHash requestedModel excluded st of
        (Inl er, st1) \<Rightarrow> Some (Inl er, st1)
      | (Inr a, st1) \<Rightarrow>
          (case take_slot e a sessionHash st1 of
             (SlotTaken r, st2) \<Rightarrow> Some (newSelectionResult e a True (Some r) None, st2)
           | (SessionLimited, st2) \<Rightarrow>
               legacy_loop n e cx groupID sessionHash requestedModel sticky (insert (acc_ID a) excluded) st2
           | (SlotBusy, st2) \<Rightarrow>
               (case checkAndRegisterSession e a sessionHash st2 of
                  (False, st3) \<Rightarrow>
                    legacy_loop n e cx groupID sessionHash requestedModel sticky (insert (acc_ID a) excluded) st3
                | (True, st3) \<Rightarrow>
                    (if 0 < sticky \<and> sticky = acc_ID a \<and> ge_HasConcurrency e
                        \<and> waiting_count e (acc_ID a) st3 < cfg_StickySessionMaxWaiting (config_of e)
                     then Some (newSelectionResult e a False None (Some (sticky_plan e a)), st3)
                     else Some (newSelectionResult e a False None (Some (fallback_plan e a)), st3)))))"

section \<open>The layers\<close>

definition account_by_id :: "account list \<Rightarrow> int \<Rightarrow> account option" where
  "account_by_id accounts = map_of (rev (map (\<lambda>a. (acc_ID a, a)) accounts))"

definition load_check ::
    "'r gw_env \<Rightarrow> gw_ctx \<Rightarrow> int set \<Rightarrow> string \<Rightarrow> bool \<Rightarrow> string \<Rightarrow> bool \<Rightarrow> account \<Rightarrow> 'r check" where
  "load_check e cx excluded platform useMixed requestedModel isSticky a =
     checks ([cond (acc_ID a \<notin> excluded),
              cond (isAccountSchedulableForSelection e a),
              cond (isAccountAllowedForPlatform a platform useMixed),
              cond (supports_model e cx a requestedModel)]
             @ capacity_checks e cx a requestedModel isSticky)"

text \<open>A place in the queue of the sticky account, when the queue has room and the session is admitted.\<close>

definition sticky_queue :: "'r gw_env \<Rightarrow> account \<Rightarrow> string \<Rightarrow> 'r check" where
  "sticky_queue e a sessionHash st =
     (if waiting_count e (acc_ID a) st < cfg_StickySessionMaxWaiting (config_of e)
      then checkAndRegisterSession e a sessionHash st else (False, st))"

type_synonym 'r layer = "'r gw_state \<Rightarrow> (select_error + AccountSelectionResult) option \<times> 'r gw_state"

definition or_else :: "'r layer \<Rightarrow> 'r layer \<Rightarrow> 'r layer" where
  "or_else f g st = (case f st of (Some r, st1) \<Rightarrow> (Some r, st1) | (None, st1) \<Rightarrow> g st1)"

text \<open>Layer 1, the sticky account among the routed ones. The deletion of a binding dereferences the cache.\<close>

definition routed_sticky ::
    "'r gw_env \<Rightarrow> gw_ctx \<Rightarrow> int option \<Rightarrow> string \<Rightarrow> string \<Rightarrow> int set \<Rightarrow> string \<Rightarrow> bool \<Rightarrow> account list
       \<Rightarrow> int list \<Rightarrow> int \<Rightarrow> 'r layer" where
  "routed_sticky e cx groupID sessionHash requestedModel excluded platform useMixed accounts routing sticky st =
     (if sessionHash = [] \<or> sticky \<le> 0 \<or> sticky \<notin> set routing \<or> sticky \<in> excluded then (None, st)
      else case account_by_id accounts sticky of
        None \<Rightarrow> if ge_HasStickyCache e then (None, unbind_sticky e groupID sessionHash st)
                else (Some (Inl NilStickyCache), st)
      | Some a \<Rightarrow>
          (case load_check e cx excluded platform useMixed requestedModel True a st of
             (False, st1) \<Rightarrow> (None, st1)
           | (True, st1) \<Rightarrow>
               (case take_slot e a sessionHash st1 of
                  (SlotTaken r, st2) \<Rightarrow> (Some (newSelectionResult e a True (Some r) None), st2)
                | (SessionLimited, st2) \<Rightarrow> (None, st2)
                | (SlotBusy, st2) \<Rightarrow>
                    (case sticky_queue e a sessionHash st2 of
                       (False, st3) \<Rightarrow> (None, st3)
                     | (True, st3) \<Rightarrow>
                         (Some (Inr \<lparr>sr_Account = a, sr_Acquired = False, sr_ReleaseFunc = None,
                                     sr_WaitPlan = Some (sticky_plan e a)\<rparr>), st3)))))"

definition serve_in_order ::
    "'r gw_env \<Rightarrow> int option \<Rightarrow> string \<Rightarrow> account list \<Rightarrow> (account \<Rightarrow> AccountWaitPlan) \<Rightarrow> 'r layer" where
  "serve_in_order e groupID sessionHash as plan st =
     (case try_in_order e groupID sessionHash as st of
        (Some (a, r), st1) \<Rightarrow> (Some (newSelectionResult e a True (Some r) None), st1)
      | (None, st1) \<Rightarrow>
          (case first_with_session e sessionHash as st1 of
             (Some a, st2) \<Rightarrow> (Some (newSelectionResult e a False None (Some (plan a))), st2)
           | (None, st2) \<Rightarrow> (None, st2)))"

definition routed_by_load ::
    "'r gw_env \<Rightarrow> int option \<Rightarrow> string \<Rightarrow> account list \<Rightarrow> 'r layer" where
  "routed_by_load e groupID sessionHash cands st =
     (case batch_loads e cands st of (loads, st1) \<Rightarrow>
        let available = available_accounts (case loads of Inr m \<Rightarrow> m | Inl _ \<Rightarrow> []) cands in
        if available = [] then (None, st1)
        else (case with_draws (shuffleWithinSortGroups (ge_Draws e) (sort_by less_load available)) st1 of
                (ordered, st2) \<Rightarrow>
                  serve_in_order e groupID sessionHash (map awl_Account ordered) (sticky_plan e) st2))"

definition layer1 ::
    "'r gw_env \<Rightarrow> gw_ctx \<Rightarrow> int option \<Rightarrow> string \<Rightarrow> string \<Rightarrow> int set \<Rightarrow> string \<Rightarrow> bool \<Rightarrow> account list
       \<Rightarrow> int list \<Rightarrow> int \<Rightarrow> 'r layer" where
  "layer1 e cx groupID sessionHash requestedModel excluded platform useMixed accounts routing sticky st =
     (if routing = [] then (None, st)
      else case collect (load_check e cx excluded platform useMixed requestedModel False)
                  (List.map_filter (account_by_id accounts) routing) st of
        (cands, st1) \<Rightarrow>
          if cands = [] then (None, st1)
          else or_else
                 (routed_sticky e cx groupID sessionHash requestedModel excluded platform useMixed accounts
                    routing sticky)
                 (routed_by_load e groupID sessionHash cands) st1)"

text \<open>Layer 1.5. All the checks are made, so the window cost is always read. An account that passes gives a
  slot, with the binding renewed, or a place in its queue.\<close>

definition refresh_sticky :: "'r gw_env \<Rightarrow> int option \<Rightarrow> string \<Rightarrow> 'r gw_state \<Rightarrow> 'r gw_state" where
  "refresh_sticky e groupID sessionHash st =
     (if ge_HasStickyCache e
      then st\<lparr>gs_Caches := RefreshSessionTTL (ge_Call e) (derefGroupID groupID) sessionHash stickySessionTTL
                (gs_Caches st)\<rparr>
      else st)"

definition serve_sticky :: "'r gw_env \<Rightarrow> int option \<Rightarrow> string \<Rightarrow> account \<Rightarrow> 'r layer" where
  "serve_sticky e groupID sessionHash a st =
     (case take_slot e a sessionHash st of
        (SlotTaken r, st1) \<Rightarrow>
          (Some (newSelectionResult e a True (Some r) None), refresh_sticky e groupID sessionHash st1)
      | (_, st1) \<Rightarrow>
          (case sticky_queue e a sessionHash st1 of
             (False, st2) \<Rightarrow> (None, st2)
           | (True, st2) \<Rightarrow> (Some (newSelectionResult e a False None (Some (sticky_plan e a))), st2)))"

definition sticky_passes ::
    "'r gw_env \<Rightarrow> gw_ctx \<Rightarrow> string \<Rightarrow> string \<Rightarrow> bool \<Rightarrow> account \<Rightarrow> bool \<Rightarrow> 'r gw_state \<Rightarrow> bool" where
  "sticky_passes e cx requestedModel platform useMixed a windowCostOK st \<longleftrightarrow>
     isAccountAllowedForPlatform a platform useMixed \<and> supports_model e cx a requestedModel
     \<and> isAccountSchedulableForModelSelection e cx a requestedModel
     \<and> isAccountSchedulableForQuota e a \<and> windowCostOK \<and> isAccountSchedulableForRPM e cx a True st
     \<and> isAccountSchedulableForSelection e a"

definition sticky_layer ::
    "'r gw_env \<Rightarrow> gw_ctx \<Rightarrow> int option \<Rightarrow> string \<Rightarrow> string \<Rightarrow> int set \<Rightarrow> string \<Rightarrow> bool \<Rightarrow> account list
       \<Rightarrow> int list \<Rightarrow> int \<Rightarrow> 'r layer" where
  "sticky_layer e cx groupID sessionHash requestedModel excluded platform useMixed accounts routing sticky st =
     (if routing \<noteq> [] \<or> sessionHash = [] \<or> sticky \<le> 0 \<or> sticky \<in> excluded then (None, st)
      else case account_by_id accounts sticky of
        None \<Rightarrow> (None, st)
      | Some a \<Rightarrow>
          (let clear = shouldClearStickySession e (Some a) requestedModel;
               st0 = (if clear then unbind_sticky e groupID sessionHash st else st)
           in if clear \<and> \<not> ge_HasStickyCache e then (Some (Inl NilStickyCache), st)
              else case isAccountSchedulableForWindowCost e cx a True st0 of
                (windowCostOK, st1) \<Rightarrow>
                  if \<not> clear \<and> sticky_passes e cx requestedModel platform useMixed a windowCostOK st1
                  then serve_sticky e groupID sessionHash a st1
                  else (None, st1)))"

definition by_load ::
    "'r gw_env \<Rightarrow> int option \<Rightarrow> string \<Rightarrow> bool \<Rightarrow> account list \<Rightarrow> 'r layer" where
  "by_load e groupID sessionHash preferOAuth cands st =
     (case batch_loads e cands st of
        (Inl _, st1) \<Rightarrow>
          (case tryAcquireByLegacyOrder e cands groupID sessionHash preferOAuth st1 of
             (Inl er, st2) \<Rightarrow> (Some (Inl er), st2)
           | (Inr (Some r), st2) \<Rightarrow> (Some (Inr r), st2)
           | (Inr None, st2) \<Rightarrow> (None, st2))
      | (Inr loads, st1) \<Rightarrow>
          (case layer2 e groupID sessionHash preferOAuth (available_accounts loads cands) st1 of
             (Some (a, r), st2) \<Rightarrow> (Some (newSelectionResult e a True (Some r) None), st2)
           | (None, st2) \<Rightarrow> (None, st2)))"

definition fallback_layer :: "'r gw_env \<Rightarrow> string \<Rightarrow> bool \<Rightarrow> account list \<Rightarrow> 'r layer" where
  "fallback_layer e sessionHash preferOAuth cands st =
     (case with_draws (sortCandidatesForFallback (ge_Draws e) cands preferOAuth
             (cfg_FallbackSelectionMode (config_of e))) st of
        (ordered, st1) \<Rightarrow>
          (case first_with_session e sessionHash ordered st1 of
             (Some a, st2) \<Rightarrow> (Some (newSelectionResult e a False None (Some (fallback_plan e a))), st2)
           | (None, st2) \<Rightarrow> (None, st2)))"

definition layer23 ::
    "'r gw_env \<Rightarrow> gw_ctx \<Rightarrow> int option \<Rightarrow> string \<Rightarrow> string \<Rightarrow> int set \<Rightarrow> string \<Rightarrow> bool \<Rightarrow> account list \<Rightarrow> 'r layer" where
  "layer23 e cx groupID sessionHash requestedModel excluded platform useMixed accounts st =
     (case collect (load_check e cx excluded platform useMixed requestedModel False) accounts st of
        (cands, st1) \<Rightarrow>
          if cands = [] then (None, st1)
          else or_else (by_load e groupID sessionHash (platform = PlatformGemini) cands)
                 (fallback_layer e sessionHash (platform = PlatformGemini) cands) st1)"

section \<open>The call\<close>

definition layers ::
    "'r gw_env \<Rightarrow> gw_ctx \<Rightarrow> int option \<Rightarrow> string \<Rightarrow> string \<Rightarrow> int set \<Rightarrow> string \<Rightarrow> bool \<Rightarrow> account list
       \<Rightarrow> int list \<Rightarrow> int \<Rightarrow> 'r layer" where
  "layers e cx groupID sessionHash requestedModel excluded platform useMixed accounts routing sticky =
     or_else (layer1 e cx groupID sessionHash requestedModel excluded platform useMixed accounts routing sticky)
       (or_else (sticky_layer e cx groupID sessionHash requestedModel excluded platform useMixed accounts routing sticky)
          (layer23 e cx groupID sessionHash requestedModel excluded platform useMixed accounts))"

text \<open>The selection by layers, once the group and the platform are known.\<close>

definition routing_of :: "group option \<Rightarrow> string \<Rightarrow> int list" where
  "routing_of grp requestedModel =
     (case grp of None \<Rightarrow> []
      | Some g \<Rightarrow> if requestedModel \<noteq> [] \<and> grp_Platform g = PlatformAnthropic
                  then GetRoutingAccountIDs g requestedModel else [])"

definition select_layered ::
    "'r gw_env \<Rightarrow> gw_ctx \<Rightarrow> group option \<Rightarrow> int option \<Rightarrow> string \<Rightarrow> string \<Rightarrow> int set \<Rightarrow> int \<Rightarrow> 'r gw_state
       \<Rightarrow> (select_error + AccountSelectionResult) \<times> 'r gw_state" where
  "select_layered e cx grp groupID sessionHash requestedModel excluded sticky st =
     (case resolvePlatform cx (ge_Groups e) groupID grp of
        Inl er \<Rightarrow> (Inl er, st)
      | Inr (platform, hasForcePlatform) \<Rightarrow>
          (case listSchedulableAccounts e groupID platform hasForcePlatform st of
             Inl er \<Rightarrow> (Inl er, st)
           | Inr (accounts, useMixed) \<Rightarrow>
               if accounts = [] then (Inl ErrNoAvailableAccounts, st)
               else (case prefetch e accounts cx st of (cx1, st1) \<Rightarrow>
                       (case layers e cx1 groupID sessionHash requestedModel excluded platform useMixed
                               accounts (routing_of grp requestedModel) sticky st1 of
                          (Some r, st2) \<Rightarrow> (r, st2)
                        | (None, st2) \<Rightarrow> (Inl ErrNoAvailableAccounts, st2)))))"

definition SelectAccountWithLoadAwareness ::
    "nat \<Rightarrow> 'r gw_env \<Rightarrow> gw_ctx \<Rightarrow> int option \<Rightarrow> string \<Rightarrow> string \<Rightarrow> int set \<Rightarrow> 'r gw_state
       \<Rightarrow> ((select_error + AccountSelectionResult) \<times> 'r gw_state) option" where
  "SelectAccountWithLoadAwareness fuel e cx0 groupID0 sessionHash requestedModel excluded st =
     (case checkClaudeCodeRestriction cx0 (ge_Groups e) groupID0 of
        Inl er \<Rightarrow> Some (Inl er, st)
      | Inr (grp, groupID) \<Rightarrow>
          (let cx = withGroupContext cx0 grp; sticky = sticky_account e cx groupID sessionHash st in
           if checkChannelPricingRestriction e groupID requestedModel
           then Some (Inl (ChannelPricingRestriction requestedModel), st)
           else if \<not> ge_HasConcurrency e \<or> \<not> cfg_LoadBatchEnabled (config_of e)
           then legacy_loop fuel e cx groupID sessionHash requestedModel sticky excluded st
           else Some (select_layered e cx grp groupID sessionHash requestedModel excluded sticky st)))"

end
