(* ===== verification/ConcurrencyProps.thy ===== *)
theory ConcurrencyProps
  imports ConcurrencyService
begin

text \<open>
  What the slots guarantee: a state machine of the requests on one account, with the clock,
  failed releases and every reader of the set as steps, never holds more young requests than
  the account allows; what happens to old requests and when a second process starts; request
  ids; and the meaning of a load rate below 100.
\<close>

section \<open>Request ids are distinct\<close>

definition digit36_val :: "char \<Rightarrow> nat" where
  "digit36_val ch = (if (of_char ch :: nat) < 87 then of_char ch - 48 else of_char ch - 87)"

fun parse36 :: "nat \<Rightarrow> string \<Rightarrow> nat" where
  "parse36 n [] = n"
| "parse36 n (ch # s) = parse36 (n * 36 + digit36_val ch) s"

lemma digit36_val: "d < 36 \<Longrightarrow> digit36_val (digit36 d) = d"
  by (auto simp: digit36_val_def digit36_def)

lemma parse36_append: "parse36 n (s @ t) = parse36 (parse36 n s) t"
  by (induction s arbitrary: n) auto

lemma parse36_format: "parse36 0 (format_uint36 n) = n"
proof (induction n rule: format_uint36.induct)
  case (1 n)
  then show ?case
    by (cases "n < 36") (auto simp: format_uint36.simps [of n] parse36_append digit36_val)
qed

text \<open>The request ids that a process hands out are distinct as long as its counter does not wrap
  around: the id determines the counter, because printing in base 36 can be parsed back.\<close>
theorem request_ids_distinct:
  "fst (generateRequestID p n) = fst (generateRequestID p m) \<longleftrightarrow> n = m"
proof
  assume "fst (generateRequestID p n) = fst (generateRequestID p m)"
  then have "format_uint36 (unat (n + 1)) = format_uint36 (unat (m + 1))"
    by (simp add: generateRequestID_def Let_def)
  then have "unat (n + 1) = unat (m + 1)" by (metis parse36_format)
  then have "n + 1 = m + 1" by (simp only: word_unat_eq_iff)
  then show "n = m" by simp
qed simp

section \<open>Slots of one account\<close>

context sorted_set
begin

lemma acquire_members:
  assumes "acquireScript Z now cap ttl q z = (ok, z')"
  shows "if ok then members z' = insert q {m \<in> members z. now - ttl < the (zscore Z z m)} \<and> zscore Z z' q = Some now
           \<and> (\<forall>m s. m \<noteq> q \<longrightarrow> zscore Z z m = Some s \<longrightarrow> now - ttl < s \<longrightarrow> zscore Z z' m = Some s)
         else z' = zremrangebyscore Z (now - ttl) z"
  using assms by (auto simp: acquireScript_def Let_def in_members_iff score_add score_trim members_def
      split: if_splits option.splits)

lemma acquire_card:
  assumes "acquireScript Z now cap ttl q z = (ok, z')" and "int (card (members z)) \<le> cap"
  shows "int (card (members z')) \<le> cap"
proof -
  let ?t = "zremrangebyscore Z (now - ttl) z"
  have t: "card (members ?t) \<le> card (members z)" by (rule card_mono) (simp_all add: members_trim)
  show ?thesis
  proof (cases "zscore Z ?t q = None")
    case False
    then have "insert q (members ?t) = members ?t" by (auto simp: in_members_iff)
    then show ?thesis using assms t False by (auto simp: acquireScript_def Let_def)
  next
    case True
    then have "q \<notin> members ?t" by (simp add: in_members_iff)
    then show ?thesis
      using assms t True by (auto simp: acquireScript_def Let_def card_mem split: if_splits)
  qed
qed

lemma acquire_free:
  "acquireScript Z now cap ttl q z = (ok, z') \<Longrightarrow>
   int (card {m \<in> members z. now - ttl < the (zscore Z z m)}) < cap \<Longrightarrow> ok"
proof -
  assume a: "acquireScript Z now cap ttl q z = (ok, z')" "int (card {m \<in> members z. now - ttl < the (zscore Z z m)}) < cap"
  have "m \<in> members (zremrangebyscore Z (now - ttl) z) \<longleftrightarrow> m \<in> members z \<and> now - ttl < the (zscore Z z m)" for m
    unfolding in_trim_iff by (auto simp: in_members_iff)
  then have "members (zremrangebyscore Z (now - ttl) z) = {m \<in> members z. now - ttl < the (zscore Z z m)}"
    by blast
  then show ok using a by (auto simp: acquireScript_def Let_def card_mem split: if_splits)
qed

lemma drop_empty_score: "zscore Z (drop_empty Z z) = zscore Z z"
proof (cases "zcard Z z = 0")
  case True
  then have "members z = {}" by (simp add: card_mem)
  then have "zscore Z z m = None" for m by (auto simp: members_def)
  then show ?thesis using True by (simp add: drop_empty_def fun_eq_iff score_empty)
qed (simp add: drop_empty_def)

lemma drop_empty_members [simp]: "members (drop_empty Z z) = members z"
  by (simp add: members_def drop_empty_score)

lemma startup_members: "members (startupCleanupScript Z p z) = {m \<in> members z. has_prefix m p}"
proof -
  have "members (fold (\<lambda>m z. if has_prefix m p then z else zrem Z m z) ms z')
      = {m \<in> members z'. m \<in> set ms \<longrightarrow> has_prefix m p}" for ms z'
    by (induction ms arbitrary: z') auto
  then show ?thesis by (auto simp: startupCleanupScript_def range_mem)
qed

end

section \<open>Requests in flight\<close>

definition call_at :: "'r zset_ops \<Rightarrow> int \<Rightarrow> int \<Rightarrow> 'r redis_call" where
  "call_at Z now ttl = \<lparr>rc_Ops = Z, rc_Now = now, rc_SlotTTL = ttl, rc_Up = True\<rparr>"

lemma call_at_simps [simp]:
  "rc_Ops (call_at Z now ttl) = Z" "rc_Now (call_at Z now ttl) = now"
  "rc_SlotTTL (call_at Z now ttl) = ttl" "rc_Up (call_at Z now ttl)"
  by (simp_all add: call_at_def)

text \<open>The states of the requests on one account: the store, the second, and the requests that hold
  a release function with the second in which they took their slot. A release that does not
  reach the server ends the request and leaves the slot.\<close>

inductive slot_reach ::
    "'r zset_ops \<Rightarrow> int \<Rightarrow> int \<Rightarrow> int \<Rightarrow> 'r slot_store \<times> int \<times> (string \<times> int) set \<Rightarrow> bool"
  for Z a cap ttl where
  start: "ss_Account st a = zempty Z \<Longrightarrow> slot_reach Z a cap ttl (st, now, {})"
| acquired: "slot_reach Z a cap ttl (st, now, fl) \<Longrightarrow> q \<notin> fst ` fl \<Longrightarrow>
     cache_AcquireAccountSlot (call_at Z now ttl) a cap q st = (Inr True, st') \<Longrightarrow>
     slot_reach Z a cap ttl (st', now, insert (q, now) fl)"
| refused: "slot_reach Z a cap ttl (st, now, fl) \<Longrightarrow>
     cache_AcquireAccountSlot (call_at Z now ttl) a cap q st = (Inr False, st') \<Longrightarrow>
     slot_reach Z a cap ttl (st', now, fl)"
| released: "slot_reach Z a cap ttl (st, now, fl) \<Longrightarrow> (q, t) \<in> fl \<Longrightarrow>
     cache_ReleaseAccountSlot (call_at Z now ttl) a q st = (r, st') \<Longrightarrow>
     slot_reach Z a cap ttl (st', now, fl - {(q, t)})"
| release_lost: "slot_reach Z a cap ttl (st, now, fl) \<Longrightarrow> slot_reach Z a cap ttl (st, now, fl - {(q, t)})"
| counted: "slot_reach Z a cap ttl (st, now, fl) \<Longrightarrow>
     cache_GetAccountConcurrency (call_at Z now ttl) a st = (r, st') \<Longrightarrow> slot_reach Z a cap ttl (st', now, fl)"
| cleaned: "slot_reach Z a cap ttl (st, now, fl) \<Longrightarrow>
     cache_CleanupExpiredAccountSlots (call_at Z now ttl) a st = (r', st') \<Longrightarrow> slot_reach Z a cap ttl (st', now, fl)"
| elsewhere: "slot_reach Z a cap ttl (st, now, fl) \<Longrightarrow> ss_Account st' a = ss_Account st a \<Longrightarrow>
     slot_reach Z a cap ttl (st', now, fl)"
| tick: "slot_reach Z a cap ttl (st, now, fl) \<Longrightarrow> 0 \<le> d \<Longrightarrow> slot_reach Z a cap ttl (st, now + d, fl)"

context sorted_set
begin

definition slot_inv :: "int \<Rightarrow> int \<Rightarrow> int \<Rightarrow> 'r slot_store \<times> int \<times> (string \<times> int) set \<Rightarrow> bool" where
  "slot_inv a cap ttl sys = (case sys of (st, now, fl) \<Rightarrow>
     int (card (members (ss_Account st a))) \<le> cap \<and> inj_on fst fl
     \<and> (\<forall>(q, t) \<in> fl. now - t < ttl \<longrightarrow> zscore Z (ss_Account st a) q = Some t))"

lemma slot_inv_trim:
  assumes "slot_inv a cap ttl (st, now, fl)"
    and "zscore Z (ss_Account st' a) = zscore Z (zremrangebyscore Z (now - ttl) (ss_Account st a))"
  shows "slot_inv a cap ttl (st', now, fl)"
proof -
  have "members (ss_Account st' a) = members (zremrangebyscore Z (now - ttl) (ss_Account st a))"
    using assms(2) by (simp add: members_def)
  then have "card (members (ss_Account st' a)) \<le> card (members (ss_Account st a))"
    by (metis card_mono finite_mem members_trim)
  then show ?thesis
    using assms by (fastforce simp: slot_inv_def score_trim split: option.split)
qed

lemma acquire_store:
  "cache_AcquireAccountSlot (call_at Z now ttl) a cap q st = (Inr ok, st') \<Longrightarrow>
   acquireScript Z now cap ttl q (ss_Account st a) = (ok, ss_Account st' a)"
  by (auto simp: cache_AcquireAccountSlot_def split: prod.splits)

lemma release_store:
  "cache_ReleaseAccountSlot (call_at Z now ttl) a q st = (r, st') \<Longrightarrow>
   ss_Account st' a = zrem Z q (ss_Account st a)"
  by (auto simp: cache_ReleaseAccountSlot_def)

lemma count_store:
  "cache_GetAccountConcurrency (call_at Z now ttl) a st = (r, st') \<Longrightarrow>
   ss_Account st' a = zremrangebyscore Z (now - ttl) (ss_Account st a)"
  by (auto simp: cache_GetAccountConcurrency_def getCountScript_def Let_def)

lemma cleanup_store:
  "cache_CleanupExpiredAccountSlots (call_at Z now ttl) a st = (r, st') \<Longrightarrow>
   zscore Z (ss_Account st' a) = zscore Z (zremrangebyscore Z (now - ttl) (ss_Account st a))"
  by (auto simp: cache_CleanupExpiredAccountSlots_def cleanupExpiredSlotsScript_def drop_empty_score)

lemma slot_inv_acquire:
  assumes "slot_inv a cap ttl (st, now, fl)" "q \<notin> fst ` fl"
    and z: "acquireScript Z now cap ttl q (ss_Account st a) = (True, ss_Account st' a)"
  shows "slot_inv a cap ttl (st', now, insert (q, now) fl)"
proof -
  note m = acquire_members [OF z, simplified]
  have "zscore Z (ss_Account st' a) r = Some t" if "(r, t) \<in> fl" "now - t < ttl" for r t
  proof -
    have "zscore Z (ss_Account st a) r = Some t" "r \<noteq> q" using assms(1,2) that by (force simp: slot_inv_def)+
    then show ?thesis using m that(2) by auto
  qed
  moreover have "q \<notin> fst ` (fl - {(q, now)})" using assms(2) by blast
  then have "inj_on fst (insert (q, now) fl)" using assms(1) by (simp add: slot_inv_def)
  moreover have "int (card (members (ss_Account st' a))) \<le> cap"
    using acquire_card [OF z] assms(1) by (simp add: slot_inv_def)
  ultimately show ?thesis using m by (auto simp: slot_inv_def)
qed

lemma slot_inv_release:
  assumes "slot_inv a cap ttl (st, now, fl)" "(q, t) \<in> fl"
    and s: "ss_Account st' a = zrem Z q (ss_Account st a)"
  shows "slot_inv a cap ttl (st', now, fl - {(q, t)})"
proof -
  have "card (members (ss_Account st' a)) \<le> card (members (ss_Account st a))"
    unfolding s by (rule card_mono) auto
  moreover have "zscore Z (ss_Account st' a) r = Some u" if "(r, u) \<in> fl - {(q, t)}" "now - u < ttl" for r u
  proof -
    have "r \<noteq> q" using assms(1,2) that by (force simp: slot_inv_def inj_on_def)
    then show ?thesis using assms(1) that by (auto simp: slot_inv_def s score_rem)
  qed
  ultimately show ?thesis using assms(1) by (auto simp: slot_inv_def inj_on_diff)
qed

lemma slot_reach_inv: "slot_reach Z a cap ttl sys \<Longrightarrow> 0 \<le> cap \<Longrightarrow> slot_inv a cap ttl sys"
proof (induction sys rule: slot_reach.induct)
  case (refused st now fl q st')
  have "ss_Account st' a = zremrangebyscore Z (now - ttl) (ss_Account st a)"
    using acquire_members [OF acquire_store [OF refused.hyps(2)]] by simp
  then show ?case using slot_inv_trim [of a cap ttl st now fl st'] refused by simp
next
  case (elsewhere st now fl st')
  then show ?case by (simp add: slot_inv_def)
next
  case (tick st now fl d)
  then show ?case by (auto simp: slot_inv_def)
next
  case (release_lost st now fl q t)
  then show ?case by (auto simp: slot_inv_def inj_on_diff)
next
  case (start st now)
  then show ?case by (simp add: slot_inv_def)
next
  case (acquired st now fl q st')
  show ?case by (rule slot_inv_acquire [OF acquired.IH [OF acquired.prems] acquired.hyps(2)
        acquire_store [OF acquired.hyps(3)]])
next
  case (released st now fl q t r st')
  show ?case by (rule slot_inv_release [OF released.IH [OF released.prems] released.hyps(2)
        release_store [OF released.hyps(3)]])
next
  case (counted st now fl r st')
  show ?case by (rule slot_inv_trim [OF counted.IH [OF counted.prems]]) (simp only: count_store [OF counted.hyps(2)])
next
  case (cleaned st now fl r st')
  show ?case by (rule slot_inv_trim [OF cleaned.IH [OF cleaned.prems] cleanup_store [OF cleaned.hyps(2)]])
qed

lemma flight_bound:
  assumes "slot_inv a cap ttl (st, now, fl)"
  shows "int (card {p \<in> fl. now - snd p < ttl}) \<le> cap"
proof -
  let ?y = "{p \<in> fl. now - snd p < ttl}" and ?m = "members (ss_Account st a)"
  have inv: "int (card ?m) \<le> cap" "inj_on fst fl"
      "\<And>q t. (q, t) \<in> fl \<Longrightarrow> now - t < ttl \<Longrightarrow> zscore Z (ss_Account st a) q = Some t"
    using assms unfolding slot_inv_def by auto
  have "inj_on fst ?y" by (rule inj_on_subset [OF inv(2)]) blast
  moreover have "fst p \<in> ?m" if "p \<in> ?y" for p
    using inv(3) [of "fst p" "snd p"] that by (simp add: in_members_iff)
  then have "fst ` ?y \<subseteq> ?m" by blast
  ultimately have "card ?y \<le> card ?m" using finite_mem by (rule card_inj_on_le)
  then show ?thesis using inv(1) by linarith
qed

end


lemma one_request:
  "\<exists>st. slot_reach list_zset 1 1 60 (st, 10, {(''r1'', 10)})"
proof -
  let ?st = "empty_store list_zset"
  obtain ok z where z: "acquireScript list_zset 10 1 60 ''r1'' (zempty list_zset) = (ok, z)"
    by (cases "acquireScript list_zset 10 1 60 ''r1'' (zempty list_zset)")
  then have ok using zl.acquire_free [OF z] zl.members_empty by simp
  then have "slot_reach list_zset 1 1 60 (?st\<lparr>ss_Account := (ss_Account ?st)(1 := z)\<rparr>, 10, insert (''r1'', 10) {})"
    using z by (intro slot_reach.acquired [OF slot_reach.start [of ?st]])
      (auto simp: cache_AcquireAccountSlot_def empty_store_def)
  then show ?thesis by auto
qed



lemma int_div_less:
  fixes a c d :: int
  assumes "0 < c"
  shows "a div c < d \<longleftrightarrow> a < d * c"
proof -
  have "a = c * (a div c) + a mod c" "0 \<le> a mod c" "a mod c < c" using assms by simp_all
  then have "c * (a div c) \<le> a" "a < c * (a div c + 1)" unfolding distrib_left by linarith+
  moreover have "c * (a div c + 1) \<le> c * d" if "a div c < d" using assms that by (intro mult_left_mono) auto
  moreover have "c * d \<le> c * (a div c)" if "\<not> a div c < d" using assms that by (intro mult_left_mono) auto
  ultimately show ?thesis by (cases "a div c < d") (simp_all add: mult.commute)
qed

text \<open>A load rate below 100 means exactly that slots in use and waiting requests together are fewer
  than the capacity; the rate of an account without a limit is 0.\<close>
theorem load_below_limit:
  assumes "0 \<le> n" "0 \<le> w" "n + w < 2 ^ 50"
  shows "load_rate n w cap < 100 \<longleftrightarrow> cap \<le> 0 \<or> n + w < cap"
proof -
  have "i64 (n + w) = n + w" using assms by (simp add: i64_small)
  moreover have "i64 ((n + w) * 100) = (n + w) * 100" by (rule i64_small) (use assms in simp)
  ultimately have "i64 (i64 (n + w) * 100) = (n + w) * 100" by simp
  moreover have "go_div ((n + w) * 100) cap < 100 \<longleftrightarrow> n + w < cap" if "0 < cap"
  proof -
    have "go_div ((n + w) * 100) cap = (n + w) * 100 div cap" using assms that by (intro go_div_nonneg) simp_all
    also have "\<dots> < 100 \<longleftrightarrow> (n + w) * 100 < 100 * cap" by (rule int_div_less [OF that])
    also have "\<dots> \<longleftrightarrow> n + w < cap" by arith
    finally show ?thesis .
  qed
  ultimately show ?thesis by (simp add: load_rate_def)
qed

lemma load_below_limit_witness: "load_rate 2 1 4 < 100 \<and> \<not> load_rate 2 2 4 < 100"
  using load_below_limit [of 2 1 4] load_below_limit [of 2 2 4] by simp

text \<open>A request that runs longer than the time to live no longer counts: once every request in flight
  is that old, the next request gets a slot, so more requests are in flight than the account allows.\<close>
theorem long_requests_exceed:
  assumes "sorted_set Z" "0 < cap" "slot_reach Z a cap ttl (st, now, fl)" "finite fl" "int (card fl) = cap"
    and "\<And>m s. zscore Z (ss_Account st a) m = Some s \<Longrightarrow> s \<le> now - ttl" "q \<notin> fst ` fl"
  shows "\<exists>st'. slot_reach Z a cap ttl (st', now, insert (q, now) fl) \<and> cap < int (card (insert (q, now) fl))"
proof -
  obtain ok z where z: "acquireScript Z now cap ttl q (ss_Account st a) = (ok, z)"
    by (cases "acquireScript Z now cap ttl q (ss_Account st a)")
  have e: "{m \<in> sorted_set.members Z (ss_Account st a). now - ttl < the (zscore Z (ss_Account st a) m)} = {}"
    using assms(6) unfolding sorted_set.in_members_iff [OF assms(1)] by force
  have ok using sorted_set.acquire_free [OF assms(1) z, unfolded e] assms(2) by simp
  then have "slot_reach Z a cap ttl (st\<lparr>ss_Account := (ss_Account st)(a := z)\<rparr>, now, insert (q, now) fl)"
    using z by (intro slot_reach.acquired [OF assms(3,7)]) (simp add: cache_AcquireAccountSlot_def)
  moreover have "(q, now) \<notin> fl" using assms(7) by force
  ultimately show ?thesis using assms(4,5) by auto
qed

lemma long_requests_exceed_witness:
  "\<exists>st. slot_reach list_zset 1 1 60 (st, 70, {(''r2'', 70), (''r1'', 10)})"
proof -
  obtain st where s: "slot_reach list_zset 1 1 60 (st, 10, {(''r1'', 10)})" using one_request by (rule exE)
  have inv: "zl.slot_inv 1 1 60 (st, 10, {(''r1'', 10)})" by (rule zl.slot_reach_inv [OF s zero_le_one])
  have "slot_reach list_zset 1 1 60 (st, 70, {(''r1'', 10)})" using slot_reach.tick [OF s, of 60] by simp
  moreover have "s \<le> 70 - 60" if "zscore list_zset (ss_Account st 1) m = Some s" for m s
  proof -
    have m: "m \<in> zl.members (ss_Account st 1)" using that by (simp only: zl.in_members_iff) blast
    have r: "zscore list_zset (ss_Account st 1) ''r1'' = Some 10" "int (card (zl.members (ss_Account st 1))) \<le> 1"
      using inv unfolding zl.slot_inv_def by auto
    then have "''r1'' \<in> zl.members (ss_Account st 1)" by (simp only: zl.in_members_iff) blast
    then have "m = ''r1''" using m r(2) card_le_Suc0_iff_eq [OF zl.finite_mem] by simp
    then show ?thesis using r(1) that by simp
  qed
  ultimately show ?thesis
    using long_requests_exceed [OF zl.sorted_set_axioms, of 1 1 60 st 70 "{(''r1'', 10)}" "''r2''"] by auto
qed

context sorted_set
begin

lemma only_slot:
  assumes "acquireScript Z now 1 ttl q (zempty Z) = (True, z)"
  shows "members z = {q}" "zscore Z z q = Some now"
  using acquire_members [OF assms] by simp_all

lemma slot_taken:
  assumes "members z = {q}" "zscore Z z q = Some now" "0 < ttl" "q' \<noteq> q"
    and a: "acquireScript Z now 1 ttl q' z = (ok, z')"
  shows "\<not> ok"
proof
  assume ok
  then have "members z' = insert q' {m \<in> members z. now - ttl < the (zscore Z z m)}"
    using acquire_members [OF a] by (simp only: if_True)
  moreover have "{m \<in> members z. now - ttl < the (zscore Z z m)} = {q}"
    unfolding assms(1) using assms(2,3) by auto
  ultimately have "card (members z') = 2" using assms(4) by simp
  then show False using acquire_card [OF a] assms(1) by simp
qed

lemma startup_store:
  "cache_CleanupStaleProcessSlots (call_at Z now ttl) p st = (Inr (), st') \<Longrightarrow> p \<noteq> [] \<Longrightarrow>
   members (ss_Account st' b) = {m \<in> members (ss_Account st b). has_prefix m p}"
  by (auto simp: cache_CleanupStaleProcessSlots_def startup_members)

lemma startup_frees:
  assumes "p \<noteq> []" "\<not> has_prefix q p" "has_prefix q' p" "0 < ttl"
    and first: "cache_AcquireAccountSlot (call_at Z now ttl) a 1 q (empty_store Z) = (Inr True, st1)"
    and startup: "cache_CleanupStaleProcessSlots (call_at Z now ttl) p st1 = (Inr (), st2)"
  shows "fst (cache_AcquireAccountSlot (call_at Z now ttl) a 1 q' st2) = Inr True"
    and "fst (cache_AcquireAccountSlot (call_at Z now ttl) a 1 q' st1) = Inr False"
proof -
  have one: "members (ss_Account st1 a) = {q}" "zscore Z (ss_Account st1 a) q = Some now"
    using only_slot [of now ttl q "ss_Account st1 a"] acquire_store [OF first] by (simp_all add: empty_store_def)
  have none: "members (ss_Account st2 a) = {}"
    unfolding startup_store [OF startup assms(1)] one(1) using assms(2) by simp
  obtain ok3 z3 where z3: "acquireScript Z now 1 ttl q' (ss_Account st2 a) = (ok3, z3)"
    by (cases "acquireScript Z now 1 ttl q' (ss_Account st2 a)")
  have ok3 using acquire_free [OF z3] none by simp
  then show "fst (cache_AcquireAccountSlot (call_at Z now ttl) a 1 q' st2) = Inr True"
    by (simp add: cache_AcquireAccountSlot_def z3)
  obtain ok4 z4 where z4: "acquireScript Z now 1 ttl q' (ss_Account st1 a) = (ok4, z4)"
    by (cases "acquireScript Z now 1 ttl q' (ss_Account st1 a)")
  have "q' \<noteq> q" using assms(2,3) by blast
  then have "\<not> ok4" by (rule slot_taken [OF one assms(4) _ z4])
  then show "fst (cache_AcquireAccountSlot (call_at Z now ttl) a 1 q' st1) = Inr False"
    by (simp add: cache_AcquireAccountSlot_def z4)
qed

end

text \<open>C30: The cleanup that a process runs when it starts removes exactly the slots whose id does not
  carry its own prefix: a second process that starts next to a running one frees the slots that the
  running one still uses, and then gets the only slot of an account, which it is refused before.\<close>
theorem startup_cleanup_overcommits:
  assumes "sorted_set Z" "p \<noteq> []" "\<not> has_prefix q p" "has_prefix q' p" "0 < ttl"
    and "cache_AcquireAccountSlot (call_at Z now ttl) a 1 q (empty_store Z) = (Inr True, st1)"
    and "cache_CleanupStaleProcessSlots (call_at Z now ttl) p st1 = (Inr (), st2)"
  shows "sorted_set.members Z (ss_Account st2 b) = {m \<in> sorted_set.members Z (ss_Account st1 b). has_prefix m p}
    \<and> fst (cache_AcquireAccountSlot (call_at Z now ttl) a 1 q' st2) = Inr True
    \<and> fst (cache_AcquireAccountSlot (call_at Z now ttl) a 1 q' st1) = Inr False"
  using sorted_set.startup_store [OF assms(1,7,2)] sorted_set.startup_frees [OF assms] by blast

lemma startup_cleanup_overcommits_witness:
  "\<exists>st1 st2. fst (cache_AcquireAccountSlot (call_at list_zset 10 60) 1 1 ''rb-1'' st2) = Inr True
     \<and> cache_AcquireAccountSlot (call_at list_zset 10 60) 1 1 ''ra-1'' (empty_store list_zset) = (Inr True, st1)
     \<and> cache_CleanupStaleProcessSlots (call_at list_zset 10 60) ''rb'' st1 = (Inr (), st2)"
proof -
  obtain ok z where z: "acquireScript list_zset 10 1 60 ''ra-1'' (zempty list_zset) = (ok, z)"
    by (cases "acquireScript list_zset 10 1 60 ''ra-1'' (zempty list_zset)")
  then have ok using zl.acquire_free [OF z] zl.members_empty by simp
  then obtain st1 where 1: "cache_AcquireAccountSlot (call_at list_zset 10 60) 1 1 ''ra-1'' (empty_store list_zset)
      = (Inr True, st1)" using z by (simp add: cache_AcquireAccountSlot_def empty_store_def)
  obtain st2 where 2: "cache_CleanupStaleProcessSlots (call_at list_zset 10 60) ''rb'' st1 = (Inr (), st2)"
    by (simp add: cache_CleanupStaleProcessSlots_def)
  have "\<not> has_prefix ''ra-1'' ''rb''" "has_prefix ''rb-1'' ''rb''" by (simp_all add: has_prefix_def)
  then have "fst (cache_AcquireAccountSlot (call_at list_zset 10 60) 1 1 ''rb-1'' st2) = Inr True"
    using startup_cleanup_overcommits [OF zl.sorted_set_axioms _ _ _ _ 1 2, of "''rb-1''" 0] by simp
  then show ?thesis using 1 2 by blast
qed

end
