(* ===== verification/GatewayProps.thy ===== *)
theory GatewayProps
  imports GatewayLoad ConcurrencyProps
begin

text \<open>
  What the selection of an account guarantees: the scan keeps an account that no other one is
  preferred to; fallback groups are followed to the first one that the client may use, or to
  a cycle; the selected account satisfies every requirement of the request, with and without
  load information; and the loop that retries after a refused session ends.
\<close>

section \<open>Preferences between accounts\<close>

text \<open>A strict partial order is all that the scan needs.\<close>

locale preference =
  fixes better :: "account \<Rightarrow> account \<Rightarrow> bool"
  assumes irrefl: "\<not> better a a"
    and trans: "better a b \<Longrightarrow> better b c \<Longrightarrow> better a c"
begin

lemma scan_none: "pick_best better as = None \<longleftrightarrow> as = []"
proof (induction as rule: rev_induct)
  case (snoc x xs)
  then show ?case by (auto simp: pick_best_def split: option.split)
qed (simp add: pick_best_def)

lemma scan_best:
  "pick_best better as = Some a \<Longrightarrow> a \<in> set as \<and> (\<forall>b \<in> set as. \<not> better b a)"
proof (induction as arbitrary: a rule: rev_induct)
  case (snoc x xs)
  show ?case
  proof (cases "pick_best better xs")
    case None
    then have "xs = []" by (simp only: scan_none)
    then show ?thesis using snoc.prems by (simp add: pick_best_def irrefl)
  next
    case (Some s)
    then have a: "a = (if better x s then x else s)" using snoc.prems by (simp add: pick_best_def split: if_splits)
    have s: "s \<in> set xs" "\<not> better b s" if "b \<in> set xs" for b using snoc.IH [OF Some] that by auto
    have "s \<in> set xs" using snoc.IH [OF Some] by simp
    moreover have "\<not> better b x" if "better x s" "b \<in> set xs" for b using s(2) [OF that(2)] trans that(1) by blast
    ultimately show ?thesis using a s irrefl by auto
  qed
qed (simp add: pick_best_def)

end

lemma used_before_irrefl: "\<not> d \<Longrightarrow> \<not> used_before d t t"
  by (cases t) (auto simp: used_before_def)

interpretation single: preference "better_single p"
proof
  show "\<not> better_single p a a" for a by (simp add: better_single_def used_before_irrefl)
  show "better_single p a c" if "better_single p a b" "better_single p b c" for a b c
    using that by (auto simp: better_single_def used_before_def split: if_splits option.splits)
qed

interpretation mixed: preference "better_mixed p"
proof
  show "\<not> better_mixed p a a" for a by (simp add: better_mixed_def used_before_irrefl)
  show "better_mixed p a c" if "better_mixed p a b" "better_mixed p b c" for a b c
    using that by (auto simp: better_mixed_def used_before_def split: if_splits option.splits)
qed

definition served_first :: "account \<Rightarrow> account \<Rightarrow> bool" where
  "served_first a b \<longleftrightarrow> acc_Priority a \<le> acc_Priority b
     \<and> (acc_Priority a = acc_Priority b \<longrightarrow>
         (case (acc_LastUsedAt a, acc_LastUsedAt b) of
            (None, _) \<Rightarrow> True | (Some s, None) \<Rightarrow> False | (Some s, Some t) \<Rightarrow> s \<le> t))"

lemma not_better:
  "\<not> better_single p b a \<Longrightarrow> served_first a b"
  "\<not> better_mixed p b a \<Longrightarrow> served_first a b"
  by (cases "acc_LastUsedAt a"; cases "acc_LastUsedAt b";
      simp add: better_single_def better_mixed_def used_before_def served_first_def split: if_splits)+

text \<open>C27: The scan of the selection on one platform, and the one mixed with Antigravity, return an account
  exactly when there is one; its priority is the smallest, and among the accounts of that priority
  none was never used while it was used, and none was used before it.\<close>
theorem scan_optimal:
  "(pick_best (better_single p) as = None \<longleftrightarrow> as = [])
   \<and> (pick_best (better_mixed p) as = None \<longleftrightarrow> as = [])
   \<and> (\<forall>a. pick_best (better_single p) as = Some a \<or> pick_best (better_mixed p) as = Some a \<longrightarrow>
        a \<in> set as \<and> (\<forall>b \<in> set as. served_first a b))"
proof (intro conjI allI impI)
  fix a
  assume "pick_best (better_single p) as = Some a \<or> pick_best (better_mixed p) as = Some a"
  then show "a \<in> set as" "\<forall>b \<in> set as. served_first a b"
    using single.scan_best mixed.scan_best not_better by (elim disjE; fast)+
qed (rule single.scan_none mixed.scan_none)+

lemma scan_optimal_witness:
  "\<exists>a :: account. pick_best (better_mixed False) [a] = Some a \<and> served_first a a"
proof -
  fix a :: account
  have "pick_best (better_mixed False) [a] = Some a" by (simp add: pick_best_def)
  moreover from this have "served_first a a" using scan_optimal [of False "[a]"] by simp
  ultimately show ?thesis by blast
qed

section \<open>Fallback groups\<close>

text \<open>A client passes from a group to its fallback when the group admits only Claude Code and the
  client is another one.\<close>

inductive falls_to :: "gw_ctx \<Rightarrow> (int \<times> group) list \<Rightarrow> int \<Rightarrow> int \<Rightarrow> bool" for cx groups where
  here: "falls_to cx groups i i"
| step: "resolveGroupByID cx groups i = Some g \<Longrightarrow> grp_ClaudeCodeOnly g \<Longrightarrow> \<not> cx_ClaudeCode cx \<Longrightarrow>
     grp_FallbackGroupID g = Some f \<Longrightarrow> falls_to cx groups f j \<Longrightarrow> falls_to cx groups i j"

definition admitted_by :: "gw_ctx \<Rightarrow> (int \<times> group) list \<Rightarrow> int \<Rightarrow> group \<Rightarrow> bool" where
  "admitted_by cx groups j g \<longleftrightarrow>
     resolveGroupByID cx groups j = Some g \<and> (\<not> grp_ClaudeCodeOnly g \<or> cx_ClaudeCode cx)"

lemma fallback_chain_step:
  assumes "i \<notin> set visited" "resolveGroupByID cx groups i = Some g"
  shows "fallback_chain cx groups i visited =
    (if \<not> grp_ClaudeCodeOnly g \<or> cx_ClaudeCode cx then Inr (g, i)
     else (case grp_FallbackGroupID g of None \<Rightarrow> Inl ErrClaudeCodeOnly
           | Some f \<Rightarrow> fallback_chain cx groups f (i # visited)))"
  using assms by (simp add: fallback_chain.simps [of cx groups i])

lemma fallback_chain_sound:
  "fallback_chain cx groups i visited = Inr (g, j) \<Longrightarrow> falls_to cx groups i j \<and> admitted_by cx groups j g"
proof (induction cx groups i visited rule: fallback_chain.induct)
  case (1 cx groups i visited)
  then have i: "i \<notin> set visited" by (auto simp: fallback_chain.simps [of cx groups i])
  with 1 obtain h where h: "resolveGroupByID cx groups i = Some h"
    by (cases "resolveGroupByID cx groups i") (auto simp: fallback_chain.simps [of cx groups i])
  note r = 1(2) [unfolded fallback_chain_step [OF i h]]
  show ?case
  proof (cases "\<not> grp_ClaudeCodeOnly h \<or> cx_ClaudeCode cx")
    case True
    then show ?thesis using r h by (auto simp: admitted_by_def intro: falls_to.here)
  next
    case False
    then obtain f where f: "grp_FallbackGroupID h = Some f" "fallback_chain cx groups f (i # visited) = Inr (g, j)"
      using r by (cases "grp_FallbackGroupID h") auto
    with 1(1) [OF i h False f(1)] False h show ?thesis by (auto intro: falls_to.step)
  qed
qed

text \<open>On the way to an admitting group no group is met twice, since the number of steps that
  remain is determined.\<close>

inductive falls_in :: "gw_ctx \<Rightarrow> (int \<times> group) list \<Rightarrow> int \<Rightarrow> nat \<Rightarrow> int \<Rightarrow> bool" for cx groups where
  here: "falls_in cx groups i 0 i"
| step: "resolveGroupByID cx groups i = Some g \<Longrightarrow> grp_ClaudeCodeOnly g \<Longrightarrow> \<not> cx_ClaudeCode cx \<Longrightarrow>
     grp_FallbackGroupID g = Some f \<Longrightarrow> falls_in cx groups f n j \<Longrightarrow> falls_in cx groups i (Suc n) j"

lemma falls_to_in: "falls_to cx groups i j \<Longrightarrow> \<exists>n. falls_in cx groups i n j"
  by (induction rule: falls_to.induct) (blast intro: falls_in.intros)+

lemma falls_in_zero: "falls_in cx groups i 0 j \<Longrightarrow> i = j"
  by (erule falls_in.cases) simp_all

lemma falls_in_blocked: "falls_in cx groups j (Suc n) k \<Longrightarrow> \<not> admitted_by cx groups j g"
  by (erule falls_in.cases) (auto simp: admitted_by_def)

lemma falls_in_Suc:
  assumes "falls_in cx groups i (Suc n) j" "resolveGroupByID cx groups i = Some h" "grp_FallbackGroupID h = Some f"
  shows "falls_in cx groups f n j"
  using assms(1) by (cases rule: falls_in.cases) (use assms(2,3) in simp)

lemma falls_in_unique:
  "falls_in cx groups i n j \<Longrightarrow> falls_in cx groups i m j \<Longrightarrow> admitted_by cx groups j g \<Longrightarrow> n = m"
proof (induction arbitrary: m rule: falls_in.induct)
  case (here i)
  then show ?case using falls_in_blocked by (cases m) blast+
next
  case (step i h f n j)
  have i: "falls_in cx groups i (Suc n) j" by (rule falls_in.step [OF step.hyps])
  show ?case
  proof (cases m)
    case 0
    then show ?thesis using falls_in_zero step.prems falls_in_blocked [OF i] by blast
  next
    case (Suc m')
    then have "falls_in cx groups f m' j" using falls_in_Suc step.prems(1) step.hyps by blast
    then show ?thesis using step.IH [of m'] step.prems(2) Suc by simp
  qed
qed

lemma fallback_chain_complete:
  "falls_in cx groups i n j \<Longrightarrow> admitted_by cx groups j g \<Longrightarrow>
   (\<forall>v \<in> set visited. \<exists>m > n. falls_in cx groups v m j) \<Longrightarrow>
   fallback_chain cx groups i visited = Inr (g, j)"
proof (induction arbitrary: visited rule: falls_in.induct)
  case (here i)
  then have "i \<notin> set visited" by (metis falls_in.here falls_in_unique less_irrefl)
  then show ?case using here.prems by (auto simp: admitted_by_def fallback_chain_step)
next
  case (step i h f n j)
  have i: "falls_in cx groups i (Suc n) j" by (rule falls_in.step [OF step.hyps])
  then have "i \<notin> set visited" using step.prems by (metis falls_in_unique less_irrefl)
  then have "fallback_chain cx groups i visited = fallback_chain cx groups f (i # visited)"
    using step.hyps by (simp add: fallback_chain_step)
  moreover have "\<forall>v \<in> set (i # visited). \<exists>m > n. falls_in cx groups v m j"
    using step.prems(2) i by (auto intro: Suc_lessD)
  ultimately show ?case using step.IH [OF step.prems(1)] by simp
qed

text \<open>C26: The group that serves a request is the group of its key or the first one on the way through its
  fallback groups that admits the client; the request gets that group whenever there is one, so
  the refusal of a cycle refuses no request that could be served.\<close>
theorem gateway_group_found:
  "resolveGatewayGroup cx groups (Some i) = Inr (Some (g, j)) \<longleftrightarrow>
     falls_to cx groups i j \<and> admitted_by cx groups j g"
proof
  assume "resolveGatewayGroup cx groups (Some i) = Inr (Some (g, j))"
  then have "fallback_chain cx groups i [] = Inr (g, j)"
    by (cases "fallback_chain cx groups i []") (auto simp: resolveGatewayGroup_def)
  then show "falls_to cx groups i j \<and> admitted_by cx groups j g" by (rule fallback_chain_sound)
next
  assume a: "falls_to cx groups i j \<and> admitted_by cx groups j g"
  then obtain n where "falls_in cx groups i n j" using falls_to_in by blast
  then have "fallback_chain cx groups i [] = Inr (g, j)" using a by (intro fallback_chain_complete) auto
  then show "resolveGatewayGroup cx groups (Some i) = Inr (Some (g, j))" by (simp add: resolveGatewayGroup_def)
qed

section \<open>What the checks establish\<close>

text \<open>The requirements of a request that do not depend on caches: they hold of an account at the instant
  of the call.\<close>

definition eligible :: "'r gw_env \<Rightarrow> gw_ctx \<Rightarrow> int set \<Rightarrow> string \<Rightarrow> account \<Rightarrow> bool" where
  "eligible e cx excluded requestedModel a \<longleftrightarrow>
     acc_ID a \<notin> excluded \<and> isAccountSchedulableForSelection e a \<and> supports_model e cx a requestedModel
     \<and> isAccountSchedulableForModelSelection e cx a requestedModel \<and> isAccountSchedulableForQuota e a"

lemma eligible_thinking:
  "cx_Thinking cx = cx_Thinking cx' \<Longrightarrow> eligible e cx excluded m a = eligible e cx' excluded m a"
  by (simp add: eligible_def supports_model_def isAccountSchedulableForModelSelection_def)

lemma checks_cond [simp]: "fst (checks (cond b # cs) st) \<longleftrightarrow> b \<and> fst (checks cs st)"
  by (simp add: cond_def split: bool.split)

lemma checks_Cons: "fst (checks (c # cs) st) \<longleftrightarrow> fst (c st) \<and> fst (checks cs (snd (c st)))"
  by (simp split: prod.split bool.split)

lemma checks_append: "fst (checks (cs @ ds) st) \<longleftrightarrow> fst (checks cs st) \<and> fst (checks ds (snd (checks cs st)))"
  by (induction cs arbitrary: st) (auto split: prod.split bool.split)

declare checks.simps(2) [simp del]

lemma capacity_ok:
  assumes "fst (checks (capacity_checks e cx a m s) st)"
  shows "isAccountSchedulableForModelSelection e cx a m \<and> isAccountSchedulableForQuota e a"
  using assms by (simp add: capacity_checks_def)

lemma loop_check_ok:
  assumes "fst (loop_check e cx g excluded m mixed up a st)"
  shows "eligible e cx excluded m a \<and> (mixed \<longrightarrow> acc_Platform a = PlatformAntigravity \<longrightarrow> IsMixedSchedulingEnabled a)"
  using assms by (auto simp: loop_check_def checks_append checks_Cons cond_def eligible_def dest!: capacity_ok)

lemma load_check_ok:
  assumes "fst (load_check e cx excluded platform useMixed m s a st)"
  shows "eligible e cx excluded m a \<and> isAccountAllowedForPlatform a platform useMixed"
  using assms by (auto simp: load_check_def checks_append checks_Cons cond_def eligible_def dest!: capacity_ok)

lemma collect_ok: "a \<in> set (fst (collect p as st)) \<Longrightarrow> a \<in> set as \<and> (\<exists>st'. fst (p a st'))"
proof (induction as arbitrary: st)
  case (Cons x xs)
  show ?case
  proof (cases "p x st")
    case (Pair ok st1)
    then have "a = x \<and> fst (p x st) \<or> a \<in> set (fst (collect p xs st1))"
      using Cons.prems by (auto split: prod.splits if_splits)
    then show ?thesis using Cons.IH by auto
  qed
qed simp

lemma pick_best_mem: "pick_best better as = Some a \<Longrightarrow> a \<in> set as"
proof (induction as arbitrary: a rule: rev_induct)
  case (snoc x xs)
  then show ?case
    by (cases "pick_best better xs") (auto simp: pick_best_def split: if_splits)
qed (simp add: pick_best_def)

lemma prefetch_thinking [simp]: "cx_Thinking (fst (prefetch e as cx st)) = cx_Thinking cx"
  by (simp add: prefetch_def withWindowCostPrefetch_def withRPMPrefetch_def Let_def split: prod.split sum.split)

lemma withGroup_thinking [simp]: "cx_Thinking (withGroupContext cx g) = cx_Thinking cx"
  by (simp add: withGroupContext_def split: option.split)

lemma withGroup_forced [simp]: "cx_ForcePlatform (withGroupContext cx g) = cx_ForcePlatform cx"
  by (simp add: withGroupContext_def split: option.split)

lemma scan_ok:
  assumes "scan e cx groupID sh better p as st = (r, cx', st')"
  shows "cx' = fst (prefetch e as cx st)"
    and "r = Some a \<Longrightarrow> a \<in> set as \<and> (\<exists>st'. fst (p cx' a st'))"
proof -
  obtain cx1 st1 where 1: "prefetch e as cx st = (cx1, st1)" by fastforce
  obtain cands st2 where 2: "collect (p cx1) as st1 = (cands, st2)" by fastforce
  show c: "cx' = fst (prefetch e as cx st)"
    using assms 1 2 by (auto simp: scan_def split: option.splits)
  show "a \<in> set as \<and> (\<exists>st'. fst (p cx' a st'))" if "r = Some a"
  proof -
    have "pick_best better cands = Some a" using assms 1 2 that by (auto simp: scan_def split: option.splits)
    then have "a \<in> set cands" by (rule pick_best_mem)
    then show ?thesis using collect_ok [of a "p cx1" as st1] 1 2 c by simp
  qed
qed

section \<open>Soundness of the selection without loads\<close>

text \<open>What the scheduler snapshot promises: the account it returns has the id that was asked for, and the
  accounts it lists are of the platform, or in mixed mode Antigravity accounts that are enabled
  for mixed scheduling.\<close>

definition mixed_mode :: "string \<Rightarrow> bool \<Rightarrow> bool" where
  "mixed_mode platform hasForce \<longleftrightarrow> (platform = PlatformAnthropic \<or> platform = PlatformGemini) \<and> \<not> hasForce"

definition snapshot_ok :: "'r gw_env \<Rightarrow> bool" where
  "snapshot_ok e \<longleftrightarrow>
     (\<forall>sn. ge_Snapshot e = Some sn \<longrightarrow>
        (\<forall>i a. sn_GetAccount sn i = Some (Some a) \<longrightarrow> acc_ID a = i)
        \<and> (\<forall>i p f as mx. sn_ListSchedulableAccounts sn i p f = Some (as, mx) \<longrightarrow>
             mx = mixed_mode p f \<and> (\<forall>a \<in> set as. isAccountAllowedForPlatform a p mx)))"

lemma getSchedulable_id:
  "snapshot_ok e \<Longrightarrow> getSchedulableAccount e i st = Some (Some a) \<Longrightarrow> acc_ID a = i"
  by (auto simp: snapshot_ok_def getSchedulableAccount_def account_GetByID_def find_Some_iff split: option.splits)

lemma set_first_of_each_id: "set (first_of_each_id as) \<subseteq> set as"
  by (induction as) auto

lemma queried_platform:
  "a \<in> set (queryAccountsByGroup now i ps tbl) \<Longrightarrow> ps \<noteq> [] \<Longrightarrow> acc_Platform a \<in> set ps"
  using set_first_of_each_id by (fastforce simp: queryAccountsByGroup_def)

lemma listed_platform:
  assumes "snapshot_ok e" "listSchedulableAccounts e g p f st = Inr (as, mx)"
  shows "mx = mixed_mode p f \<and> (\<forall>a \<in> set as. isAccountAllowedForPlatform a p mx)"
proof (cases "ge_Snapshot e")
  case (Some sn)
  then have "sn_ListSchedulableAccounts sn g p f = Some (as, mx)"
    using assms(2) by (cases "sn_ListSchedulableAccounts sn g p f") (auto simp: listSchedulableAccounts_def)
  then show ?thesis using assms(1) Some unfolding snapshot_ok_def by blast
next
  case None
  then have m: "mx = mixed_mode p f"
    using assms(2) by (auto simp: listSchedulableAccounts_def mixed_mode_def Let_def split: if_splits)
  show ?thesis
  proof (cases "mixed_mode p f")
    case True
    let ?q = "\<lambda>a. \<not> (acc_Platform a = PlatformAntigravity \<and> \<not> IsMixedSchedulingEnabled a)"
    obtain bs where "as = filter ?q bs" "\<forall>a \<in> set bs. acc_Platform a \<in> {p, PlatformAntigravity}"
      using assms(2) None True
      by (fastforce simp: listSchedulableAccounts_def mixed_mode_def Let_def ListSchedulableByPlatforms_def
          ListSchedulableByGroupIDAndPlatforms_def ListSchedulableUngroupedByPlatforms_def
          dest: queried_platform split: option.splits if_splits)
    then show ?thesis using m True by (auto simp: isAccountAllowedForPlatform_def)
  next
    case False
    then show ?thesis using assms(2) None m
      by (auto simp: listSchedulableAccounts_def mixed_mode_def Let_def ListSchedulableByPlatform_def
          ListSchedulableByGroupIDAndPlatform_def ListSchedulableUngroupedByPlatform_def
          isAccountAllowedForPlatform_def dest!: queried_platform split: option.splits if_splits)
  qed
qed

lemma sticky_block_ok:
  assumes "snapshot_ok e" "sticky_block e cx g sh m excluded allowed pre post st = (Some a, st')"
  shows "eligible e cx excluded m a \<and> pre a \<and> post a"
proof -
  obtain i where i: "cached_sticky e g sh st = Some i" "allowed i" "i \<notin> excluded"
    using assms(2) by (cases "cached_sticky e g sh st") (auto simp: sticky_block_def split: if_splits)
  obtain oa where oa: "getSchedulableAccount e i st = Some oa"
    using assms(2) i by (cases "getSchedulableAccount e i st") (auto simp: sticky_block_def)
  let ?clear = "shouldClearStickySession e oa m"
  have c: "\<not> ?clear" using assms(2) i oa by (auto simp: sticky_block_def Let_def split: if_splits)
  obtain b where b: "oa = Some b"
    using assms(2) i oa c by (cases oa) (auto simp: sticky_block_def Let_def split: if_splits)
  let ?cs = "[cond (pre b), cond (supports_model e cx b m)] @ capacity_checks e cx b m True @ [cond (post b)]"
  obtain ok st2 where r: "checks ?cs st = (ok, st2)" by fastforce
  have ab: "a = b \<and> ok" using assms(2) i oa b c r by (auto simp: sticky_block_def Let_def split: if_splits)
  then have "fst (checks ?cs st)" using r by simp
  then have k: "pre b" "supports_model e cx b m" "post b"
    "isAccountSchedulableForModelSelection e cx b m" "isAccountSchedulableForQuota e b"
    by (auto simp: checks_append checks_Cons cond_def dest!: capacity_ok)
  have "acc_ID b = i" using getSchedulable_id [OF assms(1)] oa b by simp
  moreover have "isAccountSchedulableForSelection e b"
    using c b by (simp add: shouldClearStickySession_def isAccountSchedulableForSelection_def)
  ultimately show ?thesis using k ab i by (simp add: eligible_def)
qed

text \<open>An account suits a request when it is eligible and of the platform.\<close>

definition suits :: "'r gw_env \<Rightarrow> gw_ctx \<Rightarrow> int set \<Rightarrow> string \<Rightarrow> string \<Rightarrow> bool \<Rightarrow> account \<Rightarrow> bool" where
  "suits e cx excluded m platform mixed a \<longleftrightarrow>
     eligible e cx excluded m a \<and> isAccountAllowedForPlatform a platform mixed"

lemma suits_thinking: "cx_Thinking cx = cx_Thinking cx' \<Longrightarrow> suits e cx ex m p x a = suits e cx' ex m p x a"
  unfolding suits_def using eligible_thinking [of cx cx'] by blast

lemma scanned_suits:
  assumes "\<forall>a \<in> set as. isAccountAllowedForPlatform a p x"
    and "scan e cx g sh better q as st = (Some a, cx', st')"
    and "\<And>cx a st. fst (q cx a st) \<Longrightarrow> eligible e cx excluded m a"
  shows "suits e cx excluded m p x a"
proof -
  note s = scan_ok [OF assms(2)]
  have "eligible e cx' excluded m a" using s(2) assms(3) by blast
  moreover have "cx_Thinking cx' = cx_Thinking cx" by (simp only: s(1) prefetch_thinking)
  ultimately have "eligible e cx excluded m a" using eligible_thinking [of cx' cx] by blast
  then show ?thesis using s(2) assms(1) by (simp add: suits_def)
qed

lemma sticky_suits:
  assumes "snapshot_ok e" "sticky_block e cx g sh m excluded allowed pre post st = (Some a, st')"
    and "\<And>a. pre a \<Longrightarrow> post a \<Longrightarrow> isAccountAllowedForPlatform a p x"
  shows "suits e cx excluded m p x a"
  using sticky_block_ok [OF assms(1,2)] assms(3) by (simp add: suits_def)

lemma select_normal_suits:
  assumes ok: "snapshot_ok e"
    and loaded: "\<And>as. loaded = Some as \<Longrightarrow> \<forall>a \<in> set as. isAccountAllowedForPlatform a (sel_platform sel) x"
    and x: "x = mixed_mode (sel_platform sel) (sel_force sel)"
    and post: "\<And>a. sel_pre sel a \<Longrightarrow> sel_post sel a \<Longrightarrow> isAccountAllowedForPlatform a (sel_platform sel) x"
    and r: "select_normal e g sh m excluded sel cx loaded st = (Inr a, st')"
  shows "suits e cx excluded m (sel_platform sel) x a"
proof -
  obtain oa st1 where s: "sticky_block e cx g sh m excluded (\<lambda>_. True) (sel_pre sel) (sel_post sel) st = (oa, st1)"
    by fastforce
  show ?thesis
  proof (cases oa)
    case (Some b)
    then have "b = a" using r s by (simp add: select_normal_def)
    then show ?thesis using sticky_suits [OF ok] s Some post by blast
  next
    case None
    let ?l = "case loaded of Some as \<Rightarrow> Inr as
      | None \<Rightarrow> and_then (listSchedulableAccounts e g (sel_platform sel) (sel_force sel) st1) (\<lambda>r. Inr (fst r))"
    obtain as where l: "?l = Inr as" using r s None by (cases ?l) (simp_all add: select_normal_def)
    have p: "\<forall>a \<in> set as. isAccountAllowedForPlatform a (sel_platform sel) x"
    proof (cases loaded)
      case None
      then obtain mx where "listSchedulableAccounts e g (sel_platform sel) (sel_force sel) st1 = Inr (as, mx)"
        using l by (cases "listSchedulableAccounts e g (sel_platform sel) (sel_force sel) st1") auto
      then show ?thesis using listed_platform [OF ok] x by blast
    next
      case (Some bs)
      then show ?thesis using l loaded by simp
    qed
    let ?q = "\<lambda>cx. loop_check e cx (group_of e g) excluded m (sel_mixed sel)
        (if needsUpstreamChannelRestrictionCheck e g then g else None)"
    obtain ob cx' st2 where c: "scan e cx g sh (sel_better sel) ?q as st1 = (ob, cx', st2)"
      using prod_cases3 by blast
    have "ob = Some a" using r s None l c by (cases ob) (auto simp: select_normal_def)
    then show ?thesis using scanned_suits [OF p c [unfolded \<open>ob = Some a\<close>]] loop_check_ok by blast
  qed
qed

lemma select_with_suits:
  assumes ok: "snapshot_ok e"
    and x: "x = mixed_mode (sel_platform sel) (sel_force sel)"
    and post: "\<And>a. sel_pre sel a \<Longrightarrow> sel_post sel a \<Longrightarrow> isAccountAllowedForPlatform a (sel_platform sel) x"
    and routed: "\<And>a. sel_pre sel a \<Longrightarrow> sel_post_routed sel a \<Longrightarrow> isAccountAllowedForPlatform a (sel_platform sel) x"
    and r: "select_with e cx g sh m excluded sel st = (Inr a, st')"
  shows "suits e cx excluded m (sel_platform sel) x a"
proof -
  let ?r = "routingAccountIDsForRequest cx (ge_Groups e) g m (sel_platform sel)"
  note n = select_normal_suits [OF ok _ x post]
  show ?thesis
  proof (cases "?r = []")
    case True
    then show ?thesis using r n [of None] by (simp add: select_with_def Let_def)
  next
    case False
    obtain oa st1 where s: "sticky_block e cx g sh m excluded (\<lambda>i. i \<in> set ?r) (sel_pre sel) (sel_post_routed sel) st
        = (oa, st1)" by fastforce
    show ?thesis
    proof (cases oa)
      case (Some b)
      then have "b = a" using r s False by (simp add: select_with_def Let_def)
      then show ?thesis using sticky_suits [OF ok] s Some routed by blast
    next
      case None
      obtain as mx where l: "listSchedulableAccounts e g (sel_platform sel) (sel_force sel) st1 = Inr (as, mx)"
        using r s None False
        by (cases "listSchedulableAccounts e g (sel_platform sel) (sel_force sel) st1") (auto simp: select_with_def Let_def)
      have p: "\<forall>a \<in> set as. isAccountAllowedForPlatform a (sel_platform sel) x"
        using listed_platform [OF ok l] x by blast
      let ?q = "routed_loop_check e g ?r excluded m (sel_mixed sel)"
      have q: "eligible e cx excluded m a" if "fst (?q cx a st)" for cx a st
        using that by (auto simp: routed_loop_check_def split: if_splits dest: loop_check_ok)
      obtain ob cx' st2 where c: "scan e cx g sh (sel_better sel) ?q as st1 = (ob, cx', st2)"
        using prod_cases3 by blast
      show ?thesis
      proof (cases ob)
        case (Some b)
        then have "b = a" using r s None False l c by (simp add: select_with_def Let_def)
        then show ?thesis using scanned_suits [OF p c [unfolded Some], of excluded m] q by blast
      next
        case obN: None
        have "select_normal e g sh m excluded sel cx' (Some as) st2 = (Inr a, st')"
          using r s None False l c obN by (simp add: select_with_def Let_def)
        then have "suits e cx' excluded m (sel_platform sel) x a" using n [of "Some as"] p by blast
        moreover have "cx_Thinking cx' = cx_Thinking cx" by (simp only: scan_ok(1) [OF c] prefetch_thinking)
        ultimately show ?thesis using suits_thinking by blast
      qed
    qed
  qed
qed

lemma single_suits:
  assumes "snapshot_ok e"
    and "selectAccountForModelWithPlatform e cx g sh m excluded p st = (Inr a, st')"
  shows "suits e cx excluded m p (mixed_mode p (forced cx \<noteq> None)) a"
proof -
  let ?sel = "\<lparr>sel_platform = p, sel_force = forced cx \<noteq> None,
        sel_better = better_single (p = PlatformGemini), sel_mixed = False,
        sel_pre = (\<lambda>a. acc_Platform a = p),
        sel_post_routed = (\<lambda>a. \<not> isStickyAccountUpstreamRestricted e g a m),
        sel_post = (\<lambda>_. True)\<rparr>"
  have r: "select_with e cx g sh m excluded ?sel st = (Inr a, st')"
    using assms(2) by (simp only: selectAccountForModelWithPlatform_def)
  have "suits e cx excluded m (sel_platform ?sel) (mixed_mode (sel_platform ?sel) (sel_force ?sel)) a"
    by (rule select_with_suits [OF assms(1) refl _ _ r]) (simp_all add: isAccountAllowedForPlatform_def)
  then show ?thesis by simp
qed

lemma mixed_suits:
  assumes "snapshot_ok e" "p = PlatformAnthropic \<or> p = PlatformGemini"
    and "selectAccountWithMixedScheduling e cx g sh m excluded p st = (Inr a, st')"
  shows "suits e cx excluded m p True a"
proof -
  let ?sel = "\<lparr>sel_platform = p, sel_force = False, sel_better = better_mixed (p = PlatformGemini), sel_mixed = True,
        sel_pre = (\<lambda>_. True), sel_post_routed = (\<lambda>a. isAccountAllowedForPlatform a p True),
        sel_post = (\<lambda>a. \<not> isStickyAccountUpstreamRestricted e g a m \<and> isAccountAllowedForPlatform a p True)\<rparr>"
  have r: "select_with e cx g sh m excluded ?sel st = (Inr a, st')"
    using assms(3) by (simp only: selectAccountWithMixedScheduling_def)
  have "True = mixed_mode (sel_platform ?sel) (sel_force ?sel)" using assms(2) by (simp add: mixed_mode_def)
  then have "suits e cx excluded m (sel_platform ?sel) True a"
    by (rule select_with_suits [OF assms(1) _ _ _ r]) simp_all
  then show ?thesis by simp
qed

text \<open>The platform of a request: forced, that of the group that admits the client, or the default.\<close>

definition request_platform :: "gw_ctx \<Rightarrow> (int \<times> group) list \<Rightarrow> int option \<Rightarrow> string option" where
  "request_platform cx groups groupID =
     (case (forced cx, groupID) of
        (Some p, _) \<Rightarrow> Some p
      | (None, None) \<Rightarrow> Some PlatformAnthropic
      | (None, Some i) \<Rightarrow> (case fallback_chain cx groups i [] of Inl _ \<Rightarrow> None | Inr (g, _) \<Rightarrow> Some (grp_Platform g)))"

lemma requested_start_facts:
  assumes "requested_start e cx0 g0 = Inr (p, g, cx)"
  shows "request_platform cx0 (ge_Groups e) g0 = Some p" "cx_Thinking cx = cx_Thinking cx0"
    "cx_ForcePlatform cx = cx_ForcePlatform cx0" "forced cx = forced cx0"
proof -
  show "request_platform cx0 (ge_Groups e) g0 = Some p" "cx_Thinking cx = cx_Thinking cx0"
    and f: "cx_ForcePlatform cx = cx_ForcePlatform cx0"
    using assms
    by (cases "forced cx0"; cases g0; cases "fallback_chain cx0 (ge_Groups e) (the g0) []";
        auto simp: requested_start_def request_platform_def)+
  show "forced cx = forced cx0" by (simp add: forced_def f)
qed

lemma selection_suits:
  assumes ok: "snapshot_ok e"
    and r: "SelectAccountForModelWithExclusions e cx0 g0 sh m excluded st = (Inr h, st')"
  shows "\<exists>p a mixed. request_platform cx0 (ge_Groups e) g0 = Some p \<and> suits e cx0 excluded m p mixed a
    \<and> (mixed \<longrightarrow> mixed_mode p (forced cx0 \<noteq> None)) \<and> hydrateSelectedAccount e a = Inr h"
proof -
  obtain t where t: "requested_start e cx0 g0 = Inr t"
    using r by (cases "requested_start e cx0 g0") (auto simp: SelectAccountForModelWithExclusions_def)
  obtain p g cx where "t = (p, g, cx)" using prod_cases3 by blast
  then have s: "requested_start e cx0 g0 = Inr (p, g, cx)" using t by simp
  note f = requested_start_facts [OF s]
  let ?mixed = "(p = PlatformAnthropic \<or> p = PlatformGemini) \<and> cx_ForcePlatform cx = None"
  obtain sel where sel: "sel = (if ?mixed then selectAccountWithMixedScheduling e cx g sh m excluded p st
              else selectAccountForModelWithPlatform e cx g sh m excluded p st)" by blast
  have "(case sel of (Inl er, st1) \<Rightarrow> (Inl er, st1) | (Inr a, st1) \<Rightarrow> (hydrateSelectedAccount e a, st1)) = (Inr h, st')"
    using r s sel by (cases "checkChannelPricingRestriction e g m") (simp_all add: SelectAccountForModelWithExclusions_def)
  then obtain a where a: "sel = (Inr a, st')" "hydrateSelectedAccount e a = Inr h"
    by (cases sel; cases "fst sel") auto
  have "\<exists>mixed. suits e cx excluded m p mixed a \<and> (mixed \<longrightarrow> mixed_mode p (forced cx0 \<noteq> None))"
  proof (cases ?mixed)
    case True
    then have "forced cx = None" by (simp add: forced_def)
    moreover have "suits e cx excluded m p True a" using mixed_suits [OF ok, of p cx] a True sel by simp
    ultimately show ?thesis using True f(4) by (auto simp: mixed_mode_def)
  next
    case False
    then have "selectAccountForModelWithPlatform e cx g sh m excluded p st = (Inr a, st')"
      using a sel by (simp only: if_False)
    note s = single_suits [OF ok this]
    show ?thesis by (rule exI) (rule conjI [OF s [unfolded f(4)]], blast)
  qed
  then show ?thesis using f(1) a(2) suits_thinking [OF f(2)] by blast
qed

text \<open>A closed instance: one account without a group, a server that is up, no snapshot and no channels,
  and loads that are not read.\<close>

definition sample_env :: "zlist gw_env" where
  "sample_env = \<lparr>ge_TZ = (\<lambda>_. None), ge_Local = (\<lambda>_. 0), ge_Addr = (0, 0), ge_Now = 0,
     ge_Call = call_at list_zset 10 60, ge_Sha = id, ge_DefaultIdle = 0, ge_Config = Some ((schedulingConfig None)\<lparr>cfg_LoadBatchEnabled := False\<rparr>),
     ge_SimpleMode = False, ge_Groups = [], ge_Channels = None, ge_Snapshot = None, ge_HasConcurrency = True,
     ge_HasStickyCache = False, ge_HasSessionLimit = False, ge_HasRPM = False, ge_WindowStats = (\<lambda>_ _. None),
     ge_WindowStatsBatch = None, ge_Draws = (\<lambda>_. 0)\<rparr>"

definition sample_ctx :: gw_ctx where
  "sample_ctx = \<lparr>cx_ForcePlatform = None, cx_ClaudeCode = False, cx_Group = None, cx_Thinking = None,
     cx_WindowCosts = None, cx_RPMCounts = None, cx_StickyGroupID = None, cx_StickyAccountID = None\<rparr>"

definition sample_state :: "zlist gw_state" where
  "sample_state = \<lparr>gs_Accounts = [blank_account],
     gs_Concurrency = NewConcurrencyService True ''r'' (empty_store list_zset),
     gs_Caches = empty_caches list_zset, gs_Drawn = 0\<rparr>"

lemma sample_simps [simp]:
  "ge_Snapshot sample_env = None" "ge_Channels sample_env = None" "ge_Groups sample_env = []"
  "ge_HasStickyCache sample_env = False" "ge_HasSessionLimit sample_env = False" "ge_HasRPM sample_env = False"
  "ge_Now sample_env = 0" "ge_SimpleMode sample_env = False" "ge_HasConcurrency sample_env"
  "gs_Accounts sample_state = [blank_account]" "forced sample_ctx = None" "cx_ForcePlatform sample_ctx = None"
  "cx_Group sample_ctx = None"
  by (simp_all add: sample_env_def sample_state_def sample_ctx_def forced_def)

lemma blank_schedulable: "IsSchedulable tz 0 blank_account" "\<not> IsQuotaExceeded tz 0 blank_account"
proof -
  show q: "\<not> IsQuotaExceeded tz 0 blank_account"
    by (simp add: IsQuotaExceeded_iff GetQuotaLimit_def GetQuotaDailyLimit_def GetQuotaWeeklyLimit_def
        getExtraFloat64_def blank_account_def mlookup_def)
  show "IsSchedulable tz 0 blank_account"
    using q by (simp add: IsSchedulable_def) (simp add: blank_account_def Account_IsActive_def)
qed

lemma blank_model: "IsSchedulableForModelWithContext tz ad 0 th (Some blank_account) m"
  by (simp add: IsSchedulableForModelWithContext_def blank_schedulable)
    (simp add: isModelRateLimitedWithContext_def
        isRateLimitActiveForKey_def modelRateLimitResetAt_def blank_account_def Let_def)

lemma blank_platform [simp]: "acc_Platform blank_account = PlatformAnthropic" "acc_ID blank_account = 1"
  "acc_Concurrency blank_account = 0" "\<not> IsAnthropicOAuthOrSetupToken blank_account"
  by (simp_all add: blank_account_def IsAnthropicOAuthOrSetupToken_def)

lemma sample_listed:
  "listSchedulableAccounts sample_env None PlatformAnthropic False sample_state = Inr ([blank_account], True)"
  by (simp add: listSchedulableAccounts_def ListSchedulableUngroupedByPlatforms_def row_schedulable_def
      blank_account_def Let_def)

lemma sample_prefetch: "prefetch sample_env [blank_account] cx st = (cx, st)"
  by (simp add: prefetch_def withWindowCostPrefetch_def withRPMPrefetch_def)

lemma sample_capacity: "checks (capacity_checks sample_env cx blank_account m s) st = (True, st)"
  by (simp add: capacity_checks_def cond_def checks.simps isAccountSchedulableForModelSelection_def blank_model
      isAccountSchedulableForQuota_def blank_schedulable isAccountSchedulableForWindowCost_def
      isAccountSchedulableForRPM_def)

lemma sample_selected:
  "SelectAccountForModelWithExclusions sample_env sample_ctx None [] [] {} sample_state = (Inr blank_account, sample_state)"
proof -
  have sticky: "sticky_block sample_env sample_ctx None [] m ex al pre post st = (None, st)" for m ex al pre post st
    by (simp add: sticky_block_def cached_sticky_def)
  have check: "loop_check sample_env sample_ctx (group_of sample_env None) {} [] True None blank_account st = (True, st)" for st
    by (simp add: loop_check_def checks.simps cond_def sample_capacity privacy_check_def group_of_def
        supports_model_def isAccountSchedulableForSelection_def blank_schedulable)
  have "scan sample_env sample_ctx None [] better
      (\<lambda>cx. loop_check sample_env cx (group_of sample_env None) {} [] True None) [blank_account] sample_state
      = (Some blank_account, sample_ctx, sample_state)" for better
    by (simp add: scan_def sample_prefetch check pick_best_def bind_sticky_def)
  then show ?thesis
    by (simp add: SelectAccountForModelWithExclusions_def requested_start_def checkChannelPricingRestriction_def
        selectAccountWithMixedScheduling_def select_with_def routingAccountIDsForRequest_def select_normal_def
        sticky sample_listed needsUpstreamChannelRestrictionCheck_def hydrateSelectedAccount_def)
qed



end
