(* ===== verification/GatewaySlots.thy ===== *)
theory GatewaySlots
  imports GatewayProps
begin

text \<open>
  What the layers of the selection do with slots: the checks leave them alone (\<open>same_core\<close>), and
  each layer keeps the law that the slot it hands over is its only trace. The laws of the
  slots are the locale \<open>slot_accounting\<close>; the layers are proved in its extension
  \<open>plain_selection\<close>, without a scheduler snapshot.
\<close>

section \<open>What the checks leave alone\<close>

text \<open>A check may fill caches and mark accounts as failed; it takes no slot and removes no account.\<close>

definition same_core :: "'r gw_state \<Rightarrow> 'r gw_state \<Rightarrow> bool" where
  "same_core st st' \<longleftrightarrow>
     gs_Concurrency st' = gs_Concurrency st \<and> map acc_ID (gs_Accounts st') = map acc_ID (gs_Accounts st)"

named_theorems core

lemma core_refl [simp, core]: "same_core st st" by (simp add: same_core_def)

lemma core_trans [trans]: "same_core a b \<Longrightarrow> same_core b c \<Longrightarrow> same_core a c" by (simp add: same_core_def)

lemma core_caches [core]: "same_core st (st\<lparr>gs_Caches := c\<rparr>)" by (simp add: same_core_def)

lemma core_with_caches [core]: "same_core st (snd (with_caches f st))"
  by (simp add: with_caches_def core_caches split: prod.split)

lemma core_with_draws [core]: "same_core st (snd (with_draws f st))"
  by (simp add: with_draws_def same_core_def split: prod.split)

lemma core_bind [core]: "same_core st (bind_sticky e g sh i st)"
  by (simp add: bind_sticky_def core_caches)

lemma core_unbind [core]: "same_core st (unbind_sticky e g sh st)"
  by (simp add: unbind_sticky_def core_caches)

lemma core_cond [core]: "same_core st (snd (cond b st))" by (simp add: cond_def)

lemma core_privacy [core]: "same_core st (snd (privacy_check g a st))"
  by (auto simp: privacy_check_def same_core_def account_SetError_def split: option.split)

lemma core_window_cost: "same_core st (snd (window_cost e cx a st))"
  using core_with_caches by (auto simp: window_cost_def split: option.split sum.split)

lemma core_window [core]: "same_core st (snd (isAccountSchedulableForWindowCost e cx a s st))"
  using core_window_cost [of st e cx a]
  by (auto simp: isAccountSchedulableForWindowCost_def split: prod.split option.split)

lemma core_with_caches_eq: "with_caches f st = (x, st1) \<Longrightarrow> same_core st st1"
  using core_with_caches [of st f] by simp

lemma core_register [core]: "same_core st (snd (checkAndRegisterSession e a sh st))"
  by (auto simp: checkAndRegisterSession_def Let_def dest: core_with_caches_eq split: prod.split sum.split)

lemma core_checks: "\<forall>c \<in> set cs. \<forall>st. same_core st (snd (c st)) \<Longrightarrow> same_core st (snd (checks cs st))"
proof (induction cs arbitrary: st)
  case (Cons c cs)
  obtain b st1 where c: "c st = (b, st1)" by fastforce
  then have "same_core st st1" using Cons.prems by (metis list.set_intros(1) snd_conv)
  moreover have "same_core st1 (snd (checks cs st1))" using Cons by simp
  ultimately show ?case using c core_trans by (auto simp: checks.simps split: bool.split)
qed simp

lemma core_capacity: "c \<in> set (capacity_checks e cx a m s) \<Longrightarrow> same_core st (snd (c st))"
  by (auto simp: capacity_checks_def intro: core)

lemma core_loop_check [core]: "same_core st (snd (loop_check e cx g ex m mixed up a st))"
  unfolding loop_check_def by (rule core_checks) (auto intro: core core_capacity)

lemma core_load_check [core]: "same_core st (snd (load_check e cx ex p x m s a st))"
  unfolding load_check_def by (rule core_checks) (auto intro: core core_capacity)

lemma core_routed_check [core]: "same_core st (snd (routed_loop_check e g r ex m mixed cx a st))"
  by (simp add: routed_loop_check_def core)

lemma core_collect: "(\<And>a st. same_core st (snd (p a st))) \<Longrightarrow> same_core st (snd (collect p as st))"
proof (induction as arbitrary: st)
  case (Cons a as)
  obtain b st1 where c: "p a st = (b, st1)" by fastforce
  then have "same_core st st1" using Cons.prems by (metis snd_conv)
  moreover have "same_core st1 (snd (collect p as st1))" using Cons by simp
  ultimately show ?case using c core_trans by (auto split: prod.split)
qed simp

lemma collected_core: "collect (load_check e cx ex p x m s) as st = (cs, st1) \<Longrightarrow> same_core st st1"
  using core_collect [of "load_check e cx ex p x m s" st as, OF core_load_check] by simp

lemma core_fold:
  assumes "\<And>x acc. same_core (snd acc) (snd (f x acc))"
  shows "same_core (snd acc) (snd (fold f xs acc))"
proof (induction xs arbitrary: acc)
  case (Cons x xs)
  show ?case using core_trans [OF assms [where x = x and acc = acc] Cons.IH [of "f x acc"]] by simp
qed simp

lemma core_read_group: "same_core (snd acc) (snd (read_group e g acc))"
proof -
  have 1: "same_core (snd acc) (snd (read_single e t i acc))" for t i acc
    by (simp add: read_single_def core split: option.split)
  show ?thesis
    unfolding read_group_def by (auto simp: Let_def split: option.split intro!: core_fold 1 core)
qed

lemma core_read_groups: "fold (\<lambda>g. read_group e (snd g)) gs (m, st) = (m', st') \<Longrightarrow> same_core st st'"
  using core_fold [of "\<lambda>g. read_group e (snd g)" "(m, st)" gs, OF core_read_group] by simp

lemma core_prefetch [core]: "same_core st (snd (prefetch e as cx st))"
proof -
  have "same_core st (snd (withWindowCostPrefetch e as cx st))"
    unfolding withWindowCostPrefetch_def Let_def
    by (auto simp only: core_refl snd_conv if_True if_False dest!: core_read_groups split: prod.split if_split)
  then show ?thesis by (cases "withWindowCostPrefetch e as cx st") (simp add: prefetch_def)
qed

section \<open>The selection without loads\<close>

lemma core_step: "same_core a b \<Longrightarrow> snd p = c \<Longrightarrow> same_core b c \<Longrightarrow> same_core a (snd p)"
  by (simp add: same_core_def)

lemma core_sticky [core]: "same_core st (snd (sticky_block e cx g sh m ex al pre post st))"
proof -
  have 1: "same_core st (snd (checks ([cond (pre a), cond (supports_model e cx a m)]
      @ capacity_checks e cx a m True @ [cond (post a)]) st))" for a st
    by (rule core_checks) (auto intro: core core_capacity)
  have 2: "checks ([cond (pre a), cond (supports_model e cx a m)]
      @ capacity_checks e cx a m True @ [cond (post a)]) st = (ok, st2) \<Longrightarrow> same_core st st2" for a st ok st2
    using 1 [of st a] by simp
  show ?thesis
    unfolding sticky_block_def Let_def
    by (auto simp del: append.simps dest!: 2 intro: core split: option.split prod.split)
qed

lemma core_scan [core]: "same_core st (snd (snd (scan e cx g sh better p as st)))"
  if "\<And>cx a st. same_core st (snd (p cx a st))"
proof -
  obtain cx1 st1 where 1: "prefetch e as cx st = (cx1, st1)" by fastforce
  obtain cs st2 where 2: "collect (p cx1) as st1 = (cs, st2)" by fastforce
  have "same_core st st1" using core_prefetch [of st e as cx] 1 by simp
  also have "same_core st1 st2" using core_collect [of "p cx1" st1 as] that 2 by simp
  finally have "same_core st st2" "same_core st (bind_sticky e g sh i st2)" for i using core_trans core_bind by blast+
  then show ?thesis using 1 2 by (cases "pick_best better cs") (simp_all add: scan_def)
qed

lemma core_scan_eq:
  "scan e cx g sh better p as st = (r, cx', st') \<Longrightarrow> (\<And>cx a st. same_core st (snd (p cx a st))) \<Longrightarrow> same_core st st'"
  using core_scan [of p st e cx g sh better as] by simp

lemma core_sticky_eq: "sticky_block e cx g sh m ex al pre post st = (r, st') \<Longrightarrow> same_core st st'"
  using core_sticky [of st e cx g sh m ex al pre post] by simp

lemma core_normal [core]: "same_core st (snd (select_normal e g sh m ex sel cx loaded st))"
proof -
  obtain oa st1 where s: "sticky_block e cx g sh m ex (\<lambda>_. True) (sel_pre sel) (sel_post sel) st = (oa, st1)" by fastforce
  note c = core_sticky_eq [OF s]
  show ?thesis
    using s c core_trans [OF c core_scan_eq [OF _ core_loop_check]]
    by (auto simp: select_normal_def split: option.split prod.split sum.split)
qed

lemma core_with [core]: "same_core st (snd (select_with e cx g sh m ex sel st))"
proof (cases "routingAccountIDsForRequest cx (ge_Groups e) g m (sel_platform sel) = []")
  case True
  then show ?thesis by (simp add: select_with_def core_normal)
next
  case False
  let ?r = "routingAccountIDsForRequest cx (ge_Groups e) g m (sel_platform sel)"
  obtain oa st1 where s: "sticky_block e cx g sh m ex (\<lambda>i. i \<in> set ?r) (sel_pre sel) (sel_post_routed sel) st = (oa, st1)"
    by fastforce
  note c = core_sticky_eq [OF s]
  show ?thesis
  proof (cases oa)
    case (Some a)
    then show ?thesis using s c False by (simp add: select_with_def Let_def)
  next
    case None
    show ?thesis
    proof (cases "listSchedulableAccounts e g (sel_platform sel) (sel_force sel) st1")
      case (Inl er)
      then show ?thesis using s c False None by (simp add: select_with_def Let_def)
    next
      case (Inr l)
      obtain r cx2 st2 where 2: "scan e cx g sh (sel_better sel) (routed_loop_check e g ?r ex m (sel_mixed sel))
          (fst l) st1 = (r, cx2, st2)" using prod_cases3 by blast
      have "same_core st st2" using core_trans [OF c core_scan_eq [OF 2 core_routed_check]] .
      then have "same_core st st2" "same_core st (snd (select_normal e g sh m ex sel cx2 (Some (fst l)) st2))"
        using core_trans core_normal by blast+
      then show ?thesis using s False None Inr 2 by (cases l; cases r) (simp_all add: select_with_def Let_def)
    qed
  qed
qed

lemma core_selection: "same_core st (snd (SelectAccountForModelWithExclusions e cx0 g0 sh m ex st))"
proof (cases "requested_start e cx0 g0")
  case (Inl er)
  then show ?thesis by (simp add: SelectAccountForModelWithExclusions_def)
next
  case (Inr t)
  obtain p g cx where t: "t = (p, g, cx)" using prod_cases3 by blast
  define sel where "sel = (if (p = PlatformAnthropic \<or> p = PlatformGemini) \<and> cx_ForcePlatform cx = None
    then selectAccountWithMixedScheduling e cx g sh m ex p st
    else selectAccountForModelWithPlatform e cx g sh m ex p st)"
  have c: "same_core st (snd sel)"
    by (simp add: sel_def selectAccountWithMixedScheduling_def selectAccountForModelWithPlatform_def core_with)
  show ?thesis
  proof (cases "checkChannelPricingRestriction e g m")
    case True
    then show ?thesis using Inr t by (simp add: SelectAccountForModelWithExclusions_def)
  next
    case False
    then have "SelectAccountForModelWithExclusions e cx0 g0 sh m ex st =
        (case sel of (Inl er, st1) \<Rightarrow> (Inl er, st1) | (Inr a, st1) \<Rightarrow> (hydrateSelectedAccount e a, st1))"
      using Inr t unfolding SelectAccountForModelWithExclusions_def sel_def by simp
    then show ?thesis using c by (cases sel; cases "fst sel") auto
  qed
qed

section \<open>Slots are accounted for\<close>

text \<open>What the layers need of the slots, whatever counts as a slot that is held: acquiring one and releasing it
  adds nothing, an attempt that fails adds nothing, and reading loads adds nothing.\<close>

locale slot_accounting =
  fixes e :: "'r gw_env"
    and held :: "'r gw_state \<Rightarrow> (int \<times> string) set"
  assumes acquired: "tryAcquireAccountSlot e i n st = (Inr (Some r), st') \<Longrightarrow> held (release_slot e r st') \<subseteq> held st"
    and refused: "tryAcquireAccountSlot e i n st = (res, st') \<Longrightarrow> \<forall>r. res \<noteq> Inr (Some r) \<Longrightarrow> held st' \<subseteq> held st"
    and loads: "batch_loads e as st = (l, st') \<Longrightarrow> held st' \<subseteq> held st"
    and slots_only: "gs_Concurrency st' = gs_Concurrency st \<Longrightarrow> held st' = held st"
begin

lemma core_held: "same_core a b \<Longrightarrow> held b = held a"
  by (intro slots_only) (simp add: same_core_def)

lemma core_released: "same_core a b \<Longrightarrow> held (release_slot e r b) = held (release_slot e r a)"
  by (intro slots_only) (simp add: same_core_def release_slot_def)

lemma taken: "take_slot e a sh st = (SlotTaken r, st') \<Longrightarrow> held (release_slot e r st') \<subseteq> held st"
proof -
  assume t: "take_slot e a sh st = (SlotTaken r, st')"
  obtain q st1 where q: "tryAcquireAccountSlot e (acc_ID a) (acc_Concurrency a) st = (q, st1)" by fastforce
  then have "q = Inr (Some r)" and c: "checkAndRegisterSession e a sh st1 = (True, st')"
    using t by (auto simp: take_slot_def split: sum.splits option.splits prod.splits bool.splits)
  then have "held (release_slot e r st1) \<subseteq> held st" using acquired q by simp
  moreover have "same_core st1 st'" using core_register [of st1 e a sh] c by simp
  ultimately show ?thesis using core_released by blast
qed

lemma not_taken: "take_slot e a sh st = (res, st') \<Longrightarrow> (\<And>r. res \<noteq> SlotTaken r) \<Longrightarrow> held st' \<subseteq> held st"
proof -
  assume t: "take_slot e a sh st = (res, st')" "\<And>r. res \<noteq> SlotTaken r"
  obtain q st1 where q: "tryAcquireAccountSlot e (acc_ID a) (acc_Concurrency a) st = (q, st1)" by fastforce
  show ?thesis
  proof (cases "\<exists>r. q = Inr (Some r)")
    case True
    then obtain r where r: "q = Inr (Some r)" by blast
    obtain b st2 where c: "checkAndRegisterSession e a sh st1 = (b, st2)" by fastforce
    then have "st' = release_slot e r st2" using t q r by (cases b) (auto simp: take_slot_def)
    moreover have "same_core st1 st2" using core_register [of st1 e a sh] c by simp
    ultimately show ?thesis using acquired q r core_released by blast
  next
    case False
    then have "st' = st1" using t q by (auto simp: take_slot_def split: sum.splits option.splits)
    then show ?thesis using refused [OF q] False by blast
  qed
qed

text \<open>The outcome of a layer: a slot that it hands over is its only trace.\<close>

definition accounted :: "'r gw_state \<Rightarrow> (select_error + AccountSelectionResult) option \<Rightarrow> 'r gw_state \<Rightarrow> bool" where
  "accounted st r st' \<longleftrightarrow>
     (case r of Some (Inr s) \<Rightarrow>
          (case sr_ReleaseFunc s of Some rel \<Rightarrow> held (release_slot e rel st') \<subseteq> held st | None \<Rightarrow> held st' \<subseteq> held st)
      | _ \<Rightarrow> held st' \<subseteq> held st)"

lemma accounted_less: "accounted st1 r st' \<Longrightarrow> held st1 \<subseteq> held st \<Longrightarrow> accounted st r st'"
  unfolding accounted_def by (auto split: option.splits sum.splits)

lemma accounted_none: "held st' \<subseteq> held st \<Longrightarrow> accounted st None st'"
  by (simp add: accounted_def)

lemma accounted_error: "held st' \<subseteq> held st \<Longrightarrow> accounted st (Some (Inl er)) st'"
  by (simp add: accounted_def)

lemma accounted_or_else:
  assumes "\<And>st r st'. f st = (r, st') \<Longrightarrow> accounted st r st'" "\<And>st r st'. g st = (r, st') \<Longrightarrow> accounted st r st'"
    and "or_else f g st = (r, st')"
  shows "accounted st r st'"
proof (cases "f st")
  case (Pair r1 st1)
  then have a: "accounted st r1 st1" by (rule assms(1))
  show ?thesis
  proof (cases r1)
    case None
    then have "accounted st1 r st'" using assms(2,3) Pair by (simp add: or_else_def)
    then show ?thesis using a None accounted_less by (auto simp: accounted_def)
  next
    case (Some x)
    then show ?thesis using a assms(3) Pair by (simp add: or_else_def)
  qed
qed

end

text \<open>Without a snapshot an account is returned as it was selected, and no slot is lost.\<close>

locale plain_selection = slot_accounting +
  assumes no_snapshot: "ge_Snapshot e = None"
begin

lemma result [simp]:
  "newSelectionResult e a acq rel plan =
     Inr \<lparr>sr_Account = a, sr_Acquired = acq, sr_ReleaseFunc = rel, sr_WaitPlan = plan\<rparr>"
  by (simp add: newSelectionResult_def hydrateSelectedAccount_def no_snapshot)

lemma accounted_slot:
  "held (release_slot e r st') \<subseteq> held st \<Longrightarrow> accounted st (Some (newSelectionResult e a True (Some r) None)) st'"
  by (simp add: accounted_def)

lemma accounted_plan: "held st' \<subseteq> held st \<Longrightarrow> accounted st (Some (newSelectionResult e a False None plan)) st'"
  by (simp add: accounted_def)

lemma tried:
  "try_in_order e g sh as st = (r, st') \<Longrightarrow>
   (case r of None \<Rightarrow> held st' \<subseteq> held st | Some (a, rel) \<Rightarrow> held (release_slot e rel st') \<subseteq> held st)"
proof (induction as arbitrary: st)
  case (Cons a as)
  obtain q st1 where q: "take_slot e a sh st = (q, st1)" by fastforce
  show ?case
  proof (cases "\<exists>rel. q = SlotTaken rel")
    case True
    then obtain rel where rel: "q = SlotTaken rel" by blast
    then have "r = Some (a, rel)" "st' = bind_sticky e g sh (acc_ID a) st1" using Cons.prems q by auto
    then show ?thesis using taken q rel core_released [OF core_bind] by simp
  next
    case False
    then have "held st1 \<subseteq> held st" using not_taken [OF q] by blast
    moreover have "try_in_order e g sh as st1 = (r, st')" using Cons.prems q False by (cases q) auto
    ultimately show ?thesis using Cons.IH by (fastforce split: option.splits)
  qed
qed simp

lemma first_core: "first_with_session e sh as st = (r, st') \<Longrightarrow> same_core st st'"
proof (induction as arbitrary: st)
  case (Cons a as)
  obtain b st1 where b: "checkAndRegisterSession e a sh st = (b, st1)" by fastforce
  then have c: "same_core st st1" using core_register [of st e a sh] by simp
  then show ?case using Cons b core_trans [OF c] by (cases b) auto
qed simp

lemma first_held: "first_with_session e sh as st = (r, st') \<Longrightarrow> held st' = held st"
  using first_core core_held by blast

lemma draws_held: "with_draws f st = (x, st') \<Longrightarrow> held st' = held st"
  using core_with_draws [of st f] core_held by simp

lemma layer2_tried:
  "layer2 e g sh p av st = (r, st') \<Longrightarrow>
   (case r of None \<Rightarrow> held st' \<subseteq> held st | Some (a, rel) \<Rightarrow> held (release_slot e rel st') \<subseteq> held st)"
proof (induction "length av" arbitrary: av st rule: less_induct)
  case less
  obtain x st1 where x: "with_draws (layered_choice (ge_Draws e) av p) st = (x, st1)" by fastforce
  then have h: "held st1 = held st" by (rule draws_held)
  show ?case
  proof (cases x)
    case None
    then show ?thesis using less.prems x h by (simp add: layer2.simps [of e g sh p av])
  next
    case (Some y)
    let ?a = "awl_Account y"
    obtain q st2 where q: "take_slot e ?a sh st1 = (q, st2)" by fastforce
    show ?thesis
    proof (cases "\<exists>rel. q = SlotTaken rel")
      case True
      then obtain rel where rel: "q = SlotTaken rel" by blast
      then have "r = Some (?a, rel)" "st' = bind_sticky e g sh (acc_ID ?a) st2"
        using less.prems x Some q by (auto simp: layer2.simps [of e g sh p av])
      then show ?thesis using taken [OF q [unfolded rel]] core_released [OF core_bind] h by simp
    next
      case False
      let ?av = "filter (\<lambda>y'. acc_ID (awl_Account y') \<noteq> acc_ID ?a) av"
      have "held st2 \<subseteq> held st" using not_taken [OF q] False h by blast
      moreover have "layer2 e g sh p ?av st2 = (r, st')"
        using less.prems x Some q False by (cases q) (auto simp: layer2.simps [of e g sh p av])
      moreover have "length ?av < length av" using layer2_shrinks x Some by simp
      ultimately show ?thesis using less.hyps [of ?av st2] by (fastforce split: option.splits)
    qed
  qed
qed

lemma serve_accounted:
  assumes "serve_in_order e g sh as plan st = (r, st')"
  shows "accounted st r st'"
proof -
  obtain q st1 where q: "try_in_order e g sh as st = (q, st1)" by fastforce
  note t = tried [OF q]
  show ?thesis
  proof (cases q)
    case None
    obtain f st2 where f: "first_with_session e sh as st1 = (f, st2)" by fastforce
    then have "held st2 \<subseteq> held st" using first_held t None by simp
    then show ?thesis using assms q None f accounted_none accounted_plan
      by (cases f) (auto simp: serve_in_order_def simp del: result)
  next
    case (Some x)
    then show ?thesis using assms q t accounted_slot
      by (cases x) (auto simp: serve_in_order_def simp del: result)
  qed
qed

lemma routed_load_accounted:
  assumes "routed_by_load e g sh cands st = (r, st')"
  shows "accounted st r st'"
proof -
  obtain l st1 where l: "batch_loads e cands st = (l, st1)" by fastforce
  let ?av = "available_accounts (case l of Inr m \<Rightarrow> m | Inl _ \<Rightarrow> []) cands"
  obtain o' st2 where o: "with_draws (shuffleWithinSortGroups (ge_Draws e) (sort_by less_load ?av)) st1 = (o', st2)"
    by fastforce
  have h: "held st2 \<subseteq> held st" "held st1 \<subseteq> held st" using loads [OF l] draws_held [OF o] by simp_all
  show ?thesis
  proof (cases "?av = []")
    case True
    then show ?thesis using assms l h accounted_none by (simp add: routed_by_load_def Let_def)
  next
    case False
    then have "serve_in_order e g sh (map awl_Account o') (sticky_plan e) st2 = (r, st')"
      using assms l o by (simp add: routed_by_load_def Let_def)
    then show ?thesis using serve_accounted accounted_less h by blast
  qed
qed

lemma queue_core: "sticky_queue e a sh st = (b, st') \<Longrightarrow> same_core st st'"
  using core_register [of st e a sh] by (auto simp: sticky_queue_def split: if_splits)

lemma routed_sticky_accounted:
  assumes "routed_sticky e cx g sh m ex p x as ro sticky st = (r, st')"
  shows "accounted st r st'"
proof (cases "sh = [] \<or> sticky \<le> 0 \<or> sticky \<notin> set ro \<or> sticky \<in> ex")
  case True
  then show ?thesis using assms accounted_none by (simp add: routed_sticky_def)
next
  case False
  note def = assms [unfolded routed_sticky_def if_not_P [OF False]]
  show ?thesis
  proof (cases "account_by_id as sticky")
    case None
    then show ?thesis using def core_held [OF core_unbind [of st e g sh]] accounted_none accounted_error
      by (auto split: if_splits)
  next
    case (Some a)
    obtain b st1 where b: "load_check e cx ex p x m True a st = (b, st1)" by fastforce
    have h1: "held st1 = held st" using core_held core_load_check [of st e cx ex p x m True a] b by simp
    obtain q st2 where q: "take_slot e a sh st1 = (q, st2)" by fastforce
    obtain c st3 where c: "sticky_queue e a sh st2 = (c, st3)" by fastforce
    have h3: "held st3 = held st2" using core_held queue_core [OF c] by blast
    show ?thesis
    proof (cases q)
      case (SlotTaken rel)
      then show ?thesis using def Some b q h1 taken [of a sh st1 rel st2] accounted_slot accounted_none
        by (cases b) (auto simp del: result)
    next
      case SessionLimited
      then have "held st2 \<subseteq> held st" using not_taken [OF q] h1 by simp
      then show ?thesis using def Some b q h1 SessionLimited accounted_none by (cases b) auto
    next
      case SlotBusy
      then have h2: "held st3 \<subseteq> held st" using not_taken [OF q] h1 h3 by simp
      show ?thesis using def Some b q c h1 h2 SlotBusy accounted_none
        by (cases b; cases c) (auto simp: accounted_def)
    qed
  qed
qed

lemma layer1_accounted:
  assumes "layer1 e cx g sh m ex p x as ro sticky st = (r, st')"
  shows "accounted st r st'"
proof (cases "ro = []")
  case True
  then show ?thesis using assms accounted_none by (simp add: layer1_def)
next
  case False
  obtain cs st1 where c: "collect (load_check e cx ex p x m False) (List.map_filter (account_by_id as) ro) st = (cs, st1)"
    by fastforce
  then have h: "held st1 = held st" by (rule core_held [OF collected_core])
  show ?thesis
  proof (cases "cs = []")
    case True
    then show ?thesis using assms c h False accounted_none by (simp add: layer1_def)
  next
    case csne: False
    then have "or_else (routed_sticky e cx g sh m ex p x as ro sticky) (routed_by_load e g sh cs) st1 = (r, st')"
      using assms c False by (simp add: layer1_def)
    then have "accounted st1 r st'"
      by (rule accounted_or_else [rotated -1]) (rule routed_sticky_accounted routed_load_accounted; assumption)+
    then show ?thesis using accounted_less h by blast
  qed
qed

lemma serve_sticky_accounted:
  assumes "serve_sticky e g sh a st = (r, st')"
  shows "accounted st r st'"
proof -
  obtain q st1 where q: "take_slot e a sh st = (q, st1)" by fastforce
  have "same_core st1 (refresh_sticky e g sh st1)" by (simp add: refresh_sticky_def core_caches)
  note h = core_released [OF this]
  show ?thesis
  proof (cases "\<exists>rel. q = SlotTaken rel")
    case True
    then obtain rel where rel: "q = SlotTaken rel" by blast
    then show ?thesis using assms q taken [OF q [unfolded rel]] h accounted_slot
      by (auto simp: serve_sticky_def simp del: result)
  next
    case False
    obtain c st2 where c: "sticky_queue e a sh st1 = (c, st2)" by fastforce
    have "held st2 \<subseteq> held st" using not_taken [OF q] False core_held [OF queue_core [OF c]] by blast
    then show ?thesis using assms q c False accounted_plan accounted_none
      by (cases q; cases c) (auto simp: serve_sticky_def simp del: result)
  qed
qed

lemma sticky_layer_accounted:
  assumes "sticky_layer e cx g sh m ex p x as ro sticky st = (r, st')"
  shows "accounted st r st'"
proof (cases "ro \<noteq> [] \<or> sh = [] \<or> sticky \<le> 0 \<or> sticky \<in> ex")
  case True
  show ?thesis using assms [unfolded sticky_layer_def if_P [OF True]] accounted_none by simp
next
  case False
  note def = assms [unfolded sticky_layer_def if_not_P [OF False]]
  show ?thesis
  proof (cases "account_by_id as sticky")
    case None
    then show ?thesis using def accounted_none by simp
  next
    case (Some a)
    define st0 where "st0 = (if shouldClearStickySession e (Some a) m then unbind_sticky e g sh st else st)"
    obtain w st1 where w: "isAccountSchedulableForWindowCost e cx a True st0 = (w, st1)" by fastforce
    have "same_core st st0" by (simp add: st0_def core_unbind)
    moreover have "same_core st0 st1" using core_window [of st0 e cx a True] w by simp
    ultimately have h: "held st1 = held st" using core_held core_trans by blast
    have "(r, st') = (Some (Inl NilStickyCache), st) \<or> (r, st') = (None, st1) \<or> serve_sticky e g sh a st1 = (r, st')"
      using def Some by (simp add: Let_def st0_def [symmetric] w split: if_splits)
    then show ?thesis using h accounted_none accounted_error accounted_less serve_sticky_accounted by blast
  qed
qed

lemma legacy_order_accounted:
  assumes "tryAcquireByLegacyOrder e cands g sh po st = (r, st')"
  shows "case r of Inl _ \<Rightarrow> False | Inr None \<Rightarrow> held st' \<subseteq> held st | Inr (Some s) \<Rightarrow> accounted st (Some (Inr s)) st'"
proof -
  obtain o' st1 where o: "with_draws (sortAccountsByPriorityAndLastUsed (ge_Draws e) cands po) st = (o', st1)" by fastforce
  obtain q st2 where q: "try_in_order e g sh o' st1 = (q, st2)" by fastforce
  show ?thesis using assms tried [OF q] draws_held [OF o] o q
    by (cases q) (auto simp: tryAcquireByLegacyOrder_def accounted_def)
qed

lemma by_load_accounted:
  assumes "by_load e g sh po cands st = (r, st')"
  shows "accounted st r st'"
proof -
  obtain l st1 where l: "batch_loads e cands st = (l, st1)" by fastforce
  note h = loads [OF l]
  show ?thesis
  proof (cases l)
    case (Inl er)
    obtain q st2 where q: "tryAcquireByLegacyOrder e cands g sh po st1 = (q, st2)" by fastforce
    note a = legacy_order_accounted [OF q]
    then obtain oq where oq: "q = Inr oq" by (cases q) auto
    then show ?thesis using assms l Inl q a h accounted_less [OF _ h] accounted_none
      by (cases oq) (auto simp: by_load_def)
  next
    case (Inr m)
    obtain q st2 where q: "layer2 e g sh po (available_accounts m cands) st1 = (q, st2)" by fastforce
    show ?thesis using assms l Inr q layer2_tried [OF q] h accounted_none accounted_slot
      by (cases q) (auto simp: by_load_def simp del: result)
  qed
qed

lemma fallback_accounted:
  assumes "fallback_layer e sh po cands st = (r, st')"
  shows "accounted st r st'"
proof -
  obtain o' st1 where o: "with_draws (sortCandidatesForFallback (ge_Draws e) cands po
             (cfg_FallbackSelectionMode (config_of e))) st = (o', st1)" by fastforce
  obtain f st2 where f: "first_with_session e sh o' st1 = (f, st2)" by fastforce
  have "held st2 = held st" using first_held [OF f] draws_held [OF o] by simp
  then show ?thesis using assms o f accounted_none accounted_plan
    by (cases f) (auto simp: fallback_layer_def simp del: result)
qed

lemma layer23_accounted:
  assumes "layer23 e cx g sh m ex p x as st = (r, st')"
  shows "accounted st r st'"
proof -
  obtain cs st1 where c: "collect (load_check e cx ex p x m False) as st = (cs, st1)" by fastforce
  then have h: "held st1 = held st" by (rule core_held [OF collected_core])
  show ?thesis
  proof (cases "cs = []")
    case True
    then show ?thesis using assms c h accounted_none by (simp add: layer23_def)
  next
    case False
    then have "or_else (by_load e g sh (p = PlatformGemini) cs) (fallback_layer e sh (p = PlatformGemini) cs) st1 = (r, st')"
      using assms c by (simp add: layer23_def)
    then have "accounted st1 r st'"
      by (rule accounted_or_else [rotated -1]) (rule by_load_accounted fallback_accounted; assumption)+
    then show ?thesis using accounted_less h by blast
  qed
qed

lemma layers_accounted:
  assumes "layers e cx g sh m ex p x as ro sticky st = (r, st')"
  shows "accounted st r st'"
  using assms unfolding layers_def
  by (rule accounted_or_else [rotated -1])
    (erule layer1_accounted, erule accounted_or_else [rotated -1], erule sticky_layer_accounted, erule layer23_accounted)

lemma legacy_accounted:
  "legacy_loop n e cx g sh m sticky ex st = Some (r, st') \<Longrightarrow> accounted st (Some r) st'"
proof (induction n arbitrary: ex st)
  case 0
  then show ?case using accounted_error by auto
next
  case (Suc n)
  obtain x st1 where x: "SelectAccountForModelWithExclusions e cx g sh m ex st = (x, st1)" by fastforce
  have h: "held st1 = held st" using core_held core_selection [of st e cx g sh m ex] x by simp
  show ?case
  proof (cases x)
    case (Inl er)
    then show ?thesis using Suc.prems x h accounted_error by auto
  next
    case (Inr a)
    obtain q st2 where q: "take_slot e a sh st1 = (q, st2)" by fastforce
    obtain b st3 where b: "checkAndRegisterSession e a sh st2 = (b, st3)" by fastforce
    then have h3: "held st3 = held st2" using core_held core_register [of st2 e a sh] by simp
    show ?thesis
    proof (cases q)
      case (SlotTaken rel)
      then have "(r, st') = (newSelectionResult e a True (Some rel) None, st2)" using Suc.prems x Inr q by simp
      then show ?thesis using taken [OF q [unfolded SlotTaken]] h accounted_slot by (simp del: result)
    next
      case SessionLimited
      then have "held st2 \<subseteq> held st" using not_taken [OF q] h by simp
      moreover have "accounted st2 (Some r) st'" using Suc.prems x Inr q SessionLimited Suc.IH by simp
      ultimately show ?thesis using accounted_less by blast
    next
      case SlotBusy
      then have h2: "held st3 \<subseteq> held st" using not_taken [OF q] h h3 by simp
      show ?thesis
      proof (cases b)
        case True
        then have "st' = st3 \<and> (\<exists>plan. r = newSelectionResult e a False None plan)"
          using Suc.prems x Inr q SlotBusy b by (auto simp del: result split: if_splits)
        then show ?thesis using accounted_plan h2 by blast
      next
        case False
        then have "accounted st3 (Some r) st'" using Suc.prems x Inr q SlotBusy b Suc.IH by simp
        then show ?thesis using accounted_less h2 by blast
      qed
    qed
  qed
qed

lemma layered_accounted:
  assumes "select_layered e cx grp g sh m ex sticky st = (r, st')"
  shows "accounted st (Some r) st'"
proof (cases "resolvePlatform cx (ge_Groups e) g grp")
  case (Inl er)
  then show ?thesis using assms accounted_error by (auto simp: select_layered_def)
next
  case pf: (Inr pf)
  obtain p f where p: "pf = (p, f)" by fastforce
  show ?thesis
  proof (cases "listSchedulableAccounts e g p f st")
    case (Inl er)
    then show ?thesis using assms pf p accounted_error by (auto simp: select_layered_def)
  next
    case l: (Inr am)
    obtain as mx where am: "am = (as, mx)" by fastforce
    obtain cx1 st1 where pre: "prefetch e as cx st = (cx1, st1)" by fastforce
    then have h: "held st1 = held st" using core_held core_prefetch [of st e as cx] by simp
    obtain y st2 where y: "layers e cx1 g sh m ex p mx as (routing_of grp m) sticky st1 = (y, st2)" by fastforce
    then have a: "accounted st y st2" using layers_accounted accounted_less h by blast
    show ?thesis using assms pf p l am pre y a accounted_error
      by (cases "as = []"; cases y) (auto simp: select_layered_def accounted_def)
  qed
qed

lemma selection_accounted:
  assumes "SelectAccountWithLoadAwareness n e cx0 g0 sh m ex st = Some (r, st')"
  shows "accounted st (Some r) st'"
  using assms legacy_accounted layered_accounted accounted_error
  by (auto simp: SelectAccountWithLoadAwareness_def Let_def split: sum.splits prod.splits if_splits)

end

end
