(* ===== verification/GatewayLoadProps.thy ===== *)
theory GatewayLoadProps
  imports GatewaySlots
begin

text \<open>
  What the selection with loads guarantees: the slot store obeys the laws of
  \<open>slot_accounting\<close>, so a slot that is taken is the one that is returned; the retries end; the
  account suits the request; and the choices of layer 2 are least loaded. Two things it does
  not guarantee are stated as well: a slot is lost when the account cannot be read again, and
  the group's demand for privacy is not looked at.
\<close>

section \<open>The slot store accounts for its slots\<close>

definition held :: "'r gw_env \<Rightarrow> 'r gw_state \<Rightarrow> (int \<times> string) set" where
  "held e st = {p. zscore (rc_Ops (ge_Call e)) (ss_Account (cs_Store (gs_Concurrency st)) (fst p)) (snd p) \<noteq> None}"

definition held_in :: "'r zset_ops \<Rightarrow> (int \<Rightarrow> 'r) \<Rightarrow> (int \<times> string) set" where
  "held_in Z slots = {p. zscore Z (slots (fst p)) (snd p) \<noteq> None}"

context sorted_set
begin

lemma held_upd: "held_in Z (slots(i := z)) = {p \<in> held_in Z slots. fst p \<noteq> i} \<union> Pair i ` members z"
  by (auto simp: held_in_def members_def)

lemma held_trim: "members z \<subseteq> members (slots i) \<Longrightarrow> held_in Z (slots(i := z)) \<subseteq> held_in Z slots"
  unfolding held_upd by (auto simp: held_in_def members_def)

lemma load_all_held: "load_all c accs slots w = (l, slots') \<Longrightarrow> rc_Ops c = Z \<Longrightarrow> held_in Z slots' \<subseteq> held_in Z slots"
proof (induction accs arbitrary: slots l slots')
  case (Cons a accs)
  obtain x s1 where x: "load_one c a slots w = (x, s1)" by fastforce
  obtain ls s2 where s2: "load_all c accs s1 w = (ls, s2)" by fastforce
  have "s1 = slots(fst a := zremrangebyscore Z (rc_Now c - rc_SlotTTL c) (slots (fst a)))"
    using x Cons.prems(2) by (auto simp: load_one_def getCountScript_def Let_def)
  then have "held_in Z s1 \<subseteq> held_in Z slots" using held_trim members_trim by metis
  moreover have "held_in Z s2 \<subseteq> held_in Z s1" using Cons.IH [OF s2 Cons.prems(2)] .
  moreover have "slots' = s2" using Cons.prems(1) x s2 by simp
  ultimately show ?case by blast
qed simp

lemma acquire_held:
  assumes "cache_AcquireAccountSlot c i n q st = (Inr ok, st')" "rc_Ops c = Z"
  shows "held_in Z (ss_Account st') \<subseteq> (if ok then insert (i, q) (held_in Z (ss_Account st)) else held_in Z (ss_Account st))"
proof -
  obtain z where s: "acquireScript Z (rc_Now c) n (rc_SlotTTL c) q (ss_Account st i) = (ok, z)"
    and st': "st' = st\<lparr>ss_Account := (ss_Account st)(i := z)\<rparr>"
    using assms by (cases "acquireScript Z (rc_Now c) n (rc_SlotTTL c) q (ss_Account st i)")
      (auto simp: cache_AcquireAccountSlot_def split: if_splits)
  have "members z \<subseteq> (if ok then insert q (members (ss_Account st i)) else members (ss_Account st i))"
    using acquire_members [OF s] members_trim by (auto split: if_splits)
  then have "Pair i ` members z \<subseteq> (if ok then insert (i, q) (held_in Z (ss_Account st)) else held_in Z (ss_Account st))"
    by (auto simp: held_in_def members_def split: if_splits)
  then show ?thesis unfolding st' by (auto simp: held_upd split: if_splits)
qed

lemma release_held:
  assumes "cache_ReleaseAccountSlot c i q st = (r, st')" "rc_Up c" "rc_Ops c = Z"
  shows "held_in Z (ss_Account st') = held_in Z (ss_Account st) - {(i, q)}"
proof -
  have "ss_Account st' = (ss_Account st)(i := zrem Z q (ss_Account st i))"
    using assms by (auto simp: cache_ReleaseAccountSlot_def)
  then show ?thesis by (auto simp: held_in_def score_rem split: if_splits)
qed

end

lemma held_eq: "held e st = held_in (rc_Ops (ge_Call e)) (ss_Account (cs_Store (gs_Concurrency st)))"
  by (simp add: held_def held_in_def)

lemma acquired_service:
  assumes "AcquireAccountSlot c i n s = (res, s')"
  shows "(\<exists>q. res = Inr (Some (ReleaseAccount i q)) \<and> rc_Up c
            \<and> cache_AcquireAccountSlot c i n q (cs_Store s) = (Inr True, cs_Store s'))
    \<or> res = Inr (Some NoRelease) \<and> s' = s
    \<or> (\<forall>r. res \<noteq> Inr (Some r)) \<and> (cs_Store s' = cs_Store s
         \<or> (\<exists>q. cache_AcquireAccountSlot c i n q (cs_Store s) = (Inr False, cs_Store s')))"
proof -
  obtain q sq where q: "generateRequestID (cs_Prefix s) (cs_Counter s) = (q, sq)" by fastforce
  obtain x st where x: "cache_AcquireAccountSlot c i n q (cs_Store s) = (x, st)" by fastforce
  have up: "rc_Up c" if "x = Inr b" for b using x that by (auto simp: cache_AcquireAccountSlot_def split: if_splits)
  show ?thesis
  proof (cases "n \<le> 0 \<or> \<not> cs_HasCache s")
    case True
    then show ?thesis using assms q by (auto simp: AcquireAccountSlot_def split: if_splits)
  next
    case False
    show ?thesis
    proof (cases x)
      case (Inl er)
      then have "st = cs_Store s" using x by (auto simp: cache_AcquireAccountSlot_def split: if_splits prod.splits)
      then show ?thesis using assms q x Inl False by (auto simp: AcquireAccountSlot_def on_store_def)
    next
      case (Inr b)
      then show ?thesis using assms q x up [OF Inr] False by (cases b) (auto simp: AcquireAccountSlot_def on_store_def)
    qed
  qed
qed

lemma acquired_held:
  assumes Z: "sorted_set (rc_Ops (ge_Call e))"
    and a: "tryAcquireAccountSlot e i n st = (res, st')"
  shows "(case res of Inr (Some r) \<Rightarrow> held e (release_slot e r st') \<subseteq> held e st | _ \<Rightarrow> held e st' \<subseteq> held e st)"
proof (cases "ge_HasConcurrency e")
  case False
  then show ?thesis using a by (auto simp: tryAcquireAccountSlot_def release_slot_def ReleaseFunc_def)
next
  case True
  let ?c = "ge_Call e"
  obtain s' where s: "AcquireAccountSlot ?c i n (gs_Concurrency st) = (res, s')" and st': "st' = st\<lparr>gs_Concurrency := s'\<rparr>"
    using a True by (auto simp: tryAcquireAccountSlot_def with_slots_def split: prod.splits)
  note held = sorted_set.acquire_held [OF Z _ refl]
  from acquired_service [OF s]
  consider q where "res = Inr (Some (ReleaseAccount i q))" "rc_Up ?c"
      "cache_AcquireAccountSlot ?c i n q (cs_Store (gs_Concurrency st)) = (Inr True, cs_Store s')"
    | "res = Inr (Some NoRelease)" "s' = gs_Concurrency st"
    | "\<forall>r. res \<noteq> Inr (Some r)" "cs_Store s' = cs_Store (gs_Concurrency st)
         \<or> (\<exists>q. cache_AcquireAccountSlot ?c i n q (cs_Store (gs_Concurrency st)) = (Inr False, cs_Store s'))"
    by blast
  then show ?thesis
  proof cases
    case (1 q)
    obtain u st2 where u: "cache_ReleaseAccountSlot ?c i q (cs_Store s') = (u, st2)" by fastforce
    have "held e (release_slot e (ReleaseAccount i q) st') = held e st' - {(i, q)}"
      using sorted_set.release_held [OF Z u 1(2) refl] u
      by (simp add: held_eq release_slot_def ReleaseFunc_def on_store_def st')
    moreover have "held e st' \<subseteq> insert (i, q) (held e st)" using held [OF 1(3)] by (simp add: held_eq st')
    ultimately show ?thesis using 1(1) by auto
  next
    case 2
    then show ?thesis by (simp add: st' release_slot_def ReleaseFunc_def held_eq)
  next
    case 3
    then have "held e st' \<subseteq> held e st" using held by (fastforce simp: held_eq st')
    then show ?thesis using 3(1) by (auto split: sum.split option.split)
  qed
qed

lemma map_delete_stores: "cs_Store (snd (getCachedAccountLoadBatch key now s)) = cs_Store s"
  by (simp add: getCachedAccountLoadBatch_def split: option.split)

lemma loads_held:
  assumes Z: "sorted_set (rc_Ops (ge_Call e))" and b: "batch_loads e as st = (l, st')"
  shows "held e st' \<subseteq> held e st"
proof -
  let ?c = "ge_Call e"
  let ?held = "\<lambda>s. held_in (rc_Ops ?c) (ss_Account (cs_Store s))"
  have 1: "?held s' \<subseteq> ?held s" if "on_store (cache_GetAccountsLoadBatch ?c accs) s = (x, s')" for accs s x s'
    using that
    by (auto simp: on_store_def cache_GetAccountsLoadBatch_def split: if_splits prod.splits
        dest!: sorted_set.load_all_held [OF Z _ refl])
  have 2: "?held s' \<subseteq> ?held s" if "getAccountsLoadBatch sha ?c now al accs s = (x, s')" for sha now al accs s x s'
  proof -
    let ?k = "accountLoadBatchCacheKey sha accs"
    obtain m s1 where m: "getCachedAccountLoadBatch ?k now s = (m, s1)" by fastforce
    then have s1: "cs_Store s1 = cs_Store s" using map_delete_stores [of ?k now s] by simp
    obtain y s2 where y: "on_store (cache_GetAccountsLoadBatch ?c accs) s1 = (y, s2)" by fastforce
    have "?held s2 \<subseteq> ?held s" using 1 [OF y] s1 by simp
    then show ?thesis using that 1 m y s1
      by (cases m; cases y)
        (auto simp: getAccountsLoadBatch_def Let_def storeCachedAccountLoadBatch_def split: if_splits)
  qed
  show ?thesis using b
    by (auto simp: batch_loads_def with_slots_def GetAccountsLoadBatch_def held_eq split: prod.splits dest!: 2)
qed

lemma slots_accounted:
  assumes "sorted_set (rc_Ops (ge_Call e))"
  shows "slot_accounting e (held e)"
proof
  show "held e (release_slot e r st') \<subseteq> held e st"
    if "tryAcquireAccountSlot e i n st = (Inr (Some r), st')" for i n st r st'
    using acquired_held [OF assms that] by simp
  show "held e st' \<subseteq> held e st"
    if "tryAcquireAccountSlot e i n st = (res, st')" "\<forall>r. res \<noteq> Inr (Some r)" for i n st res st'
    using acquired_held [OF assms that(1)] that(2) by (auto split: sum.splits option.splits)
  show "held e st' \<subseteq> held e st" if "batch_loads e as st = (l, st')" for as st l st'
    using loads_held [OF assms that] .
  show "held e st' = held e st" if "gs_Concurrency st' = gs_Concurrency st" for st st'
    using that by (simp add: held_eq)
qed

lemma plain_accounted:
  assumes "sorted_set (rc_Ops (ge_Call e))" "ge_Snapshot e = None"
  shows "plain_selection e (held e)"
  using slots_accounted [OF assms(1)] assms(2) by (simp add: plain_selection_def plain_selection_axioms_def)

interpretation sample: plain_selection sample_env "held sample_env"
  by (rule plain_accounted) (simp_all add: sample_env_def call_at_def zl.sorted_set_axioms)


lemma sample_legacy:
  "SelectAccountWithLoadAwareness (Suc n) sample_env sample_ctx None [] [] {} sample_state
     = Some (Inr \<lparr>sr_Account = blank_account, sr_Acquired = True, sr_ReleaseFunc = Some NoRelease,
         sr_WaitPlan = None\<rparr>, sample_state)"
proof -
  have "withGroupContext sample_ctx None = sample_ctx" by (simp add: withGroupContext_def IsGroupContextValid_def)
  moreover have "\<not> cfg_LoadBatchEnabled (config_of sample_env)"
    by (simp add: config_of_def schedulingConfig_def sample_env_def)
  moreover have "take_slot sample_env blank_account [] sample_state = (SlotTaken NoRelease, sample_state)"
    by (simp add: take_slot_def tryAcquireAccountSlot_def with_slots_def AcquireAccountSlot_def
        checkAndRegisterSession_def)
  ultimately show ?thesis
    by (simp add: SelectAccountWithLoadAwareness_def checkClaudeCodeRestriction_def checkChannelPricingRestriction_def
        Let_def sample_selected newSelectionResult_def hydrateSelectedAccount_def)
qed


section \<open>The retries end\<close>

definition ids :: "'r gw_state \<Rightarrow> int set" where
  "ids st = acc_ID ` set (gs_Accounts st)"

lemma core_ids: "same_core st st' \<Longrightarrow> ids st' = ids st"
  unfolding same_core_def ids_def by (metis list.set_map)

lemma queried_in: "set (queryAccountsByGroup now i ps tbl) \<subseteq> set tbl"
  using set_first_of_each_id by (fastforce simp: queryAccountsByGroup_def)

lemma listed_ids:
  assumes "ge_Snapshot e = None" "listSchedulableAccounts e g p f st = Inr (as, mx)" "a \<in> set as"
  shows "acc_ID a \<in> ids st"
proof -
  have "set as \<subseteq> set (gs_Accounts st)"
    using assms(1,2) queried_in
    by (fastforce simp: listSchedulableAccounts_def Let_def ListSchedulableByPlatforms_def
        ListSchedulableUngroupedByPlatforms_def ListSchedulableByGroupIDAndPlatforms_def
        ListSchedulableByPlatform_def ListSchedulableUngroupedByPlatform_def
        ListSchedulableByGroupIDAndPlatform_def split: if_splits option.splits)
  then show ?thesis using assms(3) by (auto simp: ids_def)
qed

lemma sticky_ids:
  assumes "ge_Snapshot e = None" "sticky_block e cx g sh m ex al pre post st = (Some a, st')"
  shows "acc_ID a \<in> ids st"
proof -
  have got: "getSchedulableAccount e i st = Some (Some a) \<Longrightarrow> acc_ID a \<in> ids st" for i
    using assms(1) by (auto simp: getSchedulableAccount_def account_GetByID_def find_Some_iff ids_def)
  obtain i where i: "cached_sticky e g sh st = Some i" "al i" "i \<notin> ex"
    using assms(2) by (cases "cached_sticky e g sh st") (auto simp: sticky_block_def split: if_splits)
  obtain oa where oa: "getSchedulableAccount e i st = Some oa"
    using assms(2) i by (cases "getSchedulableAccount e i st") (auto simp: sticky_block_def)
  have "oa = Some a"
    using assms(2) i oa by (cases oa) (auto simp: sticky_block_def Let_def split: if_splits prod.splits)
  then show ?thesis using got oa by simp
qed

lemma scan_ids:
  assumes "\<forall>a \<in> set as. acc_ID a \<in> I" "scan e cx g sh better q as st = (Some a, cx', st')"
  shows "acc_ID a \<in> I"
  using scan_ok(2) [OF assms(2) refl] assms(1) by blast

lemma normal_ids:
  assumes n: "ge_Snapshot e = None"
    and loaded: "\<And>as. loaded = Some as \<Longrightarrow> \<forall>a \<in> set as. acc_ID a \<in> ids st"
    and r: "select_normal e g sh m ex sel cx loaded st = (Inr a, st')"
  shows "acc_ID a \<in> ids st"
proof -
  obtain oa st1 where s: "sticky_block e cx g sh m ex (\<lambda>_. True) (sel_pre sel) (sel_post sel) st = (oa, st1)"
    by fastforce
  note i1 = core_ids [OF core_sticky_eq [OF s]]
  show ?thesis
  proof (cases oa)
    case (Some b)
    then have "b = a" using r s by (simp add: select_normal_def)
    then show ?thesis using sticky_ids [OF n] s Some by blast
  next
    case None
    let ?l = "case loaded of Some as \<Rightarrow> Inr as
      | None \<Rightarrow> and_then (listSchedulableAccounts e g (sel_platform sel) (sel_force sel) st1) (\<lambda>r. Inr (fst r))"
    obtain as where l: "?l = Inr as" using r s None by (cases ?l) (simp_all add: select_normal_def)
    have p: "\<forall>a \<in> set as. acc_ID a \<in> ids st"
    proof (cases loaded)
      case None
      then obtain mx where "listSchedulableAccounts e g (sel_platform sel) (sel_force sel) st1 = Inr (as, mx)"
        using l by (cases "listSchedulableAccounts e g (sel_platform sel) (sel_force sel) st1") auto
      then show ?thesis using listed_ids [OF n] i1 by blast
    next
      case (Some bs)
      then show ?thesis using l loaded by simp
    qed
    let ?q = "\<lambda>cx. loop_check e cx (group_of e g) ex m (sel_mixed sel)
        (if needsUpstreamChannelRestrictionCheck e g then g else None)"
    obtain ob cx' st2 where c: "scan e cx g sh (sel_better sel) ?q as st1 = (ob, cx', st2)"
      using prod_cases3 by blast
    have "ob = Some a" using r s None l c by (cases ob) (auto simp: select_normal_def)
    then show ?thesis using scan_ids [OF p] c by blast
  qed
qed

lemma with_ids:
  assumes n: "ge_Snapshot e = None" and r: "select_with e cx g sh m ex sel st = (Inr a, st')"
  shows "acc_ID a \<in> ids st"
proof -
  let ?r = "routingAccountIDsForRequest cx (ge_Groups e) g m (sel_platform sel)"
  show ?thesis
  proof (cases "?r = []")
    case True
    then show ?thesis using r normal_ids [OF n, of None] by (simp add: select_with_def Let_def)
  next
    case False
    obtain oa st1 where s: "sticky_block e cx g sh m ex (\<lambda>i. i \<in> set ?r) (sel_pre sel) (sel_post_routed sel) st
        = (oa, st1)" by fastforce
    note i1 = core_ids [OF core_sticky_eq [OF s]]
    show ?thesis
    proof (cases oa)
      case (Some b)
      then have "b = a" using r s False by (simp add: select_with_def Let_def)
      then show ?thesis using sticky_ids [OF n] s Some by blast
    next
      case None
      obtain as mx where l: "listSchedulableAccounts e g (sel_platform sel) (sel_force sel) st1 = Inr (as, mx)"
        using r s None False
        by (cases "listSchedulableAccounts e g (sel_platform sel) (sel_force sel) st1") (auto simp: select_with_def Let_def)
      then have p: "\<forall>a \<in> set as. acc_ID a \<in> ids st" using listed_ids [OF n l] i1 by blast
      let ?q = "routed_loop_check e g ?r ex m (sel_mixed sel)"
      obtain ob cx' st2 where c: "scan e cx g sh (sel_better sel) ?q as st1 = (ob, cx', st2)"
        using prod_cases3 by blast
      have i2: "ids st2 = ids st" using core_ids [OF core_scan_eq [OF c core_routed_check]] i1 by simp
      show ?thesis
      proof (cases ob)
        case (Some b)
        then have "b = a" using r s None False l c by (simp add: select_with_def Let_def)
        then show ?thesis using scan_ids [OF p] c Some by blast
      next
        case obN: None
        have "select_normal e g sh m ex sel cx' (Some as) st2 = (Inr a, st')"
          using r s None False l c obN by (simp add: select_with_def Let_def)
        then show ?thesis using normal_ids [OF n, of "Some as"] p i2 by blast
      qed
    qed
  qed
qed

lemma selection_ids:
  assumes n: "ge_Snapshot e = None"
    and r: "SelectAccountForModelWithExclusions e cx0 g0 sh m ex st = (Inr h, st')"
  shows "acc_ID h \<in> ids st - ex"
proof -
  have "snapshot_ok e" using n by (simp add: snapshot_ok_def)
  from selection_suits [OF this r] have "acc_ID h \<notin> ex"
    using n by (auto simp: suits_def eligible_def hydrateSelectedAccount_def)
  moreover have "acc_ID h \<in> ids st"
  proof -
    obtain t where t: "requested_start e cx0 g0 = Inr t"
      using r by (cases "requested_start e cx0 g0") (auto simp: SelectAccountForModelWithExclusions_def)
    obtain p g cx where pgc: "t = (p, g, cx)" using prod_cases3 by blast
    define sel where "sel = (if (p = PlatformAnthropic \<or> p = PlatformGemini) \<and> cx_ForcePlatform cx = None
      then selectAccountWithMixedScheduling e cx g sh m ex p st
      else selectAccountForModelWithPlatform e cx g sh m ex p st)"
    have "(case sel of (Inl er, st1) \<Rightarrow> (Inl er, st1) | (Inr a, st1) \<Rightarrow> (hydrateSelectedAccount e a, st1)) = (Inr h, st')"
      using r t pgc sel_def by (cases "checkChannelPricingRestriction e g m")
        (simp_all add: SelectAccountForModelWithExclusions_def)
    then have "sel = (Inr h, st')" using n by (cases sel; cases "fst sel") (auto simp: hydrateSelectedAccount_def)
    then show ?thesis
      using with_ids [OF n]
      by (auto simp: sel_def selectAccountWithMixedScheduling_def selectAccountForModelWithPlatform_def split: if_splits)
  qed
  ultimately show ?thesis by blast
qed

lemma take_slot_ids: "take_slot e a sh st = (q, st') \<Longrightarrow> ids st' = ids st"
proof -
  assume t: "take_slot e a sh st = (q, st')"
  obtain r st1 where r: "tryAcquireAccountSlot e (acc_ID a) (acc_Concurrency a) st = (r, st1)" by fastforce
  then have 1: "ids st1 = ids st"
    by (auto simp: tryAcquireAccountSlot_def with_slots_def ids_def split: if_splits prod.splits)
  obtain b st2 where b: "checkAndRegisterSession e a sh st1 = (b, st2)" by fastforce
  then have 2: "ids st2 = ids st1" using core_ids core_register [of st1 e a sh] by simp
  have "st' = st1 \<or> st' = st2 \<or> (\<exists>rel. st' = release_slot e rel st2)"
    using t r b by (auto simp: take_slot_def split: sum.splits option.splits bool.splits)
  then show ?thesis using 1 2 by (auto simp: release_slot_def ids_def)
qed

lemma legacy_loop_ends:
  "ge_Snapshot e = None \<Longrightarrow> card (ids st - ex) < n \<Longrightarrow> \<exists>r. legacy_loop n e cx g sh m sticky ex st = Some r"
proof (induction n arbitrary: ex st)
  case (Suc n)
  obtain x st1 where x: "SelectAccountForModelWithExclusions e cx g sh m ex st = (x, st1)" by fastforce
  then have i1: "ids st1 = ids st" using core_ids core_selection [of st e cx g sh m ex] by simp
  show ?case
  proof (cases x)
    case (Inl er)
    then show ?thesis using x by simp
  next
    case (Inr a)
    have "acc_ID a \<in> ids st - ex" using selection_ids [OF Suc.prems(1)] x Inr by blast
    then have "card (ids st - insert (acc_ID a) ex) < card (ids st - ex)"
      by (intro psubset_card_mono) (auto simp: ids_def)
    then have again: "\<exists>r. legacy_loop n e cx g sh m sticky (insert (acc_ID a) ex) s = Some r" if "ids s = ids st" for s
      using Suc.IH [OF Suc.prems(1)] Suc.prems(2) that by simp
    obtain q st2 where q: "take_slot e a sh st1 = (q, st2)" by fastforce
    obtain b st3 where b: "checkAndRegisterSession e a sh st2 = (b, st3)" by fastforce
    have i2: "ids st2 = ids st" using take_slot_ids [OF q] i1 by simp
    have "same_core st2 st3" using core_register [of st2 e a sh] b by simp
    then have i3: "ids st3 = ids st" using core_ids i2 by blast
    show ?thesis using x Inr q b again [OF i2] again [OF i3] by (cases q; cases b) auto
  qed
qed simp



end
