(* ===== verification/GatewayOutcome.thy ===== *)
theory GatewayOutcome
  imports GatewayLoadProps
begin

text \<open>
  What the selection with loads returns: an account that suits the request, with a slot or with
  a place in its queue; the least loaded account of layer 2; and two gaps, shown by instances:
  a slot that is lost when the selected account cannot be read again, and a group's demand for
  privacy that only the selection without loads looks at.
\<close>

section \<open>Reordering keeps the accounts\<close>

lemma set_shuffle [simp]: "set (fst (shuffle dr xs k)) = set xs"
  by (metis mset_shuffle set_mset_mset)

lemma set_oauth_first: "set (fst (oauth_first dr xs k)) = set xs"
proof -
  obtain o1 k1 where 1: "shuffle dr (filter (\<lambda>a. acc_Type a = AccountTypeOAuth) xs) k = (o1, k1)" by fastforce
  obtain o2 k2 where 2: "shuffle dr (filter (\<lambda>a. acc_Type a \<noteq> AccountTypeOAuth) xs) k1 = (o2, k2)" by fastforce
  have "set o1 = set (filter (\<lambda>a. acc_Type a = AccountTypeOAuth) xs)" using set_shuffle 1 by (metis fst_conv)
  moreover have "set o2 = set (filter (\<lambda>a. acc_Type a \<noteq> AccountTypeOAuth) xs)" using set_shuffle 2 by (metis fst_conv)
  ultimately show ?thesis using 1 2 by (auto simp: oauth_first_def Let_def)
qed

lemma set_shuffle_groups:
  assumes "\<And>ys k. set (fst (perm ys k)) = set ys"
  shows "set (fst (shuffle_groups same perm xs k)) = set xs"
proof (induction "length xs" arbitrary: xs k rule: less_induct)
  case less
  show ?case
  proof (cases xs)
    case (Cons x r)
    obtain g k1 where g: "perm (x # takeWhile (same x) r) k = (g, k1)" by fastforce
    obtain q k2 where q: "shuffle_groups same perm (dropWhile (same x) r) k1 = (q, k2)" by fastforce
    have "set g = set (x # takeWhile (same x) r)" using assms g by (metis fst_conv)
    moreover have "set q = set (dropWhile (same x) r)"
      using less [of "dropWhile (same x) r" k1] q Cons length_dropWhile_le [of "same x" r] by simp
    moreover have "set r = set (takeWhile (same x) r) \<union> set (dropWhile (same x) r)"
      by (metis set_append takeWhile_dropWhile_id)
    ultimately show ?thesis using Cons g q by simp
  qed simp
qed

lemma set_legacy_sort: "set (fst (sortAccountsByPriorityAndLastUsed dr as p k)) = set as"
  using set_shuffle_groups [of "if p then oauth_first dr else shuffle dr" sameAccountGroup]
  by (simp add: sortAccountsByPriorityAndLastUsed_def shuffleWithinPriorityAndLastUsed_def set_oauth_first)

lemma set_fallback_sort: "set (fst (sortCandidatesForFallback dr as p mode k)) = set as"
  by (simp add: sortCandidatesForFallback_def set_legacy_sort shuffleWithinPriority_def sortAccountsByPriorityOnly_def
      set_shuffle_groups)

lemma set_load_sort: "set (fst (shuffleWithinSortGroups dr as k)) = set as"
  using set_shuffle_groups [of "shuffle dr"] by (simp add: shuffleWithinSortGroups_def)

section \<open>The account of a result\<close>

lemma tried_mem: "try_in_order e g sh as st = (Some (a, r), st') \<Longrightarrow> a \<in> set as"
  by (induction as arbitrary: st) (auto split: prod.splits slot_result.splits)

lemma first_mem: "first_with_session e sh as st = (Some a, st') \<Longrightarrow> a \<in> set as"
  by (induction as arbitrary: st) (auto split: prod.splits bool.splits)

lemma available_mem: "x \<in> set (available_accounts loads as) \<Longrightarrow> awl_Account x \<in> set as"
  by (auto simp: available_accounts_def)

lemma layer2_mem: "layer2 e g sh p av st = (Some (a, r), st') \<Longrightarrow> a \<in> awl_Account ` set av"
proof (induction "length av" arbitrary: av st rule: less_induct)
  case less
  obtain x st1 where x: "with_draws (layered_choice (ge_Draws e) av p) st = (x, st1)" by fastforce
  show ?case
  proof (cases x)
    case None
    then show ?thesis using less.prems x by (simp add: layer2.simps [of e g sh p av])
  next
    case (Some y)
    have y: "y \<in> set av" using x Some layered_choice_mem by (auto simp: with_draws_def split: prod.splits)
    obtain q st2 where q: "take_slot e (awl_Account y) sh st1 = (q, st2)" by fastforce
    show ?thesis
    proof (cases "\<exists>rel. q = SlotTaken rel")
      case True
      then show ?thesis using less.prems x Some q y by (auto simp: layer2.simps [of e g sh p av])
    next
      case False
      let ?av = "filter (\<lambda>y'. acc_ID (awl_Account y') \<noteq> acc_ID (awl_Account y)) av"
      have "layer2 e g sh p ?av st2 = (Some (a, r), st')"
        using less.prems x Some q False by (cases q) (auto simp: layer2.simps [of e g sh p av])
      moreover have "length ?av < length av" using layer2_shrinks x Some by simp
      ultimately show ?thesis using less.hyps [of ?av st2] by auto
    qed
  qed
qed

text \<open>A result for the account \<open>a\<close>: it carries a slot, or else a plan for waiting for that account. The
  account is the one the snapshot has for its id, except for the plan of a routed sticky
  session, which carries it as it was listed.\<close>

definition result_for :: "'r gw_env \<Rightarrow> account \<Rightarrow> AccountSelectionResult \<Rightarrow> bool" where
  "result_for e a r \<longleftrightarrow>
     (hydrateSelectedAccount e a = Inr (sr_Account r) \<or> sr_Account r = a \<and> \<not> sr_Acquired r)
     \<and> (if sr_Acquired r then sr_ReleaseFunc r \<noteq> None \<and> sr_WaitPlan r = None
        else sr_ReleaseFunc r = None
          \<and> (\<exists>p. sr_WaitPlan r = Some p \<and> wp_AccountID p = acc_ID a \<and> wp_MaxConcurrency p = acc_Concurrency a))"

lemma new_result_slot: "newSelectionResult e a True (Some rel) None = Inr r \<Longrightarrow> result_for e a r"
  by (cases "hydrateSelectedAccount e a") (auto simp: newSelectionResult_def result_for_def)

lemma new_result_plan:
  "newSelectionResult e a False None (Some p) = Inr r \<Longrightarrow> wp_AccountID p = acc_ID a \<Longrightarrow>
   wp_MaxConcurrency p = acc_Concurrency a \<Longrightarrow> result_for e a r"
  by (cases "hydrateSelectedAccount e a") (auto simp: newSelectionResult_def result_for_def)

lemma plans [simp]:
  "wp_AccountID (sticky_plan e a) = acc_ID a" "wp_MaxConcurrency (sticky_plan e a) = acc_Concurrency a"
  "wp_AccountID (fallback_plan e a) = acc_ID a" "wp_MaxConcurrency (fallback_plan e a) = acc_Concurrency a"
  by (simp_all add: sticky_plan_def fallback_plan_def)

section \<open>The account of each layer\<close>

text \<open>A layer serves accounts of \<open>A\<close> when every result it gives is for one of them.\<close>

definition serves :: "'r gw_env \<Rightarrow> (account \<Rightarrow> bool) \<Rightarrow> 'r layer \<Rightarrow> bool" where
  "serves e A f \<longleftrightarrow> (\<forall>st r st'. f st = (Some (Inr r), st') \<longrightarrow> (\<exists>a. A a \<and> result_for e a r))"

lemma servesI: "(\<And>st r st'. f st = (Some (Inr r), st') \<Longrightarrow> \<exists>a. A a \<and> result_for e a r) \<Longrightarrow> serves e A f"
  by (simp add: serves_def)

lemma servesD: "serves e A f \<Longrightarrow> f st = (Some (Inr r), st') \<Longrightarrow> \<exists>a. A a \<and> result_for e a r"
  unfolding serves_def by blast

lemma guarded: "(if b then (None, s) else y) = (Some x, s') \<Longrightarrow> \<not> b \<and> y = (Some x, s')"
  by (simp split: if_splits)

lemma serves_or_else: "serves e A f \<Longrightarrow> serves e A g \<Longrightarrow> serves e A (or_else f g)"
  by (rule servesI) (auto simp: or_else_def split: prod.splits option.splits dest: servesD)

lemma serves_order:
  assumes "\<forall>a \<in> set as. A a" "\<And>a. wp_AccountID (plan a) = acc_ID a" "\<And>a. wp_MaxConcurrency (plan a) = acc_Concurrency a"
  shows "serves e A (serve_in_order e g sh as plan)"
proof (rule servesI)
  fix st r st'
  assume r: "serve_in_order e g sh as plan st = (Some (Inr r), st')"
  obtain q st1 where q: "try_in_order e g sh as st = (q, st1)" by fastforce
  show "\<exists>a. A a \<and> result_for e a r"
  proof (cases q)
    case (Some x)
    obtain a rel where "x = (a, rel)" by fastforce
    moreover from this have "A a" using q Some tried_mem assms(1) by blast
    ultimately show ?thesis using r q Some new_result_slot [of e a rel r] by (auto simp: serve_in_order_def)
  next
    case None
    obtain f st2 where f: "first_with_session e sh as st1 = (f, st2)" by fastforce
    then obtain a where "f = Some a" using r q None by (cases f) (auto simp: serve_in_order_def)
    moreover from this have "A a" using f first_mem assms(1) by blast
    ultimately show ?thesis using r q None f new_result_plan [of e a "plan a" r] assms(2,3)
      by (auto simp: serve_in_order_def)
  qed
qed

lemma serves_routed_load:
  assumes "\<forall>a \<in> set cands. A a"
  shows "serves e A (routed_by_load e g sh cands)"
proof (rule servesI)
  fix st r st'
  assume r: "routed_by_load e g sh cands st = (Some (Inr r), st')"
  obtain l st1 where l: "batch_loads e cands st = (l, st1)" by fastforce
  let ?av = "available_accounts (case l of Inr m \<Rightarrow> m | Inl _ \<Rightarrow> []) cands"
  obtain o' st2 where o: "with_draws (shuffleWithinSortGroups (ge_Draws e) (sort_by less_load ?av)) st1 = (o', st2)"
    by fastforce
  have s: "serve_in_order e g sh (map awl_Account o') (sticky_plan e) st2 = (Some (Inr r), st')"
    using r l o by (auto simp: routed_by_load_def Let_def split: if_splits)
  have "set o' = set ?av"
    using o set_load_sort [of "ge_Draws e" "sort_by less_load ?av" "gs_Drawn st1"]
    by (auto simp: with_draws_def split: prod.splits)
  then have "\<forall>a \<in> set (map awl_Account o'). A a" using assms available_mem by auto
  from servesD [OF serves_order [OF this, of "sticky_plan e" e] s] show "\<exists>a. A a \<and> result_for e a r" by simp
qed

lemma collected_mem:
  assumes "collect (load_check e cx ex p x m s) as st = (cs, st1)" "a \<in> set cs"
  shows "a \<in> set as \<and> suits e cx ex m p x a"
  using collect_ok [of a "load_check e cx ex p x m s" as st] assms by (auto simp: suits_def dest!: load_check_ok)

lemma serves_routed_sticky: "serves e (suits e cx ex m p x) (routed_sticky e cx g sh m ex p x as ro sticky)"
proof (rule servesI)
  fix st r st'
  assume r: "routed_sticky e cx g sh m ex p x as ro sticky st = (Some (Inr r), st')"
  note def = guarded [OF r [unfolded routed_sticky_def], THEN conjunct2]
  obtain a where a: "account_by_id as sticky = Some a" using def by (cases "account_by_id as sticky") (auto split: if_splits)
  obtain b st1 where b: "load_check e cx ex p x m True a st = (b, st1)" by fastforce
  obtain q st2 where q: "take_slot e a sh st1 = (q, st2)" by fastforce
  obtain c st3 where c: "sticky_queue e a sh st2 = (c, st3)" by fastforce
  have "b" using def a b by (cases b) auto
  then have s: "suits e cx ex m p x a" using load_check_ok [of e cx ex p x m True a st] b by (simp add: suits_def)
  have "result_for e a r"
  proof (cases q)
    case (SlotTaken rel)
    then show ?thesis using def a b q \<open>b\<close> new_result_slot by auto
  next
    case SessionLimited
    then show ?thesis using def a b q \<open>b\<close> by simp
  next
    case SlotBusy
    then show ?thesis using def a b q c \<open>b\<close> by (cases c) (auto simp: result_for_def)
  qed
  then show "\<exists>a. suits e cx ex m p x a \<and> result_for e a r" using s by blast
qed

lemma serves_layer1: "serves e (suits e cx ex m p x) (layer1 e cx g sh m ex p x as ro sticky)"
proof (rule servesI)
  fix st r st'
  assume r: "layer1 e cx g sh m ex p x as ro sticky st = (Some (Inr r), st')"
  obtain cs st1 where c: "collect (load_check e cx ex p x m False) (List.map_filter (account_by_id as) ro) st = (cs, st1)"
    by fastforce
  have o: "or_else (routed_sticky e cx g sh m ex p x as ro sticky) (routed_by_load e g sh cs) st1 = (Some (Inr r), st')"
    using r c by (auto simp: layer1_def split: if_splits)
  have "\<forall>a \<in> set cs. suits e cx ex m p x a" using collected_mem [OF c] by blast
  from servesD [OF serves_or_else [OF serves_routed_sticky serves_routed_load [OF this]] o]
  show "\<exists>a. suits e cx ex m p x a \<and> result_for e a r" .
qed

lemma serves_sticky_layer: "serves e (suits e cx ex m p x) (sticky_layer e cx g sh m ex p x as ro sticky)"
proof (rule servesI)
  fix st r st'
  assume r: "sticky_layer e cx g sh m ex p x as ro sticky st = (Some (Inr r), st')"
  note F = guarded [OF r [unfolded sticky_layer_def], THEN conjunct1]
  note def = guarded [OF r [unfolded sticky_layer_def], THEN conjunct2]
  obtain a where a: "account_by_id as sticky = Some a" using def by (cases "account_by_id as sticky") auto
  then have "acc_ID a = sticky" by (auto simp: account_by_id_def dest!: map_of_SomeD)
  define st0 where "st0 = (if shouldClearStickySession e (Some a) m then unbind_sticky e g sh st else st)"
  obtain w st1 where w: "isAccountSchedulableForWindowCost e cx a True st0 = (w, st1)" by fastforce
  have k: "sticky_passes e cx m p x a w st1" "serve_sticky e g sh a st1 = (Some (Inr r), st')"
    using def a by (auto simp: Let_def st0_def [symmetric] w split: if_splits)
  have "suits e cx ex m p x a"
    using k(1) F \<open>acc_ID a = sticky\<close> by (simp add: sticky_passes_def suits_def eligible_def)
  moreover have "result_for e a r"
    using k(2)
    by (auto simp: serve_sticky_def split: prod.splits slot_result.splits bool.splits
        intro: new_result_slot new_result_plan)
  ultimately show "\<exists>a. suits e cx ex m p x a \<and> result_for e a r" by blast
qed

lemma serves_legacy:
  assumes "\<forall>a \<in> set cands. A a" "tryAcquireByLegacyOrder e cands g sh po st = (Inr (Some r), st')"
  shows "\<exists>a. A a \<and> result_for e a r"
proof -
  obtain o' st1 where o: "with_draws (sortAccountsByPriorityAndLastUsed (ge_Draws e) cands po) st = (o', st1)" by fastforce
  obtain q st2 where q: "try_in_order e g sh o' st1 = (q, st2)" by fastforce
  have s: "set o' = set cands"
    using o set_legacy_sort [of "ge_Draws e" cands po "gs_Drawn st"] by (auto simp: with_draws_def split: prod.splits)
  obtain a rel where a: "q = Some (a, rel)" using assms(2) o q by (cases q) (auto simp: tryAcquireByLegacyOrder_def)
  then have "A a" using q tried_mem assms(1) s by blast
  moreover have "newSelectionResult e a True (Some rel) None = Inr r"
    using assms(2) o q a by (cases "newSelectionResult e a True (Some rel) None") (auto simp: tryAcquireByLegacyOrder_def)
  ultimately show ?thesis using new_result_slot by blast
qed

lemma serves_by_load:
  assumes "\<forall>a \<in> set cands. A a"
  shows "serves e A (by_load e g sh po cands)"
proof (rule servesI)
  fix st r st'
  assume r: "by_load e g sh po cands st = (Some (Inr r), st')"
  obtain l st1 where l: "batch_loads e cands st = (l, st1)" by fastforce
  show "\<exists>a. A a \<and> result_for e a r"
  proof (cases l)
    case (Inl er)
    then have "tryAcquireByLegacyOrder e cands g sh po st1 = (Inr (Some r), st')"
      using r l by (auto simp: by_load_def split: prod.splits sum.splits option.splits)
    then show ?thesis using serves_legacy assms by blast
  next
    case (Inr m)
    obtain q st2 where q: "layer2 e g sh po (available_accounts m cands) st1 = (q, st2)" by fastforce
    then obtain a rel where a: "q = Some (a, rel)" using r l Inr by (cases q) (auto simp: by_load_def)
    then have "A a" using q layer2_mem available_mem assms by blast
    moreover have "newSelectionResult e a True (Some rel) None = Inr r" using r l Inr q a by (simp add: by_load_def)
    ultimately show ?thesis using new_result_slot by blast
  qed
qed

lemma serves_fallback:
  assumes "\<forall>a \<in> set cands. A a"
  shows "serves e A (fallback_layer e sh po cands)"
proof (rule servesI)
  fix st r st'
  assume r: "fallback_layer e sh po cands st = (Some (Inr r), st')"
  let ?mode = "cfg_FallbackSelectionMode (config_of e)"
  obtain o' st1 where o: "with_draws (sortCandidatesForFallback (ge_Draws e) cands po ?mode) st = (o', st1)" by fastforce
  obtain f st2 where f: "first_with_session e sh o' st1 = (f, st2)" by fastforce
  have s: "set o' = set cands"
    using o set_fallback_sort [of "ge_Draws e" cands po ?mode "gs_Drawn st"]
    by (auto simp: with_draws_def split: prod.splits)
  obtain a where a: "f = Some a" using r o f by (cases f) (auto simp: fallback_layer_def)
  then have "A a" using f first_mem assms s by blast
  moreover have "newSelectionResult e a False None (Some (fallback_plan e a)) = Inr r"
    using r o f a by (simp add: fallback_layer_def)
  ultimately show "\<exists>a. A a \<and> result_for e a r" using new_result_plan by fastforce
qed

lemma serves_layer23: "serves e (suits e cx ex m p x) (layer23 e cx g sh m ex p x as)"
proof (rule servesI)
  fix st r st'
  assume r: "layer23 e cx g sh m ex p x as st = (Some (Inr r), st')"
  obtain cs st1 where c: "collect (load_check e cx ex p x m False) as st = (cs, st1)" by fastforce
  have o: "or_else (by_load e g sh (p = PlatformGemini) cs) (fallback_layer e sh (p = PlatformGemini) cs) st1
      = (Some (Inr r), st')"
    using r c by (auto simp: layer23_def split: if_splits)
  have "\<forall>a \<in> set cs. suits e cx ex m p x a" using collected_mem [OF c] by blast
  from servesD [OF serves_or_else [OF serves_by_load [OF this] serves_fallback [OF this]] o]
  show "\<exists>a. suits e cx ex m p x a \<and> result_for e a r" .
qed

lemma serves_layers: "serves e (suits e cx ex m p x) (layers e cx g sh m ex p x as ro sticky)"
  unfolding layers_def by (intro serves_or_else serves_layer1 serves_sticky_layer serves_layer23)

lemma layered_suits:
  assumes r: "select_layered e cx grp g sh m ex sticky st = (Inr r, st')"
  shows "\<exists>p f x a. resolvePlatform cx (ge_Groups e) g grp = Inr (p, f) \<and> suits e cx ex m p x a
    \<and> (\<exists>as. listSchedulableAccounts e g p f st = Inr (as, x)) \<and> result_for e a r"
proof -
  obtain pf where pf: "resolvePlatform cx (ge_Groups e) g grp = Inr pf"
    using r by (cases "resolvePlatform cx (ge_Groups e) g grp") (auto simp: select_layered_def)
  obtain p f where p: "pf = (p, f)" by fastforce
  obtain am where l: "listSchedulableAccounts e g p f st = Inr am"
    using r pf p by (cases "listSchedulableAccounts e g p f st") (auto simp: select_layered_def)
  obtain as mx where am: "am = (as, mx)" by fastforce
  obtain cx1 st1 where pre: "prefetch e as cx st = (cx1, st1)" by fastforce
  obtain y st2 where y: "layers e cx1 g sh m ex p mx as (routing_of grp m) sticky st1 = (y, st2)" by fastforce
  have "y = Some (Inr r)" using r pf p l am pre y
    by (cases "as = []"; cases y) (auto simp: select_layered_def)
  then obtain a where "suits e cx1 ex m p mx a" "result_for e a r" using servesD [OF serves_layers] y by blast
  moreover have "cx_Thinking cx1 = cx_Thinking cx" using prefetch_thinking [of e as cx st] pre by simp
  ultimately show ?thesis using suits_thinking pf p l am by blast
qed

section \<open>The group is resolved once\<close>

lemma restriction_facts:
  assumes "checkClaudeCodeRestriction cx groups g0 = Inr (grp, g)"
  shows "grp = None \<and> g = g0 \<and> (g0 = None \<or> forced cx \<noteq> None)
    \<or> (\<exists>i j h. g0 = Some i \<and> forced cx = None \<and> grp = Some h \<and> g = Some j \<and> fallback_chain cx groups i [] = Inr (h, j))"
proof (cases "g0 = None \<or> forced cx \<noteq> None")
  case True
  then show ?thesis using assms by (simp add: checkClaudeCodeRestriction_def)
next
  case False
  then obtain i where i: "g0 = Some i" "forced cx = None" by auto
  then show ?thesis using assms
    by (cases "fallback_chain cx groups i []") (auto simp: checkClaudeCodeRestriction_def resolveGatewayGroup_def)
qed

lemma resolve_again:
  assumes "resolveGroupByID cx groups j = Some h"
  shows "resolveGroupByID (withGroupContext cx (Some h)) groups j = Some h"
  using assms
  by (auto simp: resolveGroupByID_def groupFromContext_def withGroupContext_def split: option.splits if_splits)

lemma withGroup_claude [simp]: "cx_ClaudeCode (withGroupContext cx g) = cx_ClaudeCode cx"
  by (simp add: withGroupContext_def split: option.split)

lemma forced_group: "forced (withGroupContext cx g) = forced cx"
  by (simp add: forced_def)

lemma chain_again:
  assumes "fallback_chain cx groups i [] = Inr (h, j)"
  shows "fallback_chain (withGroupContext cx (Some h)) groups j [] = Inr (h, j)"
proof -
  have "admitted_by cx groups j h" using fallback_chain_sound [OF assms] by simp
  then have "admitted_by (withGroupContext cx (Some h)) groups j h"
    using resolve_again by (simp add: admitted_by_def)
  then show ?thesis using fallback_chain_complete [OF falls_in.here, of _ groups j h "[]"] by simp
qed

lemma platform_again:
  assumes "checkClaudeCodeRestriction cx groups g0 = Inr (grp, g)"
  shows "request_platform (withGroupContext cx grp) groups g = request_platform cx groups g0"
proof -
  consider "grp = None" "g = g0"
    | i j h where "g0 = Some i" "forced cx = None" "grp = Some h" "g = Some j" "fallback_chain cx groups i [] = Inr (h, j)"
    using restriction_facts [OF assms] by blast
  then show ?thesis
  proof cases
    case 1
    then show ?thesis by (simp add: withGroupContext_def IsGroupContextValid_def)
  next
    case 2
    then show ?thesis using chain_again [OF 2(5)] by (simp add: request_platform_def forced_group)
  qed
qed

lemma platform_resolved:
  assumes "checkClaudeCodeRestriction cx groups g0 = Inr (grp, g)"
    and "resolvePlatform (withGroupContext cx grp) groups g grp = Inr (p, f)"
  shows "request_platform cx groups g0 = Some p \<and> f = (forced cx \<noteq> None)"
proof -
  have f: "forced (withGroupContext cx grp) = forced cx" by (rule forced_group)
  show ?thesis
  proof (cases "forced cx")
    case (Some q)
    then show ?thesis using assms(2) f by (simp add: resolvePlatform_def request_platform_def)
  next
    case None
    show ?thesis
      using restriction_facts [OF assms(1)]
    proof
      assume "grp = None \<and> g = g0 \<and> (g0 = None \<or> forced cx \<noteq> None)"
      then show ?thesis using assms(2) f None by (simp add: resolvePlatform_def request_platform_def)
    next
      assume "\<exists>i j h. g0 = Some i \<and> forced cx = None \<and> grp = Some h \<and> g = Some j \<and> fallback_chain cx groups i [] = Inr (h, j)"
      then show ?thesis using assms(2) f None by (auto simp: resolvePlatform_def request_platform_def)
    qed
  qed
qed

lemma legacy_suits:
  assumes ok: "snapshot_ok e"
  shows "legacy_loop n e cx g sh m sticky ex st = Some (Inr r, st') \<Longrightarrow>
    \<exists>p a x h. request_platform cx (ge_Groups e) g = Some p \<and> suits e cx ex m p x a
      \<and> (x \<longrightarrow> mixed_mode p (forced cx \<noteq> None)) \<and> hydrateSelectedAccount e a = Inr h \<and> result_for e h r"
proof (induction n arbitrary: ex st)
  case (Suc n)
  obtain y st1 where y: "SelectAccountForModelWithExclusions e cx g sh m ex st = (y, st1)" by fastforce
  obtain h where h: "y = Inr h" using Suc.prems y by (cases y) auto
  have less: ?case if "legacy_loop n e cx g sh m sticky (insert (acc_ID h) ex) s = Some (Inr r, st')" for s
    using Suc.IH [OF that] by (fastforce simp: suits_def eligible_def)
  obtain q st2 where q: "take_slot e h sh st1 = (q, st2)" by fastforce
  obtain b st3 where b: "checkAndRegisterSession e h sh st2 = (b, st3)" by fastforce
  have here: ?case if "result_for e h r" using selection_suits [OF ok y [unfolded h]] that by blast
  show ?case
  proof (cases q)
    case (SlotTaken rel)
    then show ?thesis using Suc.prems y h q here new_result_slot [of e h rel r] by simp
  next
    case SessionLimited
    then show ?thesis using Suc.prems y h q less by simp
  next
    case SlotBusy
    show ?thesis
    proof (cases b)
      case False
      then show ?thesis using Suc.prems y h q b SlotBusy less by simp
    next
      case True
      then have "\<exists>p. newSelectionResult e h False None (Some p) = Inr r \<and> wp_AccountID p = acc_ID h
          \<and> wp_MaxConcurrency p = acc_Concurrency h"
        using Suc.prems y h q b SlotBusy plans by (fastforce split: if_splits)
      then show ?thesis using here new_result_plan by blast
    qed
  qed
qed simp

section \<open>Properties\<close>

lemma mixed_of_listed:
  "snapshot_ok e \<Longrightarrow> listSchedulableAccounts e g p f st = Inr (as, x) \<Longrightarrow> x = mixed_mode p f"
  using listed_platform by blast



lemma min_time_least:
  "min_time m xs = Some t \<Longrightarrow>
   (\<forall>a \<in> set xs. \<exists>u. acc_LastUsedAt (awl_Account a) = Some u \<and> t \<le> u) \<and> (\<forall>v. m = Some v \<longrightarrow> t \<le> v)"
proof (induction xs arbitrary: m)
  case (Cons x xs)
  then obtain u where u: "acc_LastUsedAt (awl_Account x) = Some u" by (cases "acc_LastUsedAt (awl_Account x)") auto
  let ?m = "case m of None \<Rightarrow> Some u | Some v \<Rightarrow> if u < v then Some u else m"
  have i: "\<forall>a \<in> set xs. \<exists>u. acc_LastUsedAt (awl_Account a) = Some u \<and> t \<le> u" "\<forall>v. ?m = Some v \<longrightarrow> t \<le> v"
    using Cons.IH [of ?m] Cons.prems u by simp_all
  define v where "v = (case m of None \<Rightarrow> u | Some w \<Rightarrow> if u < w then u else w)"
  then have v: "?m = Some v" by (simp split: option.split)
  then have "t \<le> v" using i(2) by blast
  moreover have "v \<le> u" "\<forall>w. m = Some w \<longrightarrow> v \<le> w" using v by (auto split: option.splits if_splits)
  ultimately show ?case using i(1) u by fastforce
qed simp

lemma oldest_first:
  assumes "a \<in> set (lru_candidates xs)" "b \<in> set xs" "acc_Priority (awl_Account a) = acc_Priority (awl_Account b)"
  shows "served_first (awl_Account a) (awl_Account b)"
proof (cases "min_time None xs")
  case None
  then show ?thesis using assms by (simp add: lru_candidates_def served_first_def)
next
  case (Some t)
  then obtain u where "acc_LastUsedAt (awl_Account b) = Some u" "t \<le> u" using min_time_least assms(2) by blast
  then show ?thesis using assms Some by (simp add: lru_candidates_def served_first_def)
qed

lemma served_first_refl: "served_first a a"
  by (simp add: served_first_def split: option.split)

lemma selectByLRU_first:
  assumes "selectByLRU dr xs p k = (Some a, k')" "b \<in> set xs"
    "acc_Priority (awl_Account a) = acc_Priority (awl_Account b)"
  shows "served_first (awl_Account a) (awl_Account b)"
proof (cases "2 \<le> length xs")
  case True
  show ?thesis by (rule oldest_first [OF selectByLRU_oldest [OF assms(1) True] assms(2,3)])
next
  case False
  then have "xs = [a]" using assms(1) by (cases xs rule: remdups_adj.cases) (auto simp: selectByLRU_def)
  then show ?thesis using assms(2) served_first_refl by simp
qed

lemma in_keep_min: "b \<in> set xs \<Longrightarrow> a \<in> set (keep_min f xs) \<Longrightarrow> f b = f a \<Longrightarrow> b \<in> set (keep_min f xs)"
  by (cases xs) (auto simp: keep_min_def Let_def)

lemma layered_none: "fst (layered_choice dr available p k) = None \<longleftrightarrow> available = []"
proof (cases "available = []")
  case True
  then show ?thesis by (simp add: layered_choice_def selectByLRU_def filterByMinPriority_def filterByMinLoadRate_def
        keep_min_def)
next
  case False
  then have "filterByMinLoadRate (filterByMinPriority available) \<noteq> []"
    by (simp add: filterByMinPriority_def filterByMinLoadRate_def)
  from selectByLRU_some [OF this, of dr p k] show ?thesis using False by (auto simp: layered_choice_def)
qed

lemma layered_best:
  assumes "fst (layered_choice dr available p k) = Some a" "b \<in> set available"
  shows "acc_Priority (awl_Account a) \<le> acc_Priority (awl_Account b)"
    and "acc_Priority (awl_Account b) = acc_Priority (awl_Account a) \<Longrightarrow>
      li_LoadRate (awl_LoadInfo a) \<le> li_LoadRate (awl_LoadInfo b)
      \<and> (li_LoadRate (awl_LoadInfo b) = li_LoadRate (awl_LoadInfo a) \<longrightarrow>
           served_first (awl_Account a) (awl_Account b))"
proof -
  let ?p = "filterByMinPriority available"
  let ?l = "filterByMinLoadRate ?p"
  obtain k' where c: "selectByLRU dr ?l p k = (Some a, k')"
    using assms(1) by (cases "selectByLRU dr ?l p k") (simp add: layered_choice_def)
  have l: "a \<in> set ?l" using selectByLRU_mem [OF c] .
  then have pr: "a \<in> set ?p" unfolding filterByMinLoadRate_def using keep_min_subset by (rule subsetD [rotated])
  show "acc_Priority (awl_Account a) \<le> acc_Priority (awl_Account b)"
    using keep_min_least [OF pr [unfolded filterByMinPriority_def] assms(2)] .
  assume same: "acc_Priority (awl_Account b) = acc_Priority (awl_Account a)"
  have bp: "b \<in> set ?p"
    using in_keep_min [OF assms(2) pr [unfolded filterByMinPriority_def] same] by (simp add: filterByMinPriority_def)
  have "li_LoadRate (awl_LoadInfo a) \<le> li_LoadRate (awl_LoadInfo b)"
    using keep_min_least [OF l [unfolded filterByMinLoadRate_def] bp] .
  moreover have "served_first (awl_Account a) (awl_Account b)"
    if "li_LoadRate (awl_LoadInfo b) = li_LoadRate (awl_LoadInfo a)"
  proof -
    have "b \<in> set ?l"
      using in_keep_min [OF bp l [unfolded filterByMinLoadRate_def] that] by (simp add: filterByMinLoadRate_def)
    then show ?thesis using selectByLRU_first [OF c] same by simp
  qed
  ultimately show "li_LoadRate (awl_LoadInfo a) \<le> li_LoadRate (awl_LoadInfo b)
      \<and> (li_LoadRate (awl_LoadInfo b) = li_LoadRate (awl_LoadInfo a) \<longrightarrow>
           served_first (awl_Account a) (awl_Account b))" by blast
qed

lemma layered_mem: "fst (layered_choice dr available p k) = Some a \<Longrightarrow> a \<in> set available"
  using layered_choice_mem by (metis prod.collapse)

text \<open>C28: Each choice of layer 2 takes an account whose priority is the smallest, whose load rate is the
  smallest among these, and which none of these was used before; it fails only when no account is
  left.\<close>
theorem layered_choice_optimal:
  "(fst (layered_choice dr available p k) = None \<longleftrightarrow> available = [])
   \<and> (\<forall>a. fst (layered_choice dr available p k) = Some a \<longrightarrow>
        a \<in> set available
        \<and> (\<forall>b \<in> set available.
             acc_Priority (awl_Account a) \<le> acc_Priority (awl_Account b)
             \<and> (acc_Priority (awl_Account b) = acc_Priority (awl_Account a) \<longrightarrow>
                  li_LoadRate (awl_LoadInfo a) \<le> li_LoadRate (awl_LoadInfo b)
                  \<and> (li_LoadRate (awl_LoadInfo b) = li_LoadRate (awl_LoadInfo a) \<longrightarrow>
                       served_first (awl_Account a) (awl_Account b)))))"
proof (rule conjI [OF layered_none], intro allI impI)
  fix a
  assume a: "fst (layered_choice dr available p k) = Some a"
  show "a \<in> set available
        \<and> (\<forall>b \<in> set available.
             acc_Priority (awl_Account a) \<le> acc_Priority (awl_Account b)
             \<and> (acc_Priority (awl_Account b) = acc_Priority (awl_Account a) \<longrightarrow>
                  li_LoadRate (awl_LoadInfo a) \<le> li_LoadRate (awl_LoadInfo b)
                  \<and> (li_LoadRate (awl_LoadInfo b) = li_LoadRate (awl_LoadInfo a) \<longrightarrow>
                       served_first (awl_Account a) (awl_Account b))))"
    using layered_mem [OF a] layered_best [OF a] by simp
qed

definition idle_load :: AccountLoadInfo where
  "idle_load = \<lparr>li_AccountID = 1, li_CurrentConcurrency = 0, li_WaitingCount = 0, li_LoadRate = 0\<rparr>"

lemma layered_choice_optimal_witness:
  "\<exists>x. fst (layered_choice (\<lambda>_. 0) [\<lparr>awl_Account = blank_account, awl_LoadInfo = idle_load\<rparr>] False 0) = Some x
     \<and> served_first (awl_Account x) blank_account"
proof -
  let ?x = "\<lparr>awl_Account = blank_account, awl_LoadInfo = idle_load\<rparr>"
  have "fst (layered_choice (\<lambda>_. 0) [?x] False 0) = Some ?x"
    by (simp add: layered_choice_def filterByMinPriority_def filterByMinLoadRate_def keep_min_def min_of_def
        selectByLRU_def)
  then show ?thesis using layered_choice_optimal [of "\<lambda>_. 0" "[?x]" False 0] by auto
qed

section \<open>Two gaps\<close>

lemma tried_release:
  "try_in_order e g sh as st = (Some (a, ReleaseAccount i q), st') \<Longrightarrow> sorted_set (rc_Ops (ge_Call e)) \<Longrightarrow>
   (i, q) \<in> held e st'"
proof (induction as arbitrary: st)
  case (Cons b as)
  obtain r st1 where r: "take_slot e b sh st = (r, st1)" by fastforce
  show ?case
  proof (cases "\<exists>rel. r = SlotTaken rel")
    case False
    then have "try_in_order e g sh as st1 = (Some (a, ReleaseAccount i q), st')" using Cons.prems r by (cases r) auto
    then show ?thesis using Cons by blast
  next
    case True
    then have s: "r = SlotTaken (ReleaseAccount i q)" "st' = bind_sticky e g sh (acc_ID b) st1"
      using Cons.prems r by auto
    obtain x st0 where x: "tryAcquireAccountSlot e (acc_ID b) (acc_Concurrency b) st = (x, st0)" by fastforce
    have x': "x = Inr (Some (ReleaseAccount i q))" and c: "checkAndRegisterSession e b sh st0 = (True, st1)"
      using r s x by (auto simp: take_slot_def split: sum.splits option.splits prod.splits bool.splits)
    have "same_core st0 st1" using core_register [of st0 e b sh] c by simp
    then have "same_core st0 st'" unfolding s(2) using core_trans core_bind by blast
    then have h: "held e st' = held e st0" by (simp add: same_core_def held_eq)
    have hc: "ge_HasConcurrency e" using x x' by (auto simp: tryAcquireAccountSlot_def split: if_splits)
    then obtain s' where a: "AcquireAccountSlot (ge_Call e) (acc_ID b) (acc_Concurrency b) (gs_Concurrency st) = (x, s')"
      and st0: "st0 = st\<lparr>gs_Concurrency := s'\<rparr>"
      using x by (auto simp: tryAcquireAccountSlot_def with_slots_def split: prod.splits)
    from acquired_service [OF a] x' have i: "i = acc_ID b"
      and k: "cache_AcquireAccountSlot (ge_Call e) i (acc_Concurrency b) q (cs_Store (gs_Concurrency st)) = (Inr True, cs_Store s')"
      by auto
    have "zscore (rc_Ops (ge_Call e)) (ss_Account (cs_Store s') i) q = Some (rc_Now (ge_Call e))"
    proof -
      let ?Z = "rc_Ops (ge_Call e)"
      obtain ok z where z: "acquireScript ?Z (rc_Now (ge_Call e)) (acc_Concurrency b) (rc_SlotTTL (ge_Call e)) q
          (ss_Account (cs_Store (gs_Concurrency st)) i) = (ok, z)" by fastforce
      then have "ok" and s: "cs_Store s' = (cs_Store (gs_Concurrency st))
          \<lparr>ss_Account := (ss_Account (cs_Store (gs_Concurrency st)))(i := z)\<rparr>"
        using k by (auto simp: cache_AcquireAccountSlot_def split: if_splits)
      moreover from s have "ss_Account (cs_Store s') i = z" by simp
      ultimately show ?thesis using sorted_set.acquire_members [OF Cons.prems(2) z] by simp
    qed
    then show ?thesis unfolding h by (simp add: held_def st0)
  qed
qed simp

text \<open>C29: A slot is lost when the selected account cannot be read again from the snapshot: the selection takes
  the slot, answers with the error, and hands no release function to anyone, so the slot stays
  held until it is too old.\<close>
theorem unreadable_account_loses_slot:
  assumes "sorted_set (rc_Ops (ge_Call e))"
    and "try_in_order e groupID sessionHash as st = (Some (a, ReleaseAccount i q), st')"
    and "hydrateSelectedAccount e a = Inl er"
  shows "serve_in_order e groupID sessionHash as plan st = (Some (Inl er), st') \<and> (i, q) \<in> held e st'"
  using tried_release [OF assms(2,1)] assms(2,3)
  by (simp add: serve_in_order_def newSelectionResult_def)

definition stale_env :: "zlist gw_env" where
  "stale_env = sample_env\<lparr>ge_Snapshot := Some \<lparr>sn_ListSchedulableAccounts = (\<lambda>_ _ _. None), sn_GetAccount = (\<lambda>_. None)\<rparr>\<rparr>"

lemma unreadable_account_loses_slot_witness:
  "\<exists>i q st'. serve_in_order stale_env None [] [blank_account\<lparr>acc_Concurrency := 1\<rparr>] (sticky_plan stale_env) sample_state
     = (Some (Inl HydrationFailed), st') \<and> (i, q) \<in> held stale_env st'"
proof -
  let ?a = "blank_account\<lparr>acc_Concurrency := 1\<rparr>"
  obtain q n where q: "generateRequestID ''r'' 0 = (q, n)" by fastforce
  obtain ok z where z: "acquireScript list_zset 10 1 60 q (zempty list_zset) = (ok, z)" by fastforce
  have ok using zl.acquire_free [OF z] by (simp only: zl.members_empty) simp
  then have z: "acquireScript list_zset 10 1 60 q zl_empty = (True, z)" using z by simp
  have "\<exists>st0. tryAcquireAccountSlot stale_env 1 1 sample_state = (Inr (Some (ReleaseAccount 1 q)), st0)"
    using q z
    by (simp add: tryAcquireAccountSlot_def stale_env_def with_slots_def AcquireAccountSlot_def sample_state_def
        NewConcurrencyService_def SetAccountLoadBatchCacheTTL_def defaultAccountLoadBatchCacheTTL_def Let_def
        on_store_def cache_AcquireAccountSlot_def sample_env_def call_at_def empty_store_def)
  then obtain st0 where "tryAcquireAccountSlot stale_env 1 1 sample_state = (Inr (Some (ReleaseAccount 1 q)), st0)" by blast
  then have "try_in_order stale_env None [] [?a] sample_state
      = (Some (?a, ReleaseAccount 1 q), bind_sticky stale_env None [] 1 st0)"
    by (simp add: take_slot_def checkAndRegisterSession_def IsAnthropicOAuthOrSetupToken_def blank_account_def)
  moreover have "sorted_set (rc_Ops (ge_Call stale_env))"
    by (simp add: stale_env_def sample_env_def call_at_def zl.sorted_set_axioms)
  moreover have "hydrateSelectedAccount stale_env ?a = Inl HydrationFailed"
    by (simp add: hydrateSelectedAccount_def stale_env_def)
  ultimately show ?thesis using unreadable_account_loses_slot by blast
qed

text \<open>The instance for privacy: an Antigravity account in a group that requires privacy, without the setting.\<close>

definition open_account :: account where
  "open_account = blank_account\<lparr>acc_Platform := PlatformAntigravity,
     acc_AccountGroups := [\<lparr>ag_AccountID = 1, ag_GroupID = 7, ag_Priority = 0\<rparr>]\<rparr>"

definition private_group :: group where
  "private_group = blank_group\<lparr>grp_ID := 7, grp_Platform := PlatformAntigravity, grp_RequirePrivacySet := True\<rparr>"

definition private_env :: "zlist gw_env" where
  "private_env = sample_env\<lparr>ge_Config := None, ge_Groups := [(7, private_group)],
     ge_Call := (call_at list_zset 10 60)\<lparr>rc_Up := False\<rparr>\<rparr>"

definition private_state :: "zlist gw_state" where
  "private_state = sample_state\<lparr>gs_Accounts := [open_account]\<rparr>"

lemma open_schedulable: "IsSchedulable tz 0 open_account" "\<not> IsQuotaExceeded tz 0 open_account"
proof -
  show q: "\<not> IsQuotaExceeded tz 0 open_account"
    by (simp add: IsQuotaExceeded_iff GetQuotaLimit_def GetQuotaDailyLimit_def GetQuotaWeeklyLimit_def
        getExtraFloat64_def open_account_def blank_account_def mlookup_def)
  show "IsSchedulable tz 0 open_account"
    using q by (simp add: IsSchedulable_def) (simp add: open_account_def blank_account_def Account_IsActive_def)
qed

lemma open_model: "IsSchedulableForModelWithContext tz ad 0 th (Some open_account) m"
  by (simp add: IsSchedulableForModelWithContext_def open_schedulable)
    (simp add: isModelRateLimitedWithContext_def
        isRateLimitActiveForKey_def modelRateLimitResetAt_def open_account_def blank_account_def Let_def)

lemma open_facts [simp]: "acc_Platform open_account = PlatformAntigravity" "acc_ID open_account = 1"
  "acc_Concurrency open_account = 0" "\<not> IsAnthropicOAuthOrSetupToken open_account" "\<not> IsPrivacySet open_account"
  by (simp_all add: open_account_def blank_account_def IsAnthropicOAuthOrSetupToken_def IsPrivacySet_def
      getExtraString_def mlookup_def)

lemma private_simps [simp]:
  "ge_Snapshot private_env = None" "ge_Channels private_env = None" "ge_Groups private_env = [(7, private_group)]"
  "ge_HasStickyCache private_env = False" "ge_HasSessionLimit private_env = False" "ge_HasRPM private_env = False"
  "ge_Now private_env = 0" "ge_SimpleMode private_env = False" "ge_HasConcurrency private_env"
  "gs_Accounts private_state = [open_account]" "cfg_LoadBatchEnabled (config_of private_env)"
  "gs_Caches private_state = gs_Caches sample_state" "gs_Concurrency private_state = gs_Concurrency sample_state"
  by (simp_all add: private_env_def private_state_def sample_env_def sample_state_def config_of_def schedulingConfig_def)

lemma private_group_simps [simp]:
  "grp_Platform private_group = PlatformAntigravity" "\<not> grp_ClaudeCodeOnly private_group"
  "grp_RequirePrivacySet private_group" "grp_ID private_group = 7" "IsGroupContextValid (Some private_group)"
  by (simp_all add: private_group_def blank_group_def IsGroupContextValid_def)

definition private_ctx :: gw_ctx where
  "private_ctx = withGroupContext sample_ctx (Some private_group)"

lemma private_ctx_simps [simp]:
  "forced private_ctx = None" "cx_ForcePlatform private_ctx = None" "cx_Group private_ctx = Some private_group"
  "withGroupContext sample_ctx (Some private_group) = private_ctx"
  by (simp_all add: private_ctx_def forced_group) (simp add: withGroupContext_def)

lemma private_chain: "fallback_chain sample_ctx [(7, private_group)] 7 [] = Inr (private_group, 7)"
  by (simp add: fallback_chain.simps resolveGroupByID_def groupFromContext_def)

lemma private_listed:
  "listSchedulableAccounts private_env (Some 7) PlatformAntigravity False private_state = Inr ([open_account], False)"
  by (simp add: listSchedulableAccounts_def ListSchedulableByGroupIDAndPlatform_def queryAccountsByGroup_def
      row_schedulable_def Let_def)
    (simp add: open_account_def blank_account_def)

lemma private_prefetch: "prefetch private_env [open_account] cx st = (cx, st)"
  by (simp add: prefetch_def withWindowCostPrefetch_def withRPMPrefetch_def)

lemma private_capacity: "checks (capacity_checks private_env cx open_account m s) st = (True, st)"
  by (simp add: capacity_checks_def cond_def checks.simps isAccountSchedulableForModelSelection_def open_model
      isAccountSchedulableForQuota_def open_schedulable isAccountSchedulableForWindowCost_def
      isAccountSchedulableForRPM_def)

lemma private_refused:
  "\<exists>st'. SelectAccountForModelWithExclusions private_env sample_ctx (Some 7) [] [] {} private_state
     = (Inl ErrNoAvailableAccounts, st')"
proof -
  have sticky: "sticky_block private_env cx g [] m ex al pre post st = (None, st)" for cx g m ex al pre post st
    by (simp add: sticky_block_def cached_sticky_def)
  have "\<exists>st'. loop_check private_env cx (group_of private_env (Some 7)) {} [] False up open_account st = (False, st')"
    for up cx st
    by (simp add: loop_check_def checks.simps cond_def privacy_check_def group_of_def
        isAccountSchedulableForSelection_def open_schedulable)
  then obtain st' where check:
      "loop_check private_env private_ctx (group_of private_env (Some 7)) {} [] False None open_account private_state = (False, st')"
    by blast
  have "scan private_env private_ctx (Some 7) [] better
      (\<lambda>cx. loop_check private_env cx (group_of private_env (Some 7)) {} [] False None) [open_account] private_state
      = (None, private_ctx, st')" for better
    by (simp add: scan_def private_prefetch check pick_best_def)
  then show ?thesis
    by (simp add: SelectAccountForModelWithExclusions_def requested_start_def private_chain
        checkChannelPricingRestriction_def selectAccountForModelWithPlatform_def select_with_def
        routingAccountIDsForRequest_def select_normal_def
        sticky private_listed needsUpstreamChannelRestrictionCheck_def no_account_def)
qed

lemma private_served:
  "\<exists>r st'. SelectAccountWithLoadAwareness 1 private_env sample_ctx (Some 7) [] [] {} private_state = Some (Inr r, st')
     \<and> sr_Account r = open_account \<and> sr_Acquired r"
proof -
  have check: "load_check private_env cx {} PlatformAntigravity False [] False open_account st = (True, st)" for cx st
    by (simp add: load_check_def checks.simps cond_def private_capacity supports_model_def
        isAccountSchedulableForSelection_def open_schedulable isAccountAllowedForPlatform_def)
  obtain st1 where loads: "batch_loads private_env [open_account] private_state = (Inl RedisError, st1)"
    and gs: "True"
    by (simp add: batch_loads_def with_slots_def GetAccountsLoadBatch_def getAccountsLoadBatch_def sample_state_def
        NewConcurrencyService_def SetAccountLoadBatchCacheTTL_def defaultAccountLoadBatchCacheTTL_def Let_def
        getCachedAccountLoadBatch_def on_store_def cache_GetAccountsLoadBatch_def private_env_def)
  have take: "take_slot private_env open_account [] st = (SlotTaken NoRelease, st)" for st
    by (simp add: take_slot_def tryAcquireAccountSlot_def with_slots_def AcquireAccountSlot_def checkAndRegisterSession_def)
  have sort: "sortAccountsByPriorityAndLastUsed dr [open_account] False k = ([open_account], k)" for dr k
    by (simp add: sortAccountsByPriorityAndLastUsed_def shuffleWithinPriorityAndLastUsed_def shuffle_def)
  let ?r = "\<lparr>sr_Account = open_account, sr_Acquired = True, sr_ReleaseFunc = Some NoRelease, sr_WaitPlan = None\<rparr>"
  have "tryAcquireByLegacyOrder private_env [open_account] (Some 7) [] False st
      = (Inr (Some ?r), bind_sticky private_env (Some 7) [] 1 (st\<lparr>gs_Drawn := gs_Drawn st\<rparr>))" for st
    by (simp add: tryAcquireByLegacyOrder_def with_draws_def sort take newSelectionResult_def hydrateSelectedAccount_def)
  then have "\<exists>st'. by_load private_env (Some 7) [] False [open_account] private_state = (Some (Inr ?r), st')"
    by (simp add: by_load_def loads)
  then obtain st' where by_load: "by_load private_env (Some 7) [] False [open_account] private_state = (Some (Inr ?r), st')"
    by blast
  have "layers private_env private_ctx (Some 7) [] [] {} PlatformAntigravity False [open_account] [] s private_state
      = (Some (Inr ?r), st')" for s
    by (simp add: layers_def or_else_def layer1_def sticky_layer_def layer23_def check by_load)
  then have "select_layered private_env private_ctx (Some private_group) (Some 7) [] [] {} s private_state = (Inr ?r, st')" for s
    by (simp add: select_layered_def resolvePlatform_def private_listed private_prefetch routing_of_def)
  then show ?thesis
    by (simp add: SelectAccountWithLoadAwareness_def checkClaudeCodeRestriction_def resolveGatewayGroup_def private_chain
        checkChannelPricingRestriction_def)
qed

text \<open>A group's demand for privacy holds only without loads: for the same request, in a group that requires
  privacy and whose only account lacks the setting, the selection without loads finds no account,
  while the selection with loads, which the gateway uses, serves the request with that account.\<close>
theorem privacy_ignored_with_loads:
  "\<exists>(e :: zlist gw_env) cx st a grp. ge_Groups e = [(7, grp)] \<and> grp_RequirePrivacySet grp
     \<and> gs_Accounts st = [a] \<and> \<not> IsPrivacySet a
     \<and> fst (SelectAccountForModelWithExclusions e cx (Some 7) [] [] {} st) = Inl ErrNoAvailableAccounts
     \<and> (\<exists>r st'. SelectAccountWithLoadAwareness 1 e cx (Some 7) [] [] {} st = Some (Inr r, st')
          \<and> sr_Account r = a \<and> sr_Acquired r)"
  by (rule exI [of _ private_env], rule exI [of _ sample_ctx], rule exI [of _ private_state],
      rule exI [of _ open_account], rule exI [of _ private_group])
    (use private_refused private_served in auto)

end
