(* ===== verification/GoErrors.thy ===== *)
theory GoErrors
  imports GoText
begin

text \<open>
  The application errors of the gateway (\<open>pkg/errors/errors.go\<close>, \<open>types.go\<close> and \<open>http.go\<close>): an
  error with an HTTP status, a reason, a message and optional metadata, which may wrap the
  error that caused it. \<open>PlainError\<close> is any other error of the program, by its text, with the
  error that it wraps.
\<close>

datatype go_error =
    AppError (ae_Code: int) (ae_Reason: string) (ae_Message: string) (ae_Metadata: "string gomap option")
      (ae_cause: "go_error option")
  | PlainError string "go_error option"

definition New :: "int \<Rightarrow> string \<Rightarrow> string \<Rightarrow> go_error" where
  "New code reason message = AppError code reason message None None"

abbreviation BadRequest :: "string \<Rightarrow> string \<Rightarrow> go_error" where "BadRequest \<equiv> New 400"
abbreviation TooManyRequests :: "string \<Rightarrow> string \<Rightarrow> go_error" where "TooManyRequests \<equiv> New 429"
abbreviation Forbidden :: "string \<Rightarrow> string \<Rightarrow> go_error" where "Forbidden \<equiv> New 403"
abbreviation NotFound :: "string \<Rightarrow> string \<Rightarrow> go_error" where "NotFound \<equiv> New 404"
abbreviation Conflict :: "string \<Rightarrow> string \<Rightarrow> go_error" where "Conflict \<equiv> New 409"
abbreviation InternalServer :: "string \<Rightarrow> string \<Rightarrow> go_error" where "InternalServer \<equiv> New 500"
abbreviation ServiceUnavailable :: "string \<Rightarrow> string \<Rightarrow> go_error" where "ServiceUnavailable \<equiv> New 503"

text \<open>Both return a copy; the original error value is shared and never changed.\<close>

fun WithCause :: "go_error \<Rightarrow> go_error \<Rightarrow> go_error" where
  "WithCause (AppError c r m md _) e = AppError c r m md (Some e)"
| "WithCause (PlainError s w) e = PlainError s w"

fun WithMetadata :: "go_error \<Rightarrow> string gomap option \<Rightarrow> go_error" where
  "WithMetadata (AppError c r m _ e) md = AppError c r m md e"
| "WithMetadata (PlainError s w) md = PlainError s w"

text \<open>\<open>errors.As\<close>: the first application error of the chain.\<close>

fun errors_As :: "go_error \<Rightarrow> go_error option" where
  "errors_As (AppError c r m md e) = Some (AppError c r m md e)"
| "errors_As (PlainError s None) = None"
| "errors_As (PlainError s (Some e)) = errors_As e"

definition FromError :: "go_error \<Rightarrow> go_error" where
  "FromError e =
     (case errors_As e of
        Some a \<Rightarrow> a
      | None \<Rightarrow> WithCause (New 500 [] ''internal error'') e)"

definition error_Code :: "go_error option \<Rightarrow> int" where
  "error_Code e = (case e of None \<Rightarrow> 200 | Some e \<Rightarrow> ae_Code (FromError e))"

definition error_Reason :: "go_error option \<Rightarrow> string" where
  "error_Reason e = (case e of None \<Rightarrow> [] | Some e \<Rightarrow> ae_Reason (FromError e))"

definition error_Message :: "go_error option \<Rightarrow> string" where
  "error_Message e = (case e of None \<Rightarrow> [] | Some e \<Rightarrow> ae_Message (FromError e))"

text \<open>\<open>errors.Is\<close> against an application error: an error of the chain with its code and reason.\<close>

fun errors_Is :: "go_error \<Rightarrow> go_error \<Rightarrow> bool" where
  "errors_Is (AppError c r m md e) t =
     (ae_Code t = c \<and> ae_Reason t = r \<or> (case e of None \<Rightarrow> False | Some e' \<Rightarrow> errors_Is e' t))"
| "errors_Is (PlainError s w) t = (case w of None \<Rightarrow> False | Some e' \<Rightarrow> errors_Is e' t)"

definition is_app_error :: "go_error \<Rightarrow> bool" where
  "is_app_error e \<longleftrightarrow> (case e of AppError _ _ _ _ _ \<Rightarrow> True | _ \<Rightarrow> False)"

lemma errors_As_app: "errors_As e = Some a \<Longrightarrow> is_app_error a"
  by (induction e rule: errors_As.induct) (auto simp: is_app_error_def)

lemma FromError_app: "is_app_error (FromError e)"
  by (auto simp: FromError_def New_def is_app_error_def dest!: errors_As_app split: option.splits)

lemma FromError_New [simp]: "FromError (New c r m) = New c r m"
  by (simp add: FromError_def New_def)

lemma WithCause_simps [simp]:
  "ae_Code (WithCause (New c r m) e) = c" "ae_Reason (WithCause (New c r m) e) = r"
  "FromError (WithCause (New c r m) e) = WithCause (New c r m) e"
  "FromError (WithMetadata (New c r m) md) = WithMetadata (New c r m) md"
  "ae_Code (WithMetadata (New c r m) md) = c" "ae_Reason (WithMetadata (New c r m) md) = r"
  by (simp_all add: FromError_def New_def)

text \<open>\<open>ToHTTP\<close>: the status code and the body of a response.\<close>

record status_body =
  sb_Code :: int
  sb_Reason :: string
  sb_Message :: string
  sb_Metadata :: "string gomap option"

definition ToHTTP :: "go_error option \<Rightarrow> int \<times> status_body" where
  "ToHTTP err =
     (case err of
        None \<Rightarrow> (200, \<lparr>sb_Code = 200, sb_Reason = [], sb_Message = [], sb_Metadata = None\<rparr>)
      | Some e \<Rightarrow>
          let a = FromError e in
          (ae_Code a, \<lparr>sb_Code = ae_Code a, sb_Reason = ae_Reason a, sb_Message = ae_Message a, sb_Metadata = ae_Metadata a\<rparr>))"

text \<open>\<open>Error()\<close>. A wrapped error is printed after its context; an application error prints its
  fields. \<open>%q\<close> is modelled for texts of printable ASCII characters; the metadata prints in the
  order of its keys.\<close>

definition quoted :: "string \<Rightarrow> string" where
  "quoted s = CHR 0x22 # concat (map (\<lambda>c. if c = CHR 0x22 \<or> c = CHR 0x5C then [CHR 0x5C, c] else [c]) s) @ [CHR 0x22]"

definition print_map :: "string gomap option \<Rightarrow> string" where
  "print_map m =
     (let entries = sort_by (\<lambda>a b. str_lt (fst a) (fst b)) (case m of None \<Rightarrow> [] | Some kv \<Rightarrow> kv);
          ps = map (\<lambda>(k, v). k @ '':'' @ v) entries
      in ''map['' @ (case ps of [] \<Rightarrow> [] | p # r \<Rightarrow> p @ concat (map (\<lambda>q. CHR '' '' # q) r)) @ '']'')"

fun error_text :: "go_error \<Rightarrow> string" where
  "error_text (PlainError s None) = s"
| "error_text (PlainError s (Some e)) = s @ '': '' @ error_text e"
| "error_text (AppError c r m md e) =
     ''error: code='' @ itoa c @ '' reason='' @ quoted r @ '' message='' @ quoted m @ '' metadata='' @ print_map md
     @ (case e of None \<Rightarrow> [] | Some e' \<Rightarrow> '' cause='' @ error_text e')"

end
