(* ===== verification/DbFault.thy ===== *)
theory DbFault
  imports GoErrors
begin

text \<open>
  Calls to the database that can fail: before the statement took effect, or after it, when only
  the answer is lost. The caller sees an error in both cases.
\<close>

datatype db_fault =
    Answered
  | NotDone go_error
  | AnswerLost go_error

fun db_outcome :: "db_fault \<Rightarrow> 'a \<times> 's \<Rightarrow> 's \<Rightarrow> (go_error + 'a) \<times> 's" where
  "db_outcome Answered (x, db') db = (Inr x, db')"
| "db_outcome (NotDone e) _ db = (Inl e, db)"
| "db_outcome (AnswerLost e) (x, db') db = (Inl e, db')"

end
