(* ===== verification/IdempotencyStore.thy ===== *)
theory IdempotencyStore
  imports GoTime DbFault
begin

text \<open>
  The table of idempotency records (\<open>repository/idempotency_repo.go\<close>; the interface is
  \<open>IdempotencyRepository\<close> of \<open>service/idempotency.go\<close>). A table is the list of its rows with the next
  value of the ID sequence; a unique index keeps one row per scope and key hash. Each operation
  is one SQL statement and so one atomic step.
\<close>

record idem_record =
  ir_ID :: int
  ir_Scope :: string
  ir_KeyHash :: string
  ir_Fingerprint :: string
  ir_Status :: string
  ir_ResponseStatus :: "int option"
  ir_ResponseBody :: "string option"
  ir_ErrorReason :: "string option"
  ir_LockedUntil :: "gtime option"
  ir_ExpiresAt :: gtime
  ir_CreatedAt :: gtime
  ir_UpdatedAt :: gtime

definition IdempotencyStatusProcessing :: string where
  "IdempotencyStatusProcessing = ''processing''"

definition IdempotencyStatusSucceeded :: string where
  "IdempotencyStatusSucceeded = ''succeeded''"

definition IdempotencyStatusFailedRetryable :: string where
  "IdempotencyStatusFailedRetryable = ''failed_retryable''"

lemmas idem_status_defs =
  IdempotencyStatusProcessing_def IdempotencyStatusSucceeded_def IdempotencyStatusFailedRetryable_def

lemma idem_status_distinct [simp]:
  "IdempotencyStatusProcessing \<noteq> IdempotencyStatusSucceeded"
  "IdempotencyStatusProcessing \<noteq> IdempotencyStatusFailedRetryable"
  "IdempotencyStatusSucceeded \<noteq> IdempotencyStatusProcessing"
  "IdempotencyStatusSucceeded \<noteq> IdempotencyStatusFailedRetryable"
  "IdempotencyStatusFailedRetryable \<noteq> IdempotencyStatusProcessing"
  "IdempotencyStatusFailedRetryable \<noteq> IdempotencyStatusSucceeded"
  by (simp_all add: idem_status_defs)

record idem_db =
  idb_rows :: "idem_record list"
  idb_next :: int

definition has_key :: "string \<Rightarrow> string \<Rightarrow> idem_record \<Rightarrow> bool" where
  "has_key scope keyHash r \<longleftrightarrow> ir_Scope r = scope \<and> ir_KeyHash r = keyHash"

text \<open>\<open>INSERT ... ON CONFLICT DO NOTHING RETURNING id\<close>: the id of the new row, if there is one.
  \<open>dbNow\<close> is the time of the statement.\<close>

definition CreateProcessing :: "idem_record \<Rightarrow> gtime \<Rightarrow> idem_db \<Rightarrow> int option \<times> idem_db" where
  "CreateProcessing record dbNow db =
     (if list_ex (has_key (ir_Scope record) (ir_KeyHash record)) (idb_rows db) then (None, db)
      else (Some (idb_next db),
            db\<lparr>idb_rows := idb_rows db @ [record\<lparr>ir_ID := idb_next db, ir_ResponseStatus := None,
                 ir_ResponseBody := None, ir_ErrorReason := None, ir_CreatedAt := dbNow, ir_UpdatedAt := dbNow\<rparr>],
               idb_next := idb_next db + 1\<rparr>))"

definition GetByScopeAndKeyHash :: "string \<Rightarrow> string \<Rightarrow> gtime \<Rightarrow> idem_db \<Rightarrow> idem_record option \<times> idem_db" where
  "GetByScopeAndKeyHash scope keyHash dbNow db = (find (has_key scope keyHash) (idb_rows db), db)"

text \<open>\<open>UPDATE ... WHERE id = $1 AND p\<close>: whether a row was changed, and the table.\<close>

definition update_where ::
    "int \<Rightarrow> (idem_record \<Rightarrow> bool) \<Rightarrow> (idem_record \<Rightarrow> idem_record) \<Rightarrow> idem_db \<Rightarrow> bool \<times> idem_db" where
  "update_where i p f db =
     (list_ex (\<lambda>r. ir_ID r = i \<and> p r) (idb_rows db),
      db\<lparr>idb_rows := map (\<lambda>r. if ir_ID r = i \<and> p r then f r else r) (idb_rows db)\<rparr>)"

definition TryReclaim ::
    "int \<Rightarrow> string \<Rightarrow> gtime \<Rightarrow> gtime \<Rightarrow> gtime \<Rightarrow> gtime \<Rightarrow> idem_db \<Rightarrow> bool \<times> idem_db" where
  "TryReclaim i fromStatus now newLockedUntil newExpiresAt dbNow =
     update_where i
       (\<lambda>r. ir_Status r = fromStatus \<and> (case ir_LockedUntil r of None \<Rightarrow> True | Some l \<Rightarrow> l \<le> now))
       (\<lambda>r. r\<lparr>ir_Status := IdempotencyStatusProcessing, ir_LockedUntil := Some newLockedUntil,
              ir_ErrorReason := None, ir_UpdatedAt := dbNow, ir_ExpiresAt := newExpiresAt\<rparr>)"

definition ExtendProcessingLock ::
    "int \<Rightarrow> string \<Rightarrow> gtime \<Rightarrow> gtime \<Rightarrow> gtime \<Rightarrow> idem_db \<Rightarrow> bool \<times> idem_db" where
  "ExtendProcessingLock i requestFingerprint newLockedUntil newExpiresAt dbNow =
     update_where i
       (\<lambda>r. ir_Status r = IdempotencyStatusProcessing \<and> ir_Fingerprint r = requestFingerprint)
       (\<lambda>r. r\<lparr>ir_LockedUntil := Some newLockedUntil, ir_ExpiresAt := newExpiresAt, ir_UpdatedAt := dbNow\<rparr>)"

definition MarkSucceeded ::
    "int \<Rightarrow> int \<Rightarrow> string \<Rightarrow> gtime \<Rightarrow> gtime \<Rightarrow> idem_db \<Rightarrow> unit \<times> idem_db" where
  "MarkSucceeded i responseStatus responseBody expiresAt dbNow db =
     ((), snd (update_where i (\<lambda>_. True)
       (\<lambda>r. r\<lparr>ir_Status := IdempotencyStatusSucceeded, ir_ResponseStatus := Some responseStatus,
              ir_ResponseBody := Some responseBody, ir_ErrorReason := None, ir_LockedUntil := None,
              ir_ExpiresAt := expiresAt, ir_UpdatedAt := dbNow\<rparr>) db))"

definition MarkFailedRetryable ::
    "int \<Rightarrow> string \<Rightarrow> gtime \<Rightarrow> gtime \<Rightarrow> gtime \<Rightarrow> idem_db \<Rightarrow> unit \<times> idem_db" where
  "MarkFailedRetryable i errorReason lockedUntil expiresAt dbNow db =
     ((), snd (update_where i (\<lambda>_. True)
       (\<lambda>r. r\<lparr>ir_Status := IdempotencyStatusFailedRetryable, ir_ErrorReason := Some errorReason,
              ir_LockedUntil := Some lockedUntil, ir_ExpiresAt := expiresAt, ir_UpdatedAt := dbNow\<rparr>) db))"

text \<open>The expired rows, the longest expired first, at most \<open>limit\<close> of them.\<close>

definition DeleteExpired :: "gtime \<Rightarrow> int \<Rightarrow> idem_db \<Rightarrow> int \<times> idem_db" where
  "DeleteExpired now limit0 db =
     (let limit = if limit0 \<le> 0 then 500 else limit0;
          expired = filter (\<lambda>r. ir_ExpiresAt r \<le> now) (idb_rows db);
          victims = map ir_ID (take (nat limit) (sort_by (\<lambda>a b. ir_ExpiresAt a < ir_ExpiresAt b) expired));
          keep = filter (\<lambda>r. ir_ID r \<notin> set victims) (idb_rows db)
      in (int (length (idb_rows db) - length keep), db\<lparr>idb_rows := keep\<rparr>))"

section \<open>What the table keeps\<close>

text \<open>Ids come from the sequence, and scope and key hash identify a row.\<close>

definition idem_wf :: "idem_db \<Rightarrow> bool" where
  "idem_wf db \<longleftrightarrow> 0 < idb_next db
     \<and> (\<forall>r \<in> set (idb_rows db). 0 < ir_ID r \<and> ir_ID r < idb_next db)
     \<and> distinct (map ir_ID (idb_rows db))
     \<and> distinct (map (\<lambda>r. (ir_Scope r, ir_KeyHash r)) (idb_rows db))"

lemma find_unique: "distinct (map f xs) \<Longrightarrow> x \<in> set xs \<Longrightarrow> find (\<lambda>y. f y = f x) xs = Some x"
  by (induction xs) auto

lemma find_Some_mem: "find P xs = Some x \<Longrightarrow> x \<in> set xs \<and> P x"
  by (auto simp: find_Some_iff)

lemma rows_same_id:
  "idem_wf db \<Longrightarrow> r \<in> set (idb_rows db) \<Longrightarrow> s \<in> set (idb_rows db) \<Longrightarrow> ir_ID r = ir_ID s \<Longrightarrow> r = s"
  by (auto simp: idem_wf_def distinct_map dest: inj_onD)

lemma rows_same_key:
  "idem_wf db \<Longrightarrow> r \<in> set (idb_rows db) \<Longrightarrow> s \<in> set (idb_rows db)
   \<Longrightarrow> ir_Scope r = ir_Scope s \<Longrightarrow> ir_KeyHash r = ir_KeyHash s \<Longrightarrow> r = s"
  by (auto simp: idem_wf_def distinct_map dest: inj_onD)

text \<open>The row of a key.\<close>

definition row_of :: "idem_db \<Rightarrow> string \<times> string \<Rightarrow> idem_record option" where
  "row_of db k = find (has_key (fst k) (snd k)) (idb_rows db)"

lemma row_of_iff:
  "idem_wf db \<Longrightarrow> row_of db k = Some r \<longleftrightarrow> r \<in> set (idb_rows db) \<and> (ir_Scope r, ir_KeyHash r) = k"
proof
  assume "idem_wf db" and r: "r \<in> set (idb_rows db) \<and> (ir_Scope r, ir_KeyHash r) = k"
  then have "find (\<lambda>y. (ir_Scope y, ir_KeyHash y) = (ir_Scope r, ir_KeyHash r)) (idb_rows db) = Some r"
    by (intro find_unique) (auto simp: idem_wf_def)
  then show "row_of db k = Some r" using r by (auto simp: row_of_def has_key_def [abs_def])
qed (auto simp: row_of_def has_key_def dest: find_Some_mem)

lemma row_of_None: "row_of db k = None \<longleftrightarrow> \<not> list_ex (has_key (fst k) (snd k)) (idb_rows db)"
  by (auto simp: row_of_def find_None_iff list_ex_iff)

section \<open>Rows by key\<close>

text \<open>What the coordinator relies on: a conditional update by id changes the row of at most one
  key, and says whether it did.\<close>

definition keeps_key :: "(idem_record \<Rightarrow> idem_record) \<Rightarrow> bool" where
  "keeps_key f \<longleftrightarrow> (\<forall>r. ir_ID (f r) = ir_ID r \<and> ir_Scope (f r) = ir_Scope r \<and> ir_KeyHash (f r) = ir_KeyHash r)"

lemma CreateProcessing_wf:
  "idem_wf db \<Longrightarrow> CreateProcessing record dbNow db = (x, db') \<Longrightarrow> idem_wf db'"
  by (fastforce simp: CreateProcessing_def idem_wf_def list_ex_iff has_key_def split: if_splits)

lemma update_where_wf:
  assumes "idem_wf db" and "keeps_key f"
  shows "idem_wf (snd (update_where i p f db))"
proof -
  have "map ir_ID (map (\<lambda>r. if ir_ID r = i \<and> p r then f r else r) rs) = map ir_ID rs"
    and "map (\<lambda>r. (ir_Scope r, ir_KeyHash r)) (map (\<lambda>r. if ir_ID r = i \<and> p r then f r else r) rs)
         = map (\<lambda>r. (ir_Scope r, ir_KeyHash r)) rs" for rs
    using assms(2) by (auto simp: keeps_key_def)
  then show ?thesis
    using assms unfolding idem_wf_def update_where_def by (auto simp: keeps_key_def simp del: map_map)
qed

locale keyed_rows =
  fixes wf :: "'s \<Rightarrow> bool"
    and look :: "'s \<Rightarrow> string \<times> string \<Rightarrow> idem_record option"
    and upd :: "int \<Rightarrow> (idem_record \<Rightarrow> bool) \<Rightarrow> (idem_record \<Rightarrow> idem_record) \<Rightarrow> 's \<Rightarrow> bool \<times> 's"
  assumes look_upd: "wf s \<Longrightarrow> keeps_key f \<Longrightarrow>
      look (snd (upd i p f s)) k = map_option (\<lambda>r. if ir_ID r = i \<and> p r then f r else r) (look s k)"
    and upd_hit: "wf s \<Longrightarrow> fst (upd i p f s) \<longleftrightarrow> (\<exists>k r. look s k = Some r \<and> ir_ID r = i \<and> p r)"
    and one_id: "wf s \<Longrightarrow> look s k = Some r \<Longrightarrow> look s k' = Some r' \<Longrightarrow> ir_ID r = ir_ID r' \<Longrightarrow> k = k'"
begin

lemma upd_own:
  assumes "wf s" and "keeps_key f" and "look s k = Some r"
  shows "fst (upd (ir_ID r) p f s) = p r"
    and "look (snd (upd (ir_ID r) p f s)) k = Some (if p r then f r else r)"
    and "k' \<noteq> k \<Longrightarrow> look (snd (upd (ir_ID r) p f s)) k' = look s k'"
proof -
  show "fst (upd (ir_ID r) p f s) = p r"
  proof
    assume "fst (upd (ir_ID r) p f s)"
    then obtain k0 r0 where "look s k0 = Some r0" "ir_ID r0 = ir_ID r" "p r0"
      using upd_hit [OF assms(1)] by blast
    then show "p r" using one_id [OF assms(1) _ assms(3)] assms(3) by (metis option.inject)
  next
    assume "p r"
    then show "fst (upd (ir_ID r) p f s)" using assms(3) upd_hit [OF assms(1)] by blast
  qed
  show "look (snd (upd (ir_ID r) p f s)) k = Some (if p r then f r else r)"
    by (simp add: look_upd [OF assms(1,2)] assms(3))
  assume "k' \<noteq> k"
  then have "r' = r' \<and> ir_ID r' \<noteq> ir_ID r" if "look s k' = Some r'" for r'
    using one_id [OF assms(1) that assms(3)] by auto
  then show "look (snd (upd (ir_ID r) p f s)) k' = look s k'"
    by (cases "look s k'") (auto simp: look_upd [OF assms(1,2)])
qed

end

interpretation rows: keyed_rows idem_wf row_of update_where
proof
  fix s :: idem_db and f i p k
  assume "idem_wf s" and "keeps_key f"
  then have h: "has_key a b (if ir_ID r = i \<and> p r then f r else r) = has_key a b r" for a b r
    by (simp add: has_key_def keeps_key_def)
  show "row_of (snd (update_where i p f s)) k
        = map_option (\<lambda>r. if ir_ID r = i \<and> p r then f r else r) (row_of s k)"
  proof -
    have "find (has_key a b) (map (\<lambda>r. if ir_ID r = i \<and> p r then f r else r) rs)
          = map_option (\<lambda>r. if ir_ID r = i \<and> p r then f r else r) (find (has_key a b) rs)" for a b rs
      by (induction rs) (simp_all add: h del: if_split)
    then show ?thesis by (simp add: row_of_def update_where_def)
  qed
next
  fix s :: idem_db and f i p
  assume "idem_wf s"
  then show "fst (update_where i p f s) \<longleftrightarrow> (\<exists>k r. row_of s k = Some r \<and> ir_ID r = i \<and> p r)"
    by (auto simp: update_where_def list_ex_iff row_of_iff)
next
  fix s :: idem_db and k r k' r'
  assume "idem_wf s" "row_of s k = Some r" "row_of s k' = Some r'" "ir_ID r = ir_ID r'"
  then show "k = k'" using rows_same_id by (auto simp: row_of_iff)
qed

lemma DeleteExpired_wf: "idem_wf db \<Longrightarrow> idem_wf (snd (DeleteExpired now limit db))"
  by (auto simp: DeleteExpired_def idem_wf_def Let_def distinct_map_filter)

end
