(* ===== verification/LogRedact.thy ===== *)
theory LogRedact
  imports GoValue GoErrors
begin

text \<open>
  Redaction of texts and JSON values (\<open>util/logredact/redact.go\<close>): the values of sensitive keys are
  replaced by stars. The package \<open>encoding/json\<close> is a record of functions: the text of a value,
  whether a text is valid JSON, and the value of a text. The regular expressions that redact a
  text that is not JSON are one more function of the record, on the extra keys and the text.
\<close>

record json_lib =
  jl_Marshal :: "goval \<Rightarrow> go_error + string"
  jl_Valid :: "string \<Rightarrow> bool"
  jl_Unmarshal :: "string \<Rightarrow> go_error + goval"
  jl_RedactPlain :: "string list \<Rightarrow> string \<Rightarrow> string"

definition maxRedactDepth :: nat where
  "maxRedactDepth = 32"

definition defaultSensitiveKeys :: "string list" where
  "defaultSensitiveKeys =
     [''authorization_code'', ''code'', ''code_verifier'', ''access_token'', ''refresh_token'',
      ''id_token'', ''client_secret'', ''password'']"

definition normalizeKey :: "string \<Rightarrow> string" where
  "normalizeKey key = to_lower (trim_space key)"

definition buildKeySet :: "string list \<Rightarrow> string set" where
  "buildKeySet extraKeys =
     set defaultSensitiveKeys \<union> set (filter (\<lambda>k. k \<noteq> []) (map normalizeKey extraKeys))"

definition isSensitiveKey :: "string \<Rightarrow> string set \<Rightarrow> bool" where
  "isSensitiveKey key keys \<longleftrightarrow> normalizeKey key \<in> keys"

function redactValueWithDepth :: "goval \<Rightarrow> string set \<Rightarrow> nat \<Rightarrow> goval" where
  "redactValueWithDepth v keys depth =
     (if maxRedactDepth < depth then GStr ''<depth limit exceeded>''
      else case v of
        GObj m \<Rightarrow>
          GObj (Some (map (\<lambda>(k, x). (k, if isSensitiveKey k keys then GStr ''***''
                                        else redactValueWithDepth x keys (depth + 1)))
            (mentries m)))
      | GList xs \<Rightarrow> GList (map (\<lambda>x. redactValueWithDepth x keys (depth + 1)) xs)
      | _ \<Rightarrow> v)"
  by pat_completeness auto
termination
  by (relation "measure (\<lambda>(_, _, depth). Suc maxRedactDepth - depth)") auto

declare redactValueWithDepth.simps [simp del]

definition RedactMap :: "string list \<Rightarrow> gobj \<Rightarrow> gobj" where
  "RedactMap extraKeys input =
     (case input of
        None \<Rightarrow> Some []
      | Some kv \<Rightarrow>
          (case redactValueWithDepth (GObj (Some kv)) (buildKeySet extraKeys) 0 of
             GObj m \<Rightarrow> m
           | _ \<Rightarrow> Some []))"

definition RedactJSON :: "json_lib \<Rightarrow> string list \<Rightarrow> string \<Rightarrow> string" where
  "RedactJSON J extraKeys raw =
     (if raw = [] then []
      else case jl_Unmarshal J raw of
        Inl _ \<Rightarrow> ''<non-json payload redacted>''
      | Inr v \<Rightarrow>
          (case jl_Marshal J (redactValueWithDepth v (buildKeySet extraKeys) 0) of
             Inl _ \<Rightarrow> ''<redacted>''
           | Inr s \<Rightarrow> s))"

definition RedactText :: "json_lib \<Rightarrow> string list \<Rightarrow> string \<Rightarrow> string" where
  "RedactText J extraKeys input0 =
     (let input = trim_space input0 in
      if input = [] then []
      else if jl_Valid J input then RedactJSON J extraKeys input
      else jl_RedactPlain J extraKeys input)"

text \<open>Redacting twice is redacting once: the placeholders are not redacted again.\<close>

lemma redact_scalar:
  "(case v of GObj _ \<Rightarrow> False | GList _ \<Rightarrow> False | _ \<Rightarrow> True) \<Longrightarrow> depth \<le> maxRedactDepth
   \<Longrightarrow> redactValueWithDepth v keys depth = v"
  by (subst redactValueWithDepth.simps) (auto split: goval.splits)

lemma redact_idem:
  "redactValueWithDepth (redactValueWithDepth v keys depth) keys depth = redactValueWithDepth v keys depth"
proof (induction v keys depth rule: redactValueWithDepth.induct)
  case (1 v keys depth)
  show ?case
  proof (cases "maxRedactDepth < depth")
    case True
    then show ?thesis by (simp add: redactValueWithDepth.simps [of _ _ depth])
  next
    case d: False
    then show ?thesis
    proof (cases v)
      case (GList xs)
      with d show ?thesis
        using "1.IH"(1) [OF d GList]
        by (simp add: redactValueWithDepth.simps [of "GList _" _ depth])
    next
      case (GObj m)
      with d show ?thesis
        using "1.IH"(2) [OF d GObj]
        by (auto simp: redactValueWithDepth.simps [of "GObj _" _ depth] mentries_def split: option.splits)
    qed (simp_all add: redact_scalar)
  qed
qed

text \<open>A flat object loses exactly the values of its sensitive keys.\<close>

lemma redact_flat:
  "\<forall>(k, v) \<in> set kv. \<not> isSensitiveKey k keys \<longrightarrow> (\<exists>s. v = GStr s)
   \<Longrightarrow> redactValueWithDepth (GObj (Some kv)) keys 0
     = GObj (Some (map (\<lambda>(k, v). (k, if isSensitiveKey k keys then GStr ''***'' else v)) kv))"
  by (subst redactValueWithDepth.simps)
    (auto simp: maxRedactDepth_def mentries_def redactValueWithDepth.simps [of "GStr _"])

end
