(* ===== verification/GoCrypto.thy ===== *)
theory GoCrypto
  imports GoText "HOL-Library.Word"
begin

unbundle bit_operations_syntax

text \<open>
  The packages \<open>crypto/sha256\<close> and \<open>encoding/hex\<close>, as far as the gateway uses them: the
  SHA-256 digest of a byte string and its printing in lower-case hexadecimal digits. Words are
  32 bits wide and their addition wraps around.
\<close>

type_synonym w32 = "32 word"

definition round_constants :: "w32 list" where
  "round_constants =
     [0x428A2F98, 0x71374491, 0xB5C0FBCF, 0xE9B5DBA5, 0x3956C25B, 0x59F111F1, 0x923F82A4, 0xAB1C5ED5,
      0xD807AA98, 0x12835B01, 0x243185BE, 0x550C7DC3, 0x72BE5D74, 0x80DEB1FE, 0x9BDC06A7, 0xC19BF174,
      0xE49B69C1, 0xEFBE4786, 0x0FC19DC6, 0x240CA1CC, 0x2DE92C6F, 0x4A7484AA, 0x5CB0A9DC, 0x76F988DA,
      0x983E5152, 0xA831C66D, 0xB00327C8, 0xBF597FC7, 0xC6E00BF3, 0xD5A79147, 0x06CA6351, 0x14292967,
      0x27B70A85, 0x2E1B2138, 0x4D2C6DFC, 0x53380D13, 0x650A7354, 0x766A0ABB, 0x81C2C92E, 0x92722C85,
      0xA2BFE8A1, 0xA81A664B, 0xC24B8B70, 0xC76C51A3, 0xD192E819, 0xD6990624, 0xF40E3585, 0x106AA070,
      0x19A4C116, 0x1E376C08, 0x2748774C, 0x34B0BCB5, 0x391C0CB3, 0x4ED8AA4A, 0x5B9CCA4F, 0x682E6FF3,
      0x748F82EE, 0x78A5636F, 0x84C87814, 0x8CC70208, 0x90BEFFFA, 0xA4506CEB, 0xBEF9A3F7, 0xC67178F2]"

definition initial_digest :: "w32 list" where
  "initial_digest =
     [0x6A09E667, 0xBB67AE85, 0x3C6EF372, 0xA54FF53A, 0x510E527F, 0x9B05688C, 0x1F83D9AB, 0x5BE0CD19]"

text \<open>The four bytes of a word, most significant first, and back.\<close>

definition byte_of :: "char \<Rightarrow> w32" where
  "byte_of c = word_of_int (of_char c)"

fun words_of :: "w32 list \<Rightarrow> w32 list" where
  "words_of (a # b # c # d # bs) =
     (push_bit 24 a OR push_bit 16 b OR push_bit 8 c OR d) # words_of bs"
| "words_of _ = []"

definition bytes_of :: "w32 \<Rightarrow> w32 list" where
  "bytes_of w = map (\<lambda>k. drop_bit k w AND 0xFF) [24, 16, 8, 0]"

text \<open>Padding: a one bit, zeros up to eight bytes before the end of a block, the length in bits.\<close>

definition pad_message :: "string \<Rightarrow> w32 list" where
  "pad_message s =
     (let n = length s; bits = 8 * int n in
      map byte_of s @ 0x80 # replicate ((119 - n mod 64) mod 64) 0
      @ bytes_of (word_of_int (bits div 2 ^ 32)) @ bytes_of (word_of_int bits))"

text \<open>The message schedule, latest word first, and one round on the eight working variables.\<close>

definition rotr :: "nat \<Rightarrow> w32 \<Rightarrow> w32" where
  "rotr k w = drop_bit k w OR push_bit (32 - k) w"

definition next_word :: "w32 list \<Rightarrow> w32" where
  "next_word ws =
     (let w15 = ws ! 14; w2 = ws ! 1;
          s0 = rotr 7 w15 XOR rotr 18 w15 XOR drop_bit 3 w15;
          s1 = rotr 17 w2 XOR rotr 19 w2 XOR drop_bit 10 w2
      in ws ! 15 + s0 + ws ! 6 + s1)"

definition schedule :: "w32 list \<Rightarrow> w32 list" where
  "schedule block = rev (((\<lambda>ws. next_word ws # ws) ^^ 48) (rev block))"

fun sha_round :: "w32 list \<Rightarrow> w32 \<times> w32 \<Rightarrow> w32 list" where
  "sha_round [a, b, c, d, e, f, g, h] (k, w) =
     (let s1 = rotr 6 e XOR rotr 11 e XOR rotr 25 e;
          ch = (e AND f) XOR (NOT e AND g);
          t1 = h + s1 + ch + k + w;
          s0 = rotr 2 a XOR rotr 13 a XOR rotr 22 a;
          maj = (a AND b) XOR (a AND c) XOR (b AND c)
      in [t1 + (s0 + maj), a, b, c, d + t1, e, f, g])"
| "sha_round v _ = v"

definition compress :: "w32 list \<Rightarrow> w32 list \<Rightarrow> w32 list" where
  "compress h block = map2 (+) h (foldl sha_round h (zip round_constants (schedule block)))"

function sha_blocks :: "w32 list \<Rightarrow> w32 list \<Rightarrow> w32 list" where
  "sha_blocks h ws = (if ws = [] then h else sha_blocks (compress h (take 16 ws)) (drop 16 ws))"
  by pat_completeness auto
termination
  by (relation "measure (\<lambda>(_, ws). length ws)") auto

declare sha_blocks.simps [simp del]

definition Sum256 :: "string \<Rightarrow> w32 list" where
  "Sum256 s = concat (map bytes_of (sha_blocks initial_digest (words_of (pad_message s))))"

definition hex_digit :: "nat \<Rightarrow> char" where
  "hex_digit n = char_of (if n < 10 then n + 48 else n + 87)"

definition hex_EncodeToString :: "w32 list \<Rightarrow> string" where
  "hex_EncodeToString bs = concat (map (\<lambda>b. [hex_digit (unat b div 16), hex_digit (unat b mod 16)]) bs)"

text \<open>Every block keeps eight words, so a digest has 32 bytes and 64 hexadecimal digits.\<close>

lemma length_sha_round [simp]: "length (sha_round v p) = length v"
  by (cases "(v, p)" rule: sha_round.cases) (auto simp: Let_def)

lemma length_rounds [simp]: "length (foldl sha_round v ps) = length v"
  by (induction ps arbitrary: v) auto

lemma length_sha_blocks: "length (sha_blocks h ws) = length h"
proof (induction h ws rule: sha_blocks.induct)
  case (1 h ws)
  then show ?case by (subst sha_blocks.simps) (simp add: compress_def)
qed

lemma length_hex: "length (hex_EncodeToString bs) = 2 * length bs"
  by (induction bs) (simp_all add: hex_EncodeToString_def)

lemma length_Sum256 [simp]: "length (Sum256 s) = 32"
proof -
  have "length (concat (map bytes_of ws)) = 4 * length ws" for ws
    by (induction ws) (simp_all add: bytes_of_def)
  then show ?thesis by (simp add: Sum256_def length_sha_blocks initial_digest_def)
qed

end
