(* ===== verification/Idempotency.thy ===== *)
theory Idempotency
  imports IdempotencyStore LogRedact GoCrypto
begin

text \<open>
  The coordinator that runs a request at most once per idempotency key
  (\<open>service/idempotency.go\<close>, its counters in \<open>service/idempotency_observability.go\<close>, the periodic
  cleanup of \<open>service/idempotency_cleanup_service.go\<close>). \<open>Execute\<close> first checks its options and then
  goes through the calls to the database one by one; here each of them is a state of a small
  machine (\<open>idem_pc\<close>) and \<open>idem_step\<close> does the call of a state and whatever the code does until
  the next one, so that the calls of several requests can be interleaved. \<open>Execute\<close> is the
  machine run to its end.
\<close>

section \<open>Errors, configuration and options\<close>

definition ErrIdempotencyKeyRequired :: go_error where
  "ErrIdempotencyKeyRequired = BadRequest ''IDEMPOTENCY_KEY_REQUIRED'' ''idempotency key is required''"

definition ErrIdempotencyKeyInvalid :: go_error where
  "ErrIdempotencyKeyInvalid = BadRequest ''IDEMPOTENCY_KEY_INVALID'' ''idempotency key is invalid''"

definition ErrIdempotencyKeyConflict :: go_error where
  "ErrIdempotencyKeyConflict =
     Conflict ''IDEMPOTENCY_KEY_CONFLICT'' ''idempotency key reused with different payload''"

definition ErrIdempotencyInProgress :: go_error where
  "ErrIdempotencyInProgress =
     Conflict ''IDEMPOTENCY_IN_PROGRESS'' ''idempotent request is still processing''"

definition ErrIdempotencyRetryBackoff :: go_error where
  "ErrIdempotencyRetryBackoff =
     Conflict ''IDEMPOTENCY_RETRY_BACKOFF'' ''idempotent request is in retry backoff window''"

definition ErrIdempotencyStoreUnavail :: go_error where
  "ErrIdempotencyStoreUnavail =
     ServiceUnavailable ''IDEMPOTENCY_STORE_UNAVAILABLE'' ''idempotency store unavailable''"

definition ErrIdempotencyInvalidPayload :: go_error where
  "ErrIdempotencyInvalidPayload =
     BadRequest ''IDEMPOTENCY_PAYLOAD_INVALID'' ''failed to normalize request payload''"

record idem_config =
  cfg_DefaultTTL :: duration
  cfg_SystemOperationTTL :: duration
  cfg_ProcessingTimeout :: duration
  cfg_FailedRetryBackoff :: duration
  cfg_MaxStoredResponseLen :: int
  cfg_ObserveOnly :: bool

definition DefaultIdempotencyConfig :: idem_config where
  "DefaultIdempotencyConfig =
     \<lparr>cfg_DefaultTTL = 24 * hour, cfg_SystemOperationTTL = 1 * hour, cfg_ProcessingTimeout = 30 * second,
      cfg_FailedRetryBackoff = 5 * second, cfg_MaxStoredResponseLen = 64 * 1024, cfg_ObserveOnly = True\<rparr>"

text \<open>The times to live that the handlers ask for; the coordinator may not be set.\<close>

definition DefaultWriteIdempotencyTTL :: "idem_config option \<Rightarrow> duration" where
  "DefaultWriteIdempotencyTTL coordinator =
     (case coordinator of
        Some cfg \<Rightarrow> if 0 < cfg_DefaultTTL cfg then cfg_DefaultTTL cfg
                    else cfg_DefaultTTL DefaultIdempotencyConfig
      | None \<Rightarrow> cfg_DefaultTTL DefaultIdempotencyConfig)"

definition DefaultSystemOperationIdempotencyTTL :: "idem_config option \<Rightarrow> duration" where
  "DefaultSystemOperationIdempotencyTTL coordinator =
     (case coordinator of
        Some cfg \<Rightarrow> if 0 < cfg_SystemOperationTTL cfg then cfg_SystemOperationTTL cfg
                    else cfg_SystemOperationTTL DefaultIdempotencyConfig
      | None \<Rightarrow> cfg_SystemOperationTTL DefaultIdempotencyConfig)"

record idem_options =
  opt_Scope :: string
  opt_ActorScope :: string
  opt_Method :: string
  opt_Route :: string
  opt_Key :: string
  opt_Payload :: goval
  opt_TTL :: duration
  opt_RequireKey :: bool

text \<open>A byte outside 33..126 is a character outside it or part of one.\<close>

definition NormalizeIdempotencyKey :: "string \<Rightarrow> go_error + string" where
  "NormalizeIdempotencyKey raw =
     (let key = trim_space raw in
      if key = [] then Inr []
      else if 128 < length key then Inl ErrIdempotencyKeyInvalid
      else if list_ex (\<lambda>c. (of_char c :: nat) < 33 \<or> 126 < (of_char c :: nat)) key
      then Inl ErrIdempotencyKeyInvalid
      else Inr key)"

definition HashIdempotencyKey :: "string \<Rightarrow> string" where
  "HashIdempotencyKey key = hex_EncodeToString (Sum256 key)"

text \<open>Methods are upper-cased; they are ASCII tokens.\<close>

definition BuildIdempotencyFingerprint ::
    "json_lib \<Rightarrow> string \<Rightarrow> string \<Rightarrow> string \<Rightarrow> goval \<Rightarrow> go_error + string" where
  "BuildIdempotencyFingerprint J method0 route0 actorScope0 payload =
     (let method = if method0 = [] then ''POST'' else method0;
          route = if route0 = [] then ''/'' else route0;
          actorScope = if actorScope0 = [] then ''anonymous'' else actorScope0
      in case jl_Marshal J payload of
           Inl e \<Rightarrow> Inl (WithCause ErrIdempotencyInvalidPayload e)
         | Inr raw \<Rightarrow> Inr (hex_EncodeToString (Sum256
             (map upper_char method @ [CHR 0x0A] @ route @ [CHR 0x0A] @ actorScope @ [CHR 0x0A] @ raw))))"

definition RetryAfterSecondsFromError :: "go_error \<Rightarrow> int" where
  "RetryAfterSecondsFromError err =
     (case errors_As err of
        None \<Rightarrow> 0
      | Some a \<Rightarrow>
          (let v = trim_space (opt_default [] (mlookup (ae_Metadata a) ''retry_after'')) in
           if v = [] then 0
           else case parse_int64 v of
                  None \<Rightarrow> 0
                | Some s \<Rightarrow> if s \<le> 0 then 0 else s))"

definition seconds_left :: "gtime \<Rightarrow> gtime \<Rightarrow> int" where
  "seconds_left lockedUntil now =
     (let sec = f_to_int (dur_seconds (time_sub lockedUntil now)) in if sec \<le> 0 then 1 else sec)"

definition conflictWithRetryAfter :: "go_error \<Rightarrow> gtime option \<Rightarrow> gtime \<Rightarrow> go_error" where
  "conflictWithRetryAfter base lockedUntil now =
     (case lockedUntil of
        None \<Rightarrow> base
      | Some l \<Rightarrow> WithMetadata base (Some [(''retry_after'', itoa (seconds_left l now))]))"

definition marshalStoredResponse :: "json_lib \<Rightarrow> idem_config \<Rightarrow> goval \<Rightarrow> go_error + string" where
  "marshalStoredResponse J cfg data =
     (case jl_Marshal J data of
        Inl e \<Rightarrow> Inl e
      | Inr raw \<Rightarrow>
          (let redacted = RedactText J [] raw in
           if 0 < cfg_MaxStoredResponseLen cfg \<and> cfg_MaxStoredResponseLen cfg < int (length redacted)
           then Inr (take (nat (cfg_MaxStoredResponseLen cfg)) redacted @ ''...(truncated)'')
           else Inr redacted))"

definition decodeStoredResponse :: "json_lib \<Rightarrow> string option \<Rightarrow> go_error + goval" where
  "decodeStoredResponse J stored =
     (case stored of
        None \<Rightarrow> Inr (GObj (Some []))
      | Some s \<Rightarrow>
          if trim_space s = [] then Inr (GObj (Some []))
          else case jl_Unmarshal J s of
                 Inl e \<Rightarrow> Inl (PlainError ''decode stored response'' (Some e))
               | Inr v \<Rightarrow> Inr v)"

section \<open>State\<close>

record idem_metrics =
  mt_claim :: "64 word"
  mt_replay :: "64 word"
  mt_conflict :: "64 word"
  mt_retryBackoff :: "64 word"
  mt_durationCount :: "64 word"
  mt_durationMicros :: "64 word"
  mt_storeUnavailable :: "64 word"

text \<open>The table, the counters, the rest of the world that an executor changes, and the number of
  clock readings and calls so far; \<open>ie_Clock\<close> gives the time of each of them and \<open>ie_Fault\<close> the
  fate of each call.\<close>

record 'w idem_state =
  is_db :: idem_db
  is_metrics :: idem_metrics
  is_world :: 'w
  is_tick :: nat

record idem_env =
  ie_Config :: idem_config
  ie_Json :: json_lib
  ie_Clock :: "nat \<Rightarrow> gtime"
  ie_Fault :: "nat \<Rightarrow> db_fault"

definition time_Now :: "idem_env \<Rightarrow> 'w idem_state \<Rightarrow> gtime \<times> 'w idem_state" where
  "time_Now e st = (ie_Clock e (is_tick st), st\<lparr>is_tick := is_tick st + 1\<rparr>)"

definition db_call ::
    "idem_env \<Rightarrow> (gtime \<Rightarrow> idem_db \<Rightarrow> 'a \<times> idem_db) \<Rightarrow> 'w idem_state \<Rightarrow> (go_error + 'a) \<times> 'w idem_state" where
  "db_call e op st =
     (let n = is_tick st; (r, db) = db_outcome (ie_Fault e n) (op (ie_Clock e n) (is_db st)) (is_db st)
      in (r, st\<lparr>is_db := db, is_tick := n + 1\<rparr>))"

definition recordIdempotencyClaim :: "'w idem_state \<Rightarrow> 'w idem_state" where
  "recordIdempotencyClaim st = st\<lparr>is_metrics := (is_metrics st)\<lparr>mt_claim := mt_claim (is_metrics st) + 1\<rparr>\<rparr>"

definition recordIdempotencyReplay :: "'w idem_state \<Rightarrow> 'w idem_state" where
  "recordIdempotencyReplay st = st\<lparr>is_metrics := (is_metrics st)\<lparr>mt_replay := mt_replay (is_metrics st) + 1\<rparr>\<rparr>"

definition recordIdempotencyConflict :: "'w idem_state \<Rightarrow> 'w idem_state" where
  "recordIdempotencyConflict st = st\<lparr>is_metrics := (is_metrics st)\<lparr>mt_conflict := mt_conflict (is_metrics st) + 1\<rparr>\<rparr>"

definition recordIdempotencyRetryBackoff :: "'w idem_state \<Rightarrow> 'w idem_state" where
  "recordIdempotencyRetryBackoff st =
     st\<lparr>is_metrics := (is_metrics st)\<lparr>mt_retryBackoff := mt_retryBackoff (is_metrics st) + 1\<rparr>\<rparr>"

definition RecordIdempotencyStoreUnavailable :: "'w idem_state \<Rightarrow> 'w idem_state" where
  "RecordIdempotencyStoreUnavailable st =
     st\<lparr>is_metrics := (is_metrics st)\<lparr>mt_storeUnavailable := mt_storeUnavailable (is_metrics st) + 1\<rparr>\<rparr>"

definition recordIdempotencyProcessingDuration :: "duration \<Rightarrow> 'w idem_state \<Rightarrow> 'w idem_state" where
  "recordIdempotencyProcessingDuration d st =
     (let micros = go_div (max 0 d) 1000 in
      st\<lparr>is_metrics := (is_metrics st)\<lparr>mt_durationCount := mt_durationCount (is_metrics st) + 1,
           mt_durationMicros := mt_durationMicros (is_metrics st) + word_of_int micros\<rparr>\<rparr>)"

lemmas record_defs [model_simps] =
  recordIdempotencyClaim_def recordIdempotencyReplay_def recordIdempotencyConflict_def
  recordIdempotencyRetryBackoff_def RecordIdempotencyStoreUnavailable_def
  recordIdempotencyProcessingDuration_def

section \<open>The states of a request\<close>

record idem_claim =
  cl_Scope :: string
  cl_KeyHash :: string
  cl_Fingerprint :: string
  cl_now :: gtime
  cl_lockedUntil :: gtime
  cl_expiresAt :: gtime

type_synonym idem_reply = "go_error + goval \<times> bool"

datatype idem_pc =
    CreatingRecord
  | ReadingExisting
  | ReclaimingExpired idem_record
  | ReadingLatest
  | ReclaimingFailed idem_record
  | Executing int
  | StoringResult int gtime goval string
  | StoringFailure int gtime gtime string go_error
  | Returned idem_reply

definition store_unavailable :: "go_error option \<Rightarrow> 'w idem_state \<Rightarrow> idem_pc \<times> 'w idem_state" where
  "store_unavailable cause st =
     (Returned (Inl (case cause of None \<Rightarrow> ErrIdempotencyStoreUnavail
                                 | Some e \<Rightarrow> WithCause ErrIdempotencyStoreUnavail e)),
      RecordIdempotencyStoreUnavailable st)"

definition conflict :: "go_error \<Rightarrow> 'w idem_state \<Rightarrow> idem_pc \<times> 'w idem_state" where
  "conflict e st = (Returned (Inl e), recordIdempotencyConflict st)"

text \<open>After the claim: the record of the request is known by its id.\<close>

definition claimed :: "int \<Rightarrow> 'w idem_state \<Rightarrow> idem_pc \<times> 'w idem_state" where
  "claimed i st =
     (if i = 0 then store_unavailable None (recordIdempotencyClaim st)
      else (Executing i, recordIdempotencyClaim st))"

definition new_record :: "idem_claim \<Rightarrow> idem_record" where
  "new_record cl =
     \<lparr>ir_ID = 0, ir_Scope = cl_Scope cl, ir_KeyHash = cl_KeyHash cl, ir_Fingerprint = cl_Fingerprint cl,
      ir_Status = IdempotencyStatusProcessing, ir_ResponseStatus = None, ir_ResponseBody = None,
      ir_ErrorReason = None, ir_LockedUntil = Some (cl_lockedUntil cl), ir_ExpiresAt = cl_expiresAt cl,
      ir_CreatedAt = zero_time, ir_UpdatedAt = zero_time\<rparr>"

text \<open>The switch on the status of a record that is not (or no longer) to be taken as expired.\<close>

definition by_status :: "idem_env \<Rightarrow> idem_claim \<Rightarrow> idem_record \<Rightarrow> 'w idem_state \<Rightarrow> idem_pc \<times> 'w idem_state" where
  "by_status e cl existing st =
     (if ir_Status existing = IdempotencyStatusSucceeded then
        (case decodeStoredResponse (ie_Json e) (ir_ResponseBody existing) of
           Inl err \<Rightarrow> store_unavailable (Some err) st
         | Inr data \<Rightarrow> (Returned (Inr (data, True)), recordIdempotencyReplay st))
      else if ir_Status existing = IdempotencyStatusProcessing then
        conflict (conflictWithRetryAfter ErrIdempotencyInProgress (ir_LockedUntil existing) (cl_now cl)) st
      else if ir_Status existing = IdempotencyStatusFailedRetryable then
        (if (case ir_LockedUntil existing of None \<Rightarrow> False | Some l \<Rightarrow> cl_now cl < l) then
           conflict (conflictWithRetryAfter ErrIdempotencyRetryBackoff (ir_LockedUntil existing) (cl_now cl))
             (recordIdempotencyRetryBackoff st)
         else (ReclaimingFailed existing, st))
      else conflict ErrIdempotencyKeyConflict st)"

definition step_create :: "idem_env \<Rightarrow> idem_claim \<Rightarrow> 'w idem_state \<Rightarrow> idem_pc \<times> 'w idem_state" where
  "step_create e cl st =
     (case db_call e (CreateProcessing (new_record cl)) st of
        (Inl err, st1) \<Rightarrow> store_unavailable (Some err) st1
      | (Inr (Some i), st1) \<Rightarrow> claimed i st1
      | (Inr None, st1) \<Rightarrow> (ReadingExisting, st1))"

definition step_read :: "idem_env \<Rightarrow> idem_claim \<Rightarrow> 'w idem_state \<Rightarrow> idem_pc \<times> 'w idem_state" where
  "step_read e cl st =
     (case db_call e (GetByScopeAndKeyHash (cl_Scope cl) (cl_KeyHash cl)) st of
        (Inl err, st1) \<Rightarrow> store_unavailable (Some err) st1
      | (Inr None, st1) \<Rightarrow> store_unavailable None st1
      | (Inr (Some existing), st1) \<Rightarrow>
          if ir_Fingerprint existing \<noteq> cl_Fingerprint cl then conflict ErrIdempotencyKeyConflict st1
          else if \<not> cl_now cl < ir_ExpiresAt existing then (ReclaimingExpired existing, st1)
          else by_status e cl existing st1)"

definition step_reclaim_expired ::
    "idem_env \<Rightarrow> idem_claim \<Rightarrow> idem_record \<Rightarrow> 'w idem_state \<Rightarrow> idem_pc \<times> 'w idem_state" where
  "step_reclaim_expired e cl existing st =
     (case db_call e (TryReclaim (ir_ID existing) (ir_Status existing) (cl_now cl)
             (cl_lockedUntil cl) (cl_expiresAt cl)) st of
        (Inl err, st1) \<Rightarrow> store_unavailable (Some err) st1
      | (Inr True, st1) \<Rightarrow> claimed (ir_ID existing) st1
      | (Inr False, st1) \<Rightarrow> (ReadingLatest, st1))"

definition step_read_latest :: "idem_env \<Rightarrow> idem_claim \<Rightarrow> 'w idem_state \<Rightarrow> idem_pc \<times> 'w idem_state" where
  "step_read_latest e cl st =
     (case db_call e (GetByScopeAndKeyHash (cl_Scope cl) (cl_KeyHash cl)) st of
        (Inl err, st1) \<Rightarrow> store_unavailable (Some err) st1
      | (Inr None, st1) \<Rightarrow> store_unavailable None st1
      | (Inr (Some latest), st1) \<Rightarrow>
          if ir_Fingerprint latest \<noteq> cl_Fingerprint cl then conflict ErrIdempotencyKeyConflict st1
          else by_status e cl latest st1)"

definition step_reclaim_failed ::
    "idem_env \<Rightarrow> idem_claim \<Rightarrow> idem_record \<Rightarrow> 'w idem_state \<Rightarrow> idem_pc \<times> 'w idem_state" where
  "step_reclaim_failed e cl existing st =
     (case db_call e (TryReclaim (ir_ID existing) IdempotencyStatusFailedRetryable (cl_now cl)
             (cl_lockedUntil cl) (cl_expiresAt cl)) st of
        (Inl err, st1) \<Rightarrow> store_unavailable (Some err) st1
      | (Inr False, st1) \<Rightarrow>
          conflict (conflictWithRetryAfter ErrIdempotencyInProgress (ir_LockedUntil existing) (cl_now cl)) st1
      | (Inr True, st1) \<Rightarrow> claimed (ir_ID existing) st1)"

text \<open>The deferred function that records how long the request was processed.\<close>

definition finish :: "idem_env \<Rightarrow> gtime \<Rightarrow> idem_reply \<Rightarrow> 'w idem_state \<Rightarrow> idem_pc \<times> 'w idem_state" where
  "finish e execStart r st =
     (let (t, st1) = time_Now e st
      in (Returned r, recordIdempotencyProcessingDuration (time_sub t execStart) st1))"

definition finish_with ::
    "idem_env \<Rightarrow> gtime \<Rightarrow> idem_pc \<times> 'w idem_state \<Rightarrow> idem_pc \<times> 'w idem_state" where
  "finish_with e execStart p = (case p of (Returned r, st) \<Rightarrow> finish e execStart r st | q \<Rightarrow> q)"

definition step_execute ::
    "idem_env \<Rightarrow> ('w \<Rightarrow> (go_error + goval) \<times> 'w) \<Rightarrow> int \<Rightarrow> 'w idem_state \<Rightarrow> idem_pc \<times> 'w idem_state" where
  "step_execute e execute i st =
     (let (execStart, st1) = time_Now e st;
          (r, w) = execute (is_world st1);
          st2 = st1\<lparr>is_world := w\<rparr>
      in case r of
           Inl execErr \<Rightarrow>
             (let (t, st3) = time_Now e st2;
                  reason = error_Reason (Some execErr)
              in (StoringFailure i execStart (t + cfg_FailedRetryBackoff (ie_Config e))
                    (if reason = [] then ''EXECUTION_FAILED'' else reason) execErr,
                  recordIdempotencyRetryBackoff st3))
         | Inr data \<Rightarrow>
             (case marshalStoredResponse (ie_Json e) (ie_Config e) data of
                Inl err \<Rightarrow> finish_with e execStart (store_unavailable (Some err) st2)
              | Inr body \<Rightarrow> (StoringResult i execStart data body, st2)))"

definition step_store_failure ::
    "idem_env \<Rightarrow> idem_claim \<Rightarrow> int \<Rightarrow> gtime \<Rightarrow> gtime \<Rightarrow> string \<Rightarrow> go_error \<Rightarrow> 'w idem_state
       \<Rightarrow> idem_pc \<times> 'w idem_state" where
  "step_store_failure e cl i execStart backoffUntil reason execErr st =
     (case db_call e (MarkFailedRetryable i reason backoffUntil (cl_expiresAt cl)) st of
        (Inl _, st1) \<Rightarrow> finish e execStart (Inl execErr) (RecordIdempotencyStoreUnavailable st1)
      | (Inr _, st1) \<Rightarrow> finish e execStart (Inl execErr) st1)"

definition step_store_result ::
    "idem_env \<Rightarrow> idem_claim \<Rightarrow> int \<Rightarrow> gtime \<Rightarrow> goval \<Rightarrow> string \<Rightarrow> 'w idem_state \<Rightarrow> idem_pc \<times> 'w idem_state" where
  "step_store_result e cl i execStart data body st =
     (case db_call e (MarkSucceeded i 200 body (cl_expiresAt cl)) st of
        (Inl err, st1) \<Rightarrow> finish_with e execStart (store_unavailable (Some err) st1)
      | (Inr _, st1) \<Rightarrow> finish e execStart (Inr (data, False)) st1)"

fun idem_step ::
    "idem_env \<Rightarrow> ('w \<Rightarrow> (go_error + goval) \<times> 'w) \<Rightarrow> idem_claim \<Rightarrow> idem_pc \<Rightarrow> 'w idem_state
       \<Rightarrow> idem_pc \<times> 'w idem_state" where
  "idem_step e execute cl CreatingRecord st = step_create e cl st"
| "idem_step e execute cl ReadingExisting st = step_read e cl st"
| "idem_step e execute cl (ReclaimingExpired r) st = step_reclaim_expired e cl r st"
| "idem_step e execute cl ReadingLatest st = step_read_latest e cl st"
| "idem_step e execute cl (ReclaimingFailed r) st = step_reclaim_failed e cl r st"
| "idem_step e execute cl (Executing i) st = step_execute e execute i st"
| "idem_step e execute cl (StoringFailure i t b reason err) st = step_store_failure e cl i t b reason err st"
| "idem_step e execute cl (StoringResult i t data body) st = step_store_result e cl i t data body st"
| "idem_step e execute cl (Returned r) st = (Returned r, st)"

text \<open>Every step comes closer to the end.\<close>

fun pc_rank :: "idem_pc \<Rightarrow> nat" where
  "pc_rank CreatingRecord = 7"
| "pc_rank ReadingExisting = 6"
| "pc_rank (ReclaimingExpired _) = 5"
| "pc_rank ReadingLatest = 4"
| "pc_rank (ReclaimingFailed _) = 3"
| "pc_rank (Executing _) = 2"
| "pc_rank (StoringResult _ _ _ _) = 1"
| "pc_rank (StoringFailure _ _ _ _ _) = 1"
| "pc_rank (Returned _) = 0"

lemmas step_defs =
  step_create_def step_read_def step_reclaim_expired_def step_read_latest_def step_reclaim_failed_def
  step_execute_def step_store_failure_def step_store_result_def

lemma store_unavailable_pc [simp]: "pc_rank (fst (store_unavailable c st)) = 0"
  by (simp add: store_unavailable_def)

lemma conflict_pc [simp]: "pc_rank (fst (conflict err st)) = 0"
  by (simp add: conflict_def)

lemma finish_pc [simp]: "pc_rank (fst (finish e t r st)) = 0"
  by (simp add: finish_def split: prod.splits)

lemma finish_with_unavailable [simp]: "pc_rank (fst (finish_with e t (store_unavailable c st))) = 0"
  by (simp add: finish_with_def store_unavailable_def)

lemma claimed_pc [simp]: "2 < n \<Longrightarrow> pc_rank (fst (claimed i st)) < n"
  by (simp add: claimed_def)

lemma by_status_pc [simp]: "3 < n \<Longrightarrow> pc_rank (fst (by_status e cl r st)) < n"
  by (simp add: by_status_def split: sum.splits)

lemma idem_step_rank:
  "pc_rank pc \<noteq> 0 \<Longrightarrow> pc_rank (fst (idem_step e execute cl pc st)) < pc_rank pc"
  by (cases pc) (simp_all add: step_defs Let_def split: prod.splits sum.splits option.splits bool.splits)

lemma idem_step_decreases:
  "(pc', st') = idem_step e execute cl pc st \<Longrightarrow> pc_rank pc \<noteq> 0 \<Longrightarrow> pc_rank pc' < pc_rank pc"
  by (metis fst_conv idem_step_rank)

function idem_run ::
    "idem_env \<Rightarrow> ('w \<Rightarrow> (go_error + goval) \<times> 'w) \<Rightarrow> idem_claim \<Rightarrow> idem_pc \<Rightarrow> 'w idem_state
       \<Rightarrow> idem_reply \<times> 'w idem_state" where
  "idem_run e execute cl pc st =
     (case pc of
        Returned r \<Rightarrow> (r, st)
      | _ \<Rightarrow> (case idem_step e execute cl pc st of (pc', st') \<Rightarrow> idem_run e execute cl pc' st'))"
  by pat_completeness auto
termination
  by (relation "measure (\<lambda>(_, _, _, pc, _). pc_rank pc)") (simp, (drule idem_step_decreases, simp, simp)+)

declare idem_run.simps [simp del]

section \<open>Execute\<close>

datatype idem_start =
    Refused go_error
  | Unguarded
  | Begun idem_claim

text \<open>The part before the first call to the database. A request without a key is refused only when
  the key is required and the coordinator does not merely observe; otherwise it is not guarded.\<close>

definition idem_begin ::
    "idem_env \<Rightarrow> bool \<Rightarrow> idem_options \<Rightarrow> 'w idem_state \<Rightarrow> idem_start \<times> 'w idem_state" where
  "idem_begin e hasRepo opts st =
     (case NormalizeIdempotencyKey (opt_Key opts) of
        Inl err \<Rightarrow> (Refused err, st)
      | Inr key \<Rightarrow>
          if key = [] then
            (if opt_RequireKey opts \<and> \<not> cfg_ObserveOnly (ie_Config e)
             then (Refused ErrIdempotencyKeyRequired, st) else (Unguarded, st))
          else if \<not> hasRepo then (Refused ErrIdempotencyStoreUnavail, RecordIdempotencyStoreUnavailable st)
          else if opt_Scope opts = [] then
            (Refused (BadRequest ''IDEMPOTENCY_SCOPE_REQUIRED'' ''idempotency scope is required''), st)
          else
            (case BuildIdempotencyFingerprint (ie_Json e) (opt_Method opts) (opt_Route opts)
                    (opt_ActorScope opts) (opt_Payload opts) of
               Inl err \<Rightarrow> (Refused err, st)
             | Inr fingerprint \<Rightarrow>
                 (let ttl = (if opt_TTL opts \<le> 0 then cfg_DefaultTTL (ie_Config e) else opt_TTL opts);
                      (now, st1) = time_Now e st
                  in (Begun \<lparr>cl_Scope = opt_Scope opts, cl_KeyHash = HashIdempotencyKey key,
                             cl_Fingerprint = fingerprint, cl_now = now,
                             cl_lockedUntil = now + cfg_ProcessingTimeout (ie_Config e),
                             cl_expiresAt = now + ttl\<rparr>, st1))))"

definition Execute ::
    "idem_env \<Rightarrow> bool \<Rightarrow> idem_options \<Rightarrow> ('w \<Rightarrow> (go_error + goval) \<times> 'w) option \<Rightarrow> 'w idem_state
       \<Rightarrow> idem_reply \<times> 'w idem_state" where
  "Execute e hasRepo opts executor st =
     (case executor of
        None \<Rightarrow> (Inl (InternalServer ''IDEMPOTENCY_EXECUTOR_NIL'' ''idempotency executor is nil''), st)
      | Some execute \<Rightarrow>
          (case idem_begin e hasRepo opts st of
             (Refused err, st1) \<Rightarrow> (Inl err, st1)
           | (Unguarded, st1) \<Rightarrow>
               (let (r, w) = execute (is_world st1)
                in (and_then r (\<lambda>data. Inr (data, False)), st1\<lparr>is_world := w\<rparr>))
           | (Begun cl, st1) \<Rightarrow> idem_run e execute cl CreatingRecord st1))"

section \<open>Cleanup\<close>

text \<open>\<open>IdempotencyCleanupService\<close>: one round of its loop. The configuration gives seconds.\<close>

definition NewIdempotencyCleanupService :: "(int \<times> int) option \<Rightarrow> duration \<times> int" where
  "NewIdempotencyCleanupService cfg =
     (case cfg of
        None \<Rightarrow> (60 * second, 500)
      | Some (intervalSeconds, batchSize) \<Rightarrow>
          (if 0 < intervalSeconds then i64 (intervalSeconds * second) else 60 * second,
           if 0 < batchSize then batchSize else 500))"

definition cleanupOnce :: "idem_env \<Rightarrow> int \<Rightarrow> 'w idem_state \<Rightarrow> 'w idem_state" where
  "cleanupOnce e batch st =
     (let (now, st1) = time_Now e st in snd (db_call e (\<lambda>_. DeleteExpired now batch) st1))"

section \<open>The handlers' use of the coordinator\<close>

text \<open>\<open>handler/idempotency_helper.go\<close> and \<open>handler/admin/idempotency_helper.go\<close>: what the response
  carries. The coordinator of the process may be missing.\<close>

datatype http_reply =
    Success (reply_data: goval) (reply_headers: "(string \<times> string) list")
  | Failure (reply_error: go_error) (reply_headers: "(string \<times> string) list")

definition actor_scope :: "string \<Rightarrow> int option \<Rightarrow> string" where
  "actor_scope role subject = role @ '':'' @ itoa (opt_default 0 subject)"

definition retry_after_header :: "go_error \<Rightarrow> (string \<times> string) list" where
  "retry_after_header err =
     (let retryAfter = RetryAfterSecondsFromError err in
      if 0 < retryAfter then [(''Retry-After'', itoa retryAfter)] else [])"

definition reply_of_result :: "goval \<times> bool \<Rightarrow> http_reply" where
  "reply_of_result r =
     Success (fst r) (if snd r then [(''X-Idempotency-Replayed'', ''true'')] else [])"

definition run_directly ::
    "('w \<Rightarrow> (go_error + goval) \<times> 'w) \<Rightarrow> 'w idem_state \<Rightarrow> (go_error + goval) \<times> 'w idem_state" where
  "run_directly execute st = (let (r, w) = execute (is_world st) in (r, st\<lparr>is_world := w\<rparr>))"

definition executeUserIdempotentJSON ::
    "idem_env \<Rightarrow> bool option \<Rightarrow> int option \<Rightarrow> idem_options \<Rightarrow> ('w \<Rightarrow> (go_error + goval) \<times> 'w)
       \<Rightarrow> 'w idem_state \<Rightarrow> http_reply \<times> 'w idem_state" where
  "executeUserIdempotentJSON e coordinator subject opts execute st =
     (case coordinator of
        None \<Rightarrow>
          (case run_directly execute st of
             (Inl err, st1) \<Rightarrow> (Failure err [], st1)
           | (Inr data, st1) \<Rightarrow> (Success data [], st1))
      | Some hasRepo \<Rightarrow>
          (case Execute e hasRepo (opts\<lparr>opt_ActorScope := actor_scope ''user'' subject, opt_RequireKey := True\<rparr>)
                  (Some execute) st of
             (Inl err, st1) \<Rightarrow>
               (Failure err (retry_after_header err),
                if error_Code (Some err) = error_Code (Some ErrIdempotencyStoreUnavail)
                then RecordIdempotencyStoreUnavailable st1 else st1)
           | (Inr r, st1) \<Rightarrow> (reply_of_result r, st1)))"

datatype idempotencyStoreUnavailableMode = FailClose | FailOpen

definition executeAdminIdempotent ::
    "idem_env \<Rightarrow> bool option \<Rightarrow> int option \<Rightarrow> idem_options \<Rightarrow> ('w \<Rightarrow> (go_error + goval) \<times> 'w)
       \<Rightarrow> 'w idem_state \<Rightarrow> idem_reply \<times> 'w idem_state" where
  "executeAdminIdempotent e coordinator subject opts execute st =
     (case coordinator of
        None \<Rightarrow>
          (case run_directly execute st of (r, st1) \<Rightarrow> (and_then r (\<lambda>data. Inr (data, False)), st1))
      | Some hasRepo \<Rightarrow>
          Execute e hasRepo (opts\<lparr>opt_ActorScope := actor_scope ''admin'' subject, opt_RequireKey := True\<rparr>)
            (Some execute) st)"

definition executeAdminIdempotentJSONWithMode ::
    "idempotencyStoreUnavailableMode \<Rightarrow> idem_env \<Rightarrow> bool option \<Rightarrow> int option \<Rightarrow> idem_options
       \<Rightarrow> ('w \<Rightarrow> (go_error + goval) \<times> 'w) \<Rightarrow> 'w idem_state \<Rightarrow> http_reply \<times> 'w idem_state" where
  "executeAdminIdempotentJSONWithMode mode e coordinator subject opts execute st =
     (case executeAdminIdempotent e coordinator subject opts execute st of
        (Inr r, st1) \<Rightarrow> (reply_of_result r, st1)
      | (Inl err, st1) \<Rightarrow>
          if error_Code (Some err) = error_Code (Some ErrIdempotencyStoreUnavail) then
            (let st2 = RecordIdempotencyStoreUnavailable st1 in
             if mode = FailOpen then
               (case run_directly execute st2 of
                  (Inl fallbackErr, st3) \<Rightarrow> (Failure fallbackErr [], st3)
                | (Inr data, st3) \<Rightarrow> (Success data [(''X-Idempotency-Degraded'', ''store-unavailable'')], st3))
             else (Failure err (retry_after_header err), st2))
          else (Failure err (retry_after_header err), st1))"

section \<open>Many requests at once\<close>

text \<open>
  Requests run concurrently: each is in one of the states above, and in every moment one of
  them makes its next step, a new request begins, or the cleanup deletes expired records.
  \<open>sy_runs\<close> is the history of the executors that were run: by which request and with what
  result. Each request \<open>n\<close> has its own options and executor.
\<close>

record 'w idem_sys =
  sy_st :: "'w idem_state"
  sy_reqs :: "nat \<Rightarrow> (idem_claim \<times> idem_pc) option"
  sy_runs :: "(nat \<times> idem_claim \<times> (go_error + goval)) list"

definition ran :: "nat \<Rightarrow> idem_claim \<Rightarrow> idem_pc \<Rightarrow> ('w \<Rightarrow> (go_error + goval) \<times> 'w) \<Rightarrow> 'w idem_state
    \<Rightarrow> (nat \<times> idem_claim \<times> (go_error + goval)) list" where
  "ran n cl pc execute st =
     (case pc of Executing _ \<Rightarrow> [(n, cl, fst (execute (is_world st)))] | _ \<Rightarrow> [])"

inductive sys_step ::
    "idem_env \<Rightarrow> (nat \<Rightarrow> idem_options) \<Rightarrow> (nat \<Rightarrow> 'w \<Rightarrow> (go_error + goval) \<times> 'w)
       \<Rightarrow> 'w idem_sys \<Rightarrow> 'w idem_sys \<Rightarrow> bool"
  for e opts ex where
  begin_request: "sy_reqs s n = None \<Longrightarrow> idem_begin e True (opts n) (sy_st s) = (Begun cl, st) \<Longrightarrow>
     sys_step e opts ex s (s\<lparr>sy_st := st, sy_reqs := (sy_reqs s)(n \<mapsto> (cl, CreatingRecord))\<rparr>)"
| step_request: "sy_reqs s n = Some (cl, pc) \<Longrightarrow> idem_step e (ex n) cl pc (sy_st s) = (pc', st) \<Longrightarrow>
     sys_step e opts ex s
       (s\<lparr>sy_st := st, sy_reqs := (sy_reqs s)(n \<mapsto> (cl, pc')),
          sy_runs := sy_runs s @ ran n cl pc (ex n) (sy_st s)\<rparr>)"
| cleanup: "sys_step e opts ex s (s\<lparr>sy_st := cleanupOnce e batch (sy_st s)\<rparr>)"

definition idem_initial :: "'w idem_sys \<Rightarrow> bool" where
  "idem_initial s \<longleftrightarrow> idem_wf (is_db (sy_st s)) \<and> idb_rows (is_db (sy_st s)) = []
     \<and> sy_reqs s = (\<lambda>_. None) \<and> sy_runs s = []"

text \<open>The runs in which no record expires: every clock reading lies before \<open>horizon\<close>, and every
  request asks for a record that lives at least until then.\<close>

inductive reach_before ::
    "gtime \<Rightarrow> idem_env \<Rightarrow> (nat \<Rightarrow> idem_options) \<Rightarrow> (nat \<Rightarrow> 'w \<Rightarrow> (go_error + goval) \<times> 'w)
       \<Rightarrow> 'w idem_sys \<Rightarrow> bool"
  for horizon e opts ex where
  start: "idem_initial s \<Longrightarrow> reach_before horizon e opts ex s"
| step: "reach_before horizon e opts ex s \<Longrightarrow> sys_step e opts ex s s'
     \<Longrightarrow> \<forall>k < is_tick (sy_st s'). ie_Clock e k < horizon
     \<Longrightarrow> \<forall>n cl pc. sy_reqs s' n = Some (cl, pc) \<longrightarrow> horizon \<le> cl_expiresAt cl
     \<Longrightarrow> reach_before horizon e opts ex s'"

end
