(* ===== verification/IdempotencyProps.thy ===== *)
theory IdempotencyProps
  imports Idempotency
begin

text \<open>
  What the coordinator guarantees. While no record of a key expires, the calls to the database
  follow a protocol on the row of the key (\<open>key_move\<close>), whatever fails and however the requests
  interleave; the protocol keeps one owner at a time and one successful run of the executor
  (\<open>key_ok\<close>). Then the limits of it: what a replay returns, and the race after expiry.
\<close>

section \<open>The protocol on the row of a key\<close>

definition key_of :: "idem_claim \<Rightarrow> string \<times> string" where
  "key_of cl = (cl_Scope cl, cl_KeyHash cl)"

definition stored :: "idem_env \<Rightarrow> goval \<Rightarrow> go_error + string" where
  "stored e = marshalStoredResponse (ie_Json e) (ie_Config e)"

inductive key_move ::
    "idem_env \<Rightarrow> gtime \<Rightarrow> idem_claim \<Rightarrow> (go_error + goval) list \<Rightarrow> idem_record option \<Rightarrow> idem_pc
       \<Rightarrow> idem_record option \<Rightarrow> idem_pc \<Rightarrow> bool"
  for e horizon cl where
  give_up: "(\<And>i. pc = Executing i \<Longrightarrow> (\<exists>err. rs = [Inl err]) \<or> (\<exists>d err. rs = [Inr d] \<and> stored e d = Inl err)) \<Longrightarrow>
     (\<forall>i. pc \<noteq> Executing i) \<longrightarrow> rs = [] \<Longrightarrow> key_move e horizon cl rs row pc row (Returned (Inl err'))"
| look: "key_move e horizon cl [] row CreatingRecord row ReadingExisting"
| insert: "row = None \<Longrightarrow> ir_Status r = IdempotencyStatusProcessing \<Longrightarrow> horizon \<le> ir_ExpiresAt r
     \<Longrightarrow> pc' = Executing (ir_ID r) \<or> (\<exists>err. pc' = Returned (Inl err))
     \<Longrightarrow> key_move e horizon cl [] row CreatingRecord (Some r) pc'"
| replay: "row = Some r \<Longrightarrow> ir_Status r = IdempotencyStatusSucceeded
     \<Longrightarrow> decodeStoredResponse (ie_Json e) (ir_ResponseBody r) = Inr data
     \<Longrightarrow> key_move e horizon cl [] row ReadingExisting row (Returned (Inr (data, True)))"
| retry: "row = Some r \<Longrightarrow> ir_Status r = IdempotencyStatusFailedRetryable
     \<Longrightarrow> key_move e horizon cl [] row ReadingExisting row (ReclaimingFailed r)"
| reclaim: "row = Some r \<Longrightarrow> ir_Status r = IdempotencyStatusFailedRetryable \<Longrightarrow> ir_ID r = ir_ID q
     \<Longrightarrow> ir_Status r' = IdempotencyStatusProcessing \<Longrightarrow> horizon \<le> ir_ExpiresAt r' \<Longrightarrow> ir_ID r' = ir_ID r
     \<Longrightarrow> pc' = Executing (ir_ID r) \<or> (\<exists>err. pc' = Returned (Inl err))
     \<Longrightarrow> key_move e horizon cl [] row (ReclaimingFailed q) (Some r') pc'"
| run_ok: "stored e data = Inr body
     \<Longrightarrow> key_move e horizon cl [Inr data] row (Executing i) row (StoringResult i t data body)"
| run_failed: "key_move e horizon cl [Inl err] row (Executing i) row (StoringFailure i t b reason err)"
| succeed: "row = Some r \<Longrightarrow> ir_ID r = i \<Longrightarrow> ir_Status r' = IdempotencyStatusSucceeded
     \<Longrightarrow> ir_ResponseBody r' = Some body \<Longrightarrow> horizon \<le> ir_ExpiresAt r' \<Longrightarrow> ir_ID r' = i
     \<Longrightarrow> pc' = Returned (Inr (data, False)) \<or> (\<exists>err. pc' = Returned (Inl err))
     \<Longrightarrow> key_move e horizon cl [] row (StoringResult i t data body) (Some r') pc'"
| fail: "row = Some r \<Longrightarrow> ir_ID r = i \<Longrightarrow> ir_Status r' = IdempotencyStatusFailedRetryable
     \<Longrightarrow> horizon \<le> ir_ExpiresAt r' \<Longrightarrow> ir_ID r' = i
     \<Longrightarrow> key_move e horizon cl [] row (StoringFailure i t b reason err) (Some r') (Returned (Inl err))"

text \<open>The executor that a step runs, by its result.\<close>

definition results :: "idem_pc \<Rightarrow> ('w \<Rightarrow> (go_error + goval) \<times> 'w) \<Rightarrow> 'w idem_state \<Rightarrow> (go_error + goval) list" where
  "results pc execute st = (case pc of Executing _ \<Rightarrow> [fst (execute (is_world st))] | _ \<Rightarrow> [])"

text \<open>A call leaves the table alone or does what its statement does.\<close>

lemma db_call_cases:
  assumes "db_call e op st = (r, st')"
  obtains (fine) x where "r = Inr x" and "is_db st' = snd (op (ie_Clock e (is_tick st)) (is_db st))"
      and "x = fst (op (ie_Clock e (is_tick st)) (is_db st))"
  | (lost) err where "r = Inl err" and "is_db st' = snd (op (ie_Clock e (is_tick st)) (is_db st))"
  | (refused) err where "r = Inl err" and "is_db st' = is_db st"
proof -
  obtain x db' where op: "op (ie_Clock e (is_tick st)) (is_db st) = (x, db')" by fastforce
  with assms show thesis
    by (cases "ie_Fault e (is_tick st)") (auto simp: db_call_def intro: fine lost refused)
qed

lemma record_db [simp]:
  "is_db (recordIdempotencyClaim st) = is_db st" "is_db (recordIdempotencyReplay st) = is_db st"
  "is_db (recordIdempotencyConflict st) = is_db st" "is_db (recordIdempotencyRetryBackoff st) = is_db st"
  "is_db (RecordIdempotencyStoreUnavailable st) = is_db st"
  "is_db (recordIdempotencyProcessingDuration d st) = is_db st"
  by (simp_all add: model_simps Let_def)

lemma leaf_db [simp]:
  "is_db (snd (store_unavailable c st)) = is_db st" "is_db (snd (conflict err st)) = is_db st"
  "is_db (snd (claimed i st)) = is_db st" "is_db (snd (by_status e cl r st)) = is_db st"
  "is_db (snd (finish e t rp st)) = is_db st"
  by (simp_all add: store_unavailable_def conflict_def claimed_def by_status_def finish_def time_Now_def
      split: sum.splits prod.splits)

lemma finish_with_db [simp]: "is_db (snd (finish_with e t p)) = is_db (snd p)"
  by (cases p) (auto simp: finish_with_def split: idem_pc.splits)

lemma leaf_pc [simp]:
  "\<exists>err. fst (store_unavailable c st) = Returned (Inl err)"
  "\<exists>err. fst (conflict err' st) = Returned (Inl err)"
  "\<exists>err. fst (finish_with e t (store_unavailable c st)) = Returned (Inl err)"
  "fst (finish e t r st) = Returned r"
  by (auto simp: store_unavailable_def conflict_def finish_with_def finish_def split: prod.splits)

lemma keeps_key_updates [simp]:
  "keeps_key (\<lambda>r. r\<lparr>ir_Status := a, ir_LockedUntil := b, ir_ErrorReason := c, ir_UpdatedAt := d, ir_ExpiresAt := x\<rparr>)"
  "keeps_key (\<lambda>r. r\<lparr>ir_Status := a, ir_ResponseStatus := f, ir_ResponseBody := g, ir_ErrorReason := c,
                    ir_LockedUntil := b, ir_ExpiresAt := x, ir_UpdatedAt := d\<rparr>)"
  "keeps_key (\<lambda>r. r\<lparr>ir_Status := a, ir_ErrorReason := c, ir_LockedUntil := b, ir_ExpiresAt := x, ir_UpdatedAt := d\<rparr>)"
  by (simp_all add: keeps_key_def)

lemma find_snoc:
  "find P (xs @ [x]) = (case find P xs of Some y \<Rightarrow> Some y | None \<Rightarrow> if P x then Some x else None)"
  by (induction xs) auto

lemma row_of_CreateProcessing:
  assumes "CreateProcessing r t db = (x, db')"
  defines "k \<equiv> (ir_Scope r, ir_KeyHash r)"
  shows "k' \<noteq> k \<Longrightarrow> row_of db' k' = row_of db k'"
    and "x = None \<Longrightarrow> db' = db \<and> row_of db k \<noteq> None"
    and "x = Some i \<Longrightarrow> row_of db k = None \<and> (\<exists>r'. row_of db' k = Some r' \<and> ir_ID r' = i
           \<and> ir_Status r' = ir_Status r \<and> ir_ExpiresAt r' = ir_ExpiresAt r)"
proof -
  note defs = CreateProcessing_def k_def row_of_def find_snoc has_key_def find_None_iff list_ex_iff
  show "k' \<noteq> k \<Longrightarrow> row_of db' k' = row_of db k'"
    using assms(1)
    by (cases k') (auto simp: CreateProcessing_def k_def row_of_def find_snoc has_key_def
        split: if_splits option.split)
  show "x = None \<Longrightarrow> db' = db \<and> row_of db k \<noteq> None"
    using assms(1) by (auto simp: defs split: if_splits)
  assume "x = Some i"
  then have new: "row_of db k = None" "i = idb_next db"
    and db': "idb_rows db' = idb_rows db @ [r\<lparr>ir_ID := idb_next db, ir_ResponseStatus := None,
        ir_ResponseBody := None, ir_ErrorReason := None, ir_CreatedAt := t, ir_UpdatedAt := t\<rparr>]"
    using assms(1) by (auto simp: CreateProcessing_def k_def row_of_None split: if_splits)
  then show "row_of db k = None \<and> (\<exists>r'. row_of db' k = Some r' \<and> ir_ID r' = i
           \<and> ir_Status r' = ir_Status r \<and> ir_ExpiresAt r' = ir_ExpiresAt r)"
    by (simp add: row_of_def find_snoc has_key_def k_def)
qed

text \<open>One step of a request, seen at the row of its key: the other rows stay as they are, and this
  one makes a move of the protocol.\<close>

definition others_same :: "idem_db \<Rightarrow> idem_db \<Rightarrow> string \<times> string \<Rightarrow> bool" where
  "others_same db db' k \<longleftrightarrow> (\<forall>k'. k' \<noteq> k \<longrightarrow> row_of db' k' = row_of db k')"

lemma others_same_refl [simp]: "others_same db db k"
  by (simp add: others_same_def)

text \<open>An update of the row of the key by its id.\<close>

lemma update_row:
  assumes "idem_wf db" and "row_of db k = Some r" and "ir_ID r = i" and "keeps_key f"
    and u: "(b, db') = update_where i p f db"
  shows "b = p r" and "row_of db' k = Some (if p r then f r else r)" and "others_same db db' k" and "idem_wf db'"
proof -
  note own = rows.upd_own [OF assms(1,4,2), where p = p, unfolded assms(3), folded u, unfolded prod.sel]
  show "b = p r" and "row_of db' k = Some (if p r then f r else r)" and "others_same db db' k"
    using own by (simp_all add: others_same_def)
  show "idem_wf db'"
    using update_where_wf [OF assms(1,4), of i p] by (simp flip: u)
qed

fun held :: "idem_pc \<Rightarrow> int option" where
  "held (Executing i) = Some i"
| "held (StoringResult i _ _ _) = Some i"
| "held (StoringFailure i _ _ _ _) = Some i"
| "held _ = None"

fun expiring :: "idem_pc \<Rightarrow> bool" where
  "expiring (ReclaimingExpired _) = True"
| "expiring ReadingLatest = True"
| "expiring _ = False"

text \<open>What the protocol needs to know before a step.\<close>

definition ready :: "gtime \<Rightarrow> idem_claim \<Rightarrow> idem_db \<Rightarrow> idem_pc \<Rightarrow> bool" where
  "ready horizon cl db pc \<longleftrightarrow> idem_wf db \<and> cl_now cl < horizon \<and> horizon \<le> cl_expiresAt cl \<and> \<not> expiring pc
     \<and> (\<forall>r. row_of db (key_of cl) = Some r \<longrightarrow> horizon \<le> ir_ExpiresAt r)
     \<and> (\<forall>i. held pc = Some i \<longrightarrow> (\<exists>r. row_of db (key_of cl) = Some r \<and> ir_ID r = i))
     \<and> (\<forall>q. pc = ReclaimingFailed q \<longrightarrow> (\<exists>r. row_of db (key_of cl) = Some r \<and> ir_ID r = ir_ID q))"

lemma readyD:
  assumes "ready horizon cl db pc"
  shows "idem_wf db" "cl_now cl < horizon" "horizon \<le> cl_expiresAt cl" "\<not> expiring pc"
    "row_of db (key_of cl) = Some r \<Longrightarrow> horizon \<le> ir_ExpiresAt r"
    "held pc = Some i \<Longrightarrow> \<exists>r. row_of db (key_of cl) = Some r \<and> ir_ID r = i"
    "pc = ReclaimingFailed q \<Longrightarrow> \<exists>r. row_of db (key_of cl) = Some r \<and> ir_ID r = ir_ID q"
  using assms by (auto simp: ready_def)

abbreviation moves ::
    "idem_env \<Rightarrow> gtime \<Rightarrow> idem_claim \<Rightarrow> (go_error + goval) list \<Rightarrow> idem_db \<Rightarrow> idem_pc \<Rightarrow> idem_db \<Rightarrow> idem_pc \<Rightarrow> bool"
  where
  "moves e horizon cl rs db pc db' pc' \<equiv>
     key_move e horizon cl rs (row_of db (key_of cl)) pc (row_of db' (key_of cl)) pc'
     \<and> others_same db db' (key_of cl) \<and> idem_wf db'"

lemma moves_give_up:
  "idem_wf db \<Longrightarrow> \<forall>i. pc \<noteq> Executing i \<Longrightarrow> moves e horizon cl [] db pc db (Returned (Inl err))"
  by (auto intro: key_move.give_up)

lemma create_moves:
  assumes "ready horizon cl (is_db st) CreatingRecord" and "step_create e cl st = (pc', st')"
  shows "moves e horizon cl [] (is_db st) CreatingRecord (is_db st') pc'"
proof -
  note wf = readyD(1) [OF assms(1)]
  obtain r st1 where call: "db_call e (CreateProcessing (new_record cl)) st = (r, st1)" by fastforce
  obtain x db1 where cp: "CreateProcessing (new_record cl) (ie_Clock e (is_tick st)) (is_db st) = (x, db1)"
    by fastforce
  note row = row_of_CreateProcessing [OF cp]
  have new: "moves e horizon cl [] (is_db st) CreatingRecord db1 pc"
    if "x = Some i" "pc = Executing i \<or> (\<exists>err. pc = Returned (Inl err))" for i pc
    using row(1,3) that CreateProcessing_wf [OF wf cp] readyD(3) [OF assms(1)]
    by (auto simp: others_same_def key_of_def new_record_def intro!: key_move.insert)
  have old: "x = None \<Longrightarrow> db1 = is_db st"
    using row(2) by simp
  from call show ?thesis
  proof (cases rule: db_call_cases)
    case (fine y)
    then show ?thesis
    proof (cases y)
      case None
      then show ?thesis using fine assms(2) call old cp wf
        by (auto simp: step_create_def intro: key_move.look)
    next
      case (Some i)
      then have "is_db st1 = db1" "x = Some i" using fine cp by auto
      moreover have "claimed i st1 = (pc', st')"
        using assms(2) call unfolding step_create_def call fine(1) Some by simp
      then have "pc' = Executing i \<or> (\<exists>err. pc' = Returned (Inl err))" "is_db st' = is_db st1"
        by (auto simp: claimed_def store_unavailable_def split: if_splits)
      ultimately show ?thesis using new by metis
    qed
  next
    case (lost err)
    then have st': "is_db st' = db1" "\<exists>err. pc' = Returned (Inl err)"
      using assms(2) call cp by (auto simp: step_create_def store_unavailable_def)
    show ?thesis
    proof (cases x)
      case None
      with st' old wf show ?thesis by (auto intro: key_move.give_up)
    qed (use st' new in auto)
  next
    case (refused err)
    with assms(2) call wf show ?thesis
      by (auto simp: step_create_def store_unavailable_def intro: key_move.give_up)
  qed
qed

lemma by_status_cases:
  assumes "by_status e cl r st = (pc', st')"
  shows "is_db st' = is_db st \<and> ((\<exists>err. pc' = Returned (Inl err))
    \<or> (ir_Status r = IdempotencyStatusSucceeded
       \<and> (\<exists>d. decodeStoredResponse (ie_Json e) (ir_ResponseBody r) = Inr d \<and> pc' = Returned (Inr (d, True))))
    \<or> (ir_Status r = IdempotencyStatusFailedRetryable \<and> pc' = ReclaimingFailed r))"
  using assms by (auto simp: by_status_def store_unavailable_def conflict_def split: if_splits sum.splits)

lemma read_moves:
  assumes "ready horizon cl (is_db st) ReadingExisting" and "step_read e cl st = (pc', st')"
  shows "moves e horizon cl [] (is_db st) ReadingExisting (is_db st') pc'"
proof -
  note wf = readyD(1) [OF assms(1)]
  obtain r st1 where call: "db_call e (GetByScopeAndKeyHash (cl_Scope cl) (cl_KeyHash cl)) st = (r, st1)"
    by fastforce
  then have same: "is_db st1 = is_db st"
    by (cases rule: db_call_cases) (auto simp: GetByScopeAndKeyHash_def)
  have row: "q = row_of (is_db st) (key_of cl)" if "r = Inr q" for q
    using call that by (cases rule: db_call_cases) (auto simp: GetByScopeAndKeyHash_def row_of_def key_of_def)
  show ?thesis
  proof (cases "\<exists>err. pc' = Returned (Inl err)")
    case True
    then have "is_db st' = is_db st"
      using assms(2) same call
      by (auto simp: step_read_def store_unavailable_def conflict_def dest!: by_status_cases
          split: sum.splits option.splits if_splits)
    with True wf show ?thesis by (auto intro: key_move.give_up)
  next
    case False
    then obtain q where q: "r = Inr (Some q)" and bs: "ir_ExpiresAt q \<le> cl_now cl \<or> by_status e cl q st1 = (pc', st')"
      using assms(2) call
      by (auto simp: step_read_def store_unavailable_def conflict_def split: sum.splits option.splits if_splits)
    have "cl_now cl < ir_ExpiresAt q"
      using readyD(2) [OF assms(1)] readyD(5) [OF assms(1) row [OF q, symmetric]] by linarith
    then have "by_status e cl q st1 = (pc', st')" using bs by simp
    from by_status_cases [OF this] False same row [OF q, symmetric] wf show ?thesis
      by (auto intro: key_move.replay key_move.retry)
  qed
qed

lemma reclaim_moves:
  assumes "ready horizon cl (is_db st) (ReclaimingFailed q)" and "step_reclaim_failed e cl q st = (pc', st')"
  shows "moves e horizon cl [] (is_db st) (ReclaimingFailed q) (is_db st') pc'"
proof -
  note wf = readyD(1) [OF assms(1)]
  obtain row where row: "row_of (is_db st) (key_of cl) = Some row" "ir_ID row = ir_ID q"
    using readyD(7) [OF assms(1)] by blast
  let ?op = "TryReclaim (ir_ID q) IdempotencyStatusFailedRetryable (cl_now cl) (cl_lockedUntil cl) (cl_expiresAt cl)"
  obtain r st1 where call: "db_call e ?op st = (r, st1)" by fastforce
  obtain b db1 where op: "(b, db1) = ?op (ie_Clock e (is_tick st)) (is_db st)" by (metis surj_pair)
  let ?p = "\<lambda>r. ir_Status r = IdempotencyStatusFailedRetryable
              \<and> (case ir_LockedUntil r of None \<Rightarrow> True | Some l \<Rightarrow> l \<le> cl_now cl)"
  note upd = update_row [OF wf row _ op [unfolded TryReclaim_def], simplified]
  have taken: "moves e horizon cl [] (is_db st) (ReclaimingFailed q) db1 pc"
    if "?p row \<Longrightarrow> pc = Executing (ir_ID row) \<or> (\<exists>err. pc = Returned (Inl err))"
       "\<not> ?p row \<Longrightarrow> \<exists>err. pc = Returned (Inl err)" for pc
  proof (cases "?p row")
    case True
    then show ?thesis using upd row that(1) readyD(3) [OF assms(1)]
      by (auto intro!: key_move.reclaim)
  next
    case False
    then have "row_of db1 (key_of cl) = row_of (is_db st) (key_of cl)"
      using upd(2) row(1) by (simp only: if_False)
    with False upd(3,4) that(2) show ?thesis by (auto intro: key_move.give_up)
  qed
  from call show ?thesis
  proof (cases rule: db_call_cases)
    case (fine x)
    then have x: "x = b" and st1: "is_db st1 = db1" by (simp_all flip: op)
    have st': "is_db st' = is_db st1"
      using assms(2) fine(1) unfolding step_reclaim_failed_def call
      by (auto simp: claimed_def conflict_def store_unavailable_def split: bool.splits if_splits)
    show ?thesis unfolding st' st1
      by (rule taken) (use assms(2) upd(1) row(2) x fine(1) in
        \<open>auto simp: step_reclaim_failed_def call claimed_def conflict_def store_unavailable_def
           split: bool.splits if_splits\<close>)
  next
    case (lost err)
    then have st': "is_db st' = db1" and "\<exists>err. pc' = Returned (Inl err)"
      using assms(2) call by (auto simp: step_reclaim_failed_def store_unavailable_def simp flip: op)
    then show ?thesis unfolding st' by (intro taken) simp_all
  next
    case (refused err)
    with assms(2) call wf show ?thesis
      by (auto simp: step_reclaim_failed_def store_unavailable_def intro: key_move.give_up)
  qed
qed

lemma execute_moves:
  assumes "ready horizon cl (is_db st) (Executing i)" and "step_execute e execute i st = (pc', st')"
  shows "moves e horizon cl (results (Executing i) execute st) (is_db st) (Executing i) (is_db st') pc'"
proof -
  note wf = readyD(1) [OF assms(1)]
  obtain r w where run: "execute (is_world st) = (r, w)" by fastforce
  show ?thesis
  proof (cases r)
    case (Inl err)
    with assms(2) run wf show ?thesis
      by (auto simp: step_execute_def time_Now_def Let_def results_def intro: key_move.run_failed)
  next
    case (Inr d)
    show ?thesis
    proof (cases "marshalStoredResponse (ie_Json e) (ie_Config e) d")
      case (Inl err)
      with assms(2) run wf \<open>r = Inr d\<close> show ?thesis
        by (auto simp: step_execute_def time_Now_def Let_def results_def stored_def finish_with_def
            store_unavailable_def finish_def intro!: key_move.give_up)
    next
      case (Inr body)
      with assms(2) run wf \<open>r = Inr d\<close> show ?thesis
        by (auto simp: step_execute_def time_Now_def Let_def results_def stored_def intro!: key_move.run_ok)
    qed
  qed
qed

lemma store_result_moves:
  assumes "ready horizon cl (is_db st) (StoringResult i t data body)"
    and "step_store_result e cl i t data body st = (pc', st')"
  shows "moves e horizon cl [] (is_db st) (StoringResult i t data body) (is_db st') pc'"
proof -
  note wf = readyD(1) [OF assms(1)]
  obtain row where row: "row_of (is_db st) (key_of cl) = Some row" "ir_ID row = i"
    using readyD(6) [OF assms(1)] by auto
  let ?op = "MarkSucceeded i 200 body (cl_expiresAt cl)"
  obtain r st1 where call: "db_call e ?op st = (r, st1)" by fastforce
  obtain db1 where op: "((), db1) = ?op (ie_Clock e (is_tick st)) (is_db st)" by (metis surj_pair old.unit.exhaust)
  obtain b where u: "(b, db1) = update_where i (\<lambda>_. True)
      (\<lambda>r. r\<lparr>ir_Status := IdempotencyStatusSucceeded, ir_ResponseStatus := Some 200, ir_ResponseBody := Some body,
             ir_ErrorReason := None, ir_LockedUntil := None, ir_ExpiresAt := cl_expiresAt cl,
             ir_UpdatedAt := ie_Clock e (is_tick st)\<rparr>) (is_db st)"
    using op by (auto simp: MarkSucceeded_def) (metis surj_pair snd_conv)
  note upd = update_row [OF wf row _ u, simplified]
  have taken: "moves e horizon cl [] (is_db st) (StoringResult i t data body) db1 pc"
    if "pc = Returned (Inr (data, False)) \<or> (\<exists>err. pc = Returned (Inl err))" for pc
    using upd row that readyD(3) [OF assms(1)] by (auto intro!: key_move.succeed)
  from call show ?thesis
  proof (cases rule: db_call_cases)
    case (fine x)
    then have "is_db st1 = db1" by (simp flip: op)
    moreover have "finish e t (Inr (data, False)) st1 = (pc', st')"
      using assms(2) fine(1) unfolding step_store_result_def call by simp
    ultimately have st': "is_db st' = db1" and "pc' = Returned (Inr (data, False))"
      by (metis leaf_db(5) snd_conv) (metis \<open>finish e t _ st1 = _\<close> leaf_pc(4) fst_conv)
    then show ?thesis unfolding st' by (intro taken) simp
  next
    case (lost err)
    then have fw: "finish_with e t (store_unavailable (Some err) st1) = (pc', st')"
      using assms(2) unfolding step_store_result_def call by simp
    then have st': "is_db st' = db1" using lost(2) by (metis finish_with_db leaf_db(1) op snd_conv)
    have "\<exists>err. pc' = Returned (Inl err)" using leaf_pc(3) fw by (metis fst_conv)
    then show ?thesis unfolding st' by (intro taken) simp
  next
    case (refused err)
    then have fw: "finish_with e t (store_unavailable (Some err) st1) = (pc', st')"
      using assms(2) unfolding step_store_result_def call by simp
    then have "is_db st' = is_db st" using refused(2) by (metis finish_with_db leaf_db(1) snd_conv)
    moreover have "\<exists>err. pc' = Returned (Inl err)" using leaf_pc(3) fw by (metis fst_conv)
    ultimately show ?thesis using wf by (auto intro: key_move.give_up)
  qed
qed

lemma store_failure_moves:
  assumes "ready horizon cl (is_db st) (StoringFailure i t b reason execErr)"
    and "step_store_failure e cl i t b reason execErr st = (pc', st')"
  shows "moves e horizon cl [] (is_db st) (StoringFailure i t b reason execErr) (is_db st') pc'"
proof -
  note wf = readyD(1) [OF assms(1)]
  obtain row where row: "row_of (is_db st) (key_of cl) = Some row" "ir_ID row = i"
    using readyD(6) [OF assms(1)] by auto
  let ?op = "MarkFailedRetryable i reason b (cl_expiresAt cl)"
  obtain r st1 where call: "db_call e ?op st = (r, st1)" by fastforce
  obtain db1 where op: "((), db1) = ?op (ie_Clock e (is_tick st)) (is_db st)" by (metis surj_pair old.unit.exhaust)
  obtain hit where u: "(hit, db1) = update_where i (\<lambda>_. True)
      (\<lambda>r. r\<lparr>ir_Status := IdempotencyStatusFailedRetryable, ir_ErrorReason := Some reason,
             ir_LockedUntil := Some b, ir_ExpiresAt := cl_expiresAt cl,
             ir_UpdatedAt := ie_Clock e (is_tick st)\<rparr>) (is_db st)"
    using op by (auto simp: MarkFailedRetryable_def) (metis surj_pair snd_conv)
  note upd = update_row [OF wf row _ u, simplified]
  have taken: "moves e horizon cl [] (is_db st) (StoringFailure i t b reason execErr) db1 (Returned (Inl execErr))"
    using upd row readyD(3) [OF assms(1)] by (auto intro!: key_move.fail)
  have "finish e t (Inl execErr) st1 = (pc', st')
      \<or> finish e t (Inl execErr) (RecordIdempotencyStoreUnavailable st1) = (pc', st')"
    using assms(2) unfolding step_store_failure_def call by (auto split: sum.splits)
  then have pc': "pc' = Returned (Inl execErr)" and db': "is_db st' = is_db st1"
    by (metis fst_conv leaf_pc(4)) (metis \<open>_ \<or> _\<close> leaf_db(5) record_db(5) snd_conv)
  from call show ?thesis
  proof (cases rule: db_call_cases)
    case (fine x)
    then have "is_db st' = db1" using db' by (simp flip: op)
    with taken pc' show ?thesis by simp
  next
    case (lost err)
    then have "is_db st' = db1" using db' by (simp flip: op)
    with taken pc' show ?thesis by simp
  next
    case (refused err)
    with pc' db' wf show ?thesis by (auto intro: key_move.give_up)
  qed
qed

theorem step_moves:
  assumes "ready horizon cl (is_db st) pc" and "idem_step e execute cl pc st = (pc', st')"
    and "\<forall>r. pc \<noteq> Returned r"
  shows "moves e horizon cl (results pc execute st) (is_db st) pc (is_db st') pc'"
proof (cases pc)
  case (ReclaimingExpired r)
  then show ?thesis using readyD(4) [OF assms(1)] by simp
next
  case ReadingLatest
  then show ?thesis using readyD(4) [OF assms(1)] by simp
next
  case (Executing i)
  then show ?thesis using execute_moves assms(1,2) by simp
qed (use assms create_moves read_moves reclaim_moves store_result_moves store_failure_moves in
      \<open>simp_all add: results_def\<close>)

section \<open>One owner, one success\<close>

type_synonym idem_win = "nat \<times> idem_claim \<times> (go_error + goval)"

definition won :: "nat \<Rightarrow> idem_claim \<Rightarrow> (go_error + goval) list \<Rightarrow> idem_win list" where
  "won n cl rs = map (\<lambda>r. (n, cl, r)) (filter (\<lambda>r. \<not> isl r) rs)"

definition in_progress :: "idem_record option \<Rightarrow> int \<Rightarrow> bool" where
  "in_progress row i \<longleftrightarrow> (\<exists>r. row = Some r \<and> ir_ID r = i \<and> ir_Status r = IdempotencyStatusProcessing)"

text \<open>What a stored body came from: the one successful run.\<close>

definition body_of :: "idem_env \<Rightarrow> idem_win list \<Rightarrow> string \<Rightarrow> bool" where
  "body_of e ws body \<longleftrightarrow> (\<exists>n cl d. ws = [(n, cl, Inr d)] \<and> stored e d = Inr body)"

fun pc_ok :: "idem_env \<Rightarrow> idem_record option \<Rightarrow> idem_win list \<Rightarrow> nat \<Rightarrow> idem_claim \<Rightarrow> idem_pc \<Rightarrow> bool" where
  "pc_ok e row ws n cl CreatingRecord = True"
| "pc_ok e row ws n cl ReadingExisting = True"
| "pc_ok e row ws n cl (ReclaimingExpired _) = False"
| "pc_ok e row ws n cl ReadingLatest = False"
| "pc_ok e row ws n cl (ReclaimingFailed q) = (\<exists>r. row = Some r \<and> ir_ID r = ir_ID q)"
| "pc_ok e row ws n cl (Executing i) = (ws = [] \<and> in_progress row i)"
| "pc_ok e row ws n cl (StoringFailure i _ _ _ _) = (ws = [] \<and> in_progress row i)"
| "pc_ok e row ws n cl (StoringResult i _ d body) =
     (ws = [(n, cl, Inr d)] \<and> stored e d = Inr body \<and> in_progress row i)"
| "pc_ok e row ws n cl (Returned (Inl _)) = True"
| "pc_ok e row ws n cl (Returned (Inr (d, False))) = (ws = [(n, cl, Inr d)])"
| "pc_ok e row ws n cl (Returned (Inr (d, True))) =
     (\<exists>body. body_of e ws body \<and> decodeStoredResponse (ie_Json e) (Some body) = Inr d)"

definition row_ok :: "idem_env \<Rightarrow> gtime \<Rightarrow> idem_record option \<Rightarrow> idem_win list \<Rightarrow> bool" where
  "row_ok e horizon row ws \<longleftrightarrow> length ws \<le> 1 \<and>
     (case row of
        None \<Rightarrow> ws = []
      | Some r \<Rightarrow> horizon \<le> ir_ExpiresAt r
          \<and> (ir_Status r = IdempotencyStatusFailedRetryable \<longrightarrow> ws = [])
          \<and> (ir_Status r = IdempotencyStatusSucceeded \<longrightarrow>
               (\<exists>body. ir_ResponseBody r = Some body \<and> body_of e ws body)))"

lemma won_simps [simp]:
  "won n cl [] = []" "won n cl [Inl err] = []" "won n cl [Inr d] = [(n, cl, Inr d)]"
  by (simp_all add: won_def)

lemma move_keeps_own:
  assumes "key_move e horizon cl rs row pc row' pc'"
    and "row_ok e horizon row ws" and "pc_ok e row ws n cl pc"
  shows "row_ok e horizon row' (ws @ won n cl rs) \<and> pc_ok e row' (ws @ won n cl rs) n cl pc'"
  using assms
proof (cases rule: key_move.cases)
  case (give_up err)
  show ?thesis
  proof (cases "\<exists>i. pc = Executing i")
    case True
    then obtain i where i: "pc = Executing i" by blast
    then have "ws = []" "in_progress row i" using assms(3) by auto
    moreover have "length (won n cl rs) \<le> 1" using give_up(3) [OF i] by auto
    ultimately show ?thesis using assms(2) give_up by (auto simp: row_ok_def in_progress_def)
  qed (use give_up assms in auto)
qed (auto simp: row_ok_def in_progress_def body_of_def won_def)

text \<open>A process that owns nothing does not mind: what it knows of the row stays true.\<close>

lemma pc_ok_idle:
  assumes "pc_ok e row ws m cl' pc2" and "held pc2 = None"
    and "\<And>r. row = Some r \<Longrightarrow> \<exists>r'. row' = Some r' \<and> ir_ID r' = ir_ID r"
    and "ws \<noteq> [] \<Longrightarrow> ws' = ws"
  shows "pc_ok e row' ws' m cl' pc2"
proof (cases pc2)
  case (ReclaimingFailed q)
  then obtain r where "row = Some r" "ir_ID r = ir_ID q" using assms(1) by auto
  with assms(3) [of r] ReclaimingFailed show ?thesis by auto
next
  case (Returned rp)
  show ?thesis
  proof (cases rp)
    case (Inr p)
    obtain d b where p: "p = (d, b)" by fastforce
    show ?thesis using assms(1,4) Returned Inr p by (cases b) (auto simp: body_of_def)
  qed (simp add: Returned)
qed (use assms in auto)

lemma move_row_id:
  assumes "key_move e horizon cl rs row pc row' pc'" and "row = Some r"
  shows "\<exists>r'. row' = Some r' \<and> ir_ID r' = ir_ID r"
  using assms by (cases rule: key_move.cases) auto

lemma move_wins:
  assumes "key_move e horizon cl rs row pc row' pc'" and "pc_ok e row ws n cl pc" and "ws \<noteq> []"
  shows "ws @ won n cl rs = ws"
  using assms by (cases rule: key_move.cases) auto

text \<open>A process that owns the record is not disturbed by one that does not.\<close>

lemma move_with_owner:
  assumes "key_move e horizon cl rs row pc row' pc'" and "row_ok e horizon row ws"
    and "held pc = None" and "in_progress row i"
  shows "row' = row" and "rs = []" and "held pc' = None"
  using assms by (cases rule: key_move.cases; auto simp: in_progress_def row_ok_def)+

lemma move_keeps_other:
  assumes "key_move e horizon cl rs row pc row' pc'"
    and "row_ok e horizon row ws" and "pc_ok e row ws n cl pc"
    and "pc_ok e row ws m cl' pc2" and "held pc = None \<or> held pc2 = None"
  shows "pc_ok e row' (ws @ won n cl rs) m cl' pc2 \<and> (held pc' = None \<or> held pc2 = None)"
proof (cases "held pc2")
  case None
  then show ?thesis
    using pc_ok_idle [OF assms(4) None move_row_id [OF assms(1)] move_wins [OF assms(1,3)]] by simp
next
  case (Some i)
  then have "in_progress row i" using assms(4) by (cases pc2) auto
  from move_with_owner [OF assms(1,2) _ this] Some assms(4,5) show ?thesis by auto
qed

definition wins :: "string \<times> string \<Rightarrow> idem_win list \<Rightarrow> idem_win list" where
  "wins k runs = filter (\<lambda>(n, cl, r). key_of cl = k \<and> \<not> isl r) runs"

lemma wins_snoc:
  "wins k (runs @ ran n cl pc execute st)
   = wins k runs @ (if key_of cl = k then won n cl (results pc execute st) else [])"
  by (cases pc) (auto simp: wins_def ran_def results_def won_def)

definition once_inv :: "idem_env \<Rightarrow> gtime \<Rightarrow> 'w idem_sys \<Rightarrow> bool" where
  "once_inv e horizon s \<longleftrightarrow> idem_wf (is_db (sy_st s))
     \<and> (\<forall>n cl pc. sy_reqs s n = Some (cl, pc) \<longrightarrow> cl_now cl < horizon \<and> horizon \<le> cl_expiresAt cl)
     \<and> (\<forall>k. row_ok e horizon (row_of (is_db (sy_st s)) k) (wins k (sy_runs s)))
     \<and> (\<forall>n cl pc. sy_reqs s n = Some (cl, pc) \<longrightarrow>
          pc_ok e (row_of (is_db (sy_st s)) (key_of cl)) (wins (key_of cl) (sy_runs s)) n cl pc)
     \<and> (\<forall>n cl pc n' cl' pc'. sy_reqs s n = Some (cl, pc) \<longrightarrow> sy_reqs s n' = Some (cl', pc') \<longrightarrow>
          n \<noteq> n' \<longrightarrow> key_of cl = key_of cl' \<longrightarrow> held pc = None \<or> held pc' = None)"

lemma once_invD:
  assumes "once_inv e horizon s"
  shows "idem_wf (is_db (sy_st s))"
    and "sy_reqs s n = Some (cl, pc) \<Longrightarrow> cl_now cl < horizon \<and> horizon \<le> cl_expiresAt cl"
    and "row_ok e horizon (row_of (is_db (sy_st s)) k) (wins k (sy_runs s))"
    and "sy_reqs s n = Some (cl, pc) \<Longrightarrow>
      pc_ok e (row_of (is_db (sy_st s)) (key_of cl)) (wins (key_of cl) (sy_runs s)) n cl pc"
    and "sy_reqs s n = Some (cl, pc) \<Longrightarrow> sy_reqs s n' = Some (cl', pc') \<Longrightarrow> n \<noteq> n'
      \<Longrightarrow> key_of cl = key_of cl' \<Longrightarrow> held pc = None \<or> held pc' = None"
proof -
  note parts = assms [unfolded once_inv_def]
  show "idem_wf (is_db (sy_st s))" using parts by (elim conjE)
  show "row_ok e horizon (row_of (is_db (sy_st s)) k) (wins k (sy_runs s))" using parts by (elim conjE) blast
  show "sy_reqs s n = Some (cl, pc) \<Longrightarrow> cl_now cl < horizon \<and> horizon \<le> cl_expiresAt cl"
    using parts by (elim conjE) metis
  show "sy_reqs s n = Some (cl, pc) \<Longrightarrow>
      pc_ok e (row_of (is_db (sy_st s)) (key_of cl)) (wins (key_of cl) (sy_runs s)) n cl pc"
    using parts by (elim conjE) metis
  show "sy_reqs s n = Some (cl, pc) \<Longrightarrow> sy_reqs s n' = Some (cl', pc') \<Longrightarrow> n \<noteq> n'
      \<Longrightarrow> key_of cl = key_of cl' \<Longrightarrow> held pc = None \<or> held pc' = None"
    using parts by (elim conjE) metis
qed

lemma once_inv_ready:
  assumes "once_inv e horizon s" and "sy_reqs s n = Some (cl, pc)"
  shows "ready horizon cl (is_db (sy_st s)) pc"
  using once_invD(1) [OF assms(1)] once_invD(3) [OF assms(1), of "key_of cl"]
    once_invD(2,4) [OF assms(1) assms(2)]
  unfolding ready_def
  by (cases pc) (auto simp: row_ok_def in_progress_def split: option.splits)

lemma once_invI:
  assumes "idem_wf (is_db (sy_st s))"
    and "\<And>k. row_ok e horizon (row_of (is_db (sy_st s)) k) (wins k (sy_runs s))"
    and "\<And>n cl pc. sy_reqs s n = Some (cl, pc) \<Longrightarrow> cl_now cl < horizon \<and> horizon \<le> cl_expiresAt cl
      \<and> pc_ok e (row_of (is_db (sy_st s)) (key_of cl)) (wins (key_of cl) (sy_runs s)) n cl pc"
    and "\<And>n cl pc n' cl' pc'. sy_reqs s n = Some (cl, pc) \<Longrightarrow> sy_reqs s n' = Some (cl', pc') \<Longrightarrow> n \<noteq> n'
      \<Longrightarrow> key_of cl = key_of cl' \<Longrightarrow> held pc = None \<or> held pc' = None"
  shows "once_inv e horizon s"
  using assms unfolding once_inv_def by blast

lemma once_inv_same_db:
  assumes "once_inv e horizon s" and "\<And>k. row_of (is_db st) k = row_of (is_db (sy_st s)) k"
    and "idem_wf (is_db st)"
  shows "once_inv e horizon (s\<lparr>sy_st := st\<rparr>)"
proof (rule once_invI)
  show "held pc = None \<or> held pc' = None"
    if "sy_reqs (s\<lparr>sy_st := st\<rparr>) n = Some (cl, pc)" "sy_reqs (s\<lparr>sy_st := st\<rparr>) n' = Some (cl', pc')"
      "n \<noteq> n'" "key_of cl = key_of cl'" for n cl pc n' cl' pc'
    using once_invD(5) [OF assms(1) _ _ that(3,4)] that(1,2) by simp
qed (use assms(2,3) once_invD [OF assms(1)] in simp_all)

lemma once_inv_begin:
  assumes inv: "once_inv e horizon s" and "idem_begin e True opts (sy_st s) = (Begun cl, st)"
    and "cl_now cl < horizon" and "horizon \<le> cl_expiresAt cl"
  shows "once_inv e horizon (s\<lparr>sy_st := st, sy_reqs := (sy_reqs s)(n \<mapsto> (cl, CreatingRecord))\<rparr>)"
    (is "once_inv e horizon ?s")
proof -
  have db: "is_db st = is_db (sy_st s)"
    using assms(2) by (auto simp: idem_begin_def time_Now_def Let_def split: sum.splits if_splits)
  show ?thesis
  proof (rule once_invI)
    show "held pc = None \<or> held pc' = None"
      if "sy_reqs ?s m = Some (cl, pc)" "sy_reqs ?s m' = Some (cl', pc')" "m \<noteq> m'" "key_of cl = key_of cl'"
      for m cl pc m' cl' pc'
      using once_invD(5) [OF inv _ _ that(3,4)] that(1-3) by (auto split: if_splits)
  qed (use assms(3,4) once_invD [OF inv] in \<open>simp_all add: db split: if_splits\<close>)
qed

lemma once_inv_step:
  assumes inv: "once_inv e horizon s" and req: "sy_reqs s n = Some (cl, pc)"
    and st: "idem_step e execute cl pc (sy_st s) = (pc', st)"
  shows "once_inv e horizon (s\<lparr>sy_st := st, sy_reqs := (sy_reqs s)(n \<mapsto> (cl, pc')),
           sy_runs := sy_runs s @ ran n cl pc execute (sy_st s)\<rparr>)" (is "once_inv e horizon ?s")
proof (cases "\<exists>r. pc = Returned r")
  case True
  then have "pc' = pc" "st = sy_st s" "ran n cl pc execute (sy_st s) = []" using st by (auto simp: ran_def)
  then show ?thesis using inv req by (simp add: fun_upd_idem)
next
  case False
  then have m: "moves e horizon cl (results pc execute (sy_st s)) (is_db (sy_st s)) pc (is_db st) pc'"
    using step_moves [OF once_inv_ready [OF inv req] st] by simp
  note own = move_keeps_own [OF conjunct1 [OF m] once_invD(3) [OF inv] once_invD(4) [OF inv req]]
  have other: "pc_ok e (row_of (is_db st) (key_of cl)) (wins (key_of cl) (sy_runs ?s)) n2 cl2 pc2
      \<and> (held pc' = None \<or> held pc2 = None)"
    if "sy_reqs s n2 = Some (cl2, pc2)" "n2 \<noteq> n" "key_of cl2 = key_of cl" for n2 cl2 pc2
    using move_keeps_other [OF conjunct1 [OF m] once_invD(3) [OF inv] once_invD(4) [OF inv req]
        once_invD(4) [OF inv that(1), unfolded that(3)] once_invD(5) [OF inv req that(1)]] that
    by (simp add: wins_snoc)
  have rows: "row_of (is_db st) k = row_of (is_db (sy_st s)) k" if "k \<noteq> key_of cl" for k
    using m that unfolding others_same_def by blast
  show ?thesis
  proof (rule once_invI)
    show "idem_wf (is_db (sy_st ?s))" using m by simp
    show "row_ok e horizon (row_of (is_db (sy_st ?s)) k) (wins k (sy_runs ?s))" for k
      using own once_invD(3) [OF inv] rows by (cases "k = key_of cl") (simp_all add: wins_snoc)
    show "cl_now c < horizon \<and> horizon \<le> cl_expiresAt c
      \<and> pc_ok e (row_of (is_db (sy_st ?s)) (key_of c)) (wins (key_of c) (sy_runs ?s)) n2 c pc2"
      if "sy_reqs ?s n2 = Some (c, pc2)" for n2 c pc2
    proof (cases "n2 = n")
      case True
      then show ?thesis using that own once_invD(2) [OF inv req] by (auto simp: wins_snoc)
    next
      case n2: False
      then have r2: "sy_reqs s n2 = Some (c, pc2)" using that by simp
      show ?thesis
        using other [OF r2 n2] once_invD(2,4) [OF inv r2] rows
        by (cases "key_of c = key_of cl") (simp_all add: wins_snoc)
    qed
    show "held p = None \<or> held p' = None"
      if "sy_reqs ?s a = Some (c, p)" "sy_reqs ?s a' = Some (c', p')" "a \<noteq> a'" "key_of c = key_of c'"
      for a c p a' c' p'
    proof -
      note ne = that(3)
      consider "a = n" "a' \<noteq> n" | "a \<noteq> n" "a' = n" | "a \<noteq> n" "a' \<noteq> n" using ne by blast
      then show ?thesis
      proof cases
        case 1
        then show ?thesis using other [of a' c' p'] that by simp
      next
        case 2
        then show ?thesis using other [of a c p] that by auto
      next
        case 3
        then show ?thesis using once_invD(5) [OF inv _ _ that(3,4)] that by simp
      qed
    qed
  qed
qed

lemma once_inv_cleanup:
  assumes inv: "once_inv e horizon s" and now: "ie_Clock e (is_tick (sy_st s)) < horizon"
  shows "once_inv e horizon (s\<lparr>sy_st := cleanupOnce e batch (sy_st s)\<rparr>)"
proof -
  let ?db = "is_db (sy_st s)" and ?now = "ie_Clock e (is_tick (sy_st s))"
  have young: "\<not> ir_ExpiresAt r \<le> ?now" if "r \<in> set (idb_rows ?db)" for r
    using that now once_invD(1) [OF inv] once_invD(3) [OF inv, of "(ir_Scope r, ir_KeyHash r)"]
    by (fastforce simp: row_ok_def row_of_iff [THEN iffD2])
  then have none: "filter (\<lambda>r. ir_ExpiresAt r \<le> ?now) (idb_rows ?db) = []"
    by (simp add: filter_empty_conv)
  have keep: "snd (DeleteExpired ?now batch ?db) = ?db"
    by (simp add: DeleteExpired_def none)
  obtain r st where call: "db_call e (\<lambda>_. DeleteExpired ?now batch) (snd (time_Now e (sy_st s))) = (r, st)"
    by fastforce
  then have "is_db st = ?db"
    by (cases rule: db_call_cases) (simp_all add: keep time_Now_def)
  then show ?thesis
    using once_invD(1) [OF inv] call
    by (intro once_inv_same_db [OF inv]) (simp_all add: cleanupOnce_def time_Now_def)
qed

theorem reach_once_inv: "reach_before horizon e opts ex s \<Longrightarrow> once_inv e horizon s"
proof (induction rule: reach_before.induct)
  case (start s)
  then show ?case
    by (auto simp: idem_initial_def row_of_def wins_def row_ok_def intro!: once_invI)
next
  case (step s s')
  from step.hyps(2) show ?case
  proof (cases rule: sys_step.cases)
    case (begin_request n cl st)
    then have "cl_now cl = ie_Clock e (is_tick (sy_st s))" "is_tick st = is_tick (sy_st s) + 1"
      by (auto simp: idem_begin_def time_Now_def Let_def split: sum.splits if_splits)
    then have "cl_now cl < horizon" "horizon \<le> cl_expiresAt cl"
      using step.hyps(3) spec [OF step.hyps(4), of n] begin_request(1) by auto
    then show ?thesis using begin_request once_inv_begin step.IH by simp
  next
    case (step_request n cl pc pc' st)
    then show ?thesis using once_inv_step [OF step.IH] by simp
  next
    case (cleanup batch)
    have "is_tick (sy_st s) < is_tick (sy_st s')"
      unfolding cleanup by (auto simp: cleanupOnce_def time_Now_def db_call_def Let_def split: prod.splits)
    then have "ie_Clock e (is_tick (sy_st s)) < horizon" using step.hyps(3) by blast
    then show ?thesis unfolding cleanup by (rule once_inv_cleanup [OF step.IH])
  qed
qed

section \<open>What clients see\<close>

text \<open>C8: One successful run per key: while no record of a key expires, and whatever calls to the
  database fail or lose their answer, however requests interleave and whichever are abandoned,
  the executors of the requests with one key succeed at most once, never two of them run at the
  same time, and none runs after one has succeeded.\<close>
theorem one_successful_run:
  assumes "reach_before horizon e opts ex s"
  shows "length (wins k (sy_runs s)) \<le> 1
    \<and> (\<forall>n cl i. sy_reqs s n = Some (cl, Executing i) \<and> key_of cl = k \<longrightarrow> wins k (sy_runs s) = []
         \<and> (\<forall>m cl' j. sy_reqs s m = Some (cl', Executing j) \<and> key_of cl' = k \<longrightarrow> m = n))"
proof (intro conjI allI impI; (elim conjE)?)
  note inv = reach_once_inv [OF assms]
  show "length (wins k (sy_runs s)) \<le> 1" using once_invD(3) [OF inv] by (simp add: row_ok_def)
  fix n cl i assume r: "sy_reqs s n = Some (cl, Executing i)" and k: "key_of cl = k"
  show "wins k (sy_runs s) = []" using once_invD(4) [OF inv r] k by simp
  fix m cl' j assume "sy_reqs s m = Some (cl', Executing j)" and "key_of cl' = k"
  then show "m = n" using once_invD(5) [OF inv r, of m] k by fastforce
qed

text \<open>C21: All replies come from that run: a request that is answered without an error got either the
  result of its own run, which is the one successful run of its key, or a replay, the value read
  back from what was stored of the result of that run.\<close>
theorem replies_from_one_run:
  assumes "reach_before horizon e opts ex s"
    and "sy_reqs s n = Some (cl, Returned (Inr (data, replayed)))"
  shows "\<exists>m c d. wins (key_of cl) (sy_runs s) = [(m, c, Inr d)]
    \<and> (if replayed
       then \<exists>body. marshalStoredResponse (ie_Json e) (ie_Config e) d = Inr body
              \<and> decodeStoredResponse (ie_Json e) (Some body) = Inr data
       else m = n \<and> d = data)"
  using once_invD(4) [OF reach_once_inv [OF assms(1)] assms(2)]
  by (cases replayed) (auto simp: body_of_def stored_def)

section \<open>Runs, move by move\<close>

datatype sys_move = Begin nat | Go nat

fun do_move ::
    "idem_env \<Rightarrow> (nat \<Rightarrow> idem_options) \<Rightarrow> (nat \<Rightarrow> 'w \<Rightarrow> (go_error + goval) \<times> 'w) \<Rightarrow> sys_move
       \<Rightarrow> 'w idem_sys \<Rightarrow> 'w idem_sys option" where
  "do_move e opts ex (Begin n) s =
     (case (sy_reqs s n, idem_begin e True (opts n) (sy_st s)) of
        (None, (Begun cl, st)) \<Rightarrow> Some (s\<lparr>sy_st := st, sy_reqs := (sy_reqs s)(n \<mapsto> (cl, CreatingRecord))\<rparr>)
      | _ \<Rightarrow> None)"
| "do_move e opts ex (Go n) s =
     (case sy_reqs s n of
        None \<Rightarrow> None
      | Some (cl, pc) \<Rightarrow>
          (case idem_step e (ex n) cl pc (sy_st s) of
             (pc', st) \<Rightarrow> Some (s\<lparr>sy_st := st, sy_reqs := (sy_reqs s)(n \<mapsto> (cl, pc')),
                                sy_runs := sy_runs s @ ran n cl pc (ex n) (sy_st s)\<rparr>)))"

fun do_moves ::
    "idem_env \<Rightarrow> (nat \<Rightarrow> idem_options) \<Rightarrow> (nat \<Rightarrow> 'w \<Rightarrow> (go_error + goval) \<times> 'w) \<Rightarrow> sys_move list
       \<Rightarrow> 'w idem_sys \<Rightarrow> 'w idem_sys option" where
  "do_moves e opts ex [] s = Some s"
| "do_moves e opts ex (m # ms) s =
     (case do_move e opts ex m s of None \<Rightarrow> None | Some s' \<Rightarrow> do_moves e opts ex ms s')"

lemma do_move_step: "do_move e opts ex m s = Some s' \<Longrightarrow> sys_step e opts ex s s'"
  by (cases m) (auto split: option.splits prod.splits idem_start.splits
      intro: sys_step.begin_request sys_step.step_request)

lemma do_moves_steps: "do_moves e opts ex ms s = Some s' \<Longrightarrow> (sys_step e opts ex)\<^sup>*\<^sup>* s s'"
  by (induction ms arbitrary: s)
    (auto split: option.splits intro: converse_rtranclp_into_rtranclp do_move_step)

text \<open>A small instance: JSON texts of strings only, and an executor that counts its runs.\<close>

definition quote :: char where "quote = CHR 0x22"

definition demo_json :: json_lib where
  "demo_json =
     \<lparr>jl_Marshal = (\<lambda>v. case v of GStr s \<Rightarrow> Inr (quote # s @ [quote]) | _ \<Rightarrow> Inl (PlainError ''unsupported'' None)),
      jl_Valid = (\<lambda>s. 2 \<le> length s \<and> hd s = quote \<and> last s = quote),
      jl_Unmarshal = (\<lambda>s. if 2 \<le> length s \<and> hd s = quote \<and> last s = quote then Inr (GStr (butlast (tl s)))
                          else Inl (PlainError ''invalid'' None)),
      jl_RedactPlain = (\<lambda>_ s. s)\<rparr>"

definition demo_env :: "(nat \<Rightarrow> gtime) \<Rightarrow> int \<Rightarrow> idem_env" where
  "demo_env clock maxLen =
     \<lparr>ie_Config = DefaultIdempotencyConfig\<lparr>cfg_DefaultTTL := 1000, cfg_ProcessingTimeout := 30,
                   cfg_MaxStoredResponseLen := maxLen\<rparr>,
      ie_Json = demo_json, ie_Clock = clock, ie_Fault = (\<lambda>_. Answered)\<rparr>"

definition demo_options :: idem_options where
  "demo_options = \<lparr>opt_Scope = ''s'', opt_ActorScope = [], opt_Method = [], opt_Route = [], opt_Key = ''k'',
     opt_Payload = GStr ''p'', opt_TTL = 0, opt_RequireKey = True\<rparr>"

definition demo_execute :: "nat \<Rightarrow> (go_error + goval) \<times> nat" where
  "demo_execute w = (Inr (GStr ''done''), w + 1)"

definition demo_start :: "nat idem_state" where
  "demo_start = \<lparr>is_db = \<lparr>idb_rows = [], idb_next = 1\<rparr>, is_metrics = \<lparr>mt_claim = 0, mt_replay = 0, mt_conflict = 0,
     mt_retryBackoff = 0, mt_durationCount = 0, mt_durationMicros = 0, mt_storeUnavailable = 0\<rparr>,
     is_world = 0, is_tick = 0\<rparr>"

definition demo_sys :: "nat idem_sys" where
  "demo_sys = \<lparr>sy_st = demo_start, sy_reqs = (\<lambda>_. None), sy_runs = []\<rparr>"

lemma demo_initial: "idem_initial demo_sys"
  by (simp add: idem_initial_def demo_sys_def demo_start_def idem_wf_def)

lemma demo_fingerprint:
  "\<exists>fp. BuildIdempotencyFingerprint demo_json [] [] [] (GStr ''p'') = Inr fp"
  by (simp add: BuildIdempotencyFingerprint_def demo_json_def Let_def)

lemma demo_key: "NormalizeIdempotencyKey ''k'' = Inr ''k''"
  by (code_simp)

lemma demo_stored: "marshalStoredResponse demo_json (ie_Config (demo_env c 100)) (GStr ''done'') = Inr (quote # ''done'' @ [quote])"
  by code_simp

lemma demo_begin:
  assumes "opts = demo_options" 
  shows "idem_begin (demo_env clock 100) True opts st = (Begun \<lparr>cl_Scope = ''s'', cl_KeyHash = HashIdempotencyKey ''k'',
     cl_Fingerprint = projr (BuildIdempotencyFingerprint demo_json [] [] [] (GStr ''p'')), cl_now = clock (is_tick st),
     cl_lockedUntil = clock (is_tick st) + 30, cl_expiresAt = clock (is_tick st) + 1000\<rparr>, st\<lparr>is_tick := is_tick st + 1\<rparr>)"
  using demo_fingerprint demo_key unfolding assms
  by (auto simp: idem_begin_def demo_options_def demo_env_def time_Now_def Let_def DefaultIdempotencyConfig_def)

lemma demo_exec: "demo_execute w = (Inr (GStr ''done''), w + 1)" by (simp add: demo_execute_def)


lemmas demo_defs = demo_begin demo_sys_def demo_start_def step_defs db_call_def time_Now_def claimed_def
   CreateProcessing_def TryReclaim_def GetByScopeAndKeyHash_def by_status_def new_record_def demo_stored demo_exec
   finish_def finish_with_def MarkSucceeded_def update_where_def Let_def ran_def results_def model_simps has_key_def

text \<open>A clock that jumps past the life of the first record.\<close>

definition late :: "nat \<Rightarrow> gtime" where "late n = (if n < 5 then int n else 2000 + int n)"
lemma demo_env_sel [simp]: "ie_Clock (demo_env c m) = c" "ie_Fault (demo_env c m) = (\<lambda>_. Answered)"
  "ie_Json (demo_env c m) = demo_json" by (simp_all add: demo_env_def)


text \<open>Beyond expiry the promise fails: two requests that both find the record of an earlier success
  expired can both take it over, since the takeover asks for the status and the lock of the record
  but not whether it is still expired, and the first of them may have succeeded in between. Both
  executors run and succeed, the second one while the record of the first is alive.\<close>
theorem expired_reclaim_race:
  "\<exists>s (e :: idem_env) opts. idem_initial demo_sys \<and> (sys_step e opts (\<lambda>_. demo_execute))\<^sup>*\<^sup>* demo_sys s
     \<and> (\<exists>cl1 pc1 cl2 pc2. sy_reqs s 1 = Some (cl1, pc1) \<and> sy_reqs s 2 = Some (cl2, pc2)
          \<and> key_of cl1 = key_of cl2
          \<and> (1, cl1, Inr (GStr ''done'')) \<in> set (sy_runs s) \<and> (2, cl2, Inr (GStr ''done'')) \<in> set (sy_runs s)
          \<and> ie_Clock e (is_tick (sy_st s)) < cl_expiresAt cl1)"
proof -
  have "\<exists>s. do_moves (demo_env late 100) (\<lambda>_. demo_options) (\<lambda>_. demo_execute)
     [Begin 0, Go 0, Go 0, Go 0, Begin 1, Begin 2, Go 1, Go 2, Go 1, Go 2, Go 1, Go 1, Go 1, Go 2, Go 2] demo_sys = Some s
     \<and> (\<exists>cl1 pc1 cl2 pc2. sy_reqs s 1 = Some (cl1, pc1) \<and> sy_reqs s 2 = Some (cl2, pc2) \<and> key_of cl1 = key_of cl2
        \<and> (1, cl1, Inr (GStr ''done'')) \<in> set (sy_runs s) \<and> (2, cl2, Inr (GStr ''done'')) \<in> set (sy_runs s)
        \<and> late (is_tick (sy_st s)) < cl_expiresAt cl1)"
    by (simp add: demo_defs key_of_def late_def)
  then show ?thesis
    using demo_initial do_moves_steps by (metis demo_env_sel(1))
qed

text \<open>A run of one request and a replay, for the instances of the theorems above.\<close>

lemma do_moves_reach:
  assumes clock: "\<forall>k. ie_Clock e k < horizon"
    and begins: "\<forall>n (st :: 'w idem_state) cl st'. idem_begin e True (opts n) st = (Begun cl, st') \<longrightarrow> horizon \<le> cl_expiresAt cl"
  shows "do_moves e opts ex ms (s :: 'w idem_sys) = Some s' \<Longrightarrow> reach_before horizon e opts ex s
     \<Longrightarrow> \<forall>n cl pc. sy_reqs s n = Some (cl, pc) \<longrightarrow> horizon \<le> cl_expiresAt cl \<Longrightarrow> reach_before horizon e opts ex s'"
proof (induction ms arbitrary: s)
  case (Cons m ms)
  then obtain s1 where m: "do_move e opts ex m s = Some s1" "do_moves e opts ex ms s1 = Some s'"
    by (auto split: option.splits)
  have "\<forall>n cl pc. sy_reqs s1 n = Some (cl, pc) \<longrightarrow> horizon \<le> cl_expiresAt cl"
  proof (intro allI impI)
    fix n cl pc assume "sy_reqs s1 n = Some (cl, pc)"
    with do_move_step [OF m(1)] show "horizon \<le> cl_expiresAt cl"
      by (cases rule: sys_step.cases)
        (use begins Cons.prems(3) in \<open>fastforce split: if_splits\<close>)+
  qed
  with Cons.IH [OF m(2)] reach_before.step [OF Cons.prems(2) do_move_step [OF m(1)]] clock
  show ?case by blast
qed simp

definition early :: "nat \<Rightarrow> gtime" where
  "early n = min (int n) 500"

lemma demo_reach:
  "do_moves (demo_env early 100) (\<lambda>_. demo_options) (\<lambda>_. demo_execute) ms demo_sys = Some s
   \<Longrightarrow> reach_before 1000 (demo_env early 100) (\<lambda>_. demo_options) (\<lambda>_. demo_execute) s"
  by (rule do_moves_reach [OF _ _ _ reach_before.start [OF demo_initial]])
    (auto simp: demo_begin early_def demo_sys_def)

lemma demo_decode: "decodeStoredResponse demo_json (Some (quote # ''done'' @ [quote])) = Inr (GStr ''done'')"
  by code_simp

lemma demo_run:
  "\<exists>s cl cl'. do_moves (demo_env early 100) (\<lambda>_. demo_options) (\<lambda>_. demo_execute)
       [Begin 0, Go 0, Begin 1, Go 0, Go 0, Go 1, Go 1] demo_sys = Some s
     \<and> sy_reqs s 0 = Some (cl, Returned (Inr (GStr ''done'', False)))
     \<and> sy_reqs s 1 = Some (cl', Returned (Inr (GStr ''done'', True))) \<and> key_of cl = key_of cl'"
  by (simp add: demo_defs early_def demo_decode [simplified] key_of_def)

theorem one_successful_run_witness:
  "\<exists>s :: nat idem_sys. \<exists>cl. length (wins (key_of cl) (sy_runs s)) \<le> 1
     \<and> sy_reqs s 0 = Some (cl, Returned (Inr (GStr ''done'', False)))"
  using demo_run one_successful_run [OF demo_reach] by blast

theorem replies_from_one_run_witness:
  "\<exists>s :: nat idem_sys. \<exists>cl m c d. sy_reqs s 1 = Some (cl, Returned (Inr (GStr ''done'', True)))
     \<and> wins (key_of cl) (sy_runs s) = [(m, c, Inr d)]"
  using demo_run replies_from_one_run [OF demo_reach] by blast

section \<open>Replays\<close>

lemma idem_run_step:
  "idem_step e ex cl pc st = (pc', st') \<Longrightarrow> pc_rank pc \<noteq> 0 \<Longrightarrow> idem_run e ex cl pc st = idem_run e ex cl pc' st'"
  by (subst idem_run.simps) (cases pc; simp del: idem_step.simps)

lemma idem_run_Returned [simp]: "idem_run e ex cl (Returned r) st = (r, st)"
  by (subst idem_run.simps) simp

lemma db_call_answered:
  "\<forall>n. ie_Fault e n = Answered \<Longrightarrow> db_call e op st
     = (Inr (fst (op (ie_Clock e (is_tick st)) (is_db st))),
        st\<lparr>is_db := snd (op (ie_Clock e (is_tick st)) (is_db st)), is_tick := is_tick st + 1\<rparr>)"
  by (cases "op (ie_Clock e (is_tick st)) (is_db st)") (simp add: db_call_def Let_def)

lemma idem_begin_same:
  assumes "idem_begin e True opts st = (Begun cl, st0)"
  shows "is_db st0 = is_db st \<and> is_world st0 = is_world st"
  using assms by (auto simp: idem_begin_def time_Now_def Let_def split: sum.splits if_splits)

text \<open>Two requests with the same options agree on everything but their times.\<close>

lemma idem_begin_again:
  assumes "idem_begin e True opts st = (Begun cl, st0)"
  obtains cl' st0' where "idem_begin e True opts st' = (Begun cl', st0')" and "key_of cl' = key_of cl"
    and "cl_Fingerprint cl' = cl_Fingerprint cl" and "cl_now cl' = ie_Clock e (is_tick st')"
    and "is_db st0' = is_db st'" and "is_world st0' = is_world st'"
  using assms by (fastforce simp: idem_begin_def time_Now_def Let_def key_of_def split: sum.splits if_splits)

lemma run_new_key:
  assumes ok: "\<forall>n. ie_Fault e n = Answered" and wf: "idem_wf (is_db st)"
    and b: "idem_begin e True opts st = (Begun cl, st0)" and new: "row_of (is_db st) (key_of cl) = None"
    and ex: "execute (is_world st) = (Inr d, w)" and body: "stored e d = Inr body"
  shows "\<exists>st1 r. Execute e True opts (Some execute) st = (Inr (d, False), st1) \<and> is_world st1 = w
    \<and> row_of (is_db st1) (key_of cl) = Some r \<and> ir_Status r = IdempotencyStatusSucceeded
    \<and> ir_ResponseBody r = Some body \<and> ir_Fingerprint r = cl_Fingerprint cl \<and> ir_ExpiresAt r = cl_expiresAt cl"
proof -
  note same = idem_begin_same [OF b]
  let ?row = "new_record cl \<lparr>ir_ID := idb_next (is_db st), ir_CreatedAt := ie_Clock e (is_tick st0),
     ir_UpdatedAt := ie_Clock e (is_tick st0)\<rparr>"
  let ?db1 = "(is_db st)\<lparr>idb_rows := idb_rows (is_db st) @ [?row], idb_next := idb_next (is_db st) + 1\<rparr>"
  have cp: "CreateProcessing (new_record cl) (ie_Clock e (is_tick st0)) (is_db st0) = (Some (idb_next (is_db st)), ?db1)"
    using new by (simp add: CreateProcessing_def row_of_None same key_of_def new_record_def)
  define st1 where "st1 = recordIdempotencyClaim (st0\<lparr>is_db := ?db1, is_tick := is_tick st0 + 1\<rparr>)"
  have "idb_next (is_db st) \<noteq> 0" using wf by (simp add: idem_wf_def)
  then have s1: "idem_step e execute cl CreatingRecord st0 = (Executing (idb_next (is_db st)), st1)"
    by (simp add: step_create_def db_call_answered [OF ok] cp claimed_def st1_def)
  have db1: "is_db st1 = ?db1" and w1: "is_world st1 = is_world st"
    using same by (simp_all add: st1_def model_simps)
  have row1: "row_of ?db1 (key_of cl) = Some ?row"
    using new by (simp add: row_of_def find_snoc has_key_def key_of_def new_record_def)
  have wf1: "idem_wf ?db1" using CreateProcessing_wf [OF _ cp] wf same by simp
  define st2 where "st2 = st1\<lparr>is_tick := is_tick st1 + 1, is_world := w\<rparr>"
  have s2: "idem_step e execute cl (Executing (idb_next (is_db st))) st1
      = (StoringResult (idb_next (is_db st)) (ie_Clock e (is_tick st1)) d body, st2)"
    using ex body by (simp add: step_execute_def time_Now_def w1 stored_def Let_def st2_def)
  obtain db3 where ms: "MarkSucceeded (idb_next (is_db st)) 200 body (cl_expiresAt cl) (ie_Clock e (is_tick st2)) (is_db st2) = ((), db3)"
    by (metis old.unit.exhaust surj_pair)
  define st3 where "st3 = st2\<lparr>is_db := db3, is_tick := is_tick st2 + 1\<rparr>"
  obtain st4 where fin: "finish e (ie_Clock e (is_tick st1)) (Inr (d, False)) st3 = (Returned (Inr (d, False)), st4)"
    by (metis leaf_pc(4) prod.collapse)
  have st4: "is_db st4 = db3" "is_world st4 = w"
    using fin by (auto simp: finish_def time_Now_def model_simps Let_def st3_def st2_def)
  have s3: "idem_step e execute cl (StoringResult (idb_next (is_db st)) (ie_Clock e (is_tick st1)) d body) st2
      = (Returned (Inr (d, False)), st4)"
    using fin by (simp add: step_store_result_def db_call_answered [OF ok] ms st3_def)
  have "Execute e True opts (Some execute) st = (Inr (d, False), st4)"
    by (simp add: Execute_def b idem_run_step [OF s1] idem_run_step [OF s2] idem_run_step [OF s3])
  moreover obtain r where "row_of db3 (key_of cl) = Some r" "ir_Status r = IdempotencyStatusSucceeded"
    "ir_ResponseBody r = Some body" "ir_Fingerprint r = cl_Fingerprint cl" "ir_ExpiresAt r = cl_expiresAt cl"
    using rows.look_upd [OF wf1, of _ "idb_next (is_db st)" "\<lambda>_. True" "key_of cl"] ms row1
    by (auto simp: MarkSucceeded_def st2_def db1 new_record_def)
  ultimately show ?thesis using st4 by blast
qed

lemma run_succeeded_key:
  assumes ok: "\<forall>n. ie_Fault e n = Answered"
    and b: "idem_begin e True opts st = (Begun cl, st0)" and row: "row_of (is_db st) (key_of cl) = Some r"
    and r: "ir_Status r = IdempotencyStatusSucceeded" "ir_Fingerprint r = cl_Fingerprint cl"
      "cl_now cl < ir_ExpiresAt r"
  shows "\<exists>st1. Execute e True opts (Some execute) st =
      (case decodeStoredResponse (ie_Json e) (ir_ResponseBody r) of
         Inl err \<Rightarrow> (Inl (WithCause ErrIdempotencyStoreUnavail err), st1)
       | Inr v \<Rightarrow> (Inr (v, True), st1)) \<and> is_world st1 = is_world st \<and> is_db st1 = is_db st"
proof -
  note same = idem_begin_same [OF b]
  have cp: "CreateProcessing (new_record cl) (ie_Clock e (is_tick st0)) (is_db st0) = (None, is_db st)"
    using row row_of_None [of "is_db st" "key_of cl"]
    by (auto simp: CreateProcessing_def same key_of_def new_record_def)
  define st1 where "st1 = st0\<lparr>is_db := is_db st, is_tick := is_tick st0 + 1\<rparr>"
  have s1: "idem_step e execute cl CreatingRecord st0 = (ReadingExisting, st1)"
    by (simp add: step_create_def db_call_answered [OF ok] cp st1_def)
  have get: "GetByScopeAndKeyHash (cl_Scope cl) (cl_KeyHash cl) (ie_Clock e (is_tick st1)) (is_db st1) = (Some r, is_db st)"
    using row by (simp add: GetByScopeAndKeyHash_def row_of_def key_of_def st1_def)
  define st2 where "st2 = st1\<lparr>is_db := is_db st, is_tick := is_tick st1 + 1\<rparr>"
  have s2: "idem_step e execute cl ReadingExisting st1 = by_status e cl r st2"
    using r by (simp add: step_read_def db_call_answered [OF ok] get st2_def)
  have st2: "is_world st2 = is_world st" "is_db st2 = is_db st" by (simp_all add: st2_def st1_def same)
  obtain pc st3 where by_st: "by_status e cl r st2 = (pc, st3)" by fastforce
  have run: "Execute e True opts (Some execute) st = idem_run e execute cl pc st3"
    using idem_run_step [OF s1] idem_run_step [OF s2 [unfolded by_st]] by (simp add: Execute_def b)
  show ?thesis
    using by_st unfolding run
    by (cases "decodeStoredResponse (ie_Json e) (ir_ResponseBody r)")
      (auto simp: by_status_def r store_unavailable_def st2 model_simps)
qed

text \<open>C22: What a repeated request is told: after a successful first request, the same request made again
  within the life of the record does not run its executor and is answered with the redaction of
  the first result, in which the value of every key such as \<open>code\<close>, \<open>password\<close> or \<open>access_token\<close> is
  replaced by stars, provided the stored text is not longer than the limit. (\<open>raw\<close>, \<open>v\<close> and \<open>text\<close>
  are the JSON text of the result, its value as JSON and the text of the redacted value.)\<close>
theorem replay_is_redacted:
  assumes "\<forall>n. ie_Fault e n = Answered" and "idem_wf (is_db st)"
    and "idem_begin e True opts st = (Begun cl, st0)" and "row_of (is_db st) (key_of cl) = None"
    and "execute (is_world st) = (Inr d, w)"
    and "jl_Marshal (ie_Json e) d = Inr raw" and "jl_Valid (ie_Json e) raw"
    and "jl_Unmarshal (ie_Json e) raw = Inr v"
    and "jl_Marshal (ie_Json e) (redactValueWithDepth v (buildKeySet []) 0) = Inr text"
    and "jl_Unmarshal (ie_Json e) text = Inr (redactValueWithDepth v (buildKeySet []) 0)"
    and "trim_space raw = raw" and "raw \<noteq> []" and "trim_space text = text" and "text \<noteq> []"
    and "int (length text) \<le> cfg_MaxStoredResponseLen (ie_Config e)"
    and "Execute e True opts (Some execute) st = (reply, st1)"
    and "ie_Clock e (is_tick st1) < cl_expiresAt cl"
  shows "reply = Inr (d, False) \<and> is_world st1 = w
    \<and> (\<exists>st2. Execute e True opts (Some execute) st1
              = (Inr (redactValueWithDepth v (buildKeySet []) 0, True), st2) \<and> is_world st2 = is_world st1)"
proof -
  have "stored e d = Inr text"
    using assms(6-15) by (simp add: stored_def marshalStoredResponse_def RedactText_def RedactJSON_def Let_def)
  from run_new_key [where execute = execute and st = st, OF assms(1-5) this] assms(16) obtain r where first: "reply = Inr (d, False)" "is_world st1 = w"
    and r: "row_of (is_db st1) (key_of cl) = Some r" "ir_Status r = IdempotencyStatusSucceeded"
      "ir_ResponseBody r = Some text" "ir_Fingerprint r = cl_Fingerprint cl" "ir_ExpiresAt r = cl_expiresAt cl"
    by auto
  obtain cl' st0' where again: "idem_begin e True opts st1 = (Begun cl', st0')" "key_of cl' = key_of cl"
      "cl_Fingerprint cl' = cl_Fingerprint cl" "cl_now cl' = ie_Clock e (is_tick st1)"
    using idem_begin_again [OF assms(3), of st1] by metis
  have "decodeStoredResponse (ie_Json e) (ir_ResponseBody r) = Inr (redactValueWithDepth v (buildKeySet []) 0)"
    using r(3) assms(10,13,14) by (simp add: decodeStoredResponse_def)
  with run_succeeded_key [OF assms(1) again(1), of r execute] r again assms(17) first show ?thesis by auto
qed

text \<open>An instance: a response that carries a redeem code.\<close>

definition code_value :: "string \<Rightarrow> goval" where
  "code_value c = GObj (Some [(''code'', GStr c)])"

definition code_text :: "string \<Rightarrow> string" where
  "code_text c = ''{'' @ [quote] @ ''code'' @ [quote] @ '':'' @ [quote] @ c @ [quote] @ ''}''"

definition code_json :: json_lib where
  "code_json =
     demo_json\<lparr>jl_Marshal := (\<lambda>v. if v = code_value ''AB12'' then Inr (code_text ''AB12'')
                 else if v = code_value ''***'' then Inr (code_text ''***'') else jl_Marshal demo_json v),
       jl_Valid := (\<lambda>s. s = code_text ''AB12'' \<or> s = code_text ''***'' \<or> jl_Valid demo_json s),
       jl_Unmarshal := (\<lambda>s. if s = code_text ''AB12'' then Inr (code_value ''AB12'')
                 else if s = code_text ''***'' then Inr (code_value ''***'') else jl_Unmarshal demo_json s)\<rparr>"

definition code_execute :: "nat \<Rightarrow> (go_error + goval) \<times> nat" where
  "code_execute w = (Inr (code_value ''AB12''), w + 1)"

lemma code_redacted: "redactValueWithDepth (code_value ''AB12'') (buildKeySet []) 0 = code_value ''***''"
  by code_simp

lemma code_texts: "trim_space (code_text ''AB12'') = code_text ''AB12''" "trim_space (code_text ''***'') = code_text ''***''"
  by code_simp+

lemma code_not_nil: "code_text c \<noteq> []"
  by (simp add: code_text_def)

lemma early_less: "early n < 1000"
  by (simp add: early_def)

lemma begin_with_json:
  "jl_Marshal J (GStr ''p'') = Inr raw \<Longrightarrow>
   \<exists>fp. idem_begin (demo_env early m\<lparr>ie_Json := J\<rparr>) True demo_options demo_start =
     (Begun \<lparr>cl_Scope = ''s'', cl_KeyHash = HashIdempotencyKey ''k'', cl_Fingerprint = fp, cl_now = 0,
            cl_lockedUntil = 30, cl_expiresAt = 1000\<rparr>, demo_start\<lparr>is_tick := 1\<rparr>)"
  by (auto simp: idem_begin_def demo_options_def demo_env_def demo_key BuildIdempotencyFingerprint_def
      time_Now_def Let_def demo_start_def early_def DefaultIdempotencyConfig_def)

theorem replay_is_redacted_witness:
  "let e = demo_env early 100\<lparr>ie_Json := code_json\<rparr>;
       (r1, st1) = Execute e True demo_options (Some code_execute) demo_start;
       (r2, st2) = Execute e True demo_options (Some code_execute) st1
   in r1 = Inr (code_value ''AB12'', False) \<and> r2 = Inr (code_value ''***'', True) \<and> is_world st2 = 1"
proof -
  let ?e = "demo_env early 100\<lparr>ie_Json := code_json\<rparr>"
  obtain r1 st1 where run: "Execute ?e True demo_options (Some code_execute) demo_start = (r1, st1)" by fastforce
  have "jl_Marshal code_json (GStr ''p'') = Inr (quote # ''p'' @ [quote])"
    by (simp add: code_json_def code_value_def demo_json_def)
  from begin_with_json [OF this, of 100] obtain fp where b:
    "idem_begin ?e True demo_options demo_start =
       (Begun \<lparr>cl_Scope = ''s'', cl_KeyHash = HashIdempotencyKey ''k'', cl_Fingerprint = fp, cl_now = 0,
            cl_lockedUntil = 30, cl_expiresAt = 1000\<rparr>, demo_start\<lparr>is_tick := 1\<rparr>)" by blast
  have ne: "code_value ''***'' \<noteq> code_value ''AB12''" "code_text ''***'' \<noteq> code_text ''AB12''"
    by (simp_all add: code_value_def code_text_def)
  have short: "int (length (code_text ''***'')) \<le> 100" by (simp add: code_text_def)
  have "r1 = Inr (code_value ''AB12'', False) \<and> is_world st1 = 1
    \<and> (\<exists>st2. Execute ?e True demo_options (Some code_execute) st1
          = (Inr (redactValueWithDepth (code_value ''AB12'') (buildKeySet []) 0, True), st2)
        \<and> is_world st2 = is_world st1)"
    by (rule replay_is_redacted [OF _ _ b _ _ _ _ _ _ _ code_texts(1) code_not_nil code_texts(2) code_not_nil _ run])
      (use ne short in \<open>simp_all add: demo_env_def code_json_def code_execute_def demo_start_def idem_wf_def
        row_of_def code_redacted early_less\<close>)
  then show ?thesis by (auto simp: run code_redacted)
qed

text \<open>A result whose stored text exceeds the limit cannot be replayed: it is stored cut off, with a
  suffix after which it is no JSON text any more, and the repeated request fails with 503 although
  the first one succeeded. (JSON texts do not end in a parenthesis.)\<close>
theorem long_result_not_replayed:
  assumes "\<forall>n. ie_Fault e n = Answered" and "idem_wf (is_db st)"
    and "idem_begin e True opts st = (Begun cl, st0)" and "row_of (is_db st) (key_of cl) = None"
    and "execute (is_world st) = (Inr d, w)" and "jl_Marshal (ie_Json e) d = Inr raw"
    and "\<And>s x. jl_Unmarshal (ie_Json e) s = Inr x \<Longrightarrow> last s \<noteq> CHR '')''"
    and "0 < cfg_MaxStoredResponseLen (ie_Config e)"
    and "cfg_MaxStoredResponseLen (ie_Config e) < int (length (RedactText (ie_Json e) [] raw))"
    and "Execute e True opts (Some execute) st = (reply, st1)"
    and "ie_Clock e (is_tick st1) < cl_expiresAt cl"
  shows "reply = Inr (d, False)
    \<and> (\<exists>err. fst (Execute e True opts (Some execute) st1) = Inl err \<and> error_Code (Some err) = 503)"
proof -
  let ?body = "take (nat (cfg_MaxStoredResponseLen (ie_Config e))) (RedactText (ie_Json e) [] raw) @ ''...(truncated)''"
  have "stored e d = Inr ?body"
    using assms(6,8,9) by (simp add: stored_def marshalStoredResponse_def Let_def)
  from run_new_key [where execute = execute and st = st, OF assms(1-5) this] assms(10) obtain r where first: "reply = Inr (d, False)"
    and r: "row_of (is_db st1) (key_of cl) = Some r" "ir_Status r = IdempotencyStatusSucceeded"
      "ir_ResponseBody r = Some ?body" "ir_Fingerprint r = cl_Fingerprint cl" "ir_ExpiresAt r = cl_expiresAt cl"
    by auto
  obtain cl' st0' where again: "idem_begin e True opts st1 = (Begun cl', st0')" "key_of cl' = key_of cl"
      "cl_Fingerprint cl' = cl_Fingerprint cl" "cl_now cl' = ie_Clock e (is_tick st1)"
    using idem_begin_again [OF assms(3), of st1] by metis
  have "\<exists>err. jl_Unmarshal (ie_Json e) ?body = Inl err"
    using assms(7) [of ?body] by (cases "jl_Unmarshal (ie_Json e) ?body") auto
  moreover have "trim_space ?body \<noteq> []"
    using trim_space_keeps [of "CHR '')''" ?body] by (auto simp: ws_seqs_def)
  ultimately have "\<exists>err. decodeStoredResponse (ie_Json e) (ir_ResponseBody r) = Inl err"
    using r(3) by (auto simp: decodeStoredResponse_def)
  with run_succeeded_key [OF assms(1) again(1), of r execute] r again assms(11) first show ?thesis
    by (auto simp: ErrIdempotencyStoreUnavail_def error_Code_def)
qed
theorem long_result_not_replayed_witness:
  "let e = demo_env early 5;
       (r1, st1) = Execute e True demo_options (Some demo_execute) demo_start;
       (r2, st2) = Execute e True demo_options (Some demo_execute) st1
   in r1 = Inr (GStr ''done'', False) \<and> (\<exists>err. r2 = Inl err \<and> error_Code (Some err) = 503)"
proof -
  let ?e = "demo_env early 5"
  obtain r1 st1 where run: "Execute ?e True demo_options (Some demo_execute) demo_start = (r1, st1)" by fastforce
  have "jl_Marshal demo_json (GStr ''p'') = Inr (quote # ''p'' @ [quote])" by (simp add: demo_json_def)
  from begin_with_json [OF this, of 5] obtain fp where b:
    "idem_begin ?e True demo_options demo_start =
       (Begun \<lparr>cl_Scope = ''s'', cl_KeyHash = HashIdempotencyKey ''k'', cl_Fingerprint = fp, cl_now = 0,
            cl_lockedUntil = 30, cl_expiresAt = 1000\<rparr>, demo_start\<lparr>is_tick := 1\<rparr>)"
    by (auto simp: demo_env_def)
  have red: "RedactText demo_json [] (quote # ''done'' @ [quote]) = quote # ''done'' @ [quote]" by code_simp
  have "last s \<noteq> CHR '')''" if "jl_Unmarshal demo_json s = Inr x" for s x
    using that by (auto simp: demo_json_def quote_def split: if_splits)
  then have "r1 = Inr (GStr ''done'', False)
    \<and> (\<exists>err. fst (Execute ?e True demo_options (Some demo_execute) st1) = Inl err \<and> error_Code (Some err) = 503)"
    by (intro long_result_not_replayed [OF _ _ b _ _ _ _ _ _ run, of "GStr ''done''" 1 "quote # ''done'' @ [quote]"])
      (use red in \<open>simp_all add: demo_env_def demo_execute_def demo_start_def idem_wf_def row_of_def early_less
        demo_json_def [THEN arg_cong, of jl_Marshal]\<close>)
  then show ?thesis by (auto simp: run split: prod.split)
qed

text \<open>The locked row of an abandoned request blocks its key for the whole life of the record: that its
  lock has passed makes no difference.\<close>

lemma abandoned_key_blocked:
  assumes "\<forall>n. ie_Fault e n = Answered"
    and b: "idem_begin e True opts st = (Begun cl, st0)" and row: "row_of (is_db st) (key_of cl) = Some r"
    and "ir_Status r = IdempotencyStatusProcessing" and "ir_Fingerprint r = cl_Fingerprint cl"
    and "cl_now cl < ir_ExpiresAt r"
  shows "\<exists>s1 s2 s3. idem_step e execute cl CreatingRecord st0 = (ReadingExisting, s1)
    \<and> idem_step e execute cl ReadingExisting s1
      = (Returned (Inl (conflictWithRetryAfter ErrIdempotencyInProgress (ir_LockedUntil r) (cl_now cl))), s2)"
proof -
  note same = idem_begin_same [OF b]
  have cp: "CreateProcessing (new_record cl) (ie_Clock e (is_tick st0)) (is_db st0) = (None, is_db st)"
    using row row_of_None [of "is_db st" "key_of cl"]
    by (auto simp: CreateProcessing_def same key_of_def new_record_def)
  have "find (has_key (cl_Scope cl) (cl_KeyHash cl)) (idb_rows (is_db st)) = Some r"
    using row by (simp add: row_of_def key_of_def)
  then show ?thesis
    using assms(4-6)
    by (auto simp: step_create_def step_read_def db_call_answered [OF assms(1)] cp GetByScopeAndKeyHash_def
        by_status_def conflict_def)
qed

end
