(* ===== verification/SystemLock.thy ===== *)
theory SystemLock
  imports IdempotencyProps
begin

text \<open>
  The lock that lets one system operation (update, rollback, restart) run at a time
  (\<open>service/system_operation_lock_service.go\<close>): one record of the idempotency table, whose
  fingerprint is the id of the operation and whose lock time is a lease that a goroutine renews.
  Then what it guarantees, and where the renewal fails.
\<close>

definition systemOperationLockScope :: string where
  "systemOperationLockScope = ''admin.system.operations.global_lock''"

definition systemOperationLockKey :: string where
  "systemOperationLockKey = ''global-system-operation-lock''"

definition ErrSystemOperationBusy :: go_error where
  "ErrSystemOperationBusy =
     Conflict ''SYSTEM_OPERATION_BUSY'' ''another system operation is in progress''"

record system_lock =
  sl_recordID :: int
  sl_operationID :: string
  sl_stopped :: bool

definition OperationID :: "system_lock option \<Rightarrow> string" where
  "OperationID l = (case l of None \<Rightarrow> [] | Some k \<Rightarrow> sl_operationID k)"

record system_lock_service =
  ss_lease :: duration
  ss_renewInterval :: duration
  ss_ttl :: duration

definition NewSystemOperationLockService :: "idem_config \<Rightarrow> system_lock_service" where
  "NewSystemOperationLockService cfg =
     (let lease = (if cfg_ProcessingTimeout cfg \<le> 0 then 30 * second else cfg_ProcessingTimeout cfg);
          interval = go_div lease 3
      in \<lparr>ss_lease = lease, ss_renewInterval = (if interval < second then second else interval),
          ss_ttl = (if cfg_SystemOperationTTL cfg \<le> 0 then hour else cfg_SystemOperationTTL cfg)\<rparr>)"

definition busyError :: "string \<Rightarrow> gtime option \<Rightarrow> gtime \<Rightarrow> go_error" where
  "busyError operationID lockedUntil now =
     (let metadata = (if operationID \<noteq> [] then [(''operation_id'', operationID)] else [])
            @ (case lockedUntil of None \<Rightarrow> [] | Some l \<Rightarrow> [(''retry_after'', itoa (seconds_left l now))])
      in if metadata = [] then ErrSystemOperationBusy else WithMetadata ErrSystemOperationBusy (Some metadata))"

definition lock_key :: "string \<times> string" where
  "lock_key = (systemOperationLockScope, HashIdempotencyKey systemOperationLockKey)"

definition lock_record :: "system_lock_service \<Rightarrow> string \<Rightarrow> gtime \<Rightarrow> idem_record" where
  "lock_record s operationID now =
     \<lparr>ir_ID = 0, ir_Scope = fst lock_key, ir_KeyHash = snd lock_key, ir_Fingerprint = operationID,
      ir_Status = IdempotencyStatusProcessing, ir_ResponseStatus = None, ir_ResponseBody = None,
      ir_ErrorReason = None, ir_LockedUntil = Some (now + ss_lease s), ir_ExpiresAt = now + ss_ttl s,
      ir_CreatedAt = zero_time, ir_UpdatedAt = zero_time\<rparr>"

definition new_lock :: "string \<Rightarrow> int \<Rightarrow> go_error + system_lock" where
  "new_lock operationID i =
     (if i = 0 then Inl ErrIdempotencyStoreUnavail
      else Inr \<lparr>sl_recordID = i, sl_operationID = operationID, sl_stopped = False\<rparr>)"

text \<open>A record that exists: refused while another operation holds an unexpired lease, otherwise
  taken over.\<close>

definition take_over ::
    "idem_env \<Rightarrow> system_lock_service \<Rightarrow> string \<Rightarrow> gtime \<Rightarrow> idem_record \<Rightarrow> 'w idem_state
       \<Rightarrow> (go_error + system_lock) \<times> 'w idem_state" where
  "take_over e s operationID now existing st =
     (if ir_Status existing = IdempotencyStatusProcessing
         \<and> (case ir_LockedUntil existing of None \<Rightarrow> False | Some l \<Rightarrow> now < l)
      then (Inl (busyError (ir_Fingerprint existing) (ir_LockedUntil existing) now), st)
      else
        (case db_call e (TryReclaim (ir_ID existing) (ir_Status existing) now
                (now + ss_lease s) (now + ss_ttl s)) st of
           (Inl err, st1) \<Rightarrow> (Inl (WithCause ErrIdempotencyStoreUnavail err), st1)
         | (Inr False, st1) \<Rightarrow>
             (case db_call e (GetByScopeAndKeyHash (fst lock_key) (snd lock_key)) st1 of
                (Inr (Some latest), st2) \<Rightarrow>
                  (Inl (busyError (ir_Fingerprint latest) (ir_LockedUntil latest) now), st2)
              | (_, st2) \<Rightarrow> (Inl ErrSystemOperationBusy, st2))
         | (Inr True, st1) \<Rightarrow> (new_lock operationID (ir_ID existing), st1)))"

definition Acquire ::
    "idem_env \<Rightarrow> system_lock_service option \<Rightarrow> string \<Rightarrow> 'w idem_state
       \<Rightarrow> (go_error + system_lock) \<times> 'w idem_state" where
  "Acquire e svc operationID st =
     (case svc of
        None \<Rightarrow> (Inl ErrIdempotencyStoreUnavail, st)
      | Some s \<Rightarrow>
          if operationID = [] then
            (Inl (BadRequest ''SYSTEM_OPERATION_ID_REQUIRED'' ''operation id is required''), st)
          else
            (case time_Now e st of
               (now, st0) \<Rightarrow>
                 (case db_call e (CreateProcessing (lock_record s operationID now)) st0 of
                    (Inl err, st1) \<Rightarrow> (Inl (WithCause ErrIdempotencyStoreUnavail err), st1)
                  | (Inr (Some i), st1) \<Rightarrow> (new_lock operationID i, st1)
                  | (Inr None, st1) \<Rightarrow>
                      (case db_call e (GetByScopeAndKeyHash (fst lock_key) (snd lock_key)) st1 of
                         (Inl err, st2) \<Rightarrow> (Inl (WithCause ErrIdempotencyStoreUnavail err), st2)
                       | (Inr None, st2) \<Rightarrow> (Inl ErrIdempotencyStoreUnavail, st2)
                       | (Inr (Some existing), st2) \<Rightarrow> take_over e s operationID now existing st2))))"

definition quoted :: "string \<Rightarrow> string" where
  "quoted s = [quote] @ s @ [quote]"

definition released_body :: "string \<Rightarrow> string" where
  "released_body operationID =
     ''{'' @ quoted ''operation_id'' @ '':'' @ quoted operationID @ '','' @ quoted ''released'' @ '':true}''"

text \<open>\<open>Release\<close> stops the renewal and marks the record; the error of the call is returned.\<close>

definition Release ::
    "idem_env \<Rightarrow> system_lock_service option \<Rightarrow> system_lock option \<Rightarrow> bool \<Rightarrow> string \<Rightarrow> 'w idem_state
       \<Rightarrow> (go_error option \<times> system_lock option) \<times> 'w idem_state" where
  "Release e svc lock succeeded failureReason st =
     (case (svc, lock) of
        (Some s, Some l) \<Rightarrow>
          (let l' = l\<lparr>sl_stopped := True\<rparr>; (now, st1) = time_Now e st; expiresAt = now + ss_ttl s in
           if succeeded then
             (case db_call e (MarkSucceeded (sl_recordID l) 200
                     (released_body (sl_operationID l)) expiresAt) st1 of
                (Inl err, st2) \<Rightarrow> ((Some err, Some l'), st2)
              | (Inr _, st2) \<Rightarrow> ((None, Some l'), st2))
           else
             (case time_Now e st1 of
                (t, st2) \<Rightarrow>
                  (case db_call e (MarkFailedRetryable (sl_recordID l)
                          (if failureReason = [] then ''SYSTEM_OPERATION_FAILED'' else failureReason)
                          t expiresAt) st2 of
                     (Inl err, st3) \<Rightarrow> ((Some err, Some l'), st3)
                   | (Inr _, st3) \<Rightarrow> ((None, Some l'), st3))))
      | _ \<Rightarrow> ((None, lock), st))"

text \<open>One tick of the renewal: whether the goroutine goes on.\<close>

definition renew_tick ::
    "idem_env \<Rightarrow> system_lock_service \<Rightarrow> system_lock \<Rightarrow> 'w idem_state \<Rightarrow> bool \<times> 'w idem_state" where
  "renew_tick e s l st =
     (if sl_stopped l then (False, st)
      else
        (case time_Now e st of
           (now, st1) \<Rightarrow>
             (case db_call e (ExtendProcessingLock (sl_recordID l) (sl_operationID l)
                     (now + ss_lease s) (now + ss_ttl s)) st1 of
                (Inl _, st2) \<Rightarrow> (True, st2)
              | (Inr ok, st2) \<Rightarrow> (ok, st2))))"

section \<open>What the lock guarantees\<close>

text \<open>While the record is processing under an unexpired lease, nobody else acquires the lock.\<close>

lemma lease_excludes:
  assumes "\<forall>n. ie_Fault e n = Answered" and "row_of (is_db st) lock_key = Some r"
    and "ir_Status r = IdempotencyStatusProcessing" and "ir_LockedUntil r = Some l"
    and "ie_Clock e (is_tick st) < l" and "operationID \<noteq> []"
  shows "fst (Acquire e (Some s) operationID st)
    = Inl (busyError (ir_Fingerprint r) (Some l) (ie_Clock e (is_tick st)))"
proof -
  have "find (has_key (fst lock_key) (snd lock_key)) (idb_rows (is_db st)) = Some r"
    using assms(2) by (simp add: row_of_def)
  moreover have "list_ex (has_key (fst lock_key) (snd lock_key)) (idb_rows (is_db st))"
    using assms(2) row_of_None [of "is_db st" lock_key] by auto
  ultimately show ?thesis
    using assms(3-6)
    by (simp add: Acquire_def time_Now_def db_call_answered [OF assms(1)] CreateProcessing_def lock_record_def
        GetByScopeAndKeyHash_def take_over_def)
qed

text \<open>An operation that finds a record it may take over takes it, and its lease starts; the record
  keeps the fingerprint of the operation that created it.\<close>

lemma acquire_takes_over:
  assumes ok: "\<forall>n. ie_Fault e n = Answered" and wf: "idem_wf (is_db st)"
    and row: "row_of (is_db st) lock_key = Some r" and "operationID \<noteq> []"
    and free: "case ir_LockedUntil r of None \<Rightarrow> True | Some l \<Rightarrow> l \<le> ie_Clock e (is_tick st)"
  shows "\<exists>st1 r1. Acquire e (Some s) operationID st
       = (Inr \<lparr>sl_recordID = ir_ID r, sl_operationID = operationID, sl_stopped = False\<rparr>, st1)
     \<and> idem_wf (is_db st1) \<and> row_of (is_db st1) lock_key = Some r1 \<and> ir_ID r1 = ir_ID r
     \<and> ir_Status r1 = IdempotencyStatusProcessing \<and> ir_Fingerprint r1 = ir_Fingerprint r
     \<and> ir_LockedUntil r1 = Some (ie_Clock e (is_tick st) + ss_lease s) \<and> is_tick st1 = is_tick st + 4"
proof -
  let ?now = "ie_Clock e (is_tick st)"
  have found: "find (has_key (fst lock_key) (snd lock_key)) (idb_rows (is_db st)) = Some r"
    using row by (simp add: row_of_def)
  have ex: "list_ex (has_key (fst lock_key) (snd lock_key)) (idb_rows (is_db st))"
    using row row_of_None [of "is_db st" lock_key] by auto
  have not_held: "\<not> (ir_Status r = IdempotencyStatusProcessing
      \<and> (case ir_LockedUntil r of None \<Rightarrow> False | Some l \<Rightarrow> ?now < l))"
    using free by (auto split: option.splits)
  have "ir_ID r \<noteq> 0" using wf row by (auto simp: idem_wf_def row_of_iff [OF wf])
  obtain b db1 where tr: "(b, db1) = TryReclaim (ir_ID r) (ir_Status r) ?now (?now + ss_lease s) (?now + ss_ttl s)
      (ie_Clock e (is_tick st + 3)) (is_db st)" by (metis surj_pair)
  note upd = update_row [OF wf row refl _ tr [unfolded TryReclaim_def], simplified]
  have hit: "b" using upd(1) free by (auto split: option.splits)
  have row1: "row_of db1 lock_key = Some (r\<lparr>ir_Status := IdempotencyStatusProcessing,
      ir_LockedUntil := Some (?now + ss_lease s), ir_ErrorReason := None,
      ir_UpdatedAt := ie_Clock e (is_tick st + 3), ir_ExpiresAt := ?now + ss_ttl s\<rparr>)"
    using upd(2) free by (auto split: option.splits)
  let ?st2 = "st\<lparr>is_tick := is_tick st + 3\<rparr>"
  have over: "take_over e s operationID ?now r ?st2
      = (new_lock operationID (ir_ID r), ?st2\<lparr>is_db := db1, is_tick := is_tick st + 4\<rparr>)"
    unfolding take_over_def if_not_P [OF not_held]
    using hit by (simp add: db_call_answered [OF ok] flip: tr)
  have "Acquire e (Some s) operationID st = take_over e s operationID ?now r ?st2"
    using assms(4) ex found
    by (simp add: Acquire_def time_Now_def db_call_answered [OF ok] CreateProcessing_def lock_record_def
        GetByScopeAndKeyHash_def numeral_eq_Suc)
  note this [unfolded over]
  then show ?thesis using upd(4) row1 \<open>ir_ID r \<noteq> 0\<close> by (auto simp: new_lock_def)
qed

text \<open>C23: The lease of a second operation is never renewed. The record of the lock survives a release,
  and taking it over leaves the fingerprint of the operation that created it, which the renewal
  compares with the id of the operation that holds the lock. So when an operation with another id
  has acquired the lock, the first tick of its renewal stops the renewal for good, and as soon as
  the lease is over a third operation acquires the lock while the second one still runs.\<close>
theorem second_operation_not_renewed:
  assumes "\<forall>n. ie_Fault e n = Answered" and "idem_wf (is_db st)"
    and "row_of (is_db st) lock_key = Some r" and "ir_Fingerprint r \<noteq> op2" and "op2 \<noteq> []" and "op3 \<noteq> []"
    and "case ir_LockedUntil r of None \<Rightarrow> True | Some l \<Rightarrow> l \<le> ie_Clock e (is_tick st)"
    and "Acquire e (Some s) op2 st = (Inr lock2, st1)"
    and "renew_tick e s lock2 st1 = (goes_on, st2)"
    and "ie_Clock e (is_tick st) + ss_lease s \<le> ie_Clock e (is_tick st2)"
  shows "\<not> sl_stopped lock2 \<and> \<not> goes_on
    \<and> (\<exists>lock3. fst (Acquire e (Some s) op3 st2) = Inr lock3 \<and> sl_operationID lock3 = op3)"
proof -
  from acquire_takes_over [OF assms(1-3,5,7), of s] assms(8) obtain r1 where
    lock2: "lock2 = \<lparr>sl_recordID = ir_ID r, sl_operationID = op2, sl_stopped = False\<rparr>"
    and wf1: "idem_wf (is_db st1)" and r1: "row_of (is_db st1) lock_key = Some r1" "ir_ID r1 = ir_ID r"
      "ir_Fingerprint r1 = ir_Fingerprint r"
      "ir_LockedUntil r1 = Some (ie_Clock e (is_tick st) + ss_lease s)" by auto
  obtain b db2 where ext: "(b, db2) = ExtendProcessingLock (ir_ID r) op2
      (ie_Clock e (is_tick st1) + ss_lease s) (ie_Clock e (is_tick st1) + ss_ttl s)
      (ie_Clock e (Suc (is_tick st1))) (is_db st1)" by (metis surj_pair)
  have upd: "\<not> b" "row_of db2 lock_key = Some r1" "idem_wf db2"
    using update_row [OF wf1 r1(1,2) _ ext [unfolded ExtendProcessingLock_def]] r1(3) assms(4)
    by (simp_all add: keeps_key_def)
  have st2: "is_db st2 = db2" and "\<not> goes_on"
    using assms(9) upd(1)
    by (auto simp: renew_tick_def lock2 time_Now_def db_call_answered [OF assms(1)] simp flip: ext)
  moreover have "\<exists>lock3. fst (Acquire e (Some s) op3 st2) = Inr lock3 \<and> sl_operationID lock3 = op3"
    using acquire_takes_over [OF assms(1), of st2 r1 op3 s] upd r1(4) assms(6,10) st2 by auto
  ultimately show ?thesis using lock2 by simp
qed

text \<open>An instance: the lock released by operation A, one hour after it was created.\<close>

definition lock_service :: system_lock_service where
  "lock_service = NewSystemOperationLockService DefaultIdempotencyConfig"

lemma lease: "ss_lease lock_service = 30 * second"
  by (simp add: lock_service_def NewSystemOperationLockService_def DefaultIdempotencyConfig_def duration_defs Let_def)

definition released_row :: idem_record where
  "released_row = (lock_record lock_service ''A'' 0)\<lparr>ir_ID := 1, ir_Status := IdempotencyStatusSucceeded,
     ir_LockedUntil := None\<rparr>"

definition lock_state :: "nat idem_state" where
  "lock_state = demo_start\<lparr>is_db := \<lparr>idb_rows = [released_row], idb_next = 2\<rparr>\<rparr>"

theorem second_operation_not_renewed_witness:
  "\<exists>lock2 lock3 (st1 :: nat idem_state) (st2 :: nat idem_state). Acquire (demo_env (\<lambda>n. int n * 30 * second) 100) (Some lock_service) ''B'' lock_state
       = (Inr lock2, st1)
     \<and> fst (Acquire (demo_env (\<lambda>n. int n * 30 * second) 100) (Some lock_service) ''C'' st2) = Inr lock3"
proof -
  let ?e = "demo_env (\<lambda>n. int n * 30 * second) 100"
  have ok: "\<forall>n. ie_Fault ?e n = Answered" by simp
  have wf: "idem_wf (is_db lock_state)"
    by (simp add: lock_state_def idem_wf_def released_row_def)
  have row: "row_of (is_db lock_state) lock_key = Some released_row"
    by (simp add: row_of_def lock_state_def released_row_def has_key_def lock_record_def)
  obtain lock2 st1 where a: "Acquire ?e (Some lock_service) ''B'' lock_state = (Inr lock2, st1)"
    and t1: "is_tick st1 = is_tick lock_state + 4"
    using acquire_takes_over [OF ok wf row, of "''B''" lock_service] by (auto simp: released_row_def)
  obtain g st2 where t: "renew_tick ?e lock_service lock2 st1 = (g, st2)" by fastforce
  have tick: "4 \<le> is_tick st2"
    using t t1 by (auto simp: renew_tick_def time_Now_def db_call_answered [OF ok] split: if_splits)
  have "\<exists>lock3. fst (Acquire ?e (Some lock_service) ''C'' st2) = Inr lock3"
    using second_operation_not_renewed [OF ok wf row _ _ _ _ a t, of "''C''"] tick
    by (auto simp: released_row_def lock_record_def lock_state_def demo_start_def lease second_def)
  then show ?thesis using a by blast
qed

end
