(* ===== verification/PayTypes.thy ===== *)
theory PayTypes
  imports SubscriptionService DbFault GoStrings
begin

text \<open>
  The vocabulary of payments: payment types, statuses and currencies (\<open>payment/types.go\<close>,
  \<open>payment/currency.go\<close>), the columns of an order and of a provider instance
  (\<open>ent/schema/payment_order.go\<close>, \<open>ent/schema/payment_provider_instance.go\<close>) and of a plan, the provider
  snapshot of an order and its comparison with the metadata of a notification
  (\<open>service/payment_order_provider_snapshot.go\<close>), and which paid amount is accepted
  (\<open>service/payment_fulfillment.go\<close>).
\<close>

section \<open>Payment types and statuses\<close>

abbreviation TypeAlipay :: string where "TypeAlipay \<equiv> ''alipay''"
abbreviation TypeWxpay :: string where "TypeWxpay \<equiv> ''wxpay''"
abbreviation TypeAlipayDirect :: string where "TypeAlipayDirect \<equiv> ''alipay_direct''"
abbreviation TypeWxpayDirect :: string where "TypeWxpayDirect \<equiv> ''wxpay_direct''"
abbreviation TypeStripe :: string where "TypeStripe \<equiv> ''stripe''"
abbreviation TypeCard :: string where "TypeCard \<equiv> ''card''"
abbreviation TypeLink :: string where "TypeLink \<equiv> ''link''"
abbreviation TypeEasyPay :: string where "TypeEasyPay \<equiv> ''easypay''"
abbreviation TypeAirwallex :: string where "TypeAirwallex \<equiv> ''airwallex''"
abbreviation TypeUSDT :: string where "TypeUSDT \<equiv> ''usdt''"
abbreviation TypeInfini :: string where "TypeInfini \<equiv> ''infini''"

abbreviation OrderStatusPending :: string where "OrderStatusPending \<equiv> ''PENDING''"
abbreviation OrderStatusPaid :: string where "OrderStatusPaid \<equiv> ''PAID''"
abbreviation OrderStatusRecharging :: string where "OrderStatusRecharging \<equiv> ''RECHARGING''"
abbreviation OrderStatusCompleted :: string where "OrderStatusCompleted \<equiv> ''COMPLETED''"
abbreviation OrderStatusExpired :: string where "OrderStatusExpired \<equiv> ''EXPIRED''"
abbreviation OrderStatusCancelled :: string where "OrderStatusCancelled \<equiv> ''CANCELLED''"
abbreviation OrderStatusFailed :: string where "OrderStatusFailed \<equiv> ''FAILED''"
abbreviation OrderStatusRefundRequested :: string where "OrderStatusRefundRequested \<equiv> ''REFUND_REQUESTED''"
abbreviation OrderStatusRefunding :: string where "OrderStatusRefunding \<equiv> ''REFUNDING''"
abbreviation OrderStatusPartiallyRefunded :: string where "OrderStatusPartiallyRefunded \<equiv> ''PARTIALLY_REFUNDED''"
abbreviation OrderStatusRefunded :: string where "OrderStatusRefunded \<equiv> ''REFUNDED''"
abbreviation OrderStatusRefundFailed :: string where "OrderStatusRefundFailed \<equiv> ''REFUND_FAILED''"

abbreviation OrderTypeBalance :: string where "OrderTypeBalance \<equiv> ''balance''"
abbreviation OrderTypeSubscription :: string where "OrderTypeSubscription \<equiv> ''subscription''"

abbreviation DeductionTypeBalance :: string where "DeductionTypeBalance \<equiv> ''balance''"
abbreviation DeductionTypeSubscription :: string where "DeductionTypeSubscription \<equiv> ''subscription''"
abbreviation DeductionTypeNone :: string where "DeductionTypeNone \<equiv> ''none''"

definition GetBasePaymentType :: "string \<Rightarrow> string" where
  "GetBasePaymentType t =
     (if t = TypeEasyPay then TypeEasyPay
      else if t = TypeInfini \<or> t = TypeUSDT then TypeUSDT
      else if t = TypeAirwallex then TypeAirwallex
      else if t = TypeStripe \<or> t = TypeCard \<or> t = TypeLink then TypeStripe
      else if length TypeAlipay \<le> length t \<and> take (length TypeAlipay) t = TypeAlipay then TypeAlipay
      else if length TypeWxpay \<le> length t \<and> take (length TypeWxpay) t = TypeWxpay then TypeWxpay
      else t)"

definition psIsRefundStatus :: "string \<Rightarrow> bool" where
  "psIsRefundStatus s \<longleftrightarrow>
     s \<in> {OrderStatusRefundRequested, OrderStatusRefunding, OrderStatusPartiallyRefunded,
          OrderStatusRefunded, OrderStatusRefundFailed}"

definition normalizeVisibleMethodSupportType :: "string \<Rightarrow> string" where
  "normalizeVisibleMethodSupportType paymentType =
     (let t = trim_space paymentType in
      if t = TypeAlipay \<or> t = TypeAlipayDirect then TypeAlipay
      else if t = TypeWxpay \<or> t = TypeWxpayDirect then TypeWxpay
      else t)"

definition InstanceSupportsType :: "string \<Rightarrow> string \<Rightarrow> bool" where
  "InstanceSupportsType supportedTypes target =
     (if supportedTypes = [] then True
      else (let normalizedTarget = normalizeVisibleMethodSupportType target in
            list_ex (\<lambda>t. let supported = trim_space t in
                       supported = target \<or> normalizeVisibleMethodSupportType supported = normalizedTarget)
              (split_char CHR '','' supportedTypes)))"

section \<open>Currencies\<close>

abbreviation DefaultPaymentCurrency :: string where "DefaultPaymentCurrency \<equiv> ''CNY''"

text \<open>The minor unit of the providers' interfaces and the digits an amount may have.\<close>

definition paymentCurrencyAmountUnits :: "(string \<times> int \<times> int) list" where
  "paymentCurrencyAmountUnits =
     map (\<lambda>c. (c, 0, 0))
       [''BIF'', ''CLP'', ''DJF'', ''GNF'', ''JPY'', ''KMF'', ''KRW'', ''MGA'', ''PYG'', ''RWF'',
        ''VND'', ''VUV'', ''XAF'', ''XOF'', ''XPF'']
     @ [(''ISK'', 2, 0), (''UGX'', 2, 0)]
     @ map (\<lambda>c. (c, 3, 3)) [''BHD'', ''IQD'', ''JOD'', ''KWD'', ''LYD'', ''OMR'', ''TND'']
     @ [(''USDT'', 4, 4)]"

text \<open>A currency code is not looked at rune by rune when its length is not 3 bytes, and a
  rune beyond ASCII is not between \<open>A\<close> and \<open>Z\<close>.\<close>

definition NormalizePaymentCurrency :: "string \<Rightarrow> go_error + string" where
  "NormalizePaymentCurrency raw =
     (let currency = to_upper (trim_space raw) in
      if currency = [] then Inr DefaultPaymentCurrency
      else if currency = ''USDT'' then Inr currency
      else if length currency \<noteq> 3
              \<or> list_ex (\<lambda>c. (of_char c :: nat) < 65 \<or> 90 < (of_char c :: nat)) currency
      then Inl (PlainError ''payment currency must be a 3-letter ISO currency code'' None)
      else Inr currency)"

definition paymentCurrencyAmountUnitFor :: "string \<Rightarrow> int \<times> int" where
  "paymentCurrencyAmountUnitFor currency =
     (case NormalizePaymentCurrency currency of
        Inl _ \<Rightarrow> (2, 2)
      | Inr normalized \<Rightarrow> opt_default (2, 2) (map_of paymentCurrencyAmountUnits normalized))"

definition CurrencyMinorUnit :: "string \<Rightarrow> int" where
  "CurrencyMinorUnit currency = fst (paymentCurrencyAmountUnitFor currency)"

definition CurrencyMaxFractionDigits :: "string \<Rightarrow> int" where
  "CurrencyMaxFractionDigits currency = snd (paymentCurrencyAmountUnitFor currency)"

definition paymentProviderConfigCurrency :: "string \<Rightarrow> string gomap option \<Rightarrow> string" where
  "paymentProviderConfigCurrency providerKey cfg =
     (if trim_space providerKey \<in> {TypeStripe, TypeAirwallex, TypeInfini}
      then (case NormalizePaymentCurrency (opt_default [] (mlookup cfg ''currency'')) of
              Inr currency \<Rightarrow> currency
            | Inl _ \<Rightarrow> DefaultPaymentCurrency)
      else DefaultPaymentCurrency)"

section \<open>Orders and provider instances\<close>

record pay_order =
  po_ID :: int
  po_UserID :: int
  po_UserEmail :: string
  po_UserName :: string
  po_UserNotes :: "string option"
  po_Amount :: float64
  po_PayAmount :: float64
  po_FeeRate :: float64
  po_RechargeCode :: string
  po_OutTradeNo :: string
  po_PaymentType :: string
  po_PaymentTradeNo :: string
  po_PayURL :: "string option"
  po_QrCode :: "string option"
  po_OrderType :: string
  po_PlanID :: "int option"
  po_SubscriptionGroupID :: "int option"
  po_SubscriptionDays :: "int option"
  po_ProviderInstanceID :: "string option"
  po_ProviderKey :: "string option"
  po_ProviderSnapshot :: gobj
  po_Status :: string
  po_RefundAmount :: float64
  po_RefundReason :: "string option"
  po_RefundAt :: "gtime option"
  po_ForceRefund :: bool
  po_RefundRequestedAt :: "gtime option"
  po_RefundRequestReason :: "string option"
  po_RefundRequestedBy :: "string option"
  po_ExpiresAt :: gtime
  po_PaidAt :: "gtime option"
  po_CompletedAt :: "gtime option"
  po_FailedAt :: "gtime option"
  po_FailedReason :: "string option"
  po_ClientIP :: string
  po_SrcHost :: string
  po_SrcURL :: "string option"
  po_CreatedAt :: gtime
  po_UpdatedAt :: gtime

record pay_instance =
  pi_ID :: int
  pi_ProviderKey :: string
  pi_SupportedTypes :: string
  pi_Enabled :: bool
  pi_PaymentMode :: string
  pi_RefundEnabled :: bool
  pi_AllowUserRefund :: bool
  pi_Config :: string
  pi_Limits :: string
  pi_SortOrder :: int

record pay_plan =
  pn_ID :: int
  pn_GroupID :: int
  pn_Name :: string
  pn_Description :: string
  pn_Price :: float64
  pn_OriginalPrice :: "float64 option"
  pn_LimitedOfferPrice :: "float64 option"
  pn_LimitedOfferExpiresAt :: "gtime option"
  pn_ValidityDays :: int
  pn_ValidityUnit :: string
  pn_Features :: string
  pn_ProductName :: string
  pn_ForSale :: bool
  pn_SortOrder :: int

definition psStringValue :: "string option \<Rightarrow> string" where
  "psStringValue value = opt_default [] value"

definition psNilIfEmpty :: "string \<Rightarrow> string option" where
  "psNilIfEmpty s = (if s = [] then None else Some s)"

section \<open>The provider snapshot of an order\<close>

record provider_snapshot =
  ps_SchemaVersion :: int
  ps_ProviderInstanceID :: string
  ps_ProviderKey :: string
  ps_PaymentMode :: string
  ps_MerchantAppID :: string
  ps_MerchantID :: string
  ps_Currency :: string

definition psSnapshotStringValue :: "goval \<Rightarrow> string" where
  "psSnapshotStringValue value = (case value of GStr s \<Rightarrow> trim_space s | _ \<Rightarrow> [])"

definition psSnapshotIntValue :: "goval \<Rightarrow> int" where
  "psSnapshotIntValue value =
     (case value of
        GInt n \<Rightarrow> n
      | GInt64 n \<Rightarrow> n
      | GF32 x \<Rightarrow> f_to_int x
      | GF64 x \<Rightarrow> f_to_int x
      | GStr s \<Rightarrow> opt_default 0 (parse_int64 (trim_space s))
      | _ \<Rightarrow> 0)"

definition psOrderProviderSnapshot :: "pay_order \<Rightarrow> provider_snapshot option" where
  "psOrderProviderSnapshot order =
     (let m = po_ProviderSnapshot order;
          str = (\<lambda>k. psSnapshotStringValue (mget m k));
          snapshot = \<lparr>ps_SchemaVersion = psSnapshotIntValue (mget m ''schema_version''),
                      ps_ProviderInstanceID = str ''provider_instance_id'', ps_ProviderKey = str ''provider_key'',
                      ps_PaymentMode = str ''payment_mode'', ps_MerchantAppID = str ''merchant_app_id'',
                      ps_MerchantID = str ''merchant_id'', ps_Currency = str ''currency''\<rparr>
      in if mlen m = 0 then None
         else if ps_SchemaVersion snapshot = 0 \<and> ps_ProviderInstanceID snapshot = [] \<and> ps_ProviderKey snapshot = []
                 \<and> ps_PaymentMode snapshot = [] \<and> ps_MerchantAppID snapshot = [] \<and> ps_MerchantID snapshot = []
                 \<and> ps_Currency snapshot = []
         then None
         else Some snapshot)"

definition PaymentOrderCurrency :: "pay_order \<Rightarrow> string" where
  "PaymentOrderCurrency order =
     (case psOrderProviderSnapshot order of
        None \<Rightarrow> DefaultPaymentCurrency
      | Some snapshot \<Rightarrow>
          (case NormalizePaymentCurrency (ps_Currency snapshot) of
             Inr currency \<Rightarrow> currency
           | Inl _ \<Rightarrow> DefaultPaymentCurrency))"

text \<open>One comparison of \<open>validateProviderSnapshotMetadata\<close>: nothing when nothing is expected.\<close>

definition check_field :: "string \<Rightarrow> string \<Rightarrow> string \<Rightarrow> string \<Rightarrow> go_error option" where
  "check_field missing differs expected0 actual =
     (let expected = trim_space expected0 in
      if expected = [] then None
      else if actual = [] then Some (PlainError missing None)
      else if \<not> equal_fold expected actual
      then Some (PlainError (differs @ '' mismatch: expected '' @ expected @ '', got '' @ actual) None)
      else None)"

definition first_error :: "go_error option list \<Rightarrow> go_error option" where
  "first_error es = (case find (\<lambda>e. e \<noteq> None) es of None \<Rightarrow> None | Some e \<Rightarrow> e)"

definition meta :: "string gomap option \<Rightarrow> string \<Rightarrow> string" where
  "meta metadata k = trim_space (opt_default [] (mlookup metadata k))"

definition check_state :: "string \<Rightarrow> string \<Rightarrow> string \<Rightarrow> go_error option" where
  "check_state what expected actual =
     (if actual \<noteq> [] \<and> \<not> equal_fold actual expected
      then Some (PlainError (what @ '' mismatch: expected '' @ expected @ '', got '' @ actual) None)
      else None)"

definition validateProviderSnapshotMetadata ::
    "pay_order \<Rightarrow> string \<Rightarrow> string gomap option \<Rightarrow> go_error option" where
  "validateProviderSnapshotMetadata order providerKey metadata =
     (if mlen metadata = 0 then None
      else (case psOrderProviderSnapshot order of
        None \<Rightarrow> None
      | Some s \<Rightarrow>
          (let key = trim_space providerKey in
           if key = TypeWxpay then first_error
             [check_field ''wxpay notification missing appid'' ''wxpay appid'' (ps_MerchantAppID s) (meta metadata ''appid''),
              check_field ''wxpay notification missing mchid'' ''wxpay mchid'' (ps_MerchantID s) (meta metadata ''mchid''),
              check_field ''wxpay notification missing currency'' ''wxpay currency'' (ps_Currency s)
                (to_upper (meta metadata ''currency'')),
              check_state ''wxpay trade_state'' ''SUCCESS'' (meta metadata ''trade_state'')]
           else if key = TypeAlipay then
             check_field ''alipay app_id missing'' ''alipay app_id'' (ps_MerchantAppID s) (meta metadata ''app_id'')
           else if key = TypeEasyPay then
             check_field ''easypay pid missing'' ''easypay pid'' (ps_MerchantID s) (meta metadata ''pid'')
           else if key = TypeStripe then
             check_field ''stripe notification missing currency'' ''stripe currency'' (ps_Currency s)
               (to_upper (meta metadata ''currency''))
           else if key = TypeAirwallex then first_error
             [check_field ''airwallex account_id missing'' ''airwallex account_id'' (ps_MerchantID s)
                (meta metadata ''account_id''),
              check_field ''airwallex notification missing currency'' ''airwallex currency'' (ps_Currency s)
                (to_upper (meta metadata ''currency'')),
              check_state ''airwallex status'' ''SUCCEEDED'' (meta metadata ''status'')]
           else None)))"

section \<open>The provider key of a notification\<close>

text \<open>\<open>registered t\<close> is \<open>Registry.GetProviderKey\<close>: the key of the provider registered for a type,
  or the empty string.\<close>

definition expectedNotificationProviderKey :: "(string \<Rightarrow> string) \<Rightarrow> string \<Rightarrow> string \<Rightarrow> string \<Rightarrow> string" where
  "expectedNotificationProviderKey registered orderPaymentType orderProviderKey instanceProviderKey =
     (if trim_space instanceProviderKey \<noteq> [] then trim_space instanceProviderKey
      else if trim_space orderProviderKey \<noteq> [] then trim_space orderProviderKey
      else if trim_space (registered orderPaymentType) \<noteq> [] then trim_space (registered orderPaymentType)
      else trim_space orderPaymentType)"

definition expectedNotificationProviderKeyForOrder ::
    "(string \<Rightarrow> string) \<Rightarrow> pay_order \<Rightarrow> string \<Rightarrow> string" where
  "expectedNotificationProviderKeyForOrder registered order instanceProviderKey =
     (let orderProviderKey =
            (case psOrderProviderSnapshot order of
               Some snapshot \<Rightarrow> if ps_ProviderKey snapshot \<noteq> [] then ps_ProviderKey snapshot
                                else psStringValue (po_ProviderKey order)
             | None \<Rightarrow> psStringValue (po_ProviderKey order))
      in expectedNotificationProviderKey registered (po_PaymentType order) orderProviderKey instanceProviderKey)"

section \<open>Accepted amounts\<close>

definition amountToleranceCNY :: float64 where
  "amountToleranceCNY = f_dec 1 2"

definition paymentAmountToleranceForCurrency :: "string \<Rightarrow> float64" where
  "paymentAmountToleranceForCurrency currency =
     (let minorUnit = CurrencyMinorUnit currency in
      if minorUnit \<le> 2 then amountToleranceCNY else f_div (f_dec 1 (nat minorUnit)) (f_of_int 2))"

definition isValidProviderAmount :: "float64 \<Rightarrow> bool" where
  "isValidProviderAmount amount \<longleftrightarrow> f_lt f_zero amount \<and> \<not> f_is_nan amount \<and> \<not> f_is_inf amount"

definition matchesLegacyRoundedStablecoinAmount :: "float64 \<Rightarrow> float64 \<Rightarrow> bool" where
  "matchesLegacyRoundedStablecoinAmount expected paid \<longleftrightarrow>
     f_le (f_abs (f_sub (f_div (f_round (f_mul paid (f_of_int 100))) (f_of_int 100)) expected)) (f_dec 1 9)"

definition isStablecoinPaymentOrder :: "pay_order \<Rightarrow> string \<Rightarrow> bool" where
  "isStablecoinPaymentOrder order providerKey \<longleftrightarrow>
     equal_fold (trim_space providerKey) TypeInfini
     \<or> equal_fold (PaymentOrderCurrency order) TypeUSDT
     \<or> equal_fold (GetBasePaymentType (po_PaymentType order)) TypeUSDT
     \<or> (case po_ProviderKey order of None \<Rightarrow> False | Some k \<Rightarrow> equal_fold (GetBasePaymentType k) TypeInfini)"

definition stablecoinUnderpayTolerance :: float64 where
  "stablecoinUnderpayTolerance = paymentAmountToleranceForCurrency TypeUSDT"

definition stablecoinOverpayTolerance :: "float64 \<Rightarrow> float64" where
  "stablecoinOverpayTolerance expected =
     (let byPercent = f_mul (f_abs expected) (f_dec 5 2) in
      if f_lt byPercent (f_dec 1 2) then f_dec 1 2
      else if f_lt f_one byPercent then f_one
      else byPercent)"

definition isProviderPaidAmountAcceptable :: "pay_order \<Rightarrow> float64 \<Rightarrow> string \<Rightarrow> bool" where
  "isProviderPaidAmountAcceptable order paid providerKey =
     (let expected = po_PayAmount order;
          tolerance = paymentAmountToleranceForCurrency (PaymentOrderCurrency order)
      in if f_le (f_abs (f_sub paid expected)) tolerance then True
         else if \<not> isStablecoinPaymentOrder order providerKey then False
         else if f_lt (f_add paid stablecoinUnderpayTolerance) expected
         then matchesLegacyRoundedStablecoinAmount expected paid
         else f_le (f_sub paid expected) (stablecoinOverpayTolerance expected))"

definition paymentOrderIsUSDT :: "pay_order \<Rightarrow> bool" where
  "paymentOrderIsUSDT o' \<longleftrightarrow>
     GetBasePaymentType (po_PaymentType o') = TypeUSDT
     \<or> (case po_ProviderKey o' of None \<Rightarrow> False | Some k \<Rightarrow> GetBasePaymentType k = TypeUSDT)
     \<or> PaymentOrderCurrency o' = TypeUSDT"

definition paymentOrderDisplayCurrency :: "pay_order \<Rightarrow> string" where
  "paymentOrderDisplayCurrency o' = (if paymentOrderIsUSDT o' then ''USD'' else DefaultPaymentCurrency)"

definition paymentOrderIsRMB :: "pay_order \<Rightarrow> bool" where
  "paymentOrderIsRMB o' \<longleftrightarrow>
     GetBasePaymentType (po_PaymentType o') \<in> {TypeAlipay, TypeWxpay}
     \<or> (case po_ProviderKey o' of None \<Rightarrow> False | Some k \<Rightarrow> GetBasePaymentType k \<in> {TypeAlipay, TypeWxpay})
     \<or> PaymentOrderCurrency o' = DefaultPaymentCurrency"

end
