(* ===== verification/Interleave.thy ===== *)
theory Interleave
  imports Main
begin

text \<open>
  Programs that run side by side on one state. A handler of the gateway is a sequence of
  statements on the database, between which other handlers run: \<open>Ret a\<close> has ended with \<open>a\<close>, and
  \<open>Step g\<close> makes one atomic step, whose effect and continuation depend on what the world answers
  (\<open>'w\<close>: the clock, failures, the answers of other services) and on the state it finds.
  Every program is a finite tree on each path, so every handler ends.
\<close>

section \<open>Programs\<close>

datatype ('w, 's, 'a) prog =
    Ret 'a
  | Step "'w \<Rightarrow> 's \<Rightarrow> 's \<times> ('w, 's, 'a) prog"

primrec bind :: "('w, 's, 'a) prog \<Rightarrow> ('a \<Rightarrow> ('w, 's, 'b) prog) \<Rightarrow> ('w, 's, 'b) prog" where
  "bind (Ret a) f = f a"
| "bind (Step g) f = Step (\<lambda>w s. map_prod id (\<lambda>p. bind p f) (g w s))"

definition atomic :: "('w \<Rightarrow> 's \<Rightarrow> 'a \<times> 's) \<Rightarrow> ('w, 's, 'a) prog" where
  "atomic f = Step (\<lambda>w s. (snd (f w s), Ret (fst (f w s))))"

text \<open>A loop over a list.\<close>

primrec for_each :: "'b list \<Rightarrow> 'a \<Rightarrow> ('b \<Rightarrow> 'a \<Rightarrow> ('w, 's, 'a) prog) \<Rightarrow> ('w, 's, 'a) prog" where
  "for_each [] acc body = Ret acc"
| "for_each (x # xs) acc body = bind (body x acc) (\<lambda>acc'. for_each xs acc' body)"

lemma prog_induct [case_names Ret Step, induct type: prog]:
  assumes "\<And>a. P (Ret a)" and "\<And>g. (\<And>w s. P (snd (g w s))) \<Longrightarrow> P (Step g)"
  shows "P p"
proof (induction p rule: prog.induct)
  case (Step g)
  show ?case
  proof (rule assms(2))
    fix w s
    show "P (snd (g w s))" using Step [of "g w" "g w s" "snd (g w s)"] by (simp add: snds.simps)
  qed
qed (rule assms(1))

lemma bind_Step: "bind (Step g) f = Step (\<lambda>w s. (fst (g w s), bind (snd (g w s)) f))"
  by (simp add: map_prod_def case_prod_beta)

declare bind.simps(2) [simp del] and bind_Step [simp]

lemma bind_Ret [simp]: "bind p Ret = p"
  by (induction p) simp_all

lemma bind_assoc: "bind (bind p f) g = bind p (\<lambda>x. bind (f x) g)"
  by (induction p) simp_all

section \<open>Running alone\<close>

primrec run :: "(nat \<Rightarrow> 'w) \<Rightarrow> ('w, 's, 'a) prog \<Rightarrow> nat \<Rightarrow> 's \<Rightarrow> 'a \<times> 's \<times> nat" where
  "run ws (Ret a) = (\<lambda>k s. (a, s, k))"
| "run ws (Step g) = (\<lambda>k s. (case map_prod id (run ws) (g (ws k) s) of (s', r) \<Rightarrow> r (Suc k) s'))"

lemma run_Step: "run ws (Step g) k s = run ws (snd (g (ws k) s)) (Suc k) (fst (g (ws k) s))"
  by (simp add: case_prod_beta)

declare run.simps(2) [simp del] and run_Step [simp]

lemma run_bind:
  "run ws (bind p f) k s = (case run ws p k s of (a, s', k') \<Rightarrow> run ws (f a) k' s')"
  by (induction p arbitrary: k s) simp_all

lemma run_atomic: "run ws (atomic f) k s = (fst (f (ws k) s), snd (f (ws k) s), Suc k)"
  by (simp add: atomic_def)

text \<open>\<open>always W p s Q\<close>: run alone from \<open>s\<close>, in worlds that all satisfy \<open>W\<close>, the program ends with \<open>Q\<close>.\<close>

definition always :: "('w \<Rightarrow> bool) \<Rightarrow> ('w, 's, 'a) prog \<Rightarrow> 's \<Rightarrow> ('a \<Rightarrow> 's \<Rightarrow> bool) \<Rightarrow> bool" where
  "always W p s Q \<longleftrightarrow>
     (\<forall>ws k. (\<forall>i. W (ws i)) \<longrightarrow> Q (fst (run ws p k s)) (fst (snd (run ws p k s))))"

lemma always_Ret: "Q a s \<Longrightarrow> always W (Ret a) s Q"
  by (simp add: always_def)

lemma always_bind:
  "always W p s P \<Longrightarrow> (\<And>a t. P a t \<Longrightarrow> always W (f a) t Q) \<Longrightarrow> always W (bind p f) s Q"
  unfolding always_def run_bind by (simp add: split_def)

lemma always_atomic: "(\<And>w. W w \<Longrightarrow> Q (fst (f w s)) (snd (f w s))) \<Longrightarrow> always W (atomic f) s Q"
  by (simp add: always_def run_atomic)

lemma always_weaken: "always W p s P \<Longrightarrow> (\<And>a t. P a t \<Longrightarrow> Q a t) \<Longrightarrow> always W p s Q"
  by (simp add: always_def)

section \<open>Running together\<close>

inductive sys_step :: "'s \<times> ('w, 's, 'a) prog list \<Rightarrow> 's \<times> ('w, 's, 'a) prog list \<Rightarrow> bool" where
  sys_step: "i < length ps \<Longrightarrow> ps ! i = Step g \<Longrightarrow> g w s = (s', p') \<Longrightarrow> sys_step (s, ps) (s', ps[i := p'])"

text \<open>A program that runs alone is a special case.\<close>

lemma run_reach:
  "sys_step\<^sup>*\<^sup>* (s, [p]) (fst (snd (run ws p k s)), [Ret (fst (run ws p k s))])"
proof (induction p arbitrary: k s)
  case (Step g)
  have "sys_step (s, [Step g]) (fst (g (ws k) s), [Step g][0 := snd (g (ws k) s)])"
    by (rule sys_step.intros) (auto simp: prod_eq_iff)
  then have first: "sys_step (s, [Step g]) (fst (g (ws k) s), [snd (g (ws k) s)])" by simp
  show ?case unfolding run_Step by (rule converse_rtranclp_into_rtranclp [of sys_step]) (rule first, rule Step)
qed simp

inductive_cases sys_stepE: "sys_step (s, ps) (s', ps')"

section \<open>Protocols\<close>

text \<open>\<open>safe G Q p s\<close>: from the state \<open>s\<close>, and whatever the others do within the protocol \<open>G\<close>, each
  step of \<open>p\<close> is within \<open>G\<close> and \<open>Q\<close> holds of its result from then on.\<close>

primrec safe :: "('s \<Rightarrow> 's \<Rightarrow> bool) \<Rightarrow> ('a \<Rightarrow> 's \<Rightarrow> bool) \<Rightarrow> ('w, 's, 'a) prog \<Rightarrow> 's \<Rightarrow> bool" where
  "safe G Q (Ret a) = (\<lambda>s. \<forall>s'. G s s' \<longrightarrow> Q a s')"
| "safe G Q (Step g) =
     (\<lambda>s. \<forall>w s'. G s s' \<longrightarrow> (case map_prod id (safe G Q) (g w s') of (t, ok) \<Rightarrow> G s' t \<and> ok t))"

lemma safe_Step:
  "safe G Q (Step g) s \<longleftrightarrow> (\<forall>w s'. G s s' \<longrightarrow> G s' (fst (g w s')) \<and> safe G Q (snd (g w s')) (fst (g w s')))"
  by (simp add: prod.case_eq_if)

declare safe.simps(2) [simp del]

locale protocol =
  fixes G :: "'s \<Rightarrow> 's \<Rightarrow> bool"
  assumes refl: "G s s"
    and trans: "G s t \<Longrightarrow> G t u \<Longrightarrow> G s u"
begin

lemma safe_later: "safe G Q p s \<Longrightarrow> G s s' \<Longrightarrow> safe G Q p s'"
  by (cases p) (auto simp: safe_Step intro: trans)

lemma safe_bind:
  "safe G P p s \<Longrightarrow> (\<forall>a s'. G s s' \<longrightarrow> (\<forall>s''. G s' s'' \<longrightarrow> P a s'') \<longrightarrow> safe G Q (f a) s') \<Longrightarrow> safe G Q (bind p f) s"
proof (induction p arbitrary: s)
  case (Ret a)
  then show ?case using refl by simp
next
  case (Step g)
  show ?case
  proof (unfold bind_Step safe_Step, intro allI impI conjI)
    fix w s' assume s': "G s s'"
    then have step: "G s' (fst (g w s'))" "safe G P (snd (g w s')) (fst (g w s'))"
      using Step.prems(1) by (auto simp: safe_Step)
    then show "G s' (fst (fst (g w s'), bind (snd (g w s')) f))" by simp
    have "safe G Q (bind (snd (g w s')) f) (fst (g w s'))"
      using trans [OF trans [OF s' step(1)]] Step.prems(2) by (intro Step.IH step(2)) blast
    then show "safe G Q (snd (fst (g w s'), bind (snd (g w s')) f)) (fst (fst (g w s'), bind (snd (g w s')) f))"
      by simp
  qed
qed

lemma safe_weaken: "safe G P p s \<Longrightarrow> (\<forall>a s'. G s s' \<longrightarrow> P a s' \<longrightarrow> Q a s') \<Longrightarrow> safe G Q p s"
proof (induction p arbitrary: s)
  case (Step g)
  show ?case
  proof (unfold safe_Step, intro allI impI conjI)
    fix w s' assume s': "G s s'"
    then show step: "G s' (fst (g w s'))" using Step.prems(1) by (auto simp: safe_Step)
    show "safe G Q (snd (g w s')) (fst (g w s'))"
      using Step.prems s' trans [OF trans [OF s' step]] by (intro Step.IH) (auto simp: safe_Step)
  qed
qed auto

lemma safe_atomic:
  "(\<forall>w s'. G s s' \<longrightarrow> G s' (snd (f w s'))) \<Longrightarrow>
   (\<forall>w s' s''. G s s' \<longrightarrow> G (snd (f w s')) s'' \<longrightarrow> Q (fst (f w s')) s'') \<Longrightarrow> safe G Q (atomic f) s"
  by (simp add: atomic_def safe_Step)

lemma safe_for_each:
  assumes "\<forall>x \<in> set xs. \<forall>acc s'. G s s' \<longrightarrow> safe G (\<lambda>_ _. True) (body x acc) s'"
  shows "safe G (\<lambda>_ _. True) (for_each xs acc body) s"
  using assms
proof (induction xs arbitrary: acc s)
  case (Cons x xs)
  have "safe G (\<lambda>_ _. True) (body x acc) s" using Cons.prems refl by auto
  moreover have "safe G (\<lambda>_ _. True) (for_each xs acc' body) s'" if "G s s'" for acc' s'
    using Cons.prems trans [OF that] by (intro Cons.IH) auto
  ultimately show ?case unfolding for_each.simps by (intro safe_bind [where P = "\<lambda>_ _. True"]) auto
qed simp

text \<open>A system of safe programs stays within the protocol.\<close>

definition all_safe :: "('w, 's, 'a) prog list \<Rightarrow> 's \<Rightarrow> bool" where
  "all_safe ps s \<longleftrightarrow> (\<forall>p \<in> set ps. safe G (\<lambda>_ _. True) p s)"

lemma step_protocol: "sys_step (s, ps) (s', ps') \<Longrightarrow> all_safe ps s \<Longrightarrow> G s s' \<and> all_safe ps' s'"
proof (erule sys_stepE)
  fix i g w p'
  assume a: "all_safe ps s" "i < length ps" "ps ! i = Step g" "g w s = (s', p')" "ps' = ps[i := p']"
  then have "safe G (\<lambda>_ _. True) (Step g) s" by (auto simp: all_safe_def dest: nth_mem)
  then have step: "G s s'" "safe G (\<lambda>_ _. True) p' s'" 
    using a(4) refl [of s] unfolding safe_Step by (metis fst_conv, metis fst_conv snd_conv)
  moreover have "\<forall>p \<in> set ps. safe G (\<lambda>_ _. True) p s'"
    using a(1) step(1) by (auto simp: all_safe_def intro: safe_later)
  ultimately show ?thesis using a(5) by (auto simp: all_safe_def dest!: set_update_subset_insert [THEN subsetD])
qed

lemma reach_protocol: "sys_step\<^sup>*\<^sup>* (s, ps) (s', ps') \<Longrightarrow> all_safe ps s \<Longrightarrow> G s s' \<and> all_safe ps' s'"
proof (induction "(s', ps')" arbitrary: s' ps' rule: rtranclp_induct)
  case (step y)
  then obtain t qs where "y = (t, qs)" by (cases y)
  with step show ?case using step_protocol trans by blast
qed (simp add: refl)

end

end
