(* ===== verification/PayStore.thy ===== *)
theory PayStore
  imports PayTypes Interleave
begin

text \<open>
  The state that payments share and the statements on it: orders, the audit log, redeem codes
  (\<open>repository/redeem_code_repo.go\<close>), the balances of users (\<open>repository/user_repo.go\<close>),
  subscriptions, provider instances, and the counters and locks of redeeming
  (\<open>repository/redeem_cache.go\<close>). Each statement is one atomic step and may fail; the programs
  that use them are those of \<open>Interleave\<close>.

  A balance is a NUMERIC column with eight decimals, held here as a number of units of the last
  decimal. How PostgreSQL adds a float to it (\<open>pe_plus\<close>) and how a float is read from it
  (\<open>pe_read\<close>) are parameters.
\<close>

section \<open>Tables\<close>

record redeem_row = redeem_code +
  rr_ID :: int
  rr_Code :: string
  rr_Type :: string
  rr_Value :: float64
  rr_UsedBy :: "int option"
  rr_UsedAt :: "gtime option"
  rr_Notes :: string
  rr_CreatedAt :: gtime
  rr_GroupID :: "int option"
  rr_ValidityDays :: int

record pay_user =
  pu_ID :: int
  pu_Email :: string
  pu_Username :: string
  pu_Notes :: string
  pu_Status :: string
  pu_Balance :: int
  pu_TotalRecharged :: int
  pu_Concurrency :: int

record audit_log =
  al_OrderID :: string
  al_Action :: string
  al_Operator :: string
  al_Detail :: "(string \<times> goval) list"
  al_CreatedAt :: gtime

text \<open>A provider is known by its key, the types it supports, the merchant identity it reports (if
  it reports one) and whether payments can be cancelled. The registry (\<open>payment/registry.go\<close>) has a
  provider for each payment type; it is not there before it is loaded.\<close>

record pay_provider =
  pv_Key :: string
  pv_SupportedTypes :: "string list"
  pv_Identity :: "string gomap option option"
  pv_Cancelable :: bool

definition registry_Register :: "pay_provider \<Rightarrow> (string \<times> pay_provider) list \<Rightarrow> (string \<times> pay_provider) list" where
  "registry_Register p r = foldl (\<lambda>r t. (t, p) # filter (\<lambda>e. fst e \<noteq> t) r) r (pv_SupportedTypes p)"

definition registry_GetProvider :: "(string \<times> pay_provider) list option \<Rightarrow> string \<Rightarrow> pay_provider option" where
  "registry_GetProvider r t = (case r of None \<Rightarrow> None | Some kv \<Rightarrow> map_of kv t)"

definition registry_GetProviderKey :: "(string \<times> pay_provider) list option \<Rightarrow> string \<Rightarrow> string" where
  "registry_GetProviderKey r t = (case registry_GetProvider r t of None \<Rightarrow> [] | Some p \<Rightarrow> pv_Key p)"

record pay_db =
  pd_orders :: "pay_order list"
  pd_nextOrder :: int
  pd_audits :: "audit_log list"
  pd_codes :: "redeem_row list"
  pd_nextCode :: int
  pd_users :: "pay_user list"
  pd_subs :: sub_db
  pd_instances :: "pay_instance list"
  pd_attempts :: "(int \<times> int \<times> gtime) list"
  pd_locks :: "(string \<times> gtime) list"
  pd_registry :: "(string \<times> pay_provider) list option"
  pd_settings :: "string gomap"
  pd_plans :: "pay_plan list"
  pd_counter :: int

section \<open>The world\<close>

text \<open>What a provider answers is up to the world, and so are the clock, failing statements, the
  groups and the affiliate service.\<close>

record query_response =
  qr_TradeNo :: string
  qr_Status :: string
  qr_Amount :: float64
  qr_Metadata :: "string gomap option"

record refund_request =
  rq_TradeNo :: string
  rq_OrderID :: string
  rq_Amount :: string
  rq_Reason :: string

record create_payment =
  cp_OrderID :: string
  cp_Amount :: string
  cp_PaymentType :: string
  cp_Subject :: string
  cp_ReturnURL :: string
  cp_OpenID :: string
  cp_ClientIP :: string
  cp_IsMobile :: bool
  cp_InstanceSubMethods :: string

record created_payment =
  cr_TradeNo :: string
  cr_PayURL :: string
  cr_QRCode :: string
  cr_ResultType :: string

record pay_world =
  w_now :: gtime
  w_fault :: db_fault
  w_stage :: "string \<Rightarrow> go_error option"
  w_cacheFault :: "go_error option"
  w_groups :: "int \<Rightarrow> group option"
  w_Make :: "pay_instance \<Rightarrow> go_error + pay_provider"
  w_QueryOrder :: "pay_provider \<Rightarrow> string \<Rightarrow> go_error + query_response"
  w_Refund :: "pay_provider \<Rightarrow> refund_request \<Rightarrow> go_error + string option"
  w_Accrue :: "int \<Rightarrow> float64 \<Rightarrow> int \<Rightarrow> go_error + float64"
  w_Setting :: "string option"
  w_Create :: "string \<Rightarrow> string \<Rightarrow> string gomap \<Rightarrow> go_error + pay_provider"
  w_CreatePayment :: "pay_provider \<Rightarrow> create_payment \<Rightarrow> go_error + created_payment"
  w_ReturnURL :: "string \<Rightarrow> int \<Rightarrow> string \<Rightarrow> go_error + string \<times> string"
  w_WeChatAppID :: "go_error + string"
  w_rand :: "nat \<Rightarrow> nat"

text \<open>What a process has fixed: the location of its clock, the arithmetic of the balance column,
  whether there is a cache and an affiliate service, and how amounts are formatted for a
  provider (the decimal library).\<close>

record pay_env =
  pe_loc :: location
  pe_plus :: "int \<Rightarrow> float64 \<Rightarrow> int"
  pe_read :: "int \<Rightarrow> float64"
  pe_cache :: bool
  pe_affiliate :: bool
  pe_format :: "float64 \<Rightarrow> string \<Rightarrow> string"
  pe_gatewayAmount :: "float64 \<Rightarrow> float64 \<Rightarrow> float64 \<Rightarrow> string \<Rightarrow> float64"

type_synonym 'a pay_prog = "(pay_world, pay_db, 'a) prog"

text \<open>A statement reads the clock of the database connection's process and may itself report an
  error. \<open>call\<close> puts it behind a connection that can fail; \<open>txn\<close> is a transaction, which changes
  nothing when one of its statements fails and may fail, or lose its answer, when it commits.\<close>

type_synonym 'a statement = "gtime \<Rightarrow> pay_db \<Rightarrow> (go_error + 'a) \<times> pay_db"

fun lost_or :: "(go_error + (go_error + 'a)) \<times> 's \<Rightarrow> (go_error + 'a) \<times> 's" where
  "lost_or (Inl e, s) = (Inl e, s)"
| "lost_or (Inr x, s) = (x, s)"

definition call :: "'a statement \<Rightarrow> (go_error + 'a) pay_prog" where
  "call f = atomic (\<lambda>w db. lost_or (db_outcome (w_fault w) (f (w_now w) db) db))"

text \<open>\<open>fmt.Errorf("...: %w", err)\<close>.\<close>

definition wrap :: "string \<Rightarrow> go_error \<Rightarrow> go_error" where
  "wrap what e = PlainError what (Some e)"

definition plain :: "string \<Rightarrow> go_error" where
  "plain s = PlainError s None"

fun committed :: "string \<Rightarrow> db_fault \<Rightarrow> (go_error + 'a) \<times> 's \<Rightarrow> 's \<Rightarrow> (go_error + 'a) \<times> 's" where
  "committed what fault (Inl e, _) db = (Inl e, db)"
| "committed what Answered (Inr x, db') db = (Inr x, db')"
| "committed what (NotDone e) (Inr x, db') db = (Inl (wrap what e), db)"
| "committed what (AnswerLost e) (Inr x, db') db = (Inl (wrap what e), db')"

definition txn :: "string \<Rightarrow> (pay_world \<Rightarrow> 'a statement) \<Rightarrow> (go_error + 'a) pay_prog" where
  "txn what f = atomic (\<lambda>w db. committed what (w_fault w) (f w (w_now w) db) db)"

definition peek :: "(pay_db \<Rightarrow> 'a) \<Rightarrow> 'a pay_prog" where
  "peek f = atomic (\<lambda>w db. (f db, db))"

definition ask :: "(pay_world \<Rightarrow> 'a) \<Rightarrow> 'a pay_prog" where
  "ask f = atomic (\<lambda>w db. (f w, db))"

text \<open>\<open>x, err := p; if err != nil { onerr }\<close>.\<close>

definition try_else :: "(go_error + 'a) pay_prog \<Rightarrow> (go_error \<Rightarrow> 'b pay_prog) \<Rightarrow> ('a \<Rightarrow> 'b pay_prog) \<Rightarrow> 'b pay_prog" where
  "try_else p onerr k = bind p (\<lambda>r. case r of Inl e \<Rightarrow> onerr e | Inr x \<Rightarrow> k x)"

section \<open>Orders\<close>

definition order_row :: "pay_db \<Rightarrow> int \<Rightarrow> pay_order option" where
  "order_row db i = find (\<lambda>r. po_ID r = i) (pd_orders db)"

text \<open>\<open>Get\<close>: \<open>None\<close> is ent's not-found error.\<close>

definition order_Get :: "int \<Rightarrow> pay_order option statement" where
  "order_Get i now db = (Inr (order_row db i), db)"

text \<open>\<open>Query().Where(OutTradeNo(x)).Only\<close>: more than one row is another error.\<close>

definition order_ByOutTradeNo :: "string \<Rightarrow> pay_order option statement" where
  "order_ByOutTradeNo x now db =
     ((case filter (\<lambda>r. po_OutTradeNo r = x) (pd_orders db) of
         [] \<Rightarrow> Inr None
       | [r] \<Rightarrow> Inr (Some r)
       | _ \<Rightarrow> Inl (plain ''ent: payment_order not singular'')), db)"

definition order_Where :: "(pay_order \<Rightarrow> bool) \<Rightarrow> pay_order list statement" where
  "order_Where p now db = (Inr (filter p (pd_orders db)), db)"

text \<open>\<open>Update().Where(p).Set...\<close>: the number of rows; every update sets \<open>updated_at\<close>.\<close>

definition touch :: "gtime \<Rightarrow> (pay_order \<Rightarrow> pay_order) \<Rightarrow> pay_order \<Rightarrow> pay_order" where
  "touch now f r = (f r)\<lparr>po_UpdatedAt := now\<rparr>"

definition order_Update :: "int \<Rightarrow> (gtime \<Rightarrow> pay_order \<Rightarrow> bool) \<Rightarrow> (gtime \<Rightarrow> pay_order \<Rightarrow> pay_order) \<Rightarrow> int statement" where
  "order_Update i p f now db =
     (let hit = (\<lambda>r. po_ID r = i \<and> p now r) in
      (Inr (int (length (filter hit (pd_orders db)))),
       db\<lparr>pd_orders := map (\<lambda>r. if hit r then touch now (f now) r else r) (pd_orders db)\<rparr>))"

text \<open>\<open>UpdateOneID\<close>: a missing row is an error.\<close>

definition order_UpdateOne :: "int \<Rightarrow> (gtime \<Rightarrow> pay_order \<Rightarrow> pay_order) \<Rightarrow> int statement" where
  "order_UpdateOne i f now db =
     (case order_row db i of
        None \<Rightarrow> (Inl (plain ''ent: payment_order not found''), db)
      | Some _ \<Rightarrow> order_Update i (\<lambda>_ _. True) f now db)"

section \<open>The audit log\<close>

text \<open>A unique index on order and action refuses a second entry.\<close>

definition audit_is :: "int \<Rightarrow> string \<Rightarrow> audit_log \<Rightarrow> bool" where
  "audit_is oid action a \<longleftrightarrow> al_OrderID a = itoa oid \<and> al_Action a = action"

definition audit_Create :: "int \<Rightarrow> string \<Rightarrow> string \<Rightarrow> (string \<times> goval) list \<Rightarrow> unit statement" where
  "audit_Create oid action op detail now db =
     (if list_ex (audit_is oid action) (pd_audits db)
      then (Inl (plain ''duplicate key value violates unique constraint''), db)
      else (Inr (),
            db\<lparr>pd_audits := pd_audits db @ [\<lparr>al_OrderID = itoa oid, al_Action = action, al_Operator = op,
                                             al_Detail = detail, al_CreatedAt = now\<rparr>]\<rparr>))"

definition writeAuditLog :: "int \<Rightarrow> string \<Rightarrow> string \<Rightarrow> (string \<times> goval) list \<Rightarrow> unit pay_prog" where
  "writeAuditLog oid action op detail = bind (call (audit_Create oid action op detail)) (\<lambda>_. Ret ())"

text \<open>A failing count is a count of 0.\<close>

definition hasAuditLog :: "int \<Rightarrow> string \<Rightarrow> bool pay_prog" where
  "hasAuditLog orderID action =
     bind (call (\<lambda>now db. (Inr (list_ex (audit_is orderID action) (pd_audits db)), db)))
       (\<lambda>r. Ret (case r of Inl _ \<Rightarrow> False | Inr b \<Rightarrow> b))"

section \<open>Users\<close>

definition ErrUserNotFound :: go_error where
  "ErrUserNotFound = NotFound ''USER_NOT_FOUND'' ''user not found''"

definition user_row :: "pay_db \<Rightarrow> int \<Rightarrow> pay_user option" where
  "user_row db i = find (\<lambda>u. pu_ID u = i) (pd_users db)"

definition user_GetByID :: "int \<Rightarrow> pay_user statement" where
  "user_GetByID i now db = (of_option ErrUserNotFound (user_row db i), db)"

definition user_update :: "int \<Rightarrow> (pay_user \<Rightarrow> pay_user) \<Rightarrow> pay_db \<Rightarrow> (go_error + unit) \<times> pay_db" where
  "user_update i f db =
     (if user_row db i = None then (Inl ErrUserNotFound, db)
      else (Inr (), db\<lparr>pd_users := map (\<lambda>u. if pu_ID u = i then f u else u) (pd_users db)\<rparr>))"

text \<open>A positive amount also counts as recharged.\<close>

definition user_UpdateBalance :: "pay_env \<Rightarrow> int \<Rightarrow> float64 \<Rightarrow> unit statement" where
  "user_UpdateBalance env i amount now =
     user_update i (\<lambda>u. u\<lparr>pu_Balance := pe_plus env (pu_Balance u) amount,
       pu_TotalRecharged := (if f_lt f_zero amount then pe_plus env (pu_TotalRecharged u) amount
                             else pu_TotalRecharged u)\<rparr>)"

definition user_DeductBalance :: "pay_env \<Rightarrow> int \<Rightarrow> float64 \<Rightarrow> unit statement" where
  "user_DeductBalance env i amount now =
     user_update i (\<lambda>u. u\<lparr>pu_Balance := pe_plus env (pu_Balance u) (f_neg amount)\<rparr>)"

definition user_UpdateConcurrency :: "int \<Rightarrow> int \<Rightarrow> unit statement" where
  "user_UpdateConcurrency i amount now =
     user_update i (\<lambda>u. u\<lparr>pu_Concurrency := pu_Concurrency u + amount\<rparr>)"

section \<open>Redeem codes\<close>

definition ErrRedeemCodeNotFound :: go_error where
  "ErrRedeemCodeNotFound = NotFound ''REDEEM_CODE_NOT_FOUND'' ''redeem code not found''"

definition ErrRedeemCodeUsed :: go_error where
  "ErrRedeemCodeUsed = Conflict ''REDEEM_CODE_USED'' ''redeem code already used''"

definition ErrRedeemCodeExpired :: go_error where
  "ErrRedeemCodeExpired = Conflict ''REDEEM_CODE_EXPIRED'' ''redeem code expired''"

definition ErrRedeemRateLimited :: go_error where
  "ErrRedeemRateLimited = TooManyRequests ''REDEEM_RATE_LIMITED'' ''too many failed attempts, please try again later''"

definition ErrRedeemCodeLocked :: go_error where
  "ErrRedeemCodeLocked = Conflict ''REDEEM_CODE_LOCKED'' ''redeem code is being processed, please try again''"

lemmas redeem_error_defs = ErrRedeemCodeNotFound_def ErrRedeemCodeUsed_def ErrRedeemCodeExpired_def
  ErrRedeemRateLimited_def ErrRedeemCodeLocked_def

definition code_row :: "pay_db \<Rightarrow> string \<Rightarrow> redeem_row option" where
  "code_row db c = find (\<lambda>r. rr_Code r = c) (pd_codes db)"

text \<open>The column is unique.\<close>

definition code_Create :: "redeem_row \<Rightarrow> unit statement" where
  "code_Create c now db =
     (if code_row db (rr_Code c) \<noteq> None
      then (Inl (plain ''duplicate key value violates unique constraint''), db)
      else (Inr (), db\<lparr>pd_codes := pd_codes db @ [c\<lparr>rr_ID := pd_nextCode db, rr_CreatedAt := now\<rparr>],
                       pd_nextCode := pd_nextCode db + 1\<rparr>))"

definition code_GetByID :: "int \<Rightarrow> redeem_row statement" where
  "code_GetByID i now db = (of_option ErrRedeemCodeNotFound (find (\<lambda>r. rr_ID r = i) (pd_codes db)), db)"

definition code_GetByCode :: "string \<Rightarrow> redeem_row statement" where
  "code_GetByCode c now db = (of_option ErrRedeemCodeNotFound (code_row db c), db)"

text \<open>\<open>Use\<close>: an optimistic lock on the status.\<close>

definition code_Use :: "int \<Rightarrow> int \<Rightarrow> unit statement" where
  "code_Use i userID now db =
     (let hit = (\<lambda>r. rr_ID r = i \<and> rc_Status r = StatusUnused) in
      if \<not> list_ex hit (pd_codes db) then (Inl ErrRedeemCodeUsed, db)
      else (Inr (), db\<lparr>pd_codes := map (\<lambda>r. if hit r
                         then r\<lparr>rc_Status := StatusUsed, rr_UsedBy := Some userID, rr_UsedAt := Some now\<rparr>
                         else r) (pd_codes db)\<rparr>))"

definition code_Delete :: "int \<Rightarrow> unit statement" where
  "code_Delete i now db = (Inr (), db\<lparr>pd_codes := filter (\<lambda>r. rr_ID r \<noteq> i) (pd_codes db)\<rparr>)"

section \<open>The cache of redeeming\<close>

definition redeemRateLimitDuration :: duration where
  "redeemRateLimitDuration = 24 * hour"

text \<open>A counter that counts wrong codes and expires a day after the last one; a lock that expires.
  An expired entry is as good as absent.\<close>

definition attempt_count :: "int \<Rightarrow> gtime \<Rightarrow> pay_db \<Rightarrow> int" where
  "attempt_count userID now db =
     (case map_of (pd_attempts db) userID of
        Some (n, until) \<Rightarrow> if now < until then n else 0
      | None \<Rightarrow> 0)"

definition GetRedeemAttemptCount :: "int \<Rightarrow> int statement" where
  "GetRedeemAttemptCount userID now db = (Inr (attempt_count userID now db), db)"

definition IncrementRedeemAttemptCount :: "int \<Rightarrow> unit statement" where
  "IncrementRedeemAttemptCount userID now db =
     (Inr (), db\<lparr>pd_attempts := (userID, attempt_count userID now db + 1, now + redeemRateLimitDuration)
                                 # filter (\<lambda>e. fst e \<noteq> userID) (pd_attempts db)\<rparr>)"

definition AcquireRedeemLock :: "string \<Rightarrow> duration \<Rightarrow> bool statement" where
  "AcquireRedeemLock code ttl now db =
     (case map_of (pd_locks db) code of
        Some until \<Rightarrow>
          if now < until then (Inr False, db)
          else (Inr True, db\<lparr>pd_locks := (code, now + ttl) # filter (\<lambda>e. fst e \<noteq> code) (pd_locks db)\<rparr>)
      | None \<Rightarrow> (Inr True, db\<lparr>pd_locks := (code, now + ttl) # pd_locks db\<rparr>))"

definition ReleaseRedeemLock :: "string \<Rightarrow> unit statement" where
  "ReleaseRedeemLock code now db = (Inr (), db\<lparr>pd_locks := filter (\<lambda>e. fst e \<noteq> code) (pd_locks db)\<rparr>)"

section \<open>Subscriptions\<close>

fun sub_go_error :: "sub_error \<Rightarrow> go_error" where
  "sub_go_error ErrSubscriptionNotFound = NotFound ''SUBSCRIPTION_NOT_FOUND'' ''subscription not found''"
| "sub_go_error ErrSubscriptionExpired = Forbidden ''SUBSCRIPTION_EXPIRED'' ''subscription has expired''"
| "sub_go_error ErrSubscriptionSuspended = Forbidden ''SUBSCRIPTION_SUSPENDED'' ''subscription is suspended''"
| "sub_go_error ErrSubscriptionAlreadyExists =
     Conflict ''SUBSCRIPTION_ALREADY_EXISTS'' ''subscription already exists for this user and group''"
| "sub_go_error (ErrSubscriptionAssignConflict _) =
     Conflict ''SUBSCRIPTION_ASSIGN_CONFLICT''
       ''subscription exists but request conflicts with existing assignment semantics''"
| "sub_go_error ErrGroupNotSubscriptionType =
     BadRequest ''GROUP_NOT_SUBSCRIPTION_TYPE'' ''group is not a subscription type''"
| "sub_go_error ErrGroupNotFound = NotFound ''GROUP_NOT_FOUND'' ''group not found''"
| "sub_go_error ErrInvalidInput =
     BadRequest ''INVALID_INPUT'' ''at least one of resetDaily, resetWeekly, or resetMonthly must be true''"
| "sub_go_error ErrDailyLimitExceeded = TooManyRequests ''DAILY_LIMIT_EXCEEDED'' ''daily usage limit exceeded''"
| "sub_go_error ErrWeeklyLimitExceeded = TooManyRequests ''WEEKLY_LIMIT_EXCEEDED'' ''weekly usage limit exceeded''"
| "sub_go_error ErrMonthlyLimitExceeded = TooManyRequests ''MONTHLY_LIMIT_EXCEEDED'' ''monthly usage limit exceeded''"
| "sub_go_error ErrAdjustWouldExpire =
     BadRequest ''ADJUST_WOULD_EXPIRE'' ''adjustment would result in expired subscription (remaining days must be > 0)''"
| "sub_go_error ErrCannotShortenExpired =
     BadRequest ''CANNOT_SHORTEN_EXPIRED'' ''cannot shorten an expired subscription''"

text \<open>An operation of the subscription service as a statement on the shared state.\<close>

definition on_subs :: "(sub_db \<Rightarrow> sub_error + sub_db \<times> 'a) \<Rightarrow> pay_db \<Rightarrow> (go_error + 'a) \<times> pay_db" where
  "on_subs f db =
     (case f (pd_subs db) of
        Inl e \<Rightarrow> (Inl (sub_go_error e), db)
      | Inr (s, x) \<Rightarrow> (Inr x, db\<lparr>pd_subs := s\<rparr>))"

end
