(* ===== verification/RedeemService.thy ===== *)
theory RedeemService
  imports PayStore
begin

text \<open>
  Redeem codes (\<open>service/redeem_service.go\<close>, the bulk update of \<open>repository/redeem_code_repo.go\<close>):
  a code is redeemed at most once, by an optimistic lock on its status inside the transaction that
  grants its value. The authentication and billing caches that are invalidated afterwards are not
  part of the state.
\<close>

abbreviation RedeemTypeBalance :: string where "RedeemTypeBalance \<equiv> ''balance''"
abbreviation RedeemTypeConcurrency :: string where "RedeemTypeConcurrency \<equiv> ''concurrency''"
abbreviation RedeemTypeSubscription :: string where "RedeemTypeSubscription \<equiv> ''subscription''"
abbreviation RedeemTypeInvitation :: string where "RedeemTypeInvitation \<equiv> ''invitation''"

abbreviation redeemMaxErrorsPerHour :: int where "redeemMaxErrorsPerHour \<equiv> 20"
abbreviation redeemLockDuration :: duration where "redeemLockDuration \<equiv> 10 * nanos"

section \<open>Creating codes\<close>

text \<open>\<open>now\<close> is the clock of the expiry test; the statement comes after it.\<close>

definition CreateCode :: "redeem_row \<Rightarrow> (go_error + unit) pay_prog" where
  "CreateCode code0 =
     (let c1 = code0\<lparr>rr_Code := trim_space (rr_Code code0)\<rparr>;
          c2 = (if rr_Type c1 = [] then c1\<lparr>rr_Type := RedeemTypeBalance\<rparr> else c1);
          c3 = (if rc_Status c2 = [] then c2\<lparr>rc_Status := StatusUnused\<rparr> else c2)
      in if rr_Code c1 = [] then Ret (Inl (plain ''code is required''))
         else if rr_Type c2 \<noteq> RedeemTypeInvitation \<and> f_eq (rr_Value c2) f_zero
         then Ret (Inl (plain ''value must not be zero''))
         else bind (ask w_now) (\<lambda>now.
              if Redeem_IsExpiredAt now (Some c3) then Ret (Inl ErrRedeemCodeExpired)
              else try_else (call (code_Create c3))
                     (\<lambda>e. Ret (Inl (wrap ''create redeem code'' e))) (\<lambda>_. Ret (Inr ()))))"

definition redeem_GetByCode :: "string \<Rightarrow> (go_error + redeem_row) pay_prog" where
  "redeem_GetByCode code =
     try_else (call (code_GetByCode code)) (\<lambda>e. Ret (Inl (wrap ''get redeem code'' e))) (\<lambda>c. Ret (Inr c))"

section \<open>The rate limit and the lock\<close>

text \<open>Without a cache there is neither; a failing cache does not stop the user.\<close>

definition checkRedeemRateLimit :: "pay_env \<Rightarrow> int \<Rightarrow> go_error option pay_prog" where
  "checkRedeemRateLimit env userID =
     (if \<not> pe_cache env then Ret None
      else try_else (call (GetRedeemAttemptCount userID)) (\<lambda>_. Ret None)
             (\<lambda>count. Ret (if redeemMaxErrorsPerHour \<le> count then Some ErrRedeemRateLimited else None)))"

definition incrementRedeemErrorCount :: "pay_env \<Rightarrow> int \<Rightarrow> unit pay_prog" where
  "incrementRedeemErrorCount env userID =
     (if \<not> pe_cache env then Ret () else bind (call (IncrementRedeemAttemptCount userID)) (\<lambda>_. Ret ()))"

definition acquireRedeemLock :: "pay_env \<Rightarrow> string \<Rightarrow> bool pay_prog" where
  "acquireRedeemLock env code =
     (if \<not> pe_cache env then Ret True
      else try_else (call (AcquireRedeemLock code redeemLockDuration)) (\<lambda>_. Ret True) Ret)"

definition releaseRedeemLock :: "pay_env \<Rightarrow> string \<Rightarrow> unit pay_prog" where
  "releaseRedeemLock env code =
     (if \<not> pe_cache env then Ret () else bind (call (ReleaseRedeemLock code)) (\<lambda>_. Ret ()))"

section \<open>Granting the value of a code\<close>

definition redeem_note :: "string \<Rightarrow> string" where
  "redeem_note code = [CHR 0xE9, CHR 0x80, CHR 0x9A, CHR 0xE8, CHR 0xBF, CHR 0x87, CHR 0xE5, CHR 0x85, CHR 0x91, CHR 0xE6, CHR 0x8D, CHR 0xA2, CHR 0xE7, CHR 0xA0, CHR 0x81, CHR 0x20] @ code @ [CHR 0x20, CHR 0xE5, CHR 0x85, CHR 0x91, CHR 0xE6, CHR 0x8D, CHR 0xA2]"

definition refund_note :: "string \<Rightarrow> int \<Rightarrow> string" where
  "refund_note code days = [CHR 0xE9, CHR 0x80, CHR 0x9A, CHR 0xE8, CHR 0xBF, CHR 0x87, CHR 0xE5, CHR 0x85, CHR 0x91, CHR 0xE6, CHR 0x8D, CHR 0xA2, CHR 0xE7, CHR 0xA0, CHR 0x81, CHR 0x20] @ code @ [CHR 0x20, CHR 0xE9, CHR 0x80, CHR 0x80, CHR 0xE6, CHR 0xAC, CHR 0xBE, CHR 0xE6, CHR 0x89, CHR 0xA3, CHR 0xE5, CHR 0x87, CHR 0x8F, CHR 0x20] @ itoa days @ [CHR 0x20, CHR 0xE5, CHR 0xA4, CHR 0xA9]"

text \<open>\<open>reduceOrCancelSubscription\<close>: fewer days left than are taken away end the subscription now.\<close>

definition reduceOrCancelSubscription ::
    "location \<Rightarrow> gtime \<Rightarrow> int \<Rightarrow> int \<Rightarrow> int \<Rightarrow> string \<Rightarrow> sub_db \<Rightarrow> sub_error + sub_db \<times> unit" where
  "reduceOrCancelSubscription loc now userID groupID reduceDays code db =
     (case repo_GetByUserIDAndGroupID db userID groupID of
        None \<Rightarrow> Inl ErrSubscriptionNotFound
      | Some s \<Rightarrow>
          (let d = f_to_int (f_div (dur_hours (time_sub (sub_ExpiresAt s) now)) (f_of_int 24));
               remaining = (if d < 0 then 0 else d);
               newNotes = (if sub_Notes s = [] then [] else sub_Notes s @ [CHR 0x0A]) @ refund_note code reduceDays
           in and_then
                (if remaining \<le> reduceDays
                 then and_then (repo_UpdateStatus (sub_ID s) SubscriptionStatusExpired db)
                        (repo_ExtendExpiry (sub_ID s) now)
                 else repo_ExtendExpiry (sub_ID s) (add_days loc (sub_ExpiresAt s) (- reduceDays)) db)
                (\<lambda>db1. and_then (repo_UpdateNotes (sub_ID s) newNotes db1) (\<lambda>db2. Inr (db2, ())))))"

fun wrap_fst :: "string \<Rightarrow> (go_error + 'a) \<times> 's \<Rightarrow> (go_error + unit) \<times> 's" where
  "wrap_fst what (Inl e, s) = (Inl (wrap what e), s)"
| "wrap_fst what (Inr _, s) = (Inr (), s)"

text \<open>\<open>user\<close> was read before the transaction. A negative balance code takes at most the balance
  that was read, a negative number of slots likewise.\<close>

definition redeem_grant :: "pay_env \<Rightarrow> pay_world \<Rightarrow> int \<Rightarrow> pay_user \<Rightarrow> redeem_row \<Rightarrow> unit statement" where
  "redeem_grant env w userID user rc now db =
     (if rr_Type rc = RedeemTypeBalance then
        (let bal = pe_read env (pu_Balance user);
             amount = (if f_lt (rr_Value rc) f_zero \<and> f_lt (f_add bal (rr_Value rc)) f_zero
                       then f_neg bal else rr_Value rc)
         in wrap_fst ''update user balance'' (user_UpdateBalance env userID amount now db))
      else if rr_Type rc = RedeemTypeConcurrency then
        (let d = f_to_int (rr_Value rc);
             delta = (if d < 0 \<and> i64 (pu_Concurrency user + d) < 0 then i64 (- pu_Concurrency user) else d)
         in wrap_fst ''update user concurrency'' (user_UpdateConcurrency userID delta now db))
      else if rr_Type rc = RedeemTypeSubscription then
        (let gid = opt_default 0 (rr_GroupID rc) in
         if rr_ValidityDays rc < 0
         then wrap_fst ''reduce or cancel subscription''
                (on_subs (reduceOrCancelSubscription (pe_loc env) now userID gid (- rr_ValidityDays rc) (rr_Code rc)) db)
         else wrap_fst ''assign or extend subscription''
                (on_subs (AssignOrExtendSubscription (w_groups w) (pe_loc env) now
                   \<lparr>in_UserID = userID, in_GroupID = gid,
                    in_ValidityDays = (if rr_ValidityDays rc = 0 then 30 else rr_ValidityDays rc),
                    in_AssignedBy = 0, in_Notes = redeem_note (rr_Code rc)\<rparr>) db))
      else (Inl (plain (''unsupported redeem type: '' @ rr_Type rc)), db))"

definition redeem_tx :: "pay_env \<Rightarrow> int \<Rightarrow> pay_user \<Rightarrow> redeem_row \<Rightarrow> pay_world \<Rightarrow> unit statement" where
  "redeem_tx env userID user rc w now db =
     (case w_stage w ''begin'' of
        Some e \<Rightarrow> (Inl (wrap ''begin transaction'' e), db)
      | None \<Rightarrow>
          (case (case w_stage w ''use'' of Some e \<Rightarrow> (Inl e, db) | None \<Rightarrow> code_Use (rr_ID rc) userID now db) of
             (Inl e, _) \<Rightarrow>
               (Inl (if errors_Is e ErrRedeemCodeNotFound \<or> errors_Is e ErrRedeemCodeUsed then ErrRedeemCodeUsed
                     else wrap ''mark code as used'' e), db)
           | (Inr _, db1) \<Rightarrow>
               (case w_stage w ''grant'' of
                  Some e \<Rightarrow> (Inl e, db)
                | None \<Rightarrow> redeem_grant env w userID user rc now db1)))"

section \<open>Redeeming\<close>

definition redeem_locked :: "pay_env \<Rightarrow> int \<Rightarrow> string \<Rightarrow> (go_error + redeem_row) pay_prog" where
  "redeem_locked env userID code =
     try_else (call (code_GetByCode code))
       (\<lambda>e. if errors_Is e ErrRedeemCodeNotFound
            then bind (incrementRedeemErrorCount env userID) (\<lambda>_. Ret (Inl ErrRedeemCodeNotFound))
            else Ret (Inl (wrap ''get redeem code'' e)))
       (\<lambda>rc. bind (ask w_now) (\<lambda>t1.
        if Redeem_IsExpiredAt t1 (Some rc)
        then bind (incrementRedeemErrorCount env userID) (\<lambda>_. Ret (Inl ErrRedeemCodeExpired))
        else bind (ask w_now) (\<lambda>t2.
        if \<not> Redeem_CanUse t2 rc
        then bind (incrementRedeemErrorCount env userID) (\<lambda>_. Ret (Inl ErrRedeemCodeUsed))
        else if rr_Type rc = RedeemTypeSubscription \<and> rr_GroupID rc = None
        then Ret (Inl (BadRequest ''REDEEM_CODE_INVALID'' ''invalid subscription redeem code: missing group_id''))
        else try_else (call (user_GetByID userID)) (\<lambda>e. Ret (Inl (wrap ''get user'' e))) (\<lambda>user.
             try_else (txn ''commit transaction'' (redeem_tx env userID user rc)) (\<lambda>e. Ret (Inl e)) (\<lambda>_.
             try_else (call (code_GetByID (rr_ID rc)))
               (\<lambda>e. Ret (Inl (wrap ''get updated redeem code'' e))) (\<lambda>c. Ret (Inr c)))))))"

definition Redeem :: "pay_env \<Rightarrow> int \<Rightarrow> string \<Rightarrow> (go_error + redeem_row) pay_prog" where
  "Redeem env userID code =
     bind (checkRedeemRateLimit env userID) (\<lambda>limited.
       case limited of
         Some e \<Rightarrow> Ret (Inl e)
       | None \<Rightarrow>
           bind (acquireRedeemLock env code) (\<lambda>got.
             if \<not> got then Ret (Inl ErrRedeemCodeLocked)
             else bind (redeem_locked env userID code) (\<lambda>r.
                  bind (releaseRedeemLock env code) (\<lambda>_. Ret r))))"

section \<open>Deleting and changing codes in bulk\<close>

definition redeem_Delete :: "int \<Rightarrow> (go_error + unit) pay_prog" where
  "redeem_Delete i =
     try_else (call (code_GetByID i)) (\<lambda>e. Ret (Inl (wrap ''get redeem code'' e))) (\<lambda>c.
       if Redeem_IsUsed c
       then Ret (Inl (Conflict ''REDEEM_CODE_DELETE_USED'' ''cannot delete used redeem code''))
       else try_else (call (code_Delete i)) (\<lambda>e. Ret (Inl (wrap ''delete redeem code'' e))) (\<lambda>_. Ret (Inr ())))"

text \<open>A field of a bulk update is left alone, or set (the group and the expiry also to nil).\<close>

record batch_fields =
  bf_Status :: "string option"
  bf_ExpiresAt :: "gtime option option"
  bf_Notes :: "string option"
  bf_GroupID :: "int option option"
  bf_Type :: "string option"
  bf_Value :: "float64 option"

definition HasChanges :: "batch_fields \<Rightarrow> bool" where
  "HasChanges f \<longleftrightarrow> bf_Status f \<noteq> None \<or> bf_ExpiresAt f \<noteq> None \<or> bf_Notes f \<noteq> None
     \<or> bf_GroupID f \<noteq> None \<or> bf_Type f \<noteq> None \<or> bf_Value f \<noteq> None"

definition HasCoreFieldChanges :: "batch_fields \<Rightarrow> bool" where
  "HasCoreFieldChanges f \<longleftrightarrow> bf_Type f \<noteq> None \<or> bf_Value f \<noteq> None"

definition TouchesUsedSensitiveFields :: "batch_fields \<Rightarrow> bool" where
  "TouchesUsedSensitiveFields f \<longleftrightarrow> bf_Status f \<noteq> None \<or> bf_ExpiresAt f \<noteq> None \<or> bf_GroupID f \<noteq> None"

definition apply_fields :: "batch_fields \<Rightarrow> redeem_row \<Rightarrow> redeem_row" where
  "apply_fields f r =
     r\<lparr>rc_Status := opt_default (rc_Status r) (bf_Status f),
       rc_ExpiresAt := opt_default (rc_ExpiresAt r) (bf_ExpiresAt f),
       rr_Notes := opt_default (rr_Notes r) (bf_Notes f),
       rr_GroupID := opt_default (rr_GroupID r) (bf_GroupID f)\<rparr>"

text \<open>The rows are read before they are written, in one transaction; nothing else keeps another
  process from redeeming one of them in between, so reading and writing are two steps.\<close>

definition code_Where :: "(redeem_row \<Rightarrow> bool) \<Rightarrow> redeem_row list statement" where
  "code_Where p now db = (Inr (filter p (pd_codes db)), db)"

definition code_UpdateMany :: "int list \<Rightarrow> batch_fields \<Rightarrow> int statement" where
  "code_UpdateMany ids f now db =
     (let hit = (\<lambda>r. rr_ID r \<in> set ids); n = int (length (filter hit (pd_codes db))) in
      if n \<noteq> int (length ids) then (Inl ErrRedeemCodeNotFound, db)
      else (Inr n, db\<lparr>pd_codes := map (\<lambda>r. if hit r then apply_fields f r else r) (pd_codes db)\<rparr>))"

definition code_BatchUpdate :: "int list \<Rightarrow> batch_fields \<Rightarrow> (go_error + int) pay_prog" where
  "code_BatchUpdate ids f =
     (if ids = [] then Ret (Inr 0)
      else try_else (call (code_Where (\<lambda>r. rr_ID r \<in> set ids))) (\<lambda>e. Ret (Inl e)) (\<lambda>existing.
           if length existing \<noteq> length ids then Ret (Inl ErrRedeemCodeNotFound)
           else if TouchesUsedSensitiveFields f \<and> list_ex Redeem_IsUsed existing then Ret (Inl ErrRedeemCodeUsed)
           else txn ''commit'' (\<lambda>_. code_UpdateMany ids f)))"

fun dedup_ids :: "int list \<Rightarrow> int list \<Rightarrow> int list" where
  "dedup_ids seen [] = []"
| "dedup_ids seen (i # r) = (if i \<in> set seen then dedup_ids seen r else i # dedup_ids (i # seen) r)"

definition redeem_BatchUpdate :: "int list \<Rightarrow> batch_fields \<Rightarrow> (go_error + int) pay_prog" where
  "redeem_BatchUpdate input_ids f =
     (let bad = (\<lambda>reason msg. Ret (Inl (BadRequest reason msg))) in
      if input_ids = [] then bad ''REDEEM_CODE_BATCH_UPDATE_IDS_REQUIRED'' ''ids are required''
      else if \<not> HasChanges f then bad ''REDEEM_CODE_BATCH_UPDATE_EMPTY'' ''at least one field must be selected''
      else if HasCoreFieldChanges f
      then bad ''REDEEM_CODE_CORE_FIELDS_IMMUTABLE'' ''type and value cannot be batch updated''
      else if list_ex (\<lambda>i. i \<le> 0) input_ids
      then bad ''REDEEM_CODE_BATCH_UPDATE_INVALID_ID'' ''ids must be positive''
      else if bf_Status f \<notin> {None, Some StatusUnused, Some ''disabled''}
      then bad ''REDEEM_CODE_STATUS_INVALID'' ''status must be unused or disabled''
      else bind (ask w_now) (\<lambda>now.
           if (case bf_ExpiresAt f of Some (Some t) \<Rightarrow> t \<le> now | _ \<Rightarrow> False)
           then bad ''REDEEM_CODE_EXPIRES_AT_INVALID'' ''expires_at must be in the future''
           else if (case bf_GroupID f of Some (Some g) \<Rightarrow> g \<le> 0 | _ \<Rightarrow> False)
           then bad ''REDEEM_CODE_GROUP_ID_INVALID'' ''group_id must be positive''
           else code_BatchUpdate (dedup_ids [] input_ids) f))"

end
