(* ===== verification/GoFormat.thy ===== *)
theory GoFormat
  imports GoText
begin

text \<open>
  Printing numbers (packages \<open>strconv\<close> and \<open>fmt\<close>): \<open>FormatFloat(x, 'f', -1, 64)\<close>, the shortest
  decimal that reads back as the same \<open>float64\<close>; \<open>%v\<close>, which switches to an exponent for very
  large and very small numbers; and \<open>%.2f\<close>.
\<close>

definition pow10 :: "int \<Rightarrow> rat" where
  "pow10 e = (if 0 \<le> e then 10 ^ nat e else 1 / 10 ^ nat (- e))"

text \<open>The decimal exponent of a positive number: \<open>10 ^ e \<le> x < 10 ^ (e + 1)\<close>. The estimate from the
  binary exponent is off by at most one.\<close>

definition dec_exp :: "rat \<Rightarrow> int" where
  "dec_exp x =
     (let e = (ilog2 x * 30103) div 100000 in
      if x < pow10 e then e - 1 else if pow10 (e + 1) \<le> x then e + 1 else e)"

text \<open>The closest number with \<open>n\<close> digits that reads back as \<open>x\<close>, if there is one.\<close>

definition digits_at :: "rat \<Rightarrow> int \<Rightarrow> nat \<Rightarrow> int option" where
  "digits_at x e n =
     (let s = pow10 (int n - 1 - e); lo = \<lfloor>x * s\<rfloor>;
          cs = (if x * s - of_int lo \<le> 1 / 2 then [lo, lo + 1] else [lo + 1, lo])
      in find (\<lambda>m. f_of_rat (of_int m / s) = Fin x) cs)"

fun shortest_from :: "rat \<Rightarrow> int \<Rightarrow> nat \<Rightarrow> nat \<Rightarrow> int \<times> nat" where
  "shortest_from x e n 0 = (\<lfloor>x * pow10 (int n - 1 - e)\<rfloor>, n)"
| "shortest_from x e n (Suc k) =
     (case digits_at x e n of Some m \<Rightarrow> (m, n) | None \<Rightarrow> shortest_from x e (n + 1) k)"

text \<open>The digits of a positive number and the power of ten of the last one; 17 digits always do.\<close>

definition shortest :: "rat \<Rightarrow> int \<times> int" where
  "shortest x =
     (let e = dec_exp x; (m, n) = shortest_from x e 1 16; last = e - int n + 1 in
      if m = 10 ^ n then (m div 10, last + 1) else (m, last))"

definition zeros :: "nat \<Rightarrow> string" where
  "zeros n = replicate n CHR ''0''"

definition pad_left :: "nat \<Rightarrow> string \<Rightarrow> string" where
  "pad_left n s = zeros (n - length s) @ s"

text \<open>\<open>m\<close> with \<open>k\<close> decimals.\<close>

definition fixed_point :: "int \<Rightarrow> nat \<Rightarrow> string" where
  "fixed_point m k =
     (if k = 0 then nat_digits m
      else nat_digits (m div 10 ^ k) @ ''.'' @ pad_left k (nat_digits (m mod 10 ^ k)))"

definition signed :: "rat \<Rightarrow> (rat \<Rightarrow> string) \<Rightarrow> string" where
  "signed q f = (if q < 0 then CHR ''-'' # f (- q) else f q)"

definition print_plain :: "int \<times> int \<Rightarrow> string" where
  "print_plain d =
     (case d of (m, e) \<Rightarrow> if 0 \<le> e then nat_digits m @ zeros (nat e) else fixed_point m (nat (- e)))"

fun FormatFloat_f :: "float64 \<Rightarrow> string" where
  "FormatFloat_f (Fin q) = signed q (\<lambda>x. if x = 0 then ''0'' else print_plain (shortest x))"
| "FormatFloat_f PInf = ''+Inf''"
| "FormatFloat_f NInf = ''-Inf''"
| "FormatFloat_f NaN = ''NaN''"

definition print_exp :: "int \<times> int \<Rightarrow> string" where
  "print_exp d =
     (case d of (m, e) \<Rightarrow>
        (let ds = nat_digits m; x = e + int (length ds) - 1 in
         take 1 ds @ (if length ds = 1 then [] else CHR ''.'' # drop 1 ds)
         @ ''e'' @ (if x < 0 then ''-'' else ''+'') @ pad_left 2 (nat_digits \<bar>x\<bar>)))"

fun Sprint_v :: "float64 \<Rightarrow> string" where
  "Sprint_v (Fin q) =
     signed q (\<lambda>x. if x = 0 then ''0''
                 else (let d = shortest x; e = snd d + int (length (nat_digits (fst d))) - 1 in
                       if e < - 4 \<or> 21 \<le> e then print_exp d else print_plain d))"
| "Sprint_v PInf = ''+Inf''"
| "Sprint_v NInf = ''-Inf''"
| "Sprint_v NaN = ''NaN''"

fun Sprint_2f :: "float64 \<Rightarrow> string" where
  "Sprint_2f (Fin q) = signed q (\<lambda>x. fixed_point (round_even (x * 100)) 2)"
| "Sprint_2f PInf = ''+Inf''"
| "Sprint_2f NInf = ''-Inf''"
| "Sprint_2f NaN = ''NaN''"

end
