(* ===== verification/PayFulfil.thy ===== *)
theory PayFulfil
  imports RedeemService GoFormat
begin

text \<open>
  From a payment notification to the credited balance or the extended subscription
  (\<open>service/payment_fulfillment.go\<close>), with the provider instance that an order belongs to
  (\<open>service/payment_refund.go\<close>, \<open>service/payment_order_provider_snapshot.go\<close>). A handler is a
  program of \<open>Interleave\<close>: every statement is a step between which others run. The e-mails that
  are sent in the background are not modelled. An error result is \<open>Some\<close>, nil is \<open>None\<close>.
\<close>

section \<open>The provider instance of an order\<close>

definition instance_Get :: "int \<Rightarrow> pay_instance option statement" where
  "instance_Get i now db = (Inr (find (\<lambda>r. pi_ID r = i) (pd_instances db)), db)"

definition instance_Where :: "(pay_instance \<Rightarrow> bool) \<Rightarrow> pay_instance list statement" where
  "instance_Where p now db = (Inr (filter p (pd_instances db)), db)"

definition not_found_error :: go_error where
  "not_found_error = plain ''ent: payment_provider_instance not found''"

definition psLegacyOrderMatchesInstance :: "string \<Rightarrow> pay_instance \<Rightarrow> bool" where
  "psLegacyOrderMatchesInstance orderPaymentType inst =
     (let baseType = GetBasePaymentType (trim_space orderPaymentType);
          instanceProviderKey = trim_space (pi_ProviderKey inst)
      in if baseType = [] then False
         else if baseType = TypeStripe then instanceProviderKey = TypeStripe
         else if instanceProviderKey = TypeStripe then False
         else if instanceProviderKey = baseType then True
         else InstanceSupportsType (pi_SupportedTypes inst) baseType)"

definition psFilterLegacyOrderProviderInstances :: "string \<Rightarrow> pay_instance list \<Rightarrow> pay_instance list" where
  "psFilterLegacyOrderProviderInstances orderPaymentType instances =
     (if trim_space orderPaymentType = [] then instances
      else filter (psLegacyOrderMatchesInstance orderPaymentType) instances)"

definition the_only :: "'a list \<Rightarrow> 'a option" where
  "the_only xs = (case xs of [x] \<Rightarrow> Some x | _ \<Rightarrow> None)"

definition resolveUniqueLegacyOrderProviderInstance :: "pay_order \<Rightarrow> (go_error + pay_instance option) pay_prog" where
  "resolveUniqueLegacyOrderProviderInstance o' =
     (let paymentType = GetBasePaymentType (trim_space (po_PaymentType o'));
          providerKey = trim_space (psStringValue (po_ProviderKey o'));
          pick = (\<lambda>instances. Ret (Inr (the_only (psFilterLegacyOrderProviderInstances paymentType instances))))
      in if providerKey \<noteq> []
         then try_else (call (instance_Where (\<lambda>r. pi_ProviderKey r = providerKey))) (\<lambda>e. Ret (Inl e)) pick
         else if paymentType = [] then Ret (Inr None)
         else try_else (call (instance_Where (\<lambda>_. True))) (\<lambda>e. Ret (Inl e)) pick)"

definition resolveSnapshotOrderProviderInstance ::
    "pay_order \<Rightarrow> provider_snapshot \<Rightarrow> (go_error + pay_instance option) pay_prog" where
  "resolveSnapshotOrderProviderInstance order snapshot =
     (let columnInstanceID = trim_space (psStringValue (po_ProviderInstanceID order));
          snapshotInstanceID = (if trim_space (ps_ProviderInstanceID snapshot) = [] then columnInstanceID
                                else trim_space (ps_ProviderInstanceID snapshot));
          who = ''order '' @ itoa (po_ID order) @ '' provider snapshot ''
      in if snapshotInstanceID = []
         then Ret (Inl (plain (who @ ''is missing provider_instance_id'')))
         else if columnInstanceID \<noteq> [] \<and> ps_ProviderInstanceID snapshot \<noteq> []
                 \<and> \<not> equal_fold columnInstanceID (ps_ProviderInstanceID snapshot)
         then Ret (Inl (plain (who @ ''instance mismatch: snapshot='' @ ps_ProviderInstanceID snapshot
                               @ '' order='' @ columnInstanceID)))
         else (case parse_int64 snapshotInstanceID of
            None \<Rightarrow> Ret (Inl (plain (who @ ''instance id is invalid: '' @ snapshotInstanceID)))
          | Some instID \<Rightarrow>
              try_else (call (instance_Get instID)) (\<lambda>e. Ret (Inl e)) (\<lambda>r.
                case r of
                  None \<Rightarrow> Ret (Inl (plain (who @ ''instance '' @ snapshotInstanceID @ '' is missing'')))
                | Some inst \<Rightarrow>
                    if ps_ProviderKey snapshot \<noteq> []
                       \<and> \<not> equal_fold (trim_space (pi_ProviderKey inst)) (ps_ProviderKey snapshot)
                    then Ret (Inl (plain (who @ ''key mismatch: snapshot='' @ ps_ProviderKey snapshot
                                          @ '' instance='' @ pi_ProviderKey inst)))
                    else Ret (Inr (Some inst)))))"

definition getOrderProviderInstance :: "pay_order \<Rightarrow> (go_error + pay_instance option) pay_prog" where
  "getOrderProviderInstance o' =
     (case psOrderProviderSnapshot o' of
        Some snapshot \<Rightarrow> resolveSnapshotOrderProviderInstance o' snapshot
      | None \<Rightarrow>
          (let instIDStr = trim_space (psStringValue (po_ProviderInstanceID o')) in
           if instIDStr = [] then resolveUniqueLegacyOrderProviderInstance o'
           else (case parse_int64 instIDStr of
                   None \<Rightarrow> Ret (Inr None)
                 | Some instID \<Rightarrow>
                     try_else (call (instance_Get instID)) (\<lambda>e. Ret (Inl e))
                       (\<lambda>r. Ret (case r of None \<Rightarrow> Inl not_found_error | Some inst \<Rightarrow> Inr (Some inst))))))"

definition getRefundOrderProviderInstance :: "pay_order \<Rightarrow> (go_error + pay_instance option) pay_prog" where
  "getRefundOrderProviderInstance o' =
     (case psOrderProviderSnapshot o' of
        Some snapshot \<Rightarrow> resolveSnapshotOrderProviderInstance o' snapshot
      | None \<Rightarrow>
          (let instIDStr = trim_space (psStringValue (po_ProviderInstanceID o'));
               who = ''order '' @ itoa (po_ID o') @ '' refund provider instance ''
           in if instIDStr = [] then Ret (Inr None)
              else (case parse_int64 instIDStr of
                 None \<Rightarrow> Ret (Inl (plain (who @ ''id is invalid: '' @ instIDStr)))
               | Some instID \<Rightarrow>
                   try_else (call (instance_Get instID)) (\<lambda>e. Ret (Inl e))
                     (\<lambda>r. Ret (case r of None \<Rightarrow> Inl (plain (who @ instIDStr @ '' is missing''))
                                       | Some inst \<Rightarrow> Inr (Some inst))))))"

section \<open>Completing and failing\<close>

definition psErrMsg :: "go_error option \<Rightarrow> string" where
  "psErrMsg err = (case err of None \<Rightarrow> [] | Some e \<Rightarrow> error_text e)"

text \<open>The number of rows is not looked at: the audit entry is written in any case.\<close>

definition markCompleted :: "pay_order \<Rightarrow> string \<Rightarrow> go_error option pay_prog" where
  "markCompleted o' auditAction =
     try_else (call (order_Update (po_ID o') (\<lambda>_ r. po_Status r = OrderStatusRecharging)
                 (\<lambda>now r. r\<lparr>po_Status := OrderStatusCompleted, po_CompletedAt := Some now\<rparr>)))
       (\<lambda>e. Ret (Some (wrap ''mark completed'' e)))
       (\<lambda>_. bind (writeAuditLog (po_ID o') auditAction ''system''
                    [(''rechargeCode'', GStr (po_RechargeCode o')), (''creditedAmount'', GF64 (po_Amount o')),
                     (''payAmount'', GF64 (po_PayAmount o'))])
             (\<lambda>_. Ret None))"

definition markFailed :: "int \<Rightarrow> go_error \<Rightarrow> unit pay_prog" where
  "markFailed oid cause =
     (let r = psErrMsg (Some cause) in
      try_else (call (order_Update oid (\<lambda>_ o'. po_Status o' = OrderStatusRecharging)
                  (\<lambda>now o'. o'\<lparr>po_Status := OrderStatusFailed, po_FailedAt := Some now, po_FailedReason := Some r\<rparr>)))
        (\<lambda>_. Ret ())
        (\<lambda>c. if 0 < c then writeAuditLog oid ''FULFILLMENT_FAILED'' ''system'' [(''reason'', GStr r)] else Ret ()))"

section \<open>The affiliate rebate\<close>

definition roundTo :: "float64 \<Rightarrow> nat \<Rightarrow> float64" where
  "roundTo v scale = (let factor = f_of_int (10 ^ scale) in f_div (f_round (f_mul v factor)) factor)"

definition affiliateEligiblePaidAmount :: "pay_order \<Rightarrow> float64" where
  "affiliateEligiblePaidAmount o' = (if f_le (po_PayAmount o') f_zero then f_zero else po_PayAmount o')"

text \<open>The rate is a setting; anything that is not a positive number means 7.\<close>

definition affiliateRebateCNYPerUSD :: "string option \<Rightarrow> float64" where
  "affiliateRebateCNYPerUSD setting =
     (case setting of
        None \<Rightarrow> f_of_int 7
      | Some raw \<Rightarrow>
          if trim_space raw = [] then f_of_int 7
          else (case parse_float (trim_space raw) of
                  None \<Rightarrow> f_of_int 7
                | Some rate \<Rightarrow>
                    if \<not> f_is_nan rate \<and> \<not> f_is_inf rate \<and> f_lt f_zero rate then rate else f_of_int 7))"

definition affiliateRebateBaseAmountUSD :: "string option \<Rightarrow> pay_order \<Rightarrow> (float64 \<times> string) option" where
  "affiliateRebateBaseAmountUSD setting o' =
     (if f_le (po_PayAmount o') f_zero \<or> f_is_nan (po_PayAmount o') \<or> f_is_inf (po_PayAmount o') then None
      else (let eligiblePayAmount = affiliateEligiblePaidAmount o'; currency = PaymentOrderCurrency o' in
            if f_le eligiblePayAmount f_zero then None
            else if paymentOrderIsUSDT o' \<or> equal_fold currency TypeUSDT
            then Some (roundTo (f_mul eligiblePayAmount (affiliateRebateCNYPerUSD setting)) 8, ''USD'')
            else if paymentOrderIsRMB o' \<or> equal_fold currency DefaultPaymentCurrency
            then Some (roundTo eligiblePayAmount 8, ''USD'')
            else None))"

definition rebate_detail :: "pay_order \<Rightarrow> float64 \<Rightarrow> string \<Rightarrow> (string \<times> goval) list" where
  "rebate_detail o' baseAmountUSD baseCurrency =
     [(''baseAmount'', GF64 baseAmountUSD), (''baseCurrency'', GStr baseCurrency),
      (''eligiblePaidAmount'', GF64 (affiliateEligiblePaidAmount o')), (''paidAmount'', GF64 (po_PayAmount o')),
      (''orderAmount'', GF64 (po_Amount o')), (''paymentType'', GStr (po_PaymentType o')),
      (''providerKey'', GStr (psStringValue (po_ProviderKey o'))),
      (''paymentCurrency'', GStr (PaymentOrderCurrency o'))]"

definition tryClaimAffiliateRebateAudit :: "int \<Rightarrow> float64 \<Rightarrow> gtime \<Rightarrow> pay_db \<Rightarrow> bool \<times> pay_db" where
  "tryClaimAffiliateRebateAudit orderID baseAmount now db =
     (if list_ex (\<lambda>a. audit_is orderID ''AFFILIATE_REBATE_APPLIED'' a \<or> audit_is orderID ''AFFILIATE_REBATE_SKIPPED'' a)
           (pd_audits db)
      then (False, db)
      else (True, db\<lparr>pd_audits := pd_audits db @
              [\<lparr>al_OrderID = itoa orderID, al_Action = ''AFFILIATE_REBATE_APPLIED'', al_Operator = ''system'',
                al_Detail = [(''baseAmount'', GF64 baseAmount), (''status'', GStr ''reserved'')],
                al_CreatedAt = now\<rparr>]\<rparr>))"

definition updateClaimedAffiliateRebateAudit ::
    "int \<Rightarrow> string \<Rightarrow> (string \<times> goval) list \<Rightarrow> pay_db \<Rightarrow> (go_error + unit) \<times> pay_db" where
  "updateClaimedAffiliateRebateAudit orderID action detail db =
     (let hit = audit_is orderID ''AFFILIATE_REBATE_APPLIED'' in
      if \<not> list_ex hit (pd_audits db) then (Inl (plain ''affiliate rebate claim log not found''), db)
      else (Inr (), db\<lparr>pd_audits := map (\<lambda>a. if hit a
                          then a\<lparr>al_Action := action, al_Detail := detail, al_Operator := ''system''\<rparr> else a)
                          (pd_audits db)\<rparr>))"

text \<open>The transaction that claims the order, accrues the rebate (the affiliate service is part of
  the world) and records the outcome.\<close>

definition rebate_tx :: "pay_order \<Rightarrow> float64 \<Rightarrow> string \<Rightarrow> pay_world \<Rightarrow> unit statement" where
  "rebate_tx o' baseAmountUSD baseCurrency w now db =
     (case w_stage w ''rebate_begin'' of
        Some e \<Rightarrow> (Inl (wrap ''begin affiliate rebate tx'' e), db)
      | None \<Rightarrow>
      (case w_stage w ''rebate_claim'' of
        Some e \<Rightarrow> (Inl (wrap ''claim affiliate rebate audit'' e), db)
      | None \<Rightarrow>
      (case tryClaimAffiliateRebateAudit (po_ID o') baseAmountUSD now db of
        (False, _) \<Rightarrow> (Inr (), db)
      | (True, db1) \<Rightarrow>
      (case w_Accrue w (po_UserID o') baseAmountUSD (po_ID o') of
        Inl e \<Rightarrow> (Inl (wrap ''accrue affiliate rebate'' e), db)
      | Inr rebateAmount \<Rightarrow>
          (let skipped = f_le rebateAmount f_zero;
               what = (if skipped then ''update affiliate rebate skipped audit''
                       else ''update affiliate rebate applied audit'');
               detail = rebate_detail o' baseAmountUSD baseCurrency
                        @ (if skipped then [(''reason'', GStr ''no inviter bound or rebate amount <= 0'')]
                           else [(''rebateAmount'', GF64 rebateAmount)])
           in case w_stage w ''rebate_update'' of
                Some e \<Rightarrow> (Inl (wrap what e), db)
              | None \<Rightarrow>
                  wrap_fst what
                    (updateClaimedAffiliateRebateAudit (po_ID o')
                       (if skipped then ''AFFILIATE_REBATE_SKIPPED'' else ''AFFILIATE_REBATE_APPLIED'')
                       detail db1))))))"

text \<open>The audit entry of a failure has the error itself, except for beginning and committing.\<close>

fun rebate_failure :: "go_error \<Rightarrow> string" where
  "rebate_failure (PlainError what (Some e)) =
     (if what \<in> {''begin affiliate rebate tx'', ''commit affiliate rebate tx''}
      then error_text (PlainError what (Some e)) else error_text e)"
| "rebate_failure e = error_text e"

definition applyAffiliateRebateForOrder :: "pay_env \<Rightarrow> pay_order \<Rightarrow> go_error option pay_prog" where
  "applyAffiliateRebateForOrder env o' =
     (if po_OrderType o' \<noteq> OrderTypeBalance \<or> \<not> pe_affiliate env then Ret None
      else bind (ask w_Setting) (\<lambda>setting.
        case affiliateRebateBaseAmountUSD setting o' of
          None \<Rightarrow> Ret None
        | Some (baseAmountUSD, baseCurrency) \<Rightarrow>
            if f_le baseAmountUSD f_zero then Ret None
            else try_else (txn ''commit affiliate rebate tx'' (rebate_tx o' baseAmountUSD baseCurrency))
                   (\<lambda>e. bind (writeAuditLog (po_ID o') ''AFFILIATE_REBATE_FAILED'' ''system''
                                [(''error'', GStr (rebate_failure e))]) (\<lambda>_. Ret (Some e)))
                   (\<lambda>_. Ret None)))"

section \<open>Balance orders\<close>

datatype redeemAction = redeemActionCreate | redeemActionRedeem | redeemActionSkipCompleted

definition resolveRedeemAction :: "(go_error + redeem_row) \<Rightarrow> redeemAction" where
  "resolveRedeemAction lookup =
     (case lookup of
        Inl _ \<Rightarrow> redeemActionCreate
      | Inr existing \<Rightarrow> if Redeem_IsUsed existing then redeemActionSkipCompleted else redeemActionRedeem)"

definition recharge_code_of :: "pay_order \<Rightarrow> redeem_row" where
  "recharge_code_of o' =
     \<lparr>rc_Status = StatusUnused, rc_ExpiresAt = None, rr_ID = 0, rr_Code = po_RechargeCode o',
      rr_Type = RedeemTypeBalance, rr_Value = po_Amount o', rr_UsedBy = None, rr_UsedAt = None,
      rr_Notes = [], rr_CreatedAt = zero_time, rr_GroupID = None, rr_ValidityDays = 0\<rparr>"

definition rebate_and_complete :: "pay_env \<Rightarrow> pay_order \<Rightarrow> go_error option pay_prog" where
  "rebate_and_complete env o' =
     bind (applyAffiliateRebateForOrder env o') (\<lambda>r.
       case r of Some e \<Rightarrow> Ret (Some e) | None \<Rightarrow> markCompleted o' ''RECHARGE_SUCCESS'')"

definition redeem_and_complete :: "pay_env \<Rightarrow> pay_order \<Rightarrow> go_error option pay_prog" where
  "redeem_and_complete env o' =
     try_else (Redeem env (po_UserID o') (po_RechargeCode o'))
       (\<lambda>e. Ret (Some (wrap ''redeem balance'' e))) (\<lambda>_. rebate_and_complete env o')"

definition doBalance :: "pay_env \<Rightarrow> pay_order \<Rightarrow> go_error option pay_prog" where
  "doBalance env o' =
     bind (redeem_GetByCode (po_RechargeCode o')) (\<lambda>lookup.
       case resolveRedeemAction lookup of
         redeemActionSkipCompleted \<Rightarrow> rebate_and_complete env o'
       | redeemActionCreate \<Rightarrow>
           try_else (CreateCode (recharge_code_of o'))
             (\<lambda>e. Ret (Some (wrap ''create redeem code'' e))) (\<lambda>_. redeem_and_complete env o')
       | redeemActionRedeem \<Rightarrow> redeem_and_complete env o')"

section \<open>Subscription orders\<close>

definition group_GetByID :: "int \<Rightarrow> (go_error + group) pay_prog" where
  "group_GetByID gid =
     atomic (\<lambda>w db. lost_or (db_outcome (w_fault w)
       (of_option (sub_go_error ErrGroupNotFound) (w_groups w gid), db) db))"

definition assign_or_extend :: "pay_env \<Rightarrow> assign_input \<Rightarrow> (go_error + user_subscription \<times> bool) pay_prog" where
  "assign_or_extend env input =
     atomic (\<lambda>w db. lost_or (db_outcome (w_fault w)
       (on_subs (AssignOrExtendSubscription (w_groups w) (pe_loc env) (w_now w) input) db) db))"

definition doSub :: "pay_env \<Rightarrow> pay_order \<Rightarrow> int \<Rightarrow> int \<Rightarrow> go_error option pay_prog" where
  "doSub env o' gid days =
     (let gone = Ret (Some (plain (''group '' @ itoa gid @ '' no longer exists or inactive''))) in
      try_else (group_GetByID gid) (\<lambda>_. gone) (\<lambda>g.
        if grp_Status g \<noteq> StatusActive then gone
        else bind (hasAuditLog (po_ID o') ''SUBSCRIPTION_SUCCESS'') (\<lambda>had.
          if had then markCompleted o' ''SUBSCRIPTION_SUCCESS''
          else try_else (assign_or_extend env
                   \<lparr>in_UserID = po_UserID o', in_GroupID = gid, in_ValidityDays = days, in_AssignedBy = 0,
                    in_Notes = ''payment order '' @ itoa (po_ID o')\<rparr>)
                 (\<lambda>e. Ret (Some (wrap ''assign subscription'' e)))
                 (\<lambda>_. markCompleted o' ''SUBSCRIPTION_SUCCESS''))))"

section \<open>Fulfilment\<close>

definition invalid_status :: "string \<Rightarrow> go_error" where
  "invalid_status m = BadRequest ''INVALID_STATUS'' m"

definition order_not_found :: go_error where
  "order_not_found = NotFound ''NOT_FOUND'' ''order not found''"

text \<open>The lock: only a paid or failed order becomes RECHARGING.\<close>

definition lock_recharging :: "int \<Rightarrow> (go_error + int) pay_prog" where
  "lock_recharging oid =
     call (order_Update oid (\<lambda>_ r. po_Status r \<in> {OrderStatusPaid, OrderStatusFailed})
       (\<lambda>_ r. r\<lparr>po_Status := OrderStatusRecharging\<rparr>))"

text \<open>The guards that both kinds of orders share; \<open>k\<close> goes on with a paid or failed order.\<close>

definition fulfil_guards :: "int \<Rightarrow> (pay_order \<Rightarrow> go_error option pay_prog) \<Rightarrow> go_error option pay_prog" where
  "fulfil_guards oid k =
     try_else (call (order_Get oid)) (\<lambda>_. Ret (Some order_not_found)) (\<lambda>r.
       case r of
         None \<Rightarrow> Ret (Some order_not_found)
       | Some o' \<Rightarrow>
           if po_Status o' = OrderStatusCompleted then Ret None
           else if psIsRefundStatus (po_Status o')
           then Ret (Some (invalid_status ''refund-related order cannot fulfill''))
           else if po_Status o' \<notin> {OrderStatusPaid, OrderStatusFailed}
           then Ret (Some (invalid_status (''order cannot fulfill in status '' @ po_Status o')))
           else k o')"

definition locked_do :: "int \<Rightarrow> go_error option pay_prog \<Rightarrow> go_error option pay_prog" where
  "locked_do oid work =
     try_else (lock_recharging oid) (\<lambda>e. Ret (Some (wrap ''lock'' e))) (\<lambda>c.
       if c = 0 then Ret None
       else bind work (\<lambda>r.
         case r of
           None \<Rightarrow> Ret None
         | Some e \<Rightarrow> bind (markFailed oid e) (\<lambda>_. Ret (Some e))))"

definition ExecuteBalanceFulfillment :: "pay_env \<Rightarrow> int \<Rightarrow> go_error option pay_prog" where
  "ExecuteBalanceFulfillment env oid = fulfil_guards oid (\<lambda>o'. locked_do oid (doBalance env o'))"

definition ExecuteSubscriptionFulfillment :: "pay_env \<Rightarrow> int \<Rightarrow> go_error option pay_prog" where
  "ExecuteSubscriptionFulfillment env oid =
     fulfil_guards oid (\<lambda>o'.
       case (po_SubscriptionGroupID o', po_SubscriptionDays o') of
         (Some gid, Some days) \<Rightarrow> locked_do oid (doSub env o' gid days)
       | _ \<Rightarrow> Ret (Some (invalid_status ''missing subscription info'')))"

definition executeFulfillment :: "pay_env \<Rightarrow> int \<Rightarrow> go_error option pay_prog" where
  "executeFulfillment env oid =
     try_else (call (order_Get oid)) (\<lambda>e. Ret (Some (wrap ''get order'' e))) (\<lambda>r.
       case r of
         None \<Rightarrow> Ret (Some (wrap ''get order'' (plain ''ent: payment_order not found'')))
       | Some o' \<Rightarrow>
           if po_OrderType o' = OrderTypeSubscription then ExecuteSubscriptionFulfillment env oid
           else ExecuteBalanceFulfillment env oid)"

section \<open>Notifications\<close>

definition alreadyProcessed :: "pay_env \<Rightarrow> pay_order \<Rightarrow> go_error option pay_prog" where
  "alreadyProcessed env o' =
     try_else (call (order_Get (po_ID o'))) (\<lambda>_. Ret None) (\<lambda>r.
       case r of
         None \<Rightarrow> Ret None
       | Some cur \<Rightarrow>
           if po_Status cur \<in> {OrderStatusCompleted, OrderStatusRefunded} then Ret None
           else if po_Status cur = OrderStatusFailed then executeFulfillment env (po_ID o')
           else if po_Status cur \<in> {OrderStatusPaid, OrderStatusRecharging}
           then Ret (Some (plain (''order '' @ itoa (po_ID o') @ '' is being processed'')))
           else if po_Status cur = OrderStatusExpired
           then bind (writeAuditLog (po_ID o') ''PAYMENT_AFTER_EXPIRY'' ''system''
                        [(''status'', GStr (po_Status cur)), (''updatedAt'', GOther),
                         (''reason'', GStr ''payment arrived after expiry grace period'')])
                  (\<lambda>_. Ret None)
           else Ret None)"

abbreviation paymentGraceMinutes :: int where "paymentGraceMinutes \<equiv> 5"

definition payable :: "gtime \<Rightarrow> pay_order \<Rightarrow> bool" where
  "payable now r \<longleftrightarrow>
     po_Status r = OrderStatusPending \<or> po_Status r = OrderStatusCancelled
     \<or> (po_Status r = OrderStatusExpired \<and> now - paymentGraceMinutes * minute \<le> po_UpdatedAt r)"

definition paid_recorded :: "pay_env \<Rightarrow> pay_order \<Rightarrow> string \<Rightarrow> float64 \<Rightarrow> string \<Rightarrow> go_error option pay_prog" where
  "paid_recorded env o' tradeNo paid pk =
     (let previousStatus = po_Status o' in
      bind (if previousStatus \<in> {OrderStatusCancelled, OrderStatusExpired}
            then writeAuditLog (po_ID o') ''ORDER_RECOVERED'' pk
                   [(''previous_status'', GStr previousStatus), (''tradeNo'', GStr tradeNo),
                    (''paidAmount'', GF64 paid),
                    (''reason'', GStr (''webhook payment success received after order '' @ previousStatus))]
            else Ret ()) (\<lambda>_.
      bind (writeAuditLog (po_ID o') ''ORDER_PAID'' pk
              [(''tradeNo'', GStr tradeNo), (''paidAmount'', GF64 paid)]) (\<lambda>_.
      executeFulfillment env (po_ID o'))))"

definition toPaid :: "pay_env \<Rightarrow> pay_order \<Rightarrow> string \<Rightarrow> float64 \<Rightarrow> string \<Rightarrow> go_error option pay_prog" where
  "toPaid env o' tradeNo paid pk =
     try_else (call (order_Update (po_ID o') payable
                 (\<lambda>now r. r\<lparr>po_Status := OrderStatusPaid, po_PayAmount := paid, po_PaymentTradeNo := tradeNo,
                            po_PaidAt := Some now, po_FailedAt := None, po_FailedReason := None\<rparr>)))
       (\<lambda>e. Ret (Some (wrap ''update to PAID'' e)))
       (\<lambda>c. if c = 0 then alreadyProcessed env o' else paid_recorded env o' tradeNo paid pk)"

text \<open>The checks of a notification for a known order; \<open>registered\<close> and \<open>inst\<close> tell which provider is
  expected.\<close>

definition confirm_order ::
    "pay_env \<Rightarrow> pay_order \<Rightarrow> string \<Rightarrow> float64 \<Rightarrow> string \<Rightarrow> string gomap option \<Rightarrow> (string \<Rightarrow> string)
     \<Rightarrow> go_error + pay_instance option \<Rightarrow> go_error option pay_prog" where
  "confirm_order env o' tradeNo paid pk metadata registered inst =
     (let instanceProviderKey = (case inst of Inr (Some i) \<Rightarrow> pi_ProviderKey i | _ \<Rightarrow> []);
          expectedKey = expectedNotificationProviderKeyForOrder registered o' instanceProviderKey;
          reject = (\<lambda>action detail e. bind (writeAuditLog (po_ID o') action pk detail) (\<lambda>_. Ret (Some e)));
          amounts = [(''expected'', GF64 (po_PayAmount o')), (''paid'', GF64 paid), (''tradeNo'', GStr tradeNo)]
      in if expectedKey \<noteq> [] \<and> trim_space pk \<noteq> [] \<and> \<not> equal_fold expectedKey (trim_space pk)
         then reject ''PAYMENT_PROVIDER_MISMATCH''
                [(''expectedProvider'', GStr expectedKey), (''actualProvider'', GStr pk), (''tradeNo'', GStr tradeNo)]
                (plain (''provider mismatch: expected '' @ expectedKey @ '', got '' @ pk))
         else (case validateProviderSnapshotMetadata o' pk metadata of
            Some e \<Rightarrow> reject ''PAYMENT_PROVIDER_METADATA_MISMATCH''
                        [(''detail'', GStr (error_text e)), (''tradeNo'', GStr tradeNo)] e
          | None \<Rightarrow>
              if \<not> isValidProviderAmount paid
              then reject ''PAYMENT_INVALID_AMOUNT'' amounts (plain (''invalid paid amount from provider: '' @ Sprint_v paid))
              else if \<not> isProviderPaidAmountAcceptable o' paid pk
              then reject ''PAYMENT_AMOUNT_MISMATCH'' amounts
                     (plain (''amount mismatch: expected '' @ FormatFloat_f (po_PayAmount o')
                             @ '', got '' @ FormatFloat_f paid))
              else toPaid env o' tradeNo paid pk))"

definition confirmPayment ::
    "pay_env \<Rightarrow> int \<Rightarrow> string \<Rightarrow> float64 \<Rightarrow> string \<Rightarrow> string gomap option \<Rightarrow> go_error option pay_prog" where
  "confirmPayment env oid tradeNo paid pk metadata =
     try_else (call (order_Get oid)) (\<lambda>_. Ret None) (\<lambda>r.
       case r of
         None \<Rightarrow> Ret None
       | Some o' \<Rightarrow>
           bind (getOrderProviderInstance o') (\<lambda>inst.
           bind (peek (\<lambda>db. registry_GetProviderKey (pd_registry db))) (\<lambda>registered.
           confirm_order env o' tradeNo paid pk metadata registered inst)))"

definition orderIDPrefix :: string where
  "orderIDPrefix = ''sub2_''"

text \<open>Called when the lookup found nothing.\<close>

definition parseLegacyPaymentOrderID :: "string \<Rightarrow> int option" where
  "parseLegacyPaymentOrderID orderID0 =
     (let orderID = trim_space orderID0; trimmed = trim_prefix orderID orderIDPrefix in
      if \<not> has_prefix orderID orderIDPrefix then None
      else if trimmed = [] \<or> trimmed = orderID then None
      else (case parse_int64 trimmed of
              None \<Rightarrow> None
            | Some oid \<Rightarrow> if oid \<le> 0 then None else Some oid))"

record notification =
  nt_TradeNo :: string
  nt_OrderID :: string
  nt_Amount :: float64
  nt_Status :: string
  nt_Metadata :: "string gomap option"

definition ErrOrderNotFound :: go_error where
  "ErrOrderNotFound = plain ''payment order not found''"

definition HandlePaymentNotification :: "pay_env \<Rightarrow> notification \<Rightarrow> string \<Rightarrow> go_error option pay_prog" where
  "HandlePaymentNotification env n pk =
     (if nt_Status n \<noteq> ''success'' then Ret None
      else try_else (call (order_ByOutTradeNo (nt_OrderID n)))
        (\<lambda>e. Ret (Some (wrap (''lookup order failed for out_trade_no '' @ nt_OrderID n) e)))
        (\<lambda>r. case r of
           Some order \<Rightarrow> confirmPayment env (po_ID order) (nt_TradeNo n) (nt_Amount n) pk (nt_Metadata n)
         | None \<Rightarrow>
             (case parseLegacyPaymentOrderID (nt_OrderID n) of
                Some oid \<Rightarrow> confirmPayment env oid (nt_TradeNo n) (nt_Amount n) pk (nt_Metadata n)
              | None \<Rightarrow> Ret (Some (PlainError (''out_trade_no='' @ nt_OrderID n) (Some ErrOrderNotFound))))))"

section \<open>Retry by an administrator\<close>

definition RetryFulfillment :: "pay_env \<Rightarrow> int \<Rightarrow> go_error option pay_prog" where
  "RetryFulfillment env oid =
     try_else (call (order_Get oid)) (\<lambda>_. Ret (Some order_not_found)) (\<lambda>r.
       case r of
         None \<Rightarrow> Ret (Some order_not_found)
       | Some o' \<Rightarrow>
           if po_PaidAt o' = None then Ret (Some (invalid_status ''order is not paid''))
           else if psIsRefundStatus (po_Status o')
           then Ret (Some (invalid_status ''refund-related order cannot retry''))
           else if po_Status o' = OrderStatusRecharging
           then Ret (Some (Conflict ''CONFLICT'' ''order is being processed''))
           else if po_Status o' = OrderStatusCompleted
           then Ret (Some (invalid_status ''order already completed''))
           else if po_Status o' \<notin> {OrderStatusFailed, OrderStatusPaid}
           then Ret (Some (invalid_status ''only paid and failed orders can retry''))
           else try_else (call (order_Update oid (\<lambda>_ r. po_Status r \<in> {OrderStatusFailed, OrderStatusPaid})
                    (\<lambda>_ r. r\<lparr>po_Status := OrderStatusPaid, po_FailedAt := None, po_FailedReason := None\<rparr>)))
                  (\<lambda>e. Ret (Some (wrap ''reset for retry'' e)))
                  (\<lambda>_. bind (writeAuditLog oid ''RECHARGE_RETRY'' ''admin'' [(''detail'', GStr ''admin manual retry'')])
                        (\<lambda>_. executeFulfillment env oid)))"

end
