(* ===== verification/PayLifecycle.thy ===== *)
theory PayLifecycle
  imports PayFulfil
begin

text \<open>
  The rest of an order's life before it is paid (\<open>service/payment_order_lifecycle.go\<close>,
  \<open>service/payment_order_expiry_service.go\<close>): asking the provider whether an order was paid,
  cancelling, expiring and reconciling, with the registry of providers
  (\<open>service/payment_service.go\<close>).
\<close>

section \<open>The provider of an order\<close>

text \<open>Decrypting the configuration and creating the provider is up to the world (\<open>w_Make\<close>).\<close>

definition createProviderFromInstance :: "pay_instance \<Rightarrow> (go_error + pay_provider) pay_prog" where
  "createProviderFromInstance inst = ask (\<lambda>w. w_Make w inst)"

text \<open>\<open>loadProviders\<close>: an instance that cannot be created is skipped; when the query fails the
  registry stays as it is.\<close>

definition loaded :: "(pay_instance \<Rightarrow> go_error + pay_provider) \<Rightarrow> pay_instance list
    \<Rightarrow> (string \<times> pay_provider) list \<Rightarrow> (string \<times> pay_provider) list" where
  "loaded mk instances r =
     foldl (\<lambda>r inst. case mk inst of Inl _ \<Rightarrow> r | Inr p \<Rightarrow> registry_Register p r) r instances"

text \<open>A mutex makes loading one step. After a failed query the providers count as loaded.\<close>

definition EnsureProviders :: "unit pay_prog" where
  "EnsureProviders =
     atomic (\<lambda>w db.
       ((), case pd_registry db of
              Some _ \<Rightarrow> db
            | None \<Rightarrow>
                db\<lparr>pd_registry := Some (case w_fault w of
                     Answered \<Rightarrow> loaded (w_Make w) (filter pi_Enabled (pd_instances db)) []
                   | _ \<Rightarrow> [])\<rparr>))"

definition RefreshProviders :: "unit pay_prog" where
  "RefreshProviders =
     atomic (\<lambda>w db.
       ((), db\<lparr>pd_registry := Some (case w_fault w of
                  Answered \<Rightarrow> loaded (w_Make w) (filter pi_Enabled (pd_instances db)) []
                | _ \<Rightarrow> [])\<rparr>))"

definition webhookRegistryFallbackAllowed :: "string \<Rightarrow> bool pay_prog" where
  "webhookRegistryFallbackAllowed providerKey0 =
     (let providerKey = trim_space providerKey0 in
      if providerKey = [] then Ret False
      else try_else (call (instance_Where (\<lambda>r. pi_ProviderKey r = providerKey \<and> pi_Enabled r)))
             (\<lambda>_. Ret False) (\<lambda>rows. Ret (length rows \<le> 1)))"

definition paymentOrderAllowsRegistryFallback :: "pay_order \<Rightarrow> bool" where
  "paymentOrderAllowsRegistryFallback order \<longleftrightarrow> trim_space (psStringValue (po_ProviderInstanceID order)) = []"

definition paymentOrderFallbackProviderKey :: "(string \<Rightarrow> string) \<Rightarrow> pay_order \<Rightarrow> string" where
  "paymentOrderFallbackProviderKey registered order =
     (let key = trim_space (registered (po_PaymentType order)) in
      if key \<noteq> [] then key else trim_space (GetBasePaymentType (trim_space (po_PaymentType order))))"

definition ErrProviderNotFound :: go_error where
  "ErrProviderNotFound = NotFound ''PROVIDER_NOT_FOUND'' ''payment provider not registered''"

definition getOrderProvider :: "pay_order \<Rightarrow> (go_error + pay_provider) pay_prog" where
  "getOrderProvider o' =
     try_else (getOrderProviderInstance o') (\<lambda>e. Ret (Inl (wrap ''load order provider instance'' e))) (\<lambda>oinst.
       case oinst of
         Some inst \<Rightarrow> createProviderFromInstance inst
       | None \<Rightarrow>
           if \<not> paymentOrderAllowsRegistryFallback o'
           then Ret (Inl (plain (''order '' @ itoa (po_ID o') @ '' provider instance is unresolved'')))
           else bind (peek (\<lambda>db. registry_GetProviderKey (pd_registry db))) (\<lambda>registered.
             (let providerKey = paymentOrderFallbackProviderKey registered o' in
              if providerKey = []
              then Ret (Inl (plain (''order '' @ itoa (po_ID o') @ '' provider fallback key is missing'')))
              else bind (webhookRegistryFallbackAllowed providerKey) (\<lambda>allowed.
                if \<not> allowed
                then Ret (Inl (plain (''order '' @ itoa (po_ID o') @ '' provider fallback is ambiguous for '' @ providerKey)))
                else bind EnsureProviders (\<lambda>_.
                     peek (\<lambda>db. of_option ErrProviderNotFound
                                  (registry_GetProvider (pd_registry db) (po_PaymentType o'))))))))"

definition paymentOrderQueryReference :: "pay_order \<Rightarrow> pay_provider \<Rightarrow> string" where
  "paymentOrderQueryReference order prov =
     (let k1 = trim_space (pv_Key prov);
          k2 = (if k1 = [] then (case psOrderProviderSnapshot order of
                                   None \<Rightarrow> [] | Some snapshot \<Rightarrow> trim_space (ps_ProviderKey snapshot))
                else k1);
          k3 = (if k2 = [] then trim_space (psStringValue (po_ProviderKey order)) else k2);
          k4 = (if k3 = [] then trim_space (po_PaymentType order) else k3)
      in if GetBasePaymentType k4 \<in> {TypeAlipay, TypeEasyPay, TypeWxpay} then trim_space (po_OutTradeNo order)
         else if trim_space (po_PaymentTradeNo order) \<noteq> [] then trim_space (po_PaymentTradeNo order)
         else trim_space (po_OutTradeNo order))"

definition paymentOrderShouldPersistUpstreamTradeNo :: "string \<Rightarrow> string \<Rightarrow> string \<Rightarrow> bool" where
  "paymentOrderShouldPersistUpstreamTradeNo queryRef upstreamTradeNo currentTradeNo \<longleftrightarrow>
     trim_space upstreamTradeNo \<noteq> []
     \<and> \<not> equal_fold (trim_space upstreamTradeNo) (trim_space currentTradeNo)
     \<and> \<not> equal_fold (trim_space upstreamTradeNo) (trim_space queryRef)"

section \<open>Asking the provider\<close>

abbreviation ProviderStatusPaid :: string where "ProviderStatusPaid \<equiv> ''paid''"
abbreviation checkPaidResultAlreadyPaid :: string where "checkPaidResultAlreadyPaid \<equiv> ''already_paid''"
abbreviation checkPaidResultCancelled :: string where "checkPaidResultCancelled \<equiv> ''cancelled''"

definition requeryPaidOrderOnce :: "pay_provider \<Rightarrow> string \<Rightarrow> query_response option pay_prog" where
  "requeryPaidOrderOnce prov queryRef =
     (if trim_space queryRef = [] then Ret None
      else try_else (ask (\<lambda>w. w_QueryOrder w prov queryRef)) (\<lambda>_. Ret None) (\<lambda>resp.
             Ret (if qr_Status resp \<noteq> ProviderStatusPaid \<or> \<not> isValidProviderAmount (qr_Amount resp)
                  then None else Some resp)))"

text \<open>The paid order is handled as if the notification had come; whatever comes of it, the order
  counts as already paid.\<close>

definition confirm_upstream ::
    "pay_env \<Rightarrow> pay_order \<Rightarrow> pay_provider \<Rightarrow> string \<Rightarrow> query_response \<Rightarrow> string pay_prog" where
  "confirm_upstream env o' prov queryRef resp =
     (let upstreamTradeNo = trim_space (qr_TradeNo resp);
          persist = paymentOrderShouldPersistUpstreamTradeNo queryRef upstreamTradeNo (po_PaymentTradeNo o');
          notificationTradeNo = (if persist then upstreamTradeNo else po_PaymentTradeNo o')
      in bind (if persist
               then bind (call (order_Update (po_ID o') (\<lambda>_ _. True)
                            (\<lambda>_ r. r\<lparr>po_PaymentTradeNo := upstreamTradeNo\<rparr>))) (\<lambda>_. Ret ())
               else Ret ()) (\<lambda>_.
         bind (HandlePaymentNotification env
                 \<lparr>nt_TradeNo = notificationTradeNo, nt_OrderID = po_OutTradeNo o', nt_Amount = qr_Amount resp,
                  nt_Status = ''success'', nt_Metadata = qr_Metadata resp\<rparr> (pv_Key prov)) (\<lambda>_.
         Ret checkPaidResultAlreadyPaid)))"

text \<open>Cancelling at the provider changes nothing here, and its error is ignored.\<close>

definition checkPaidWithOptions :: "pay_env \<Rightarrow> pay_order \<Rightarrow> bool \<Rightarrow> string pay_prog" where
  "checkPaidWithOptions env o' cancelIfUnpaid =
     try_else (getOrderProvider o') (\<lambda>_. Ret []) (\<lambda>prov.
       (let queryRef = paymentOrderQueryReference o' prov in
        if queryRef = [] then Ret []
        else try_else (ask (\<lambda>w. w_QueryOrder w prov queryRef)) (\<lambda>_. Ret []) (\<lambda>resp.
          if qr_Status resp = ProviderStatusPaid
          then (if isValidProviderAmount (qr_Amount resp) then confirm_upstream env o' prov queryRef resp
                else bind (writeAuditLog (po_ID o') ''PAYMENT_INVALID_AMOUNT'' (pv_Key prov)
                             [(''expected'', GF64 (po_PayAmount o')), (''paid'', GF64 (qr_Amount resp)),
                              (''tradeNo'', GStr (qr_TradeNo resp)), (''queryRef'', GStr queryRef)]) (\<lambda>_.
                     bind (requeryPaidOrderOnce prov queryRef) (\<lambda>retried.
                       case retried of
                         None \<Rightarrow> Ret []
                       | Some resp' \<Rightarrow> confirm_upstream env o' prov queryRef resp')))
          else if \<not> cancelIfUnpaid then Ret []
          else if pv_Cancelable prov then bind (ask (\<lambda>_. ())) (\<lambda>_. Ret [])
          else Ret [])))"

definition checkPaid :: "pay_env \<Rightarrow> pay_order \<Rightarrow> string pay_prog" where
  "checkPaid env o' = checkPaidWithOptions env o' True"

definition reconcilePaid :: "pay_env \<Rightarrow> pay_order \<Rightarrow> string pay_prog" where
  "reconcilePaid env o' = checkPaidWithOptions env o' False"

section \<open>Cancelling\<close>

definition cancelCore :: "pay_env \<Rightarrow> pay_order \<Rightarrow> string \<Rightarrow> string \<Rightarrow> string \<Rightarrow> (go_error + string) pay_prog" where
  "cancelCore env o' fs op ad =
     bind (if po_PaymentTradeNo o' \<noteq> [] \<or> po_PaymentType o' \<noteq> [] then checkPaid env o' else Ret []) (\<lambda>paid.
       if paid = checkPaidResultAlreadyPaid then Ret (Inr checkPaidResultAlreadyPaid)
       else try_else (call (order_Update (po_ID o') (\<lambda>_ r. po_Status r = OrderStatusPending)
                       (\<lambda>_ r. r\<lparr>po_Status := fs\<rparr>)))
              (\<lambda>e. Ret (Inl (wrap ''update order status'' e)))
              (\<lambda>c. bind (if 0 < c
                         then writeAuditLog (po_ID o')
                                (if fs = OrderStatusExpired then ''ORDER_EXPIRED'' else ''ORDER_CANCELLED'')
                                op [(''detail'', GStr ad)]
                         else Ret ()) (\<lambda>_. Ret (Inr checkPaidResultCancelled))))"

definition user_operator :: "int \<Rightarrow> string" where
  "user_operator userID = ''user:'' @ itoa userID"

definition with_order :: "int \<Rightarrow> (pay_order \<Rightarrow> (go_error + 'a) pay_prog) \<Rightarrow> (go_error + 'a) pay_prog" where
  "with_order oid k =
     try_else (call (order_Get oid)) (\<lambda>_. Ret (Inl order_not_found)) (\<lambda>r.
       case r of None \<Rightarrow> Ret (Inl order_not_found) | Some o' \<Rightarrow> k o')"

definition CancelOrder :: "pay_env \<Rightarrow> int \<Rightarrow> int \<Rightarrow> (go_error + string) pay_prog" where
  "CancelOrder env orderID userID =
     with_order orderID (\<lambda>o'.
       if po_UserID o' \<noteq> userID then Ret (Inl (Forbidden ''FORBIDDEN'' ''no permission for this order''))
       else if po_Status o' \<noteq> OrderStatusPending
       then Ret (Inl (invalid_status ''order cannot be cancelled in current status''))
       else cancelCore env o' OrderStatusCancelled (user_operator userID) ''user cancelled order'')"

definition AdminCancelOrder :: "pay_env \<Rightarrow> int \<Rightarrow> (go_error + string) pay_prog" where
  "AdminCancelOrder env orderID =
     with_order orderID (\<lambda>o'.
       if po_Status o' \<noteq> OrderStatusPending
       then Ret (Inl (invalid_status ''order cannot be cancelled in current status''))
       else cancelCore env o' OrderStatusCancelled ''admin'' ''admin cancelled order'')"

section \<open>The limit on cancelling\<close>

record cancel_limit =
  cl_Enabled :: bool
  cl_Max :: int
  cl_Window :: int
  cl_Unit :: string
  cl_Mode :: string

text \<open>\<open>Truncate(d)\<close> rounds down to a multiple of \<open>d\<close> since the zero time.\<close>

definition time_truncate :: "gtime \<Rightarrow> duration \<Rightarrow> gtime" where
  "time_truncate t d = t - (t - zero_time) mod d"

definition cancelRateLimitWindowStart :: "location \<Rightarrow> gtime \<Rightarrow> cancel_limit \<Rightarrow> gtime" where
  "cancelRateLimitWindowStart loc now cfg =
     (let w = (if cl_Window cfg \<le> 0 then 1 else cl_Window cfg);
          unit = (if cl_Unit cfg = [] then ''day'' else cl_Unit cfg)
      in if cl_Mode cfg = ''fixed''
         then (if unit = ''minute'' then time_truncate now minute - i64 (i64 (w - 1) * minute)
               else if unit = ''day'' then add_days loc (date_at loc (local_day loc now) 0) (- (w - 1))
               else time_truncate now hour - i64 (i64 (w - 1) * hour))
         else (if unit = ''minute'' then now - i64 (w * minute)
               else if unit = ''day'' then add_days loc now (- w)
               else now - i64 (w * hour)))"

definition checkCancelRateLimit :: "pay_env \<Rightarrow> int \<Rightarrow> cancel_limit \<Rightarrow> go_error option pay_prog" where
  "checkCancelRateLimit env userID cfg =
     (if \<not> cl_Enabled cfg \<or> cl_Max cfg \<le> 0 then Ret None
      else bind (ask w_now) (\<lambda>now.
        (let windowStart = cancelRateLimitWindowStart (pe_loc env) now cfg;
             hit = (\<lambda>a. al_Action a = ''ORDER_CANCELLED'' \<and> al_Operator a = user_operator userID
                        \<and> windowStart \<le> al_CreatedAt a)
         in try_else (call (\<lambda>_ db. (Inr (int (length (filter hit (pd_audits db)))), db))) (\<lambda>_. Ret None)
              (\<lambda>count. Ret (if cl_Max cfg \<le> count
                 then Some (WithMetadata (TooManyRequests ''CANCEL_RATE_LIMITED'' ''cancel rate limited'')
                        (Some [(''max'', itoa (cl_Max cfg)), (''window'', itoa (cl_Window cfg)), (''unit'', cl_Unit cfg)]))
                 else None)))))"

section \<open>Looking up, reconciling and expiring\<close>

definition out_trade_char :: "char \<Rightarrow> bool" where
  "out_trade_char c \<longleftrightarrow>
     (let n = of_char c :: nat in (97 \<le> n \<and> n \<le> 122) \<or> (65 \<le> n \<and> n \<le> 90) \<or> (48 \<le> n \<and> n \<le> 57)
        \<or> c = CHR ''_'' \<or> c = CHR ''-'')"

definition normalizeOrderLookupOutTradeNo :: "string \<Rightarrow> go_error + string" where
  "normalizeOrderLookupOutTradeNo raw =
     (let outTradeNo = trim_space raw in
      if outTradeNo = [] then Inl (BadRequest ''INVALID_OUT_TRADE_NO'' ''out_trade_no is required'')
      else if 64 < length outTradeNo \<or> \<not> list_all out_trade_char outTradeNo
      then Inl (BadRequest ''INVALID_OUT_TRADE_NO'' ''out_trade_no is invalid'')
      else Inr outTradeNo)"

definition by_out_trade_no :: "string \<Rightarrow> (pay_order \<Rightarrow> (go_error + 'a) pay_prog) \<Rightarrow> (go_error + 'a) pay_prog" where
  "by_out_trade_no raw k =
     (case normalizeOrderLookupOutTradeNo raw of
        Inl e \<Rightarrow> Ret (Inl e)
      | Inr outTradeNo \<Rightarrow>
          try_else (call (order_ByOutTradeNo outTradeNo)) (\<lambda>_. Ret (Inl order_not_found)) (\<lambda>r.
            case r of None \<Rightarrow> Ret (Inl order_not_found) | Some o' \<Rightarrow> k o'))"

definition VerifyOrderByOutTradeNo :: "pay_env \<Rightarrow> string \<Rightarrow> int \<Rightarrow> (go_error + pay_order) pay_prog" where
  "VerifyOrderByOutTradeNo env outTradeNo userID =
     by_out_trade_no outTradeNo (\<lambda>o'.
       if po_UserID o' \<noteq> userID then Ret (Inl (Forbidden ''FORBIDDEN'' ''no permission for this order''))
       else if po_Status o' \<notin> {OrderStatusPending, OrderStatusExpired} then Ret (Inr o')
       else bind (reconcilePaid env o') (\<lambda>result.
         if result \<noteq> checkPaidResultAlreadyPaid then Ret (Inr o')
         else try_else (call (order_Get (po_ID o'))) (\<lambda>e. Ret (Inl (wrap ''reload order'' e)))
                (\<lambda>r. Ret (case r of None \<Rightarrow> Inl (wrap ''reload order'' (plain ''ent: payment_order not found''))
                                  | Some o'' \<Rightarrow> Inr o''))))"

definition VerifyOrderPublic :: "string \<Rightarrow> (go_error + pay_order) pay_prog" where
  "VerifyOrderPublic outTradeNo = by_out_trade_no outTradeNo (\<lambda>o'. Ret (Inr o'))"

definition oldest_first :: "pay_order \<Rightarrow> pay_order \<Rightarrow> bool" where
  "oldest_first a b \<longleftrightarrow> po_CreatedAt a < po_CreatedAt b"

abbreviation pendingPaymentReconcileLimit :: nat where "pendingPaymentReconcileLimit \<equiv> 20"

definition to_reconcile :: "gtime \<Rightarrow> pay_order \<Rightarrow> bool" where
  "to_reconcile now r \<longleftrightarrow>
     po_Status r = OrderStatusPending \<and> now < po_ExpiresAt r
     \<and> (po_PaymentType r = TypeWxpay \<or> has_prefix (po_PaymentType r) (TypeWxpay @ ''_'')
        \<or> po_ProviderKey r = Some TypeWxpay
        \<or> (case po_ProviderKey r of None \<Rightarrow> False | Some k \<Rightarrow> has_prefix k (TypeWxpay @ ''_''))
        \<or> po_PaymentType r = TypeInfini \<or> po_PaymentType r = TypeUSDT
        \<or> po_ProviderKey r = Some TypeInfini
        \<or> (case po_ProviderKey r of None \<Rightarrow> False | Some k \<Rightarrow> has_prefix k (TypeInfini @ ''_'')))"

definition ReconcilePendingProviderOrders :: "pay_env \<Rightarrow> (go_error + int) pay_prog" where
  "ReconcilePendingProviderOrders env =
     try_else (call (\<lambda>now db. (Inr (take pendingPaymentReconcileLimit
                 (sort_by oldest_first (filter (to_reconcile now) (pd_orders db)))), db)))
       (\<lambda>e. Ret (Inl (wrap ''query pending provider orders'' e)))
       (\<lambda>orders. bind (for_each orders 0 (\<lambda>order recovered.
                   bind (reconcilePaid env order) (\<lambda>result.
                     Ret (if result = checkPaidResultAlreadyPaid then recovered + 1 else recovered))))
                 (\<lambda>n. Ret (Inr n)))"

definition ExpireTimedOutOrders :: "pay_env \<Rightarrow> (go_error + int) pay_prog" where
  "ExpireTimedOutOrders env =
     try_else (call (\<lambda>now db. (Inr (filter (\<lambda>r. po_Status r = OrderStatusPending \<and> po_ExpiresAt r \<le> now)
                                    (pd_orders db)), db)))
       (\<lambda>e. Ret (Inl (wrap ''query expired'' e)))
       (\<lambda>orders. bind (for_each orders 0 (\<lambda>order n.
                   bind (cancelCore env order OrderStatusCancelled ''system'' ''order timed out and was auto-cancelled'')
                     (\<lambda>r. Ret (case r of
                        Inl _ \<Rightarrow> n
                      | Inr outcome \<Rightarrow> if outcome = checkPaidResultAlreadyPaid then n
                                       else if outcome \<noteq> [] then n + 1 else n))))
                 (\<lambda>n. Ret (Inr n)))"

text \<open>One tick of the background service; its counts are only logged.\<close>

definition expiry_runOnce :: "pay_env \<Rightarrow> unit pay_prog" where
  "expiry_runOnce env =
     bind (ReconcilePendingProviderOrders env) (\<lambda>_. bind (ExpireTimedOutOrders env) (\<lambda>_. Ret ()))"

definition GetOrder :: "int \<Rightarrow> int \<Rightarrow> (go_error + pay_order) pay_prog" where
  "GetOrder orderID userID =
     with_order orderID (\<lambda>o'.
       if po_UserID o' \<noteq> userID then Ret (Inl (Forbidden ''FORBIDDEN'' ''no permission for this order''))
       else Ret (Inr o'))"

definition GetOrderByID :: "int \<Rightarrow> (go_error + pay_order) pay_prog" where
  "GetOrderByID orderID = with_order orderID (\<lambda>o'. Ret (Inr o'))"

end
