(* ===== verification/PayRefund.thy ===== *)
theory PayRefund
  imports PayLifecycle
begin

text \<open>
  Refunds (\<open>service/payment_refund.go\<close>): the request of a user, the plan an administrator prepares,
  and its execution, which takes the balance or the subscription days back, asks the provider and
  restores what was taken when the provider refuses. The amount for the provider and its printed
  form are computed with the decimal library (\<open>pe_gatewayAmount\<close>, \<open>pe_format\<close>; see \<open>PayMoney\<close>).
\<close>

section \<open>The request of a user\<close>

definition validateRefundRequest :: "int \<Rightarrow> int \<Rightarrow> (go_error + pay_order) pay_prog" where
  "validateRefundRequest oid uid =
     with_order oid (\<lambda>o'.
       if po_UserID o' \<noteq> uid then Ret (Inl (Forbidden ''FORBIDDEN'' ''no permission''))
       else if po_OrderType o' \<noteq> OrderTypeBalance
       then Ret (Inl (BadRequest ''INVALID_ORDER_TYPE'' ''only balance orders can request refund''))
       else if po_Status o' \<noteq> OrderStatusCompleted
       then Ret (Inl (invalid_status ''only completed orders can request refund''))
       else bind (getRefundOrderProviderInstance o') (\<lambda>r.
         Ret (case r of
            Inr (Some inst) \<Rightarrow>
              if \<not> pi_AllowUserRefund inst
              then Inl (Forbidden ''USER_REFUND_DISABLED'' ''user refund is not enabled for this provider'')
              else Inr o'
          | _ \<Rightarrow> Inl (Forbidden ''USER_REFUND_DISABLED'' ''refund is not available for this order''))))"

definition RequestRefund :: "pay_env \<Rightarrow> int \<Rightarrow> int \<Rightarrow> string \<Rightarrow> go_error option pay_prog" where
  "RequestRefund env oid uid reason =
     try_else (validateRefundRequest oid uid) (\<lambda>e. Ret (Some e)) (\<lambda>o'.
     try_else (call (user_GetByID (po_UserID o'))) (\<lambda>e. Ret (Some (wrap ''get user'' e))) (\<lambda>u.
       if f_lt (pe_read env (pu_Balance u)) (po_Amount o')
       then Ret (Some (BadRequest ''BALANCE_NOT_ENOUGH'' ''refund amount exceeds balance''))
       else (let nr = trim_space reason in
         try_else (call (order_Update oid
                     (\<lambda>_ r. po_UserID r = uid \<and> po_Status r = OrderStatusCompleted \<and> po_OrderType r = OrderTypeBalance)
                     (\<lambda>now r. r\<lparr>po_Status := OrderStatusRefundRequested, po_RefundRequestedAt := Some now,
                                po_RefundRequestReason := Some nr, po_RefundRequestedBy := Some (itoa uid),
                                po_RefundAmount := po_Amount o'\<rparr>)))
           (\<lambda>e. Ret (Some (wrap ''update'' e)))
           (\<lambda>c. if c = 0 then Ret (Some (Conflict ''CONFLICT'' ''order status changed''))
                else bind (writeAuditLog oid ''REFUND_REQUESTED'' (user_operator uid)
                             [(''amount'', GF64 (po_Amount o')), (''reason'', GStr nr)]) (\<lambda>_. Ret None)))))"

section \<open>The plan\<close>

record refund_plan =
  rp_OrderID :: int
  rp_Order :: pay_order
  rp_RefundAmount :: float64
  rp_GatewayAmount :: float64
  rp_Reason :: string
  rp_Force :: bool
  rp_DeductBalance :: bool
  rp_DeductionType :: string
  rp_BalanceToDeduct :: float64
  rp_SubDaysToDeduct :: int
  rp_SubscriptionID :: int

record refund_result =
  rs_Success :: bool
  rs_Warning :: string
  rs_RequireForce :: bool
  rs_BalanceDeducted :: float64
  rs_SubDaysDeducted :: int

definition need_force :: "string \<Rightarrow> refund_result" where
  "need_force warning = \<lparr>rs_Success = False, rs_Warning = warning, rs_RequireForce = True,
     rs_BalanceDeducted = f_zero, rs_SubDaysDeducted = 0\<rparr>"

definition get_active_subscription :: "int \<Rightarrow> int \<Rightarrow> user_subscription statement" where
  "get_active_subscription userID groupID now db =
     (of_option (sub_go_error ErrSubscriptionNotFound)
        (repo_GetActiveByUserIDAndGroupID now (pd_subs db) userID groupID), db)"

text \<open>\<open>Inl\<close> is the early result that asks for force.\<close>

definition prepDeduct :: "pay_env \<Rightarrow> pay_order \<Rightarrow> refund_plan \<Rightarrow> bool \<Rightarrow> (refund_result + refund_plan) pay_prog" where
  "prepDeduct env o' p force =
     (if po_OrderType o' = OrderTypeSubscription
      then (let p1 = p\<lparr>rp_DeductionType := DeductionTypeSubscription\<rparr> in
            case (po_SubscriptionGroupID o', po_SubscriptionDays o') of
              (Some gid, Some days) \<Rightarrow>
                (let p2 = p1\<lparr>rp_SubDaysToDeduct := days\<rparr> in
                 try_else (call (get_active_subscription (po_UserID o') gid))
                   (\<lambda>_. Ret (if force then Inr p2
                             else Inl (need_force ''cannot find active subscription for deduction, use force'')))
                   (\<lambda>s. Ret (Inr (p2\<lparr>rp_SubscriptionID := sub_ID s\<rparr>))))
            | _ \<Rightarrow> Ret (Inr p1))
      else try_else (call (user_GetByID (po_UserID o')))
             (\<lambda>_. Ret (if force then Inr p else Inl (need_force ''cannot fetch user balance, use force'')))
             (\<lambda>u. Ret (Inr (p\<lparr>rp_DeductionType := DeductionTypeBalance,
                             rp_BalanceToDeduct := f_min (rp_RefundAmount p) (pe_read env (pu_Balance u))\<rparr>))))"

datatype prepared = PrepError go_error | PrepEarly refund_result | PrepPlan refund_plan

definition refund_reason :: "pay_order \<Rightarrow> string \<Rightarrow> string" where
  "refund_reason o' reason =
     (let r1 = trim_space reason;
          r2 = (if r1 = [] then psStringValue (po_RefundRequestReason o') else r1)
      in if r2 = [] then ''refund order:'' @ itoa (po_ID o') else r2)"

definition PrepareRefund ::
    "pay_env \<Rightarrow> int \<Rightarrow> float64 \<Rightarrow> string \<Rightarrow> bool \<Rightarrow> bool \<Rightarrow> prepared pay_prog" where
  "PrepareRefund env oid amt0 reason force deduct =
     bind (with_order oid (\<lambda>o'. Ret (Inr o'))) (\<lambda>r.
       case r of
         Inl e \<Rightarrow> Ret (PrepError e)
       | Inr o' \<Rightarrow>
           if po_Status o' \<notin> {OrderStatusCompleted, OrderStatusRefundRequested, OrderStatusRefundFailed}
           then Ret (PrepError (invalid_status ''order status does not allow refund''))
           else bind (getRefundOrderProviderInstance o') (\<lambda>ri.
             case ri of
               Inl _ \<Rightarrow> Ret (PrepError (InternalServer ''PROVIDER_LOOKUP_FAILED'' ''failed to look up payment provider for this order''))
             | Inr None \<Rightarrow> Ret (PrepError (Forbidden ''REFUND_DISABLED'' ''refund is not available for this order''))
             | Inr (Some inst) \<Rightarrow>
                 if \<not> pi_RefundEnabled inst
                 then Ret (PrepError (Forbidden ''REFUND_DISABLED'' ''refund is not enabled for this provider''))
                 else if f_is_nan amt0 \<or> f_is_inf amt0
                 then Ret (PrepError (BadRequest ''INVALID_AMOUNT'' ''invalid refund amount''))
                 else (let amt = (if f_le amt0 f_zero then po_Amount o' else amt0);
                           currency = PaymentOrderCurrency o'
                       in if f_lt (paymentAmountToleranceForCurrency currency) (f_sub amt (po_Amount o'))
                          then Ret (PrepError (BadRequest ''REFUND_AMOUNT_EXCEEDED'' ''refund amount exceeds recharge''))
                          else (let p = \<lparr>rp_OrderID = oid, rp_Order = o', rp_RefundAmount = amt,
                                       rp_GatewayAmount = pe_gatewayAmount env (po_Amount o') (po_PayAmount o') amt currency,
                                       rp_Reason = refund_reason o' reason, rp_Force = force, rp_DeductBalance = deduct,
                                       rp_DeductionType = DeductionTypeNone, rp_BalanceToDeduct = f_zero,
                                       rp_SubDaysToDeduct = 0, rp_SubscriptionID = 0\<rparr>
                                in if \<not> deduct then Ret (PrepPlan p)
                                   else bind (prepDeduct env o' p force) (\<lambda>d.
                                     Ret (case d of Inl early \<Rightarrow> PrepEarly early | Inr p' \<Rightarrow> PrepPlan p'))))))"

section \<open>Execution\<close>

text \<open>The errors of these two updates are ignored.\<close>

definition restoreStatus :: "refund_plan \<Rightarrow> unit pay_prog" where
  "restoreStatus p =
     (let rs = (if po_Status (rp_Order p) = OrderStatusRefundRequested then OrderStatusRefundRequested
                else OrderStatusCompleted)
      in bind (call (order_UpdateOne (rp_OrderID p) (\<lambda>_ r. r\<lparr>po_Status := rs\<rparr>))) (\<lambda>_. Ret ()))"

definition extend_subscription :: "pay_env \<Rightarrow> int \<Rightarrow> int \<Rightarrow> (go_error + user_subscription) pay_prog" where
  "extend_subscription env subID days =
     call (\<lambda>now. on_subs (ExtendSubscription (pe_loc env) now subID days))"

definition revoke_subscription :: "int \<Rightarrow> (go_error + unit) pay_prog" where
  "revoke_subscription subID =
     call (\<lambda>now. on_subs (\<lambda>db. and_then (RevokeSubscription subID db) (\<lambda>db'. Inr (db', ()))))"

definition formatGatewayRefundAmount :: "pay_env \<Rightarrow> float64 \<Rightarrow> pay_order \<Rightarrow> string" where
  "formatGatewayRefundAmount env amount order = pe_format env amount (PaymentOrderCurrency order)"

definition validateRefundProviderResponse :: "string option \<Rightarrow> go_error option" where
  "validateRefundProviderResponse resp =
     (case resp of
        None \<Rightarrow> Some (plain ''payment refund response missing'')
      | Some status0 \<Rightarrow>
          (let status = trim_space status0 in
           if status \<in> {''success'', ''refunded'', ''pending''} then None
           else if status = ''failed'' then Some (plain (''payment refund failed: status '' @ status))
           else Some (plain (''payment refund returned unknown status: '' @ status))))"

definition getRefundProvider :: "pay_order \<Rightarrow> (go_error + pay_provider) pay_prog" where
  "getRefundProvider o' =
     try_else (getRefundOrderProviderInstance o') (\<lambda>e. Ret (Inl e)) (\<lambda>oinst.
       case oinst of
         None \<Rightarrow> Ret (Inl (plain (''refund provider instance is unavailable for order '' @ itoa (po_ID o'))))
       | Some inst \<Rightarrow> createProviderFromInstance inst)"

definition providerMerchantIdentityMetadata :: "pay_provider \<Rightarrow> string gomap option" where
  "providerMerchantIdentityMetadata prov = (case pv_Identity prov of None \<Rightarrow> None | Some m \<Rightarrow> m)"

definition gwRefund :: "pay_env \<Rightarrow> refund_plan \<Rightarrow> go_error option pay_prog" where
  "gwRefund env p =
     (let o' = rp_Order p in
      if po_PaymentTradeNo o' = []
      then bind (writeAuditLog (po_ID o') ''REFUND_NO_TRADE_NO'' ''admin'' [(''detail'', GStr ''skipped'')]) (\<lambda>_. Ret None)
      else try_else (getRefundProvider o') (\<lambda>e. Ret (Some (wrap ''get refund provider'' e))) (\<lambda>prov.
        case validateProviderSnapshotMetadata o' (pv_Key prov) (providerMerchantIdentityMetadata prov) of
          Some e \<Rightarrow> bind (writeAuditLog (po_ID o') ''REFUND_PROVIDER_METADATA_MISMATCH'' ''admin''
                            [(''detail'', GStr (error_text e))]) (\<lambda>_. Ret (Some e))
        | None \<Rightarrow>
            try_else (ask (\<lambda>w. w_Refund w prov
                        \<lparr>rq_TradeNo = po_PaymentTradeNo o', rq_OrderID = po_OutTradeNo o',
                         rq_Amount = formatGatewayRefundAmount env (rp_GatewayAmount p) o', rq_Reason = rp_Reason p\<rparr>))
              (\<lambda>e. Ret (Some e)) (\<lambda>resp. Ret (validateRefundProviderResponse resp))))"

definition markRefundOk :: "refund_plan \<Rightarrow> (go_error + refund_result) pay_prog" where
  "markRefundOk p =
     (let fs = (if f_lt (rp_RefundAmount p) (po_Amount (rp_Order p)) then OrderStatusPartiallyRefunded
                else OrderStatusRefunded) in
      try_else (call (order_UpdateOne (rp_OrderID p)
                  (\<lambda>now r. r\<lparr>po_Status := fs, po_RefundAmount := rp_RefundAmount p,
                             po_RefundReason := Some (rp_Reason p), po_RefundAt := Some now,
                             po_ForceRefund := rp_Force p\<rparr>)))
        (\<lambda>e. Ret (Inl (wrap ''mark refund'' e)))
        (\<lambda>_. bind (writeAuditLog (rp_OrderID p) ''REFUND_SUCCESS'' ''admin''
                     [(''refundAmount'', GF64 (rp_RefundAmount p)), (''reason'', GStr (rp_Reason p)),
                      (''balanceDeducted'', GF64 (rp_BalanceToDeduct p)), (''force'', GBool (rp_Force p))]) (\<lambda>_.
              Ret (Inr \<lparr>rs_Success = True, rs_Warning = [], rs_RequireForce = False,
                        rs_BalanceDeducted = rp_BalanceToDeduct p, rs_SubDaysDeducted = rp_SubDaysToDeduct p\<rparr>))))"

definition rollback_failed :: "refund_plan \<Rightarrow> go_error \<Rightarrow> go_error \<Rightarrow> string \<times> goval \<Rightarrow> bool pay_prog" where
  "rollback_failed p gErr e taken =
     bind (writeAuditLog (rp_OrderID p) ''REFUND_ROLLBACK_FAILED'' ''admin''
             [(''gatewayError'', GStr (error_text gErr)), (''rollbackError'', GStr (error_text e)), taken])
       (\<lambda>_. Ret False)"

definition RollbackRefund :: "pay_env \<Rightarrow> refund_plan \<Rightarrow> go_error \<Rightarrow> bool pay_prog" where
  "RollbackRefund env p gErr =
     bind (if rp_DeductionType p = DeductionTypeBalance \<and> f_lt f_zero (rp_BalanceToDeduct p)
           then try_else (call (user_UpdateBalance env (po_UserID (rp_Order p)) (rp_BalanceToDeduct p)))
                  (\<lambda>e. rollback_failed p gErr e (''balanceDeducted'', GF64 (rp_BalanceToDeduct p)))
                  (\<lambda>_. Ret True)
           else Ret True) (\<lambda>ok.
       if \<not> ok then Ret False
       else if rp_DeductionType p = DeductionTypeSubscription \<and> 0 < rp_SubDaysToDeduct p \<and> 0 < rp_SubscriptionID p
       then try_else (extend_subscription env (rp_SubscriptionID p) (rp_SubDaysToDeduct p))
              (\<lambda>e. rollback_failed p gErr e (''subDaysDeducted'', GInt (rp_SubDaysToDeduct p)))
              (\<lambda>_. Ret True)
       else Ret True)"

definition handleGwFail :: "pay_env \<Rightarrow> refund_plan \<Rightarrow> go_error \<Rightarrow> (go_error + refund_result) pay_prog" where
  "handleGwFail env p gErr =
     bind (RollbackRefund env p gErr) (\<lambda>back.
       if back
       then bind (restoreStatus p) (\<lambda>_.
            bind (writeAuditLog (rp_OrderID p) ''REFUND_GATEWAY_FAILED'' ''admin''
                    [(''detail'', GStr (error_text gErr))]) (\<lambda>_.
            Ret (Inr \<lparr>rs_Success = False,
                      rs_Warning = ''gateway failed: '' @ error_text gErr @ '', rolled back'',
                      rs_RequireForce = False, rs_BalanceDeducted = f_zero, rs_SubDaysDeducted = 0\<rparr>)))
       else bind (call (order_UpdateOne (rp_OrderID p)
                   (\<lambda>now r. r\<lparr>po_Status := OrderStatusRefundFailed, po_FailedAt := Some now,
                              po_FailedReason := Some (error_text gErr)\<rparr>))) (\<lambda>_.
            bind (writeAuditLog (rp_OrderID p) ''REFUND_FAILED'' ''admin''
                    [(''detail'', GStr (error_text gErr))]) (\<lambda>_.
            Ret (Inl (InternalServer ''REFUND_FAILED'' (error_text gErr))))))"

text \<open>Taking back: \<open>Inl\<close> aborts the refund. A failed rollback of an earlier attempt is known from the
  audit log, and nothing is taken a second time.\<close>

definition deduct_balance :: "pay_env \<Rightarrow> refund_plan \<Rightarrow> (go_error + refund_plan) pay_prog" where
  "deduct_balance env p =
     (if rp_DeductionType p = DeductionTypeBalance \<and> f_lt f_zero (rp_BalanceToDeduct p)
      then bind (hasAuditLog (rp_OrderID p) ''REFUND_ROLLBACK_FAILED'') (\<lambda>had.
        if had then Ret (Inr (p\<lparr>rp_BalanceToDeduct := f_zero\<rparr>))
        else try_else (call (user_DeductBalance env (po_UserID (rp_Order p)) (rp_BalanceToDeduct p)))
               (\<lambda>e. bind (restoreStatus p) (\<lambda>_. Ret (Inl (wrap ''deduction'' e))))
               (\<lambda>_. Ret (Inr p)))
      else Ret (Inr p))"

definition deduct_subscription :: "pay_env \<Rightarrow> refund_plan \<Rightarrow> (go_error + refund_plan) pay_prog" where
  "deduct_subscription env p =
     (if rp_DeductionType p = DeductionTypeSubscription \<and> 0 < rp_SubDaysToDeduct p \<and> 0 < rp_SubscriptionID p
      then bind (hasAuditLog (rp_OrderID p) ''REFUND_ROLLBACK_FAILED'') (\<lambda>had.
        if had then Ret (Inr (p\<lparr>rp_SubDaysToDeduct := 0\<rparr>))
        else try_else (extend_subscription env (rp_SubscriptionID p) (- rp_SubDaysToDeduct p))
               (\<lambda>e. if errors_Is e (sub_go_error ErrAdjustWouldExpire)
                    then try_else (revoke_subscription (rp_SubscriptionID p))
                           (\<lambda>e'. bind (restoreStatus p) (\<lambda>_. Ret (Inl (wrap ''revoke subscription'' e'))))
                           (\<lambda>_. Ret (Inr p))
                    else bind (restoreStatus p) (\<lambda>_. Ret (Inl (wrap ''deduct subscription days'' e))))
               (\<lambda>_. Ret (Inr p)))
      else Ret (Inr p))"

definition ExecuteRefund :: "pay_env \<Rightarrow> refund_plan \<Rightarrow> (go_error + refund_result) pay_prog" where
  "ExecuteRefund env p =
     try_else (call (order_Update (rp_OrderID p)
                 (\<lambda>_ r. po_Status r \<in> {OrderStatusCompleted, OrderStatusRefundRequested, OrderStatusRefundFailed})
                 (\<lambda>_ r. r\<lparr>po_Status := OrderStatusRefunding\<rparr>)))
       (\<lambda>e. Ret (Inl (wrap ''lock'' e)))
       (\<lambda>c. if c = 0 then Ret (Inl (Conflict ''CONFLICT'' ''order status changed''))
            else try_else (deduct_balance env p) (\<lambda>e. Ret (Inl e)) (\<lambda>p1.
                 try_else (deduct_subscription env p1) (\<lambda>e. Ret (Inl e)) (\<lambda>p2.
                 bind (gwRefund env p2) (\<lambda>g.
                   case g of
                     Some gErr \<Rightarrow> handleGwFail env p2 gErr
                   | None \<Rightarrow> markRefundOk p2))))"

end
