(* ===== verification/PayProtocol.thy ===== *)
theory PayProtocol
  imports PayRefund
begin

text \<open>
  The protocol that every payment handler keeps, however its statements interleave with those of
  others and whichever of them fail: an order only moves along the edges of its state machine, a
  used code stays as it is, a completed balance order has its code used, and a balance changes
  exactly by the codes that its user has redeemed. \<open>Interleave\<close> turns this into invariants of
  the whole system.
\<close>

section \<open>What is kept\<close>

text \<open>The columns of an order that no statement changes once it is created.\<close>

definition same_order :: "pay_order \<Rightarrow> pay_order \<Rightarrow> bool" where
  "same_order r r' \<longleftrightarrow>
     po_ID r' = po_ID r \<and> po_UserID r' = po_UserID r \<and> po_Amount r' = po_Amount r
     \<and> po_RechargeCode r' = po_RechargeCode r \<and> po_OrderType r' = po_OrderType r
     \<and> po_OutTradeNo r' = po_OutTradeNo r
     \<and> po_SubscriptionGroupID r' = po_SubscriptionGroupID r
     \<and> po_SubscriptionDays r' = po_SubscriptionDays r"

text \<open>The moves of an order outside refunds.\<close>

inductive order_move :: "string \<Rightarrow> string \<Rightarrow> bool" where
  pay: "s \<in> {OrderStatusPending, OrderStatusCancelled, OrderStatusExpired} \<Longrightarrow> order_move s OrderStatusPaid"
| cancel: "order_move OrderStatusPending OrderStatusCancelled"
| lock: "s \<in> {OrderStatusPaid, OrderStatusFailed} \<Longrightarrow> order_move s OrderStatusRecharging"
| complete: "order_move OrderStatusRecharging OrderStatusCompleted"
| fail: "order_move OrderStatusRecharging OrderStatusFailed"
| retry: "s \<in> {OrderStatusPaid, OrderStatusFailed} \<Longrightarrow> order_move s OrderStatusPaid"

definition same_code :: "redeem_row \<Rightarrow> redeem_row \<Rightarrow> bool" where
  "same_code c c' \<longleftrightarrow>
     rr_ID c' = rr_ID c \<and> rr_Code c' = rr_Code c \<and> rr_Type c' = rr_Type c \<and> rr_Value c' = rr_Value c
     \<and> (rc_Status c = StatusUsed \<longrightarrow> c' = c)"

definition balance_of :: "pay_db \<Rightarrow> int \<Rightarrow> int" where
  "balance_of db u = (case user_row db u of None \<Rightarrow> 0 | Some x \<Rightarrow> pu_Balance x)"

text \<open>What a user has redeemed: the balance codes that are marked as used by them.\<close>

definition credit :: "(float64 \<Rightarrow> int) \<Rightarrow> int \<Rightarrow> redeem_row \<Rightarrow> int" where
  "credit units u c =
     (if rc_Status c = StatusUsed \<and> rr_UsedBy c = Some u \<and> rr_Type c = RedeemTypeBalance
      then units (rr_Value c) else 0)"

definition redeemed :: "(float64 \<Rightarrow> int) \<Rightarrow> pay_db \<Rightarrow> int \<Rightarrow> int" where
  "redeemed units db u = (\<Sum>c \<leftarrow> pd_codes db. credit units u c)"

definition code_used :: "pay_db \<Rightarrow> string \<Rightarrow> bool" where
  "code_used db code \<longleftrightarrow> (\<exists>c \<in> set (pd_codes db). rr_Code c = code \<and> rc_Status c = StatusUsed)"

text \<open>An amount that the balance column adds exactly, and that is not negative.\<close>

definition exact_amount :: "pay_env \<Rightarrow> (float64 \<Rightarrow> int) \<Rightarrow> float64 \<Rightarrow> bool" where
  "exact_amount env units v \<longleftrightarrow> (\<forall>b. pe_plus env b v = b + units v) \<and> \<not> f_lt v f_zero"

definition pay_good :: "pay_env \<Rightarrow> (float64 \<Rightarrow> int) \<Rightarrow> pay_db \<Rightarrow> bool" where
  "pay_good env units db \<longleftrightarrow>
     distinct (map po_ID (pd_orders db)) \<and> distinct (map po_RechargeCode (pd_orders db))
     \<and> (\<forall>r \<in> set (pd_orders db). trim_space (po_RechargeCode r) = po_RechargeCode r
          \<and> exact_amount env units (po_Amount r))
     \<and> distinct (map rr_ID (pd_codes db)) \<and> distinct (map rr_Code (pd_codes db))
     \<and> (\<forall>c \<in> set (pd_codes db). rr_ID c < pd_nextCode db
          \<and> (rr_Type c = RedeemTypeBalance \<longrightarrow> exact_amount env units (rr_Value c)))
     \<and> (\<forall>r \<in> set (pd_orders db). \<forall>c \<in> set (pd_codes db). rr_Code c = po_RechargeCode r
          \<longrightarrow> rr_Type c = RedeemTypeBalance \<and> rr_Value c = po_Amount r)
     \<and> (\<forall>r \<in> set (pd_orders db). po_Status r = OrderStatusCompleted \<and> po_OrderType r \<noteq> OrderTypeSubscription
          \<longrightarrow> code_used db (po_RechargeCode r))"

definition pay_later :: "(float64 \<Rightarrow> int) \<Rightarrow> pay_db \<Rightarrow> pay_db \<Rightarrow> bool" where
  "pay_later units db db' \<longleftrightarrow>
     (\<forall>r \<in> set (pd_orders db). \<exists>r' \<in> set (pd_orders db'). same_order r r'
        \<and> order_move\<^sup>*\<^sup>* (po_Status r) (po_Status r'))
     \<and> (\<forall>c \<in> set (pd_codes db). \<exists>c' \<in> set (pd_codes db'). same_code c c')
     \<and> (\<forall>u. balance_of db' u - redeemed units db' u = balance_of db u - redeemed units db u)"

definition pay_protocol :: "pay_env \<Rightarrow> (float64 \<Rightarrow> int) \<Rightarrow> pay_db \<Rightarrow> pay_db \<Rightarrow> bool" where
  "pay_protocol env units db db' \<longleftrightarrow>
     (pay_good env units db \<longrightarrow> pay_good env units db' \<and> pay_later units db db')"

lemma same_order_refl [simp]: "same_order r r"
  by (simp add: same_order_def)

lemma same_order_trans: "same_order r s \<Longrightarrow> same_order s t \<Longrightarrow> same_order r t"
  by (simp add: same_order_def)

lemma same_code_refl [simp]: "same_code c c"
  by (simp add: same_code_def)

lemma same_code_trans: "same_code c d \<Longrightarrow> same_code d e \<Longrightarrow> same_code c e"
  by (auto simp: same_code_def)

lemma pay_later_refl: "pay_later units db db"
  by (auto simp: pay_later_def intro!: bexI)

lemma pay_later_trans:
  assumes "pay_later units a b" and "pay_later units b c"
  shows "pay_later units a c"
  unfolding pay_later_def
proof (intro conjI ballI allI)
  fix r assume "r \<in> set (pd_orders a)"
  then show "\<exists>r' \<in> set (pd_orders c). same_order r r' \<and> order_move\<^sup>*\<^sup>* (po_Status r) (po_Status r')"
    using assms unfolding pay_later_def by (meson same_order_trans rtranclp_trans)
next
  fix x assume "x \<in> set (pd_codes a)"
  then show "\<exists>c' \<in> set (pd_codes c). same_code x c'"
    using assms unfolding pay_later_def by (meson same_code_trans)
next
  fix u show "balance_of c u - redeemed units c u = balance_of a u - redeemed units a u"
    using assms by (simp add: pay_later_def)
qed

interpretation pay: protocol "pay_protocol env units"
  by unfold_locales (auto simp: pay_protocol_def pay_later_refl intro: pay_later_trans)

section \<open>Rules for statements\<close>

abbreviation keeps :: "pay_env \<Rightarrow> (float64 \<Rightarrow> int) \<Rightarrow> 'a pay_prog \<Rightarrow> pay_db \<Rightarrow> bool" where
  "keeps env units \<equiv> safe (pay_protocol env units) (\<lambda>_ _. True)"

lemma pay_refl [simp, intro]: "pay_protocol env units db db"
  by (rule pay.refl)

lemma call_state: "snd (lost_or (db_outcome fault (f now t) t)) \<in> {t, snd (f now t)}"
  by (cases fault; cases "f now t") auto

lemma call_answer:
  "lost_or (db_outcome fault (f now t) t) = (Inr x, t') \<Longrightarrow> f now t = (Inr x, t')"
  by (cases fault; cases "f now t") auto

lemma safe_call:
  assumes "\<forall>now t. pay_protocol env units s t \<longrightarrow> pay_protocol env units t (snd (f now t))"
    and "\<forall>now t x t'. pay_protocol env units s t \<longrightarrow> f now t = (Inr x, t') \<longrightarrow>
           (\<forall>u. pay_protocol env units t' u \<longrightarrow> Q x u)"
  shows "safe (pay_protocol env units) (\<lambda>r t. case r of Inl _ \<Rightarrow> True | Inr x \<Rightarrow> Q x t) (call f) s"
proof (unfold call_def, rule pay.safe_atomic, safe)
  fix w t assume "pay_protocol env units s t"
  then show "pay_protocol env units t (snd (lost_or (db_outcome (w_fault w) (f (w_now w) t) t)))"
    using assms(1) call_state [of "w_fault w" f "w_now w" t] by auto
next
  fix w t u
  let ?r = "lost_or (db_outcome (w_fault w) (f (w_now w) t) t)"
  assume a: "pay_protocol env units s t" "pay_protocol env units (snd ?r) u"
  show "case fst ?r of Inl _ \<Rightarrow> True | Inr x \<Rightarrow> Q x u"
  proof (cases "fst ?r")
    case (Inr x)
    then have "?r = (Inr x, snd ?r)" by (metis prod.collapse)
    then have "f (w_now w) t = (Inr x, snd ?r)" by (rule call_answer)
    then show ?thesis using assms(2) a Inr by auto
  qed simp
qed

lemma keeps_call:
  "(\<forall>now t. pay_protocol env units s t \<longrightarrow> pay_protocol env units t (snd (f now t))) \<Longrightarrow> keeps env units (call f) s"
  by (rule pay.safe_weaken [OF safe_call [where Q = "\<lambda>_ _. True"]]) auto

lemma safe_try:
  assumes "safe (pay_protocol env units) (\<lambda>r t. case r of Inl _ \<Rightarrow> True | Inr x \<Rightarrow> P x t) p s"
    and "\<forall>e t. pay_protocol env units s t \<longrightarrow> safe (pay_protocol env units) Q (onerr e) t"
    and "\<forall>x t. pay_protocol env units s t \<longrightarrow> (\<forall>u. pay_protocol env units t u \<longrightarrow> P x u) \<longrightarrow> safe (pay_protocol env units) Q (k x) t"
  shows "safe (pay_protocol env units) Q (try_else p onerr k) s"
  unfolding try_else_def by (rule pay.safe_bind [OF assms(1)]) (auto simp: assms(2,3) split: sum.splits)

lemma keeps_try:
  assumes "keeps env units p s"
    and "\<forall>e t. pay_protocol env units s t \<longrightarrow> keeps env units (onerr e) t"
    and "\<forall>x t. pay_protocol env units s t \<longrightarrow> keeps env units (k x) t"
  shows "keeps env units (try_else p onerr k) s"
  using assms(2,3) pay.safe_weaken [OF assms(1), of "\<lambda>r t. case r of Inl _ \<Rightarrow> True | Inr x \<Rightarrow> True"]
  by (intro safe_try [where P = "\<lambda>_ _. True"]) (auto split: sum.splits)

lemma keeps_bind:
  "keeps env units p s \<Longrightarrow> (\<forall>a t. pay_protocol env units s t \<longrightarrow> keeps env units (f a) t) \<Longrightarrow> keeps env units (bind p f) s"
  by (rule pay.safe_bind [where P = "\<lambda>_ _. True"]) auto

lemma keeps_Ret [simp, intro]: "keeps env units (Ret a) s"
  by simp

lemma keeps_ask [simp, intro]: "keeps env units (ask f) s" and keeps_peek [simp, intro]: "keeps env units (peek g) s"
  unfolding ask_def peek_def by (auto intro: pay.safe_atomic)

section \<open>The statements\<close>

text \<open>A statement that leaves orders, codes and balances alone.\<close>

lemma protocol_same:
  "pd_orders db' = pd_orders db \<Longrightarrow> pd_codes db' = pd_codes db \<Longrightarrow> pd_nextCode db' = pd_nextCode db
   \<Longrightarrow> (\<forall>u. balance_of db' u = balance_of db u) \<Longrightarrow> pay_protocol env units db db'"
  using pay_later_refl [of units db]
  by (simp add: pay_protocol_def pay_good_def pay_later_def code_used_def redeemed_def)

lemma audit_Create_keeps: "pay_protocol env units db (snd (audit_Create oid action op detail now db))"
  by (auto simp: audit_Create_def balance_of_def user_row_def intro: protocol_same)

lemma keeps_writeAuditLog [simp, intro]: "keeps env units (writeAuditLog oid action op detail) s"
  unfolding writeAuditLog_def by (auto intro!: keeps_bind keeps_call audit_Create_keeps)

text \<open>Reading.\<close>

lemma keeps_read: "(\<forall>now t. snd (f now t) = t) \<Longrightarrow> keeps env units (call f) s"
  by (rule keeps_call) auto

lemma keeps_hasAuditLog [simp, intro]: "keeps env units (hasAuditLog oid action) s"
  unfolding hasAuditLog_def by (auto intro!: keeps_bind keeps_read)

text \<open>An update of an order.\<close>

lemma protocol_map_orders:
  assumes g: "\<And>r. r \<in> set (pd_orders db) \<Longrightarrow>
      same_order r (g r) \<and> order_move\<^sup>*\<^sup>* (po_Status r) (po_Status (g r))
      \<and> (pay_good env units db \<and> po_Status (g r) = OrderStatusCompleted \<and> po_OrderType r \<noteq> OrderTypeSubscription
           \<longrightarrow> code_used db (po_RechargeCode r))"
  shows "pay_protocol env units db (db\<lparr>pd_orders := map g (pd_orders db)\<rparr>)"
proof -
  let ?db = "db\<lparr>pd_orders := map g (pd_orders db)\<rparr>"
  have ids: "map (\<lambda>r. po_ID (g r)) (pd_orders db) = map po_ID (pd_orders db)"
    and codes: "map (\<lambda>r. po_RechargeCode (g r)) (pd_orders db) = map po_RechargeCode (pd_orders db)"
    using g by (auto simp: same_order_def)
  have same: "po_RechargeCode (g r) = po_RechargeCode r \<and> po_Amount (g r) = po_Amount r
              \<and> po_OrderType (g r) = po_OrderType r" if "r \<in> set (pd_orders db)" for r
    using g [OF that] by (simp add: same_order_def)
  have "pay_good env units ?db" if good: "pay_good env units db"
    using good g same unfolding pay_good_def by (simp add: ids codes comp_def code_used_def)
  moreover have "pay_later units db ?db"
    using g by (force simp: pay_later_def balance_of_def user_row_def redeemed_def)
  ultimately show ?thesis by (simp add: pay_protocol_def)
qed

lemma protocol_order_update:
  assumes "\<And>r. r \<in> set (pd_orders db) \<Longrightarrow> po_ID r = i \<Longrightarrow> p now r \<Longrightarrow>
      same_order r (f now r) \<and> order_move\<^sup>*\<^sup>* (po_Status r) (po_Status (f now r))
      \<and> (pay_good env units db \<and> po_Status (f now r) = OrderStatusCompleted \<and> po_OrderType r \<noteq> OrderTypeSubscription
           \<longrightarrow> code_used db (po_RechargeCode r))"
  shows "pay_protocol env units db (snd (order_Update i p f now db))"
proof -
  have "pay_protocol env units db
          (db\<lparr>pd_orders := map (\<lambda>r. if po_ID r = i \<and> p now r then touch now (f now) r else r) (pd_orders db)\<rparr>)"
  proof (rule protocol_map_orders)
    fix r assume r: "r \<in> set (pd_orders db)"
    show "same_order r (if po_ID r = i \<and> p now r then touch now (f now) r else r)
      \<and> order_move\<^sup>*\<^sup>* (po_Status r) (po_Status (if po_ID r = i \<and> p now r then touch now (f now) r else r))
      \<and> (pay_good env units db
          \<and> po_Status (if po_ID r = i \<and> p now r then touch now (f now) r else r) = OrderStatusCompleted
          \<and> po_OrderType r \<noteq> OrderTypeSubscription \<longrightarrow> code_used db (po_RechargeCode r))"
      using assms [OF r] r by (auto simp: touch_def same_order_def pay_good_def)
  qed
  then show ?thesis by (simp add: order_Update_def Let_def)
qed

section \<open>What a handler knows\<close>

text \<open>Facts about the state that no other handler can undo.\<close>

definition order_known :: "pay_env \<Rightarrow> (float64 \<Rightarrow> int) \<Rightarrow> pay_order \<Rightarrow> pay_db \<Rightarrow> bool" where
  "order_known env units o' db \<longleftrightarrow> pay_good env units db \<and> (\<exists>r \<in> set (pd_orders db). same_order r o')"

definition code_known :: "pay_env \<Rightarrow> (float64 \<Rightarrow> int) \<Rightarrow> redeem_row \<Rightarrow> pay_db \<Rightarrow> bool" where
  "code_known env units rc db \<longleftrightarrow> pay_good env units db
     \<and> (\<exists>c \<in> set (pd_codes db). rr_ID c = rr_ID rc \<and> rr_Code c = rr_Code rc \<and> rr_Type c = rr_Type rc
          \<and> rr_Value c = rr_Value rc)"

definition used_known :: "pay_env \<Rightarrow> (float64 \<Rightarrow> int) \<Rightarrow> string \<Rightarrow> pay_db \<Rightarrow> bool" where
  "used_known env units code db \<longleftrightarrow> pay_good env units db \<and> code_used db code"

lemma good_later: "pay_good env units db \<Longrightarrow> pay_protocol env units db db' \<Longrightarrow> pay_good env units db'"
  by (simp add: pay_protocol_def)

lemma order_known_later: "order_known env units o' db \<Longrightarrow> pay_protocol env units db db' \<Longrightarrow> order_known env units o' db'"
  unfolding order_known_def pay_protocol_def pay_later_def same_order_def by metis

lemma code_known_later: "code_known env units rc db \<Longrightarrow> pay_protocol env units db db' \<Longrightarrow> code_known env units rc db'"
  unfolding code_known_def pay_protocol_def pay_later_def same_code_def by metis

lemma used_known_later: "used_known env units code db \<Longrightarrow> pay_protocol env units db db' \<Longrightarrow> used_known env units code db'"
  unfolding used_known_def pay_protocol_def pay_later_def same_code_def code_used_def by metis

lemmas known_later = good_later order_known_later code_known_later used_known_later

lemma order_known_same: "order_known env units o' db \<Longrightarrow> same_order o' o'' \<Longrightarrow> order_known env units o'' db"
  unfolding order_known_def by (meson same_order_trans)

lemma find_row: "find P xs = Some x \<Longrightarrow> x \<in> set xs \<and> P x"
  by (auto simp: find_Some_iff)

lemma order_Get_known:
  "pay_good env units db \<Longrightarrow> order_Get i now db = (Inr (Some o'), db') \<Longrightarrow> order_known env units o' db' \<and> po_ID o' = i"
  by (auto simp: order_Get_def order_row_def order_known_def dest!: find_row intro!: bexI [where x = o'])

lemma code_GetByCode_known:
  "pay_good env units db \<Longrightarrow> code_GetByCode c now db = (Inr rc, db')
   \<Longrightarrow> code_known env units rc db' \<and> rr_Code rc = c \<and> (rc_Status rc = StatusUsed \<longrightarrow> used_known env units c db')"
  by (auto simp: code_GetByCode_def code_row_def of_option_def code_known_def used_known_def code_used_def
           dest!: find_row split: option.splits)

section \<open>Codes\<close>

lemma same_key: "distinct (map f xs) \<Longrightarrow> x \<in> set xs \<Longrightarrow> y \<in> set xs \<Longrightarrow> f x = f y \<Longrightarrow> x = y"
  by (auto simp: distinct_map dest: inj_onD)

lemma order_amount:
  "order_known env units o' db \<Longrightarrow> r \<in> set (pd_orders db) \<Longrightarrow> po_RechargeCode r = po_RechargeCode o'
   \<Longrightarrow> po_Amount r = po_Amount o'"
  unfolding order_known_def pay_good_def same_order_def by (metis same_key)

lemma code_Create_keeps:
  assumes known: "order_known env units o' db" and c: "rr_Code c = po_RechargeCode o'" "rr_Type c = RedeemTypeBalance"
    "rr_Value c = po_Amount o'" "rc_Status c \<noteq> StatusUsed"
  shows "pay_protocol env units db (snd (code_Create c now db))"
proof (cases "code_row db (rr_Code c) = None")
  case True
  let ?c = "c\<lparr>rr_ID := pd_nextCode db, rr_CreatedAt := now\<rparr>"
  let ?db = "db\<lparr>pd_codes := pd_codes db @ [?c], pd_nextCode := pd_nextCode db + 1\<rparr>"
  have good: "pay_good env units db" and amount: "exact_amount env units (po_Amount o')"
    using known by (auto simp: order_known_def pay_good_def same_order_def)
  have new: "rr_Code c \<notin> rr_Code ` set (pd_codes db)" "pd_nextCode db \<notin> rr_ID ` set (pd_codes db)"
    using True good by (auto simp: code_row_def find_None_iff pay_good_def)
  have "pay_good env units ?db"
    using good new amount c order_amount [OF known]
    by (auto simp: pay_good_def code_used_def)
  moreover have "pay_later units db ?db"
    using c by (auto simp: pay_later_def balance_of_def user_row_def redeemed_def credit_def intro!: bexI)
  ultimately show ?thesis using True by (simp add: code_Create_def pay_protocol_def)
qed (auto simp: code_Create_def)

lemma sum_flip:
  fixes F :: "redeem_row \<Rightarrow> int"
  assumes "distinct (map rr_ID cs)" and "c \<in> set cs" and "p c"
  shows "(\<Sum>x\<leftarrow>cs. F (if rr_ID x = rr_ID c \<and> p x then h x else x)) = (\<Sum>x\<leftarrow>cs. F x) - F c + F (h c)"
  using assms
proof (induction cs)
  case (Cons a cs)
  show ?case
  proof (cases "a = c")
    case True
    then have "rr_ID x \<noteq> rr_ID c" if "x \<in> set cs" for x
      using Cons.prems(1) that by (auto, metis image_eqI)
    then have "(\<Sum>x\<leftarrow>cs. F (if rr_ID x = rr_ID c \<and> p x then h x else x)) = (\<Sum>x\<leftarrow>cs. F x)"
      by (intro arg_cong [where f = sum_list] map_cong) auto
    then show ?thesis using True Cons.prems(3) by simp
  next
    case False
    then have c: "c \<in> set cs" using Cons.prems(2) by auto
    then have "rr_ID a \<noteq> rr_ID c" using Cons.prems(1) by force
    then show ?thesis using Cons.IH [OF _ c Cons.prems(3)] Cons.prems(1) by simp
  qed
qed simp

text \<open>Using a code: the row it finds is unused, and only that row changes.\<close>

definition use_row :: "int \<Rightarrow> gtime \<Rightarrow> redeem_row \<Rightarrow> redeem_row" where
  "use_row u now r = r\<lparr>rc_Status := StatusUsed, rr_UsedBy := Some u, rr_UsedAt := Some now\<rparr>"

definition with_used :: "int \<Rightarrow> int \<Rightarrow> gtime \<Rightarrow> pay_db \<Rightarrow> pay_db" where
  "with_used i u now db =
     db\<lparr>pd_codes := map (\<lambda>r. if rr_ID r = i \<and> rc_Status r = StatusUnused then use_row u now r else r) (pd_codes db)\<rparr>"

lemma code_Use_Inr:
  assumes "code_Use i u now db = (Inr x, db')"
  obtains c where "c \<in> set (pd_codes db)" "rr_ID c = i" "rc_Status c = StatusUnused" "db' = with_used i u now db"
  using assms by (auto simp: code_Use_def Let_def list_ex_iff with_used_def use_row_def split: if_splits)

lemma use_row_same: "rc_Status r = StatusUnused \<Longrightarrow> same_code r (use_row u now r)"
  by (simp add: use_row_def same_code_def)

lemma with_used_good:
  assumes "pay_good env units db"
  shows "pay_good env units (with_used i u now db)"
proof -
  define g where "g = (\<lambda>r. if rr_ID r = i \<and> rc_Status r = StatusUnused then use_row u now r else r)"
  have g: "rr_ID (g r) = rr_ID r \<and> rr_Code (g r) = rr_Code r \<and> rr_Type (g r) = rr_Type r \<and> rr_Value (g r) = rr_Value r
           \<and> (rc_Status r = StatusUsed \<longrightarrow> g r = r)" for r
    by (auto simp: g_def use_row_def)
  have maps: "map (\<lambda>r. rr_ID (g r)) (pd_codes db) = map rr_ID (pd_codes db)"
    "map (\<lambda>r. rr_Code (g r)) (pd_codes db) = map rr_Code (pd_codes db)"
    using g by auto
  have used: "code_used db x \<Longrightarrow> \<exists>c \<in> set (pd_codes db). rr_Code (g c) = x \<and> rc_Status (g c) = StatusUsed" for x
    using g unfolding code_used_def by metis
  have "with_used i u now db = db\<lparr>pd_codes := map g (pd_codes db)\<rparr>" by (simp add: with_used_def g_def)
  then show ?thesis
    using assms g used by (simp add: pay_good_def maps comp_def) (auto simp: code_used_def)
qed

lemma with_used_codes:
  "c \<in> set (pd_codes db) \<Longrightarrow> \<exists>c' \<in> set (pd_codes (with_used i u now db)). same_code c c'"
  using use_row_same
  by (intro bexI [where x = "if rr_ID c = i \<and> rc_Status c = StatusUnused then use_row u now c else c"])
     (auto simp: with_used_def)

lemma with_used_hit:
  "c \<in> set (pd_codes db) \<Longrightarrow> rc_Status c = StatusUnused \<Longrightarrow> rr_ID c = i
   \<Longrightarrow> use_row u now c \<in> set (pd_codes (with_used i u now db))"
  by (auto simp: with_used_def)

lemma redeemed_with_used:
  assumes "pay_good env units db" and "c \<in> set (pd_codes db)" and "rr_ID c = i" and "rc_Status c = StatusUnused"
  shows "redeemed units (with_used i u now db) v
         = redeemed units db v + (if v = u \<and> rr_Type c = RedeemTypeBalance then units (rr_Value c) else 0)"
proof -
  have d: "distinct (map rr_ID (pd_codes db))" using assms(1) by (simp add: pay_good_def)
  show ?thesis
    using sum_flip [OF d assms(2), of "\<lambda>r. rc_Status r = StatusUnused" "credit units v" "use_row u now"] assms(3,4)
    by (simp add: redeemed_def with_used_def comp_def) (simp add: credit_def use_row_def)
qed

section \<open>The transaction of redeeming\<close>

lemma user_update_balance:
  "user_update i f db = (Inr x, db') \<Longrightarrow> (\<forall>u. pu_ID (f u) = pu_ID u) \<Longrightarrow>
   (\<forall>v. balance_of db' v = (if v = i then pu_Balance (f (the (user_row db i))) else balance_of db v))"
proof -
  assume a: "user_update i f db = (Inr x, db')" and f: "\<forall>u. pu_ID (f u) = pu_ID u"
  have "find (\<lambda>u. pu_ID u = v) (map (\<lambda>u. if pu_ID u = i then f u else u) us)
        = map_option (\<lambda>u. if pu_ID u = i then f u else u) (find (\<lambda>u. pu_ID u = v) us)" for v us
    using f by (induction us) auto
  then show ?thesis
    using a by (auto simp: user_update_def balance_of_def user_row_def split: if_splits option.splits dest: find_row)
qed

lemma user_update_rest:
  "user_update i f db = (r, db') \<Longrightarrow>
   pd_orders db' = pd_orders db \<and> pd_codes db' = pd_codes db \<and> pd_nextCode db' = pd_nextCode db"
  by (auto simp: user_update_def split: if_splits)

lemma on_subs_rest:
  "on_subs f db = (r, db') \<Longrightarrow> pd_orders db' = pd_orders db \<and> pd_codes db' = pd_codes db
     \<and> pd_nextCode db' = pd_nextCode db \<and> pd_users db' = pd_users db"
  by (auto simp: on_subs_def split: sum.splits prod.splits)

lemma wrap_fst_Inr: "wrap_fst what p = (Inr x, s) \<Longrightarrow> \<exists>y. p = (Inr y, s)"
  by (cases p; cases "fst p") auto

lemma grant_balance:
  assumes "redeem_grant env w userID user rc now db = (Inr x, db')"
    and exact: "rr_Type rc = RedeemTypeBalance \<Longrightarrow> exact_amount env units (rr_Value rc)"
  shows "pd_orders db' = pd_orders db \<and> pd_codes db' = pd_codes db \<and> pd_nextCode db' = pd_nextCode db
    \<and> (\<forall>v. balance_of db' v = balance_of db v + (if v = userID \<and> rr_Type rc = RedeemTypeBalance then units (rr_Value rc) else 0))"
proof (cases "rr_Type rc = RedeemTypeBalance")
  case True
  then obtain y where upd: "user_UpdateBalance env userID (rr_Value rc) now db = (Inr y, db')"
    using assms exact [OF True] by (auto simp: redeem_grant_def exact_amount_def Let_def dest!: wrap_fst_Inr)
  then have "user_row db userID \<noteq> None" by (auto simp: user_UpdateBalance_def user_update_def split: if_splits)
  then show ?thesis
    using user_update_rest [OF upd [unfolded user_UpdateBalance_def]]
      user_update_balance [OF upd [unfolded user_UpdateBalance_def]] exact [OF True] True
    by (auto simp: exact_amount_def balance_of_def)
next
  case False
  show ?thesis
  proof (cases "rr_Type rc = RedeemTypeConcurrency")
    case True
    then obtain y d where "user_UpdateConcurrency userID d now db = (Inr y, db')"
      using assms(1) by (auto simp: redeem_grant_def Let_def dest!: wrap_fst_Inr)
    note upd = this [unfolded user_UpdateConcurrency_def]
    then have "user_row db userID \<noteq> None" by (auto simp: user_update_def split: if_splits)
    then show ?thesis
      using user_update_rest [OF upd] user_update_balance [OF upd] False by (auto simp: balance_of_def)
  next
    case other: False
    then show ?thesis
      using assms(1) False
      by (auto simp: redeem_grant_def Let_def balance_of_def user_row_def
               dest!: wrap_fst_Inr on_subs_rest split: if_splits)
  qed
qed

lemma redeem_tx_keeps:
  assumes known: "code_known env units rc db"
    and tx: "redeem_tx env userID user rc w now db = (Inr x, db')"
  shows "pay_protocol env units db db' \<and> code_used db' (rr_Code rc)"
proof -
  obtain y db1 where use: "code_Use (rr_ID rc) userID now db = (Inr y, db1)"
    and grant: "redeem_grant env w userID user rc now db1 = (Inr x, db')"
    using tx by (auto simp: redeem_tx_def split: option.splits prod.splits sum.splits)
  from code_Use_Inr [OF use] obtain c where c: "c \<in> set (pd_codes db)" "rr_ID c = rr_ID rc"
      "rc_Status c = StatusUnused" "db1 = with_used (rr_ID rc) userID now db" by metis
  have good: "pay_good env units db" using known by (simp add: code_known_def)
  then have same: "rr_Code c = rr_Code rc" "rr_Type c = rr_Type rc" "rr_Value c = rr_Value rc"
    using known c(1,2) unfolding code_known_def pay_good_def by (metis same_key)+
  then have "exact_amount env units (rr_Value rc)" if "rr_Type rc = RedeemTypeBalance"
    using good c(1) that by (auto simp: pay_good_def)
  note rest = grant_balance [OF grant this]
  have good1: "pay_good env units db1" using with_used_good [OF good] c(4) by simp
  have "balance_of db1 v = balance_of db v" for v by (simp add: c(4) with_used_def balance_of_def user_row_def)
  then have "balance_of db' v - redeemed units db' v = balance_of db v - redeemed units db v" for v
    using rest redeemed_with_used [OF good c(1) c(2) c(3), where u = userID and now = now and v = v] same c(4)
    by (auto simp: redeemed_def)
  moreover have "pd_orders db1 = pd_orders db" by (simp add: c(4) with_used_def)
  ultimately have "pay_later units db db'"
    using rest with_used_codes [of _ db] c(4) by (auto simp: pay_later_def intro!: bexI)
  moreover have "pay_good env units db'"
    using good1 rest by (simp add: pay_good_def code_used_def)
  moreover have "code_used db' (rr_Code rc)"
    using with_used_hit [OF c(1,3,2), where u = userID and now = now] c(4) same(1) rest
    unfolding code_used_def by (auto simp: use_row_def intro!: bexI [where x = "use_row userID now c"])
  ultimately show ?thesis by (simp add: pay_protocol_def)
qed

end
