(* ===== verification/PaySafety.thy ===== *)
theory PaySafety
  imports PayProtocol
begin

text \<open>
  Every handler of payments and redeem codes outside refunds keeps the protocol of
  \<open>PayProtocol\<close>, statement by statement.
\<close>

lemma keeps_txn:
  "(\<forall>w now t x t'. pay_protocol env units s t \<longrightarrow> f w now t = (Inr x, t') \<longrightarrow> pay_protocol env units t t')
   \<Longrightarrow> (\<forall>w now t x t'. pay_protocol env units s t \<longrightarrow> f w now t = (Inr x, t') \<longrightarrow> (\<forall>u. pay_protocol env units t' u \<longrightarrow> Q x u))
   \<Longrightarrow> safe (pay_protocol env units) (\<lambda>r t. case r of Inl _ \<Rightarrow> True | Inr x \<Rightarrow> Q x t) (txn what f) s"
proof (unfold txn_def, rule pay.safe_atomic, safe)
  fix w t
  assume a: "\<forall>w now t x t'. pay_protocol env units s t \<longrightarrow> f w now t = (Inr x, t') \<longrightarrow> pay_protocol env units t t'"
    and t: "pay_protocol env units s t"
  show "pay_protocol env units t (snd (committed what (w_fault w) (f w (w_now w) t) t))"
    using a t by (cases "w_fault w"; cases "f w (w_now w) t"; cases "fst (f w (w_now w) t)") auto
next
  fix w t u
  assume q: "\<forall>w now t x t'. pay_protocol env units s t \<longrightarrow> f w now t = (Inr x, t') \<longrightarrow> (\<forall>u. pay_protocol env units t' u \<longrightarrow> Q x u)"
    and t: "pay_protocol env units s t" "pay_protocol env units (snd (committed what (w_fault w) (f w (w_now w) t) t)) u"
  show "case fst (committed what (w_fault w) (f w (w_now w) t) t) of Inl _ \<Rightarrow> True | Inr x \<Rightarrow> Q x u"
    using q t by (cases "w_fault w"; cases "f w (w_now w) t"; cases "fst (f w (w_now w) t)") auto
qed

lemma keeps_txn_plain:
  "(\<forall>w now t x t'. pay_protocol env units s t \<longrightarrow> f w now t = (Inr x, t') \<longrightarrow> pay_protocol env units t t')
   \<Longrightarrow> keeps env units (txn what f) s"
  by (rule pay.safe_weaken [OF keeps_txn [where Q = "\<lambda>_ _. True"]]) auto

text \<open>Steps on the rest of the state.\<close>

lemma keeps_atomic_same:
  "(\<forall>w t. pd_orders (snd (f w t)) = pd_orders t \<and> pd_codes (snd (f w t)) = pd_codes t
      \<and> pd_nextCode (snd (f w t)) = pd_nextCode t \<and> pd_users (snd (f w t)) = pd_users t)
   \<Longrightarrow> keeps env units (atomic f) s"
  by (rule pay.safe_atomic) (auto intro!: protocol_same simp: balance_of_def user_row_def)

lemma keeps_EnsureProviders [simp, intro]: "keeps env units EnsureProviders s"
  unfolding EnsureProviders_def by (rule keeps_atomic_same) (auto split: option.splits)

lemma keeps_group [simp, intro]: "keeps env units (group_GetByID g) s"
  unfolding group_GetByID_def
proof (rule keeps_atomic_same, intro allI)
  fix w t
  show "pd_orders (snd (lost_or (db_outcome (w_fault w) (of_option (sub_go_error ErrGroupNotFound) (w_groups w g), t) t))) = pd_orders t
    \<and> pd_codes (snd (lost_or (db_outcome (w_fault w) (of_option (sub_go_error ErrGroupNotFound) (w_groups w g), t) t))) = pd_codes t
    \<and> pd_nextCode (snd (lost_or (db_outcome (w_fault w) (of_option (sub_go_error ErrGroupNotFound) (w_groups w g), t) t))) = pd_nextCode t
    \<and> pd_users (snd (lost_or (db_outcome (w_fault w) (of_option (sub_go_error ErrGroupNotFound) (w_groups w g), t) t))) = pd_users t"
    by (cases "w_fault w") auto
qed

lemma keeps_assign [simp, intro]: "keeps env units (assign_or_extend env' input) s"
  unfolding assign_or_extend_def
proof (rule keeps_atomic_same, intro allI)
  fix w t
  let ?r = "on_subs (AssignOrExtendSubscription (w_groups w) (pe_loc env') (w_now w) input) t"
  have "snd (lost_or (db_outcome (w_fault w) ?r t)) \<in> {t, snd ?r}"
    by (cases "w_fault w"; cases ?r) auto
  then show "pd_orders (snd (lost_or (db_outcome (w_fault w) ?r t))) = pd_orders t
    \<and> pd_codes (snd (lost_or (db_outcome (w_fault w) ?r t))) = pd_codes t
    \<and> pd_nextCode (snd (lost_or (db_outcome (w_fault w) ?r t))) = pd_nextCode t
    \<and> pd_users (snd (lost_or (db_outcome (w_fault w) ?r t))) = pd_users t"
    using on_subs_rest [of _ t "fst ?r" "snd ?r"] by auto
qed

lemma keeps_call_same:
  "(\<forall>now t. pd_orders (snd (f now t)) = pd_orders t \<and> pd_codes (snd (f now t)) = pd_codes t
      \<and> pd_nextCode (snd (f now t)) = pd_nextCode t \<and> pd_users (snd (f now t)) = pd_users t)
   \<Longrightarrow> keeps env units (call f) s"
  by (rule keeps_call) (auto intro!: protocol_same simp: balance_of_def user_row_def)

lemmas keeps_intros = keeps_bind keeps_try

lemma keeps_if: "keeps env units p s \<Longrightarrow> keeps env units q s \<Longrightarrow> keeps env units (if b then p else q) s"
  by simp

section \<open>Finding the provider\<close>

lemma keeps_resolve [simp, intro]:
  "keeps env units (resolveUniqueLegacyOrderProviderInstance o') s"
  "keeps env units (resolveSnapshotOrderProviderInstance o' sn) s"
  unfolding resolveUniqueLegacyOrderProviderInstance_def resolveSnapshotOrderProviderInstance_def Let_def
  by (auto intro!: keeps_intros keeps_read simp: instance_Where_def instance_Get_def split: option.split)

lemma keeps_getOrderProviderInstance [simp, intro]: "keeps env units (getOrderProviderInstance o') s"
  unfolding getOrderProviderInstance_def Let_def
  by (auto intro!: keeps_intros keeps_read simp: instance_Get_def split: option.split)

lemma keeps_fallback [simp, intro]: "keeps env units (webhookRegistryFallbackAllowed k) s"
  unfolding webhookRegistryFallbackAllowed_def Let_def
  by (auto intro!: keeps_intros keeps_read simp: instance_Where_def)

lemma keeps_getOrderProvider [simp, intro]: "keeps env units (getOrderProvider o') s"
  unfolding getOrderProvider_def createProviderFromInstance_def Let_def
  by (auto intro!: keeps_intros split: option.split)

section \<open>Redeeming\<close>

lemma keeps_cache [simp, intro]:
  "keeps env units (checkRedeemRateLimit env' u) s" "keeps env units (incrementRedeemErrorCount env' u) s"
  "keeps env units (acquireRedeemLock env' c) s" "keeps env units (releaseRedeemLock env' c) s"
  unfolding checkRedeemRateLimit_def incrementRedeemErrorCount_def acquireRedeemLock_def releaseRedeemLock_def
  by (auto intro!: keeps_intros keeps_call_same simp: GetRedeemAttemptCount_def IncrementRedeemAttemptCount_def
      AcquireRedeemLock_def ReleaseRedeemLock_def split: option.split)

lemma keeps_reads [simp, intro]:
  "keeps env units (call (user_GetByID u)) s" "keeps env units (call (code_GetByID i)) s"
  "keeps env units (call (code_GetByCode c)) s" "keeps env units (call (order_Get i)) s"
  "keeps env units (call (order_ByOutTradeNo x)) s"
  by (auto intro!: keeps_read simp: user_GetByID_def code_GetByID_def code_GetByCode_def order_Get_def order_ByOutTradeNo_def)

abbreviation knows_used :: "pay_env \<Rightarrow> (float64 \<Rightarrow> int) \<Rightarrow> string \<Rightarrow> go_error + 'a \<Rightarrow> pay_db \<Rightarrow> bool" where
  "knows_used env units code \<equiv> \<lambda>r t. case r of Inl _ \<Rightarrow> True | Inr _ \<Rightarrow> used_known env units code t"

lemma safe_Inl [simp, intro]: "safe (pay_protocol env units) (\<lambda>r t. case r of Inl _ \<Rightarrow> True | Inr x \<Rightarrow> Q x t) (Ret (Inl e)) s"
  by simp

lemma safe_after:
  assumes "keeps env units p s"
    and "\<forall>a t. pay_protocol env units s t \<longrightarrow> safe (pay_protocol env units) Q (f a) t"
  shows "safe (pay_protocol env units) Q (bind p f) s"
  by (rule pay.safe_bind [OF assms(1)]) (use assms(2) in auto)

lemma safe_try_plain:
  assumes "keeps env units p s"
    and "\<forall>e t. pay_protocol env units s t \<longrightarrow> safe (pay_protocol env units) Q (onerr e) t"
    and "\<forall>x t. pay_protocol env units s t \<longrightarrow> safe (pay_protocol env units) Q (k x) t"
  shows "safe (pay_protocol env units) Q (try_else p onerr k) s"
  unfolding try_else_def by (rule safe_after [OF assms(1)]) (use assms(2,3) in \<open>auto split: sum.split\<close>)

lemma redeem_locked_safe:
  assumes good: "pay_good env units s"
  shows "safe (pay_protocol env units) (knows_used env units code) (redeem_locked env u code) s"
  unfolding redeem_locked_def
proof (rule safe_try [where P = "\<lambda>rc t. code_known env units rc t \<and> rr_Code rc = code"])
  show "safe (pay_protocol env units) (\<lambda>r t. case r of Inl _ \<Rightarrow> True | Inr rc \<Rightarrow> code_known env units rc t \<and> rr_Code rc = code)
          (call (code_GetByCode code)) s"
  proof (rule safe_call)
    show "\<forall>now t. pay_protocol env units s t \<longrightarrow> pay_protocol env units t (snd (code_GetByCode code now t))"
      by (simp add: code_GetByCode_def)
    show "\<forall>now t x t'. pay_protocol env units s t \<longrightarrow> code_GetByCode code now t = (Inr x, t') \<longrightarrow>
            (\<forall>v. pay_protocol env units t' v \<longrightarrow> code_known env units x v \<and> rr_Code x = code)"
      using good_later [OF good] code_GetByCode_known code_known_later by blast
  qed
  show "\<forall>e t. pay_protocol env units s t \<longrightarrow> safe (pay_protocol env units) (knows_used env units code)
          (if errors_Is e ErrRedeemCodeNotFound
            then bind (incrementRedeemErrorCount env u) (\<lambda>_. Ret (Inl ErrRedeemCodeNotFound))
            else Ret (Inl (wrap ''get redeem code'' e))) t"
    by (auto intro!: safe_after)
next
  have tx: "safe (pay_protocol env units) (knows_used env units code) (txn what (redeem_tx env u user rc)) t"
    if "code_known env units rc t" "rr_Code rc = code" for what user rc t
  proof (rule keeps_txn [where Q = "\<lambda>_. used_known env units code"])
    have step: "pay_protocol env units t' t'' \<and> used_known env units code t''"
      if "pay_protocol env units t t'" "redeem_tx env u user rc w now t' = (Inr x, t'')" for w now t' x t''
    proof -
      have known: "code_known env units rc t'" using code_known_later \<open>code_known env units rc t\<close> that(1) .
      from redeem_tx_keeps [OF this that(2)] have "pay_protocol env units t' t''" "code_used t'' (rr_Code rc)" by auto
      then show ?thesis
        using known \<open>rr_Code rc = code\<close> good_later unfolding code_known_def used_known_def by metis
    qed
    then show "\<forall>w now t' x t''. pay_protocol env units t t' \<longrightarrow> redeem_tx env u user rc w now t' = (Inr x, t'')
        \<longrightarrow> pay_protocol env units t' t''" by blast
    show "\<forall>w now t' x t''. pay_protocol env units t t' \<longrightarrow> redeem_tx env u user rc w now t' = (Inr x, t'')
        \<longrightarrow> (\<forall>v. pay_protocol env units t'' v \<longrightarrow> used_known env units code v)"
      using step used_known_later by blast
  qed
  have rest: "safe (pay_protocol env units) (knows_used env units code)
      (try_else (txn ''commit transaction'' (redeem_tx env u user rc)) (\<lambda>e. Ret (Inl e)) (\<lambda>_.
         try_else (call (code_GetByID (rr_ID rc)))
           (\<lambda>e. Ret (Inl (wrap ''get updated redeem code'' e))) (\<lambda>c. Ret (Inr c)))) t"
    if "code_known env units rc t \<and> rr_Code rc = code" for user rc t
    using that by (intro safe_try [OF tx]) (auto intro!: safe_try_plain, meson pay.trans)
  show "\<forall>rc t. pay_protocol env units s t \<longrightarrow>
      (\<forall>v. pay_protocol env units t v \<longrightarrow> code_known env units rc v \<and> rr_Code rc = code) \<longrightarrow>
      safe (pay_protocol env units) (knows_used env units code)
        (bind (ask w_now) (\<lambda>t1.
          if Redeem_IsExpiredAt t1 (Some rc)
          then bind (incrementRedeemErrorCount env u) (\<lambda>_. Ret (Inl ErrRedeemCodeExpired))
          else bind (ask w_now) (\<lambda>t2.
          if \<not> Redeem_CanUse t2 rc
          then bind (incrementRedeemErrorCount env u) (\<lambda>_. Ret (Inl ErrRedeemCodeUsed))
          else if rr_Type rc = RedeemTypeSubscription \<and> rr_GroupID rc = None
          then Ret (Inl (BadRequest ''REDEEM_CODE_INVALID'' ''invalid subscription redeem code: missing group_id''))
          else try_else (call (user_GetByID u)) (\<lambda>e. Ret (Inl (wrap ''get user'' e))) (\<lambda>user.
               try_else (txn ''commit transaction'' (redeem_tx env u user rc)) (\<lambda>e. Ret (Inl e)) (\<lambda>_.
               try_else (call (code_GetByID (rr_ID rc)))
                 (\<lambda>e. Ret (Inl (wrap ''get updated redeem code'' e))) (\<lambda>c. Ret (Inr c))))))) t"
    by (auto intro!: safe_after safe_try_plain [where p = "call (user_GetByID u)"] rest,
        (meson pay.trans)+)
qed

text \<open>A successful \<open>Redeem\<close> leaves its code used.\<close>

lemma Redeem_safe:
  assumes "pay_good env units s"
  shows "safe (pay_protocol env units) (knows_used env units code) (Redeem env u code) s"
proof -
  have body: "safe (pay_protocol env units) (knows_used env units code)
          (bind (redeem_locked env u code) (\<lambda>r. bind (releaseRedeemLock env code) (\<lambda>_. Ret r))) t"
    if "pay_good env units t" for t
  proof (rule pay.safe_bind [OF redeem_locked_safe [OF that]], safe)
    fix r t' assume "\<forall>s''. pay_protocol env units t' s'' \<longrightarrow> knows_used env units code r s''"
    then show "safe (pay_protocol env units) (knows_used env units code)
                 (bind (releaseRedeemLock env code) (\<lambda>_. Ret r)) t'"
      by (intro safe_after) (auto split: sum.splits, meson pay.trans)
  qed
  show ?thesis
    unfolding Redeem_def
    by (auto intro!: safe_after [where p = "checkRedeemRateLimit env u"]
          safe_after [where p = "acquireRedeemLock env code"] split: option.split,
        rule body, metis good_later assms)
qed

lemma Redeem_keeps: "pay_good env units s \<Longrightarrow> keeps env units (Redeem env u code) s"
  by (rule pay.safe_weaken [OF Redeem_safe]) auto

section \<open>Completing, failing and the rebate\<close>

lemma markCompleted_keeps:
  assumes known: "order_known env units o' s"
    and used: "po_OrderType o' \<noteq> OrderTypeSubscription \<Longrightarrow> used_known env units (po_RechargeCode o') s"
  shows "keeps env units (markCompleted o' action) s"
  unfolding markCompleted_def
proof (intro keeps_try keeps_call allI impI)
  fix now t assume t: "pay_protocol env units s t"
  show "pay_protocol env units t (snd (order_Update (po_ID o') (\<lambda>_ r. po_Status r = OrderStatusRecharging)
          (\<lambda>now r. r\<lparr>po_Status := OrderStatusCompleted, po_CompletedAt := Some now\<rparr>) now t))"
  proof (rule protocol_order_update)
    fix r assume r: "r \<in> set (pd_orders t)" "po_ID r = po_ID o'" "po_Status r = OrderStatusRecharging"
    have "code_used t (po_RechargeCode r)" if "pay_good env units t" "po_OrderType r \<noteq> OrderTypeSubscription"
    proof -
      from order_known_later [OF known t] obtain x where "x \<in> set (pd_orders t)" "same_order x o'"
        by (auto simp: order_known_def)
      moreover have "x = r" using calculation r that(1) unfolding pay_good_def same_order_def by (metis same_key)
      ultimately have "po_RechargeCode r = po_RechargeCode o'" "po_OrderType o' = po_OrderType r"
        by (auto simp: same_order_def)
      then show ?thesis using used_known_later [OF used t] that(2) by (simp add: used_known_def)
    qed
    then show "same_order r (r\<lparr>po_Status := OrderStatusCompleted, po_CompletedAt := Some now\<rparr>)
      \<and> order_move\<^sup>*\<^sup>* (po_Status r) (po_Status (r\<lparr>po_Status := OrderStatusCompleted, po_CompletedAt := Some now\<rparr>))
      \<and> (pay_good env units t
          \<and> po_Status (r\<lparr>po_Status := OrderStatusCompleted, po_CompletedAt := Some now\<rparr>) = OrderStatusCompleted
          \<and> po_OrderType r \<noteq> OrderTypeSubscription \<longrightarrow> code_used t (po_RechargeCode r))"
      using r(3) order_move.complete by (auto simp: same_order_def)
  qed
qed (auto intro!: keeps_bind)

text \<open>An update that does not complete an order, from one status to another.\<close>

lemma keeps_move:
  assumes "\<And>now r. p now r \<Longrightarrow> same_order r (f now r) \<and> order_move\<^sup>*\<^sup>* (po_Status r) (po_Status (f now r))
      \<and> po_Status (f now r) \<noteq> OrderStatusCompleted"
  shows "keeps env units (call (order_Update i p f)) s"
proof (intro keeps_call allI impI)
  fix now t
  show "pay_protocol env units t (snd (order_Update i p f now t))"
    by (rule protocol_order_update) (use assms in auto)
qed

lemma keeps_markFailed [simp, intro]: "keeps env units (markFailed oid e) s"
  unfolding markFailed_def Let_def
  by (intro keeps_try keeps_move)
     (auto simp: same_order_def intro: order_move.fail)

lemma keeps_lock_recharging [simp, intro]: "keeps env units (lock_recharging oid) s"
  unfolding lock_recharging_def by (rule keeps_move) (auto simp: same_order_def intro: order_move.lock)

lemma rebate_tx_rest:
  "rebate_tx o' b c w now db = (Inr x, db') \<Longrightarrow> pd_orders db' = pd_orders db \<and> pd_codes db' = pd_codes db
     \<and> pd_nextCode db' = pd_nextCode db \<and> pd_users db' = pd_users db"
  by (auto simp: rebate_tx_def tryClaimAffiliateRebateAudit_def updateClaimedAffiliateRebateAudit_def Let_def
      dest!: wrap_fst_Inr split: option.splits if_splits sum.splits prod.splits bool.splits)

lemma keeps_rebate [simp, intro]: "keeps env units (applyAffiliateRebateForOrder env' o') s"
  unfolding applyAffiliateRebateForOrder_def
  by (auto intro!: keeps_bind keeps_try keeps_txn_plain protocol_same dest!: rebate_tx_rest
           simp: balance_of_def user_row_def split: option.split)

section \<open>Fulfilment\<close>

lemma CreateCode_keeps:
  assumes known: "order_known env units o' s"
  shows "keeps env units (CreateCode (recharge_code_of o')) s"
proof -
  have trim: "trim_space (po_RechargeCode o') = po_RechargeCode o'"
    using known by (auto simp: order_known_def pay_good_def same_order_def)
  have "keeps env units (call (code_Create (recharge_code_of o'))) t" if "pay_protocol env units s t" for t
    using order_known_later [OF order_known_later [OF known that]]
    by (intro keeps_call) (auto intro!: code_Create_keeps simp: recharge_code_of_def)
  then show ?thesis
    unfolding CreateCode_def Let_def
    by (auto intro!: keeps_bind keeps_try simp: recharge_code_of_def trim intro: pay.trans)
qed

lemma redeem_GetByCode_safe:
  assumes good: "pay_good env units s"
  shows "safe (pay_protocol env units)
    (\<lambda>r t. resolveRedeemAction r = redeemActionSkipCompleted \<longrightarrow> used_known env units code t) (redeem_GetByCode code) s"
  unfolding redeem_GetByCode_def
proof (rule safe_try [where P = "\<lambda>rc t. rc_Status rc = StatusUsed \<longrightarrow> used_known env units code t"])
  show "safe (pay_protocol env units)
      (\<lambda>r t. case r of Inl _ \<Rightarrow> True | Inr rc \<Rightarrow> rc_Status rc = StatusUsed \<longrightarrow> used_known env units code t)
      (call (code_GetByCode code)) s"
  proof (rule safe_call)
    show "\<forall>now t. pay_protocol env units s t \<longrightarrow> pay_protocol env units t (snd (code_GetByCode code now t))"
      by (simp add: code_GetByCode_def)
    show "\<forall>now t x t'. pay_protocol env units s t \<longrightarrow> code_GetByCode code now t = (Inr x, t') \<longrightarrow>
            (\<forall>v. pay_protocol env units t' v \<longrightarrow> rc_Status x = StatusUsed \<longrightarrow> used_known env units code v)"
      using good_later [OF good] code_GetByCode_known used_known_later by blast
  qed
qed (auto simp: resolveRedeemAction_def Redeem_IsUsed_def intro: pay.trans)

lemma rebate_and_complete_keeps:
  assumes "order_known env units o' s" and "used_known env units (po_RechargeCode o') s"
  shows "keeps env units (rebate_and_complete env o') s"
  unfolding rebate_and_complete_def
  using markCompleted_keeps order_known_later [OF assms(1)] used_known_later [OF assms(2)]
  by (auto intro!: keeps_bind split: option.split)

lemma redeem_and_complete_keeps:
  assumes known: "order_known env units o' s"
  shows "keeps env units (redeem_and_complete env o') s"
  unfolding redeem_and_complete_def
proof (rule safe_try [where P = "\<lambda>_. used_known env units (po_RechargeCode o')"])
  show "safe (pay_protocol env units) (knows_used env units (po_RechargeCode o'))
          (Redeem env (po_UserID o') (po_RechargeCode o')) s"
    using known by (intro Redeem_safe) (simp add: order_known_def)
  show "\<forall>x t. pay_protocol env units s t \<longrightarrow>
        (\<forall>u. pay_protocol env units t u \<longrightarrow> used_known env units (po_RechargeCode o') u) \<longrightarrow>
        keeps env units (rebate_and_complete env o') t"
    using rebate_and_complete_keeps order_known_later [OF known] by blast
qed auto

lemma doBalance_keeps:
  assumes known: "order_known env units o' s"
  shows "keeps env units (doBalance env o') s"
  unfolding doBalance_def
proof (rule pay.safe_bind [OF redeem_GetByCode_safe], safe)
  show "pay_good env units s" using known by (simp add: order_known_def)
next
  fix r t assume t: "pay_protocol env units s t"
    and used: "\<forall>u. pay_protocol env units t u \<longrightarrow> resolveRedeemAction r = redeemActionSkipCompleted
                \<longrightarrow> used_known env units (po_RechargeCode o') u"
  have later: "order_known env units o' u" if "pay_protocol env units t u" for u
    using order_known_later [OF order_known_later [OF known t] that] .
  show "keeps env units (case resolveRedeemAction r of
       redeemActionCreate \<Rightarrow>
         try_else (CreateCode (recharge_code_of o')) (\<lambda>e. Ret (Some (wrap ''create redeem code'' e)))
           (\<lambda>_. redeem_and_complete env o')
     | redeemActionRedeem \<Rightarrow> redeem_and_complete env o'
     | redeemActionSkipCompleted \<Rightarrow> rebate_and_complete env o') t"
    using used later redeem_and_complete_keeps CreateCode_keeps rebate_and_complete_keeps
    by (cases "resolveRedeemAction r") (auto intro!: keeps_try)
qed

lemma doSub_keeps:
  assumes known: "order_known env units o' s" and sub: "po_OrderType o' = OrderTypeSubscription"
  shows "keeps env units (doSub env o' gid days) s"
  unfolding doSub_def Let_def
  using sub by (auto intro!: keeps_try keeps_bind markCompleted_keeps, (metis order_known_later known)+)

lemma order_Get_safe:
  assumes good: "pay_good env units s"
  shows "safe (pay_protocol env units)
    (\<lambda>r t. case r of Inl _ \<Rightarrow> True
       | Inr x \<Rightarrow> (case x of None \<Rightarrow> True | Some o' \<Rightarrow> order_known env units o' t \<and> po_ID o' = i)) (call (order_Get i)) s"
proof (rule safe_call)
  show "\<forall>now t. pay_protocol env units s t \<longrightarrow> pay_protocol env units t (snd (order_Get i now t))"
    by (simp add: order_Get_def)
  show "\<forall>now t x t'. pay_protocol env units s t \<longrightarrow> order_Get i now t = (Inr x, t') \<longrightarrow>
      (\<forall>u. pay_protocol env units t' u \<longrightarrow> (case x of None \<Rightarrow> True | Some o' \<Rightarrow> order_known env units o' u \<and> po_ID o' = i))"
  proof (intro allI impI)
    fix now t x t' u
    assume a: "pay_protocol env units s t" "order_Get i now t = (Inr x, t')" "pay_protocol env units t' u"
    show "case x of None \<Rightarrow> True | Some o' \<Rightarrow> order_known env units o' u \<and> po_ID o' = i"
    proof (cases x)
      case (Some o')
      then have "order_known env units o' t' \<and> po_ID o' = i"
        using order_Get_known [OF good_later [OF good a(1)]] a(2) by simp
      then show ?thesis using Some order_known_later [OF _ a(3)] by auto
    qed simp
  qed
qed

lemma keeps_with_row:
  assumes good: "pay_good env units s"
    and "\<forall>e t. keeps env units (onerr e) t" and "\<forall>t. keeps env units (k None) t"
    and "\<forall>o' t. pay_protocol env units s t \<longrightarrow> order_known env units o' t \<longrightarrow> po_ID o' = i \<longrightarrow> keeps env units (k (Some o')) t"
  shows "keeps env units (try_else (call (order_Get i)) onerr k) s"
proof (rule safe_try [OF order_Get_safe [OF good]])
  show "\<forall>x t. pay_protocol env units s t \<longrightarrow>
      (\<forall>u. pay_protocol env units t u \<longrightarrow> (case x of None \<Rightarrow> True | Some o' \<Rightarrow> order_known env units o' u \<and> po_ID o' = i)) \<longrightarrow>
      keeps env units (k x) t"
  proof (intro allI impI)
    fix x t assume "pay_protocol env units s t"
      and "\<forall>u. pay_protocol env units t u \<longrightarrow> (case x of None \<Rightarrow> True | Some o' \<Rightarrow> order_known env units o' u \<and> po_ID o' = i)"
    then show "keeps env units (k x) t" using assms(3,4) pay_refl by (cases x) fastforce+
  qed
qed (use assms(2) in auto)

lemma locked_do_keeps:
  "(\<forall>t. pay_protocol env units s t \<longrightarrow> keeps env units work t) \<Longrightarrow> keeps env units (locked_do oid work) s"
  unfolding locked_do_def by (auto intro!: keeps_try keeps_bind split: option.split)

lemma fulfil_guards_keeps:
  assumes "pay_good env units s"
    and "\<forall>o' t. pay_protocol env units s t \<longrightarrow> order_known env units o' t \<longrightarrow> po_ID o' = oid \<longrightarrow> keeps env units (k o') t"
  shows "keeps env units (fulfil_guards oid k) s"
  unfolding fulfil_guards_def by (rule keeps_with_row [OF assms(1)]) (use assms(2) in auto)

lemma order_known_unique:
  "order_known env units a db \<Longrightarrow> order_known env units b db \<Longrightarrow> po_ID a = po_ID b \<Longrightarrow> same_order a b"
  unfolding order_known_def pay_good_def same_order_def by (metis same_key)

lemma executeFulfillment_keeps:
  assumes good: "pay_good env units s"
  shows "keeps env units (executeFulfillment env oid) s"
  unfolding executeFulfillment_def
proof (rule keeps_with_row [OF good]; (intro allI impI)?)
  fix o' t assume t: "pay_protocol env units s t" and known: "order_known env units o' t" and "po_ID o' = oid"
  have good': "pay_good env units t" using known by (simp add: order_known_def)
  have sub: "keeps env units (ExecuteSubscriptionFulfillment env oid) t" if "po_OrderType o' = OrderTypeSubscription"
    unfolding ExecuteSubscriptionFulfillment_def
  proof (rule fulfil_guards_keeps [OF good'], intro allI impI)
    fix o2 u assume u: "pay_protocol env units t u" "order_known env units o2 u" "po_ID o2 = oid"
    then have "same_order o' o2"
      using order_known_unique [OF order_known_later [OF known u(1)] u(2)] \<open>po_ID o' = oid\<close> by simp
    then have "po_OrderType o2 = OrderTypeSubscription" using that by (simp add: same_order_def)
    then show "keeps env units (case (po_SubscriptionGroupID o2, po_SubscriptionDays o2) of
         (Some gid, Some days) \<Rightarrow> locked_do oid (doSub env o2 gid days)
       | _ \<Rightarrow> Ret (Some (invalid_status ''missing subscription info''))) u"
      using doSub_keeps order_known_later [OF u(2)] by (auto intro!: locked_do_keeps split: option.split)
  qed
  have "keeps env units (ExecuteBalanceFulfillment env oid) t"
    unfolding ExecuteBalanceFulfillment_def
    using doBalance_keeps order_known_later by (intro fulfil_guards_keeps [OF good']) (blast intro: locked_do_keeps)
  then show "keeps env units (case Some o' of
       None \<Rightarrow> Ret (Some (wrap ''get order'' (plain ''ent: payment_order not found'')))
     | Some o' \<Rightarrow> if po_OrderType o' = OrderTypeSubscription then ExecuteSubscriptionFulfillment env oid
                  else ExecuteBalanceFulfillment env oid) t"
    using sub by simp
qed auto

section \<open>Notifications, retries, cancelling\<close>

lemma alreadyProcessed_keeps: "pay_good env units s \<Longrightarrow> keeps env units (alreadyProcessed env o') s"
  unfolding alreadyProcessed_def
  by (rule keeps_with_row) (auto intro!: keeps_bind executeFulfillment_keeps simp: order_known_def)

lemma paid_recorded_keeps: "pay_good env units s \<Longrightarrow> keeps env units (paid_recorded env o' tradeNo paid pk) s"
  unfolding paid_recorded_def Let_def
  by (auto intro!: keeps_bind executeFulfillment_keeps) (metis good_later)+

lemma toPaid_keeps:
  assumes good: "pay_good env units s"
  shows "keeps env units (toPaid env o' tradeNo paid pk) s"
  unfolding toPaid_def
proof (rule keeps_try)
  show "keeps env units (call (order_Update (po_ID o') payable (\<lambda>now r. r\<lparr>po_Status := OrderStatusPaid,
          po_PayAmount := paid, po_PaymentTradeNo := tradeNo, po_PaidAt := Some now, po_FailedAt := None,
          po_FailedReason := None\<rparr>))) s"
    by (rule keeps_move) (auto simp: payable_def same_order_def intro!: r_into_rtranclp order_move.pay)
qed (use good_later [OF good] alreadyProcessed_keeps paid_recorded_keeps in auto)

lemma confirm_order_keeps:
  "pay_good env units s \<Longrightarrow> keeps env units (confirm_order env o' tradeNo paid pk metadata registered inst) s"
  unfolding confirm_order_def Let_def by (auto intro!: keeps_bind toPaid_keeps split: option.split)

lemma confirmPayment_keeps:
  assumes "pay_good env units s"
  shows "keeps env units (confirmPayment env oid tradeNo paid pk metadata) s"
  unfolding confirmPayment_def
proof (rule keeps_with_row [OF assms], simp_all, intro allI impI keeps_bind)
  fix o' t a u b v
  assume "order_known env units o' t" "pay_protocol env units t u" "pay_protocol env units u v"
  then show "keeps env units (confirm_order env o' tradeNo paid pk metadata b a) v"
    by (intro confirm_order_keeps) (metis good_later order_known_def)
qed auto

lemma HandlePaymentNotification_keeps:
  assumes "pay_good env units s"
  shows "keeps env units (HandlePaymentNotification env n pk) s"
  unfolding HandlePaymentNotification_def
  using good_later [OF assms] confirmPayment_keeps by (auto intro!: keeps_try split: option.split)

lemma retry_from_keeps:
  assumes "pay_good env units s"
  shows "keeps env units (bind (writeAuditLog oid ''RECHARGE_RETRY'' ''admin'' d) (\<lambda>_. executeFulfillment env oid)) s"
  by (auto intro!: keeps_bind executeFulfillment_keeps) (metis good_later assms)

lemma keeps_retry_update:
  "keeps env units (call (order_Update oid (\<lambda>_ r. po_Status r \<in> {OrderStatusFailed, OrderStatusPaid})
     (\<lambda>_ r. r\<lparr>po_Status := OrderStatusPaid, po_FailedAt := None, po_FailedReason := None\<rparr>))) s"
  by (rule keeps_move) (auto simp: same_order_def intro!: r_into_rtranclp order_move.retry)

lemma RetryFulfillment_keeps:
  assumes "pay_good env units s"
  shows "keeps env units (RetryFulfillment env oid) s"
  unfolding RetryFulfillment_def
proof (rule keeps_with_row [OF assms]; (intro allI impI)?)
  fix o' t
  assume known: "order_known env units o' t"
  then have good: "pay_good env units t" by (simp add: order_known_def)
  have work: "keeps env units
       (try_else (call (order_Update oid (\<lambda>_ r. po_Status r \<in> {OrderStatusFailed, OrderStatusPaid})
            (\<lambda>_ r. r\<lparr>po_Status := OrderStatusPaid, po_FailedAt := None, po_FailedReason := None\<rparr>)))
          (\<lambda>e. Ret (Some (wrap ''reset for retry'' e)))
          (\<lambda>_. bind (writeAuditLog oid ''RECHARGE_RETRY'' ''admin'' [(''detail'', GStr ''admin manual retry'')])
                (\<lambda>_. executeFulfillment env oid))) t"
    by (rule keeps_try [OF keeps_retry_update]) (auto intro: retry_from_keeps good_later [OF good])
  show "keeps env units (case Some o' of
         None \<Rightarrow> Ret (Some order_not_found)
       | Some o' \<Rightarrow>
           if po_PaidAt o' = None then Ret (Some (invalid_status ''order is not paid''))
           else if psIsRefundStatus (po_Status o')
           then Ret (Some (invalid_status ''refund-related order cannot retry''))
           else if po_Status o' = OrderStatusRecharging
           then Ret (Some (Conflict ''CONFLICT'' ''order is being processed''))
           else if po_Status o' = OrderStatusCompleted
           then Ret (Some (invalid_status ''order already completed''))
           else if po_Status o' \<notin> {OrderStatusFailed, OrderStatusPaid}
           then Ret (Some (invalid_status ''only paid and failed orders can retry''))
           else try_else (call (order_Update oid (\<lambda>_ r. po_Status r \<in> {OrderStatusFailed, OrderStatusPaid})
                    (\<lambda>_ r. r\<lparr>po_Status := OrderStatusPaid, po_FailedAt := None, po_FailedReason := None\<rparr>)))
                  (\<lambda>e. Ret (Some (wrap ''reset for retry'' e)))
                  (\<lambda>_. bind (writeAuditLog oid ''RECHARGE_RETRY'' ''admin'' [(''detail'', GStr ''admin manual retry'')])
                        (\<lambda>_. executeFulfillment env oid))) t"
    using work by simp
qed auto

section \<open>Asking the provider, cancelling, expiring\<close>

lemma keeps_persist [simp, intro]:
  "keeps env units (call (order_Update i (\<lambda>_ _. True) (\<lambda>_ r. r\<lparr>po_PaymentTradeNo := x\<rparr>))) s"
proof (intro keeps_call allI impI)
  fix now t
  show "pay_protocol env units t (snd (order_Update i (\<lambda>_ _. True) (\<lambda>_ r. r\<lparr>po_PaymentTradeNo := x\<rparr>) now t))"
    by (rule protocol_order_update) (auto simp: same_order_def pay_good_def)
qed

lemma confirm_upstream_keeps:
  assumes "pay_good env units s"
  shows "keeps env units (confirm_upstream env o' prov queryRef resp) s"
  unfolding confirm_upstream_def Let_def
  by (auto intro!: keeps_bind HandlePaymentNotification_keeps) (metis good_later assms)+

lemma keeps_requery [simp, intro]: "keeps env units (requeryPaidOrderOnce prov queryRef) s"
  unfolding requeryPaidOrderOnce_def by (auto intro!: keeps_try)

lemma checkPaidWithOptions_keeps:
  assumes "pay_good env units s"
  shows "keeps env units (checkPaidWithOptions env o' c) s"
  unfolding checkPaidWithOptions_def Let_def
  by (auto intro!: keeps_try keeps_bind confirm_upstream_keeps split: option.split) (metis good_later assms)+

lemma cancelCore_keeps:
  assumes "pay_good env units s" and "fs = OrderStatusCancelled"
  shows "keeps env units (cancelCore env o' fs op ad) s"
proof -
  have move: "keeps env units (call (order_Update i (\<lambda>_ r. po_Status r = OrderStatusPending)
                (\<lambda>_ r. r\<lparr>po_Status := OrderStatusCancelled\<rparr>))) t" for i t
    by (rule keeps_move) (auto simp: same_order_def intro!: r_into_rtranclp order_move.cancel)
  show ?thesis
    using assms unfolding cancelCore_def checkPaid_def
    by (auto intro!: keeps_bind keeps_try move checkPaidWithOptions_keeps)
qed

lemma keeps_with_order:
  assumes "pay_good env units s"
    and "\<forall>o' t. pay_protocol env units s t \<longrightarrow> pay_good env units t \<longrightarrow> keeps env units (k o') t"
  shows "keeps env units (with_order oid k) s"
  unfolding with_order_def by (rule keeps_with_row [OF assms(1)]) (use assms(2) in \<open>auto simp: order_known_def\<close>)

lemma CancelOrder_keeps: "pay_good env units s \<Longrightarrow> keeps env units (CancelOrder env oid u) s"
  and AdminCancelOrder_keeps: "pay_good env units s \<Longrightarrow> keeps env units (AdminCancelOrder env oid) s"
  unfolding CancelOrder_def AdminCancelOrder_def by (auto intro!: keeps_with_order cancelCore_keeps)

lemma VerifyOrder_keeps:
  assumes "pay_good env units s"
  shows "keeps env units (VerifyOrderByOutTradeNo env x u) s"
  unfolding VerifyOrderByOutTradeNo_def by_out_trade_no_def reconcilePaid_def
  using good_later [OF assms]
  by (auto intro!: keeps_bind keeps_try checkPaidWithOptions_keeps split: option.split sum.split)

lemma keeps_loop:
  "pay_good env units s \<Longrightarrow> (\<forall>x acc t. pay_good env units t \<longrightarrow> keeps env units (body x acc) t)
   \<Longrightarrow> keeps env units (for_each xs acc body) s"
  by (rule pay.safe_for_each) (auto dest: good_later)

lemma Reconcile_keeps:
  assumes "pay_good env units s"
  shows "keeps env units (ReconcilePendingProviderOrders env) s"
  unfolding ReconcilePendingProviderOrders_def reconcilePaid_def
  using good_later [OF assms]
  by (auto intro!: keeps_bind keeps_try keeps_read keeps_loop checkPaidWithOptions_keeps)

lemma ExpireTimedOutOrders_keeps:
  assumes "pay_good env units s"
  shows "keeps env units (ExpireTimedOutOrders env) s"
  unfolding ExpireTimedOutOrders_def
  using good_later [OF assms]
  by (auto intro!: keeps_bind keeps_try keeps_read keeps_loop cancelCore_keeps)

lemma expiry_keeps:
  assumes "pay_good env units s"
  shows "keeps env units (expiry_runOnce env) s"
  unfolding expiry_runOnce_def
  using good_later [OF assms] by (auto intro!: keeps_bind Reconcile_keeps ExpireTimedOutOrders_keeps assms)

end
