(* ===== verification/PaySamples.thy ===== *)
theory PaySamples
  imports PaySafety
begin

text \<open>
  Sample data for the witnesses and the scenarios of payments: one user, one provider, orders of
  ten dollars and of a subscription, and worlds in which nothing, or one chosen statement, fails.
\<close>

text \<open>A balance in units of the eighth decimal, and the arithmetic of the column.\<close>

definition units8 :: "float64 \<Rightarrow> int" where
  "units8 v = (case v of Fin q \<Rightarrow> \<lfloor>q * 10 ^ 8 + 1 / 2\<rfloor> | _ \<Rightarrow> 0)"

definition shop_env :: pay_env where
  "shop_env =
     \<lparr>pe_loc = utc, pe_plus = (\<lambda>b v. b + units8 v), pe_read = (\<lambda>b. f_of_rat (of_int b / 10 ^ 8)),
      pe_cache = False, pe_affiliate = False, pe_format = (\<lambda>_ _. ''10.00''),
      pe_gatewayAmount = (\<lambda>_ _ r _. r)\<rparr>"

definition shop_order :: pay_order where
  "shop_order =
     \<lparr>po_ID = 1, po_UserID = 7, po_UserEmail = ''a@b'', po_UserName = ''a'', po_UserNotes = None,
      po_Amount = Fin 10, po_PayAmount = Fin 10, po_FeeRate = Fin 0, po_RechargeCode = ''PAY-1'',
      po_OutTradeNo = ''T1'', po_PaymentType = TypeAlipay, po_PaymentTradeNo = [], po_PayURL = None,
      po_QrCode = None, po_OrderType = OrderTypeBalance, po_PlanID = None, po_SubscriptionGroupID = None,
      po_SubscriptionDays = None, po_ProviderInstanceID = Some ''1'', po_ProviderKey = Some TypeAlipay,
      po_ProviderSnapshot = None, po_Status = OrderStatusPending, po_RefundAmount = Fin 0,
      po_RefundReason = None, po_RefundAt = None, po_ForceRefund = False, po_RefundRequestedAt = None,
      po_RefundRequestReason = None, po_RefundRequestedBy = None, po_ExpiresAt = 30 * minute,
      po_PaidAt = None, po_CompletedAt = None, po_FailedAt = None, po_FailedReason = None,
      po_ClientIP = [], po_SrcHost = [], po_SrcURL = None, po_CreatedAt = 0, po_UpdatedAt = 0\<rparr>"

definition shop_instance :: pay_instance where
  "shop_instance =
     \<lparr>pi_ID = 1, pi_ProviderKey = TypeAlipay, pi_SupportedTypes = TypeAlipay, pi_Enabled = True,
      pi_PaymentMode = [], pi_RefundEnabled = True, pi_AllowUserRefund = True, pi_Config = ''{}'',
      pi_Limits = [], pi_SortOrder = 0\<rparr>"

definition shop_user :: "int \<Rightarrow> int \<Rightarrow> pay_user" where
  "shop_user i balance =
     \<lparr>pu_ID = i, pu_Email = ''a@b'', pu_Username = ''a'', pu_Notes = [], pu_Status = StatusActive,
      pu_Balance = balance, pu_TotalRecharged = 0, pu_Concurrency = 5\<rparr>"

definition shop_db :: "pay_order \<Rightarrow> pay_db" where
  "shop_db r =
     \<lparr>pd_orders = [r], pd_nextOrder = 2, pd_audits = [], pd_codes = [], pd_nextCode = 1,
      pd_users = [shop_user 7 0, shop_user 8 0], pd_subs = \<lparr>db_rows = [], db_next = 1\<rparr>,
      pd_instances = [shop_instance], pd_attempts = [], pd_locks = [], pd_registry = None,
      pd_settings = [(''payment_enabled'', ''true'')], pd_plans = [], pd_counter = 0\<rparr>"

text \<open>The world at minute \<open>n\<close>: statements answer.\<close>

definition shop_provider :: pay_provider where
  "shop_provider =
     \<lparr>pv_Key = TypeAlipay, pv_SupportedTypes = [TypeAlipay], pv_Identity = None, pv_Cancelable = False\<rparr>"

definition shop_world :: "nat \<Rightarrow> pay_world" where
  "shop_world n =
     \<lparr>w_now = int n * minute, w_fault = Answered, w_stage = (\<lambda>_. None), w_cacheFault = None,
      w_groups = (\<lambda>g. if g = 1 then Some blank_group else None), w_Make = (\<lambda>_. Inr shop_provider),
      w_QueryOrder = (\<lambda>_ _. Inl (plain ''timeout'')), w_Refund = (\<lambda>_ _. Inl (plain ''refused'')),
      w_Accrue = (\<lambda>_ _ _. Inr (Fin 0)), w_Setting = None, w_Create = (\<lambda>_ _ _. Inr shop_provider),
      w_CreatePayment = (\<lambda>_ _. Inr \<lparr>cr_TradeNo = [], cr_PayURL = ''pay'', cr_QRCode = [], cr_ResultType = []\<rparr>),
      w_ReturnURL = (\<lambda>_ _ _. Inr ([], [])), w_WeChatAppID = Inl (plain ''not configured''), w_rand = (\<lambda>i. i + n)\<rparr>"

text \<open>The statement at step \<open>k\<close> fails.\<close>

definition failing_at :: "nat \<Rightarrow> nat \<Rightarrow> pay_world" where
  "failing_at k n = (shop_world n)\<lparr>w_fault := (if n = k then NotDone (plain ''connection lost'') else Answered)\<rparr>"

definition paid_notice :: notification where
  "paid_notice =
     \<lparr>nt_TradeNo = ''N1'', nt_OrderID = ''T1'', nt_Amount = Fin 10, nt_Status = ''success'', nt_Metadata = None\<rparr>"

end
