(* ===== verification/PayOutcome.thy ===== *)
theory PayOutcome
  imports PaySamples
begin

text \<open>
  What a payment and a refund come to when their statements answer: a paid order is completed and
  its amount credited, a refund takes the amount back or leaves the balance as it was. The proofs
  run the programs alone, by the rules of \<open>always\<close> (\<open>Interleave\<close>) for statements.
\<close>

section \<open>Rules\<close>

definition answering :: "pay_world \<Rightarrow> bool" where
  "answering w \<longleftrightarrow> w_fault w = Answered \<and> w_stage w = (\<lambda>_. None)"

lemma always_call:
  "(\<And>w. W w \<Longrightarrow> answering w \<and> Q (fst (f (w_now w) s)) (snd (f (w_now w) s))) \<Longrightarrow> always W (call f) s Q"
  unfolding call_def
proof (rule always_atomic)
  fix w assume q: "\<And>w. W w \<Longrightarrow> answering w \<and> Q (fst (f (w_now w) s)) (snd (f (w_now w) s))" and "W w"
  then show "Q (fst (lost_or (db_outcome (w_fault w) (f (w_now w) s) s)))
               (snd (lost_or (db_outcome (w_fault w) (f (w_now w) s) s)))"
    using q [of w] by (cases "f (w_now w) s") (simp add: answering_def)
qed

lemma always_txn:
  "(\<And>w. W w \<Longrightarrow> answering w \<and> (\<exists>x t. f w (w_now w) s = (Inr x, t) \<and> Q (Inr x) t)) \<Longrightarrow> always W (txn what f) s Q"
  unfolding txn_def by (rule always_atomic) (fastforce simp: answering_def)

lemma always_ask: "(\<And>w. W w \<Longrightarrow> Q (f w) s) \<Longrightarrow> always W (ask f) s Q"
  unfolding ask_def by (rule always_atomic) simp

lemma always_peek: "Q (f s) s \<Longrightarrow> always W (peek f) s Q"
  unfolding peek_def by (rule always_atomic) simp

lemma always_try:
  "always W p s (\<lambda>r t. \<exists>x. r = Inr x \<and> P x t) \<Longrightarrow> (\<And>x t. P x t \<Longrightarrow> always W (k x) t Q)
   \<Longrightarrow> always W (try_else p onerr k) s Q"
  unfolding try_else_def by (erule always_bind) auto

lemma always_if: "(b \<Longrightarrow> always W p s Q) \<Longrightarrow> (\<not> b \<Longrightarrow> always W q s Q) \<Longrightarrow> always W (if b then p else q) s Q"
  by simp

section \<open>The rows that matter to an order\<close>

text \<open>The order, its user and its code, with the counter of wrong codes and the locks.\<close>

record pay_view =
  vw_order :: "pay_order option"
  vw_user :: "pay_user option"
  vw_code :: "redeem_row option"
  vw_attempts :: "(int \<times> int \<times> gtime) list"
  vw_locked :: "gtime option"

definition view :: "int \<Rightarrow> int \<Rightarrow> string \<Rightarrow> pay_db \<Rightarrow> pay_view" where
  "view oid uid code db =
     \<lparr>vw_order = order_row db oid, vw_user = user_row db uid, vw_code = code_row db code,
      vw_attempts = pd_attempts db, vw_locked = map_of (pd_locks db) code\<rparr>"

lemma find_map_same_key:
  "(\<And>r. k (g r) = k r) \<Longrightarrow> find (\<lambda>r. k r = i) (map g rs) = map_option g (find (\<lambda>r. k r = i) rs)"
  by (induction rs) auto

lemma find_key: "find (\<lambda>r. k r = i) rs = Some r \<Longrightarrow> k r = i \<and> r \<in> set rs"
  by (auto simp: find_Some_iff)

lemma order_row_update:
  assumes "\<And>r. po_ID (f now r) = po_ID r"
  shows "order_row (snd (order_Update i p f now db)) j =
    map_option (\<lambda>r. if po_ID r = i \<and> p now r then touch now (f now) r else r) (order_row db j)"
  unfolding order_Update_def order_row_def Let_def
  using find_map_same_key [of po_ID "\<lambda>r. if po_ID r = i \<and> p now r then touch now (f now) r else r" j "pd_orders db"]
  by (simp add: touch_def assms)

lemma order_update_count:
  assumes "order_row db i = Some r" and "p now r"
  shows "\<exists>n. fst (order_Update i p f now db) = Inr n \<and> 0 < n"
  using find_key [of po_ID i "pd_orders db" r] assms
  by (auto simp: order_Update_def order_row_def Let_def filter_empty_conv)

lemma view_order_update:
  assumes "\<And>r. po_ID (f now r) = po_ID r"
  shows "view oid uid code (snd (order_Update oid p f now db)) =
    (view oid uid code db)\<lparr>vw_order := map_option (\<lambda>r. if p now r then touch now (f now) r else r) (order_row db oid)\<rparr>"
proof -
  have "map_option (\<lambda>r. if po_ID r = oid \<and> p now r then touch now (f now) r else r) (order_row db oid)
      = map_option (\<lambda>r. if p now r then touch now (f now) r else r) (order_row db oid)"
    using find_key [of po_ID oid "pd_orders db"] by (cases "order_row db oid") (auto simp: order_row_def)
  then show ?thesis
    by (simp add: view_def order_row_update assms) (simp add: order_Update_def Let_def user_row_def code_row_def)
qed

lemma view_audit [simp]: "view oid uid code (snd (audit_Create i a op d now db)) = view oid uid code db"
  by (simp add: view_def audit_Create_def order_row_def user_row_def code_row_def)

lemma always_audit:
  "(\<And>w. W w \<Longrightarrow> answering w) \<Longrightarrow> view oid uid code s = v
   \<Longrightarrow> always W (writeAuditLog i a op d) s (\<lambda>_ t. view oid uid code t = v)"
  unfolding writeAuditLog_def by (rule always_bind [OF always_call [where Q = "\<lambda>_ t. view oid uid code t = v"]])
    (auto intro: always_Ret)

section \<open>Creating and redeeming the code of an order\<close>

text \<open>Nothing fails, the rebate included, and the user has not entered too many wrong codes.\<close>

definition quiet :: "pay_env \<Rightarrow> int \<Rightarrow> pay_db \<Rightarrow> pay_world \<Rightarrow> bool" where
  "quiet env uid db w \<longleftrightarrow>
     answering w \<and> (\<forall>u a i. \<exists>x. w_Accrue w u a i = Inr x)
     \<and> (pe_cache env \<longrightarrow> attempt_count uid (w_now w) db < redeemMaxErrorsPerHour)"

lemma quiet_answering: "quiet env uid db w \<Longrightarrow> answering w"
  by (simp add: quiet_def)

lemmas quiet_call = always_call [where W = "quiet env uid db" for env uid db]

lemma view_facts:
  assumes "view oid uid code s = v"
  shows "order_row s oid = vw_order v" and "user_row s uid = vw_user v" and "code_row s code = vw_code v"
    and "pd_attempts s = vw_attempts v" and "map_of (pd_locks s) code = vw_locked v"
  using assms by (auto simp: view_def)

lemma find_none_snoc: "find P xs = None \<Longrightarrow> find P (xs @ [y]) = (if P y then Some y else None)"
  by (induction xs) (auto split: if_splits)

lemma create_runs:
  assumes v: "view oid uid (po_RechargeCode r) s = v" and none: "vw_code v = None"
    and code: "trim_space (po_RechargeCode r) = po_RechargeCode r" "po_RechargeCode r \<noteq> []"
    and amount: "\<not> f_eq (po_Amount r) f_zero"
  shows "always (quiet env uid db) (CreateCode (recharge_code_of r)) s
    (\<lambda>x t. x = Inr () \<and> (\<exists>n now. view oid uid (po_RechargeCode r) t
        = v\<lparr>vw_code := Some ((recharge_code_of r)\<lparr>rr_ID := n, rr_CreatedAt := now\<rparr>)\<rparr>))"
proof -
  let ?c = "recharge_code_of r"
  have unused: "StatusUnused \<noteq> []" by simp
  have create: "fst (code_Create ?c now s) = Inr ()
      \<and> view oid uid (po_RechargeCode r) (snd (code_Create ?c now s))
        = v\<lparr>vw_code := Some (?c\<lparr>rr_ID := pd_nextCode s, rr_CreatedAt := now\<rparr>)\<rparr>" for now
    using view_facts [OF v] v none
    by (auto simp: code_Create_def recharge_code_of_def view_def code_row_def order_row_def user_row_def find_none_snoc)
  have prog: "CreateCode ?c = bind (ask w_now) (\<lambda>_. try_else (call (code_Create ?c))
      (\<lambda>e. Ret (Inl (wrap ''create redeem code'' e))) (\<lambda>_. Ret (Inr ())))"
    using code amount by (simp add: CreateCode_def recharge_code_of_def Redeem_IsExpiredAt_def)
  let ?P = "\<lambda>t. \<exists>n now. view oid uid (po_RechargeCode r) t = v\<lparr>vw_code := Some (?c\<lparr>rr_ID := n, rr_CreatedAt := now\<rparr>)\<rparr>"
  show ?thesis
    unfolding prog
  proof (rule always_bind [OF always_ask [where Q = "\<lambda>_ t. t = s"]], simp)
    fix a :: gtime and t assume "t = s"
    show "always (quiet env uid db) (try_else (call (code_Create ?c))
        (\<lambda>e. Ret (Inl (wrap ''create redeem code'' e))) (\<lambda>_. Ret (Inr ()))) t (\<lambda>x t. x = Inr () \<and> ?P t)"
      unfolding \<open>t = s\<close>
    proof (rule always_try)
      show "always (quiet env uid db) (call (code_Create ?c)) s (\<lambda>r t. \<exists>x. r = Inr x \<and> ?P t)"
        using create by (intro always_call) (auto simp: quiet_answering)
    qed (auto intro: always_Ret)
  qed
qed

definition credited :: "pay_env \<Rightarrow> float64 \<Rightarrow> pay_user \<Rightarrow> pay_user" where
  "credited env a u =
     u\<lparr>pu_Balance := pe_plus env (pu_Balance u) a,
       pu_TotalRecharged := (if f_lt f_zero a then pe_plus env (pu_TotalRecharged u) a else pu_TotalRecharged u)\<rparr>"

definition used_by :: "int \<Rightarrow> gtime \<Rightarrow> redeem_row \<Rightarrow> redeem_row" where
  "used_by uid now c = c\<lparr>rc_Status := StatusUsed, rr_UsedBy := Some uid, rr_UsedAt := Some now\<rparr>"

lemma user_row_map:
  "(\<And>u. pu_ID (f u) = pu_ID u) \<Longrightarrow>
   user_row (db\<lparr>pd_users := map (\<lambda>u. if pu_ID u = i then f u else u) (pd_users db)\<rparr>) i = map_option f (user_row db i)"
proof -
  assume id: "\<And>u. pu_ID (f u) = pu_ID u"
  have "map_option (\<lambda>u. if pu_ID u = i then f u else u) (user_row db i) = map_option f (user_row db i)"
    using find_key [of pu_ID i "pd_users db"] by (cases "user_row db i") (auto simp: user_row_def)
  then show ?thesis
    using find_map_same_key [of pu_ID "\<lambda>u. if pu_ID u = i then f u else u" i "pd_users db"] id
    by (simp add: user_row_def)
qed

lemma code_row_use:
  assumes "code_row db code = Some c" and "rc_Status c = StatusUnused"
  shows "fst (code_Use (rr_ID c) uid now db) = Inr ()"
    and "code_row (snd (code_Use (rr_ID c) uid now db)) code = Some (used_by uid now c)"
proof -
  let ?g = "\<lambda>r. if rr_ID r = rr_ID c \<and> rc_Status r = StatusUnused then used_by uid now r else r"
  have c: "rr_Code c = code" "c \<in> set (pd_codes db)"
    using find_key [of rr_Code code "pd_codes db"] assms(1) by (auto simp: code_row_def)
  then have hit: "list_ex (\<lambda>r. rr_ID r = rr_ID c \<and> rc_Status r = StatusUnused) (pd_codes db)"
    using assms(2) by (auto simp: list_ex_iff)
  then show "fst (code_Use (rr_ID c) uid now db) = Inr ()" by (simp add: code_Use_def Let_def)
  have "code_row (db\<lparr>pd_codes := map ?g (pd_codes db)\<rparr>) code = Some (used_by uid now c)"
    using find_map_same_key [of rr_Code ?g code "pd_codes db"] assms by (simp add: code_row_def used_by_def)
  then have "code_row (db\<lparr>pd_codes := map ?g (pd_codes db)\<rparr>) code = Some (used_by uid now c)" .
  then show "code_row (snd (code_Use (rr_ID c) uid now db)) code = Some (used_by uid now c)"
    using hit unfolding code_Use_def Let_def used_by_def by simp
qed

text \<open>A balance code that is not used and never expires.\<close>

definition fresh_code :: "float64 \<Rightarrow> redeem_row \<Rightarrow> bool" where
  "fresh_code a c \<longleftrightarrow> rc_Status c = StatusUnused \<and> rc_ExpiresAt c = None \<and> rr_Type c = RedeemTypeBalance
     \<and> rr_Value c = a"

lemma redeem_tx_runs:
  assumes v: "view oid uid code s = v" and code: "vw_code v = Some c" "fresh_code a c"
    and user: "vw_user v = Some u" and pos: "\<not> f_lt a f_zero" and w: "answering w"
  shows "\<exists>t. redeem_tx env uid u0 c w now s = (Inr (), t)
    \<and> view oid uid code t = v\<lparr>vw_user := Some (credited env a u), vw_code := Some (used_by uid now c)\<rparr>"
proof -
  have c: "code_row s code = Some c" "rc_Status c = StatusUnused"
    using view_facts(3) [OF v] code by (auto simp: fresh_code_def)
  obtain s1 where use: "code_Use (rr_ID c) uid now s = (Inr (), s1)"
    and s1: "code_row s1 code = Some (used_by uid now c)"
    using code_row_use [OF c, of uid now] by (cases "code_Use (rr_ID c) uid now s") auto
  have rest: "pd_users s1 = pd_users s \<and> pd_orders s1 = pd_orders s \<and> pd_attempts s1 = pd_attempts s \<and> pd_locks s1 = pd_locks s"
    using use by (auto simp: code_Use_def Let_def split: if_splits)
  have u: "user_row s1 uid = Some u" "user_row s uid = Some u"
    using view_facts(2) [OF v] user rest by (auto simp: user_row_def)
  let ?t = "s1\<lparr>pd_users := map (\<lambda>x. if pu_ID x = uid then credited env a x else x) (pd_users s1)\<rparr>"
  have "redeem_grant env w uid u0 c now s1 = (Inr (), ?t)"
    using code(2) pos u(1)
    by (simp add: redeem_grant_def fresh_code_def user_UpdateBalance_def user_update_def credited_def)
  then have "redeem_tx env uid u0 c w now s = (Inr (), ?t)"
    using w use by (simp add: redeem_tx_def answering_def)
  moreover have "user_row ?t uid = Some (credited env a u)"
    using user_row_map [where f = "credited env a" and db = s1 and i = uid] u(1) by (simp add: credited_def)
  then have "view oid uid code ?t = v\<lparr>vw_user := Some (credited env a u), vw_code := Some (used_by uid now c)\<rparr>"
    using v s1 rest by (auto simp: view_def order_row_def code_row_def)
  ultimately show ?thesis by blast
qed

lemma redeem_locked_runs:
  assumes v: "view oid uid code s = v" and code: "vw_code v = Some c" "fresh_code a c"
    and user: "vw_user v = Some u" and pos: "\<not> f_lt a f_zero"
  shows "always (quiet env uid db) (redeem_locked env uid code) s
    (\<lambda>x t. (\<exists>y. x = Inr y) \<and> (\<exists>now. view oid uid code t =
       v\<lparr>vw_user := Some (credited env a u), vw_code := Some (used_by uid now c)\<rparr>))"
proof -
  let ?P = "\<lambda>t. \<exists>now. view oid uid code t = v\<lparr>vw_user := Some (credited env a u), vw_code := Some (used_by uid now c)\<rparr>"
  have c: "code_row s code = Some c" and u: "user_row s uid = Some u"
    using view_facts(2,3) [OF v] code user by auto
  have ok: "\<not> Redeem_IsExpiredAt t (Some c)" "Redeem_CanUse t c" for t
    using code(2) by (simp_all add: Redeem_IsExpiredAt_def Redeem_CanUse_def fresh_code_def)
  have kind: "rr_Type c \<noteq> RedeemTypeSubscription" using code(2) by (simp add: fresh_code_def)
  have "always (quiet env uid db) (txn ''commit transaction'' (redeem_tx env uid u c)) s (\<lambda>x t. \<exists>y. x = Inr y \<and> ?P t)"
  proof (rule always_txn)
    fix w assume w: "quiet env uid db w"
    then obtain t where "redeem_tx env uid u c w (w_now w) s = (Inr (), t)"
      "view oid uid code t = v\<lparr>vw_user := Some (credited env a u), vw_code := Some (used_by uid (w_now w) c)\<rparr>"
      using redeem_tx_runs [OF v code user pos quiet_answering] by blast
    then show "answering w \<and> (\<exists>x t. redeem_tx env uid u c w (w_now w) s = (Inr x, t) \<and> (\<exists>y. Inr x = Inr y \<and> ?P t))"
      using w quiet_answering by blast
  qed
  moreover have "always (quiet env uid db) (try_else (call (code_GetByID (rr_ID c)))
      (\<lambda>e. Ret (Inl (wrap ''get updated redeem code'' e))) (\<lambda>c. Ret (Inr c))) t (\<lambda>x t. (\<exists>y. x = Inr y) \<and> ?P t)"
    if P: "?P t" for t
  proof (rule always_try)
    obtain now where t: "view oid uid code t = v\<lparr>vw_user := Some (credited env a u), vw_code := Some (used_by uid now c)\<rparr>"
      using P by blast
    have "code_row t code = Some (used_by uid now c)" using view_facts(3) [OF t] by simp
    then have "find (\<lambda>r. rr_ID r = rr_ID c) (pd_codes t) \<noteq> None"
      using find_key [of rr_Code code "pd_codes t"] by (auto simp: code_row_def find_None_iff used_by_def)
    then show "always (quiet env uid db) (call (code_GetByID (rr_ID c))) t (\<lambda>r s. \<exists>x. r = Inr x \<and> s = t)"
      by (intro always_call) (auto simp: quiet_answering code_GetByID_def)
  qed (use P in \<open>auto intro: always_Ret\<close>)
  ultimately have paid: "always (quiet env uid db) (try_else (txn ''commit transaction'' (redeem_tx env uid u c)) (\<lambda>e. Ret (Inl e)) (\<lambda>_.
      try_else (call (code_GetByID (rr_ID c))) (\<lambda>e. Ret (Inl (wrap ''get updated redeem code'' e))) (\<lambda>c. Ret (Inr c)))) s
      (\<lambda>x t. (\<exists>y. x = Inr y) \<and> ?P t)"
    by (rule always_try) auto
  show ?thesis
    unfolding redeem_locked_def
  proof (rule always_try [where P = "\<lambda>x t. x = c \<and> t = s"])
    show "always (quiet env uid db) (call (code_GetByCode code)) s (\<lambda>r t. \<exists>x. r = Inr x \<and> x = c \<and> t = s)"
      using c by (intro always_call) (auto simp: quiet_answering code_GetByCode_def)
  next
    fix rc t assume "rc = c \<and> t = s"
    then have [simp]: "rc = c" "t = s" by auto
    have look: "always (quiet env uid db) (call (user_GetByID uid)) s (\<lambda>r t. \<exists>x. r = Inr x \<and> x = u \<and> t = s)"
      using u by (intro always_call) (auto simp: quiet_answering user_GetByID_def)
    show "always (quiet env uid db)
        (bind (ask w_now) (\<lambda>t1. if Redeem_IsExpiredAt t1 (Some rc)
           then bind (incrementRedeemErrorCount env uid) (\<lambda>_. Ret (Inl ErrRedeemCodeExpired))
           else bind (ask w_now) (\<lambda>t2. if \<not> Redeem_CanUse t2 rc
             then bind (incrementRedeemErrorCount env uid) (\<lambda>_. Ret (Inl ErrRedeemCodeUsed))
             else if rr_Type rc = RedeemTypeSubscription \<and> rr_GroupID rc = None
             then Ret (Inl (BadRequest ''REDEEM_CODE_INVALID'' ''invalid subscription redeem code: missing group_id''))
             else try_else (call (user_GetByID uid)) (\<lambda>e. Ret (Inl (wrap ''get user'' e))) (\<lambda>user.
               try_else (txn ''commit transaction'' (redeem_tx env uid user rc)) (\<lambda>e. Ret (Inl e)) (\<lambda>_.
               try_else (call (code_GetByID (rr_ID rc))) (\<lambda>e. Ret (Inl (wrap ''get updated redeem code'' e)))
                 (\<lambda>c. Ret (Inr c))))))) t (\<lambda>x t. (\<exists>y. x = Inr y) \<and> ?P t)"
      using ok kind paid
      by (auto intro!: always_bind [OF always_ask [where Q = "\<lambda>_ t. t = s"]] always_try [OF look])
  qed
qed

lemma attempt_count_cong: "pd_attempts t = pd_attempts db \<Longrightarrow> attempt_count u now t = attempt_count u now db"
  by (simp add: attempt_count_def)

lemma Redeem_runs:
  assumes v: "view oid uid code s = v" and code: "vw_code v = Some c" "fresh_code a c"
    and user: "vw_user v = Some u" and pos: "\<not> f_lt a f_zero"
    and free: "vw_locked v = None" and attempts: "vw_attempts v = pd_attempts db"
  shows "always (quiet env uid db) (Redeem env uid code) s
    (\<lambda>x t. \<exists>y. x = Inr y \<and> (\<exists>now. view oid uid code t =
       v\<lparr>vw_user := Some (credited env a u), vw_code := Some (used_by uid now c)\<rparr>))"
proof -
  let ?P = "\<lambda>t. \<exists>now. view oid uid code t = v\<lparr>vw_user := Some (credited env a u), vw_code := Some (used_by uid now c)\<rparr>"
  let ?v = "\<lambda>l. v\<lparr>vw_locked := l\<rparr>"
  have rate: "always (quiet env uid db) (checkRedeemRateLimit env uid) s (\<lambda>x t. x = None \<and> t = s)"
  proof (cases "pe_cache env")
    case True
    have "attempt_count uid now s = attempt_count uid now db" for now
      using view_facts(4) [OF v] attempts by (intro attempt_count_cong) simp
    then have "always (quiet env uid db) (call (GetRedeemAttemptCount uid)) s
        (\<lambda>r t. \<exists>n. r = Inr n \<and> n < redeemMaxErrorsPerHour \<and> t = s)"
      using True by (intro always_call) (auto simp: quiet_def GetRedeemAttemptCount_def)
    then show ?thesis unfolding checkRedeemRateLimit_def
      by (auto simp: True intro!: always_Ret elim!: always_try)
  qed (auto simp: checkRedeemRateLimit_def intro: always_Ret)
  have lock: "always (quiet env uid db) (acquireRedeemLock env code) s
      (\<lambda>x t. x \<and> (\<exists>l. (pe_cache env \<or> l = None) \<and> view oid uid code t = ?v l))"
  proof (cases "pe_cache env")
    case True
    have "always (quiet env uid db) (call (AcquireRedeemLock code redeemLockDuration)) s
        (\<lambda>r t. \<exists>x. r = Inr x \<and> x \<and> (\<exists>l. (pe_cache env \<or> l = None) \<and> view oid uid code t = ?v l))"
      using view_facts(5) [OF v] free v True
      by (intro always_call)
        (auto simp: quiet_answering AcquireRedeemLock_def view_def order_row_def user_row_def code_row_def)
    then show ?thesis unfolding acquireRedeemLock_def
      by (auto simp: True intro!: always_Ret elim!: always_try)
  next
    case False
    have "view oid uid code s = ?v None" using v free by simp
    then show ?thesis by (auto simp: False acquireRedeemLock_def intro!: always_Ret)
  qed
  have release: "always (quiet env uid db) (releaseRedeemLock env code) t (\<lambda>_ t. ?P t)"
    if "view oid uid code t = (?v l)\<lparr>vw_user := Some (credited env a u), vw_code := Some (used_by uid now c)\<rparr>"
      and "pe_cache env \<or> l = None" for t l now
  proof (cases "pe_cache env")
    case True
    have "map_of (filter (\<lambda>e. fst e \<noteq> code) (pd_locks t)) code = None" by (auto simp: map_of_eq_None_iff)
    then have "always (quiet env uid db) (call (ReleaseRedeemLock code)) t (\<lambda>_ t. ?P t)"
      using that(1) free
      by (intro always_call, cases v)
        (auto simp: quiet_answering ReleaseRedeemLock_def view_def order_row_def user_row_def code_row_def
          intro!: exI [of _ now])
    then show ?thesis unfolding releaseRedeemLock_def by (auto simp: True intro!: always_Ret elim!: always_bind)
  next
    case False
    then have "view oid uid code t = v\<lparr>vw_user := Some (credited env a u), vw_code := Some (used_by uid now c)\<rparr>"
      using that free by simp
    then show ?thesis using False by (auto simp: releaseRedeemLock_def intro!: always_Ret)
  qed
  show ?thesis
    unfolding Redeem_def
  proof (rule always_bind [OF rate])
    fix x :: "go_error option" and t assume "x = None \<and> t = s"
    then have "always (quiet env uid db) (bind (acquireRedeemLock env code) (\<lambda>got.
         if \<not> got then Ret (Inl ErrRedeemCodeLocked)
         else bind (redeem_locked env uid code) (\<lambda>r. bind (releaseRedeemLock env code) (\<lambda>_. Ret r)))) t
       (\<lambda>x t. \<exists>y. x = Inr y \<and> ?P t)"
    proof (elim conjE, simp only:, intro always_bind [OF lock], elim conjE exE)
      fix got t l assume got: "got" "pe_cache env \<or> l = None" and t: "view oid uid code t = ?v l"
      have "always (quiet env uid db) (redeem_locked env uid code) t
         (\<lambda>x t. (\<exists>y. x = Inr y) \<and> (\<exists>now. view oid uid code t =
            (?v l)\<lparr>vw_user := Some (credited env a u), vw_code := Some (used_by uid now c)\<rparr>))"
        using redeem_locked_runs [OF t _ code(2) _ pos] code(1) user by simp
      then have "always (quiet env uid db)
          (bind (redeem_locked env uid code) (\<lambda>r. bind (releaseRedeemLock env code) (\<lambda>_. Ret r))) t
          (\<lambda>x t. \<exists>y. x = Inr y \<and> ?P t)"
        by (rule always_bind) (auto intro!: always_bind [OF release [OF _ got(2)]] always_Ret)
      then show "always (quiet env uid db) (if \<not> got then Ret (Inl ErrRedeemCodeLocked)
         else bind (redeem_locked env uid code) (\<lambda>r. bind (releaseRedeemLock env code) (\<lambda>_. Ret r))) t
         (\<lambda>x t. \<exists>y. x = Inr y \<and> ?P t)"
        using got(1) by simp
    qed
    then show "always (quiet env uid db) (case x of Some e \<Rightarrow> Ret (Inl e)
        | None \<Rightarrow> bind (acquireRedeemLock env code) (\<lambda>got.
            if \<not> got then Ret (Inl ErrRedeemCodeLocked)
            else bind (redeem_locked env uid code) (\<lambda>r. bind (releaseRedeemLock env code) (\<lambda>_. Ret r)))) t
       (\<lambda>x t. \<exists>y. x = Inr y \<and> ?P t)"
      using \<open>x = None \<and> t = s\<close> by simp
  qed
qed

section \<open>Fulfilling a balance order\<close>

lemma rebate_tx_runs:
  assumes w: "quiet env uid db w"
  shows "\<exists>t. rebate_tx o' b cur w now s = (Inr (), t) \<and> view oid uid code t = view oid uid code s"
proof -
  obtain x where x: "w_Accrue w (po_UserID o') b (po_ID o') = Inr x"
    using w unfolding quiet_def by blast
  have stage: "w_stage w = (\<lambda>_. None)" using w by (simp add: quiet_def answering_def)
  show ?thesis
  proof (cases "list_ex (\<lambda>a. audit_is (po_ID o') ''AFFILIATE_REBATE_APPLIED'' a
      \<or> audit_is (po_ID o') ''AFFILIATE_REBATE_SKIPPED'' a) (pd_audits s)")
    case False
    let ?s = "snd (tryClaimAffiliateRebateAudit (po_ID o') b now s)"
    have claim: "tryClaimAffiliateRebateAudit (po_ID o') b now s = (True, ?s)"
      and hit: "list_ex (audit_is (po_ID o') ''AFFILIATE_REBATE_APPLIED'') (pd_audits ?s)"
      using False by (auto simp: tryClaimAffiliateRebateAudit_def audit_is_def)
    have "view oid uid code (snd (updateClaimedAffiliateRebateAudit (po_ID o') act d ?s)) = view oid uid code s" for act d
      using False
      by (simp add: updateClaimedAffiliateRebateAudit_def Let_def tryClaimAffiliateRebateAudit_def view_def
          order_row_def user_row_def code_row_def)
    moreover have "\<exists>t. updateClaimedAffiliateRebateAudit (po_ID o') act d ?s = (Inr (), t)" for act d
      using hit by (simp add: updateClaimedAffiliateRebateAudit_def Let_def)
    ultimately have "\<exists>t. updateClaimedAffiliateRebateAudit (po_ID o') act d ?s = (Inr (), t)
        \<and> view oid uid code t = view oid uid code s" for act d
      by (metis snd_conv)
    then obtain t where t: "updateClaimedAffiliateRebateAudit (po_ID o')
          (if f_le x f_zero then ''AFFILIATE_REBATE_SKIPPED'' else ''AFFILIATE_REBATE_APPLIED'')
          (rebate_detail o' b cur @ (if f_le x f_zero then [(''reason'', GStr ''no inviter bound or rebate amount <= 0'')]
             else [(''rebateAmount'', GF64 x)])) ?s = (Inr (), t)" "view oid uid code t = view oid uid code s"
      by blast
    show ?thesis
      unfolding rebate_tx_def Let_def stage by (subst claim) (use t x in simp)
  qed (auto simp: rebate_tx_def stage tryClaimAffiliateRebateAudit_def)
qed

lemma rebate_runs:
  assumes v: "view oid uid code s = v"
  shows "always (quiet env uid db) (applyAffiliateRebateForOrder env o') s (\<lambda>x t. x = None \<and> view oid uid code t = v)"
proof -
  have tx: "always (quiet env uid db) (txn ''commit affiliate rebate tx'' (rebate_tx o' b cur)) s
      (\<lambda>r t. \<exists>x. r = Inr x \<and> view oid uid code t = v)" for b cur
  proof (rule always_txn)
    fix w assume w: "quiet env uid db w"
    then show "answering w \<and> (\<exists>x t. rebate_tx o' b cur w (w_now w) s = (Inr x, t)
        \<and> (\<exists>x'. Inr x = Inr x' \<and> view oid uid code t = v))"
      using rebate_tx_runs [OF w] quiet_answering v by fastforce
  qed
  show ?thesis
    unfolding applyAffiliateRebateForOrder_def
    by (auto intro!: always_Ret always_bind [OF always_ask [where Q = "\<lambda>_ t. t = s"]] always_try [OF tx]
        simp: v split: option.split)
qed

definition completes :: "pay_order \<Rightarrow> pay_order \<Rightarrow> bool" where
  "completes r r' \<longleftrightarrow> same_order r r' \<and> po_Status r' = OrderStatusCompleted
     \<and> po_PayAmount r' = po_PayAmount r \<and> po_PaymentTradeNo r' = po_PaymentTradeNo r"

lemma markCompleted_runs:
  assumes v: "view oid uid code s = v" and r: "vw_order v = Some r" "po_Status r = OrderStatusRecharging"
    and "po_ID o' = oid"
  shows "always (quiet env uid db) (markCompleted o' action) s
    (\<lambda>x t. x = None \<and> (\<exists>r'. completes r r' \<and> view oid uid code t = v\<lparr>vw_order := Some r'\<rparr>))"
proof -
  let ?P = "\<lambda>t. \<exists>r'. completes r r' \<and> view oid uid code t = v\<lparr>vw_order := Some r'\<rparr>"
  let ?f = "\<lambda>now r. r\<lparr>po_Status := OrderStatusCompleted, po_CompletedAt := Some now\<rparr>"
  let ?st = "order_Update oid (\<lambda>_ r. po_Status r = OrderStatusRecharging) ?f"
  have step: "?P (snd (?st now s))" for now
    using view_order_update [of ?f now oid uid code "\<lambda>_ r. po_Status r = OrderStatusRecharging" s] v r
    by (intro exI [of _ "touch now (?f now) r"])
      (auto simp: view_facts(1) [OF v] completes_def same_order_def touch_def)
  have answer: "\<exists>n. fst (?st now s) = Inr n" for now by (simp add: order_Update_def Let_def)
  have upd: "always (quiet env uid db) (call ?st) s (\<lambda>r t. \<exists>x. r = Inr x \<and> ?P t)"
  proof (rule always_call)
    fix w assume "quiet env uid db w"
    then show "answering w \<and> (\<exists>x. fst (?st (w_now w) s) = Inr x \<and> ?P (snd (?st (w_now w) s)))"
      using step answer quiet_answering by blast
  qed
  show ?thesis
    unfolding markCompleted_def \<open>po_ID o' = oid\<close>
  proof (rule always_try [OF upd])
    fix n t assume "?P t"
    then obtain r' where "completes r r'" "view oid uid code t = v\<lparr>vw_order := Some r'\<rparr>" by blast
    then show "always (quiet env uid db) (bind (writeAuditLog oid action ''system''
        [(''rechargeCode'', GStr (po_RechargeCode o')), (''creditedAmount'', GF64 (po_Amount o')),
         (''payAmount'', GF64 (po_PayAmount o'))]) (\<lambda>_. Ret None)) t (\<lambda>x t. x = None \<and> ?P t)"
      by (intro always_bind [OF always_audit [OF quiet_answering, where oid = oid and uid = uid and code = code]])
        (auto intro!: always_Ret)
  qed
qed

text \<open>What a fulfilled order leaves: the order completed, the balance credited, the code used.\<close>

definition settled :: "pay_env \<Rightarrow> int \<Rightarrow> string \<Rightarrow> float64 \<Rightarrow> pay_order \<Rightarrow> pay_user \<Rightarrow> pay_view \<Rightarrow> pay_view \<Rightarrow> bool" where
  "settled env uid code a r u v v' \<longleftrightarrow>
     (\<exists>r' c. completes r r' \<and> rc_Status c = StatusUsed \<and> rr_UsedBy c = Some uid \<and> rr_Code c = code \<and> rr_Value c = a
        \<and> v' = v\<lparr>vw_order := Some r', vw_user := Some (credited env a u), vw_code := Some c\<rparr>)"

text \<open>The conditions on the order, its user and its code under which a payment can be credited.\<close>

definition creditable :: "pay_order \<Rightarrow> pay_user \<Rightarrow> pay_db \<Rightarrow> pay_view \<Rightarrow> bool" where
  "creditable r u db v \<longleftrightarrow>
     vw_user v = Some u \<and> vw_code v = None \<and> vw_locked v = None \<and> vw_attempts v = pd_attempts db
     \<and> trim_space (po_RechargeCode r) = po_RechargeCode r \<and> po_RechargeCode r \<noteq> []
     \<and> f_lt f_zero (po_Amount r)"

lemma f_lt_zero_facts: "f_lt f_zero a \<Longrightarrow> \<not> f_lt a f_zero \<and> \<not> f_eq a f_zero"
  by (cases a) auto

lemma settledI:
  assumes "completes r r'" and "fresh_code a c" and "rr_Code c = code"
    and "v' = v\<lparr>vw_user := Some (credited env a u), vw_code := Some (used_by uid now c), vw_order := Some r'\<rparr>"
  shows "settled env uid code a r u v v'"
  unfolding settled_def
  by (rule exI [of _ r'], rule exI [of _ "used_by uid now c"])
    (use assms in \<open>cases v; simp add: used_by_def fresh_code_def\<close>)

lemma doBalance_runs:
  assumes v: "view (po_ID r) uid code s = v" and ok: "creditable o' u db v"
    and r: "vw_order v = Some r" "po_Status r = OrderStatusRecharging"
    and o': "po_ID o' = po_ID r" "po_UserID o' = uid" "po_RechargeCode o' = code" "po_Amount o' = a"
  shows "always (quiet env uid db) (doBalance env o') s
    (\<lambda>x t. x = None \<and> settled env uid code a r u v (view (po_ID r) uid code t))"
proof -
  let ?W = "quiet env uid db" and ?v = "view (po_ID r) uid code"
  have none: "vw_code v = None" and user: "vw_user v = Some u" and free: "vw_locked v = None"
    and att: "vw_attempts v = pd_attempts db" and pos: "f_lt f_zero a"
    and code: "trim_space code = code" "code \<noteq> []"
    using ok o' by (auto simp: creditable_def)
  have look: "always ?W (redeem_GetByCode code) s (\<lambda>x t. (\<exists>e. x = Inl e) \<and> t = s)"
    unfolding redeem_GetByCode_def try_else_def
    using view_facts(3) [OF v] none
    by (intro always_bind [OF always_call [where Q = "\<lambda>x t. (\<exists>e. x = Inl e) \<and> t = s"]])
      (auto simp: quiet_answering code_GetByCode_def intro!: always_Ret)
  have create: "always ?W (CreateCode (recharge_code_of o')) s (\<lambda>x t. \<exists>y. x = Inr y \<and>
      (\<exists>c. fresh_code a c \<and> rr_Code c = code \<and> ?v t = v\<lparr>vw_code := Some c\<rparr>))"
  proof (rule always_weaken)
    show "always ?W (CreateCode (recharge_code_of o')) s (\<lambda>x t. x = Inr () \<and> (\<exists>n now.
        view (po_ID r) uid (po_RechargeCode o') t = v\<lparr>vw_code := Some ((recharge_code_of o')\<lparr>rr_ID := n, rr_CreatedAt := now\<rparr>)\<rparr>))"
      using v none code pos f_lt_zero_facts o' by (intro create_runs) auto
  next
    fix x :: "go_error + unit" and t
    assume "x = Inr () \<and> (\<exists>n now. view (po_ID r) uid (po_RechargeCode o') t
        = v\<lparr>vw_code := Some ((recharge_code_of o')\<lparr>rr_ID := n, rr_CreatedAt := now\<rparr>)\<rparr>)"
    then obtain n now where "x = Inr ()" and t: "?v t = v\<lparr>vw_code := Some ((recharge_code_of o')\<lparr>rr_ID := n, rr_CreatedAt := now\<rparr>)\<rparr>"
      using o'(3) by auto
    moreover have "fresh_code a ((recharge_code_of o')\<lparr>rr_ID := n, rr_CreatedAt := now\<rparr>)"
      and "rr_Code ((recharge_code_of o')\<lparr>rr_ID := n, rr_CreatedAt := now\<rparr>) = code"
      using o' by (simp_all add: fresh_code_def recharge_code_of_def)
    ultimately show "\<exists>y. x = Inr y \<and> (\<exists>c. fresh_code a c \<and> rr_Code c = code \<and> ?v t = v\<lparr>vw_code := Some c\<rparr>)"
      by blast
  qed
  have redeem: "always ?W (redeem_and_complete env o') t (\<lambda>x t. x = None \<and> settled env uid code a r u v (?v t))"
    if c: "fresh_code a c" "rr_Code c = code" and t: "?v t = v\<lparr>vw_code := Some c\<rparr>" for c t
  proof -
    have "always ?W (Redeem env uid code) t (\<lambda>x t'. \<exists>y. x = Inr y \<and> (\<exists>now. ?v t' =
        v\<lparr>vw_user := Some (credited env a u), vw_code := Some (used_by uid now c)\<rparr>))"
      using Redeem_runs [OF t _ c(1), where u = u and db = db and env = env] user free att f_lt_zero_facts [OF pos]
      by (auto elim!: always_weaken)
    then show ?thesis
      unfolding redeem_and_complete_def o'(2,3)
    proof (rule always_try)
      fix y t'
      assume "\<exists>now. ?v t' = v\<lparr>vw_user := Some (credited env a u), vw_code := Some (used_by uid now c)\<rparr>"
      then obtain now where t': "?v t' = v\<lparr>vw_user := Some (credited env a u), vw_code := Some (used_by uid now c)\<rparr>"
        by blast
      have finish: "always ?W (markCompleted o' ''RECHARGE_SUCCESS'') x (\<lambda>x t. x = None \<and> settled env uid code a r u v (?v t))"
        if "?v x = v\<lparr>vw_user := Some (credited env a u), vw_code := Some (used_by uid now c)\<rparr>" for x
      proof (rule always_weaken)
        show "always ?W (markCompleted o' ''RECHARGE_SUCCESS'') x (\<lambda>x t. x = None \<and> (\<exists>r'. completes r r' \<and>
            ?v t = v\<lparr>vw_user := Some (credited env a u), vw_code := Some (used_by uid now c), vw_order := Some r'\<rparr>))"
          using r(1) by (intro markCompleted_runs [OF that _ r(2) o'(1)]) simp
      qed (use settledI [OF _ c] in blast)
      show "always ?W (rebate_and_complete env o') t' (\<lambda>x t. x = None \<and> settled env uid code a r u v (?v t))"
        unfolding rebate_and_complete_def
        by (rule always_bind [OF rebate_runs [OF t']]) (auto intro: finish)
    qed
  qed
  show ?thesis
    unfolding doBalance_def o'(3)
  proof (rule always_bind [OF look])
    fix lookup :: "go_error + redeem_row" and t assume "(\<exists>e. lookup = Inl e) \<and> t = s"
    then have [simp]: "resolveRedeemAction lookup = redeemActionCreate" "t = s"
      by (auto simp: resolveRedeemAction_def)
    show "always ?W (case resolveRedeemAction lookup of
         redeemActionCreate \<Rightarrow> try_else (CreateCode (recharge_code_of o'))
             (\<lambda>e. Ret (Some (wrap ''create redeem code'' e))) (\<lambda>_. redeem_and_complete env o')
       | redeemActionRedeem \<Rightarrow> redeem_and_complete env o'
       | redeemActionSkipCompleted \<Rightarrow> rebate_and_complete env o') t
       (\<lambda>x t. x = None \<and> settled env uid code a r u v (?v t))"
      by simp (rule always_try [OF create], use redeem in blast)
  qed
qed

lemma settled_from:
  assumes "settled env uid code a r1 u (v\<lparr>vw_order := x\<rparr>) v'"
    and "\<And>r'. completes r1 r' \<Longrightarrow> completes r r'"
  shows "settled env uid code a r u v v'"
  using assms unfolding settled_def by fastforce

text \<open>A step that changes the row of the order.\<close>

lemma order_step_runs:
  assumes v: "view oid uid code s = v" and r: "vw_order v = Some r"
    and hit: "\<And>w. W w \<Longrightarrow> answering w \<and> p (w_now w) r" and id: "\<And>now r. po_ID (f now r) = po_ID r"
  shows "always W (call (order_Update oid p f)) s
    (\<lambda>x t. \<exists>n. x = Inr n \<and> 0 < n \<and> (\<exists>now. view oid uid code t = v\<lparr>vw_order := Some (touch now (f now) r)\<rparr>))"
proof (rule always_call)
  fix w assume "W w"
  then have p: "p (w_now w) r" and "answering w" using hit by auto
  have row: "order_row s oid = Some r" using view_facts(1) [OF v] r by simp
  have "view oid uid code (snd (order_Update oid p f (w_now w) s)) = v\<lparr>vw_order := Some (touch (w_now w) (f (w_now w)) r)\<rparr>"
    using view_order_update [of f "w_now w" oid uid code p s] id v row p by simp
  then show "answering w \<and> (\<exists>n. fst (order_Update oid p f (w_now w) s) = Inr n \<and> 0 < n \<and>
      (\<exists>now. view oid uid code (snd (order_Update oid p f (w_now w) s)) = v\<lparr>vw_order := Some (touch now (f now) r)\<rparr>))"
    using order_update_count [OF row, of p "w_now w" f] p \<open>answering w\<close> by auto
qed

lemma always_get:
  assumes "view oid uid code s = v" and "vw_order v = Some r" and "\<And>w. W w \<Longrightarrow> answering w"
  shows "always W (call (order_Get oid)) s (\<lambda>x t. \<exists>y. x = Inr y \<and> y = Some r \<and> t = s)"
  using view_facts(1) [OF assms(1)] assms(2,3) by (intro always_call) (auto simp: order_Get_def)

lemma locked_balance_runs:
  assumes v: "view oid uid code s = v" and ok: "creditable r u db v" and r: "vw_order v = Some r"
    and status: "po_Status r \<in> {OrderStatusPaid, OrderStatusFailed}"
    and ids: "po_ID r = oid" "po_UserID r = uid" "po_RechargeCode r = code" "po_Amount r = a"
  shows "always (quiet env uid db) (locked_do oid (doBalance env r)) s
    (\<lambda>x t. x = None \<and> settled env uid code a r u v (view oid uid code t))"
proof -
  let ?W = "quiet env uid db"
  let ?f = "\<lambda>(_ :: gtime) r. r\<lparr>po_Status := OrderStatusRecharging\<rparr>"
  have lock: "always ?W (lock_recharging oid) s (\<lambda>x t. \<exists>n. x = Inr n \<and> 0 < n \<and>
      (\<exists>now. view oid uid code t = v\<lparr>vw_order := Some (touch now (?f now) r)\<rparr>))"
    unfolding lock_recharging_def
    by (rule order_step_runs [OF v r]) (use status in \<open>auto simp: quiet_answering\<close>)
  show ?thesis
    unfolding locked_do_def
  proof (rule always_try [OF lock])
    fix n :: int and t assume n: "0 < n \<and> (\<exists>now. view oid uid code t = v\<lparr>vw_order := Some (touch now (?f now) r)\<rparr>)"
    then obtain now where t: "view oid uid code t = v\<lparr>vw_order := Some (touch now (?f now) r)\<rparr>" by blast
    let ?r = "touch now (?f now) r"
    have "always ?W (doBalance env r) t
        (\<lambda>x t. x = None \<and> settled env uid code a ?r u (v\<lparr>vw_order := Some ?r\<rparr>) (view oid uid code t))"
      using doBalance_runs [of ?r uid code t "v\<lparr>vw_order := Some ?r\<rparr>" r u db a env] t ok ids
      by (simp add: touch_def creditable_def)
    then have "always ?W (doBalance env r) t (\<lambda>x t. x = None \<and> settled env uid code a r u v (view oid uid code t))"
    proof (rule always_weaken)
      fix x :: "go_error option" and t'
      assume "x = None \<and> settled env uid code a ?r u (v\<lparr>vw_order := Some ?r\<rparr>) (view oid uid code t')"
      then show "x = None \<and> settled env uid code a r u v (view oid uid code t')"
        using settled_from [where ?r1.0 = ?r and x = "Some ?r" and r = r]
        by (auto simp: completes_def same_order_def touch_def)
    qed
    then show "always ?W (if n = 0 then Ret None
        else bind (doBalance env r) (\<lambda>x. case x of None \<Rightarrow> Ret None
               | Some e \<Rightarrow> bind (markFailed oid e) (\<lambda>_. Ret (Some e)))) t
        (\<lambda>x t. x = None \<and> settled env uid code a r u v (view oid uid code t))"
      using n by (auto intro!: always_Ret elim!: always_bind)
  qed
qed

lemma executeFulfillment_runs:
  assumes v: "view oid uid code s = v" and ok: "creditable r u db v" and r: "vw_order v = Some r"
    and status: "po_Status r \<in> {OrderStatusPaid, OrderStatusFailed}" and kind: "po_OrderType r \<noteq> OrderTypeSubscription"
    and ids: "po_ID r = oid" "po_UserID r = uid" "po_RechargeCode r = code" "po_Amount r = a"
  shows "always (quiet env uid db) (executeFulfillment env oid) s
    (\<lambda>x t. x = None \<and> settled env uid code a r u v (view oid uid code t))"
proof -
  note get = always_get [OF v r quiet_answering]
  have guards: "\<not> psIsRefundStatus (po_Status r)" "po_Status r \<noteq> OrderStatusCompleted"
    using status by (auto simp: psIsRefundStatus_def)
  have "always (quiet env uid db) (ExecuteBalanceFulfillment env oid) s
      (\<lambda>x t. x = None \<and> settled env uid code a r u v (view oid uid code t))"
    unfolding ExecuteBalanceFulfillment_def fulfil_guards_def
    by (rule always_try [OF get])
      (use status guards locked_balance_runs [OF v ok r status ids] in auto)
  then show ?thesis
    unfolding executeFulfillment_def by (intro always_try [OF get]) (use kind in auto)
qed

section \<open>A payment from its notification to the balance\<close>

lemma always_mono: "always V p s Q \<Longrightarrow> (\<And>w. W w \<Longrightarrow> V w) \<Longrightarrow> always W p s Q"
  by (simp add: always_def)

text \<open>The notification is for the provider of the order, and its amount and metadata fit.\<close>

definition notice_fits :: "pay_db \<Rightarrow> pay_order \<Rightarrow> notification \<Rightarrow> string \<Rightarrow> bool" where
  "notice_fits db r n pk \<longleftrightarrow>
     always answering (getOrderProviderInstance r) db (\<lambda>inst t. t = db \<and>
       (let key = expectedNotificationProviderKeyForOrder (registry_GetProviderKey (pd_registry db)) r
                    (case inst of Inr (Some i) \<Rightarrow> pi_ProviderKey i | _ \<Rightarrow> [])
        in key = [] \<or> trim_space pk = [] \<or> equal_fold key (trim_space pk)))
     \<and> validateProviderSnapshotMetadata r pk (nt_Metadata n) = None
     \<and> isValidProviderAmount (nt_Amount n) \<and> isProviderPaidAmountAcceptable r (nt_Amount n) pk"

definition paid_with :: "string \<Rightarrow> float64 \<Rightarrow> gtime \<Rightarrow> pay_order \<Rightarrow> pay_order" where
  "paid_with tradeNo paid now r =
     r\<lparr>po_Status := OrderStatusPaid, po_PayAmount := paid, po_PaymentTradeNo := tradeNo,
       po_PaidAt := Some now, po_FailedAt := None, po_FailedReason := None\<rparr>"

lemma toPaid_runs:
  assumes v: "view oid uid code s = v" and ok: "creditable r u db v" and r: "vw_order v = Some r"
    and status: "po_Status r \<in> {OrderStatusPending, OrderStatusCancelled}" and kind: "po_OrderType r \<noteq> OrderTypeSubscription"
    and ids: "po_ID r = oid" "po_UserID r = uid" "po_RechargeCode r = code" "po_Amount r = a"
  shows "always (quiet env uid db) (toPaid env r tradeNo paid pk) s
    (\<lambda>x t. x = None \<and> (\<exists>now. settled env uid code a (paid_with tradeNo paid now r) u v (view oid uid code t)))"
proof -
  let ?W = "quiet env uid db"
  let ?Q = "\<lambda>x t. x = (None :: go_error option) \<and>
      (\<exists>now. settled env uid code a (paid_with tradeNo paid now r) u v (view oid uid code t))"
  have upd: "always ?W (call (order_Update oid payable (\<lambda>now r. paid_with tradeNo paid now r))) s
      (\<lambda>x t. \<exists>n. x = Inr n \<and> 0 < n \<and>
        (\<exists>now. view oid uid code t = v\<lparr>vw_order := Some (touch now (paid_with tradeNo paid now) r)\<rparr>))"
    using status by (intro order_step_runs [OF v r]) (auto simp: quiet_answering payable_def paid_with_def)
  have rest: "always ?W (executeFulfillment env oid) t ?Q"
    if t: "view oid uid code t = v\<lparr>vw_order := Some (touch now (paid_with tradeNo paid now) r)\<rparr>" for now t
  proof -
    let ?r = "touch now (paid_with tradeNo paid now) r"
    have "always ?W (executeFulfillment env oid) t (\<lambda>x t. x = None \<and>
        settled env uid code a ?r u (v\<lparr>vw_order := Some ?r\<rparr>) (view oid uid code t))"
      using ok kind ids by (intro executeFulfillment_runs [OF t]) (auto simp: touch_def paid_with_def creditable_def)
    then show ?thesis
    proof (rule always_weaken)
      fix x :: "go_error option" and t'
      assume "x = None \<and> settled env uid code a ?r u (v\<lparr>vw_order := Some ?r\<rparr>) (view oid uid code t')"
      moreover have "completes ?r r' \<Longrightarrow> completes (paid_with tradeNo paid now r) r'" for r'
        by (simp add: completes_def same_order_def touch_def)
      ultimately show "?Q x t'" using settled_from [where r = "paid_with tradeNo paid now r"] by blast
    qed
  qed
  show ?thesis
    unfolding toPaid_def ids(1)
  proof (rule always_try [OF upd [unfolded paid_with_def]])
    fix n :: int and t
    assume n: "0 < n \<and> (\<exists>now. view oid uid code t = v\<lparr>vw_order := Some (touch now (\<lambda>r. r\<lparr>po_Status := OrderStatusPaid, po_PayAmount := paid,
       po_PaymentTradeNo := tradeNo, po_PaidAt := Some now, po_FailedAt := None, po_FailedReason := None\<rparr>) r)\<rparr>)"
    then obtain now where t: "view oid uid code t = v\<lparr>vw_order := Some (touch now (paid_with tradeNo paid now) r)\<rparr>"
      unfolding paid_with_def by blast
    note audit = always_audit [OF quiet_answering t]
    have "always ?W (paid_recorded env r tradeNo paid pk) t ?Q"
      unfolding paid_recorded_def Let_def ids(1)
      by (intro always_bind [where P = "\<lambda>_ t. view oid uid code t = v\<lparr>vw_order := Some (touch now (paid_with tradeNo paid now) r)\<rparr>"])
        (auto intro!: audit always_Ret always_audit [OF quiet_answering] rest t)
    then show "always ?W (if n = 0 then alreadyProcessed env r else paid_recorded env r tradeNo paid pk) t ?Q"
      using n by simp
  qed
qed

lemma confirmPayment_runs:
  assumes v: "view oid uid code db = v" and ok: "creditable r u db v" and r: "vw_order v = Some r"
    and status: "po_Status r \<in> {OrderStatusPending, OrderStatusCancelled}" and kind: "po_OrderType r \<noteq> OrderTypeSubscription"
    and ids: "po_ID r = oid" "po_UserID r = uid" "po_RechargeCode r = code" "po_Amount r = a"
    and fits: "notice_fits db r n pk"
  shows "always (quiet env uid db) (confirmPayment env oid (nt_TradeNo n) (nt_Amount n) pk (nt_Metadata n)) db
    (\<lambda>x t. x = None \<and> (\<exists>now. settled env uid code a (paid_with (nt_TradeNo n) (nt_Amount n) now r) u v (view oid uid code t)))"
proof -
  let ?W = "quiet env uid db"
  let ?Q = "\<lambda>x t. x = (None :: go_error option) \<and>
      (\<exists>now. settled env uid code a (paid_with (nt_TradeNo n) (nt_Amount n) now r) u v (view oid uid code t))"
  have inst: "always ?W (getOrderProviderInstance r) db (\<lambda>inst t. t = db \<and>
       (let key = expectedNotificationProviderKeyForOrder (registry_GetProviderKey (pd_registry db)) r
                    (case inst of Inr (Some i) \<Rightarrow> pi_ProviderKey i | _ \<Rightarrow> [])
        in key = [] \<or> trim_space pk = [] \<or> equal_fold key (trim_space pk)))"
    using fits quiet_answering by (auto simp: notice_fits_def intro: always_mono)
  have confirmed: "always ?W (confirm_order env r (nt_TradeNo n) (nt_Amount n) pk (nt_Metadata n)
        (registry_GetProviderKey (pd_registry db)) inst) db ?Q"
    if "let key = expectedNotificationProviderKeyForOrder (registry_GetProviderKey (pd_registry db)) r
                    (case inst of Inr (Some i) \<Rightarrow> pi_ProviderKey i | _ \<Rightarrow> [])
        in key = [] \<or> trim_space pk = [] \<or> equal_fold key (trim_space pk)" for inst
    unfolding confirm_order_def Let_def
    using that fits toPaid_runs [OF v ok r status kind ids, where tradeNo = "nt_TradeNo n" and paid = "nt_Amount n" and pk = pk]
    by (auto simp: notice_fits_def Let_def)
  show ?thesis
    unfolding confirmPayment_def
    by (rule always_try [OF always_get [OF v r quiet_answering]])
      (auto intro!: always_bind [OF inst] always_bind [OF always_peek [where Q = "\<lambda>k t. t = db \<and> k = registry_GetProviderKey (pd_registry db)"]]
        confirmed)
qed

lemma payment_runs:
  assumes good: "pay_good env units db" and r: "r \<in> set (pd_orders db)"
    and status: "po_Status r \<in> {OrderStatusPending, OrderStatusCancelled}"
    and kind: "po_OrderType r \<noteq> OrderTypeSubscription"
    and user: "user_row db (po_UserID r) = Some u"
    and code: "code_row db (po_RechargeCode r) = None" "po_RechargeCode r \<noteq> []"
      "map_of (pd_locks db) (po_RechargeCode r) = None"
    and amount: "f_lt f_zero (po_Amount r)"
    and notice: "nt_Status n = ''success''" "nt_OrderID n = po_OutTradeNo r"
      "filter (\<lambda>r'. po_OutTradeNo r' = po_OutTradeNo r) (pd_orders db) = [r]"
    and fits: "notice_fits db r n pk"
  shows "always (quiet env (po_UserID r) db) (HandlePaymentNotification env n pk) db
      (\<lambda>x t. x = None \<and> (\<exists>now. settled env (po_UserID r) (po_RechargeCode r) (po_Amount r)
         (paid_with (nt_TradeNo n) (nt_Amount n) now r) u
         (view (po_ID r) (po_UserID r) (po_RechargeCode r) db) (view (po_ID r) (po_UserID r) (po_RechargeCode r) t)))"
proof -
  let ?W = "quiet env (po_UserID r) db" and ?v = "view (po_ID r) (po_UserID r) (po_RechargeCode r)"
  have row: "order_row db (po_ID r) = Some r"
    using good r find_iff_unique [where k = po_ID and xs = "pd_orders db" and v = "po_ID r" and x = r] by (simp add: order_row_def pay_good_def)
  have trim: "trim_space (po_RechargeCode r) = po_RechargeCode r"
    using good r by (auto simp: pay_good_def)
  have ok: "creditable r u db (?v db)"
    using user code trim amount by (simp add: creditable_def view_def)
  have paid: "always ?W (confirmPayment env (po_ID r) (nt_TradeNo n) (nt_Amount n) pk (nt_Metadata n)) db
      (\<lambda>x t. x = None \<and> (\<exists>now. settled env (po_UserID r) (po_RechargeCode r) (po_Amount r)
         (paid_with (nt_TradeNo n) (nt_Amount n) now r) u (?v db) (?v t)))"
    by (rule confirmPayment_runs [OF refl ok _ status kind refl refl refl refl fits]) (simp add: view_def row)
  have look: "always ?W (call (order_ByOutTradeNo (nt_OrderID n))) db (\<lambda>x t. \<exists>y. x = Inr y \<and> y = Some r \<and> t = db)"
    using notice by (intro always_call) (auto simp: quiet_answering order_ByOutTradeNo_def)
  show "always ?W (HandlePaymentNotification env n pk) db
      (\<lambda>x t. x = None \<and> (\<exists>now. settled env (po_UserID r) (po_RechargeCode r) (po_Amount r)
         (paid_with (nt_TradeNo n) (nt_Amount n) now r) u (?v db) (?v t)))"
    unfolding HandlePaymentNotification_def using notice(1) paid by (auto intro!: always_try [OF look])
qed

text \<open>C3: A payment arrives. A pending or cancelled balance order is notified as paid, by its own
  provider, with an acceptable amount; its user exists, its code does not yet. When no statement
  fails, the rebate included, and the user has not entered twenty wrong codes, the handler
  reports no error and leaves the order completed with the amount and trade number of the
  notification, its code used by the user, and the user's balance higher by exactly the amount of
  the order.\<close>

theorem payment_fulfilled:
  assumes good: "pay_good env units db" and r: "r \<in> set (pd_orders db)"
    and status: "po_Status r \<in> {OrderStatusPending, OrderStatusCancelled}"
    and kind: "po_OrderType r \<noteq> OrderTypeSubscription"
    and user: "user_row db (po_UserID r) = Some u"
    and code: "code_row db (po_RechargeCode r) = None" "po_RechargeCode r \<noteq> []"
      "map_of (pd_locks db) (po_RechargeCode r) = None"
    and amount: "f_lt f_zero (po_Amount r)"
    and notice: "nt_Status n = ''success''" "nt_OrderID n = po_OutTradeNo r"
      "filter (\<lambda>r'. po_OutTradeNo r' = po_OutTradeNo r) (pd_orders db) = [r]"
    and fits: "notice_fits db r n pk"
  shows "always (quiet env (po_UserID r) db) (HandlePaymentNotification env n pk) db
    (\<lambda>x t. x = None \<and> (\<exists>r' u' c.
       order_row t (po_ID r) = Some r' \<and> same_order r r' \<and> po_Status r' = OrderStatusCompleted
       \<and> po_PayAmount r' = nt_Amount n \<and> po_PaymentTradeNo r' = nt_TradeNo n
       \<and> user_row t (po_UserID r) = Some u' \<and> pu_Balance u' = pu_Balance u + units (po_Amount r)
       \<and> code_row t (po_RechargeCode r) = Some c \<and> rc_Status c = StatusUsed
       \<and> rr_UsedBy c = Some (po_UserID r) \<and> rr_Value c = po_Amount r))"
proof (rule always_weaken [OF payment_runs [OF good r status kind user code amount notice fits]],
    elim conjE exE, intro conjI)
  fix t now
  let ?v = "view (po_ID r) (po_UserID r) (po_RechargeCode r)"
  assume "settled env (po_UserID r) (po_RechargeCode r) (po_Amount r)
       (paid_with (nt_TradeNo n) (nt_Amount n) now r) u (?v db) (?v t)"
  then obtain r' c where r': "completes (paid_with (nt_TradeNo n) (nt_Amount n) now r) r'"
    and c: "rc_Status c = StatusUsed" "rr_UsedBy c = Some (po_UserID r)" "rr_Value c = po_Amount r"
    and t: "?v t = (?v db)\<lparr>vw_order := Some r', vw_user := Some (credited env (po_Amount r) u), vw_code := Some c\<rparr>"
    unfolding settled_def by blast
  have exact: "exact_amount env units (po_Amount r)" using good r by (auto simp: pay_good_def)
  have "order_row t (po_ID r) = Some r'" "user_row t (po_UserID r) = Some (credited env (po_Amount r) u)"
    "code_row t (po_RechargeCode r) = Some c"
    using view_facts [OF t] by simp_all
  moreover have "pu_Balance (credited env (po_Amount r) u) = pu_Balance u + units (po_Amount r)"
    using exact by (simp add: credited_def exact_amount_def)
  ultimately show "\<exists>r' u' c. order_row t (po_ID r) = Some r' \<and> same_order r r' \<and> po_Status r' = OrderStatusCompleted
     \<and> po_PayAmount r' = nt_Amount n \<and> po_PaymentTradeNo r' = nt_TradeNo n
     \<and> user_row t (po_UserID r) = Some u' \<and> pu_Balance u' = pu_Balance u + units (po_Amount r)
     \<and> code_row t (po_RechargeCode r) = Some c \<and> rc_Status c = StatusUsed
     \<and> rr_UsedBy c = Some (po_UserID r) \<and> rr_Value c = po_Amount r"
    using r' c by (auto simp: completes_def paid_with_def same_order_def)
qed

lemma shop_texts: "trim_space ''1'' = ''1''" "parse_int64 ''1'' = Some 1" "trim_space ''PAY-1'' = ''PAY-1''"
  "trim_space TypeAlipay = TypeAlipay" "equal_fold TypeAlipay TypeAlipay"
  by code_simp+

lemma shop_good: "pay_good shop_env units8 (shop_db (shop_order\<lparr>po_Status := s, po_PaidAt := p\<rparr>))" if "s \<noteq> OrderStatusCompleted"
  using that by (simp add: pay_good_def shop_db_def shop_order_def exact_amount_def shop_env_def shop_texts)

lemma shop_quiet: "quiet shop_env uid db (shop_world k)"
  by (simp add: quiet_def answering_def shop_env_def shop_world_def)

lemma shop_accepts: "isProviderPaidAmountAcceptable shop_order (Fin 10) TypeAlipay" "isValidProviderAmount (Fin 10)"
  by code_simp+

lemma shop_fits: "notice_fits (shop_db shop_order) shop_order paid_notice TypeAlipay"
  unfolding notice_fits_def
proof (intro conjI)
  have prog: "getOrderProviderInstance shop_order = try_else (call (instance_Get 1)) (\<lambda>e. Ret (Inl e))
      (\<lambda>r. Ret (case r of None \<Rightarrow> Inl not_found_error | Some inst \<Rightarrow> Inr (Some inst)))"
    by (simp add: getOrderProviderInstance_def psOrderProviderSnapshot_def shop_order_def psStringValue_def
        shop_texts mlen_def Let_def)
  show "always answering (getOrderProviderInstance shop_order) (shop_db shop_order) (\<lambda>inst t. t = shop_db shop_order \<and>
       (let key = expectedNotificationProviderKeyForOrder (registry_GetProviderKey (pd_registry (shop_db shop_order))) shop_order
                    (case inst of Inr (Some i) \<Rightarrow> pi_ProviderKey i | _ \<Rightarrow> [])
        in key = [] \<or> trim_space TypeAlipay = [] \<or> equal_fold key (trim_space TypeAlipay)))"
    unfolding prog
    by (rule always_try [OF always_call [where Q = "\<lambda>x t. \<exists>y. x = Inr y \<and> y = Some shop_instance \<and> t = shop_db shop_order"]])
      (auto simp: instance_Get_def shop_db_def shop_instance_def expectedNotificationProviderKeyForOrder_def
        expectedNotificationProviderKey_def shop_texts intro!: always_Ret)
  show "validateProviderSnapshotMetadata shop_order TypeAlipay (nt_Metadata paid_notice) = None"
    by (simp add: validateProviderSnapshotMetadata_def paid_notice_def mlen_def)
qed (simp_all add: paid_notice_def shop_accepts)

definition shop_paid :: pay_db where
  "shop_paid = fst (snd (run shop_world (HandlePaymentNotification shop_env paid_notice TypeAlipay) 0 (shop_db shop_order)))"

lemma shop_order_facts: "po_ID shop_order = 1" "po_UserID shop_order = 7" "po_RechargeCode shop_order = ''PAY-1''"
    "po_Amount shop_order = Fin 10" "po_Status shop_order = OrderStatusPending"
    "pu_Balance (shop_user 7 0) = 0" "units8 (Fin 10) = 10 * 10 ^ 8"
  by (simp_all add: shop_order_def shop_user_def units8_def floor_eq_iff)

lemma shop_good_pending: "pay_good shop_env units8 (shop_db shop_order)"
  using shop_good [of OrderStatusPending None] by (simp add: shop_order_def)

lemma shop_paid_settled:
  "\<exists>now. settled shop_env 7 ''PAY-1'' (Fin 10) (paid_with ''N1'' (Fin 10) now shop_order) (shop_user 7 0)
     (view 1 7 ''PAY-1'' (shop_db shop_order)) (view 1 7 ''PAY-1'' shop_paid)"
proof -
  have "always (quiet shop_env (po_UserID shop_order) (shop_db shop_order))
      (HandlePaymentNotification shop_env paid_notice TypeAlipay) (shop_db shop_order)
      (\<lambda>x t. x = None \<and> (\<exists>now. settled shop_env (po_UserID shop_order) (po_RechargeCode shop_order) (po_Amount shop_order)
         (paid_with (nt_TradeNo paid_notice) (nt_Amount paid_notice) now shop_order) (shop_user 7 0)
         (view (po_ID shop_order) (po_UserID shop_order) (po_RechargeCode shop_order) (shop_db shop_order))
         (view (po_ID shop_order) (po_UserID shop_order) (po_RechargeCode shop_order) t)))"
    by (rule payment_runs [OF shop_good_pending _ _ _ _ _ _ _ _ _ _ _ shop_fits])
      (simp_all add: shop_db_def shop_order_def user_row_def shop_user_def code_row_def paid_notice_def)
  then show ?thesis
    using shop_quiet unfolding always_def shop_paid_def shop_order_facts by (simp add: paid_notice_def)
qed

lemma shop_paid_rows:
  "balance_of shop_paid 7 = 10 * 10 ^ 8" and "\<exists>r. order_row shop_paid 1 = Some r \<and> po_Status r = OrderStatusCompleted"
proof -
  obtain now r c where r: "completes (paid_with ''N1'' (Fin 10) now shop_order) r"
    and t: "view 1 7 ''PAY-1'' shop_paid = (view 1 7 ''PAY-1'' (shop_db shop_order))
       \<lparr>vw_order := Some r, vw_user := Some (credited shop_env (Fin 10) (shop_user 7 0)), vw_code := Some c\<rparr>"
    using shop_paid_settled unfolding settled_def by blast
  have "user_row shop_paid 7 = Some (credited shop_env (Fin 10) (shop_user 7 0))" "order_row shop_paid 1 = Some r"
    using view_facts(1,2) [OF t] by simp_all
  then show "balance_of shop_paid 7 = 10 * 10 ^ 8" and "\<exists>r. order_row shop_paid 1 = Some r \<and> po_Status r = OrderStatusCompleted"
    using r by (simp_all add: balance_of_def credited_def shop_env_def shop_order_facts completes_def)
qed

lemma payment_fulfilled_witness:
  "\<exists>r' u'. order_row (fst (snd (run shop_world (HandlePaymentNotification shop_env paid_notice TypeAlipay) 0 (shop_db shop_order)))) 1
       = Some r' \<and> po_Status r' = OrderStatusCompleted
     \<and> user_row (fst (snd (run shop_world (HandlePaymentNotification shop_env paid_notice TypeAlipay) 0 (shop_db shop_order)))) 7
       = Some u' \<and> pu_Balance u' = 10 * 10 ^ 8"
proof -
  let ?t = "fst (snd (run shop_world (HandlePaymentNotification shop_env paid_notice TypeAlipay) 0 (shop_db shop_order)))"
  have good: "pay_good shop_env units8 (shop_db shop_order)"
    using shop_good [of OrderStatusPending None] by (simp add: shop_order_def)
  have "always (quiet shop_env (po_UserID shop_order) (shop_db shop_order))
      (HandlePaymentNotification shop_env paid_notice TypeAlipay) (shop_db shop_order)
      (\<lambda>x t. x = None \<and> (\<exists>r' u' c. order_row t (po_ID shop_order) = Some r' \<and> same_order shop_order r'
       \<and> po_Status r' = OrderStatusCompleted
       \<and> po_PayAmount r' = nt_Amount paid_notice \<and> po_PaymentTradeNo r' = nt_TradeNo paid_notice
       \<and> user_row t (po_UserID shop_order) = Some u'
       \<and> pu_Balance u' = pu_Balance (shop_user 7 0) + units8 (po_Amount shop_order)
       \<and> code_row t (po_RechargeCode shop_order) = Some c \<and> rc_Status c = StatusUsed
       \<and> rr_UsedBy c = Some (po_UserID shop_order) \<and> rr_Value c = po_Amount shop_order))"
    by (rule payment_fulfilled [OF good _ _ _ _ _ _ _ _ _ _ _ shop_fits])
      (simp_all add: shop_db_def shop_order_def user_row_def shop_user_def code_row_def paid_notice_def)
  then have "\<exists>r' u' c. order_row ?t (po_ID shop_order) = Some r' \<and> same_order shop_order r'
       \<and> po_Status r' = OrderStatusCompleted
       \<and> po_PayAmount r' = nt_Amount paid_notice \<and> po_PaymentTradeNo r' = nt_TradeNo paid_notice
       \<and> user_row ?t (po_UserID shop_order) = Some u'
       \<and> pu_Balance u' = pu_Balance (shop_user 7 0) + units8 (po_Amount shop_order)
       \<and> code_row ?t (po_RechargeCode shop_order) = Some c \<and> rc_Status c = StatusUsed
       \<and> rr_UsedBy c = Some (po_UserID shop_order) \<and> rr_Value c = po_Amount shop_order"
    using shop_quiet unfolding always_def by blast
  then obtain r' u' where "order_row ?t (po_ID shop_order) = Some r'" "po_Status r' = OrderStatusCompleted"
    "user_row ?t (po_UserID shop_order) = Some u'"
    "pu_Balance u' = pu_Balance (shop_user 7 0) + units8 (po_Amount shop_order)"
    by blast
  moreover have "po_ID shop_order = 1" "po_UserID shop_order = 7"
    "pu_Balance (shop_user 7 0) + units8 (po_Amount shop_order) = 10 * 10 ^ 8"
    by (simp_all add: shop_order_def shop_user_def units8_def floor_eq_iff)
  ultimately show ?thesis by simp
qed

end
