(* ===== verification/PayRefundProps.thy ===== *)
theory PayRefundProps
  imports PayOutcome
begin

text \<open>
  What a refund comes to (\<open>service/payment_refund.go\<close>): when the statements answer, whatever the
  provider says, the balance is taken and the order refunded, or both are as before.
\<close>

section \<open>Steps of a refund\<close>

lemma update_one_runs:
  assumes v: "view oid uid code s = v" and r: "vw_order v = Some r" and w: "\<And>w. W w \<Longrightarrow> answering w"
    and id: "\<And>now r. po_ID (f now r) = po_ID r"
  shows "always W (call (order_UpdateOne oid f)) s
    (\<lambda>x t. \<exists>n. x = Inr n \<and> (\<exists>now. view oid uid code t = v\<lparr>vw_order := Some (touch now (f now) r)\<rparr>))"
proof (rule always_call)
  fix w assume "W w"
  have row: "order_row s oid = Some r" using view_facts(1) [OF v] r by simp
  show "answering w \<and> (\<exists>n. fst (order_UpdateOne oid f (w_now w) s) = Inr n \<and>
      (\<exists>now. view oid uid code (snd (order_UpdateOne oid f (w_now w) s)) = v\<lparr>vw_order := Some (touch now (f now) r)\<rparr>))"
    using view_order_update [of f "w_now w" oid uid code "\<lambda>_ _. True" s] id v row w [OF \<open>W w\<close>]
      order_update_count [OF row, of "\<lambda>_ _. True" "w_now w" f]
    by (auto simp: order_UpdateOne_def)
qed

lemma restore_runs:
  assumes "view oid uid code s = v" and "vw_order v = Some r" and "rp_OrderID p = oid"
  shows "always answering (restoreStatus p) s (\<lambda>_ t. \<exists>now. view oid uid code t = v\<lparr>vw_order := Some (touch now
     (\<lambda>r. r\<lparr>po_Status := if po_Status (rp_Order p) = OrderStatusRefundRequested then OrderStatusRefundRequested
                        else OrderStatusCompleted\<rparr>) r)\<rparr>)"
  unfolding restoreStatus_def Let_def assms(3)
  by (rule always_bind [OF update_one_runs [OF assms(1,2)]]) (auto intro!: always_Ret)

text \<open>Looking for the provider changes nothing, and asking it only writes to the audit log.\<close>

lemma refund_instance_reads: "always answering (getRefundOrderProviderInstance o') s (\<lambda>_ t. t = s)"
proof -
  have get: "always answering (call (instance_Get i)) s (\<lambda>_ t. t = s)" for i
    by (rule always_call) (auto simp: instance_Get_def)
  show ?thesis
    unfolding getRefundOrderProviderInstance_def resolveSnapshotOrderProviderInstance_def Let_def try_else_def
    by (auto split: option.split sum.split intro!: always_Ret always_bind [OF get])
qed

lemma gwRefund_reads:
  assumes v: "view oid uid code s = v"
  shows "always answering (gwRefund env p) s (\<lambda>_ t. view oid uid code t = v)"
proof -
  note audit = always_audit [OF _ v, where W = answering]
  have prov: "always answering (getRefundProvider o') s (\<lambda>_ t. t = s)" for o'
    unfolding getRefundProvider_def try_else_def createProviderFromInstance_def
    by (rule always_bind [OF refund_instance_reads]) (auto intro!: always_Ret always_ask split: sum.split option.split)
  have asked: "always answering (ask f) s (\<lambda>_ t. t = s)" for f :: "pay_world \<Rightarrow> go_error + string option"
    by (rule always_ask) simp
  show ?thesis
    unfolding gwRefund_def Let_def try_else_def
    by (auto split: sum.split option.split
        intro!: always_Ret always_bind [OF prov] always_bind [OF asked] always_bind [OF audit] simp: v)
qed

section \<open>Taking the balance back\<close>

definition taken :: "pay_env \<Rightarrow> float64 \<Rightarrow> pay_user \<Rightarrow> pay_user" where
  "taken env d u = u\<lparr>pu_Balance := pe_plus env (pu_Balance u) (f_neg d)\<rparr>"

lemma user_update_runs:
  assumes v: "view oid uid code s = v" and u: "vw_user v = Some u" and id: "\<And>u. pu_ID (f u) = pu_ID u"
  shows "fst (user_update uid f s) = Inr () \<and> view oid uid code (snd (user_update uid f s)) = v\<lparr>vw_user := Some (f u)\<rparr>"
proof -
  have row: "user_row s uid = Some u" using view_facts(2) [OF v] u by simp
  show ?thesis
    using user_row_map [where f = f and db = s and i = uid] id row v
    by (auto simp: user_update_def view_def order_row_def code_row_def)
qed

lemma balance_statements:
  "user_DeductBalance env uid d now s = user_update uid (taken env d) s"
  "user_UpdateBalance env uid d now s = user_update uid (credited env d) s"
  by (simp_all add: user_DeductBalance_def user_UpdateBalance_def taken_def [abs_def] credited_def [abs_def])

lemma deduct_runs:
  assumes v: "view oid uid code s = v" and u: "vw_user v = Some u"
    and p: "rp_DeductionType p = DeductionTypeBalance" "f_lt f_zero (rp_BalanceToDeduct p)"
      "po_UserID (rp_Order p) = uid" "rp_OrderID p = oid"
    and none: "\<not> list_ex (audit_is oid ''REFUND_ROLLBACK_FAILED'') (pd_audits s)"
  shows "always answering (deduct_balance env p) s
    (\<lambda>x t. \<exists>y. x = Inr y \<and> y = p \<and> view oid uid code t = v\<lparr>vw_user := Some (taken env (rp_BalanceToDeduct p) u)\<rparr>)"
proof -
  have audit: "always answering (hasAuditLog oid ''REFUND_ROLLBACK_FAILED'') s (\<lambda>x t. \<not> x \<and> t = s)"
    unfolding hasAuditLog_def
    by (rule always_bind [OF always_call [where Q = "\<lambda>x t. x = Inr False \<and> t = s"]]) (auto simp: none intro!: always_Ret)
  have "always answering (call (user_DeductBalance env uid (rp_BalanceToDeduct p))) s
      (\<lambda>x t. \<exists>y. x = Inr y \<and> view oid uid code t = v\<lparr>vw_user := Some (taken env (rp_BalanceToDeduct p) u)\<rparr>)"
    using user_update_runs [OF v u, of "taken env (rp_BalanceToDeduct p)"]
    by (intro always_call) (auto simp: balance_statements taken_def)
  then have "always answering (try_else (call (user_DeductBalance env uid (rp_BalanceToDeduct p)))
      (\<lambda>e. bind (restoreStatus p) (\<lambda>_. Ret (Inl (wrap ''deduction'' e)))) (\<lambda>_. Ret (Inr p))) s
      (\<lambda>x t. \<exists>y. x = Inr y \<and> y = p \<and> view oid uid code t = v\<lparr>vw_user := Some (taken env (rp_BalanceToDeduct p) u)\<rparr>)"
    by (rule always_try) (auto intro!: always_Ret)
  then show ?thesis
    unfolding deduct_balance_def p(3,4) using p(1,2) by (auto intro!: always_bind [OF audit])
qed

lemma rollback_runs:
  assumes v: "view oid uid code s = v" and u: "vw_user v = Some u"
    and p: "rp_DeductionType p = DeductionTypeBalance" "f_lt f_zero (rp_BalanceToDeduct p)"
      "po_UserID (rp_Order p) = uid"
  shows "always answering (RollbackRefund env p e) s
    (\<lambda>x t. x \<and> view oid uid code t = v\<lparr>vw_user := Some (credited env (rp_BalanceToDeduct p) u)\<rparr>)"
proof -
  have "always answering (call (user_UpdateBalance env uid (rp_BalanceToDeduct p))) s
      (\<lambda>x t. \<exists>y. x = Inr y \<and> view oid uid code t = v\<lparr>vw_user := Some (credited env (rp_BalanceToDeduct p) u)\<rparr>)"
    using user_update_runs [OF v u, of "credited env (rp_BalanceToDeduct p)"]
    by (intro always_call) (auto simp: balance_statements credited_def)
  then have "always answering (try_else (call (user_UpdateBalance env uid (rp_BalanceToDeduct p)))
      (\<lambda>e'. rollback_failed p e e' (''balanceDeducted'', GF64 (rp_BalanceToDeduct p))) (\<lambda>_. Ret True)) s
      (\<lambda>x t. x \<and> view oid uid code t = v\<lparr>vw_user := Some (credited env (rp_BalanceToDeduct p) u)\<rparr>)"
    by (rule always_try) (auto intro!: always_Ret)
  then show ?thesis
    unfolding RollbackRefund_def p(3) using p(1,2) by (auto intro!: always_Ret elim!: always_bind)
qed

section \<open>The outcome\<close>

definition refund_settled :: "pay_env \<Rightarrow> refund_plan \<Rightarrow> pay_user \<Rightarrow> (go_error + refund_result) \<Rightarrow> pay_db \<Rightarrow> bool" where
  "refund_settled env p u x t \<longleftrightarrow> (\<exists>res r' u'.
     x = Inr res \<and> order_row t (rp_OrderID p) = Some r' \<and> user_row t (po_UserID (rp_Order p)) = Some u'
     \<and> (if rs_Success res
        then pu_Balance u' = pe_plus env (pu_Balance u) (f_neg (rp_BalanceToDeduct p))
          \<and> rs_BalanceDeducted res = rp_BalanceToDeduct p \<and> po_RefundAmount r' = rp_RefundAmount p
          \<and> po_Status r' = (if f_lt (rp_RefundAmount p) (po_Amount (rp_Order p)) then OrderStatusPartiallyRefunded
                             else OrderStatusRefunded)
        else pu_Balance u' = pu_Balance u
          \<and> pu_TotalRecharged u' = pe_plus env (pu_TotalRecharged u) (rp_BalanceToDeduct p)
          \<and> po_Status r' = (if po_Status (rp_Order p) = OrderStatusRefundRequested then OrderStatusRefundRequested
                             else OrderStatusCompleted)))"

lemma settled_rows:
  assumes "view (rp_OrderID p) (po_UserID (rp_Order p)) [] t = v" and "vw_order v = Some r'" and "vw_user v = Some u'"
    and "if rs_Success res
        then pu_Balance u' = pe_plus env (pu_Balance u) (f_neg (rp_BalanceToDeduct p))
          \<and> rs_BalanceDeducted res = rp_BalanceToDeduct p \<and> po_RefundAmount r' = rp_RefundAmount p
          \<and> po_Status r' = (if f_lt (rp_RefundAmount p) (po_Amount (rp_Order p)) then OrderStatusPartiallyRefunded
                             else OrderStatusRefunded)
        else pu_Balance u' = pu_Balance u
          \<and> pu_TotalRecharged u' = pe_plus env (pu_TotalRecharged u) (rp_BalanceToDeduct p)
          \<and> po_Status r' = (if po_Status (rp_Order p) = OrderStatusRefundRequested then OrderStatusRefundRequested
                             else OrderStatusCompleted)"
  shows "refund_settled env p u (Inr res) t"
  unfolding refund_settled_def using view_facts(1,2) [OF assms(1)] assms(2,3,4) by (intro exI conjI) auto

lemma markRefundOk_runs:
  assumes v: "view (rp_OrderID p) (po_UserID (rp_Order p)) [] s = v"
    and r: "vw_order v = Some r1" and u: "vw_user v = Some (taken env (rp_BalanceToDeduct p) u)"
  shows "always answering (markRefundOk p) s (refund_settled env p u)"
  unfolding markRefundOk_def Let_def
proof (rule always_try [OF update_one_runs [OF v r]]; (elim exE)?)
  fix n :: int and t now
  assume t: "view (rp_OrderID p) (po_UserID (rp_Order p)) [] t = v\<lparr>vw_order := Some (touch now
      (\<lambda>r. r\<lparr>po_Status := if f_lt (rp_RefundAmount p) (po_Amount (rp_Order p)) then OrderStatusPartiallyRefunded
                else OrderStatusRefunded, po_RefundAmount := rp_RefundAmount p,
                po_RefundReason := Some (rp_Reason p), po_RefundAt := Some now, po_ForceRefund := rp_Force p\<rparr>) r1)\<rparr>"
  let ?f = "\<lambda>r. r\<lparr>po_Status := if f_lt (rp_RefundAmount p) (po_Amount (rp_Order p)) then OrderStatusPartiallyRefunded
                else OrderStatusRefunded, po_RefundAmount := rp_RefundAmount p,
                po_RefundReason := Some (rp_Reason p), po_RefundAt := Some now, po_ForceRefund := rp_Force p\<rparr>"
  have touch_row: "po_RefundAmount (touch now ?f r1) = rp_RefundAmount p"
    "po_Status (touch now ?f r1) = (if f_lt (rp_RefundAmount p) (po_Amount (rp_Order p)) then OrderStatusPartiallyRefunded
                else OrderStatusRefunded)"
    unfolding touch_def by (cases r1, simp)+
  show "always answering (bind (writeAuditLog (rp_OrderID p) ''REFUND_SUCCESS'' ''admin''
           [(''refundAmount'', GF64 (rp_RefundAmount p)), (''reason'', GStr (rp_Reason p)),
            (''balanceDeducted'', GF64 (rp_BalanceToDeduct p)), (''force'', GBool (rp_Force p))])
         (\<lambda>_. Ret (Inr \<lparr>rs_Success = True, rs_Warning = [], rs_RequireForce = False,
                rs_BalanceDeducted = rp_BalanceToDeduct p, rs_SubDaysDeducted = rp_SubDaysToDeduct p\<rparr>))) t
         (refund_settled env p u)"
  proof (rule always_bind [OF always_audit [OF _ t]], assumption, rule always_Ret, erule settled_rows)
    show "vw_user (v\<lparr>vw_order := Some (touch now
      (\<lambda>r. r\<lparr>po_Status := if f_lt (rp_RefundAmount p) (po_Amount (rp_Order p)) then OrderStatusPartiallyRefunded
                else OrderStatusRefunded, po_RefundAmount := rp_RefundAmount p,
                po_RefundReason := Some (rp_Reason p), po_RefundAt := Some now, po_ForceRefund := rp_Force p\<rparr>) r1)\<rparr>)
        = Some (taken env (rp_BalanceToDeduct p) u)" using u by simp
  qed (use touch_row in \<open>auto simp: taken_def\<close>)
qed simp_all

lemma handleGwFail_runs:
  assumes v: "view (rp_OrderID p) (po_UserID (rp_Order p)) [] s = v"
    and r: "vw_order v = Some r1" and u: "vw_user v = Some (taken env (rp_BalanceToDeduct p) u)"
    and plan: "rp_DeductionType p = DeductionTypeBalance" "f_lt f_zero (rp_BalanceToDeduct p)"
    and exact: "\<forall>b. pe_plus env (pe_plus env b (f_neg (rp_BalanceToDeduct p))) (rp_BalanceToDeduct p) = b"
  shows "always answering (handleGwFail env p e) s (refund_settled env p u)"
  unfolding handleGwFail_def
proof (rule always_bind [OF rollback_runs [OF v u plan refl]]; (elim conjE)?)
  let ?u = "credited env (rp_BalanceToDeduct p) (taken env (rp_BalanceToDeduct p) u)"
  fix undone :: bool and t assume undone and t: "view (rp_OrderID p) (po_UserID (rp_Order p)) [] t = v\<lparr>vw_user := Some ?u\<rparr>"
  have row: "vw_order (v\<lparr>vw_user := Some ?u\<rparr>) = Some r1" using r by simp
  have "always answering (bind (restoreStatus p) (\<lambda>_.
            bind (writeAuditLog (rp_OrderID p) ''REFUND_GATEWAY_FAILED'' ''admin'' [(''detail'', GStr (error_text e))]) (\<lambda>_.
            Ret (Inr \<lparr>rs_Success = False, rs_Warning = ''gateway failed: '' @ error_text e @ '', rolled back'',
                      rs_RequireForce = False, rs_BalanceDeducted = f_zero, rs_SubDaysDeducted = 0\<rparr>)))) t
        (refund_settled env p u)"
  proof (rule always_bind [OF restore_runs [OF t row refl]], elim exE)
    fix t2 now
    let ?r = "touch now (\<lambda>r. r\<lparr>po_Status := if po_Status (rp_Order p) = OrderStatusRefundRequested
            then OrderStatusRefundRequested else OrderStatusCompleted\<rparr>) r1"
    assume t2: "view (rp_OrderID p) (po_UserID (rp_Order p)) [] t2 = v\<lparr>vw_user := Some ?u, vw_order := Some ?r\<rparr>"
    show "always answering (bind (writeAuditLog (rp_OrderID p) ''REFUND_GATEWAY_FAILED'' ''admin'' [(''detail'', GStr (error_text e))]) (\<lambda>_.
            Ret (Inr \<lparr>rs_Success = False, rs_Warning = ''gateway failed: '' @ error_text e @ '', rolled back'',
                      rs_RequireForce = False, rs_BalanceDeducted = f_zero, rs_SubDaysDeducted = 0\<rparr>))) t2
          (refund_settled env p u)"
    proof (rule always_bind [OF always_audit [OF _ t2]], assumption, rule always_Ret, erule settled_rows)
      show "vw_order (v\<lparr>vw_user := Some ?u, vw_order := Some ?r\<rparr>) = Some ?r" by simp
      show "vw_user (v\<lparr>vw_user := Some ?u, vw_order := Some ?r\<rparr>) = Some ?u" by simp
    qed (simp add: touch_def taken_def credited_def exact plan)
  qed
  then show "always answering (if undone then bind (restoreStatus p) (\<lambda>_.
            bind (writeAuditLog (rp_OrderID p) ''REFUND_GATEWAY_FAILED'' ''admin'' [(''detail'', GStr (error_text e))]) (\<lambda>_.
            Ret (Inr \<lparr>rs_Success = False, rs_Warning = ''gateway failed: '' @ error_text e @ '', rolled back'',
                      rs_RequireForce = False, rs_BalanceDeducted = f_zero, rs_SubDaysDeducted = 0\<rparr>)))
       else bind (call (order_UpdateOne (rp_OrderID p)
                   (\<lambda>now r. r\<lparr>po_Status := OrderStatusRefundFailed, po_FailedAt := Some now,
                              po_FailedReason := Some (error_text e)\<rparr>))) (\<lambda>_.
            bind (writeAuditLog (rp_OrderID p) ''REFUND_FAILED'' ''admin'' [(''detail'', GStr (error_text e))]) (\<lambda>_.
            Ret (Inl (InternalServer ''REFUND_FAILED'' (error_text e)))))) t (refund_settled env p u)"
    using \<open>undone\<close> by simp
qed

lemma gateway_runs:
  assumes v: "view (rp_OrderID p) (po_UserID (rp_Order p)) [] s = v"
    and r: "vw_order v = Some r1" and u: "vw_user v = Some (taken env (rp_BalanceToDeduct p) u)"
    and plan: "rp_DeductionType p = DeductionTypeBalance" "f_lt f_zero (rp_BalanceToDeduct p)"
    and exact: "\<forall>b. pe_plus env (pe_plus env b (f_neg (rp_BalanceToDeduct p))) (rp_BalanceToDeduct p) = b"
  shows "always answering (bind (gwRefund env p) (\<lambda>g.
     case g of Some gErr \<Rightarrow> handleGwFail env p gErr | None \<Rightarrow> markRefundOk p)) s (refund_settled env p u)"
  by (rule always_bind [OF gwRefund_reads [OF v]])
    (auto intro: markRefundOk_runs [OF _ r u] handleGwFail_runs [OF _ r u plan exact] split: option.split)

text \<open>C4: A refund is all or nothing. The plan for a balance order takes a positive amount back, the
  order may be refunded, and no earlier roll-back has failed. When the statements answer, then
  whatever the provider says, either the refund succeeds, the balance is lower by exactly the
  planned amount and the order is refunded (in part, when less than the order's amount is paid
  back); or it is reported as failed, the balance is what it was, and the order is completed, or
  refund-requested if it was that when the plan was made. In the second case the amount that was
  put back counts once more as recharged.\<close>

theorem refund_all_or_nothing:
  assumes row: "order_row db (rp_OrderID p) = Some r"
    and status: "po_Status r \<in> {OrderStatusCompleted, OrderStatusRefundRequested, OrderStatusRefundFailed}"
    and user: "user_row db (po_UserID (rp_Order p)) = Some u"
    and plan: "rp_DeductionType p = DeductionTypeBalance" "f_lt f_zero (rp_BalanceToDeduct p)"
    and first: "\<not> list_ex (audit_is (rp_OrderID p) ''REFUND_ROLLBACK_FAILED'') (pd_audits db)"
    and exact: "\<forall>b. pe_plus env (pe_plus env b (f_neg (rp_BalanceToDeduct p))) (rp_BalanceToDeduct p) = b"
  shows "always answering (ExecuteRefund env p) db (\<lambda>x t. \<exists>res r' u'.
     x = Inr res \<and> order_row t (rp_OrderID p) = Some r' \<and> user_row t (po_UserID (rp_Order p)) = Some u'
     \<and> (if rs_Success res
        then pu_Balance u' = pe_plus env (pu_Balance u) (f_neg (rp_BalanceToDeduct p))
          \<and> rs_BalanceDeducted res = rp_BalanceToDeduct p \<and> po_RefundAmount r' = rp_RefundAmount p
          \<and> po_Status r' = (if f_lt (rp_RefundAmount p) (po_Amount (rp_Order p)) then OrderStatusPartiallyRefunded
                             else OrderStatusRefunded)
        else pu_Balance u' = pu_Balance u
          \<and> pu_TotalRecharged u' = pe_plus env (pu_TotalRecharged u) (rp_BalanceToDeduct p)
          \<and> po_Status r' = (if po_Status (rp_Order p) = OrderStatusRefundRequested then OrderStatusRefundRequested
                             else OrderStatusCompleted)))"
  unfolding refund_settled_def [symmetric] ExecuteRefund_def
proof (rule always_try)
  let ?v = "view (rp_OrderID p) (po_UserID (rp_Order p)) []"
  let ?st = "order_Update (rp_OrderID p)
      (\<lambda>_ r. po_Status r \<in> {OrderStatusCompleted, OrderStatusRefundRequested, OrderStatusRefundFailed})
      (\<lambda>_ r. r\<lparr>po_Status := OrderStatusRefunding\<rparr>)"
  show "always answering (call ?st) db (\<lambda>x t. \<exists>n. x = Inr n \<and>
      (0 < n \<and> pd_audits t = pd_audits db \<and> (\<exists>r1. ?v t = (?v db)\<lparr>vw_order := Some r1\<rparr>)))"
  proof (rule always_call)
    fix w assume w: "answering w"
    have "\<exists>n. fst (?st (w_now w) db) = Inr n \<and> 0 < n"
      by (rule order_update_count [OF row]) (rule status)
    moreover have "pd_audits (snd (?st (w_now w) db)) = pd_audits db" by (simp add: order_Update_def Let_def)
    moreover have "\<exists>r1. ?v (snd (?st (w_now w) db)) = (?v db)\<lparr>vw_order := Some r1\<rparr>"
      by (subst view_order_update) (auto simp: row)
    ultimately show "answering w \<and> (\<exists>n. fst (?st (w_now w) db) = Inr n \<and> (0 < n
        \<and> pd_audits (snd (?st (w_now w) db)) = pd_audits db
        \<and> (\<exists>r1. ?v (snd (?st (w_now w) db)) = (?v db)\<lparr>vw_order := Some r1\<rparr>)))"
      using w by blast
  qed
next
  let ?v = "view (rp_OrderID p) (po_UserID (rp_Order p)) []"
  fix n :: int and t
  assume n: "0 < n \<and> pd_audits t = pd_audits db \<and> (\<exists>r1. ?v t = (?v db)\<lparr>vw_order := Some r1\<rparr>)"
  then obtain r1 where t: "?v t = (?v db)\<lparr>vw_order := Some r1\<rparr>" by blast
  have deduct: "always answering (deduct_balance env p) t (\<lambda>x t. \<exists>y. x = Inr y \<and> y = p \<and>
      ?v t = (?v db)\<lparr>vw_order := Some r1, vw_user := Some (taken env (rp_BalanceToDeduct p) u)\<rparr>)"
    by (rule deduct_runs [OF t _ plan refl refl]) (use user first n in \<open>simp_all add: view_def\<close>)
  have "deduct_subscription env p = Ret (Inr p)" by (simp add: deduct_subscription_def plan)
  then have "always answering (try_else (deduct_balance env p) (\<lambda>e. Ret (Inl e)) (\<lambda>p1.
                 try_else (deduct_subscription env p1) (\<lambda>e. Ret (Inl e)) (\<lambda>p2.
                 bind (gwRefund env p2) (\<lambda>g.
                   case g of Some gErr \<Rightarrow> handleGwFail env p2 gErr | None \<Rightarrow> markRefundOk p2)))) t
      (refund_settled env p u)"
    using gateway_runs [OF _ _ _ plan exact]
    by (intro always_try [OF deduct]) (auto simp: try_else_def [of "Ret _"])
  then show "always answering (if n = 0 then Ret (Inl (Conflict ''CONFLICT'' ''order status changed''))
            else try_else (deduct_balance env p) (\<lambda>e. Ret (Inl e)) (\<lambda>p1.
                 try_else (deduct_subscription env p1) (\<lambda>e. Ret (Inl e)) (\<lambda>p2.
                 bind (gwRefund env p2) (\<lambda>g.
                   case g of Some gErr \<Rightarrow> handleGwFail env p2 gErr | None \<Rightarrow> markRefundOk p2)))) t
      (refund_settled env p u)"
    using n by simp
qed

text \<open>The sample order, completed, and the plan to pay it back in full.\<close>

definition shop_plan :: refund_plan where
  "shop_plan =
     \<lparr>rp_OrderID = 1, rp_Order = shop_order\<lparr>po_Status := OrderStatusCompleted\<rparr>, rp_RefundAmount = Fin 10,
      rp_GatewayAmount = Fin 10, rp_Reason = ''r'', rp_Force = False, rp_DeductBalance = True,
      rp_DeductionType = DeductionTypeBalance, rp_BalanceToDeduct = Fin 10, rp_SubDaysToDeduct = 0,
      rp_SubscriptionID = 0\<rparr>"

lemma refund_all_or_nothing_witness:
  "\<exists>res u'. fst (run shop_world (ExecuteRefund shop_env shop_plan) 0 (shop_db (shop_order\<lparr>po_Status := OrderStatusCompleted\<rparr>))) = Inr res
     \<and> user_row (fst (snd (run shop_world (ExecuteRefund shop_env shop_plan) 0
          (shop_db (shop_order\<lparr>po_Status := OrderStatusCompleted\<rparr>))))) 7 = Some u'
     \<and> pu_Balance u' = (if rs_Success res then - 10 * 10 ^ 8 else 0)"
proof -
  let ?db = "shop_db (shop_order\<lparr>po_Status := OrderStatusCompleted\<rparr>)"
  let ?t = "fst (snd (run shop_world (ExecuteRefund shop_env shop_plan) 0 ?db))"
  have units: "units8 (Fin (- 10)) = - 10 * 10 ^ 8" "units8 (Fin 10) = 10 * 10 ^ 8"
    by (simp_all add: units8_def floor_eq_iff)
  have world: "answering (shop_world k)" for k by (simp add: answering_def shop_world_def)
  have "always answering (ExecuteRefund shop_env shop_plan) ?db (\<lambda>x t. \<exists>res r' u'.
     x = Inr res \<and> order_row t (rp_OrderID shop_plan) = Some r' \<and> user_row t (po_UserID (rp_Order shop_plan)) = Some u'
     \<and> (if rs_Success res
        then pu_Balance u' = pe_plus shop_env (pu_Balance (shop_user 7 0)) (f_neg (rp_BalanceToDeduct shop_plan))
          \<and> rs_BalanceDeducted res = rp_BalanceToDeduct shop_plan \<and> po_RefundAmount r' = rp_RefundAmount shop_plan
          \<and> po_Status r' = (if f_lt (rp_RefundAmount shop_plan) (po_Amount (rp_Order shop_plan)) then OrderStatusPartiallyRefunded
                             else OrderStatusRefunded)
        else pu_Balance u' = pu_Balance (shop_user 7 0)
          \<and> pu_TotalRecharged u' = pe_plus shop_env (pu_TotalRecharged (shop_user 7 0)) (rp_BalanceToDeduct shop_plan)
          \<and> po_Status r' = (if po_Status (rp_Order shop_plan) = OrderStatusRefundRequested then OrderStatusRefundRequested
                             else OrderStatusCompleted)))"
    by (rule refund_all_or_nothing [where r = "shop_order\<lparr>po_Status := OrderStatusCompleted\<rparr>"])
      (simp_all add: shop_db_def shop_plan_def shop_order_def order_row_def user_row_def shop_user_def shop_env_def units)
  then have "\<exists>res r' u'. fst (run shop_world (ExecuteRefund shop_env shop_plan) 0 ?db) = Inr res
     \<and> order_row ?t (rp_OrderID shop_plan) = Some r' \<and> user_row ?t (po_UserID (rp_Order shop_plan)) = Some u'
     \<and> (if rs_Success res
        then pu_Balance u' = pe_plus shop_env (pu_Balance (shop_user 7 0)) (f_neg (rp_BalanceToDeduct shop_plan))
          \<and> rs_BalanceDeducted res = rp_BalanceToDeduct shop_plan \<and> po_RefundAmount r' = rp_RefundAmount shop_plan
          \<and> po_Status r' = (if f_lt (rp_RefundAmount shop_plan) (po_Amount (rp_Order shop_plan)) then OrderStatusPartiallyRefunded
                             else OrderStatusRefunded)
        else pu_Balance u' = pu_Balance (shop_user 7 0)
          \<and> pu_TotalRecharged u' = pe_plus shop_env (pu_TotalRecharged (shop_user 7 0)) (rp_BalanceToDeduct shop_plan)
          \<and> po_Status r' = (if po_Status (rp_Order shop_plan) = OrderStatusRefundRequested then OrderStatusRefundRequested
                             else OrderStatusCompleted))"
    unfolding always_def using world by blast
  then show ?thesis
    by (auto simp: shop_plan_def shop_order_def shop_user_def shop_env_def units split: if_splits)
qed

end
