(* ===== verification/PayProps.thy ===== *)
theory PayProps
  imports PayRefundProps
begin

text \<open>
  What payments promise: however the requests of users, administrators, providers and the
  background service interleave, and whichever statements fail, a balance changes exactly by the
  codes redeemed, and an order moves along its state machine.
\<close>

section \<open>Requests\<close>

text \<open>The requests outside refunds and the administration of codes. What they answer is not needed
  here.\<close>

datatype pay_request =
    PaymentNotified notification string
  | RetryRequested int
  | CancelRequested int int
  | AdminCancelRequested int
  | VerifyRequested string int
  | ExpiryTick
  | CodeRedeemed int string

primrec serve :: "pay_env \<Rightarrow> pay_request \<Rightarrow> unit pay_prog" where
  "serve env (PaymentNotified n pk) = bind (HandlePaymentNotification env n pk) (\<lambda>_. Ret ())"
| "serve env (RetryRequested oid) = bind (RetryFulfillment env oid) (\<lambda>_. Ret ())"
| "serve env (CancelRequested oid u) = bind (CancelOrder env oid u) (\<lambda>_. Ret ())"
| "serve env (AdminCancelRequested oid) = bind (AdminCancelOrder env oid) (\<lambda>_. Ret ())"
| "serve env (VerifyRequested x u) = bind (VerifyOrderByOutTradeNo env x u) (\<lambda>_. Ret ())"
| "serve env ExpiryTick = expiry_runOnce env"
| "serve env (CodeRedeemed u code) = bind (Redeem env u code) (\<lambda>_. Ret ())"

text \<open>The states that the requests \<open>reqs\<close> can lead to, at any point of any interleaving.\<close>

definition pay_reachable :: "pay_env \<Rightarrow> pay_request list \<Rightarrow> pay_db \<Rightarrow> pay_db \<Rightarrow> bool" where
  "pay_reachable env reqs db db' \<longleftrightarrow> (\<exists>ps. sys_step\<^sup>*\<^sup>* (db, map (serve env) reqs) (db', ps))"

lemma keeps_unit: "keeps env units p s \<Longrightarrow> keeps env units (bind p (\<lambda>_. Ret ())) s"
  by (rule keeps_bind) auto

lemma serve_keeps: "pay_good env units s \<Longrightarrow> keeps env units (serve env r) s"
  by (cases r) (auto intro!: keeps_unit HandlePaymentNotification_keeps RetryFulfillment_keeps CancelOrder_keeps
      AdminCancelOrder_keeps VerifyOrder_keeps expiry_keeps Redeem_keeps)

lemma pay_reachable_protocol:
  assumes "pay_good env units db" and "pay_reachable env reqs db db'"
  shows "pay_good env units db'" and "pay_later units db db'"
proof -
  obtain ps where "sys_step\<^sup>*\<^sup>* (db, map (serve env) reqs) (db', ps)"
    using assms(2) by (auto simp: pay_reachable_def)
  moreover have "pay.all_safe env units (map (serve env) reqs) db"
    using assms(1) serve_keeps by (auto simp: pay.all_safe_def)
  ultimately have "pay_protocol env units db db'" by (blast dest: pay.reach_protocol)
  then show "pay_good env units db'" and "pay_later units db db'"
    using assms(1) by (auto simp: pay_protocol_def)
qed

lemma run_reachable:
  assumes "fst (snd (run ws (serve env r) 0 db)) = db'"
  shows "pay_reachable env [r] db db'"
  using assms run_reach [of db "serve env r" ws 0] by (auto simp: pay_reachable_def)

section \<open>Balances\<close>

lemma completed_code:
  assumes "pay_good env units db" and "r \<in> set (pd_orders db)"
    and "po_Status r = OrderStatusCompleted" and "po_OrderType r \<noteq> OrderTypeSubscription"
  shows "\<exists>c \<in> set (pd_codes db). rr_Code c = po_RechargeCode r \<and> rc_Status c = StatusUsed
           \<and> rr_Type c = RedeemTypeBalance \<and> rr_Value c = po_Amount r"
  using assms unfolding pay_good_def code_used_def by blast

text \<open>C1: Payments credit once. Take a state in which the identifiers of orders and codes are
  unique and the amounts are exact for the balance column, and any list of requests
  (notifications of providers, however often repeated, retries, cancellations, verifications,
  ticks of the expiry service, and users redeeming codes). At every point of every interleaving
  of their statements, whichever of these fail or lose their answer: the balance of every user
  has changed exactly by the value of the codes that they redeemed meanwhile; a code once used
  stays used by the same user, so that it never counts twice; and a completed balance order has
  its own code used, with the order's amount, so that it is credited.\<close>

theorem balance_credited_once:
  assumes "pay_good env units db" and "pay_reachable env reqs db db'"
  shows "(\<forall>u. balance_of db' u = balance_of db u + (redeemed units db' u - redeemed units db u))
    \<and> (\<forall>c \<in> set (pd_codes db). rc_Status c = StatusUsed \<longrightarrow> c \<in> set (pd_codes db'))
    \<and> distinct (map rr_Code (pd_codes db')) \<and> distinct (map po_RechargeCode (pd_orders db'))
    \<and> (\<forall>r \<in> set (pd_orders db'). po_Status r = OrderStatusCompleted \<and> po_OrderType r \<noteq> OrderTypeSubscription
         \<longrightarrow> (\<exists>c \<in> set (pd_codes db'). rr_Code c = po_RechargeCode r \<and> rc_Status c = StatusUsed
               \<and> rr_Type c = RedeemTypeBalance \<and> rr_Value c = po_Amount r))"
proof (intro conjI allI ballI impI)
  note later = pay_reachable_protocol [OF assms]
  show "balance_of db' u = balance_of db u + (redeemed units db' u - redeemed units db u)" for u
    using later(2) by (simp add: pay_later_def algebra_simps)
  show "c \<in> set (pd_codes db')" if "c \<in> set (pd_codes db)" "rc_Status c = StatusUsed" for c
    using later(2) that unfolding pay_later_def same_code_def by metis
  show "distinct (map rr_Code (pd_codes db'))" "distinct (map po_RechargeCode (pd_orders db'))"
    using later(1) by (simp_all add: pay_good_def)
  show "\<exists>c \<in> set (pd_codes db'). rr_Code c = po_RechargeCode r \<and> rc_Status c = StatusUsed
               \<and> rr_Type c = RedeemTypeBalance \<and> rr_Value c = po_Amount r"
    if "r \<in> set (pd_orders db')" "po_Status r = OrderStatusCompleted \<and> po_OrderType r \<noteq> OrderTypeSubscription" for r
    using completed_code [OF later(1)] that by blast
qed

lemma shop_paid_reachable: "pay_reachable shop_env [PaymentNotified paid_notice TypeAlipay] (shop_db shop_order) shop_paid"
  by (rule run_reachable [where ws = shop_world]) (simp add: run_bind split_def shop_paid_def)

lemma balance_credited_once_witness:
  "\<exists>db'. pay_reachable shop_env [PaymentNotified paid_notice TypeAlipay] (shop_db shop_order) db'
     \<and> balance_of db' 7 = 10 * 10 ^ 8 \<and> redeemed units8 db' 7 = 10 * 10 ^ 8"
proof -
  have "balance_of shop_paid 7
      = balance_of (shop_db shop_order) 7 + (redeemed units8 shop_paid 7 - redeemed units8 (shop_db shop_order) 7)"
    using balance_credited_once [OF shop_good_pending shop_paid_reachable] by blast
  moreover have "balance_of (shop_db shop_order) 7 = 0" "redeemed units8 (shop_db shop_order) 7 = 0"
    by (simp_all add: balance_of_def user_row_def shop_db_def shop_user_def redeemed_def)
  ultimately show ?thesis using shop_paid_reachable shop_paid_rows(1) by auto
qed

section \<open>The life of an order\<close>

lemma completed_stays: "order_move\<^sup>*\<^sup>* s t \<Longrightarrow> s = OrderStatusCompleted \<Longrightarrow> t = OrderStatusCompleted"
  by (induction rule: rtranclp_induct) (auto elim: order_move.cases)

lemma never_back:
  "order_move\<^sup>*\<^sup>* s t \<Longrightarrow> t \<in> {OrderStatusPending, OrderStatusExpired} \<or> psIsRefundStatus t \<Longrightarrow> s = t"
  by (induction rule: converse_rtranclp_induct)
    (auto elim: order_move.cases simp: psIsRefundStatus_def)

text \<open>C2: The state machine of orders. In the setting of the previous property, every order is
  still there with the same user, amount, kind, code and trade number, and its status has moved
  along the edges pending or cancelled or expired to paid, pending to cancelled, paid or failed
  to recharging, recharging to completed or failed, and failed to paid by a retry. So a completed
  order stays completed; no request leads back to pending or into a refund; and none ever sets the status
  expired, for which the handler of late payments has a grace period.\<close>

theorem order_state_machine:
  assumes "pay_good env units db" and "pay_reachable env reqs db db'" and "r \<in> set (pd_orders db)"
  shows "\<exists>r' \<in> set (pd_orders db'). same_order r r'
    \<and> order_move\<^sup>*\<^sup>* (po_Status r) (po_Status r')
    \<and> (po_Status r = OrderStatusCompleted \<longrightarrow> po_Status r' = OrderStatusCompleted)
    \<and> (po_Status r' \<in> {OrderStatusPending, OrderStatusExpired} \<or> psIsRefundStatus (po_Status r')
         \<longrightarrow> po_Status r = po_Status r')"
proof -
  obtain r' where "r' \<in> set (pd_orders db')" "same_order r r'" "order_move\<^sup>*\<^sup>* (po_Status r) (po_Status r')"
    using pay_reachable_protocol(2) [OF assms(1,2)] assms(3) by (auto simp: pay_later_def)
  then show ?thesis using completed_stays never_back by blast
qed

lemma order_state_machine_witness:
  "\<exists>db' r'. pay_reachable shop_env [PaymentNotified paid_notice TypeAlipay] (shop_db shop_order) db'
     \<and> r' \<in> set (pd_orders db') \<and> same_order shop_order r' \<and> order_move\<^sup>*\<^sup>* OrderStatusPending (po_Status r')"
proof -
  have "shop_order \<in> set (pd_orders (shop_db shop_order))" by (simp add: shop_db_def)
  from order_state_machine [OF shop_good_pending shop_paid_reachable this] show ?thesis
    using shop_paid_reachable by (auto simp: shop_order_facts)
qed

end
