(* ===== verification/PayScenarios.thy ===== *)
theory PayScenarios
  imports PayRefundProps
begin

text \<open>
  What goes wrong with payments: runs of the handlers in which one statement fails, evaluated on
  the sample data of \<open>PaySamples\<close>.
\<close>

section \<open>A subscription that is extended twice\<close>

definition shop_sub_order :: pay_order where
  "shop_sub_order = shop_order\<lparr>po_OrderType := OrderTypeSubscription, po_SubscriptionGroupID := Some 1,
     po_SubscriptionDays := Some 30\<rparr>"

definition expiries :: "pay_db \<Rightarrow> gtime list" where
  "expiries db = map sub_ExpiresAt (db_rows (pd_subs db))"

definition statuses :: "pay_db \<Rightarrow> string list" where
  "statuses db = map po_Status (pd_orders db)"


section \<open>A recharge that another user takes\<close>

definition balances :: "pay_db \<Rightarrow> (int \<times> int) list" where
  "balances db = map (\<lambda>u. (pu_ID u, pu_Balance u)) (pd_users db)"


section \<open>A recharge that the limit of wrong codes refuses\<close>


section \<open>A refused refund that takes the subscription\<close>

definition shop_sub_paid :: pay_db where
  "shop_sub_paid =
     (shop_db (shop_sub_order\<lparr>po_Status := OrderStatusCompleted, po_PaymentTradeNo := ''N1''\<rparr>))
       \<lparr>pd_subs := \<lparr>db_rows =
          [\<lparr>sub_ID = 1, sub_UserID = 7, sub_GroupID = 1, sub_StartsAt = 0, sub_ExpiresAt = 10 * 24 * hour,
            sub_Status = SubscriptionStatusActive, sub_DailyWindowStart = None, sub_WeeklyWindowStart = None,
            sub_MonthlyWindowStart = None, sub_DailyUsageUSD = f_zero, sub_WeeklyUsageUSD = f_zero,
            sub_MonthlyUsageUSD = f_zero, sub_AssignedBy = None, sub_AssignedAt = 0, sub_Notes = []\<rparr>],
          db_next = 2\<rparr>\<rparr>"


end
