(* ===== verification/PayMoney.thy ===== *)
theory PayMoney
  imports PayTypes GoFormat
begin

text \<open>
  The arithmetic of payments: amounts in the units of a currency (\<open>payment/currency.go\<close>), the price
  with its fee (\<open>payment/fee.go\<close>), the credited balance with its bonus, the exchange into USDT and
  the amount of a refund (\<open>service/payment_amounts.go\<close>). The code computes with a decimal library
  outside the repository: it is a parameter here, a record of the functions that are used, with
  their documented meaning as the laws of the locale \<open>decimal_library\<close>.
\<close>

section \<open>The decimal library\<close>

record 'd decimal_lib =
  dl_NewFromFloat :: "float64 \<Rightarrow> 'd"
  dl_NewFromInt :: "int \<Rightarrow> 'd"
  dl_NewFromString :: "string \<Rightarrow> 'd option"
  dl_New :: "int \<Rightarrow> int \<Rightarrow> 'd"
  dl_Add :: "'d \<Rightarrow> 'd \<Rightarrow> 'd"
  dl_Mul :: "'d \<Rightarrow> 'd \<Rightarrow> 'd"
  dl_Div :: "'d \<Rightarrow> 'd \<Rightarrow> 'd"
  dl_Floor :: "'d \<Rightarrow> 'd"
  dl_Truncate :: "'d \<Rightarrow> int \<Rightarrow> 'd"
  dl_Round :: "'d \<Rightarrow> int \<Rightarrow> 'd"
  dl_RoundUp :: "'d \<Rightarrow> int \<Rightarrow> 'd"
  dl_Equal :: "'d \<Rightarrow> 'd \<Rightarrow> bool"
  dl_IntPart :: "'d \<Rightarrow> int"
  dl_StringFixed :: "'d \<Rightarrow> int \<Rightarrow> string"
  dl_InexactFloat64 :: "'d \<Rightarrow> float64"

text \<open>Rounding to \<open>p\<close> decimals: half away from zero, and away from zero.\<close>

definition round_places :: "rat \<Rightarrow> int \<Rightarrow> rat" where
  "round_places x p = of_int (round_away (x * pow10 p)) / pow10 p"

definition round_up_places :: "rat \<Rightarrow> int \<Rightarrow> rat" where
  "round_up_places x p = (if 0 \<le> x then of_int \<lceil>x * pow10 p\<rceil> / pow10 p else of_int \<lfloor>x * pow10 p\<rfloor> / pow10 p)"

text \<open>The number that a decimal stands for, \<open>val\<close>, determines what the functions return. A float
  becomes a decimal that reads back as the same float; a quotient has 16 decimals.\<close>

locale decimal_library =
  fixes D :: "'d decimal_lib" and val :: "'d \<Rightarrow> rat"
  assumes of_float: "f_wf (Fin q) \<Longrightarrow> f_of_rat (val (dl_NewFromFloat D (Fin q))) = Fin q"
    and of_float_zero: "val (dl_NewFromFloat D (Fin 0)) = 0"
    and of_float_sign: "0 < q \<Longrightarrow> 0 < val (dl_NewFromFloat D (Fin q))"
    and of_int: "val (dl_NewFromInt D n) = of_int n"
    and new: "val (dl_New D n e) = of_int n * pow10 e"
    and add: "val (dl_Add D a b) = val a + val b"
    and mul: "val (dl_Mul D a b) = val a * val b"
    and div: "val b \<noteq> 0 \<Longrightarrow> val (dl_Div D a b) = round_places (val a / val b) 16"
    and floor: "val (dl_Floor D a) = of_int \<lfloor>val a\<rfloor>"
    and truncate: "val (dl_Truncate D a 0) = of_int (rat_trunc (val a))"
    and round: "val (dl_Round D a p) = round_places (val a) p"
    and round_up: "val (dl_RoundUp D a p) = round_up_places (val a) p"
    and equal: "dl_Equal D a b \<longleftrightarrow> val a = val b"
    and int_part: "val a = of_int n \<Longrightarrow> in_i64 n \<Longrightarrow> dl_IntPart D a = n"
    and to_float: "dl_InexactFloat64 D a = f_of_rat (val a)"
    and printed: "0 \<le> val a \<Longrightarrow> 0 \<le> p
      \<Longrightarrow> dl_StringFixed D a p = fixed_point (round_away (val a * pow10 p)) (nat p)"
    and parsed: "0 \<le> m \<Longrightarrow> \<exists>d. dl_NewFromString D (fixed_point m k) = Some d \<and> val d = of_int m / 10 ^ k"

section \<open>Amounts in a currency\<close>

definition AmountToMinorUnit :: "'d decimal_lib \<Rightarrow> string \<Rightarrow> string \<Rightarrow> go_error + int" where
  "AmountToMinorUnit D amountStr currency =
     (case dl_NewFromString D (trim_space amountStr) of
        None \<Rightarrow> Inl (PlainError (''invalid amount: '' @ amountStr) None)
      | Some d \<Rightarrow>
          and_then (NormalizePaymentCurrency currency) (\<lambda>normalizedCurrency.
            (let digits = CurrencyMaxFractionDigits normalizedCurrency;
                 scaledForPrecision = dl_Mul D d (dl_New D 1 digits)
             in if \<not> dl_Equal D scaledForPrecision (dl_Truncate D scaledForPrecision 0)
                then Inl (PlainError
                       (if digits = 0
                        then ''payment amount for '' @ normalizedCurrency @ '' must be a whole number''
                        else ''payment amount for '' @ normalizedCurrency @ '' must not have more than ''
                             @ itoa digits @ '' decimal places'') None)
                else Inr (dl_IntPart D (dl_Mul D d (dl_New D 1 (CurrencyMinorUnit normalizedCurrency)))))))"

definition MinorUnitToAmount :: "'d decimal_lib \<Rightarrow> int \<Rightarrow> string \<Rightarrow> float64" where
  "MinorUnitToAmount D value currency =
     dl_InexactFloat64 D (dl_Div D (dl_NewFromInt D value) (dl_New D 1 (CurrencyMinorUnit currency)))"

definition FormatAmountForCurrency :: "'d decimal_lib \<Rightarrow> float64 \<Rightarrow> string \<Rightarrow> string" where
  "FormatAmountForCurrency D amount currency =
     dl_StringFixed D (dl_NewFromFloat D amount) (CurrencyMaxFractionDigits currency)"

definition YuanToFen :: "'d decimal_lib \<Rightarrow> string \<Rightarrow> go_error + int" where
  "YuanToFen D yuanStr = AmountToMinorUnit D yuanStr DefaultPaymentCurrency"

definition FenToYuan :: "'d decimal_lib \<Rightarrow> int \<Rightarrow> float64" where
  "FenToYuan D fen = MinorUnitToAmount D fen DefaultPaymentCurrency"

section \<open>The price\<close>

definition CalculatePayAmountForCurrency :: "'d decimal_lib \<Rightarrow> float64 \<Rightarrow> float64 \<Rightarrow> string \<Rightarrow> string" where
  "CalculatePayAmountForCurrency D rechargeAmount feeRate currency =
     (let fractionDigits = CurrencyMaxFractionDigits currency;
          amount = dl_NewFromFloat D rechargeAmount
      in if f_le feeRate f_zero then dl_StringFixed D amount fractionDigits
         else (let rate = dl_NewFromFloat D feeRate;
                   fee = dl_RoundUp D (dl_Div D (dl_Mul D amount rate) (dl_NewFromInt D 100)) fractionDigits
               in dl_StringFixed D (dl_Add D amount fee) fractionDigits))"

definition CalculatePayAmount :: "'d decimal_lib \<Rightarrow> float64 \<Rightarrow> float64 \<Rightarrow> string" where
  "CalculatePayAmount D rechargeAmount feeRate =
     CalculatePayAmountForCurrency D rechargeAmount feeRate DefaultPaymentCurrency"

definition invalid_amount :: "go_error \<Rightarrow> string \<Rightarrow> go_error" where
  "invalid_amount e currency =
     WithMetadata (BadRequest ''INVALID_AMOUNT'' (error_text e)) (Some [(''currency'', currency)])"

definition validateCreateOrderAmountCurrency :: "'d decimal_lib \<Rightarrow> float64 \<Rightarrow> string \<Rightarrow> go_error option" where
  "validateCreateOrderAmountCurrency D amount currency =
     (case AmountToMinorUnit D (FormatFloat_f amount) currency of
        Inl e \<Rightarrow> Some (invalid_amount e currency)
      | Inr _ \<Rightarrow> None)"

definition calculateCreateOrderPayAmount ::
    "'d decimal_lib \<Rightarrow> float64 \<Rightarrow> float64 \<Rightarrow> string \<Rightarrow> go_error + string \<times> float64" where
  "calculateCreateOrderPayAmount D limitAmount feeRate currency =
     (case validateCreateOrderAmountCurrency D limitAmount currency of
        Some e \<Rightarrow> Inl e
      | None \<Rightarrow>
          (let payAmountStr = CalculatePayAmountForCurrency D limitAmount feeRate currency in
           case AmountToMinorUnit D payAmountStr currency of
             Inl e \<Rightarrow> Inl (invalid_amount e currency)
           | Inr _ \<Rightarrow>
               (case parse_float payAmountStr of
                  None \<Rightarrow> Inl (WithMetadata (BadRequest ''INVALID_AMOUNT'' ''invalid payment amount'')
                             (Some [(''currency'', currency)]))
                | Some payAmount \<Rightarrow> Inr (payAmountStr, payAmount))))"

section \<open>The credited balance\<close>

abbreviation defaultBalanceRechargeMultiplier :: float64 where "defaultBalanceRechargeMultiplier \<equiv> f_one"
abbreviation defaultUsdtCnyExchangeRate :: float64 where "defaultUsdtCnyExchangeRate \<equiv> Fin 7"
abbreviation defaultRechargeBonusThreshold :: float64 where "defaultRechargeBonusThreshold \<equiv> Fin 100"
abbreviation defaultRechargeBonusAmount :: float64 where "defaultRechargeBonusAmount \<equiv> Fin 10"

definition normalizeBalanceRechargeMultiplier :: "float64 \<Rightarrow> float64" where
  "normalizeBalanceRechargeMultiplier multiplier =
     (if f_is_nan multiplier \<or> f_is_inf multiplier \<or> f_le multiplier f_zero
      then defaultBalanceRechargeMultiplier else multiplier)"

definition normalizeUsdtCnyExchangeRate :: "float64 \<Rightarrow> float64" where
  "normalizeUsdtCnyExchangeRate rate =
     (if f_is_nan rate \<or> f_is_inf rate \<or> f_le rate f_zero then defaultUsdtCnyExchangeRate else rate)"

definition normalizeRechargeBonusThreshold :: "float64 \<Rightarrow> float64" where
  "normalizeRechargeBonusThreshold threshold =
     (if f_is_nan threshold \<or> f_is_inf threshold \<or> f_lt threshold f_zero
      then defaultRechargeBonusThreshold else threshold)"

definition normalizeRechargeBonusAmount :: "float64 \<Rightarrow> float64" where
  "normalizeRechargeBonusAmount amount =
     (if f_is_nan amount \<or> f_is_inf amount \<or> f_lt amount f_zero then defaultRechargeBonusAmount else amount)"

definition calculateRechargeBonus :: "'d decimal_lib \<Rightarrow> float64 \<Rightarrow> float64 \<Rightarrow> float64 \<Rightarrow> float64" where
  "calculateRechargeBonus D paymentAmount threshold0 bonusAmount0 =
     (let threshold = normalizeRechargeBonusThreshold threshold0;
          bonusAmount = normalizeRechargeBonusAmount bonusAmount0
      in if f_le paymentAmount f_zero \<or> f_le threshold f_zero \<or> f_le bonusAmount f_zero then f_zero
         else dl_InexactFloat64 D
                (dl_Round D
                  (dl_Mul D
                    (dl_Floor D (dl_Div D (dl_NewFromFloat D paymentAmount) (dl_NewFromFloat D threshold)))
                    (dl_NewFromFloat D bonusAmount)) 2))"

definition calculateCreditedBalance ::
    "'d decimal_lib \<Rightarrow> float64 \<Rightarrow> float64 \<Rightarrow> float64 \<Rightarrow> float64 \<Rightarrow> float64" where
  "calculateCreditedBalance D paymentAmount multiplier bonusThreshold bonusAmount =
     (let base = dl_Mul D (dl_NewFromFloat D paymentAmount)
                   (dl_NewFromFloat D (normalizeBalanceRechargeMultiplier multiplier));
          bonus = dl_NewFromFloat D (calculateRechargeBonus D paymentAmount bonusThreshold bonusAmount)
      in dl_InexactFloat64 D (dl_Round D (dl_Add D base bonus) 2))"

definition calculateUSDTAmountFromCNY :: "'d decimal_lib \<Rightarrow> float64 \<Rightarrow> float64 \<Rightarrow> float64" where
  "calculateUSDTAmountFromCNY D cnyAmount exchangeRate =
     (if f_le cnyAmount f_zero then f_zero
      else dl_InexactFloat64 D
             (dl_RoundUp D
               (dl_Div D (dl_NewFromFloat D cnyAmount)
                  (dl_NewFromFloat D (normalizeUsdtCnyExchangeRate exchangeRate))) 4))"

section \<open>The amount of a refund\<close>

definition calculateGatewayRefundAmount ::
    "'d decimal_lib \<Rightarrow> float64 \<Rightarrow> float64 \<Rightarrow> float64 \<Rightarrow> string \<Rightarrow> float64" where
  "calculateGatewayRefundAmount D orderAmount payAmount refundAmount currency =
     (if f_le orderAmount f_zero \<or> f_le payAmount f_zero \<or> f_le refundAmount f_zero then f_zero
      else (let fractionDigits = CurrencyMaxFractionDigits currency in
            if f_le (f_abs (f_sub refundAmount orderAmount)) (paymentAmountToleranceForCurrency currency)
            then dl_InexactFloat64 D (dl_Round D (dl_NewFromFloat D payAmount) fractionDigits)
            else dl_InexactFloat64 D
                   (dl_Round D
                     (dl_Div D (dl_Mul D (dl_NewFromFloat D payAmount) (dl_NewFromFloat D refundAmount))
                        (dl_NewFromFloat D orderAmount)) fractionDigits)))"

end
