(* ===== verification/PayBalancer.thy ===== *)
theory PayBalancer
  imports PayLifecycle PayMoney
begin

text \<open>
  Which provider instance takes a new order: the load balancer (\<open>payment/load_balancer.go\<close>), the
  methods that users see and the configured source of each
  (\<open>service/payment_visible_method_instances.go\<close>, \<open>service/payment_resume_service.go\<close>), and the
  limits and the currency of a method (\<open>service/payment_config_limits.go\<close>).
\<close>

section \<open>The environment of creating orders\<close>

record channel_limits =
  cl_DailyLimit :: float64
  cl_SingleMin :: float64
  cl_SingleMax :: float64

definition no_limits :: channel_limits where
  "no_limits = \<lparr>cl_DailyLimit = f_zero, cl_SingleMin = f_zero, cl_SingleMax = f_zero\<rparr>"

text \<open>\<open>ce_config\<close> reads the stored configuration of an instance (JSON, or an older ciphertext):
  nothing when it cannot be read. \<open>ce_limits\<close> reads its limits, \<open>ce_column n x\<close> is what a
  NUMERIC column with \<open>n\<close> decimals returns after \<open>x\<close> was stored, \<open>ce_sum\<close> the sum of such a column.\<close>

record 'd create_env =
  ce_pay :: pay_env
  ce_dec :: "'d decimal_lib"
  ce_config :: "string \<Rightarrow> string gomap option"
  ce_limits :: "string \<Rightarrow> channel_limits gomap option"
  ce_multipliers :: "string \<Rightarrow> float64 gomap option"
  ce_column :: "nat \<Rightarrow> float64 \<Rightarrow> float64"
  ce_sum :: "float64 list \<Rightarrow> float64"
  ce_signing :: bool

definition config_value :: "string gomap \<Rightarrow> string \<Rightarrow> string" where
  "config_value cfg k = opt_default [] (map_of cfg k)"

section \<open>Methods that users see\<close>

definition NormalizeVisibleMethod :: "string \<Rightarrow> string" where
  "NormalizeVisibleMethod method =
     (let normalized = GetBasePaymentType (trim_space method) in
      if normalized \<in> {TypeEasyPay, TypeAlipay, TypeWxpay, TypeStripe, TypeAirwallex, TypeUSDT}
      then normalized else [])"

definition NormalizeVisibleMethods :: "string list \<Rightarrow> string list" where
  "NormalizeVisibleMethods methods =
     foldl (\<lambda>out m. let n = NormalizeVisibleMethod m in if n = [] \<or> n \<in> set out then out else out @ [n]) [] methods"

definition NormalizePaymentSource :: "string \<Rightarrow> string" where
  "NormalizePaymentSource source =
     (let s = trim_space (to_lower source) in
      if s \<in> {[], ''hosted_redirect''} then ''hosted_redirect''
      else if s \<in> {''wechat_in_app'', ''wxpay_resume'', ''wechat_in_app_resume''} then ''wechat_in_app_resume''
      else s)"

abbreviation VisibleMethodSourceOfficialAlipay :: string where "VisibleMethodSourceOfficialAlipay \<equiv> ''official_alipay''"
abbreviation VisibleMethodSourceEasyPayAlipay :: string where "VisibleMethodSourceEasyPayAlipay \<equiv> ''easypay_alipay''"
abbreviation VisibleMethodSourceOfficialWechat :: string where "VisibleMethodSourceOfficialWechat \<equiv> ''official_wxpay''"
abbreviation VisibleMethodSourceEasyPayWechat :: string where "VisibleMethodSourceEasyPayWechat \<equiv> ''easypay_wxpay''"

definition NormalizeVisibleMethodSource :: "string \<Rightarrow> string \<Rightarrow> string" where
  "NormalizeVisibleMethodSource method source =
     (let m = NormalizeVisibleMethod method; s = trim_space (to_lower source) in
      if m = TypeAlipay then
        (if s \<in> {VisibleMethodSourceOfficialAlipay, TypeAlipay, TypeAlipayDirect, ''official''}
         then VisibleMethodSourceOfficialAlipay
         else if s \<in> {VisibleMethodSourceEasyPayAlipay, TypeEasyPay} then VisibleMethodSourceEasyPayAlipay
         else [])
      else if m = TypeWxpay then
        (if s \<in> {VisibleMethodSourceOfficialWechat, TypeWxpay, TypeWxpayDirect, ''wechat'', ''official''}
         then VisibleMethodSourceOfficialWechat
         else if s \<in> {VisibleMethodSourceEasyPayWechat, TypeEasyPay} then VisibleMethodSourceEasyPayWechat
         else [])
      else [])"

definition VisibleMethodProviderKeyForSource :: "string \<Rightarrow> string \<Rightarrow> string option" where
  "VisibleMethodProviderKeyForSource method source =
     (let s = NormalizeVisibleMethodSource method source; m = NormalizeVisibleMethod method in
      if s = VisibleMethodSourceOfficialAlipay \<and> m = TypeAlipay then Some TypeAlipay
      else if s = VisibleMethodSourceEasyPayAlipay \<and> m = TypeAlipay then Some TypeEasyPay
      else if s = VisibleMethodSourceOfficialWechat \<and> m = TypeWxpay then Some TypeWxpay
      else if s = VisibleMethodSourceEasyPayWechat \<and> m = TypeWxpay then Some TypeEasyPay
      else None)"

definition visibleMethodSourceSettingKey :: "string \<Rightarrow> string" where
  "visibleMethodSourceSettingKey method =
     (let m = NormalizeVisibleMethod method in
      if m = TypeAlipay then ''payment_visible_method_alipay_source''
      else if m = TypeWxpay then ''payment_visible_method_wxpay_source'' else [])"

definition splitTypes :: "string \<Rightarrow> string list" where
  "splitTypes s =
     (if s = [] then [] else filter (\<lambda>p. p \<noteq> []) (map trim_space (split_char CHR '','' s)))"

definition enabledVisibleMethodsForProvider :: "string \<Rightarrow> string \<Rightarrow> string list" where
  "enabledVisibleMethodsForProvider providerKey supportedTypes =
     (let key = trim_space providerKey;
          supports = (\<lambda>m. trim_space supportedTypes = []
                          \<or> list_ex (\<lambda>t. NormalizeVisibleMethod t = m) (splitTypes supportedTypes));
          methodSet = (if key = TypeAlipay then (if supports TypeAlipay then [TypeAlipay] else [])
                       else if key = TypeWxpay then (if supports TypeWxpay then [TypeWxpay] else [])
                       else if key = TypeEasyPay then map NormalizeVisibleMethod (splitTypes supportedTypes)
                       else [])
      in filter (\<lambda>m. m \<in> set methodSet) [TypeAlipay, TypeWxpay])"

definition providerSupportsVisibleMethod :: "string \<Rightarrow> pay_instance \<Rightarrow> bool" where
  "providerSupportsVisibleMethod method inst \<longleftrightarrow>
     pi_Enabled inst
     \<and> NormalizeVisibleMethod method
         \<in> set (enabledVisibleMethodsForProvider (pi_ProviderKey inst) (pi_SupportedTypes inst))"

definition filterEnabledVisibleMethodInstances :: "pay_instance list \<Rightarrow> string \<Rightarrow> pay_instance list" where
  "filterEnabledVisibleMethodInstances instances method = filter (providerSupportsVisibleMethod method) instances"

definition filterVisibleMethodInstancesByProviderKey ::
    "pay_instance list \<Rightarrow> string \<Rightarrow> string \<Rightarrow> pay_instance list" where
  "filterVisibleMethodInstancesByProviderKey instances method providerKey =
     filter (\<lambda>inst. providerSupportsVisibleMethod method inst
               \<and> equal_fold (trim_space (pi_ProviderKey inst)) (trim_space providerKey)) instances"

text \<open>The first key of each spelling; keys are compared in lower case.\<close>

definition distinctVisibleMethodProviderKeys :: "pay_instance list \<Rightarrow> string list" where
  "distinctVisibleMethodProviderKeys instances =
     foldl (\<lambda>keys inst. let key = trim_space (pi_ProviderKey inst) in
              if key = [] \<or> to_lower key \<in> set (map to_lower keys) then keys else keys @ [key]) [] instances"

definition selectVisibleMethodInstanceByProviderKey :: "pay_instance list \<Rightarrow> string \<Rightarrow> pay_instance option" where
  "selectVisibleMethodInstanceByProviderKey instances providerKey0 =
     (let providerKey = trim_space providerKey0 in
      if providerKey = [] then None
      else find (\<lambda>inst. equal_fold (trim_space (pi_ProviderKey inst)) providerKey) instances)"

section \<open>The configured source of a method\<close>

text \<open>\<open>GetValue\<close> of a setting; a missing one is the empty string here.\<close>

definition setting_value :: "string \<Rightarrow> string statement" where
  "setting_value k now db = (Inr (opt_default [] (map_of (pd_settings db) k)), db)"

definition invalid_source :: "string \<Rightarrow> string \<Rightarrow> go_error" where
  "invalid_source method what = BadRequest ''INVALID_PAYMENT_VISIBLE_METHOD_SOURCE'' (method @ what)"

definition normalizeVisibleMethodSettingSource :: "string \<Rightarrow> string \<Rightarrow> go_error + string" where
  "normalizeVisibleMethodSettingSource method source0 =
     (let source = trim_space source0; normalized = NormalizeVisibleMethodSource method source in
      if source = [] then Inr []
      else if normalized = []
      then Inl (invalid_source method '' source must be one of the supported payment providers'')
      else Inr normalized)"

definition resolveVisibleMethodSourceProviderKey :: "string \<Rightarrow> (go_error + string) pay_prog" where
  "resolveVisibleMethodSourceProviderKey method0 =
     (let method = NormalizeVisibleMethod method0; sourceKey = visibleMethodSourceSettingKey method in
      try_else (if sourceKey = [] then Ret (Inr []) else call (setting_value sourceKey))
        (\<lambda>e. Ret (Inl (wrap (''get '' @ sourceKey) e)))
        (\<lambda>rawSource. Ret (and_then (normalizeVisibleMethodSettingSource method rawSource) (\<lambda>normalizedSource.
           if normalizedSource = [] then Inr []
           else of_option (invalid_source method '' source must be one of the supported payment providers'')
                  (VisibleMethodProviderKeyForSource method normalizedSource)))))"

definition resolveVisibleMethodProviderKey ::
    "string \<Rightarrow> pay_instance list \<Rightarrow> (go_error + string) pay_prog" where
  "resolveVisibleMethodProviderKey method matching =
     (case distinctVisibleMethodProviderKeys matching of
        [] \<Rightarrow> Ret (Inr [])
      | [key] \<Rightarrow> Ret (Inr (trim_space key))
      | _ \<Rightarrow>
          try_else (resolveVisibleMethodSourceProviderKey method) (\<lambda>e. Ret (Inl e)) (\<lambda>providerKey.
            if providerKey = [] then Ret (Inr [])
            else (case selectVisibleMethodInstanceByProviderKey matching providerKey of
                    None \<Rightarrow> Ret (Inl (invalid_source method '' source has no enabled provider instance''))
                  | Some selected \<Rightarrow> Ret (Inr (trim_space (pi_ProviderKey selected))))))"

text \<open>The rows come in the order of \<open>sort_order\<close>; rows with the same number keep their order here.\<close>

definition by_sort_order :: "pay_instance list \<Rightarrow> pay_instance list" where
  "by_sort_order = sort_by (\<lambda>a b. pi_SortOrder a < pi_SortOrder b)"

definition enabled_instances :: "pay_instance list statement" where
  "enabled_instances now db = (Inr (filter pi_Enabled (pd_instances db)), db)"

text \<open>The provider key of the instance that serves a method: \<open>None\<close> when there is none, and the empty
  key when several providers may.\<close>

definition resolveEnabledVisibleMethodInstance :: "string \<Rightarrow> (go_error + string option) pay_prog" where
  "resolveEnabledVisibleMethodInstance method0 =
     (let method = NormalizeVisibleMethod method0 in
      if method \<noteq> TypeAlipay \<and> method \<noteq> TypeWxpay then Ret (Inr None)
      else try_else (call enabled_instances) (\<lambda>e. Ret (Inl (wrap ''query enabled payment providers'' e))) (\<lambda>rows.
        (let matching = filterEnabledVisibleMethodInstances (by_sort_order rows) method in
         try_else (resolveVisibleMethodProviderKey method matching) (\<lambda>e. Ret (Inl e)) (\<lambda>providerKey.
           if providerKey = [] then Ret (Inr (if matching = [] then None else Some []))
           else Ret (Inr (map_option pi_ProviderKey
                            (selectVisibleMethodInstanceByProviderKey matching providerKey)))))))"

section \<open>The currency of a method\<close>

definition pcInstancePaymentCurrency :: "'d create_env \<Rightarrow> pay_instance \<Rightarrow> string" where
  "pcInstancePaymentCurrency ce inst =
     paymentProviderConfigCurrency (pi_ProviderKey inst) (Some (opt_default [] (ce_config ce (pi_Config inst))))"

text \<open>The currency that all instances have; \<open>None\<close> when they differ.\<close>

definition pcAggregateMethodCurrency :: "'d create_env \<Rightarrow> pay_instance list \<Rightarrow> string option" where
  "pcAggregateMethodCurrency ce instances =
     (case filter (\<lambda>c. c \<noteq> []) (map (pcInstancePaymentCurrency ce) instances) of
        [] \<Rightarrow> Some DefaultPaymentCurrency
      | currency # others \<Rightarrow> if list_all (\<lambda>c. c = currency) others then Some currency else None)"

text \<open>The instances under each type; an instance comes once under a type.\<close>

definition add_instance :: "string \<Rightarrow> pay_instance \<Rightarrow> (string \<Rightarrow> pay_instance list) \<Rightarrow> string \<Rightarrow> pay_instance list" where
  "add_instance key inst g =
     (if pi_ID inst \<in> set (map pi_ID (g key)) then g else g(key := g key @ [inst]))"

definition instance_types :: "pay_instance \<Rightarrow> string list" where
  "instance_types inst =
     (if pi_ProviderKey inst = TypeStripe then [TypeStripe]
      else if pi_ProviderKey inst = TypeInfini then [TypeUSDT]
      else splitTypes (pi_SupportedTypes inst))"

definition pcGroupByPaymentType :: "pay_instance list \<Rightarrow> string \<Rightarrow> pay_instance list" where
  "pcGroupByPaymentType instances =
     foldl (\<lambda>g inst. foldl (\<lambda>g key. add_instance key inst g) g (instance_types inst)) (\<lambda>_. []) instances"

text \<open>The instances of alipay and wxpay are replaced by those of the configured source, or removed;
  nothing changes when there is no group at all.\<close>

definition visible_instances :: "pay_instance list \<Rightarrow> string \<Rightarrow> pay_instance list pay_prog" where
  "visible_instances instances method =
     (let matching = filterEnabledVisibleMethodInstances instances method in
      try_else (resolveVisibleMethodProviderKey method matching) (\<lambda>_. Ret []) (\<lambda>providerKey.
        Ret (if providerKey = [] then matching
             else filterVisibleMethodInstancesByProviderKey instances method providerKey)))"

definition pcApplyEnabledVisibleMethodInstances ::
    "(string \<Rightarrow> pay_instance list) \<Rightarrow> pay_instance list \<Rightarrow> (string \<Rightarrow> pay_instance list) pay_prog" where
  "pcApplyEnabledVisibleMethodInstances typeInstances instances =
     (if list_all (\<lambda>inst. instance_types inst = []) instances then Ret typeInstances
      else bind (visible_instances instances TypeAlipay) (\<lambda>alipay.
           bind (visible_instances instances TypeWxpay) (\<lambda>wxpay.
           Ret (typeInstances(TypeAlipay := alipay, TypeWxpay := wxpay)))))"

definition ValidateMethodCurrencyConsistency :: "'d create_env \<Rightarrow> string \<Rightarrow> (go_error + string) pay_prog" where
  "ValidateMethodCurrencyConsistency ce paymentType =
     (let method = NormalizeVisibleMethod paymentType in
      if method = [] then Ret (Inr DefaultPaymentCurrency)
      else try_else (call enabled_instances) (\<lambda>e. Ret (Inl (wrap ''query provider instances'' e))) (\<lambda>instances.
        bind (pcApplyEnabledVisibleMethodInstances (pcGroupByPaymentType instances) instances) (\<lambda>typeInstances.
          Ret (if typeInstances method = [] then Inr DefaultPaymentCurrency
               else of_option (WithMetadata (ServiceUnavailable ''PAYMENT_METHOD_CURRENCY_CONFLICT''
                        ''payment method has enabled provider instances with mixed currencies'')
                        (Some [(''payment_type'', method)]))
                      (pcAggregateMethodCurrency ce (typeInstances method))))))"

section \<open>The load balancer\<close>

abbreviation StrategyRoundRobin :: string where "StrategyRoundRobin \<equiv> ''round-robin''"
abbreviation StrategyLeastAmount :: string where "StrategyLeastAmount \<equiv> ''least-amount''"

record instance_selection =
  is_InstanceID :: string
  is_ProviderKey :: string
  is_Config :: "string gomap"
  is_SupportedTypes :: string
  is_PaymentMode :: string

definition resolveWxpayJSAPIAppID :: "string gomap \<Rightarrow> string" where
  "resolveWxpayJSAPIAppID config =
     (let appID = trim_space (config_value config ''mpAppId'') in
      if appID \<noteq> [] then appID else trim_space (config_value config ''appId''))"

text \<open>\<open>jsapi\<close> is the WeChat application that the context asks for, or empty.\<close>

definition instance_matches :: "'d create_env \<Rightarrow> string \<Rightarrow> string \<Rightarrow> pay_instance \<Rightarrow> bool" where
  "instance_matches ce jsapi paymentType inst =
     (if paymentType = TypeStripe then pi_ProviderKey inst = TypeStripe
      else if paymentType = TypeUSDT
      then pi_ProviderKey inst = TypeInfini \<or> InstanceSupportsType (pi_SupportedTypes inst) paymentType
      else InstanceSupportsType (pi_SupportedTypes inst) paymentType
           \<and> (jsapi \<noteq> [] \<and> normalizeVisibleMethodSupportType paymentType = TypeWxpay
                \<and> pi_ProviderKey inst = TypeWxpay
              \<longrightarrow> resolveWxpayJSAPIAppID (opt_default [] (ce_config ce (pi_Config inst))) = jsapi))"

definition queryEnabledInstances ::
    "'d create_env \<Rightarrow> string \<Rightarrow> string \<Rightarrow> string \<Rightarrow> (go_error + pay_instance list) pay_prog" where
  "queryEnabledInstances ce jsapi providerKey paymentType =
     try_else (call enabled_instances) (\<lambda>e. Ret (Inl (wrap ''query provider instances'' e))) (\<lambda>rows.
       (let instances = by_sort_order (filter (\<lambda>r. providerKey = [] \<or> pi_ProviderKey r = providerKey) rows);
            matched = filter (instance_matches ce jsapi paymentType) instances
        in Ret (if matched = [] then Inl (plain (''no enabled instance for payment type '' @ paymentType))
                else Inr matched)))"

text \<open>The amounts of today's orders of an instance. A failing query counts as no orders.\<close>

definition counted_today :: "gtime \<Rightarrow> pay_order \<Rightarrow> bool" where
  "counted_today todayStart r \<longleftrightarrow>
     po_Status r \<in> {OrderStatusPending, OrderStatusPaid, OrderStatusCompleted, OrderStatusRecharging}
     \<and> todayStart \<le> po_CreatedAt r"

definition daily_used :: "'d create_env \<Rightarrow> gtime \<Rightarrow> pay_order list \<Rightarrow> pay_instance \<Rightarrow> float64" where
  "daily_used ce todayStart rows inst =
     (case filter (\<lambda>r. po_ProviderInstanceID r = Some (itoa (pi_ID inst)) \<and> counted_today todayStart r) rows of
        [] \<Rightarrow> f_zero
      | hits \<Rightarrow> ce_sum ce (map po_PayAmount hits))"

definition attachDailyUsage ::
    "'d create_env \<Rightarrow> pay_instance list \<Rightarrow> (pay_instance \<times> float64) list pay_prog" where
  "attachDailyUsage ce instances =
     bind (ask w_now) (\<lambda>now.
       (let loc = pe_loc (ce_pay ce); todayStart = date_at loc (local_day loc now) 0 in
        try_else (call (order_Where (\<lambda>_. True)))
          (\<lambda>_. Ret (map (\<lambda>inst. (inst, f_zero)) instances))
          (\<lambda>rows. Ret (map (\<lambda>inst. (inst, daily_used ce todayStart rows inst)) instances))))"

definition legacyVisibleMethodAlias :: "string \<Rightarrow> string" where
  "legacyVisibleMethodAlias paymentType =
     (let t = normalizeVisibleMethodSupportType paymentType in
      if t = TypeAlipay then TypeAlipayDirect else if t = TypeWxpay then TypeWxpayDirect else [])"

definition getInstanceChannelLimits :: "'d create_env \<Rightarrow> pay_instance \<Rightarrow> string \<Rightarrow> channel_limits" where
  "getInstanceChannelLimits ce inst paymentType =
     (if pi_Limits inst = [] then no_limits
      else (case ce_limits ce (pi_Limits inst) of
              None \<Rightarrow> no_limits
            | Some limits \<Rightarrow>
                (let lookupKey = (if pi_ProviderKey inst = TypeInfini then TypeUSDT
                                  else if pi_ProviderKey inst = ''stripe'' then ''stripe'' else paymentType);
                     aliasKey = legacyVisibleMethodAlias lookupKey
                 in case map_of limits lookupKey of
                      Some cl \<Rightarrow> cl
                    | None \<Rightarrow>
                        if aliasKey = [] then no_limits
                        else opt_default no_limits (map_of limits aliasKey))))"

definition within_limits :: "channel_limits \<Rightarrow> float64 \<Rightarrow> float64 \<Rightarrow> bool" where
  "within_limits cl dailyUsed orderAmount \<longleftrightarrow>
     \<not> (f_lt f_zero (cl_SingleMin cl) \<and> f_lt orderAmount (cl_SingleMin cl))
     \<and> \<not> (f_lt f_zero (cl_SingleMax cl) \<and> f_lt (cl_SingleMax cl) orderAmount)
     \<and> \<not> (f_lt f_zero (cl_DailyLimit cl) \<and> f_lt (cl_DailyLimit cl) (f_add dailyUsed orderAmount))"

definition filterByLimits ::
    "'d create_env \<Rightarrow> (pay_instance \<times> float64) list \<Rightarrow> string \<Rightarrow> float64 \<Rightarrow> (pay_instance \<times> float64) list" where
  "filterByLimits ce candidates paymentType orderAmount =
     filter (\<lambda>c. within_limits (getInstanceChannelLimits ce (fst c) paymentType) (snd c) orderAmount) candidates"

definition pickLeastAmount :: "(pay_instance \<times> float64) list \<Rightarrow> pay_instance \<times> float64" where
  "pickLeastAmount candidates =
     foldl (\<lambda>best c. if f_lt (snd c) (snd best) then c else best) (hd candidates) (tl candidates)"

text \<open>A counter of 64 bits, shared by the requests of a process, goes round.\<close>

definition pickByStrategy ::
    "(pay_instance \<times> float64) list \<Rightarrow> string \<Rightarrow> (pay_instance \<times> float64) pay_prog" where
  "pickByStrategy candidates strategy =
     (if strategy = StrategyLeastAmount \<and> 1 < length candidates then Ret (pickLeastAmount candidates)
      else atomic (\<lambda>w db.
             (let n = (pd_counter db + 1) mod 2 ^ 64
              in (candidates ! nat (n mod int (length candidates)), db\<lparr>pd_counter := n\<rparr>))))"

definition buildSelection :: "'d create_env \<Rightarrow> pay_instance \<Rightarrow> instance_selection" where
  "buildSelection ce selected =
     (let config = opt_default [] (ce_config ce (pi_Config selected)) in
      \<lparr>is_InstanceID = itoa (pi_ID selected), is_ProviderKey = pi_ProviderKey selected,
       is_Config = (if pi_PaymentMode selected = [] then config
                    else map_put ''paymentMode'' (pi_PaymentMode selected) config),
       is_SupportedTypes = pi_SupportedTypes selected, is_PaymentMode = pi_PaymentMode selected\<rparr>)"

definition lb_SelectInstance ::
    "'d create_env \<Rightarrow> string \<Rightarrow> string \<Rightarrow> string \<Rightarrow> string \<Rightarrow> float64 \<Rightarrow> (go_error + instance_selection) pay_prog" where
  "lb_SelectInstance ce jsapi providerKey paymentType strategy orderAmount =
     try_else (queryEnabledInstances ce jsapi providerKey paymentType) (\<lambda>e. Ret (Inl e)) (\<lambda>instances.
       bind (attachDailyUsage ce instances) (\<lambda>candidates.
         (let available = filterByLimits ce candidates paymentType orderAmount in
          bind (pickByStrategy (if available = [] then candidates else available) strategy) (\<lambda>selected.
            Ret (Inr (buildSelection ce (fst selected)))))))"

text \<open>For alipay and wxpay the configured source decides on the provider.\<close>

definition SelectInstance ::
    "'d create_env \<Rightarrow> string \<Rightarrow> string \<Rightarrow> string \<Rightarrow> string \<Rightarrow> float64 \<Rightarrow> (go_error + instance_selection) pay_prog" where
  "SelectInstance ce jsapi providerKey paymentType strategy orderAmount =
     (let visibleMethod = NormalizeVisibleMethod paymentType in
      if providerKey \<noteq> [] \<or> (visibleMethod \<noteq> TypeAlipay \<and> visibleMethod \<noteq> TypeWxpay)
      then lb_SelectInstance ce jsapi providerKey paymentType strategy orderAmount
      else try_else (resolveEnabledVisibleMethodInstance visibleMethod) (\<lambda>e. Ret (Inl e)) (\<lambda>found.
        case found of
          None \<Rightarrow> Ret (Inl (plain (''visible payment method '' @ visibleMethod
                                  @ '' has no enabled provider instance'')))
        | Some key \<Rightarrow> lb_SelectInstance ce jsapi key paymentType strategy orderAmount))"

section \<open>The limits that users see\<close>

record method_limits =
  ml_PaymentType :: string
  ml_Currency :: string
  ml_DailyLimit :: float64
  ml_SingleMin :: float64
  ml_SingleMax :: float64

definition pcInstanceTypeLimits :: "'d create_env \<Rightarrow> string \<Rightarrow> pay_instance \<Rightarrow> channel_limits option" where
  "pcInstanceTypeLimits ce pt inst =
     (if pi_Limits inst = [] then None
      else (case ce_limits ce (pi_Limits inst) of None \<Rightarrow> None | Some limits \<Rightarrow> map_of limits pt))"

definition unionFloat :: "bool \<Rightarrow> float64 \<Rightarrow> float64 \<times> bool \<Rightarrow> float64 \<times> bool" where
  "unionFloat wantMin val a =
     (case a of (agg, limited) \<Rightarrow>
        if f_eq val f_zero then (agg, False)
        else if \<not> limited then (agg, False)
        else if f_eq agg f_zero then (val, True)
        else if wantMin \<and> f_lt val agg then (val, True)
        else if \<not> wantMin \<and> f_lt agg val then (val, True)
        else (agg, True))"

definition union_all :: "bool \<Rightarrow> float64 list \<Rightarrow> float64" where
  "union_all wantMin vals =
     (case foldl (\<lambda>a v. unionFloat wantMin v a) (f_zero, True) vals of
        (agg, limited) \<Rightarrow> if limited then agg else f_zero)"

text \<open>The union of the limits of several instances: unlimited as soon as one has none.\<close>

definition pcAggregateMethodLimits :: "'d create_env \<Rightarrow> string \<Rightarrow> pay_instance list \<Rightarrow> method_limits" where
  "pcAggregateMethodLimits ce pt instances =
     (let ls = map (pcInstanceTypeLimits ce pt) instances in
      if list_ex (\<lambda>l. l = None) ls
      then \<lparr>ml_PaymentType = pt, ml_Currency = [], ml_DailyLimit = f_zero, ml_SingleMin = f_zero,
            ml_SingleMax = f_zero\<rparr>
      else \<lparr>ml_PaymentType = pt, ml_Currency = [],
            ml_DailyLimit = union_all False (map (cl_DailyLimit \<circ> the) ls),
            ml_SingleMin = union_all True (map (cl_SingleMin \<circ> the) ls),
            ml_SingleMax = union_all False (map (cl_SingleMax \<circ> the) ls)\<rparr>)"

definition pcComputeGlobalRange :: "method_limits list \<Rightarrow> float64 \<times> float64" where
  "pcComputeGlobalRange methods =
     (union_all True (map ml_SingleMin methods), union_all False (map ml_SingleMax methods))"

text \<open>The methods with an instance, their limits and the widest range. Methods whose instances have
  different currencies are left out. The entries have the order of the instances here; Go iterates
  over a map.\<close>

definition GetAvailableMethodLimits ::
    "'d create_env \<Rightarrow> (go_error + method_limits list \<times> float64 \<times> float64) pay_prog" where
  "GetAvailableMethodLimits ce =
     try_else (call enabled_instances) (\<lambda>e. Ret (Inl (wrap ''query provider instances'' e))) (\<lambda>instances.
       bind (pcApplyEnabledVisibleMethodInstances (pcGroupByPaymentType instances) instances) (\<lambda>g.
         (let keys = remdups (concat (map instance_types instances) @ [TypeAlipay, TypeWxpay]);
              limits = (\<lambda>pt. case pcAggregateMethodCurrency ce (g pt) of
                               None \<Rightarrow> []
                             | Some c \<Rightarrow> [(pcAggregateMethodLimits ce pt (g pt))\<lparr>ml_Currency := c\<rparr>]);
              methods = concat (map limits (filter (\<lambda>pt. g pt \<noteq> []) keys))
          in Ret (Inr (methods, pcComputeGlobalRange methods)))))"

end
