(* ===== verification/PayConfig.thy ===== *)
theory PayConfig
  imports PayBalancer
begin

text \<open>
  The configuration of payments (\<open>service/payment_config_service.go\<close>): how the settings are read,
  with the defaults of missing and unusable ones, and how an administrator changes them; the
  settings table (\<open>repository/setting_repo.go\<close>); and the plans, their price and their checks
  (\<open>service/payment_config_plans.go\<close>).
\<close>

section \<open>Reading the settings\<close>

record payment_config =
  pc_Enabled :: bool
  pc_MinAmount :: float64
  pc_MaxAmount :: float64
  pc_DailyLimit :: float64
  pc_OrderTimeoutMin :: int
  pc_MaxPendingOrders :: int
  pc_EnabledTypes :: "string list"
  pc_BalanceDisabled :: bool
  pc_BalanceRechargeMultiplier :: float64
  pc_RechargeFeeRate :: float64
  pc_RechargeBonusThreshold :: float64
  pc_RechargeBonusAmount :: float64
  pc_UsdtCnyExchangeRate :: float64
  pc_MarketplaceGroupMultipliers :: "float64 gomap"
  pc_LoadBalanceStrategy :: string
  pc_ProductNamePrefix :: string
  pc_ProductNameSuffix :: string
  pc_HelpImageURL :: string
  pc_HelpText :: string
  pc_StripePublishableKey :: string
  pc_CancelLimit :: cancel_limit
  pc_AlipayForceQRCode :: bool

abbreviation SettingPaymentEnabled :: string where "SettingPaymentEnabled \<equiv> ''payment_enabled''"
abbreviation SettingMinRechargeAmount :: string where "SettingMinRechargeAmount \<equiv> ''MIN_RECHARGE_AMOUNT''"
abbreviation SettingMaxRechargeAmount :: string where "SettingMaxRechargeAmount \<equiv> ''MAX_RECHARGE_AMOUNT''"
abbreviation SettingDailyRechargeLimit :: string where "SettingDailyRechargeLimit \<equiv> ''DAILY_RECHARGE_LIMIT''"
abbreviation SettingOrderTimeoutMinutes :: string where "SettingOrderTimeoutMinutes \<equiv> ''ORDER_TIMEOUT_MINUTES''"
abbreviation SettingMaxPendingOrders :: string where "SettingMaxPendingOrders \<equiv> ''MAX_PENDING_ORDERS''"
abbreviation SettingEnabledPaymentTypes :: string where "SettingEnabledPaymentTypes \<equiv> ''ENABLED_PAYMENT_TYPES''"
abbreviation SettingLoadBalanceStrategy :: string where "SettingLoadBalanceStrategy \<equiv> ''LOAD_BALANCE_STRATEGY''"
abbreviation SettingBalancePayDisabled :: string where "SettingBalancePayDisabled \<equiv> ''BALANCE_PAYMENT_DISABLED''"
abbreviation SettingBalanceRechargeMult :: string where "SettingBalanceRechargeMult \<equiv> ''BALANCE_RECHARGE_MULTIPLIER''"
abbreviation SettingRechargeFeeRate :: string where "SettingRechargeFeeRate \<equiv> ''RECHARGE_FEE_RATE''"
abbreviation SettingRechargeBonusThreshold :: string where "SettingRechargeBonusThreshold \<equiv> ''RECHARGE_BONUS_THRESHOLD''"
abbreviation SettingRechargeBonusAmount :: string where "SettingRechargeBonusAmount \<equiv> ''RECHARGE_BONUS_AMOUNT''"
abbreviation SettingUsdtCnyExchangeRate :: string where "SettingUsdtCnyExchangeRate \<equiv> ''USDT_CNY_EXCHANGE_RATE''"
abbreviation SettingMarketplaceGroupMultipliers :: string where "SettingMarketplaceGroupMultipliers \<equiv> ''MARKETPLACE_GROUP_MULTIPLIERS''"
abbreviation SettingProductNamePrefix :: string where "SettingProductNamePrefix \<equiv> ''PRODUCT_NAME_PREFIX''"
abbreviation SettingProductNameSuffix :: string where "SettingProductNameSuffix \<equiv> ''PRODUCT_NAME_SUFFIX''"
abbreviation SettingHelpImageURL :: string where "SettingHelpImageURL \<equiv> ''PAYMENT_HELP_IMAGE_URL''"
abbreviation SettingHelpText :: string where "SettingHelpText \<equiv> ''PAYMENT_HELP_TEXT''"
abbreviation SettingCancelRateLimitOn :: string where "SettingCancelRateLimitOn \<equiv> ''CANCEL_RATE_LIMIT_ENABLED''"
abbreviation SettingCancelRateLimitMax :: string where "SettingCancelRateLimitMax \<equiv> ''CANCEL_RATE_LIMIT_MAX''"
abbreviation SettingCancelWindowSize :: string where "SettingCancelWindowSize \<equiv> ''CANCEL_RATE_LIMIT_WINDOW''"
abbreviation SettingCancelWindowUnit :: string where "SettingCancelWindowUnit \<equiv> ''CANCEL_RATE_LIMIT_UNIT''"
abbreviation SettingCancelWindowMode :: string where "SettingCancelWindowMode \<equiv> ''CANCEL_RATE_LIMIT_WINDOW_MODE''"
abbreviation SettingAlipayForceQRCode :: string where "SettingAlipayForceQRCode \<equiv> ''ALIPAY_FORCE_QRCODE''"

abbreviation defaultOrderTimeoutMin :: int where "defaultOrderTimeoutMin \<equiv> 30"
abbreviation defaultMaxPendingOrders :: int where "defaultMaxPendingOrders \<equiv> 3"

definition pcParseFloat :: "string \<Rightarrow> float64 \<Rightarrow> float64" where
  "pcParseFloat s defaultVal = (if s = [] then defaultVal else opt_default defaultVal (parse_float s))"

definition pcParseInt :: "string \<Rightarrow> int \<Rightarrow> int" where
  "pcParseInt s defaultVal = (if s = [] then defaultVal else opt_default defaultVal (parse_int64 s))"

definition defaultMarketplaceGroupMultipliers :: "float64 gomap" where
  "defaultMarketplaceGroupMultipliers =
     map (\<lambda>g. (g, f_one)) [''Claude Lite'', ''Claude Plus'', ''Claude Max'', ''Codex Lite'', ''Codex Pro'']"

definition usable_multiplier :: "float64 \<Rightarrow> bool" where
  "usable_multiplier m \<longleftrightarrow> \<not> (f_is_nan m \<or> f_is_inf m \<or> f_le m f_zero)"

text \<open>Two names that differ in outer spaces only are one name: the last one wins, in the order of the
  iteration.\<close>

definition parseMarketplaceGroupMultipliers :: "'d create_env \<Rightarrow> string \<Rightarrow> float64 gomap" where
  "parseMarketplaceGroupMultipliers ce raw0 =
     (let raw = trim_space raw0 in
      if raw = [] then defaultMarketplaceGroupMultipliers
      else (case ce_multipliers ce raw of
              None \<Rightarrow> defaultMarketplaceGroupMultipliers
            | Some parsed \<Rightarrow>
                foldl (\<lambda>result (g, m). let group = trim_space g in
                         if group = [] \<or> \<not> usable_multiplier m then result else map_put group m result)
                  defaultMarketplaceGroupMultipliers parsed))"

definition parsePaymentConfig :: "'d create_env \<Rightarrow> string gomap \<Rightarrow> payment_config" where
  "parsePaymentConfig ce kv =
     (let vals = config_value kv; raw = vals SettingEnabledPaymentTypes in
      \<lparr>pc_Enabled = (vals SettingPaymentEnabled = ''true''),
       pc_MinAmount = pcParseFloat (vals SettingMinRechargeAmount) f_one,
       pc_MaxAmount = pcParseFloat (vals SettingMaxRechargeAmount) f_zero,
       pc_DailyLimit = pcParseFloat (vals SettingDailyRechargeLimit) f_zero,
       pc_OrderTimeoutMin = pcParseInt (vals SettingOrderTimeoutMinutes) defaultOrderTimeoutMin,
       pc_MaxPendingOrders = pcParseInt (vals SettingMaxPendingOrders) defaultMaxPendingOrders,
       pc_EnabledTypes =
         (if raw = [] then []
          else NormalizeVisibleMethods
                 (filter (\<lambda>t. t \<noteq> []) (map NormalizeVisibleMethod (split_char CHR '','' raw)))),
       pc_BalanceDisabled = (vals SettingBalancePayDisabled = ''true''),
       pc_BalanceRechargeMultiplier = normalizeBalanceRechargeMultiplier
         (pcParseFloat (vals SettingBalanceRechargeMult) defaultBalanceRechargeMultiplier),
       pc_RechargeFeeRate = pcParseFloat (vals SettingRechargeFeeRate) f_zero,
       pc_RechargeBonusThreshold = normalizeRechargeBonusThreshold
         (pcParseFloat (vals SettingRechargeBonusThreshold) defaultRechargeBonusThreshold),
       pc_RechargeBonusAmount = normalizeRechargeBonusAmount
         (pcParseFloat (vals SettingRechargeBonusAmount) defaultRechargeBonusAmount),
       pc_UsdtCnyExchangeRate = normalizeUsdtCnyExchangeRate
         (pcParseFloat (vals SettingUsdtCnyExchangeRate) defaultUsdtCnyExchangeRate),
       pc_MarketplaceGroupMultipliers =
         parseMarketplaceGroupMultipliers ce (vals SettingMarketplaceGroupMultipliers),
       pc_LoadBalanceStrategy =
         (if vals SettingLoadBalanceStrategy = [] then StrategyRoundRobin else vals SettingLoadBalanceStrategy),
       pc_ProductNamePrefix = vals SettingProductNamePrefix,
       pc_ProductNameSuffix = vals SettingProductNameSuffix,
       pc_HelpImageURL = vals SettingHelpImageURL,
       pc_HelpText = vals SettingHelpText,
       pc_StripePublishableKey = [],
       pc_CancelLimit =
         \<lparr>cl_Enabled = (vals SettingCancelRateLimitOn = ''true''),
          cl_Max = pcParseInt (vals SettingCancelRateLimitMax) 10,
          cl_Window = pcParseInt (vals SettingCancelWindowSize) 1,
          cl_Unit = vals SettingCancelWindowUnit,
          cl_Mode = vals SettingCancelWindowMode\<rparr>,
       pc_AlipayForceQRCode = (vals SettingAlipayForceQRCode = ''true'')\<rparr>)"

definition settings_GetMultiple :: "string gomap statement" where
  "settings_GetMultiple now db = (Inr (pd_settings db), db)"

definition getStripePublishableKey :: "'d create_env \<Rightarrow> string pay_prog" where
  "getStripePublishableKey ce =
     try_else (call enabled_instances) (\<lambda>_. Ret []) (\<lambda>rows.
       Ret (case filter (\<lambda>r. pi_ProviderKey r = TypeStripe) rows of
              [] \<Rightarrow> []
            | inst # _ \<Rightarrow>
                (case ce_config ce (pi_Config inst) of
                   None \<Rightarrow> [] | Some cfg \<Rightarrow> config_value cfg ''publishableKey'')))"

definition GetPaymentConfig :: "'d create_env \<Rightarrow> (go_error + payment_config) pay_prog" where
  "GetPaymentConfig ce =
     try_else (call settings_GetMultiple) (\<lambda>e. Ret (Inl (wrap ''get payment config settings'' e))) (\<lambda>vals.
       bind (getStripePublishableKey ce) (\<lambda>key.
         Ret (Inr ((parsePaymentConfig ce vals)\<lparr>pc_StripePublishableKey := key\<rparr>))))"

section \<open>Changing the settings\<close>

text \<open>A missing field is \<open>None\<close>.\<close>

record update_config =
  uc_Enabled :: "bool option"
  uc_MinAmount :: "float64 option"
  uc_MaxAmount :: "float64 option"
  uc_DailyLimit :: "float64 option"
  uc_OrderTimeoutMin :: "int option"
  uc_MaxPendingOrders :: "int option"
  uc_EnabledTypes :: "string list option"
  uc_BalanceDisabled :: "bool option"
  uc_BalanceRechargeMultiplier :: "float64 option"
  uc_RechargeFeeRate :: "float64 option"
  uc_RechargeBonusThreshold :: "float64 option"
  uc_RechargeBonusAmount :: "float64 option"
  uc_UsdtCnyExchangeRate :: "float64 option"
  uc_MarketplaceGroupMultipliers :: "float64 gomap option"
  uc_LoadBalanceStrategy :: "string option"
  uc_ProductNamePrefix :: "string option"
  uc_ProductNameSuffix :: "string option"
  uc_HelpImageURL :: "string option"
  uc_HelpText :: "string option"
  uc_CancelRateLimitEnabled :: "bool option"
  uc_CancelRateLimitMax :: "int option"
  uc_CancelRateLimitWindow :: "int option"
  uc_CancelRateLimitUnit :: "string option"
  uc_CancelRateLimitMode :: "string option"
  uc_AlipayForceQRCode :: "bool option"
  uc_VisibleMethodAlipaySource :: "string option"
  uc_VisibleMethodWxpaySource :: "string option"
  uc_VisibleMethodAlipayEnabled :: "bool option"
  uc_VisibleMethodWxpayEnabled :: "bool option"

definition formatBoolOrEmpty :: "bool option \<Rightarrow> string" where
  "formatBoolOrEmpty v = (case v of None \<Rightarrow> [] | Some b \<Rightarrow> if b then ''true'' else ''false'')"

definition formatPositiveFloat :: "float64 option \<Rightarrow> string" where
  "formatPositiveFloat v = (case v of None \<Rightarrow> [] | Some x \<Rightarrow> if f_le x f_zero then [] else Sprint_2f x)"

definition formatNonNegativeFloat :: "float64 option \<Rightarrow> string" where
  "formatNonNegativeFloat v = (case v of None \<Rightarrow> [] | Some x \<Rightarrow> if f_lt x f_zero then [] else Sprint_2f x)"

definition formatPositiveInt :: "int option \<Rightarrow> string" where
  "formatPositiveInt v = (case v of None \<Rightarrow> [] | Some n \<Rightarrow> if n \<le> 0 then [] else itoa n)"

definition derefStr :: "string option \<Rightarrow> string" where
  "derefStr v = opt_default [] v"

definition check_opt :: "'a option \<Rightarrow> ('a \<Rightarrow> bool) \<Rightarrow> go_error \<Rightarrow> go_error option" where
  "check_opt v ok e = (case v of None \<Rightarrow> None | Some x \<Rightarrow> if ok x then None else Some e)"

definition finite_float :: "float64 \<Rightarrow> bool" where
  "finite_float v \<longleftrightarrow> \<not> f_is_nan v \<and> \<not> f_is_inf v"

definition multiplier_errors :: "float64 gomap \<Rightarrow> go_error option list" where
  "multiplier_errors kv =
     map (\<lambda>(g, m).
        if trim_space g = []
        then Some (BadRequest ''INVALID_MARKETPLACE_GROUP_MULTIPLIER'' ''marketplace group name cannot be empty'')
        else if \<not> usable_multiplier m
        then Some (BadRequest ''INVALID_MARKETPLACE_GROUP_MULTIPLIER'' ''marketplace group multiplier must be greater than 0'')
        else None) kv"

definition update_errors :: "update_config \<Rightarrow> go_error option list" where
  "update_errors req =
     [check_opt (uc_BalanceRechargeMultiplier req) (\<lambda>v. finite_float v \<and> \<not> f_le v f_zero)
        (BadRequest ''INVALID_BALANCE_RECHARGE_MULTIPLIER'' ''balance recharge multiplier must be greater than 0''),
      check_opt (uc_RechargeFeeRate req) (\<lambda>v. finite_float v \<and> \<not> f_lt v f_zero \<and> \<not> f_lt (f_of_int 100) v)
        (BadRequest ''INVALID_RECHARGE_FEE_RATE'' ''recharge fee rate must be between 0 and 100''),
      check_opt (uc_RechargeFeeRate req)
        (\<lambda>v. f_eq (f_round (f_mul v (f_of_int 100))) (f_mul v (f_of_int 100)))
        (BadRequest ''INVALID_RECHARGE_FEE_RATE'' ''recharge fee rate allows at most 2 decimal places''),
      check_opt (uc_RechargeBonusThreshold req) (\<lambda>v. finite_float v \<and> \<not> f_lt v f_zero)
        (BadRequest ''INVALID_RECHARGE_BONUS_THRESHOLD'' ''recharge bonus threshold must be a non-negative number''),
      check_opt (uc_RechargeBonusAmount req) (\<lambda>v. finite_float v \<and> \<not> f_lt v f_zero)
        (BadRequest ''INVALID_RECHARGE_BONUS_AMOUNT'' ''recharge bonus amount must be a non-negative number''),
      check_opt (uc_UsdtCnyExchangeRate req) (\<lambda>v. finite_float v \<and> \<not> f_le v f_zero)
        (BadRequest ''INVALID_USDT_CNY_EXCHANGE_RATE'' ''USDT/CNY exchange rate must be greater than 0'')]
     @ multiplier_errors (opt_default [] (uc_MarketplaceGroupMultipliers req))"

text \<open>The settings that a request writes: every one, the missing fields as empty strings. \<open>marshal\<close>
  prints the multipliers.\<close>

definition marshalMarketplaceGroupMultipliers :: "(float64 gomap \<Rightarrow> string) \<Rightarrow> float64 gomap \<Rightarrow> string" where
  "marshalMarketplaceGroupMultipliers marshal input =
     marshal (foldl (\<lambda>result (g, m). let group = trim_space g in
                if group = [] \<or> \<not> usable_multiplier m then result else map_put group m result)
              defaultMarketplaceGroupMultipliers input)"

definition written_settings :: "(float64 gomap \<Rightarrow> string) \<Rightarrow> update_config \<Rightarrow> string gomap" where
  "written_settings marshal req =
     [(SettingPaymentEnabled, formatBoolOrEmpty (uc_Enabled req)),
      (SettingMinRechargeAmount, formatPositiveFloat (uc_MinAmount req)),
      (SettingMaxRechargeAmount, formatPositiveFloat (uc_MaxAmount req)),
      (SettingDailyRechargeLimit, formatPositiveFloat (uc_DailyLimit req)),
      (SettingOrderTimeoutMinutes, formatPositiveInt (uc_OrderTimeoutMin req)),
      (SettingMaxPendingOrders, formatPositiveInt (uc_MaxPendingOrders req)),
      (SettingBalancePayDisabled, formatBoolOrEmpty (uc_BalanceDisabled req)),
      (SettingBalanceRechargeMult, formatPositiveFloat (uc_BalanceRechargeMultiplier req)),
      (SettingRechargeFeeRate, formatNonNegativeFloat (uc_RechargeFeeRate req)),
      (SettingRechargeBonusThreshold, formatNonNegativeFloat (uc_RechargeBonusThreshold req)),
      (SettingRechargeBonusAmount, formatNonNegativeFloat (uc_RechargeBonusAmount req)),
      (SettingUsdtCnyExchangeRate, formatPositiveFloat (uc_UsdtCnyExchangeRate req)),
      (SettingLoadBalanceStrategy, derefStr (uc_LoadBalanceStrategy req)),
      (SettingProductNamePrefix, derefStr (uc_ProductNamePrefix req)),
      (SettingProductNameSuffix, derefStr (uc_ProductNameSuffix req)),
      (SettingHelpImageURL, derefStr (uc_HelpImageURL req)),
      (SettingHelpText, derefStr (uc_HelpText req)),
      (SettingCancelRateLimitOn, formatBoolOrEmpty (uc_CancelRateLimitEnabled req)),
      (SettingCancelRateLimitMax, formatPositiveInt (uc_CancelRateLimitMax req)),
      (SettingCancelWindowSize, formatPositiveInt (uc_CancelRateLimitWindow req)),
      (SettingCancelWindowUnit, derefStr (uc_CancelRateLimitUnit req)),
      (SettingCancelWindowMode, derefStr (uc_CancelRateLimitMode req)),
      (SettingAlipayForceQRCode, formatBoolOrEmpty (uc_AlipayForceQRCode req)),
      (''payment_visible_method_alipay_source'', derefStr (uc_VisibleMethodAlipaySource req)),
      (''payment_visible_method_wxpay_source'', derefStr (uc_VisibleMethodWxpaySource req)),
      (''payment_visible_method_alipay_enabled'', formatBoolOrEmpty (uc_VisibleMethodAlipayEnabled req)),
      (''payment_visible_method_wxpay_enabled'', formatBoolOrEmpty (uc_VisibleMethodWxpayEnabled req)),
      (SettingEnabledPaymentTypes,
         (case uc_EnabledTypes req of None \<Rightarrow> [] | Some ts \<Rightarrow> str_join '','' ts))]
     @ (case uc_MarketplaceGroupMultipliers req of
          None \<Rightarrow> []
        | Some kv \<Rightarrow> [(SettingMarketplaceGroupMultipliers, marshalMarketplaceGroupMultipliers marshal kv)])"

definition settings_SetMultiple :: "string gomap \<Rightarrow> unit statement" where
  "settings_SetMultiple kv now db =
     (Inr (), db\<lparr>pd_settings := foldl (\<lambda>m (k, v). map_put k v m) (pd_settings db) kv\<rparr>)"

definition UpdatePaymentConfig ::
    "(float64 gomap \<Rightarrow> string) \<Rightarrow> update_config \<Rightarrow> go_error option pay_prog" where
  "UpdatePaymentConfig marshal req =
     (case first_error (update_errors req) of
        Some e \<Rightarrow> Ret (Some e)
      | None \<Rightarrow>
          try_else (call (settings_SetMultiple (written_settings marshal req))) (\<lambda>e. Ret (Some e)) (\<lambda>_. Ret None))"

section \<open>Plans\<close>

definition IsPlanLimitedOfferActive :: "pay_plan \<Rightarrow> gtime \<Rightarrow> bool" where
  "IsPlanLimitedOfferActive plan now \<longleftrightarrow>
     (case (pn_LimitedOfferPrice plan, pn_LimitedOfferExpiresAt plan) of
        (Some p, Some t) \<Rightarrow> f_lt f_zero p \<and> f_lt p (pn_Price plan) \<and> now < t
      | _ \<Rightarrow> False)"

definition EffectivePlanPrice :: "pay_plan \<Rightarrow> gtime \<Rightarrow> float64" where
  "EffectivePlanPrice plan now =
     (if IsPlanLimitedOfferActive plan now then the (pn_LimitedOfferPrice plan) else pn_Price plan)"

definition psComputeValidityDays :: "int \<Rightarrow> string \<Rightarrow> int" where
  "psComputeValidityDays days unit0 =
     (let unit = to_lower (trim_space unit0) in
      if unit \<in> {''week'', ''weeks''} then i64 (days * 7)
      else if unit \<in> {''month'', ''months''} then i64 (days * 30)
      else days)"

definition GetPlan :: "int \<Rightarrow> (go_error + pay_plan) pay_prog" where
  "GetPlan i =
     bind (call (\<lambda>now db. (Inr (find (\<lambda>p. pn_ID p = i) (pd_plans db)), db))) (\<lambda>r.
       Ret (case r of
              Inr (Some plan) \<Rightarrow> Inr plan
            | _ \<Rightarrow> Inl (NotFound ''PLAN_NOT_FOUND'' ''subscription plan not found'')))"

definition validatePlanLimitedOffer :: "float64 \<Rightarrow> float64 option \<Rightarrow> gtime option \<Rightarrow> go_error option" where
  "validatePlanLimitedOffer basePrice offerPrice offerExpiresAt =
     (case (offerPrice, offerExpiresAt) of
        (None, None) \<Rightarrow> None
      | (None, Some _) \<Rightarrow>
          Some (BadRequest ''PLAN_LIMITED_OFFER_INCOMPLETE'' ''limited offer price and expiry must be set together'')
      | (Some p, None) \<Rightarrow>
          if f_le p f_zero then None
          else Some (BadRequest ''PLAN_LIMITED_OFFER_INCOMPLETE'' ''limited offer price and expiry must be set together'')
      | (Some p, Some t) \<Rightarrow>
          if f_le p f_zero
          then Some (BadRequest ''PLAN_LIMITED_OFFER_PRICE_INVALID'' ''limited offer price must be > 0'')
          else if f_lt f_zero basePrice \<and> f_le basePrice p
          then Some (BadRequest ''PLAN_LIMITED_OFFER_PRICE_INVALID'' ''limited offer price must be lower than price'')
          else if is_zero_time t
          then Some (BadRequest ''PLAN_LIMITED_OFFER_EXPIRES_INVALID'' ''limited offer expiry is invalid'')
          else None)"

definition validatePlanRequired ::
    "string \<Rightarrow> int \<Rightarrow> float64 \<Rightarrow> int \<Rightarrow> string \<Rightarrow> float64 option \<Rightarrow> float64 option \<Rightarrow> gtime option \<Rightarrow> go_error option" where
  "validatePlanRequired name groupID price validityDays validityUnit originalPrice offerPrice offerExpiresAt =
     (if trim_space name = [] then Some (BadRequest ''PLAN_NAME_REQUIRED'' ''plan name is required'')
      else if groupID \<le> 0 then Some (BadRequest ''PLAN_GROUP_REQUIRED'' ''group is required'')
      else if f_le price f_zero then Some (BadRequest ''PLAN_PRICE_INVALID'' ''price must be > 0'')
      else if validityDays \<le> 0 then Some (BadRequest ''PLAN_VALIDITY_REQUIRED'' ''validity days must be > 0'')
      else if trim_space validityUnit = []
      then Some (BadRequest ''PLAN_VALIDITY_UNIT_REQUIRED'' ''validity unit is required'')
      else if (case originalPrice of None \<Rightarrow> False | Some p \<Rightarrow> f_lt p f_zero)
      then Some (BadRequest ''PLAN_ORIGINAL_PRICE_INVALID'' ''original price must be >= 0'')
      else validatePlanLimitedOffer price offerPrice offerExpiresAt)"

end
