(* ===== verification/PayCreate.thy ===== *)
theory PayCreate
  imports PayConfig
begin

text \<open>
  Creating an order (\<open>service/payment_order.go\<close>): the checks against the configuration, the price and
  the amount that it credits, the choice of a provider instance, the row with its limits and its
  redeem code, and the request to the provider. Not modelled: the text of the answer beyond the
  fields below, the canonical return URL with its resume token (\<open>w_ReturnURL\<close>) and the WeChat
  credential (\<open>w_WeChatAppID\<close>).
\<close>

section \<open>Requests and answers\<close>

record create_request =
  cq_UserID :: int
  cq_Amount :: float64
  cq_PaymentAmount :: float64
  cq_PaymentType :: string
  cq_OpenID :: string
  cq_ClientIP :: string
  cq_IsMobile :: bool
  cq_IsWeChatBrowser :: bool
  cq_SrcHost :: string
  cq_SrcURL :: string
  cq_ReturnURL :: string
  cq_PaymentSource :: string
  cq_OrderType :: string
  cq_PlanID :: int

record create_response =
  cs_OrderID :: int
  cs_Amount :: float64
  cs_PayAmount :: float64
  cs_FeeRate :: float64
  cs_Status :: string
  cs_ResultType :: string
  cs_PaymentType :: string
  cs_OutTradeNo :: string
  cs_PayURL :: string
  cs_QRCode :: string
  cs_ExpiresAt :: gtime
  cs_PaymentMode :: string
  cs_ResumeToken :: string

section \<open>Checks\<close>

definition validateSubOrder :: "create_request \<Rightarrow> (go_error + pay_plan option) pay_prog" where
  "validateSubOrder req =
     (if cq_PlanID req = 0
      then Ret (Inl (BadRequest ''INVALID_INPUT'' ''subscription order requires a plan''))
      else bind (GetPlan (cq_PlanID req)) (\<lambda>r.
        case r of
          Inl _ \<Rightarrow> Ret (Inl (NotFound ''PLAN_NOT_AVAILABLE'' ''plan not found or not for sale''))
        | Inr plan \<Rightarrow>
            if \<not> pn_ForSale plan
            then Ret (Inl (NotFound ''PLAN_NOT_AVAILABLE'' ''plan not found or not for sale''))
            else bind (group_GetByID (pn_GroupID plan)) (\<lambda>gr. Ret (case gr of
                   Inl _ \<Rightarrow> Inl (NotFound ''GROUP_NOT_FOUND'' ''subscription group is no longer available'')
                 | Inr g \<Rightarrow>
                     if grp_Status g \<noteq> StatusActive
                     then Inl (NotFound ''GROUP_NOT_FOUND'' ''subscription group is no longer available'')
                     else if \<not> IsSubscriptionType g
                     then Inl (BadRequest ''GROUP_TYPE_MISMATCH'' ''group is not a subscription type'')
                     else Inr (Some plan)))))"

definition validateOrderInput :: "create_request \<Rightarrow> payment_config \<Rightarrow> (go_error + pay_plan option) pay_prog" where
  "validateOrderInput req cfg =
     (if cq_OrderType req = OrderTypeBalance \<and> pc_BalanceDisabled cfg
      then Ret (Inl (Forbidden ''BALANCE_PAYMENT_DISABLED'' ''balance recharge has been disabled''))
      else if cq_OrderType req = OrderTypeSubscription then validateSubOrder req
      else if f_is_nan (cq_Amount req) \<or> f_is_inf (cq_Amount req) \<or> f_le (cq_Amount req) f_zero
      then Ret (Inl (BadRequest ''INVALID_AMOUNT'' ''amount must be a positive number''))
      else if (f_lt f_zero (pc_MinAmount cfg) \<and> f_lt (cq_Amount req) (pc_MinAmount cfg))
              \<or> (f_lt f_zero (pc_MaxAmount cfg) \<and> f_lt (pc_MaxAmount cfg) (cq_Amount req))
      then Ret (Inl (WithMetadata (BadRequest ''INVALID_AMOUNT'' ''amount out of range'')
             (Some [(''min'', Sprint_2f (pc_MinAmount cfg)), (''max'', Sprint_2f (pc_MaxAmount cfg))])))
      else Ret (Inr None))"

section \<open>The price\<close>

text \<open>What is credited, what counts against the limits, and what the price is computed from.\<close>

record order_amounts =
  oa_order :: float64
  oa_limit :: float64
  oa_base :: float64

definition order_base_amounts ::
    "'d create_env \<Rightarrow> payment_config \<Rightarrow> create_request \<Rightarrow> pay_plan option \<Rightarrow> gtime \<Rightarrow> go_error + order_amounts" where
  "order_base_amounts ce cfg req plan now =
     (case plan of
        Some p \<Rightarrow>
          (let price = EffectivePlanPrice p now in Inr \<lparr>oa_order = price, oa_limit = price, oa_base = price\<rparr>)
      | None \<Rightarrow>
          if cq_OrderType req = OrderTypeBalance
          then (let credited = calculateCreditedBalance (ce_dec ce) (cq_Amount req) (pc_BalanceRechargeMultiplier cfg)
                                 (pc_RechargeBonusThreshold cfg) (pc_RechargeBonusAmount cfg) in
                if f_lt f_zero (cq_PaymentAmount req)
                then (if f_is_nan (cq_PaymentAmount req) \<or> f_is_inf (cq_PaymentAmount req)
                      then Inl (BadRequest ''INVALID_PAYMENT_AMOUNT'' ''payment amount must be a positive number'')
                      else Inr \<lparr>oa_order = credited, oa_limit = cq_Amount req, oa_base = cq_PaymentAmount req\<rparr>)
                else Inr \<lparr>oa_order = credited, oa_limit = cq_Amount req, oa_base = cq_Amount req\<rparr>)
          else Inr \<lparr>oa_order = cq_Amount req, oa_limit = cq_Amount req, oa_base = cq_Amount req\<rparr>)"

text \<open>The price before an instance is selected, and again when the selected instance has another
  currency.\<close>

definition first_base :: "'d create_env \<Rightarrow> payment_config \<Rightarrow> pay_plan option \<Rightarrow> string \<Rightarrow> order_amounts \<Rightarrow> float64" where
  "first_base ce cfg plan methodCurrency am =
     (if plan \<noteq> None \<and> methodCurrency = TypeUSDT
      then calculateUSDTAmountFromCNY (ce_dec ce) (oa_order am) (pc_UsdtCnyExchangeRate cfg)
      else oa_base am)"

definition second_base :: "'d create_env \<Rightarrow> payment_config \<Rightarrow> pay_plan option \<Rightarrow> string \<Rightarrow> order_amounts \<Rightarrow> float64 \<Rightarrow> float64" where
  "second_base ce cfg plan selectedCurrency am base =
     (if plan \<noteq> None \<and> selectedCurrency = TypeUSDT
      then calculateUSDTAmountFromCNY (ce_dec ce) (oa_order am) (pc_UsdtCnyExchangeRate cfg)
      else if plan \<noteq> None then oa_order am
      else base)"

definition final_price ::
    "'d create_env \<Rightarrow> payment_config \<Rightarrow> pay_plan option \<Rightarrow> string \<Rightarrow> string \<Rightarrow> order_amounts
      \<Rightarrow> string \<times> float64 \<Rightarrow> go_error + string \<times> float64" where
  "final_price ce cfg plan methodCurrency selectedCurrency am price =
     (if selectedCurrency \<noteq> methodCurrency
      then calculateCreateOrderPayAmount (ce_dec ce)
             (second_base ce cfg plan selectedCurrency am (first_base ce cfg plan methodCurrency am))
             (pc_RechargeFeeRate cfg) selectedCurrency
      else Inr price)"

definition validateSelectedCreateOrderAmountCurrency ::
    "'d create_env \<Rightarrow> string \<Rightarrow> instance_selection \<Rightarrow> go_error option" where
  "validateSelectedCreateOrderAmountCurrency ce payAmount sel =
     (let currency = paymentProviderConfigCurrency (is_ProviderKey sel) (Some (is_Config sel)) in
      case AmountToMinorUnit (ce_dec ce) payAmount currency of
        Inl e \<Rightarrow> Some (invalid_amount e currency)
      | Inr _ \<Rightarrow> None)"

section \<open>The provider instance\<close>

definition needs_jsapi :: "create_request \<Rightarrow> bool" where
  "needs_jsapi req \<longleftrightarrow> cq_IsWeChatBrowser req \<or> trim_space (cq_OpenID req) \<noteq> []"

definition requestNeedsWeChatJSAPICompatibility :: "create_request \<Rightarrow> bool" where
  "requestNeedsWeChatJSAPICompatibility req \<longleftrightarrow>
     GetBasePaymentType (cq_PaymentType req) = TypeWxpay \<and> needs_jsapi req"

definition usesOfficialWxpayVisibleMethod :: "bool pay_prog" where
  "usesOfficialWxpayVisibleMethod =
     try_else (resolveEnabledVisibleMethodInstance TypeWxpay) (\<lambda>_. Ret False) (\<lambda>found. Ret (found = Some TypeWxpay))"

text \<open>The WeChat application that the selected instance must have, or nothing.\<close>

definition prepareCreateOrderSelectionContext :: "create_request \<Rightarrow> (go_error + string) pay_prog" where
  "prepareCreateOrderSelectionContext req =
     (if \<not> requestNeedsWeChatJSAPICompatibility req then Ret (Inr [])
      else bind usesOfficialWxpayVisibleMethod (\<lambda>official.
        if \<not> official then Ret (Inr [])
        else try_else (ask w_WeChatAppID) (\<lambda>e. Ret (Inl e)) (\<lambda>appID. Ret (Inr (trim_space appID)))))"

definition selectCreateOrderInstance ::
    "'d create_env \<Rightarrow> create_request \<Rightarrow> payment_config \<Rightarrow> float64 \<Rightarrow> (go_error + instance_selection) pay_prog" where
  "selectCreateOrderInstance ce req cfg payAmount =
     try_else (prepareCreateOrderSelectionContext req) (\<lambda>e. Ret (Inl e)) (\<lambda>jsapi.
       try_else (SelectInstance ce jsapi [] (cq_PaymentType req) (pc_LoadBalanceStrategy cfg) payAmount)
         (\<lambda>_. Ret (Inl (WithMetadata (ServiceUnavailable ''PAYMENT_GATEWAY_ERROR'' ''method_not_configured'')
                         (Some [(''payment_type'', cq_PaymentType req)]))))
         (\<lambda>sel. Ret (Inr sel)))"

definition validateSelectedCreateOrderInstance ::
    "create_request \<Rightarrow> instance_selection \<Rightarrow> go_error option pay_prog" where
  "validateSelectedCreateOrderInstance req sel =
     (if is_ProviderKey sel \<noteq> TypeWxpay \<or> \<not> requestNeedsWeChatJSAPICompatibility req then Ret None
      else try_else (ask w_WeChatAppID) (\<lambda>e. Ret (Some e)) (\<lambda>expectedAppID.
        (let selectedAppID = resolveWxpayJSAPIAppID (is_Config sel) in
         Ret (if selectedAppID = [] \<or> selectedAppID \<noteq> expectedAppID
              then Some (TooManyRequests ''NO_AVAILABLE_INSTANCE''
                     ''selected payment instance is not compatible with the current WeChat OAuth app'')
              else None))))"

text \<open>A WeChat browser without an open ID is sent to authorise first; nothing is stored then.\<close>

definition needs_wechat_oauth :: "create_request \<Rightarrow> instance_selection \<Rightarrow> bool" where
  "needs_wechat_oauth req sel \<longleftrightarrow>
     (is_ProviderKey sel = [] \<or> is_ProviderKey sel = TypeWxpay)
     \<and> trim_space (cq_OpenID req) = [] \<and> cq_IsWeChatBrowser req
     \<and> GetBasePaymentType (cq_PaymentType req) = TypeWxpay"

definition ErrResumeNotConfigured :: go_error where
  "ErrResumeNotConfigured = ServiceUnavailable ''PAYMENT_RESUME_NOT_CONFIGURED''
     ''payment resume tokens require a configured signing key''"

definition buildWeChatOAuthRequiredResponse ::
    "'d create_env \<Rightarrow> create_request \<Rightarrow> float64 \<Rightarrow> float64 \<Rightarrow> float64 \<Rightarrow> (go_error + create_response) pay_prog" where
  "buildWeChatOAuthRequiredResponse ce req amount payAmount feeRate =
     try_else (ask w_WeChatAppID) (\<lambda>e. Ret (Inl e)) (\<lambda>_.
       Ret (if \<not> ce_signing ce then Inl ErrResumeNotConfigured
            else Inr \<lparr>cs_OrderID = 0, cs_Amount = amount, cs_PayAmount = payAmount, cs_FeeRate = feeRate,
                      cs_Status = [], cs_ResultType = ''oauth_required'', cs_PaymentType = cq_PaymentType req,
                      cs_OutTradeNo = [], cs_PayURL = [], cs_QRCode = [], cs_ExpiresAt = zero_time,
                      cs_PaymentMode = [], cs_ResumeToken = []\<rparr>))"

section \<open>The row\<close>

definition put_if :: "string \<Rightarrow> string \<Rightarrow> goval gomap \<Rightarrow> goval gomap" where
  "put_if k v m = (if v = [] then m else map_put k (GStr v) m)"

definition paymentOrderSnapshotWxpayAppID :: "instance_selection \<Rightarrow> create_request \<Rightarrow> string" where
  "paymentOrderSnapshotWxpayAppID sel req =
     (if trim_space (is_ProviderKey sel) \<noteq> TypeWxpay then []
      else if trim_space (cq_OpenID req) \<noteq> [] then trim_space (resolveWxpayJSAPIAppID (is_Config sel))
      else trim_space (config_value (is_Config sel) ''appId''))"

text \<open>The snapshot as it is read back from the JSON column, where the version is a float.\<close>

definition buildPaymentOrderProviderSnapshot :: "instance_selection \<Rightarrow> create_request \<Rightarrow> gobj" where
  "buildPaymentOrderProviderSnapshot sel req =
     (let cfg = (\<lambda>k. trim_space (config_value (is_Config sel) k));
          key = trim_space (is_ProviderKey sel);
          currency = paymentProviderConfigCurrency key (Some (is_Config sel));
          common = put_if ''payment_mode'' (trim_space (is_PaymentMode sel))
                    (put_if ''provider_key'' key
                    (put_if ''provider_instance_id'' (trim_space (is_InstanceID sel))
                       [(''schema_version'', GF64 (f_of_int 2))]));
          snapshot =
            (if key = TypeWxpay
             then map_put ''currency'' (GStr DefaultPaymentCurrency)
                    (put_if ''merchant_id'' (cfg ''mchId'')
                    (put_if ''merchant_app_id'' (paymentOrderSnapshotWxpayAppID sel req) common))
             else if key = TypeAlipay then put_if ''merchant_app_id'' (cfg ''appId'') common
             else if key = TypeEasyPay then put_if ''merchant_id'' (cfg ''pid'') common
             else if key = TypeStripe then map_put ''currency'' (GStr currency) common
             else if key = TypeAirwallex
             then map_put ''currency'' (GStr currency) (put_if ''merchant_id'' (cfg ''accountId'') common)
             else if key = TypeInfini
             then put_if ''fiat_currency'' (to_upper (cfg ''fiatCurrency''))
                    (map_put ''currency'' (GStr currency) (put_if ''merchant_id'' (cfg ''keyId'') common))
             else common)
      in if length snapshot = 1 then None else Some snapshot)"

definition checkPendingLimit :: "int \<Rightarrow> int \<Rightarrow> go_error option pay_prog" where
  "checkPendingLimit userID max0 =
     (let limit = (if max0 \<le> 0 then defaultMaxPendingOrders else max0) in
      try_else (call (order_Where (\<lambda>r. po_UserID r = userID \<and> po_Status r = OrderStatusPending)))
        (\<lambda>e. Ret (Some (wrap ''count pending orders'' e)))
        (\<lambda>rows. Ret (if limit \<le> int (length rows)
           then Some (WithMetadata (TooManyRequests ''TOO_MANY_PENDING'' ''too_many_pending'')
                        (Some [(''max'', itoa limit)]))
           else None)))"

definition psStartOfDayUTC :: "gtime \<Rightarrow> gtime" where
  "psStartOfDayUTC t = date_at utc (local_day utc t) 0"

definition daily_amount :: "pay_order list \<Rightarrow> float64" where
  "daily_amount rows =
     foldl (\<lambda>used r. f_add used (if po_OrderType r = OrderTypeBalance then po_PayAmount r else po_Amount r))
       f_zero rows"

definition checkDailyLimit :: "int \<Rightarrow> float64 \<Rightarrow> float64 \<Rightarrow> go_error option pay_prog" where
  "checkDailyLimit userID amount limit =
     (if f_le limit f_zero then Ret None
      else bind (ask w_now) (\<lambda>now.
        (let ts = psStartOfDayUTC now;
             counts = (\<lambda>r. po_UserID r = userID
                \<and> po_Status r \<in> {OrderStatusPaid, OrderStatusRecharging, OrderStatusCompleted}
                \<and> (case po_PaidAt r of None \<Rightarrow> False | Some t \<Rightarrow> ts \<le> t))
         in try_else (call (order_Where counts)) (\<lambda>e. Ret (Some (wrap ''query daily usage'' e))) (\<lambda>rows.
              (let used = daily_amount rows in
               Ret (if f_lt limit (f_add used amount)
                    then Some (WithMetadata (TooManyRequests ''DAILY_LIMIT_EXCEEDED'' ''daily_limit_exceeded'')
                           (Some [(''remaining'', Sprint_2f (f_maximum f_zero (f_sub limit used)))]))
                    else None))))))"

definition charset :: string where
  "charset = ''abcdefghijklmnopqrstuvwxyzABCDEFGHIJKLMNOPQRSTUVWXYZ0123456789''"

definition generateRandomString :: "(nat \<Rightarrow> nat) \<Rightarrow> nat \<Rightarrow> string" where
  "generateRandomString r n = map (\<lambda>i. charset ! (r i mod length charset)) [0..<n]"

text \<open>The date as eight digits.\<close>

definition date_digits :: "location \<Rightarrow> gtime \<Rightarrow> string" where
  "date_digits loc t =
     (case civil_from_days (local_day loc t) of (y, m, d) \<Rightarrow> pad4 y @ pad2 m @ pad2 d)"

definition generateOutTradeNo :: "location \<Rightarrow> pay_world \<Rightarrow> string" where
  "generateOutTradeNo loc w = ''sub2_'' @ date_digits loc (w_now w) @ generateRandomString (w_rand w) 8"

primrec allocate_from :: "nat \<Rightarrow> location \<Rightarrow> (go_error + string) pay_prog" where
  "allocate_from 0 loc = Ret (Inl (plain ''generate unique out_trade_no: exhausted 5 attempts''))"
| "allocate_from (Suc n) loc =
     bind (ask (generateOutTradeNo loc)) (\<lambda>candidate.
       try_else (call (order_Where (\<lambda>r. po_OutTradeNo r = candidate)))
         (\<lambda>e. Ret (Inl (wrap ''check out_trade_no uniqueness'' e)))
         (\<lambda>rows. if rows = [] then Ret (Inr candidate) else allocate_from n loc))"

definition allocateOutTradeNo :: "location \<Rightarrow> (go_error + string) pay_prog" where
  "allocateOutTradeNo loc = allocate_from 5 loc"

text \<open>\<open>PAY-\<close>, the number of the order and five digits of the clock.\<close>

definition recharge_code :: "int \<Rightarrow> gtime \<Rightarrow> string" where
  "recharge_code i now = ''PAY-'' @ itoa i @ ''-'' @ itoa (go_mod now 100000)"

definition new_order ::
    "'d create_env \<Rightarrow> create_request \<Rightarrow> pay_user \<Rightarrow> pay_plan option \<Rightarrow> float64 \<Rightarrow> float64 \<Rightarrow> float64
      \<Rightarrow> instance_selection \<Rightarrow> string \<Rightarrow> gtime \<Rightarrow> int \<Rightarrow> gtime \<Rightarrow> pay_order" where
  "new_order ce req user plan orderAmount feeRate payAmount sel outTradeNo expires i now =
     \<lparr>po_ID = i, po_UserID = cq_UserID req, po_UserEmail = pu_Email user, po_UserName = pu_Username user,
      po_UserNotes = psNilIfEmpty (pu_Notes user), po_Amount = ce_column ce 2 orderAmount,
      po_PayAmount = ce_column ce 8 payAmount, po_FeeRate = ce_column ce 4 feeRate,
      po_RechargeCode = recharge_code i now, po_OutTradeNo = outTradeNo,
      po_PaymentType = cq_PaymentType req, po_PaymentTradeNo = [], po_PayURL = None, po_QrCode = None,
      po_OrderType = cq_OrderType req, po_PlanID = map_option pn_ID plan,
      po_SubscriptionGroupID = map_option pn_GroupID plan,
      po_SubscriptionDays = map_option (\<lambda>p. psComputeValidityDays (pn_ValidityDays p) (pn_ValidityUnit p)) plan,
      po_ProviderInstanceID = psNilIfEmpty (trim_space (is_InstanceID sel)),
      po_ProviderKey = psNilIfEmpty (trim_space (is_ProviderKey sel)),
      po_ProviderSnapshot = buildPaymentOrderProviderSnapshot sel req, po_Status = OrderStatusPending,
      po_RefundAmount = f_zero, po_RefundReason = None, po_RefundAt = None, po_ForceRefund = False,
      po_RefundRequestedAt = None, po_RefundRequestReason = None, po_RefundRequestedBy = None,
      po_ExpiresAt = expires, po_PaidAt = None, po_CompletedAt = None, po_FailedAt = None,
      po_FailedReason = None, po_ClientIP = cq_ClientIP req, po_SrcHost = cq_SrcHost req,
      po_SrcURL = psNilIfEmpty (cq_SrcURL req), po_CreatedAt = now, po_UpdatedAt = now\<rparr>"

text \<open>The two statements that write and the commit. The trade number has a unique index. (The sequence
  skips a number when a transaction fails; here it does not.)\<close>

definition insert_order :: "(int \<Rightarrow> gtime \<Rightarrow> pay_order) \<Rightarrow> pay_world \<Rightarrow> pay_order statement" where
  "insert_order mk w now db =
     (let r = mk (pd_nextOrder db) now in
      if po_OutTradeNo r \<noteq> [] \<and> po_OutTradeNo r \<in> set (map po_OutTradeNo (pd_orders db))
      then (Inl (wrap ''create order'' (plain ''duplicate key value violates unique constraint'')), db)
      else (case w_stage w ''order_create'' of
              Some e \<Rightarrow> (Inl (wrap ''create order'' e), db)
            | None \<Rightarrow>
                (case w_stage w ''order_code'' of
                   Some e \<Rightarrow> (Inl (wrap ''set recharge code'' e), db)
                 | None \<Rightarrow> (Inr r, db\<lparr>pd_orders := pd_orders db @ [r], pd_nextOrder := pd_nextOrder db + 1\<rparr>))))"

text \<open>The checks read what other requests have committed by then; nothing is locked before the row
  is written, so the transaction is as good as its last step.\<close>

definition createOrderInTx ::
    "'d create_env \<Rightarrow> create_request \<Rightarrow> pay_user \<Rightarrow> pay_plan option \<Rightarrow> payment_config \<Rightarrow> order_amounts \<Rightarrow> float64
      \<Rightarrow> instance_selection \<Rightarrow> (go_error + pay_order) pay_prog" where
  "createOrderInTx ce req user plan cfg am payAmount sel =
     bind (checkPendingLimit (cq_UserID req) (pc_MaxPendingOrders cfg)) (\<lambda>pending.
       case pending of Some e \<Rightarrow> Ret (Inl e) | None \<Rightarrow>
     (let dailyLimitAmount = (if cq_OrderType req = OrderTypeBalance then payAmount else oa_limit am) in
     bind (checkDailyLimit (cq_UserID req) dailyLimitAmount (pc_DailyLimit cfg)) (\<lambda>daily.
       case daily of Some e \<Rightarrow> Ret (Inl e) | None \<Rightarrow>
     bind (ask w_now) (\<lambda>now0.
     (let tm = (if pc_OrderTimeoutMin cfg \<le> 0 then defaultOrderTimeoutMin else pc_OrderTimeoutMin cfg);
          expires = now0 + i64 (tm * minute) in
     try_else (allocateOutTradeNo (pe_loc (ce_pay ce))) (\<lambda>e. Ret (Inl e)) (\<lambda>outTradeNo.
       txn ''commit order transaction''
         (insert_order (new_order ce req user plan (oa_order am) (pc_RechargeFeeRate cfg) payAmount sel
                          outTradeNo expires))))))))"

section \<open>The request to the provider\<close>

definition hasPaymentProductNameAffix :: "payment_config \<Rightarrow> bool" where
  "hasPaymentProductNameAffix cfg \<longleftrightarrow>
     trim_space (pc_ProductNamePrefix cfg) \<noteq> [] \<or> trim_space (pc_ProductNameSuffix cfg) \<noteq> []"

definition applyPaymentProductNameAffix :: "string \<Rightarrow> payment_config \<Rightarrow> string" where
  "applyPaymentProductNameAffix productName cfg =
     (if \<not> hasPaymentProductNameAffix cfg then productName
      else trim_space (trim_space (pc_ProductNamePrefix cfg) @ '' '' @ productName @ '' ''
                       @ trim_space (pc_ProductNameSuffix cfg)))"

definition buildPaymentSubject ::
    "'d create_env \<Rightarrow> pay_plan option \<Rightarrow> float64 \<Rightarrow> payment_config \<Rightarrow> instance_selection \<Rightarrow> string" where
  "buildPaymentSubject ce plan limitAmount cfg sel =
     (case plan of
        Some p \<Rightarrow>
          applyPaymentProductNameAffix
            (if pn_ProductName p = [] then ''UseAiForMe Subscription '' @ pn_Name p else pn_ProductName p) cfg
      | None \<Rightarrow>
          (let currency = paymentProviderConfigCurrency (is_ProviderKey sel) (Some (is_Config sel));
               amountStr = FormatAmountForCurrency (ce_dec ce) limitAmount currency
           in if hasPaymentProductNameAffix cfg then applyPaymentProductNameAffix amountStr cfg
              else ''UseAiForMe '' @ amountStr @ '' '' @ currency))"

definition classifyCreatePaymentError :: "create_request \<Rightarrow> string \<Rightarrow> go_error \<Rightarrow> go_error" where
  "classifyCreatePaymentError req providerKey e =
     (if providerKey = TypeWxpay \<and> GetBasePaymentType (cq_PaymentType req) = TypeWxpay
         \<and> str_contains (error_text e) ''wxpay h5 payments are not authorized for this merchant''
      then WithMetadata (ServiceUnavailable ''WECHAT_H5_NOT_AUTHORIZED''
             ''wechat h5 payment is not available for this merchant'')
             (Some [(''action'', ''open_in_wechat_or_scan_qr'')])
      else ServiceUnavailable ''PAYMENT_GATEWAY_ERROR'' (''payment gateway error: '' @ error_text e))"

text \<open>An application error of the factory keeps its own metadata beside the provider's.\<close>

definition provider_error :: "instance_selection \<Rightarrow> go_error \<Rightarrow> go_error" where
  "provider_error sel e =
     (let md = [(''provider'', is_ProviderKey sel), (''instance_id'', is_InstanceID sel)] in
      case errors_As e of
        Some a \<Rightarrow> WithMetadata a (Some (foldl (\<lambda>m (k, v). map_put k v m) md (mentries (ae_Metadata a))))
      | None \<Rightarrow> WithMetadata (ServiceUnavailable ''PAYMENT_PROVIDER_MISCONFIGURED'' ''provider_misconfigured'') (Some md))"

definition order_created_detail :: "create_request \<Rightarrow> pay_order \<Rightarrow> (string \<times> goval) list" where
  "order_created_detail req order =
     [(''paymentAmount'', GF64 (cq_Amount req)), (''creditedAmount'', GF64 (po_Amount order)),
      (''payAmount'', GF64 (po_PayAmount order)), (''paymentType'', GStr (cq_PaymentType req)),
      (''orderType'', GStr (cq_OrderType req)),
      (''paymentSource'', GStr (NormalizePaymentSource (cq_PaymentSource req)))]"

definition buildCreateOrderResponse ::
    "pay_order \<Rightarrow> create_request \<Rightarrow> float64 \<Rightarrow> instance_selection \<Rightarrow> created_payment \<Rightarrow> string \<Rightarrow> create_response" where
  "buildCreateOrderResponse order req payAmount sel pr resumeToken =
     \<lparr>cs_OrderID = po_ID order, cs_Amount = po_Amount order, cs_PayAmount = payAmount,
      cs_FeeRate = po_FeeRate order, cs_Status = OrderStatusPending,
      cs_ResultType = (if cr_ResultType pr = [] then ''order_created'' else cr_ResultType pr),
      cs_PaymentType = cq_PaymentType req, cs_OutTradeNo = po_OutTradeNo order, cs_PayURL = cr_PayURL pr,
      cs_QRCode = cr_QRCode pr, cs_ExpiresAt = po_ExpiresAt order, cs_PaymentMode = is_PaymentMode sel,
      cs_ResumeToken = resumeToken\<rparr>"

text \<open>A column is set only when the provider gave a value.\<close>

definition payment_details :: "created_payment \<Rightarrow> instance_selection \<Rightarrow> pay_order \<Rightarrow> pay_order" where
  "payment_details pr sel r =
     r\<lparr>po_PaymentTradeNo := (if cr_TradeNo pr = [] then po_PaymentTradeNo r else cr_TradeNo pr),
       po_PayURL := (if cr_PayURL pr = [] then po_PayURL r else Some (cr_PayURL pr)),
       po_QrCode := (if cr_QRCode pr = [] then po_QrCode r else Some (cr_QRCode pr)),
       po_ProviderInstanceID := (if is_InstanceID sel = [] then po_ProviderInstanceID r else Some (is_InstanceID sel)),
       po_ProviderKey := (if is_ProviderKey sel = [] then po_ProviderKey r else Some (is_ProviderKey sel))\<rparr>"

definition create_payment_request ::
    "create_request \<Rightarrow> instance_selection \<Rightarrow> string \<Rightarrow> string \<Rightarrow> string \<Rightarrow> string \<Rightarrow> create_payment" where
  "create_payment_request req sel outTradeNo payAmountStr subject returnURL =
     \<lparr>cp_OrderID = outTradeNo, cp_Amount = payAmountStr, cp_PaymentType = cq_PaymentType req,
      cp_Subject = subject, cp_ReturnURL = returnURL, cp_OpenID = trim_space (cq_OpenID req),
      cp_ClientIP = cq_ClientIP req, cp_IsMobile = cq_IsMobile req, cp_InstanceSubMethods = is_SupportedTypes sel\<rparr>"

definition invokeProvider ::
    "'d create_env \<Rightarrow> pay_order \<Rightarrow> create_request \<Rightarrow> payment_config \<Rightarrow> float64 \<Rightarrow> string \<Rightarrow> float64
      \<Rightarrow> pay_plan option \<Rightarrow> instance_selection \<Rightarrow> (go_error + create_response) pay_prog" where
  "invokeProvider ce order req cfg limitAmount payAmountStr payAmount plan sel =
     try_else (ask (\<lambda>w. w_Create w (is_ProviderKey sel) (is_InstanceID sel) (is_Config sel)))
       (\<lambda>e. Ret (Inl (provider_error sel e))) (\<lambda>prov.
     (let subjectAmount = (if plan = None \<and> cq_OrderType req = OrderTypeBalance
                              \<and> f_lt f_zero (cq_PaymentAmount req) then payAmount else limitAmount);
          subject = buildPaymentSubject ce plan subjectAmount cfg sel
      in
     try_else (ask (\<lambda>w. w_ReturnURL w (cq_ReturnURL req) (po_ID order) (po_OutTradeNo order)))
       (\<lambda>e. Ret (Inl e)) (\<lambda>(returnURL, resumeToken).
     try_else (ask (\<lambda>w. w_CreatePayment w prov
                (create_payment_request req sel (po_OutTradeNo order) payAmountStr subject returnURL)))
       (\<lambda>e. Ret (Inl (case errors_As e of
              Some a \<Rightarrow> a | None \<Rightarrow> classifyCreatePaymentError req (is_ProviderKey sel) e))) (\<lambda>pr.
     try_else (call (order_UpdateOne (po_ID order) (\<lambda>_. payment_details pr sel)))
       (\<lambda>e. Ret (Inl (wrap ''update order with payment details'' e))) (\<lambda>_.
     bind (writeAuditLog (po_ID order) ''ORDER_CREATED'' (user_operator (cq_UserID req))
             (order_created_detail req order)) (\<lambda>_.
     Ret (Inr (buildCreateOrderResponse order req payAmount sel pr resumeToken))))))))"

section \<open>The handler\<close>

text \<open>The defaults of a request.\<close>

definition normalized_request :: "create_request \<Rightarrow> create_request" where
  "normalized_request req =
     (let method = NormalizeVisibleMethod (cq_PaymentType req) in
      req\<lparr>cq_OrderType := (if cq_OrderType req = [] then OrderTypeBalance else cq_OrderType req),
          cq_PaymentType := (if method = [] then cq_PaymentType req else method)\<rparr>)"

definition fail_order :: "int \<Rightarrow> go_error \<Rightarrow> (go_error + create_response) pay_prog" where
  "fail_order i e =
     bind (call (order_UpdateOne i (\<lambda>_ r. r\<lparr>po_Status := OrderStatusFailed\<rparr>))) (\<lambda>_. Ret (Inl e))"

text \<open>From the price on: the row, then the provider.\<close>

definition place_order ::
    "'d create_env \<Rightarrow> create_request \<Rightarrow> pay_user \<Rightarrow> pay_plan option \<Rightarrow> payment_config \<Rightarrow> order_amounts
      \<Rightarrow> string \<times> float64 \<Rightarrow> instance_selection \<Rightarrow> (go_error + create_response) pay_prog" where
  "place_order ce req user plan cfg am price sel =
     (case validateSelectedCreateOrderAmountCurrency ce (fst price) sel of Some e \<Rightarrow> Ret (Inl e) | None \<Rightarrow>
      if needs_wechat_oauth req sel
      then buildWeChatOAuthRequiredResponse ce req (oa_limit am) (snd price) (pc_RechargeFeeRate cfg)
      else try_else (createOrderInTx ce req user plan cfg am (snd price) sel) (\<lambda>e. Ret (Inl e)) (\<lambda>order.
           bind (invokeProvider ce order req cfg (oa_limit am) (fst price) (snd price) plan sel) (\<lambda>r.
             case r of Inl e \<Rightarrow> fail_order (po_ID order) e | Inr resp \<Rightarrow> Ret (Inr resp))))"

text \<open>The price, the instance, and the price once more in the currency of the instance.\<close>

definition price_order ::
    "'d create_env \<Rightarrow> create_request \<Rightarrow> pay_user \<Rightarrow> pay_plan option \<Rightarrow> payment_config \<Rightarrow> order_amounts
      \<Rightarrow> (go_error + create_response) pay_prog" where
  "price_order ce req user plan cfg am =
     try_else (ValidateMethodCurrencyConsistency ce (cq_PaymentType req)) (\<lambda>e. Ret (Inl e)) (\<lambda>methodCurrency.
     try_else (Ret (calculateCreateOrderPayAmount (ce_dec ce) (first_base ce cfg plan methodCurrency am)
                      (pc_RechargeFeeRate cfg) methodCurrency)) (\<lambda>e. Ret (Inl e)) (\<lambda>price.
     try_else (selectCreateOrderInstance ce req cfg (snd price)) (\<lambda>e. Ret (Inl e)) (\<lambda>sel.
     bind (validateSelectedCreateOrderInstance req sel) (\<lambda>bad. case bad of Some e \<Rightarrow> Ret (Inl e) | None \<Rightarrow>
     try_else (Ret (final_price ce cfg plan methodCurrency
                      (paymentProviderConfigCurrency (is_ProviderKey sel) (Some (is_Config sel))) am price))
       (\<lambda>e. Ret (Inl e)) (\<lambda>price'. place_order ce req user plan cfg am price' sel)))))"

definition CreateOrder :: "'d create_env \<Rightarrow> create_request \<Rightarrow> (go_error + create_response) pay_prog" where
  "CreateOrder ce req0 =
     (let req = normalized_request req0 in
     try_else (GetPaymentConfig ce) (\<lambda>e. Ret (Inl (wrap ''get payment config'' e))) (\<lambda>cfg.
     if \<not> pc_Enabled cfg then Ret (Inl (Forbidden ''PAYMENT_DISABLED'' ''payment system is disabled''))
     else try_else (validateOrderInput req cfg) (\<lambda>e. Ret (Inl e)) (\<lambda>plan.
     bind (checkCancelRateLimit (ce_pay ce) (cq_UserID req) (pc_CancelLimit cfg)) (\<lambda>limited.
       case limited of Some e \<Rightarrow> Ret (Inl e) | None \<Rightarrow>
     try_else (call (user_GetByID (cq_UserID req))) (\<lambda>e. Ret (Inl (wrap ''get user'' e))) (\<lambda>user.
     if pu_Status user \<noteq> StatusActive then Ret (Inl (Forbidden ''USER_INACTIVE'' ''user account is disabled''))
     else bind (ask w_now) (\<lambda>now.
     case order_base_amounts ce cfg req plan now of
       Inl e \<Rightarrow> Ret (Inl e)
     | Inr am \<Rightarrow> price_order ce req user plan cfg am))))))"

section \<open>Reading orders\<close>

definition GetOrderByID :: "int \<Rightarrow> (go_error + pay_order) pay_prog" where
  "GetOrderByID orderID =
     bind (call (order_Get orderID)) (\<lambda>r. Ret (case r of
       Inr (Some o') \<Rightarrow> Inr o' | _ \<Rightarrow> Inl (NotFound ''NOT_FOUND'' ''order not found'')))"

definition GetOrder :: "int \<Rightarrow> int \<Rightarrow> (go_error + pay_order) pay_prog" where
  "GetOrder orderID userID =
     try_else (GetOrderByID orderID) (\<lambda>e. Ret (Inl e)) (\<lambda>o'.
       Ret (if po_UserID o' \<noteq> userID then Inl (Forbidden ''FORBIDDEN'' ''no permission for this order'') else Inr o'))"

record list_params =
  lp_Page :: int
  lp_PageSize :: int
  lp_Status :: string
  lp_OrderType :: string
  lp_PaymentType :: string
  lp_Keyword :: string

definition applyPagination :: "int \<Rightarrow> int \<Rightarrow> int \<times> int" where
  "applyPagination pageSize page =
     (let size = (if pageSize \<le> 0 then 20 else pageSize) in
      (if 100 < size then 100 else size, if page < 1 then 1 else page))"

definition list_filter :: "list_params \<Rightarrow> pay_order \<Rightarrow> bool" where
  "list_filter p r \<longleftrightarrow>
     (lp_Status p = [] \<or> po_Status r = lp_Status p)
     \<and> (lp_OrderType p = [] \<or> po_OrderType r = lp_OrderType p)
     \<and> (lp_PaymentType p = [] \<or> po_PaymentType r = lp_PaymentType p)"

text \<open>\<open>ContainsFold\<close> is the database's comparison in any letter case.\<close>

definition contains_fold :: "string \<Rightarrow> string \<Rightarrow> bool" where
  "contains_fold s k \<longleftrightarrow> str_contains (to_lower s) (to_lower k)"

definition keyword_filter :: "string \<Rightarrow> pay_order \<Rightarrow> bool" where
  "keyword_filter k r \<longleftrightarrow>
     k = [] \<or> contains_fold (po_OutTradeNo r) k \<or> contains_fold (po_UserEmail r) k \<or> contains_fold (po_UserName r) k"

definition page_of :: "list_params \<Rightarrow> pay_order list \<Rightarrow> pay_order list" where
  "page_of p rows =
     (case applyPagination (lp_PageSize p) (lp_Page p) of
        (ps, pg) \<Rightarrow> take (nat ps) (drop (nat ((pg - 1) * ps))
                      (sort_by (\<lambda>a b. po_CreatedAt b < po_CreatedAt a) rows)))"

definition list_orders :: "string \<Rightarrow> (pay_order \<Rightarrow> bool) \<Rightarrow> list_params \<Rightarrow> (go_error + pay_order list \<times> nat) pay_prog" where
  "list_orders who q p =
     try_else (call (order_Where q)) (\<lambda>e. Ret (Inl (wrap (''count '' @ who @ '' orders'') e))) (\<lambda>counted.
     try_else (call (order_Where q)) (\<lambda>e. Ret (Inl (wrap (''query '' @ who @ '' orders'') e))) (\<lambda>rows.
       Ret (Inr (page_of p rows, length counted))))"

definition GetUserOrders :: "int \<Rightarrow> list_params \<Rightarrow> (go_error + pay_order list \<times> nat) pay_prog" where
  "GetUserOrders userID p = list_orders ''user'' (\<lambda>r. po_UserID r = userID \<and> list_filter p r) p"

definition AdminListOrders :: "int \<Rightarrow> list_params \<Rightarrow> (go_error + pay_order list \<times> nat) pay_prog" where
  "AdminListOrders userID p =
     list_orders ''admin''
       (\<lambda>r. (userID \<le> 0 \<or> po_UserID r = userID) \<and> list_filter p r \<and> keyword_filter (lp_Keyword p) r) p"

end
