(* ===== verification/PayMoneyProps.thy ===== *)
theory PayMoneyProps
  imports PayMoney
begin

text \<open>
  What the arithmetic of payments promises under the laws of the decimal library, and the
  interpretation of these laws on rational numbers: printed decimals are read back exactly, and a
  refund never pays back more than was paid.
\<close>

section \<open>Printed decimals read back\<close>

lemma scan_digits:
  assumes "list_all is_digit ds"
  shows "scan_mantissa False dot nd v fr (ds @ s)
       = scan_mantissa False dot (nd + length ds) (digits_val v ds) (if dot then fr + length ds else fr) s"
  using assms
proof (induction ds arbitrary: nd v fr)
  case (Cons c ds)
  then have "c \<noteq> CHR ''_''" "c \<noteq> CHR ''.''" "base_digit False c = Some (digit_val c)"
    by (auto simp: is_digit_def base_digit_def)
  with Cons show ?case by simp
qed simp

lemma digits_val_zeros: "digits_val 0 (zeros n @ s) = digits_val 0 s"
  by (induction n) (simp_all add: zeros_def digit_val_def)

lemma digits_val_acc: "digits_val acc s = acc * 10 ^ length s + digits_val 0 s"
proof (induction s arbitrary: acc)
  case (Cons c s)
  show ?case using Cons [of "10 * acc + digit_val c"] Cons [of "digit_val c"] by (simp add: algebra_simps)
qed simp

lemma length_nat_digits: "0 \<le> n \<Longrightarrow> n < 10 ^ k \<Longrightarrow> 0 < k \<Longrightarrow> length (nat_digits n) \<le> k"
proof (induction n arbitrary: k rule: nat_digits.induct)
  case (1 n)
  show ?case
  proof (cases "n < 10")
    case True with 1 show ?thesis by (subst nat_digits.simps) simp
  next
    case False
    with "1.prems" have k: "1 < k" by (cases "k = 1") auto
    then have "n div 10 < 10 ^ (k - 1)"
      using "1.prems" by (cases k) (auto simp: int_ops)
    with "1.IH" [of "k - 1"] False "1.prems" k have "length (nat_digits (n div 10)) \<le> k - 1" by simp
    with False k show ?thesis by (subst nat_digits.simps) simp
  qed
qed

lemma zeros_digits: "list_all is_digit (zeros n)"
  by (induction n) (simp_all add: zeros_def is_digit_def)

lemma digit_no_base:
  assumes "is_digit c \<or> c = CHR ''.''"
  shows "lower_char c \<notin> {CHR ''b'', CHR ''o'', CHR ''x''}"
  using assms
proof
  assume "is_digit c"
  then have "lower_char c = c" "c \<noteq> CHR ''b''" "c \<noteq> CHR ''o''" "c \<noteq> CHR ''x''"
    by (auto simp: lower_char_def is_digit_def)
  then show ?thesis by simp
next
  assume "c = CHR ''.''"
  then show ?thesis by (simp add: lower_char_def)
qed

lemma no_prefix_digits: "\<forall>c \<in> set s. is_digit c \<or> c = CHR ''.'' \<Longrightarrow> base_prefix s = None"
  using digit_no_base by (auto simp: base_prefix_def split: list.splits)

lemma literal_fixed_point:
  assumes "0 \<le> m"
  shows "float_literal (fixed_point m k) = Some (of_int m / 10 ^ k)"
proof -
  define ds where "ds = nat_digits (if k = 0 then m else m div 10 ^ k)"
  define fs where "fs = (if k = 0 then [] else pad_left k (nat_digits (m mod 10 ^ k)))"
  have ds: "ds \<noteq> []" "list_all is_digit ds" "digits_val 0 ds = m div 10 ^ k"
    using nat_digits_spec [of "if k = 0 then m else m div 10 ^ k"] assms
    by (auto simp: ds_def pos_imp_zdiv_nonneg_iff)
  have fs: "list_all is_digit fs" "length fs = k" "digits_val 0 fs = m mod 10 ^ k"
    using nat_digits_spec [of "m mod 10 ^ k"] length_nat_digits [of "m mod 10 ^ k" k] assms zeros_digits
    by (auto simp: fs_def pad_left_def digits_val_zeros) (simp add: zeros_def)
  have printed_as: "fixed_point m k = ds @ (if k = 0 then [] else CHR ''.'' # fs)"
    by (simp add: fixed_point_def ds_def fs_def)
  obtain c r where c: "ds = c # r" "is_digit c" using ds by (cases ds) auto
  have is_pos: "split_sign (fixed_point m k) = (False, fixed_point m k)"
    by (simp add: printed_as c split_sign_digit)
  have plain_digits: "CHR ''_'' \<notin> set (fixed_point m k)"
    using ds(2) fs(1) by (auto simp: printed_as list_all_iff is_digit_def)
  have no_base: "base_prefix (fixed_point m k) = None"
    unfolding printed_as by (rule no_prefix_digits) (use ds(2) fs(1) in \<open>auto simp: list_all_iff split: if_splits\<close>)
  have all_digits: "digits_val (digits_val 0 ds) fs = m"
    by (subst digits_val_acc) (simp add: ds(3) fs mult.commute [of "m div 10 ^ k"])
  have scan: "scan_mantissa False False 0 0 0 (fixed_point m k) = (length ds + k, m, k, [])"
  proof (cases "k = 0")
    case True
    then show ?thesis using scan_digits [OF ds(2), of False 0 0 0 "[]"] ds(3) printed_as by simp
  next
    case False
    then show ?thesis
      using scan_digits [OF ds(2), of False 0 0 0 "CHR ''.'' # fs"] scan_digits [OF fs(1), of True "length ds" "digits_val 0 ds" 0 "[]"]
        fs(2) all_digits by (simp add: printed_as)
  qed
  show ?thesis
    unfolding float_literal_def is_pos
    using plain_digits ds(1) by (simp add: no_base scan Let_def)
qed

section \<open>Decimals as rational numbers\<close>

text \<open>A float as the shortest decimal that reads back as the float.\<close>

definition float_decimal :: "float64 \<Rightarrow> rat" where
  "float_decimal x =
     (case x of
        Fin q \<Rightarrow>
          (if q = 0 then 0
           else let d = shortest \<bar>q\<bar>; y = of_int (fst d) * pow10 (snd d); r = (if q < 0 then - y else y)
                in if f_of_rat r = Fin q \<and> (0 < q \<longrightarrow> 0 < r) then r else q)
      | _ \<Rightarrow> 0)"

definition rat_lib :: "rat decimal_lib" where
  "rat_lib =
     \<lparr>dl_NewFromFloat = float_decimal, dl_NewFromInt = of_int, dl_NewFromString = float_literal,
      dl_New = (\<lambda>n e. of_int n * pow10 e), dl_Add = (+), dl_Mul = (*),
      dl_Div = (\<lambda>a b. round_places (a / b) 16), dl_Floor = (\<lambda>a. of_int \<lfloor>a\<rfloor>),
      dl_Truncate = (\<lambda>a p. of_int (rat_trunc (a * pow10 p)) / pow10 p), dl_Round = round_places,
      dl_RoundUp = round_up_places, dl_Equal = (=), dl_IntPart = (\<lambda>a. i64 (rat_trunc a)),
      dl_StringFixed = (\<lambda>a p. signed a (\<lambda>y. fixed_point (round_away (y * pow10 p)) (nat p))),
      dl_InexactFloat64 = f_of_rat\<rparr>"

lemma pow10_pos [simp]: "0 < pow10 e"
  by (simp add: pow10_def)

lemma pow10_0 [simp]: "pow10 0 = 1"
  by (simp add: pow10_def)

lemma float_decimal_reads_back: "f_wf (Fin q) \<Longrightarrow> f_of_rat (float_decimal (Fin q)) = Fin q"
  by (simp add: float_decimal_def Let_def f_of_rat_wf)

interpretation rational: decimal_library rat_lib "\<lambda>x. x"
proof
  show "f_wf (Fin q) \<Longrightarrow> f_of_rat (dl_NewFromFloat rat_lib (Fin q)) = Fin q" for q
    by (simp only: rat_lib_def decimal_lib.simps float_decimal_reads_back)
  show "0 < q \<Longrightarrow> 0 < dl_NewFromFloat rat_lib (Fin q)" for q
    by (auto simp: rat_lib_def float_decimal_def Let_def)
  show "0 \<le> m \<Longrightarrow> \<exists>d. dl_NewFromString rat_lib (fixed_point m k) = Some d \<and> d = of_int m / 10 ^ k" for m k
    by (simp add: rat_lib_def literal_fixed_point)
qed (simp_all add: rat_lib_def float_decimal_def round_places_def signed_def rat_trunc_def i64_id)

section \<open>Rounding\<close>

lemma round_away_mono: "x \<le> y \<Longrightarrow> round_away x \<le> round_away y"
proof -
  assume le: "x \<le> y"
  show ?thesis
  proof (cases "x < 0 \<and> \<not> y < 0")
    case True
    then have "0 \<le> \<lfloor>1 / 2 - x\<rfloor>" "0 \<le> \<lfloor>y + 1 / 2\<rfloor>" by simp_all
    moreover have "round_away x = - \<lfloor>1 / 2 - x\<rfloor>" "round_away y = \<lfloor>y + 1 / 2\<rfloor>"
      using True by (simp_all add: round_away_def)
    ultimately show ?thesis by linarith
  next
    case False
    with le show ?thesis
      using floor_mono [of "1 / 2 - y" "1 / 2 - x"] floor_mono [of "x + 1 / 2" "y + 1 / 2"]
      by (auto simp: round_away_def)
  qed
qed

lemma round_away_of_int [simp]: "round_away (of_int n) = n"
proof -
  have "\<lfloor>1 / 2 - (of_int n :: rat)\<rfloor> = - n" by (rule floor_unique) simp_all
  moreover have "\<lfloor>(of_int n :: rat) + 1 / 2\<rfloor> = n" by (rule floor_unique) simp_all
  ultimately show ?thesis by (simp add: round_away_def)
qed

lemma round_places_mono: "x \<le> y \<Longrightarrow> round_places x p \<le> round_places y p"
  by (simp add: round_places_def divide_right_mono round_away_mono mult_right_mono less_imp_le)

lemma round_places_exact: "x * pow10 p \<in> \<int> \<Longrightarrow> round_places x p = x"
proof -
  assume "x * pow10 p \<in> \<int>"
  then obtain n where n: "x * pow10 p = of_int n" by (auto elim: Ints_cases)
  then have "round_places x p = x * pow10 p / pow10 p" by (simp add: round_places_def)
  then show ?thesis using pow10_pos [of p] by simp
qed

lemma pow10_add: "0 \<le> a \<Longrightarrow> 0 \<le> b \<Longrightarrow> pow10 (a + b) = pow10 a * pow10 b"
  by (simp add: pow10_def nat_add_distrib power_add)

lemma more_places: "x * pow10 p \<in> \<int> \<Longrightarrow> 0 \<le> p \<Longrightarrow> p \<le> r \<Longrightarrow> x * pow10 r \<in> \<int>"
proof -
  assume x: "x * pow10 p \<in> \<int>" and p: "0 \<le> p" "p \<le> r"
  have "pow10 r = pow10 p * pow10 (r - p)" using pow10_add [of p "r - p"] p by simp
  then have "x * pow10 r = x * pow10 p * pow10 (r - p)" by (simp add: mult.assoc)
  moreover have "pow10 (r - p) \<in> \<int>" using p by (simp add: pow10_def)
  ultimately show "x * pow10 r \<in> \<int>" using Ints_mult [OF x] by metis
qed

lemma f_of_rat_mono: "x \<le> y \<Longrightarrow> f_le (f_of_rat x) (f_of_rat y)"
  using rnd_mono [of x y] f_max_pos by (auto simp: f_of_rat_alt Let_def f_le_def)

lemma f_of_rat_ge_zero: "0 \<le> x \<Longrightarrow> f_le f_zero (f_of_rat x)"
  using f_of_rat_mono [of 0 x] by simp

lemma f_of_rat_not: "f_of_rat x \<noteq> NaN"
  by (simp add: f_of_rat_def Let_def)

lemma tolerance_nonneg: "f_le f_zero (paymentAmountToleranceForCurrency c)"
proof -
  have "f_le f_zero (f_dec 1 n)" for n by (simp add: f_dec_def f_of_rat_ge_zero)
  moreover have "f_le f_zero (f_div x (Fin 2))" if "f_le f_zero x" for x
  proof (cases x)
    case (Fin q)
    with that show ?thesis by (simp add: f_of_rat_ge_zero)
  qed (use that in \<open>auto simp: f_le_def f_inf_def\<close>)
  ultimately show ?thesis
    by (simp add: paymentAmountToleranceForCurrency_def amountToleranceCNY_def Let_def)
qed

text \<open>How many decimals a currency has.\<close>

lemma fraction_digits: "CurrencyMaxFractionDigits c \<in> {0, 2, 3, 4}"
proof -
  have "list_all (\<lambda>e. snd (snd e) \<in> {0, 2, 3, 4}) paymentCurrencyAmountUnits" by code_simp
  then have "map_of paymentCurrencyAmountUnits k = Some u \<Longrightarrow> snd u \<in> {0, 2, 3, 4}" for k u
    by (fastforce dest: map_of_SomeD simp: list_all_iff)
  then show ?thesis
    by (fastforce simp: CurrencyMaxFractionDigits_def paymentCurrencyAmountUnitFor_def opt_default_def
        split: sum.split option.split)
qed

lemma yuan_decimals: "CurrencyMaxFractionDigits ''CNY'' = 2"
  by code_simp

section \<open>Refunds\<close>

context decimal_library
begin

lemma of_float_mono:
  assumes "f_wf (Fin a)" "f_wf (Fin b)" "a \<le> b"
  shows "val (dl_NewFromFloat D (Fin a)) \<le> val (dl_NewFromFloat D (Fin b))"
proof (cases "a = b")
  case False
  show ?thesis
  proof (rule ccontr)
    assume "\<not> ?thesis"
    then have "f_le (f_of_rat (val (dl_NewFromFloat D (Fin b)))) (f_of_rat (val (dl_NewFromFloat D (Fin a))))"
      by (intro f_of_rat_mono) simp
    then show False using assms False by (simp add: of_float)
  qed
qed simp

lemma prorated:
  assumes wf: "f_wf (Fin o')" "f_wf (Fin r)" and pos: "0 < r" "r \<le> o'" "0 < p"
    and exact: "val (dl_NewFromFloat D (Fin p)) * pow10 n \<in> \<int>" and n: "0 \<le> n" "n \<le> 16"
  shows "val (dl_Round D (dl_Div D (dl_Mul D (dl_NewFromFloat D (Fin p)) (dl_NewFromFloat D (Fin r)))
                            (dl_NewFromFloat D (Fin o'))) n) \<le> val (dl_NewFromFloat D (Fin p))"
proof -
  let ?P = "val (dl_NewFromFloat D (Fin p))" and ?R = "val (dl_NewFromFloat D (Fin r))"
    and ?O = "val (dl_NewFromFloat D (Fin o'))"
  have "?R \<le> ?O" by (rule of_float_mono [OF wf(2,1) pos(2)])
  moreover have "0 < ?P" "0 < ?R" "0 < ?O" using pos by (simp_all add: of_float_sign)
  ultimately have "?P * ?R / ?O \<le> ?P" by (simp add: divide_le_eq mult_left_mono)
  then have "round_places (?P * ?R / ?O) 16 \<le> ?P"
    using round_places_mono round_places_exact [OF more_places [OF exact n]] by metis
  then have "round_places (round_places (?P * ?R / ?O) 16) n \<le> ?P"
    using round_places_mono round_places_exact [OF exact] by metis
  then show ?thesis using \<open>0 < ?O\<close> by (simp add: round div mul)
qed

lemma refund_bounded:
  assumes wf: "f_wf (Fin o')" "f_wf (Fin p)" "f_wf (Fin r)" and pos: "0 < r" "r \<le> o'" "0 < p"
    and exact: "val (dl_NewFromFloat D (Fin p)) * pow10 (CurrencyMaxFractionDigits c) \<in> \<int>"
  shows "f_le (calculateGatewayRefundAmount D (Fin o') (Fin p) (Fin r) c) (Fin p)
    \<and> (r = o' \<longrightarrow> calculateGatewayRefundAmount D (Fin o') (Fin p) (Fin r) c = Fin p)"
proof -
  have whole: "dl_InexactFloat64 D (dl_Round D (dl_NewFromFloat D (Fin p)) (CurrencyMaxFractionDigits c)) = Fin p"
    by (simp add: to_float round round_places_exact [OF exact] of_float [OF wf(2)])
  have "0 \<le> CurrencyMaxFractionDigits c" "CurrencyMaxFractionDigits c \<le> 16"
    using fraction_digits [of c] by auto
  then have part: "f_le (dl_InexactFloat64 D (dl_Round D (dl_Div D (dl_Mul D (dl_NewFromFloat D (Fin p))
      (dl_NewFromFloat D (Fin r))) (dl_NewFromFloat D (Fin o'))) (CurrencyMaxFractionDigits c))) (Fin p)"
    using f_of_rat_mono [OF prorated [OF wf(1,3) pos exact]] by (simp add: to_float of_float [OF wf(2)])
  have "r = o' \<Longrightarrow> f_le (f_abs (f_sub (Fin r) (Fin o'))) (paymentAmountToleranceForCurrency c)"
    using tolerance_nonneg by (simp add: f_sub_def)
  then show ?thesis
    using whole part pos by (auto simp: calculateGatewayRefundAmount_def Let_def)
qed

end

text \<open>C18: A refund pays back at most what was paid. The amounts of the order, of the payment and of the
  refund are floats, the refund is positive and not above the order, and the payment has at most
  the decimals of its currency. Then the amount sent to the provider is not above the payment, and
  it is the whole payment when the whole order is refunded. The decimal library is assumed to do
  what its documentation says.\<close>

theorem refund_within_payment:
  assumes "decimal_library D val"
    and "f_wf (Fin o')" "f_wf (Fin p)" "f_wf (Fin r)" and "0 < r" "r \<le> o'" "0 < p"
    and "val (dl_NewFromFloat D (Fin p)) * pow10 (CurrencyMaxFractionDigits c) \<in> \<int>"
  shows "f_le (calculateGatewayRefundAmount D (Fin o') (Fin p) (Fin r) c) (Fin p)
    \<and> (r = o' \<longrightarrow> calculateGatewayRefundAmount D (Fin o') (Fin p) (Fin r) c = Fin p)"
  using assms by (rule decimal_library.refund_bounded)

lemma refund_within_payment_witness:
  "f_le (calculateGatewayRefundAmount rat_lib (Fin 30) (Fin 20) (Fin 10) ''CNY'') (Fin 20)"
proof -
  have "f_wf (Fin 30)" "f_wf (Fin 20)" "f_wf (Fin 10)"
    using f_wf_small_int [of 30] f_wf_small_int [of 20] f_wf_small_int [of 10] by simp_all
  moreover have "dl_NewFromFloat rat_lib (Fin 20) = 20" by code_simp
  moreover have "(20 :: rat) * pow10 (CurrencyMaxFractionDigits ''CNY'') \<in> \<int>" by (simp add: yuan_decimals pow10_def)
  ultimately show ?thesis
    using refund_within_payment [OF rational.decimal_library_axioms, of 30 20 10 "''CNY''"] by simp
qed

end
