(* ===== verification/PayCreateSamples.thy ===== *)
theory PayCreateSamples
  imports PayCreate PayMoneyProps PaySamples
begin

text \<open>
  Sample data for orders that are created: the environment with decimals as rational numbers and
  columns that round to their number of decimals, a request for ten thousand dollars, and a shop
  without orders.
\<close>

definition shop_create :: "rat create_env" where
  "shop_create =
     \<lparr>ce_pay = shop_env, ce_dec = rat_lib, ce_config = (\<lambda>_. Some []), ce_limits = (\<lambda>_. None),
      ce_multipliers = (\<lambda>_. None),
      ce_column = (\<lambda>n x. case x of Fin q \<Rightarrow> f_of_rat (round_places q (int n)) | _ \<Rightarrow> x),
      ce_sum = (\<lambda>xs. foldl f_add f_zero xs), ce_signing = False\<rparr>"

definition shop_request :: create_request where
  "shop_request =
     \<lparr>cq_UserID = 7, cq_Amount = Fin 10000, cq_PaymentAmount = Fin 1, cq_PaymentType = TypeAlipay,
      cq_OpenID = [], cq_ClientIP = [], cq_IsMobile = False, cq_IsWeChatBrowser = False, cq_SrcHost = [],
      cq_SrcURL = [], cq_ReturnURL = [], cq_PaymentSource = [], cq_OrderType = OrderTypeBalance, cq_PlanID = 0\<rparr>"

definition empty_shop :: pay_db where
  "empty_shop = (shop_db shop_order)\<lparr>pd_orders := []\<rparr>"

end
