(* ===== verification/PayConfigProps.thy ===== *)
theory PayConfigProps
  imports PayCreateSamples PayOutcome
begin

text \<open>
  What an administrator's change of the payment settings comes to: the numbers that survive being
  stored with two decimals, those that do not, and that a request which leaves a field out resets
  it.
\<close>

section \<open>Numbers with two decimals\<close>

lemma round_even_near: "\<bar>q - of_int k\<bar> < 1 / 2 \<Longrightarrow> round_even q = k"
proof -
  assume "\<bar>q - of_int k\<bar> < 1 / 2"
  then have q: "q < of_int k + 1 / 2" "of_int k - 1 / 2 < q" by (simp_all only: abs_less_iff) linarith+
  then consider "\<lfloor>q\<rfloor> = k" | "\<lfloor>q\<rfloor> = k - 1" by linarith
  then show ?thesis
  proof cases
    case 1
    moreover have "q - of_int k < 1 / 2" using q by linarith
    ultimately show ?thesis by (simp add: round_even_def Let_def)
  next
    case 2
    moreover have "1 / 2 < q - of_int (k - 1)" using q by simp
    ultimately show ?thesis unfolding round_even_def Let_def by simp
  qed
qed

lemma round_even_dist: "\<bar>of_int (round_even q) - q\<bar> \<le> 1 / 2"
proof -
  define r where "r = q - of_int \<lfloor>q\<rfloor>"
  have r: "0 \<le> r" "r < 1" unfolding r_def by linarith+
  have "of_int (round_even q) - q
      = (if r < 1 / 2 then - r else if 1 / 2 < r then 1 - r else if even \<lfloor>q\<rfloor> then - r else 1 - r)"
    by (simp add: round_even_def Let_def r_def)
  then show ?thesis using r by (simp only: abs_le_iff) (cases "r < 1 / 2"; cases "1 / 2 < r"; simp)
qed

lemma rnd_error: "0 < x \<Longrightarrow> \<bar>rnd x - x\<bar> \<le> pow2 (ulp_exp x) / 2"
proof -
  assume x: "0 < x"
  let ?u = "pow2 (ulp_exp x)"
  have "rnd x - x = (of_int (round_even (x / ?u)) - x / ?u) * ?u"
    using x by (simp add: rnd_def rnd_pos_def algebra_simps)
  then have "\<bar>rnd x - x\<bar> = \<bar>of_int (round_even (x / ?u)) - x / ?u\<bar> * ?u" by (simp add: abs_mult)
  also have "\<dots> \<le> 1 / 2 * ?u" using round_even_dist by (intro mult_right_mono) simp_all
  finally show ?thesis by simp
qed

lemma cents_near:
  assumes "0 < k" and "k \<le> 10 ^ 12"
  shows "\<bar>rnd (of_int k / 100) * 100 - of_int k\<bar> < 1 / 2"
proof -
  let ?x = "of_int k / 100 :: rat"
  have k: "(of_int k :: rat) \<le> of_int (10 ^ 12)" using assms(2) by (simp only: of_int_le_iff)
  have x: "0 < ?x" "?x < pow2 34" using assms(1) k by (simp_all add: pow2_def)
  have "ilog2 ?x \<le> 33"
  proof (rule ccontr)
    assume "\<not> ?thesis"
    then have "pow2 34 \<le> pow2 (ilog2 ?x)" by (intro pow2_mono) simp
    then show False using ilog2_bounds [OF x(1)] x(2) by linarith
  qed
  then have "pow2 (ulp_exp ?x) \<le> pow2 (- 19)" by (intro pow2_mono) (simp add: ulp_exp_def)
  also have "pow2 (- 19) = 1 / 2 ^ 19" by (simp add: pow2_def)
  finally have "\<bar>rnd ?x - ?x\<bar> \<le> 1 / 2 ^ 20" using rnd_error [OF x(1)] by simp
  moreover have "rnd ?x * 100 - of_int k = (rnd ?x - ?x) * 100" by simp
  then have "\<bar>rnd ?x * 100 - of_int k\<bar> = \<bar>rnd ?x - ?x\<bar> * 100" by (simp only: abs_mult abs_numeral)
  ultimately show ?thesis by simp
qed

lemma parse_fixed_point:
  assumes "0 \<le> m"
  shows "parse_float (fixed_point m k)
    = (case f_of_rat (of_int m / 10 ^ k) of Fin r \<Rightarrow> Some (Fin r) | _ \<Rightarrow> None)"
proof -
  have "nat_digits (if k = 0 then m else m div 10 ^ k) \<noteq> []"
    and "list_all is_digit (nat_digits (if k = 0 then m else m div 10 ^ k))"
    using nat_digits_spec [of "if k = 0 then m else m div 10 ^ k"] assms by (auto simp: pos_imp_zdiv_nonneg_iff)
  then obtain c r where s: "fixed_point m k = c # r" and c: "is_digit c"
    by (cases "nat_digits (if k = 0 then m else m div 10 ^ k)") (auto simp: fixed_point_def split: if_splits)
  have "lower_char c = c" using c by (auto simp: lower_char_def is_digit_def)
  then have "hd (to_lower_ascii_str (fixed_point m k)) = c" by (simp add: s to_lower_ascii_str_def)
  moreover have "c \<noteq> CHR ''i''" "c \<noteq> CHR ''+''" "c \<noteq> CHR ''-''" "c \<noteq> CHR ''n''"
    using c by (auto simp: is_digit_def)
  ultimately have "to_lower_ascii_str (fixed_point m k)
      \<notin> {''inf'', ''infinity'', ''+inf'', ''+infinity'', ''-inf'', ''-infinity'', ''nan''}"
    by auto
  then show ?thesis using literal_fixed_point [OF assms, of k] by (simp add: parse_float_def Let_def)
qed

lemma cents_finite:
  assumes "0 < k" and "k \<le> 10 ^ 12"
  shows "f_of_rat (of_int k / 100) = Fin (rnd (of_int k / 100))" and "0 < rnd (of_int k / 100)"
proof -
  let ?r = "rnd (of_int k / 100)"
  have near: "?r * 100 < of_int k + 1 / 2" "of_int k - 1 / 2 < ?r * 100"
    using cents_near [OF assms] by (simp_all only: abs_less_iff) linarith+
  have "(of_int 1 :: rat) \<le> of_int k" using assms(1) by (simp only: of_int_le_iff)
  have "(of_int k :: rat) \<le> of_int (10 ^ 12)" using assms(2) by (simp only: of_int_le_iff)
  then have r: "0 < ?r" "?r < 2 ^ 40" using near \<open>of_int 1 \<le> of_int k\<close> by simp_all
  moreover have "(2 :: rat) ^ 40 < f_max" unfolding f_max_def by (rule power_strict_increasing) simp_all
  ultimately show "f_of_rat (of_int k / 100) = Fin ?r" by (auto simp: f_of_rat_alt Let_def)
  show "0 < ?r" by (rule r(1))
qed

lemma cents_printed:
  assumes "0 < k" and "k \<le> 10 ^ 12"
  shows "formatPositiveFloat (Some (f_of_rat (of_int k / 100))) = fixed_point k 2"
proof -
  have "round_even (rnd (of_int k / 100) * 100) = k" by (rule round_even_near) (rule cents_near [OF assms])
  then show ?thesis
    using cents_finite [OF assms] by (simp add: formatPositiveFloat_def signed_def)
qed



section \<open>Fields that are left out\<close>

lemma map_of_put_all:
  "map_of (foldl (\<lambda>m (k, v). map_put k v m) m kv) k
   = (case map_of (rev kv) k of None \<Rightarrow> map_of m k | Some v \<Rightarrow> Some v)"
  by (induction kv arbitrary: m) (auto simp: map_put_lookup map_add_def split: option.split)

lemma put_all_value:
  assumes "distinct (map fst kv)"
  shows "config_value (foldl (\<lambda>m (k, v). map_put k v m) m kv) k
    = (if k \<in> fst ` set kv then config_value kv k else config_value m k)"
proof -
  have "map_of (rev kv) = map_of kv"
    using assms map_of_inject_set [of "rev kv" kv] by (simp flip: rev_map)
  then show ?thesis
    using map_of_eq_None_iff [of kv k]
    by (auto simp: config_value_def map_of_put_all opt_default_def split: option.split)
qed

lemma written_distinct: "distinct (map fst (written_settings marshal req))"
  by (cases "uc_MarketplaceGroupMultipliers req") (simp_all add: written_settings_def)

definition plain_keys :: "string list" where
  "plain_keys =
     [SettingPaymentEnabled, SettingMinRechargeAmount, SettingMaxRechargeAmount, SettingDailyRechargeLimit,
      SettingOrderTimeoutMinutes, SettingMaxPendingOrders, SettingEnabledPaymentTypes, SettingBalancePayDisabled,
      SettingBalanceRechargeMult, SettingRechargeFeeRate, SettingRechargeBonusThreshold,
      SettingRechargeBonusAmount, SettingUsdtCnyExchangeRate, SettingLoadBalanceStrategy,
      SettingProductNamePrefix, SettingProductNameSuffix, SettingHelpImageURL, SettingHelpText,
      SettingCancelRateLimitOn, SettingCancelRateLimitMax, SettingCancelWindowSize, SettingCancelWindowUnit,
      SettingCancelWindowMode, SettingAlipayForceQRCode]"

lemma plain_keys_written: "set plain_keys \<subseteq> fst ` set (written_settings marshal req)"
  by (simp add: plain_keys_def written_settings_def)

lemma parse_agrees:
  assumes "list_all (\<lambda>k. config_value a k = config_value b k) plain_keys"
  shows "parsePaymentConfig ce a = (parsePaymentConfig ce b)\<lparr>pc_MarketplaceGroupMultipliers :=
    parseMarketplaceGroupMultipliers ce (config_value a SettingMarketplaceGroupMultipliers)\<rparr>"
  using assms by (simp add: plain_keys_def parsePaymentConfig_def Let_def)

text \<open>C20: A change of one setting resets the others. The update writes every setting, the fields that
  the request leaves out as empty strings, and an empty setting is read as its default. So after an
  accepted update the configuration is a function of the request alone, except for the multipliers
  of the market place: whatever it was before, a request without a daily limit leaves none, one
  without the switch leaves payments disabled, and one without a rate of fees leaves no fee.\<close>

theorem partial_update_resets:
  assumes "first_error (update_errors req) = None"
  shows "always answering (UpdatePaymentConfig marshal req) db (\<lambda>r t.
    r = None
    \<and> (\<exists>m. parsePaymentConfig ce (pd_settings t)
            = (parsePaymentConfig ce (written_settings marshal req))\<lparr>pc_MarketplaceGroupMultipliers := m\<rparr>)
    \<and> (uc_DailyLimit req = None \<longrightarrow> pc_DailyLimit (parsePaymentConfig ce (pd_settings t)) = f_zero)
    \<and> (uc_Enabled req = None \<longrightarrow> \<not> pc_Enabled (parsePaymentConfig ce (pd_settings t)))
    \<and> (uc_RechargeFeeRate req = None \<longrightarrow> pc_RechargeFeeRate (parsePaymentConfig ce (pd_settings t)) = f_zero))"
proof -
  let ?w = "written_settings marshal req"
  define T where "T = foldl (\<lambda>m (k, v). map_put k v m) (pd_settings db) ?w"
  have "list_all (\<lambda>k. config_value T k = config_value ?w k) plain_keys"
    using plain_keys_written [of marshal req] put_all_value [OF written_distinct]
    by (auto simp: T_def list_all_iff)
  from parse_agrees [OF this] obtain m
    where T: "parsePaymentConfig ce T = (parsePaymentConfig ce ?w)\<lparr>pc_MarketplaceGroupMultipliers := m\<rparr>"
    by blast
  have "pc_DailyLimit (parsePaymentConfig ce T) = f_zero" if "uc_DailyLimit req = None"
    using that unfolding T by (simp add: parsePaymentConfig_def Let_def config_value_def written_settings_def
        formatPositiveFloat_def pcParseFloat_def)
  moreover have "\<not> pc_Enabled (parsePaymentConfig ce T)" if "uc_Enabled req = None"
    using that unfolding T by (simp add: parsePaymentConfig_def Let_def config_value_def written_settings_def formatBoolOrEmpty_def)
  moreover have "pc_RechargeFeeRate (parsePaymentConfig ce T) = f_zero" if "uc_RechargeFeeRate req = None"
    using that unfolding T by (simp add: parsePaymentConfig_def Let_def config_value_def written_settings_def
        formatNonNegativeFloat_def pcParseFloat_def)
  moreover have stored: "always answering (call (settings_SetMultiple ?w)) db (\<lambda>r t. \<exists>x. r = Inr x \<and> pd_settings t = T)"
    by (rule always_call) (simp add: settings_SetMultiple_def T_def)
  ultimately show ?thesis
    unfolding UpdatePaymentConfig_def assms option.case
    by (intro always_try [OF stored] always_Ret) (use T in blast)
qed

definition blank_update :: update_config where
  "blank_update =
     \<lparr>uc_Enabled = None, uc_MinAmount = None, uc_MaxAmount = None, uc_DailyLimit = None,
      uc_OrderTimeoutMin = None, uc_MaxPendingOrders = None, uc_EnabledTypes = None,
      uc_BalanceDisabled = None, uc_BalanceRechargeMultiplier = None, uc_RechargeFeeRate = None,
      uc_RechargeBonusThreshold = None, uc_RechargeBonusAmount = None, uc_UsdtCnyExchangeRate = None,
      uc_MarketplaceGroupMultipliers = None, uc_LoadBalanceStrategy = None, uc_ProductNamePrefix = None,
      uc_ProductNameSuffix = None, uc_HelpImageURL = None, uc_HelpText = None,
      uc_CancelRateLimitEnabled = None, uc_CancelRateLimitMax = None, uc_CancelRateLimitWindow = None,
      uc_CancelRateLimitUnit = None, uc_CancelRateLimitMode = None, uc_AlipayForceQRCode = None,
      uc_VisibleMethodAlipaySource = None, uc_VisibleMethodWxpaySource = None,
      uc_VisibleMethodAlipayEnabled = None, uc_VisibleMethodWxpayEnabled = None\<rparr>"

lemma partial_update_resets_witness:
  "always answering (UpdatePaymentConfig (\<lambda>_. []) (blank_update\<lparr>uc_HelpText := Some ''hi''\<rparr>)) empty_shop (\<lambda>r t.
     \<not> pc_Enabled (parsePaymentConfig shop_create (pd_settings t)))
   \<and> pc_Enabled (parsePaymentConfig shop_create (pd_settings empty_shop))"
proof
  let ?req = "blank_update\<lparr>uc_HelpText := Some ''hi''\<rparr>"
  have "first_error (update_errors ?req) = None"
    by (simp add: first_error_def update_errors_def blank_update_def check_opt_def multiplier_errors_def)
  from partial_update_resets [OF this, of "\<lambda>_. []" empty_shop shop_create]
  show "always answering (UpdatePaymentConfig (\<lambda>_. []) ?req) empty_shop (\<lambda>r t.
     \<not> pc_Enabled (parsePaymentConfig shop_create (pd_settings t)))"
    by (rule always_weaken) (simp add: blank_update_def)
qed code_simp

end
