(* ===== verification/PayCreateRow.thy ===== *)
theory PayCreateRow
  imports PayCreateSamples PayOutcome PayProtocol
begin

text \<open>
  The row that creating an order stores. The number of an order can be read off its redeem code, so
  that the table stays as the payment handlers need it (\<open>pay_good\<close>), whatever the world
  answers; and a row is only added while the user is below the limit of pending orders.
\<close>

section \<open>The redeem code of an order\<close>

definition number_in :: "string \<Rightarrow> string" where
  "number_in code = takeWhile is_digit (drop 4 code)"

lemma takeWhile_digits: "list_all is_digit s \<Longrightarrow> \<not> is_digit c \<Longrightarrow> takeWhile is_digit (s @ c # t) = s"
  by (induction s) auto

lemma number_in_code: "0 \<le> i \<Longrightarrow> number_in (recharge_code i t) = nat_digits i"
  using nat_digits_spec [of i]
  by (simp add: number_in_def recharge_code_def itoa_def takeWhile_digits is_digit_def)

lemma recharge_code_number:
  assumes "0 \<le> i" and "0 \<le> j" and "recharge_code i s = recharge_code j t"
  shows "i = j"
proof -
  have "nat_digits i = nat_digits j" using assms number_in_code by metis
  then show ?thesis using nat_digits_spec assms by metis
qed

lemma drop_seqs_keep: "find (\<lambda>w. has_prefix s w) ws = None \<Longrightarrow> drop_seqs n ws s = s"
  by (cases n) simp_all

lemma itoa_last: "\<exists>u c. itoa n = u @ [c] \<and> is_digit c"
proof -
  have "\<exists>u c. nat_digits m = u @ [c] \<and> is_digit c" if "0 \<le> m" for m
    using nat_digits_spec [OF that] by (metis append_butlast_last_id last_in_set list_all_iff)
  from this [of n] this [of "- n"] show ?thesis by (fastforce simp: itoa_def)
qed

lemma ws_ends: "list_all (\<lambda>w. hd w \<noteq> CHR ''P'' \<and> \<not> is_digit (last w)) ws_seqs"
  by code_simp

lemma has_prefix_hd: "has_prefix (c # s) w \<Longrightarrow> w \<noteq> [] \<Longrightarrow> hd w = c"
  unfolding has_prefix_def by (metis hd_take length_greater_0_conv list.sel(1))

lemma trim_space_code: "trim_space (recharge_code i t) = recharge_code i t"
proof -
  obtain u c where c: "recharge_code i t = u @ [c]" "is_digit c"
    using itoa_last [of "go_mod t 100000"] unfolding recharge_code_def by fastforce
  obtain v where v: "recharge_code i t = CHR ''P'' # v" by (simp add: recharge_code_def)
  have ends: "w \<noteq> [] \<and> hd w \<noteq> CHR ''P'' \<and> \<not> is_digit (last w)" if "w \<in> set ws_seqs" for w
    using ws_ends ws_seqs_nonempty that by (auto simp: list_all_iff)
  have "\<not> has_prefix (recharge_code i t) w" if "w \<in> set ws_seqs" for w
    using ends [OF that] has_prefix_hd v by metis
  moreover have "\<not> has_prefix (rev (recharge_code i t)) (rev w)" if "w \<in> set ws_seqs" for w
    using ends [OF that] has_prefix_hd [of c "rev u" "rev w"] c by (auto simp: hd_rev)
  ultimately show ?thesis
    by (simp add: trim_space_def trim_left_space_def trim_right_space_def drop_seqs_keep find_None_iff)
qed

section \<open>The table\<close>

text \<open>The numbers come from a sequence, the code is that of the number, and no other code looks like
  one of an order that is still to come.\<close>

definition orders_numbered :: "pay_db \<Rightarrow> bool" where
  "orders_numbered db \<longleftrightarrow>
     0 \<le> pd_nextOrder db
     \<and> (\<forall>r \<in> set (pd_orders db). 0 \<le> po_ID r \<and> po_ID r < pd_nextOrder db
          \<and> (\<exists>t. po_RechargeCode r = recharge_code (po_ID r) t))
     \<and> (\<forall>c \<in> set (pd_codes db). \<forall>i t. rr_Code c = recharge_code i t \<longrightarrow> i < pd_nextOrder db)
     \<and> distinct (map po_OutTradeNo (pd_orders db))"

definition with_order :: "pay_order \<Rightarrow> pay_db \<Rightarrow> pay_db" where
  "with_order r db = db\<lparr>pd_orders := pd_orders db @ [r], pd_nextOrder := pd_nextOrder db + 1\<rparr>"

lemma with_order_kept:
  assumes good: "pay_good env units db" and num: "orders_numbered db"
    and r: "po_ID r = pd_nextOrder db" "po_RechargeCode r = recharge_code (pd_nextOrder db) t"
    "exact_amount env units (po_Amount r)" "po_Status r = OrderStatusPending"
    "po_OutTradeNo r \<notin> set (map po_OutTradeNo (pd_orders db))"
  shows "pay_good env units (with_order r db) \<and> orders_numbered (with_order r db)"
proof -
  have new: "recharge_code (pd_nextOrder db) t \<notin> po_RechargeCode ` set (pd_orders db)"
  proof
    assume "recharge_code (pd_nextOrder db) t \<in> po_RechargeCode ` set (pd_orders db)"
    then obtain x where x: "x \<in> set (pd_orders db)" "po_RechargeCode x = recharge_code (pd_nextOrder db) t" by auto
    then have p: "0 \<le> po_ID x" "po_ID x < pd_nextOrder db" using num by (simp_all add: orders_numbered_def)
    obtain u where "po_RechargeCode x = recharge_code (po_ID x) u" 
      using num x(1) unfolding orders_numbered_def by blast
    with x p have "po_ID x = pd_nextOrder db" using recharge_code_number by (metis order_trans less_imp_le)
    with p show False by simp
  qed
  have id: "pd_nextOrder db \<notin> po_ID ` set (pd_orders db)"
    using num by (force simp: orders_numbered_def)
  have codes: "rr_Code c \<noteq> recharge_code (pd_nextOrder db) t" if "c \<in> set (pd_codes db)" for c
    using num that unfolding orders_numbered_def by (metis less_irrefl)
  have "pay_good env units (with_order r db)"
    using good r new id codes
    by (auto simp: pay_good_def with_order_def code_used_def trim_space_code)
  moreover have "orders_numbered (with_order r db)"
    using num r unfolding orders_numbered_def with_order_def by (fastforce intro: less_imp_le)
  ultimately show ?thesis by simp
qed

section \<open>The statements\<close>

lemma call_where:
  "run ws (call (order_Where p)) k db = (r, t, k')
   \<Longrightarrow> t = db \<and> (r = Inr (filter p (pd_orders db)) \<or> isl r)"
  by (cases "w_fault (ws k)") (auto simp: call_def run_atomic order_Where_def)

definition pending_orders :: "int \<Rightarrow> pay_db \<Rightarrow> pay_order list" where
  "pending_orders u db = filter (\<lambda>r. po_UserID r = u \<and> po_Status r = OrderStatusPending) (pd_orders db)"

definition pending_limit :: "payment_config \<Rightarrow> int" where
  "pending_limit cfg = (if pc_MaxPendingOrders cfg \<le> 0 then defaultMaxPendingOrders else pc_MaxPendingOrders cfg)"

lemma pending_checked:
  assumes "run ws (checkPendingLimit u (pc_MaxPendingOrders cfg)) k db = (r, t, k')"
  shows "t = db \<and> (r = None \<longrightarrow> int (length (pending_orders u db)) < pending_limit cfg)"
proof -
  let ?where = "call (order_Where (\<lambda>r. po_UserID r = u \<and> po_Status r = OrderStatusPending))"
  obtain x t1 k1 where w: "run ws ?where k db = (x, t1, k1)" by (cases "run ws ?where k db")
  from call_where [OF this] show ?thesis
    using assms
    by (cases x) (auto simp: checkPendingLimit_def try_else_def run_bind w pending_orders_def pending_limit_def
        Let_def split: if_splits)
qed

lemma daily_checked:
  assumes "run ws (checkDailyLimit u a l) k db = (r, t, k')"
  shows "t = db"
proof (cases "f_le l f_zero")
  case False
  then show ?thesis
    using assms
    by (auto simp: checkDailyLimit_def Let_def try_else_def run_bind ask_def run_atomic
        dest!: call_where split: prod.splits sum.splits if_splits)
qed (use assms in \<open>simp add: checkDailyLimit_def\<close>)

lemma trade_number_nonempty [simp]: "generateOutTradeNo loc w \<noteq> []"
  by (simp add: generateOutTradeNo_def)

lemma trade_number_allocated:
  "run ws (allocate_from n loc) k db = (r, t, k') \<Longrightarrow> t = db \<and> (\<forall>s. r = Inr s \<longrightarrow> s \<noteq> [])"
proof (induction n arbitrary: k)
  case (Suc n)
  let ?c = "generateOutTradeNo loc (ws k)"
  let ?where = "call (order_Where (\<lambda>r. po_OutTradeNo r = ?c))"
  obtain x t1 k1 where w: "run ws ?where (Suc k) db = (x, t1, k1)" by (cases "run ws ?where (Suc k) db")
  from call_where [OF this] show ?case
    using Suc
    by (cases x) (auto simp: try_else_def run_bind ask_def run_atomic w split: if_splits)
qed auto

lemma insert_result:
  assumes "insert_order mk w now db = (r, t)" and "\<And>i now. po_OutTradeNo (mk i now) = no" and "no \<noteq> []"
  shows "(isl r \<and> t = db) \<or> (\<exists>o'. o' = mk (pd_nextOrder db) now \<and> r = Inr o' \<and> t = with_order o' db
           \<and> no \<notin> set (map po_OutTradeNo (pd_orders db)))"
  using assms by (auto simp: insert_order_def with_order_def Let_def split: if_splits option.splits)

lemma txn_result:
  assumes "run ws (txn what f) k db = (r, t, k')"
  shows "\<exists>x u. f (ws k) (w_now (ws k)) db = (x, u) \<and> (t = db \<or> \<not> isl x \<and> t = u) \<and> (r = x \<and> (\<not> isl x \<longrightarrow> t = u) \<or> isl r)"
proof -
  obtain x u where f: "f (ws k) (w_now (ws k)) db = (x, u)" by (cases "f (ws k) (w_now (ws k)) db")
  then show ?thesis
    using assms by (cases x; cases "w_fault (ws k)") (auto simp: txn_def run_atomic)
qed

text \<open>Either nothing is stored, or one row, of which the answer may be lost.\<close>

lemma order_stored:
  assumes "run ws (createOrderInTx ce req user plan cfg am payAmount sel) k db = (r, t, k')"
  shows "(isl r \<and> t = db)
    \<or> (\<exists>no expires now. let o' = new_order ce req user plan (oa_order am) (pc_RechargeFeeRate cfg) payAmount sel no expires
             (pd_nextOrder db) now in
         t = with_order o' db \<and> (r = Inr o' \<or> isl r) \<and> no \<notin> set (map po_OutTradeNo (pd_orders db))
         \<and> int (length (pending_orders (cq_UserID req) db)) < pending_limit cfg)"
proof -
  let ?pending = "checkPendingLimit (cq_UserID req) (pc_MaxPendingOrders cfg)"
  let ?daily = "checkDailyLimit (cq_UserID req) (if cq_OrderType req = OrderTypeBalance then payAmount else oa_limit am)
    (pc_DailyLimit cfg)"
  let ?loc = "pe_loc (ce_pay ce)"
  obtain p t1 k1 where p: "run ws ?pending k db = (p, t1, k1)" by (cases "run ws ?pending k db")
  obtain d t2 k2 where d: "run ws ?daily k1 db = (d, t2, k2)" by (cases "run ws ?daily k1 db")
  obtain no t3 k3 where no: "run ws (allocateOutTradeNo ?loc) (Suc k2) db = (no, t3, k3)"
    by (cases "run ws (allocateOutTradeNo ?loc) (Suc k2) db")
  have t: "t1 = db" "t2 = db" "t3 = db"
    using pending_checked [OF p] daily_checked [OF d] trade_number_allocated no
    unfolding allocateOutTradeNo_def by blast+
  show ?thesis
  proof (cases "p = None \<and> d = None \<and> \<not> isl no")
    case False
    then show ?thesis
      using assms p d no t
      by (cases p; cases d; cases no)
        (auto simp: createOrderInTx_def run_bind try_else_def Let_def ask_def run_atomic)
  next
    case True
    then obtain s where s: "no = Inr s" by (cases no) auto
    have nonempty: "s \<noteq> []" using trade_number_allocated no s unfolding allocateOutTradeNo_def by blast
    obtain expires where ins: "run ws (txn ''commit order transaction'' (insert_order (new_order ce req user plan (oa_order am)
        (pc_RechargeFeeRate cfg) payAmount sel s expires))) k3 db = (r, t, k')"
      using assms p d no t s True
      by (simp add: createOrderInTx_def run_bind try_else_def Let_def ask_def run_atomic)
    let ?mk = "new_order ce req user plan (oa_order am) (pc_RechargeFeeRate cfg) payAmount sel s expires"
    have trade: "po_OutTradeNo (?mk i now) = s" for i now by (simp add: new_order_def)
    have below: "int (length (pending_orders (cq_UserID req) db)) < pending_limit cfg"
      using pending_checked [OF p] True by simp
    from txn_result [OF ins] obtain x u where
      x: "insert_order ?mk (ws k3) (w_now (ws k3)) db = (x, u)"
        "t = db \<or> \<not> isl x \<and> t = u" "r = x \<and> (\<not> isl x \<longrightarrow> t = u) \<or> isl r" by blast
    show ?thesis
      using insert_result [OF x(1) trade nonempty] x(2,3) below by (auto simp: Let_def)
  qed
qed

section \<open>The property\<close>

text \<open>C6: Creating an order keeps the table as the payment handlers need it, whatever the database answers.
  Numbers, redeem codes and trade numbers stay unique, the codes are not changed by trimming, and
  a redeem code in the table that is that of an order has its amount. At most one row is added, a pending order of the user,
  even when the answer of the commit is lost; and then the user's pending orders, the new one
  included, do not exceed the limit. (Nothing is locked: with other requests between the
  statements the limit may be exceeded.)\<close>

theorem created_order_kept:
  assumes "pay_good (ce_pay ce) units db" and "orders_numbered db"
    and "exact_amount (ce_pay ce) units (ce_column ce 2 (oa_order am))"
    and "run ws (createOrderInTx ce req user plan cfg am payAmount sel) k db = (r, db', k')"
  shows "pay_good (ce_pay ce) units db' \<and> orders_numbered db'
    \<and> (db' \<noteq> db \<longrightarrow> (\<exists>o'. db' = with_order o' db \<and> po_UserID o' = cq_UserID req \<and> po_Status o' = OrderStatusPending
         \<and> int (length (pending_orders (cq_UserID req) db')) \<le> pending_limit cfg))
    \<and> (\<forall>o'. r = Inr o' \<longrightarrow> db' = with_order o' db)"
proof (cases "isl r \<and> db' = db")
  case True
  then show ?thesis using assms by auto
next
  case False
  then obtain no expires now o' where
    o': "o' = new_order ce req user plan (oa_order am) (pc_RechargeFeeRate cfg) payAmount sel no expires (pd_nextOrder db) now"
    and t: "db' = with_order o' db" "r = Inr o' \<or> isl r" and fresh: "no \<notin> set (map po_OutTradeNo (pd_orders db))"
    and below: "int (length (pending_orders (cq_UserID req) db)) < pending_limit cfg"
    using order_stored [OF assms(4)] by (auto simp: Let_def)
  have kept: "pay_good (ce_pay ce) units db' \<and> orders_numbered db'"
    unfolding t(1) using assms(1,2)
    by (rule with_order_kept) (use assms(3) fresh in \<open>simp_all add: o' new_order_def\<close>)
  have "pending_orders (cq_UserID req) db' = pending_orders (cq_UserID req) db @ [o']"
    by (simp add: t(1) with_order_def pending_orders_def o' new_order_def)
  moreover have "po_UserID o' = cq_UserID req" "po_Status o' = OrderStatusPending" by (simp_all add: o' new_order_def)
  ultimately show ?thesis using kept t below by auto
qed

end
