(* ===== verification/PayBalancerProps.thy ===== *)
theory PayBalancerProps
  imports PayCreateSamples PayCreateRow
begin

text \<open>
  The choice of a provider instance: an enabled instance that offers the method, within its limits
  when some instance is, and the one with the least amount of the day when the strategy asks for it.
\<close>

section \<open>Least amount\<close>

lemma least_amount_foldl:
  assumes "\<And>d. d \<in> A \<Longrightarrow> \<not> f_lt (snd d) (snd b)" and "b \<in> A"
  shows "(let r = foldl (\<lambda>best c. if f_lt (snd c) (snd best) then c else best) b cs in
    r \<in> A \<union> set cs \<and> (\<forall>d \<in> A \<union> set cs. \<not> f_lt (snd d) (snd r)))"
  using assms
proof (induction cs arbitrary: b A)
  case (Cons c cs)
  define b' where "b' = (if f_lt (snd c) (snd b) then c else b)"
  have "\<not> f_lt (snd d) (snd b')" if "d \<in> insert c A" for d
  proof (cases "d = c")
    case True
    then show ?thesis by (simp add: b'_def)
  next
    case False
    then have "\<not> f_lt (snd d) (snd b)" using that Cons.prems(1) by blast
    then show ?thesis using f_lt_trans [of "snd d" "snd c" "snd b"] by (auto simp: b'_def)
  qed
  moreover have "b' \<in> insert c A" using Cons.prems by (simp add: b'_def)
  ultimately show ?case using Cons.IH [of "insert c A" b'] by (simp add: b'_def)
qed simp

lemma pickLeastAmount_least:
  assumes "cs \<noteq> []"
  shows "pickLeastAmount cs \<in> set cs \<and> (\<forall>d \<in> set cs. \<not> f_lt (snd d) (snd (pickLeastAmount cs)))"
  using least_amount_foldl [of "{hd cs}" "hd cs" "tl cs"] assms
  by (cases cs) (auto simp: pickLeastAmount_def Let_def)

lemma picked:
  assumes "run ws (pickByStrategy cs strategy) k db = (c, db', k')" and "cs \<noteq> []"
  shows "c \<in> set cs \<and> pd_instances db' = pd_instances db \<and> pd_orders db' = pd_orders db
    \<and> (strategy = StrategyLeastAmount \<longrightarrow> (\<forall>d \<in> set cs. \<not> f_lt (snd d) (snd c)))"
proof (cases "strategy = StrategyLeastAmount \<and> 1 < length cs")
  case True
  then show ?thesis using assms pickLeastAmount_least by (auto simp: pickByStrategy_def)
next
  case False
  have "0 < length cs" using assms(2) by simp
  then have i: "nat (n mod int (length cs)) < length cs" for n :: int
    by (simp add: nat_less_iff)
  then have c: "c \<in> set cs" "pd_instances db' = pd_instances db" "pd_orders db' = pd_orders db"
    using assms False by (auto simp: pickByStrategy_def run_atomic Let_def)
  moreover have "\<not> f_lt (snd d) (snd c)" if "strategy = StrategyLeastAmount" "d \<in> set cs" for d
  proof -
    have "length cs = 1" using that(1) False \<open>0 < length cs\<close> by linarith
    then have "d = c" using that(2) c(1) by (metis One_nat_def length_0_conv length_Suc_conv set_ConsD empty_iff empty_set)
    then show ?thesis by simp
  qed
  ultimately show ?thesis by blast
qed

section \<open>The candidates\<close>

definition candidate :: "'d create_env \<Rightarrow> string \<Rightarrow> string \<Rightarrow> string \<Rightarrow> pay_db \<Rightarrow> pay_instance \<Rightarrow> bool" where
  "candidate ce jsapi providerKey paymentType db i \<longleftrightarrow>
     i \<in> set (pd_instances db) \<and> pi_Enabled i \<and> (providerKey = [] \<or> pi_ProviderKey i = providerKey)
     \<and> instance_matches ce jsapi paymentType i"

text \<open>What an instance has taken today; nothing when the query fails.\<close>

definition usage_of :: "'d create_env \<Rightarrow> pay_world \<Rightarrow> pay_world \<Rightarrow> pay_db \<Rightarrow> pay_instance \<Rightarrow> float64" where
  "usage_of ce clock connection db i =
     (if w_fault connection = Answered
      then daily_used ce (date_at (pe_loc (ce_pay ce)) (local_day (pe_loc (ce_pay ce)) (w_now clock)) 0) (pd_orders db) i
      else f_zero)"

lemma instances_queried:
  assumes "run ws (queryEnabledInstances ce jsapi key pt) k db = (Inr is, t, k')"
  shows "t = db \<and> k' = Suc k \<and> is \<noteq> [] \<and> set is = {i. candidate ce jsapi key pt db i}"
  using assms
  by (cases "w_fault (ws k)")
    (auto simp: queryEnabledInstances_def try_else_def run_bind call_def run_atomic enabled_instances_def Let_def
      by_sort_order_def candidate_def split: if_splits)

lemma usage_attached:
  "run ws (attachDailyUsage ce is) k db
   = (map (\<lambda>i. (i, usage_of ce (ws k) (ws (Suc k)) db i)) is, db, Suc (Suc k))"
  by (cases "w_fault (ws (Suc k))")
    (simp_all add: attachDailyUsage_def try_else_def run_bind ask_def call_def run_atomic order_Where_def
      Let_def usage_of_def)

section \<open>The property\<close>

text \<open>C7: The provider instance that is selected for a payment. It is enabled, of the asked provider, and it
  offers the method. Its limits for one payment and for the day allow the amount, unless no such
  instance allows it: then the limits are ignored. And with the strategy of the least amount none
  of the instances that come into question has taken less today.\<close>

theorem selected_instance:
  assumes "run ws (lb_SelectInstance ce jsapi key pt strategy amount) k db = (Inr sel, db', k')"
  shows "\<exists>i. let usage = usage_of ce (ws (Suc k)) (ws (Suc (Suc k))) db;
              fits = (\<lambda>i. within_limits (getInstanceChannelLimits ce i pt) (usage i) amount) in
     candidate ce jsapi key pt db i \<and> sel = buildSelection ce i
     \<and> (fits i \<or> (\<forall>j. candidate ce jsapi key pt db j \<longrightarrow> \<not> fits j))
     \<and> (strategy = StrategyLeastAmount
        \<longrightarrow> (\<forall>j. candidate ce jsapi key pt db j \<and> (fits i \<longrightarrow> fits j) \<longrightarrow> \<not> f_lt (usage j) (usage i)))
     \<and> pd_orders db' = pd_orders db \<and> pd_instances db' = pd_instances db"
proof -
  let ?usage = "usage_of ce (ws (Suc k)) (ws (Suc (Suc k))) db"
  define fits where "fits = (\<lambda>i. within_limits (getInstanceChannelLimits ce i pt) (?usage i) amount)"
  obtain q t k1 where q: "run ws (queryEnabledInstances ce jsapi key pt) k db = (q, t, k1)"
    by (cases "run ws (queryEnabledInstances ce jsapi key pt) k db")
  have "\<not> isl q" using assms q by (cases q) (simp_all add: lb_SelectInstance_def try_else_def run_bind)
  then obtain xs where xs: "q = Inr xs" by (cases q) auto
  have cand: "t = db" "k1 = Suc k" "xs \<noteq> []" "set xs = {i. candidate ce jsapi key pt db i}"
    using instances_queried [of ws ce jsapi key pt k db xs t k1] q xs by auto
  let ?cs = "map (\<lambda>i. (i, ?usage i)) xs"
  define pool where "pool = (if filterByLimits ce ?cs pt amount = [] then ?cs else filterByLimits ce ?cs pt amount)"
  have pool: "pool \<noteq> []" "pool = map (\<lambda>i. (i, ?usage i)) (if filter fits xs = [] then xs else filter fits xs)"
    using cand(3) by (auto simp: pool_def filterByLimits_def filter_map comp_def fits_def)
  obtain c db2 k2 where c: "run ws (pickByStrategy pool strategy) (Suc (Suc (Suc k))) db = (c, db2, k2)"
    by (cases "run ws (pickByStrategy pool strategy) (Suc (Suc (Suc k))) db")
  have sel: "sel = buildSelection ce (fst c)" "db' = db2"
    using assms q c xs cand(1,2)
    by (auto simp: lb_SelectInstance_def try_else_def run_bind usage_attached Let_def pool_def [symmetric])
  have p: "c \<in> set pool" "pd_instances db2 = pd_instances db" "pd_orders db2 = pd_orders db"
    "strategy = StrategyLeastAmount \<longrightarrow> (\<forall>d \<in> set pool. \<not> f_lt (snd d) (snd c))"
    using picked [OF c pool(1)] by simp_all
  from p(1) pool(2) obtain i where i: "c = (i, ?usage i)" "i \<in> set (if filter fits xs = [] then xs else filter fits xs)"
    by auto
  have fit: "fits i \<or> (\<forall>j \<in> set xs. \<not> fits j)" "i \<in> set xs"
    using i(2) by (auto simp: filter_empty_conv split: if_splits)
  have least: "\<not> f_lt (?usage j) (?usage i)"
    if "strategy = StrategyLeastAmount" "j \<in> set xs" "fits i \<longrightarrow> fits j" for j
  proof -
    have "(j, ?usage j) \<in> set pool"
      using that(2,3) fit i(2) by (auto simp: pool(2) filter_empty_conv)
    with p(4) that(1) i(1) show ?thesis by fastforce
  qed
  show ?thesis
    using sel p(2,3) i(1) fit least cand(4) by (intro exI [of _ i]) (auto simp: Let_def fits_def)
qed

lemma selected_instance_witness:
  "\<exists>i sel. candidate shop_create [] TypeAlipay TypeAlipay empty_shop i \<and> sel = buildSelection shop_create i
     \<and> fst (run shop_world (lb_SelectInstance shop_create [] TypeAlipay TypeAlipay StrategyLeastAmount (Fin 1)) 0 empty_shop)
       = Inr sel"
proof -
  let ?run = "run shop_world (lb_SelectInstance shop_create [] TypeAlipay TypeAlipay StrategyLeastAmount (Fin 1)) 0 empty_shop"
  have "\<not> isl (fst ?run)" by code_simp
  then obtain sel db k where r: "?run = (Inr sel, db, k)" by (metis isl_def prod.collapse sum.collapse(2))
  from selected_instance [OF r] show ?thesis using r by (auto simp: Let_def)
qed

end
