(* ===== verification/PayCreateProps.thy ===== *)
theory PayCreateProps
  imports PayCreateSamples PayProtocol PayOutcome
begin

text \<open>
  What creating an order promises: the row that is stored, its limits and that it keeps the tables
  well-formed; which provider instance is selected; and two settings that a request gets round.
\<close>

section \<open>Results of a program\<close>

lemma snds_snd: "Basic_BNFs.snds p = {snd p}"
  by (cases p) (simp add: prod_set_simps)

lemma set_prog_Step [simp]: "set_prog (Step g) = (\<Union>w s. set_prog (snd (g w s)))"
  by (auto simp: snds_snd)

declare prog.set(2) [simp del]

lemma bind_cong: "(\<And>x. x \<in> set_prog p \<Longrightarrow> f x = g x) \<Longrightarrow> bind p f = bind p g"
proof (induction p)
  case (Step h)
  have "bind (snd (h w s)) f = bind (snd (h w s)) g" for w s
    by (rule Step.IH) (use Step.prems in auto)
  then show ?case by simp
qed simp

lemma set_bind: "y \<in> set_prog (bind p f) \<Longrightarrow> \<exists>x \<in> set_prog p. y \<in> set_prog (f x)"
proof (induction p)
  case (Step h)
  then obtain w s where "y \<in> set_prog (bind (snd (h w s)) f)" by auto
  from Step.IH [OF this] show ?case by auto
qed simp

section \<open>The exchange rate\<close>

lemma currency_upper: "NormalizePaymentCurrency raw = Inr c \<Longrightarrow> c \<noteq> TypeUSDT"
  by (auto simp: NormalizePaymentCurrency_def Let_def split: if_splits)

lemma config_currency_upper: "paymentProviderConfigCurrency key cfg \<noteq> TypeUSDT"
  using currency_upper by (auto simp: paymentProviderConfigCurrency_def split: sum.splits)

lemma aggregate_currency_upper: "pcAggregateMethodCurrency ce instances \<noteq> Some TypeUSDT"
proof
  assume c: "pcAggregateMethodCurrency ce instances = Some TypeUSDT"
  show False
  proof (cases "filter (\<lambda>c. c \<noteq> []) (map (pcInstancePaymentCurrency ce) instances)")
    case (Cons d ds)
    then have "d \<in> set (filter (\<lambda>c. c \<noteq> []) (map (pcInstancePaymentCurrency ce) instances))" by simp
    then have "d \<noteq> TypeUSDT" using config_currency_upper by (auto simp: pcInstancePaymentCurrency_def)
    then show ?thesis using c Cons by (auto simp: pcAggregateMethodCurrency_def split: if_splits)
  qed (use c in \<open>auto simp: pcAggregateMethodCurrency_def\<close>)
qed

lemma method_currency_upper:
  "Inr c \<in> set_prog (ValidateMethodCurrencyConsistency ce t) \<Longrightarrow> c \<noteq> TypeUSDT"
  by (auto simp: ValidateMethodCurrencyConsistency_def Let_def try_else_def of_option_def
      aggregate_currency_upper dest!: set_bind split: if_splits sum.splits option.splits)

text \<open>C17: The exchange rate has no effect. The price of a plan is in yuan, and there is a setting for the
  rate at which it becomes an amount in USDT. But the code compares the currency, which is always
  in upper case, with the payment type \<open>usdt\<close>, so it never converts: whatever the rate is, creating
  the order is the same program, and the plan costs as many USDT as it costs yuan.\<close>

theorem exchange_rate_unused:
  "price_order ce req user plan (cfg\<lparr>pc_UsdtCnyExchangeRate := rate\<rparr>) am = price_order ce req user plan cfg am"
proof -
  let ?cfg = "cfg\<lparr>pc_UsdtCnyExchangeRate := rate\<rparr>"
  have others: "pc_MaxPendingOrders ?cfg = pc_MaxPendingOrders cfg" "pc_DailyLimit ?cfg = pc_DailyLimit cfg"
    "pc_OrderTimeoutMin ?cfg = pc_OrderTimeoutMin cfg" "pc_RechargeFeeRate ?cfg = pc_RechargeFeeRate cfg"
    "pc_LoadBalanceStrategy ?cfg = pc_LoadBalanceStrategy cfg"
    by simp_all
  have row: "createOrderInTx ce req user plan ?cfg = createOrderInTx ce req user plan cfg"
    unfolding createOrderInTx_def others ..
  have has: "hasPaymentProductNameAffix ?cfg = hasPaymentProductNameAffix cfg"
    by (simp add: hasPaymentProductNameAffix_def)
  have affix: "applyPaymentProductNameAffix x ?cfg = applyPaymentProductNameAffix x cfg" for x
    by (simp add: applyPaymentProductNameAffix_def has)
  have subject: "buildPaymentSubject ce p x ?cfg = buildPaymentSubject ce p x cfg" for p x
    unfolding buildPaymentSubject_def has affix ..
  have invoked: "invokeProvider ce o' req ?cfg = invokeProvider ce o' req cfg" for o'
    unfolding invokeProvider_def subject ..
  have unchanged: "place_order ce req user plan ?cfg = place_order ce req user plan cfg"
    unfolding place_order_def row invoked others ..
  have final: "final_price ce (cfg\<lparr>pc_UsdtCnyExchangeRate := rate\<rparr>) plan c (paymentProviderConfigCurrency k v) am p
      = final_price ce cfg plan c (paymentProviderConfigCurrency k v) am p" if "c \<noteq> TypeUSDT" for c k v p
    using that config_currency_upper by (simp add: final_price_def second_base_def first_base_def)
  have select: "selectCreateOrderInstance ce req ?cfg = selectCreateOrderInstance ce req cfg"
    unfolding selectCreateOrderInstance_def others ..
  show ?thesis
    unfolding price_order_def try_else_def [of "ValidateMethodCurrencyConsistency ce (cq_PaymentType req)"]
  proof (rule bind_cong, goal_cases)
    case (1 x)
    show ?case
    proof (cases x)
      case (Inr c)
      then have c: "c \<noteq> TypeUSDT" using 1 method_currency_upper by blast
      then have first: "first_base ce ?cfg plan c am = first_base ce cfg plan c am" by (simp add: first_base_def)
      show ?thesis unfolding Inr sum.case first others select unchanged final [OF c] ..
    qed simp
  qed
qed

section \<open>Other types of orders\<close>



end
