(* ===== verification/PayCreateScenarios.thy ===== *)
theory PayCreateScenarios
  imports PayCreateProps PayCreateRow PayScenarios
begin

text \<open>
  A recharge of ten thousand for a payment of one: the whole of creating the order, and its payment,
  in the sample shop. The steps are evaluated one by one.
\<close>

text \<open>What the settings of the shop are read as.\<close>

definition shop_config :: payment_config where
  "shop_config =
     \<lparr>pc_Enabled = True, pc_MinAmount = Fin 1, pc_MaxAmount = Fin 0, pc_DailyLimit = Fin 0,
      pc_OrderTimeoutMin = 30, pc_MaxPendingOrders = 3, pc_EnabledTypes = [], pc_BalanceDisabled = False,
      pc_BalanceRechargeMultiplier = Fin 1, pc_RechargeFeeRate = Fin 0, pc_RechargeBonusThreshold = Fin 100,
      pc_RechargeBonusAmount = Fin 10, pc_UsdtCnyExchangeRate = Fin 7,
      pc_MarketplaceGroupMultipliers =
        [(''Claude Lite'', Fin 1), (''Claude Plus'', Fin 1), (''Claude Max'', Fin 1), (''Codex Lite'', Fin 1),
         (''Codex Pro'', Fin 1)],
      pc_LoadBalanceStrategy = StrategyRoundRobin, pc_ProductNamePrefix = [], pc_ProductNameSuffix = [],
      pc_HelpImageURL = [], pc_HelpText = [], pc_StripePublishableKey = [],
      pc_CancelLimit = \<lparr>cl_Enabled = False, cl_Max = 10, cl_Window = 1, cl_Unit = [], cl_Mode = []\<rparr>,
      pc_AlipayForceQRCode = False\<rparr>"

definition shop_selection :: instance_selection where
  "shop_selection = buildSelection shop_create shop_instance"

definition cheap_amounts :: order_amounts where
  "cheap_amounts = \<lparr>oa_order = Fin 11000, oa_limit = Fin 10000, oa_base = Fin 1\<rparr>"

definition cheap_order :: pay_order where
  "cheap_order = new_order shop_create shop_request (shop_user 7 0) None (Fin 11000) (Fin 0) (Fin 1) shop_selection
     ''sub2_19700101mnopqrst'' (41 * minute) 2 (14 * minute)"

definition cheap_db :: pay_db where
  "cheap_db = empty_shop\<lparr>pd_counter := 1, pd_orders := [cheap_order], pd_nextOrder := 3\<rparr>"

lemma cheap_steps:
  "run shop_world (GetPaymentConfig shop_create) 0 empty_shop = (Inr shop_config, empty_shop, 2)"
  "run shop_world (ValidateMethodCurrencyConsistency shop_create TypeAlipay) 4 empty_shop = (Inr ''CNY'', empty_shop, 5)"
  "run shop_world (SelectInstance shop_create [] [] TypeAlipay StrategyRoundRobin (Fin 1)) 5 empty_shop
     = (Inr shop_selection, empty_shop\<lparr>pd_counter := 1\<rparr>, 10)"
  by code_simp+

lemma cheap_price:
  "order_base_amounts shop_create shop_config shop_request None t = Inr cheap_amounts"
  "calculateCreateOrderPayAmount rat_lib (Fin 1) (Fin 0) ''CNY'' = Inr (''1.00'', Fin 1)"
  "validateSelectedCreateOrderAmountCurrency shop_create ''1.00'' shop_selection = None"
  by code_simp+

lemma cheap_row:
  "run shop_world (createOrderInTx shop_create shop_request (shop_user 7 0) None shop_config cheap_amounts (Fin 1) shop_selection)
     10 (empty_shop\<lparr>pd_counter := 1\<rparr>) = (Inr cheap_order, cheap_db, 15)"
  by code_simp

definition cheap_run :: "(go_error + create_response) \<times> pay_db \<times> nat" where
  "cheap_run = run shop_world (invokeProvider shop_create cheap_order shop_request shop_config (Fin 10000)
     ''1.00'' (Fin 1) None shop_selection) 15 cheap_db"

lemma cheap_run_facts:
  "(case cheap_run of (r, db, k) \<Rightarrow> (isl r, map po_PayAmount (pd_orders db), balances db, k))
   = (False, [Fin 1], [(7, 0), (8, 0)], 20)"
  by code_simp

lemma cheap_invoked:
  "\<not> isl (fst cheap_run) \<and> map po_PayAmount (pd_orders (fst (snd cheap_run))) = [Fin 1] \<and> snd (snd cheap_run) = 20"
  "balances (fst (snd cheap_run)) = [(7, 0), (8, 0)]"
  using cheap_run_facts by (simp_all add: split_def)

lemma cheap_request_facts:
  "normalized_request shop_request = shop_request"
  "cq_PaymentType shop_request = TypeAlipay" "cq_UserID shop_request = 7"
  "pc_Enabled shop_config" "pc_RechargeFeeRate shop_config = Fin 0"
  "pc_LoadBalanceStrategy shop_config = StrategyRoundRobin"
  "cl_Enabled (pc_CancelLimit shop_config) = False"
  "requestNeedsWeChatJSAPICompatibility shop_request = False"
  "is_ProviderKey shop_selection = TypeAlipay"
  "needs_wechat_oauth shop_request shop_selection = False"
  "paymentProviderConfigCurrency TypeAlipay (Some (is_Config shop_selection)) = ''CNY''"
  "first_base shop_create shop_config None ''CNY'' cheap_amounts = Fin 1"
  "oa_limit cheap_amounts = Fin 10000" "po_ID cheap_order = 2"
  by code_simp+

lemma cheap_env: "ce_dec shop_create = rat_lib" "ce_pay shop_create = shop_env"
  by (simp_all add: shop_create_def)

lemma cheap_input: "validateOrderInput shop_request shop_config = Ret (Inr None)"
proof -
  have "cq_OrderType shop_request = OrderTypeBalance" "cq_Amount shop_request = Fin 10000"
    "pc_BalanceDisabled shop_config = False" "pc_MinAmount shop_config = Fin 1" "pc_MaxAmount shop_config = Fin 0"
    by code_simp+
  then show ?thesis by (simp add: validateOrderInput_def f_is_nan_def f_is_inf_def)
qed

lemma cheap_user:
  "run shop_world (call (user_GetByID 7)) 2 empty_shop = (Inr (shop_user 7 0), empty_shop, 3)"
  "pu_Status (shop_user 7 0) = StatusActive"
  by code_simp+

lemma cheap_created: "run shop_world (CreateOrder shop_create shop_request) 0 empty_shop = cheap_run"
proof -
  obtain resp db k where r: "cheap_run = (Inr resp, db, k)"
    using cheap_invoked(1) by (metis isl_def prod.collapse sum.collapse(2))
  have price: "run shop_world (price_order shop_create shop_request (shop_user 7 0) None shop_config cheap_amounts) 4
      empty_shop = cheap_run"
    using r unfolding cheap_run_def
    by (simp add: price_order_def try_else_def run_bind cheap_steps cheap_price cheap_request_facts cheap_env
      selectCreateOrderInstance_def final_price_def place_order_def cheap_row
      prepareCreateOrderSelectionContext_def validateSelectedCreateOrderInstance_def)
  show ?thesis
    by (simp add: CreateOrder_def try_else_def run_bind cheap_steps cheap_request_facts cheap_env cheap_input
      checkCancelRateLimit_def cheap_user ask_def run_atomic cheap_price price)
qed

definition cheap_notice :: notification where
  "cheap_notice = paid_notice\<lparr>nt_OrderID := ''sub2_19700101mnopqrst'', nt_Amount := Fin 1\<rparr>"

lemma cheap_credited:
  "(case run shop_world (HandlePaymentNotification shop_env cheap_notice TypeAlipay) 20 (fst (snd cheap_run)) of
      (r, db, _) \<Rightarrow> (r, statuses db, balances db))
   = (None, [OrderStatusCompleted], [(7, 11000 * 10 ^ 8), (8, 0)])"
  by code_simp

section \<open>The price of a recharge\<close>


section \<open>A row that is stored\<close>

lemma empty_counted:
  "pay_good shop_env units8 (empty_shop\<lparr>pd_counter := 1\<rparr>)" "orders_numbered (empty_shop\<lparr>pd_counter := 1\<rparr>)"
  by (simp_all add: pay_good_def orders_numbered_def empty_shop_def shop_db_def code_used_def)

lemma cheap_stored: "cheap_db \<noteq> empty_shop\<lparr>pd_counter := 1\<rparr>"
proof
  assume "cheap_db = empty_shop\<lparr>pd_counter := 1\<rparr>"
  from arg_cong [OF this, of pd_orders] show False by (simp add: cheap_db_def empty_shop_def)
qed

lemma created_order_kept_witness:
  "pay_good shop_env units8 cheap_db \<and> orders_numbered cheap_db
   \<and> int (length (pending_orders 7 cheap_db)) \<le> pending_limit shop_config"
proof -
  have "exact_amount (ce_pay shop_create) units8 (ce_column shop_create 2 (oa_order cheap_amounts))"
  proof -
    have "ce_column shop_create 2 (oa_order cheap_amounts) = Fin 11000" by code_simp
    then show ?thesis by (simp add: exact_amount_def cheap_env shop_env_def)
  qed
  from created_order_kept [where ce = shop_create, unfolded cheap_env, OF empty_counted(1,2) this [unfolded cheap_env] cheap_row]
  show ?thesis using cheap_stored by (auto simp: cheap_request_facts)
qed

end
